(* ===== verification/Prelude.thy ===== *)
theory Prelude
  imports Main "HOL-Library.Word"
begin

text \<open>
  Shared vocabulary of the development: the machine types of the C sources, the result type of
  code that may fault or never return, kernel pointers and semaphores, big-endian byte codecs,
  and the decimal conversions of the C library that several programs use.
\<close>

unbundle bit_operations_syntax

named_theorems kres_simps \<open>evaluation rules for the result type of kernel code\<close>

section \<open>Machine types\<close>

type_synonym u8 = "8 word"
type_synonym u16 = "16 word"
type_synonym u32 = "32 word"
type_synonym s32 = "32 word"
type_synonym ptr = nat
type_synonym bytes = "u8 list"

abbreviation (input) NULL :: ptr where
  "NULL \<equiv> 0"

lemma sint_of_nat_small: "n < 2 ^ 31 \<Longrightarrow> sint (of_nat n :: s32) = int n"
  by (simp add: signed_of_nat signed_take_bit_int_eq_self)

section \<open>Results of code that may fault or hang\<close>

text \<open>
  \<open>None\<close>: the call never returns (it spins, or sleeps on a semaphore that nobody ups).
  \<open>Some (Inl f)\<close>: the call ends in the fault \<open>f\<close>. \<open>Some (Inr x)\<close>: it returns \<open>x\<close>.
\<close>

datatype kfault = BadDeref | BadFree | BufferOverrun | DivideByZero

type_synonym 'a kres = "(kfault + 'a) option"

definition kret :: "'a \<Rightarrow> 'a kres" where
  "kret x = Some (Inr x)"

definition kfail :: "kfault \<Rightarrow> 'a kres" where
  "kfail f = Some (Inl f)"

definition khang :: "'a kres" where
  "khang = None"

definition kbind :: "'a kres \<Rightarrow> ('a \<Rightarrow> 'b kres) \<Rightarrow> 'b kres" where
  "kbind r f = (case r of None \<Rightarrow> None | Some (Inl e) \<Rightarrow> Some (Inl e) | Some (Inr x) \<Rightarrow> f x)"

lemma kbind_kret [simp, kres_simps]: "kbind (kret x) f = f x"
  by (simp add: kbind_def kret_def)

lemma kbind_kfail [simp, kres_simps]: "kbind (kfail e) f = kfail e"
  by (simp add: kbind_def kfail_def)

lemma kbind_khang [simp, kres_simps]: "kbind khang f = khang"
  by (simp add: kbind_def khang_def)

lemma kret_inject [simp, kres_simps]: "kret x = kret y \<longleftrightarrow> x = y"
  by (simp add: kret_def)

lemma kres_distinct [simp, kres_simps]:
  "kret x \<noteq> kfail e" "kfail e \<noteq> kret x" "kret x \<noteq> khang" "khang \<noteq> kret x"
  "kfail e \<noteq> khang" "khang \<noteq> kfail e"
  by (simp_all add: kret_def kfail_def khang_def)

lemma kbind_assoc: "kbind (kbind r f) g = kbind r (\<lambda>x. kbind (f x) g)"
  by (auto simp: kbind_def split: option.splits sum.splits)

lemma kres_cases [case_names hang fail ret]:
  obtains "r = khang" | e where "r = kfail e" | x where "r = kret x"
proof (cases r)
  case (Some s)
  then show ?thesis using that by (cases s) (auto simp: kfail_def kret_def)
qed (simp add: that khang_def)

lemma kres_Some:
  "kfail e = Some r \<longleftrightarrow> r = Inl e" "kret x = Some r \<longleftrightarrow> r = Inr x" "khang = Some r \<longleftrightarrow> False"
  "kbind (Some (Inl e)) f = kfail e" "kbind (Some (Inr x)) f = f x"
  by (auto simp: kfail_def kret_def khang_def kbind_def)

lemma kbind_if: "kbind (if P then r else s) f = (if P then kbind r f else kbind s f)"
  by simp

lemma kbind_cong: "(\<And>x. r = kret x \<Longrightarrow> f x = g x) \<Longrightarrow> kbind r f = kbind r g"
  by (auto simp: kbind_def kret_def split: option.splits sum.splits)

lemma kbind_eq_kret: "kbind r f = kret y \<longleftrightarrow> (\<exists>x. r = kret x \<and> f x = kret y)"
  by (auto simp: kbind_def kret_def split: option.splits sum.splits)

lemma kbind_mono [partial_function_mono]:
  fixes B :: "('a \<Rightarrow> 'b option) \<Rightarrow> 'c kres" and C :: "'c \<Rightarrow> ('a \<Rightarrow> 'b option) \<Rightarrow> 'd kres"
  assumes "mono_option B" and "\<And>y. mono_option (\<lambda>f. C y f)"
  shows "mono_option (\<lambda>f. kbind (B f) (\<lambda>y. C y f))"
proof -
  have "mono_option (\<lambda>f. Option.bind (B f) (\<lambda>s. case s of Inl e \<Rightarrow> Some (Inl e) | Inr x \<Rightarrow> C x f))"
  proof (rule bind_mono [OF assms(1)])
    fix s :: "kfault + 'c"
    show "mono_option (\<lambda>f. case s of Inl e \<Rightarrow> Some (Inl e) | Inr x \<Rightarrow> C x f)"
      by (cases s) (simp_all add: assms(2) option.const_mono)
  qed
  moreover have "kbind r g = Option.bind r (\<lambda>s. case s of Inl e \<Rightarrow> Some (Inl e) | Inr x \<Rightarrow> g x)"
    for r and g :: "'c \<Rightarrow> 'd kres"
    by (auto simp: kbind_def split: option.split sum.split)
  ultimately show ?thesis by simp
qed

section \<open>Big-endian words\<close>

text \<open>\<open>htonl\<close> followed by a byte-wise store, and a byte-wise load followed by \<open>ntohl\<close>.\<close>

definition be32 :: "u32 \<Rightarrow> bytes" where
  "be32 w = [ucast (drop_bit 24 w), ucast (drop_bit 16 w), ucast (drop_bit 8 w), ucast w]"

definition rd_be32 :: "bytes \<Rightarrow> u32" where
  "rd_be32 bs = (case bs of
     [a, b, c, d] \<Rightarrow> push_bit 24 (ucast a) OR push_bit 16 (ucast b) OR push_bit 8 (ucast c) OR ucast d
   | _ \<Rightarrow> 0)"

lemma length_be32 [simp]: "length (be32 w) = 4"
  by (simp add: be32_def)

lemma rd_be32_be32 [simp]: "rd_be32 (be32 w) = w"
proof -
  have "bit (rd_be32 (be32 w)) n = bit w n" if n: "n < 32" for n
  proof -
    consider "n < 8" | "8 \<le> n" "n < 16" | "16 \<le> n" "n < 24" | "24 \<le> n"
      by linarith
    then show ?thesis
      using n by cases (auto simp: rd_be32_def be32_def bit_simps)
  qed
  then show ?thesis by (intro bit_word_eqI) simp
qed

lemma be32_inject: "be32 v = be32 w \<Longrightarrow> v = w"
  by (metis rd_be32_be32)

section \<open>Slices of byte lists\<close>

definition slice :: "nat \<Rightarrow> nat \<Rightarrow> 'a list \<Rightarrow> 'a list" where
  "slice off n xs = take n (drop off xs)"

lemma slice_append_left: "off + n \<le> length xs \<Longrightarrow> slice off n (xs @ ys) = slice off n xs"
  by (simp add: slice_def)

lemma slice_append_right:
  "length xs \<le> off \<Longrightarrow> slice off n (xs @ ys) = slice (off - length xs) n ys"
  by (simp add: slice_def)

lemma slice_exact: "slice (length xs) (length ys) (xs @ ys @ zs) = ys"
  by (simp add: slice_def)

section \<open>Association lists\<close>

lemma map_of_rev_distinct: "distinct (map fst xs) \<Longrightarrow> map_of (rev xs) = map_of xs"
  by (intro ext) (metis distinct_rev map_of_eq_Some_iff not_Some_eq rev_map set_rev)

end
