(* ===== verification/Holder_Heap.thy ===== *)
theory Holder_Heap
  imports Prelude
begin

text \<open>
  The kernel memory that both chain implementations work on: the \<open>struct chain_holder\<close> objects
  (\<open>src/sources/kmods/genintrdrv/kmod/chain.h\<close>) reachable by pointers, and the client objects the
  holders refer to. The loops of \<open>chain.c\<close> and \<open>sl_chain.c\<close> that chase \<open>pNext\<close> are here, with the
  relational abstraction of a doubly linked list segment and its frame lemmas.
\<close>

section \<open>Memory\<close>

record chain_holder =
  pData :: ptr
  pPrev :: ptr
  pNext :: ptr

type_synonym hheap = "ptr \<rightharpoonup> chain_holder"

text \<open>
  \<open>holders\<close> are the live holders, the base holders embedded in the chain structures included;
  \<open>objs\<close> are the live client objects; \<open>irq_on\<close> is the interrupt flag of the local CPU.
\<close>

record 'd kmem =
  holders :: hheap
  objs :: "ptr \<rightharpoonup> 'd"
  irq_on :: bool

definition deref :: "'d kmem \<Rightarrow> ptr \<Rightarrow> chain_holder kres" where
  "deref m p = (case holders m p of None \<Rightarrow> kfail BadDeref | Some n \<Rightarrow> kret n)"

definition put_holder :: "'d kmem \<Rightarrow> ptr \<Rightarrow> chain_holder \<Rightarrow> 'd kmem" where
  "put_holder m p n = m\<lparr>holders := (holders m)(p \<mapsto> n)\<rparr>"

definition set_pNext :: "'d kmem \<Rightarrow> ptr \<Rightarrow> ptr \<Rightarrow> 'd kmem kres" where
  "set_pNext m p v = kbind (deref m p) (\<lambda>n. kret (put_holder m p (n\<lparr>pNext := v\<rparr>)))"

definition set_pPrev :: "'d kmem \<Rightarrow> ptr \<Rightarrow> ptr \<Rightarrow> 'd kmem kres" where
  "set_pPrev m p v = kbind (deref m p) (\<lambda>n. kret (put_holder m p (n\<lparr>pPrev := v\<rparr>)))"

definition kfree_holder :: "'d kmem \<Rightarrow> ptr \<Rightarrow> 'd kmem kres" where
  "kfree_holder m p =
     (if p = NULL then kret m
      else if holders m p = None then kfail BadFree
      else kret (m\<lparr>holders := (holders m)(p := None)\<rparr>))"

definition kfree_obj :: "'d kmem \<Rightarrow> ptr \<Rightarrow> 'd kmem kres" where
  "kfree_obj m p =
     (if p = NULL then kret m
      else if objs m p = None then kfail BadFree
      else kret (m\<lparr>objs := (objs m)(p := None)\<rparr>))"

text \<open>
  What the callers rely on of \<open>kmalloc\<close>: it answers \<open>NULL\<close> or the address of memory that is not
  in use. The answer is an argument of the operations that allocate.
\<close>

definition fresh_ptr :: "'d kmem \<Rightarrow> ptr \<Rightarrow> bool" where
  "fresh_ptr m p \<longleftrightarrow> p \<noteq> NULL \<and> holders m p = None \<and> objs m p = None"

section \<open>The loops over pNext\<close>

text \<open>\<open>while (pHolder->pNext != NULL) pHolder = pHolder->pNext;\<close>\<close>

partial_function (option) last_holder :: "hheap \<Rightarrow> ptr \<Rightarrow> ptr kres" where
  "last_holder h p =
     (case h p of None \<Rightarrow> kfail BadDeref
      | Some n \<Rightarrow> (if pNext n \<noteq> NULL then last_holder h (pNext n) else kret p))"

text \<open>\<open>while (pHolder != NULL) { if (match(pHolder->pData) == 0) break; pHolder = pHolder->pNext; }\<close>\<close>

partial_function (option) find_holder :: "(ptr \<Rightarrow> bool) \<Rightarrow> hheap \<Rightarrow> ptr \<Rightarrow> ptr kres" where
  "find_holder match h p =
     (if p = NULL then kret NULL
      else case h p of None \<Rightarrow> kfail BadDeref
      | Some n \<Rightarrow> (if match (pData n) then kret p else find_holder match h (pNext n)))"

text \<open>\<open>while (i++ < index) pHolder = pHolder->pNext;\<close> with \<open>k\<close> rounds left.\<close>

fun walk :: "hheap \<Rightarrow> ptr \<Rightarrow> nat \<Rightarrow> ptr kres" where
  "walk h p 0 = kret p"
| "walk h p (Suc k) = (case h p of None \<Rightarrow> kfail BadDeref | Some n \<Rightarrow> walk h (pNext n) k)"

section \<open>Doubly linked segments\<close>

text \<open>
  \<open>dseg h prv p xs e\<close>: starting at \<open>p\<close> and following \<open>pNext\<close>, the holders of \<open>xs\<close> (address and
  payload) are passed in order and then \<open>e\<close> is reached; the first holder's \<open>pPrev\<close> is \<open>prv\<close>.
\<close>

fun dseg :: "hheap \<Rightarrow> ptr \<Rightarrow> ptr \<Rightarrow> (ptr \<times> ptr) list \<Rightarrow> ptr \<Rightarrow> bool" where
  "dseg h prv p [] e = (p = e)"
| "dseg h prv p ((q, d) # xs) e =
     (p = q \<and> q \<noteq> NULL \<and>
      (case h q of None \<Rightarrow> False
       | Some n \<Rightarrow> pPrev n = prv \<and> pData n = d \<and> dseg h q (pNext n) xs e))"

definition last_ptr :: "ptr \<Rightarrow> (ptr \<times> ptr) list \<Rightarrow> ptr" where
  "last_ptr prv xs = (if xs = [] then prv else fst (last xs))"

lemma last_ptr_simps [simp]:
  "last_ptr prv [] = prv"
  "last_ptr prv ((q, d) # xs) = last_ptr q xs"
  "last_ptr prv (xs @ [(q, d)]) = q"
  by (auto simp: last_ptr_def)

lemma last_ptr_in: "last_ptr prv xs \<in> insert prv (fst ` set xs)"
  by (auto simp: last_ptr_def)

lemma dseg_append:
  "dseg h prv p (xs @ ys) e \<longleftrightarrow> (\<exists>r. dseg h prv p xs r \<and> dseg h (last_ptr prv xs) r ys e)"
  by (induction xs arbitrary: prv p) (auto split: option.splits)

lemma dseg_frame [simp]:
  "q \<notin> fst ` set xs \<Longrightarrow> dseg (h(q := v)) prv p xs e = dseg h prv p xs e"
  by (induction xs arbitrary: prv p) (auto split: option.splits)

lemma dseg_live: "dseg h prv p xs e \<Longrightarrow> q \<in> fst ` set xs \<Longrightarrow> \<exists>n. h q = Some n"
  by (induction xs arbitrary: prv p) (force split: option.splits)+

lemma dseg_nonnull: "dseg h prv p xs e \<Longrightarrow> NULL \<notin> fst ` set xs"
  by (induction xs arbitrary: prv p) (force split: option.splits)+

lemma dseg_end_cong: "dseg h prv p xs e \<Longrightarrow> dseg h prv p xs e' \<Longrightarrow> e = e'"
  by (induction xs arbitrary: prv p) (auto split: option.splits)

section \<open>The loops on a well-formed list\<close>

lemma last_holder_dseg:
  assumes "h b = Some n" and "dseg h b (pNext n) xs NULL"
  shows "last_holder h b = kret (last_ptr b xs)"
  using assms
proof (induction xs arbitrary: b n)
  case Nil
  then show ?case by (simp add: last_holder.simps)
next
  case (Cons x xs)
  obtain q d where x: "x = (q, d)" by (cases x)
  from Cons.prems x obtain n' where n': "h q = Some n'" "dseg h q (pNext n') xs NULL"
    and q: "pNext n = q" "q \<noteq> NULL"
    by (auto split: option.splits)
  from Cons.IH [OF n'] Cons.prems(1) q show ?case
    by (simp add: x last_holder.simps [of h b])
qed

text \<open>The search returns the first holder whose payload matches, or \<open>NULL\<close>.\<close>

fun first_match :: "(ptr \<Rightarrow> bool) \<Rightarrow> (ptr \<times> ptr) list \<Rightarrow> ptr" where
  "first_match P [] = NULL"
| "first_match P ((q, d) # xs) = (if P d then q else first_match P xs)"

lemma find_holder_dseg:
  "dseg h prv p xs NULL \<Longrightarrow> find_holder P h p = kret (first_match P xs)"
proof (induction xs arbitrary: prv p)
  case Nil
  then show ?case by (simp add: find_holder.simps)
next
  case (Cons x xs)
  obtain q d where x: "x = (q, d)" by (cases x)
  from Cons.prems x obtain n where n: "h q = Some n" "dseg h q (pNext n) xs NULL" "pData n = d"
    and q: "p = q" "q \<noteq> NULL"
    by (auto split: option.splits)
  from Cons.IH [OF n(2)] n q show ?case
    by (simp add: x find_holder.simps [of P h q])
qed

lemma first_match_None: "dseg h prv p xs e \<Longrightarrow> \<forall>d \<in> snd ` set xs. \<not> P d \<Longrightarrow> first_match P xs = NULL"
  by (induction xs arbitrary: prv p) (auto split: option.splits)

lemma first_match_split:
  assumes "first_match P xs = q" and "q \<noteq> NULL"
  shows "\<exists>ys d zs. xs = ys @ (q, d) # zs \<and> P d \<and> (\<forall>d' \<in> snd ` set ys. \<not> P d')"
  using assms
proof (induction xs)
  case Nil
  then show ?case by simp
next
  case (Cons x xs)
  obtain q' d where x: "x = (q', d)" by (cases x)
  show ?case
  proof (cases "P d")
    case True
    with Cons.prems x show ?thesis by (intro exI [of _ "[]"]) auto
  next
    case False
    with Cons x obtain ys d' zs where "xs = ys @ (q, d') # zs" "P d'" "\<forall>d' \<in> snd ` set ys. \<not> P d'"
      by auto
    with False x show ?thesis by (intro exI [of _ "x # ys"]) auto
  qed
qed

lemma first_match_found:
  "P d \<Longrightarrow> \<forall>d' \<in> snd ` set ys. \<not> P d' \<Longrightarrow> first_match P (ys @ (q, d) # zs) = q"
  by (induction ys) auto

lemma first_match_NULL_iff:
  "dseg h prv p xs e \<Longrightarrow> first_match P xs = NULL \<longleftrightarrow> (\<forall>d \<in> snd ` set xs. \<not> P d)"
  by (induction xs arbitrary: prv p) (force split: option.splits if_splits)+

lemma walk_dseg:
  "dseg h prv p xs NULL \<Longrightarrow> k < length xs \<Longrightarrow> walk h p k = kret (fst (xs ! k))"
proof (induction xs arbitrary: prv p k)
  case Nil
  then show ?case by simp
next
  case (Cons x xs)
  then show ?case by (cases x; cases k) (auto split: option.splits)
qed

lemma walk_dseg_end: "dseg h prv p xs NULL \<Longrightarrow> walk h p (length xs) = kret NULL"
  by (induction xs arbitrary: prv p) (auto split: option.splits)

lemma walk_dseg_beyond:
  "dseg h prv p xs NULL \<Longrightarrow> h NULL = None \<Longrightarrow> length xs < k \<Longrightarrow> walk h p k = kfail BadDeref"
proof (induction xs arbitrary: prv p k)
  case Nil
  then show ?case by (cases k) auto
next
  case (Cons x xs)
  then show ?case by (cases x; cases k) (auto split: option.splits)
qed

lemma dseg_nth:
  "dseg h prv p xs e \<Longrightarrow> k < length xs \<Longrightarrow>
   \<exists>n. h (fst (xs ! k)) = Some n \<and> pData n = snd (xs ! k) \<and> fst (xs ! k) \<noteq> NULL"
proof (induction xs arbitrary: prv p k)
  case Nil
  then show ?case by simp
next
  case (Cons x xs)
  then show ?case by (cases x; cases k) (auto split: option.splits)
qed

section \<open>Relinking\<close>

lemma last_next:
  "h b = Some nb \<Longrightarrow> dseg h b (pNext nb) ys r \<Longrightarrow>
   \<exists>np. h (last_ptr b ys) = Some np \<and> pNext np = r"
proof (induction ys arbitrary: b nb)
  case Nil
  then show ?case by simp
next
  case (Cons y ys)
  then show ?case by (cases y) (auto split: option.splits)
qed

text \<open>Overwriting the \<open>pNext\<close> of the last holder of a segment redirects the segment's end.\<close>

lemma dseg_relink:
  assumes "h b = Some nb" "dseg h b (pNext nb) ys r" "distinct (b # map fst ys)"
    and "h (last_ptr b ys) = Some np"
  shows "\<exists>nb'. (h(last_ptr b ys \<mapsto> np\<lparr>pNext := r'\<rparr>)) b = Some nb' \<and>
           pPrev nb' = pPrev nb \<and> pData nb' = pData nb \<and>
           dseg (h(last_ptr b ys \<mapsto> np\<lparr>pNext := r'\<rparr>)) b (pNext nb') ys r'"
  using assms
proof (induction ys arbitrary: b nb)
  case Nil
  then show ?case by simp
next
  case (Cons y ys)
  obtain q d where y: "y = (q, d)" by (cases y)
  from Cons.prems y obtain nq where nq: "h q = Some nq" "dseg h q (pNext nq) ys r"
    and f: "pNext nb = q" "q \<noteq> NULL" "pPrev nq = b" "pData nq = d"
    by (auto split: option.splits)
  define h' where "h' = h(last_ptr q ys \<mapsto> np\<lparr>pNext := r'\<rparr>)"
  have ne: "last_ptr q ys \<noteq> b"
    using last_ptr_in [of q ys] Cons.prems(3) y by auto
  have "distinct (q # map fst ys)" "h (last_ptr q ys) = Some np"
    using Cons.prems(3,4) y by simp_all
  from Cons.IH [OF nq this]
  obtain nq' where "h' q = Some nq'" "pPrev nq' = pPrev nq" "pData nq' = pData nq"
      "dseg h' q (pNext nq') ys r'"
    unfolding h'_def by blast
  moreover have "h' b = Some nb"
    using ne Cons.prems(1) by (simp add: h'_def)
  ultimately show ?case
    using f by (simp add: y h'_def [symmetric])
qed

end
