(* ===== verification/Queue_Interface.thy ===== *)
theory Queue_Interface
  imports Prelude
begin

text \<open>
  The contract that clients of the kernel chains rely on, as a locale: a state that represents a
  list of payload pointers, an insertion at the tail that needs a fresh holder from the allocator,
  and a removal at the head. The first-in first-out lemma is proved once here; \<open>Chain\<close> and
  \<open>Sl_Chain\<close> interpret the locale on the operations of the two source files.
\<close>

text \<open>Repeated insertion (each with the allocator's answer) and repeated removal.\<close>

fun put_all :: "('s \<Rightarrow> ptr \<Rightarrow> ptr \<Rightarrow> (int \<times> 's) kres) \<Rightarrow> 's \<Rightarrow> (ptr \<times> ptr) list \<Rightarrow> 's kres" where
  "put_all put s [] = kret s"
| "put_all put s ((p, d) # pds) = kbind (put s p d) (\<lambda>r. put_all put (snd r) pds)"

fun get_n :: "('s \<Rightarrow> (ptr \<times> 's) kres) \<Rightarrow> nat \<Rightarrow> 's \<Rightarrow> (ptr list \<times> 's) kres" where
  "get_n get 0 s = kret ([], s)"
| "get_n get (Suc n) s =
     kbind (get s) (\<lambda>(d, s). kbind (get_n get n s) (\<lambda>(ds, s). kret (d # ds, s)))"

locale kernel_queue =
  fixes rep :: "'s \<Rightarrow> ptr list \<Rightarrow> bool"
    and fresh :: "'s \<Rightarrow> ptr \<Rightarrow> bool"
    and put :: "'s \<Rightarrow> ptr \<Rightarrow> ptr \<Rightarrow> (int \<times> 's) kres"
    and get :: "'s \<Rightarrow> (ptr \<times> 's) kres"
  assumes put_ok: "rep s ds \<Longrightarrow> fresh s p \<Longrightarrow>
      \<exists>s'. put s p d = kret (0, s') \<and> rep s' (ds @ [d]) \<and> (\<forall>q. fresh s q \<longrightarrow> q \<noteq> p \<longrightarrow> fresh s' q)"
    and put_nomem: "rep s ds \<Longrightarrow> put s NULL d = kret (-1, s)"
    and get_Nil: "rep s [] \<Longrightarrow> get s = kret (NULL, s)"
    and get_Cons: "rep s (d # ds) \<Longrightarrow> \<exists>s'. get s = kret (d, s') \<and> rep s' ds"
begin

lemma put_all_rep:
  assumes "rep s ds" and "distinct (map fst pds)" and "\<forall>p \<in> fst ` set pds. fresh s p"
  shows "\<exists>s'. put_all put s pds = kret s' \<and> rep s' (ds @ map snd pds)"
  using assms
proof (induction pds arbitrary: s ds)
  case Nil
  then show ?case by simp
next
  case (Cons x pds)
  obtain p d where x: "x = (p, d)" by (cases x)
  from Cons.prems x obtain s1 where s1: "put s p d = kret (0, s1)" "rep s1 (ds @ [d])"
    "\<forall>q. fresh s q \<longrightarrow> q \<noteq> p \<longrightarrow> fresh s1 q"
    using put_ok [of s ds p d] by auto
  have "\<forall>q \<in> fst ` set pds. fresh s1 q"
    using Cons.prems x s1(3) by force
  then obtain s' where "put_all put s1 pds = kret s'" "rep s' ((ds @ [d]) @ map snd pds)"
    using Cons.IH [OF s1(2)] Cons.prems(2) x by auto
  with s1 x show ?case by simp
qed

lemma get_n_rep:
  "rep s (ds @ es) \<Longrightarrow> \<exists>s'. get_n get (length ds) s = kret (ds, s') \<and> rep s' es"
proof (induction ds arbitrary: s)
  case Nil
  then show ?case by simp
next
  case (Cons d ds)
  then obtain s1 where s1: "get s = kret (d, s1)" "rep s1 (ds @ es)"
    using get_Cons [of s d "ds @ es"] by auto
  from Cons.IH [OF s1(2)] s1(1) show ?case by auto
qed

lemma fifo:
  assumes "rep s []" and "distinct (map fst pds)" and "\<forall>p \<in> fst ` set pds. fresh s p"
  shows "\<exists>s' s''. put_all put s pds = kret s' \<and>
           get_n get (length pds) s' = kret (map snd pds, s'') \<and> rep s'' [] \<and>
           get s'' = kret (NULL, s'')"
proof -
  from put_all_rep [OF assms] obtain s' where s': "put_all put s pds = kret s'" "rep s' (map snd pds)"
    by auto
  with get_n_rep [of s' "map snd pds" "[]"] show ?thesis
    using get_Nil by fastforce
qed

end

end
