(* ===== verification/Chain.thy ===== *)
theory Chain
  imports Holder_Heap Queue_Interface
begin

text \<open>
  The semaphore-protected chain of \<open>src/sources/kmods/genintrdrv/kmod/chain.c\<close>: a doubly linked
  list with a base holder embedded in the chain structure, a size, a peak size, a released flag and
  a counting semaphore. Every operation of the file is here; the theorems say that each implements
  a list operation, keeps the list well formed, gives the semaphore back, and touches no memory of
  others.
\<close>

section \<open>The structure and its lock\<close>

record chain =
  base_chain :: ptr
  sz :: s32
  peak_sz :: s32
  init_flag :: u8
  sema :: nat

definition down :: "chain \<Rightarrow> chain kres" where
  "down c = (if sema c = 0 then khang else kret (c\<lparr>sema := sema c - 1\<rparr>))"

definition up :: "chain \<Rightarrow> chain" where
  "up c = c\<lparr>sema := sema c + 1\<rparr>"

definition chain_lock :: "chain \<Rightarrow> chain kres" where
  "chain_lock c = down c"

definition chain_unlock :: "chain \<Rightarrow> chain" where
  "chain_unlock c = up c"

section \<open>Operations\<close>

definition chain_init :: "chain \<Rightarrow> 'd kmem \<Rightarrow> (int \<times> chain \<times> 'd kmem) kres" where
  "chain_init c m =
     kbind (set_pNext m (base_chain c) NULL) (\<lambda>m.
     kret (0, c\<lparr>sz := 0, peak_sz := 0, init_flag := 1, sema := 1\<rparr>, m))"

text \<open>\<open>p\<close> is the answer of \<open>kmalloc(sizeof(struct chain_holder), GFP_KERNEL)\<close>.\<close>

definition chain_add :: "chain \<Rightarrow> 'd kmem \<Rightarrow> ptr \<Rightarrow> ptr \<Rightarrow> (int \<times> chain \<times> 'd kmem) kres" where
  "chain_add c m p data =
     (if p = NULL then kret (-1, c, m)
      else
        kbind (last_holder (holders m) (base_chain c)) (\<lambda>pHolder.
        kbind (set_pNext m pHolder p) (\<lambda>m.
        let m = put_holder m p \<lparr>pData = data, pPrev = pHolder, pNext = NULL\<rparr>;
            c = c\<lparr>sz := sz c + 1\<rparr>;
            c = (if sint (peak_sz c) < sint (sz c) then c\<lparr>peak_sz := sz c\<rparr> else c)
        in kret (0, c, m))))"

definition chain_put :: "chain \<Rightarrow> 'd kmem \<Rightarrow> ptr \<Rightarrow> ptr \<Rightarrow> (int \<times> chain \<times> 'd kmem) kres" where
  "chain_put c m p data =
     kbind (down c) (\<lambda>c.
     if init_flag c = 0 then kret (-1, up c, m)
     else kbind (chain_add c m p data) (\<lambda>(iRet, c, m). kret (iRet, up c, m)))"

text \<open>Unlinking one holder and freeing it, the same lines in every removing operation.\<close>

definition chain_unlink :: "'d kmem \<Rightarrow> ptr \<Rightarrow> 'd kmem kres" where
  "chain_unlink m pHolder =
     kbind (deref m pHolder) (\<lambda>n.
     kbind (if pNext n \<noteq> NULL
            then kbind (set_pNext m (pPrev n) (pNext n)) (\<lambda>m.
                 kbind (deref m pHolder) (\<lambda>n.
                 set_pPrev m (pNext n) (pPrev n)))
            else set_pNext m (pPrev n) NULL) (\<lambda>m.
     kfree_holder m pHolder))"

definition chain_remove :: "chain \<Rightarrow> 'd kmem \<Rightarrow> (int \<times> chain \<times> 'd kmem) kres" where
  "chain_remove c m =
     kbind (deref m (base_chain c)) (\<lambda>b.
     if pNext b = NULL then kret (-1, c, m)
     else kbind (chain_unlink m (pNext b)) (\<lambda>m. kret (0, c\<lparr>sz := sz c - 1\<rparr>, m)))"

partial_function (option) chain_remove_all ::
  "chain \<Rightarrow> 'd kmem \<Rightarrow> (int \<times> chain \<times> 'd kmem) kres" where
  "chain_remove_all c m =
     kbind (deref m (base_chain c)) (\<lambda>b.
     if pNext b = NULL then kret (0, c, m)
     else
       kbind (deref m (pNext b)) (\<lambda>n.
       kbind (kfree_obj m (pData n)) (\<lambda>m.
       kbind (chain_remove c m) (\<lambda>r. chain_remove_all (fst (snd r)) (snd (snd r))))))"

definition chain_release :: "chain \<Rightarrow> 'd kmem \<Rightarrow> (int \<times> chain \<times> 'd kmem) kres" where
  "chain_release c m =
     kbind (down c) (\<lambda>c.
     kbind (chain_remove_all c m) (\<lambda>(_, c, m).
     kret (0, up (c\<lparr>init_flag := 0\<rparr>), m)))"

definition chain_get :: "chain \<Rightarrow> 'd kmem \<Rightarrow> (ptr \<times> chain \<times> 'd kmem) kres" where
  "chain_get c m =
     kbind (down c) (\<lambda>c.
     if init_flag c = 0 then kret (NULL, up c, m)
     else
       kbind (deref m (base_chain c)) (\<lambda>b.
       if pNext b = NULL then kret (NULL, up c, m)
       else
         kbind (deref m (pNext b)) (\<lambda>n.
         kbind (chain_remove c m) (\<lambda>(_, c, m). kret (pData n, up c, m)))))"

definition chain_get_top :: "chain \<Rightarrow> 'd kmem \<Rightarrow> ptr kres" where
  "chain_get_top c m =
     (if init_flag c = 0 then kret NULL
      else
        kbind (deref m (base_chain c)) (\<lambda>b.
        if pNext b = NULL then kret NULL
        else kbind (deref m (pNext b)) (\<lambda>n. kret (pData n))))"

definition chain_size :: "chain \<Rightarrow> (s32 \<times> chain) kres" where
  "chain_size c = kbind (down c) (\<lambda>c. kret (sz c, up c))"

definition chain_peak_size :: "chain \<Rightarrow> (s32 \<times> chain) kres" where
  "chain_peak_size c = kbind (down c) (\<lambda>c. kret (peak_sz c, up c))"

text \<open>
  The identification callbacks: \<open>None\<close> is the \<open>NULL\<close> function pointer, and the callback answers
  0 for a match. A search is described by the test it applies to each payload.
\<close>

type_synonym 'd datIdfunc = "('d kmem \<Rightarrow> ptr \<Rightarrow> s32 \<Rightarrow> u8) option"
type_synonym 'd dbdatIdfunc = "('d kmem \<Rightarrow> ptr \<Rightarrow> s32 \<Rightarrow> s32 \<Rightarrow> u8) option"
type_synonym 'd tpdatIdfunc = "('d kmem \<Rightarrow> ptr \<Rightarrow> s32 \<Rightarrow> s32 \<Rightarrow> s32 \<Rightarrow> u8) option"

definition get_matching :: "chain \<Rightarrow> 'd kmem \<Rightarrow> (ptr \<Rightarrow> bool) option \<Rightarrow> ptr kres" where
  "get_matching c m test =
     kbind (deref m (base_chain c)) (\<lambda>b.
     if pNext b = NULL then kret NULL
     else case test of None \<Rightarrow> kret NULL
     | Some P \<Rightarrow>
         kbind (find_holder P (holders m) (pNext b)) (\<lambda>pHolder.
         if pHolder = NULL then kret NULL
         else kbind (deref m pHolder) (\<lambda>n. kret (pData n))))"

definition chain_get_by_ident :: "chain \<Rightarrow> 'd kmem \<Rightarrow> s32 \<Rightarrow> 'd datIdfunc \<Rightarrow> ptr kres" where
  "chain_get_by_ident c m ident f =
     get_matching c m (map_option (\<lambda>g d. g m d ident = 0) f)"

definition chain_get_by_double_ident ::
  "chain \<Rightarrow> 'd kmem \<Rightarrow> s32 \<Rightarrow> s32 \<Rightarrow> 'd dbdatIdfunc \<Rightarrow> ptr kres" where
  "chain_get_by_double_ident c m ident1 ident2 f =
     get_matching c m (map_option (\<lambda>g d. g m d ident1 ident2 = 0) f)"

definition remove_matching ::
  "chain \<Rightarrow> 'd kmem \<Rightarrow> (ptr \<Rightarrow> bool) option \<Rightarrow> (ptr \<times> chain \<times> 'd kmem) kres" where
  "remove_matching c m test =
     kbind (down c) (\<lambda>c.
     kbind (deref m (base_chain c)) (\<lambda>b.
     if init_flag c = 0 then kret (NULL, up c, m)
     else if pNext b = NULL then kret (NULL, up c, m)
     else case test of None \<Rightarrow> kret (NULL, up c, m)
     | Some P \<Rightarrow>
         kbind (find_holder P (holders m) (pNext b)) (\<lambda>pHolder.
         if pHolder = NULL then kret (NULL, up c, m)
         else
           kbind (deref m pHolder) (\<lambda>n.
           kbind (chain_unlink m pHolder) (\<lambda>m.
           kret (pData n, up (c\<lparr>sz := sz c - 1\<rparr>), m))))))"

definition chain_remove_by_ident ::
  "chain \<Rightarrow> 'd kmem \<Rightarrow> s32 \<Rightarrow> 'd datIdfunc \<Rightarrow> (ptr \<times> chain \<times> 'd kmem) kres" where
  "chain_remove_by_ident c m ident f =
     remove_matching c m (map_option (\<lambda>g d. g m d ident = 0) f)"

definition chain_remove_by_double_ident ::
  "chain \<Rightarrow> 'd kmem \<Rightarrow> s32 \<Rightarrow> s32 \<Rightarrow> 'd dbdatIdfunc \<Rightarrow> (ptr \<times> chain \<times> 'd kmem) kres" where
  "chain_remove_by_double_ident c m ident1 ident2 f =
     remove_matching c m (map_option (\<lambda>g d. g m d ident1 ident2 = 0) f)"

definition chain_remove_by_triple_ident ::
  "chain \<Rightarrow> 'd kmem \<Rightarrow> s32 \<Rightarrow> s32 \<Rightarrow> s32 \<Rightarrow> 'd tpdatIdfunc \<Rightarrow> (ptr \<times> chain \<times> 'd kmem) kres" where
  "chain_remove_by_triple_ident c m ident1 ident2 ident3 f =
     remove_matching c m (map_option (\<lambda>g d. g m d ident1 ident2 ident3 = 0) f)"

text \<open>
  The bounds check of \<open>chain_get_by_index\<close> reads \<open>if (index >= chain_size)\<close>: inside the function
  \<open>chain_size\<close> is not the field but the function of that name, so the index (sign-extended to the
  pointer width) is compared with the address \<open>fn\<close> of that function.
\<close>

definition chain_get_by_index :: "64 word \<Rightarrow> chain \<Rightarrow> 'd kmem \<Rightarrow> s32 \<Rightarrow> ptr kres" where
  "chain_get_by_index fn c m index =
     kbind (deref m (base_chain c)) (\<lambda>b.
     if pNext b = NULL then kret NULL
     else if fn \<le> scast index then kret NULL
     else
       kbind (walk (holders m) (pNext b) (nat (sint index))) (\<lambda>pHolder.
       if pHolder = NULL then kret NULL
       else kbind (deref m pHolder) (\<lambda>n. kret (pData n))))"

section \<open>Well-formed chains\<close>

text \<open>
  \<open>chain_rep c m xs\<close>: in memory \<open>m\<close> the chain \<open>c\<close> links exactly the holders \<open>xs\<close> (address and
  payload), in both directions, without sharing, and its size field counts them.
\<close>

definition chain_rep :: "chain \<Rightarrow> 'd kmem \<Rightarrow> (ptr \<times> ptr) list \<Rightarrow> bool" where
  "chain_rep c m xs \<longleftrightarrow>
     base_chain c \<noteq> NULL \<and> distinct (base_chain c # map fst xs) \<and>
     (case holders m (base_chain c) of None \<Rightarrow> False
      | Some b \<Rightarrow> dseg (holders m) (base_chain c) (pNext b) xs NULL) \<and>
     sz c = of_nat (length xs)"

text \<open>The memory outside \<open>A\<close> and all client objects are as before.\<close>

definition same_outside :: "ptr set \<Rightarrow> 'd kmem \<Rightarrow> 'd kmem \<Rightarrow> bool" where
  "same_outside A m m' \<longleftrightarrow>
     (\<forall>q. q \<notin> A \<longrightarrow> holders m' q = holders m q) \<and> objs m' = objs m \<and> irq_on m' = irq_on m"

lemma chain_repE:
  assumes "chain_rep c m xs"
  obtains b where "holders m (base_chain c) = Some b"
    "dseg (holders m) (base_chain c) (pNext b) xs NULL"
    "base_chain c \<noteq> NULL" "distinct (base_chain c # map fst xs)" "sz c = of_nat (length xs)"
  using assms by (auto simp: chain_rep_def split: option.splits)

lemma chain_repI:
  assumes "holders m (base_chain c) = Some b"
    "dseg (holders m) (base_chain c) (pNext b) xs NULL"
    "base_chain c \<noteq> NULL" "distinct (base_chain c # map fst xs)" "sz c = of_nat (length xs)"
  shows "chain_rep c m xs"
  using assms by (simp add: chain_rep_def)

lemma deref_Some [simp]: "holders m p = Some n \<Longrightarrow> deref m p = kret n"
  by (simp add: deref_def)

lemma deref_None [simp]: "holders m p = None \<Longrightarrow> deref m p = kfail BadDeref"
  by (simp add: deref_def)

lemma put_holder_simps [simp]:
  "holders (put_holder m p n) = (holders m)(p \<mapsto> n)"
  "objs (put_holder m p n) = objs m" "irq_on (put_holder m p n) = irq_on m"
  by (simp_all add: put_holder_def)

lemma set_pNext_Some [simp]:
  "holders m p = Some n \<Longrightarrow> set_pNext m p v = kret (put_holder m p (n\<lparr>pNext := v\<rparr>))"
  by (simp add: set_pNext_def)

lemma set_pPrev_Some [simp]:
  "holders m p = Some n \<Longrightarrow> set_pPrev m p v = kret (put_holder m p (n\<lparr>pPrev := v\<rparr>))"
  by (simp add: set_pPrev_def)

lemma kfree_holder_Some [simp]:
  "holders m p = Some n \<Longrightarrow> p \<noteq> NULL \<Longrightarrow>
   kfree_holder m p = kret (m\<lparr>holders := (holders m)(p := None)\<rparr>)"
  by (simp add: kfree_holder_def)

lemma down_up [simp]: "sema c \<noteq> 0 \<Longrightarrow> down c = kret (c\<lparr>sema := sema c - 1\<rparr>)"
  by (simp add: down_def)

lemma up_simps [simp]:
  "base_chain (up c) = base_chain c" "sz (up c) = sz c" "peak_sz (up c) = peak_sz c"
  "init_flag (up c) = init_flag c" "sema (up c) = Suc (sema c)"
  by (simp_all add: up_def)

lemma chain_rep_cong:
  "base_chain c' = base_chain c \<Longrightarrow> sz c' = sz c \<Longrightarrow> chain_rep c' m xs = chain_rep c m xs"
  by (simp add: chain_rep_def cong: option.case_cong)

lemma chain_rep_up [simp]: "chain_rep (up c) m xs = chain_rep c m xs"
  by (rule chain_rep_cong) simp_all

lemma chain_rep_sema [simp]: "chain_rep (c\<lparr>sema := k\<rparr>) m xs = chain_rep c m xs"
  by (rule chain_rep_cong) simp_all

lemma chain_rep_init_flag [simp]: "chain_rep (c\<lparr>init_flag := f\<rparr>) m xs = chain_rep c m xs"
  by (rule chain_rep_cong) simp_all

section \<open>Adding at the tail\<close>

text \<open>The counters after a successful insertion.\<close>

definition grown :: "chain \<Rightarrow> chain" where
  "grown c = (let c = c\<lparr>sz := sz c + 1\<rparr>
              in if sint (peak_sz c) < sint (sz c) then c\<lparr>peak_sz := sz c\<rparr> else c)"

lemma grown_simps [simp]:
  "base_chain (grown c) = base_chain c" "sz (grown c) = sz c + 1"
  "init_flag (grown c) = init_flag c" "sema (grown c) = sema c"
  by (simp_all add: grown_def Let_def)

lemma chain_add_rep:
  assumes rep: "chain_rep c m xs" and p: "fresh_ptr m p"
  shows "\<exists>m'. chain_add c m p d = kret (0, grown c, m') \<and> chain_rep (grown c) m' (xs @ [(p, d)]) \<and>
              same_outside ({base_chain c, p} \<union> fst ` set xs) m m'"
proof -
  let ?b = "base_chain c" and ?l = "last_ptr (base_chain c) xs"
  from rep obtain nb where b: "holders m ?b = Some nb" "dseg (holders m) ?b (pNext nb) xs NULL"
    "?b \<noteq> NULL" "distinct (?b # map fst xs)" "sz c = of_nat (length xs)"
    by (rule chain_repE)
  have pn: "p \<noteq> NULL" "holders m p = None" using p by (auto simp: fresh_ptr_def)
  have pb: "p \<noteq> ?b" "p \<notin> fst ` set xs" using pn b(1) dseg_live [OF b(2)] by force+
  obtain nl where nl: "holders m ?l = Some nl" using last_next [OF b(1,2)] by blast
  define h where "h = (holders m)(?l \<mapsto> nl\<lparr>pNext := p\<rparr>)"
  obtain nb' where nb': "h ?b = Some nb'" "dseg h ?b (pNext nb') xs p"
    using dseg_relink [OF b(1,2,4) nl, of p] unfolding h_def by blast
  define n where "n = \<lparr>pData = d, pPrev = ?l, pNext = NULL\<rparr>"
  define m' where "m' = put_holder (put_holder m ?l (nl\<lparr>pNext := p\<rparr>)) p n"
  have hm: "holders m' = h(p \<mapsto> n)" by (simp add: h_def m'_def)
  have run: "chain_add c m p d = kret (0, grown c, m')"
    using pn nl last_holder_dseg [OF b(1,2)]
    by (simp add: chain_add_def grown_def n_def m'_def Let_def)
  have "dseg (h(p \<mapsto> n)) ?b (pNext nb') xs p"
    using pb nb' by simp
  then have "dseg (h(p \<mapsto> n)) ?b (pNext nb') (xs @ [(p, d)]) NULL"
    using pn(1) by (simp add: dseg_append) (auto simp: n_def)
  then have "chain_rep (grown c) m' (xs @ [(p, d)])"
    using pb nb'(1) b by (intro chain_repI [where b = nb']) (auto simp: hm)
  moreover have "same_outside ({?b, p} \<union> fst ` set xs) m m'"
    using last_ptr_in [of ?b xs] by (auto simp: same_outside_def m'_def)
  ultimately show ?thesis using run by blast
qed

section \<open>Unlinking\<close>

lemma chain_unlink_rep:
  assumes rep: "chain_rep c m (ys @ (q, d) # zs)"
  shows "\<exists>m'. chain_unlink m q = kret m' \<and> chain_rep (c\<lparr>sz := sz c - 1\<rparr>) m' (ys @ zs) \<and>
              holders m' q = None \<and>
              same_outside ({base_chain c} \<union> fst ` set (ys @ (q, d) # zs)) m m'"
proof -
  let ?b = "base_chain c" and ?l = "last_ptr (base_chain c) ys" and ?xs = "ys @ (q, d) # zs"
  from rep obtain nb where b: "holders m ?b = Some nb" "dseg (holders m) ?b (pNext nb) ?xs NULL"
    "?b \<noteq> NULL" "distinct (?b # map fst ?xs)" "sz c = of_nat (length ?xs)"
    by (rule chain_repE)
  from b(2) obtain nq where ys: "dseg (holders m) ?b (pNext nb) ys q"
    and nq: "holders m q = Some nq" "pPrev nq = ?l" "pData nq = d" "q \<noteq> NULL"
    and zs: "dseg (holders m) q (pNext nq) zs NULL"
    by (auto simp: dseg_append split: option.splits)
  obtain nl where nl: "holders m ?l = Some nl" using last_next [OF b(1) ys] by blast
  have dy: "distinct (?b # map fst ys)" and ql: "q \<noteq> ?l" "q \<noteq> ?b"
    and qz: "q \<notin> fst ` set zs" "q \<notin> fst ` set ys" and bz: "?b \<notin> fst ` set zs"
    using b(4) last_ptr_in [of ?b ys] by auto
  have lz: "?l \<notin> fst ` set zs"
    using b(4) by (cases ys rule: rev_cases) (auto simp: last_ptr_def)
  define h where "h = (holders m)(?l \<mapsto> nl\<lparr>pNext := pNext nq\<rparr>)"
  obtain nb' where nb': "h ?b = Some nb'" "dseg h ?b (pNext nb') ys (pNext nq)"
    using dseg_relink [OF b(1) ys dy nl, of "pNext nq"] unfolding h_def by blast
  have len: "sz c - 1 = of_nat (length (ys @ zs))"
    using b(5) by simp
  have inl: "?l \<in> insert ?b (fst ` set ?xs)" using last_ptr_in [of ?b ys] by auto
  show ?thesis
  proof (cases zs)
    case Nil
    then have e: "pNext nq = NULL" using zs by simp
    define m1 where "m1 = put_holder m ?l (nl\<lparr>pNext := NULL\<rparr>)"
    define m' where "m' = m1\<lparr>holders := (holders m1)(q := None)\<rparr>"
    have hm: "holders m' = h(q := None)" by (simp add: h_def e m1_def m'_def)
    have "chain_unlink m q = kret m'"
      using nq nl e ql by (simp add: chain_unlink_def m1_def m'_def)
    moreover have "chain_rep (c\<lparr>sz := sz c - 1\<rparr>) m' (ys @ zs)"
      using nb' qz ql b dy len by (intro chain_repI [where b = nb']) (auto simp: hm e Nil)
    moreover have "same_outside ({?b} \<union> fst ` set ?xs) m m'"
      using inl by (auto simp: same_outside_def m1_def m'_def)
    ultimately show ?thesis by (auto simp: hm)
  next
    case (Cons z zs')
    obtain r dr where z: "z = (r, dr)" by (cases z)
    from zs Cons z obtain nr where nr: "pNext nq = r" "r \<noteq> NULL" "holders m r = Some nr"
      "pPrev nr = q" "pData nr = dr" "dseg (holders m) r (pNext nr) zs' NULL"
      by (auto split: option.splits)
    have rl: "r \<noteq> ?l" "r \<noteq> q" "r \<noteq> ?b" "r \<notin> fst ` set ys" "r \<notin> fst ` set zs'"
      using lz qz bz b(4) Cons z by auto
    define m1 where "m1 = put_holder (put_holder m ?l (nl\<lparr>pNext := r\<rparr>)) r (nr\<lparr>pPrev := ?l\<rparr>)"
    define m' where "m' = m1\<lparr>holders := (holders m1)(q := None)\<rparr>"
    have hm: "holders m' = (h(r \<mapsto> nr\<lparr>pPrev := ?l\<rparr>))(q := None)"
      by (simp add: h_def nr(1) m1_def m'_def)
    have "chain_unlink m q = kret m'"
      using nq nl nr ql rl by (simp add: chain_unlink_def m1_def m'_def)
    moreover have "chain_rep (c\<lparr>sz := sz c - 1\<rparr>) m' (ys @ zs)"
    proof (rule chain_repI [where b = nb'])
      show "holders m' (base_chain (c\<lparr>sz := sz c - 1\<rparr>)) = Some nb'"
        using nb'(1) ql rl by (simp add: hm)
      have t: "dseg (holders m') r (pNext nr) zs' NULL"
        using nr(6) qz lz rl Cons z by (simp add: hm h_def)
      have "dseg (holders m') ?b (pNext nb') ys r"
        using nb'(2) qz rl by (simp add: hm nr(1))
      moreover have "dseg (holders m') ?l r zs NULL"
        using t nr rl by (simp add: Cons z hm)
      ultimately show "dseg (holders m') (base_chain (c\<lparr>sz := sz c - 1\<rparr>)) (pNext nb') (ys @ zs) NULL"
        by (auto simp: dseg_append)
    qed (use b len in auto)
    moreover have "same_outside ({?b} \<union> fst ` set ?xs) m m'"
      using inl Cons z by (auto simp: same_outside_def m1_def m'_def)
    ultimately show ?thesis by (auto simp: hm)
  qed
qed

section \<open>The locked operations\<close>

lemma up_down_id [simp]:
  "sema c \<noteq> 0 \<Longrightarrow> up (c\<lparr>sema := sema c - Suc 0\<rparr>) = c"
  "sema c \<noteq> 0 \<Longrightarrow> up (c\<lparr>sema := sema c - Suc 0, sz := v\<rparr>) = c\<lparr>sz := v\<rparr>"
  "sema c \<noteq> 0 \<Longrightarrow> up (grown (c\<lparr>sema := sema c - Suc 0\<rparr>)) = grown c"
  by (simp_all add: up_def grown_def Let_def)

lemma chain_put_nomem:
  "sema c \<noteq> 0 \<Longrightarrow> chain_put c m NULL d = kret (-1, c, m)"
  by (simp add: chain_put_def chain_add_def)

lemma chain_put_released:
  "sema c \<noteq> 0 \<Longrightarrow> init_flag c = 0 \<Longrightarrow> chain_put c m p d = kret (-1, c, m)"
  by (simp add: chain_put_def)

lemma chain_put_rep:
  assumes "chain_rep c m xs" "fresh_ptr m p" "sema c \<noteq> 0" "init_flag c \<noteq> 0"
  shows "\<exists>m'. chain_put c m p d = kret (0, grown c, m') \<and> chain_rep (grown c) m' (xs @ [(p, d)]) \<and>
              same_outside ({base_chain c, p} \<union> fst ` set xs) m m'"
proof -
  let ?c = "c\<lparr>sema := sema c - 1\<rparr>"
  from assms(1) have "chain_rep ?c m xs" by simp
  from chain_add_rep [OF this assms(2), of d] obtain m' where
    "chain_add ?c m p d = kret (0, grown ?c, m')" "chain_rep (grown ?c) m' (xs @ [(p, d)])"
    "same_outside ({base_chain c, p} \<union> fst ` set xs) m m'"
    by auto
  moreover from this(2) have "chain_rep (grown c) m' (xs @ [(p, d)])"
    by (simp add: chain_rep_cong [of "grown c" "grown ?c"])
  ultimately show ?thesis
    using assms by (intro exI [of _ m']) (simp add: chain_put_def)
qed

lemma chain_remove_rep:
  assumes "chain_rep c m ((q, d) # xs)"
  shows "\<exists>m'. chain_remove c m = kret (0, c\<lparr>sz := sz c - 1\<rparr>, m') \<and>
              chain_rep (c\<lparr>sz := sz c - 1\<rparr>) m' xs \<and> holders m' q = None \<and>
              same_outside ({base_chain c, q} \<union> fst ` set xs) m m'"
proof -
  from assms obtain b where "holders m (base_chain c) = Some b" "pNext b = q" "q \<noteq> NULL"
    by (auto elim!: chain_repE split: option.splits)
  with chain_unlink_rep [of c m "[]" q d xs] assms show ?thesis
    by (auto simp: chain_remove_def insert_commute)
qed

lemma chain_remove_empty:
  "chain_rep c m [] \<Longrightarrow> chain_remove c m = kret (-1, c, m)"
  by (auto elim!: chain_repE simp: chain_remove_def)

lemma chain_get_rep:
  assumes rep: "chain_rep c m ((q, d) # xs)" and "sema c \<noteq> 0" "init_flag c \<noteq> 0"
  shows "\<exists>m'. chain_get c m = kret (d, c\<lparr>sz := sz c - 1\<rparr>, m') \<and>
              chain_rep (c\<lparr>sz := sz c - 1\<rparr>) m' xs \<and> holders m' q = None \<and>
              same_outside ({base_chain c, q} \<union> fst ` set xs) m m'"
proof -
  let ?c = "c\<lparr>sema := sema c - 1\<rparr>"
  from rep have rep': "chain_rep ?c m ((q, d) # xs)" by simp
  from rep obtain b n where b: "holders m (base_chain c) = Some b" "pNext b = q" "q \<noteq> NULL"
    "holders m q = Some n" "pData n = d"
    by (auto elim!: chain_repE split: option.splits)
  from chain_remove_rep [OF rep'] obtain m' where m':
    "chain_remove ?c m = kret (0, ?c\<lparr>sz := sz c - 1\<rparr>, m')" "chain_rep (?c\<lparr>sz := sz c - 1\<rparr>) m' xs"
    "holders m' q = None" "same_outside ({base_chain c, q} \<union> fst ` set xs) m m'"
    by auto
  from m'(2) have "chain_rep (c\<lparr>sz := sz c - 1\<rparr>) m' xs"
    by (simp add: chain_rep_cong [of "c\<lparr>sz := sz c - 1\<rparr>" "?c\<lparr>sz := sz c - 1\<rparr>"])
  with m' b assms show ?thesis
    by (intro exI [of _ m']) (simp add: chain_get_def)
qed

lemma chain_get_empty:
  "chain_rep c m [] \<Longrightarrow> sema c \<noteq> 0 \<Longrightarrow> chain_get c m = kret (NULL, c, m)"
  by (auto elim!: chain_repE simp: chain_get_def)

lemma chain_get_released:
  "sema c \<noteq> 0 \<Longrightarrow> init_flag c = 0 \<Longrightarrow> chain_get c m = kret (NULL, c, m)"
  by (simp add: chain_get_def)

lemma chain_get_top_rep:
  "chain_rep c m xs \<Longrightarrow> init_flag c \<noteq> 0 \<Longrightarrow>
   chain_get_top c m = kret (case xs of [] \<Rightarrow> NULL | x # _ \<Rightarrow> snd x)"
  by (cases xs) (auto elim!: chain_repE simp: chain_get_top_def split: option.splits)

subsection \<open>Searching\<close>

lemma get_matching_rep:
  assumes rep: "chain_rep c m (ys @ (q, d) # zs)" and "P d" and "\<forall>d' \<in> snd ` set ys. \<not> P d'"
  shows "get_matching c m (Some P) = kret d"
proof -
  from rep obtain b where b: "holders m (base_chain c) = Some b"
    "dseg (holders m) (base_chain c) (pNext b) (ys @ (q, d) # zs) NULL"
    by (auto elim: chain_repE)
  have "pNext b \<noteq> NULL"
    using b(2) by (cases ys) (auto split: option.splits)
  moreover obtain n where "holders m q = Some n" "pData n = d" "q \<noteq> NULL"
    using b(2) by (auto simp: dseg_append split: option.splits)
  ultimately show ?thesis
    using b find_holder_dseg [OF b(2), of P] first_match_found [of P d ys q zs] assms
    by (simp add: get_matching_def)
qed

lemma get_matching_none:
  assumes rep: "chain_rep c m xs" and "\<forall>d \<in> snd ` set xs. \<not> P d"
  shows "get_matching c m (Some P) = kret NULL"
proof -
  from rep obtain b where b: "holders m (base_chain c) = Some b"
    "dseg (holders m) (base_chain c) (pNext b) xs NULL"
    by (auto elim: chain_repE)
  show ?thesis
    using b find_holder_dseg [OF b(2), of P] first_match_None [OF b(2) assms(2)]
    by (simp add: get_matching_def)
qed

lemma remove_matching_rep:
  assumes rep: "chain_rep c m (ys @ (q, d) # zs)" and P: "P d" "\<forall>d' \<in> snd ` set ys. \<not> P d'"
    and "sema c \<noteq> 0" "init_flag c \<noteq> 0"
  shows "\<exists>m'. remove_matching c m (Some P) = kret (d, c\<lparr>sz := sz c - 1\<rparr>, m') \<and>
              chain_rep (c\<lparr>sz := sz c - 1\<rparr>) m' (ys @ zs) \<and> holders m' q = None \<and>
              same_outside ({base_chain c} \<union> fst ` set (ys @ (q, d) # zs)) m m'"
proof -
  from rep obtain b where b: "holders m (base_chain c) = Some b"
    "dseg (holders m) (base_chain c) (pNext b) (ys @ (q, d) # zs) NULL"
    by (auto elim: chain_repE)
  have "pNext b \<noteq> NULL"
    using b(2) by (cases ys) (auto split: option.splits)
  moreover obtain n where "holders m q = Some n" "pData n = d" "q \<noteq> NULL"
    using b(2) by (auto simp: dseg_append split: option.splits)
  ultimately show ?thesis
    using b find_holder_dseg [OF b(2), of P] first_match_found [of P d ys q zs] P
      chain_unlink_rep [OF rep] assms
    by (auto simp: remove_matching_def)
qed

lemma remove_matching_none:
  assumes rep: "chain_rep c m xs" and "\<forall>d \<in> snd ` set xs. \<not> P d" and "sema c \<noteq> 0"
  shows "remove_matching c m (Some P) = kret (NULL, c, m)"
proof -
  from rep obtain b where b: "holders m (base_chain c) = Some b"
    "dseg (holders m) (base_chain c) (pNext b) xs NULL"
    by (auto elim: chain_repE)
  show ?thesis
    using b find_holder_dseg [OF b(2), of P] first_match_None [OF b(2) assms(2)] assms
    by (simp add: remove_matching_def)
qed

subsection \<open>Access by index\<close>

lemma index_below_text:
  fixes fn :: "64 word" and i :: s32
  assumes "2 ^ 63 \<le> fn" and "0 \<le> sint i"
  shows "\<not> fn \<le> scast i"
proof -
  have i: "sint i < 2 ^ 31"
    using sint_less [of i] by simp
  have "uint (scast i :: 64 word) = sint i mod 2 ^ 64"
    by (simp only: scast_eq uint_word_of_int) simp
  then have "uint (scast i :: 64 word) < 2 ^ 63"
    using i assms(2) by simp
  moreover have "2 ^ 63 \<le> uint fn"
    using assms(1) by (simp add: word_le_def)
  ultimately show ?thesis
    by (simp add: word_le_def)
qed

lemma chain_get_by_index_rep:
  assumes "chain_rep c m xs" and "0 \<le> sint i" and "nat (sint i) < length xs"
    and "\<not> fn \<le> scast i"
  shows "chain_get_by_index fn c m i = kret (snd (xs ! nat (sint i)))"
proof -
  from assms(1) obtain b where b: "holders m (base_chain c) = Some b"
    "dseg (holders m) (base_chain c) (pNext b) xs NULL"
    by (auto elim: chain_repE)
  have "pNext b \<noteq> NULL"
    using b(2) assms(3) by (cases xs) (auto split: option.splits)
  with b assms walk_dseg [OF b(2) assms(3)] dseg_nth [OF b(2) assms(3)] show ?thesis
    by (auto simp: chain_get_by_index_def)
qed

lemma chain_get_by_index_nat:
  assumes "chain_rep c m xs" "j < length xs" "length xs < 2 ^ 31" "2 ^ 63 \<le> fn"
  shows "chain_get_by_index fn c m (of_nat j) = kret (snd (xs ! j))"
proof -
  have s: "sint (of_nat j :: s32) = int j"
    using assms by (intro sint_of_nat_small) linarith
  have "\<not> fn \<le> scast (of_nat j :: s32)"
    by (rule index_below_text) (use assms s in auto)
  with chain_get_by_index_rep [OF assms(1), of "of_nat j"] s assms(2) show ?thesis by simp
qed

lemma chain_get_by_index_beyond:
  assumes "chain_rep c m xs" "xs \<noteq> []" "holders m NULL = None" "\<not> fn \<le> scast i"
    and "length xs < nat (sint i)"
  shows "chain_get_by_index fn c m i = kfail BadDeref"
proof -
  from assms(1) obtain b where b: "holders m (base_chain c) = Some b"
    "dseg (holders m) (base_chain c) (pNext b) xs NULL"
    by (auto elim: chain_repE)
  have "pNext b \<noteq> NULL"
    using b(2) assms(2) by (cases xs) (auto split: option.splits)
  with b assms walk_dseg_beyond [OF b(2)] show ?thesis
    by (auto simp: chain_get_by_index_def)
qed

section \<open>Initialisation and release\<close>

lemma chain_rep_mem: "holders m' = holders m \<Longrightarrow> chain_rep c m' xs = chain_rep c m xs"
  by (simp add: chain_rep_def cong: option.case_cong)

lemma chain_init_rep:
  assumes "holders m (base_chain c) = Some b" and "base_chain c \<noteq> NULL"
  shows "\<exists>c' m'. chain_init c m = kret (0, c', m') \<and> chain_rep c' m' [] \<and>
           base_chain c' = base_chain c \<and> sema c' = 1 \<and> init_flag c' = 1 \<and> peak_sz c' = 0 \<and>
           same_outside {base_chain c} m m'"
  using assms by (simp add: chain_init_def chain_rep_def same_outside_def)

lemma chain_remove_all_rep:
  assumes "chain_rep c m xs" and "distinct (map snd xs)"
    and "\<forall>d \<in> snd ` set xs. d \<noteq> NULL \<and> objs m d \<noteq> None"
  shows "\<exists>m'. chain_remove_all c m = kret (0, c\<lparr>sz := 0\<rparr>, m') \<and> chain_rep (c\<lparr>sz := 0\<rparr>) m' [] \<and>
           (\<forall>q \<in> fst ` set xs. holders m' q = None) \<and>
           (\<forall>q. q \<notin> insert (base_chain c) (fst ` set xs) \<longrightarrow> holders m' q = holders m q) \<and>
           objs m' = objs m |` (- snd ` set xs)"
  using assms
proof (induction xs arbitrary: c m)
  case Nil
  then obtain b where b: "holders m (base_chain c) = Some b" "pNext b = NULL"
    by (auto elim!: chain_repE)
  have eq: "c\<lparr>sz := 0\<rparr> = c" using Nil.prems(1) by (auto simp: chain_rep_def)
  show ?case
    unfolding eq using b Nil.prems(1)
    by (intro exI [of _ m]) (simp add: chain_remove_all.simps [of c m])
next
  case (Cons x xs)
  obtain q d where x: "x = (q, d)" by (cases x)
  from Cons.prems(1) x obtain b n where b: "holders m (base_chain c) = Some b" "pNext b = q" "q \<noteq> NULL"
    "holders m q = Some n" "pData n = d"
    by (auto elim!: chain_repE split: option.splits)
  define m0 where "m0 = m\<lparr>objs := (objs m)(d := None)\<rparr>"
  have free: "kfree_obj m d = kret m0"
    using Cons.prems(3) x by (simp add: kfree_obj_def m0_def)
  have "chain_rep c m0 ((q, d) # xs)"
    using Cons.prems(1) x chain_rep_mem [of m0 m] by (simp add: m0_def)
  from chain_remove_rep [OF this] obtain m1 where m1:
    "chain_remove c m0 = kret (0, c\<lparr>sz := sz c - 1\<rparr>, m1)" "chain_rep (c\<lparr>sz := sz c - 1\<rparr>) m1 xs"
    "holders m1 q = None" "same_outside ({base_chain c, q} \<union> fst ` set xs) m0 m1"
    by blast
  have o1: "objs m1 = (objs m)(d := None)" using m1(4) by (simp add: same_outside_def m0_def)
  have "\<forall>d \<in> snd ` set xs. d \<noteq> NULL \<and> objs m1 d \<noteq> None"
    using Cons.prems(2,3) x by (auto simp: o1)
  with Cons.IH [OF m1(2)] Cons.prems(2) obtain m' where m':
    "chain_remove_all (c\<lparr>sz := sz c - 1\<rparr>) m1 = kret (0, c\<lparr>sz := 0\<rparr>, m')"
    "chain_rep (c\<lparr>sz := 0\<rparr>) m' []" "\<forall>q \<in> fst ` set xs. holders m' q = None"
    "\<forall>q. q \<notin> insert (base_chain c) (fst ` set xs) \<longrightarrow> holders m' q = holders m1 q"
    "objs m' = objs m1 |` (- snd ` set xs)"
    by auto
  have run: "chain_remove_all c m = kret (0, c\<lparr>sz := 0\<rparr>, m')"
    using b free m1(1) m'(1) by (simp add: chain_remove_all.simps [of c m])
  have "q \<notin> insert (base_chain c) (fst ` set xs)"
    using Cons.prems(1) x by (simp add: chain_rep_def)
  then have "holders m' q = None" using m'(4) m1(3) by simp
  moreover have "\<forall>r. r \<notin> insert (base_chain c) (fst ` set (x # xs)) \<longrightarrow> holders m' r = holders m r"
    using m'(4) m1(4) x by (simp add: same_outside_def m0_def)
  moreover have "objs m' = objs m |` (- snd ` set (x # xs))"
    unfolding m'(5) o1 x by (rule ext) (auto simp: restrict_map_def)
  ultimately show ?case using run m'(2,3) x by auto
qed

section \<open>The chain as a kernel queue\<close>

definition chain_list :: "chain \<times> 'd kmem \<Rightarrow> ptr list \<Rightarrow> bool" where
  "chain_list s ds \<longleftrightarrow>
     (\<exists>xs. chain_rep (fst s) (snd s) xs \<and> map snd xs = ds) \<and> sema (fst s) \<noteq> 0 \<and> init_flag (fst s) \<noteq> 0"

lemma fresh_same_outside:
  assumes "chain_rep c m xs" "same_outside ({base_chain c, p} \<union> fst ` set xs) m m'"
    and "fresh_ptr m q" "q \<noteq> p"
  shows "fresh_ptr m' q"
proof -
  from assms(1) obtain b where b: "holders m (base_chain c) = Some b"
    "dseg (holders m) (base_chain c) (pNext b) xs NULL"
    by (auto elim: chain_repE)
  have "q \<noteq> base_chain c" "q \<notin> fst ` set xs"
    using assms(3) b(1) dseg_live [OF b(2), of q] by (auto simp: fresh_ptr_def)
  with assms show ?thesis by (auto simp: fresh_ptr_def same_outside_def)
qed

interpretation chain_fifo: kernel_queue
  "chain_list" "\<lambda>s. fresh_ptr (snd s)"
  "\<lambda>s p d. chain_put (fst s) (snd s) p d" "\<lambda>s. chain_get (fst s) (snd s)"
proof (unfold_locales, goal_cases)
  case (1 s ds p d)
  then obtain xs where xs: "chain_rep (fst s) (snd s) xs" "map snd xs = ds"
    "sema (fst s) \<noteq> 0" "init_flag (fst s) \<noteq> 0"
    by (auto simp: chain_list_def)
  from chain_put_rep [OF xs(1) 1(2) xs(3,4), of d] obtain m' where m':
    "chain_put (fst s) (snd s) p d = kret (0, grown (fst s), m')"
    "chain_rep (grown (fst s)) m' (xs @ [(p, d)])"
    "same_outside ({base_chain (fst s), p} \<union> fst ` set xs) (snd s) m'"
    by blast
  have "\<forall>q. fresh_ptr (snd s) q \<longrightarrow> q \<noteq> p \<longrightarrow> fresh_ptr m' q"
    using fresh_same_outside [OF xs(1) m'(3)] by blast
  moreover have "chain_list (grown (fst s), m') (ds @ [d])"
    unfolding chain_list_def using m'(2) xs(2,3,4)
    by (auto intro!: exI [of _ "xs @ [(p, d)]"])
  ultimately show ?case using m'(1) by auto
next
  case (2 s ds d)
  then show ?case by (simp add: chain_put_nomem chain_list_def)
next
  case (3 s)
  then show ?case by (auto simp: chain_list_def chain_get_empty)
next
  case (4 s d ds)
  then obtain q xs where xs: "chain_rep (fst s) (snd s) ((q, d) # xs)" "map snd xs = ds"
    "sema (fst s) \<noteq> 0" "init_flag (fst s) \<noteq> 0"
    by (auto simp: chain_list_def)
  from chain_get_rep [OF xs(1,3,4)] obtain m' where
    "chain_get (fst s) (snd s) = kret (d, (fst s)\<lparr>sz := sz (fst s) - 1\<rparr>, m')"
    "chain_rep ((fst s)\<lparr>sz := sz (fst s) - 1\<rparr>) m' xs"
    by blast
  with xs show ?case by (auto simp: chain_list_def)
qed

section \<open>Properties\<close>

lemma grown_peak: "sint (peak_sz (grown c)) = max (sint (peak_sz c)) (sint (sz (grown c)))"
  by (simp add: grown_def Let_def max_def)

text \<open>A chain right after \<open>chain_init\<close> and a chain with two elements, for the witnesses.\<close>

definition ex_chain :: chain where
  "ex_chain = \<lparr>base_chain = 1, sz = 0, peak_sz = 0, init_flag = 1, sema = 1\<rparr>"

definition ex_mem :: "string kmem" where
  "ex_mem = \<lparr>holders = [1 \<mapsto> \<lparr>pData = 0, pPrev = 0, pNext = 0\<rparr>], objs = Map.empty, irq_on = True\<rparr>"

definition ex_chain2 :: chain where
  "ex_chain2 = \<lparr>base_chain = 1, sz = 2, peak_sz = 2, init_flag = 1, sema = 1\<rparr>"

definition ex_mem2 :: "string kmem" where
  "ex_mem2 = \<lparr>holders = [1 \<mapsto> \<lparr>pData = 0, pPrev = 0, pNext = 2\<rparr>,
                        2 \<mapsto> \<lparr>pData = 20, pPrev = 1, pNext = 3\<rparr>,
                        3 \<mapsto> \<lparr>pData = 30, pPrev = 2, pNext = 0\<rparr>],
             objs = [20 \<mapsto> ''a'', 30 \<mapsto> ''b''], irq_on = True\<rparr>"

lemma ex_rep:
  "chain_rep ex_chain ex_mem []" "chain_rep ex_chain2 ex_mem2 [(2, 20), (3, 30)]"
  by (simp_all add: chain_rep_def ex_chain_def ex_mem_def ex_chain2_def ex_mem2_def)

text \<open>
  Property C1: on a live, unlocked, well-formed chain, \<open>chain_put\<close> with a fresh holder returns 0,
  appends the payload at the tail of the doubly linked list (both directions linked), gives the
  semaphore back, updates the peak size to the maximum of the old peak and the new size, and changes
  no holder outside the chain and no client object.
\<close>

theorem chain_put_appends:
  assumes "chain_rep c m xs" and "fresh_ptr m p" and "sema c \<noteq> 0" and "init_flag c \<noteq> 0"
  shows "\<exists>c' m'. chain_put c m p d = kret (0, c', m') \<and> chain_rep c' m' (xs @ [(p, d)]) \<and>
           base_chain c' = base_chain c \<and> sema c' = sema c \<and> init_flag c' = init_flag c \<and>
           sint (peak_sz c') = max (sint (peak_sz c)) (sint (sz c')) \<and>
           same_outside ({base_chain c, p} \<union> fst ` set xs) m m'"
  using chain_put_rep [OF assms, of d] by (auto simp: grown_peak)

theorem chain_put_appends_witness:
  "\<exists>c' m'. chain_put ex_chain2 ex_mem2 4 40 = kret (0, c', m') \<and>
           chain_rep c' m' [(2, 20), (3, 30), (4, 40)] \<and> sema c' = 1"
  using chain_put_appends [OF ex_rep(2), of 4 40]
  by (auto simp: fresh_ptr_def ex_chain2_def ex_mem2_def)

text \<open>
  Fact: first in, first out. Starting from an empty chain, putting any payloads (with
  pairwise different fresh holders) and then getting as many times returns exactly these payloads in
  the order they were put, after which the chain is empty and a further get returns \<open>NULL\<close>.
\<close>

theorem chain_put_get_fifo:
  assumes "chain_list s []" and "distinct (map fst pds)" and "\<forall>p \<in> fst ` set pds. fresh_ptr (snd s) p"
  shows "\<exists>s' s''. put_all (\<lambda>s p d. chain_put (fst s) (snd s) p d) s pds = kret s' \<and>
           get_n (\<lambda>s. chain_get (fst s) (snd s)) (length pds) s' = kret (map snd pds, s'') \<and>
           chain_list s'' [] \<and> chain_get (fst s'') (snd s'') = kret (NULL, s'')"
  by (rule chain_fifo.fifo [OF assms])

theorem chain_put_get_fifo_witness:
  "\<exists>s' s''. put_all (\<lambda>s p d. chain_put (fst s) (snd s) p d) (ex_chain, ex_mem) [(5, 50), (6, 60)] = kret s' \<and>
     get_n (\<lambda>s. chain_get (fst s) (snd s)) 2 s' = kret ([50, 60], s'')"
proof -
  have e: "chain_list (ex_chain, ex_mem) []"
    using ex_rep(1) by (auto simp: chain_list_def ex_chain_def)
  show ?thesis
    using chain_put_get_fifo [OF e, of "[(5, 50), (6, 60)]"]
    by (auto simp: fresh_ptr_def ex_mem_def numeral_2_eq_2)
qed

text \<open>
  Fact: \<open>chain_remove_by_ident\<close> returns the payload of the first holder the callback accepts,
  removes exactly that holder from the list (the order of the others is kept, the holder is freed),
  and gives the semaphore back.
\<close>

theorem chain_remove_by_ident_first:
  assumes "chain_rep c m (ys @ (q, d) # zs)" and "f m d ident = 0"
    and "\<forall>d' \<in> snd ` set ys. f m d' ident \<noteq> 0" and "sema c \<noteq> 0" and "init_flag c \<noteq> 0"
  shows "\<exists>c' m'. chain_remove_by_ident c m ident (Some f) = kret (d, c', m') \<and>
           chain_rep c' m' (ys @ zs) \<and> sema c' = sema c \<and> holders m' q = None \<and> objs m' = objs m"
  using remove_matching_rep [OF assms(1), of "\<lambda>d. f m d ident = 0"] assms
  by (auto simp: chain_remove_by_ident_def same_outside_def)

theorem chain_remove_by_ident_first_witness:
  "\<exists>c' m'. chain_remove_by_ident ex_chain2 ex_mem2 30
       (Some (\<lambda>m d i. if i = of_nat d then 0 else 1)) = kret (30, c', m') \<and>
     chain_rep c' m' [(2, 20)]"
  using chain_remove_by_ident_first
    [where ys = "[(2, 20)]" and q = 3 and d = 30 and zs = "[]" and c = ex_chain2 and m = ex_mem2
       and f = "\<lambda>m d i. if i = of_nat d then 0 else 1" and ident = 30]
    ex_rep(2)
  by (auto simp: ex_chain2_def)

text \<open>
  Property C40: \<open>chain_release\<close> on a well-formed chain whose payloads are live and pairwise different
  returns 0 (the loop ends and nothing faults), frees every holder and every payload, marks the
  chain released, gives the semaphore back, and leaves all other memory alone; afterwards
  \<open>chain_put\<close> fails with -1 and \<open>chain_get\<close> returns \<open>NULL\<close>.
\<close>

theorem chain_release_frees:
  assumes "chain_rep c m xs" and "distinct (map snd xs)" and "sema c \<noteq> 0"
    and "\<forall>d \<in> snd ` set xs. d \<noteq> NULL \<and> objs m d \<noteq> None"
  shows "\<exists>c' m'. chain_release c m = kret (0, c', m') \<and> init_flag c' = 0 \<and> sema c' = sema c \<and>
           chain_rep c' m' [] \<and> (\<forall>q \<in> fst ` set xs. holders m' q = None) \<and>
           (\<forall>q. q \<notin> insert (base_chain c) (fst ` set xs) \<longrightarrow> holders m' q = holders m q) \<and>
           objs m' = objs m |` (- snd ` set xs) \<and>
           (\<forall>p d. chain_put c' m' p d = kret (-1, c', m')) \<and> chain_get c' m' = kret (NULL, c', m')"
proof -
  let ?c = "c\<lparr>sema := sema c - 1\<rparr>"
  from chain_remove_all_rep [of ?c m xs] assms obtain m' where m':
    "chain_remove_all ?c m = kret (0, ?c\<lparr>sz := 0\<rparr>, m')" "chain_rep (?c\<lparr>sz := 0\<rparr>) m' []"
    "\<forall>q \<in> fst ` set xs. holders m' q = None"
    "\<forall>q. q \<notin> insert (base_chain c) (fst ` set xs) \<longrightarrow> holders m' q = holders m q"
    "objs m' = objs m |` (- snd ` set xs)"
    by auto
  define c' where "c' = up (?c\<lparr>sz := 0, init_flag := 0\<rparr>)"
  have "chain_rep c' m' []"
    using m'(2) by (simp add: c'_def)
  moreover have "chain_release c m = kret (0, c', m')"
    using assms(3) m'(1) by (simp add: chain_release_def c'_def)
  moreover have "init_flag c' = 0" "sema c' = sema c"
    using assms(3) by (simp_all add: c'_def)
  ultimately show ?thesis
    using m' assms(3) by (auto simp: chain_put_released chain_get_released)
qed

theorem chain_release_frees_witness:
  "\<exists>c' m'. chain_release ex_chain2 ex_mem2 = kret (0, c', m') \<and> init_flag c' = 0 \<and>
           holders m' 2 = None \<and> holders m' 3 = None \<and> objs m' 20 = None"
  using chain_release_frees [OF ex_rep(2)]
  by (auto simp: ex_chain2_def ex_mem2_def)

text \<open>
  Fact: the bounds check of \<open>chain_get_by_index\<close> is dead. Since it compares the index with the
  address of the function \<open>chain_size\<close> (a kernel text address, in the upper half of the address
  space), every index beyond the length of a non-empty chain walks over the end and dereferences
  \<open>NULL\<close>; an index below the length returns the payload at that position.
\<close>

theorem chain_get_by_index_unchecked:
  assumes "chain_rep c m xs" and "xs \<noteq> []" and "holders m NULL = None"
    and "2 ^ 63 \<le> fn" and "0 \<le> sint i"
  shows "chain_get_by_index fn c m i =
           (if nat (sint i) < length xs then kret (snd (xs ! nat (sint i)))
            else if nat (sint i) = length xs then kret NULL else kfail BadDeref)"
proof -
  have dead: "\<not> fn \<le> scast i"
    by (rule index_below_text [OF assms(4,5)])
  from assms(1) obtain b where b: "holders m (base_chain c) = Some b"
    "dseg (holders m) (base_chain c) (pNext b) xs NULL"
    by (auto elim: chain_repE)
  have end_case: "nat (sint i) = length xs \<Longrightarrow> chain_get_by_index fn c m i = kret NULL"
    using b dead walk_dseg_end [OF b(2)] by (simp add: chain_get_by_index_def)
  show ?thesis
    using chain_get_by_index_rep [OF assms(1,5) _ dead] end_case
      chain_get_by_index_beyond [OF assms(1-3) dead]
    by auto
qed

theorem chain_get_by_index_unchecked_witness:
  "chain_get_by_index 0xffffffff81000000 ex_chain2 ex_mem2 1 = kret 30 \<and>
   chain_get_by_index 0xffffffff81000000 ex_chain2 ex_mem2 3 = kfail BadDeref"
  using chain_get_by_index_unchecked [OF ex_rep(2), of "0xffffffff81000000" 1]
    chain_get_by_index_unchecked [OF ex_rep(2), of "0xffffffff81000000" 3]
  by (simp add: ex_mem2_def)

end
