(* ===== verification/Sl_Chain.thy ===== *)
theory Sl_Chain
  imports Chain
begin

text \<open>
  The spinlock-protected chain of \<open>src/sources/kmods/genintrdrv/kmod/sl_chain.c\<close>. Its operations run
  with interrupts disabled and restore the interrupt flag; the theorems relate each of them to the
  semaphore chain and show that lock and flag are always given back.
\<close>

section \<open>The structure and its lock\<close>

record sl_chain =
  sl_base_chain :: ptr
  sl_sz :: s32
  sl_peak_sz :: s32
  sl_init_flag :: u8
  sl :: bool

text \<open>\<open>spin_lock_irqsave\<close> saves and clears the interrupt flag; a lock that is already held on this
  CPU is never released, so the call spins for ever.\<close>

definition spin_lock_irqsave :: "sl_chain \<Rightarrow> 'd kmem \<Rightarrow> (bool \<times> sl_chain \<times> 'd kmem) kres" where
  "spin_lock_irqsave c m =
     (if sl c then khang else kret (irq_on m, c\<lparr>sl := True\<rparr>, m\<lparr>irq_on := False\<rparr>))"

definition spin_unlock_irqrestore :: "sl_chain \<Rightarrow> 'd kmem \<Rightarrow> bool \<Rightarrow> sl_chain \<times> 'd kmem" where
  "spin_unlock_irqrestore c m flags = (c\<lparr>sl := False\<rparr>, m\<lparr>irq_on := flags\<rparr>)"

definition sl_chain_lock :: "sl_chain \<Rightarrow> 'd kmem \<Rightarrow> (bool \<times> sl_chain \<times> 'd kmem) kres" where
  "sl_chain_lock c m = spin_lock_irqsave c m"

definition sl_chain_unlock :: "sl_chain \<Rightarrow> 'd kmem \<Rightarrow> bool \<Rightarrow> sl_chain \<times> 'd kmem" where
  "sl_chain_unlock c m flags = spin_unlock_irqrestore c m flags"

section \<open>Operations\<close>

definition sl_chain_init :: "sl_chain \<Rightarrow> 'd kmem \<Rightarrow> (int \<times> sl_chain \<times> 'd kmem) kres" where
  "sl_chain_init c m =
     kbind (set_pNext m (sl_base_chain c) NULL) (\<lambda>m.
     kret (0, c\<lparr>sl_sz := 0, sl_peak_sz := 0, sl_init_flag := 1, sl := False\<rparr>, m))"

text \<open>\<open>p\<close> is the answer of \<open>kmalloc(sizeof(struct chain_holder), GFP_ATOMIC)\<close>.\<close>

definition sl_chain_add :: "sl_chain \<Rightarrow> 'd kmem \<Rightarrow> ptr \<Rightarrow> ptr \<Rightarrow> (int \<times> sl_chain \<times> 'd kmem) kres" where
  "sl_chain_add c m p data =
     (if p = NULL then kret (-1, c, m)
      else
        kbind (last_holder (holders m) (sl_base_chain c)) (\<lambda>pHolder.
        kbind (set_pNext m pHolder p) (\<lambda>m.
        let m = put_holder m p \<lparr>pData = data, pPrev = pHolder, pNext = NULL\<rparr>;
            c = c\<lparr>sl_sz := sl_sz c + 1\<rparr>;
            c = (if sint (sl_peak_sz c) < sint (sl_sz c) then c\<lparr>sl_peak_sz := sl_sz c\<rparr> else c)
        in kret (0, c, m))))"

definition sl_chain_put :: "sl_chain \<Rightarrow> 'd kmem \<Rightarrow> ptr \<Rightarrow> ptr \<Rightarrow> (int \<times> sl_chain \<times> 'd kmem) kres" where
  "sl_chain_put c m p data =
     kbind (spin_lock_irqsave c m) (\<lambda>(flags, c, m).
     if sl_init_flag c = 0 then kret (-1, spin_unlock_irqrestore c m flags)
     else kbind (sl_chain_add c m p data) (\<lambda>(iRet, c, m).
          kret (iRet, spin_unlock_irqrestore c m flags)))"

definition sl_chain_remove :: "sl_chain \<Rightarrow> 'd kmem \<Rightarrow> (int \<times> sl_chain \<times> 'd kmem) kres" where
  "sl_chain_remove c m =
     kbind (deref m (sl_base_chain c)) (\<lambda>b.
     if pNext b = NULL then kret (-1, c, m)
     else kbind (chain_unlink m (pNext b)) (\<lambda>m. kret (0, c\<lparr>sl_sz := sl_sz c - 1\<rparr>, m)))"

partial_function (option) sl_chain_remove_all ::
  "sl_chain \<Rightarrow> 'd kmem \<Rightarrow> (int \<times> sl_chain \<times> 'd kmem) kres" where
  "sl_chain_remove_all c m =
     kbind (deref m (sl_base_chain c)) (\<lambda>b.
     if pNext b = NULL then kret (0, c, m)
     else
       kbind (deref m (pNext b)) (\<lambda>n.
       kbind (kfree_obj m (pData n)) (\<lambda>m.
       kbind (sl_chain_remove c m) (\<lambda>r. sl_chain_remove_all (fst (snd r)) (snd (snd r))))))"

definition sl_chain_release :: "sl_chain \<Rightarrow> 'd kmem \<Rightarrow> (int \<times> sl_chain \<times> 'd kmem) kres" where
  "sl_chain_release c m =
     kbind (spin_lock_irqsave c m) (\<lambda>(flags, c, m).
     kbind (sl_chain_remove_all c m) (\<lambda>(_, c, m).
     kret (0, spin_unlock_irqrestore (c\<lparr>sl_init_flag := 0\<rparr>) m flags)))"

definition sl_chain_get_top :: "sl_chain \<Rightarrow> 'd kmem \<Rightarrow> (ptr \<times> sl_chain \<times> 'd kmem) kres" where
  "sl_chain_get_top c m =
     kbind (spin_lock_irqsave c m) (\<lambda>(flags, c, m).
     if sl_init_flag c = 0 then kret (NULL, spin_unlock_irqrestore c m flags)
     else
       kbind (deref m (sl_base_chain c)) (\<lambda>b.
       if pNext b = NULL then kret (NULL, spin_unlock_irqrestore c m flags)
       else kbind (deref m (pNext b)) (\<lambda>n. kret (pData n, spin_unlock_irqrestore c m flags))))"

definition sl_chain_get :: "sl_chain \<Rightarrow> 'd kmem \<Rightarrow> (ptr \<times> sl_chain \<times> 'd kmem) kres" where
  "sl_chain_get c m =
     kbind (spin_lock_irqsave c m) (\<lambda>(flags, c, m).
     if sl_init_flag c = 0 then kret (NULL, spin_unlock_irqrestore c m flags)
     else
       kbind (deref m (sl_base_chain c)) (\<lambda>b.
       if pNext b = NULL then kret (NULL, spin_unlock_irqrestore c m flags)
       else
         kbind (deref m (pNext b)) (\<lambda>n.
         kbind (sl_chain_remove c m) (\<lambda>(_, c, m).
         kret (pData n, spin_unlock_irqrestore c m flags)))))"

definition sl_chain_size :: "sl_chain \<Rightarrow> 'd kmem \<Rightarrow> (s32 \<times> sl_chain \<times> 'd kmem) kres" where
  "sl_chain_size c m =
     kbind (spin_lock_irqsave c m) (\<lambda>(flags, c, m). kret (sl_sz c, spin_unlock_irqrestore c m flags))"

definition sl_chain_peak_size :: "sl_chain \<Rightarrow> 'd kmem \<Rightarrow> (s32 \<times> sl_chain \<times> 'd kmem) kres" where
  "sl_chain_peak_size c m =
     kbind (spin_lock_irqsave c m) (\<lambda>(flags, c, m).
     kret (sl_peak_sz c, spin_unlock_irqrestore c m flags))"

definition sl_chain_remove_by_ident ::
  "sl_chain \<Rightarrow> 'd kmem \<Rightarrow> s32 \<Rightarrow> 'd datIdfunc \<Rightarrow> (ptr \<times> sl_chain \<times> 'd kmem) kres" where
  "sl_chain_remove_by_ident c m ident f =
     kbind (spin_lock_irqsave c m) (\<lambda>(flags, c, m).
     kbind (deref m (sl_base_chain c)) (\<lambda>b.
     if sl_init_flag c = 0 then kret (NULL, spin_unlock_irqrestore c m flags)
     else if pNext b = NULL then kret (NULL, spin_unlock_irqrestore c m flags)
     else case f of None \<Rightarrow> kret (NULL, spin_unlock_irqrestore c m flags)
     | Some g \<Rightarrow>
         kbind (find_holder (\<lambda>d. g m d ident = 0) (holders m) (pNext b)) (\<lambda>pHolder.
         if pHolder = NULL then kret (NULL, spin_unlock_irqrestore c m flags)
         else
           kbind (deref m pHolder) (\<lambda>n.
           kbind (chain_unlink m pHolder) (\<lambda>m.
           kret (pData n, spin_unlock_irqrestore (c\<lparr>sl_sz := sl_sz c - 1\<rparr>) m flags))))))"

definition sl_chain_get_by_double_ident ::
  "sl_chain \<Rightarrow> 'd kmem \<Rightarrow> s32 \<Rightarrow> s32 \<Rightarrow> 'd dbdatIdfunc \<Rightarrow> ptr kres" where
  "sl_chain_get_by_double_ident c m ident1 ident2 f =
     kbind (deref m (sl_base_chain c)) (\<lambda>b.
     if pNext b = NULL then kret NULL
     else case f of None \<Rightarrow> kret NULL
     | Some g \<Rightarrow>
         kbind (find_holder (\<lambda>d. g m d ident1 ident2 = 0) (holders m) (pNext b)) (\<lambda>pHolder.
         if pHolder = NULL then kret NULL
         else kbind (deref m pHolder) (\<lambda>n. kret (pData n))))"

section \<open>The semaphore chain as its specification\<close>

definition sem_of :: "sl_chain \<Rightarrow> chain" where
  "sem_of c = \<lparr>base_chain = sl_base_chain c, sz = sl_sz c, peak_sz = sl_peak_sz c,
               init_flag = sl_init_flag c, sema = (if sl c then 0 else 1)\<rparr>"

definition of_sem :: "bool \<Rightarrow> chain \<Rightarrow> sl_chain" where
  "of_sem l c = \<lparr>sl_base_chain = base_chain c, sl_sz = sz c, sl_peak_sz = peak_sz c,
                 sl_init_flag = init_flag c, sl = l\<rparr>"

lemma sem_of_simps [simp]:
  "base_chain (sem_of c) = sl_base_chain c" "sz (sem_of c) = sl_sz c"
  "peak_sz (sem_of c) = sl_peak_sz c" "init_flag (sem_of c) = sl_init_flag c"
  "sema (sem_of c) = (if sl c then 0 else 1)"
  by (simp_all add: sem_of_def)

lemma of_sem_simps [simp]:
  "sl_base_chain (of_sem l c) = base_chain c" "sl_sz (of_sem l c) = sz c"
  "sl_peak_sz (of_sem l c) = peak_sz c" "sl_init_flag (of_sem l c) = init_flag c"
  "sl (of_sem l c) = l" "of_sem (sl d) (sem_of d) = d"
  by (simp_all add: of_sem_def sem_of_def)

text \<open>A result of a chain operation, seen as a result of the spinlock chain that left the lock free
  and the interrupt flag at \<open>i\<close>.\<close>

definition as_sl :: "bool \<Rightarrow> ('a \<times> chain \<times> 'd kmem) kres \<Rightarrow> ('a \<times> sl_chain \<times> 'd kmem) kres" where
  "as_sl i r = kbind r (\<lambda>(x, c, m). kret (x, of_sem False c, m\<lparr>irq_on := i\<rparr>))"

lemma as_sl_kret [simp]: "as_sl i (kret (x, c, m)) = kret (x, of_sem False c, m\<lparr>irq_on := i\<rparr>)"
  by (simp add: as_sl_def)

lemma spin_lock_free [simp]:
  "\<not> sl c \<Longrightarrow> spin_lock_irqsave c m = kret (irq_on m, c\<lparr>sl := True\<rparr>, m\<lparr>irq_on := False\<rparr>)"
  by (simp add: spin_lock_irqsave_def)

lemmas sl_unfold = as_sl_def kbind_assoc kbind_if spin_unlock_irqrestore_def of_sem_def sem_of_def up_def Let_def

lemma sl_chain_put_eq:
  assumes "\<not> sl c"
  shows "sl_chain_put c m p d = as_sl (irq_on m) (chain_put (sem_of c) (m\<lparr>irq_on := False\<rparr>) p d)"
  using assms
  by (auto simp: sl_chain_put_def chain_put_def sl_chain_add_def chain_add_def sl_unfold
      intro!: kbind_cong)

lemma sl_chain_remove_eq:
  "sl_chain_remove c m =
     kbind (chain_remove (sem_of c) m) (\<lambda>(r, c', m). kret (r, of_sem (sl c) c', m))"
  by (auto simp: sl_chain_remove_def chain_remove_def sl_unfold intro!: kbind_cong)

lemma sl_chain_get_eq:
  assumes "\<not> sl c"
  shows "sl_chain_get c m = as_sl (irq_on m) (chain_get (sem_of c) (m\<lparr>irq_on := False\<rparr>))"
  using assms
  by (auto simp: sl_chain_get_def chain_get_def sl_chain_remove_def chain_remove_def sl_unfold
      intro!: kbind_cong)

lemma sl_chain_remove_by_ident_eq:
  assumes "\<not> sl c"
  shows "sl_chain_remove_by_ident c m ident f =
           as_sl (irq_on m) (chain_remove_by_ident (sem_of c) (m\<lparr>irq_on := False\<rparr>) ident f)"
  using assms
  by (auto simp: sl_chain_remove_by_ident_def chain_remove_by_ident_def remove_matching_def sl_unfold
      split: option.split intro!: kbind_cong)

lemma chain_remove_sema: "chain_remove c m = kret (x, c', m') \<Longrightarrow> sema c' = sema c"
  by (auto simp: chain_remove_def kbind_eq_kret split: if_splits)

lemma sem_of_of_sem: "sema c = (if l then 0 else 1) \<Longrightarrow> sem_of (of_sem l c) = c"
  by (simp add: sem_of_def of_sem_def)

text \<open>The release loop: whenever the semaphore chain's loop returns, so does this one, alike.\<close>

lemma sl_chain_remove_all_eq:
  assumes ret: "chain_remove_all s m = Some r" and "s = sem_of c"
  shows "sl_chain_remove_all c m = kbind (Some r) (\<lambda>(x, c', m'). kret (x, of_sem (sl c) c', m'))"
  using assms(2)
proof (induction arbitrary: c rule: chain_remove_all.raw_induct [OF _ ret, consumes 0, case_names step])
  case (step loop s m r)
  note body = step(2) and s = step(3)
  note unfold_sl = sl_chain_remove_all.simps [of c m]
  show ?case
  proof (cases "holders m (sl_base_chain c)")
    case None
    with body show ?thesis by (auto simp: unfold_sl s kres_Some)
  next
    case (Some b)
    note b = Some
    show ?thesis
    proof (cases "pNext b = NULL \<or> holders m (pNext b) = None")
      case True
      with body b show ?thesis by (auto simp: unfold_sl s kres_Some)
    next
      case False
      then obtain n where n: "pNext b \<noteq> NULL" "holders m (pNext b) = Some n" by auto
      with body b have body': "kbind (kfree_obj m (pData n)) (\<lambda>m. kbind (chain_remove s m)
          (\<lambda>r. loop (fst (snd r)) (snd (snd r)))) = Some r"
        by (simp add: s)
      have rest: "kbind (chain_remove s m1) (\<lambda>r. loop (fst (snd r)) (snd (snd r))) = Some r \<Longrightarrow>
          kbind (sl_chain_remove c m1) (\<lambda>r. sl_chain_remove_all (fst (snd r)) (snd (snd r))) =
          kbind (Some r) (\<lambda>(x, c', m'). kret (x, of_sem (sl c) c', m'))" for m1
      proof (cases "chain_remove s m1" rule: kres_cases)
        case (ret t)
        obtain x c' m' where t: "t = (x, c', m')" by (cases t)
        have "c' = sem_of (of_sem (sl c) c')"
          using chain_remove_sema [of s m1 x c' m'] ret t s by (simp add: sem_of_of_sem)
        moreover assume "kbind (chain_remove s m1) (\<lambda>r. loop (fst (snd r)) (snd (snd r))) = Some r"
        ultimately show ?thesis
          using step(1) [of c' m' r "of_sem (sl c) c'"] ret t s
          by (simp add: sl_chain_remove_eq kbind_assoc)
      qed (auto simp: sl_chain_remove_eq s kbind_assoc kres_Some)
      show ?thesis
      proof (cases "kfree_obj m (pData n)" rule: kres_cases)
        case (ret m1)
        with body' rest [of m1] b n show ?thesis by (simp add: unfold_sl)
      qed (use body' b n in \<open>auto simp: unfold_sl kres_Some\<close>)
    qed
  qed
qed

lemma sl_chain_release_eq:
  assumes "\<not> sl c" and "chain_release (sem_of c) (m\<lparr>irq_on := False\<rparr>) \<noteq> khang"
  shows "sl_chain_release c m = as_sl (irq_on m) (chain_release (sem_of c) (m\<lparr>irq_on := False\<rparr>))"
proof -
  let ?s = "(sem_of c)\<lparr>sema := 0\<rparr>" and ?m = "m\<lparr>irq_on := False\<rparr>"
  have s: "?s = sem_of (c\<lparr>sl := True\<rparr>)" by (simp add: sem_of_def)
  have "chain_remove_all ?s ?m \<noteq> khang"
    using assms by (auto simp: chain_release_def)
  then obtain r where r: "chain_remove_all ?s ?m = Some r" by (auto simp: khang_def)
  from sl_chain_remove_all_eq [OF this s] r assms(1) show ?thesis
    by (cases r)
      (auto simp: sl_chain_release_def chain_release_def as_sl_def kres_Some up_def of_sem_def
         spin_unlock_irqrestore_def)
qed

section \<open>The spinlock chain as a kernel queue\<close>

definition sl_chain_list :: "sl_chain \<times> 'd kmem \<Rightarrow> ptr list \<Rightarrow> bool" where
  "sl_chain_list s ds \<longleftrightarrow> chain_list (sem_of (fst s), snd s) ds"

lemma chain_list_irq [simp]: "chain_list (c, m\<lparr>irq_on := b\<rparr>) ds = chain_list (c, m) ds"
  by (simp add: chain_list_def chain_rep_mem [of "m\<lparr>irq_on := b\<rparr>" m])

lemma fresh_ptr_irq [simp]: "fresh_ptr (m\<lparr>irq_on := b\<rparr>) p = fresh_ptr m p"
  by (simp add: fresh_ptr_def)

lemma sl_chain_list_free: "sl_chain_list s ds \<Longrightarrow> \<not> sl (fst s)"
  by (auto simp: sl_chain_list_def chain_list_def split: if_splits)

lemma of_sem_sem_of [simp]: "\<not> sl c \<Longrightarrow> of_sem False (sem_of c) = c"
  by (simp add: of_sem_def sem_of_def)

lemma chain_list_sem_of: "chain_list (c, m) ds \<Longrightarrow> chain_list (sem_of (of_sem False c), m) ds"
  by (auto simp: chain_list_def chain_rep_cong [of "sem_of (of_sem False c)" c])

interpretation sl_chain_fifo: kernel_queue
  "sl_chain_list" "\<lambda>s. fresh_ptr (snd s)"
  "\<lambda>s p d. sl_chain_put (fst s) (snd s) p d" "\<lambda>s. sl_chain_get (fst s) (snd s)"
proof (unfold_locales, goal_cases)
  case (1 s ds p d)
  let ?t = "(sem_of (fst s), (snd s)\<lparr>irq_on := False\<rparr>)"
  have "chain_list ?t ds" "fresh_ptr (snd ?t) p"
    using 1 by (simp_all add: sl_chain_list_def)
  from chain_fifo.put_ok [OF this, of d] obtain c' m' where
    "chain_put (fst ?t) (snd ?t) p d = kret (0, c', m')" "chain_list (c', m') (ds @ [d])"
    "\<forall>q. fresh_ptr (snd s) q \<longrightarrow> q \<noteq> p \<longrightarrow> fresh_ptr m' q"
    by auto
  then show ?case
    using sl_chain_put_eq [of "fst s" "snd s" p d] sl_chain_list_free [OF 1(1)] chain_list_sem_of
    by (auto simp: sl_chain_list_def)
next
  case (2 s ds d)
  then show ?case
    using sl_chain_list_free [OF 2] sl_chain_put_eq [of "fst s" "snd s" NULL d]
    by (simp add: chain_put_nomem)
next
  case (3 s)
  then have "chain_list (sem_of (fst s), (snd s)\<lparr>irq_on := False\<rparr>) []"
    by (simp add: sl_chain_list_def)
  from chain_fifo.get_Nil [OF this] show ?case
    using sl_chain_list_free [OF 3] sl_chain_get_eq [of "fst s" "snd s"]
    by simp
next
  case (4 s d ds)
  then have "chain_list (sem_of (fst s), (snd s)\<lparr>irq_on := False\<rparr>) (d # ds)"
    by (simp add: sl_chain_list_def)
  from chain_fifo.get_Cons [OF this] show ?case
    using sl_chain_list_free [OF 4] sl_chain_get_eq [of "fst s" "snd s"] chain_list_sem_of
    by (auto simp: sl_chain_list_def)
qed

section \<open>Properties\<close>

text \<open>
  Fact: the spinlock chain refines the semaphore chain. On a free lock, \<open>sl_chain_put\<close>,
  \<open>sl_chain_get\<close> and \<open>sl_chain_remove_by_ident\<close> return, fault or hang exactly as the semaphore
  chain's operation does on the same list with interrupts off, and hand back a free lock and the
  interrupt flag they found; on a held lock they never return.
\<close>

theorem sl_chain_refines_chain:
  "sl_chain_put c m p d =
     (if sl c then khang else as_sl (irq_on m) (chain_put (sem_of c) (m\<lparr>irq_on := False\<rparr>) p d)) \<and>
   sl_chain_get c m =
     (if sl c then khang else as_sl (irq_on m) (chain_get (sem_of c) (m\<lparr>irq_on := False\<rparr>))) \<and>
   sl_chain_remove_by_ident c m ident f =
     (if sl c then khang
      else as_sl (irq_on m) (chain_remove_by_ident (sem_of c) (m\<lparr>irq_on := False\<rparr>) ident f))"
proof (cases "sl c")
  case True
  then show ?thesis
    by (simp add: sl_chain_put_def sl_chain_get_def sl_chain_remove_by_ident_def spin_lock_irqsave_def)
next
  case False
  then show ?thesis
    by (simp add: sl_chain_put_eq sl_chain_get_eq sl_chain_remove_by_ident_eq)
qed

text \<open>
  Fact: first in, first out for the spinlock chain, with the same statement as for the
  semaphore chain: payloads put into an empty chain come out in order and leave it empty.
\<close>

theorem sl_chain_put_get_fifo:
  assumes "sl_chain_list s []" and "distinct (map fst pds)"
    and "\<forall>p \<in> fst ` set pds. fresh_ptr (snd s) p"
  shows "\<exists>s' s''. put_all (\<lambda>s p d. sl_chain_put (fst s) (snd s) p d) s pds = kret s' \<and>
           get_n (\<lambda>s. sl_chain_get (fst s) (snd s)) (length pds) s' = kret (map snd pds, s'') \<and>
           sl_chain_list s'' [] \<and> sl_chain_get (fst s'') (snd s'') = kret (NULL, s'')"
  by (rule sl_chain_fifo.fifo [OF assms])

theorem sl_chain_put_get_fifo_witness:
  "\<exists>s' s''. put_all (\<lambda>s p d. sl_chain_put (fst s) (snd s) p d) (of_sem False ex_chain, ex_mem)
        [(5, 50), (6, 60)] = kret s' \<and>
     get_n (\<lambda>s. sl_chain_get (fst s) (snd s)) 2 s' = kret ([50, 60], s'')"
proof -
  have "chain_list (ex_chain, ex_mem) []"
    using ex_rep(1) by (auto simp: chain_list_def ex_chain_def)
  then have e: "sl_chain_list (of_sem False ex_chain, ex_mem) []"
    by (simp add: sl_chain_list_def chain_list_sem_of)
  show ?thesis
    using sl_chain_put_get_fifo [OF e, of "[(5, 50), (6, 60)]"]
    by (auto simp: fresh_ptr_def ex_mem_def numeral_2_eq_2)
qed

end
