(* ===== verification/Chain_Threads.thy ===== *)
theory Chain_Threads
  imports Chain
begin

text \<open>
  Several threads working on one semaphore chain. Each call of a chain operation is split where the
  source locks and unlocks: taking the semaphore, the critical section, giving it back. Any thread
  may move at any time. The theorems show mutual exclusion, that the list stays well formed between
  all interleaved calls, that no critical section faults, and that the calls have the effect they have one after
  the other.
\<close>

section \<open>Critical sections\<close>

text \<open>What the source does between \<open>down\<close> and \<open>up\<close>, without the value that is returned.\<close>

definition chain_put_section :: "ptr \<Rightarrow> ptr \<Rightarrow> chain \<Rightarrow> 'd kmem \<Rightarrow> (chain \<times> 'd kmem) kres" where
  "chain_put_section p d c m =
     (if init_flag c = 0 then kret (c, m)
      else kbind (chain_add c m p d) (\<lambda>(_, c, m). kret (c, m)))"

definition chain_get_section :: "chain \<Rightarrow> 'd kmem \<Rightarrow> (chain \<times> 'd kmem) kres" where
  "chain_get_section c m =
     (if init_flag c = 0 then kret (c, m)
      else kbind (deref m (base_chain c)) (\<lambda>b.
           if pNext b = NULL then kret (c, m)
           else kbind (deref m (pNext b)) (\<lambda>_. kbind (chain_remove c m) (\<lambda>(_, c, m). kret (c, m)))))"

definition chain_remove_section :: "(ptr \<Rightarrow> bool) \<Rightarrow> chain \<Rightarrow> 'd kmem \<Rightarrow> (chain \<times> 'd kmem) kres" where
  "chain_remove_section P c m =
     kbind (deref m (base_chain c)) (\<lambda>b.
     if init_flag c = 0 then kret (c, m)
     else if pNext b = NULL then kret (c, m)
     else kbind (find_holder P (holders m) (pNext b)) (\<lambda>q.
          if q = NULL then kret (c, m)
          else kbind (deref m q) (\<lambda>_. kbind (chain_unlink m q) (\<lambda>m. kret (c\<lparr>sz := sz c - 1\<rparr>, m)))))"

text \<open>
  The calls that take the semaphore: put (with the answer of the allocator and the payload), get, removal by a test on the payload, reading
  the size and the largest size. \<open>chain_release\<close>, which ends the use of the chain, and the reads that the source does without
  the semaphore are not among them.
\<close>

datatype ccall = CPut ptr ptr | CGet | CRemove "ptr \<Rightarrow> bool" | CSize | CPeak

fun critical :: "ccall \<Rightarrow> chain \<Rightarrow> 'd kmem \<Rightarrow> (chain \<times> 'd kmem) kres" where
  "critical (CPut p d) c m = chain_put_section p d c m"
| "critical CGet c m = chain_get_section c m"
| "critical (CRemove P) c m = chain_remove_section P c m"
| "critical CSize c m = kret (c, m)"
| "critical CPeak c m = kret (c, m)"

lemmas section_defs = chain_put_section_def chain_get_section_def chain_remove_section_def

text \<open>The whole call: the sequential operation of \<open>chain.c\<close>, its return value left out.\<close>

fun whole_call :: "ccall \<Rightarrow> chain \<Rightarrow> 'd kmem \<Rightarrow> (chain \<times> 'd kmem) kres" where
  "whole_call (CPut p d) c m = kbind (chain_put c m p d) (\<lambda>(_, c, m). kret (c, m))"
| "whole_call CGet c m = kbind (chain_get c m) (\<lambda>(_, c, m). kret (c, m))"
| "whole_call (CRemove P) c m = kbind (remove_matching c m (Some P)) (\<lambda>(_, c, m). kret (c, m))"
| "whole_call CSize c m = kbind (chain_size c) (\<lambda>(_, c). kret (c, m))"
| "whole_call CPeak c m = kbind (chain_peak_size c) (\<lambda>(_, c). kret (c, m))"

fun run_calls :: "ccall list \<Rightarrow> chain \<Rightarrow> 'd kmem \<Rightarrow> (chain \<times> 'd kmem) kres" where
  "run_calls [] c m = kret (c, m)"
| "run_calls (a # cs) c m = kbind (whole_call a c m) (\<lambda>(c, m). run_calls cs c m)"

lemma run_calls_append: "run_calls (cs @ ds) c m = kbind (run_calls cs c m) (\<lambda>(c, m). run_calls ds c m)"
  by (induction cs arbitrary: c m) (auto simp: kbind_assoc intro!: kbind_cong)

text \<open>Each call is \<open>down\<close>, its critical section and \<open>up\<close>.\<close>

lemma whole_call_split:
  "whole_call a c m =
     kbind (down c) (\<lambda>c. kbind (critical a c m) (\<lambda>(c, m). kret (up c, m)))"
  by (cases a)
    (auto simp: chain_put_def chain_get_def remove_matching_def chain_size_def chain_peak_size_def section_defs kbind_assoc kbind_if
       intro!: kbind_cong)

section \<open>The threads\<close>

text \<open>\<open>entered\<close> keeps the calls in the order in which they took the semaphore.\<close>

datatype tstate = Outside | Inside ccall | Leaving

record 'd csys =
  ch :: chain
  mem :: "'d kmem"
  th :: "nat \<Rightarrow> tstate"
  entered :: "ccall list"

inductive thread_step :: "'d csys \<Rightarrow> 'd csys \<Rightarrow> bool" where
  enter: "th s i = Outside \<Longrightarrow> down (ch s) = kret c \<Longrightarrow>
     thread_step s (s\<lparr>ch := c, th := (th s)(i := Inside a), entered := entered s @ [a]\<rparr>)"
| work: "th s i = Inside a \<Longrightarrow> (\<And>p d. a = CPut p d \<Longrightarrow> p = NULL \<or> fresh_ptr (mem s) p) \<Longrightarrow>
     critical a (ch s) (mem s) = kret (c, m) \<Longrightarrow>
     thread_step s (s\<lparr>ch := c, mem := m, th := (th s)(i := Leaving)\<rparr>)"
| leave: "th s i = Leaving \<Longrightarrow>
     thread_step s (s\<lparr>ch := up (ch s), th := (th s)(i := Outside)\<rparr>)"

inductive threads_reach :: "'d csys \<Rightarrow> 'd csys \<Rightarrow> bool" for s0 where
  start: "threads_reach s0 s0"
| step: "threads_reach s0 s \<Longrightarrow> thread_step s t \<Longrightarrow> threads_reach s0 t"

definition threads_start :: "'d csys \<Rightarrow> bool" where
  "threads_start s \<longleftrightarrow> sema (ch s) = 1 \<and> (\<forall>i. th s i = Outside) \<and> entered s = [] \<and> (\<exists>xs. chain_rep (ch s) (mem s) xs)"

section \<open>The invariant\<close>

definition threads_inv :: "'d csys \<Rightarrow> bool" where
  "threads_inv s \<longleftrightarrow>
     (sema (ch s) = 1 \<and> (\<forall>i. th s i = Outside) \<or>
      sema (ch s) = 0 \<and> (\<exists>i. th s i \<noteq> Outside \<and> (\<forall>j. j \<noteq> i \<longrightarrow> th s j = Outside))) \<and>
     (\<exists>xs. chain_rep (ch s) (mem s) xs)"

text \<open>A critical section on a well-formed list returns, keeps it well formed and does not touch the
  semaphore.\<close>

lemma critical_ok:
  assumes rep: "chain_rep c m xs"
    and fresh: "\<And>p d. a = CPut p d \<Longrightarrow> p = NULL \<or> fresh_ptr m p"
  shows "\<exists>c' m'. critical a c m = kret (c', m') \<and> sema c' = sema c \<and> (\<exists>xs'. chain_rep c' m' xs')"
proof (cases a)
  case (CPut p d)
  show ?thesis
  proof (cases "init_flag c = 0 \<or> p = NULL")
    case True
    with CPut rep show ?thesis by (auto simp: chain_put_section_def chain_add_def)
  next
    case False
    with CPut fresh chain_add_rep [OF rep, of p d] show ?thesis by (auto simp: chain_put_section_def)
  qed
next
  case CGet
  from rep obtain b where b: "holders m (base_chain c) = Some b"
    "dseg (holders m) (base_chain c) (pNext b) xs NULL"
    by (auto elim: chain_repE)
  show ?thesis
  proof (cases xs)
    case Nil
    with CGet b rep show ?thesis by (auto simp: chain_get_section_def)
  next
    case (Cons x xs')
    obtain q d where x: "x = (q, d)" by (cases x)
    from b Cons x obtain n where "pNext b = q" "q \<noteq> NULL" "holders m q = Some n"
      by (auto split: option.splits)
    with CGet b rep Cons x chain_remove_rep [of c m q d xs'] show ?thesis by (auto simp: chain_get_section_def)
  qed
next
  case (CRemove P)
  from rep obtain b where b: "holders m (base_chain c) = Some b"
    "dseg (holders m) (base_chain c) (pNext b) xs NULL"
    by (auto elim: chain_repE)
  define q where "q = first_match P xs"
  show ?thesis
  proof (cases "pNext b = NULL \<or> init_flag c = 0 \<or> q = NULL")
    case True
    with CRemove b rep find_holder_dseg [OF b(2), of P] show ?thesis by (auto simp: chain_remove_section_def q_def)
  next
    case False
    then obtain ys d zs where xs: "xs = ys @ (q, d) # zs"
      using first_match_split [of P xs q] unfolding q_def by blast
    have "dseg (holders m) (base_chain c) (pNext b) (ys @ (q, d) # zs) NULL"
      using b(2) xs by simp
    then obtain n where n: "holders m q = Some n"
      by (auto simp: dseg_append split: option.splits)
    have fh: "find_holder P (holders m) (pNext b) = kret q"
      using find_holder_dseg [OF b(2), of P] by (simp add: q_def)
    from rep xs have "chain_rep c m (ys @ (q, d) # zs)" by simp
    from chain_unlink_rep [OF this] False CRemove b(1) n fh show ?thesis by (auto simp: chain_remove_section_def)
  qed
next
  case CSize
  with rep show ?thesis by auto
next
  case CPeak
  with rep show ?thesis by auto
qed

lemma threads_inv_inside:
  "threads_inv s \<Longrightarrow> th s i \<noteq> Outside \<Longrightarrow> sema (ch s) = 0 \<and> (\<forall>j. j \<noteq> i \<longrightarrow> th s j = Outside)"
  unfolding threads_inv_def by metis

lemma thread_step_inv: "thread_step s t \<Longrightarrow> threads_inv s \<Longrightarrow> threads_inv t"
proof (induction rule: thread_step.induct)
  case (enter s i c a)
  then have "sema (ch s) = 1" "c = (ch s)\<lparr>sema := 0\<rparr>" "\<forall>j. th s j = Outside"
    by (auto simp: threads_inv_def down_def split: if_splits)
  with enter show ?case by (auto simp: threads_inv_def)
next
  case (work s i a c m)
  then obtain xs where xs: "chain_rep (ch s) (mem s) xs" by (auto simp: threads_inv_def)
  have "\<exists>c' m'. critical a (ch s) (mem s) = kret (c', m') \<and> sema c' = sema (ch s) \<and>
      (\<exists>xs'. chain_rep c' m' xs')"
    using critical_ok [OF xs] work(2) by blast
  with work(3) have "sema c = sema (ch s)" "\<exists>xs'. chain_rep c m xs'" by auto
  with threads_inv_inside [OF work(4), of i] work(1) show ?case
    by (auto simp: threads_inv_def intro!: exI [of _ i])
next
  case (leave s i)
  then have "sema (ch s) = 0" "\<forall>j. j \<noteq> i \<longrightarrow> th s j = Outside"
    using threads_inv_inside [of s i] by auto
  with leave show ?case by (auto simp: threads_inv_def)
qed

lemma threads_start_inv: "threads_start s \<Longrightarrow> threads_inv s"
  by (auto simp: threads_start_def threads_inv_def)

lemma threads_reach_inv: "threads_reach s0 s \<Longrightarrow> threads_start s0 \<Longrightarrow> threads_inv s"
  by (induction rule: threads_reach.induct) (auto intro: threads_start_inv thread_step_inv)

text \<open>
  The interleaved calls are worth the whole calls, one after the other: outside every critical section the chain is what the calls made of it
  that took the semaphore, inside the last of them is under way.
\<close>

definition serial :: "'d csys \<Rightarrow> 'd csys \<Rightarrow> bool" where
  "serial s0 s \<longleftrightarrow>
     (\<forall>i. th s i = Outside) \<and> run_calls (entered s) (ch s0) (mem s0) = kret (ch s, mem s) \<or>
     (\<exists>cs a c. entered s = cs @ [a] \<and> run_calls cs (ch s0) (mem s0) = kret (c, mem s) \<and> down c = kret (ch s) \<and> (\<exists>i. th s i = Inside a)) \<or>
     (\<exists>cs a c c1 m. entered s = cs @ [a] \<and> run_calls cs (ch s0) (mem s0) = kret (c, m) \<and> down c = kret c1 \<and>
        critical a c1 m = kret (ch s, mem s) \<and> (\<exists>i. th s i = Leaving))"

lemma serial_outside: "serial s0 s \<Longrightarrow> \<forall>i. th s i = Outside \<Longrightarrow> run_calls (entered s) (ch s0) (mem s0) = kret (ch s, mem s)"
  unfolding serial_def by auto

lemma serial_inside:
  assumes "serial s0 s" "threads_inv s" "th s i = Inside a"
  obtains cs c where "entered s = cs @ [a]" "run_calls cs (ch s0) (mem s0) = kret (c, mem s)" "down c = kret (ch s)"
proof -
  have only: "th s k = Outside" if "k \<noteq> i" for k using threads_inv_inside [OF assms(2), of i] assms(3) that by simp
  then have "th s k \<noteq> Leaving" for k using assms(3) by (cases "k = i") auto
  then obtain cs b c k where "entered s = cs @ [b]" "run_calls cs (ch s0) (mem s0) = kret (c, mem s)" "down c = kret (ch s)" "th s k = Inside b"
    using assms(1,3) unfolding serial_def by fastforce
  moreover from this have "b = a" using only [of k] assms(3) by (cases "k = i") auto
  ultimately show ?thesis using that by blast
qed

lemma serial_leaving:
  assumes "serial s0 s" "threads_inv s" "th s i = Leaving"
  shows "run_calls (entered s) (ch s0) (mem s0) = kret (up (ch s), mem s)"
proof -
  have "th s k = Outside" if "k \<noteq> i" for k using threads_inv_inside [OF assms(2), of i] assms(3) that by simp
  then have "th s k \<noteq> Inside b" for k b using assms(3) by (cases "k = i") auto
  then obtain cs a c c1 m where "entered s = cs @ [a]" "run_calls cs (ch s0) (mem s0) = kret (c, m)" "down c = kret c1"
    "critical a c1 m = kret (ch s, mem s)"
    using assms(1,3) unfolding serial_def by fastforce
  then show ?thesis by (simp add: run_calls_append whole_call_split)
qed

lemma serial_step: "thread_step s t \<Longrightarrow> threads_inv s \<Longrightarrow> serial s0 s \<Longrightarrow> serial s0 t"
proof (induction rule: thread_step.induct)
  case (enter s i c a)
  then have out: "\<forall>j. th s j = Outside" by (auto simp: threads_inv_def down_def split: if_splits)
  have r: "run_calls (entered s) (ch s0) (mem s0) = kret (ch s, mem s)" by (rule serial_outside [OF enter.prems(2) out])
  show ?case unfolding serial_def using r enter.hyps
    by (intro disjI2 disjI1 exI [of _ "entered s"] exI [of _ a] exI [of _ "ch s"]) auto
next
  case (work s i a c m)
  obtain cs c0 where "entered s = cs @ [a]" "run_calls cs (ch s0) (mem s0) = kret (c0, mem s)" "down c0 = kret (ch s)"
    by (rule serial_inside [OF work.prems(2,1) work.hyps(1)])
  then show ?case unfolding serial_def using work.hyps(3)
    by (intro disjI2 exI [of _ cs] exI [of _ a] exI [of _ c0] exI [of _ "ch s"] exI [of _ "mem s"]) auto
next
  case (leave s i)
  then have "\<forall>j. j \<noteq> i \<longrightarrow> th s j = Outside" using threads_inv_inside [of s i] by auto
  then show ?case unfolding serial_def using serial_leaving [OF leave.prems(2,1) leave.hyps] by auto
qed

lemma threads_reach_serial: "threads_reach s0 s \<Longrightarrow> threads_start s0 \<Longrightarrow> serial s0 s"
proof (induction rule: threads_reach.induct)
  case start
  then show ?case by (auto simp: serial_def threads_start_def)
next
  case (step s t)
  then show ?case using serial_step threads_reach_inv by blast
qed

section \<open>Properties\<close>

text \<open>
  Property C33: the semaphore serializes the calls. In every state reachable by any number of threads that interleave calls of put, get, removal by a
  test, size and largest size on a well-formed chain, at most one thread is between its \<open>down\<close> and its \<open>up\<close>, the doubly linked list is well formed, the semaphore is free exactly when
  no thread is inside, and a thread inside whose holder allocation (if any) is fresh completes its critical section without a
  fault. Whenever no thread is inside, chain and memory are exactly what the operations of \<open>chain.c\<close> make of them one after the other, in the order in which
  the calls took the semaphore. The reads without the semaphore and \<open>chain_release\<close> are not among the calls.
\<close>

theorem chain_threads_safe:
  assumes "threads_start s0" and "threads_reach s0 s"
  shows "(\<forall>i j. th s i \<noteq> Outside \<longrightarrow> th s j \<noteq> Outside \<longrightarrow> i = j) \<and>
         (\<exists>xs. chain_rep (ch s) (mem s) xs) \<and>
         (sema (ch s) = 1 \<longleftrightarrow> (\<forall>i. th s i = Outside)) \<and>
         (\<forall>i a. th s i = Inside a \<longrightarrow> (\<forall>p d. a = CPut p d \<longrightarrow> p = NULL \<or> fresh_ptr (mem s) p) \<longrightarrow>
            (\<exists>c m. critical a (ch s) (mem s) = kret (c, m))) \<and>
         ((\<forall>i. th s i = Outside) \<longrightarrow> run_calls (entered s) (ch s0) (mem s0) = kret (ch s, mem s))"
proof -
  have inv: "threads_inv s" using assms threads_reach_inv by blast
  then obtain xs where xs: "chain_rep (ch s) (mem s) xs" by (auto simp: threads_inv_def)
  have "\<exists>c m. critical a (ch s) (mem s) = kret (c, m)"
    if "\<forall>p d. a = CPut p d \<longrightarrow> p = NULL \<or> fresh_ptr (mem s) p" for a
    using critical_ok [OF xs, of a] that by blast
  moreover have "sema (ch s) = 1 \<longleftrightarrow> (\<forall>i. th s i = Outside)"
    using inv by (auto simp: threads_inv_def)
  moreover have "\<forall>i j. th s i \<noteq> Outside \<longrightarrow> th s j \<noteq> Outside \<longrightarrow> i = j"
    using inv unfolding threads_inv_def by metis
  moreover have "(\<forall>i. th s i = Outside) \<longrightarrow> run_calls (entered s) (ch s0) (mem s0) = kret (ch s, mem s)"
    using serial_outside [OF threads_reach_serial [OF assms(2,1)]] by blast
  ultimately show ?thesis using xs by blast
qed

definition ex_sys :: "string csys" where
  "ex_sys = \<lparr>ch = ex_chain2, mem = ex_mem2, th = (\<lambda>_. Outside), entered = []\<rparr>"

theorem chain_threads_safe_witness:
  "\<exists>s. threads_reach ex_sys s \<and> th s 7 = Inside CGet \<and> (\<forall>j. th s j \<noteq> Outside \<longrightarrow> j = 7) \<and>
       (\<exists>c m. critical CGet (ch s) (mem s) = kret (c, m))"
proof -
  define s where "s = ex_sys\<lparr>ch := ex_chain2\<lparr>sema := 0\<rparr>, th := (th ex_sys)(7 := Inside CGet), entered := entered ex_sys @ [CGet]\<rparr>"
  have a: "threads_start ex_sys"
    using ex_rep(2) by (auto simp: threads_start_def ex_sys_def ex_chain2_def)
  have "thread_step ex_sys s"
    unfolding s_def by (rule thread_step.enter) (simp_all add: ex_sys_def ex_chain2_def)
  then have b: "threads_reach ex_sys s"
    by (rule threads_reach.step [OF threads_reach.start])
  have t: "th s 7 = Inside CGet" by (simp add: s_def)
  then have "\<forall>j. th s j \<noteq> Outside \<longrightarrow> j = 7" "\<exists>c m. critical CGet (ch s) (mem s) = kret (c, m)"
    using chain_threads_safe [OF a b] by (metis tstate.distinct(1), metis ccall.distinct(1))
  with b t show ?thesis by blast
qed

end
