(* ===== verification/C_Strings.thy ===== *)
theory C_Strings
  imports Prelude
begin

text \<open>
  The number conversions of the C and kernel libraries that the sources use: the \<open>%d\<close> of
  \<open>sprintf\<close>, the digit scanner behind \<open>simple_strtol\<close>, \<open>strtol\<close>, \<open>strtoul\<close> and \<open>atoi\<close>, and the
  kernel's \<open>sscanf\<close> with \<open>%d\<close>. Printing and scanning are inverse to each other.
\<close>

section \<open>Characters\<close>

definition is_digit :: "char \<Rightarrow> bool" where
  "is_digit c \<longleftrightarrow> 48 \<le> (of_char c :: nat) \<and> (of_char c :: nat) \<le> 57"

definition digit_char :: "nat \<Rightarrow> char" where
  "digit_char d = char_of (48 + d)"

definition is_space :: "char \<Rightarrow> bool" where
  "is_space c \<longleftrightarrow> (of_char c :: nat) = 32 \<or> (9 \<le> (of_char c :: nat) \<and> (of_char c :: nat) \<le> 13)"

lemma of_digit_char: "d < 10 \<Longrightarrow> (of_char (digit_char d) :: nat) = 48 + d"
  by (simp add: digit_char_def)

lemma is_digit_digit_char [simp]: "d < 10 \<Longrightarrow> is_digit (digit_char d)"
  by (simp add: is_digit_def of_digit_char)

lemma digit_not_space: "is_digit c \<Longrightarrow> \<not> is_space c"
  by (auto simp: is_digit_def is_space_def)

lemma minus_not_digit [simp]: "\<not> is_digit CHR ''-''" "\<not> is_space CHR ''-''"
  by (simp_all add: is_digit_def is_space_def)

lemma comma_not_digit [simp]: "\<not> is_digit CHR '',''" "\<not> is_digit CHR ''\<newline>''"
  by (simp_all add: is_digit_def)

section \<open>Printing in decimal\<close>

fun dec_nat :: "nat \<Rightarrow> string" where
  "dec_nat n = (if n < 10 then [digit_char n] else dec_nat (n div 10) @ [digit_char (n mod 10)])"

declare dec_nat.simps [simp del]

text \<open>\<open>sprintf\<close> with \<open>%d\<close>.\<close>

definition show_int :: "int \<Rightarrow> string" where
  "show_int i = (if i < 0 then CHR ''-'' # dec_nat (nat (- i)) else dec_nat (nat i))"

lemma dec_nat_nonempty [simp]: "dec_nat n \<noteq> []"
  by (subst dec_nat.simps) simp

lemma dec_nat_digits: "list_all is_digit (dec_nat n)"
proof (induction n rule: dec_nat.induct)
  case (1 n)
  then show ?case by (subst dec_nat.simps) simp
qed

lemma length_dec_nat: "n < 10 ^ k \<Longrightarrow> 0 < k \<Longrightarrow> length (dec_nat n) \<le> k"
proof (induction n arbitrary: k rule: dec_nat.induct)
  case (1 n)
  show ?case
  proof (cases "n < 10")
    case True
    with 1 show ?thesis by (subst dec_nat.simps) simp
  next
    case False
    then obtain k' where k: "k = Suc k'" "0 < k'"
      using 1(2,3) by (cases k; cases "k - 1") auto
    have "n div 10 < 10 ^ k'" using 1(2) k by (simp add: less_mult_imp_div_less mult.commute)
    with 1(1) [OF False] k False show ?thesis by (subst dec_nat.simps) simp
  qed
qed

section \<open>Scanning digits\<close>

fun digits_val :: "nat \<Rightarrow> string \<Rightarrow> nat \<times> string" where
  "digits_val n [] = (n, [])"
| "digits_val n (c # cs) =
     (if is_digit c then digits_val (10 * n + (of_char c - 48)) cs else (n, c # cs))"

lemma digits_val_append:
  "list_all is_digit ds \<Longrightarrow> digits_val n (ds @ cs) = digits_val (fst (digits_val n ds)) cs"
  by (induction ds arbitrary: n) auto

lemma digits_val_dec_nat_aux: "fst (digits_val 0 (dec_nat n)) = n"
proof (induction n rule: dec_nat.induct)
  case (1 n)
  show ?case
  proof (cases "n < 10")
    case True
    then show ?thesis by (subst dec_nat.simps) (simp add: of_digit_char)
  next
    case False
    have "fst (digits_val 0 (dec_nat (n div 10) @ [digit_char (n mod 10)])) = n"
      using 1 [OF False] dec_nat_digits [of "n div 10"]
      by (simp add: digits_val_append of_digit_char)
    with False show ?thesis by (subst dec_nat.simps) simp
  qed
qed

lemma digits_val_stop: "cs = [] \<or> \<not> is_digit (hd cs) \<Longrightarrow> digits_val n cs = (n, cs)"
  by (cases cs) auto

lemma digits_val_dec_nat:
  "cs = [] \<or> \<not> is_digit (hd cs) \<Longrightarrow> digits_val 0 (dec_nat n @ cs) = (n, cs)"
  by (simp add: digits_val_append dec_nat_digits digits_val_dec_nat_aux digits_val_stop)

section \<open>Kernel scanners\<close>

text \<open>\<open>simple_strtol(s, NULL, 10)\<close>, the value reduced to 32 bits as its callers do.\<close>

definition simple_strtol32 :: "string \<Rightarrow> s32" where
  "simple_strtol32 s =
     (if s \<noteq> [] \<and> hd s = CHR ''-'' then - of_nat (fst (digits_val 0 (tl s)))
      else of_nat (fst (digits_val 0 s)))"

text \<open>One \<open>%d\<close> of the kernel's \<open>sscanf\<close>: leading white space is skipped, and there must be a digit,
  possibly after a minus sign. The value is stored into an \<open>int\<close>, so it is reduced to 32 bits.\<close>

definition scan_d :: "string \<Rightarrow> (s32 \<times> string) option" where
  "scan_d s =
     (let s = dropWhile is_space s in
      case s of [] \<Rightarrow> None
      | c # cs \<Rightarrow>
          (if c = CHR ''-'' then
             (if cs \<noteq> [] \<and> is_digit (hd cs)
              then (case digits_val 0 cs of (n, rest) \<Rightarrow> Some (- of_nat n, rest)) else None)
           else if is_digit c then (case digits_val 0 s of (n, rest) \<Rightarrow> Some (of_nat n, rest))
           else None))"

lemma hd_dec_nat: "is_digit (hd (dec_nat n))"
  using dec_nat_digits [of n] dec_nat_nonempty [of n] by (cases "dec_nat n") auto

lemma scan_d_show_int:
  assumes "cs = [] \<or> \<not> is_digit (hd cs)"
  shows "scan_d (show_int i @ cs) = Some (of_int i, cs)"
proof (cases "i < 0")
  case True
  moreover have "(- word_of_nat (nat (- i)) :: s32) = word_of_int i"
    using True by (simp add: of_nat_nat)
  ultimately show ?thesis
    using digits_val_dec_nat [OF assms, of "nat (- i)"] hd_dec_nat [of "nat (- i)"]
    by (simp add: scan_d_def show_int_def Let_def)
next
  case False
  obtain c ds where c: "dec_nat (nat i) = c # ds" "is_digit c" "\<not> is_space c" "c \<noteq> CHR ''-''"
    using hd_dec_nat [of "nat i"] dec_nat_nonempty [of "nat i"] digit_not_space minus_not_digit(1)
    by (cases "dec_nat (nat i)") (auto simp del: minus_not_digit)
  with False show ?thesis
    using digits_val_dec_nat [OF assms, of "nat i"]
    by (simp add: scan_d_def show_int_def Let_def)
qed

lemma dec_nat_Cons:
  obtains c ds where "dec_nat n = c # ds" "is_digit c" "c \<noteq> CHR ''-''"
  using hd_dec_nat [of n] dec_nat_nonempty [of n] minus_not_digit(1)
  by (cases "dec_nat n") (auto simp del: minus_not_digit)

lemma simple_strtol32_show_int:
  assumes "cs = [] \<or> \<not> is_digit (hd cs)"
  shows "simple_strtol32 (show_int i @ cs) = of_int i"
proof (cases "i < 0")
  case True
  moreover have "(- word_of_nat (nat (- i)) :: s32) = word_of_int i"
    using True by (simp add: of_nat_nat)
  ultimately show ?thesis
    using digits_val_dec_nat [OF assms, of "nat (- i)"]
    by (simp add: simple_strtol32_def show_int_def)
next
  case False
  obtain c ds where c: "dec_nat (nat i) = c # ds" "c \<noteq> CHR ''-''"
    by (rule dec_nat_Cons)
  then have "simple_strtol32 (c # ds @ cs) = of_nat (fst (digits_val 0 (c # ds @ cs)))"
    by (simp add: simple_strtol32_def)
  with c False show ?thesis
    using digits_val_dec_nat [OF assms, of "nat i"] by (simp add: show_int_def)
qed

lemma length_show_int:
  assumes "- (2 ^ 31) \<le> i" and "i < 2 ^ 31"
  shows "length (show_int i) \<le> 11"
proof (cases "i < 0")
  case True
  have "length (dec_nat (nat (- i))) \<le> 10"
    by (rule length_dec_nat) (use assms True in auto)
  with True show ?thesis by (simp add: show_int_def)
next
  case False
  have "length (dec_nat (nat i)) \<le> 10"
    by (rule length_dec_nat) (use assms False in auto)
  with False show ?thesis by (simp add: show_int_def)
qed

lemma show_int_no_comma: "CHR '','' \<notin> set (show_int i)"
proof -
  have "CHR '','' \<notin> set (dec_nat n)" for n
    using dec_nat_digits [of n] comma_not_digit(1) by (auto simp: list_all_iff simp del: comma_not_digit)
  then show ?thesis by (simp add: show_int_def)
qed

section \<open>Scanners of the C library\<close>

text \<open>\<open>atoi\<close>, the value reduced to 32 bits.\<close>

definition atoi :: "string \<Rightarrow> s32" where
  "atoi s =
     (let s = dropWhile is_space s in
      if s \<noteq> [] \<and> hd s = CHR ''-'' then - of_nat (fst (digits_val 0 (tl s)))
      else if s \<noteq> [] \<and> hd s = CHR ''+'' then of_nat (fst (digits_val 0 (tl s)))
      else of_nat (fst (digits_val 0 s)))"

text \<open>\<open>fgets\<close> for a buffer with room for \<open>n\<close> characters and the terminator.\<close>

fun fgets :: "nat \<Rightarrow> string \<Rightarrow> string \<times> string" where
  "fgets 0 s = ([], s)"
| "fgets (Suc n) [] = ([], [])"
| "fgets (Suc n) (c # cs) =
     (if c = CHR 0x0A then ([c], cs) else (case fgets n cs of (l, r) \<Rightarrow> (c # l, r)))"

lemma fgets_rest: "length (snd (fgets n s)) \<le> length s"
  by (induction n s rule: fgets.induct) (auto split: prod.splits)

lemma fgets_shorter: "s \<noteq> [] \<Longrightarrow> 0 < n \<Longrightarrow> length (snd (fgets n s)) < length s"
  using fgets_rest [of "n - 1" "tl s"] by (cases n; cases s) (auto split: prod.splits)

definition hex_digit :: "char \<Rightarrow> nat option" where
  "hex_digit c =
     (let n = of_char c in
      if 48 \<le> n \<and> n \<le> 57 then Some (n - 48)
      else if 97 \<le> n \<and> n \<le> 102 then Some (n - 87)
      else if 65 \<le> n \<and> n \<le> 70 then Some (n - 55) else None)"

fun hex_val :: "nat \<Rightarrow> string \<Rightarrow> nat \<times> string" where
  "hex_val n [] = (n, [])"
| "hex_val n (c # cs) = (case hex_digit c of None \<Rightarrow> (n, c # cs) | Some d \<Rightarrow> hex_val (16 * n + d) cs)"

text \<open>
  \<open>strtoul(s, &ptr, 16)\<close> with a 64-bit \<open>unsigned long\<close>: the value, which saturates, and the text
  \<open>ptr\<close> points to, which is the whole text when there is no digit.
\<close>

definition strtoul16 :: "string \<Rightarrow> 64 word \<times> string" where
  "strtoul16 nptr =
     (let s = dropWhile is_space nptr;
          neg = (s \<noteq> [] \<and> hd s = CHR ''-'');
          s = (if s \<noteq> [] \<and> (hd s = CHR ''-'' \<or> hd s = CHR ''+'') then tl s else s);
          s = (if 3 \<le> length s \<and> hd s = CHR ''0'' \<and> (s ! 1 = CHR ''x'' \<or> s ! 1 = CHR ''X'') \<and> hex_digit (s ! 2) \<noteq> None
               then drop 2 s else s)
      in if s = [] \<or> hex_digit (hd s) = None then (0, nptr)
         else let (n, rest) = hex_val 0 s in
           (if 2 ^ 64 \<le> n then (- 1, rest) else (if neg then - of_nat n else of_nat n, rest)))"

lemma atoi_show_int: "atoi (show_int i) = of_int i"
proof (cases "i < 0")
  case True
  moreover have "(- word_of_nat (nat (- i)) :: s32) = word_of_int i"
    using True by (simp add: of_nat_nat)
  ultimately show ?thesis
    using digits_val_dec_nat [of "[]" "nat (- i)"] by (simp add: atoi_def show_int_def)
next
  case False
  obtain c ds where c: "dec_nat (nat i) = c # ds" "is_digit c" by (rule dec_nat_Cons)
  then have "\<not> is_space c" "c \<noteq> CHR ''-''" "c \<noteq> CHR ''+''"
    by (auto simp: digit_not_space) (auto simp: is_digit_def)
  with c False show ?thesis
    using digits_val_dec_nat [of "[]" "nat i"] by (simp add: atoi_def show_int_def)
qed

end
