(* ===== verification/Genintrdrv.thy ===== *)
theory Genintrdrv
  imports Chain C_Strings
begin

text \<open>
  The generic interrupt driver, \<open>src/sources/kmods/genintrdrv/kmod/genintrdrv.c\<close>: processes
  subscribe for an interrupt through sysfs, the subscriptions are kept in a semaphore chain, and an
  interrupt (real or simulated) sends a signal to every live subscriber. The kernel memory, the two
  chains, the module's counters and the signals sent are explicit state; the answers of \<open>kmalloc\<close>
  are taken from the list \<open>kans\<close>, and which processes are alive is the argument \<open>alive\<close>. Debug
  messages are left out.
\<close>

section \<open>Data\<close>

record GENINTDRV_SIGINFO =
  intr :: s32
  sig :: s32
  pid :: s32
  active :: s32

record GENINTDRV_IRQINFO =
  irqnum :: s32
  irqsts :: s32

datatype drvobj = SigObj GENINTDRV_SIGINFO | IrqObj GENINTDRV_IRQINFO

text \<open>A signal that was sent: its number, the receiving process, and the \<open>si_int\<close> payload.\<close>

type_synonym sent_signal = "s32 \<times> s32 \<times> s32"

record genintrdrv =
  debuglogflag :: s32
  interruptflag :: s32
  sigcounter :: s32
  intcounter :: s32
  bhcounter :: s32
  SigList :: GENINTDRV_SIGINFO
  SubscribersList :: chain
  IRQList :: chain
  which_interrupt :: s32
  irq_lock :: bool
  tasklet_pending :: bool
  dmem :: "drvobj kmem"
  kans :: "ptr list"
  sent :: "sent_signal list"

definition rd_sig :: "drvobj kmem \<Rightarrow> ptr \<Rightarrow> GENINTDRV_SIGINFO kres" where
  "rd_sig m p = (case objs m p of Some (SigObj e) \<Rightarrow> kret e | _ \<Rightarrow> kfail BadDeref)"

definition rd_irq :: "drvobj kmem \<Rightarrow> ptr \<Rightarrow> GENINTDRV_IRQINFO kres" where
  "rd_irq m p = (case objs m p of Some (IrqObj e) \<Rightarrow> kret e | _ \<Rightarrow> kfail BadDeref)"

definition put_obj :: "drvobj kmem \<Rightarrow> ptr \<Rightarrow> drvobj \<Rightarrow> drvobj kmem" where
  "put_obj m p x = m\<lparr>objs := (objs m)(p \<mapsto> x)\<rparr>"

text \<open>The next answer of \<open>kmalloc\<close>; an exhausted list stands for an allocator that fails.\<close>

definition kmalloc :: "ptr list \<Rightarrow> ptr \<times> ptr list" where
  "kmalloc ks = (case ks of [] \<Rightarrow> (NULL, []) | k # ks \<Rightarrow> (k, ks))"

section \<open>The device file\<close>

definition genintrdrv_open :: int where "genintrdrv_open = 0"

definition genintrdrv_close :: int where "genintrdrv_close = 0"

text \<open>\<open>_IOW('t', 1, genintrdrv_ioctl_inc_t)\<close> with a 4-byte argument, and \<open>_IOC_SIZE\<close>.\<close>

definition GENINTRDRV_IOCTL_INCREMENT :: u32 where
  "GENINTRDRV_IOCTL_INCREMENT = 0x40047401"

definition IOC_SIZE :: "u32 \<Rightarrow> nat" where
  "IOC_SIZE n = unat (drop_bit 16 n AND 0x3fff)"

text \<open>
  \<open>copied\<close> tells whether \<open>copy_from_user\<close> succeeds. It writes \<open>_IOC_SIZE(ioctl_num)\<close> bytes over the
  4-byte local union, so a larger size field overruns the stack variable.
\<close>

definition genintrdrv_ioctl :: "u32 \<Rightarrow> bool \<Rightarrow> int kres" where
  "genintrdrv_ioctl ioctl_num copied =
     (if 4 < IOC_SIZE ioctl_num then kfail BufferOverrun
      else if \<not> copied then kret (-12)
      else if ioctl_num = GENINTRDRV_IOCTL_INCREMENT then kret 0
      else kret (-22))"

section \<open>Subscriptions\<close>

definition add_subscriber_to_list ::
  "GENINTDRV_SIGINFO \<Rightarrow> chain \<Rightarrow> drvobj kmem \<Rightarrow> ptr list \<Rightarrow> (int \<times> chain \<times> drvobj kmem \<times> ptr list) kres" where
  "add_subscriber_to_list new c m ks =
     (let (pEntry, ks) = kmalloc ks in
      if pEntry = NULL then kret (-1, c, m, ks)
      else
        let m = put_obj m pEntry (SigObj new); (pHolder, ks) = kmalloc ks in
        kbind (chain_put c m pHolder pEntry) (\<lambda>(r, c, m).
        if r \<noteq> 0 then kbind (kfree_obj m pEntry) (\<lambda>m. kret (-1, c, m, ks))
        else kret (0, c, m, ks)))"

text \<open>The search loop: \<open>k\<close> rounds are left, \<open>i\<close> is the loop variable.\<close>

fun dup_loop :: "64 word \<Rightarrow> s32 \<Rightarrow> s32 \<Rightarrow> s32 \<Rightarrow> chain \<Rightarrow> drvobj kmem \<Rightarrow> s32 \<Rightarrow> nat \<Rightarrow> int kres" where
  "dup_loop fn vintr vsig vpid c m i 0 = kret (-1)"
| "dup_loop fn vintr vsig vpid c m i (Suc k) =
     kbind (chain_get_by_index fn c m i) (\<lambda>pEntry.
     if pEntry = NULL then kret (-1)
     else kbind (rd_sig m pEntry) (\<lambda>e.
     if intr e = vintr \<and> sig e = vsig \<and> pid e = vpid \<and> active e = 1 then kret 0
     else dup_loop fn vintr vsig vpid c m (i + 1) k))"

definition find_duplicate_entry ::
  "64 word \<Rightarrow> s32 \<Rightarrow> s32 \<Rightarrow> s32 \<Rightarrow> chain \<Rightarrow> drvobj kmem \<Rightarrow> (int \<times> chain) kres" where
  "find_duplicate_entry fn vintr vsig vpid c m =
     kbind (chain_size c) (\<lambda>(size, c).
     kbind (chain_lock c) (\<lambda>c.
     kbind (dup_loop fn vintr vsig vpid c m 0 (nat (sint size))) (\<lambda>r.
     kret (r, chain_unlock c))))"

section \<open>Sending signals\<close>

text \<open>Result, the updated counter and the updated log of signals.\<close>

definition send_signal_to_process ::
  "(s32 \<Rightarrow> bool) \<Rightarrow> s32 \<Rightarrow> s32 \<Rightarrow> s32 \<Rightarrow> s32 \<Rightarrow> sent_signal list \<Rightarrow> int \<times> s32 \<times> sent_signal list" where
  "send_signal_to_process alive vintr vsig vpid tot_sig_sent log =
     (if \<not> alive vpid then (-1, tot_sig_sent, log)
      else (0, tot_sig_sent + 1, log @ [(vsig, vpid, vintr)]))"

fun signal_loop ::
  "64 word \<Rightarrow> (s32 \<Rightarrow> bool) \<Rightarrow> s32 \<Rightarrow> chain \<Rightarrow> drvobj kmem \<Rightarrow> s32 \<Rightarrow> sent_signal list \<Rightarrow> s32 \<Rightarrow> nat \<Rightarrow>
   (drvobj kmem \<times> s32 \<times> sent_signal list) kres" where
  "signal_loop fn alive interrupt c m cnt log i 0 = kret (m, cnt, log)"
| "signal_loop fn alive interrupt c m cnt log i (Suc k) =
     kbind (chain_get_by_index fn c m i) (\<lambda>pEntry.
     if pEntry = NULL then signal_loop fn alive interrupt c m cnt log (i + 1) k
     else kbind (rd_sig m pEntry) (\<lambda>e.
     if intr e = interrupt \<and> active e = 1 then
       (let (r, cnt, log) = send_signal_to_process alive (intr e) (sig e) (pid e) cnt log;
            m = (if r \<noteq> 0 then put_obj m pEntry (SigObj (e\<lparr>active := 0\<rparr>)) else m)
        in signal_loop fn alive interrupt c m cnt log (i + 1) k)
     else signal_loop fn alive interrupt c m cnt log (i + 1) k))"

definition send_signal_to_subscribers ::
  "64 word \<Rightarrow> (s32 \<Rightarrow> bool) \<Rightarrow> s32 \<Rightarrow> genintrdrv \<Rightarrow> genintrdrv kres" where
  "send_signal_to_subscribers fn alive interrupt d =
     kbind (chain_size (SubscribersList d)) (\<lambda>(size, c).
     kbind (chain_lock c) (\<lambda>c.
     kbind (signal_loop fn alive interrupt c (dmem d) (sigcounter d) (sent d) 0 (nat (sint size)))
       (\<lambda>(m, cnt, log).
     kret (d\<lparr>SubscribersList := chain_unlock c, dmem := m, sigcounter := cnt, sent := log\<rparr>))))"

section \<open>Sysfs attributes\<close>

definition debuglogflag_show :: "genintrdrv \<Rightarrow> string" where
  "debuglogflag_show d = show_int (sint (debuglogflag d)) @ [CHR 0x0A]"

text \<open>\<open>sscanf(buf, "%d", &x)\<close> leaves \<open>x\<close> alone when nothing matches. A store returns \<open>count\<close>.\<close>

definition sscanf_d :: "string \<Rightarrow> s32 \<Rightarrow> s32" where
  "sscanf_d buf old = (case scan_d buf of None \<Rightarrow> old | Some (v, _) \<Rightarrow> v)"

definition debuglogflag_store :: "string \<Rightarrow> genintrdrv \<Rightarrow> nat \<times> genintrdrv" where
  "debuglogflag_store buf d =
     (length buf, d\<lparr>debuglogflag := sscanf_d buf (debuglogflag d)\<rparr>)"

definition interruptflag_show :: "genintrdrv \<Rightarrow> string" where
  "interruptflag_show d = show_int (sint (interruptflag d)) @ [CHR 0x0A]"

definition interruptflag_store ::
  "64 word \<Rightarrow> (s32 \<Rightarrow> bool) \<Rightarrow> string \<Rightarrow> genintrdrv \<Rightarrow> (nat \<times> genintrdrv) kres" where
  "interruptflag_store fn alive buf d =
     (let d = d\<lparr>interruptflag := sscanf_d buf (interruptflag d)\<rparr> in
      kbind (send_signal_to_subscribers fn alive (interruptflag d) d) (\<lambda>d. kret (length buf, d)))"

definition sub_line :: "GENINTDRV_SIGINFO \<Rightarrow> string" where
  "sub_line e = show_int (sint (intr e)) @ CHR '','' # show_int (sint (sig e)) @
                CHR '','' # show_int (sint (pid e)) @ [CHR 0x0A]"

text \<open>\<open>strcat(buf, mybuf)\<close> into the sysfs buffer of \<open>page\<close> bytes, the terminating zero included.\<close>

fun show_loop :: "64 word \<Rightarrow> nat \<Rightarrow> chain \<Rightarrow> drvobj kmem \<Rightarrow> string \<Rightarrow> s32 \<Rightarrow> nat \<Rightarrow> string kres" where
  "show_loop fn page c m buf i 0 = kret buf"
| "show_loop fn page c m buf i (Suc k) =
     kbind (chain_get_by_index fn c m i) (\<lambda>pEntry.
     if pEntry = NULL then show_loop fn page c m buf (i + 1) k
     else kbind (rd_sig m pEntry) (\<lambda>e.
     if active e = 1 then
       (if page < length (buf @ sub_line e) + 1 then kfail BufferOverrun
        else show_loop fn page c m (buf @ sub_line e) (i + 1) k)
     else show_loop fn page c m buf (i + 1) k))"

definition intrsubscribe_show :: "64 word \<Rightarrow> nat \<Rightarrow> genintrdrv \<Rightarrow> (string \<times> genintrdrv) kres" where
  "intrsubscribe_show fn page d =
     kbind (chain_size (SubscribersList d)) (\<lambda>(size, c).
     kbind (chain_lock c) (\<lambda>c.
     kbind (show_loop fn page c (dmem d) [] 0 (nat (sint size))) (\<lambda>buf.
     kret (buf, d\<lparr>SubscribersList := chain_unlock c\<rparr>))))"

text \<open>\<open>sscanf(buf, "%d,%d,%d", ...)\<close>: fields after the first mismatch keep their old values.\<close>

definition sscanf_ddd :: "string \<Rightarrow> GENINTDRV_SIGINFO \<Rightarrow> GENINTDRV_SIGINFO" where
  "sscanf_ddd buf e =
     (case scan_d buf of None \<Rightarrow> e
      | Some (a, s1) \<Rightarrow>
        (let e = e\<lparr>intr := a\<rparr> in
         if s1 = [] \<or> hd s1 \<noteq> CHR '','' then e
         else case scan_d (tl s1) of None \<Rightarrow> e
         | Some (b, s2) \<Rightarrow>
           (let e = e\<lparr>sig := b\<rparr> in
            if s2 = [] \<or> hd s2 \<noteq> CHR '','' then e
            else case scan_d (tl s2) of None \<Rightarrow> e | Some (c, _) \<Rightarrow> e\<lparr>pid := c\<rparr>)))"

definition intrsubscribe_store :: "64 word \<Rightarrow> string \<Rightarrow> genintrdrv \<Rightarrow> (nat \<times> genintrdrv) kres" where
  "intrsubscribe_store fn buf d =
     (let d = d\<lparr>SigList := sscanf_ddd buf (SigList d)\<rparr>; e = SigList d in
      kbind (find_duplicate_entry fn (intr e) (sig e) (pid e) (SubscribersList d) (dmem d)) (\<lambda>(r, c).
      let d = d\<lparr>SubscribersList := c\<rparr> in
      if r \<noteq> 0 then
        (let d = d\<lparr>SigList := e\<lparr>active := 1\<rparr>\<rparr> in
         kbind (add_subscriber_to_list (SigList d) (SubscribersList d) (dmem d) (kans d))
           (\<lambda>(_, c, m, ks). kret (length buf, d\<lparr>SubscribersList := c, dmem := m, kans := ks\<rparr>)))
      else kret (length buf, d)))"

definition sigcount_show :: "genintrdrv \<Rightarrow> string" where
  "sigcount_show d =
     ''sigcount='' @ show_int (sint (sigcounter d)) @ '' intrcount='' @ show_int (sint (intcounter d)) @
     '' bhcount='' @ show_int (sint (bhcounter d)) @ [CHR 0x0A]"

definition sigcount_store :: "string \<Rightarrow> genintrdrv \<Rightarrow> nat \<times> genintrdrv" where
  "sigcount_store buf d = (length buf, d\<lparr>sigcounter := sscanf_d buf (sigcounter d)\<rparr>)"

definition activeirq_show :: string where
  "activeirq_show = ''none'' @ [CHR 0x0A]"

definition activeirq_store :: "string \<Rightarrow> genintrdrv \<Rightarrow> nat \<times> genintrdrv" where
  "activeirq_store buf d = (length buf, d)"

section \<open>Interrupt handling\<close>

text \<open>\<open>spin_lock(&irq_lock)\<close> does not disable interrupts; a lock already held on this CPU spins for ever.\<close>

definition irq_spin_lock :: "genintrdrv \<Rightarrow> genintrdrv kres" where
  "irq_spin_lock d = (if irq_lock d then khang else kret (d\<lparr>irq_lock := True\<rparr>))"

definition irq_tasklet_bh :: "64 word \<Rightarrow> (s32 \<Rightarrow> bool) \<Rightarrow> genintrdrv \<Rightarrow> genintrdrv kres" where
  "irq_tasklet_bh fn alive d =
     (let d = d\<lparr>bhcounter := bhcounter d + 1\<rparr> in
      kbind (irq_spin_lock d) (\<lambda>d.
      kbind (send_signal_to_subscribers fn alive (which_interrupt d) d) (\<lambda>d.
      kret (d\<lparr>irq_lock := False\<rparr>))))"

definition irq_handler :: "s32 \<Rightarrow> genintrdrv \<Rightarrow> genintrdrv kres" where
  "irq_handler irq d =
     (let d = d\<lparr>intcounter := intcounter d + 1\<rparr> in
      kbind (irq_spin_lock d) (\<lambda>d.
      kret (d\<lparr>which_interrupt := irq, irq_lock := False, tasklet_pending := True\<rparr>)))"

section \<open>The interrupt list\<close>

fun dup_irq_loop :: "64 word \<Rightarrow> s32 \<Rightarrow> chain \<Rightarrow> drvobj kmem \<Rightarrow> s32 \<Rightarrow> nat \<Rightarrow> int kres" where
  "dup_irq_loop fn irq c m i 0 = kret (-1)"
| "dup_irq_loop fn irq c m i (Suc k) =
     kbind (chain_get_by_index fn c m i) (\<lambda>pEntry.
     if pEntry = NULL then kret (-1)
     else kbind (rd_irq m pEntry) (\<lambda>e.
     if irqnum e = irq then kret 0 else dup_irq_loop fn irq c m (i + 1) k))"

definition find_duplicate_irq_entry :: "64 word \<Rightarrow> s32 \<Rightarrow> chain \<Rightarrow> drvobj kmem \<Rightarrow> (int \<times> chain) kres" where
  "find_duplicate_irq_entry fn irq c m =
     kbind (chain_size c) (\<lambda>(size, c).
     kbind (chain_lock c) (\<lambda>c.
     kbind (dup_irq_loop fn irq c m 0 (nat (sint size))) (\<lambda>r.
     kret (r, chain_unlock c))))"

definition add_irq_to_list ::
  "GENINTDRV_IRQINFO \<Rightarrow> chain \<Rightarrow> drvobj kmem \<Rightarrow> ptr list \<Rightarrow> (int \<times> chain \<times> drvobj kmem \<times> ptr list) kres" where
  "add_irq_to_list new c m ks =
     (let (pEntry, ks) = kmalloc ks in
      if pEntry = NULL then kret (-1, c, m, ks)
      else
        let m = put_obj m pEntry (IrqObj new); (pHolder, ks) = kmalloc ks in
        kbind (chain_put c m pHolder pEntry) (\<lambda>(r, c, m).
        if r \<noteq> 0 then kbind (kfree_obj m pEntry) (\<lambda>m. kret (-1, c, m, ks))
        else kret (0, c, m, ks)))"

text \<open>\<open>strsep(&end, ",")\<close>: what \<open>end\<close> points to afterwards, \<open>None\<close> for \<open>NULL\<close>.\<close>

fun after_comma :: "string \<Rightarrow> string option" where
  "after_comma [] = None"
| "after_comma (c # cs) = (if c = CHR '','' then Some cs else after_comma cs)"

lemma after_comma_shorter [termination_simp]: "after_comma s = Some t \<Longrightarrow> length t < length s"
  by (induction s) (auto split: if_splits)

fun scan_irq_loop ::
  "64 word \<Rightarrow> string \<Rightarrow> nat \<Rightarrow> chain \<Rightarrow> drvobj kmem \<Rightarrow> ptr list \<Rightarrow> (chain \<times> drvobj kmem \<times> ptr list) kres" where
  "scan_irq_loop fn token maxcount c m ks =
     (let intrnum = simple_strtol32 token in
      kbind (kbind (find_duplicate_irq_entry fn intrnum c m) (\<lambda>(r, c).
             if r \<noteq> 0 then kbind (add_irq_to_list \<lparr>irqnum = intrnum, irqsts = 0\<rparr> c m ks)
                                (\<lambda>(_, c, m, ks). kret (c, m, ks))
             else kret (c, m, ks))) (\<lambda>(c, m, ks).
      case after_comma token of None \<Rightarrow> kret (c, m, ks)
      | Some rest \<Rightarrow>
          if 1023 < maxcount then kret (c, m, ks) else scan_irq_loop fn rest (maxcount + 1) c m ks))"

declare scan_irq_loop.simps [simp del]

definition scan_cmdline_irqlist ::
  "64 word \<Rightarrow> string \<Rightarrow> chain \<Rightarrow> drvobj kmem \<Rightarrow> ptr list \<Rightarrow> (chain \<times> drvobj kmem \<times> ptr list) kres" where
  "scan_cmdline_irqlist fn str c m ks = scan_irq_loop fn str 0 c m ks"

definition register_irqlist :: "chain \<Rightarrow> int" where
  "register_irqlist c = 0"

definition free_irqlist :: "chain \<Rightarrow> int" where
  "free_irqlist c = 0"

section \<open>Module life cycle\<close>

text \<open>
  The registration calls are kernel services: \<open>misc\<close> is the result of \<open>misc_register\<close>, \<open>kobj\<close>
  whether \<open>kobject_create_and_add\<close> succeeded, \<open>files\<close> the results of the four
  \<open>sysfs_create_file\<close> calls, of which only the last one is returned.
\<close>

definition genintrdrv_init ::
  "64 word \<Rightarrow> int \<Rightarrow> bool \<Rightarrow> int list \<Rightarrow> string \<Rightarrow> genintrdrv \<Rightarrow> (int \<times> genintrdrv) kres" where
  "genintrdrv_init fn misc kobj files intrlist d =
     (if misc < 0 then kret (misc, d)
      else if \<not> kobj then kret (-12, d)
      else
        kbind (chain_init (SubscribersList d) (dmem d)) (\<lambda>(_, subs, m).
        kbind (chain_init (IRQList d) m) (\<lambda>(_, irqs, m).
        kbind (scan_cmdline_irqlist fn intrlist irqs m (kans d)) (\<lambda>(irqs, m, ks).
        kret (files ! 3, d\<lparr>SubscribersList := subs, IRQList := irqs, dmem := m, kans := ks\<rparr>)))))"

definition genintrdrv_exit :: "genintrdrv \<Rightarrow> genintrdrv kres" where
  "genintrdrv_exit d =
     kbind (chain_release (IRQList d) (dmem d)) (\<lambda>(_, irqs, m).
     kbind (chain_release (SubscribersList d) m) (\<lambda>(_, subs, m).
     kret (d\<lparr>IRQList := irqs, SubscribersList := subs, dmem := m\<rparr>)))"


section \<open>The chains as lists of objects\<close>

text \<open>
  \<open>obj_chain c m xs\<close>: the chain is well formed, unlocked and live, and its payloads are pairwise
  different live objects, with the contents \<open>os\<close>.
\<close>

definition objs_at :: "drvobj kmem \<Rightarrow> ptr list \<Rightarrow> drvobj list \<Rightarrow> bool" where
  "objs_at m ps os \<longleftrightarrow> distinct ps \<and> list_all2 (\<lambda>p x. p \<noteq> NULL \<and> objs m p = Some x) ps os"

definition obj_chain :: "chain \<Rightarrow> drvobj kmem \<Rightarrow> drvobj list \<Rightarrow> bool" where
  "obj_chain c m os \<longleftrightarrow>
     (\<exists>xs. chain_rep c m xs \<and> objs_at m (map snd xs) os) \<and>
     sema c = 1 \<and> init_flag c \<noteq> 0 \<and> length os < 2 ^ 31"

lemma objs_at_length: "objs_at m ps os \<Longrightarrow> length ps = length os"
  by (auto simp: objs_at_def dest: list_all2_lengthD)

lemma objs_at_nth:
  "objs_at m ps os \<Longrightarrow> j < length os \<Longrightarrow> ps ! j \<noteq> NULL \<and> objs m (ps ! j) = Some (os ! j)"
  by (auto simp: objs_at_def list_all2_conv_all_nth)

lemma objs_at_update:
  "objs_at m ps os \<Longrightarrow> j < length os \<Longrightarrow> objs_at (put_obj m (ps ! j) x) ps (os[j := x])"
  by (auto simp: objs_at_def list_all2_conv_all_nth put_obj_def nth_list_update nth_eq_iff_index_eq)

lemma chain_rep_put_obj [simp]: "chain_rep c (put_obj m p x) xs = chain_rep c m xs"
  by (rule chain_rep_mem) (simp add: put_obj_def)

lemma holders_put_obj [simp]: "holders (put_obj m p x) = holders m"
  by (simp add: put_obj_def)

lemma chain_lock_free [simp]: "sema c = 1 \<Longrightarrow> chain_lock c = kret (c\<lparr>sema := 0\<rparr>)"
  by (simp add: chain_lock_def)

lemma chain_unlock_locked [simp]: "sema c = 1 \<Longrightarrow> chain_unlock (c\<lparr>sema := 0\<rparr>) = c"
  by (simp add: chain_unlock_def up_def)

lemma chain_size_free [simp]: "sema c = 1 \<Longrightarrow> chain_size c = kret (sz c, c)"
  by (simp add: chain_size_def up_def)

lemma obj_chainE:
  assumes "obj_chain c m os"
  obtains xs where "chain_rep c m xs" "objs_at m (map snd xs) os" "sema c = 1" "init_flag c \<noteq> 0"
    "length xs = length os" "length os < 2 ^ 31" "nat (sint (sz c)) = length os"
proof -
  from assms obtain xs where xs: "chain_rep c m xs" "objs_at m (map snd xs) os" "sema c = 1"
    "init_flag c \<noteq> 0" "length os < 2 ^ 31"
    by (auto simp: obj_chain_def)
  then have "length xs = length os" by (auto dest: objs_at_length)
  with xs show thesis
    using that sint_of_nat_small [of "length os"] by (auto simp: chain_rep_def)
qed

text \<open>What a loop over \<open>chain_get_by_index\<close> reads in round \<open>j\<close>.\<close>

lemma obj_chain_index:
  assumes "chain_rep c m xs" "objs_at m (map snd xs) os" "length os < 2 ^ 31" "2 ^ 63 \<le> fn" "j < length os"
  obtains p where "chain_get_by_index fn c m (of_nat j) = kret p" "p \<noteq> NULL" "objs m p = Some (os ! j)"
    "p = map snd xs ! j"
  using chain_get_by_index_nat [OF assms(1) _ _ assms(4), of j] objs_at_nth [OF assms(2,5)]
    objs_at_length [OF assms(2)] assms(3,5) by auto

text \<open>Storing a new object and putting it into the chain, the common part of the two \<open>add\<close> functions.\<close>

definition fresh_supply :: "drvobj kmem \<Rightarrow> ptr list \<Rightarrow> bool" where
  "fresh_supply m ks \<longleftrightarrow> distinct ks \<and> (\<forall>k \<in> set ks. fresh_ptr m k)"

lemma chain_put_obj:
  assumes "obj_chain c m os" "fresh_supply m (k # k' # ks)" "length os + 1 < 2 ^ 31"
  shows "\<exists>m'. chain_put c (put_obj m k x) k' k = kret (0, grown c, m') \<and>
           obj_chain (grown c) m' (os @ [x]) \<and> fresh_supply m' ks"
proof -
  from assms(1) obtain xs where xs: "chain_rep c m xs" "objs_at m (map snd xs) os" "sema c = 1"
    "init_flag c \<noteq> 0"
    by (rule obj_chainE)
  define m1 where "m1 = put_obj m k x"
  have rep: "chain_rep c m1 xs" using xs(1) by (simp add: m1_def)
  have k: "fresh_ptr m k" "fresh_ptr m1 k'" "\<forall>q \<in> set ks. fresh_ptr m1 q \<and> q \<noteq> k'" "distinct ks"
    using assms(2) by (auto simp: fresh_supply_def fresh_ptr_def m1_def put_obj_def)
  from chain_put_rep [OF rep k(2), of k] xs(3,4) obtain m' where m':
    "chain_put c m1 k' k = kret (0, grown c, m')" "chain_rep (grown c) m' (xs @ [(k', k)])"
    "same_outside ({base_chain c, k'} \<union> fst ` set xs) m1 m'"
    by auto
  have ob: "objs m' = (objs m)(k \<mapsto> x)"
    using m'(3) by (simp add: same_outside_def m1_def put_obj_def)
  have nin: "k \<notin> set (map snd xs)"
    using xs(2) k(1)
    by (fastforce simp: objs_at_def fresh_ptr_def in_set_conv_nth list_all2_conv_all_nth)
  have "list_all2 (\<lambda>p x. p \<noteq> NULL \<and> objs m' p = Some x) (map snd xs) os"
    by (rule list.rel_mono_strong [of "\<lambda>p x. p \<noteq> NULL \<and> objs m p = Some x"])
       (use xs(2) nin in \<open>auto simp: objs_at_def ob\<close>)
  then have "objs_at m' (map snd (xs @ [(k', k)])) (os @ [x])"
    using xs(2) k(1) nin unfolding objs_at_def by (simp add: fresh_ptr_def ob list_all2_appendI)
  with m'(2) xs(3,4) assms(3) have "obj_chain (grown c) m' (os @ [x])"
    unfolding obj_chain_def by (auto intro!: exI [of _ "xs @ [(k', k)]"])
  moreover have "fresh_supply m' ks"
    using fresh_same_outside [OF rep m'(3)] k(3,4) by (auto simp: fresh_supply_def)
  ultimately show ?thesis using m'(1) by (auto simp: m1_def)
qed

section \<open>The subscription list\<close>

definition sub_list :: "genintrdrv \<Rightarrow> GENINTDRV_SIGINFO list \<Rightarrow> bool" where
  "sub_list d es \<longleftrightarrow> obj_chain (SubscribersList d) (dmem d) (map SigObj es)"

subsection \<open>Searching for a duplicate\<close>

definition same_sub :: "GENINTDRV_SIGINFO \<Rightarrow> GENINTDRV_SIGINFO \<Rightarrow> bool" where
  "same_sub x e \<longleftrightarrow> intr e = intr x \<and> sig e = sig x \<and> pid e = pid x \<and> active e = 1"

lemma dup_loop_rep:
  assumes "chain_rep c m xs" "objs_at m (map snd xs) (map SigObj es)" "length es < 2 ^ 31" "2 ^ 63 \<le> fn"
  shows "j + k = length es \<Longrightarrow>
         dup_loop fn (intr x) (sig x) (pid x) c m (of_nat j) k =
         kret (if list_ex (same_sub x) (drop j es) then 0 else -1)"
proof (induction k arbitrary: j)
  case 0
  then show ?case by simp
next
  case (Suc k)
  have j: "j < length es" using Suc.prems by simp
  from obj_chain_index [OF assms(1,2) _ assms(4), of j] assms(3) j obtain p where
    "chain_get_by_index fn c m (of_nat j) = kret p" "p \<noteq> NULL" "objs m p = Some (SigObj (es ! j))"
    by auto
  then show ?case
    using Suc.IH [of "Suc j"] Suc.prems
    by (auto simp: rd_sig_def same_sub_def add.commute simp flip: Cons_nth_drop_Suc [OF j])
qed

lemma find_duplicate_entry_rep:
  assumes "sub_list d es" and "2 ^ 63 \<le> fn"
  shows "find_duplicate_entry fn (intr x) (sig x) (pid x) (SubscribersList d) (dmem d) =
         kret (if list_ex (same_sub x) es then 0 else -1, SubscribersList d)"
proof -
  from assms(1) obtain xs where xs: "chain_rep (SubscribersList d) (dmem d) xs"
    "objs_at (dmem d) (map snd xs) (map SigObj es)" "sema (SubscribersList d) = 1"
    "length es < 2 ^ 31" "nat (sint (sz (SubscribersList d))) = length es"
    unfolding sub_list_def by (rule obj_chainE) simp
  have "chain_rep ((SubscribersList d)\<lparr>sema := 0\<rparr>) (dmem d) xs" using xs(1) by simp
  from dup_loop_rep [OF this xs(2,4) assms(2), of 0 "length es"] xs
  show ?thesis by (simp add: find_duplicate_entry_def)
qed

subsection \<open>Adding a subscription\<close>

lemma add_subscriber_to_list_rep:
  assumes "sub_list d es" "kans d = k # k' # ks" "fresh_supply (dmem d) (kans d)" "length es + 1 < 2 ^ 31"
  shows "\<exists>c m. add_subscriber_to_list e (SubscribersList d) (dmem d) (kans d) = kret (0, c, m, ks) \<and>
           obj_chain c m (map SigObj (es @ [e])) \<and> fresh_supply m ks"
  using chain_put_obj [of "SubscribersList d" "dmem d" "map SigObj es" k k' ks "SigObj e"] assms
  by (auto simp: sub_list_def add_subscriber_to_list_def kmalloc_def fresh_supply_def fresh_ptr_def)

subsection \<open>Delivering an interrupt\<close>

text \<open>What one interrupt does, on the list of entries: who gets a signal, and who is deactivated.\<close>

definition addressed :: "s32 \<Rightarrow> GENINTDRV_SIGINFO \<Rightarrow> bool" where
  "addressed i e \<longleftrightarrow> intr e = i \<and> active e = 1"

definition deliveries :: "(s32 \<Rightarrow> bool) \<Rightarrow> s32 \<Rightarrow> GENINTDRV_SIGINFO list \<Rightarrow> sent_signal list" where
  "deliveries alive i es = map (\<lambda>e. (sig e, pid e, intr e)) (filter (\<lambda>e. addressed i e \<and> alive (pid e)) es)"

definition deactivate_dead :: "(s32 \<Rightarrow> bool) \<Rightarrow> s32 \<Rightarrow> GENINTDRV_SIGINFO \<Rightarrow> GENINTDRV_SIGINFO" where
  "deactivate_dead alive i e = (if addressed i e \<and> \<not> alive (pid e) then e\<lparr>active := 0\<rparr> else e)"

lemma deliveries_simps [simp]:
  "deliveries alive i [] = []"
  "deliveries alive i (e # es) =
     (if addressed i e \<and> alive (pid e) then [(sig e, pid e, intr e)] else []) @ deliveries alive i es"
  by (simp_all add: deliveries_def)

lemma signal_loop_rep:
  assumes "2 ^ 63 \<le> fn" "length es < 2 ^ 31"
  shows "chain_rep c m xs \<Longrightarrow> objs_at m (map snd xs) (map SigObj es) \<Longrightarrow> j + k = length es \<Longrightarrow>
    \<exists>m'. signal_loop fn alive i c m cnt log (of_nat j) k =
      kret (m', cnt + of_nat (length (deliveries alive i (drop j es))),
            log @ deliveries alive i (drop j es)) \<and>
      holders m' = holders m \<and>
      objs_at m' (map snd xs) (map SigObj (take j es @ map (deactivate_dead alive i) (drop j es)))"
  using assms(2)
proof (induction k arbitrary: j m cnt log es)
  case 0
  then show ?case by simp
next
  case (Suc k)
  have j: "j < length es" using Suc.prems by simp
  define e where "e = es ! j"
  define e' where "e' = deactivate_dead alive i e"
  from obj_chain_index [OF Suc.prems(1,2) _ assms(1), of j] Suc.prems(4) j obtain p where p:
    "chain_get_by_index fn c m (of_nat j) = kret p" "p \<noteq> NULL" "objs m p = Some (SigObj e)"
    "p = map snd xs ! j"
    by (auto simp: e_def)
  define m1 where "m1 = (if addressed i e \<and> \<not> alive (pid e) then put_obj m p (SigObj e') else m)"
  have d: "drop j es = e # drop (Suc j) es" using Cons_nth_drop_Suc [OF j] by (simp add: e_def)
  have at1: "objs_at m1 (map snd xs) (map SigObj (es[j := e']))"
    using objs_at_update [OF Suc.prems(2), of j "SigObj e'"] Suc.prems(2) j
    by (auto simp: m1_def e'_def deactivate_dead_def e_def p(4) simp flip: map_update)
  have rep1: "chain_rep c m1 xs" and hol: "holders m1 = holders m"
    using Suc.prems(1) by (simp_all add: m1_def)
  have step: "signal_loop fn alive i c m cnt log (of_nat j) (Suc k) =
    signal_loop fn alive i c m1 (cnt + of_nat (length (deliveries alive i [e])))
      (log @ deliveries alive i [e]) (of_nat (Suc j)) k"
    using p(1,2,3)
    by (auto simp: rd_sig_def send_signal_to_process_def addressed_def m1_def e'_def
                   deactivate_dead_def add.commute)
  have dn: "drop (Suc j) (es[j := e']) = drop (Suc j) es" by simp
  have tk: "take (Suc j) (es[j := e']) = take j es @ [e']"
    using j by (simp add: take_Suc_conv_app_nth)
  from Suc.IH [OF rep1 at1, of "Suc j" "cnt + of_nat (length (deliveries alive i [e]))"
      "log @ deliveries alive i [e]"] Suc.prems obtain m' where m':
    "signal_loop fn alive i c m1 (cnt + of_nat (length (deliveries alive i [e])))
      (log @ deliveries alive i [e]) (of_nat (Suc j)) k =
     kret (m', cnt + of_nat (length (deliveries alive i [e])) +
            of_nat (length (deliveries alive i (drop (Suc j) es))),
            (log @ deliveries alive i [e]) @ deliveries alive i (drop (Suc j) es))"
    "holders m' = holders m1"
    "objs_at m' (map snd xs) (map SigObj ((take j es @ [e']) @ map (deactivate_dead alive i) (drop (Suc j) es)))"
    unfolding dn tk by (auto simp del: deliveries_simps)
  show ?case
    using m' hol unfolding step d by (auto simp: e'_def algebra_simps)
qed

lemma send_signal_to_subscribers_rep:
  assumes "sub_list d es" "2 ^ 63 \<le> fn"
  shows "\<exists>m. send_signal_to_subscribers fn alive i d =
    kret (d\<lparr>dmem := m, sigcounter := sigcounter d + of_nat (length (deliveries alive i es)),
            sent := sent d @ deliveries alive i es\<rparr>) \<and> holders m = holders (dmem d) \<and>
    sub_list (d\<lparr>dmem := m\<rparr>) (map (deactivate_dead alive i) es)"
proof -
  from assms(1) obtain xs where xs: "chain_rep (SubscribersList d) (dmem d) xs"
    "objs_at (dmem d) (map snd xs) (map SigObj es)" "sema (SubscribersList d) = 1"
    "length es < 2 ^ 31" "nat (sint (sz (SubscribersList d))) = length es"
    "init_flag (SubscribersList d) \<noteq> 0"
    unfolding sub_list_def by (rule obj_chainE) simp
  have "chain_rep ((SubscribersList d)\<lparr>sema := 0\<rparr>) (dmem d) xs" using xs(1) by simp
  from signal_loop_rep [OF assms(2) xs(4) this xs(2), of 0 "length es" alive i "sigcounter d" "sent d"]
  obtain m where m:
    "signal_loop fn alive i ((SubscribersList d)\<lparr>sema := 0\<rparr>) (dmem d) (sigcounter d) (sent d) 0 (length es) =
      kret (m, sigcounter d + of_nat (length (deliveries alive i es)), sent d @ deliveries alive i es)"
    "holders m = holders (dmem d)"
    "objs_at m (map snd xs) (map SigObj (map (deactivate_dead alive i) es))"
    by auto
  have "sub_list (d\<lparr>dmem := m\<rparr>) (map (deactivate_dead alive i) es)"
    unfolding sub_list_def obj_chain_def using m xs chain_rep_mem [OF m(2)] by auto
  with m xs show ?thesis
    by (intro exI [of _ m]) (simp add: send_signal_to_subscribers_def)
qed

subsection \<open>Listing the subscriptions\<close>

definition listing :: "GENINTDRV_SIGINFO list \<Rightarrow> string" where
  "listing es = concat (map sub_line (filter (\<lambda>e. active e = 1) es))"

lemma show_loop_rep:
  assumes "chain_rep c m xs" "objs_at m (map snd xs) (map SigObj es)" "length es < 2 ^ 31" "2 ^ 63 \<le> fn"
  shows "j + k = length es \<Longrightarrow> length buf < page \<Longrightarrow>
         show_loop fn page c m buf (of_nat j) k =
         (if length (buf @ listing (drop j es)) < page then kret (buf @ listing (drop j es))
          else kfail BufferOverrun)"
proof (induction k arbitrary: j buf)
  case 0
  then show ?case by (simp add: listing_def)
next
  case (Suc k)
  have j: "j < length es" using Suc.prems by simp
  from obj_chain_index [OF assms(1,2) _ assms(4), of j] assms(3) j obtain p where
    "chain_get_by_index fn c m (of_nat j) = kret p" "p \<noteq> NULL" "objs m p = Some (SigObj (es ! j))"
    by auto
  then show ?case
    using Suc.IH [of "Suc j"] Suc.prems
    by (auto simp: rd_sig_def listing_def add.commute simp flip: Cons_nth_drop_Suc [OF j])
qed

lemma sscanf_ddd_sub_line:
  "sscanf_ddd (sub_line e) x = x\<lparr>intr := intr e, sig := sig e, pid := pid e\<rparr>"
  by (simp add: sscanf_ddd_def sub_line_def scan_d_show_int Let_def)

lemma length_sub_line: "length (sub_line e) \<le> 36"
proof -
  have "length (show_int (sint w)) \<le> 11" for w :: s32
    using sint_ge [of w] sint_less [of w] by (intro length_show_int) auto
  from this [of "intr e"] this [of "sig e"] this [of "pid e"] show ?thesis
    by (simp add: sub_line_def)
qed

lemma length_listing: "length (listing es) \<le> 36 * length (filter (\<lambda>e. active e = 1) es)"
proof (induction es)
  case (Cons e es)
  then show ?case using length_sub_line [of e] by (auto simp: listing_def)
qed (simp add: listing_def)

section \<open>The interrupt list of the command line\<close>

definition irq_obj :: "s32 \<Rightarrow> drvobj" where
  "irq_obj n = IrqObj \<lparr>irqnum = n, irqsts = 0\<rparr>"

lemma dup_irq_loop_rep:
  assumes "chain_rep c m xs" "objs_at m (map snd xs) (map irq_obj ns)" "length ns < 2 ^ 31" "2 ^ 63 \<le> fn"
  shows "j + k = length ns \<Longrightarrow>
         dup_irq_loop fn n c m (of_nat j) k = kret (if n \<in> set (drop j ns) then 0 else -1)"
proof (induction k arbitrary: j)
  case 0
  then show ?case by simp
next
  case (Suc k)
  have j: "j < length ns" using Suc.prems by simp
  from obj_chain_index [OF assms(1,2) _ assms(4), of j] assms(3) j obtain p where
    "chain_get_by_index fn c m (of_nat j) = kret p" "p \<noteq> NULL" "objs m p = Some (irq_obj (ns ! j))"
    by auto
  then show ?case
    using Suc.IH [of "Suc j"] Suc.prems
    by (auto simp: rd_irq_def irq_obj_def add.commute simp flip: Cons_nth_drop_Suc [OF j])
qed

lemma find_duplicate_irq_entry_rep:
  assumes "obj_chain c m (map irq_obj ns)" and "2 ^ 63 \<le> fn"
  shows "find_duplicate_irq_entry fn n c m = kret (if n \<in> set ns then 0 else -1, c)"
proof -
  from assms(1) obtain xs where xs: "chain_rep c m xs" "objs_at m (map snd xs) (map irq_obj ns)"
    "sema c = 1" "length ns < 2 ^ 31" "nat (sint (sz c)) = length ns"
    by (rule obj_chainE) simp
  have "chain_rep (c\<lparr>sema := 0\<rparr>) m xs" using xs(1) by simp
  from dup_irq_loop_rep [OF this xs(2,4) assms(2), of 0 "length ns"] xs
  show ?thesis by (simp add: find_duplicate_irq_entry_def)
qed

text \<open>The numbers in the order of their first occurrence.\<close>

definition add_new :: "s32 list \<Rightarrow> s32 \<Rightarrow> s32 list" where
  "add_new ns n = (if n \<in> set ns then ns else ns @ [n])"

lemma foldl_add_new: "foldl add_new [] ns = rev (remdups (rev ns))"
  by (induction ns rule: rev_induct) (auto simp: add_new_def)

lemma add_irq_step:
  assumes "obj_chain c m (map irq_obj ns)" "fresh_supply m ks" "2 \<le> length ks" "2 ^ 63 \<le> fn"
    "length ns + 1 < 2 ^ 31"
  shows "\<exists>c' m' ks'. kbind (find_duplicate_irq_entry fn n c m) (\<lambda>(r, c).
             if r \<noteq> 0 then kbind (add_irq_to_list \<lparr>irqnum = n, irqsts = 0\<rparr> c m ks)
                                (\<lambda>(_, c, m, ks). kret (c, m, ks))
             else kret (c, m, ks)) = kret (c', m', ks') \<and>
           obj_chain c' m' (map irq_obj (add_new ns n)) \<and> fresh_supply m' ks' \<and> length ks \<le> length ks' + 2"
proof (cases "n \<in> set ns")
  case True
  with assms find_duplicate_irq_entry_rep [OF assms(1,4), of n] show ?thesis
    by (simp add: add_new_def)
next
  case False
  obtain k k' ks' where ks: "ks = k # k' # ks'"
    using assms(3) by (metis Suc_le_length_iff numeral_2_eq_2)
  with chain_put_obj [of c m "map irq_obj ns" k k' ks' "irq_obj n"] assms
  obtain m' where "chain_put c (put_obj m k (irq_obj n)) k' k = kret (0, grown c, m')"
    "obj_chain (grown c) m' (map irq_obj (ns @ [n]))" "fresh_supply m' ks'"
    by auto
  with False ks assms(2) find_duplicate_irq_entry_rep [OF assms(1,4), of n] show ?thesis
    by (simp add: add_new_def add_irq_to_list_def kmalloc_def irq_obj_def fresh_supply_def fresh_ptr_def)
qed

fun tokens :: "string \<Rightarrow> string list" where
  "tokens s = s # (case after_comma s of None \<Rightarrow> [] | Some t \<Rightarrow> tokens t)"

declare tokens.simps [simp del]

lemma scan_irq_loop_rep:
  assumes "2 ^ 63 \<le> fn"
  shows "obj_chain c m (map irq_obj ns) \<Longrightarrow> fresh_supply m ks \<Longrightarrow> 2 * length (tokens s) \<le> length ks \<Longrightarrow>
    length ns + length (tokens s) < 2 ^ 31 \<Longrightarrow> mc + length (tokens s) \<le> 1025 \<Longrightarrow>
    \<exists>c' m' ks'. scan_irq_loop fn s mc c m ks = kret (c', m', ks') \<and>
      obj_chain c' m' (map irq_obj (foldl add_new ns (map simple_strtol32 (tokens s))))"
proof (induction s arbitrary: mc c m ks ns rule: tokens.induct)
  case (1 s)
  have two: "2 \<le> length ks" "length ns + 1 < 2 ^ 31"
    using 1(4,5) by (subst (asm) tokens.simps, simp)+
  from add_irq_step [OF 1(2,3) two(1) assms two(2), of "simple_strtol32 s"] obtain c' m' ks' where st:
    "kbind (find_duplicate_irq_entry fn (simple_strtol32 s) c m) (\<lambda>(r, c).
       if r \<noteq> 0 then kbind (add_irq_to_list \<lparr>irqnum = simple_strtol32 s, irqsts = 0\<rparr> c m ks)
                          (\<lambda>(_, c, m, ks). kret (c, m, ks))
       else kret (c, m, ks)) = kret (c', m', ks')"
    "obj_chain c' m' (map irq_obj (add_new ns (simple_strtol32 s)))" "fresh_supply m' ks'"
    "length ks \<le> length ks' + 2"
    by blast
  have unf: "scan_irq_loop fn s mc c m ks =
    (case after_comma s of None \<Rightarrow> kret (c', m', ks')
     | Some rest \<Rightarrow> if 1023 < mc then kret (c', m', ks') else scan_irq_loop fn rest (mc + 1) c' m' ks')"
    unfolding scan_irq_loop.simps [of fn s] by (simp add: Let_def st(1))
  show ?case
  proof (cases "after_comma s")
    case None
    with st(2) unf show ?thesis by (simp add: tokens.simps [of s])
  next
    case (Some t)
    have tok: "tokens s = s # tokens t" by (simp add: tokens.simps [of s] Some)
    have "tokens t \<noteq> []" by (subst tokens.simps) simp
    then have pos: "0 < length (tokens t)" by simp
    have "\<exists>c'' m'' ks''. scan_irq_loop fn t (mc + 1) c' m' ks' = kret (c'', m'', ks'') \<and>
      obj_chain c'' m'' (map irq_obj (foldl add_new (add_new ns (simple_strtol32 s)) (map simple_strtol32 (tokens t))))"
      using 1(4,5,6) st(4) tok
      by (intro 1(1) [OF Some st(2,3)]) (auto simp: add_new_def)
    moreover have "\<not> 1023 < mc" using 1(6) tok pos by (simp del: length_greater_0_conv)
    ultimately show ?thesis using unf Some tok by simp
  qed
qed

text \<open>A module parameter \<open>intrlist\<close> as the administrator writes it.\<close>

fun comma_list :: "int list \<Rightarrow> string" where
  "comma_list [] = []"
| "comma_list [i] = show_int i"
| "comma_list (i # is) = show_int i @ CHR '','' # comma_list is"

lemma after_comma_append: "CHR '','' \<notin> set s \<Longrightarrow> after_comma (s @ CHR '','' # t) = Some t"
  by (induction s) auto

lemma after_comma_none: "CHR '','' \<notin> set s \<Longrightarrow> after_comma s = None"
  by (induction s) auto

lemma tokens_comma_list:
  "is \<noteq> [] \<Longrightarrow> map simple_strtol32 (tokens (comma_list is)) = map of_int is"
proof (induction "is" rule: comma_list.induct)
  case (2 i)
  then show ?case
    using simple_strtol32_show_int [of "[]" i]
    by (simp add: tokens.simps after_comma_none show_int_no_comma)
next
  case (3 i j js)
  then show ?case
    by (simp add: tokens.simps [of "show_int i @ _"] after_comma_append show_int_no_comma
        simple_strtol32_show_int)
qed simp

section \<open>Properties\<close>

text \<open>No two active entries are equal.\<close>

definition no_dup :: "GENINTDRV_SIGINFO list \<Rightarrow> bool" where
  "no_dup es \<longleftrightarrow> distinct (map (\<lambda>e. (intr e, sig e, pid e)) (filter (\<lambda>e. active e = 1) es))"

lemma no_dup_snoc: "no_dup es \<Longrightarrow> \<not> list_ex (same_sub e) es \<Longrightarrow> no_dup (es @ [e])"
  by (auto simp: no_dup_def same_sub_def list_ex_iff)

lemma no_dup_deactivate: "no_dup es \<Longrightarrow> no_dup (map (deactivate_dead alive i) es)"
  by (induction es) (auto simp: no_dup_def deactivate_dead_def split: if_splits)

text \<open>The driver with one subscription and four addresses to allocate, for the witnesses.\<close>

definition ex_sub :: GENINTDRV_SIGINFO where
  "ex_sub = \<lparr>intr = 5, sig = 10, pid = 77, active = 1\<rparr>"

definition ex_drv :: genintrdrv where
  "ex_drv = \<lparr>debuglogflag = 0, interruptflag = 0, sigcounter = 0, intcounter = 0, bhcounter = 0,
     SigList = ex_sub, SubscribersList = \<lparr>base_chain = 1, sz = 1, peak_sz = 1, init_flag = 1, sema = 1\<rparr>,
     IRQList = \<lparr>base_chain = 2, sz = 0, peak_sz = 0, init_flag = 1, sema = 1\<rparr>,
     which_interrupt = -1, irq_lock = False, tasklet_pending = False,
     dmem = \<lparr>holders = [1 \<mapsto> \<lparr>pData = 0, pPrev = 0, pNext = 3\<rparr>, 2 \<mapsto> \<lparr>pData = 0, pPrev = 0, pNext = 0\<rparr>,
                       3 \<mapsto> \<lparr>pData = 30, pPrev = 1, pNext = 0\<rparr>],
             objs = [30 \<mapsto> SigObj ex_sub], irq_on = True\<rparr>,
     kans = [40, 4, 50, 5], sent = []\<rparr>"

lemma ex_drv_rep: "sub_list ex_drv [ex_sub]" "obj_chain (IRQList ex_drv) (dmem ex_drv) (map irq_obj [])"
  by (auto simp: sub_list_def obj_chain_def objs_at_def ex_drv_def chain_rep_def intro!: exI [of _ "[(3, 30)]"])

lemma ex_drv_fresh: "fresh_supply (dmem ex_drv) (kans ex_drv)"
  by (simp add: fresh_supply_def fresh_ptr_def ex_drv_def)

text \<open>
  Fact: writing a subscription to the \<open>subscribe\<close> attribute returns the number of bytes
  written; if an active entry with the same interrupt, signal and process exists the list stays as
  it is, otherwise exactly one new active entry with the scanned fields is appended. The rule that no
  two active entries are equal is kept.
\<close>

theorem subscribe_unique:
  assumes "sub_list d es" and "2 ^ 63 \<le> fn" and "fresh_supply (dmem d) (kans d)"
    and "2 \<le> length (kans d)" and "length es + 1 < 2 ^ 31"
    and "e = (sscanf_ddd buf (SigList d))\<lparr>active := 1\<rparr>"
    and "es' = (if list_ex (same_sub e) es then es else es @ [e])"
  shows "\<exists>d'. intrsubscribe_store fn buf d = kret (length buf, d') \<and> sub_list d' es' \<and>
           (no_dup es \<longrightarrow> no_dup es')"
proof -
  let ?d = "d\<lparr>SigList := sscanf_ddd buf (SigList d)\<rparr>"
  have dup: "find_duplicate_entry fn (intr (SigList ?d)) (sig (SigList ?d)) (pid (SigList ?d))
      (SubscribersList d) (dmem d) = kret (if list_ex (same_sub e) es then 0 else -1, SubscribersList d)"
    using find_duplicate_entry_rep [OF assms(1,2), of e] by (simp add: assms(6))
  obtain k k' ks where ks: "kans d = k # k' # ks"
    using assms(4) by (metis Suc_le_length_iff numeral_2_eq_2)
  from add_subscriber_to_list_rep [OF assms(1) ks assms(3,5), of e] obtain c m where
    "add_subscriber_to_list e (SubscribersList d) (dmem d) (kans d) = kret (0, c, m, ks)"
    "obj_chain c m (map SigObj (es @ [e]))"
    by blast
  then show ?thesis
    using dup assms(1,6,7) no_dup_snoc [of es e]
    by (auto simp: intrsubscribe_store_def Let_def sub_list_def)
qed

theorem subscribe_unique_witness:
  "\<exists>d'. intrsubscribe_store 0xffffffff81000000 (sub_line (ex_sub\<lparr>pid := 78\<rparr>)) ex_drv =
          kret (length (sub_line (ex_sub\<lparr>pid := 78\<rparr>)), d') \<and> sub_list d' [ex_sub, ex_sub\<lparr>pid := 78\<rparr>]"
proof -
  have e: "ex_sub\<lparr>pid := 78\<rparr> = (sscanf_ddd (sub_line (ex_sub\<lparr>pid := 78\<rparr>)) (SigList ex_drv))\<lparr>active := 1\<rparr>"
    by (simp add: sscanf_ddd_sub_line ex_drv_def ex_sub_def)
  have l: "2 \<le> length (kans ex_drv)" "length [ex_sub] + 1 < 2 ^ 31" "(2 ^ 63 :: 64 word) \<le> 0xffffffff81000000"
    by (simp_all add: ex_drv_def)
  have n: "[ex_sub, ex_sub\<lparr>pid := 78\<rparr>] =
    (if list_ex (same_sub (ex_sub\<lparr>pid := 78\<rparr>)) [ex_sub] then [ex_sub] else [ex_sub] @ [ex_sub\<lparr>pid := 78\<rparr>])"
    by (simp add: same_sub_def ex_sub_def)
  show ?thesis
    using subscribe_unique [OF ex_drv_rep(1) l(3) ex_drv_fresh l(1,2) e n] by blast
qed

text \<open>
  Property C26: an interrupt handled by the top half and then the bottom half sends exactly one
  signal, carrying the interrupt number, to every live process with an active subscription for it,
  in the order of subscription; subscriptions of dead processes for that interrupt become inactive,
  all others keep their state; the three counters advance by the numbers of events, the spin lock
  and the chain's semaphore are free again, and no two active entries become equal.
\<close>

theorem interrupt_delivers:
  assumes "sub_list d es" and "2 ^ 63 \<le> fn" and "\<not> irq_lock d" and "no_dup es"
  shows "\<exists>d1 d2. irq_handler irq d = kret d1 \<and> tasklet_pending d1 \<and>
           irq_tasklet_bh fn alive d1 = kret d2 \<and>
           sent d2 = sent d @ deliveries alive irq es \<and>
           sub_list d2 (map (deactivate_dead alive irq) es) \<and>
           no_dup (map (deactivate_dead alive irq) es) \<and>
           sigcounter d2 = sigcounter d + of_nat (length (deliveries alive irq es)) \<and>
           intcounter d2 = intcounter d + 1 \<and> bhcounter d2 = bhcounter d + 1 \<and> \<not> irq_lock d2"
proof -
  define d1 where "d1 = d\<lparr>intcounter := intcounter d + 1, irq_lock := False, which_interrupt := irq, tasklet_pending := True\<rparr>"
  define d1' where "d1' = d1\<lparr>bhcounter := bhcounter d + 1, irq_lock := True\<rparr>"
  have h: "irq_handler irq d = kret d1"
    using assms(3) by (simp add: irq_handler_def irq_spin_lock_def d1_def)
  have "sub_list d1' es" using assms(1) by (simp add: sub_list_def d1'_def d1_def)
  from send_signal_to_subscribers_rep [OF this assms(2), of alive irq] obtain m where m:
    "send_signal_to_subscribers fn alive irq d1' =
      kret (d1'\<lparr>dmem := m, sigcounter := sigcounter d1' + of_nat (length (deliveries alive irq es)),
                sent := sent d1' @ deliveries alive irq es\<rparr>)"
    "sub_list (d1'\<lparr>dmem := m\<rparr>) (map (deactivate_dead alive irq) es)"
    by blast
  have b: "irq_tasklet_bh fn alive d1 =
      kret (d1'\<lparr>dmem := m, sigcounter := sigcounter d1' + of_nat (length (deliveries alive irq es)),
                sent := sent d1' @ deliveries alive irq es, irq_lock := False\<rparr>)"
    using m(1) by (simp add: irq_tasklet_bh_def irq_spin_lock_def d1_def d1'_def)
  show ?thesis
    using m(2) no_dup_deactivate [OF assms(4)] h b
    by (auto simp: sub_list_def d1_def d1'_def)
qed

theorem interrupt_delivers_witness:
  "\<exists>d1 d2. irq_handler 5 ex_drv = kret d1 \<and>
     irq_tasklet_bh 0xffffffff81000000 (\<lambda>p. p = 77) d1 = kret d2 \<and> sent d2 = [(10, 77, 5)]"
  using interrupt_delivers [OF ex_drv_rep(1), of "0xffffffff81000000" 5 "\<lambda>p. p = 77"]
  by (auto simp: ex_drv_def no_dup_def addressed_def ex_sub_def)

text \<open>
  The bottom half takes the spin lock without disabling interrupts: an interrupt that arrives while
  the lock is held by the interrupted tasklet spins for ever.
\<close>

lemma irq_handler_during_tasklet_hangs:
  "irq_spin_lock d = kret d' \<Longrightarrow> irq_handler irq d' = khang"
  by (auto simp: irq_spin_lock_def irq_handler_def split: if_splits)

text \<open>
  Fact: reading the \<open>subscribe\<close> attribute lists one line per active entry, in order, exactly
  when the listing and its terminating zero fit the page, and overruns the page buffer otherwise;
  113 active entries always fit 4096 bytes. Writing a listed line back scans the same interrupt,
  signal and process, so it is recognised as a duplicate.
\<close>

theorem subscribe_show_roundtrip:
  assumes "sub_list d es" and "2 ^ 63 \<le> fn" and "0 < page"
  shows "intrsubscribe_show fn page d =
           (if length (listing es) < page then kret (listing es, d) else kfail BufferOverrun) \<and>
         (length (filter (\<lambda>e. active e = 1) es) \<le> 113 \<longrightarrow> length (listing es) < 4096) \<and>
         (\<forall>e \<in> set es. active e = 1 \<longrightarrow> intrsubscribe_store fn (sub_line e) d =
            kret (length (sub_line e), d\<lparr>SigList := (SigList d)\<lparr>intr := intr e, sig := sig e, pid := pid e\<rparr>\<rparr>))"
proof (intro conjI ballI impI)
  from assms(1) obtain xs where xs: "chain_rep (SubscribersList d) (dmem d) xs"
    "objs_at (dmem d) (map snd xs) (map SigObj es)" "sema (SubscribersList d) = 1"
    "length es < 2 ^ 31" "nat (sint (sz (SubscribersList d))) = length es"
    unfolding sub_list_def by (rule obj_chainE) simp
  have "chain_rep ((SubscribersList d)\<lparr>sema := 0\<rparr>) (dmem d) xs" using xs(1) by simp
  from show_loop_rep [OF this xs(2,4) assms(2), of 0 "length es" "[]" page] xs assms(3)
  show "intrsubscribe_show fn page d =
          (if length (listing es) < page then kret (listing es, d) else kfail BufferOverrun)"
    by (simp add: intrsubscribe_show_def)
next
  assume "length (filter (\<lambda>e. active e = 1) es) \<le> 113"
  then show "length (listing es) < 4096"
    using length_listing [of es] by linarith
next
  fix e assume e: "e \<in> set es" "active e = 1"
  then have "list_ex (same_sub e) es" by (auto simp: list_ex_iff same_sub_def)
  with find_duplicate_entry_rep [OF assms(1,2), of e]
  show "intrsubscribe_store fn (sub_line e) d =
    kret (length (sub_line e), d\<lparr>SigList := (SigList d)\<lparr>intr := intr e, sig := sig e, pid := pid e\<rparr>\<rparr>)"
    by (simp add: intrsubscribe_store_def sscanf_ddd_sub_line Let_def)
qed

theorem subscribe_show_roundtrip_witness:
  "intrsubscribe_show 0xffffffff81000000 4096 ex_drv = kret (''5,10,77'' @ [CHR 0x0A], ex_drv) \<and>
   intrsubscribe_show 0xffffffff81000000 8 ex_drv = kfail BufferOverrun"
proof -
  have "listing [ex_sub] = ''5,10,77'' @ [CHR 0x0A]"
    by (code_simp)
  then show ?thesis
    using subscribe_show_roundtrip [OF ex_drv_rep(1), of "0xffffffff81000000" 4096]
      subscribe_show_roundtrip [OF ex_drv_rep(1), of "0xffffffff81000000" 8]
    by simp
qed

text \<open>
  Fact: scanning the module parameter \<open>intrlist\<close>, a comma separated list of at most 1025
  numbers, puts each interrupt number once into the interrupt list, in the order of first
  occurrence, when memory is available.
\<close>

theorem scan_cmdline_irqlist_dedup:
  assumes "obj_chain c m (map irq_obj [])" and "2 ^ 63 \<le> fn" and "is \<noteq> []" and "length is \<le> 1025"
    and "fresh_supply m ks" and "2 * length is \<le> length ks"
  shows "\<exists>c' m' ks'. scan_cmdline_irqlist fn (comma_list is) c m ks = kret (c', m', ks') \<and>
           obj_chain c' m' (map irq_obj (rev (remdups (rev (map of_int is)))))"
proof -
  have l: "length (tokens (comma_list is)) = length is"
    using arg_cong [OF tokens_comma_list [OF assms(3)], of length] by simp
  show ?thesis
    using scan_irq_loop_rep [OF assms(2,1,5), of "comma_list is" 0] assms(4,6) l
      tokens_comma_list [OF assms(3)] foldl_add_new [of "map of_int is"]
    by (simp add: scan_cmdline_irqlist_def)
qed

theorem scan_cmdline_irqlist_dedup_witness:
  "\<exists>c' m' ks'. scan_cmdline_irqlist 0xffffffff81000000 ''7,7'' (IRQList ex_drv) (dmem ex_drv) [40, 4, 50, 5] =
      kret (c', m', ks') \<and> obj_chain c' m' [irq_obj 7]"
proof -
  have "comma_list [7, 7] = ''7,7''" by code_simp
  then show ?thesis
    using scan_cmdline_irqlist_dedup [OF ex_drv_rep(2), of "0xffffffff81000000" "[7, 7]" "[40, 4, 50, 5]"] ex_drv_fresh
    by (simp add: ex_drv_def)
qed

end
