(* ===== verification/Crc32.thy ===== *)
theory Crc32
  imports Prelude
begin

text \<open>
  The CRC-32 of \<open>src/sources/utils/brbox-mkimage/crc32.c\<close>, used for the image header and data
  checksums: the constant table, the generator of the table, and the checksum loop unrolled eight
  times, on the 64-bit \<open>unsigned long\<close> of the host. The reference is the shift register of the
  polynomial on 32 bits; the loop computes it, and a change within four consecutive bytes is always
  detected.
\<close>

section \<open>Generating the table\<close>

text \<open>The terms of the polynomial except \<open>x^32\<close>, and the exclusive-or pattern made from them.\<close>

definition crc_terms :: "nat list" where
  "crc_terms = [0, 1, 2, 4, 5, 7, 8, 10, 11, 12, 16, 22, 23, 26]"

definition crc_poly :: "64 word" where
  "crc_poly = foldl (\<lambda>poly n. poly OR push_bit (31 - n) 1) 0 crc_terms"

definition crc_entry :: "nat \<Rightarrow> 64 word" where
  "crc_entry n = ((\<lambda>c. if c AND 1 \<noteq> 0 then crc_poly XOR drop_bit 1 c else drop_bit 1 c) ^^ 8) (of_nat n)"

definition make_crc_table :: "64 word list" where
  "make_crc_table = map crc_entry [0..<256]"

definition crc_literals :: "int list" where
  "crc_literals =
    [
      0x00000000, 0x77073096, 0xee0e612c, 0x990951ba, 0x076dc419, 0x706af48f, 0xe963a535, 0x9e6495a3,
      0x0edb8832, 0x79dcb8a4, 0xe0d5e91e, 0x97d2d988, 0x09b64c2b, 0x7eb17cbd, 0xe7b82d07, 0x90bf1d91,
      0x1db71064, 0x6ab020f2, 0xf3b97148, 0x84be41de, 0x1adad47d, 0x6ddde4eb, 0xf4d4b551, 0x83d385c7,
      0x136c9856, 0x646ba8c0, 0xfd62f97a, 0x8a65c9ec, 0x14015c4f, 0x63066cd9, 0xfa0f3d63, 0x8d080df5,
      0x3b6e20c8, 0x4c69105e, 0xd56041e4, 0xa2677172, 0x3c03e4d1, 0x4b04d447, 0xd20d85fd, 0xa50ab56b,
      0x35b5a8fa, 0x42b2986c, 0xdbbbc9d6, 0xacbcf940, 0x32d86ce3, 0x45df5c75, 0xdcd60dcf, 0xabd13d59,
      0x26d930ac, 0x51de003a, 0xc8d75180, 0xbfd06116, 0x21b4f4b5, 0x56b3c423, 0xcfba9599, 0xb8bda50f,
      0x2802b89e, 0x5f058808, 0xc60cd9b2, 0xb10be924, 0x2f6f7c87, 0x58684c11, 0xc1611dab, 0xb6662d3d,
      0x76dc4190, 0x01db7106, 0x98d220bc, 0xefd5102a, 0x71b18589, 0x06b6b51f, 0x9fbfe4a5, 0xe8b8d433,
      0x7807c9a2, 0x0f00f934, 0x9609a88e, 0xe10e9818, 0x7f6a0dbb, 0x086d3d2d, 0x91646c97, 0xe6635c01,
      0x6b6b51f4, 0x1c6c6162, 0x856530d8, 0xf262004e, 0x6c0695ed, 0x1b01a57b, 0x8208f4c1, 0xf50fc457,
      0x65b0d9c6, 0x12b7e950, 0x8bbeb8ea, 0xfcb9887c, 0x62dd1ddf, 0x15da2d49, 0x8cd37cf3, 0xfbd44c65,
      0x4db26158, 0x3ab551ce, 0xa3bc0074, 0xd4bb30e2, 0x4adfa541, 0x3dd895d7, 0xa4d1c46d, 0xd3d6f4fb,
      0x4369e96a, 0x346ed9fc, 0xad678846, 0xda60b8d0, 0x44042d73, 0x33031de5, 0xaa0a4c5f, 0xdd0d7cc9,
      0x5005713c, 0x270241aa, 0xbe0b1010, 0xc90c2086, 0x5768b525, 0x206f85b3, 0xb966d409, 0xce61e49f,
      0x5edef90e, 0x29d9c998, 0xb0d09822, 0xc7d7a8b4, 0x59b33d17, 0x2eb40d81, 0xb7bd5c3b, 0xc0ba6cad,
      0xedb88320, 0x9abfb3b6, 0x03b6e20c, 0x74b1d29a, 0xead54739, 0x9dd277af, 0x04db2615, 0x73dc1683,
      0xe3630b12, 0x94643b84, 0x0d6d6a3e, 0x7a6a5aa8, 0xe40ecf0b, 0x9309ff9d, 0x0a00ae27, 0x7d079eb1,
      0xf00f9344, 0x8708a3d2, 0x1e01f268, 0x6906c2fe, 0xf762575d, 0x806567cb, 0x196c3671, 0x6e6b06e7,
      0xfed41b76, 0x89d32be0, 0x10da7a5a, 0x67dd4acc, 0xf9b9df6f, 0x8ebeeff9, 0x17b7be43, 0x60b08ed5,
      0xd6d6a3e8, 0xa1d1937e, 0x38d8c2c4, 0x4fdff252, 0xd1bb67f1, 0xa6bc5767, 0x3fb506dd, 0x48b2364b,
      0xd80d2bda, 0xaf0a1b4c, 0x36034af6, 0x41047a60, 0xdf60efc3, 0xa867df55, 0x316e8eef, 0x4669be79,
      0xcb61b38c, 0xbc66831a, 0x256fd2a0, 0x5268e236, 0xcc0c7795, 0xbb0b4703, 0x220216b9, 0x5505262f,
      0xc5ba3bbe, 0xb2bd0b28, 0x2bb45a92, 0x5cb36a04, 0xc2d7ffa7, 0xb5d0cf31, 0x2cd99e8b, 0x5bdeae1d,
      0x9b64c2b0, 0xec63f226, 0x756aa39c, 0x026d930a, 0x9c0906a9, 0xeb0e363f, 0x72076785, 0x05005713,
      0x95bf4a82, 0xe2b87a14, 0x7bb12bae, 0x0cb61b38, 0x92d28e9b, 0xe5d5be0d, 0x7cdcefb7, 0x0bdbdf21,
      0x86d3d2d4, 0xf1d4e242, 0x68ddb3f8, 0x1fda836e, 0x81be16cd, 0xf6b9265b, 0x6fb077e1, 0x18b74777,
      0x88085ae6, 0xff0f6a70, 0x66063bca, 0x11010b5c, 0x8f659eff, 0xf862ae69, 0x616bffd3, 0x166ccf45,
      0xa00ae278, 0xd70dd2ee, 0x4e048354, 0x3903b3c2, 0xa7672661, 0xd06016f7, 0x4969474d, 0x3e6e77db,
      0xaed16a4a, 0xd9d65adc, 0x40df0b66, 0x37d83bf0, 0xa9bcae53, 0xdebb9ec5, 0x47b2cf7f, 0x30b5ffe9,
      0xbdbdf21c, 0xcabac28a, 0x53b39330, 0x24b4a3a6, 0xbad03605, 0xcdd70693, 0x54de5729, 0x23d967bf,
      0xb3667a2e, 0xc4614ab8, 0x5d681b02, 0x2a6f2b94, 0xb40bbe37, 0xc30c8ea1, 0x5a05df1b, 0x2d02ef8d
    ]"

definition crc_table :: "64 word list" where
  "crc_table = map word_of_int crc_literals"

section \<open>The checksum\<close>

text \<open>The state is the register and the rest of the buffer.\<close>

definition DO1 :: "64 word \<times> bytes \<Rightarrow> 64 word \<times> bytes" where
  "DO1 s = (case s of (crc, buf) \<Rightarrow>
     (crc_table ! unat ((crc XOR ucast (hd buf)) AND 0xff) XOR drop_bit 8 crc, tl buf))"

definition DO2 :: "64 word \<times> bytes \<Rightarrow> 64 word \<times> bytes" where
  "DO2 s = DO1 (DO1 s)"

definition DO4 :: "64 word \<times> bytes \<Rightarrow> 64 word \<times> bytes" where
  "DO4 s = DO2 (DO2 s)"

definition DO8 :: "64 word \<times> bytes \<Rightarrow> 64 word \<times> bytes" where
  "DO8 s = DO4 (DO4 s)"

text \<open>\<open>while (len >= 8) { DO8(buf); len -= 8; }\<close> and \<open>if (len) do { DO1(buf); } while (--len);\<close>\<close>

fun crc_by8 :: "nat \<Rightarrow> 64 word \<times> bytes \<Rightarrow> nat \<times> 64 word \<times> bytes" where
  "crc_by8 len s = (if 8 \<le> len then crc_by8 (len - 8) (DO8 s) else (len, s))"

declare crc_by8.simps [simp del]

fun crc_by1 :: "nat \<Rightarrow> 64 word \<times> bytes \<Rightarrow> 64 word \<times> bytes" where
  "crc_by1 0 s = s"
| "crc_by1 (Suc len) s = crc_by1 len (DO1 s)"

definition crc32_no_comp :: "64 word \<Rightarrow> bytes \<Rightarrow> nat \<Rightarrow> 64 word" where
  "crc32_no_comp crc buf len = (case crc_by8 len (crc, buf) of (len, s) \<Rightarrow> fst (crc_by1 len s))"

definition crc32 :: "64 word \<Rightarrow> bytes \<Rightarrow> nat \<Rightarrow> 64 word" where
  "crc32 crc buf len =
     (let crc = crc XOR 0xffffffff in
      (case crc_by8 len (crc, buf) of (len, s) \<Rightarrow> fst (crc_by1 len s)) XOR 0xffffffff)"

section \<open>The shift register\<close>

definition poly32 :: u32 where
  "poly32 = 0xedb88320"

definition lfsr :: "u32 \<Rightarrow> u32" where
  "lfsr c = (if bit c 0 then poly32 XOR drop_bit 1 c else drop_bit 1 c)"

definition feed :: "u32 \<Rightarrow> u8 \<Rightarrow> u32" where
  "feed c b = (lfsr ^^ 8) (c XOR ucast b)"

definition crc_ref :: "u32 \<Rightarrow> bytes \<Rightarrow> u32" where
  "crc_ref c bs = NOT (foldl feed (NOT c) bs)"

lemma lfsr_xor: "lfsr (x XOR y) = lfsr x XOR lfsr y"
  by (rule bit_word_eqI) (auto simp: lfsr_def bit_simps)

lemma lfsr_pow_xor: "(lfsr ^^ k) (x XOR y) = (lfsr ^^ k) x XOR (lfsr ^^ k) y"
  by (induction k arbitrary: x y) (simp_all add: lfsr_xor)

lemma xor_left_cancel: "(a :: 'a::len word) XOR x = a XOR y \<longleftrightarrow> x = y"
  by (auto simp: bit_eq_iff bit_xor_iff)

lemma lfsr_inj: "lfsr x = lfsr y \<Longrightarrow> x = y"
proof -
  assume eq: "lfsr x = lfsr y"
  have top: "bit (lfsr z) 31 = bit z 0" for z
    by (auto simp: lfsr_def poly32_def bit_simps dest: bit_imp_le_length)
  have b0: "bit x 0 = bit y 0" using top [of x] top [of y] eq by simp
  then have "drop_bit 1 x = drop_bit 1 y"
    using eq by (auto simp: lfsr_def xor_left_cancel split: if_splits)
  then have "bit x (Suc n) = bit y (Suc n)" for n
    by (metis bit_drop_bit_eq comp_apply plus_1_eq_Suc)
  with b0 show ?thesis
    by (intro bit_word_eqI) (metis not0_implies_Suc)
qed

lemma lfsr_pow_inj: "(lfsr ^^ k) x = (lfsr ^^ k) y \<Longrightarrow> x = y"
  by (induction k arbitrary: x y) (auto dest: lfsr_inj)

lemma lfsr_pow_push: "(\<forall>i < k. \<not> bit z i) \<Longrightarrow> (lfsr ^^ k) z = drop_bit k z"
proof (induction k arbitrary: z)
  case (Suc k)
  have "lfsr z = drop_bit 1 z" using Suc.prems by (simp add: lfsr_def)
  moreover have "\<forall>i < k. \<not> bit (drop_bit 1 z) i" using Suc.prems by (simp add: bit_simps)
  ultimately show ?case
    using Suc.IH [of "drop_bit 1 z"] by (simp add: funpow_Suc_right del: funpow.simps)
qed simp

section \<open>The table implements the shift register\<close>

text \<open>
  The check of the literals: entry \<open>j\<close> is entry \<open>2 * j\<close> shifted once, and entry \<open>2 * j + 1\<close> is
  entry \<open>2 * j\<close> plus entry 1.
\<close>

definition ilfsr :: "int \<Rightarrow> int" where
  "ilfsr c = (if odd c then 0xedb88320 XOR (c div 2) else c div 2)"

fun pairs :: "'a list \<Rightarrow> ('a \<times> 'a) list" where
  "pairs (x # y # zs) = (x, y) # pairs zs"
| "pairs _ = []"

lemma literals_check:
  "list_all2 (\<lambda>(x, y) z. ilfsr x = z \<and> y = x XOR 0x77073096) (pairs crc_literals) (take 128 crc_literals)"
  by code_simp

lemma literals_range: "list_all (\<lambda>x. 0 \<le> x \<and> x < 2 ^ 32) crc_literals"
  by code_simp

lemma literals_length: "length crc_literals = 256"
  by (simp add: crc_literals_def)

lemma pairs_nth: "2 * j + 1 < length xs \<Longrightarrow> j < length (pairs xs) \<and> pairs xs ! j = (xs ! (2 * j), xs ! (2 * j + 1))"
proof (induction xs arbitrary: j rule: pairs.induct)
  case (1 x y zs)
  then show ?case by (cases j) auto
qed simp_all

lemma literals_step:
  assumes "j < 128"
  shows "ilfsr (crc_literals ! (2 * j)) = crc_literals ! j"
    "crc_literals ! (2 * j + 1) = crc_literals ! (2 * j) XOR 0x77073096"
proof -
  have "j < length (pairs crc_literals)"
    "pairs crc_literals ! j = (crc_literals ! (2 * j), crc_literals ! (2 * j + 1))"
    using pairs_nth [of j crc_literals] assms by (simp_all add: literals_length)
  with list_all2_nthD [OF literals_check, of j] assms
  show "ilfsr (crc_literals ! (2 * j)) = crc_literals ! j"
    "crc_literals ! (2 * j + 1) = crc_literals ! (2 * j) XOR 0x77073096"
    by simp_all
qed

lemma ilfsr_lfsr:
  assumes "0 \<le> x" "x < 2 ^ 32"
  shows "word_of_int (ilfsr x) = lfsr (word_of_int x)"
proof -
  have "(word_of_int (x div 2) :: u32) = drop_bit 1 (word_of_int x)"
    using assms unfolding word_uint_eq_iff unsigned_drop_bit_eq
    by (simp add: uint_word_of_int drop_bit_eq_div take_bit_int_eq_self)
  moreover have "bit (word_of_int x :: u32) 0 \<longleftrightarrow> odd x"
    by (simp add: bit_word_of_int_iff del: bit_0) (simp add: bit_0)
  moreover have "(word_of_int (a XOR b) :: u32) = word_of_int a XOR word_of_int b" for a b
    by (rule bit_word_eqI) (simp add: bit_simps)
  ultimately show ?thesis
    by (simp add: ilfsr_def lfsr_def poly32_def)
qed

lemma lfsr_double:
  assumes "j < 128"
  shows "lfsr (of_nat (2 * j)) = of_nat j"
proof -
  have "drop_bit 1 (of_nat (2 * j) :: u32) = of_nat j"
    using assms unfolding word_unat_eq_iff unsigned_drop_bit_eq
    by (simp only: unsigned_of_nat) (simp add: take_bit_nat_eq_self drop_bit_eq_div)
  then show ?thesis by (simp add: lfsr_def bit_0)
qed

lemma literals_lfsr:
  "i < 256 \<Longrightarrow> (word_of_int (crc_literals ! i) :: u32) = (lfsr ^^ 8) (of_nat i)"
proof (induction i rule: less_induct)
  case (less i)
  have one: "(lfsr ^^ 8) 1 = 0x77073096" by code_simp
  have even: "(word_of_int (crc_literals ! (2 * j)) :: u32) = (lfsr ^^ 8) (of_nat (2 * j))"
    if j: "2 * j \<le> i" for j
  proof (cases "j = 0")
    case True
    then show ?thesis by (simp add: crc_literals_def lfsr_def lfsr_pow_push)
  next
    case False
    have r: "0 \<le> crc_literals ! (2 * j)" "crc_literals ! (2 * j) < 2 ^ 32"
      using literals_range j less.prems by (auto simp: list_all_length literals_length)
    have "lfsr (word_of_int (crc_literals ! (2 * j))) = (lfsr ^^ 8) (of_nat j)"
      using literals_step(1) [of j] less.IH [of j] ilfsr_lfsr [OF r] j False less.prems by simp
    also have "(of_nat j :: u32) = lfsr (of_nat (2 * j))"
      using lfsr_double [of j] j less.prems by simp
    finally show ?thesis
      by (metis funpow_swap1 lfsr_inj)
  qed
  show ?case
  proof (cases "even i")
    case True
    with even [of "i div 2"] show ?thesis by simp
  next
    case False
    then obtain j where i: "i = 2 * j + 1" by (rule oddE)
    have "(of_nat i :: u32) = of_nat (2 * j) XOR 1"
      by (simp add: i xor_one_eq)
    then show ?thesis
      using even [of j] literals_step(2) [of j] less.prems one unfolding i
      by (simp add: lfsr_pow_xor word_wi_log_defs(4) [symmetric] del: funpow.simps word_wi_log_defs)
  qed
qed

lemma crc_table_nth: "i < 256 \<Longrightarrow> crc_table ! i = ucast ((lfsr ^^ 8) (of_nat i :: u32))"
proof -
  assume i: "i < 256"
  have "(word_of_int x :: 64 word) = ucast (word_of_int x :: u32)" if "0 \<le> x" "x < 2 ^ 32" for x
    using that unfolding word_uint_eq_iff unsigned_ucast_eq
    by (simp add: uint_word_of_int take_bit_int_eq_self)
  with literals_range i have "crc_table ! i = ucast (word_of_int (crc_literals ! i) :: u32)"
    by (simp add: crc_table_def list_all_length literals_length)
  then show ?thesis by (simp only: literals_lfsr [OF i])
qed

lemma ucast_odd: "(ucast (c :: u32) :: 64 word) AND 1 \<noteq> 0 \<longleftrightarrow> bit c 0"
  using bit_iff_and_drop_bit_eq_1 [of "ucast c :: 64 word" 0]
  by (auto simp: bit_simps and_one_eq mod_2_eq_odd split: if_splits)

lemma crc_entry_lfsr: "n < 256 \<Longrightarrow> crc_entry n = ucast ((lfsr ^^ 8) (of_nat n :: u32))"
proof -
  assume n: "n < 256"
  let ?s = "\<lambda>c. if c AND 1 \<noteq> 0 then crc_poly XOR drop_bit 1 c else drop_bit 1 c"
  have poly: "crc_poly = ucast poly32" by code_simp
  have step: "?s (ucast c) = ucast (lfsr c)" for c :: u32
    using ucast_odd [of c]
    by (intro bit_word_eqI) (auto simp: lfsr_def poly bit_simps dest: bit_imp_le_length)
  have "(?s ^^ k) (ucast c) = ucast ((lfsr ^^ k) c)" for c :: u32 and k
    by (induction k) (simp_all only: funpow.simps comp_apply id_apply step)
  moreover have "(of_nat n :: 64 word) = ucast (of_nat n :: u32)"
    using n unfolding word_unat_eq_iff unsigned_ucast_eq
    by (simp add: unsigned_of_nat take_bit_nat_eq_self)
  ultimately show ?thesis by (simp only: crc_entry_def)
qed

lemma low_high: "(x :: u32) = (x AND 0xff) XOR push_bit 8 (drop_bit 8 x)"
proof (rule bit_word_eqI)
  fix n assume "n < LENGTH(32)"
  have "bit (0xff :: u32) n \<longleftrightarrow> n < 8"
    using bit_mask_iff [of 8 n, where 'a = u32] by (simp add: mask_eq_exp_minus_1 \<open>n < LENGTH(32)\<close> [simplified])
  then show "bit x n = bit ((x AND 0xff) XOR push_bit 8 (drop_bit 8 x)) n"
    using \<open>n < LENGTH(32)\<close> by (auto simp: bit_simps)
qed

lemma feed_table:
  "feed c b = (lfsr ^^ 8) ((c XOR ucast b) AND 0xff) XOR drop_bit 8 c"
proof -
  let ?x = "c XOR ucast b :: u32"
  have h: "drop_bit 8 ?x = drop_bit 8 c"
    by (rule bit_word_eqI) (auto simp: bit_simps dest: bit_imp_le_length)
  have "(lfsr ^^ 8) (push_bit 8 (drop_bit 8 ?x)) = drop_bit 8 (push_bit 8 (drop_bit 8 ?x))"
    by (rule lfsr_pow_push) (simp add: bit_simps)
  also have "\<dots> = drop_bit 8 c"
    unfolding h by (rule bit_word_eqI) (auto simp: bit_simps dest: bit_imp_le_length)
  finally have "(lfsr ^^ 8) (push_bit 8 (drop_bit 8 ?x)) = drop_bit 8 c" .
  moreover have "feed c b = (lfsr ^^ 8) ((?x AND 0xff) XOR push_bit 8 (drop_bit 8 ?x))"
    unfolding feed_def using low_high [of ?x] by simp
  ultimately show ?thesis by (simp only: lfsr_pow_xor)
qed

lemma DO1_feed: "DO1 (ucast c, b # bs) = (ucast (feed c b), bs)"
proof -
  let ?w = "(c XOR ucast b) AND 0xff :: u32"
  have i: "unat ((ucast c XOR ucast b) AND 0xff :: 64 word) = unat ?w"
  proof -
    have "((ucast c XOR ucast b) AND 0xff :: 64 word) = ucast ?w"
      by (rule bit_word_eqI) (auto simp: bit_simps dest: bit_imp_le_length)
    then show ?thesis
      using unsigned_less [of ?w, where 'a = nat]
      by (simp add: unsigned_ucast_eq take_bit_nat_eq_self)
  qed
  have "?w < 256" using word_and_le1 [of "c XOR ucast b" "0xff :: u32"] by (simp add: word_le_nat_alt word_less_nat_alt)
  then have "crc_table ! unat ?w = ucast ((lfsr ^^ 8) ?w)"
    by (simp add: crc_table_nth word_less_nat_alt del: funpow.simps)
  moreover have "(drop_bit 8 (ucast c) :: 64 word) = ucast (drop_bit 8 c)"
    by (rule bit_word_eqI) (auto simp: bit_simps dest: bit_imp_le_length)
  moreover have "(ucast (x XOR y) :: 64 word) = ucast x XOR ucast y" for x y :: u32
    by (rule bit_word_eqI) (auto simp: bit_simps)
  ultimately show ?thesis
    by (simp add: DO1_def i feed_table del: funpow.simps)
qed

section \<open>The loops\<close>

lemma DO1_feed': "bs \<noteq> [] \<Longrightarrow> DO1 (ucast c, bs) = (ucast (feed c (hd bs)), tl bs)"
  by (cases bs) (simp_all add: DO1_feed)

lemma crc_by1_feed:
  "len \<le> length bs \<Longrightarrow> crc_by1 len (ucast c, bs) = (ucast (foldl feed c (take len bs)), drop len bs)"
proof (induction len arbitrary: c bs)
  case (Suc len)
  then show ?case by (cases bs) (simp_all add: DO1_feed)
qed simp

lemma DO8_by1: "DO8 s = crc_by1 8 s"
  by (simp add: DO8_def DO4_def DO2_def eval_nat_numeral)

lemma crc_by8_feed:
  "len \<le> length bs \<Longrightarrow>
   (case crc_by8 len (ucast c, bs) of (len, s) \<Rightarrow> fst (crc_by1 len s)) = ucast (foldl feed c (take len bs))"
proof (induction len arbitrary: c bs rule: less_induct)
  case (less len)
  show ?case
  proof (cases "8 \<le> len")
    case True
    then have t: "take len bs = take 8 bs @ take (len - 8) (drop 8 bs)"
      by (metis le_add_diff_inverse take_add)
    have "8 \<le> length bs" using True less.prems by linarith
    then have "DO8 (ucast c, bs) = (ucast (foldl feed c (take 8 bs)), drop 8 bs)"
      by (simp add: DO8_by1 crc_by1_feed)
    with True less.IH [of "len - 8" "drop 8 bs" "foldl feed c (take 8 bs)"] less.prems t show ?thesis
      by (simp add: crc_by8.simps [of len])
  next
    case False
    with less.prems show ?thesis by (simp add: crc_by8.simps [of len] crc_by1_feed)
  qed
qed

lemma crc32_no_comp_ref: "crc32_no_comp (ucast c) bs (length bs) = ucast (foldl feed c bs)"
  using crc_by8_feed [of "length bs" bs c] by (simp add: crc32_no_comp_def)

lemma crc32_ref: "crc32 (ucast c) bs (length bs) = ucast (crc_ref c bs)"
proof -
  have n: "(ucast w :: 64 word) XOR 0xffffffff = ucast (NOT w)" for w :: u32
  proof (rule bit_word_eqI)
    fix n assume "n < LENGTH(64)"
    have "bit (0xffffffff :: 64 word) n \<longleftrightarrow> n < 32"
      using bit_mask_iff [of 32 n, where 'a = "64 word"] \<open>n < LENGTH(64)\<close> by (simp add: mask_eq_exp_minus_1)
    then show "bit ((ucast w :: 64 word) XOR 0xffffffff) n = bit (ucast (NOT w) :: 64 word) n"
      using \<open>n < LENGTH(64)\<close> by (auto simp: bit_simps dest: bit_imp_le_length)
  qed
  show ?thesis
    using crc_by8_feed [of "length bs" bs "NOT c"] by (simp add: crc32_def n crc_ref_def)
qed

lemma ucast_32_64_inj: "(ucast (v :: u32) :: 64 word) = ucast w \<longleftrightarrow> v = w"
proof
  assume eq: "(ucast v :: 64 word) = ucast w"
  have "bit v n = bit w n" if "n < 32" for n
    using arg_cong [OF eq, of "\<lambda>x. bit x n"] that by (simp add: bit_simps)
  then show "v = w" by (intro bit_word_eqI) simp
qed simp

lemma crc_ref_append: "crc_ref c (xs @ ys) = crc_ref (crc_ref c xs) ys"
  by (simp add: crc_ref_def)

section \<open>Burst errors\<close>

text \<open>Up to four bytes as a little-endian word.\<close>

fun le_word :: "bytes \<Rightarrow> u32" where
  "le_word [] = 0"
| "le_word (b # bs) = ucast b XOR push_bit 8 (le_word bs)"

lemma le_word_bits: "8 * length bs \<le> n \<Longrightarrow> \<not> bit (le_word bs) n"
proof (induction bs arbitrary: n)
  case (Cons b bs)
  then show ?case by (auto simp: bit_simps dest: bit_imp_le_length)
qed simp

lemma le_word_inj:
  "length bs = length bs' \<Longrightarrow> length bs \<le> 4 \<Longrightarrow> le_word bs = le_word bs' \<Longrightarrow> bs = bs'"
proof (induction bs bs' rule: list_induct2)
  case (Cons b bs b' bs')
  have bits: "bit (ucast b XOR push_bit 8 (le_word bs)) n = bit (ucast b' XOR push_bit 8 (le_word bs')) n" for n
    using Cons.prems by simp
  have "bit b n = bit b' n" if "n < 8" for n
    using bits [of n] that by (simp add: bit_simps)
  then have b: "b = b'" by (intro bit_word_eqI) simp
  have "bit (le_word bs) n = bit (le_word bs') n" if "n < 24" for n
    using bits [of "n + 8"] that b by (auto simp: bit_simps)
  moreover have "\<not> bit (le_word bs) n" "\<not> bit (le_word bs') n" if "24 \<le> n" for n
    using le_word_bits [of bs n] le_word_bits [of bs' n] Cons.hyps Cons.prems(1) that by auto
  ultimately have "le_word bs = le_word bs'"
    by (intro bit_word_eqI) (metis not_le_imp_less)
  with Cons.IH Cons.prems(1) b show ?case by simp
qed simp

lemma foldl_feed_word:
  "length bs \<le> 4 \<Longrightarrow> foldl feed c bs = (lfsr ^^ (8 * length bs)) (c XOR le_word bs)"
proof (induction bs arbitrary: c)
  case (Cons b bs)
  have "(lfsr ^^ 8) (push_bit 8 (le_word bs)) = drop_bit 8 (push_bit 8 (le_word bs))"
    by (rule lfsr_pow_push) (simp add: bit_simps)
  also have "\<dots> = le_word bs"
  proof (rule bit_word_eqI)
    fix n assume "n < LENGTH(32)"
    moreover have "24 \<le> n \<Longrightarrow> \<not> bit (le_word bs) n"
      using le_word_bits [of bs n] Cons.prems by simp
    ultimately show "bit (drop_bit 8 (push_bit 8 (le_word bs))) n = bit (le_word bs) n"
      by (cases "n < 24") (auto simp: bit_simps)
  qed
  finally have "(lfsr ^^ 8) (c XOR le_word (b # bs)) = feed c b XOR le_word bs"
    by (simp add: feed_def lfsr_pow_xor xor.assoc del: funpow.simps)
  then have "(lfsr ^^ (8 * length bs + 8)) (c XOR le_word (b # bs)) = (lfsr ^^ (8 * length bs)) (feed c b XOR le_word bs)"
    by (simp add: funpow_add del: funpow.simps le_word.simps)
  with Cons show ?case by (simp add: add.commute del: funpow.simps le_word.simps)
qed simp

lemma feed_inj: "feed c b = feed c' b \<Longrightarrow> c = c'"
  unfolding feed_def by (auto dest!: lfsr_pow_inj simp: xor.commute [of _ "ucast b"] xor_left_cancel)

lemma foldl_feed_inj: "foldl feed c bs = foldl feed c' bs \<Longrightarrow> c = c'"
  by (induction bs arbitrary: c c') (auto dest: feed_inj)

lemma crc_ref_burst:
  assumes "length ys = length ys'" "length ys \<le> 4" "ys \<noteq> ys'"
  shows "crc_ref c (xs @ ys @ zs) \<noteq> crc_ref c (xs @ ys' @ zs)"
proof
  assume "crc_ref c (xs @ ys @ zs) = crc_ref c (xs @ ys' @ zs)"
  then have "foldl feed (foldl feed (NOT c) xs) ys = foldl feed (foldl feed (NOT c) xs) ys'"
    by (auto simp: crc_ref_def dest: foldl_feed_inj)
  then have "le_word ys = le_word ys'"
    using assms by (auto simp: foldl_feed_word xor_left_cancel dest!: lfsr_pow_inj)
  with assms le_word_inj show False by blast
qed

section \<open>Properties\<close>

text \<open>
  Fact: the 256 literals of the table are what \<open>make_crc_table\<close> generates.\<close>

theorem crc_table_generated: "crc_table = make_crc_table"
  by (rule nth_equalityI)
     (simp_all add: crc_table_nth crc_entry_lfsr make_crc_table_def crc_table_def [THEN arg_cong [of _ _ length]] literals_length del: funpow.simps)

text \<open>
  Property C31: on a 32-bit start value the table-driven loop, unrolled eight times on 64-bit
  registers, computes the shift-register CRC of the whole buffer, and the checksum of two
  concatenated buffers is the checksum of the second started with that of the first.
\<close>

theorem crc32_is_shift_register:
  "crc32 (ucast c) bs (length bs) = ucast (crc_ref c bs) \<and>
   crc32 (ucast c) (xs @ ys) (length (xs @ ys)) =
     crc32 (crc32 (ucast c) xs (length xs)) ys (length ys)"
  by (simp add: crc32_ref crc_ref_append del: length_append)

text \<open>
  Fact: two buffers of the same length that differ only within four consecutive bytes (and
  do differ) have different checksums.
\<close>

theorem crc32_detects_burst:
  assumes "length ys = length ys'" and "length ys \<le> 4" and "ys \<noteq> ys'"
  shows "crc32 (ucast (c :: u32)) (xs @ ys @ zs) (length (xs @ ys @ zs)) \<noteq>
         crc32 (ucast c) (xs @ ys' @ zs) (length (xs @ ys' @ zs))"
  using crc_ref_burst [OF assms, of c xs zs] by (simp only: crc32_ref ucast_32_64_inj) simp

theorem crc32_detects_burst_witness:
  "crc32 0 [1, 2, 3, 4, 5] 5 \<noteq> crc32 0 [1, 9, 3, 7, 5] 5"
proof -
  have five: "length [a, b, c, d, e] = 5" for a b c d e :: u8 by simp
  show ?thesis
    using crc32_detects_burst [of "[2, 3, 4]" "[9, 3, 7]" 0 "[1]" "[5]"]
    unfolding append.simps five by simp
qed

end
