(* ===== verification/Image_Header.thy ===== *)
theory Image_Header
  imports Crc32
begin

text \<open>
  The image format of \<open>src/sources/utils/brbox-mkimage\<close>: the codes and the header structure of
  \<open>image.h\<close>, the name tables of \<open>mkimage.c\<close> with their lookup functions, the image types by name,
  and the header check. Headers are kept with their fields in host order; \<open>header_bytes\<close> and
  \<open>read_header\<close> are the structure's layout in memory, with \<open>htonl\<close> and \<open>ntohl\<close> applied.
\<close>

section \<open>Codes\<close>

abbreviation (input) IH_OS_INVALID :: int where "IH_OS_INVALID \<equiv> 0"
abbreviation (input) IH_OS_OPENBSD :: int where "IH_OS_OPENBSD \<equiv> 1"
abbreviation (input) IH_OS_NETBSD :: int where "IH_OS_NETBSD \<equiv> 2"
abbreviation (input) IH_OS_FREEBSD :: int where "IH_OS_FREEBSD \<equiv> 3"
abbreviation (input) IH_OS_4_4BSD :: int where "IH_OS_4_4BSD \<equiv> 4"
abbreviation (input) IH_OS_LINUX :: int where "IH_OS_LINUX \<equiv> 5"
abbreviation (input) IH_OS_SVR4 :: int where "IH_OS_SVR4 \<equiv> 6"
abbreviation (input) IH_OS_ESIX :: int where "IH_OS_ESIX \<equiv> 7"
abbreviation (input) IH_OS_SOLARIS :: int where "IH_OS_SOLARIS \<equiv> 8"
abbreviation (input) IH_OS_IRIX :: int where "IH_OS_IRIX \<equiv> 9"
abbreviation (input) IH_OS_SCO :: int where "IH_OS_SCO \<equiv> 10"
abbreviation (input) IH_OS_DELL :: int where "IH_OS_DELL \<equiv> 11"
abbreviation (input) IH_OS_NCR :: int where "IH_OS_NCR \<equiv> 12"
abbreviation (input) IH_OS_LYNXOS :: int where "IH_OS_LYNXOS \<equiv> 13"
abbreviation (input) IH_OS_VXWORKS :: int where "IH_OS_VXWORKS \<equiv> 14"
abbreviation (input) IH_OS_PSOS :: int where "IH_OS_PSOS \<equiv> 15"
abbreviation (input) IH_OS_QNX :: int where "IH_OS_QNX \<equiv> 16"
abbreviation (input) IH_OS_U_BOOT :: int where "IH_OS_U_BOOT \<equiv> 17"
abbreviation (input) IH_OS_RTEMS :: int where "IH_OS_RTEMS \<equiv> 18"
abbreviation (input) IH_OS_ARTOS :: int where "IH_OS_ARTOS \<equiv> 19"
abbreviation (input) IH_OS_UNITY :: int where "IH_OS_UNITY \<equiv> 20"
abbreviation (input) IH_CPU_INVALID :: int where "IH_CPU_INVALID \<equiv> 0"
abbreviation (input) IH_CPU_ALPHA :: int where "IH_CPU_ALPHA \<equiv> 1"
abbreviation (input) IH_CPU_ARM :: int where "IH_CPU_ARM \<equiv> 2"
abbreviation (input) IH_CPU_I386 :: int where "IH_CPU_I386 \<equiv> 3"
abbreviation (input) IH_CPU_IA64 :: int where "IH_CPU_IA64 \<equiv> 4"
abbreviation (input) IH_CPU_MIPS :: int where "IH_CPU_MIPS \<equiv> 5"
abbreviation (input) IH_CPU_MIPS64 :: int where "IH_CPU_MIPS64 \<equiv> 6"
abbreviation (input) IH_CPU_PPC :: int where "IH_CPU_PPC \<equiv> 7"
abbreviation (input) IH_CPU_S390 :: int where "IH_CPU_S390 \<equiv> 8"
abbreviation (input) IH_CPU_SH :: int where "IH_CPU_SH \<equiv> 9"
abbreviation (input) IH_CPU_SPARC :: int where "IH_CPU_SPARC \<equiv> 10"
abbreviation (input) IH_CPU_SPARC64 :: int where "IH_CPU_SPARC64 \<equiv> 11"
abbreviation (input) IH_CPU_M68K :: int where "IH_CPU_M68K \<equiv> 12"
abbreviation (input) IH_CPU_NIOS :: int where "IH_CPU_NIOS \<equiv> 13"
abbreviation (input) IH_CPU_MICROBLAZE :: int where "IH_CPU_MICROBLAZE \<equiv> 14"
abbreviation (input) IH_CPU_NIOS2 :: int where "IH_CPU_NIOS2 \<equiv> 15"
abbreviation (input) IH_TYPE_INVALID :: int where "IH_TYPE_INVALID \<equiv> 0"
abbreviation (input) IH_TYPE_STANDALONE :: int where "IH_TYPE_STANDALONE \<equiv> 1"
abbreviation (input) IH_TYPE_KERNEL :: int where "IH_TYPE_KERNEL \<equiv> 2"
abbreviation (input) IH_TYPE_RAMDISK :: int where "IH_TYPE_RAMDISK \<equiv> 3"
abbreviation (input) IH_TYPE_MULTI :: int where "IH_TYPE_MULTI \<equiv> 4"
abbreviation (input) IH_TYPE_FIRMWARE :: int where "IH_TYPE_FIRMWARE \<equiv> 5"
abbreviation (input) IH_TYPE_SCRIPT :: int where "IH_TYPE_SCRIPT \<equiv> 6"
abbreviation (input) IH_TYPE_FILESYSTEM :: int where "IH_TYPE_FILESYSTEM \<equiv> 7"
abbreviation (input) IH_TYPE_UBOOT :: int where "IH_TYPE_UBOOT \<equiv> 8"
abbreviation (input) IH_TYPE_BRBOX_PROJ :: int where "IH_TYPE_BRBOX_PROJ \<equiv> 9"
abbreviation (input) IH_TYPE_BRBOX_STTNG :: int where "IH_TYPE_BRBOX_STTNG \<equiv> 10"
abbreviation (input) IH_TYPE_BRBOX_USRDAT :: int where "IH_TYPE_BRBOX_USRDAT \<equiv> 11"
abbreviation (input) IH_TYPE_BRBOX_ROOT_BTR :: int where "IH_TYPE_BRBOX_ROOT_BTR \<equiv> 12"
abbreviation (input) IH_TYPE_BRBOX_ROOT_RP1 :: int where "IH_TYPE_BRBOX_ROOT_RP1 \<equiv> 13"
abbreviation (input) IH_TYPE_BRBOX_ROOT_RP2 :: int where "IH_TYPE_BRBOX_ROOT_RP2 \<equiv> 14"
abbreviation (input) IH_TYPE_BRBOX_ROOT_BBB :: int where "IH_TYPE_BRBOX_ROOT_BBB \<equiv> 15"
abbreviation (input) IH_TYPE_BRBOX_ROOT_WDB :: int where "IH_TYPE_BRBOX_ROOT_WDB \<equiv> 16"
abbreviation (input) IH_TYPE_BRBOX_ROOT_RP3 :: int where "IH_TYPE_BRBOX_ROOT_RP3 \<equiv> 17"
abbreviation (input) IH_TYPE_BRBOX_ROOT_RP0 :: int where "IH_TYPE_BRBOX_ROOT_RP0 \<equiv> 18"
abbreviation (input) IH_TYPE_BRBOX_GLMT300NV2 :: int where "IH_TYPE_BRBOX_GLMT300NV2 \<equiv> 19"
abbreviation (input) IH_TYPE_BRBOX_GLAR150 :: int where "IH_TYPE_BRBOX_GLAR150 \<equiv> 20"
abbreviation (input) IH_TYPE_BRBOX_SIGNATURE :: int where "IH_TYPE_BRBOX_SIGNATURE \<equiv> 21"
abbreviation (input) IH_TYPE_BRBOX_HLKRM04 :: int where "IH_TYPE_BRBOX_HLKRM04 \<equiv> 22"
abbreviation (input) IH_COMP_NONE :: int where "IH_COMP_NONE \<equiv> 0"
abbreviation (input) IH_COMP_GZIP :: int where "IH_COMP_GZIP \<equiv> 1"
abbreviation (input) IH_COMP_BZIP2 :: int where "IH_COMP_BZIP2 \<equiv> 2"
abbreviation (input) IH_COMP_LZMA2 :: int where "IH_COMP_LZMA2 \<equiv> 3"

definition IH_MAGIC :: u32 where "IH_MAGIC = 0x27051956"

definition IH_NMLEN :: nat where "IH_NMLEN = 32"

section \<open>Name tables\<close>

text \<open>A value, the short (input) name unless it is \<open>NULL\<close>, and the long (output) name.\<close>

type_synonym table_entry = "int \<times> string option \<times> string"

definition arch_name :: "table_entry list" where
  "arch_name =
    [(IH_CPU_INVALID, None, ''Invalid CPU''),
     (IH_CPU_ALPHA, Some ''alpha'', ''Alpha''),
     (IH_CPU_ARM, Some ''arm'', ''ARM''),
     (IH_CPU_I386, Some ''x86'', ''Intel x86''),
     (IH_CPU_IA64, Some ''ia64'', ''IA64''),
     (IH_CPU_M68K, Some ''m68k'', ''MC68000''),
     (IH_CPU_MICROBLAZE, Some ''microblaze'', ''MicroBlaze''),
     (IH_CPU_MIPS, Some ''mips'', ''MIPS''),
     (IH_CPU_MIPS64, Some ''mips64'', ''MIPS 64 Bit''),
     (IH_CPU_NIOS, Some ''nios'', ''NIOS''),
     (IH_CPU_NIOS2, Some ''nios2'', ''NIOS II''),
     (IH_CPU_PPC, Some ''ppc'', ''PowerPC''),
     (IH_CPU_S390, Some ''s390'', ''IBM S390''),
     (IH_CPU_SH, Some ''sh'', ''SuperH''),
     (IH_CPU_SPARC, Some ''sparc'', ''SPARC''),
     (IH_CPU_SPARC64, Some ''sparc64'', ''SPARC 64 Bit''),
     (- 1, Some [], [])]"

definition os_name :: "table_entry list" where
  "os_name =
    [(IH_OS_INVALID, None, ''Invalid OS''),
     (IH_OS_4_4BSD, Some ''4_4bsd'', ''4_4BSD''),
     (IH_OS_ARTOS, Some ''artos'', ''ARTOS''),
     (IH_OS_DELL, Some ''dell'', ''Dell''),
     (IH_OS_ESIX, Some ''esix'', ''Esix''),
     (IH_OS_FREEBSD, Some ''freebsd'', ''FreeBSD''),
     (IH_OS_IRIX, Some ''irix'', ''Irix''),
     (IH_OS_LINUX, Some ''linux'', ''Linux''),
     (IH_OS_LYNXOS, Some ''lynxos'', ''LynxOS''),
     (IH_OS_NCR, Some ''ncr'', ''NCR''),
     (IH_OS_NETBSD, Some ''netbsd'', ''NetBSD''),
     (IH_OS_OPENBSD, Some ''openbsd'', ''OpenBSD''),
     (IH_OS_PSOS, Some ''psos'', ''pSOS''),
     (IH_OS_QNX, Some ''qnx'', ''QNX''),
     (IH_OS_RTEMS, Some ''rtems'', ''RTEMS''),
     (IH_OS_SCO, Some ''sco'', ''SCO''),
     (IH_OS_SOLARIS, Some ''solaris'', ''Solaris''),
     (IH_OS_SVR4, Some ''svr4'', ''SVR4''),
     (IH_OS_U_BOOT, Some ''u-boot'', ''U-Boot''),
     (IH_OS_VXWORKS, Some ''vxworks'', ''VxWorks''),
     (- 1, Some [], [])]"

definition type_name :: "table_entry list" where
  "type_name =
    [(IH_TYPE_INVALID, None, ''Invalid Image''),
     (IH_TYPE_FILESYSTEM, Some ''filesystem'', ''Filesystem Image''),
     (IH_TYPE_FIRMWARE, Some ''firmware'', ''Firmware''),
     (IH_TYPE_KERNEL, Some ''kernel'', ''Kernel Image''),
     (IH_TYPE_MULTI, Some ''multi'', ''Multi-File Image''),
     (IH_TYPE_RAMDISK, Some ''ramdisk'', ''RAMDisk Image''),
     (IH_TYPE_SCRIPT, Some ''script'', ''Script''),
     (IH_TYPE_STANDALONE, Some ''standalone'', ''Standalone Program''),
     (IH_TYPE_UBOOT, Some ''uboot'', ''U-Boot Image''),
     (IH_TYPE_BRBOX_PROJ, Some ''BrBoxProj'', ''BrBox Proj Image''),
     (IH_TYPE_BRBOX_STTNG, Some ''BrBoxSttng'', ''BrBox Settng Image''),
     (IH_TYPE_BRBOX_USRDAT, Some ''BrBoxUsrDt'', ''BrBox UsrDat Image''),
     (IH_TYPE_BRBOX_ROOT_BTR, Some ''BrBoxRtBtr'', ''BrBox RfsBtr Image''),
     (IH_TYPE_BRBOX_ROOT_RP1, Some ''BrBoxRtRp1'', ''BrBox RfsRp1 Image''),
     (IH_TYPE_BRBOX_ROOT_RP2, Some ''BrBoxRtRp2'', ''BrBox RfsRp2 Image''),
     (IH_TYPE_BRBOX_ROOT_BBB, Some ''BrBoxRtBbb'', ''BrBox RfsBbb Image''),
     (IH_TYPE_BRBOX_ROOT_WDB, Some ''BrBoxRtWdb'', ''BrBox RfsWdb Image''),
     (IH_TYPE_BRBOX_ROOT_RP3, Some ''BrBoxRtRp3'', ''BrBox RfsRp3 Image''),
     (IH_TYPE_BRBOX_ROOT_RP0, Some ''BrBoxRtRp0'', ''BrBox RfsRp0 Image''),
     (IH_TYPE_BRBOX_GLMT300NV2, Some ''BrBoxGl300N'', ''BrBox Gl300Nv2 Image''),
     (IH_TYPE_BRBOX_GLAR150, Some ''BrBoxGlA150'', ''BrBox GlAr150 Image''),
     (IH_TYPE_BRBOX_SIGNATURE, Some ''BrBoxSign'', ''BrBox Sign Image''),
     (IH_TYPE_BRBOX_HLKRM04, Some ''BrBoxHlRm04'', ''BrBox HlkRm04 Image''),
     (- 1, Some [], [])]"

definition comp_name :: "table_entry list" where
  "comp_name =
    [(IH_COMP_NONE, Some ''none'', ''uncompressed''),
     (IH_COMP_BZIP2, Some ''bzip2'', ''bzip2 compressed''),
     (IH_COMP_GZIP, Some ''gzip'', ''gzip compressed''),
     (IH_COMP_LZMA2, Some ''lzma2'', ''lzma2 compressed''),
     (- 1, Some [], [])]"

text \<open>\<open>strcasecmp\<close> in the C locale.\<close>

definition to_lower :: "char \<Rightarrow> char" where
  "to_lower c = (let n = of_char c :: nat in if 65 \<le> n \<and> n \<le> 90 then char_of (n + 32) else c)"

definition strcaseeq :: "string \<Rightarrow> string \<Rightarrow> bool" where
  "strcaseeq s t \<longleftrightarrow> map to_lower s = map to_lower t"

fun put_table_entry :: "table_entry list \<Rightarrow> string \<Rightarrow> int \<Rightarrow> string" where
  "put_table_entry [] msg type = msg"
| "put_table_entry ((val, sname, lname) # table) msg type =
     (if val < 0 then msg else if val = type then lname else put_table_entry table msg type)"

fun get_table_entry :: "table_entry list \<Rightarrow> string \<Rightarrow> int" where
  "get_table_entry [] name = -1"
| "get_table_entry ((val, sname, lname) # t) name =
     (if val < 0 then -1
      else case sname of None \<Rightarrow> get_table_entry t name
      | Some s \<Rightarrow> if strcaseeq s name then val else get_table_entry t name)"

definition put_arch :: "int \<Rightarrow> string" where
  "put_arch arch = put_table_entry arch_name ''Unknown Architecture'' arch"

definition put_os :: "int \<Rightarrow> string" where
  "put_os os = put_table_entry os_name ''Unknown OS'' os"

definition put_type :: "int \<Rightarrow> string" where
  "put_type type = put_table_entry type_name ''Unknown Image'' type"

definition put_comp :: "int \<Rightarrow> string" where
  "put_comp c = put_table_entry comp_name ''Unknown Compression'' c"

definition get_arch :: "string \<Rightarrow> int" where
  "get_arch name = get_table_entry arch_name name"

definition get_comp :: "string \<Rightarrow> int" where
  "get_comp name = get_table_entry comp_name name"

definition get_os :: "string \<Rightarrow> int" where
  "get_os name = get_table_entry os_name name"

definition get_type :: "string \<Rightarrow> int" where
  "get_type name = get_table_entry type_name name"

definition get_image_type :: "string \<Rightarrow> int" where
  "get_image_type image_name =
    (if image_name = ''uboot'' then IH_TYPE_UBOOT
     else if image_name = ''kernel'' then IH_TYPE_KERNEL
     else if image_name = ''ramdisk'' then IH_TYPE_RAMDISK
     else if image_name = ''BrBoxProj'' then IH_TYPE_BRBOX_PROJ
     else if image_name = ''BrBoxSttng'' then IH_TYPE_BRBOX_STTNG
     else if image_name = ''BrBoxUsrDt'' then IH_TYPE_BRBOX_USRDAT
     else if image_name = ''BrBoxRtBtr'' then IH_TYPE_BRBOX_ROOT_BTR
     else if image_name = ''BrBoxRtRp1'' then IH_TYPE_BRBOX_ROOT_RP1
     else if image_name = ''BrBoxRtRp2'' then IH_TYPE_BRBOX_ROOT_RP2
     else if image_name = ''BrBoxRtBbb'' then IH_TYPE_BRBOX_ROOT_BBB
     else if image_name = ''BrBoxRtWdb'' then IH_TYPE_BRBOX_ROOT_WDB
     else if image_name = ''BrBoxRtRp3'' then IH_TYPE_BRBOX_ROOT_RP3
     else if image_name = ''BrBoxRtRp0'' then IH_TYPE_BRBOX_ROOT_RP0
     else if image_name = ''BrBoxGl300N'' then IH_TYPE_BRBOX_GLMT300NV2
     else if image_name = ''BrBoxGlA150'' then IH_TYPE_BRBOX_GLAR150
     else if image_name = ''BrBoxSign'' then IH_TYPE_BRBOX_SIGNATURE
     else if image_name = ''BrBoxHlRm04'' then IH_TYPE_BRBOX_HLKRM04
     else IH_TYPE_INVALID)"

section \<open>The header\<close>

record image_header =
  ih_magic :: u32
  ih_hcrc :: u32
  ih_time :: u32
  ih_size :: u32
  ih_load :: u32
  ih_ep :: u32
  ih_dcrc :: u32
  ih_os :: u8
  ih_arch :: u8
  ih_type :: u8
  ih_comp :: u8
  ih_name :: bytes

definition header_bytes :: "image_header \<Rightarrow> bytes" where
  "header_bytes h =
     be32 (ih_magic h) @ be32 (ih_hcrc h) @ be32 (ih_time h) @ be32 (ih_size h) @ be32 (ih_load h) @
     be32 (ih_ep h) @ be32 (ih_dcrc h) @ [ih_os h, ih_arch h, ih_type h, ih_comp h] @ ih_name h"

definition read_header :: "bytes \<Rightarrow> image_header" where
  "read_header bs =
     \<lparr>ih_magic = rd_be32 (slice 0 4 bs), ih_hcrc = rd_be32 (slice 4 4 bs),
      ih_time = rd_be32 (slice 8 4 bs), ih_size = rd_be32 (slice 12 4 bs),
      ih_load = rd_be32 (slice 16 4 bs), ih_ep = rd_be32 (slice 20 4 bs),
      ih_dcrc = rd_be32 (slice 24 4 bs), ih_os = bs ! 28, ih_arch = bs ! 29,
      ih_type = bs ! 30, ih_comp = bs ! 31, ih_name = slice 32 32 bs\<rparr>"

abbreviation (input) sizeof_header :: nat where "sizeof_header \<equiv> 64"

text \<open>
  The check clears the checksum field of the header it is given, so the changed header is returned
  with the result.
\<close>

definition check_header :: "image_header \<Rightarrow> int \<times> image_header" where
  "check_header hdr =
     (if ih_magic hdr \<noteq> IH_MAGIC then (-1, hdr)
      else
        let checksum = ih_hcrc hdr; hdr = hdr\<lparr>ih_hcrc := 0\<rparr> in
        (if crc32 0 (header_bytes hdr) sizeof_header \<noteq> ucast checksum then -1 else 0, hdr))"

section \<open>Layout lemmas\<close>

lemma be32_rd_be32: "length bs = 4 \<Longrightarrow> be32 (rd_be32 bs) = bs"
proof -
  assume "length bs = 4"
  then obtain a b c d where bs: "bs = [a, b, c, d]"
    by (auto simp: numeral_eq_Suc length_Suc_conv)
  let ?w = "rd_be32 bs"
  have "ucast (drop_bit 24 ?w) = a" "ucast (drop_bit 16 ?w) = b" "ucast (drop_bit 8 ?w) = c" "ucast ?w = d"
    by (rule bit_word_eqI; auto simp: bs rd_be32_def bit_simps dest: bit_imp_le_length)+
  then show ?thesis by (simp add: be32_def bs)
qed

lemma length_header_bytes: "length (ih_name h) = 32 \<Longrightarrow> length (header_bytes h) = 64"
  by (simp add: header_bytes_def)

lemma slice_be32: "slice 0 4 (be32 w @ xs) = be32 w" "slice (Suc n) k (x # xs) = slice n k xs"
  by (simp_all add: slice_def)

lemma be32_cons: "be32 w = [be32 w ! 0, be32 w ! 1, be32 w ! 2, be32 w ! 3]"
  by (simp add: be32_def)

lemma slice_be32_skip: "4 \<le> n \<Longrightarrow> slice n k (be32 w @ xs) = slice (n - 4) k xs"
  by (simp add: slice_def)

lemma nth_be32_skip: "4 \<le> n \<Longrightarrow> (be32 w @ xs) ! n = xs ! (n - 4)"
  by (simp add: nth_append)

lemma read_header_bytes:
  "length (ih_name h) = 32 \<Longrightarrow> read_header (header_bytes h) = h"
  by (simp add: read_header_def header_bytes_def slice_be32 slice_be32_skip nth_be32_skip)
     (simp add: slice_def)

lemma length_slice: "off + n \<le> length xs \<Longrightarrow> length (slice off n xs) = n"
  by (simp add: slice_def)

lemma slice_slice_append: "slice a n xs @ slice (a + n) k xs = slice a (n + k) xs"
  by (simp add: slice_def take_add add.commute [of n a])

lemma header_bytes_read:
  assumes "length bs = 64"
  shows "header_bytes (read_header bs) = bs"
proof -
  have four: "[bs ! 28, bs ! 29, bs ! 30, bs ! 31] = slice 28 4 bs"
    by (rule nth_equalityI) (auto simp: slice_def assms nth_Cons' numeral_eq_Suc less_Suc_eq)
  have "header_bytes (read_header bs) =
    slice 0 4 bs @ slice 4 4 bs @ slice 8 4 bs @ slice 12 4 bs @ slice 16 4 bs @ slice 20 4 bs @
    slice 24 4 bs @ slice 28 4 bs @ slice 32 32 bs"
    by (simp only: header_bytes_def read_header_def image_header.simps be32_rd_be32 length_slice assms four)
  also have "\<dots> = slice 0 64 bs"
    using slice_slice_append [of 28 4 bs 32] slice_slice_append [of 24 4 bs 36]
      slice_slice_append [of 20 4 bs 40] slice_slice_append [of 16 4 bs 44]
      slice_slice_append [of 12 4 bs 48] slice_slice_append [of 8 4 bs 52]
      slice_slice_append [of 4 4 bs 56] slice_slice_append [of 0 4 bs 60]
    by simp
  also have "\<dots> = bs" by (simp add: slice_def assms)
  finally show ?thesis .
qed

lemma crc32_0: "crc32 0 bs (length bs) = ucast (crc_ref 0 bs)"
  using crc32_ref [of 0 bs] by simp

lemma check_header_ok:
  assumes "length (ih_name h) = 32"
  shows "fst (check_header h) = 0 \<longleftrightarrow>
         ih_magic h = IH_MAGIC \<and> ih_hcrc h = crc_ref 0 (header_bytes (h\<lparr>ih_hcrc := 0\<rparr>))"
proof -
  have "crc32 0 (header_bytes (h\<lparr>ih_hcrc := 0\<rparr>)) 64 = ucast (crc_ref 0 (header_bytes (h\<lparr>ih_hcrc := 0\<rparr>)))"
    using crc32_0 [of "header_bytes (h\<lparr>ih_hcrc := 0\<rparr>)"] length_header_bytes [of "h\<lparr>ih_hcrc := 0\<rparr>"] assms by simp
  then show ?thesis by (auto simp: check_header_def Let_def ucast_32_64_inj)
qed

section \<open>Properties\<close>

text \<open>
  Fact: the two ways to name an image type agree: whenever \<open>get_image_type\<close> (used to query
  and extract) recognises a name, \<open>get_type\<close> (used by the option \<open>-T\<close> when the image is built)
  gives the same type code for it.
\<close>

theorem get_image_type_agrees:
  "get_image_type n = IH_TYPE_INVALID \<or> get_type n = get_image_type n"
  unfolding get_image_type_def get_type_def type_name_def
  by (simp add: strcaseeq_def to_lower_def)

end
