(* ===== verification/Mkimage_Files.thy ===== *)
theory Mkimage_Files
  imports Image_Header
begin

text \<open>
  The file operations of \<open>src/sources/utils/brbox-mkimage/mkimage.c\<close>: \<open>file_copy\<close>, the two
  comparisons, and the copy of an image out of a flash partition. Files are byte lists in a map from
  names, standard output is a byte list; the 2 KiB stack buffers of the loops and their uninitialised
  contents are explicit. Opening a file for writing always succeeds.
\<close>

record mkstate =
  fs :: "string \<rightharpoonup> bytes"
  stdout :: bytes

section \<open>Copying\<close>

text \<open>
  The copy loop: \<open>rest\<close> is what is left of the input file, \<open>w\<close> what has been written. A read of the
  library returns 2048 bytes or all that is left.
\<close>

fun copy_loop :: "bytes \<Rightarrow> u32 \<Rightarrow> u32 \<Rightarrow> bytes \<Rightarrow> bytes" where
  "copy_loop rest len total_len w =
     (let buffer = take 2048 rest; read_len = of_nat (length buffer) in
      if buffer = [] then w
      else if total_len + read_len < len then copy_loop (drop 2048 rest) len (total_len + read_len) (w @ buffer)
      else w @ take (unat (len - total_len)) buffer)"

declare copy_loop.simps [simp del]

definition file_copy :: "string \<Rightarrow> string \<Rightarrow> u32 \<Rightarrow> u32 \<Rightarrow> mkstate \<Rightarrow> (int \<times> mkstate) kres" where
  "file_copy inputfile outputfile skip len s =
     (let out_to_std = (outputfile = ''stdout'');
          s' = (if out_to_std then s else s\<lparr>fs := (fs s)(outputfile \<mapsto> [])\<rparr>)
      in if fs s inputfile = None then kfail BadDeref
         else
           let w = copy_loop (drop (unat skip) (the (fs s' inputfile))) len 0 []
           in kret (0, if out_to_std then s'\<lparr>stdout := stdout s' @ w\<rparr>
                       else s'\<lparr>fs := (fs s')(outputfile \<mapsto> w)\<rparr>))"

section \<open>Comparing\<close>

definition fread_into :: "bytes \<Rightarrow> bytes \<Rightarrow> bytes" where
  "fread_into buff rest = take 2048 rest @ drop (length (take 2048 rest)) buff"

partial_function (option) compare_binary_loop ::
  "bytes \<Rightarrow> bytes \<Rightarrow> bytes \<Rightarrow> bytes \<Rightarrow> u32 \<Rightarrow> u32 \<Rightarrow> int kres" where
  "compare_binary_loop r1 r2 f1_buff f2_buff i file1_len =
     (if i < file1_len then
        let f1_buff = fread_into f1_buff r1; f2_buff = fread_into f2_buff r2;
            read_len_f1 = of_nat (length (take 2048 r1));
            read_len_f2 = of_nat (length (take 2048 r2));
            read_len_img = (if i + read_len_f1 < file1_len then 2048 else file1_len - i)
        in if take (unat read_len_img) f1_buff \<noteq> take (unat read_len_img) f2_buff \<or> read_len_f2 < read_len_f1
           then kret (-1)
           else compare_binary_loop (drop 2048 r1) (drop 2048 r2) f1_buff f2_buff (i + read_len_img) file1_len
      else kret 0)"

definition file_compare_binary ::
  "bytes \<Rightarrow> bytes \<Rightarrow> string \<Rightarrow> string \<Rightarrow> u32 \<Rightarrow> u32 \<Rightarrow> u32 \<Rightarrow> mkstate \<Rightarrow> int kres" where
  "file_compare_binary g1 g2 file1 file2 skip seek file1_len s =
     (case fs s file1 of None \<Rightarrow> kret (-1)
      | Some c1 \<Rightarrow> (case fs s file2 of None \<Rightarrow> kret (-1)
      | Some c2 \<Rightarrow> compare_binary_loop (drop (unat skip) c1) (drop (unat seek) c2) g1 g2 0 file1_len))"

partial_function (option) compare_loop ::
  "bytes \<Rightarrow> bytes \<Rightarrow> bytes \<Rightarrow> bytes \<Rightarrow> u32 \<Rightarrow> u32 \<Rightarrow> int kres" where
  "compare_loop rimg rprj img_buff prj_buff i proj_file_len =
     (if i < proj_file_len then
        let img_buff = fread_into img_buff rimg; prj_buff = fread_into prj_buff rprj;
            read_len_prj = of_nat (length (take 2048 rprj));
            read_len_img = (if i + read_len_prj < proj_file_len then 2048 else proj_file_len - i)
        in if take (unat read_len_img) img_buff \<noteq> take (unat read_len_img) prj_buff then kret (-1)
           else compare_loop (drop 2048 rimg) (drop 2048 rprj) img_buff prj_buff (i + read_len_img) proj_file_len
      else kret 0)"

definition file_compare ::
  "bytes \<Rightarrow> bytes \<Rightarrow> string \<Rightarrow> string \<Rightarrow> u32 \<Rightarrow> u32 \<Rightarrow> mkstate \<Rightarrow> int kres" where
  "file_compare g1 g2 file2 file1 skip proj_file_len s =
     (case fs s file2 of None \<Rightarrow> kret (-1)
      | Some img \<Rightarrow> (case fs s file1 of None \<Rightarrow> kret (-1)
      | Some proj \<Rightarrow>
          if length img < sizeof_header then kret (-1)
          else
            let img_buff = take sizeof_header img @ drop sizeof_header g1;
                img_size = ih_size (read_header img) + of_nat sizeof_header
            in if img_size \<noteq> proj_file_len then kret (-1)
               else compare_loop img (drop (unat skip) proj) img_buff g2 0 proj_file_len))"

section \<open>Images in flash partitions\<close>

definition TEMP_MTD_FILE :: string where
  "TEMP_MTD_FILE = ''/tmp/temp_mkimage_file''"

definition check_mtdfile :: "string \<Rightarrow> mkstate \<Rightarrow> (int \<times> mkstate) kres" where
  "check_mtdfile imagefile s =
     (case fs s imagefile of None \<Rightarrow> kret (-1, s)
      | Some c \<Rightarrow>
          if length c < sizeof_header then kret (-1, s)
          else
            let (r, hdr) = check_header (read_header (take sizeof_header c)) in
            if r \<noteq> 0 then kret (-1, s)
            else
              kbind (file_copy imagefile TEMP_MTD_FILE 0 (ih_size hdr + of_nat sizeof_header) s) (\<lambda>(r, s).
              if r \<noteq> 0 then kret (-1, s) else kret (0, s)))"

section \<open>The loops\<close>

lemma of_nat_chunk: "k \<le> 2048 \<Longrightarrow> unat (of_nat k :: u32) = k"
  by (simp add: unat_of_nat)

lemma copy_loop_take:
  "unat tot \<le> unat len \<Longrightarrow> unat len + 2048 < 2 ^ 32 \<Longrightarrow>
   copy_loop rest len tot w = w @ take (unat len - unat tot) rest"
proof (induction rest len tot w rule: copy_loop.induct)
  case (1 rest len tot w)
  define n where "n = length (take 2048 rest)"
  have n: "n \<le> 2048" by (simp add: n_def)
  have add: "unat (tot + of_nat n) = unat tot + n"
  proof -
    have "unat tot + n < 2 ^ 32" using 1(2,3) n by linarith
    then show ?thesis using n by (simp add: unat_word_ariths of_nat_chunk)
  qed
  show ?case
  proof (cases "take 2048 rest = []")
    case True
    then show ?thesis by (subst copy_loop.simps) auto
  next
    case False
    show ?thesis
    proof (cases "tot + of_nat n < len")
      case True
      have le: "n < unat len - unat tot" using True add by (simp add: word_less_nat_alt)
      have split: "take (unat len - unat tot) rest =
        take 2048 rest @ take (unat len - unat (tot + of_nat n)) (drop 2048 rest)"
      proof (cases "length rest \<le> 2048")
        case True
        with le show ?thesis by (simp add: n_def)
      next
        case False
        then have "n = 2048" by (simp add: n_def)
        with le show ?thesis unfolding add by (metis diff_diff_left le_add_diff_inverse less_imp_le take_add)
      qed
      have "copy_loop rest len tot w = copy_loop (drop 2048 rest) len (tot + of_nat n) (w @ take 2048 rest)"
        using True False by (subst copy_loop.simps) (simp add: n_def)
      also have "\<dots> = (w @ take 2048 rest) @ take (unat len - unat (tot + of_nat n)) (drop 2048 rest)"
        using 1(1) [OF refl refl False] True False 1(3) unfolding n_def [symmetric]
        by (simp add: word_less_nat_alt)
      finally show ?thesis by (simp add: split)
    next
      case nle: False
      have "unat len - unat tot \<le> n" using nle add unfolding word_less_nat_alt by linarith
      moreover have "unat (len - tot) = unat len - unat tot"
        using 1(2) by (simp add: unat_sub word_le_nat_alt)
      ultimately have "take (unat (len - tot)) (take 2048 rest) = take (unat len - unat tot) rest"
        using n by simp
      then show ?thesis
        using False nle unfolding n_def by (subst copy_loop.simps) (simp only: Let_def if_False)
    qed
  qed
qed

text \<open>The result of a comparison loop on full files: the rest of the two files agree.\<close>

lemma unat_step:
  fixes i len :: u32
  assumes "unat i \<le> unat len" "unat len + 2048 < 2 ^ 32" "n \<le> 2048"
  shows "unat (i + of_nat n) = unat i + n"
proof -
  have "unat i + n < 2 ^ 32" using assms by linarith
  then show ?thesis using assms(3) by (simp add: unat_word_ariths of_nat_chunk)
qed

lemma take_fread:
  "k \<le> length (take 2048 rest) \<Longrightarrow> take k (fread_into buff rest) = take k rest"
  by (simp add: fread_into_def min_def split: if_splits)

lemma take_chunk_iff:
  assumes "k \<le> n" "k \<le> length xs" "k \<le> length ys"
  shows "take n xs = take n ys \<longleftrightarrow> take k xs = take k ys \<and> take (n - k) (drop k xs) = take (n - k) (drop k ys)"
proof -
  have "take n zs = take k zs @ take (n - k) (drop k zs)" for zs :: "'a list"
    using assms(1) by (metis le_add_diff_inverse take_add)
  then show ?thesis using assms by (simp add: append_eq_append_conv)
qed

lemma chunk_len:
  fixes i len :: u32
  assumes "unat i \<le> unat len" "unat i < unat len" "unat len + 2048 < 2 ^ 32"
    and "unat len - unat i \<le> length r"
  defines "k \<equiv> if i + of_nat (length (take 2048 r)) < len then 2048 else len - i"
  shows "unat k = min 2048 (unat len - unat i)"
proof -
  have a: "unat (i + of_nat (length (take 2048 r))) = unat i + length (take 2048 r)"
    using unat_step [OF assms(1,3), of "length (take 2048 r)"] by simp
  have s: "unat (len - i) = unat len - unat i"
    using assms(1) by (simp add: unat_sub word_le_nat_alt)
  show ?thesis
  proof (cases "i + of_nat (length (take 2048 r)) < len")
    case True
    with a assms(4) show ?thesis by (auto simp: k_def word_less_nat_alt min_def split: if_splits)
  next
    case False
    then have "unat len - unat i \<le> length (take 2048 r)"
      using a unfolding word_less_nat_alt by linarith
    with False s show ?thesis by (simp add: k_def)
  qed
qed

lemma compare_loop_correct:
  assumes "unat len + 2048 < 2 ^ 32"
  shows "unat i \<le> unat len \<Longrightarrow> unat len - unat i \<le> length rimg \<Longrightarrow> unat len - unat i \<le> length rprj \<Longrightarrow>
    compare_loop rimg rprj b1 b2 i len =
    kret (if take (unat len - unat i) rimg = take (unat len - unat i) rprj then 0 else -1)"
proof (induction "unat len - unat i" arbitrary: i rimg rprj b1 b2 rule: less_induct)
  case less
  show ?case
  proof (cases "i < len")
    case False
    then have "unat len - unat i = 0" by (simp add: word_less_nat_alt)
    with False show ?thesis by (simp add: compare_loop.simps [of rimg])
  next
    case True
    define n where "n = length (take 2048 rprj)"
    define k where "k = (if i + of_nat n < len then 2048 else len - i)"
    have n: "n \<le> 2048" "unat (i + of_nat n) = unat i + n"
      using unat_step [OF less(2) assms, of n] by (simp_all add: n_def)
    have lt: "unat i < unat len" using True by (simp add: word_less_nat_alt)
    have k: "unat k = min 2048 (unat len - unat i)" "unat k \<le> length rprj" "unat k \<le> length rimg"
      "unat k \<le> 2048" "0 < unat k" "unat k \<le> unat len - unat i"
      using chunk_len [OF less(2) lt assms, of rprj] less(3,4) lt unfolding k_def n_def by auto
    have ik: "unat (i + k) = unat i + unat k"
      using unat_step [OF less(2) assms k(4)] by simp
    let ?b1 = "fread_into b1 rimg" and ?b2 = "fread_into b2 rprj"
    have t: "take (unat k) ?b1 = take (unat k) rimg" "take (unat k) ?b2 = take (unat k) rprj"
      by (rule take_fread; use k in simp)+
    have unf: "compare_loop rimg rprj b1 b2 i len =
      (if take (unat k) rimg \<noteq> take (unat k) rprj then kret (-1)
       else compare_loop (drop 2048 rimg) (drop 2048 rprj) ?b1 ?b2 (i + k) len)"
      unfolding compare_loop.simps [of rimg] Let_def n_def [symmetric] k_def [symmetric]
      by (simp only: True t if_True)
    have "compare_loop (drop 2048 rimg) (drop 2048 rprj) ?b1 ?b2 (i + k) len =
      kret (if take (unat len - unat (i + k)) (drop 2048 rimg) = take (unat len - unat (i + k)) (drop 2048 rprj)
            then 0 else -1)"
      using less(2,3,4) ik k by (intro less(1)) (auto simp: min_def split: if_splits)
    moreover have "take (unat len - unat i) rimg = take (unat len - unat i) rprj \<longleftrightarrow>
      take (unat k) rimg = take (unat k) rprj \<and>
      take (unat len - unat (i + k)) (drop 2048 rimg) = take (unat len - unat (i + k)) (drop 2048 rprj)"
      using take_chunk_iff [OF k(6,3,2)] k(1) ik by (cases "2048 \<le> unat len - unat i") (auto simp: min_def)
    ultimately show ?thesis using unf by simp
  qed
qed

lemma compare_binary_loop_correct:
  assumes "unat len + 2048 < 2 ^ 32"
  shows "unat i \<le> unat len \<Longrightarrow> unat len - unat i = length r1 \<Longrightarrow>
    compare_binary_loop r1 r2 b1 b2 i len = kret (if take (length r1) r2 = r1 then 0 else -1)"
proof (induction "unat len - unat i" arbitrary: i r1 r2 b1 b2 rule: less_induct)
  case less
  show ?case
  proof (cases "i < len")
    case False
    then have "r1 = []" using less(3) by (simp add: word_less_nat_alt)
    with False show ?thesis by (subst compare_binary_loop.simps) simp
  next
    case True
    define n where "n = length (take 2048 r1)"
    define k where "k = (if i + of_nat n < len then 2048 else len - i)"
    have lt: "unat i < unat len" using True by (simp add: word_less_nat_alt)
    have k: "unat k = n" "n \<le> 2048" "0 < n"
      using chunk_len [OF less(2) lt assms, of r1] less(3) lt unfolding k_def n_def by auto
    have ik: "unat (i + k) = unat i + n"
      using unat_step [OF less(2) assms k(2)] unfolding k(1) [symmetric] by simp
    let ?b1 = "fread_into b1 r1" and ?b2 = "fread_into b2 r2"
    have t1: "take (unat k) ?b1 = take n r1"
      unfolding k(1) by (rule take_fread) (simp add: n_def)
    have cmp: "(of_nat (length (take 2048 r2)) :: u32) < of_nat n \<longleftrightarrow> length (take 2048 r2) < n"
      using k(2) of_nat_chunk [of "length (take 2048 r2)"] of_nat_chunk [of n]
      by (simp only: word_less_nat_alt) simp
    have unf: "compare_binary_loop r1 r2 b1 b2 i len =
      (if take n r1 \<noteq> take (unat k) ?b2 \<or> length (take 2048 r2) < n then kret (-1)
       else compare_binary_loop (drop 2048 r1) (drop 2048 r2) ?b1 ?b2 (i + k) len)"
      unfolding compare_binary_loop.simps [of r1] Let_def n_def [symmetric] k_def [symmetric]
      by (simp only: True t1 cmp if_True)
    show ?thesis
    proof (cases "length (take 2048 r2) < n")
      case True
      then have "length r2 < length r1" by (auto simp: n_def)
      then have "take (length r1) r2 \<noteq> r1" by auto
      with unf True show ?thesis by simp
    next
      case False
      have t2: "take (unat k) ?b2 = take n r2"
        unfolding k(1) by (rule take_fread) (use False in linarith)
      have "compare_binary_loop (drop 2048 r1) (drop 2048 r2) ?b1 ?b2 (i + k) len =
        kret (if take (length (drop 2048 r1)) (drop 2048 r2) = drop 2048 r1 then 0 else -1)"
        using less(2,3) ik k lt by (intro less(1)) (auto simp: n_def)
      moreover have "take (length r1) r2 = r1 \<longleftrightarrow>
        take n r1 = take n r2 \<and> take (length (drop 2048 r1)) (drop 2048 r2) = drop 2048 r1"
        using take_chunk_iff [of n "length r1" r2 r1] False
        by (cases "2048 \<le> length r1") (auto simp: n_def)
      ultimately show ?thesis using unf False t2 by simp
    qed
  qed
qed

section \<open>Properties\<close>

text \<open>
  Fact: \<open>file_copy\<close> writes exactly the \<open>len\<close> bytes from position \<open>skip\<close> (or what the file
  has of them) to the output file, or appends them to standard output when the name is \<open>stdout\<close>,
  changes no other file and returns 0.
\<close>

theorem file_copy_copies:
  assumes "fs s inputfile = Some c" and "outputfile \<noteq> inputfile" and "unat len + 2048 < 2 ^ 32"
  shows "file_copy inputfile outputfile skip len s =
    kret (0, if outputfile = ''stdout'' then s\<lparr>stdout := stdout s @ take (unat len) (drop (unat skip) c)\<rparr>
             else s\<lparr>fs := (fs s)(outputfile \<mapsto> take (unat len) (drop (unat skip) c))\<rparr>)"
  using assms copy_loop_take [of 0 len "drop (unat skip) c" "[]"]
  by (simp add: file_copy_def Let_def)

definition ex_fs :: mkstate where
  "ex_fs = \<lparr>fs = [''a'' \<mapsto> [1, 2, 3, 4, 5], ''b'' \<mapsto> [9, 1, 2, 3, 4, 5, 6]], stdout = []\<rparr>"

theorem file_copy_copies_witness:
  "file_copy ''a'' ''o'' 1 3 ex_fs = kret (0, ex_fs\<lparr>fs := (fs ex_fs)(''o'' \<mapsto> [2, 3, 4])\<rparr>)"
  using file_copy_copies [of ex_fs "''a''" "[1, 2, 3, 4, 5]" "''o''" 3 1]
  by (simp add: ex_fs_def)

text \<open>
  Fact: comparing an image file with a place in a project file. When both files have the
  bytes, \<open>file_compare\<close> returns 0 exactly when the size in the image's header plus the header is the
  size recorded in the project and the bytes agree; it always returns.
\<close>

theorem file_compare_exact:
  assumes "fs s img = Some a" and "fs s proj = Some b" and "64 \<le> length a"
    and "unat len \<le> length a" and "unat skip + unat len \<le> length b" and "unat len + 2048 < 2 ^ 32"
  shows "file_compare g1 g2 img proj skip len s =
    kret (if ih_size (read_header a) + 64 = len \<and> take (unat len) a = slice (unat skip) (unat len) b then 0 else -1)"
  using assms compare_loop_correct [OF assms(6), of 0 a "drop (unat skip) b"]
  by (simp add: file_compare_def Let_def slice_def)

definition ex_img :: bytes where
  "ex_img = header_bytes \<lparr>ih_magic = IH_MAGIC, ih_hcrc = 0, ih_time = 0, ih_size = 2, ih_load = 0, ih_ep = 0,
     ih_dcrc = 0, ih_os = 5, ih_arch = 2, ih_type = 2, ih_comp = 0, ih_name = replicate 32 0\<rparr> @ [7, 8]"

lemma ex_img_props: "length ex_img = 66" "ih_size (read_header ex_img) = 2"
proof -
  show "length ex_img = 66" by (simp add: ex_img_def header_bytes_def)
  have "slice 12 4 ex_img = be32 2"
    by (simp add: ex_img_def header_bytes_def slice_be32_skip slice_be32)
  then show "ih_size (read_header ex_img) = 2" by (simp add: read_header_def)
qed

definition ex_buff :: bytes where
  "ex_buff = replicate 2050 0"

theorem file_compare_exact_witness:
  "file_compare ex_buff ex_buff ''i'' ''p'' 3 66
     \<lparr>fs = [''i'' \<mapsto> ex_img, ''p'' \<mapsto> [0, 0, 0] @ ex_img], stdout = []\<rparr> = kret 0"
  using file_compare_exact
    [of "\<lparr>fs = [''i'' \<mapsto> ex_img, ''p'' \<mapsto> [0, 0, 0] @ ex_img], stdout = []\<rparr>" "''i''" ex_img "''p''"
        "[0, 0, 0] @ ex_img" 66 3 ex_buff ex_buff]
  by (simp add: ex_img_props slice_def)

text \<open>
  Fact: the binary comparison from the start of the first file returns 0 exactly when the
  second file has the first file's whole contents at position \<open>seek\<close>; it always returns.
\<close>

theorem file_compare_binary_exact:
  assumes "fs s file1 = Some a" and "fs s file2 = Some b" and "length a + 2048 < 2 ^ 32"
  shows "file_compare_binary g1 g2 file1 file2 0 seek (of_nat (length a)) s =
    kret (if slice (unat seek) (length a) b = a then 0 else -1)"
proof -
  have "unat (of_nat (length a) :: u32) = length a"
    using assms(3) by (simp add: unat_of_nat)
  then show ?thesis
    using assms compare_binary_loop_correct [of "of_nat (length a)" 0 a "drop (unat seek) b" g1 g2]
    by (simp add: file_compare_binary_def slice_def)
qed

theorem file_compare_binary_exact_witness:
  "file_compare_binary ex_buff ex_buff ''a'' ''b'' 0 1 5 ex_fs = kret 0 \<and>
   file_compare_binary ex_buff ex_buff ''a'' ''b'' 0 2 5 ex_fs = kret (-1)"
  using file_compare_binary_exact [of ex_fs "''a''" "[1, 2, 3, 4, 5]" "''b''" "[9, 1, 2, 3, 4, 5, 6]" ex_buff ex_buff 1]
    file_compare_binary_exact [of ex_fs "''a''" "[1, 2, 3, 4, 5]" "''b''" "[9, 1, 2, 3, 4, 5, 6]" ex_buff ex_buff 2]
  by (simp add: ex_fs_def slice_def)

text \<open>
  With a skip the size of the whole first file is still used as the number of bytes to compare, so
  on a short file the uninitialised rest of the two buffers decides the result, although all bytes
  read agree.
\<close>

lemma file_compare_binary_skip_garbage:
  assumes "fs s file1 = Some a" and "0 < unat skip" and "unat skip \<le> length a" and "length a \<le> 2048"
    and "fs s file2 = Some (drop (unat skip) a)"
  shows "file_compare_binary g1 g2 file1 file2 skip 0 (of_nat (length a)) s =
    kret (if take (2048 - (length a - unat skip)) (drop (length a - unat skip) g1) =
             take (2048 - (length a - unat skip)) (drop (length a - unat skip) g2) then 0 else -1)"
proof -
  define r where "r = drop (unat skip) a"
  have r: "length r = length a - unat skip" "length r < length a" "length r \<le> 2048"
    using assms by (simp_all add: r_def)
  have l: "unat (of_nat (length a) :: u32) = length a" "unat (of_nat (length r) :: u32) = length r"
    using assms(4) r by (simp_all add: unat_of_nat)
  have lt: "(0 :: u32) < of_nat (length a)" "(of_nat (length r) :: u32) < of_nat (length a)"
    "\<not> (2048 :: u32) < of_nat (length a)"
    using l r assms(4) by (auto simp: word_less_nat_alt)
  have stop: "compare_binary_loop [] [] b1 b2 2048 (of_nat (length a)) = kret 0" for b1 b2
    using lt(3) by (subst compare_binary_loop.simps) simp
  have "compare_binary_loop r r g1 g2 0 (of_nat (length a)) =
    kret (if take 2048 (r @ drop (length r) g1) = take 2048 (r @ drop (length r) g2) then 0 else -1)"
    using lt r(3) stop by (subst compare_binary_loop.simps) (simp add: Let_def fread_into_def)
  then show ?thesis
    using assms(1,5) r by (simp add: file_compare_binary_def r_def)
qed

text \<open>
  Fact: copying an image out of a flash partition. If the partition starts with an image
  whose header checks and whose size field is the length of its data, the temporary file gets exactly
  the image, without what follows it in the partition; a bad header leaves the files alone.
\<close>

theorem check_mtdfile_extracts:
  assumes "fs s mtd = Some (header_bytes h @ data @ junk)" and "length (ih_name h) = 32"
    and "mtd \<noteq> TEMP_MTD_FILE" and "ih_size h = of_nat (length data)" and "length data + 64 + 2048 < 2 ^ 32"
  shows "check_mtdfile mtd s =
    kret (if fst (check_header h) = 0
          then (0, s\<lparr>fs := (fs s)(TEMP_MTD_FILE \<mapsto> header_bytes h @ data)\<rparr>) else (-1, s))"
proof -
  have len: "length (header_bytes h) = 64" by (rule length_header_bytes [OF assms(2)])
  have sz: "unat (of_nat (length data) + 64 :: u32) = length data + 64"
    using assms(5) by (simp add: unat_word_ariths unat_of_nat)
  have size: "ih_size (snd (check_header h)) = of_nat (length data)"
    by (simp add: check_header_def Let_def assms(4))
  have "file_copy mtd TEMP_MTD_FILE 0 (of_nat (length data) + 64) s =
    kret (0, s\<lparr>fs := (fs s)(TEMP_MTD_FILE \<mapsto> header_bytes h @ data)\<rparr>)"
    using assms(1,3,5) sz len copy_loop_take [of 0 "of_nat (length data) + 64" "header_bytes h @ data @ junk" "[]"]
    by (simp add: file_copy_def Let_def TEMP_MTD_FILE_def)
  then show ?thesis
    using assms(1) len size read_header_bytes [OF assms(2)]
    by (auto simp: check_mtdfile_def split: prod.splits)
qed

definition ex_hdr0 :: image_header where
  "ex_hdr0 = \<lparr>ih_magic = IH_MAGIC, ih_hcrc = 0, ih_time = 0, ih_size = 2, ih_load = 0, ih_ep = 0,
     ih_dcrc = 0, ih_os = 5, ih_arch = 2, ih_type = 2, ih_comp = 0, ih_name = replicate 32 0\<rparr>"

definition ex_hdr :: image_header where
  "ex_hdr = ex_hdr0\<lparr>ih_hcrc := crc_ref 0 (header_bytes ex_hdr0)\<rparr>"

theorem check_mtdfile_extracts_witness:
  "check_mtdfile ''m'' \<lparr>fs = [''m'' \<mapsto> header_bytes ex_hdr @ [7, 8] @ [255]], stdout = []\<rparr> =
     kret (0, \<lparr>fs = [''m'' \<mapsto> header_bytes ex_hdr @ [7, 8] @ [255], TEMP_MTD_FILE \<mapsto> header_bytes ex_hdr @ [7, 8]],
               stdout = []\<rparr>)"
proof -
  have "fst (check_header ex_hdr) = 0"
    by (subst check_header_ok) (simp_all add: ex_hdr_def ex_hdr0_def)
  then show ?thesis
    using check_mtdfile_extracts
      [of "\<lparr>fs = [''m'' \<mapsto> header_bytes ex_hdr @ [7, 8] @ [255]], stdout = []\<rparr>" "''m''" ex_hdr "[7, 8]" "[255]"]
    by (simp add: ex_hdr_def ex_hdr0_def TEMP_MTD_FILE_def)
qed

end
