(* ===== verification/Mkimage.thy ===== *)
theory Mkimage
  imports Mkimage_Files C_Strings
begin

text \<open>
  The image tool \<open>src/sources/utils/brbox-mkimage/mkimage.c\<close>: building an image from data files,
  checking an image, and finding the parts of a multi-file image. \<open>lw\<close> is the size of the host's
  \<open>long\<close> (4 or 8 bytes, little endian), \<open>g1\<close> and \<open>g2\<close> are the uninitialised contents of the compare
  buffers. Exit codes are returned; messages are left out.
\<close>

section \<open>Mapped images\<close>

text \<open>
  A mapped file is zero-filled up to the end of its last page; an access beyond that page is a fault.
\<close>

definition map_file :: "bytes \<Rightarrow> bytes" where
  "map_file f = f @ replicate ((4096 - length f mod 4096) mod 4096) 0"

definition rd_mem :: "bytes \<Rightarrow> nat \<Rightarrow> nat \<Rightarrow> bytes kres" where
  "rd_mem mem off n = (if off + n \<le> length mem then kret (slice off n mem) else kfail BadDeref)"

text \<open>Entry \<open>i\<close> of the length table as the bytes of one \<open>unsigned long\<close>; the table ends with a zero.\<close>

definition len_bytes :: "nat \<Rightarrow> bytes \<Rightarrow> nat \<Rightarrow> bytes" where
  "len_bytes lw mem i = slice (sizeof_header + i * lw) lw mem"

definition len_end :: "bytes \<Rightarrow> bool" where
  "len_end w \<longleftrightarrow> list_all (\<lambda>b. b = 0) w"

definition len_value :: "bytes \<Rightarrow> u32" where
  "len_value w = rd_be32 (take 4 w)"

definition round_up4 :: "u32 \<Rightarrow> u32" where
  "round_up4 n = (n + 3) AND NOT 3"

function count_ptrs :: "nat \<Rightarrow> bytes \<Rightarrow> nat \<Rightarrow> nat kres" where
  "count_ptrs lw mem i =
     (if length mem < sizeof_header + i * lw + lw then kfail BadDeref
      else if len_end (len_bytes lw mem i) then kret i
      else count_ptrs lw mem (i + 1))"
  by pat_completeness auto

lemma len_table_step:
  "\<not> length mem < 64 + i * lw + lw \<Longrightarrow> \<not> len_end (len_bytes lw mem i) \<Longrightarrow> i < length mem"
  by (cases lw) (auto simp: len_bytes_def slice_def len_end_def)

termination count_ptrs
  by (relation "measure (\<lambda>(lw, mem, i). length mem - i)") (auto dest: len_table_step)

declare count_ptrs.simps [simp del]

section \<open>Checking the parts of a multi-file image\<close>

text \<open>The loop of \<open>print_header\<close>: \<open>data\<close> is the offset of the current part, \<open>res\<close> \<open>multi_image_result\<close>.\<close>

function print_loop :: "nat \<Rightarrow> bytes \<Rightarrow> nat \<Rightarrow> nat \<Rightarrow> int \<Rightarrow> int kres" where
  "print_loop lw mem i data res =
     (if length mem < sizeof_header + i * lw + lw then kfail BadDeref
      else if len_end (len_bytes lw mem i) then kret res
      else
        let size = len_value (len_bytes lw mem i) in
        (if length mem < data + sizeof_header then kfail BadDeref
         else
           let (r, temp_header) = check_header (read_header (slice data sizeof_header mem));
               image_len = unat (size - of_nat sizeof_header) in
           (if r = 0 then
              (if length mem < data + sizeof_header + image_len then kfail BadDeref
               else print_loop lw mem (i + 1) (data + unat (round_up4 size))
                      (if crc32 0 (slice (data + sizeof_header) image_len mem) image_len \<noteq> ucast (ih_dcrc temp_header)
                       then -1 else res))
            else print_loop lw mem (i + 1) (data + unat (round_up4 size)) (-1))))"
  by pat_completeness auto

termination print_loop
  by (relation "measure (\<lambda>(lw, mem, i, _). length mem - i)") (auto dest: len_table_step)

declare print_loop.simps [simp del]

definition print_header_only :: "bytes \<Rightarrow> int" where
  "print_header_only hdr = (if fst (check_header (read_header hdr)) = 0 then 0 else -1)"

definition print_header :: "nat \<Rightarrow> bytes \<Rightarrow> int kres" where
  "print_header lw mem =
     (let type = uint (ih_type (read_header (take sizeof_header mem))) in
      if type = IH_TYPE_MULTI \<or> type = IH_TYPE_SCRIPT then
        kbind (count_ptrs lw mem 0) (\<lambda>ptrs.
        print_loop lw mem 0 (sizeof_header + (ptrs + 1) * lw) 0)
      else kret 0)"

section \<open>Finding a part\<close>

datatype TypeAction = Compare | Extract | Query | Exthdr | Count

text \<open>
  The search loops: a hit returns the 32-bit file position \<open>pos\<close> and the size of the part; the
  number of valid parts passed over is counted in \<open>cnt\<close>.
\<close>

function extract_loop ::
  "nat \<Rightarrow> bytes \<Rightarrow> u8 \<Rightarrow> nat \<Rightarrow> u32 \<Rightarrow> nat \<Rightarrow> int \<Rightarrow> ((u32 \<times> u32) option \<times> int) kres" where
  "extract_loop lw mem image_type i pos data cnt =
     (if length mem < sizeof_header + i * lw + lw then kfail BadDeref
      else if len_end (len_bytes lw mem i) then kret (None, cnt)
      else
        let size = len_value (len_bytes lw mem i) in
        (if length mem < data + sizeof_header then kfail BadDeref
         else
           let (r, temp_header) = check_header (read_header (slice data sizeof_header mem)) in
           (if r = 0 \<and> ih_type temp_header = image_type then kret (Some (pos, size), cnt)
            else extract_loop lw mem image_type (i + 1) (pos + round_up4 size)
                   (data + unat (round_up4 size)) (if r = 0 then cnt + 1 else cnt))))"
  by pat_completeness auto

termination extract_loop
  by (relation "measure (\<lambda>(lw, mem, _, i, _). length mem - i)") (auto dest: len_table_step)

declare extract_loop.simps [simp del]

definition extract_file_from_multi ::
  "nat \<Rightarrow> bytes \<Rightarrow> bytes \<Rightarrow> u8 \<Rightarrow> string \<Rightarrow> string \<Rightarrow> bytes \<Rightarrow> TypeAction \<Rightarrow> mkstate \<Rightarrow> (int \<times> int \<times> mkstate) kres" where
  "extract_file_from_multi lw g1 g2 image_type input_file output_file mem action s =
     (if uint (ih_type (read_header (take sizeof_header mem))) \<noteq> IH_TYPE_MULTI then kret (-1, 0, s)
      else
        kbind (count_ptrs lw mem 0) (\<lambda>ptrs.
        kbind (extract_loop lw mem image_type 0 (of_nat (sizeof_header + ptrs * lw))
                 (sizeof_header + (ptrs + 1) * lw) 0) (\<lambda>(hit, img_count).
        case hit of None \<Rightarrow> kret (if action = Count then 0 else -1, img_count, s)
        | Some (pos, len) \<Rightarrow>
            (case action of
               Query \<Rightarrow> kret (0, img_count, s)
             | Compare \<Rightarrow> kbind (file_compare g1 g2 output_file input_file (pos + 4) len s)
                            (\<lambda>r. kret (r, img_count, s))
             | Extract \<Rightarrow> kbind (file_copy input_file output_file (pos + 4) len s)
                            (\<lambda>(_, s). kret (0, img_count, s))
             | Exthdr \<Rightarrow> kbind (file_copy input_file output_file (pos + 4) (of_nat sizeof_header) s)
                            (\<lambda>(_, s). kret (0, img_count, s))
             | Count \<Rightarrow> kret (-1, img_count, s)))))"

function number_loop ::
  "nat \<Rightarrow> bytes \<Rightarrow> int \<Rightarrow> nat \<Rightarrow> u32 \<Rightarrow> nat \<Rightarrow> (u32 \<times> u32) option kres" where
  "number_loop lw mem image_no i pos data =
     (if length mem < sizeof_header + i * lw + lw then kfail BadDeref
      else if len_end (len_bytes lw mem i) then kret None
      else
        let size = len_value (len_bytes lw mem i) in
        (if length mem < data + sizeof_header then kfail BadDeref
         else if fst (check_header (read_header (slice data sizeof_header mem))) = 0 \<and> int i = image_no
         then kret (Some (pos, size))
         else number_loop lw mem image_no (i + 1) (pos + round_up4 size) (data + unat (round_up4 size))))"
  by pat_completeness auto

termination number_loop
  by (relation "measure (\<lambda>(lw, mem, _, i, _). length mem - i)") (auto dest: len_table_step)

declare number_loop.simps [simp del]

definition extract_file_number ::
  "nat \<Rightarrow> int \<Rightarrow> string \<Rightarrow> string \<Rightarrow> bytes \<Rightarrow> mkstate \<Rightarrow> (int \<times> mkstate) kres" where
  "extract_file_number lw image_no input_file output_file mem s =
     (if uint (ih_type (read_header (take sizeof_header mem))) \<noteq> IH_TYPE_MULTI then kret (-1, s)
      else
        kbind (count_ptrs lw mem 0) (\<lambda>ptrs.
        kbind (number_loop lw mem image_no 0 (of_nat (sizeof_header + ptrs * lw))
                 (sizeof_header + (ptrs + 1) * lw)) (\<lambda>hit.
        case hit of None \<Rightarrow> kret (-1, s)
        | Some (pos, len) \<Rightarrow>
            kbind (file_copy input_file output_file (pos + 4) len s) (\<lambda>(_, s). kret (0, s)))))"

section \<open>Building an image\<close>

definition append_file :: "string \<Rightarrow> bytes \<Rightarrow> mkstate \<Rightarrow> mkstate" where
  "append_file f bs s = s\<lparr>fs := (fs s)(f \<mapsto> (case fs s f of None \<Rightarrow> [] | Some c \<Rightarrow> c) @ bs)\<rparr>"

text \<open>
  0 to go on, -1 when the tool exits. Mapping an empty file fails; a file of 2 GiB or more has a
  negative \<open>size\<close>, and writing that many bytes fails.
\<close>

definition copy_file :: "bool \<Rightarrow> string \<Rightarrow> string \<Rightarrow> bool \<Rightarrow> mkstate \<Rightarrow> int \<times> mkstate" where
  "copy_file xflag imagefile datafile pad s =
     (case fs s datafile of None \<Rightarrow> (-1, s)
      | Some c \<Rightarrow>
          if c = [] then (-1, s)
          else if xflag \<and> (of_nat (length c) :: u32) < of_nat sizeof_header then (-1, s)
          else if xflag \<and> take sizeof_header c \<noteq> replicate sizeof_header 0xff then (-1, s)
          else
            let offset = (if xflag then sizeof_header else 0);
                n = sint (of_nat (length c - offset) :: s32)
            in if n < 0 then (-1, s)
               else
                 let s = append_file imagefile (take (nat n) (drop offset c)) s;
                     tail = nat n mod 4
                 in if pad \<and> tail \<noteq> 0 then (0, append_file imagefile (replicate (4 - tail) 0) s)
                    else (0, s))"

text \<open>The file names of the option \<open>-d\<close>, separated by colons.\<close>

fun split_colon :: "string \<Rightarrow> string list" where
  "split_colon [] = [[]]"
| "split_colon (c # cs) =
     (if c = CHR '':'' then [] # split_colon cs
      else case split_colon cs of [] \<Rightarrow> [[c]] | f # ff \<Rightarrow> (c # f) # ff)"

text \<open>The length table: one \<open>unsigned long\<close> per file, its value in network byte order, and a zero.\<close>

fun write_sizes :: "nat \<Rightarrow> string \<Rightarrow> string list \<Rightarrow> mkstate \<Rightarrow> int \<times> mkstate" where
  "write_sizes lw imagefile [] s = (0, append_file imagefile (replicate lw 0) s)"
| "write_sizes lw imagefile (f # files) s =
     (case fs s f of None \<Rightarrow> (-1, s)
      | Some c \<Rightarrow> write_sizes lw imagefile files
                    (append_file imagefile (be32 (of_nat (length c)) @ replicate (lw - 4) 0) s))"

fun copy_files :: "bool \<Rightarrow> string \<Rightarrow> string list \<Rightarrow> mkstate \<Rightarrow> int \<times> mkstate" where
  "copy_files xflag imagefile [] s = (0, s)"
| "copy_files xflag imagefile [f] s = copy_file xflag imagefile f False s"
| "copy_files xflag imagefile (f # files) s =
     (let (r, s) = copy_file xflag imagefile f True s in
      if r \<noteq> 0 then (r, s) else copy_files xflag imagefile files s)"

definition write_data ::
  "nat \<Rightarrow> int \<Rightarrow> bool \<Rightarrow> string \<Rightarrow> string \<Rightarrow> mkstate \<Rightarrow> int \<times> mkstate" where
  "write_data lw opt_type xflag imagefile datafile s =
     (if opt_type = IH_TYPE_MULTI \<or> opt_type = IH_TYPE_SCRIPT then
        let files = split_colon datafile; (r, s) = write_sizes lw imagefile files s in
        (if r \<noteq> 0 then (r, s) else copy_files xflag imagefile files s)
      else copy_file xflag imagefile datafile False s)"

text \<open>\<open>strncpy(hdr->ih_name, name, IH_NMLEN)\<close>\<close>

definition name_bytes :: "string \<Rightarrow> bytes" where
  "name_bytes name = take IH_NMLEN (map (\<lambda>c. of_nat (of_char c)) name @ replicate IH_NMLEN 0)"

text \<open>The new header of a file whose data follows 64 bytes reserved for it; \<open>mtime\<close> is its time stamp.\<close>

definition build_header ::
  "u32 \<Rightarrow> u32 \<Rightarrow> u32 \<Rightarrow> int \<Rightarrow> int \<Rightarrow> int \<Rightarrow> int \<Rightarrow> string \<Rightarrow> bytes \<Rightarrow> image_header" where
  "build_header mtime addr ep opt_os opt_arch opt_type opt_comp name f =
     (let len = (of_nat (length f - sizeof_header) :: u32);
          checksum = ucast (crc32 0 (drop sizeof_header f) (unat len));
          hdr = \<lparr>ih_magic = IH_MAGIC, ih_hcrc = 0, ih_time = mtime, ih_size = len, ih_load = addr, ih_ep = ep,
                 ih_dcrc = checksum, ih_os = of_int opt_os, ih_arch = of_int opt_arch,
                 ih_type = of_int opt_type, ih_comp = of_int opt_comp, ih_name = name_bytes name\<rparr>
      in hdr\<lparr>ih_hcrc := ucast (crc32 0 (header_bytes hdr) sizeof_header)\<rparr>)"

section \<open>Options\<close>

record mkopts =
  lflag :: bool
  dflag :: bool
  eflag :: bool
  vflag :: nat
  xflag :: nat
  opt_os :: int
  opt_arch :: int
  opt_type :: int
  opt_comp :: int
  addr :: u32
  ep :: u32
  name :: string
  datafile :: string
  silent_flag :: bool
  mtd_flag :: bool
  query_file :: "string option"
  extract_file :: string
  xtractflag :: bool
  xtrhdrflag :: bool
  compare_file :: "string option"
  skip_value :: "s32 option"
  seek_value :: "s32 option"
  output_file :: "string option"
  headeronly_flag :: bool
  max_header_counts :: s32
  countimage_flag :: bool
  file_number :: "s32 option"

definition default_opts :: mkopts where
  "default_opts =
     \<lparr>lflag = False, dflag = False, eflag = False, vflag = 0, xflag = 0, opt_os = IH_OS_LINUX,
      opt_arch = IH_CPU_PPC, opt_type = IH_TYPE_KERNEL, opt_comp = IH_COMP_GZIP, addr = 0, ep = 0,
      name = [], datafile = [], silent_flag = False, mtd_flag = False, query_file = None,
      extract_file = [], xtractflag = False, xtrhdrflag = False, compare_file = None,
      skip_value = None, seek_value = None, output_file = None, headeronly_flag = False,
      max_header_counts = 0, countimage_flag = False, file_number = None\<rparr>"

text \<open>How the command line is refused: the usage text, a bad address, or a read of the null pointer.\<close>

datatype opterr = Usage | BadAddress | NullArgument

text \<open>Options without an argument, and options with one.\<close>

definition set_flag :: "char \<Rightarrow> mkopts \<Rightarrow> mkopts option" where
  "set_flag c opt =
     (if c = CHR ''l'' then Some (opt\<lparr>lflag := True\<rparr>)
      else if c = CHR ''v'' then Some (opt\<lparr>vflag := vflag opt + 1\<rparr>)
      else if c = CHR ''x'' then Some (opt\<lparr>xflag := xflag opt + 1\<rparr>)
      else if c = CHR ''s'' then Some (opt\<lparr>silent_flag := True\<rparr>)
      else if c = CHR ''m'' then Some (opt\<lparr>mtd_flag := True\<rparr>)
      else if c = CHR ''t'' then Some (opt\<lparr>countimage_flag := True\<rparr>)
      else None)"

definition set_code :: "(string \<Rightarrow> int) \<Rightarrow> (int \<Rightarrow> mkopts) \<Rightarrow> string \<Rightarrow> opterr + mkopts" where
  "set_code get upd a = (let v = get a in if v < 0 then Inl Usage else Inr (upd v))"

definition set_hex :: "(u32 \<Rightarrow> mkopts) \<Rightarrow> string \<Rightarrow> opterr + mkopts" where
  "set_hex upd a = (let (v, ptr) = strtoul16 a in if ptr \<noteq> [] then Inl BadAddress else Inr (upd (ucast v)))"

definition set_arg :: "char \<Rightarrow> string \<Rightarrow> mkopts \<Rightarrow> opterr + mkopts" where
  "set_arg c a opt =
     (if c = CHR ''A'' then set_code get_arch (\<lambda>v. opt\<lparr>opt_arch := v\<rparr>) a
      else if c = CHR ''C'' then set_code get_comp (\<lambda>v. opt\<lparr>opt_comp := v\<rparr>) a
      else if c = CHR ''O'' then set_code get_os (\<lambda>v. opt\<lparr>opt_os := v\<rparr>) a
      else if c = CHR ''T'' then set_code get_type (\<lambda>v. opt\<lparr>opt_type := v\<rparr>) a
      else if c = CHR ''a'' then set_hex (\<lambda>v. opt\<lparr>addr := v\<rparr>) a
      else if c = CHR ''d'' then Inr (opt\<lparr>datafile := a, dflag := True\<rparr>)
      else if c = CHR ''e'' then set_hex (\<lambda>v. opt\<lparr>ep := v, eflag := True\<rparr>) a
      else if c = CHR ''n'' then Inr (opt\<lparr>name := a\<rparr>)
      else if c = CHR ''q'' then Inr (opt\<lparr>query_file := Some a\<rparr>)
      else if c = CHR ''X'' then Inr (opt\<lparr>extract_file := a, xtractflag := True\<rparr>)
      else if c = CHR ''H'' then Inr (opt\<lparr>extract_file := a, xtrhdrflag := True\<rparr>)
      else if c = CHR ''c'' then Inr (opt\<lparr>compare_file := Some a\<rparr>)
      else if c = CHR ''k'' then Inr (opt\<lparr>skip_value := Some (atoi a)\<rparr>)
      else if c = CHR ''E'' then Inr (opt\<lparr>seek_value := Some (atoi a)\<rparr>)
      else if c = CHR ''o'' then Inr (opt\<lparr>output_file := Some a\<rparr>)
      else if c = CHR ''f'' then Inr (opt\<lparr>file_number := Some (atoi a)\<rparr>)
      else Inl Usage)"

definition takes_arg :: "char \<Rightarrow> bool" where
  "takes_arg c \<longleftrightarrow> c \<in> set ''ACOTadenqXHckEof''"

text \<open>
  \<open>parse_opts argc cur args opt\<close>: \<open>cur\<close> are the unread characters of the current argument, \<open>args\<close>
  the arguments after it. The option \<open>h\<close> moves to the next argument without counting it in \<open>argc\<close>,
  and reading options goes on inside that argument. The result is the final \<open>argc\<close>, the argument
  the loop stopped at, and the options.
\<close>

function parse_opts ::
  "int \<Rightarrow> string \<Rightarrow> string list \<Rightarrow> mkopts \<Rightarrow> opterr + int \<times> string \<times> mkopts" where
  "parse_opts argc [] args opt =
     (if argc - 1 \<le> 0 then Inr (argc - 1, [], opt)
      else case args of [] \<Rightarrow> Inl NullArgument
      | a # args' \<Rightarrow>
          if a \<noteq> [] \<and> hd a = CHR ''-'' then parse_opts (argc - 1) (tl a) args' opt
          else Inr (argc - 1, a, opt))"
| "parse_opts argc (c # cs) args opt =
     (if c = CHR ''h'' then
        (case args of [] \<Rightarrow> Inl NullArgument
         | a # args' \<Rightarrow>
             parse_opts argc (drop 1 a) args' (opt\<lparr>headeronly_flag := True, max_header_counts := atoi a\<rparr>))
      else if takes_arg c then
        (if argc - 1 \<le> 0 then Inl Usage
         else case args of [] \<Rightarrow> Inl NullArgument
         | a # args' \<Rightarrow> (case set_arg c a opt of Inl e \<Rightarrow> Inl e
                        | Inr opt \<Rightarrow> parse_opts (argc - 1) [] args' opt))
      else case set_flag c opt of None \<Rightarrow> Inl Usage | Some opt \<Rightarrow> parse_opts argc cs args opt)"
  by pat_completeness auto

termination parse_opts
  by (relation "measure (\<lambda>(_, cur, args, _). length cur + sum_list (map (\<lambda>a. Suc (length a)) args))") auto

section \<open>The main program\<close>

text \<open>\<open>-h\<close>: check consecutive headers; a file that cannot be opened or is too short ends the loop.\<close>

fun headers_loop :: "bytes \<Rightarrow> nat \<Rightarrow> bool \<Rightarrow> bool" where
  "headers_loop rest 0 ok = ok"
| "headers_loop rest (Suc n) ok =
     (if length rest < sizeof_header then ok
      else headers_loop (drop sizeof_header rest) n (ok \<and> print_header_only (take sizeof_header rest) = 0))"

definition print_headers :: "mkopts \<Rightarrow> string \<Rightarrow> mkstate \<Rightarrow> int" where
  "print_headers opt file s =
     (let c = (case fs s file of None \<Rightarrow> [] | Some c \<Rightarrow> c) in
      if headers_loop c (unat (max_header_counts opt)) True then 0 else 1)"

text \<open>The checks of \<open>-l\<close> before any part is looked at: size, magic number and the two checksums.\<close>

definition image_ok :: "bytes \<Rightarrow> bool" where
  "image_ok f \<longleftrightarrow>
     \<not> (of_nat (length f) :: u32) < of_nat sizeof_header \<and>
     (let hdr = read_header (take sizeof_header f); len = unat (of_nat (length f - sizeof_header) :: u32) in
      ih_magic hdr = IH_MAGIC \<and>
      crc32 0 (header_bytes (hdr\<lparr>ih_hcrc := 0\<rparr>)) sizeof_header = ucast (ih_hcrc hdr) \<and>
      crc32 0 (drop sizeof_header f) len = ucast (ih_dcrc hdr))"

definition list_query ::
  "nat \<Rightarrow> bytes \<Rightarrow> bytes \<Rightarrow> mkopts \<Rightarrow> string \<Rightarrow> bytes \<Rightarrow> mkstate \<Rightarrow> (int \<times> mkstate) kres" where
  "list_query lw g1 g2 opt imagefile mem s =
     (case query_file opt of None \<Rightarrow> kret (0, s)
      | Some q \<Rightarrow>
          kbind (extract_file_from_multi lw g1 g2 (of_int (get_image_type q)) imagefile [] mem Query s)
            (\<lambda>(r, _, s). kret (r, s)))"

definition list_extract ::
  "nat \<Rightarrow> bytes \<Rightarrow> bytes \<Rightarrow> mkopts \<Rightarrow> string \<Rightarrow> bytes \<Rightarrow> mkstate \<Rightarrow> (int \<times> mkstate) kres" where
  "list_extract lw g1 g2 opt imagefile mem s =
     (if xtractflag opt \<or> xtrhdrflag opt then
        (case output_file opt of None \<Rightarrow> kret (-1, s)
         | Some out \<Rightarrow>
             kbind (extract_file_from_multi lw g1 g2 (of_int (get_image_type (extract_file opt))) imagefile out mem
                      (if xtractflag opt then Extract else Exthdr) s)
               (\<lambda>(r, _, s). kret (r, s)))
      else kret (0, s))"

definition list_compare ::
  "nat \<Rightarrow> bytes \<Rightarrow> bytes \<Rightarrow> mkopts \<Rightarrow> string \<Rightarrow> bytes \<Rightarrow> mkstate \<Rightarrow> (int \<times> mkstate) kres" where
  "list_compare lw g1 g2 opt imagefile mem s =
     (case compare_file opt of None \<Rightarrow> kret (0, s)
      | Some cf \<Rightarrow>
          (case fs s cf of None \<Rightarrow> kret (-1, s)
           | Some c \<Rightarrow>
               if length c < sizeof_header then kret (-1, s)
               else
                 let type = ih_type (read_header (take sizeof_header c)) in
                 (if uint type < IH_TYPE_STANDALONE \<or> IH_TYPE_BRBOX_USRDAT < uint type then kret (-1, s)
                  else kbind (extract_file_from_multi lw g1 g2 type imagefile cf mem Compare s)
                         (\<lambda>(r, _, s). kret (r, s)))))"

definition list_count ::
  "nat \<Rightarrow> bytes \<Rightarrow> bytes \<Rightarrow> mkopts \<Rightarrow> string \<Rightarrow> bytes \<Rightarrow> mkstate \<Rightarrow> (int \<times> mkstate) kres" where
  "list_count lw g1 g2 opt imagefile mem s =
     (if countimage_flag opt
      then kbind (extract_file_from_multi lw g1 g2 0 imagefile [] mem Count s)
             (\<lambda>(r, n, s). kret (if r \<noteq> 0 then (r, s)
                                else (0, s\<lparr>stdout := stdout s @ map (\<lambda>c. of_nat (of_char c))
                                   (''total images in project file are: '' @ show_int n @ [CHR 0x0A])\<rparr>)))
      else kret (0, s))"

definition list_number ::
  "nat \<Rightarrow> mkopts \<Rightarrow> string \<Rightarrow> bytes \<Rightarrow> mkstate \<Rightarrow> (int \<times> mkstate) kres" where
  "list_number lw opt imagefile mem s =
     (case file_number opt of None \<Rightarrow> kret (0, s)
      | Some n \<Rightarrow>
          (case output_file opt of None \<Rightarrow> kfail BadDeref
           | Some out \<Rightarrow>
               kbind (extract_file_number lw (sint n) imagefile out mem s) (\<lambda>(r, s).
               kret (if r \<noteq> 0 then (r, s)
                     else (0, s\<lparr>stdout := stdout s @ map (\<lambda>c. of_nat (of_char c))
                        (''requested file extracted successfully!'' @ [CHR 0x0A])\<rparr>)))))"

text \<open>One step after the other, each exiting with -1 when it fails.\<close>

definition exit_on :: "(int \<times> mkstate) kres \<Rightarrow> (mkstate \<Rightarrow> (int \<times> mkstate) kres) \<Rightarrow> (int \<times> mkstate) kres" where
  "exit_on r f = kbind r (\<lambda>(c, s). if c \<noteq> 0 then kret (-1, s) else f s)"

definition list_image ::
  "nat \<Rightarrow> bytes \<Rightarrow> bytes \<Rightarrow> mkopts \<Rightarrow> string \<Rightarrow> mkstate \<Rightarrow> (int \<times> mkstate) kres" where
  "list_image lw g1 g2 opt imagefile s =
     (case fs s imagefile of None \<Rightarrow> kret (-1, s)
      | Some f \<Rightarrow>
          if \<not> image_ok f then kret (-1, s)
          else
            let mem = map_file f in
            exit_on (kbind (print_header lw mem) (\<lambda>r. kret (r, s))) (\<lambda>s.
            exit_on (list_query lw g1 g2 opt imagefile mem s) (\<lambda>s.
            exit_on (list_extract lw g1 g2 opt imagefile mem s) (\<lambda>s.
            exit_on (list_compare lw g1 g2 opt imagefile mem s) (\<lambda>s.
            exit_on (list_count lw g1 g2 opt imagefile mem s) (\<lambda>s.
            exit_on (list_number lw opt imagefile mem s) (\<lambda>s.
            kret (0, if mtd_flag opt then s\<lparr>fs := (fs s)(TEMP_MTD_FILE := None)\<rparr> else s))))))))"

definition create_image :: "nat \<Rightarrow> u32 \<Rightarrow> mkopts \<Rightarrow> string \<Rightarrow> mkstate \<Rightarrow> (int \<times> mkstate) kres" where
  "create_image lw mtime opt imagefile s =
     (let s = s\<lparr>fs := (fs s)(imagefile \<mapsto> replicate sizeof_header 0)\<rparr>;
          (r, s) = write_data lw (opt_type opt) (0 < xflag opt) imagefile (datafile opt) s
      in if r \<noteq> 0 then kret (-1, s)
         else
           let f = the (fs s imagefile);
               hdr = build_header mtime (addr opt) (ep opt) (opt_os opt) (opt_arch opt) (opt_type opt)
                       (opt_comp opt) (name opt) f;
               f' = header_bytes hdr @ drop sizeof_header f;
               s = s\<lparr>fs := (fs s)(imagefile \<mapsto> f')\<rparr>
           in kbind (print_header lw (map_file f')) (\<lambda>_. kret (0, s)))"

text \<open>The entry point when \<open>-e\<close> is not given, and its check for execution in place.\<close>

definition set_entry :: "mkopts \<Rightarrow> mkopts option" where
  "set_entry opt =
     (let x = (0 < xflag opt);
          opt = (if eflag opt then opt
                 else opt\<lparr>ep := addr opt + (if x then of_nat sizeof_header else 0)\<rparr>)
      in if x \<and> ep opt \<noteq> addr opt + of_nat sizeof_header then None else Some opt)"

definition mkimage_main ::
  "nat \<Rightarrow> bytes \<Rightarrow> bytes \<Rightarrow> u32 \<Rightarrow> string list \<Rightarrow> mkstate \<Rightarrow> (int \<times> mkstate) kres" where
  "mkimage_main lw g1 g2 mtime args s =
     (case parse_opts (int (length args) + 1) [] args default_opts of
        Inl NullArgument \<Rightarrow> kfail BadDeref
      | Inl _ \<Rightarrow> kret (-1, s)
      | Inr (argc, arg, opt) \<Rightarrow>
          if headeronly_flag opt then kret (print_headers opt arg s, s)
          else if argc \<noteq> 1 \<or> lflag opt = dflag opt then kret (-1, s)
          else case set_entry opt of None \<Rightarrow> kret (-1, s)
          | Some opt \<Rightarrow>
              (case (compare_file opt, skip_value opt = None \<and> seek_value opt = None) of
                 (Some cf, False) \<Rightarrow>
                   (case fs s cf of None \<Rightarrow> kret (-1, s)
                    | Some c \<Rightarrow>
                        exit_on (kbind (file_compare_binary g1 g2 cf arg
                                          (case skip_value opt of None \<Rightarrow> 0 | Some v \<Rightarrow> v)
                                          (case seek_value opt of None \<Rightarrow> 0 | Some v \<Rightarrow> v)
                                          (of_nat (length c)) s)
                                   (\<lambda>r. kret (r, s))) (\<lambda>s. kret (0, s)))
               | _ \<Rightarrow>
                   exit_on (if mtd_flag opt then check_mtdfile arg s else kret (0, s)) (\<lambda>s.
                   let imagefile = (if mtd_flag opt then TEMP_MTD_FILE else arg) in
                   if lflag opt then list_image lw g1 g2 opt imagefile s
                   else create_image lw mtime opt imagefile s)))"

end
