(* ===== verification/Mkimage_Proofs.thy ===== *)
theory Mkimage_Proofs
  imports Mkimage
begin

text \<open>
  What the image tool guarantees: an image it builds passes its own check, a changed byte does not,
  and the parts of a multi-file image are found and copied out again.
\<close>

section \<open>Checked images\<close>

lemma crc32_take: "n = length bs \<Longrightarrow> crc32 0 bs n = ucast (crc_ref 0 bs)"
  by (simp add: crc32_0)

lemma unat_small: "n < 2 ^ 32 \<Longrightarrow> unat (of_nat n :: u32) = n"
  by (simp add: unat_of_nat)

lemma small_less:
  "m < 2 ^ 32 \<Longrightarrow> n < 2 ^ 32 \<Longrightarrow> (of_nat m :: u32) < of_nat n \<longleftrightarrow> m < n"
  by (simp only: word_less_nat_alt unat_small)

lemma header_bytes_hcrc:
  "header_bytes (h\<lparr>ih_hcrc := x\<rparr>) = take 4 (header_bytes h) @ be32 x @ drop 8 (header_bytes h)"
  by (simp add: header_bytes_def)

lemma cleared_header:
  assumes "length bs = 64"
  shows "header_bytes ((read_header bs)\<lparr>ih_hcrc := 0\<rparr>) = take 4 bs @ replicate 4 0 @ drop 8 bs"
proof -
  have "be32 (0 :: u32) = replicate 4 0" by (simp add: be32_def numeral_eq_Suc)
  then show ?thesis by (simp only: header_bytes_hcrc header_bytes_read [OF assms])
qed

lemma image_ok_iff:
  assumes "64 \<le> length f" "length f < 2 ^ 32"
  shows "image_ok f \<longleftrightarrow>
    rd_be32 (slice 0 4 f) = IH_MAGIC \<and>
    crc_ref 0 (take 4 f @ replicate 4 0 @ slice 8 56 f) = rd_be32 (slice 4 4 f) \<and>
    crc_ref 0 (drop 64 f) = rd_be32 (slice 24 4 f)"
proof -
  let ?h = "read_header (take 64 f)"
  have l: "length (take 64 f) = 64" using assms by simp
  have "header_bytes (?h\<lparr>ih_hcrc := 0\<rparr>) = take 4 f @ replicate 4 0 @ slice 8 56 f"
    using cleared_header [OF l] by (simp add: slice_def drop_take)
  moreover have "ih_magic ?h = rd_be32 (slice 0 4 f)" "ih_hcrc ?h = rd_be32 (slice 4 4 f)"
    "ih_dcrc ?h = rd_be32 (slice 24 4 f)"
    by (simp_all add: read_header_def slice_def drop_take)
  moreover have "\<not> (of_nat (length f) :: u32) < of_nat 64"
    using assms by (subst small_less) simp_all
  moreover have "unat (of_nat (length f - 64) :: u32) = length (drop 64 f)"
    using assms unat_small [of "length f - 64"] by simp
  moreover have "length (take 4 f @ replicate 4 0 @ slice 8 56 f) = 64"
    using assms by (simp add: slice_def)
  ultimately show ?thesis
    by (simp add: image_ok_def Let_def crc32_take ucast_32_64_inj)
qed

lemma image_ok_short: "length f < 64 \<Longrightarrow> \<not> image_ok f"
  by (simp add: image_ok_def word_less_nat_alt unat_small)

lemma crc_ref_byte:
  assumes "k < length bs" "b \<noteq> bs ! k"
  shows "crc_ref c (bs[k := b]) \<noteq> crc_ref c bs"
proof -
  have "bs = take k bs @ [bs ! k] @ drop (Suc k) bs"
    using assms(1) by (simp add: id_take_nth_drop)
  moreover have "bs[k := b] = take k bs @ [b] @ drop (Suc k) bs"
    using assms(1) by (simp add: upd_conv_take_nth_drop)
  ultimately show ?thesis
    using crc_ref_burst [of "[b]" "[bs ! k]" c "take k bs" "drop (Suc k) bs"] assms(2) by simp
qed

lemma rd_be32_slice_change:
  assumes "off + 4 \<le> length f" "off \<le> k" "k < off + 4" "b \<noteq> f ! k"
  shows "rd_be32 (slice off 4 (f[k := b])) \<noteq> rd_be32 (slice off 4 f)"
proof
  assume "rd_be32 (slice off 4 (f[k := b])) = rd_be32 (slice off 4 f)"
  then have "slice off 4 (f[k := b]) = slice off 4 f"
    using assms(1) by (metis be32_rd_be32 length_list_update length_slice)
  then have "slice off 4 (f[k := b]) ! (k - off) = slice off 4 f ! (k - off)" by simp
  with assms show False by (simp add: slice_def)
qed

lemma slice_update_other:
  "k < off \<or> off + n \<le> k \<Longrightarrow> slice off n (f[k := b]) = slice off n f"
  by (auto simp: slice_def drop_update_swap)

text \<open>
  Fact: an image that passes the check of \<open>-l\<close> no longer passes when any one byte of it is
  changed, in the header or in the data.
\<close>

theorem image_byte_change_rejected:
  assumes "image_ok f" and "length f < 2 ^ 32" and "k < length f" and "b \<noteq> f ! k"
  shows "\<not> image_ok (f[k := b])"
proof -
  let ?f = "f[k := b]"
  have len: "64 \<le> length f" using assms(1) image_ok_short by (meson not_le)
  note ok = assms(1) [unfolded image_ok_iff [OF len assms(2)]]
  have ok': "image_ok ?f \<longleftrightarrow>
    rd_be32 (slice 0 4 ?f) = IH_MAGIC \<and>
    crc_ref 0 (take 4 ?f @ replicate 4 0 @ slice 8 56 ?f) = rd_be32 (slice 4 4 ?f) \<and>
    crc_ref 0 (drop 64 ?f) = rd_be32 (slice 24 4 ?f)"
    using image_ok_iff [of ?f] len assms(2) by simp
  consider "k < 4" | "4 \<le> k" "k < 8" | "8 \<le> k" "k < 64" | "64 \<le> k" by linarith
  then show ?thesis
  proof cases
    case 1
    with rd_be32_slice_change [of 0 f k b] len assms(4) ok ok' show ?thesis by auto
  next
    case 2
    then have "rd_be32 (slice 4 4 ?f) \<noteq> rd_be32 (slice 4 4 f)"
      using len assms(4) by (intro rd_be32_slice_change) auto
    moreover have "take 4 ?f = take 4 f" "slice 8 56 ?f = slice 8 56 f"
      using 2 by (simp_all add: slice_update_other)
    ultimately show ?thesis using ok ok' by simp
  next
    case 3
    have "take 4 ?f @ replicate 4 0 @ slice 8 56 ?f = (take 4 f @ replicate 4 0 @ slice 8 56 f)[k := b]"
      using 3 len by (intro nth_equalityI) (auto simp: slice_def nth_append nth_list_update)
    moreover have "(take 4 f @ replicate 4 0 @ slice 8 56 f) ! k = f ! k"
      using 3 len by (auto simp: slice_def nth_append)
    moreover have "k < length (take 4 f @ replicate 4 0 @ slice 8 56 f)"
      using 3 len by (simp add: slice_def)
    ultimately have "crc_ref 0 (take 4 ?f @ replicate 4 0 @ slice 8 56 ?f) \<noteq>
        crc_ref 0 (take 4 f @ replicate 4 0 @ slice 8 56 f)"
      using crc_ref_byte assms(4) by metis
    moreover have "slice 4 4 ?f = slice 4 4 f" using 3 by (simp add: slice_update_other)
    ultimately show ?thesis using ok ok' by auto
  next
    case 4
    have "crc_ref 0 ((drop 64 f)[k - 64 := b]) \<noteq> crc_ref 0 (drop 64 f)"
      using 4 assms(3,4) by (intro crc_ref_byte) auto
    moreover have "drop 64 ?f = (drop 64 f)[k - 64 := b]" using 4 by (simp add: drop_update_swap)
    moreover have "slice 24 4 ?f = slice 24 4 f" using 4 by (simp add: slice_update_other)
    ultimately show ?thesis using ok ok' by auto
  qed
qed

section \<open>Built images\<close>

lemma length_name_bytes [simp]: "length (name_bytes n) = 32"
  by (simp add: name_bytes_def IH_NMLEN_def)

lemma length_build_header [simp]:
  "length (ih_name (build_header t a e os arch type c n f)) = 32"
  "length (header_bytes (build_header t a e os arch type c n f)) = 64"
  by (simp_all add: build_header_def Let_def length_header_bytes)

lemma ucast_crc: "n = length bs \<Longrightarrow> (ucast (crc32 0 bs n) :: u32) = crc_ref 0 bs"
proof -
  assume "n = length bs"
  moreover have "(ucast (ucast w :: 64 word) :: u32) = w" for w :: u32
    by (rule bit_word_eqI) (auto simp: bit_simps)
  ultimately show ?thesis by (simp add: crc32_take)
qed

lemma build_header_crcs:
  assumes "64 \<le> length f" "length f < 2 ^ 32" and h_def: "h = build_header t a e os arch type c n f"
  shows "ih_hcrc h = crc_ref 0 (header_bytes (h\<lparr>ih_hcrc := 0\<rparr>))"
    "ih_dcrc h = crc_ref 0 (drop 64 f)" "ih_magic h = IH_MAGIC"
    "ih_size h = of_nat (length f - 64)" "ih_type h = of_int type"
proof -
  have u: "unat (of_nat (length f - 64) :: u32) = length (drop 64 f)"
    using assms unat_small [of "length f - 64"] by simp
  show "ih_hcrc h = crc_ref 0 (header_bytes (h\<lparr>ih_hcrc := 0\<rparr>))"
    unfolding h_def build_header_def Let_def
    by (simp add: ucast_crc length_header_bytes)
  show "ih_dcrc h = crc_ref 0 (drop 64 f)"
    unfolding h_def build_header_def Let_def using ucast_crc [OF u] by simp
qed (simp_all add: h_def build_header_def Let_def)

lemma image_ok_header:
  assumes "length (ih_name h) = 32" "length data + 64 < 2 ^ 32"
  shows "image_ok (header_bytes h @ data) \<longleftrightarrow>
    fst (check_header h) = 0 \<and> ih_dcrc h = crc_ref 0 data"
proof -
  let ?f = "header_bytes h @ data"
  have l: "length (header_bytes h) = 64" by (rule length_header_bytes [OF assms(1)])
  have r: "read_header (take 64 ?f) = h" using l read_header_bytes [OF assms(1)] by simp
  have c: "crc32 0 (header_bytes (h\<lparr>ih_hcrc := 0\<rparr>)) 64 = ucast (crc_ref 0 (header_bytes (h\<lparr>ih_hcrc := 0\<rparr>)))"
    by (rule crc32_take) (simp add: length_header_bytes assms(1))
  have "\<not> (of_nat (length ?f) :: u32) < of_nat 64"
    using assms(2) l by (subst small_less) simp_all
  moreover have "unat (of_nat (length ?f - 64) :: u32) = length (drop 64 ?f)"
    using assms(2) l unat_small [of "length data"] by simp
  ultimately show ?thesis
    unfolding image_ok_def Let_def r c using l
    by (auto simp: check_header_ok [OF assms(1)] crc32_take ucast_32_64_inj)
qed

lemma build_header_ok:
  assumes "64 \<le> length f" "length f < 2 ^ 32"
  shows "image_ok (header_bytes (build_header t a e os arch type c n f) @ drop 64 f)"
  using assms build_header_crcs [OF assms refl, of t a e os arch type c n]
  by (subst image_ok_header) (simp_all add: check_header_ok)

definition payload :: "mkopts \<Rightarrow> bytes \<Rightarrow> bytes" where
  "payload opt c = (if 0 < xflag opt then drop 64 c else c)"

lemma append_file_fs: "fs s f = Some c \<Longrightarrow> append_file f bs s = s\<lparr>fs := (fs s)(f \<mapsto> c @ bs)\<rparr>"
  by (simp add: append_file_def)

lemma copy_file_ok:
  assumes "fs s df = Some c" "c \<noteq> []" "length c < 2 ^ 31" "fs s imagefile = Some w"
    and "x \<Longrightarrow> 64 \<le> length c \<and> take 64 c = replicate 64 0xff"
  defines "d \<equiv> if x then drop 64 c else c"
  shows "copy_file x imagefile df pad s =
    (0, s\<lparr>fs := (fs s)(imagefile \<mapsto> w @ d @ (if pad \<and> length d mod 4 \<noteq> 0 then replicate (4 - length d mod 4) 0 else []))\<rparr>)"
proof -
  let ?o = "if x then 64 else 0 :: nat"
  have d: "d = drop ?o c" "length d = length c - ?o" by (simp_all add: d_def)
  have n: "sint (of_nat (length c - ?o) :: s32) = int (length d)"
    unfolding d(2) using assms(3) by (intro sint_of_nat_small) simp
  have xip: "x \<Longrightarrow> \<not> (of_nat (length c) :: u32) < of_nat 64"
    using assms(3,5) by (subst small_less) auto
  have t: "take (nat (int (length d))) (drop ?o c) = d" by (simp add: d(1))
  have "copy_file x imagefile df pad s =
    (let s = append_file imagefile d s; tail = length d mod 4
     in if pad \<and> tail \<noteq> 0 then (0, append_file imagefile (replicate (4 - tail) 0) s) else (0, s))"
    unfolding copy_file_def assms(1) option.case Let_def n t using assms(2,5) xip by auto
  then show ?thesis using assms(4) by (simp add: append_file_def Let_def)
qed

lemma take_map_file: "n \<le> length f \<Longrightarrow> take n (map_file f) = take n f"
  by (simp add: map_file_def)

lemma print_header_plain:
  assumes "length (ih_name h) = 32" "uint (ih_type h) \<noteq> 4" "uint (ih_type h) \<noteq> 6"
  shows "print_header lw (map_file (header_bytes h @ c)) = kret 0"
  using assms length_header_bytes [OF assms(1)] read_header_bytes [OF assms(1)]
  by (simp add: print_header_def Let_def take_map_file)

lemma list_image_plain:
  assumes "fs s f = Some c" "image_ok c" "print_header lw (map_file c) = kret 0"
  shows "list_image lw g1 g2 (default_opts\<lparr>lflag := True\<rparr>) f s = kret (0, s)"
  using assms
  by (simp add: list_image_def Let_def exit_on_def list_query_def list_extract_def list_compare_def
      list_count_def list_number_def default_opts_def)

lemma uint_type: "0 \<le> t \<Longrightarrow> t < 256 \<Longrightarrow> uint (of_int t :: u8) = t"
  by (simp add: uint_word_of_int)

text \<open>
  Property C2: building a single-file image (also for execution in place) from a readable, non-empty
  data file below 2 GiB succeeds; the image is a header followed by exactly the data, the header
  records the data's size, time stamp, addresses and codes, and listing the image with \<open>-l\<close> accepts
  it and exits with 0.
\<close>

theorem create_then_list_ok:
  assumes "fs s (datafile opt) = Some c" and "c \<noteq> []" and "length c + 64 < 2 ^ 31"
    and "datafile opt \<noteq> imagefile" and "0 \<le> opt_type opt" and "opt_type opt < 256"
    and "opt_type opt \<noteq> IH_TYPE_MULTI" and "opt_type opt \<noteq> IH_TYPE_SCRIPT"
    and "0 < xflag opt \<Longrightarrow> 64 \<le> length c \<and> take 64 c = replicate 64 0xff"
  shows "\<exists>h s'. create_image lw mtime opt imagefile s = kret (0, s') \<and>
           s' = s\<lparr>fs := (fs s)(imagefile \<mapsto> header_bytes h @ payload opt c)\<rparr> \<and>
           ih_size h = of_nat (length (payload opt c)) \<and> ih_time h = mtime \<and> ih_load h = addr opt \<and>
           ih_ep h = ep opt \<and> ih_type h = of_int (opt_type opt) \<and> ih_name h = name_bytes (name opt) \<and>
           image_ok (header_bytes h @ payload opt c) \<and>
           list_image lw g1 g2 (default_opts\<lparr>lflag := True\<rparr>) imagefile s' = kret (0, s')"
proof -
  define d where "d = payload opt c"
  define s0 where "s0 = s\<lparr>fs := (fs s)(imagefile \<mapsto> replicate 64 0)\<rparr>"
  define f where "f = replicate 64 0 @ d"
  define h where "h = build_header mtime (addr opt) (ep opt) (opt_os opt) (opt_arch opt) (opt_type opt)
                        (opt_comp opt) (name opt) f"
  define s' where "s' = s\<lparr>fs := (fs s)(imagefile \<mapsto> header_bytes h @ d)\<rparr>"
  have dl: "length d \<le> length c" by (simp add: d_def payload_def)
  have fl: "64 \<le> length f" "length f < 2 ^ 32" "drop 64 f = d" using dl assms(3) by (simp_all add: f_def)
  have "copy_file (0 < xflag opt) imagefile (datafile opt) False s0 =
    (0, s0\<lparr>fs := (fs s0)(imagefile \<mapsto> f)\<rparr>)"
    using copy_file_ok [of s0 "datafile opt" c imagefile "replicate 64 0" "0 < xflag opt" False] assms
    by (simp add: s0_def f_def d_def payload_def)
  then have w: "write_data lw (opt_type opt) (0 < xflag opt) imagefile (datafile opt) s0 =
    (0, s\<lparr>fs := (fs s)(imagefile \<mapsto> f)\<rparr>)"
    using assms(7,8) by (simp add: write_data_def s0_def)
  have hl: "length (ih_name h) = 32" by (simp add: h_def)
  have ht: "ih_type h = of_int (opt_type opt)" "ih_size h = of_nat (length f - 64)"
    using build_header_crcs [OF fl(1,2) h_def] by auto
  have ph: "print_header lw (map_file (header_bytes h @ d)) = kret 0"
    using assms(5-8) by (intro print_header_plain [OF hl]) (simp_all add: ht uint_type)
  have run: "create_image lw mtime opt imagefile s = kret (0, s')"
    using w ph unfolding create_image_def s0_def [symmetric]
    by (simp add: Let_def fl(3) h_def [symmetric] s'_def)
  have ok: "image_ok (header_bytes h @ d)"
    using build_header_ok [OF fl(1,2)] unfolding h_def fl(3) by blast
  have "list_image lw g1 g2 (default_opts\<lparr>lflag := True\<rparr>) imagefile s' = kret (0, s')"
    by (rule list_image_plain [OF _ ok ph]) (simp add: s'_def)
  with run ok ht show ?thesis
    by (intro exI [of _ h] exI [of _ s']) (simp add: s'_def d_def [symmetric] f_def h_def build_header_def Let_def)
qed

section \<open>Witnesses\<close>

text \<open>A small built image of a given type.\<close>

definition ex_built :: "int \<Rightarrow> image_header" where
  "ex_built t = build_header 0 0 0 5 2 t 0 ''x'' (replicate 64 0 @ [1, 2])"

definition ex_image :: "int \<Rightarrow> bytes" where
  "ex_image t = header_bytes (ex_built t) @ [1, 2]"

lemma ex_image_ok: "image_ok (ex_image t)"
  using build_header_ok [of "replicate 64 0 @ [1, 2]" 0 0 0 5 2 t 0 "''x''"]
  by (simp add: ex_image_def ex_built_def)

lemma length_ex_image [simp]: "length (ex_image t) = 66"
  by (simp add: ex_image_def ex_built_def)

theorem image_byte_change_rejected_witness: "\<not> image_ok ((ex_image 2)[65 := 9])"
proof -
  have "ex_image 2 ! 65 = 2" by (simp add: ex_image_def ex_built_def nth_append)
  then show ?thesis
    using image_byte_change_rejected [OF ex_image_ok, of 2 65 9] by simp
qed

theorem create_then_list_ok_witness:
  "\<exists>s'. create_image 4 0 (default_opts\<lparr>dflag := True, datafile := ''a''\<rparr>) ''img'' ex_fs = kret (0, s') \<and>
        list_image 4 ex_buff ex_buff (default_opts\<lparr>lflag := True\<rparr>) ''img'' s' = kret (0, s')"
  using create_then_list_ok
    [of ex_fs "default_opts\<lparr>dflag := True, datafile := ''a''\<rparr>" "[1, 2, 3, 4, 5]" "''img''" 4 0 ex_buff ex_buff]
  by (auto simp: default_opts_def ex_fs_def)

section \<open>The option \<open>-h\<close>\<close>

text \<open>
  Fact: \<open>mkimage -h n file\<close> checks \<open>n\<close> headers only when \<open>n\<close> is a single character. With a
  second digit the parser reads that digit as an option and the tool exits with the usage text.
\<close>

theorem header_count_one_digit:
  assumes "is_digit d" and "is_digit e" and "f \<noteq> []" and "hd f \<noteq> CHR ''-''"
  shows "mkimage_main lw g1 g2 mtime [''-h'', [d], f] s =
           kret (print_headers (default_opts\<lparr>headeronly_flag := True, max_header_counts := atoi [d]\<rparr>) f s, s) \<and>
         mkimage_main lw g1 g2 mtime [''-h'', d # e # ds, f] s = kret (-1, s)"
proof -
  have "\<not> takes_arg e" "e \<noteq> CHR ''h''" "set_flag e opt = None" for opt
    using assms(2) by (auto simp: takes_arg_def set_flag_def is_digit_def)
  then show ?thesis
    using assms(3,4) by (simp add: mkimage_main_def)
qed

theorem header_count_one_digit_witness:
  "mkimage_main 4 [] [] 0 [''-h'', ''12'', ''f''] ex_fs = kret (-1, ex_fs)"
  using header_count_one_digit [of "CHR ''1''" "CHR ''2''" "''f''" 4 "[]" "[]" 0 ex_fs "[]"]
  by (simp add: is_digit_def)

end
