(* ===== verification/Mkimage_Multi.thy ===== *)
theory Mkimage_Multi
  imports Mkimage_Proofs
begin

text \<open>
  Multi-file images: the layout the tool writes (a length table of \<open>unsigned long\<close> entries ended by a
  zero entry, then the parts, all but the last padded to a multiple of four bytes), and what the
  functions that read it find there.
\<close>

section \<open>The layout\<close>

definition size_entry :: "nat \<Rightarrow> bytes \<Rightarrow> bytes" where
  "size_entry lw p = be32 (of_nat (length p)) @ replicate (lw - 4) 0"

definition pad4 :: "bytes \<Rightarrow> bytes" where
  "pad4 p = p @ replicate ((4 - length p mod 4) mod 4) 0"

fun join_parts :: "bytes list \<Rightarrow> bytes" where
  "join_parts [] = []"
| "join_parts [p] = p"
| "join_parts (p # ps) = pad4 p @ join_parts ps"

definition multi_data :: "nat \<Rightarrow> bytes list \<Rightarrow> bytes" where
  "multi_data lw ps = concat (map (size_entry lw) ps) @ replicate lw 0 @ join_parts ps"

definition parts_off :: "bytes list \<Rightarrow> nat" where
  "parts_off ps = sum_list (map (length \<circ> pad4) ps)"

lemma length_pad4: "length (pad4 p) = 4 * ((length p + 3) div 4)"
proof -
  define q r where "q = length p div 4" and "r = length p mod 4"
  have p: "length p mod 4 = r" "length p = 4 * q + r" "r < 4" by (simp_all add: q_def r_def)
  from p(3) consider "r = 0" | "r = 1" | "r = 2" | "r = 3" by linarith
  then show ?thesis
    unfolding pad4_def length_append length_replicate p(1) unfolding p(2) by cases simp_all
qed

lemma length_size_entry [simp]: "4 \<le> lw \<Longrightarrow> length (size_entry lw p) = lw"
  by (simp add: size_entry_def)

lemma length_size_entries:
  "4 \<le> lw \<Longrightarrow> length (concat (map (size_entry lw) ps)) = length ps * lw"
  by (induction ps) simp_all

lemma slice_entries:
  "4 \<le> lw \<Longrightarrow> i < length ps \<Longrightarrow>
   slice (i * lw) lw (concat (map (size_entry lw) ps) @ zs) = size_entry lw (ps ! i)"
proof (induction ps arbitrary: i)
  case (Cons p ps)
  then show ?case by (cases i) (simp_all add: slice_def)
qed simp

lemma join_parts_split: "\<exists>tl. join_parts (qs @ p # rs) = concat (map pad4 qs) @ p @ tl"
proof (induction qs)
  case Nil
  then show ?case by (cases rs) (auto simp: pad4_def)
next
  case (Cons q qs)
  then show ?case by (cases qs) auto
qed

lemma length_concat_pad4: "length (concat (map pad4 qs)) = parts_off qs"
  by (simp add: parts_off_def length_concat comp_def)

lemma parts_off_snoc: "parts_off (qs @ [p]) = parts_off qs + length (pad4 p)"
  by (simp add: parts_off_def)

section \<open>Reading the layout\<close>

text \<open>\<open>holds lw mem ps\<close>: after a 64-byte header the memory holds the multi-file data of \<open>ps\<close>.\<close>

definition holds :: "nat \<Rightarrow> bytes \<Rightarrow> bytes list \<Rightarrow> bool" where
  "holds lw mem ps \<longleftrightarrow>
     4 \<le> lw \<and> (\<exists>h zs. length h = 64 \<and> mem = h @ multi_data lw ps @ zs) \<and>
     (\<forall>p \<in> set ps. 64 \<le> length p \<and> length p + 3 < 2 ^ 32)"

lemma holds_entry:
  assumes "holds lw mem ps" "i < length ps"
  shows "len_bytes lw mem i = size_entry lw (ps ! i)" "\<not> length mem < 64 + i * lw + lw"
proof -
  from assms(1) obtain h zs where m: "4 \<le> lw" "length h = 64" "mem = h @ multi_data lw ps @ zs"
    by (auto simp: holds_def)
  show "len_bytes lw mem i = size_entry lw (ps ! i)"
    using m slice_entries [OF m(1) assms(2)]
    by (simp add: len_bytes_def multi_data_def slice_append_right)
  have "i * lw + lw \<le> length ps * lw"
    using assms(2) by (metis Suc_leI add.commute mult_Suc mult_le_mono1)
  then show "\<not> length mem < 64 + i * lw + lw"
    using m by (simp add: multi_data_def length_size_entries)
qed

lemma holds_end:
  assumes "holds lw mem ps"
  shows "len_bytes lw mem (length ps) = replicate lw 0" "\<not> length mem < 64 + length ps * lw + lw"
proof -
  from assms(1) obtain h zs where m: "4 \<le> lw" "length h = 64" "mem = h @ multi_data lw ps @ zs"
    by (auto simp: holds_def)
  show "len_bytes lw mem (length ps) = replicate lw 0"
    using m by (simp add: len_bytes_def multi_data_def slice_append_right length_size_entries slice_def)
  show "\<not> length mem < 64 + length ps * lw + lw"
    using m by (simp add: multi_data_def length_size_entries)
qed

lemma len_end_zero: "len_end (replicate n 0)"
  by (simp add: len_end_def list_all_iff)

lemma len_end_entry:
  assumes "0 < length p" "length p < 2 ^ 32"
  shows "\<not> len_end (size_entry lw p)"
proof
  assume "len_end (size_entry lw p)"
  then have "be32 (of_nat (length p)) = replicate 4 (0 :: u8)"
    by (auto simp: size_entry_def len_end_def list_all_iff intro!: replicate_eqI)
  then have "(of_nat (length p) :: u32) = rd_be32 (replicate 4 0)" by (metis rd_be32_be32)
  also have "\<dots> = 0" by (simp add: rd_be32_def numeral_eq_Suc)
  finally show False using assms unat_small [of "length p"] by auto
qed

lemma len_value_entry: "len_value (size_entry lw p) = of_nat (length p)"
  by (simp add: len_value_def size_entry_def)

lemma unat_and_not_3: "unat (w AND NOT 3 :: u32) = 4 * (unat w div 4)"
proof -
  have "(w AND NOT 3) = push_bit 2 (drop_bit 2 w)"
  proof (rule bit_word_eqI)
    fix n assume "n < LENGTH(32)"
    have "bit (3 :: u32) n \<longleftrightarrow> n < 2"
      using bit_mask_iff [of 2 n, where 'a = u32] \<open>n < LENGTH(32)\<close> by (simp add: mask_eq_exp_minus_1)
    then show "bit (w AND NOT 3) n = bit (push_bit 2 (drop_bit 2 w)) n"
      using \<open>n < LENGTH(32)\<close> le_add_diff_inverse [of 2 n] by (cases "n < 2") (auto simp: bit_simps)
  qed
  then have "unat (w AND NOT 3) = take_bit 32 (push_bit 2 (drop_bit 2 (unat w)))"
    using unsigned_less [of w, where 'a = nat]
    by (simp add: unsigned_push_bit_eq unsigned_drop_bit_eq take_bit_nat_eq_self)
  also have "\<dots> = 4 * (unat w div 4)"
    using unsigned_less [of w, where 'a = nat] by (simp add: push_bit_eq_mult drop_bit_eq_div take_bit_nat_eq_self)
  finally show ?thesis .
qed

lemma round_up4_length:
  assumes "length p + 3 < 2 ^ 32"
  shows "unat (round_up4 (of_nat (length p))) = length (pad4 p)"
    "round_up4 (of_nat (length p)) = of_nat (length (pad4 p))"
proof -
  have "unat (of_nat (length p) + 3 :: u32) = length p + 3"
    using assms unat_small [of "length p + 3"] by (simp add: add.commute)
  then show u: "unat (round_up4 (of_nat (length p))) = length (pad4 p)"
    by (simp only: round_up4_def unat_and_not_3 length_pad4)
  then show "round_up4 (of_nat (length p)) = of_nat (length (pad4 p))"
    by (simp add: u [symmetric])
qed

lemma holds_part:
  assumes "holds lw mem (qs @ p # rs)" "a + k \<le> length p"
  shows "slice (64 + (length (qs @ p # rs) + 1) * lw + parts_off qs + a) k mem = slice a k p"
    "64 + (length (qs @ p # rs) + 1) * lw + parts_off qs + length p \<le> length mem"
proof -
  from assms(1) obtain h zs where m: "4 \<le> lw" "length h = 64" "mem = h @ multi_data lw (qs @ p # rs) @ zs"
    by (auto simp: holds_def)
  obtain tl where j: "join_parts (qs @ p # rs) = concat (map pad4 qs) @ p @ tl"
    using join_parts_split by blast
  let ?pre = "h @ concat (map (size_entry lw) (qs @ p # rs)) @ replicate lw 0 @ concat (map pad4 qs)"
  have mem: "mem = ?pre @ p @ (tl @ zs)" by (simp add: m(3) multi_data_def j)
  have pre: "length ?pre = 64 + (length (qs @ p # rs) + 1) * lw + parts_off qs"
    using m(1,2) length_size_entries [OF m(1), of "qs @ p # rs"] length_concat_pad4 [of qs] by simp
  show "slice (64 + (length (qs @ p # rs) + 1) * lw + parts_off qs + a) k mem = slice a k p"
    unfolding pre [symmetric] mem using assms(2) by (simp add: slice_append_right slice_append_left)
  show "64 + (length (qs @ p # rs) + 1) * lw + parts_off qs + length p \<le> length mem"
    unfolding pre [symmetric] mem by simp
qed

section \<open>The loops on the layout\<close>

lemma holds_bounds:
  assumes "holds lw mem ps" "p \<in> set ps"
  shows "64 \<le> length p" "length p + 3 < 2 ^ 32"
  using assms by (auto simp: holds_def)

text \<open>One round of a loop over the length table.\<close>

lemma holds_round:
  assumes "holds lw mem (qs @ p # rs)"
  defines "D \<equiv> 64 + (length (qs @ p # rs) + 1) * lw + parts_off qs"
  shows "\<not> length mem < 64 + length qs * lw + lw" "\<not> len_end (len_bytes lw mem (length qs))"
    "len_value (len_bytes lw mem (length qs)) = of_nat (length p)"
    "\<not> length mem < D + 64" "slice D 64 mem = take 64 p"
    "D + length p \<le> length mem" "slice (D + 64) (length p - 64) mem = drop 64 p"
    "D + length (pad4 p) = 64 + (length (qs @ p # rs) + 1) * lw + parts_off (qs @ [p])"
proof -
  note b = holds_bounds [OF assms(1), of p]
  have i: "length qs < length (qs @ p # rs)" by simp
  have e: "len_bytes lw mem (length qs) = size_entry lw p" "\<not> length mem < 64 + length qs * lw + lw"
    using holds_entry [OF assms(1) i] by simp_all
  from e(2) show "\<not> length mem < 64 + length qs * lw + lw" .
  show "\<not> len_end (len_bytes lw mem (length qs))"
    unfolding e(1) using b by (intro len_end_entry) auto
  show "len_value (len_bytes lw mem (length qs)) = of_nat (length p)"
    unfolding e(1) by (rule len_value_entry)
  show lm: "D + length p \<le> length mem"
    unfolding D_def by (rule holds_part(2) [OF assms(1), of 0 0]) simp
  with b(1) show "\<not> length mem < D + 64" by simp
  show "slice D 64 mem = take 64 p"
    using holds_part(1) [OF assms(1), of 0 64] b(1) by (simp add: D_def slice_def [of 0])
  show "slice (D + 64) (length p - 64) mem = drop 64 p"
    using holds_part(1) [OF assms(1), of 64 "length p - 64"] b(1) by (simp add: D_def slice_def [of 64 _ p])
  show "D + length (pad4 p) = 64 + (length (qs @ p # rs) + 1) * lw + parts_off (qs @ [p])"
    by (simp add: D_def parts_off_snoc)
qed

lemma count_ptrs_holds:
  assumes "holds lw mem ps"
  shows "i \<le> length ps \<Longrightarrow> count_ptrs lw mem i = kret (length ps)"
proof (induction "length ps - i" arbitrary: i)
  case 0
  then show ?case
    using holds_end [OF assms] by (simp add: count_ptrs.simps [of lw mem i] len_end_zero)
next
  case (Suc n)
  then have i: "i < length ps" by simp
  then obtain qs p rs where ps: "ps = qs @ p # rs" "length qs = i"
    by (metis id_take_nth_drop length_take min.absorb4)
  with holds_round [of lw mem qs p rs] assms Suc show ?case
    by (simp add: count_ptrs.simps [of lw mem i])
qed

text \<open>What a part is, to the functions that look for it.\<close>

definition part_valid :: "bytes \<Rightarrow> bool" where
  "part_valid p \<longleftrightarrow> fst (check_header (read_header (take 64 p))) = 0"

definition part_type :: "bytes \<Rightarrow> u8" where
  "part_type p = ih_type (read_header (take 64 p))"

definition part_ok :: "bytes \<Rightarrow> bool" where
  "part_ok p \<longleftrightarrow> part_valid p \<and> crc_ref 0 (drop 64 p) = ih_dcrc (read_header (take 64 p))"

lemma check_header_fields [simp]:
  "ih_type (snd (check_header h)) = ih_type h" "ih_dcrc (snd (check_header h)) = ih_dcrc h"
  by (simp_all add: check_header_def Let_def)

fun find_part :: "u8 \<Rightarrow> nat \<Rightarrow> bytes list \<Rightarrow> int \<Rightarrow> (nat \<times> nat) option \<times> int" where
  "find_part t off [] cnt = (None, cnt)"
| "find_part t off (p # ps) cnt =
     (if part_valid p \<and> part_type p = t then (Some (off, length p), cnt)
      else find_part t (off + length (pad4 p)) ps (if part_valid p then cnt + 1 else cnt))"

lemma extract_loop_holds:
  "holds lw mem (qs @ rs) \<Longrightarrow>
   extract_loop lw mem t (length qs) (of_nat (64 + length (qs @ rs) * lw + parts_off qs))
     (64 + (length (qs @ rs) + 1) * lw + parts_off qs) cnt =
   kret (case find_part t (parts_off qs) rs cnt of (hit, c) \<Rightarrow>
     (map_option (\<lambda>(off, n). (of_nat (64 + length (qs @ rs) * lw + off), of_nat n)) hit, c))"
proof (induction rs arbitrary: qs cnt)
  case Nil
  then show ?case
    using holds_end [OF Nil] by (simp add: extract_loop.simps [of lw mem t] len_end_zero)
next
  case (Cons p rs)
  note r = holds_round [OF Cons.prems]
  note b = holds_bounds [OF Cons.prems, of p]
  have ru: "unat (round_up4 (of_nat (length p))) = length (pad4 p)"
    "round_up4 (of_nat (length p)) = (of_nat (length (pad4 p)) :: u32)"
    using round_up4_length b(2) by simp_all
  let ?D = "64 + (length (qs @ p # rs) + 1) * lw + parts_off qs"
  have step: "extract_loop lw mem t (length qs) pos ?D cnt =
    (if part_valid p \<and> part_type p = t then kret (Some (pos, of_nat (length p)), cnt)
     else extract_loop lw mem t (length qs + 1) (pos + of_nat (length (pad4 p)))
            (?D + length (pad4 p)) (if part_valid p then cnt + 1 else cnt))" for pos
    unfolding extract_loop.simps [of lw mem t "length qs"] Let_def r(3,5)
    using r(1,2,4) ru by (simp add: part_valid_def part_type_def split: prod.split)
       (metis check_header_fields(1) fst_conv snd_conv)
  show ?case
  proof (cases "part_valid p \<and> part_type p = t")
    case True
    then show ?thesis unfolding step by simp
  next
    case False
    have "holds lw mem ((qs @ [p]) @ rs)" using Cons.prems by simp
    from Cons.IH [OF this, of "if part_valid p then cnt + 1 else cnt"]
    show ?thesis
      unfolding step r(8) find_part.simps if_not_P [OF False]
      by (simp add: parts_off_snoc add.assoc split: prod.splits)
  qed
qed

lemma print_loop_holds:
  "holds lw mem (qs @ rs) \<Longrightarrow>
   print_loop lw mem (length qs) (64 + (length (qs @ rs) + 1) * lw + parts_off qs) res =
   kret (if list_all part_ok rs then res else -1)"
proof (induction rs arbitrary: qs res)
  case Nil
  then show ?case
    using holds_end [OF Nil] by (simp add: print_loop.simps [of lw mem] len_end_zero)
next
  case (Cons p rs)
  note r = holds_round [OF Cons.prems]
  note b = holds_bounds [OF Cons.prems, of p]
  have ru: "unat (round_up4 (of_nat (length p))) = length (pad4 p)"
    using round_up4_length b(2) by simp
  have il: "unat (of_nat (length p) - of_nat 64 :: u32) = length p - 64"
    using b unat_small [of "length p - 64"] by simp
  have crc: "crc32 0 (drop 64 p) (length p - 64) = ucast (crc_ref 0 (drop 64 p))"
    by (rule crc32_take) simp
  let ?D = "64 + (length (qs @ p # rs) + 1) * lw + parts_off qs"
  have lm: "\<not> length mem < ?D + 64 + (length p - 64)" using r(6) b(1) by simp
  have step: "print_loop lw mem (length qs) ?D res =
    print_loop lw mem (length qs + 1) (?D + length (pad4 p)) (if part_ok p then res else -1)"
    unfolding print_loop.simps [of lw mem "length qs"] Let_def r(3,5) il r(7) crc
    using r(1,2,4) ru lm
    by (cases "check_header (read_header (take 64 p))")
       (auto simp: part_ok_def part_valid_def ucast_32_64_inj dest: arg_cong [of _ _ "ih_dcrc \<circ> snd"])
  have "holds lw mem ((qs @ [p]) @ rs)" using Cons.prems by simp
  from Cons.IH [OF this, of "if part_ok p then res else -1"] show ?case
    unfolding step r(8) by auto
qed

lemma number_loop_holds:
  "holds lw mem (qs @ rs) \<Longrightarrow> list_all part_valid rs \<Longrightarrow>
   number_loop lw mem n (length qs) (of_nat (64 + length (qs @ rs) * lw + parts_off qs))
     (64 + (length (qs @ rs) + 1) * lw + parts_off qs) =
   kret (if int (length qs) \<le> n \<and> n < int (length (qs @ rs))
         then Some (of_nat (64 + length (qs @ rs) * lw + parts_off (take (nat n) (qs @ rs))),
                    of_nat (length ((qs @ rs) ! nat n))) else None)"
proof (induction rs arbitrary: qs)
  case Nil
  then show ?case
    using holds_end [OF Nil(1)] by (simp add: number_loop.simps [of lw mem n] len_end_zero)
next
  case (Cons p rs)
  note r = holds_round [OF Cons.prems(1)]
  note b = holds_bounds [OF Cons.prems(1), of p]
  have ru: "unat (round_up4 (of_nat (length p))) = length (pad4 p)"
    "round_up4 (of_nat (length p)) = (of_nat (length (pad4 p)) :: u32)"
    using round_up4_length b(2) by simp_all
  let ?D = "64 + (length (qs @ p # rs) + 1) * lw + parts_off qs"
  have step: "number_loop lw mem n (length qs) pos ?D =
    (if int (length qs) = n then kret (Some (pos, of_nat (length p)))
     else number_loop lw mem n (length qs + 1) (pos + of_nat (length (pad4 p))) (?D + length (pad4 p)))" for pos
    unfolding number_loop.simps [of lw mem n "length qs"] Let_def r(3,5)
    using r(1,2,4) ru Cons.prems(2) by (simp add: part_valid_def)
  show ?case
  proof (cases "int (length qs) = n")
    case True
    then show ?thesis unfolding step by auto
  next
    case False
    have "holds lw mem ((qs @ [p]) @ rs)" using Cons.prems by simp
    from Cons.IH [OF this] Cons.prems(2) False
    show ?thesis
      unfolding step r(8) by (auto simp: parts_off_snoc add.assoc)
  qed
qed

section \<open>Writing the layout\<close>

definition parts_of :: "mkstate \<Rightarrow> string \<Rightarrow> string list \<Rightarrow> bytes list \<Rightarrow> bool" where
  "parts_of s imagefile files ps \<longleftrightarrow>
     list_all2 (\<lambda>f p. fs s f = Some p \<and> f \<noteq> imagefile \<and> p \<noteq> [] \<and> length p < 2 ^ 31) files ps"

lemma parts_of_upd: "parts_of (s\<lparr>fs := (fs s)(imagefile \<mapsto> w)\<rparr>) imagefile files ps = parts_of s imagefile files ps"
  unfolding parts_of_def by (rule list.rel_cong_simp) (auto simp: simp_implies_def)

lemma write_sizes_ok:
  "parts_of s imagefile files ps \<Longrightarrow> fs s imagefile = Some w \<Longrightarrow>
   write_sizes lw imagefile files s =
     (0, s\<lparr>fs := (fs s)(imagefile \<mapsto> w @ concat (map (size_entry lw) ps) @ replicate lw 0)\<rparr>)"
proof (induction files arbitrary: ps s w)
  case Nil
  then show ?case by (simp add: parts_of_def append_file_def fun_upd_def)
next
  case (Cons f files)
  then obtain p ps' where ps: "ps = p # ps'" "fs s f = Some p" "f \<noteq> imagefile" "parts_of s imagefile files ps'"
    by (auto simp: parts_of_def list_all2_Cons1)
  let ?s = "s\<lparr>fs := (fs s)(imagefile \<mapsto> w @ size_entry lw p)\<rparr>"
  have "parts_of ?s imagefile files ps'" using ps(4) by (simp add: parts_of_upd)
  from Cons.IH [OF this, of "w @ size_entry lw p"] show ?case
    using ps Cons.prems(2) by (simp add: append_file_def size_entry_def cong: if_cong)
qed

lemma copy_files_ok:
  "parts_of s imagefile files ps \<Longrightarrow> fs s imagefile = Some w \<Longrightarrow>
   copy_files False imagefile files s = (0, s\<lparr>fs := (fs s)(imagefile \<mapsto> w @ join_parts ps)\<rparr>)"
proof (induction files arbitrary: ps s w)
  case Nil
  then show ?case by (cases s) (auto simp: parts_of_def)
next
  case (Cons f files)
  then obtain p ps' where ps: "ps = p # ps'" "fs s f = Some p" "p \<noteq> []" "length p < 2 ^ 31"
    "parts_of s imagefile files ps'"
    by (auto simp: parts_of_def list_all2_Cons1)
  have copy: "copy_file False imagefile f pad s =
    (0, s\<lparr>fs := (fs s)(imagefile \<mapsto> w @ (if pad then pad4 p else p))\<rparr>)" for pad
    using copy_file_ok [OF ps(2-4) Cons.prems(2), of False pad] by (auto simp: pad4_def)
  show ?case
  proof (cases files)
    case Nil
    then have "ps' = []" using ps(5) by (simp add: parts_of_def)
    with Nil copy [of False] ps(1) show ?thesis by (simp add: fun_upd_def)
  next
    case (Cons g gs)
    then obtain p' ps'' where p': "ps' = p' # ps''" using ps(5) by (auto simp: parts_of_def list_all2_Cons1)
    let ?s = "s\<lparr>fs := (fs s)(imagefile \<mapsto> w @ pad4 p)\<rparr>"
    have "parts_of ?s imagefile files ps'" using ps(5) by (simp add: parts_of_upd)
    from Cons.IH [OF this, of "w @ pad4 p"] copy [of True] ps(1) Cons p'
    show ?thesis by (simp cong: if_cong)
  qed
qed

lemma holds_image:
  assumes "4 \<le> lw" "length h = 64" "\<forall>p \<in> set ps. 64 \<le> length p \<and> length p + 3 < 2 ^ 32"
  shows "holds lw (map_file (h @ multi_data lw ps)) ps"
  using assms by (auto simp: holds_def map_file_def)

lemma read_header_image:
  assumes "length (ih_name h) = 32"
  shows "read_header (take 64 (map_file (header_bytes h @ xs))) = h"
  using length_header_bytes [OF assms] read_header_bytes [OF assms] by (simp add: take_map_file)

lemma print_header_multi:
  assumes "holds lw (map_file (header_bytes h @ xs)) ps" "length (ih_name h) = 32" "uint (ih_type h) = 4"
  shows "print_header lw (map_file (header_bytes h @ xs)) = kret (if list_all part_ok ps then 0 else -1)"
  using count_ptrs_holds [OF assms(1), of 0] print_loop_holds [of lw _ "[]" ps 0] assms
  by (simp add: print_header_def read_header_image parts_off_def)

lemma find_part_first:
  "part_valid p \<Longrightarrow> \<forall>q \<in> set qs. \<not> (part_valid q \<and> part_type q = part_type p) \<Longrightarrow>
   find_part (part_type p) off (qs @ p # rs) cnt =
     (Some (off + parts_off qs, length p), cnt + int (length (filter part_valid qs)))"
proof (induction qs arbitrary: off cnt)
  case (Cons q qs)
  then show ?case by (auto simp: parts_off_def add.assoc)
qed (simp add: parts_off_def)

lemma length_join_parts: "parts_off qs + length p \<le> length (join_parts (qs @ p # rs))"
  using join_parts_split [of qs p rs] length_concat_pad4 [of qs] by auto

text \<open>Extraction in general: the bytes from four behind \<open>pos\<close> on.\<close>

lemma extract_general:
  fixes h ps
  assumes lw: "4 \<le> lw" and hl: "length (ih_name h) = 32" and ht: "uint (ih_type h) = 4"
    and ps: "ps = qs @ p # rs" and f: "f = header_bytes h @ multi_data lw ps"
    and big: "\<forall>p \<in> set ps. 64 \<le> length p" and small: "length f + 2048 < 2 ^ 32"
    and p: "part_valid p" "\<forall>q \<in> set qs. \<not> (part_valid q \<and> part_type q = part_type p)"
    and s: "fs s inp = Some f" "out \<noteq> inp" "out \<noteq> ''stdout''"
  shows "extract_file_from_multi lw g1 g2 (part_type p) inp out (map_file f) Extract s =
    kret (0, int (length (filter part_valid qs)),
      s\<lparr>fs := (fs s)(out \<mapsto> slice (68 + length ps * lw + parts_off qs) (length p) f)\<rparr>)"
proof -
  have hb: "length (header_bytes h) = 64" by (rule length_header_bytes [OF hl])
  have tot: "length f = 64 + (length ps + 1) * lw + length (join_parts ps)"
    using f hb length_size_entries [OF lw, of ps] by (simp add: multi_data_def)
  have jp: "parts_off qs + length p \<le> length (join_parts ps)"
    unfolding ps by (rule length_join_parts)
  have lens: "\<forall>q \<in> set ps. 64 \<le> length q \<and> length q + 3 < 2 ^ 32"
  proof
    fix q assume q: "q \<in> set ps"
    then obtain as bs where "ps = as @ q # bs" by (auto dest: split_list)
    with length_join_parts [of as q bs] tot small big q
    show "64 \<le> length q \<and> length q + 3 < 2 ^ 32" by auto
  qed
  have hold: "holds lw (map_file f) ps"
    unfolding f by (rule holds_image [OF lw hb lens])
  define off where "off = 64 + length ps * lw + parts_off qs"
  have le: "4 + off + length p \<le> length f" using tot jp lw by (simp add: off_def)
  have pos: "unat (of_nat off + 4 :: u32) = 4 + off"
    using le small unat_small [of "4 + off"] by (simp add: add.commute)
  have len: "unat (of_nat (length p) :: u32) = length p"
    using le small by (intro unat_small) linarith
  have "extract_loop lw (map_file f) (part_type p) 0 (of_nat (64 + length ps * lw)) (64 + (length ps + 1) * lw) 0 =
    kret (Some (of_nat off, of_nat (length p)), int (length (filter part_valid qs)))"
    using extract_loop_holds [of lw "map_file f" "[]" ps "part_type p" 0] hold find_part_first [OF p, of 0 rs 0]
    unfolding ps [symmetric] by (simp add: parts_off_def off_def)
  moreover have "file_copy inp out (of_nat off + 4) (of_nat (length p)) s =
    kret (0, s\<lparr>fs := (fs s)(out \<mapsto> slice (4 + off) (length p) f)\<rparr>)"
    using s small le pos len copy_loop_take [of 0 "of_nat (length p)" "drop (4 + off) f" "[]"]
    by (simp add: file_copy_def Let_def slice_def)
  moreover have "count_ptrs lw (map_file f) 0 = kret (length ps)"
    by (rule count_ptrs_holds [OF hold]) simp
  ultimately show ?thesis
    using ht read_header_image [OF hl, of "multi_data lw ps"]
    unfolding f [symmetric] extract_file_from_multi_def by (simp add: off_def add.assoc)
qed

section \<open>Properties\<close>

lemma parts_of_members: "parts_of s imagefile files ps \<Longrightarrow> p \<in> set ps \<Longrightarrow> length p < 2 ^ 31"
  by (auto simp: parts_of_def list_all2_conv_all_nth in_set_conv_nth)

text \<open>
  Fact: building a multi-file image from existing images succeeds, the image is a header
  followed by the length table and the padded parts in the order given, and listing it with \<open>-l\<close>
  checks every part and exits with 0, whatever the size of the host's \<open>long\<close>.
\<close>

theorem create_multi_ok:
  assumes "opt_type opt = IH_TYPE_MULTI" and "xflag opt = 0" and "4 \<le> lw"
    and "parts_of s imagefile (split_colon (datafile opt)) ps"
    and "\<forall>p \<in> set ps. 64 \<le> length p \<and> part_ok p"
    and "64 + length (multi_data lw ps) < 2 ^ 32"
  shows "\<exists>h s'. create_image lw mtime opt imagefile s = kret (0, s') \<and>
           s' = s\<lparr>fs := (fs s)(imagefile \<mapsto> header_bytes h @ multi_data lw ps)\<rparr> \<and>
           length (ih_name h) = 32 \<and> uint (ih_type h) = IH_TYPE_MULTI \<and>
           image_ok (header_bytes h @ multi_data lw ps) \<and>
           list_image lw g1 g2 (default_opts\<lparr>lflag := True\<rparr>) imagefile s' = kret (0, s')"
proof -
  define d where "d = multi_data lw ps"
  define f where "f = replicate 64 0 @ d"
  define s0 where "s0 = s\<lparr>fs := (fs s)(imagefile \<mapsto> replicate 64 0)\<rparr>"
  define h where "h = build_header mtime (addr opt) (ep opt) (opt_os opt) (opt_arch opt) (opt_type opt)
                        (opt_comp opt) (name opt) f"
  define s' where "s' = s\<lparr>fs := (fs s)(imagefile \<mapsto> header_bytes h @ d)\<rparr>"
  have fl: "64 \<le> length f" "length f < 2 ^ 32" "drop 64 f = d" using assms(6) by (simp_all add: f_def d_def)
  define s1 where "s1 = s\<lparr>fs := (fs s)(imagefile \<mapsto> replicate 64 0 @ concat (map (size_entry lw) ps) @ replicate lw 0)\<rparr>"
  have w1: "write_sizes lw imagefile (split_colon (datafile opt)) s0 = (0, s1)"
    using write_sizes_ok [of s0 imagefile _ ps "replicate 64 0" lw] assms(4)
    by (simp add: s0_def s1_def parts_of_upd cong: if_cong)
  have w2: "copy_files False imagefile (split_colon (datafile opt)) s1 = (0, s\<lparr>fs := (fs s)(imagefile \<mapsto> f)\<rparr>)"
    using copy_files_ok [of s1 imagefile _ ps "replicate 64 0 @ concat (map (size_entry lw) ps) @ replicate lw 0"] assms(4)
    by (simp add: s1_def parts_of_upd f_def d_def multi_data_def cong: if_cong)
  have w: "write_data lw (opt_type opt) (0 < xflag opt) imagefile (datafile opt) s0 =
    (0, s\<lparr>fs := (fs s)(imagefile \<mapsto> f)\<rparr>)"
    using w1 w2 assms(1,2) by (simp add: write_data_def)
  have hl: "length (ih_name h) = 32" "length (header_bytes h) = 64" by (simp_all add: h_def)
  have ht: "uint (ih_type h) = 4" using build_header_crcs(5) [OF fl(1,2) h_def] assms(1) by simp
  have "\<forall>p \<in> set ps. 64 \<le> length p \<and> length p + 3 < 2 ^ 32"
    using assms(5) parts_of_members [OF assms(4)] by force
  then have "holds lw (map_file (header_bytes h @ d)) ps"
    unfolding d_def by (rule holds_image [OF assms(3) hl(2)])
  then have ph: "print_header lw (map_file (header_bytes h @ d)) = kret 0"
    using print_header_multi [OF _ hl(1) ht, of lw d ps] assms(5) by (simp add: list_all_iff)
  have run: "create_image lw mtime opt imagefile s = kret (0, s')"
    using w ph unfolding create_image_def s0_def [symmetric]
    by (simp add: Let_def fl(3) h_def [symmetric] s'_def)
  have ok: "image_ok (header_bytes h @ d)"
    using build_header_ok [OF fl(1,2)] unfolding h_def fl(3) by blast
  have "list_image lw g1 g2 (default_opts\<lparr>lflag := True\<rparr>) imagefile s' = kret (0, s')"
    by (rule list_image_plain [OF _ ok ph]) (simp add: s'_def)
  with run ok ht hl(1) show ?thesis by (auto simp: s'_def d_def)
qed

text \<open>
  Fact: on a host with a 4-byte \<open>long\<close>, extracting by type from a multi-file image writes
  exactly the first valid part of that type to the output file and returns 0.
\<close>

theorem multi_extract_exact:
  assumes "length (ih_name h) = 32" and "uint (ih_type h) = IH_TYPE_MULTI"
    and "f = header_bytes h @ multi_data 4 (qs @ p # rs)"
    and "\<forall>q \<in> set (qs @ p # rs). 64 \<le> length q" and "length f + 2048 < 2 ^ 32"
    and "part_valid p" and "\<forall>q \<in> set qs. \<not> (part_valid q \<and> part_type q = part_type p)"
    and "fs s inp = Some f" and "out \<noteq> inp" and "out \<noteq> ''stdout''"
  shows "extract_file_from_multi 4 g1 g2 (part_type p) inp out (map_file f) Extract s =
    kret (0, int (length (filter part_valid qs)), s\<lparr>fs := (fs s)(out \<mapsto> p)\<rparr>)"
proof -
  have hb: "length (header_bytes h) = 64" by (rule length_header_bytes [OF assms(1)])
  obtain tl where j: "join_parts (qs @ p # rs) = concat (map pad4 qs) @ p @ tl"
    using join_parts_split by blast
  let ?pre = "header_bytes h @ concat (map (size_entry 4) (qs @ p # rs)) @ replicate 4 0 @ concat (map pad4 qs)"
  have "f = ?pre @ p @ tl" using assms(3) j by (simp add: multi_data_def)
  moreover have "length ?pre = 68 + length (qs @ p # rs) * 4 + parts_off qs"
    using hb length_size_entries [of 4 "qs @ p # rs"] length_concat_pad4 [of qs] by simp
  ultimately have "slice (68 + length (qs @ p # rs) * 4 + parts_off qs) (length p) f = p"
    by (metis slice_exact)
  then show ?thesis
    using extract_general [OF _ assms(1,2) refl assms(3-10)] by simp
qed

text \<open>
  Fact: on a host with an 8-byte \<open>long\<close> the position is four bytes too low, because the
  terminating entry of the length table is counted with 4 bytes: extracting the first part writes
  four zero bytes followed by the part without its last four bytes.
\<close>

theorem multi_extract_shifted:
  assumes "length (ih_name h) = 32" and "uint (ih_type h) = IH_TYPE_MULTI"
    and "f = header_bytes h @ multi_data 8 (p # rs)"
    and "\<forall>q \<in> set (p # rs). 64 \<le> length q" and "length f + 2048 < 2 ^ 32"
    and "part_valid p" and "fs s inp = Some f" and "out \<noteq> inp" and "out \<noteq> ''stdout''"
  shows "extract_file_from_multi 8 g1 g2 (part_type p) inp out (map_file f) Extract s =
    kret (0, 0, s\<lparr>fs := (fs s)(out \<mapsto> replicate 4 0 @ take (length p - 4) p)\<rparr>)"
proof -
  have hb: "length (header_bytes h) = 64" by (rule length_header_bytes [OF assms(1)])
  obtain tl where j: "join_parts ([] @ p # rs) = concat (map pad4 []) @ p @ tl"
    using join_parts_split by blast
  let ?pre = "header_bytes h @ concat (map (size_entry 8) (p # rs)) @ replicate 4 0"
  have "replicate 8 (0 :: u8) = replicate 4 0 @ replicate 4 0" by (simp flip: replicate_add)
  then have "f = ?pre @ (replicate 4 0 @ take (length p - 4) p) @ drop (length p - 4) p @ tl"
    using assms(3) j by (simp add: multi_data_def)
  moreover have "length ?pre = 68 + length (p # rs) * 8"
    using hb length_size_entries [of 8 "p # rs"] by simp
  moreover have "length (replicate 4 0 @ take (length p - 4) p) = length p"
    using assms(4) by simp
  ultimately have "slice (68 + length (p # rs) * 8) (length p) f = replicate 4 0 @ take (length p - 4) p"
    by (metis slice_exact)
  then show ?thesis
    using extract_general [where qs = "[]" and lw = 8, OF _ assms(1,2) refl] assms by (simp add: parts_off_def)
qed

section \<open>Witnesses\<close>

lemma ex_image_read: "read_header (take 64 (ex_image t)) = ex_built t"
  by (simp add: ex_image_def ex_built_def read_header_bytes)

lemma ex_image_part: "part_ok (ex_image t)" "part_type (ex_image t) = of_int t"
proof -
  have l: "length (ih_name (ex_built t)) = 32" by (simp add: ex_built_def)
  show "part_ok (ex_image t)"
    using ex_image_ok [of t] image_ok_header [OF l, of "[1, 2]"] ex_image_read [of t] l
    by (simp add: part_ok_def part_valid_def ex_image_def length_header_bytes)
  show "part_type (ex_image t) = of_int t"
    unfolding part_type_def ex_image_read by (simp add: ex_built_def build_header_def Let_def)
qed

lemma ex_image_nonempty: "ex_image t \<noteq> []"
  using length_ex_image [of t] by fastforce

lemma multi_data_one: "4 \<le> lw \<Longrightarrow> length (multi_data lw [ex_image t]) = 66 + 2 * lw"
  by (simp add: multi_data_def)

theorem create_multi_ok_witness:
  "\<exists>s'. create_image 4 0 (default_opts\<lparr>dflag := True, datafile := ''p'', opt_type := IH_TYPE_MULTI\<rparr>) ''img''
          \<lparr>fs = [''p'' \<mapsto> ex_image 2], stdout = []\<rparr> = kret (0, s')"
  using create_multi_ok
    [of "default_opts\<lparr>dflag := True, datafile := ''p'', opt_type := IH_TYPE_MULTI\<rparr>" 4
        "\<lparr>fs = [''p'' \<mapsto> ex_image 2], stdout = []\<rparr>" "''img''" "[ex_image 2]" 0 "[]" "[]"]
    ex_image_part(1) [of 2] length_ex_image [of 2] multi_data_one [of 4 2] ex_image_nonempty [of 2]
  by (auto simp: default_opts_def parts_of_def)

lemma ex_multi_header: "length (ih_name (ex_built 4)) = 32" "uint (ih_type (ex_built 4)) = IH_TYPE_MULTI"
  by (simp_all add: ex_built_def build_header_def Let_def)

definition ex_multi :: "nat \<Rightarrow> bytes" where
  "ex_multi lw = header_bytes (ex_built 4) @ multi_data lw [ex_image 2]"

lemma length_ex_multi: "4 \<le> lw \<Longrightarrow> length (ex_multi lw) = 130 + 2 * lw"
  using multi_data_one [of lw 2] length_header_bytes [OF ex_multi_header(1)] by (simp add: ex_multi_def)

theorem multi_extract_exact_witness:
  "extract_file_from_multi 4 ex_buff ex_buff 2 ''m'' ''o'' (map_file (ex_multi 4)) Extract
     \<lparr>fs = [''m'' \<mapsto> ex_multi 4], stdout = []\<rparr> =
   kret (0, 0, \<lparr>fs = [''m'' \<mapsto> ex_multi 4, ''o'' \<mapsto> ex_image 2], stdout = []\<rparr>)"
  using multi_extract_exact
    [OF ex_multi_header, of "ex_multi 4" "[]" "ex_image 2" "[]" "\<lparr>fs = [''m'' \<mapsto> ex_multi 4], stdout = []\<rparr>" "''m''" "''o''" ex_buff ex_buff]
    ex_image_part [of 2] length_ex_image [of 2] length_ex_multi [of 4]
  by (simp add: part_ok_def ex_multi_def)

theorem multi_extract_shifted_witness:
  "extract_file_from_multi 8 ex_buff ex_buff 2 ''m'' ''o'' (map_file (ex_multi 8)) Extract
     \<lparr>fs = [''m'' \<mapsto> ex_multi 8], stdout = []\<rparr> =
   kret (0, 0, \<lparr>fs = [''m'' \<mapsto> ex_multi 8, ''o'' \<mapsto> replicate 4 0 @ take 62 (ex_image 2)], stdout = []\<rparr>)"
  using multi_extract_shifted
    [OF ex_multi_header, of "ex_multi 8" "ex_image 2" "[]" "\<lparr>fs = [''m'' \<mapsto> ex_multi 8], stdout = []\<rparr>" "''m''" "''o''" ex_buff ex_buff]
    ex_image_part [of 2] length_ex_image [of 2] length_ex_multi [of 8]
  by (simp add: part_ok_def ex_multi_def)

end
