(* ===== verification/Smbus_Interface.thy ===== *)
theory Smbus_Interface
  imports Prelude
begin

text \<open>
  The SMBus transfer types shared by the adapters and their clients, and the contract a memory chip
  with 8-bit addresses keeps: the locale \<open>smbus_memory\<close>. The chip emulator provides it, the EEPROM
  programmer relies on it.
\<close>

section \<open>SMBus transfers\<close>

datatype smbus_rw = I2C_SMBUS_WRITE | I2C_SMBUS_READ

datatype smbus_size =
  I2C_SMBUS_QUICK | I2C_SMBUS_BYTE | I2C_SMBUS_BYTE_DATA | I2C_SMBUS_WORD_DATA |
  I2C_SMBUS_I2C_BLOCK_DATA | I2C_SMBUS_OTHER

text \<open>The members of \<open>union i2c_smbus_data\<close>; a transfer uses one of them. A block has 34 bytes.\<close>

record i2c_smbus_data =
  byte :: u8
  wrd :: u16
  block :: bytes

section \<open>A memory chip behind SMBus transfers\<close>

type_synonym 'b smbus_xfer =
  "'b \<Rightarrow> smbus_rw \<Rightarrow> u8 \<Rightarrow> smbus_size \<Rightarrow> i2c_smbus_data \<Rightarrow> (int \<times> 'b \<times> i2c_smbus_data) kres"

locale smbus_memory =
  fixes ok :: "'b \<Rightarrow> bool"
    and cells :: "'b \<Rightarrow> u8 \<Rightarrow> u8"
    and ptr :: "'b \<Rightarrow> u8"
    and xfer :: "'b smbus_xfer"
  assumes set_pointer:
      "ok b \<Longrightarrow> \<exists>b'. xfer b I2C_SMBUS_WRITE a I2C_SMBUS_BYTE d = kret (0, b', d) \<and>
                    ok b' \<and> cells b' = cells b \<and> ptr b' = a"
    and read_current:
      "ok b \<Longrightarrow> \<exists>b'. xfer b I2C_SMBUS_READ a I2C_SMBUS_BYTE d = kret (0, b', d\<lparr>byte := cells b (ptr b)\<rparr>) \<and>
                    ok b' \<and> cells b' = cells b \<and> ptr b' = ptr b + 1"
    and write_cell:
      "ok b \<Longrightarrow> \<exists>b'. xfer b I2C_SMBUS_WRITE a I2C_SMBUS_BYTE_DATA d = kret (0, b', d) \<and>
                    ok b' \<and> cells b' = (cells b)(a := byte d) \<and> ptr b' = a + 1"

end
