(* ===== verification/I2c_Stub.thy ===== *)
theory I2c_Stub
  imports Smbus_Interface
begin

text \<open>
  The SMBus chip emulator \<open>src/sources/kmods/i2c-stub/kmod/i2c-stub.c\<close>: up to ten chips with a byte
  pointer and 256 words each, and the transfer function of the adapter. Words are addressed by an
  8-bit command; a block transfer that runs over the last word leaves the array, which the model
  reports as a buffer overrun. Debug messages are left out.
\<close>

section \<open>The chips\<close>

record stub_chip =
  chip_pointer :: u8
  words :: "u8 \<Rightarrow> u16"

record i2c_stub =
  chip_addr :: "u16 list"
  stub_chips :: "stub_chip list"
  functionality :: "64 word"

abbreviation (input) MAX_CHIPS :: nat where "MAX_CHIPS \<equiv> 10"

text \<open>\<open>chip->words[c] &= 0xff00; chip->words[c] |= b;\<close>\<close>

definition set_low :: "(u8 \<Rightarrow> u16) \<Rightarrow> u8 \<Rightarrow> u8 \<Rightarrow> u8 \<Rightarrow> u16" where
  "set_low w c b = w(c := (w c AND 0xff00) OR ucast b)"

text \<open>The search loop over \<open>chip_addr\<close>.\<close>

fun find_chip :: "u16 \<Rightarrow> u16 list \<Rightarrow> nat \<Rightarrow> nat option" where
  "find_chip addr [] i = None"
| "find_chip addr (a # as) i =
     (if MAX_CHIPS \<le> i \<or> a = 0 then None else if addr = a then Some i else find_chip addr as (i + 1))"

text \<open>The block loops: \<open>n\<close> rounds are left, \<open>i\<close> is the loop variable.\<close>

fun block_write :: "nat \<Rightarrow> nat \<Rightarrow> u8 \<Rightarrow> bytes \<Rightarrow> (u8 \<Rightarrow> u16) \<Rightarrow> (u8 \<Rightarrow> u16) kres" where
  "block_write 0 i command blk w = kret w"
| "block_write (Suc n) i command blk w =
     (if 256 \<le> unat command + i \<or> length blk \<le> 1 + i then kfail BufferOverrun
      else block_write n (i + 1) command blk (set_low w (of_nat (unat command + i)) (blk ! (1 + i))))"

fun block_read :: "nat \<Rightarrow> nat \<Rightarrow> u8 \<Rightarrow> (u8 \<Rightarrow> u16) \<Rightarrow> bytes \<Rightarrow> bytes kres" where
  "block_read 0 i command w blk = kret blk"
| "block_read (Suc n) i command w blk =
     (if 256 \<le> unat command + i \<or> length blk \<le> 1 + i then kfail BufferOverrun
      else block_read n (i + 1) command w (blk[1 + i := ucast (w (of_nat (unat command + i)))]))"

text \<open>The transfer on the chip that was found: the result, the chip and the data.\<close>

definition chip_xfer ::
  "stub_chip \<Rightarrow> smbus_rw \<Rightarrow> u8 \<Rightarrow> smbus_size \<Rightarrow> i2c_smbus_data \<Rightarrow> (int \<times> stub_chip \<times> i2c_smbus_data) kres" where
  "chip_xfer chip rw command sz data =
     (case sz of
        I2C_SMBUS_QUICK \<Rightarrow> kret (0, chip, data)
      | I2C_SMBUS_BYTE \<Rightarrow>
          (if rw = I2C_SMBUS_WRITE then kret (0, chip\<lparr>chip_pointer := command\<rparr>, data)
           else kret (0, chip\<lparr>chip_pointer := chip_pointer chip + 1\<rparr>,
                      data\<lparr>byte := ucast (words chip (chip_pointer chip))\<rparr>))
      | I2C_SMBUS_BYTE_DATA \<Rightarrow>
          (if rw = I2C_SMBUS_WRITE
           then kret (0, chip\<lparr>words := set_low (words chip) command (byte data), chip_pointer := command + 1\<rparr>, data)
           else kret (0, chip\<lparr>chip_pointer := command + 1\<rparr>, data\<lparr>byte := ucast (words chip command)\<rparr>))
      | I2C_SMBUS_WORD_DATA \<Rightarrow>
          (if rw = I2C_SMBUS_WRITE then kret (0, chip\<lparr>words := (words chip)(command := wrd data)\<rparr>, data)
           else kret (0, chip, data\<lparr>wrd := words chip command\<rparr>))
      | I2C_SMBUS_I2C_BLOCK_DATA \<Rightarrow>
          (let len = unat (block data ! 0) in
           if rw = I2C_SMBUS_WRITE
           then kbind (block_write len 0 command (block data) (words chip))
                  (\<lambda>w. kret (0, chip\<lparr>words := w\<rparr>, data))
           else kbind (block_read len 0 command (words chip) (block data))
                  (\<lambda>b. kret (0, chip, data\<lparr>block := b\<rparr>)))
      | I2C_SMBUS_OTHER \<Rightarrow> kret (-95, chip, data))"

definition stub_xfer ::
  "i2c_stub \<Rightarrow> u16 \<Rightarrow> smbus_rw \<Rightarrow> u8 \<Rightarrow> smbus_size \<Rightarrow> i2c_smbus_data \<Rightarrow> (int \<times> i2c_stub \<times> i2c_smbus_data) kres" where
  "stub_xfer st addr rw command sz data =
     (case find_chip addr (chip_addr st) 0 of None \<Rightarrow> kret (-19, st, data)
      | Some i \<Rightarrow>
          kbind (chip_xfer (stub_chips st ! i) rw command sz data) (\<lambda>(r, chip, data).
          kret (r, st\<lparr>stub_chips := (stub_chips st)[i := chip]\<rparr>, data)))"

text \<open>
  \<open>STUB_FUNC\<close> is the union of the functions for quick, byte, byte data, word data and I2C block
  transfers, with the bit values of the kernel's \<open>linux/i2c.h\<close>.
\<close>

definition STUB_FUNC :: "64 word" where
  "STUB_FUNC = 0x00010000 OR 0x00060000 OR 0x00180000 OR 0x00600000 OR 0x0c000000"

definition stub_func :: "i2c_stub \<Rightarrow> u32" where
  "stub_func st = ucast (STUB_FUNC AND functionality st)"

section \<open>Module life cycle\<close>

text \<open>The validation loop: the number of chips, or \<open>None\<close> for an address out of range.\<close>

fun check_addrs :: "u16 list \<Rightarrow> nat \<Rightarrow> nat option" where
  "check_addrs [] i = Some i"
| "check_addrs (a # as) i =
     (if MAX_CHIPS \<le> i \<or> a = 0 then Some i else if a < 0x03 \<or> 0x77 < a then None else check_addrs as (i + 1))"

text \<open>\<open>mem\<close> tells whether \<open>kzalloc\<close> succeeds, \<open>ret\<close> is the result of \<open>i2c_add_adapter\<close>.\<close>

definition i2c_stub_init :: "bool \<Rightarrow> int \<Rightarrow> i2c_stub \<Rightarrow> int \<times> i2c_stub" where
  "i2c_stub_init mem ret st =
     (if chip_addr st ! 0 = 0 then (-19, st)
      else case check_addrs (chip_addr st) 0 of None \<Rightarrow> (-22, st)
      | Some i \<Rightarrow>
          if \<not> mem then (-12, st)
          else if ret \<noteq> 0 then (ret, st\<lparr>stub_chips := []\<rparr>)
          else (ret, st\<lparr>stub_chips := replicate i \<lparr>chip_pointer = 0, words = (\<lambda>_. 0)\<rparr>\<rparr>))"

definition i2c_stub_exit :: "i2c_stub \<Rightarrow> i2c_stub" where
  "i2c_stub_exit st = st\<lparr>stub_chips := []\<rparr>"

section \<open>The chips as memories\<close>

definition low :: "stub_chip \<Rightarrow> u8 \<Rightarrow> u8" where
  "low chip a = ucast (words chip a)"

lemma ucast_set_low: "ucast (set_low w c b a) = (if a = c then b else ucast (w a))"
proof -
  have eq: "(0xff00 :: u16) = push_bit 8 0xff" by simp
  have "\<not> bit (0xff00 :: u16) n" if "n < 8" for n
    unfolding eq bit_push_bit_iff using that by simp
  then have "(ucast ((x AND 0xff00) OR ucast b) :: u8) = b" for x :: u16
    by (intro bit_word_eqI) (auto simp: bit_simps)
  then show ?thesis by (simp add: set_low_def)
qed

definition stub_ok :: "u16 \<Rightarrow> i2c_stub \<Rightarrow> bool" where
  "stub_ok addr st \<longleftrightarrow> (case find_chip addr (chip_addr st) 0 of None \<Rightarrow> False | Some i \<Rightarrow> i < length (stub_chips st))"

definition the_chip :: "u16 \<Rightarrow> i2c_stub \<Rightarrow> stub_chip" where
  "the_chip addr st = stub_chips st ! the (find_chip addr (chip_addr st) 0)"

lemma stub_xfer_chip:
  assumes "stub_ok addr st" "chip_xfer (the_chip addr st) rw c sz d = kret (r, chip, d')"
  shows "\<exists>st'. stub_xfer st addr rw c sz d = kret (r, st', d') \<and> stub_ok addr st' \<and> the_chip addr st' = chip \<and>
               chip_addr st' = chip_addr st \<and>
               (\<forall>k. Some k \<noteq> find_chip addr (chip_addr st) 0 \<longrightarrow> stub_chips st' ! k = stub_chips st ! k)"
proof -
  from assms(1) obtain i where i: "find_chip addr (chip_addr st) 0 = Some i" "i < length (stub_chips st)"
    by (auto simp: stub_ok_def split: option.splits)
  let ?st = "st\<lparr>stub_chips := (stub_chips st)[i := chip]\<rparr>"
  show ?thesis
    using i assms(2) by (intro exI [of _ ?st]) (auto simp: stub_ok_def the_chip_def stub_xfer_def)
qed

interpretation stub: smbus_memory "stub_ok addr" "\<lambda>st. low (the_chip addr st)"
  "\<lambda>st. chip_pointer (the_chip addr st)" "\<lambda>st. stub_xfer st addr" for addr
proof (unfold_locales, goal_cases)
  case (1 b a d)
  from stub_xfer_chip [OF 1, of I2C_SMBUS_WRITE a I2C_SMBUS_BYTE d] show ?case
    by (force simp: chip_xfer_def low_def)
next
  case (2 b a d)
  from stub_xfer_chip [OF 2, of I2C_SMBUS_READ a I2C_SMBUS_BYTE d] show ?case
    by (force simp: chip_xfer_def low_def)
next
  case (3 b a d)
  from stub_xfer_chip [OF 3, of I2C_SMBUS_WRITE a I2C_SMBUS_BYTE_DATA d] show ?case
    by (force simp: chip_xfer_def low_def ucast_set_low)
qed

section \<open>Block transfers\<close>

lemma block_write_ok:
  "unat c + i + n \<le> 256 \<Longrightarrow> 1 + i + n \<le> length blk \<Longrightarrow>
   \<exists>w'. block_write n i c blk w = kret w' \<and>
     (\<forall>a. (ucast (w' a) :: u8) = (if unat c + i \<le> unat a \<and> unat a < unat c + i + n
                                then blk ! (1 + (unat a - unat c)) else ucast (w a)))"
proof (induction n arbitrary: i w)
  case 0
  then show ?case by auto
next
  case (Suc n)
  let ?w = "set_low w (of_nat (unat c + i)) (blk ! (1 + i))"
  from Suc.IH [of "i + 1" ?w] Suc.prems obtain w' where w':
    "block_write n (i + 1) c blk ?w = kret w'"
    "\<forall>a. (ucast (w' a) :: u8) = (if unat c + (i + 1) \<le> unat a \<and> unat a < unat c + (i + 1) + n
                                then blk ! (1 + (unat a - unat c)) else ucast (?w a))"
    by auto
  have idx: "a = of_nat (unat c + i) \<longleftrightarrow> unat a = unat c + i" for a :: u8
    using Suc.prems(1) by (auto simp: word_unat_eq_iff unat_of_nat simp del: of_nat_add)
  have "block_write (Suc n) i c blk w = kret w'" using w'(1) Suc.prems by simp
  moreover have "(ucast (w' a) :: u8) = (if unat c + i \<le> unat a \<and> unat a < unat c + i + Suc n
                                then blk ! (1 + (unat a - unat c)) else ucast (w a))" for a
    using w'(2) [rule_format, of a] idx [of a] by (auto simp: ucast_set_low simp del: of_nat_add)
  ultimately show ?case by blast
qed

lemma block_read_ok:
  "unat c + i + n \<le> 256 \<Longrightarrow> 1 + i + n \<le> length blk \<Longrightarrow>
   block_read n i c w blk = kret (take (1 + i) blk @ map (\<lambda>k. ucast (w (of_nat (unat c + k)))) [i..<i + n] @
                                  drop (1 + i + n) blk)"
proof (induction n arbitrary: i blk)
  case 0
  then show ?case by simp
next
  case (Suc n)
  let ?x = "ucast (w (of_nat (unat c + i))) :: u8"
  have up: "[i..<i + Suc n] = i # [i + 1..<i + 1 + n]" by (simp add: upt_conv_Cons)
  have "block_read (Suc n) i c w blk = block_read n (i + 1) c w (blk[1 + i := ?x])"
    using Suc.prems by simp
  also have "\<dots> = kret (take (1 + (i + 1)) (blk[1 + i := ?x]) @
      map (\<lambda>k. ucast (w (of_nat (unat c + k)))) [i + 1..<i + 1 + n] @ drop (1 + (i + 1) + n) (blk[1 + i := ?x]))"
    using Suc.prems by (intro Suc.IH) auto
  also have "take (1 + (i + 1)) (blk[1 + i := ?x]) = take (1 + i) blk @ [?x]"
    using Suc.prems(2) by (simp add: take_Suc_conv_app_nth)
  finally show ?case
    using Suc.prems(2) unfolding up by (simp del: of_nat_add upt_Suc)
qed

lemma block_write_overrun:
  "256 < unat c + i + n \<Longrightarrow> unat c + i \<le> 256 \<Longrightarrow> block_write n i c blk w = kfail BufferOverrun"
proof (induction n arbitrary: i w)
  case (Suc n)
  then show ?case by (cases "unat c + i = 256") auto
qed simp

section \<open>Properties\<close>

text \<open>
  Fact: an I2C block written to an emulated chip is read back unchanged by a block read of
  the same command and length, as long as it ends within the 256 words; the high bytes and the other
  chips do not change. A block that would run past word 255 leaves the array of words.
\<close>

theorem stub_block_roundtrip:
  assumes "stub_ok addr st" and "length (block d) = 34" and "length (block d') = 34"
    and "block d ! 0 = block d' ! 0" and "unat (block d ! 0) \<le> 32"
  shows "(if unat c + unat (block d ! 0) \<le> 256 then
      \<exists>st' b. stub_xfer st addr I2C_SMBUS_WRITE c I2C_SMBUS_I2C_BLOCK_DATA d = kret (0, st', d) \<and>
        stub_xfer st' addr I2C_SMBUS_READ c I2C_SMBUS_I2C_BLOCK_DATA d' = kret (0, st', d'\<lparr>block := b\<rparr>) \<and>
        take (1 + unat (block d ! 0)) b = take (1 + unat (block d ! 0)) (block d)
    else stub_xfer st addr I2C_SMBUS_WRITE c I2C_SMBUS_I2C_BLOCK_DATA d = kfail BufferOverrun)"
proof (cases "unat c + unat (block d ! 0) \<le> 256")
  case True
  define n where "n = unat (block d ! 0)"
  define chip where "chip = the_chip addr st"
  have n: "unat c + 0 + n \<le> 256" "1 + 0 + n \<le> length (block d)" "1 + 0 + n \<le> length (block d')"
    "unat (block d' ! 0) = n"
    using True assms by (simp_all add: n_def)
  from block_write_ok [OF n(1,2), of "words chip"] obtain w where w:
    "block_write n 0 c (block d) (words chip) = kret w"
    "\<forall>a. (ucast (w a) :: u8) = (if unat c + 0 \<le> unat a \<and> unat a < unat c + 0 + n
                                then block d ! (1 + (unat a - unat c)) else ucast (words chip a))"
    by blast
  define b where "b = take 1 (block d') @ map (\<lambda>k. ucast (w (of_nat (unat c + k)))) [0..<n] @ drop (1 + n) (block d')"
  have "chip_xfer (the_chip addr st) I2C_SMBUS_WRITE c I2C_SMBUS_I2C_BLOCK_DATA d = kret (0, chip\<lparr>words := w\<rparr>, d)"
    using w(1) by (simp add: chip_xfer_def n_def chip_def)
  from stub_xfer_chip [OF assms(1) this] obtain st' where st':
    "stub_xfer st addr I2C_SMBUS_WRITE c I2C_SMBUS_I2C_BLOCK_DATA d = kret (0, st', d)"
    "stub_ok addr st'" "the_chip addr st' = chip\<lparr>words := w\<rparr>"
    by blast
  have "chip_xfer (the_chip addr st') I2C_SMBUS_READ c I2C_SMBUS_I2C_BLOCK_DATA d' =
      kret (0, the_chip addr st', d'\<lparr>block := b\<rparr>)"
    using block_read_ok [OF n(1,3), of w] n(4) st'(3) by (simp add: chip_xfer_def b_def)
  moreover have "stub_xfer st' addr I2C_SMBUS_READ c I2C_SMBUS_I2C_BLOCK_DATA d' = kret (0, st', d'\<lparr>block := b\<rparr>)"
    using calculation st'(2) by (auto simp: stub_xfer_def stub_ok_def the_chip_def split: option.splits)
  moreover have "take (1 + n) b = take (1 + n) (block d)"
  proof (rule nth_equalityI)
    show "length (take (1 + n) b) = length (take (1 + n) (block d))"
      using n by (simp add: b_def)
    fix k assume "k < length (take (1 + n) b)"
    then have k: "k < 1 + n" by simp
    have u: "unat (of_nat (unat c + j) :: u8) = unat c + j" if "j < n" for j
      using n(1) that by (simp add: unat_of_nat del: of_nat_add)
    show "take (1 + n) b ! k = take (1 + n) (block d) ! k"
    proof (cases k)
      case 0
      then show ?thesis using n assms(4) by (simp add: b_def nth_append)
    next
      case (Suc j)
      then show ?thesis
        using n k u [of j] w(2) [rule_format, of "of_nat (unat c + j)"]
        by (simp add: b_def nth_append del: of_nat_add)
    qed
  qed
  ultimately show ?thesis using True st'(1) by (auto simp: n_def)
next
  case False
  then have "block_write (unat (block d ! 0)) 0 c (block d) (words (the_chip addr st)) = kfail BufferOverrun"
    using unsigned_less [of c, where 'a = nat] by (intro block_write_overrun) auto
  with False assms(1) show ?thesis
    by (auto simp: stub_xfer_def chip_xfer_def the_chip_def stub_ok_def split: option.splits)
qed

definition ex_stub :: i2c_stub where
  "ex_stub = \<lparr>chip_addr = 0x50 # replicate 9 0, stub_chips = [\<lparr>chip_pointer = 0, words = (\<lambda>_. 0)\<rparr>],
              functionality = STUB_FUNC\<rparr>"

lemma ex_stub_ok: "stub_ok 0x50 ex_stub"
  by (simp add: stub_ok_def ex_stub_def)

definition ex_block :: i2c_smbus_data where
  "ex_block = \<lparr>byte = 0, wrd = 0, block = 2 # 7 # 8 # replicate 31 0\<rparr>"

theorem stub_block_roundtrip_witness:
  "(\<exists>st'. stub_xfer ex_stub 0x50 I2C_SMBUS_WRITE 254 I2C_SMBUS_I2C_BLOCK_DATA ex_block = kret (0, st', ex_block)) \<and>
   stub_xfer ex_stub 0x50 I2C_SMBUS_WRITE 255 I2C_SMBUS_I2C_BLOCK_DATA ex_block = kfail BufferOverrun"
  using stub_block_roundtrip [OF ex_stub_ok, of ex_block ex_block 254]
    stub_block_roundtrip [OF ex_stub_ok, of ex_block ex_block 255]
  by (auto simp: ex_block_def)

end
