(* ===== verification/Eeprog.thy ===== *)
theory Eeprog
  imports I2c_Stub C_Strings
begin

text \<open>
  The EEPROM programmer of \<open>src/sources/utils/eeprog-0.7.6\<close>: the chip access of \<open>24cXX.c\<close> over the
  SMBus calls of \<open>i2c-dev.h\<close>, and the read and write loops, the argument parser and the main program
  of \<open>eeprog.c\<close>. The kernel's transfer function is the argument \<open>xfer\<close>; delays and messages are left
  out.
\<close>

section \<open>SMBus calls\<close>

text \<open>The \<open>ioctl\<close> answers -1 for a negative result of the transfer; \<open>no_data\<close> stands for unset data.\<close>

definition no_data :: i2c_smbus_data where
  "no_data = \<lparr>byte = 0, wrd = 0, block = replicate 34 0\<rparr>"

definition i2c_smbus_access ::
  "'b smbus_xfer \<Rightarrow> 'b \<Rightarrow> smbus_rw \<Rightarrow> u8 \<Rightarrow> smbus_size \<Rightarrow> i2c_smbus_data \<Rightarrow> (int \<times> 'b \<times> i2c_smbus_data) kres" where
  "i2c_smbus_access xfer b rw command sz data =
     kbind (xfer b rw command sz data) (\<lambda>(r, b, data). kret (if r < 0 then -1 else r, b, data))"

definition i2c_smbus_read_byte :: "'b smbus_xfer \<Rightarrow> 'b \<Rightarrow> (int \<times> 'b) kres" where
  "i2c_smbus_read_byte xfer b =
     kbind (i2c_smbus_access xfer b I2C_SMBUS_READ 0 I2C_SMBUS_BYTE no_data) (\<lambda>(r, b, data).
     kret (if r \<noteq> 0 then -1 else uint (byte data), b))"

definition i2c_smbus_write_byte :: "'b smbus_xfer \<Rightarrow> 'b \<Rightarrow> u8 \<Rightarrow> (int \<times> 'b) kres" where
  "i2c_smbus_write_byte xfer b v =
     kbind (i2c_smbus_access xfer b I2C_SMBUS_WRITE v I2C_SMBUS_BYTE no_data) (\<lambda>(r, b, _). kret (r, b))"

definition i2c_smbus_write_byte_data :: "'b smbus_xfer \<Rightarrow> 'b \<Rightarrow> u8 \<Rightarrow> u8 \<Rightarrow> (int \<times> 'b) kres" where
  "i2c_smbus_write_byte_data xfer b command v =
     kbind (i2c_smbus_access xfer b I2C_SMBUS_WRITE command I2C_SMBUS_BYTE_DATA (no_data\<lparr>byte := v\<rparr>))
       (\<lambda>(r, b, _). kret (r, b))"

definition i2c_smbus_write_word_data :: "'b smbus_xfer \<Rightarrow> 'b \<Rightarrow> u8 \<Rightarrow> u16 \<Rightarrow> (int \<times> 'b) kres" where
  "i2c_smbus_write_word_data xfer b command v =
     kbind (i2c_smbus_access xfer b I2C_SMBUS_WRITE command I2C_SMBUS_WORD_DATA (no_data\<lparr>wrd := v\<rparr>))
       (\<lambda>(r, b, _). kret (r, b))"

section \<open>The chip\<close>

datatype eeprom_type = EEPROM_TYPE_UNKNOWN | EEPROM_TYPE_8BIT_ADDR | EEPROM_TYPE_16BIT_ADDR

record eeprom =
  dev :: "string option"
  i2c_address :: int
  fd :: int
  etype :: eeprom_type
  write_cycle_time :: int

definition i2c_write_1b :: "'b smbus_xfer \<Rightarrow> 'b \<Rightarrow> u8 \<Rightarrow> (int \<times> 'b) kres" where
  "i2c_write_1b xfer b buf = i2c_smbus_write_byte xfer b buf"

definition i2c_write_2b :: "'b smbus_xfer \<Rightarrow> 'b \<Rightarrow> u8 \<Rightarrow> u8 \<Rightarrow> (int \<times> 'b) kres" where
  "i2c_write_2b xfer b buf0 buf1 = i2c_smbus_write_byte_data xfer b buf0 buf1"

definition i2c_write_3b :: "'b smbus_xfer \<Rightarrow> 'b \<Rightarrow> u8 \<Rightarrow> u8 \<Rightarrow> u8 \<Rightarrow> (int \<times> 'b) kres" where
  "i2c_write_3b xfer b buf0 buf1 buf2 =
     i2c_smbus_write_word_data xfer b buf0 (push_bit 8 (ucast buf2) OR ucast buf1)"

text \<open>
  \<open>eeprom_open\<close>: \<open>fd0\<close> is the result of \<open>open\<close>, \<open>funcs\<close> the answer of \<open>I2C_FUNCS\<close> unless that call
  fails, \<open>slave\<close> the result of \<open>I2C_SLAVE\<close>. A missing function ends the program with code 1.
\<close>

definition has_funcs :: "u32 \<Rightarrow> bool" where
  "has_funcs funcs \<longleftrightarrow>
     funcs AND 0x00020000 \<noteq> 0 \<and> funcs AND 0x00040000 \<noteq> 0 \<and> funcs AND 0x00080000 \<noteq> 0 \<and>
     funcs AND 0x00100000 \<noteq> 0 \<and> funcs AND 0x00200000 \<noteq> 0 \<and> funcs AND 0x00400000 \<noteq> 0"

datatype open_result = Halted | Returned int eeprom

definition eeprom_open ::
  "int \<Rightarrow> u32 option \<Rightarrow> int \<Rightarrow> string \<Rightarrow> int \<Rightarrow> eeprom_type \<Rightarrow> int \<Rightarrow> eeprom \<Rightarrow> open_result" where
  "eeprom_open fd0 funcs slave dev_fqn address type twc e =
     (let e = e\<lparr>fd := 0, i2c_address := 0, dev := None\<rparr> in
      if fd0 \<le> 0 then Returned (-1) e
      else case funcs of None \<Rightarrow> Returned (-1) e
      | Some f \<Rightarrow>
          if \<not> has_funcs f then Halted
          else if slave < 0 then Returned (-1) e
          else Returned 0 (e\<lparr>fd := fd0, i2c_address := address, dev := Some dev_fqn, etype := type,
                            write_cycle_time := twc\<rparr>))"

definition eeprom_close :: "eeprom \<Rightarrow> int \<times> eeprom" where
  "eeprom_close e = (0, e\<lparr>fd := -1, dev := None, etype := EEPROM_TYPE_UNKNOWN\<rparr>)"

definition eeprom_read_current_byte :: "'b smbus_xfer \<Rightarrow> 'b \<Rightarrow> (int \<times> 'b) kres" where
  "eeprom_read_current_byte xfer b = i2c_smbus_read_byte xfer b"

definition eeprom_read_byte :: "'b smbus_xfer \<Rightarrow> eeprom \<Rightarrow> u16 \<Rightarrow> 'b \<Rightarrow> (int \<times> 'b) kres" where
  "eeprom_read_byte xfer e mem_addr b =
     (if etype e = EEPROM_TYPE_UNKNOWN then kret (-1, b)
      else
        kbind (if etype e = EEPROM_TYPE_8BIT_ADDR then i2c_write_1b xfer b (ucast mem_addr)
               else i2c_write_2b xfer b (ucast (drop_bit 8 mem_addr)) (ucast mem_addr)) (\<lambda>(r, b).
        if r < 0 then kret (r, b) else i2c_smbus_read_byte xfer b))"

definition eeprom_write_byte :: "'b smbus_xfer \<Rightarrow> eeprom \<Rightarrow> u16 \<Rightarrow> u8 \<Rightarrow> 'b \<Rightarrow> (int \<times> 'b) kres" where
  "eeprom_write_byte xfer e mem_addr data b =
     (case etype e of
        EEPROM_TYPE_8BIT_ADDR \<Rightarrow> i2c_write_2b xfer b (ucast mem_addr) data
      | EEPROM_TYPE_16BIT_ADDR \<Rightarrow> i2c_write_3b xfer b (ucast (drop_bit 8 mem_addr)) (ucast mem_addr) data
      | EEPROM_TYPE_UNKNOWN \<Rightarrow> kret (-1, b))"

section \<open>Reading and writing ranges\<close>

text \<open>Hexadecimal digits of \<open>fprintf\<close> with \<open>%.4x\<close> and \<open>%.2x\<close>.\<close>

definition hex_char :: "nat \<Rightarrow> char" where
  "hex_char d = char_of (if d < 10 then 48 + d else 87 + d)"

fun hex_nat :: "nat \<Rightarrow> string" where
  "hex_nat n = (if n < 16 then [hex_char n] else hex_nat (n div 16) @ [hex_char (n mod 16)])"

declare hex_nat.simps [simp del]

definition show_hex :: "nat \<Rightarrow> nat \<Rightarrow> string" where
  "show_hex width n = replicate (width - length (hex_nat n)) CHR ''0'' @ hex_nat n"

definition to_bytes :: "string \<Rightarrow> bytes" where
  "to_bytes s = map (\<lambda>c. of_nat (of_char c)) s"

text \<open>
  The read loop: \<open>n\<close> rounds are left, \<open>i\<close> and \<open>address\<close> are the loop variables, \<open>out\<close> is what has
  been written. The result is an exit code and the output; a failed access ends the program with 1.
\<close>

fun read_loop ::
  "'b smbus_xfer \<Rightarrow> eeprom \<Rightarrow> bool \<Rightarrow> nat \<Rightarrow> nat \<Rightarrow> s32 \<Rightarrow> bytes \<Rightarrow> 'b \<Rightarrow> (int \<times> bytes \<times> 'b) kres" where
  "read_loop xfer e hex 0 i address out b = kret (0, out, b)"
| "read_loop xfer e hex (Suc n) i address out b =
     kbind (eeprom_read_byte xfer e (ucast address) b) (\<lambda>(ch, b).
     if ch < 0 then kret (1, out, b)
     else
       let o1 = (if i mod 16 = 0 then CHR 0x0A # CHR '' '' # show_hex 4 (unat address) @ ''|  ''
                 else if i mod 8 = 0 then ''  '' else []);
           out = (if hex then out @ to_bytes (o1 @ show_hex 2 (nat ch) @ '' '') else out @ [of_int ch])
       in read_loop xfer e hex n (i + 1) (address + 1) out b)"

definition read_from_eeprom ::
  "'b smbus_xfer \<Rightarrow> eeprom \<Rightarrow> s32 \<Rightarrow> s32 \<Rightarrow> bool \<Rightarrow> 'b \<Rightarrow> (int \<times> bytes \<times> 'b) kres" where
  "read_from_eeprom xfer e address sz hex b =
     kbind (read_loop xfer e hex (nat (sint sz)) 0 address [] b) (\<lambda>(r, out, b).
     kret (r, if r = 0 \<and> hex then out @ to_bytes [CHR 0x0A, CHR 0x0A] else out, b))"

fun write_to_eeprom :: "'b smbus_xfer \<Rightarrow> eeprom \<Rightarrow> s32 \<Rightarrow> bytes \<Rightarrow> 'b \<Rightarrow> (int \<times> 'b) kres" where
  "write_to_eeprom xfer e address [] b = kret (0, b)"
| "write_to_eeprom xfer e address (c # cs) b =
     kbind (eeprom_write_byte xfer e (ucast address) c b) (\<lambda>(r, b).
     if r \<noteq> 0 then kret (1, b) else write_to_eeprom xfer e (address + 1) cs b)"

section \<open>Arguments\<close>

text \<open>\<open>strtol(s, &end, 0)\<close>: decimal, hexadecimal after \<open>0x\<close>, octal after \<open>0\<close>; saturates at 64 bits.\<close>

definition base_digit :: "nat \<Rightarrow> char \<Rightarrow> nat option" where
  "base_digit bs c = (case hex_digit c of None \<Rightarrow> None | Some d \<Rightarrow> if d < bs then Some d else None)"

fun base_val :: "nat \<Rightarrow> nat \<Rightarrow> string \<Rightarrow> nat \<times> string" where
  "base_val bs n [] = (n, [])"
| "base_val bs n (c # cs) =
     (case base_digit bs c of None \<Rightarrow> (n, c # cs) | Some d \<Rightarrow> base_val bs (bs * n + d) cs)"

definition strtol0 :: "string \<Rightarrow> int \<times> string" where
  "strtol0 nptr =
     (let s = dropWhile is_space nptr;
          neg = (s \<noteq> [] \<and> hd s = CHR ''-'');
          s = (if s \<noteq> [] \<and> (hd s = CHR ''-'' \<or> hd s = CHR ''+'') then tl s else s);
          hex = (3 \<le> length s \<and> hd s = CHR ''0'' \<and> (s ! 1 = CHR ''x'' \<or> s ! 1 = CHR ''X'') \<and> hex_digit (s ! 2) \<noteq> None);
          bs = (if hex then 16 else if s \<noteq> [] \<and> hd s = CHR ''0'' then 8 else 10);
          s = (if hex then drop 2 s else s)
      in if s = [] \<or> base_digit bs (hd s) = None then (0, nptr)
         else case base_val bs 0 s of (n, rest) \<Rightarrow>
           (if neg then max (- (2 ^ 63)) (- int n) else min (2 ^ 63 - 1) (int n), rest))"

text \<open>The result code, the address and the size if they are stored.\<close>

definition parse_arg :: "string \<Rightarrow> int \<times> s32 option \<times> s32 option" where
  "parse_arg arg =
     (if arg = [] then (-1, None, None)
      else case strtol0 arg of (out_paddr, end_) \<Rightarrow>
        if end_ = [] then (1, Some (of_int out_paddr), None)
        else if hd end_ \<noteq> CHR '':'' then (-1, None, None)
        else if tl end_ = [] then (-1, None, None)
        else case strtol0 (tl end_) of (out_psize, end_) \<Rightarrow>
          if end_ = [] then (2, Some (of_int out_paddr), Some (of_int out_psize)) else (-1, None, None))"

section \<open>The main program\<close>

record eeopts =
  ee_op :: "char option"
  ee_arg :: "string option"
  want_hex :: bool
  dummy :: bool
  force :: bool
  eeprom_type :: eeprom_type
  cycle_time :: s32
  input_file :: "string option"
  output_file :: "string option"

definition default_eeopts :: eeopts where
  "default_eeopts = \<lparr>ee_op = None, ee_arg = None, want_hex = False, dummy = False, force = False,
     eeprom_type = EEPROM_TYPE_UNKNOWN, cycle_time = 0, input_file = None, output_file = None\<rparr>"

text \<open>
  One round of the option loop on an answer of \<open>getopt\<close>, the option character and \<open>optarg\<close>; an
  unknown option is the character \<open>?\<close> without argument. \<open>Inl\<close> is the exit code when the program ends.
\<close>

definition eeprog_option :: "char \<Rightarrow> string option \<Rightarrow> eeopts \<Rightarrow> int + eeopts" where
  "eeprog_option c optarg opt =
     (if c = CHR ''1'' then
        (if optarg \<noteq> Some ''6'' then Inl 1
         else if eeprom_type opt \<noteq> EEPROM_TYPE_UNKNOWN then Inl 1
         else Inr (opt\<lparr>eeprom_type := EEPROM_TYPE_16BIT_ADDR\<rparr>))
      else if c = CHR ''x'' then Inr (opt\<lparr>want_hex := True\<rparr>)
      else if c = CHR ''d'' then Inr (opt\<lparr>dummy := True\<rparr>)
      else if c = CHR ''8'' then
        (if eeprom_type opt \<noteq> EEPROM_TYPE_UNKNOWN then Inl 1
         else Inr (opt\<lparr>eeprom_type := EEPROM_TYPE_8BIT_ADDR\<rparr>))
      else if c = CHR ''f'' then Inr (opt\<lparr>force := True\<rparr>)
      else if c = CHR ''q'' then Inr opt
      else if c = CHR ''h'' then Inl 1
      else if c = CHR ''t'' then
        (case parse_arg (the optarg) of (r, a, _) \<Rightarrow>
           if r \<noteq> 1 \<or> sint (the a) < 0 then Inl 1 else Inr (opt\<lparr>cycle_time := the a\<rparr>))
      else if c = CHR ''i'' then Inr (opt\<lparr>input_file := optarg\<rparr>)
      else if c = CHR ''o'' then Inr (opt\<lparr>output_file := optarg\<rparr>)
      else if ee_op opt \<noteq> None then Inl 1
      else Inr (opt\<lparr>ee_arg := optarg, ee_op := Some c\<rparr>))"

fun eeprog_options :: "(char \<times> string option) list \<Rightarrow> eeopts \<Rightarrow> int + eeopts" where
  "eeprog_options [] opt = Inr opt"
| "eeprog_options ((c, a) # cs) opt =
     (case eeprog_option c a opt of Inl r \<Rightarrow> Inl r | Inr opt \<Rightarrow> eeprog_options cs opt)"

text \<open>Device and chip address from the rest of the command line or from the environment.\<close>

definition eeprog_device ::
  "(string \<Rightarrow> bool) \<Rightarrow> string option \<Rightarrow> string option \<Rightarrow> string list \<Rightarrow> (string \<times> string) option" where
  "eeprog_device exists env_dev env_addr args =
     (let (device, address) =
        (case args of [] \<Rightarrow> (env_dev, env_addr)
         | [a] \<Rightarrow> (if exists a then (Some a, env_addr) else (env_dev, Some a))
         | [a, b] \<Rightarrow> (Some a, Some b)
         | _ \<Rightarrow> (None, None))
      in case (device, address) of (Some d, Some a) \<Rightarrow> Some (d, a) | _ \<Rightarrow> None)"

text \<open>
  The program after \<open>getopt\<close>: \<open>files\<close> are the readable files, \<open>stdin\<close> the standard input, \<open>tty0\<close> and
  \<open>tty_in\<close> tell whether standard input and the input are terminals, \<open>open_e\<close> is \<open>eeprom_open\<close> for the
  device. The result is the exit code, the bytes written to the output, and the bus.
\<close>

definition eeprog_main ::
  "'b smbus_xfer \<Rightarrow> (string \<Rightarrow> int \<Rightarrow> eeprom_type \<Rightarrow> int \<Rightarrow> open_result) \<Rightarrow> (string \<Rightarrow> bool) \<Rightarrow>
   string option \<Rightarrow> string option \<Rightarrow> (string \<rightharpoonup> bytes) \<Rightarrow> bytes \<Rightarrow> bool \<Rightarrow> bool \<Rightarrow>
   (char \<times> string option) list \<Rightarrow> string list \<Rightarrow> 'b \<Rightarrow> (int \<times> bytes \<times> 'b) kres" where
  "eeprog_main xfer open_e exists env_dev env_addr files stdin tty0 tty_in opts args b =
     (case eeprog_options opts default_eeopts of Inl r \<Rightarrow> kret (r, [], b)
      | Inr opt \<Rightarrow>
        let type = (if eeprom_type opt = EEPROM_TYPE_UNKNOWN then EEPROM_TYPE_8BIT_ADDR else eeprom_type opt) in
        (case (ee_op opt, eeprog_device exists env_dev env_addr args) of
           (Some p, Some (device, addr_s)) \<Rightarrow>
             (case parse_arg addr_s of (r, i2c_addr, _) \<Rightarrow>
                if r \<noteq> 1 \<or> sint (the i2c_addr) < 0 then kret (1, [], b)
                else case ee_arg opt of None \<Rightarrow> kfail BadDeref
                | Some arg \<Rightarrow>
                  (case parse_arg arg of (ret, maddr, msize) \<Rightarrow>
                     let memaddr = the maddr; sz = (case msize of None \<Rightarrow> 1 | Some n \<Rightarrow> n) in
                     if p = CHR ''r'' \<and> (ret = -1 \<or> sint memaddr < 0 \<or> sint sz < 0) then kret (1, [], b)
                     else if p = CHR ''w'' \<and> (ret \<noteq> 1 \<or> sint memaddr < 0) then kret (1, [], b)
                     else if dummy opt then kret (0, [], b)
                     else if (case input_file opt of None \<Rightarrow> False | Some f \<Rightarrow> files f = None) then kret (1, [], b)
                     else
                       (case open_e device (sint (the i2c_addr)) type (sint (cycle_time opt)) of
                          Halted \<Rightarrow> kret (1, [], b)
                        | Returned r e \<Rightarrow>
                            if r < 0 then kret (2, [], b)
                            else if p = CHR ''r'' then
                              (if \<not> force opt \<and> \<not> tty0 then kret (1, [], b)
                               else read_from_eeprom xfer e memaddr sz (want_hex opt) b)
                            else if p = CHR ''w'' then
                              (if \<not> force opt \<and> (tty_in \<or> \<not> tty0) then kret (1, [], b)
                               else
                                 kbind (write_to_eeprom xfer e memaddr
                                          (case input_file opt of None \<Rightarrow> stdin | Some f \<Rightarrow> the (files f)) b)
                                   (\<lambda>(r, b). kret (r, [], b)))
                            else kret (1, [], b))))
         | _ \<Rightarrow> kret (1, [], b)))"

section \<open>What the programmer does on a memory chip\<close>

lemma cell_address_inj:
  fixes a :: s32
  assumes "i < 256" "k < 256" "(ucast (a + of_nat i) :: u8) = ucast (a + of_nat k)"
  shows "i = k"
proof -
  have "unat (ucast (a + of_nat j) :: u8) = (unat a + j) mod 256" if "j < 256" for j
    using that by (simp add: unsigned_ucast_eq take_bit_eq_mod unat_word_ariths unat_of_nat mod_mod_cancel)
  then have "(unat a + i) mod 256 = (unat a + k) mod 256" using assms by metis
  then have "int (unat a + i) mod 256 = int (unat a + k) mod 256" by (metis of_nat_mod of_nat_numeral)
  then have "256 dvd int (unat a + i) - int (unat a + k)" by (simp only: mod_eq_dvd_iff)
  then have "256 dvd int i - int k" by simp
  then obtain q where q: "int i - int k = 256 * q" by (elim dvdE)
  have "256 * q < 256" "- 256 < 256 * q" using q assms(1,2) by linarith+
  then have "q = 0" by simp
  then show ?thesis using q by simp
qed

lemma fold_cells_other:
  fixes a :: s32
  shows "(\<forall>i < n. x \<noteq> (ucast (a + of_nat i) :: u8)) \<Longrightarrow>
    fold (\<lambda>i m. m(ucast (a + of_nat i) := f i)) [0..<n] c x = c x"
  by (induction n) auto

lemma fold_cells:
  fixes a :: s32
  assumes "n \<le> 256"
  shows "k < n \<Longrightarrow> fold (\<lambda>i m. m(ucast (a + of_nat i) := f i)) [0..<n] c (ucast (a + of_nat k) :: u8) = f k"
  using assms
proof (induction n)
  case (Suc n)
  then show ?case
    using cell_address_inj [of k n a] by (cases "k = n") auto
qed simp

context smbus_memory
begin

lemma write_byte_8bit:
  assumes "ok b" "etype e = EEPROM_TYPE_8BIT_ADDR"
  shows "\<exists>b'. eeprom_write_byte xfer e a d b = kret (0, b') \<and> ok b' \<and> cells b' = (cells b)(ucast a := d)"
  using write_cell [OF assms(1), of "ucast a" "no_data\<lparr>byte := d\<rparr>"] assms(2)
  by (auto simp: eeprom_write_byte_def i2c_write_2b_def i2c_smbus_write_byte_data_def i2c_smbus_access_def)

lemma read_byte_8bit:
  assumes "ok b" "etype e = EEPROM_TYPE_8BIT_ADDR"
  shows "\<exists>b'. eeprom_read_byte xfer e a b = kret (uint (cells b (ucast a)), b') \<and> ok b' \<and> cells b' = cells b"
proof -
  from set_pointer [OF assms(1), of "ucast a" no_data] obtain b1 where b1:
    "xfer b I2C_SMBUS_WRITE (ucast a) I2C_SMBUS_BYTE no_data = kret (0, b1, no_data)"
    "ok b1" "cells b1 = cells b" "ptr b1 = ucast a"
    by blast
  from read_current [OF b1(2), of 0 no_data] b1 assms(2) show ?thesis
    by (auto simp: eeprom_read_byte_def i2c_write_1b_def i2c_smbus_write_byte_def i2c_smbus_read_byte_def
        i2c_smbus_access_def)
qed

lemma write_range_8bit:
  assumes "etype e = EEPROM_TYPE_8BIT_ADDR"
  shows "ok b \<Longrightarrow> \<exists>b'. write_to_eeprom xfer e a cs b = kret (0, b') \<and> ok b' \<and>
    cells b' = fold (\<lambda>i m. m(ucast (a + of_nat i) := cs ! i)) [0..<length cs] (cells b)"
proof (induction cs arbitrary: a b)
  case Nil
  then show ?case by simp
next
  case (Cons c cs)
  from write_byte_8bit [OF Cons.prems assms, of "ucast a" c] obtain b1 where b1:
    "eeprom_write_byte xfer e (ucast a) c b = kret (0, b1)" "ok b1"
    "cells b1 = (cells b)(ucast (ucast a :: u16) := c)"
    by blast
  from Cons.IH [OF b1(2), of "a + 1"] obtain b' where b':
    "write_to_eeprom xfer e (a + 1) cs b1 = kret (0, b')" "ok b'"
    "cells b' = fold (\<lambda>i m. m(ucast (a + 1 + of_nat i) := cs ! i)) [0..<length cs] (cells b1)"
    by blast
  have u: "(ucast (ucast a :: u16) :: u8) = ucast a"
    by (rule bit_word_eqI) (auto simp: bit_simps)
  have "[0..<length (c # cs)] = 0 # map Suc [0..<length cs]" by (simp add: upt_conv_Cons map_Suc_upt del: upt_Suc)
  then have "fold (\<lambda>i m. m(ucast (a + of_nat i) := (c # cs) ! i)) [0..<length (c # cs)] (cells b) =
    fold (\<lambda>i m. m(ucast (a + 1 + of_nat i) := cs ! i)) [0..<length cs] ((cells b)(ucast a := c))"
    by (simp add: fold_map comp_def add.assoc del: upt_Suc)
  with b1 b' u show ?case by (simp add: fun_upd_def del: upt_Suc)
qed

lemma read_range_8bit:
  assumes "etype e = EEPROM_TYPE_8BIT_ADDR"
  shows "ok b \<Longrightarrow> \<exists>b'. read_loop xfer e False n i a out b =
    kret (0, out @ map (\<lambda>k. cells b (ucast (a + of_nat k))) [0..<n], b') \<and> ok b' \<and> cells b' = cells b"
proof (induction n arbitrary: i a out b)
  case 0
  then show ?case by simp
next
  case (Suc n)
  from read_byte_8bit [OF Suc.prems assms, of "ucast a"] obtain b1 where b1:
    "eeprom_read_byte xfer e (ucast a) b = kret (uint (cells b (ucast (ucast a :: u16))), b1)"
    "ok b1" "cells b1 = cells b"
    by blast
  have u: "(ucast (ucast a :: u16) :: u8) = ucast a"
    by (rule bit_word_eqI) (auto simp: bit_simps)
  from Suc.IH [OF b1(2), of "i + 1" "a + 1" "out @ [cells b (ucast a)]"] obtain b' where b':
    "read_loop xfer e False n (i + 1) (a + 1) (out @ [cells b (ucast a)]) b1 =
     kret (0, (out @ [cells b (ucast a)]) @ map (\<lambda>k. cells b1 (ucast (a + 1 + of_nat k))) [0..<n], b')"
    "ok b'" "cells b' = cells b1"
    by blast
  have "[0..<Suc n] = 0 # map Suc [0..<n]" by (simp add: upt_conv_Cons map_Suc_upt del: upt_Suc)
  with b1 b' u show ?case by (simp add: comp_def add.assoc del: upt_Suc)
qed

lemma read_back_8bit:
  assumes "ok b" "etype e = EEPROM_TYPE_8BIT_ADDR" "length cs \<le> 256"
  shows "\<exists>b' b''. write_to_eeprom xfer e a cs b = kret (0, b') \<and>
           read_from_eeprom xfer e a (of_nat (length cs)) False b' = kret (0, cs, b'') \<and>
           ok b'' \<and> cells b'' = cells b' \<and>
           (\<forall>x. (\<forall>i < length cs. x \<noteq> ucast (a + of_nat i)) \<longrightarrow> cells b' x = cells b x)"
proof -
  from write_range_8bit [OF assms(2,1), of a cs] obtain b' where b':
    "write_to_eeprom xfer e a cs b = kret (0, b')" "ok b'"
    "cells b' = fold (\<lambda>i m. m(ucast (a + of_nat i) := cs ! i)) [0..<length cs] (cells b)"
    by blast
  from read_range_8bit [OF assms(2) b'(2), of "length cs" 0 a "[]"] obtain b'' where b'':
    "read_loop xfer e False (length cs) 0 a [] b' =
     kret (0, map (\<lambda>k. cells b' (ucast (a + of_nat k))) [0..<length cs], b'')" "ok b''" "cells b'' = cells b'"
    by auto
  have "map (\<lambda>k. cells b' (ucast (a + of_nat k))) [0..<length cs] = cs"
    by (rule nth_equalityI) (simp_all add: b'(3) fold_cells assms(3))
  moreover have "nat (sint (of_nat (length cs) :: s32)) = length cs"
    using assms(3) by (simp add: sint_of_nat_small)
  ultimately show ?thesis
    using b' b'' fold_cells_other [of "length cs" _ a "\<lambda>i. cs ! i" "cells b"]
    by (auto simp: read_from_eeprom_def)
qed

end

section \<open>Properties\<close>

text \<open>
  Fact: on an emulated chip with 8-bit addresses, writing up to 256 bytes and reading as many
  from the same address returns exactly these bytes, also when the range wraps around at the end of
  the chip, and no other cell changes.
\<close>

theorem eeprog_write_read_back:
  assumes "stub_ok addr st" and "etype e = EEPROM_TYPE_8BIT_ADDR" and "length cs \<le> 256"
  shows "\<exists>st' st''. write_to_eeprom (\<lambda>st. stub_xfer st addr) e a cs st = kret (0, st') \<and>
           read_from_eeprom (\<lambda>st. stub_xfer st addr) e a (of_nat (length cs)) False st' = kret (0, cs, st'') \<and>
           (\<forall>x. (\<forall>i < length cs. x \<noteq> ucast (a + of_nat i)) \<longrightarrow>
                low (the_chip addr st') x = low (the_chip addr st) x)"
  using stub.read_back_8bit [OF assms] by blast

definition ex_eeprom :: "eeprom_type \<Rightarrow> eeprom" where
  "ex_eeprom t = \<lparr>dev = Some ''/dev/i2c-0'', i2c_address = 80, fd = 3, etype = t, write_cycle_time = 0\<rparr>"

theorem eeprog_write_read_back_witness:
  "\<exists>st' st''. write_to_eeprom (\<lambda>st. stub_xfer st 0x50) (ex_eeprom EEPROM_TYPE_8BIT_ADDR) 255 [1, 2] ex_stub = kret (0, st') \<and>
     read_from_eeprom (\<lambda>st. stub_xfer st 0x50) (ex_eeprom EEPROM_TYPE_8BIT_ADDR) 255 2 False st' = kret (0, [1, 2], st'')"
  using eeprog_write_read_back [OF ex_stub_ok, of "ex_eeprom EEPROM_TYPE_8BIT_ADDR" "[1, 2]" 255]
  by (auto simp: ex_eeprom_def)

text \<open>
  Fact: the warning of the program is justified. Reading a byte in 16-bit address mode from a
  chip with 8-bit addresses writes the low half of the address into the cell at the high half, and
  returns the cell after it.
\<close>

theorem eeprog_16bit_read_clobbers:
  assumes "stub_ok addr st" and "etype e = EEPROM_TYPE_16BIT_ADDR"
  shows "\<exists>st'. eeprom_read_byte (\<lambda>st. stub_xfer st addr) e a st =
             kret (uint (low (the_chip addr st') (ucast (drop_bit 8 a) + 1)), st') \<and>
           low (the_chip addr st') = (low (the_chip addr st))(ucast (drop_bit 8 a) := ucast a)"
proof -
  let ?h = "ucast (drop_bit 8 a) :: u8"
  from stub.write_cell [OF assms(1), of ?h "no_data\<lparr>byte := ucast a\<rparr>"] obtain st1 where st1:
    "stub_xfer st addr I2C_SMBUS_WRITE ?h I2C_SMBUS_BYTE_DATA (no_data\<lparr>byte := ucast a\<rparr>) =
       kret (0, st1, no_data\<lparr>byte := ucast a\<rparr>)"
    "stub_ok addr st1" "low (the_chip addr st1) = (low (the_chip addr st))(?h := ucast a)"
    "chip_pointer (the_chip addr st1) = ?h + 1"
    by auto
  from stub.read_current [OF st1(2), of 0 no_data] obtain st2 where
    "stub_xfer st1 addr I2C_SMBUS_READ 0 I2C_SMBUS_BYTE no_data =
       kret (0, st2, no_data\<lparr>byte := low (the_chip addr st1) (?h + 1)\<rparr>)"
    "low (the_chip addr st2) = low (the_chip addr st1)"
    using st1(4) by auto
  with st1 assms(2) show ?thesis
    by (auto simp: eeprom_read_byte_def i2c_write_2b_def i2c_smbus_write_byte_data_def i2c_smbus_read_byte_def
        i2c_smbus_access_def)
qed

theorem eeprog_16bit_read_clobbers_witness:
  "\<exists>st'. eeprom_read_byte (\<lambda>st. stub_xfer st 0x50) (ex_eeprom EEPROM_TYPE_16BIT_ADDR) 0x1207 ex_stub = kret (0, st') \<and>
         low (the_chip 0x50 st') 0x12 = 7"
proof -
  have "low (the_chip 0x50 ex_stub) = (\<lambda>_. 0)" by (auto simp: low_def the_chip_def ex_stub_def)
  then show ?thesis
    using eeprog_16bit_read_clobbers [OF ex_stub_ok, of "ex_eeprom EEPROM_TYPE_16BIT_ADDR" "0x1207"]
    by (auto simp: ex_eeprom_def)
qed

text \<open>
  An unknown option ends up as the operation with a null argument, which the argument parser reads.
\<close>

lemma eeprog_unknown_option_null:
  "eeprog_main xfer open_e exists env_dev env_addr files stdin tty0 tty_in
     [(CHR ''?'', None)] [''/dev/i2c-0'', ''0x50''] b = kfail BadDeref"
  by (simp add: eeprog_main_def eeprog_option_def default_eeopts_def eeprog_device_def parse_arg_def
      strtol0_def is_space_def hex_digit_def base_digit_def Let_def)

end
