(* ===== verification/I2c_Msg.thy ===== *)
theory I2c_Msg
  imports Prelude
begin

text \<open>
  The I2C messages the kernel passes to an adapter driver (\<open>struct i2c_msg\<close>), with the two flags the
  drivers look at: a read, and a read whose first byte tells its length.
\<close>

record i2c_msg =
  msg_addr :: u16
  msg_flags :: u16
  msg_len :: u16
  msg_buf :: bytes

definition is_read :: "i2c_msg \<Rightarrow> bool" where "is_read m \<longleftrightarrow> msg_flags m AND 0x0001 \<noteq> 0"

definition is_recv_len :: "i2c_msg \<Rightarrow> bool" where "is_recv_len m \<longleftrightarrow> msg_flags m AND 0x0400 \<noteq> 0"

text \<open>The buffer of the message has room for its length.\<close>

definition msg_holds :: "i2c_msg \<Rightarrow> bool" where
  "msg_holds m \<longleftrightarrow> unat (msg_len m) \<le> length (msg_buf m)"

end
