(* ===== verification/Devantech_Iss.thy ===== *)
theory Devantech_Iss
  imports I2c_Msg
begin

text \<open>
  The I2C adapter driver \<open>src/sources/kmods/usb-iss/kmod/i2c-devantech-iss.c\<close>: I2C messages become a
  command sequence in a 60-byte buffer, one USB exchange answers it. Appending to the buffer beyond
  its end is a fault. The exchange itself (\<open>usb_bulk_msg\<close> in both directions) is an argument: it maps
  the bytes sent and the state of the outside world to the two return codes and the bytes received.
\<close>

section \<open>Device state and the USB exchange\<close>

abbreviation (input) ISS_MAX_TRANSFER_LEN :: nat where "ISS_MAX_TRANSFER_LEN \<equiv> 60"
abbreviation (input) ISS_CMD_I2C_DIRECT :: u8 where "ISS_CMD_I2C_DIRECT \<equiv> 0x57"
abbreviation (input) ISS_CMD_I2C_INTERNAL :: u8 where "ISS_CMD_I2C_INTERNAL \<equiv> 0x5a"
abbreviation (input) ISS_I2C_START :: u8 where "ISS_I2C_START \<equiv> 0x01"
abbreviation (input) ISS_I2C_RESTART :: u8 where "ISS_I2C_RESTART \<equiv> 0x02"
abbreviation (input) ISS_I2C_STOP :: u8 where "ISS_I2C_STOP \<equiv> 0x03"
abbreviation (input) ISS_I2C_NACK :: u8 where "ISS_I2C_NACK \<equiv> 0x04"

definition ISS_I2C_READ :: "nat \<Rightarrow> u8" where "ISS_I2C_READ n = 0x20 + of_nat n - 1"

definition ISS_I2C_WRITE :: "nat \<Rightarrow> u8" where "ISS_I2C_WRITE n = 0x30 + of_nat n - 1"

type_synonym 'u usb_exchange = "bytes \<Rightarrow> 'u \<Rightarrow> (int \<times> int \<times> bytes) \<times> 'u"

text \<open>The result code, the buffer afterwards, and the outside world. Receiving stores at most 60 bytes.\<close>

definition devantech_usb_transfer ::
  "'u usb_exchange \<Rightarrow> bytes \<Rightarrow> nat \<Rightarrow> 'u \<Rightarrow> int \<times> bytes \<times> 'u" where
  "devantech_usb_transfer usb buffer len u =
     (if len = 0 \<or> ISS_MAX_TRANSFER_LEN < len then (-22, buffer, u)
      else case usb (take len buffer) u of ((sent, received, bs), u) \<Rightarrow>
        if sent \<noteq> 0 then (sent, buffer, u)
        else
          let bs = take ISS_MAX_TRANSFER_LEN bs; buffer = bs @ drop (length bs) buffer in
          (if received = 0 \<and> bs \<noteq> [] then int (length bs) else received, buffer, u))"

definition devantech_set_speed :: "'u usb_exchange \<Rightarrow> u8 \<Rightarrow> bytes \<Rightarrow> 'u \<Rightarrow> int \<times> bytes \<times> 'u" where
  "devantech_set_speed usb speed buffer u =
     (case devantech_usb_transfer usb
             (buffer[0 := ISS_CMD_I2C_INTERNAL, 1 := 0x02, 2 := speed, 3 := 0x04]) 4 u of
        (ret, buffer, u) \<Rightarrow>
          (if ret < 0 then ret else if buffer ! 0 = 0 then -22 else 0, buffer, u))"

definition devantech_fw_version :: "'u usb_exchange \<Rightarrow> bytes \<Rightarrow> 'u \<Rightarrow> bytes \<times> 'u" where
  "devantech_fw_version usb buffer u =
     snd (devantech_usb_transfer usb (buffer[0 := ISS_CMD_I2C_INTERNAL, 1 := 0x01]) 2 u)"

definition devantech_get_serial :: "'u usb_exchange \<Rightarrow> bytes \<Rightarrow> 'u \<Rightarrow> (bytes \<times> 'u) kres" where
  "devantech_get_serial usb buffer u =
     (case devantech_usb_transfer usb (buffer[0 := ISS_CMD_I2C_INTERNAL, 1 := 0x03]) 2 u of
        (ret, buffer, u) \<Rightarrow>
          if ret < 8 then kret (buffer, u)
          else if int ISS_MAX_TRANSFER_LEN \<le> ret then kfail BufferOverrun
          else kret (buffer[nat ret := 0], u))"

text \<open>The mode byte for a requested frequency, and the frequency that it stands for.\<close>

definition iss_speed :: "u32 \<Rightarrow> u8 \<times> u32" where
  "iss_speed frequency =
     (if 1000000 \<le> frequency then (0x80, 1000000)
      else if 400000 \<le> frequency then (0x70, 400000)
      else if 100000 \<le> frequency \<or> frequency = 0 then (0x60, 100000)
      else if 50000 \<le> frequency then (0x30, 50000)
      else (0x20, 20000))"

definition devantech_init ::
  "'u usb_exchange \<Rightarrow> u32 \<Rightarrow> bytes \<Rightarrow> 'u \<Rightarrow> (int \<times> u32 \<times> bytes \<times> 'u) kres" where
  "devantech_init usb frequency buffer u =
     (let (speed, frequency) = iss_speed frequency;
          (buffer, u) = devantech_fw_version usb buffer u
      in kbind (devantech_get_serial usb buffer u) (\<lambda>(buffer, u).
         let (ret, buffer, u) = devantech_set_speed usb speed buffer u in
         kret (ret, frequency, buffer, u)))"

section \<open>The command sequence of a transfer\<close>

text \<open>The buffer and the number of bytes in it.\<close>

type_synonym cmdbuf = "bytes \<times> nat"

definition buf_put :: "u8 \<Rightarrow> cmdbuf \<Rightarrow> cmdbuf kres" where
  "buf_put b st =
     (case st of (buffer, len) \<Rightarrow>
        if len < ISS_MAX_TRANSFER_LEN then kret (buffer[len := b], len + 1) else kfail BufferOverrun)"

fun buf_puts :: "bytes \<Rightarrow> cmdbuf \<Rightarrow> cmdbuf kres" where
  "buf_puts [] st = kret st"
| "buf_puts (b # bs) st = kbind (buf_put b st) (buf_puts bs)"

function read_cmds :: "nat \<Rightarrow> cmdbuf \<Rightarrow> cmdbuf kres" where
  "read_cmds rlen st =
     (if 16 < rlen then kbind (buf_put (ISS_I2C_READ 16) st) (read_cmds (rlen - 16))
      else
        kbind (if 1 < rlen then buf_put (ISS_I2C_READ (rlen - 1)) st else kret st)
          (buf_puts [ISS_I2C_NACK, ISS_I2C_READ 1]))"
  by pat_completeness auto

termination read_cmds by (relation "measure fst") auto

declare read_cmds.simps [simp del]

text \<open>The write loop returns 0, or \<open>-EINVAL\<close> when the rest of the message does not fit.\<close>

function write_cmds :: "i2c_msg \<Rightarrow> nat \<Rightarrow> cmdbuf \<Rightarrow> (int \<times> cmdbuf) kres" where
  "write_cmds m rlen st =
     (if unat (msg_len m) \<le> rlen then kret (0, st)
      else
        let clen = min (unat (msg_len m) - rlen) 16 in
        (if ISS_MAX_TRANSFER_LEN - 2 < snd st + clen then kret (-22, st)
         else if length (msg_buf m) < rlen + clen then kfail BadDeref
         else
           kbind (buf_put (ISS_I2C_WRITE clen) st) (\<lambda>st.
           kbind (buf_puts (slice rlen clen (msg_buf m)) st) (write_cmds m (rlen + 16)))))"
  by pat_completeness auto

termination write_cmds by (relation "measure (\<lambda>(m, rlen, _). unat (msg_len m) - rlen)") auto

declare write_cmds.simps [simp del]

definition msg_cmds :: "i2c_msg \<Rightarrow> cmdbuf \<Rightarrow> (int \<times> cmdbuf) kres" where
  "msg_cmds m st =
     (if is_read m then
        kbind (buf_puts [ISS_I2C_WRITE 1, ucast (push_bit 1 (msg_addr m)) OR 1] st) (\<lambda>st.
        kbind (if is_recv_len m then buf_puts [ISS_I2C_READ 16, ISS_I2C_READ 16, ISS_I2C_NACK, ISS_I2C_READ 1] st
               else read_cmds (min (unat (msg_len m)) (ISS_MAX_TRANSFER_LEN - 8)) st)
          (\<lambda>st. kret (0, st)))
      else
        kbind (buf_puts [ISS_I2C_WRITE 1, ucast (push_bit 1 (msg_addr m))] st) (write_cmds m 0))"

fun msgs_cmds :: "bool \<Rightarrow> i2c_msg list \<Rightarrow> cmdbuf \<Rightarrow> (int \<times> cmdbuf) kres" where
  "msgs_cmds first [] st = kret (0, st)"
| "msgs_cmds first (m # msgs) st =
     kbind (if first then kret st else buf_put ISS_I2C_RESTART st) (\<lambda>st.
     kbind (msg_cmds m st) (\<lambda>(ret, st).
     if ret \<noteq> 0 then kret (ret, st) else msgs_cmds False msgs st))"

definition encode_msgs :: "i2c_msg list \<Rightarrow> bytes \<Rightarrow> (int \<times> cmdbuf) kres" where
  "encode_msgs msgs buffer =
     kbind (buf_puts [ISS_CMD_I2C_DIRECT, ISS_I2C_START] (buffer, 0)) (\<lambda>st.
     kbind (msgs_cmds True msgs st) (\<lambda>(ret, st).
     if ret \<noteq> 0 then kret (ret, st) else kbind (buf_put ISS_I2C_STOP st) (\<lambda>st. kret (0, st))))"

section \<open>The transfer\<close>

text \<open>Copying received data back: \<open>n\<close> bytes from offset 2 of the buffer into the message.\<close>

definition copy_back :: "nat \<Rightarrow> bytes \<Rightarrow> i2c_msg \<Rightarrow> i2c_msg kres" where
  "copy_back n buffer m =
     (if n = 0 then kret m
      else if length buffer < n + 2 \<or> length (msg_buf m) < n then kfail BufferOverrun
      else kret (m\<lparr>msg_buf := slice 2 n buffer @ drop n (msg_buf m)\<rparr>))"

definition iss_reply :: "int \<Rightarrow> bytes \<Rightarrow> i2c_msg \<Rightarrow> (int \<times> i2c_msg) kres" where
  "iss_reply ret buffer m =
     (if \<not> is_read m then kret (0, m)
      else if is_recv_len m then
        let rlen = unat (buffer ! 2) in
        (if rlen = 0 \<or> 32 < rlen \<or> ret - 2 < int rlen then kret (-71, m)
         else
           let m = m\<lparr>msg_len := msg_len m + of_nat rlen\<rparr> in
           kbind (copy_back (unat (msg_len m)) buffer m) (\<lambda>m. kret (0, m)))
      else kbind (copy_back (nat (ret - 2)) buffer m) (\<lambda>m. kret (0, m)))"

definition devantech_usb_xfer ::
  "'u usb_exchange \<Rightarrow> i2c_msg list \<Rightarrow> bytes \<Rightarrow> 'u \<Rightarrow> (int \<times> i2c_msg list \<times> bytes \<times> 'u) kres" where
  "devantech_usb_xfer usb msgs buffer u =
     kbind (encode_msgs msgs buffer) (\<lambda>(ret, buffer, len).
     if ret \<noteq> 0 then kret (ret, msgs, buffer, u)
     else
       let (ret, buffer, u) = devantech_usb_transfer usb buffer len u in
       (if ret < 0 then kret (ret, msgs, buffer, u)
        else if ret < 2 then kret (-5, msgs, buffer, u)
        else if buffer ! 0 = 0x00 then kret (if buffer ! 1 = 0x01 then -6 else -5, msgs, buffer, u)
        else if msgs = [] then kfail BadDeref
        else
          kbind (iss_reply ret buffer (last msgs)) (\<lambda>(ret, m).
          kret (ret, butlast msgs @ [m], buffer, u))))"

definition devantech_usb_func :: u32 where
  "devantech_usb_func = 0x00000001 OR 0x0eff0008 OR 0x01000000 OR 0x00008000"

section \<open>Probe and disconnect\<close>

text \<open>
  What the driver holds: memory, references to the device and to the data interface, the claim of
  the data interface, the driver data of both interfaces, the registered adapter.
\<close>

record iss_driver =
  devices :: nat
  dev_refs :: nat
  intf_refs :: nat
  claimed :: bool
  ctl_data :: bool
  data_data :: bool
  adapters :: nat
  iss_frequency :: u32

text \<open>The data interface: bound to a driver or not, and the number of its endpoints.\<close>

record data_if =
  if_claimed :: bool
  if_endpoints :: nat

definition devantech_iss_free :: "iss_driver \<Rightarrow> iss_driver" where
  "devantech_iss_free d = d\<lparr>dev_refs := dev_refs d - 1, devices := devices d - 1\<rparr>"

text \<open>The label \<open>error_release\<close> with everything below it.\<close>

definition iss_release :: "iss_driver \<Rightarrow> iss_driver" where
  "iss_release d =
     devantech_iss_free
       (d\<lparr>ctl_data := False, data_data := False, claimed := False, intf_refs := intf_refs d - 1\<rparr>)"

text \<open>
  \<open>mem\<close>: the allocation succeeds; \<open>control\<close>: the probe is for interface 0; \<open>usb_if\<close>: interface 1;
  \<open>claim\<close> and \<open>add\<close>: the results of claiming the interface and of registering the adapter. The buffer
  of a new device is zero.
\<close>

definition devantech_iss_probe ::
  "'u usb_exchange \<Rightarrow> bool \<Rightarrow> bool \<Rightarrow> data_if option \<Rightarrow> int \<Rightarrow> int \<Rightarrow> iss_driver \<Rightarrow> 'u \<Rightarrow>
   (int \<times> iss_driver \<times> 'u) kres" where
  "devantech_iss_probe usb mem control usb_if claim add d u =
     (if \<not> mem then kret (-12, d, u)
      else
        let d = d\<lparr>devices := devices d + 1, dev_refs := dev_refs d + 1\<rparr> in
        (if \<not> control then kret (-19, devantech_iss_free d, u)
         else case usb_if of None \<Rightarrow> kret (-19, devantech_iss_free d, u)
         | Some i \<Rightarrow>
             if if_claimed i then kret (-16, devantech_iss_free d, u)
             else if if_endpoints i < 2 then kret (-22, devantech_iss_free d, u)
             else
               let d = d\<lparr>intf_refs := intf_refs d + 1\<rparr> in
               (if claim < 0 then kret (claim, devantech_iss_free (d\<lparr>intf_refs := intf_refs d - 1\<rparr>), u)
                else
                  let d = d\<lparr>claimed := True, data_data := True, ctl_data := True\<rparr> in
                  kbind (devantech_init usb (iss_frequency d) (replicate ISS_MAX_TRANSFER_LEN 0) u)
                    (\<lambda>(ret, frequency, _, u).
                     let d = d\<lparr>iss_frequency := frequency\<rparr> in
                     if ret < 0 then kret (ret, iss_release d, u)
                     else if add < 0 then kret (add, iss_release d, u)
                     else kret (0, d\<lparr>adapters := adapters d + 1\<rparr>, u)))))"

text \<open>A disconnect of the data interface does nothing.\<close>

definition devantech_iss_disconnect :: "nat \<Rightarrow> iss_driver \<Rightarrow> iss_driver" where
  "devantech_iss_disconnect bInterfaceNumber d =
     (if bInterfaceNumber \<noteq> 0 then d else iss_release (d\<lparr>adapters := adapters d - 1\<rparr>))"

section \<open>The bus events of a command sequence\<close>

text \<open>
  The reference: what the adapter does on the I2C bus for a sequence of direct commands. \<open>Rd True\<close> is
  a byte read and acknowledged, \<open>Rd False\<close> one that is not, which ends a read.
\<close>

datatype bus_event = Start | Restart | Stop | Wr u8 | Rd bool

function bus_events :: "bool \<Rightarrow> bytes \<Rightarrow> bus_event list option" where
  "bus_events nack [] = Some []"
| "bus_events nack (c # cs) =
     (if c = 1 then map_option ((#) Start) (bus_events nack cs)
      else if c = 2 then map_option ((#) Restart) (bus_events nack cs)
      else if c = 3 then map_option ((#) Stop) (bus_events nack cs)
      else if c = 4 then bus_events True cs
      else if 32 \<le> unat c \<and> unat c < 48 then
        map_option ((@) (replicate (unat c - 32) (Rd True) @ [Rd (\<not> nack)])) (bus_events False cs)
      else if 48 \<le> unat c \<and> unat c < 64 \<and> unat c - 47 \<le> length cs then
        map_option ((@) (map Wr (take (unat c - 47) cs))) (bus_events nack (drop (unat c - 47) cs))
      else None)"
  by pat_completeness auto

termination bus_events by (relation "measure (\<lambda>(_, cs). length cs)") auto

text \<open>What a message asks for: its address with the direction bit, then its bytes.\<close>

definition read_events :: "nat \<Rightarrow> bus_event list" where
  "read_events n = replicate (n - 1) (Rd True) @ [Rd False]"

definition msg_events :: "i2c_msg \<Rightarrow> bus_event list" where
  "msg_events m =
     (if is_read m then
        Wr (ucast (push_bit 1 (msg_addr m)) OR 1) #
        read_events (if is_recv_len m then 33 else min (unat (msg_len m)) 52)
      else Wr (ucast (push_bit 1 (msg_addr m))) # map Wr (take (unat (msg_len m)) (msg_buf m)))"

fun msgs_events :: "bool \<Rightarrow> i2c_msg list \<Rightarrow> bus_event list" where
  "msgs_events first [] = []"
| "msgs_events first (m # msgs) = (if first then [] else [Restart]) @ msg_events m @ msgs_events False msgs"

section \<open>The buffer as a growing sequence\<close>

definition holds_cmds :: "cmdbuf \<Rightarrow> bytes \<Rightarrow> bool" where
  "holds_cmds st cs \<longleftrightarrow> length (fst st) = 60 \<and> snd st = length cs \<and> take (length cs) (fst st) = cs"

lemma buf_put_holds:
  assumes "holds_cmds st cs" "length cs < 60"
  shows "\<exists>st'. buf_put b st = kret st' \<and> holds_cmds st' (cs @ [b])"
proof -
  obtain buffer len where st: "st = (buffer, len)" by (cases st)
  have "take (Suc len) (buffer[len := b]) = take len buffer @ [b]"
    using assms by (simp add: st holds_cmds_def take_Suc_conv_app_nth)
  then show ?thesis using assms by (auto simp: st holds_cmds_def buf_put_def)
qed

lemma buf_puts_holds:
  "holds_cmds st cs \<Longrightarrow> length cs + length bs \<le> 60 \<Longrightarrow>
   \<exists>st'. buf_puts bs st = kret st' \<and> holds_cmds st' (cs @ bs)"
proof (induction bs arbitrary: st cs)
  case (Cons b bs)
  from buf_put_holds [OF Cons.prems(1), of b] Cons.prems(2) obtain st1 where
    "buf_put b st = kret st1" "holds_cmds st1 (cs @ [b])" by auto
  with Cons.IH [of st1 "cs @ [b]"] Cons.prems(2) show ?case by auto
qed auto

text \<open>The commands of a read of \<open>n\<close> bytes, and of a write.\<close>

function rcmds :: "nat \<Rightarrow> bytes" where
  "rcmds n = (if 16 < n then ISS_I2C_READ 16 # rcmds (n - 16)
              else (if 1 < n then [ISS_I2C_READ (n - 1)] else []) @ [ISS_I2C_NACK, ISS_I2C_READ 1])"
  by pat_completeness auto

termination rcmds by (relation "measure id") auto

declare rcmds.simps [simp del]

function wcmds :: "bytes \<Rightarrow> bytes" where
  "wcmds bs = (if bs = [] then [] else ISS_I2C_WRITE (min (length bs) 16) # take 16 bs @ wcmds (drop 16 bs))"
  by pat_completeness auto

termination wcmds by (relation "measure length") (auto simp: not_le)

declare wcmds.simps [simp del]

lemma buf_puts_append: "buf_puts (as @ bs) st = kbind (buf_puts as st) (buf_puts bs)"
  by (induction as arbitrary: st) (auto simp: kbind_assoc intro!: kbind_cong)

lemma buf_puts_single: "buf_puts [b] = buf_put b"
proof
  fix st show "buf_puts [b] st = buf_put b st" by (cases "buf_put b st" rule: kres_cases) simp_all
qed

lemma read_cmds_puts: "read_cmds n st = buf_puts (rcmds n) st"
proof (induction n arbitrary: st rule: rcmds.induct)
  case (1 n)
  then show ?case
    by (auto simp: read_cmds.simps [of n] rcmds.simps [of n] buf_puts_single intro!: kbind_cong)
qed

lemma buf_puts_overrun:
  "holds_cmds st cs \<Longrightarrow> length cs \<le> 60 \<Longrightarrow> 60 < length cs + length bs \<Longrightarrow> buf_puts bs st = kfail BufferOverrun"
proof (induction bs arbitrary: st cs)
  case (Cons b bs)
  show ?case
  proof (cases "length cs < 60")
    case True
    from buf_put_holds [OF Cons.prems(1) this, of b] obtain st' where
      "buf_put b st = kret st'" "holds_cmds st' (cs @ [b])" by blast
    with Cons.IH [of st' "cs @ [b]"] Cons.prems True show ?thesis by simp
  next
    case False
    with Cons.prems show ?thesis by (cases st) (simp add: buf_put_def holds_cmds_def)
  qed
qed simp

text \<open>A write fits exactly when its commands leave room for the stop command.\<close>

lemma write_cmds_holds:
  assumes "unat (msg_len m) \<le> length (msg_buf m)"
  shows "holds_cmds st cs \<Longrightarrow> length cs \<le> 59 \<Longrightarrow>
    (if length cs + length (wcmds (drop rlen (take (unat (msg_len m)) (msg_buf m)))) \<le> 59
     then \<exists>st'. write_cmds m rlen st = kret (0, st') \<and>
                holds_cmds st' (cs @ wcmds (drop rlen (take (unat (msg_len m)) (msg_buf m))))
     else \<exists>st'. write_cmds m rlen st = kret (-22, st'))"
proof (induction "unat (msg_len m) - rlen" arbitrary: rlen st cs rule: less_induct)
  case less
  define n where "n = unat (msg_len m)"
  define rest where "rest = drop rlen (take n (msg_buf m))"
  define clen where "clen = min (n - rlen) 16"
  show ?case
  proof (cases "n \<le> rlen")
    case True
    with less.prems show ?thesis by (auto simp: write_cmds.simps [of m] wcmds.simps n_def)
  next
    case False
    have len: "length rest = n - rlen" using assms by (simp add: rest_def n_def)
    have w: "wcmds rest = ISS_I2C_WRITE clen # slice rlen clen (msg_buf m) @ wcmds (drop (rlen + 16) (take n (msg_buf m)))"
    proof -
      have "take 16 rest = slice rlen clen (msg_buf m)"
        by (simp add: rest_def slice_def clen_def drop_take min.commute)
      moreover have "rest \<noteq> []" "min (length rest) 16 = clen" using False len by (auto simp: clen_def)
      moreover have "drop 16 rest = drop (rlen + 16) (take n (msg_buf m))" by (simp add: rest_def add.commute)
      ultimately show ?thesis by (simp add: wcmds.simps [of rest])
    qed
    have sl: "length (slice rlen clen (msg_buf m)) = clen"
      using assms False by (simp add: slice_def clen_def n_def)
    have snd: "snd st = length cs" using less.prems by (simp add: holds_cmds_def)
    show ?thesis
    proof (cases "58 < length cs + clen")
      case True
      then have "\<not> length cs + length (wcmds rest) \<le> 59" by (simp add: w sl)
      moreover have "write_cmds m rlen st = kret (-22, st)"
        using False True snd by (simp add: write_cmds.simps [of m] Let_def n_def clen_def)
      ultimately show ?thesis by (simp add: rest_def n_def)
    next
      case fits: False
      from buf_put_holds [OF less.prems(1), of "ISS_I2C_WRITE clen"] fits obtain st1 where st1:
        "buf_put (ISS_I2C_WRITE clen) st = kret st1" "holds_cmds st1 (cs @ [ISS_I2C_WRITE clen])" by auto
      from buf_puts_holds [OF st1(2), of "slice rlen clen (msg_buf m)"] fits sl obtain st2 where st2:
        "buf_puts (slice rlen clen (msg_buf m)) st1 = kret st2"
        "holds_cmds st2 ((cs @ [ISS_I2C_WRITE clen]) @ slice rlen clen (msg_buf m))" by auto
      have "rlen + clen \<le> length (msg_buf m)" using assms False by (simp add: clen_def n_def)
      then have step: "write_cmds m rlen st = write_cmds m (rlen + 16) st2"
        using False fits snd st1(1) st2(1)
        by (simp add: write_cmds.simps [of m rlen] Let_def n_def [symmetric] clen_def [symmetric])
      have "unat (msg_len m) - (rlen + 16) < unat (msg_len m) - rlen" using False by (simp add: n_def)
      from less.hyps [OF this st2(2)] show ?thesis
        using fits
        by (auto simp: step sl w n_def [symmetric] rest_def [symmetric] ac_simps simp del: split_paired_Ex split: if_splits)
    qed
  qed
qed

text \<open>The commands of a message and of a transfer, and their number.\<close>

definition mcmds :: "i2c_msg \<Rightarrow> bytes" where
  "mcmds m =
     (if is_read m then
        [ISS_I2C_WRITE 1, ucast (push_bit 1 (msg_addr m)) OR 1] @
        (if is_recv_len m then [ISS_I2C_READ 16, ISS_I2C_READ 16, ISS_I2C_NACK, ISS_I2C_READ 1]
         else rcmds (min (unat (msg_len m)) 52))
      else [ISS_I2C_WRITE 1, ucast (push_bit 1 (msg_addr m))] @ wcmds (take (unat (msg_len m)) (msg_buf m)))"

fun scmds :: "bool \<Rightarrow> i2c_msg list \<Rightarrow> bytes" where
  "scmds first [] = []"
| "scmds first (m # msgs) = (if first then [] else [ISS_I2C_RESTART]) @ mcmds m @ scmds False msgs"

definition msg_room :: "i2c_msg \<Rightarrow> nat" where
  "msg_room m =
     (if is_read m then if is_recv_len m then 6 else 4 + (min (unat (msg_len m)) 52 + 14) div 16
      else 2 + unat (msg_len m) + (unat (msg_len m) + 15) div 16)"

lemma length_rcmds: "length (rcmds n) = 2 + (n + 14) div 16"
proof (induction n rule: rcmds.induct)
  case (1 n)
  have "(n + 14) div 16 = 1 + (n - 16 + 14) div 16" if "16 < n"
  proof -
    have "n + 14 = n - 16 + 14 + 16" using that by simp
    then show ?thesis by (metis add.commute div_add_self2 zero_neq_numeral)
  qed
  moreover have "(n + 14) div 16 = (if 1 < n then 1 else 0)" if "\<not> 16 < n"
    using that by (cases "1 < n") (auto intro: div_nat_eqI)
  ultimately show ?case using 1 by (auto simp: rcmds.simps [of n])
qed

lemma length_wcmds: "length (wcmds bs) = length bs + (length bs + 15) div 16"
proof (induction bs rule: wcmds.induct)
  case (1 bs)
  consider "bs = []" | "bs \<noteq> []" "length bs \<le> 16" | "16 < length bs" by linarith
  then show ?case
  proof cases
    case 2
    then have "(length bs + 15) div 16 = 1" by (cases bs) (auto intro: div_nat_eqI)
    with 2 show ?thesis by (simp add: wcmds.simps [of bs] wcmds.simps [of "[]"])
  next
    case 3
    then have "length bs + 15 = length bs - 16 + 15 + 16" by simp
    then have "(length bs + 15) div 16 = 1 + (length bs - 16 + 15) div 16"
      by (metis add.commute div_add_self2 zero_neq_numeral)
    with 3 1 show ?thesis by (auto simp: wcmds.simps [of bs])
  qed (simp add: wcmds.simps)
qed

lemma length_mcmds: "msg_holds m \<Longrightarrow> length (mcmds m) = msg_room m"
  by (simp add: mcmds_def msg_room_def length_rcmds length_wcmds msg_holds_def)

lemma msg_cmds_read: "is_read m \<Longrightarrow> msg_cmds m st = kbind (buf_puts (mcmds m) st) (\<lambda>st. kret (0, st))"
  unfolding msg_cmds_def mcmds_def
  by (simp only: if_True buf_puts_append read_cmds_puts kbind_assoc) (simp add: kbind_assoc read_cmds_puts)

lemma msg_cmds_holds:
  assumes "holds_cmds st cs" "msg_holds m" "length cs + length (mcmds m) \<le> 59"
  shows "\<exists>st'. msg_cmds m st = kret (0, st') \<and> holds_cmds st' (cs @ mcmds m)"
proof (cases "is_read m")
  case True
  with buf_puts_holds [OF assms(1), of "mcmds m"] assms(3) show ?thesis by (auto simp: msg_cmds_read)
next
  case False
  let ?a = "[ISS_I2C_WRITE 1, ucast (push_bit 1 (msg_addr m))]"
  have m: "mcmds m = ?a @ wcmds (take (unat (msg_len m)) (msg_buf m))" using False by (simp add: mcmds_def)
  from buf_puts_holds [OF assms(1), of ?a] assms(3) m obtain st1 where
    st1: "buf_puts ?a st = kret st1" "holds_cmds st1 (cs @ ?a)" by auto
  from write_cmds_holds [OF _ st1(2), of m 0] assms(2,3) st1(1) False show ?thesis
    by (simp add: m msg_cmds_def msg_holds_def del: buf_puts.simps)
qed

lemma msgs_cmds_holds:
  "holds_cmds st cs \<Longrightarrow> list_all msg_holds msgs \<Longrightarrow> length cs + length (scmds first msgs) \<le> 59 \<Longrightarrow>
   \<exists>st'. msgs_cmds first msgs st = kret (0, st') \<and> holds_cmds st' (cs @ scmds first msgs)"
proof (induction msgs arbitrary: first st cs)
  case (Cons m msgs)
  let ?r = "if first then [] else [ISS_I2C_RESTART]"
  from buf_puts_holds [OF Cons.prems(1), of ?r] Cons.prems(3) obtain st1 where
    st1: "buf_puts ?r st = kret st1" "holds_cmds st1 (cs @ ?r)" by (auto split: if_splits)
  have r: "(if first then kret st else buf_put ISS_I2C_RESTART st) = kret st1"
    using st1(1) by (cases first) (auto simp: buf_puts_single simp del: buf_puts.simps(2))
  from msg_cmds_holds [OF st1(2), of m] Cons.prems obtain st2 where
    st2: "msg_cmds m st1 = kret (0, st2)" "holds_cmds st2 ((cs @ ?r) @ mcmds m)" by auto
  from Cons.IH [OF st2(2), of False] Cons.prems(2,3) r st2(1) show ?case by auto
qed simp

lemma length_scmds:
  "list_all msg_holds msgs \<Longrightarrow>
   length (scmds first msgs) = sum_list (map msg_room msgs) + (if first then length msgs - 1 else length msgs)"
  by (induction msgs arbitrary: first) (auto simp: length_mcmds)

section \<open>What the commands do on the bus\<close>

lemma unat_iss_read: "1 \<le> k \<Longrightarrow> k \<le> 16 \<Longrightarrow> unat (ISS_I2C_READ k) = 31 + k"
proof -
  assume k: "1 \<le> k" "k \<le> 16"
  then have "ISS_I2C_READ k = of_nat (31 + k)" by (simp add: ISS_I2C_READ_def)
  moreover have "unat (of_nat (31 + k) :: u8) = 31 + k"
    using k by (simp only: unat_of_nat) (simp add: take_bit_nat_eq_self)
  ultimately show ?thesis by simp
qed

lemma unat_iss_write: "1 \<le> k \<Longrightarrow> k \<le> 16 \<Longrightarrow> unat (ISS_I2C_WRITE k) = 47 + k"
proof -
  assume k: "1 \<le> k" "k \<le> 16"
  then have "ISS_I2C_WRITE k = of_nat (47 + k)" by (simp add: ISS_I2C_WRITE_def)
  moreover have "unat (of_nat (47 + k) :: u8) = 47 + k"
    using k by (simp only: unat_of_nat) (simp add: take_bit_nat_eq_self)
  ultimately show ?thesis by simp
qed

lemma iss_not_control: "5 \<le> unat (c :: u8) \<Longrightarrow> c \<noteq> 1 \<and> c \<noteq> 2 \<and> c \<noteq> 3 \<and> c \<noteq> 4"
  by (auto simp: word_unat_eq_iff)

lemma bus_events_read:
  assumes "1 \<le> k" "k \<le> 16"
  shows "bus_events nack (ISS_I2C_READ k # cs) =
    map_option ((@) (replicate (k - 1) (Rd True) @ [Rd (\<not> nack)])) (bus_events False cs)"
  using assms unat_iss_read [OF assms] iss_not_control [of "ISS_I2C_READ k"] by auto

lemma bus_events_write:
  assumes "1 \<le> length bs" "length bs \<le> 16"
  shows "bus_events nack (ISS_I2C_WRITE (length bs) # bs @ cs) =
    map_option ((@) (map Wr bs)) (bus_events nack cs)"
  using assms unat_iss_write [OF assms] iss_not_control [of "ISS_I2C_WRITE (length bs)"] by auto

lemma bus_events_control:
  "bus_events nack (1 # cs) = map_option ((#) Start) (bus_events nack cs)"
  "bus_events nack (2 # cs) = map_option ((#) Restart) (bus_events nack cs)"
  "bus_events nack (3 # cs) = map_option ((#) Stop) (bus_events nack cs)"
  "bus_events nack (4 # cs) = bus_events True cs"
  by (simp_all add: word_unat_eq_iff)

declare bus_events.simps(2) [simp del] bus_events_control [simp]

lemma bus_events_rcmds: "bus_events False (rcmds n @ cs) = map_option ((@) (read_events n)) (bus_events False cs)"
proof (induction n rule: rcmds.induct)
  case (1 n)
  have n: "bus_events True (ISS_I2C_READ 1 # cs) = map_option ((@) [Rd False]) (bus_events False cs)"
    using bus_events_read [of 1 True cs] by simp
  show ?case
  proof (cases "16 < n")
    case True
    then have "n - 1 = 16 + (n - 16 - 1)" by simp
    then have "read_events n = replicate 16 (Rd True) @ read_events (n - 16)"
      unfolding read_events_def by (metis append.assoc replicate_add)
    moreover have "replicate (16 - 1) (Rd True) @ [Rd True] = replicate 16 (Rd True)" by (simp add: eval_nat_numeral)
    ultimately show ?thesis
      using True "1.IH" bus_events_read [of 16 False "rcmds (n - 16) @ cs"]
      by (simp add: rcmds.simps [of n] option.map_comp comp_def)
  next
    case False
    show ?thesis
    proof (cases "1 < n")
      case True
      with False bus_events_read [of "n - 1" False "4 # ISS_I2C_READ 1 # cs"] n show ?thesis
        by (simp add: rcmds.simps [of n] read_events_def option.map_comp comp_def replicate_append_same
            Suc_diff_Suc flip: replicate_Suc)
    next
      case False
      moreover have "(@) [Rd False] = (#) (Rd False)" by auto
      ultimately show ?thesis using n by (simp add: rcmds.simps [of n] read_events_def)
    qed
  qed
qed

lemma bus_events_wcmds: "bus_events False (wcmds bs @ cs) = map_option ((@) (map Wr bs)) (bus_events False cs)"
proof (induction bs rule: wcmds.induct)
  case (1 bs)
  show ?case
  proof (cases "bs = []")
    case False
    have "bus_events False (ISS_I2C_WRITE (length (take 16 bs)) # take 16 bs @ wcmds (drop 16 bs) @ cs) =
      map_option ((@) (map Wr (take 16 bs))) (bus_events False (wcmds (drop 16 bs) @ cs))"
      by (rule bus_events_write) (use False in \<open>auto simp: Suc_le_eq\<close>)
    then show ?thesis
      using 1 False
      by (simp add: wcmds.simps [of bs] option.map_comp comp_def flip: map_append append_assoc)
  qed (simp add: wcmds.simps option.map_ident)
qed

lemma bus_events_mcmds:
  "bus_events False (mcmds m @ cs) = map_option ((@) (msg_events m)) (bus_events False cs)"
proof -
  have a: "bus_events False (ISS_I2C_WRITE (Suc 0) # a # cs) = map_option ((#) (Wr a)) (bus_events False cs)" for a cs
    using bus_events_write [of "[a]" False cs] by (cases "bus_events False cs") simp_all
  have "rcmds 33 = [ISS_I2C_READ 16, ISS_I2C_READ 16, ISS_I2C_NACK, ISS_I2C_READ 1]"
    by (simp add: rcmds.simps)
  with bus_events_rcmds [of 33 cs] show ?thesis
    by (cases "bus_events False cs") (simp_all add: mcmds_def msg_events_def a bus_events_rcmds bus_events_wcmds)
qed

lemma bus_events_scmds:
  "bus_events False (scmds first msgs @ cs) = map_option ((@) (msgs_events first msgs)) (bus_events False cs)"
  by (cases "bus_events False cs"; induction msgs arbitrary: first) (simp_all add: bus_events_mcmds)

lemma encode_msgs_holds:
  assumes "length buffer = 60" "list_all msg_holds msgs" "length (scmds True msgs) \<le> 57"
  shows "\<exists>st. encode_msgs msgs buffer = kret (0, st) \<and>
    holds_cmds st (ISS_CMD_I2C_DIRECT # ISS_I2C_START # scmds True msgs @ [ISS_I2C_STOP])"
proof -
  have "holds_cmds (buffer, 0) []" using assms(1) by (simp add: holds_cmds_def)
  from buf_puts_holds [OF this, of "[ISS_CMD_I2C_DIRECT, ISS_I2C_START]"] obtain st0 where
    st0: "buf_puts [ISS_CMD_I2C_DIRECT, ISS_I2C_START] (buffer, 0) = kret st0"
      "holds_cmds st0 [ISS_CMD_I2C_DIRECT, ISS_I2C_START]" by auto
  from msgs_cmds_holds [OF st0(2) assms(2), of True] assms(3) obtain st1 where
    st1: "msgs_cmds True msgs st0 = kret (0, st1)"
      "holds_cmds st1 ([ISS_CMD_I2C_DIRECT, ISS_I2C_START] @ scmds True msgs)" by auto
  from buf_put_holds [OF st1(2), of ISS_I2C_STOP] assms(3) st0(1) st1(1) show ?thesis
    by (auto simp: encode_msgs_def simp del: buf_puts.simps)
qed

text \<open>A single message either fits or is refused; a long write before a read does not fit.\<close>

lemma encode_single:
  assumes "length buffer = 60" "msg_holds m"
  shows "\<exists>st. encode_msgs [m] buffer = kret (if is_read m \<or> unat (msg_len m) \<le> 51 then 0 else -22, st)"
proof (cases "is_read m \<or> unat (msg_len m) \<le> 51")
  case True
  have r: "(k + 14) div 16 \<le> 4" if "k \<le> 52" for k :: nat
    using div_le_mono [of "k + 14" 66 16] that by simp
  have w: "(k + 15) div 16 \<le> 4" if "k \<le> 51" for k :: nat
    using div_le_mono [of "k + 15" 66 16] that by simp
  have "msg_room m \<le> 57"
    using True r [of "min (unat (msg_len m)) 52"] w [of "unat (msg_len m)"] by (auto simp: msg_room_def)
  with encode_msgs_holds [OF assms(1), of "[m]"] assms(2) True show ?thesis by (auto simp: length_mcmds)
next
  case False
  define cs where "cs = [ISS_CMD_I2C_DIRECT, ISS_I2C_START, ISS_I2C_WRITE 1, ucast (push_bit 1 (msg_addr m))]"
  have "holds_cmds (buffer, 0) []" using assms(1) by (simp add: holds_cmds_def)
  from buf_puts_holds [OF this, of cs] obtain st where
    st: "buf_puts cs (buffer, 0) = kret st" "holds_cmds st cs" by (auto simp: cs_def)
  have "(67::nat) div 16 \<le> (unat (msg_len m) + 15) div 16" by (rule div_le_mono) (use False in simp)
  then have "\<not> length cs + length (wcmds (take (unat (msg_len m)) (msg_buf m))) \<le> 59"
    using False assms(2) by (simp add: length_wcmds cs_def msg_holds_def)
  with write_cmds_holds [OF _ st(2), of m 0] assms(2) obtain st' where
    "write_cmds m 0 st = kret (-22, st')" by (auto simp: msg_holds_def cs_def)
  moreover have "encode_msgs [m] buffer =
    kbind (buf_puts cs (buffer, 0)) (\<lambda>st. kbind (write_cmds m 0 st) (\<lambda>(ret, st).
      if ret \<noteq> 0 then kret (ret, st) else kbind (buf_put ISS_I2C_STOP st) (\<lambda>st. kret (0, st))))"
    using False
    by (auto simp: encode_msgs_def msg_cmds_def cs_def kbind_assoc kbind_if split_def intro!: kbind_cong)
  ultimately show ?thesis using st(1) False by auto
qed

lemma encode_write_read_overrun:
  assumes "length buffer = 60" "msg_holds m" "\<not> is_read m" "48 \<le> unat (msg_len m)" "unat (msg_len m) \<le> 51" "is_read r"
  shows "encode_msgs [m, r] buffer = kfail BufferOverrun"
proof -
  define cs where "cs = [ISS_CMD_I2C_DIRECT, ISS_I2C_START]"
  have lm: "53 \<le> msg_room m" "msg_room m \<le> 57"
    using assms(3-5) div_le_mono [of 63 "unat (msg_len m) + 15" 16] div_le_mono [of "unat (msg_len m) + 15" 66 16]
    by (simp_all add: msg_room_def)
  have "holds_cmds (buffer, 0) []" using assms(1) by (simp add: holds_cmds_def)
  from buf_puts_holds [OF this, of cs] obtain st where
    st: "buf_puts cs (buffer, 0) = kret st" "holds_cmds st cs" by (auto simp: cs_def)
  from msg_cmds_holds [OF st(2) assms(2)] lm length_mcmds [OF assms(2)] obtain st1 where
    st1: "msg_cmds m st = kret (0, st1)" "holds_cmds st1 (cs @ mcmds m)" by (auto simp: cs_def)
  have "2 \<le> length (mcmds r) - 2" by (simp add: mcmds_def assms(6) length_rcmds)
  then have "60 < length (cs @ mcmds m) + length (ISS_I2C_RESTART # mcmds r @ [ISS_I2C_STOP])"
    using lm by (simp add: cs_def length_mcmds [OF assms(2)])
  from buf_puts_overrun [OF st1(2) _ this] lm length_mcmds [OF assms(2)]
  have over: "buf_puts (ISS_I2C_RESTART # mcmds r @ [ISS_I2C_STOP]) st1 = kfail BufferOverrun"
    by (simp add: cs_def)
  have "encode_msgs [m, r] buffer =
    kbind (buf_puts (ISS_I2C_RESTART # mcmds r @ [ISS_I2C_STOP]) st1) (\<lambda>st. kret (0, st))"
    using st(1) st1(1)
    by (simp add: encode_msgs_def cs_def [symmetric] msg_cmds_read assms(6) kbind_assoc buf_puts_append
        buf_puts_single del: buf_puts.simps(2)) (simp add: kbind_assoc buf_puts_append buf_puts_single)
  then show ?thesis by (simp only: over kbind_kfail)
qed

text \<open>The documented results of \<open>usb_bulk_msg\<close> (0 or a negative error), and answers shorter than the buffer.\<close>

definition short_answers :: "'u usb_exchange \<Rightarrow> bool" where
  "short_answers usb \<longleftrightarrow>
     (\<forall>cs u. case usb cs u of ((sent, received, bs), _) \<Rightarrow> sent \<le> 0 \<and> received \<le> 0 \<and> length bs < 60)"

lemma transfer_short:
  assumes "short_answers usb" shows "fst (devantech_usb_transfer usb buffer len u) < 60"
proof -
  obtain sent received bs u' where x: "usb (take len buffer) u = ((sent, received, bs), u')"
    by (metis prod.exhaust)
  then have "sent \<le> 0 \<and> received \<le> 0 \<and> length bs < 60"
    using assms by (auto simp: short_answers_def dest!: spec [of _ "take len buffer"] spec [of _ u])
  with x show ?thesis by (simp add: devantech_usb_transfer_def Let_def)
qed

lemma devantech_init_returns:
  assumes "short_answers usb"
  shows "\<exists>ret f buffer' u'. devantech_init usb frequency buffer u = kret (ret, f, buffer', u') \<and> ret \<le> 0"
proof -
  obtain sp f where f: "iss_speed frequency = (sp, f)" by (cases "iss_speed frequency")
  obtain b1 u1 where b1: "devantech_fw_version usb buffer u = (b1, u1)"
    by (cases "devantech_fw_version usb buffer u")
  obtain r b u' where t: "devantech_usb_transfer usb (b1[0 := 0x5a, 1 := 0x03]) 2 u1 = (r, b, u')"
    by (cases "devantech_usb_transfer usb (b1[0 := 0x5a, 1 := 0x03]) 2 u1")
  then have "r < 60" using transfer_short [OF assms, of "b1[0 := 0x5a, 1 := 0x03]" 2 u1] by simp
  with t obtain b2 u2 where b2: "devantech_get_serial usb b1 u1 = kret (b2, u2)"
    by (cases "r < 8") (simp_all add: devantech_get_serial_def)
  obtain ret b3 u3 where b3: "devantech_set_speed usb sp b2 u2 = (ret, b3, u3)"
    by (cases "devantech_set_speed usb sp b2 u2")
  then have "ret \<le> 0" by (auto simp: devantech_set_speed_def split: prod.splits if_splits)
  then show ?thesis by (simp add: devantech_init_def f b1 b2 b3)
qed

section \<open>Properties\<close>

text \<open>
  Property C32: a transfer whose commands fit into the buffer is encoded completely, and on the bus the
  commands start, send every address with its direction bit, write the bytes of every write message,
  read the bytes of every read message with a missing acknowledge on its last byte, restart between
  messages, and stop. A read of more than 52 bytes is cut to 52, a read of none reads one byte.
\<close>

theorem devantech_sends_messages:
  assumes "length buffer = 60" and "list_all msg_holds msgs"
    and "2 + sum_list (map msg_room msgs) + (length msgs - 1) + 1 \<le> 60"
  shows "\<exists>buffer' len cs. encode_msgs msgs buffer = kret (0, buffer', len) \<and> len \<le> 60 \<and>
           take len buffer' = 0x57 # cs \<and>
           bus_events False cs = Some (Start # msgs_events True msgs @ [Stop])"
proof -
  have "length (scmds True msgs) \<le> 57" using assms(2,3) length_scmds [of msgs True] by simp
  from encode_msgs_holds [OF assms(1,2) this] this show ?thesis
    by (fastforce simp: holds_cmds_def bus_events_scmds)
qed

definition ex_msgs :: "i2c_msg list" where
  "ex_msgs = [\<lparr>msg_addr = 0x50, msg_flags = 0, msg_len = 1, msg_buf = [7]\<rparr>,
              \<lparr>msg_addr = 0x50, msg_flags = 1, msg_len = 2, msg_buf = [0, 0]\<rparr>]"

theorem devantech_sends_messages_witness:
  "\<exists>buffer' len cs. encode_msgs ex_msgs (replicate 60 0) = kret (0, buffer', len) \<and>
     take len buffer' = 0x57 # cs \<and>
     bus_events False cs = Some [Start, Wr 0xa0, Wr 7, Restart, Wr 0xa1, Rd True, Rd False, Stop]"
proof -
  have "list_all msg_holds ex_msgs" "2 + sum_list (map msg_room ex_msgs) + (length ex_msgs - 1) + 1 \<le> 60"
    by (simp_all add: ex_msgs_def msg_holds_def msg_room_def is_read_def is_recv_len_def)
  from devantech_sends_messages [OF _ this, of "replicate 60 0"] show ?thesis
    by (auto simp: ex_msgs_def msg_events_def is_read_def is_recv_len_def read_events_def)
qed

text \<open>
  Fact: a transfer of one message never leaves the buffer: it is encoded, or a write of more
  than 51 bytes is refused with \<open>-EINVAL\<close>. The bound is not kept for several messages: a write of 48
  to 51 bytes followed by a read runs over the end of the buffer.
\<close>

theorem devantech_buffer_bound:
  assumes "length buffer = 60" and "msg_holds m" and "is_read r"
  shows "(\<exists>st. encode_msgs [m] buffer = kret (if is_read m \<or> unat (msg_len m) \<le> 51 then 0 else -22, st)) \<and>
         (\<not> is_read m \<and> 48 \<le> unat (msg_len m) \<and> unat (msg_len m) \<le> 51 \<longrightarrow>
          encode_msgs [m, r] buffer = kfail BufferOverrun)"
  using encode_single [OF assms(1,2)] encode_write_read_overrun [OF assms(1,2) _ _ _ assms(3)] by blast

theorem devantech_buffer_bound_witness:
  "encode_msgs [\<lparr>msg_addr = 0x50, msg_flags = 0, msg_len = 50, msg_buf = replicate 50 0\<rparr>,
                \<lparr>msg_addr = 0x50, msg_flags = 1, msg_len = 2, msg_buf = [0, 0]\<rparr>] (replicate 60 0) = kfail BufferOverrun"
proof -
  have "length (replicate 60 (0 :: u8)) = 60"
    "msg_holds \<lparr>msg_addr = 0x50, msg_flags = 0, msg_len = 50, msg_buf = replicate 50 0\<rparr>"
    "is_read \<lparr>msg_addr = 0x50, msg_flags = 1, msg_len = 2, msg_buf = [0, 0]\<rparr>"
    by (simp_all add: msg_holds_def is_read_def)
  from devantech_buffer_bound [OF this] show ?thesis by (simp add: is_read_def)
qed

text \<open>
  Fact: end to end, a transfer that ends in a read of \<open>n\<close> bytes returns 0 and fills the message
  with the bytes of the device, given a device that answers the bus events of the messages with an
  acknowledge and \<open>n\<close> bytes.
\<close>

theorem devantech_read_returns:
  assumes "length buffer = 60" and "list_all msg_holds (ms @ [m])"
    and "2 + sum_list (map msg_room (ms @ [m])) + length ms + 1 \<le> 60"
    and "is_read m" "\<not> is_recv_len m" "1 \<le> length bs" "length bs = unat (msg_len m)" "length bs \<le> 52"
    and "\<And>cs. bus_events False cs = Some (Start # msgs_events True (ms @ [m]) @ [Stop]) \<Longrightarrow>
               usb (0x57 # cs) u = ((0, 0, 0xff # c # bs), u')"
  shows "\<exists>buffer'. devantech_usb_xfer usb (ms @ [m]) buffer u =
           kret (0, ms @ [m\<lparr>msg_buf := bs @ drop (length bs) (msg_buf m)\<rparr>], buffer', u')"
proof -
  have "length (scmds True (ms @ [m])) \<le> 57" using assms(2,3) length_scmds [of "ms @ [m]" True] by simp
  from encode_msgs_holds [OF assms(1,2) this] this obtain buffer1 len cs where enc:
    "encode_msgs (ms @ [m]) buffer = kret (0, buffer1, len)" "length buffer1 = 60" "0 < len" "len \<le> 60"
    "take len buffer1 = 0x57 # cs" "bus_events False cs = Some (Start # msgs_events True (ms @ [m]) @ [Stop])"
    by (fastforce simp: holds_cmds_def bus_events_scmds simp del: msgs_events.simps)
  define buffer2 where "buffer2 = 0xff # c # bs @ drop (2 + length bs) buffer1"
  have tr: "devantech_usb_transfer usb buffer1 len u = (2 + int (length bs), buffer2, u')"
    using enc assms(9) [OF enc(6)] assms(8) by (simp add: devantech_usb_transfer_def buffer2_def Let_def)
  have "length bs \<le> length (msg_buf m)" using assms(2,7) by (simp add: msg_holds_def)
  then have "iss_reply (2 + int (length bs)) buffer2 m = kret (0, m\<lparr>msg_buf := bs @ drop (length bs) (msg_buf m)\<rparr>)"
    using assms(4-8) enc(2) by (auto simp: iss_reply_def copy_back_def buffer2_def slice_def)
  moreover have "buffer2 ! 0 \<noteq> 0" by (simp add: buffer2_def)
  ultimately show ?thesis by (simp add: devantech_usb_xfer_def enc(1) tr)
qed

theorem devantech_read_returns_witness:
  "\<exists>buffer'. devantech_usb_xfer (\<lambda>_ u. ((0, 0, [0xff, 2, 0x12, 0x34]), u)) ex_msgs (replicate 60 0) () =
     kret (0, [ex_msgs ! 0, (ex_msgs ! 1)\<lparr>msg_buf := [0x12, 0x34]\<rparr>], buffer', ())"
  using devantech_read_returns [of "replicate 60 0" "[ex_msgs ! 0]" "ex_msgs ! 1" "[0x12, 0x34]"
      "\<lambda>_ u. ((0, 0, [0xff, 2, 0x12, 0x34]), u)" "()" 2 "()"]
  by (simp add: ex_msgs_def msg_holds_def msg_room_def is_read_def is_recv_len_def)

text \<open>
  Fact: a probe that fails gives back everything it acquired, and a disconnect after a probe
  that succeeded does too; only the frequency keeps the value chosen for the mode. The probe ends
  without a fault when no answer of the device fills the buffer.
\<close>

theorem devantech_probe_balanced:
  assumes "\<not> claimed d" "\<not> ctl_data d" "\<not> data_data d" and "short_answers usb"
  shows "\<exists>ret d' u'. devantech_iss_probe usb mem control usb_if claim add d u = kret (ret, d', u') \<and> ret \<le> 0 \<and>
           (ret < 0 \<longrightarrow> d'\<lparr>iss_frequency := iss_frequency d\<rparr> = d) \<and>
           (ret = 0 \<longrightarrow> adapters d' = adapters d + 1 \<and>
              devantech_iss_disconnect 0 d'\<lparr>iss_frequency := iss_frequency d\<rparr> = d)"
proof -
  obtain ret f buffer' u' where
    "devantech_init usb (iss_frequency d) (replicate 60 0) u = kret (ret, f, buffer', u')" "ret \<le> 0"
    using devantech_init_returns [OF assms(4)] by blast
  then show ?thesis
    using assms(1-3)
    by (cases usb_if)
      (auto simp: devantech_iss_probe_def devantech_iss_free_def iss_release_def devantech_iss_disconnect_def Let_def)
qed

definition ex_iss :: iss_driver where
  "ex_iss = \<lparr>devices = 0, dev_refs = 1, intf_refs = 1, claimed = False, ctl_data = False, data_data = False,
     adapters = 0, iss_frequency = 100000\<rparr>"

theorem devantech_probe_balanced_witness:
  "\<exists>ret d' u'. devantech_iss_probe (\<lambda>_ u. ((0, 0, [7, 2]), u)) True True
       (Some \<lparr>if_claimed = False, if_endpoints = 2\<rparr>) 0 (-5) ex_iss () = kret (ret, d', u') \<and> ret \<le> 0"
proof -
  have "\<not> claimed ex_iss" "\<not> ctl_data ex_iss" "\<not> data_data ex_iss" by (simp_all add: ex_iss_def)
  moreover have "short_answers (\<lambda>_ (u :: unit). ((0, 0, [7, 2]), u))" by (simp add: short_answers_def)
  ultimately show ?thesis
    using devantech_probe_balanced [of ex_iss "\<lambda>_ u. ((0, 0, [7, 2]), u)" True True
        "Some \<lparr>if_claimed = False, if_endpoints = 2\<rparr>" 0 "-5" "()"]
    by (auto simp: ex_iss_def)
qed

end
