(* ===== verification/I2c_Tiny_Usb.thy ===== *)
theory I2c_Tiny_Usb
  imports I2c_Msg
begin

text \<open>
  The I2C adapter driver \<open>src/sources/kmods/i2c-tiny-usb/kmod/i2c-tiny-usb.c\<close>: every I2C message is
  one USB control transfer to the adapter, followed by a query of its status. Control transfers
  (\<open>usb_control_msg\<close>) are arguments over the state of the outside world: reading returns a result and
  the bytes received, writing a result.
\<close>

section \<open>Control transfers\<close>

abbreviation (input) CMD_GET_FUNC :: u8 where "CMD_GET_FUNC \<equiv> 1"
abbreviation (input) CMD_SET_DELAY :: u8 where "CMD_SET_DELAY \<equiv> 2"
abbreviation (input) CMD_GET_STATUS :: u8 where "CMD_GET_STATUS \<equiv> 3"
abbreviation (input) CMD_I2C_IO :: u8 where "CMD_I2C_IO \<equiv> 4"
abbreviation (input) CMD_I2C_IO_BEGIN :: u8 where "CMD_I2C_IO_BEGIN \<equiv> 1"
abbreviation (input) CMD_I2C_IO_END :: u8 where "CMD_I2C_IO_END \<equiv> 2"
abbreviation (input) STATUS_ADDRESS_NAK :: u8 where "STATUS_ADDRESS_NAK \<equiv> 2"

text \<open>Command, value, index and length or data of the request.\<close>

type_synonym 'u ctl_in = "u8 \<Rightarrow> u16 \<Rightarrow> u16 \<Rightarrow> nat \<Rightarrow> 'u \<Rightarrow> (int \<times> bytes) \<times> 'u"
type_synonym 'u ctl_out = "u8 \<Rightarrow> u16 \<Rightarrow> u16 \<Rightarrow> bytes \<Rightarrow> 'u \<Rightarrow> int \<times> 'u"

text \<open>Reading into a buffer: at most \<open>len\<close> bytes arrive, the rest of the buffer stays.\<close>

definition usb_read ::
  "'u ctl_in \<Rightarrow> u8 \<Rightarrow> u16 \<Rightarrow> u16 \<Rightarrow> bytes \<Rightarrow> nat \<Rightarrow> 'u \<Rightarrow> int \<times> bytes \<times> 'u" where
  "usb_read cin cmd val index buf len u =
     (case cin cmd val index len u of ((ret, bs), u) \<Rightarrow>
        (ret, take len bs @ drop (length (take len bs)) buf, u))"

definition usb_write :: "'u ctl_out \<Rightarrow> u8 \<Rightarrow> u16 \<Rightarrow> u16 \<Rightarrow> bytes \<Rightarrow> 'u \<Rightarrow> int \<times> 'u" where
  "usb_write cout cmd val index buf u = cout cmd val index buf u"

section \<open>Transfers\<close>

definition io_cmd :: "bool \<Rightarrow> bool \<Rightarrow> u8" where
  "io_cmd first final =
     CMD_I2C_IO OR (if first then CMD_I2C_IO_BEGIN else 0) OR (if final then CMD_I2C_IO_END else 0)"

text \<open>One message: the result of the control transfer, the message, the outside world.\<close>

definition usb_msg ::
  "'u ctl_in \<Rightarrow> 'u ctl_out \<Rightarrow> u8 \<Rightarrow> i2c_msg \<Rightarrow> 'u \<Rightarrow> int \<times> i2c_msg \<times> 'u" where
  "usb_msg cin cout cmd m u =
     (if is_read m then
        case usb_read cin cmd (msg_flags m) (msg_addr m) (msg_buf m) (unat (msg_len m)) u of
          (ret, buf, u) \<Rightarrow> (ret, m\<lparr>msg_buf := buf\<rparr>, u)
      else
        case usb_write cout cmd (msg_flags m) (msg_addr m) (take (unat (msg_len m)) (msg_buf m)) u of
          (ret, u) \<Rightarrow> (ret, m, u))"

text \<open>The loop over the messages: 0 when all went through, otherwise the error.\<close>

fun xfer_loop ::
  "'u ctl_in \<Rightarrow> 'u ctl_out \<Rightarrow> bool \<Rightarrow> i2c_msg list \<Rightarrow> 'u \<Rightarrow> int \<times> i2c_msg list \<times> 'u" where
  "xfer_loop cin cout first [] u = (0, [], u)"
| "xfer_loop cin cout first (m # msgs) u =
     (case usb_msg cin cout (io_cmd first (msgs = [])) m u of (ret, m, u) \<Rightarrow>
        if ret \<noteq> int (unat (msg_len m)) then (-121, m # msgs, u)
        else
          case usb_read cin CMD_GET_STATUS 0 0 [0] 1 u of (ret, pstatus, u) \<Rightarrow>
            if ret \<noteq> 1 then (-121, m # msgs, u)
            else if hd pstatus = STATUS_ADDRESS_NAK then (-121, m # msgs, u)
            else case xfer_loop cin cout False msgs u of (ret, msgs, u) \<Rightarrow> (ret, m # msgs, u))"

text \<open>\<open>mem\<close>: the allocation of the status byte succeeds.\<close>

definition usb_xfer ::
  "'u ctl_in \<Rightarrow> 'u ctl_out \<Rightarrow> bool \<Rightarrow> i2c_msg list \<Rightarrow> 'u \<Rightarrow> int \<times> i2c_msg list \<times> 'u" where
  "usb_xfer cin cout mem msgs u =
     (if \<not> mem then (-12, msgs, u)
      else case xfer_loop cin cout True msgs u of (ret, msgs, u) \<Rightarrow>
        (if ret = 0 then int (length msgs) else ret, msgs, u))"

text \<open>The functionality is a little-endian word; 0 when it cannot be read.\<close>

definition usb_func :: "'u ctl_in \<Rightarrow> bool \<Rightarrow> 'u \<Rightarrow> u32 \<times> 'u" where
  "usb_func cin mem u =
     (if \<not> mem then (0, u)
      else case usb_read cin CMD_GET_FUNC 0 0 [0, 0, 0, 0] 4 u of (ret, pfunc, u) \<Rightarrow>
        (if ret \<noteq> 4 then 0 else rd_be32 (rev pfunc), u))"

section \<open>Probe and disconnect\<close>

record tiny_driver =
  tiny_devices :: nat
  tiny_refs :: nat
  tiny_intfdata :: bool
  tiny_adapters :: nat

definition i2c_tiny_usb_free :: "tiny_driver \<Rightarrow> tiny_driver" where
  "i2c_tiny_usb_free d = d\<lparr>tiny_refs := tiny_refs d - 1, tiny_devices := tiny_devices d - 1\<rparr>"

text \<open>\<open>added\<close>: registering the adapter succeeds; the driver does not look at the result.\<close>

definition i2c_tiny_usb_probe ::
  "'u ctl_out \<Rightarrow> bool \<Rightarrow> bool \<Rightarrow> u16 \<Rightarrow> tiny_driver \<Rightarrow> 'u \<Rightarrow> int \<times> tiny_driver \<times> 'u" where
  "i2c_tiny_usb_probe cout mem added delay d u =
     (if \<not> mem then (-12, d, u)
      else
        let d = d\<lparr>tiny_devices := tiny_devices d + 1, tiny_refs := tiny_refs d + 1, tiny_intfdata := True\<rparr> in
        (case usb_write cout CMD_SET_DELAY delay 0 [] u of (ret, u) \<Rightarrow>
           if ret \<noteq> 0 then (-5, i2c_tiny_usb_free d, u)
           else (0, if added then d\<lparr>tiny_adapters := tiny_adapters d + 1\<rparr> else d, u)))"

definition i2c_tiny_usb_disconnect :: "tiny_driver \<Rightarrow> tiny_driver" where
  "i2c_tiny_usb_disconnect d =
     i2c_tiny_usb_free (d\<lparr>tiny_adapters := tiny_adapters d - 1, tiny_intfdata := False\<rparr>)"

section \<open>The requests of a transfer\<close>

text \<open>A device that keeps a record of the requests it gets, around any device.\<close>

datatype ctl_request = InReq u8 u16 u16 nat | OutReq u8 u16 u16 bytes

definition log_in :: "'u ctl_in \<Rightarrow> (ctl_request list \<times> 'u) ctl_in" where
  "log_in cin cmd val index len lu =
     (case cin cmd val index len (snd lu) of (r, u) \<Rightarrow> (r, fst lu @ [InReq cmd val index len], u))"

definition log_out :: "'u ctl_out \<Rightarrow> (ctl_request list \<times> 'u) ctl_out" where
  "log_out cout cmd val index bs lu =
     (case cout cmd val index bs (snd lu) of (r, u) \<Rightarrow> (r, fst lu @ [OutReq cmd val index bs], u))"

text \<open>The requests of a transfer that goes through: every message, each followed by a status query.\<close>

definition msg_request :: "u8 \<Rightarrow> i2c_msg \<Rightarrow> ctl_request" where
  "msg_request cmd m =
     (if is_read m then InReq cmd (msg_flags m) (msg_addr m) (unat (msg_len m))
      else OutReq cmd (msg_flags m) (msg_addr m) (take (unat (msg_len m)) (msg_buf m)))"

definition status_request :: ctl_request where
  "status_request = InReq 3 0 0 1"

fun requests :: "bool \<Rightarrow> i2c_msg list \<Rightarrow> ctl_request list" where
  "requests first [] = []"
| "requests first (m # msgs) =
     msg_request (4 + (if first then 1 else 0) + (if msgs = [] then 2 else 0)) m # status_request # requests False msgs"

lemma io_cmd_sum: "io_cmd first final = 4 + (if first then 1 else 0) + (if final then 2 else 0)"
  by (simp add: io_cmd_def)

lemma usb_msg_logs:
  "\<exists>ret m' u'. usb_msg (log_in cin) (log_out cout) cmd m (log, u) = (ret, m', log @ [msg_request cmd m], u') \<and>
     msg_len m' = msg_len m"
  by (auto simp: usb_msg_def msg_request_def usb_read_def usb_write_def log_in_def log_out_def split: prod.splits)

lemma status_logs:
  "\<exists>ret st u'. usb_read (log_in cin) 3 0 0 [0] 1 (log, u) = (ret, st, log @ [status_request], u')"
  by (auto simp: usb_read_def log_in_def status_request_def split: prod.splits)

lemma xfer_loop_logs:
  "\<exists>ret msgs' u' sent rest. xfer_loop (log_in cin) (log_out cout) first msgs (log, u) = (ret, msgs', log @ sent, u') \<and>
     sent @ rest = requests first msgs \<and> length msgs' = length msgs \<and> (ret = 0 \<and> rest = [] \<or> ret = -121)"
proof (induction msgs arbitrary: first log u)
  case (Cons m msgs)
  obtain ret m' u1 where 1:
    "usb_msg (log_in cin) (log_out cout) (io_cmd first (msgs = [])) m (log, u) =
       (ret, m', log @ [msg_request (io_cmd first (msgs = [])) m], u1)"
    using usb_msg_logs [of cin cout "io_cmd first (msgs = [])" m log u] by blast
  define log1 where "log1 = log @ [msg_request (io_cmd first (msgs = [])) m]"
  obtain ret2 st u2 where 2: "usb_read (log_in cin) 3 0 0 [0] 1 (log1, u1) = (ret2, st, log1 @ [status_request], u2)"
    using status_logs [of cin log1 u1] by blast
  obtain ret3 msgs3 u3 sent rest where 3:
    "xfer_loop (log_in cin) (log_out cout) False msgs (log1 @ [status_request], u2) =
       (ret3, msgs3, (log1 @ [status_request]) @ sent, u3)"
    "sent @ rest = requests False msgs" "length msgs3 = length msgs" "ret3 = 0 \<and> rest = [] \<or> ret3 = -121"
    using Cons.IH [of False "log1 @ [status_request]" u2] by blast
  have r: "requests first (m # msgs) = msg_request (io_cmd first (msgs = [])) m # status_request # sent @ rest"
    by (simp add: io_cmd_sum 3(2))
  consider "ret \<noteq> int (unat (msg_len m'))" | "ret = int (unat (msg_len m'))" "ret2 \<noteq> 1 \<or> hd st = 2"
    | "ret = int (unat (msg_len m'))" "ret2 = 1" "hd st \<noteq> 2" by blast
  then show ?case
    using 1 2 3 r by cases (auto simp: log1_def)
qed simp

section \<open>Properties\<close>

text \<open>
  Fact: whatever the adapter answers, a transfer sends the messages in order, the first with
  the begin flag and only the last with the end flag, each followed by a status query, and stops at
  the first failure. It returns the number of messages only when all of these requests were sent,
  and \<open>-EREMOTEIO\<close> otherwise.
\<close>

theorem tiny_xfer_requests:
  "\<exists>ret msgs' sent u' rest. usb_xfer (log_in cin) (log_out cout) True msgs ([], u) = (ret, msgs', sent, u') \<and>
     sent @ rest = requests True msgs \<and> length msgs' = length msgs \<and>
     (ret = int (length msgs) \<and> rest = [] \<or> ret = -121)"
proof -
  obtain ret msgs' u' sent rest where 1:
    "xfer_loop (log_in cin) (log_out cout) True msgs ([], u) = (ret, msgs', [] @ sent, u')"
    "sent @ rest = requests True msgs" "length msgs' = length msgs" "ret = 0 \<and> rest = [] \<or> ret = -121"
    using xfer_loop_logs [of cin cout True msgs "[]" u] by blast
  then have "usb_xfer (log_in cin) (log_out cout) True msgs ([], u) =
    (if ret = 0 then int (length msgs) else -121, msgs', sent, u')"
    by (auto simp: usb_xfer_def)
  moreover have "(if ret = 0 then int (length msgs) else -121) = int (length msgs) \<and> rest = [] \<or>
      (if ret = 0 then int (length msgs) else -121) = -121"
    using 1(4) by auto
  ultimately show ?thesis using 1(2,3) by blast
qed

end
