(* ===== verification/Oscillator.thy ===== *)
theory Oscillator
  imports Prelude
begin

text \<open>
  The calibration of the RC oscillator in \<open>src/sources/firmware/attiny85-hid/main.c\<close>, which the
  firmware of the rotary encoder repeats: a binary search for the value of the register \<open>OSCCAL\<close> and
  a search among its neighbours. The frame length that the USB library measures at a value of the
  register is an argument.
\<close>

section \<open>The two searches\<close>

text \<open>\<open>(unsigned)(1499 * (double)F_CPU / 10.5e6 + 0.5)\<close> for 16.5 MHz\<close>

definition targetValue :: int where
  "targetValue = 2356"

text \<open>The \<open>do\<close> loop: \<open>x\<close> is the last measurement.\<close>

function binary_search :: "(u8 \<Rightarrow> int) \<Rightarrow> u8 \<Rightarrow> u8 \<Rightarrow> int \<Rightarrow> u8 \<times> int" where
  "binary_search measure_at step trialValue x =
     (if step = 0 then (trialValue, x)
      else
        let x = measure_at (trialValue + step) in
        binary_search measure_at (drop_bit 1 step) (if x < targetValue then trialValue + step else trialValue) x)"
  by pat_completeness auto

lemma half_step: "(step :: u8) \<noteq> 0 \<Longrightarrow> unat (drop_bit (Suc 0) step) < unat step"
  by (simp only: unat_drop_bit_eq) (simp add: drop_bit_eq_div unat_gt_0)

termination binary_search
  by (relation "measure (\<lambda>(_, step, _, _). unat step)") (auto intro: half_step)

declare binary_search.simps [simp del]

text \<open>
  The \<open>for\<close> loop. The register has eight bits and wraps, the bound \<open>trialValue + 1\<close> is an \<open>int\<close>; a
  loop that never ends is \<open>None\<close>.
\<close>

partial_function (option) neighbour_search ::
  "(u8 \<Rightarrow> int) \<Rightarrow> int \<Rightarrow> u8 \<Rightarrow> u8 \<Rightarrow> int \<Rightarrow> u8 option" where
  "neighbour_search measure_at bound OSCCAL optimumValue optimumDev =
     (if uint OSCCAL \<le> bound then
        let x = \<bar>measure_at OSCCAL - targetValue\<bar> in
        (if x < optimumDev then neighbour_search measure_at bound (OSCCAL + 1) OSCCAL x
         else neighbour_search measure_at bound (OSCCAL + 1) optimumValue optimumDev)
      else Some optimumValue)"

definition calibrateOscillator :: "(u8 \<Rightarrow> int) \<Rightarrow> u8 option" where
  "calibrateOscillator measure_at =
     (case binary_search measure_at 128 0 0 of (trialValue, x) \<Rightarrow>
        neighbour_search measure_at (uint trialValue + 1) (trialValue - 1) trialValue x)"

section \<open>Correctness of the binary search\<close>

text \<open>
  The invariant of the loop with step \<open>2 ^ k\<close>: the trial value is 0 or still too low, and the value
  \<open>2 ^ (k + 1)\<close> above it is out of range or high enough.
\<close>

definition brackets :: "(u8 \<Rightarrow> int) \<Rightarrow> nat \<Rightarrow> nat \<Rightarrow> bool" where
  "brackets f t d \<longleftrightarrow> t + d \<le> 256 \<and> (t = 0 \<or> f (of_nat t) < targetValue) \<and>
     (t + d = 256 \<or> targetValue \<le> f (of_nat (t + d)))"

lemma brackets_split:
  assumes "brackets f t (d + d)"
  shows "brackets f (if f (of_nat (t + d)) < targetValue then t + d else t) d"
  using assms unfolding brackets_def by (cases "f (of_nat (t + d)) < targetValue") (simp_all add: add.assoc)

lemma binary_search_step:
  assumes "k < 8"
  shows "binary_search f (2 ^ k) t x =
    (let x = f (t + 2 ^ k) in
     binary_search f (if k = 0 then 0 else 2 ^ (k - 1)) (if x < targetValue then t + 2 ^ k else t) x)"
proof -
  have "drop_bit 1 (2 ^ k :: u8) = (if k = 0 then 0 else 2 ^ (k - 1))"
  proof (cases k)
    case (Suc j)
    have "drop_bit 1 (push_bit (Suc j) (1 :: u8)) = push_bit j 1"
      using assms Suc by (intro bit_word_eqI) (auto simp: bit_simps)
    then show ?thesis using Suc by (simp add: push_bit_eq_mult)
  qed simp
  moreover have "(2 ^ k :: u8) \<noteq> 0" using assms by simp
  ultimately show ?thesis by (simp add: binary_search.simps [of f "2 ^ k"])
qed

lemma binary_search_brackets:
  "k < 8 \<Longrightarrow> brackets f t (2 ^ Suc k) \<Longrightarrow>
   \<exists>t' x'. binary_search f (2 ^ k) (of_nat t) x = (of_nat t', x') \<and> brackets f t' 1 \<and>
     (x' = f (of_nat t') \<or> x' = f (of_nat (t' + 1)))"
proof (induction k arbitrary: t x)
  case 0
  let ?x = "f (of_nat t + 1)"
  show ?case
  proof (cases "?x < targetValue")
    case True
    then have "brackets f (t + 1) 1" using 0 by (auto simp: brackets_def ac_simps)
    with True show ?thesis using binary_search_step [of 0 f "of_nat t" x]
      by (intro exI [of _ "t + 1"] exI [of _ ?x]) (simp add: Let_def binary_search.simps [of f 0] add.commute)
  next
    case False
    then have "brackets f t 1" using 0 by (auto simp: brackets_def ac_simps)
    with False show ?thesis using binary_search_step [of 0 f "of_nat t" x]
      by (intro exI [of _ t] exI [of _ ?x]) (simp add: Let_def binary_search.simps [of f 0] add.commute)
  qed
next
  case (Suc k)
  let ?x = "f (of_nat t + 2 ^ Suc k)"
  have u: "of_nat (t + 2 ^ Suc k) = (of_nat t + 2 ^ Suc k :: u8)" by simp
  have step: "binary_search f (2 ^ Suc k) (of_nat t) x =
    binary_search f (2 ^ k) (of_nat (if ?x < targetValue then t + 2 ^ Suc k else t)) ?x"
    using binary_search_step [OF Suc.prems(1), of f "of_nat t" x] by (auto simp: Let_def)
  have "brackets f t (2 ^ Suc k + 2 ^ Suc k)" using Suc.prems(2) by (simp add: mult_2)
  then have "brackets f (if ?x < targetValue then t + 2 ^ Suc k else t) (2 ^ Suc k)"
    by (metis brackets_split u)
  from Suc.IH [OF _ this, of ?x] Suc.prems(1) show ?case unfolding step by simp
qed

lemma calibrate_search:
  "\<exists>t x. binary_search f 128 0 0 = (of_nat t, x) \<and> brackets f t 1 \<and> (x = f (of_nat t) \<or> x = f (of_nat (t + 1)))"
  using binary_search_brackets [of 7 f 0 0] by (simp add: brackets_def)

section \<open>Correctness of the neighbour search\<close>

lemma neighbour_search_three:
  assumes "1 \<le> t" "t \<le> 253"
  shows "neighbour_search f (int t + 1) (of_nat (t - 1)) v d =
    (let x0 = \<bar>f (of_nat (t - 1)) - targetValue\<bar>; x1 = \<bar>f (of_nat t) - targetValue\<bar>;
         x2 = \<bar>f (of_nat (t + 1)) - targetValue\<bar>;
         (v, d) = (if x0 < d then (of_nat (t - 1), x0) else (v, d));
         (v, d) = (if x1 < d then (of_nat t, x1) else (v, d))
     in Some (if x2 < d then of_nat (t + 1) else v))"
proof -
  have w: "uint (of_nat k :: u8) = int k" if "k < 256" for k using that by (simp add: unsigned_of_nat take_bit_nat_eq_self)
  have n: "(of_nat (t - 1) + 1 :: u8) = of_nat t" "(of_nat t + 1 :: u8) = of_nat (t + 1)"
    "(of_nat (t + 1) + 1 :: u8) = of_nat (t + 2)"
    using assms(1) by (simp_all add: of_nat_diff)
  have le: "uint (of_nat (t - 1) :: u8) \<le> int t + 1" "uint (of_nat t :: u8) \<le> int t + 1"
    "uint (of_nat (t + 1) :: u8) \<le> int t + 1" "\<not> uint (of_nat (t + 2) :: u8) \<le> int t + 1"
    using assms w [of "t - 1"] w [of t] w [of "t + 1"] w [of "t + 2"] by linarith+
  show ?thesis
    by (simp only: neighbour_search.simps [of f _ "of_nat (t - 1)"] neighbour_search.simps [of f _ "of_nat t"]
        neighbour_search.simps [of f _ "of_nat (t + 1)"] neighbour_search.simps [of f _ "of_nat (t + 2)"]
        n le if_True if_False Let_def) (simp add: split_def)
qed

text \<open>With a bound of 255 or more the eight-bit register never passes it.\<close>

lemma neighbour_search_hangs:
  assumes "neighbour_search f bound w v d = Some r"
  shows "bound < 255"
proof (induction rule: neighbour_search.raw_induct [OF _ assms, consumes 0, case_names step])
  case (step loop f bound w v d r)
  then show ?case
    using unsigned_less [of w, where 'a = int] by (auto simp: Let_def split: if_splits)
qed

section \<open>Properties\<close>

text \<open>
  Property C39: if the measured frame length grows with the register, is below the target for the value 1, has reached it at
  254, and is more than half the target for the value 0, the calibration ends, and no value of the register comes
  closer to the target than the one it chooses. Where the target is reached at 255 only or not at all, the search for a
  neighbour never ends; half the target is needed because the search starts with the measured length as the smallest deviation.
\<close>

theorem calibrate_optimal:
  assumes "mono f" and "targetValue < 2 * f 0" and "f 1 < targetValue" and "targetValue \<le> f 254"
  shows "\<exists>v. calibrateOscillator f = Some v \<and> (\<forall>w. \<bar>f v - targetValue\<bar> \<le> \<bar>f w - targetValue\<bar>)"
proof -
  obtain t x where s: "binary_search f 128 0 0 = (of_nat t, x)" "brackets f t 1"
    "x = f (of_nat t) \<or> x = f (of_nat (t + 1))"
    using calibrate_search by blast
  have mono: "f a \<le> f b" if "unat a \<le> unat b" for a b
    using monoD [OF assms(1), of a b] that by (simp add: word_le_nat_alt)
  have u: "unat (of_nat k :: u8) = k" if "k < 256" for k
    using that by (simp add: unsigned_of_nat take_bit_nat_eq_self)
  have b: "t \<le> 255" "t = 0 \<or> f (of_nat t) < targetValue" "t = 255 \<or> targetValue \<le> f (of_nat (t + 1))"
    using s(2) by (auto simp: brackets_def)
  have t: "1 \<le> t" "t \<le> 253"
    using b assms(3) mono [of 254 "of_nat t"] u [of t] assms(4) by (cases "t = 0"; force)+
  have lo: "f w \<le> f (of_nat t)" if "unat w \<le> t" for w using mono [of w "of_nat t"] u [of t] that t(2) by simp
  have hi: "f (of_nat (t + 1)) \<le> f w" if "t < unat w" for w using mono [of "of_nat (t + 1)" w] u [of "t + 1"] that t(2) by simp
  let ?d = "\<lambda>w. \<bar>f w - targetValue\<bar>"
  have best: "?d (of_nat t) \<le> ?d w \<or> ?d (of_nat (t + 1)) \<le> ?d w" for w
    using lo [of w] hi [of w] b t by (cases "unat w \<le> t") auto
  have "f 0 \<le> f (of_nat t)" by (rule lo) simp
  then have dev: "?d (of_nat t) < x" using s(3) b t assms(2) by auto
  have bound: "uint (of_nat t :: u8) + 1 = int t + 1" "of_nat t - 1 = (of_nat (t - 1) :: u8)"
    using t by (simp_all add: unsigned_of_nat take_bit_nat_eq_self of_nat_diff)
  have "\<exists>v. neighbour_search f (int t + 1) (of_nat (t - 1)) (of_nat t) x = Some v \<and>
    ?d v \<le> ?d (of_nat t) \<and> ?d v \<le> ?d (of_nat (t + 1))"
    unfolding neighbour_search_three [OF t] Let_def using dev by (simp del: of_nat_add)
  then obtain v where "calibrateOscillator f = Some v" "?d v \<le> ?d (of_nat t)" "?d v \<le> ?d (of_nat (t + 1))"
    by (auto simp only: calibrateOscillator_def s(1) bound prod.case)
  with best show ?thesis by (meson order_trans)
qed

definition ex_measure :: "u8 \<Rightarrow> int" where
  "ex_measure w = 1500 + 10 * uint w"

theorem calibrate_optimal_witness:
  "\<exists>v. calibrateOscillator ex_measure = Some v \<and> \<bar>ex_measure v - targetValue\<bar> \<le> \<bar>ex_measure 86 - targetValue\<bar>"
proof -
  have "mono ex_measure" by (rule monoI) (simp add: ex_measure_def word_le_def)
  moreover have "targetValue < 2 * ex_measure 0" "ex_measure 1 < targetValue" "targetValue \<le> ex_measure 254"
    by (simp_all add: ex_measure_def targetValue_def)
  ultimately show ?thesis using calibrate_optimal by blast
qed

text \<open>
  Fact: if the oscillator stays too slow up to the end of the range, the neighbour search
  never ends, because the eight-bit register cannot pass the bound.
\<close>

theorem calibrate_hangs:
  assumes "mono f" and "f 254 < targetValue"
  shows "calibrateOscillator f = None"
proof -
  obtain t x where s: "binary_search f 128 0 0 = (of_nat t, x)" "brackets f t 1"
    using calibrate_search by blast
  have "254 \<le> t"
  proof (rule ccontr)
    assume "\<not> 254 \<le> t"
    then have "of_nat (t + 1) \<le> (254 :: u8)"
      by (simp only: word_le_nat_alt) (simp add: unsigned_of_nat take_bit_nat_eq_self del: of_nat_Suc of_nat_add)
    with monoD [OF assms(1)] assms(2) s(2) \<open>\<not> 254 \<le> t\<close> show False by (fastforce simp: brackets_def)
  qed
  moreover have "t \<le> 255" using s(2) by (simp add: brackets_def)
  ultimately have "255 \<le> uint (of_nat t :: u8) + 1" by (simp add: unsigned_of_nat take_bit_nat_eq_self)
  then show ?thesis
    using neighbour_search_hangs by (fastforce simp: calibrateOscillator_def s(1))
qed

theorem calibrate_hangs_witness: "calibrateOscillator (\<lambda>_. 1000) = None"
  using calibrate_hangs [of "\<lambda>_. 1000"] by (simp add: targetValue_def mono_def)

end
