(* ===== verification/Attiny_Hid.thy ===== *)
theory Attiny_Hid
  imports Oscillator
begin

text \<open>
  The firmware of the four-key keyboard, \<open>src/sources/firmware/attiny85-hid/main.c\<close>: buttons are
  sampled and debounced, changes are put into a HID report, and the report is sent over the USB
  interrupt endpoint. One round of the main loop is a function of what the hardware and the USB
  library (not part of this code) show in that round.
\<close>

section \<open>State\<close>

record button =
  buttonState :: u8
  buttonChanged :: u8

record hid =
  reportBuffer :: bytes
  idleRate :: u8
  newReport :: u8
  B1 :: button
  B2 :: button
  B3 :: button
  B4 :: button
  debounceTimeIsOver :: u8
  timerCnt :: u16

definition hid_init :: hid where
  "hid_init =
     (let b = \<lparr>buttonState = 3, buttonChanged = 0\<rparr> in
      \<lparr>reportBuffer = [0, 0, 0, 0, 0, 0, 0, 0], idleRate = 0, newReport = 0, B1 = b, B2 = b, B3 = b, B4 = b,
       debounceTimeIsOver = 1, timerCnt = 0\<rparr>)"

abbreviation (input) KEY_UP_ARROW :: u8 where "KEY_UP_ARROW \<equiv> 0x52"
abbreviation (input) KEY_DN_ARROW :: u8 where "KEY_DN_ARROW \<equiv> 0x51"
abbreviation (input) KEY_ENTER :: u8 where "KEY_ENTER \<equiv> 0x28"
abbreviation (input) KEY_ESCAPE :: u8 where "KEY_ESCAPE \<equiv> 0x29"

section \<open>Timer, buttons and report\<close>

text \<open>\<open>tov1\<close> is the overflow flag of the timer.\<close>

definition timerPoll :: "bool \<Rightarrow> hid \<Rightarrow> hid" where
  "timerPoll tov1 s =
     (if tov1 then
        let s = s\<lparr>timerCnt := timerCnt s + 1\<rparr> in
        (if 5 \<le> timerCnt s then s\<lparr>timerCnt := 0, debounceTimeIsOver := 1\<rparr> else s)
      else s)"

text \<open>The block of \<open>buildReport\<close> for one button: its key goes to position \<open>pos\<close> of the report.\<close>

definition report_button :: "(hid \<Rightarrow> button) \<Rightarrow> (button \<Rightarrow> hid \<Rightarrow> hid) \<Rightarrow> nat \<Rightarrow> u8 \<Rightarrow> hid \<Rightarrow> hid" where
  "report_button get put pos code s =
     (if buttonChanged (get s) = 1 then
        let key = (if buttonState (get s) \<noteq> 0 then 0 else code);
            s = put ((get s)\<lparr>buttonChanged := 0\<rparr>) s
        in s\<lparr>reportBuffer := (reportBuffer s)[pos := key]\<rparr>
      else s)"

definition buildReport :: "hid \<Rightarrow> hid" where
  "buildReport s =
     (if newReport s = 0 then
        let s = report_button B1 (\<lambda>b s. s\<lparr>B1 := b\<rparr>) 2 KEY_UP_ARROW s;
            s = report_button B2 (\<lambda>b s. s\<lparr>B2 := b\<rparr>) 3 KEY_DN_ARROW s;
            s = report_button B3 (\<lambda>b s. s\<lparr>B3 := b\<rparr>) 4 KEY_ENTER s;
            s = report_button B4 (\<lambda>b s. s\<lparr>B4 := b\<rparr>) 5 KEY_ESCAPE s
        in s\<lparr>newReport := 1\<rparr>
      else s)"

text \<open>\<open>bit_is_set\<close> is the masked port, not a truth value.\<close>

definition check_button :: "(hid \<Rightarrow> button) \<Rightarrow> (button \<Rightarrow> hid \<Rightarrow> hid) \<Rightarrow> u8 \<Rightarrow> hid \<Rightarrow> hid" where
  "check_button get put tempButtonValue s =
     (if tempButtonValue \<noteq> buttonState (get s) then
        (put \<lparr>buttonState = tempButtonValue, buttonChanged = 1\<rparr> s)\<lparr>debounceTimeIsOver := 0, newReport := 0\<rparr>
      else s)"

definition checkButtonChange :: "u8 \<Rightarrow> hid \<Rightarrow> hid" where
  "checkButtonChange PINB s =
     (let s = check_button B1 (\<lambda>b s. s\<lparr>B1 := b\<rparr>) (PINB AND 0x01) s;
          s = check_button B2 (\<lambda>b s. s\<lparr>B2 := b\<rparr>) (PINB AND 0x02) s;
          s = check_button B3 (\<lambda>b s. s\<lparr>B3 := b\<rparr>) (PINB AND 0x04) s
      in check_button B4 (\<lambda>b s. s\<lparr>B4 := b\<rparr>) (PINB AND 0x20) s)"

section \<open>Control requests\<close>

text \<open>What \<open>usbMsgPtr\<close> points to.\<close>

datatype msg_ptr = ReportBuffer | IdleRate

text \<open>The setup packet has eight bytes: request type, request, value (two bytes), and more.\<close>

definition usbFunctionSetup :: "bytes \<Rightarrow> hid \<Rightarrow> nat \<times> msg_ptr \<times> hid" where
  "usbFunctionSetup data s =
     (if data ! 0 AND 0x60 = 0x20 then
        if data ! 1 = 0x01 then (8, ReportBuffer, buildReport s)
        else if data ! 1 = 0x02 then (1, IdleRate, s)
        else if data ! 1 = 0x0a then (0, ReportBuffer, s\<lparr>idleRate := data ! 3\<rparr>)
        else (0, ReportBuffer, s)
      else (0, ReportBuffer, s))"

definition usbEventResetReady :: "(u8 \<Rightarrow> int) \<Rightarrow> u8 option" where
  "usbEventResetReady measure_at = calibrateOscillator measure_at"

section \<open>The main loop\<close>

text \<open>
  What one round sees: the setup packets \<open>usbPoll\<close> delivers, the port, whether the interrupt endpoint
  is ready, and the overflow flag.
\<close>

record hid_env =
  setups :: "bytes list"
  pinb :: u8
  interruptIsReady :: bool
  tov1 :: bool

fun usbPoll :: "bytes list \<Rightarrow> hid \<Rightarrow> hid" where
  "usbPoll [] s = s"
| "usbPoll (d # ds) s = usbPoll ds (snd (snd (usbFunctionSetup d s)))"

text \<open>One round, with the report handed to \<open>usbSetInterrupt\<close> if there is one.\<close>

definition hid_round :: "hid_env \<Rightarrow> hid \<Rightarrow> hid \<times> bytes option" where
  "hid_round e s =
     (let s = usbPoll (setups e) s;
          s = (if debounceTimeIsOver s = 1 then checkButtonChange (pinb e) s else s);
          (s, sent) = (if interruptIsReady e \<and> newReport s = 0
                       then let s = buildReport s in (s, Some (reportBuffer s)) else (s, None))
      in (timerPoll (tov1 e) s, sent))"

inductive hid_reachable :: "hid \<Rightarrow> bool" where
  start: "hid_reachable hid_init"
| round: "hid_reachable s \<Longrightarrow> hid_reachable (fst (hid_round e s))"

section \<open>Invariant\<close>

definition key_of :: "button \<Rightarrow> u8 \<Rightarrow> u8" where
  "key_of b code = (if buttonState b = 0 then code else 0)"

text \<open>The report that shows the debounced state of the buttons.\<close>

definition keys :: "hid \<Rightarrow> bytes" where
  "keys s = [0, 0, key_of (B1 s) KEY_UP_ARROW, key_of (B2 s) KEY_DN_ARROW, key_of (B3 s) KEY_ENTER,
             key_of (B4 s) KEY_ESCAPE, 0, 0]"

definition button_ok :: "button \<Rightarrow> u8 \<Rightarrow> u8 \<Rightarrow> bool" where
  "button_ok b code k \<longleftrightarrow> buttonChanged b = 1 \<or> buttonChanged b = 0 \<and> k = key_of b code"

definition hid_inv :: "hid \<Rightarrow> bool" where
  "hid_inv s \<longleftrightarrow>
     (\<exists>k1 k2 k3 k4. reportBuffer s = [0, 0, k1, k2, k3, k4, 0, 0] \<and>
        button_ok (B1 s) KEY_UP_ARROW k1 \<and> button_ok (B2 s) KEY_DN_ARROW k2 \<and>
        button_ok (B3 s) KEY_ENTER k3 \<and> button_ok (B4 s) KEY_ESCAPE k4) \<and>
     (newReport s = 0 \<or> newReport s = 1 \<and> reportBuffer s = keys s) \<and>
     (debounceTimeIsOver s = 0 \<or> debounceTimeIsOver s = 1) \<and> timerCnt s < 5"

lemma hid_inv_init: "hid_inv hid_init"
  by (simp add: hid_inv_def hid_init_def button_ok_def key_of_def Let_def)

text \<open>The two operations as updates of every field, without case distinctions.\<close>

definition cleared :: "button \<Rightarrow> button" where
  "cleared b = (if buttonChanged b = 1 then b\<lparr>buttonChanged := 0\<rparr> else b)"

definition with_key :: "button \<Rightarrow> nat \<Rightarrow> u8 \<Rightarrow> bytes \<Rightarrow> bytes" where
  "with_key b pos code buf = (if buttonChanged b = 1 then buf[pos := key_of b code] else buf)"

lemma buildReport_eq:
  "buildReport s =
     (if newReport s = 0 then
        s\<lparr>reportBuffer := with_key (B4 s) 5 KEY_ESCAPE (with_key (B3 s) 4 KEY_ENTER
            (with_key (B2 s) 3 KEY_DN_ARROW (with_key (B1 s) 2 KEY_UP_ARROW (reportBuffer s)))),
          B1 := cleared (B1 s), B2 := cleared (B2 s), B3 := cleared (B3 s), B4 := cleared (B4 s), newReport := 1\<rparr>
      else s)"
proof -
  have "report_button B1 (\<lambda>b s. s\<lparr>B1 := b\<rparr>) pos code s =
    s\<lparr>B1 := cleared (B1 s), reportBuffer := with_key (B1 s) pos code (reportBuffer s)\<rparr>" for pos code s
    by (simp add: report_button_def cleared_def with_key_def key_of_def Let_def)
  moreover have "report_button B2 (\<lambda>b s. s\<lparr>B2 := b\<rparr>) pos code s =
    s\<lparr>B2 := cleared (B2 s), reportBuffer := with_key (B2 s) pos code (reportBuffer s)\<rparr>" for pos code s
    by (simp add: report_button_def cleared_def with_key_def key_of_def Let_def)
  moreover have "report_button B3 (\<lambda>b s. s\<lparr>B3 := b\<rparr>) pos code s =
    s\<lparr>B3 := cleared (B3 s), reportBuffer := with_key (B3 s) pos code (reportBuffer s)\<rparr>" for pos code s
    by (simp add: report_button_def cleared_def with_key_def key_of_def Let_def)
  moreover have "report_button B4 (\<lambda>b s. s\<lparr>B4 := b\<rparr>) pos code s =
    s\<lparr>B4 := cleared (B4 s), reportBuffer := with_key (B4 s) pos code (reportBuffer s)\<rparr>" for pos code s
    by (simp add: report_button_def cleared_def with_key_def key_of_def Let_def)
  ultimately show ?thesis by (simp add: buildReport_def Let_def)
qed

definition sampled :: "u8 \<Rightarrow> button \<Rightarrow> button" where
  "sampled v b = (if v \<noteq> buttonState b then \<lparr>buttonState = v, buttonChanged = 1\<rparr> else b)"

definition changes :: "u8 \<Rightarrow> hid \<Rightarrow> bool" where
  "changes p s \<longleftrightarrow> p AND 0x01 \<noteq> buttonState (B1 s) \<or> p AND 0x02 \<noteq> buttonState (B2 s) \<or>
     p AND 0x04 \<noteq> buttonState (B3 s) \<or> p AND 0x20 \<noteq> buttonState (B4 s)"

lemma checkButtonChange_eq:
  "checkButtonChange p s =
     s\<lparr>B1 := sampled (p AND 0x01) (B1 s), B2 := sampled (p AND 0x02) (B2 s), B3 := sampled (p AND 0x04) (B3 s),
       B4 := sampled (p AND 0x20) (B4 s),
       debounceTimeIsOver := if changes p s then 0 else debounceTimeIsOver s,
       newReport := if changes p s then 0 else newReport s\<rparr>"
proof -
  have "check_button B1 (\<lambda>b s. s\<lparr>B1 := b\<rparr>) v s = s\<lparr>B1 := sampled v (B1 s),
    debounceTimeIsOver := if v \<noteq> buttonState (B1 s) then 0 else debounceTimeIsOver s,
    newReport := if v \<noteq> buttonState (B1 s) then 0 else newReport s\<rparr>" for v s
    by (simp add: check_button_def sampled_def)
  moreover have "check_button B2 (\<lambda>b s. s\<lparr>B2 := b\<rparr>) v s = s\<lparr>B2 := sampled v (B2 s),
    debounceTimeIsOver := if v \<noteq> buttonState (B2 s) then 0 else debounceTimeIsOver s,
    newReport := if v \<noteq> buttonState (B2 s) then 0 else newReport s\<rparr>" for v s
    by (simp add: check_button_def sampled_def)
  moreover have "check_button B3 (\<lambda>b s. s\<lparr>B3 := b\<rparr>) v s = s\<lparr>B3 := sampled v (B3 s),
    debounceTimeIsOver := if v \<noteq> buttonState (B3 s) then 0 else debounceTimeIsOver s,
    newReport := if v \<noteq> buttonState (B3 s) then 0 else newReport s\<rparr>" for v s
    by (simp add: check_button_def sampled_def)
  moreover have "check_button B4 (\<lambda>b s. s\<lparr>B4 := b\<rparr>) v s = s\<lparr>B4 := sampled v (B4 s),
    debounceTimeIsOver := if v \<noteq> buttonState (B4 s) then 0 else debounceTimeIsOver s,
    newReport := if v \<noteq> buttonState (B4 s) then 0 else newReport s\<rparr>" for v s
    by (simp add: check_button_def sampled_def)
  ultimately show ?thesis by (simp add: checkButtonChange_def changes_def Let_def)
qed

lemma button_ok_cleared:
  "button_ok b code k \<Longrightarrow> buttonChanged (cleared b) = 0 \<and> buttonState (cleared b) = buttonState b"
  by (auto simp: button_ok_def cleared_def)

lemma with_key_ok:
  "button_ok b code (buf ! pos) \<Longrightarrow> pos < length buf \<Longrightarrow> with_key b pos code buf = buf[pos := key_of b code]"
  by (auto simp: button_ok_def with_key_def) (metis list_update_id)

lemma keys_buildReport [simp]: "keys (buildReport s) = keys s"
  by (simp add: keys_def key_of_def buildReport_eq cleared_def)

lemma buildReport_sent: "hid_inv s \<Longrightarrow> newReport s = 0 \<Longrightarrow> reportBuffer (buildReport s) = keys s"
  by (auto simp: hid_inv_def buildReport_eq with_key_ok keys_def)

lemma button_ok_clear: "button_ok b code k \<Longrightarrow> button_ok (cleared b) code (key_of b code)"
  by (auto simp: button_ok_def cleared_def key_of_def)

lemma hid_inv_buildReport: "hid_inv s \<Longrightarrow> hid_inv (buildReport s)"
proof (cases "newReport s = 0")
  case True
  assume inv: "hid_inv s"
  have "reportBuffer (buildReport s) = keys s" using buildReport_sent [OF inv True] .
  with inv True show ?thesis
    by (auto simp: hid_inv_def buildReport_eq keys_def key_of_def button_ok_def cleared_def)
qed (simp add: buildReport_eq)

lemma button_ok_sampled: "button_ok b code k \<Longrightarrow> button_ok (sampled v b) code k"
  by (auto simp: button_ok_def sampled_def)

lemma keys_unchanged: "\<not> changes p s \<Longrightarrow> checkButtonChange p s = s"
  by (simp add: checkButtonChange_eq changes_def sampled_def)

lemma hid_inv_checkButtonChange: "hid_inv s \<Longrightarrow> hid_inv (checkButtonChange p s)"
proof (cases "changes p s")
  case True
  assume inv: "hid_inv s"
  then obtain k1 k2 k3 k4 where "reportBuffer s = [0, 0, k1, k2, k3, k4, 0, 0]"
    "button_ok (B1 s) KEY_UP_ARROW k1" "button_ok (B2 s) KEY_DN_ARROW k2"
    "button_ok (B3 s) KEY_ENTER k3" "button_ok (B4 s) KEY_ESCAPE k4" "timerCnt s < 5"
    by (auto simp: hid_inv_def)
  with True show ?thesis by (simp add: hid_inv_def checkButtonChange_eq button_ok_sampled)
qed (simp add: keys_unchanged)

lemma timerPoll_fields [simp]:
  "reportBuffer (timerPoll t s) = reportBuffer s" "newReport (timerPoll t s) = newReport s"
  "B1 (timerPoll t s) = B1 s" "B2 (timerPoll t s) = B2 s" "B3 (timerPoll t s) = B3 s" "B4 (timerPoll t s) = B4 s"
  by (simp_all add: timerPoll_def Let_def)

lemma timer_step: "timerCnt s < 5 \<Longrightarrow> \<not> 5 \<le> timerCnt s + 1 \<Longrightarrow> timerCnt s + 1 < (5 :: u16)"
  by simp

lemma hid_inv_timerPoll: "hid_inv s \<Longrightarrow> hid_inv (timerPoll t s)"
proof -
  assume inv: "hid_inv s"
  have "timerCnt (timerPoll t s) < 5"
    using inv by (auto simp: timerPoll_def Let_def hid_inv_def not_le)
  moreover have "debounceTimeIsOver (timerPoll t s) = 0 \<or> debounceTimeIsOver (timerPoll t s) = 1"
    using inv by (auto simp: timerPoll_def Let_def hid_inv_def)
  ultimately show ?thesis using inv by (simp add: hid_inv_def keys_def)
qed

lemma setup_cases:
  "snd (snd (usbFunctionSetup d s)) = s \<or> snd (snd (usbFunctionSetup d s)) = buildReport s \<or>
   (\<exists>r. snd (snd (usbFunctionSetup d s)) = s\<lparr>idleRate := r\<rparr>)"
  by (auto simp: usbFunctionSetup_def)

lemma hid_inv_setup: "hid_inv s \<Longrightarrow> hid_inv (snd (snd (usbFunctionSetup d s)))"
  using setup_cases [of d s] hid_inv_buildReport [of s] by (auto simp: hid_inv_def keys_def)

lemma hid_inv_usbPoll: "hid_inv s \<Longrightarrow> hid_inv (usbPoll ds s)"
  by (induction ds arbitrary: s) (simp_all add: hid_inv_setup)

text \<open>The state in the middle of a round, after the buttons were sampled.\<close>

definition after_sampling :: "hid_env \<Rightarrow> hid \<Rightarrow> hid" where
  "after_sampling e s =
     (let s = usbPoll (setups e) s in if debounceTimeIsOver s = 1 then checkButtonChange (pinb e) s else s)"

lemma hid_round_eq:
  "hid_round e s =
     (let s1 = after_sampling e s in
      if interruptIsReady e \<and> newReport s1 = 0
      then (timerPoll (tov1 e) (buildReport s1), Some (reportBuffer (buildReport s1)))
      else (timerPoll (tov1 e) s1, None))"
  by (simp add: hid_round_def after_sampling_def Let_def)

lemma hid_inv_after_sampling: "hid_inv s \<Longrightarrow> hid_inv (after_sampling e s)"
  by (simp add: after_sampling_def Let_def hid_inv_usbPoll hid_inv_checkButtonChange)

lemma hid_inv_round: "hid_inv s \<Longrightarrow> hid_inv (fst (hid_round e s))"
  by (simp add: hid_round_eq Let_def hid_inv_after_sampling hid_inv_buildReport hid_inv_timerPoll)

lemma hid_reachable_inv: "hid_reachable s \<Longrightarrow> hid_inv s"
  by (induction rule: hid_reachable.induct) (simp_all add: hid_inv_init hid_inv_round)

lemma keys_timerPoll [simp]: "keys (timerPoll t s) = keys s"
  by (simp add: keys_def)

definition states :: "hid \<Rightarrow> u8 list" where
  "states s = [buttonState (B1 s), buttonState (B2 s), buttonState (B3 s), buttonState (B4 s)]"

lemma keys_states: "states s = states t \<Longrightarrow> keys s = keys t"
  by (simp add: states_def keys_def key_of_def)

lemma buildReport_fields [simp]:
  "states (buildReport s) = states s" "debounceTimeIsOver (buildReport s) = debounceTimeIsOver s"
  "timerCnt (buildReport s) = timerCnt s"
  by (simp_all add: states_def buildReport_eq cleared_def)

lemma usbPoll_fields [simp]:
  "states (usbPoll ds s) = states s" "debounceTimeIsOver (usbPoll ds s) = debounceTimeIsOver s"
  "timerCnt (usbPoll ds s) = timerCnt s"
proof -
  have idle: "states (s\<lparr>idleRate := r\<rparr>) = states s" for s r by (simp add: states_def)
  have "states (snd (snd (usbFunctionSetup d s))) = states s \<and>
    debounceTimeIsOver (snd (snd (usbFunctionSetup d s))) = debounceTimeIsOver s \<and>
    timerCnt (snd (snd (usbFunctionSetup d s))) = timerCnt s" for d s
    using setup_cases [of d s] by (auto simp: idle)
  then show "states (usbPoll ds s) = states s" "debounceTimeIsOver (usbPoll ds s) = debounceTimeIsOver s"
    "timerCnt (usbPoll ds s) = timerCnt s"
    by (induction ds arbitrary: s) simp_all
qed

lemma states_sampled: "states (checkButtonChange p s) = [p AND 0x01, p AND 0x02, p AND 0x04, p AND 0x20]"
  by (simp add: states_def checkButtonChange_eq sampled_def)

lemma changes_states: "changes p s \<longleftrightarrow> states s \<noteq> [p AND 0x01, p AND 0x02, p AND 0x04, p AND 0x20]"
  by (auto simp: changes_def states_def)

section \<open>Properties\<close>

text \<open>The report for a value of the port: a button pulls its pin down.\<close>

definition pins_report :: "u8 \<Rightarrow> bytes" where
  "pins_report p = [0, 0, if p AND 0x01 = 0 then KEY_UP_ARROW else 0, if p AND 0x02 = 0 then KEY_DN_ARROW else 0,
     if p AND 0x04 = 0 then KEY_ENTER else 0, if p AND 0x20 = 0 then KEY_ESCAPE else 0, 0, 0]"

text \<open>
  Property C38: in every state the firmware reaches, a report it sends shows exactly the buttons that
  are down in the debounced state. Once the debounce time is over and the endpoint is ready, a change
  of the pins is sent in the same round, as the report for these pins.
\<close>

theorem hid_reports_buttons:
  assumes "hid_reachable s"
  shows "(\<forall>r. snd (hid_round e s) = Some r \<longrightarrow> r = keys (fst (hid_round e s))) \<and>
         (debounceTimeIsOver s = 1 \<and> interruptIsReady e \<and> changes (pinb e) s \<longrightarrow>
          snd (hid_round e s) = Some (pins_report (pinb e)))"
proof -
  have inv: "hid_inv (after_sampling e s)" by (simp add: hid_inv_after_sampling hid_reachable_inv assms)
  have "snd (hid_round e s) = Some (pins_report (pinb e))"
    if "debounceTimeIsOver s = 1" "interruptIsReady e" "changes (pinb e) s"
  proof -
    have a: "after_sampling e s = checkButtonChange (pinb e) (usbPoll (setups e) s)"
      using that(1) by (simp add: after_sampling_def)
    have "changes (pinb e) (usbPoll (setups e) s)" using that(3) by (simp add: changes_states)
    then have "newReport (after_sampling e s) = 0" unfolding a by (simp add: checkButtonChange_eq)
    moreover have "keys (after_sampling e s) = pins_report (pinb e)"
      using states_sampled [of "pinb e"] unfolding a by (simp add: keys_def key_of_def states_def pins_report_def)
    ultimately show ?thesis using that(2) buildReport_sent [OF inv] by (simp add: hid_round_eq)
  qed
  moreover have "r = keys (fst (hid_round e s))" if "snd (hid_round e s) = Some r" for r
    using that buildReport_sent [OF inv] by (auto simp: hid_round_eq Let_def split: if_splits)
  ultimately show ?thesis by blast
qed

theorem hid_reports_buttons_witness:
  "snd (hid_round \<lparr>setups = [], pinb = 0xfe, interruptIsReady = True, tov1 = False\<rparr> hid_init) =
     Some [0, 0, 0x52, 0, 0, 0, 0, 0]"
proof -
  have "changes 0xfe hid_init" by (simp add: changes_def hid_init_def Let_def)
  then show ?thesis
    using hid_reports_buttons [OF hid_reachable.start,
        of "\<lparr>setups = [], pinb = 0xfe, interruptIsReady = True, tov1 = False\<rparr>"]
    by (simp add: hid_init_def Let_def pins_report_def)
qed

text \<open>Several rounds.\<close>

definition hid_run :: "hid_env list \<Rightarrow> hid \<Rightarrow> hid" where
  "hid_run es s = fold (\<lambda>e s. fst (hid_round e s)) es s"

lemma round_debouncing:
  assumes "debounceTimeIsOver s = 0"
  shows "states (fst (hid_round e s)) = states s"
    "tov1 e \<Longrightarrow> \<not> 5 \<le> timerCnt s + 1 \<Longrightarrow> timerCnt (fst (hid_round e s)) = timerCnt s + 1 \<and> debounceTimeIsOver (fst (hid_round e s)) = 0"
    "tov1 e \<Longrightarrow> 5 \<le> timerCnt s + 1 \<Longrightarrow> debounceTimeIsOver (fst (hid_round e s)) = 1"
    "\<not> tov1 e \<Longrightarrow> timerCnt (fst (hid_round e s)) = timerCnt s \<and> debounceTimeIsOver (fst (hid_round e s)) = 0"
proof -
  have a: "states (after_sampling e s) = states s" "debounceTimeIsOver (after_sampling e s) = 0"
    "timerCnt (after_sampling e s) = timerCnt s"
    using assms by (simp_all add: after_sampling_def Let_def)
  have st: "states (timerPoll t s') = states s'" for t s' by (simp add: states_def)
  show "states (fst (hid_round e s)) = states s" using a by (simp add: hid_round_eq Let_def st)
  show "tov1 e \<Longrightarrow> \<not> 5 \<le> timerCnt s + 1 \<Longrightarrow> timerCnt (fst (hid_round e s)) = timerCnt s + 1 \<and> debounceTimeIsOver (fst (hid_round e s)) = 0"
    "tov1 e \<Longrightarrow> 5 \<le> timerCnt s + 1 \<Longrightarrow> debounceTimeIsOver (fst (hid_round e s)) = 1"
    "\<not> tov1 e \<Longrightarrow> timerCnt (fst (hid_round e s)) = timerCnt s \<and> debounceTimeIsOver (fst (hid_round e s)) = 0"
    using a by (simp_all add: hid_round_eq Let_def timerPoll_def)
qed

lemma run_debouncing:
  "debounceTimeIsOver s = 0 \<Longrightarrow> unat (timerCnt s) + length (filter tov1 es) < 5 \<Longrightarrow>
   states (hid_run es s) = states s \<and> debounceTimeIsOver (hid_run es s) = 0 \<and>
   unat (timerCnt (hid_run es s)) = unat (timerCnt s) + length (filter tov1 es)"
proof (induction es arbitrary: s)
  case (Cons e es)
  have n: "unat (timerCnt s + 1) = unat (timerCnt s) + 1" if "unat (timerCnt s) < 5"
    using that by (simp add: unat_word_ariths)
  have "debounceTimeIsOver (fst (hid_round e s)) = 0 \<and>
    unat (timerCnt (fst (hid_round e s))) = unat (timerCnt s) + (if tov1 e then 1 else 0)"
    using Cons.prems round_debouncing(2,4) [OF Cons.prems(1), of e] n
    by (auto simp: word_le_nat_alt split: if_splits)
  with Cons.IH [of "fst (hid_round e s)"] Cons.prems round_debouncing(1) [OF Cons.prems(1)] show ?case
    by (auto simp: hid_run_def split: if_splits)
qed (simp add: hid_run_def)

text \<open>
  Fact: the debounce time is \<open>5 - timerCnt\<close> timer overflows. Before them no button changes
  state, whatever the pins do; with the last of them sampling is on again. The counter runs on its
  own, so the time after a press lies anywhere between one and five overflows.
\<close>

theorem hid_debounce_time:
  assumes "debounceTimeIsOver s = 0" and "unat (timerCnt s) < 5"
  shows "(unat (timerCnt s) + length (filter tov1 es) < 5 \<longrightarrow>
            states (hid_run es s) = states s \<and> debounceTimeIsOver (hid_run es s) = 0) \<and>
         (unat (timerCnt s) + length (filter tov1 es) = 4 \<and> tov1 e \<longrightarrow>
            states (hid_run (es @ [e]) s) = states s \<and> debounceTimeIsOver (hid_run (es @ [e]) s) = 1)"
proof -
  have r: "hid_run (es @ [e]) s = fst (hid_round e (hid_run es s))" by (simp add: hid_run_def)
  have "debounceTimeIsOver (hid_run (es @ [e]) s) = 1 \<and> states (hid_run (es @ [e]) s) = states s"
    if "unat (timerCnt s) + length (filter tov1 es) = 4" "tov1 e"
  proof -
    note run = run_debouncing [OF assms(1), of es]
    have "unat (timerCnt (hid_run es s) + 1) = 5" using run that(1) by (simp add: unat_word_ariths)
    then have "5 \<le> timerCnt (hid_run es s) + 1" by (simp add: word_le_nat_alt)
    with run that round_debouncing(1,3) [of "hid_run es s" e] show ?thesis by (simp add: r)
  qed
  with run_debouncing [OF assms(1), of es] show ?thesis by blast
qed

theorem hid_debounce_time_witness:
  "states (hid_run [\<lparr>setups = [], pinb = 0, interruptIsReady = True, tov1 = True\<rparr>]
      (hid_init\<lparr>debounceTimeIsOver := 0, timerCnt := 4\<rparr>)) = [3, 3, 3, 3] \<and>
   debounceTimeIsOver (hid_run [\<lparr>setups = [], pinb = 0, interruptIsReady = True, tov1 = True\<rparr>]
      (hid_init\<lparr>debounceTimeIsOver := 0, timerCnt := 4\<rparr>)) = 1"
  using hid_debounce_time [of "hid_init\<lparr>debounceTimeIsOver := 0, timerCnt := 4\<rparr>" "[]"
      "\<lparr>setups = [], pinb = 0, interruptIsReady = True, tov1 = True\<rparr>"]
  by (simp add: states_def hid_init_def Let_def)

end
