(* ===== verification/Attiny_Rotary.thy ===== *)
theory Attiny_Rotary
  imports Oscillator
begin

text \<open>
  The firmware of the volume knob, \<open>src/sources/firmware/attiny85-hid-rotary/main.c\<close>. The port is a
  sequence of samples: \<open>pins n\<close> is the value the \<open>n\<close>-th read of \<open>PINB\<close> returns, so a loop that waits
  for a pin can be followed read by read. The calibration is that of the theory \<open>Oscillator\<close>.
\<close>

section \<open>State and the encoder\<close>

abbreviation (input) ENC_SW :: u8 where "ENC_SW \<equiv> 0x01"
abbreviation (input) ENC_B :: u8 where "ENC_B \<equiv> 0x04"
abbreviation (input) ENC_A :: u8 where "ENC_A \<equiv> 0x20"
abbreviation (input) VOLUMEMUTE :: u8 where "VOLUMEMUTE \<equiv> 0xE2"
abbreviation (input) VOLUMEUP :: u8 where "VOLUMEUP \<equiv> 0xE9"
abbreviation (input) VOLUMEDOWN :: u8 where "VOLUMEDOWN \<equiv> 0xEA"

record rotary =
  rot_report :: bytes
  rot_idleRate :: u8
  currentKey :: u8
  isSwitchPressed :: u8

definition rotary_init :: rotary where
  "rotary_init = \<lparr>rot_report = [1, 0, 0], rot_idleRate = 0, currentKey = 0, isSwitchPressed = 0\<rparr>"

text \<open>The wait for the next detent: the number of the first read after it, or \<open>None\<close> if it never ends.\<close>

partial_function (option) wait_detent :: "(nat \<Rightarrow> u8) \<Rightarrow> nat \<Rightarrow> nat option" where
  "wait_detent pins n = (if pins n AND ENC_A = 0 then wait_detent pins (n + 1) else Some (n + 1))"

definition checkEncoder :: "(nat \<Rightarrow> u8) \<Rightarrow> nat \<Rightarrow> rotary \<Rightarrow> (nat \<times> rotary) option" where
  "checkEncoder pins n s =
     (let s = s\<lparr>currentKey := 0\<rparr> in
      if pins n AND ENC_A = 0 then
        let s = s\<lparr>currentKey := if pins (n + 1) AND ENC_B \<noteq> 0 then VOLUMEUP else VOLUMEDOWN\<rparr> in
        (case wait_detent pins (n + 2) of None \<Rightarrow> None | Some n \<Rightarrow> Some (n, s))
      else if isSwitchPressed s = 0 then
        (if pins (n + 1) AND ENC_SW = 0
         then Some (n + 2, s\<lparr>currentKey := VOLUMEMUTE, isSwitchPressed := 1\<rparr>) else Some (n + 2, s))
      else
        (if pins (n + 1) AND ENC_SW \<noteq> 0 then Some (n + 2, s\<lparr>isSwitchPressed := 0\<rparr>) else Some (n + 2, s)))"

section \<open>Control requests and the main loop\<close>

definition rotary_setup :: "bytes \<Rightarrow> rotary \<Rightarrow> bytes \<times> rotary" where
  "rotary_setup data s =
     (if data ! 0 AND 0x60 = 0x20 then
        if data ! 1 = 0x01 then (rot_report s, s)
        else if data ! 1 = 0x02 then ([rot_idleRate s], s)
        else if data ! 1 = 0x0a then ([], s\<lparr>rot_idleRate := data ! 3\<rparr>)
        else ([], s)
      else ([], s))"

fun rotary_poll :: "bytes list \<Rightarrow> rotary \<Rightarrow> rotary" where
  "rotary_poll [] s = s"
| "rotary_poll (d # ds) s = rotary_poll ds (snd (rotary_setup d s))"

text \<open>
  One round: the setup packets \<open>usbPoll\<close> delivers, and whether the endpoint is ready. The result is
  the number of the next read, the state, and the report sent.
\<close>

definition rotary_round ::
  "(nat \<Rightarrow> u8) \<Rightarrow> bytes list \<times> bool \<Rightarrow> nat \<Rightarrow> rotary \<Rightarrow> (nat \<times> rotary \<times> bytes list) option" where
  "rotary_round pins e n s =
     (case checkEncoder pins n (rotary_poll (fst e) s) of None \<Rightarrow> None
      | Some (n, s) \<Rightarrow>
          if snd e \<and> rot_report s ! 1 \<noteq> currentKey s then
            let s = s\<lparr>rot_report := (rot_report s)[1 := currentKey s]\<rparr> in Some (n, s, [rot_report s])
          else Some (n, s, []))"

fun rotary_run ::
  "(nat \<Rightarrow> u8) \<Rightarrow> (bytes list \<times> bool) list \<Rightarrow> nat \<Rightarrow> rotary \<Rightarrow> (nat \<times> rotary \<times> bytes list) option" where
  "rotary_run pins [] n s = Some (n, s, [])"
| "rotary_run pins (e # es) n s =
     (case rotary_round pins e n s of None \<Rightarrow> None
      | Some (n, s, out) \<Rightarrow>
          (case rotary_run pins es n s of None \<Rightarrow> None | Some (n, s, outs) \<Rightarrow> Some (n, s, out @ outs)))"

section \<open>Lemmas\<close>

lemma wait_detent_ends:
  assumes "\<forall>j. n \<le> j \<and> j < k \<longrightarrow> pins j AND ENC_A = 0" "n \<le> k" "pins k AND ENC_A \<noteq> 0"
  shows "wait_detent pins n = Some (k + 1)"
  using assms
proof (induction "k - n" arbitrary: n)
  case 0
  then show ?case by (simp add: wait_detent.simps)
next
  case (Suc d)
  then have "pins n AND ENC_A = 0" "n < k" by auto
  with Suc show ?case by (simp add: wait_detent.simps [of pins n])
qed

lemma rotary_poll_fields [simp]:
  "rot_report (rotary_poll ds s) = rot_report s" "isSwitchPressed (rotary_poll ds s) = isSwitchPressed s"
  by (induction ds arbitrary: s) (simp_all add: rotary_setup_def)

text \<open>While the switch is held, a round that saw it pressed sends a release once and then nothing.\<close>

definition held_down :: "(nat \<Rightarrow> u8) \<Rightarrow> bool" where
  "held_down pins \<longleftrightarrow> (\<forall>j. pins j AND ENC_A \<noteq> 0 \<and> pins j AND ENC_SW = 0)"

lemma held_round:
  assumes "held_down pins" "isSwitchPressed s = 1" "rot_report s = [1, k, 0]"
  shows "\<exists>s'. rotary_round pins (ds, True) n s = Some (n + 2, s', if k = 0 then [] else [[1, 0, 0]]) \<and>
    isSwitchPressed s' = 1 \<and> rot_report s' = [1, 0, 0]"
  using assms by (simp add: held_down_def rotary_round_def checkEncoder_def Let_def)

lemma held_run:
  assumes "held_down pins"
  shows "isSwitchPressed s = 1 \<Longrightarrow> rot_report s = [1, 0, 0] \<Longrightarrow> list_all snd es \<Longrightarrow>
    \<exists>s'. rotary_run pins es n s = Some (n + 2 * length es, s', [])"
proof (induction es arbitrary: n s)
  case (Cons e es)
  then obtain ds where e: "e = (ds, True)" by (cases e) auto
  from held_round [OF assms Cons.prems(1,2), of ds n] obtain s1 where s1:
    "rotary_round pins e n s = Some (n + 2, s1, [])" "isSwitchPressed s1 = 1" "rot_report s1 = [1, 0, 0]"
    by (auto simp: e)
  from Cons.IH [OF s1(2,3), of "n + 2"] Cons.prems(3) s1(1) show ?case by auto
qed simp

section \<open>Properties\<close>

text \<open>
  Fact: when the encoder leaves a detent, the direction is that of the second pin at the next
  read, and the check returns with exactly one key once the pin is back at the detent, however long
  that takes; the state of the switch is not touched.
\<close>

theorem rotary_turn_one_key:
  assumes "pins n AND ENC_A = 0" and "\<And>j. n + 2 \<le> j \<and> j < k \<Longrightarrow> pins j AND ENC_A = 0"
    and "n + 2 \<le> k" and "pins k AND ENC_A \<noteq> 0"
  shows "checkEncoder pins n s =
    Some (k + 1, s\<lparr>currentKey := if pins (n + 1) AND ENC_B \<noteq> 0 then VOLUMEUP else VOLUMEDOWN\<rparr>)"
  using wait_detent_ends [of "n + 2" k pins] assms by (simp add: checkEncoder_def Let_def)

theorem rotary_turn_one_key_witness:
  "checkEncoder (\<lambda>n. if n < 7 then 0x05 else 0x25) 0 rotary_init = Some (8, rotary_init\<lparr>currentKey := 0xE9\<rparr>)"
  using rotary_turn_one_key [of "\<lambda>n. if n < 7 then 0x05 else 0x25" 0 7 rotary_init] by simp

text \<open>
  Fact: holding the switch down mutes once. With the endpoint ready, the first round sends the
  mute key, the second its release, and all later rounds nothing.
\<close>

theorem rotary_mute_once:
  assumes "held_down pins"
    and "isSwitchPressed s = 0" and "rot_report s = [1, 0, 0]" and "list_all snd es" and "2 \<le> length es"
  shows "\<exists>n' s'. rotary_run pins es n s = Some (n', s', [[1, VOLUMEMUTE, 0], [1, 0, 0]])"
proof -
  obtain d1 d2 es' where es: "es = (d1, True) # (d2, True) # es'"
    using assms(4,5) by (cases es; cases "tl es") auto
  obtain s1 where s1: "rotary_round pins (d1, True) n s = Some (n + 2, s1, [[1, VOLUMEMUTE, 0]])"
    "isSwitchPressed s1 = 1" "rot_report s1 = [1, VOLUMEMUTE, 0]"
    using assms(1-3) by (simp add: held_down_def rotary_round_def checkEncoder_def Let_def)
  from held_round [OF assms(1) s1(2,3), of d2 "n + 2"] obtain s2 where s2:
    "rotary_round pins (d2, True) (n + 2) s1 = Some (n + 2 + 2, s2, [[1, 0, 0]])"
    "isSwitchPressed s2 = 1" "rot_report s2 = [1, 0, 0]" by auto
  from held_run [OF assms(1) s2(2,3), of es' "n + 2 + 2"] assms(4) obtain s3 where
    "rotary_run pins es' (n + 2 + 2) s2 = Some (n + 2 + 2 + 2 * length es', s3, [])" by (auto simp: es)
  with s1(1) s2(1) show ?thesis by (simp add: es)
qed

theorem rotary_mute_once_witness:
  "\<exists>n' s'. rotary_run (\<lambda>_. 0x24) [([], True), ([], True), ([], True)] 0 rotary_init =
     Some (n', s', [[1, 0xE2, 0], [1, 0, 0]])"
  using rotary_mute_once [of "\<lambda>_. 0x24" rotary_init "[([], True), ([], True), ([], True)]" 0]
  by (simp add: rotary_init_def held_down_def)

end
