(* ===== verification/C_Alloc.thy ===== *)
theory C_Alloc
  imports Prelude
begin

text \<open>
  The allocator of the C library as the programs see it. \<open>ok n\<close> tells whether the \<open>n\<close>-th
  allocation of the run succeeds; the state counts the allocations made and the blocks that are live.
\<close>

record alloc =
  allocs :: nat
  live :: nat

type_synonym allocator = "nat \<Rightarrow> bool"

definition malloc :: "allocator \<Rightarrow> alloc \<Rightarrow> bool \<times> alloc" where
  "malloc ok h = (ok (allocs h),
     h\<lparr>allocs := allocs h + 1, live := live h + (if ok (allocs h) then 1 else 0)\<rparr>)"

text \<open>\<open>realloc\<close> of a block: when it fails the old block stays.\<close>

definition realloc :: "allocator \<Rightarrow> alloc \<Rightarrow> bool \<times> alloc" where
  "realloc ok h = (ok (allocs h), h\<lparr>allocs := allocs h + 1\<rparr>)"

definition free :: "alloc \<Rightarrow> alloc" where
  "free h = h\<lparr>live := live h - 1\<rparr>"

lemma live_free [simp]: "live (free h) = live h - 1"
  by (simp add: free_def)

lemma allocs_free [simp]: "allocs (free h) = allocs h"
  by (simp add: free_def)

lemma malloc_cases:
  obtains h' where "malloc ok h = (False, h')" "live h' = live h" "\<not> ok (allocs h)"
  | h' where "malloc ok h = (True, h')" "live h' = live h + 1"
  by (cases "ok (allocs h)") (auto simp: malloc_def)

lemma realloc_cases:
  obtains h' where "realloc ok h = (False, h')" "live h' = live h" "\<not> ok (allocs h)"
  | h' where "realloc ok h = (True, h')" "live h' = live h"
  by (cases "ok (allocs h)") (auto simp: realloc_def)

end
