(* ===== verification/Strmap.thy ===== *)
theory Strmap
  imports C_Alloc "HOL-Library.AList"
begin

text \<open>
  The hash table for strings of the settings library, \<open>src/sources/lib/lib-settings/src/strmap.cpp\<close>:
  an array of buckets, each an array of key-value pairs. The state is the table and the
  allocator, so that leaks can be seen. A null pointer is \<open>None\<close>, plain \<open>char\<close> is signed, and
  the counters of pairs stay below $2^{32}$ as a bucket of that size does not fit into memory.
\<close>

section \<open>The interface of a string map\<close>

text \<open>What the settings rely on: lookup after update, and an enumeration of all entries.\<close>

locale string_map =
  fixes empty :: 'm
    and update :: "string \<Rightarrow> string \<Rightarrow> 'm \<Rightarrow> 'm"
    and lookup :: "'m \<Rightarrow> string \<Rightarrow> string option"
    and entries :: "'m \<Rightarrow> (string \<times> string) list"
    and invar :: "'m \<Rightarrow> bool"
  assumes invar_empty: "invar empty"
    and lookup_empty: "lookup empty = Map.empty"
    and invar_update: "invar m \<Longrightarrow> invar (update k v m)"
    and lookup_update: "invar m \<Longrightarrow> lookup (update k v m) = (lookup m)(k \<mapsto> v)"
    and entries_distinct: "invar m \<Longrightarrow> distinct (map fst (entries m))"
    and entries_lookup: "invar m \<Longrightarrow> map_of (entries m) = lookup m"
begin

text \<open>Putting all pairs of a list into a map, later pairs winning.\<close>

lemma fold_update:
  "invar m \<Longrightarrow> invar (fold (\<lambda>(k, v). update k v) kvs m) \<and>
     lookup (fold (\<lambda>(k, v). update k v) kvs m) = lookup m ++ map_of (rev kvs)"
  by (induction kvs arbitrary: m) (auto simp: invar_update lookup_update)

text \<open>Copying a map entry by entry gives a map with the same lookups.\<close>

lemma rebuild:
  assumes "invar m"
  shows "invar (fold (\<lambda>(k, v). update k v) (entries m) empty)"
    and "lookup (fold (\<lambda>(k, v). update k v) (entries m) empty) = lookup m"
proof -
  have "map_of (rev (entries m)) = map_of (entries m)"
    using entries_distinct [OF assms] by (rule map_of_rev_distinct)
  then show "invar (fold (\<lambda>(k, v). update k v) (entries m) empty)"
    and "lookup (fold (\<lambda>(k, v). update k v) (entries m) empty) = lookup m"
    using fold_update [OF invar_empty, of "entries m"] entries_lookup [OF assms]
    by (simp_all add: lookup_empty)
qed

lemma lookup_entries: "invar m \<Longrightarrow> lookup m k = Some v \<longleftrightarrow> (k, v) \<in> set (entries m)"
  using entries_distinct entries_lookup by (metis map_of_eq_Some_iff)

end

section \<open>The table\<close>

type_synonym pair = "string \<times> string"

record StrMap =
  map_count :: u32
  buckets :: "pair list list"

definition schar :: "char \<Rightarrow> int" where
  "schar c = (if of_char c < (128 :: int) then of_char c else of_char c - 256)"

definition hash :: "string \<Rightarrow> 64 word" where
  "hash str = foldl (\<lambda>h c. (push_bit 5 h + h) + of_int (schar c)) 5381 str"

definition bucket_index :: "StrMap \<Rightarrow> string \<Rightarrow> nat" where
  "bucket_index m key = unat (ucast (hash key mod ucast (map_count m)) :: u32)"

text \<open>The position of the first pair with the key. Keys and values are never null.\<close>

fun get_pair :: "pair list \<Rightarrow> string \<Rightarrow> nat option" where
  "get_pair [] key = None"
| "get_pair (p # ps) key = (if fst p = key then Some 0 else map_option Suc (get_pair ps key))"

definition sm_new :: "(nat \<Rightarrow> bool) \<Rightarrow> u32 \<Rightarrow> alloc \<Rightarrow> StrMap option \<times> alloc" where
  "sm_new ok capacity h =
     (case malloc ok h of (m, h) \<Rightarrow>
        if \<not> m then (None, h)
        else
          (case malloc ok h of (b, h) \<Rightarrow>
             if \<not> b then (None, free h)
             else (Some \<lparr>map_count = capacity, buckets = replicate (unat capacity) []\<rparr>, h)))"

text \<open>Key and value of every pair, then the array of pairs, which is null for an empty bucket.\<close>

fun free_pairs :: "pair list \<Rightarrow> alloc \<Rightarrow> alloc" where
  "free_pairs [] h = h"
| "free_pairs (p # ps) h = free_pairs ps (free (free h))"

fun free_buckets :: "pair list list \<Rightarrow> alloc \<Rightarrow> alloc" where
  "free_buckets [] h = h"
| "free_buckets (b # bs) h =
     (let h = free_pairs b h in free_buckets bs (if b = [] then h else free h))"

definition sm_delete :: "StrMap option \<Rightarrow> alloc \<Rightarrow> alloc" where
  "sm_delete m h = (case m of None \<Rightarrow> h | Some t \<Rightarrow> free (free (free_buckets (buckets t) h)))"

text \<open>
  The result and the string copied to the buffer; \<open>out_buf\<close> tells whether there is a buffer. A map
  without buckets divides by zero.
\<close>

definition sm_get ::
  "StrMap option \<Rightarrow> string option \<Rightarrow> bool \<Rightarrow> nat \<Rightarrow> (int \<times> string option) kres" where
  "sm_get m key out_buf n_out_buf =
     (case (m, key) of
        (Some t, Some k) \<Rightarrow>
          if map_count t = 0 then kfail DivideByZero
          else
            let bucket = buckets t ! bucket_index t k in
            (case get_pair bucket k of None \<Rightarrow> kret (0, None)
             | Some i \<Rightarrow>
                 let v = snd (bucket ! i) in
                 kret (if \<not> out_buf \<and> n_out_buf = 0 then (int (length v) + 1, None)
                       else if \<not> out_buf then (0, None)
                       else if n_out_buf \<le> length v then (0, None)
                       else (1, Some v)))
      | _ \<Rightarrow> kret (0, None))"

definition sm_exists :: "StrMap option \<Rightarrow> string option \<Rightarrow> int kres" where
  "sm_exists m key =
     (case (m, key) of
        (Some t, Some k) \<Rightarrow>
          if map_count t = 0 then kfail DivideByZero
          else kret (if get_pair (buckets t ! bucket_index t k) k = None then 0 else 1)
      | _ \<Rightarrow> kret 0)"

definition sm_put ::
  "(nat \<Rightarrow> bool) \<Rightarrow> StrMap option \<Rightarrow> string option \<Rightarrow> string option \<Rightarrow> alloc
     \<Rightarrow> (int \<times> StrMap option \<times> alloc) kres" where
  "sm_put ok m key val h =
     (case (m, key, val) of
        (Some t, Some k, Some v) \<Rightarrow>
          if map_count t = 0 then kfail DivideByZero
          else
            let index = bucket_index t k; bucket = buckets t ! index;
                set_bucket = (\<lambda>b. Some (t\<lparr>buckets := (buckets t)[index := b]\<rparr>)) in
            (case get_pair bucket k of
               Some i \<Rightarrow>
                 (case (if length (snd (bucket ! i)) < length v then realloc ok h else (True, h)) of
                    (tmp_value, h) \<Rightarrow>
                      if \<not> tmp_value then kret (0, m, h)
                      else kret (1, set_bucket (bucket[i := (fst (bucket ! i), v)]), h))
             | None \<Rightarrow>
                 (case malloc ok h of (new_key, h) \<Rightarrow>
                    if \<not> new_key then kret (0, m, h)
                    else
                      (case malloc ok h of (new_value, h) \<Rightarrow>
                         if \<not> new_value then kret (0, m, free h)
                         else
                           (case (if bucket = [] then malloc ok h else realloc ok h) of (pairs, h) \<Rightarrow>
                              if \<not> pairs then kret (0, m, free (free h))
                              else kret (1, set_bucket (bucket @ [(k, v)]), h)))))
      | _ \<Rightarrow> kret (0, m, h))"

fun count_pairs :: "pair list \<Rightarrow> u32 \<Rightarrow> u32" where
  "count_pairs [] n = n"
| "count_pairs (p # ps) n = count_pairs ps (n + 1)"

definition sm_get_count :: "StrMap option \<Rightarrow> int" where
  "sm_get_count m = (case m of None \<Rightarrow> 0 | Some t \<Rightarrow> sint (fold count_pairs (buckets t) 0))"

text \<open>The callback is applied to every pair, bucket by bucket; it acts on a state.\<close>

definition sm_enum ::
  "StrMap option \<Rightarrow> (string \<Rightarrow> string \<Rightarrow> 's \<Rightarrow> 's) option \<Rightarrow> 's \<Rightarrow> int \<times> 's" where
  "sm_enum m enum_func s =
     (case (m, enum_func) of
        (Some t, Some f) \<Rightarrow> (1, fold (fold (\<lambda>(k, v). f k v)) (buckets t) s)
      | _ \<Rightarrow> (0, s))"

section \<open>The table as a map\<close>

definition sm_invar :: "StrMap \<Rightarrow> bool" where
  "sm_invar m \<longleftrightarrow> map_count m \<noteq> 0 \<and> length (buckets m) = unat (map_count m) \<and>
     (\<forall>i < length (buckets m). distinct (map fst (buckets m ! i)) \<and>
        (\<forall>p \<in> set (buckets m ! i). bucket_index m (fst p) = i))"

definition sm_lookup :: "StrMap \<Rightarrow> string \<Rightarrow> string option" where
  "sm_lookup m k = map_of (buckets m ! bucket_index m k) k"

definition sm_entries :: "StrMap \<Rightarrow> pair list" where
  "sm_entries m = concat (buckets m)"

definition sm_empty :: "u32 \<Rightarrow> StrMap" where
  "sm_empty capacity = \<lparr>map_count = capacity, buckets = replicate (unat capacity) []\<rparr>"

text \<open>The table after a successful \<open>sm_put\<close>.\<close>

definition sm_update :: "string \<Rightarrow> string \<Rightarrow> StrMap \<Rightarrow> StrMap" where
  "sm_update k v m = m\<lparr>buckets := (buckets m)[bucket_index m k := AList.update k v (buckets m ! bucket_index m k)]\<rparr>"

text \<open>The blocks of a bucket and of a table.\<close>

definition bucket_blocks :: "pair list \<Rightarrow> nat" where
  "bucket_blocks b = (if b = [] then 0 else 1 + 2 * length b)"

definition sm_blocks :: "StrMap \<Rightarrow> nat" where
  "sm_blocks m = 2 + sum_list (map bucket_blocks (buckets m))"

lemma bucket_index_update [simp]: "bucket_index (m\<lparr>buckets := bs\<rparr>) k = bucket_index m k"
  by (simp add: bucket_index_def)

lemma bucket_index_less: "map_count m \<noteq> 0 \<Longrightarrow> bucket_index m k < unat (map_count m)"
proof -
  assume "map_count m \<noteq> 0"
  then have pos: "0 < unat (map_count m)" by (simp add: unat_gt_0)
  have c: "unat (ucast (map_count m) :: 64 word) = unat (map_count m)"
    by (simp add: unsigned_ucast_eq take_bit_nat_eq_self order_less_trans [OF unsigned_less])
  have "unat (hash k mod ucast (map_count m)) = unat (hash k) mod unat (map_count m)"
    by (simp add: unat_mod_distrib c)
  also have "\<dots> < unat (map_count m)" using pos by simp
  finally have lt: "unat (hash k mod ucast (map_count m)) < unat (map_count m)" .
  then have "bucket_index m k = unat (hash k mod ucast (map_count m))"
    using less_trans [OF lt unsigned_less [of "map_count m"]]
    by (simp add: bucket_index_def unsigned_ucast_eq take_bit_nat_eq_self)
  with lt show ?thesis by simp
qed

lemma sm_invar_index: "sm_invar m \<Longrightarrow> bucket_index m k < length (buckets m)"
  by (simp add: sm_invar_def bucket_index_less)

lemma get_pair_None: "get_pair b k = None \<longleftrightarrow> map_of b k = None"
  by (induction b) auto

lemma get_pair_Some:
  "get_pair b k = Some i \<Longrightarrow> i < length b \<and> fst (b ! i) = k \<and> map_of b k = Some (snd (b ! i))
     \<and> b[i := (k, v)] = AList.update k v b"
  by (induction b arbitrary: i) (auto split: if_splits)

lemma update_keyD: "p \<in> set (AList.update k v b) \<Longrightarrow> fst p = k \<or> p \<in> set b"
  by (induction b) (auto split: if_splits)

lemma update_new: "map_of b k = None \<Longrightarrow> AList.update k v b = b @ [(k, v)]"
  by (induction b) auto

lemma sm_invar_empty: "c \<noteq> 0 \<Longrightarrow> sm_invar (sm_empty c)"
  by (simp add: sm_invar_def sm_empty_def)

lemma sm_lookup_empty: "c \<noteq> 0 \<Longrightarrow> sm_lookup (sm_empty c) = Map.empty"
  using sm_invar_index [OF sm_invar_empty] by (auto simp: sm_lookup_def sm_empty_def fun_eq_iff)

lemma sm_invar_update:
  assumes "sm_invar m"
  shows "sm_invar (sm_update k v m)"
  using assms sm_invar_index [OF assms, of k]
  by (auto simp: sm_invar_def sm_update_def nth_list_update distinct_update dest!: update_keyD)

lemma sm_lookup_update:
  assumes "sm_invar m"
  shows "sm_lookup (sm_update k v m) = (sm_lookup m)(k \<mapsto> v)"
  using sm_invar_index [OF assms]
  by (auto simp: sm_lookup_def sm_update_def nth_list_update fun_eq_iff update_conv')

lemma in_concat_nth: "p \<in> set (concat bs) \<Longrightarrow> \<exists>i < length bs. p \<in> set (bs ! i)"
  by (auto simp: in_set_conv_nth [of _ bs])

lemma map_of_concat_disjoint:
  assumes "\<And>i. i < length bs \<Longrightarrow> i \<noteq> j \<Longrightarrow> map_of (bs ! i) k = None" and "j < length bs"
  shows "map_of (concat bs) k = map_of (bs ! j) k"
  using assms
proof (induction bs arbitrary: j)
  case (Cons b bs)
  show ?case
  proof (cases j)
    case 0
    have "k \<notin> fst ` set (concat bs)"
    proof
      assume "k \<in> fst ` set (concat bs)"
      then obtain p where p: "k = fst p" "p \<in> set (concat bs)" by blast
      from in_concat_nth [OF p(2)] obtain i where i: "i < length bs" "p \<in> set (bs ! i)" by blast
      have "map_of (bs ! i) k = None" using Cons.prems(1) [of "Suc i"] i(1) 0 by simp
      then show False using p(1) i(2) by (simp add: map_of_eq_None_iff)
    qed
    then have "map_of (concat bs) k = None" by (simp only: map_of_eq_None_iff not_False_eq_True)
    with 0 show ?thesis by (simp add: map_add_def split: option.split)
  next
    case (Suc j')
    have "map_of (concat bs) k = map_of (bs ! j') k"
    proof (rule Cons.IH)
      show "map_of (bs ! i) k = None" if "i < length bs" "i \<noteq> j'" for i
        using Cons.prems(1) [of "Suc i"] that Suc by simp
    qed (use Cons.prems(2) Suc in simp)
    moreover have "map_of b k = None" using Cons.prems(1) [of 0] Suc by simp
    ultimately show ?thesis using Suc by (simp add: map_add_def split: option.splits)
  qed
qed simp

lemma sm_entries_lookup: "sm_invar m \<Longrightarrow> map_of (sm_entries m) = sm_lookup m"
proof
  fix k
  assume inv: "sm_invar m"
  then show "map_of (sm_entries m) k = sm_lookup m k"
    unfolding sm_entries_def sm_lookup_def
    by (intro map_of_concat_disjoint sm_invar_index) (force simp: sm_invar_def map_of_eq_None_iff)+
qed

lemma distinct_concat_fst:
  "(\<And>i. i < length bs \<Longrightarrow> distinct (map fst (bs ! i)) \<and> (\<forall>p \<in> set (bs ! i). f (fst p) = n + i)) \<Longrightarrow>
     distinct (map fst (concat bs))"
proof (induction bs arbitrary: n)
  case (Cons b bs)
  have b: "distinct (map fst b)" "\<And>p. p \<in> set b \<Longrightarrow> f (fst p) = n"
    using Cons.prems [of 0] by auto
  have bs: "distinct (map fst (concat bs))"
    by (rule Cons.IH [of "Suc n"]) (use Cons.prems in force)
  have "f (fst p) \<noteq> n" if p: "p \<in> set (concat bs)" for p
  proof -
    from in_concat_nth [OF p] obtain i where "i < length bs" "p \<in> set (bs ! i)" by blast
    then have "f (fst p) = n + Suc i" using Cons.prems [of "Suc i"] by simp
    then show ?thesis by simp
  qed
  then have "fst ` set b \<inter> fst ` set (concat bs) = {}" using b(2) by force
  with b bs show ?case by (simp add: distinct_append)
qed simp

lemma sm_entries_distinct: "sm_invar m \<Longrightarrow> distinct (map fst (sm_entries m))"
  unfolding sm_entries_def
  by (rule distinct_concat_fst [of _ "bucket_index m" 0]) (simp add: sm_invar_def)

interpretation sm: string_map "sm_empty 256" sm_update sm_lookup sm_entries sm_invar
  by unfold_locales
    (simp_all add: sm_invar_empty sm_lookup_empty sm_invar_update sm_lookup_update
      sm_entries_distinct sm_entries_lookup)

section \<open>What the operations do\<close>

lemma sm_new_spec:
  assumes "c \<noteq> 0"
  obtains h' where "sm_new ok c h = (None, h')" "live h' = live h" "\<exists>n. \<not> ok n"
  | h' where "sm_new ok c h = (Some (sm_empty c), h')" "live h' = live h + sm_blocks (sm_empty c)"
      "sm_invar (sm_empty c)"
proof (cases rule: malloc_cases [of ok h])
  case (1 h1)
  then show thesis using that(1) [of h1] by (auto simp: sm_new_def)
next
  case (2 h1)
  have blocks: "sm_blocks (sm_empty c) = 2"
    by (simp add: sm_blocks_def sm_empty_def bucket_blocks_def map_replicate_const sum_list_replicate)
  show thesis
  proof (cases rule: malloc_cases [of ok h1])
    case h2: (1 h2)
    then show thesis using 2 that(1) [of "free h2"] by (auto simp: sm_new_def)
  next
    case h2: (2 h2)
    then show thesis using 2 that(2) [of h2] assms blocks
      by (simp add: sm_new_def sm_empty_def sm_invar_empty [unfolded sm_empty_def])
  qed
qed

lemma sm_get_eq:
  assumes "sm_invar m"
  shows "sm_get (Some m) (Some k) out_buf n =
     kret (case sm_lookup m k of None \<Rightarrow> (0, None)
       | Some v \<Rightarrow> if \<not> out_buf \<and> n = 0 then (int (length v) + 1, None)
           else if \<not> out_buf \<or> n \<le> length v then (0, None) else (1, Some v))"
proof (cases "get_pair (buckets m ! bucket_index m k) k")
  case None
  then show ?thesis using assms
    by (simp add: sm_get_def sm_invar_def sm_lookup_def get_pair_None [THEN iffD1])
next
  case (Some i)
  then show ?thesis using assms get_pair_Some [OF Some]
    by (simp add: sm_get_def sm_invar_def sm_lookup_def Let_def)
qed

lemma sm_get_buf:
  "sm_invar m \<Longrightarrow> sm_get (Some m) (Some k) True n =
     kret (case sm_lookup m k of None \<Rightarrow> (0, None)
       | Some v \<Rightarrow> if n \<le> length v then (0, None) else (1, Some v))"
  by (simp add: sm_get_eq split: option.split)

lemma sm_exists_eq:
  "sm_invar m \<Longrightarrow> sm_exists (Some m) (Some k) = kret (if sm_lookup m k = None then 0 else 1)"
  by (simp add: sm_exists_def sm_invar_def sm_lookup_def get_pair_None)

text \<open>The blocks of the table when one bucket changes.\<close>

lemma sum_list_update_nat:
  "i < length ns \<Longrightarrow> sum_list (ns[i := n]) + ns ! i = sum_list ns + (n :: nat)"
  by (induction ns arbitrary: i) (auto split: nat.splits)

lemma sm_blocks_bucket:
  assumes "i < length (buckets m)"
  shows "sm_blocks (m\<lparr>buckets := (buckets m)[i := b]\<rparr>) + bucket_blocks (buckets m ! i)
       = sm_blocks m + bucket_blocks b"
  using sum_list_update_nat [of i "map bucket_blocks (buckets m)" "bucket_blocks b"] assms
  by (simp add: sm_blocks_def map_update)

text \<open>
  \<open>sm_put\<close> always returns. It stores the pair or changes nothing, it stores it when all allocations
  succeed, and the live blocks change by the blocks of the table.
\<close>

lemma sm_put_cases:
  assumes "sm_invar m"
  obtains h' where "sm_put ok (Some m) (Some k) (Some v) h = kret (0, Some m, h')" "live h' = live h"
      "\<exists>n. \<not> ok n"
  | h' where "sm_put ok (Some m) (Some k) (Some v) h = kret (1, Some (sm_update k v m), h')"
      "live h' + sm_blocks m = live h + sm_blocks (sm_update k v m)"
proof -
  let ?b = "buckets m ! bucket_index m k"
  have c: "map_count m \<noteq> 0" using assms by (simp add: sm_invar_def)
  have blocks: "sm_blocks (sm_update k v m) + bucket_blocks ?b = sm_blocks m + bucket_blocks (AList.update k v ?b)"
    unfolding sm_update_def by (rule sm_blocks_bucket [OF sm_invar_index [OF assms]])
  show thesis
  proof (cases "get_pair ?b k")
    case (Some i)
    note g = get_pair_Some [OF Some, of v]
    have same: "length (AList.update k v ?b) = length ?b" using g by (metis length_list_update)
    then have "bucket_blocks (AList.update k v ?b) = bucket_blocks ?b"
      using g by (auto simp: bucket_blocks_def)
    with blocks have eq: "sm_blocks (sm_update k v m) = sm_blocks m" by simp
    define r where "r = (if length (snd (?b ! i)) < length v then realloc ok h else (True, h))"
    obtain t h' where r: "r = (t, h')" "live h' = live h" "t \<or> (\<exists>n. \<not> ok n)"
      by (cases r) (auto simp: r_def realloc_def split: if_splits)
    have "sm_put ok (Some m) (Some k) (Some v) h =
        (case r of (t, h') \<Rightarrow> if \<not> t then kret (0, Some m, h') else kret (1, Some (sm_update k v m), h'))"
      using c Some g by (simp add: sm_put_def r_def [symmetric] sm_update_def Let_def split: prod.split)
    with r eq that show thesis by (cases t) auto
  next
    case None
    then have new: "AList.update k v ?b = ?b @ [(k, v)]"
      by (simp add: get_pair_None update_new)
    define last where "last h = (if ?b = [] then malloc ok h else realloc ok h)" for h
    have put: "sm_put ok (Some m) (Some k) (Some v) h =
       (case malloc ok h of (a, h) \<Rightarrow> if \<not> a then kret (0, Some m, h)
        else case malloc ok h of (a, h) \<Rightarrow> if \<not> a then kret (0, Some m, free h)
        else case last h of (a, h) \<Rightarrow> if \<not> a then kret (0, Some m, free (free h))
        else kret (1, Some (sm_update k v m), h))"
      unfolding sm_update_def new last_def
      using c None by (simp add: sm_put_def Let_def)
    show thesis
    proof (cases rule: malloc_cases [of ok h])
      case (1 h1)
      with put that(1) [of h1] show thesis by auto
    next
      case h1: (2 h1)
      show thesis
      proof (cases rule: malloc_cases [of ok h1])
        case (1 h2)
        with put h1 that(1) [of "free h2"] show thesis by auto
      next
        case h2: (2 h2)
        obtain a h3 where h3: "last h2 = (a, h3)"
          "a \<longrightarrow> live h3 = live h2 + (if ?b = [] then 1 else 0)" "\<not> a \<longrightarrow> live h3 = live h2 \<and> (\<exists>n. \<not> ok n)"
          by (cases rule: malloc_cases [of ok h2]; cases rule: realloc_cases [of ok h2]; cases "?b = []")
            (auto simp: last_def)
        show thesis
        proof (cases a)
          case True
          with put h1 h2 h3 have "sm_put ok (Some m) (Some k) (Some v) h = kret (1, Some (sm_update k v m), h3)"
            by simp
          then show thesis using that(2) [of h3] h1 h2 h3 True blocks new
            by (auto simp: bucket_blocks_def split: if_splits)
        next
          case False
          with put h1 h2 h3 that(1) [of "free (free h3)"] show thesis by auto
        qed
      qed
    qed
  qed
qed

lemma live_free_pairs: "live (free_pairs b h) = live h - 2 * length b"
  by (induction b arbitrary: h) auto

lemma live_free_buckets: "live (free_buckets bs h) = live h - sum_list (map bucket_blocks bs)"
  by (induction bs arbitrary: h) (auto simp: live_free_pairs bucket_blocks_def Let_def)

lemma live_sm_delete: "live (sm_delete (Some m) h) = live h - sm_blocks m"
  by (simp add: sm_delete_def live_free_buckets sm_blocks_def)

lemma count_pairs_eq: "count_pairs b n = n + of_nat (length b)"
  by (induction b arbitrary: n) auto

lemma fold_count_pairs: "fold count_pairs bs n = n + of_nat (length (concat bs))"
  by (induction bs arbitrary: n) (auto simp: count_pairs_eq)

lemma sm_get_count_eq:
  "length (sm_entries m) < 2 ^ 31 \<Longrightarrow> sm_get_count (Some m) = int (length (sm_entries m))"
  by (simp add: sm_get_count_def fold_count_pairs sm_entries_def sint_of_nat_small)

lemma sm_enum_eq: "sm_enum (Some m) (Some f) s = (1, fold (\<lambda>(k, v). f k v) (sm_entries m) s)"
proof -
  have "fold (fold (\<lambda>(k, v). f k v)) bs s = fold (\<lambda>(k, v). f k v) (concat bs) s" for bs
    by (induction bs arbitrary: s) auto
  then show ?thesis by (simp add: sm_enum_def sm_entries_def)
qed

section \<open>Properties\<close>

text \<open>A string map is built by \<open>sm_new\<close> and a sequence of \<open>sm_put\<close> calls.\<close>

fun sm_puts :: "allocator \<Rightarrow> StrMap option \<Rightarrow> (string \<times> string) list \<Rightarrow> alloc \<Rightarrow> (StrMap option \<times> alloc) kres" where
  "sm_puts ok m [] h = kret (m, h)"
| "sm_puts ok m ((k, v) # kvs) h =
     kbind (sm_put ok m (Some k) (Some v) h) (\<lambda>(r, m, h). sm_puts ok m kvs h)"

lemma sm_puts_ok:
  assumes "sm_invar m" and "\<forall>n. ok n"
  shows "\<exists>h'. sm_puts ok (Some m) kvs h = kret (Some (fold (\<lambda>(k, v). sm_update k v) kvs m), h')
    \<and> live h' + sm_blocks m = live h + sm_blocks (fold (\<lambda>(k, v). sm_update k v) kvs m)"
  using assms(1)
proof (induction kvs arbitrary: m h)
  case (Cons kv kvs)
  obtain k v where kv: "kv = (k, v)" by (cases kv)
  show ?case
  proof (cases rule: sm_put_cases [OF Cons.prems, of ok k v h])
    case (1 h')
    then show ?thesis using assms(2) by simp
  next
    case (2 h1)
    from Cons.IH [OF sm_invar_update [OF Cons.prems], of k v h1] obtain h' where
      "sm_puts ok (Some (sm_update k v m)) kvs h1 = kret (Some (fold (\<lambda>(k, v). sm_update k v) kvs (sm_update k v m)), h')"
      "live h' + sm_blocks (sm_update k v m) = live h1 + sm_blocks (fold (\<lambda>(k, v). sm_update k v) kvs (sm_update k v m))"
      by blast
    with 2 show ?thesis by (auto simp: kv)
  qed
qed simp

text \<open>
  Property C34: the hash table implements a map from strings to strings. Putting a pair always returns;
  the call either fails, which needs a failed allocation, and leaves the table and the number of live
  blocks alone, or stores the pair, overriding an older value and no other key, and keeps the table
  well-formed. The live blocks always change by the blocks of the table.
\<close>

theorem sm_put_refines:
  assumes "sm_invar m"
  shows "\<exists>r m' h'. sm_put ok (Some m) (Some k) (Some v) h = kret (r, Some m', h') \<and> sm_invar m' \<and>
    (r = 0 \<and> m' = m \<and> (\<exists>n. \<not> ok n) \<or> r = 1 \<and> sm_lookup m' = (sm_lookup m)(k \<mapsto> v)) \<and>
    live h' + sm_blocks m = live h + sm_blocks m'"
  by (cases rule: sm_put_cases [OF assms, of ok k v h])
    (auto simp: assms sm_invar_update sm_lookup_update)

theorem sm_put_refines_witness:
  "\<exists>r m' h'. sm_put (\<lambda>n. n \<noteq> 1) (Some (sm_empty 256)) (Some ''a'') (Some ''b'') \<lparr>allocs = 0, live = 2\<rparr>
      = kret (r, Some m', h') \<and> sm_invar m' \<and>
    (r = 0 \<and> m' = sm_empty 256 \<and> (\<exists>n. \<not> (\<lambda>n. n \<noteq> (1 :: nat)) n) \<or>
       r = 1 \<and> sm_lookup m' = (sm_lookup (sm_empty 256))(''a'' \<mapsto> ''b'')) \<and>
    live h' + sm_blocks (sm_empty 256) = live \<lparr>allocs = 0, live = 2\<rparr> + sm_blocks m'"
  by (rule sm_put_refines [OF sm_invar_empty]) simp

text \<open>
  Fact: what the table gives back. After any sequence of puts into a fresh table with all
  allocations successful, \<open>sm_get\<close> with a buffer that is large enough returns the last value
  put under a key and 0 for any other key, \<open>sm_exists\<close> agrees with it, and \<open>sm_delete\<close> frees all blocks.
\<close>

theorem sm_puts_then_get:
  assumes "\<forall>n. ok n" and "c \<noteq> 0"
  shows "\<exists>m h'. sm_puts ok (fst (sm_new ok c h)) kvs (snd (sm_new ok c h)) = kret (m, h') \<and>
    (\<forall>k. sm_exists m (Some k) = kret (if k \<in> fst ` set kvs then 1 else 0)) \<and>
    (\<forall>k n. sm_get m (Some k) True n = kret (case map_of (rev kvs) k of None \<Rightarrow> (0, None)
        | Some v \<Rightarrow> if n \<le> length v then (0, None) else (1, Some v))) \<and>
    live (sm_delete m h') = live h"
proof (cases rule: sm_new_spec [OF assms(2), of ok h])
  case (1 h')
  with assms(1) show ?thesis by simp
next
  case (2 h1)
  define m where "m = fold (\<lambda>(k, v). sm_update k v) kvs (sm_empty c)"
  have inv: "sm_invar m" and look: "sm_lookup m = map_of (rev kvs)"
    using sm.fold_update [OF 2(3), of kvs] assms(2) by (simp_all add: m_def sm_lookup_empty)
  obtain h' where h': "sm_puts ok (Some (sm_empty c)) kvs h1 = kret (Some m, h')"
    "live h' + sm_blocks (sm_empty c) = live h1 + sm_blocks m"
    using sm_puts_ok [OF 2(3) assms(1), where kvs = kvs and h = h1] unfolding m_def by blast
  have "map_of (rev kvs) k = None \<longleftrightarrow> k \<notin> fst ` set kvs" for k
    by (simp add: map_of_eq_None_iff)
  then have "sm_puts ok (fst (sm_new ok c h)) kvs (snd (sm_new ok c h)) = kret (Some m, h') \<and>
    (\<forall>k. sm_exists (Some m) (Some k) = kret (if k \<in> fst ` set kvs then 1 else 0)) \<and>
    (\<forall>k n. sm_get (Some m) (Some k) True n = kret (case map_of (rev kvs) k of None \<Rightarrow> (0, None)
        | Some v \<Rightarrow> if n \<le> length v then (0, None) else (1, Some v))) \<and>
    live (sm_delete (Some m) h') = live h"
    using h' 2
    by (simp add: sm_exists_eq [OF inv] sm_get_buf [OF inv] look live_sm_delete)
  then show ?thesis by blast
qed

theorem sm_puts_then_get_witness:
  "\<exists>m h'. sm_puts (\<lambda>n. True) (fst (sm_new (\<lambda>n. True) 256 \<lparr>allocs = 0, live = 7\<rparr>)) [(''a'', ''1''), (''b'', ''''), (''a'', ''23'')]
      (snd (sm_new (\<lambda>n. True) 256 \<lparr>allocs = 0, live = 7\<rparr>)) = kret (m, h') \<and>
    sm_get m (Some ''a'') True 3 = kret (1, Some ''23'') \<and> sm_get m (Some ''a'') True 2 = kret (0, None) \<and>
    sm_get m (Some ''c'') True 9 = kret (0, None) \<and> live (sm_delete m h') = 7"
proof -
  let ?l = "[(''a'', ''1''), (''b'', ''''), (''a'', ''23'')]"
  obtain m h' where "sm_puts (\<lambda>n. True) (fst (sm_new (\<lambda>n. True) 256 \<lparr>allocs = 0, live = 7\<rparr>)) ?l
      (snd (sm_new (\<lambda>n. True) 256 \<lparr>allocs = 0, live = 7\<rparr>)) = kret (m, h')"
    "\<And>k n. sm_get m (Some k) True n = kret (case map_of (rev ?l) k of None \<Rightarrow> (0, None)
        | Some v \<Rightarrow> if n \<le> length v then (0, None) else (1, Some v))"
    "live (sm_delete m h') = live \<lparr>allocs = 0, live = 7\<rparr>"
    using sm_puts_then_get [of "\<lambda>n. True" 256 "\<lparr>allocs = 0, live = 7\<rparr>" ?l] by auto
  then show ?thesis by (intro exI [of _ m] exI [of _ h']) simp
qed

end
