(* ===== verification/Settings.thy ===== *)
theory Settings
  imports Strmap C_Strings
begin

text \<open>
  The settings files of \<open>src/sources/lib/lib-settings/src/settings.cpp\<close>: sections of key-value
  pairs, each section a table of \<open>Strmap\<close>, read from and written to text of the form
  \<open>[section]\<close>, \<open>key = value\<close>. A stream is the text it holds. \<open>freed\<close> says that the array of
  sections was given back while the settings still point to it. \<open>atof\<close> is a parameter.
\<close>

definition MAX_LINECHARS :: nat where "MAX_LINECHARS = 522"
definition MAX_KEYCHARS :: nat where "MAX_KEYCHARS = 256"
definition MAX_VALUECHARS :: nat where "MAX_VALUECHARS = 256"
definition DEFAULT_STRMAP_CAPACITY :: u32 where "DEFAULT_STRMAP_CAPACITY = 256"

record Section =
  sec_name :: string
  sec_map :: StrMap

record Settings =
  sections :: "Section list"
  freed :: bool

record ParseState =
  current_section :: string
  current_section_n :: nat
  has_section :: bool

datatype ConvertMode = CONVERT_MODE_INT | CONVERT_MODE_LONG | CONVERT_MODE_DOUBLE

text \<open>What is stored through \<open>out\<close>.\<close>

datatype 'd converted = CInt s32 | CLong "64 word" | CDouble 'd

section \<open>Recognising lines\<close>

definition is_blank_char :: "char \<Rightarrow> bool" where
  "is_blank_char c \<longleftrightarrow> c = CHR '' '' \<or> c = CHR 0x09 \<or> c = CHR 0x0D \<or> c = CHR 0x0A"

fun is_blank_str :: "string \<Rightarrow> bool" where
  "is_blank_str [] = True"
| "is_blank_str (c # cs) = (if \<not> is_blank_char c then False else is_blank_str cs)"

definition is_comment_str :: "string \<Rightarrow> bool" where
  "is_comment_str str \<longleftrightarrow> str \<noteq> [] \<and> hd str = CHR ''#''"

definition is_section_str :: "string \<Rightarrow> bool" where
  "is_section_str str \<longleftrightarrow>
     (if str = [] \<or> hd str \<noteq> CHR ''['' then False
      else dropWhile (\<lambda>c. c \<noteq> CHR '']'') str \<noteq> [])"

definition is_key_value_str :: "string \<Rightarrow> bool" where
  "is_key_value_str str \<longleftrightarrow>
     (if str \<noteq> [] \<and> hd str = CHR ''='' then False
      else dropWhile (\<lambda>c. c \<noteq> CHR ''='') str \<noteq> [])"

definition is_key_without_value_str :: "string \<Rightarrow> bool" where
  "is_key_without_value_str str \<longleftrightarrow>
     (if str \<noteq> [] \<and> hd str = CHR ''='' then False
      else dropWhile (\<lambda>c. c \<noteq> CHR ''='') str = [])"

definition trim_str :: "string \<Rightarrow> string" where
  "trim_str str =
     (let s0 = dropWhile is_blank_char str in rev (dropWhile is_blank_char (rev s0)))"

section \<open>Taking lines apart\<close>

text \<open>
  The copying loops: characters go to a buffer of \<open>n\<close> bytes until \<open>stop\<close> holds; there must be
  room for the terminator. The result is the copy and the rest of the input.
\<close>

fun copy_until :: "(char \<Rightarrow> bool) \<Rightarrow> nat \<Rightarrow> string \<Rightarrow> (string \<times> string) option" where
  "copy_until stop n [] = (if n = 0 then None else Some ([], []))"
| "copy_until stop n (c # cs) =
     (if stop c then (if n = 0 then None else Some ([], c # cs))
      else if n = 0 then None
      else map_option (\<lambda>(s, rest). (c # s, rest)) (copy_until stop (n - 1) cs))"

definition get_section_from_str :: "string \<Rightarrow> nat \<Rightarrow> string option" where
  "get_section_from_str str out_buf_n =
     map_option fst (copy_until (\<lambda>c. c = CHR '']'') out_buf_n (tl str))"

text \<open>Tracing the key backwards over blanks leaves the buffer when it holds nothing else.\<close>

definition get_key_value_from_str :: "string \<Rightarrow> nat \<Rightarrow> nat \<Rightarrow> (string \<times> string) option kres" where
  "get_key_value_from_str str out_buf1_n out_buf2_n =
     (case copy_until (\<lambda>c. c = CHR ''='') out_buf1_n str of None \<Rightarrow> kret None
      | Some (out_buf1, str) \<Rightarrow>
          let key = rev (dropWhile is_blank_char (rev out_buf1)) in
          if key = [] then kfail BufferOverrun
          else
            let str = (if str \<noteq> [] then tl str else str);
                str = dropWhile is_blank_char str in
            (case copy_until (\<lambda>c. False) out_buf2_n str of None \<Rightarrow> kret None
             | Some (out_buf2, _) \<Rightarrow> kret (Some (key, out_buf2))))"

definition get_key_without_value_from_str :: "string \<Rightarrow> nat \<Rightarrow> string option" where
  "get_key_without_value_from_str str out_buf_n = map_option fst (copy_until (\<lambda>c. False) out_buf_n str)"

definition get_token :: "string \<Rightarrow> char \<Rightarrow> (string \<times> string) option" where
  "get_token str delim =
     (if str = [] then None
      else
        let rest = dropWhile (\<lambda>c. c \<noteq> delim) str in
        Some (takeWhile (\<lambda>c. c \<noteq> delim) str, if rest \<noteq> [] then tl rest else rest))"

section \<open>Settings\<close>

fun find_section :: "Section list \<Rightarrow> string \<Rightarrow> nat option" where
  "find_section [] nm = None"
| "find_section (s # ss) nm = (if sec_name s = nm then Some 0 else map_option Suc (find_section ss nm))"

definition get_section :: "Settings \<Rightarrow> string option \<Rightarrow> nat option kres" where
  "get_section settings nm =
     (case nm of None \<Rightarrow> kret None
      | Some n \<Rightarrow> if freed settings then kfail BadDeref else kret (find_section (sections settings) n))"

definition settings_new :: "allocator \<Rightarrow> alloc \<Rightarrow> Settings option \<times> alloc" where
  "settings_new ok h =
     (case malloc ok h of (s, h) \<Rightarrow>
        if \<not> s then (None, h) else (Some \<lparr>sections = [], freed = False\<rparr>, h))"

fun delete_sections :: "Section list \<Rightarrow> alloc \<Rightarrow> alloc" where
  "delete_sections [] h = h"
| "delete_sections (s # ss) h = delete_sections ss (free (sm_delete (Some (sec_map s)) h))"

definition settings_delete :: "Settings option \<Rightarrow> alloc \<Rightarrow> alloc kres" where
  "settings_delete settings h =
     (case settings of None \<Rightarrow> kret h
      | Some s \<Rightarrow>
          if freed s then kfail BadDeref
          else
            let h = delete_sections (sections s) h;
                h = (if sections s = [] then h else free h)
            in kret (free h))"

definition settings_get ::
  "Settings option \<Rightarrow> string option \<Rightarrow> string option \<Rightarrow> bool \<Rightarrow> nat \<Rightarrow> (int \<times> string option) kres" where
  "settings_get settings section key out_buf n_out_buf =
     (case settings of None \<Rightarrow> kret (0, None)
      | Some st \<Rightarrow>
          kbind (get_section st section) (\<lambda>s. case s of None \<Rightarrow> kret (0, None)
            | Some i \<Rightarrow> sm_get (Some (sec_map (sections st ! i))) key out_buf n_out_buf))"

text \<open>
  A section whose table or name cannot be allocated is given to \<open>free\<close>. It is an element of the
  array: only the first element is the start of a block, and the settings keep pointing to it.
\<close>

definition settings_set ::
  "allocator \<Rightarrow> Settings option \<Rightarrow> string option \<Rightarrow> string option \<Rightarrow> string option \<Rightarrow> alloc
     \<Rightarrow> (int \<times> Settings option \<times> alloc) kres" where
  "settings_set ok settings section key val h =
     (case (settings, section, key, val) of
        (Some st, Some sec, Some k, Some v) \<Rightarrow>
          if length sec = 0 then kret (0, settings, h)
          else
            kbind (get_section st section) (\<lambda>s. case s of
                Some i \<Rightarrow>
                  kbind (sm_put ok (Some (sec_map (sections st ! i))) key val h) (\<lambda>(r, m, h).
                    kret (r, Some (st\<lparr>sections := (sections st)
                       [i := (sections st ! i)\<lparr>sec_map := the m\<rparr>]\<rparr>), h))
              | None \<Rightarrow>
                  (case (if sections st = [] then malloc ok h else realloc ok h) of (s, h) \<Rightarrow>
                     if \<not> s then kret (0, settings, h)
                     else
                       let free_s = (\<lambda>h. if sections st = []
                              then kret (0, Some (st\<lparr>freed := True\<rparr>), free h) else kfail BadFree) in
                       (case sm_new ok DEFAULT_STRMAP_CAPACITY h of
                          (None, h) \<Rightarrow> free_s h
                        | (Some m, h) \<Rightarrow>
                            (case malloc ok h of (nm, h) \<Rightarrow>
                               if \<not> nm then free_s (sm_delete (Some m) h)
                               else
                                 kbind (sm_put ok (Some m) key val h) (\<lambda>(r, m, h).
                                   kret (r, Some (st\<lparr>sections := sections st @
                                      [\<lparr>sec_name = sec, sec_map = the m\<rparr>]\<rparr>), h))))))
      | _ \<Rightarrow> kret (0, settings, h))"

definition settings_section_get_count :: "Settings option \<Rightarrow> string option \<Rightarrow> int kres" where
  "settings_section_get_count settings section =
     (case settings of None \<Rightarrow> kret 0
      | Some st \<Rightarrow>
          kbind (get_section st section) (\<lambda>s. case s of None \<Rightarrow> kret 0
            | Some i \<Rightarrow> kret (sm_get_count (Some (sec_map (sections st ! i))))))"

definition settings_section_enum ::
  "Settings option \<Rightarrow> string option \<Rightarrow> (string \<Rightarrow> string \<Rightarrow> 's \<Rightarrow> 's) option \<Rightarrow> 's \<Rightarrow> (int \<times> 's) kres" where
  "settings_section_enum settings section enum_func obj =
     (case settings of None \<Rightarrow> kfail BadDeref
      | Some st \<Rightarrow>
          kbind (get_section st section) (\<lambda>s. case s of None \<Rightarrow> kret (0, obj)
            | Some i \<Rightarrow> kret (sm_enum (Some (sec_map (sections st ! i))) enum_func obj)))"

section \<open>Converted values\<close>

text \<open>\<open>atol\<close>, the value reduced to 64 bits.\<close>

definition atol :: "string \<Rightarrow> 64 word" where
  "atol s =
     (let s = dropWhile is_space s in
      if s \<noteq> [] \<and> hd s = CHR ''-'' then - of_nat (fst (digits_val 0 (tl s)))
      else if s \<noteq> [] \<and> hd s = CHR ''+'' then of_nat (fst (digits_val 0 (tl s)))
      else of_nat (fst (digits_val 0 s)))"

definition convert :: "(string \<Rightarrow> 'd) \<Rightarrow> ConvertMode \<Rightarrow> string \<Rightarrow> 'd converted" where
  "convert atof mode s =
     (case mode of CONVERT_MODE_INT \<Rightarrow> CInt (atoi s) | CONVERT_MODE_LONG \<Rightarrow> CLong (atol s)
      | CONVERT_MODE_DOUBLE \<Rightarrow> CDouble (atof s))"

text \<open>The result and what is stored through \<open>out\<close>.\<close>

definition get_converted_value ::
  "(string \<Rightarrow> 'd) \<Rightarrow> Settings option \<Rightarrow> string option \<Rightarrow> string option \<Rightarrow> ConvertMode
     \<Rightarrow> (int \<times> 'd converted option) kres" where
  "get_converted_value atof settings section key mode =
     kbind (settings_get settings section key True MAX_VALUECHARS) (\<lambda>(r, val).
       if r = 0 then kret (0, None) else kret (1, Some (convert atof mode (the val))))"

definition settings_get_int ::
  "(string \<Rightarrow> 'd) \<Rightarrow> Settings option \<Rightarrow> string option \<Rightarrow> string option \<Rightarrow> (int \<times> 'd converted option) kres" where
  "settings_get_int atof settings section key =
     kbind (get_converted_value atof settings section key CONVERT_MODE_INT) (\<lambda>(r, v).
       if r \<noteq> 0 then kret (1, v) else kret (0, v))"

definition settings_get_long ::
  "(string \<Rightarrow> 'd) \<Rightarrow> Settings option \<Rightarrow> string option \<Rightarrow> string option \<Rightarrow> (int \<times> 'd converted option) kres" where
  "settings_get_long atof settings section key =
     kbind (get_converted_value atof settings section key CONVERT_MODE_LONG) (\<lambda>(r, v).
       if r \<noteq> 0 then kret (1, v) else kret (0, v))"

definition settings_get_double ::
  "(string \<Rightarrow> 'd) \<Rightarrow> Settings option \<Rightarrow> string option \<Rightarrow> string option \<Rightarrow> (int \<times> 'd converted option) kres" where
  "settings_get_double atof settings section key =
     kbind (get_converted_value atof settings section key CONVERT_MODE_DOUBLE) (\<lambda>(r, v).
       if r \<noteq> 0 then kret (1, v) else kret (0, v))"

text \<open>The loop over the tokens, \<open>n\<close> the free places of the output array.\<close>

function convert_tokens :: "(string \<Rightarrow> 'd) \<Rightarrow> ConvertMode \<Rightarrow> char \<Rightarrow> nat \<Rightarrow> string \<Rightarrow> 'd converted list" where
  "convert_tokens atof mode delim n v =
     (case get_token v delim of None \<Rightarrow> []
      | Some (token, v') \<Rightarrow>
          if n = 0 then [] else convert atof mode token # convert_tokens atof mode delim (n - 1) v')"
  by pat_completeness auto
termination by (relation "measure (\<lambda>(_, _, _, n, _). n)") auto

declare convert_tokens.simps [simp del]

definition get_converted_tuple ::
  "(string \<Rightarrow> 'd) \<Rightarrow> Settings option \<Rightarrow> string option \<Rightarrow> string option \<Rightarrow> char \<Rightarrow> ConvertMode
     \<Rightarrow> bool \<Rightarrow> nat \<Rightarrow> (int \<times> 'd converted list) kres" where
  "get_converted_tuple atof settings section key delim mode out n_out =
     (if \<not> out then kret (0, [])
      else if n_out = 0 then kret (0, [])
      else
        kbind (settings_get settings section key True MAX_VALUECHARS) (\<lambda>(r, val).
          if r = 0 then kret (0, []) else kret (1, convert_tokens atof mode delim n_out (the val))))"

definition settings_get_int_tuple ::
  "(string \<Rightarrow> 'd) \<Rightarrow> Settings option \<Rightarrow> string option \<Rightarrow> string option \<Rightarrow> bool \<Rightarrow> nat
     \<Rightarrow> (int \<times> 'd converted list) kres" where
  "settings_get_int_tuple atof settings section key =
     get_converted_tuple atof settings section key CHR '','' CONVERT_MODE_INT"

definition settings_get_long_tuple ::
  "(string \<Rightarrow> 'd) \<Rightarrow> Settings option \<Rightarrow> string option \<Rightarrow> string option \<Rightarrow> bool \<Rightarrow> nat
     \<Rightarrow> (int \<times> 'd converted list) kres" where
  "settings_get_long_tuple atof settings section key =
     get_converted_tuple atof settings section key CHR '','' CONVERT_MODE_LONG"

definition settings_get_double_tuple ::
  "(string \<Rightarrow> 'd) \<Rightarrow> Settings option \<Rightarrow> string option \<Rightarrow> string option \<Rightarrow> bool \<Rightarrow> nat
     \<Rightarrow> (int \<times> 'd converted list) kres" where
  "settings_get_double_tuple atof settings section key =
     get_converted_tuple atof settings section key CHR '','' CONVERT_MODE_DOUBLE"

section \<open>Reading\<close>

definition parse_str ::
  "allocator \<Rightarrow> Settings \<Rightarrow> string \<Rightarrow> ParseState \<Rightarrow> alloc \<Rightarrow> (int \<times> Settings \<times> ParseState \<times> alloc) kres" where
  "parse_str ok settings str ps h =
     (let set = (\<lambda>k v. kbind (settings_set ok (Some settings) (Some (current_section ps)) (Some k) (Some v) h)
            (\<lambda>(r, st, h). kret (r, the st, ps, h)));
          fail = kret (0, settings, ps, h); skip = kret (1, settings, ps, h) in
      if str = [] then skip
      else if is_blank_str str then skip
      else if is_comment_str str then skip
      else if is_section_str str then
        (case get_section_from_str str MAX_LINECHARS of None \<Rightarrow> fail
         | Some buf \<Rightarrow>
             if length buf + 1 > current_section_n ps then fail
             else kret (1, settings, ps\<lparr>current_section := buf, has_section := True\<rparr>, h))
      else if is_key_value_str str then
        kbind (get_key_value_from_str str MAX_LINECHARS MAX_LINECHARS) (\<lambda>kv.
          case kv of None \<Rightarrow> fail
          | Some (k, v) \<Rightarrow> if \<not> has_section ps then fail else set k v)
      else if is_key_without_value_str str then
        (case get_key_without_value_from_str str MAX_LINECHARS of None \<Rightarrow> fail
         | Some k \<Rightarrow> if \<not> has_section ps then fail else set k '''')
      else fail)"

text \<open>A string in a buffer ends at the first null character.\<close>

definition cstr :: "string \<Rightarrow> string" where
  "cstr s = takeWhile (\<lambda>c. c \<noteq> CHR 0x00) s"

function open_loop ::
  "allocator \<Rightarrow> Settings \<Rightarrow> ParseState \<Rightarrow> string \<Rightarrow> alloc \<Rightarrow> (Settings option \<times> alloc) kres" where
  "open_loop ok settings ps stream h =
     (if stream = [] then kret (Some settings, h)
      else
        kbind (parse_str ok settings (trim_str (cstr (fst (fgets (MAX_LINECHARS - 1) stream)))) ps h)
          (\<lambda>(r, settings, ps, h).
             if r = 0 then kret (None, h)
             else open_loop ok settings ps (snd (fgets (MAX_LINECHARS - 1) stream)) h))"
  by pat_completeness auto
termination
  by (relation "measure (\<lambda>(_, _, _, stream, _). length stream)")
    (auto intro!: fgets_shorter simp: MAX_LINECHARS_def)

declare open_loop.simps [simp del]

definition settings_open :: "allocator \<Rightarrow> string option \<Rightarrow> alloc \<Rightarrow> (Settings option \<times> alloc) kres" where
  "settings_open ok stream h =
     (case stream of None \<Rightarrow> kret (None, h)
      | Some text \<Rightarrow>
          (case settings_new ok h of
             (None, h) \<Rightarrow> kret (None, h)
           | (Some settings, h) \<Rightarrow>
               open_loop ok settings
                 \<lparr>current_section = [], current_section_n = MAX_LINECHARS, has_section = False\<rparr> text h))"

section \<open>Writing\<close>

definition enum_map :: "string \<Rightarrow> string \<Rightarrow> string \<Rightarrow> string" where
  "enum_map key val stream =
     (if length key < MAX_KEYCHARS \<and> length val < MAX_VALUECHARS
      then stream @ key @ '' = '' @ val @ [CHR 0x0A] else stream)"

text \<open>The line of a section is put together in a buffer of \<open>MAX_LINECHARS\<close> bytes.\<close>

fun save_sections :: "Section list \<Rightarrow> string \<Rightarrow> string kres" where
  "save_sections [] stream = kret stream"
| "save_sections (s # ss) stream =
     (if length (sec_name s) + 4 > MAX_LINECHARS then kfail BufferOverrun
      else
        let stream = stream @ ''['' @ sec_name s @ '']'' @ [CHR 0x0A];
            stream = snd (sm_enum (Some (sec_map s)) (Some enum_map) stream)
        in save_sections ss (stream @ [CHR 0x0A]))"

definition settings_save :: "Settings option \<Rightarrow> string option \<Rightarrow> (int \<times> string option) kres" where
  "settings_save settings stream =
     (case (settings, stream) of
        (Some st, Some text) \<Rightarrow>
          if freed st then kfail BadDeref
          else kbind (save_sections (sections st) text) (\<lambda>text. kret (1, Some text))
      | _ \<Rightarrow> kret (0, stream))"

end
