(* ===== verification/Settings_Proofs.thy ===== *)
theory Settings_Proofs
  imports Settings
begin

text \<open>
  Correctness of the settings library: a settings object is a map from section and key to a value,
  \<open>settings_set\<close> updates it, and what \<open>settings_save\<close> writes \<open>settings_open\<close> reads back.
\<close>

section \<open>Settings as a map\<close>

definition sections_map :: "Section list \<Rightarrow> string \<Rightarrow> string \<Rightarrow> string option" where
  "sections_map ss n = (case find_section ss n of None \<Rightarrow> Map.empty | Some i \<Rightarrow> sm_lookup (sec_map (ss ! i)))"

definition settings_lookup :: "Settings \<Rightarrow> string \<Rightarrow> string \<Rightarrow> string option" where
  "settings_lookup st = sections_map (sections st)"

definition settings_invar :: "Settings \<Rightarrow> bool" where
  "settings_invar st \<longleftrightarrow> \<not> freed st \<and> distinct (map sec_name (sections st)) \<and>
     (\<forall>s \<in> set (sections st). sm_invar (sec_map s))"

definition settings_blocks :: "Settings \<Rightarrow> nat" where
  "settings_blocks st = 1 + (if sections st = [] then 0 else 1) +
     sum_list (map (\<lambda>s. sm_blocks (sec_map s) + 1) (sections st))"

text \<open>The settings after a successful \<open>settings_set\<close>.\<close>

definition set_entry :: "string \<Rightarrow> string \<Rightarrow> string \<Rightarrow> Settings \<Rightarrow> Settings" where
  "set_entry sec k v st = st\<lparr>sections :=
     (case find_section (sections st) sec of
        Some i \<Rightarrow> (sections st)[i := (sections st ! i)\<lparr>sec_map := sm_update k v (sec_map (sections st ! i))\<rparr>]
      | None \<Rightarrow> sections st @ [\<lparr>sec_name = sec, sec_map = sm_update k v (sm_empty 256)\<rparr>])\<rparr>"

lemma find_section_None: "find_section ss n = None \<longleftrightarrow> n \<notin> sec_name ` set ss"
  by (induction ss) auto

lemma find_section_Some: "find_section ss n = Some i \<Longrightarrow> i < length ss \<and> sec_name (ss ! i) = n"
  by (induction ss arbitrary: i) (auto split: if_splits)

lemma find_section_names: "map sec_name ss = map sec_name ss' \<Longrightarrow> find_section ss n = find_section ss' n"
proof (induction ss arbitrary: ss')
  case (Cons s ss)
  then show ?case by (cases ss') auto
qed simp

lemma find_section_snoc:
  "find_section (ss @ [s]) n =
     (case find_section ss n of Some i \<Rightarrow> Some i | None \<Rightarrow> if sec_name s = n then Some (length ss) else None)"
  by (induction ss) (auto split: option.split)

lemma names_set_map: "i < length ss \<Longrightarrow> map sec_name (ss[i := (ss ! i)\<lparr>sec_map := m\<rparr>]) = map sec_name ss"
  by (rule nth_equalityI) (auto simp: nth_list_update)

lemma sections_map_Cons: "sections_map (s # ss) n = (if sec_name s = n then sm_lookup (sec_map s) else sections_map ss n)"
  by (auto simp: sections_map_def split: option.split)

lemma sections_map_snoc:
  "find_section ss (sec_name s) = None \<Longrightarrow> sections_map (ss @ [s]) = (sections_map ss)(sec_name s := sm_lookup (sec_map s))"
  by (auto simp: sections_map_def find_section_snoc fun_eq_iff nth_append
      dest: find_section_Some split: option.split)

lemma sections_map_update:
  assumes "find_section ss n = Some i"
  shows "sections_map (ss[i := (ss ! i)\<lparr>sec_map := m\<rparr>]) = (sections_map ss)(n := sm_lookup m)"
proof
  fix n'
  have i: "i < length ss" "sec_name (ss ! i) = n" using find_section_Some [OF assms] by auto
  have find: "find_section (ss[i := (ss ! i)\<lparr>sec_map := m\<rparr>]) n' = find_section ss n'"
    by (rule find_section_names [OF names_set_map [OF i(1)]])
  show "sections_map (ss[i := (ss ! i)\<lparr>sec_map := m\<rparr>]) n' = ((sections_map ss)(n := sm_lookup m)) n'"
    using i assms unfolding sections_map_def find
    by (auto simp: nth_list_update dest: find_section_Some split: option.split)
qed

lemma settings_invar_section:
  "settings_invar st \<Longrightarrow> find_section (sections st) n = Some i \<Longrightarrow> sm_invar (sec_map (sections st ! i))"
  by (auto simp: settings_invar_def dest: find_section_Some)

lemma settings_invar_set_entry:
  assumes inv: "settings_invar st"
  shows "settings_invar (set_entry sec k v st)"
proof (cases "find_section (sections st) sec")
  case None
  moreover from None have "sec \<notin> sec_name ` set (sections st)" by (simp add: find_section_None)
  ultimately show ?thesis using inv
    by (simp add: settings_invar_def set_entry_def sm.invar_update sm_invar_empty)
next
  case (Some i)
  with inv settings_invar_section [OF inv Some] find_section_Some [OF Some] show ?thesis
    by (auto simp: settings_invar_def set_entry_def names_set_map sm.invar_update
        dest!: set_update_subset_insert [THEN subsetD])
qed

lemma settings_lookup_set_entry:
  assumes inv: "settings_invar st"
  shows "settings_lookup (set_entry sec k v st) =
    (settings_lookup st)(sec := (settings_lookup st sec)(k \<mapsto> v))"
proof (cases "find_section (sections st) sec")
  case None
  then have "sections_map (sections st) sec = Map.empty" by (simp add: sections_map_def)
  with None show ?thesis
    by (simp add: settings_lookup_def set_entry_def sections_map_snoc sm.lookup_update [OF sm.invar_empty]
        sm.lookup_empty)
next
  case (Some i)
  then show ?thesis
    using settings_invar_section [OF inv Some]
    by (simp add: settings_lookup_def set_entry_def sections_map_update sm.lookup_update)
      (simp add: sections_map_def)
qed

lemma settings_get_eq:
  assumes "settings_invar st"
  shows "settings_get (Some st) (Some sec) (Some k) True n =
    kret (case settings_lookup st sec k of None \<Rightarrow> (0, None)
      | Some v \<Rightarrow> if n \<le> length v then (0, None) else (1, Some v))"
  using assms settings_invar_section [OF assms, of sec]
  by (cases "find_section (sections st) sec")
    (simp_all add: settings_get_def get_section_def settings_invar_def sm_get_buf settings_lookup_def
      sections_map_def)

lemma settings_blocks_update:
  assumes "i < length (sections st)"
  shows "settings_blocks (st\<lparr>sections := (sections st)[i := (sections st ! i)\<lparr>sec_map := m\<rparr>]\<rparr>)
      + sm_blocks (sec_map (sections st ! i)) = settings_blocks st + sm_blocks m"
  using sum_list_update_nat [of i "map (\<lambda>s. sm_blocks (sec_map s) + 1) (sections st)" "sm_blocks m + 1"] assms
  by (auto simp: settings_blocks_def map_update)

text \<open>With all allocations successful \<open>settings_set\<close> stores the entry.\<close>

lemma settings_set_ok:
  assumes inv: "settings_invar st" and ok: "\<forall>n. ok n" and sec: "sec \<noteq> []"
  obtains h' where "settings_set ok (Some st) (Some sec) (Some k) (Some v) h = kret (1, Some (set_entry sec k v st), h')"
    "live h' + settings_blocks st = live h + settings_blocks (set_entry sec k v st)"
proof (cases "find_section (sections st) sec")
  case (Some i)
  note i = find_section_Some [OF Some, THEN conjunct1]
  show thesis
  proof (cases rule: sm_put_cases [OF settings_invar_section [OF inv Some], of ok k v h])
    case (1 h')
    then show thesis using ok by simp
  next
    case (2 h')
    have "settings_set ok (Some st) (Some sec) (Some k) (Some v) h = kret (1, Some (set_entry sec k v st), h')"
      using inv sec Some 2(1) by (simp add: settings_set_def get_section_def settings_invar_def set_entry_def)
    moreover have "live h' + settings_blocks st = live h + settings_blocks (set_entry sec k v st)"
      using settings_blocks_update [OF i, of "sm_update k v (sec_map (sections st ! i))"] 2(2) Some
      by (simp add: set_entry_def)
    ultimately show thesis by (rule that)
  qed
next
  case None
  obtain h1 where h1: "(if sections st = [] then malloc ok h else realloc ok h) = (True, h1)"
    "live h1 = live h + (if sections st = [] then 1 else 0)"
    by (cases "sections st = []"; cases rule: malloc_cases [of ok h]; cases rule: realloc_cases [of ok h])
      (use ok in auto)
  have c: "DEFAULT_STRMAP_CAPACITY \<noteq> 0" by (simp add: DEFAULT_STRMAP_CAPACITY_def)
  show thesis
  proof (cases rule: sm_new_spec [OF c, of ok h1])
    case (1 h2)
    then show thesis using ok by simp
  next
    case (2 h2)
    obtain h3 where h3: "malloc ok h2 = (True, h3)" "live h3 = live h2 + 1"
      using ok by (auto simp: malloc_def)
    show thesis
    proof (cases rule: sm_put_cases [OF 2(3), of ok k v h3])
      case (1 h4)
      then show thesis using ok by simp
    next
      case h4: (2 h4)
      have "settings_set ok (Some st) (Some sec) (Some k) (Some v) h = kret (1, Some (set_entry sec k v st), h4)"
        using inv sec None h1(1) 2(1) h3(1) h4(1)
        by (simp add: settings_set_def get_section_def settings_invar_def set_entry_def Let_def
            DEFAULT_STRMAP_CAPACITY_def)
      moreover have "live h4 + settings_blocks st = live h + settings_blocks (set_entry sec k v st)"
        using h1(2) 2(2) h3(2) h4(2) None
        by (simp add: set_entry_def settings_blocks_def DEFAULT_STRMAP_CAPACITY_def)
      ultimately show thesis by (rule that)
    qed
  qed
qed

section \<open>Lines of a settings file\<close>

definition NL :: char where "NL = CHR 0x0A"

definition plain :: "string \<Rightarrow> bool" where
  "plain s \<longleftrightarrow> CHR 0x0A \<notin> set s \<and> CHR 0x00 \<notin> set s"

definition trimmed :: "string \<Rightarrow> bool" where
  "trimmed s \<longleftrightarrow> s = [] \<or> \<not> is_blank_char (hd s) \<and> \<not> is_blank_char (last s)"

text \<open>The names, keys and values that survive in a file.\<close>

definition good_section :: "string \<Rightarrow> bool" where
  "good_section s \<longleftrightarrow> s \<noteq> [] \<and> plain s \<and> CHR '']'' \<notin> set s \<and> length s \<le> 518"

definition good_key :: "string \<Rightarrow> bool" where
  "good_key k \<longleftrightarrow> k \<noteq> [] \<and> plain k \<and> trimmed k \<and> CHR ''='' \<notin> set k \<and>
     hd k \<noteq> CHR ''#'' \<and> hd k \<noteq> CHR ''['' \<and> length k < 256"

definition good_value :: "string \<Rightarrow> bool" where
  "good_value v \<longleftrightarrow> plain v \<and> trimmed v \<and> length v < 256"

lemma copy_until_eq:
  "copy_until stop n s =
     (let t = takeWhile (\<lambda>c. \<not> stop c) s in
      if n \<le> length t then None else Some (t, dropWhile (\<lambda>c. \<not> stop c) s))"
proof (induction stop n s rule: copy_until.induct)
  case (2 stop n c cs)
  then show ?case by (cases "stop c"; cases n) (auto simp: Let_def)
qed (auto simp: Let_def)

lemma fgets_line:
  "plain l \<Longrightarrow> length l < n \<Longrightarrow> fgets n (l @ CHR 0x0A # rest) = (l @ [CHR 0x0A], rest)"
proof (induction l arbitrary: n)
  case Nil
  then show ?case by (cases n) auto
next
  case (Cons c l)
  then show ?case by (cases n) (auto simp: plain_def)
qed

lemma cstr_line: "plain l \<Longrightarrow> cstr (l @ [CHR 0x0A]) = l @ [CHR 0x0A]"
  by (simp add: cstr_def takeWhile_append takeWhile_eq_all_conv plain_def)

lemma open_loop_Nil [simp]: "open_loop ok st ps [] h = kret (Some st, h)"
  by (simp add: open_loop.simps)

lemma open_loop_line:
  assumes "plain l" and "length l < 521"
  shows "open_loop ok st ps (l @ CHR 0x0A # rest) h =
    kbind (parse_str ok st (trim_str (l @ [CHR 0x0A])) ps h) (\<lambda>(r, st, ps, h).
      if r = 0 then kret (None, h) else open_loop ok st ps rest h)"
proof -
  have "fgets (MAX_LINECHARS - 1) (l @ CHR 0x0A # rest) = (l @ [CHR 0x0A], rest)"
    using assms by (intro fgets_line) (simp_all add: MAX_LINECHARS_def)
  then show ?thesis by (subst open_loop.simps) (simp only: cstr_line [OF assms(1)] fst_conv snd_conv, simp)
qed

lemma dropWhile_rev_last: "s \<noteq> [] \<Longrightarrow> \<not> P (last s) \<Longrightarrow> dropWhile P (rev s) = rev s"
  by (cases s rule: rev_cases) auto

lemma trim_str_trimmed:
  assumes "trimmed s"
  shows "trim_str (s @ [CHR 0x0A]) = s"
proof (cases "s = []")
  case True
  then show ?thesis by (simp add: trim_str_def is_blank_char_def)
next
  case False
  then obtain c cs where s: "s = c # cs" "\<not> is_blank_char c" using assms by (cases s) (auto simp: trimmed_def)
  have "dropWhile is_blank_char (rev s) = rev s"
    using assms False by (intro dropWhile_rev_last) (simp_all add: trimmed_def)
  moreover have "is_blank_char CHR 0x0A" by (simp add: is_blank_char_def)
  moreover have "dropWhile is_blank_char (s @ [CHR 0x0A]) = s @ [CHR 0x0A]" using s by simp
  ultimately show ?thesis by (simp add: trim_str_def)
qed

lemma parse_empty: "parse_str ok st [] ps h = kret (1, st, ps, h)"
  by (simp add: parse_str_def)

lemma parse_section:
  assumes "good_section s" and "current_section_n ps = 522"
  shows "parse_str ok st (''['' @ s @ '']'') ps h =
    kret (1, st, ps\<lparr>current_section := s, has_section := True\<rparr>, h)"
proof -
  have t: "takeWhile (\<lambda>c. c \<noteq> CHR '']'') (s @ '']'') = s"
    using assms(1) by (auto simp: good_section_def takeWhile_append takeWhile_eq_all_conv)
  have "is_section_str (CHR ''['' # s @ '']'')"
    using assms(1) by (auto simp: is_section_str_def good_section_def)
  moreover have "get_section_from_str (CHR ''['' # s @ '']'') MAX_LINECHARS = Some s"
    using assms(1) by (simp add: get_section_from_str_def copy_until_eq t good_section_def MAX_LINECHARS_def)
  moreover have "\<not> is_blank_str (CHR ''['' # s @ '']'')" "\<not> is_comment_str (CHR ''['' # s @ '']'')"
    by (simp_all add: is_blank_char_def is_comment_str_def)
  ultimately show ?thesis
    using assms by (simp add: parse_str_def good_section_def)
qed

lemma split_at:
  assumes "x \<notin> set xs"
  shows "takeWhile (\<lambda>c. c \<noteq> x) (xs @ x # ys) = xs" "dropWhile (\<lambda>c. c \<noteq> x) (xs @ x # ys) = x # ys"
  using assms by (induction xs) auto

definition kv_line :: "string \<Rightarrow> string \<Rightarrow> string" where
  "kv_line k v = k @ '' ='' @ (if v = [] then [] else CHR '' '' # v)"

lemma parse_kv:
  assumes k: "good_key k" and v: "good_value v"
  shows "get_key_value_from_str (kv_line k v) MAX_LINECHARS MAX_LINECHARS = kret (Some (k, v))"
proof -
  let ?w = "if v = [] then [] else CHR '' '' # v"
  have no: "CHR ''='' \<notin> set (k @ '' '')" using k by (auto simp: good_key_def)
  have l: "kv_line k v = (k @ '' '') @ CHR ''='' # ?w" by (simp add: kv_line_def)
  have t: "takeWhile (\<lambda>c. c \<noteq> CHR ''='') (kv_line k v) = k @ '' ''"
    and d: "dropWhile (\<lambda>c. c \<noteq> CHR ''='') (kv_line k v) = CHR ''='' # ?w"
    unfolding l by (rule split_at [OF no])+
  have b: "is_blank_char CHR '' ''" by (simp add: is_blank_char_def)
  have key: "dropWhile is_blank_char (rev k) = rev k"
    using k by (intro dropWhile_rev_last) (auto simp: good_key_def trimmed_def)
  have all: "takeWhile (\<lambda>c. True) v = v" by (simp add: takeWhile_eq_all_conv)
  have "hd k \<in> set k" "\<not> is_blank_char (hd k)" using k by (auto simp: good_key_def trimmed_def)
  then have nb: "\<exists>x \<in> set k. \<not> is_blank_char x" by blast
  have val: "dropWhile is_blank_char ?w = v" using v b by (cases v) (auto simp: good_value_def trimmed_def)
  show ?thesis
    using k v unfolding get_key_value_from_str_def
    by (simp add: copy_until_eq t d b key val all nb good_key_def good_value_def MAX_LINECHARS_def Let_def)
qed

lemma parse_str_kv:
  assumes k: "good_key k" and v: "good_value v" and ps: "has_section ps"
  shows "parse_str ok st (kv_line k v) ps h =
    kbind (settings_set ok (Some st) (Some (current_section ps)) (Some k) (Some v) h)
      (\<lambda>(r, st, h). kret (r, the st, ps, h))"
proof -
  obtain c cs where c: "kv_line k v = c # cs" "c \<noteq> CHR ''#''" "c \<noteq> CHR ''[''" "c \<noteq> CHR ''=''" "\<not> is_blank_char c"
    using k by (cases k) (auto simp: kv_line_def good_key_def trimmed_def)
  have "CHR ''='' \<in> set (kv_line k v)" by (simp add: kv_line_def)
  then have "is_key_value_str (kv_line k v)" using c
    by (auto simp: is_key_value_str_def dropWhile_eq_Nil_conv)
  moreover have "\<not> is_blank_str (kv_line k v)" "\<not> is_comment_str (kv_line k v)" "\<not> is_section_str (kv_line k v)"
    using c by (simp_all add: is_comment_str_def is_section_str_def)
  moreover have "kv_line k v \<noteq> []" by (simp add: c(1))
  ultimately show ?thesis using ps by (simp add: parse_str_def parse_kv [OF k v])
qed

section \<open>Reading back what was written\<close>

definition good_settings :: "Settings \<Rightarrow> bool" where
  "good_settings st \<longleftrightarrow> (\<forall>s \<in> set (sections st). good_section (sec_name s) \<and>
     (\<forall>(k, v) \<in> set (sm_entries (sec_map s)). good_key k \<and> good_value v))"

definition kv_text :: "string \<times> string \<Rightarrow> string" where
  "kv_text kv = fst kv @ '' = '' @ snd kv @ [CHR 0x0A]"

definition section_text :: "Section \<Rightarrow> string" where
  "section_text s = ''['' @ sec_name s @ '']'' @ [CHR 0x0A] @
     concat (map kv_text (sm_entries (sec_map s))) @ [CHR 0x0A]"

lemma enum_map_good:
  "\<forall>(k, v) \<in> set kvs. good_key k \<and> good_value v \<Longrightarrow>
     fold (\<lambda>(k, v). enum_map k v) kvs t = t @ concat (map kv_text kvs)"
  by (induction kvs arbitrary: t)
    (auto simp: enum_map_def kv_text_def good_key_def good_value_def MAX_KEYCHARS_def MAX_VALUECHARS_def)

lemma save_sections_good:
  "\<forall>s \<in> set ss. good_section (sec_name s) \<and> (\<forall>(k, v) \<in> set (sm_entries (sec_map s)). good_key k \<and> good_value v)
     \<Longrightarrow> save_sections ss t = kret (t @ concat (map section_text ss))"
proof (induction ss arbitrary: t)
  case (Cons s ss)
  have "length (sec_name s) \<le> 518" using Cons.prems by (simp add: good_section_def)
  moreover have "fold (\<lambda>(k, v). enum_map k v) (sm_entries (sec_map s)) u
      = u @ concat (map kv_text (sm_entries (sec_map s)))" for u
    by (rule enum_map_good) (use Cons.prems in simp)
  ultimately show ?case using Cons.IH Cons.prems
    by (simp add: sm_enum_eq section_text_def MAX_LINECHARS_def Let_def)
qed simp

text \<open>One line of a pair: the trimmed line is parsed.\<close>

lemma trimmed_kv_line: "good_key k \<Longrightarrow> good_value v \<Longrightarrow> trimmed (kv_line k v)"
  by (auto simp: trimmed_def kv_line_def good_key_def good_value_def is_blank_char_def)

lemma trim_kv_text:
  assumes "good_key k" and "good_value v"
  shows "trim_str (k @ '' = '' @ v @ [CHR 0x0A]) = kv_line k v"
proof (cases "v = []")
  case False
  then have "k @ '' = '' @ v @ [CHR 0x0A] = kv_line k v @ [CHR 0x0A]" by (simp add: kv_line_def)
  then show ?thesis by (metis trim_str_trimmed trimmed_kv_line assms)
next
  case True
  have blank: "is_blank_char CHR '' ''" "is_blank_char CHR 0x0A" "\<not> is_blank_char CHR ''=''"
    by (simp_all add: is_blank_char_def)
  obtain c cs where "k = c # cs" "\<not> is_blank_char c"
    using assms(1) by (cases k) (auto simp: good_key_def trimmed_def)
  with blank True show ?thesis by (simp add: trim_str_def kv_line_def)
qed

lemma open_kv:
  assumes kv: "good_key k" "good_value v" and ps: "has_section ps" "current_section ps \<noteq> []"
    and st: "settings_invar st" and ok: "\<forall>n. ok n"
  obtains h' where "open_loop ok st ps (kv_text (k, v) @ rest) h =
      open_loop ok (set_entry (current_section ps) k v st) ps rest h'"
    "live h' + settings_blocks st = live h + settings_blocks (set_entry (current_section ps) k v st)"
proof -
  obtain h' where h': "settings_set ok (Some st) (Some (current_section ps)) (Some k) (Some v) h =
      kret (1, Some (set_entry (current_section ps) k v st), h')"
    "live h' + settings_blocks st = live h + settings_blocks (set_entry (current_section ps) k v st)"
    by (rule settings_set_ok [OF st ok ps(2)])
  have l: "plain (k @ '' = '' @ v)" "length (k @ '' = '' @ v) < 521"
    using kv by (auto simp: plain_def good_key_def good_value_def)
  have "open_loop ok st ps (kv_text (k, v) @ rest) h = open_loop ok (set_entry (current_section ps) k v st) ps rest h'"
    using open_loop_line [OF l, of ok st ps rest h] trim_kv_text [OF kv] h'(1)
    by (simp add: kv_text_def parse_str_kv [OF kv ps(1)])
  then show thesis using h'(2) by (rule that)
qed

definition set_entries :: "string \<Rightarrow> (string \<times> string) list \<Rightarrow> Settings \<Rightarrow> Settings" where
  "set_entries sec kvs st = fold (\<lambda>(k, v). set_entry sec k v) kvs st"

lemma open_kvs:
  assumes ps: "has_section ps" "current_section ps \<noteq> []" and ok: "\<forall>n. ok n"
  shows "settings_invar st \<Longrightarrow> \<forall>(k, v) \<in> set kvs. good_key k \<and> good_value v \<Longrightarrow>
    \<exists>h'. open_loop ok st ps (concat (map kv_text kvs) @ rest) h =
        open_loop ok (set_entries (current_section ps) kvs st) ps rest h' \<and>
      settings_invar (set_entries (current_section ps) kvs st) \<and>
      live h' + settings_blocks st = live h + settings_blocks (set_entries (current_section ps) kvs st)"
proof (induction kvs arbitrary: st h)
  case (Cons kv kvs)
  obtain k v where kv: "kv = (k, v)" "good_key k" "good_value v" using Cons.prems(2) by (cases kv) auto
  obtain h1 where h1: "open_loop ok st ps (kv_text (k, v) @ concat (map kv_text kvs) @ rest) h =
      open_loop ok (set_entry (current_section ps) k v st) ps (concat (map kv_text kvs) @ rest) h1"
    "live h1 + settings_blocks st = live h + settings_blocks (set_entry (current_section ps) k v st)"
    by (rule open_kv [OF kv(2,3) ps Cons.prems(1) ok])
  from Cons.IH [OF settings_invar_set_entry [OF Cons.prems(1), of "current_section ps" k v], of h1] Cons.prems(2)
  obtain h' where "open_loop ok (set_entry (current_section ps) k v st) ps (concat (map kv_text kvs) @ rest) h1 =
      open_loop ok (set_entries (current_section ps) (kv # kvs) st) ps rest h'"
    "settings_invar (set_entries (current_section ps) (kv # kvs) st)"
    "live h' + settings_blocks (set_entry (current_section ps) k v st)
      = live h1 + settings_blocks (set_entries (current_section ps) (kv # kvs) st)"
    by (auto simp: set_entries_def kv)
  with h1 show ?case by (intro exI [of _ h']) (simp add: kv)
qed (auto simp: set_entries_def)

lemma settings_lookup_set_entries:
  "settings_invar st \<Longrightarrow> settings_lookup (set_entries sec kvs st) =
     (settings_lookup st)(sec := settings_lookup st sec ++ map_of (rev kvs))"
proof (induction kvs arbitrary: st)
  case (Cons kv kvs)
  obtain k v where kv: "kv = (k, v)" by (cases kv)
  from Cons.IH [OF settings_invar_set_entry [OF Cons.prems, of sec k v]]
  have "settings_lookup (set_entries sec (kv # kvs) st) n k' =
      ((settings_lookup st)(sec := settings_lookup st sec ++ map_of (rev (kv # kvs)))) n k'" for n k'
    by (simp add: set_entries_def kv settings_lookup_set_entry [OF Cons.prems] map_add_def split: option.split)
  then show ?case by (intro ext)
qed (simp add: set_entries_def)

lemma open_section:
  assumes s: "good_section (sec_name s)" "\<forall>(k, v) \<in> set (sm_entries (sec_map s)). good_key k \<and> good_value v"
    and m: "sm_invar (sec_map s)" and ps: "current_section_n ps = 522"
    and st: "settings_invar st" and ok: "\<forall>n. ok n"
  obtains st' ps' h' where
    "open_loop ok st ps (section_text s @ rest) h = open_loop ok st' ps' rest h'"
    "current_section_n ps' = 522" "settings_invar st'"
    "settings_lookup st' = (settings_lookup st)(sec_name s := settings_lookup st (sec_name s) ++ sm_lookup (sec_map s))"
    "live h' + settings_blocks st = live h + settings_blocks st'"
proof -
  let ?kvs = "sm_entries (sec_map s)"
  define ps' where "ps' = ps\<lparr>current_section := sec_name s, has_section := True\<rparr>"
  define st' where "st' = set_entries (sec_name s) ?kvs st"
  have l: "plain (''['' @ sec_name s @ '']'')" "length (''['' @ sec_name s @ '']'') < 521"
    and t: "trimmed (''['' @ sec_name s @ '']'')"
    using s(1) by (auto simp: plain_def good_section_def trimmed_def is_blank_char_def)
  have head: "open_loop ok st ps (section_text s @ rest) h =
      open_loop ok st ps' (concat (map kv_text ?kvs) @ CHR 0x0A # rest) h"
    using open_loop_line [OF l, of ok st ps "concat (map kv_text ?kvs) @ CHR 0x0A # rest" h]
    by (simp only: trim_str_trimmed [OF t] parse_section [OF s(1) ps])
      (simp add: section_text_def ps'_def)
  have "has_section ps'" "current_section ps' \<noteq> []" "current_section ps' = sec_name s" "current_section_n ps' = 522"
    using s(1) ps by (simp_all add: ps'_def good_section_def)
  note ps' = this
  obtain h' where h': "open_loop ok st ps' (concat (map kv_text ?kvs) @ CHR 0x0A # rest) h =
      open_loop ok st' ps' (CHR 0x0A # rest) h'" "settings_invar st'"
      "live h' + settings_blocks st = live h + settings_blocks st'"
    using open_kvs [OF ps'(1,2) ok st s(2), of "CHR 0x0A # rest" h] unfolding ps'(3) st'_def by blast
  have empty: "plain []" "length [] < (521 :: nat)" "trim_str [CHR 0x0A] = []"
    by (simp_all add: plain_def trim_str_def is_blank_char_def)
  have "open_loop ok st' ps' (CHR 0x0A # rest) h' = open_loop ok st' ps' rest h'"
    using open_loop_line [OF empty(1,2), of ok st' ps' rest h'] by (simp add: empty(3) parse_empty)
  moreover have "settings_lookup st' = (settings_lookup st)(sec_name s := settings_lookup st (sec_name s) ++ sm_lookup (sec_map s))"
    by (simp add: st'_def settings_lookup_set_entries [OF st] map_of_rev_distinct
        sm.entries_distinct [OF m] sm.entries_lookup [OF m])
  ultimately show thesis using that [of st' ps' h'] head h' ps'(4) by simp
qed

lemma open_sections:
  assumes ok: "\<forall>n. ok n"
  shows "\<forall>s \<in> set ss. good_section (sec_name s) \<and> (\<forall>(k, v) \<in> set (sm_entries (sec_map s)). good_key k \<and> good_value v)
      \<and> sm_invar (sec_map s) \<Longrightarrow>
    distinct (map sec_name ss) \<Longrightarrow> current_section_n ps = 522 \<Longrightarrow> settings_invar st \<Longrightarrow>
    \<exists>st' h'. open_loop ok st ps (concat (map section_text ss)) h = kret (Some st', h') \<and> settings_invar st' \<and>
      (\<forall>n. settings_lookup st' n = settings_lookup st n ++ sections_map ss n) \<and>
      live h' + settings_blocks st = live h + settings_blocks st'"
proof (induction ss arbitrary: st ps h)
  case Nil
  then show ?case by (simp add: sections_map_def)
next
  case (Cons s ss)
  obtain st1 ps1 h1 where 1:
    "open_loop ok st ps (section_text s @ concat (map section_text ss)) h = open_loop ok st1 ps1 (concat (map section_text ss)) h1"
    "current_section_n ps1 = 522" "settings_invar st1"
    "settings_lookup st1 = (settings_lookup st)(sec_name s := settings_lookup st (sec_name s) ++ sm_lookup (sec_map s))"
    "live h1 + settings_blocks st = live h + settings_blocks st1"
    by (rule open_section [of s ps st ok "concat (map section_text ss)" h]) (use Cons.prems ok in auto)
  obtain st' h' where 2: "open_loop ok st1 ps1 (concat (map section_text ss)) h1 = kret (Some st', h')"
    "settings_invar st'" "\<And>n. settings_lookup st' n = settings_lookup st1 n ++ sections_map ss n"
    "live h' + settings_blocks st1 = live h1 + settings_blocks st'"
    using Cons.IH [OF _ _ 1(2,3), of h1] Cons.prems(1,2) by auto
  have "sections_map ss (sec_name s) = Map.empty"
    using Cons.prems(2) by (simp add: sections_map_def find_section_None [THEN iffD2])
  then have "settings_lookup st' n = settings_lookup st n ++ sections_map (s # ss) n" for n
    using 1(4) 2(3) [of n] by (auto simp: sections_map_Cons)
  with 1 2 show ?case by (intro exI [of _ st'] exI [of _ h']) simp
qed

lemma live_delete_sections:
  "live (delete_sections ss h) = live h - sum_list (map (\<lambda>s. sm_blocks (sec_map s) + 1) ss)"
  by (induction ss arbitrary: h) (simp_all add: live_sm_delete)

lemma settings_delete_live:
  assumes "settings_invar st"
  obtains h' where "settings_delete (Some st) h = kret h'" "live h' = live h - settings_blocks st"
  using assms that by (simp add: settings_delete_def settings_invar_def settings_blocks_def Let_def live_delete_sections)

section \<open>Reading any text\<close>

lemma parse_kv_total:
  assumes "str \<noteq> []" and "\<not> is_blank_char (hd str)" and "is_key_value_str str"
  shows "\<exists>r. get_key_value_from_str str n m = kret r"
proof -
  let ?t = "takeWhile (\<lambda>c. c \<noteq> CHR ''='') str"
  have "hd str \<in> set ?t" using assms by (cases str) (auto simp: is_key_value_str_def)
  then have "rev (dropWhile is_blank_char (rev ?t)) \<noteq> []" using assms(2) by auto
  then show ?thesis
    by (auto simp: get_key_value_from_str_def copy_until_eq Let_def split: option.splits)
qed

lemma hd_trim_str: "trim_str s \<noteq> [] \<Longrightarrow> \<not> is_blank_char (hd (trim_str s))"
proof -
  assume ne: "trim_str s \<noteq> []"
  let ?s0 = "dropWhile is_blank_char s"
  have "?s0 = rev (dropWhile is_blank_char (rev ?s0)) @ rev (takeWhile is_blank_char (rev ?s0))"
    by (metis rev_append rev_rev_ident takeWhile_dropWhile_id)
  then have "hd (trim_str s) = hd ?s0" using ne by (metis hd_append2 trim_str_def)
  moreover have "?s0 \<noteq> []"
  proof
    assume "?s0 = []"
    then show False using ne by (simp only: trim_str_def Let_def) simp
  qed
  ultimately show ?thesis using hd_dropWhile by metis
qed

text \<open>What a step of the reader keeps: the settings stay well-formed, their blocks accounted for.\<close>

definition open_inv :: "nat \<Rightarrow> Settings \<Rightarrow> alloc \<Rightarrow> bool" where
  "open_inv base st h \<longleftrightarrow> settings_invar st \<and> live h = base + settings_blocks st"

lemma settings_set_inv:
  assumes "open_inv base st h" and "\<forall>n. ok n"
  obtains r st' h' where "settings_set ok (Some st) (Some sec) (Some k) (Some v) h = kret (r, Some st', h')"
    "open_inv base st' h'"
proof (cases "sec = []")
  case True
  then show thesis using that [of 0 st h] assms(1) by (simp add: settings_set_def)
next
  case False
  obtain h' where "settings_set ok (Some st) (Some sec) (Some k) (Some v) h = kret (1, Some (set_entry sec k v st), h')"
    "live h' + settings_blocks st = live h + settings_blocks (set_entry sec k v st)"
    using settings_set_ok [OF _ assms(2) False, of st k v h] assms(1) unfolding open_inv_def by blast
  then show thesis using that assms(1) by (simp add: open_inv_def settings_invar_set_entry)
qed

lemma parse_str_inv:
  assumes inv: "open_inv base st h" and ok: "\<forall>n. ok n" and str: "str \<noteq> [] \<longrightarrow> \<not> is_blank_char (hd str)"
  obtains r st' ps' h' where "parse_str ok st str ps h = kret (r, st', ps', h')" "open_inv base st' h'"
proof -
  have set: "\<exists>r st' ps' h'. kbind (settings_set ok (Some st) (Some sec) (Some k) (Some v) h)
      (\<lambda>(r, st, h). kret (r, the st, ps, h)) = kret (r, st', ps', h') \<and> open_inv base st' h'" for sec k v
    by (rule settings_set_inv [OF inv ok, of sec k v]) auto
  have "\<exists>r st' ps' h'. parse_str ok st str ps h = kret (r, st', ps', h') \<and> open_inv base st' h'"
  proof (cases "str = [] \<or> is_blank_str str \<or> is_comment_str str \<or> is_section_str str")
    case True
    then show ?thesis using inv by (auto simp: parse_str_def Let_def split: option.splits)
  next
    case not: False
    show ?thesis
    proof (cases "is_key_value_str str")
      case True
      obtain kv where "get_key_value_from_str str MAX_LINECHARS MAX_LINECHARS = kret kv"
        using parse_kv_total [OF _ _ True] not str by blast
      with not True inv set show ?thesis by (cases kv) (auto simp: parse_str_def Let_def)
    next
      case False
      with not inv set show ?thesis by (auto simp: parse_str_def Let_def split: option.split)
    qed
  qed
  then show thesis using that by blast
qed

lemma open_loop_inv:
  assumes "\<forall>n. ok n"
  shows "open_inv base st h \<Longrightarrow> \<exists>r st' h'. open_loop ok st ps cs h = kret (r, h') \<and>
    open_inv base st' h' \<and> (r = None \<or> r = Some st')"
proof (induction "length cs" arbitrary: cs st ps h rule: less_induct)
  case less
  show ?case
  proof (cases "cs = []")
    case True
    then show ?thesis using less.prems by auto
  next
    case False
    let ?f = "fgets (MAX_LINECHARS - 1) cs"
    obtain r st' ps' h' where p: "parse_str ok st (trim_str (cstr (fst ?f))) ps h = kret (r, st', ps', h')"
      "open_inv base st' h'"
      by (rule parse_str_inv [OF less.prems assms, of "trim_str (cstr (fst ?f))" ps]) (auto dest: hd_trim_str)
    have step: "open_loop ok st ps cs h = (if r = 0 then kret (None, h') else open_loop ok st' ps' (snd ?f) h')"
      using False p(1) by (subst open_loop.simps) simp
    show ?thesis
    proof (cases "r = 0")
      case True
      then show ?thesis using step p(2) by auto
    next
      case r: False
      have "length (snd ?f) < length cs" using False by (intro fgets_shorter) (simp_all add: MAX_LINECHARS_def)
      from less.hyps [OF this p(2), of ps'] show ?thesis using step r by simp
    qed
  qed
qed

section \<open>Properties\<close>

text \<open>
  Property C3: settings survive a round trip through a file. For well-formed settings whose section
  names, keys and values can be written on a line, \<open>settings_save\<close> succeeds; when the allocations
  succeed, \<open>settings_open\<close> of the text it wrote succeeds and gives settings with the same value, or
  none, for every section and key; \<open>settings_delete\<close> then frees all that was allocated.
\<close>

theorem settings_roundtrip:
  assumes "settings_invar st" and "good_settings st" and "\<forall>n. ok n"
  shows "\<exists>file st' h' h''. settings_save (Some st) (Some []) = kret (1, Some file) \<and>
    settings_open ok (Some file) h = kret (Some st', h') \<and>
    (\<forall>sec k n. settings_get (Some st') (Some sec) (Some k) True n = settings_get (Some st) (Some sec) (Some k) True n) \<and>
    settings_delete (Some st') h' = kret h'' \<and> live h'' = live h"
proof -
  let ?text = "concat (map section_text (sections st))"
  let ?ps = "\<lparr>current_section = [], current_section_n = MAX_LINECHARS, has_section = False\<rparr>"
  let ?new = "\<lparr>sections = [], freed = False\<rparr>"
  have save: "settings_save (Some st) (Some []) = kret (1, Some ?text)"
    using save_sections_good [of "sections st" "[]"] assms(1,2)
    by (simp add: settings_save_def settings_invar_def good_settings_def)
  obtain h1 where h1: "settings_new ok h = (Some ?new, h1)" "live h1 = live h + 1"
    using assms(3) by (cases rule: malloc_cases [of ok h]) (auto simp: settings_new_def)
  have new: "settings_invar ?new" "\<And>n. settings_lookup ?new n = Map.empty" "settings_blocks ?new = 1"
    by (simp_all add: settings_invar_def settings_lookup_def sections_map_def settings_blocks_def)
  obtain st' h' where o: "open_loop ok ?new ?ps ?text h1 = kret (Some st', h')" "settings_invar st'"
    "\<And>n. settings_lookup st' n = sections_map (sections st) n"
    "live h' + settings_blocks ?new = live h1 + settings_blocks st'"
    using open_sections [OF assms(3), of "sections st" ?ps ?new h1] assms(1,2) new
    by (auto simp: settings_invar_def good_settings_def MAX_LINECHARS_def)
  obtain h'' where d: "settings_delete (Some st') h' = kret h''" "live h'' = live h' - settings_blocks st'"
    by (rule settings_delete_live [OF o(2)])
  have "settings_open ok (Some ?text) h = kret (Some st', h')"
    by (simp add: settings_open_def h1(1) o(1))
  moreover have "settings_get (Some st') (Some sec) (Some k) True n = settings_get (Some st) (Some sec) (Some k) True n" for sec k n
    by (simp add: settings_get_eq [OF assms(1)] settings_get_eq [OF o(2)] o(3) settings_lookup_def [of st])
  moreover have "live h'' = live h" using d(2) o(4) h1(2) new(3) by simp
  ultimately show ?thesis using save d(1) by blast
qed

theorem settings_roundtrip_witness:
  "\<exists>file st' h' h''. settings_save (Some (set_entry ''net'' ''ip'' ''10.0.0.1'' \<lparr>sections = [], freed = False\<rparr>)) (Some [])
      = kret (1, Some file) \<and> settings_open (\<lambda>n. True) (Some file) \<lparr>allocs = 0, live = 5\<rparr> = kret (Some st', h') \<and>
    settings_get (Some st') (Some ''net'') (Some ''ip'') True 20 = kret (1, Some ''10.0.0.1'') \<and>
    settings_delete (Some st') h' = kret h'' \<and> live h'' = 5"
proof -
  let ?new = "\<lparr>sections = [], freed = False\<rparr>" let ?m = "sm_update ''ip'' ''10.0.0.1'' (sm_empty 256)"
  have new: "settings_invar ?new" by (simp add: settings_invar_def)
  have m: "sm_lookup ?m = [''ip'' \<mapsto> ''10.0.0.1'']"
    using sm.lookup_update [OF sm.invar_empty] sm.lookup_empty by simp
  have "(k, v) \<in> set (sm_entries ?m) \<Longrightarrow> k = ''ip'' \<and> v = ''10.0.0.1''" for k v
    using sm.lookup_entries [OF sm.invar_update [OF sm.invar_empty], of "''ip''" "''10.0.0.1''" k v] m
    by (simp split: if_splits)
  moreover have "good_section ''net''" "good_key ''ip''" "good_value ''10.0.0.1''"
    by (simp_all add: good_section_def good_key_def good_value_def plain_def trimmed_def is_blank_char_def)
  ultimately have good: "good_settings (set_entry ''net'' ''ip'' ''10.0.0.1'' ?new)"
    by (auto simp: good_settings_def set_entry_def)
  have get: "settings_get (Some (set_entry ''net'' ''ip'' ''10.0.0.1'' ?new)) (Some ''net'') (Some ''ip'') True 20
      = kret (1, Some ''10.0.0.1'')"
    by (simp add: settings_get_eq [OF settings_invar_set_entry [OF new]] settings_lookup_set_entry [OF new])
  show ?thesis
    using settings_roundtrip [OF settings_invar_set_entry [OF new] good, of "\<lambda>n. True" "\<lparr>allocs = 0, live = 5\<rparr>"] get
    by force
qed

text \<open>
  Property C35: reading never faults and never leaks except on a syntax error. For every text, also with
  null characters and overlong lines, and allocations that succeed, \<open>settings_open\<close> returns. When
  it returns settings they are well-formed and are all that is live; when it returns null, at least the
  settings object it had begun is still live.
\<close>

theorem settings_open_safe:
  assumes "\<forall>n. ok n"
  shows "\<exists>r st h'. settings_open ok (Some file) h = kret (r, h') \<and> settings_invar st \<and>
    live h' = live h + settings_blocks st \<and> (r = None \<or> r = Some st) \<and> live h < live h'"
proof -
  let ?new = "\<lparr>sections = [], freed = False\<rparr>"
  obtain h1 where h1: "settings_new ok h = (Some ?new, h1)" "live h1 = live h + 1"
    using assms by (cases rule: malloc_cases [of ok h]) (auto simp: settings_new_def)
  have "open_inv (live h) ?new h1" using h1(2) by (simp add: open_inv_def settings_invar_def settings_blocks_def)
  from open_loop_inv [OF assms this] obtain r st' h' where
    "settings_open ok (Some file) h = kret (r, h')" "open_inv (live h) st' h'" "r = None \<or> r = Some st'"
    by (auto simp: settings_open_def h1(1)) metis
  moreover have "0 < settings_blocks st'" by (simp add: settings_blocks_def)
  ultimately show ?thesis unfolding open_inv_def by auto
qed

theorem settings_open_safe_witness:
  "\<exists>r st h'. settings_open (\<lambda>n. True) (Some ''key = 1'') \<lparr>allocs = 0, live = 0\<rparr> = kret (r, h') \<and> settings_invar st \<and>
    live h' = live \<lparr>allocs = 0, live = 0\<rparr> + settings_blocks st \<and> (r = None \<or> r = Some st) \<and>
    live \<lparr>allocs = 0, live = 0\<rparr> < live h'"
  by (rule settings_open_safe) simp

section \<open>Numbers in settings\<close>

text \<open>Values joined by commas, the form the tuple functions read.\<close>

fun join_comma :: "string list \<Rightarrow> string" where
  "join_comma [] = []"
| "join_comma [x] = x"
| "join_comma (x # y # xs) = x @ CHR '','' # join_comma (y # xs)"

lemma get_token_comma: "CHR '','' \<notin> set x \<Longrightarrow> get_token (x @ CHR '','' # s) CHR '','' = Some (x, s)"
  by (simp add: get_token_def split_at Let_def)

lemma get_token_last: "CHR '','' \<notin> set x \<Longrightarrow> x \<noteq> [] \<Longrightarrow> get_token x CHR '','' = Some (x, [])"
proof -
  assume x: "CHR '','' \<notin> set x" "x \<noteq> []"
  then have "takeWhile (\<lambda>c. c \<noteq> CHR '','') x = x" by (auto simp: takeWhile_eq_all_conv)
  moreover from this have "dropWhile (\<lambda>c. c \<noteq> CHR '','') x = []"
    by (metis append_self_conv takeWhile_dropWhile_id)
  ultimately show ?thesis using x by (simp add: get_token_def)
qed

lemma convert_tokens_join:
  "\<forall>x \<in> set xs. x \<noteq> [] \<and> CHR '','' \<notin> set x \<Longrightarrow>
     convert_tokens atof mode CHR '','' n (join_comma xs) = map (convert atof mode) (take n xs)"
proof (induction xs arbitrary: n rule: join_comma.induct)
  case 1
  show ?case by (subst convert_tokens.simps) (simp add: get_token_def)
next
  case (2 x)
  have "convert_tokens atof mode CHR '','' m [] = []" for m
    by (subst convert_tokens.simps) (simp add: get_token_def)
  with 2 show ?case by (subst convert_tokens.simps) (cases n; simp add: get_token_last)
next
  case (3 x y xs)
  then show ?case by (subst convert_tokens.simps) (cases n; simp add: get_token_comma)
qed

lemma show_int_nonempty: "show_int i \<noteq> []"
  by (simp add: show_int_def)

text \<open>
  Fact: integers survive in settings. After \<open>settings_set\<close> of the decimal form of a 32-bit
  integer, \<open>settings_get_int\<close> succeeds and gives the integer, and every other entry is unchanged.
\<close>

theorem settings_int_roundtrip:
  assumes "settings_invar st" and "\<forall>n. ok n" and "sec \<noteq> []" and "- (2 ^ 31) \<le> i" and "i < 2 ^ 31"
  shows "\<exists>st' h'. settings_set ok (Some st) (Some sec) (Some k) (Some (show_int i)) h = kret (1, Some st', h') \<and>
    settings_get_int atof (Some st') (Some sec) (Some k) = kret (1, Some (CInt (of_int i))) \<and>
    (\<forall>sec' k' n. (sec', k') = (sec, k) \<or>
      settings_get (Some st') (Some sec') (Some k') True n = settings_get (Some st) (Some sec') (Some k') True n)"
proof -
  let ?st = "set_entry sec k (show_int i) st"
  obtain h' where h': "settings_set ok (Some st) (Some sec) (Some k) (Some (show_int i)) h = kret (1, Some ?st, h')"
    by (rule settings_set_ok [OF assms(1-3)])
  note inv = settings_invar_set_entry [OF assms(1), of sec k "show_int i"]
  note look = settings_lookup_set_entry [OF assms(1), of sec k "show_int i"]
  have "length (show_int i) < 256" using length_show_int [OF assms(4,5)] by simp
  then have "settings_get_int atof (Some ?st) (Some sec) (Some k) = kret (1, Some (CInt (of_int i)))"
    by (simp add: settings_get_int_def get_converted_value_def settings_get_eq [OF inv] look MAX_VALUECHARS_def
        convert_def atoi_show_int)
  moreover have "(sec', k') = (sec, k) \<or> settings_get (Some ?st) (Some sec') (Some k') True n
      = settings_get (Some st) (Some sec') (Some k') True n" for sec' k' n
    by (auto simp: settings_get_eq [OF inv] settings_get_eq [OF assms(1)] look)
  ultimately show ?thesis using h' by blast
qed

theorem settings_int_roundtrip_witness:
  "\<exists>st' h'. settings_set (\<lambda>n. True) (Some \<lparr>sections = [], freed = False\<rparr>) (Some ''net'') (Some ''port'') (Some (show_int (- 8080)))
      \<lparr>allocs = 0, live = 1\<rparr> = kret (1, Some st', h') \<and>
    settings_get_int (\<lambda>s. s) (Some st') (Some ''net'') (Some ''port'') = kret (1, Some (CInt (- 8080)))"
  using settings_int_roundtrip [of "\<lparr>sections = [], freed = False\<rparr>" "\<lambda>n. True" "''net''" "- 8080" "''port''"
      "\<lparr>allocs = 0, live = 1\<rparr>" "\<lambda>s. s"]
  by (auto simp: settings_invar_def)

text \<open>
  Fact: a list of integers written with commas is read back by \<open>settings_get_int_tuple\<close>,
  as far as the output array has room.
\<close>

theorem settings_int_tuple:
  assumes "settings_invar st" and "settings_lookup st sec k = Some (join_comma (map show_int is))"
    and "length (join_comma (map show_int is)) < 256" and "n \<noteq> 0"
  shows "settings_get_int_tuple atof (Some st) (Some sec) (Some k) True n =
    kret (1, map (\<lambda>i. CInt (of_int i)) (take n is))"
proof -
  have "convert_tokens atof CONVERT_MODE_INT CHR '','' n (join_comma (map show_int is)) =
      map (\<lambda>i. CInt (of_int i)) (take n is)"
    by (subst convert_tokens_join)
      (auto simp: show_int_nonempty show_int_no_comma convert_def atoi_show_int take_map)
  with assms show ?thesis
    by (simp add: settings_get_int_tuple_def get_converted_tuple_def settings_get_eq MAX_VALUECHARS_def)
qed

theorem settings_int_tuple_witness:
  "settings_get_int_tuple (\<lambda>s. s) (Some (set_entry ''a'' ''b'' (join_comma (map show_int [3, - 4, 5])) \<lparr>sections = [], freed = False\<rparr>))
     (Some ''a'') (Some ''b'') True 2 = kret (1, [CInt 3, CInt (- 4)])"
proof -
  have new: "settings_invar \<lparr>sections = [], freed = False\<rparr>" by (simp add: settings_invar_def)
  show ?thesis
    using settings_int_tuple [OF settings_invar_set_entry [OF new], of "''a''" "''b''" "join_comma (map show_int [3, - 4, 5])"
        "''a''" "''b''" "[3, - 4, 5]" 2 "\<lambda>s. s"] settings_lookup_set_entry [OF new]
    by (simp add: show_int_def dec_nat.simps)
qed

text \<open>
  Fact: running out of memory while a section is created. When the table of a new section cannot
  be allocated, \<open>settings_set\<close> frees a pointer into the array of sections: for the first section it
  fails and leaves the settings pointing to freed memory, so that the next lookup reads it; for any later
  section the pointer is not the start of a block.
\<close>

theorem settings_set_out_of_memory:
  assumes "settings_invar st" and "sec \<noteq> []" and "sec \<notin> sec_name ` set (sections st)"
    and "ok (allocs h)" and "\<not> ok (allocs h + 1)"
  shows "sections st \<noteq> [] \<and> settings_set ok (Some st) (Some sec) (Some k) (Some v) h = kfail BadFree \<or>
    sections st = [] \<and> (\<exists>st' h'. settings_set ok (Some st) (Some sec) (Some k) (Some v) h = kret (0, Some st', h') \<and>
       (\<forall>sec' k' n. settings_get (Some st') (Some sec') k' True n = kfail BadDeref))"
proof -
  have "find_section (sections st) sec = None" using assms(3) by (simp add: find_section_None)
  with assms show ?thesis
    by (auto simp: settings_set_def settings_get_def get_section_def settings_invar_def malloc_def realloc_def
        sm_new_def Let_def)
qed

theorem settings_set_out_of_memory_witness:
  "\<exists>st' h'. settings_set (\<lambda>n. n \<noteq> 1) (Some \<lparr>sections = [], freed = False\<rparr>) (Some ''s'') (Some ''k'') (Some ''v'')
      \<lparr>allocs = 0, live = 1\<rparr> = kret (0, Some st', h') \<and>
    settings_get (Some st') (Some ''s'') (Some ''k'') True 9 = kfail BadDeref"
  using settings_set_out_of_memory [of "\<lparr>sections = [], freed = False\<rparr>" "''s''" "\<lambda>n. n \<noteq> 1"
      "\<lparr>allocs = 0, live = 1\<rparr>" "''k''" "''v''"]
  by (auto simp: settings_invar_def)

end
