(* ===== verification/Ad_Chain.thy ===== *)
theory Ad_Chain
  imports Chain
begin

text \<open>
  The chain class of the services, \<open>src/sources/lib/lib-adav/src/ADGenericChain.cpp\<close> and its header:
  the same doubly linked list as the kernel chain, with a generator of identifiers, a consumer object
  that identifies elements and frees what they own, and a mutex. The members that the kernel chain has
  too are the field \<open>links\<close>, and the statements both classes share are the definitions of \<open>Chain\<close>.
  A callback gets the memory, the element, its arguments and the identifier of the calling chain.
\<close>

section \<open>The class\<close>

record 'd ADChainConsumer =
  cb_identify :: "'d kmem \<Rightarrow> ptr \<Rightarrow> s32 \<Rightarrow> s32 \<Rightarrow> s32"
  cb_double_identify :: "'d kmem \<Rightarrow> ptr \<Rightarrow> s32 \<Rightarrow> s32 \<Rightarrow> s32 \<Rightarrow> s32"
  cb_free :: "'d kmem \<Rightarrow> ptr \<Rightarrow> s32 \<Rightarrow> 'd kmem kres"

record 'd ADGenericChain =
  links :: chain
  disable_autoremove :: s32
  ident_generator :: s32
  pConsumer :: "'d ADChainConsumer option"
  chain_id :: s32

text \<open>The constructor, with the class-wide counter of identifiers. \<open>p\<close> is the address of the base holder.\<close>

definition ad_chain_new :: "ptr \<Rightarrow> s32 \<Rightarrow> 'd kmem \<Rightarrow> ('d ADGenericChain \<times> s32 \<times> 'd kmem) kres" where
  "ad_chain_new p IDGenerator m =
     kbind (set_pNext m p NULL) (\<lambda>m.
     kret (\<lparr>links = \<lparr>base_chain = p, sz = 0, peak_sz = 0, init_flag = 1, sema = 1\<rparr>,
            disable_autoremove = 0, ident_generator = 0, pConsumer = None, chain_id = IDGenerator\<rparr>,
           IDGenerator + 1, m))"

definition attach_helper :: "'d ADChainConsumer \<Rightarrow> 'd ADGenericChain \<Rightarrow> s32 \<times> 'd ADGenericChain" where
  "attach_helper cons c =
     (case pConsumer c of None \<Rightarrow> (chain_id c, c\<lparr>pConsumer := Some cons\<rparr>) | Some _ \<Rightarrow> (-1, c))"

definition is_helper_attached :: "'d ADGenericChain \<Rightarrow> int" where
  "is_helper_attached c = (if pConsumer c = None then -1 else 0)"

definition identify_chain_element :: "'d ADGenericChain \<Rightarrow> 'd kmem \<Rightarrow> ptr \<Rightarrow> s32 \<Rightarrow> s32" where
  "identify_chain_element c m element ident =
     (case pConsumer c of Some f \<Rightarrow> cb_identify f m element ident (chain_id c) | None \<Rightarrow> -1)"

definition double_identify_chain_element :: "'d ADGenericChain \<Rightarrow> 'd kmem \<Rightarrow> ptr \<Rightarrow> s32 \<Rightarrow> s32 \<Rightarrow> s32" where
  "double_identify_chain_element c m element ident1 ident2 =
     (case pConsumer c of Some f \<Rightarrow> cb_double_identify f m element ident1 ident2 (chain_id c) | None \<Rightarrow> -1)"

definition free_chain_element_data :: "'d ADGenericChain \<Rightarrow> 'd kmem \<Rightarrow> ptr \<Rightarrow> 'd kmem kres" where
  "free_chain_element_data c m element =
     (case pConsumer c of Some f \<Rightarrow> cb_free f m element (chain_id c) | None \<Rightarrow> kret m)"

definition ad_lock :: "'d ADGenericChain \<Rightarrow> 'd ADGenericChain kres" where
  "ad_lock c = kbind (down (links c)) (\<lambda>l. kret (c\<lparr>links := l\<rparr>))"

definition ad_unlock :: "'d ADGenericChain \<Rightarrow> 'd ADGenericChain" where
  "ad_unlock c = c\<lparr>links := up (links c)\<rparr>"

section \<open>Operations\<close>

definition ad_chain_add :: "'d ADGenericChain \<Rightarrow> 'd kmem \<Rightarrow> ptr \<Rightarrow> ptr \<Rightarrow> (int \<times> 'd ADGenericChain \<times> 'd kmem) kres" where
  "ad_chain_add c m p data =
     kbind (chain_add (links c) m p data) (\<lambda>(r, l, m). kret (r, c\<lparr>links := l\<rparr>, m))"

definition ad_chain_put :: "'d ADGenericChain \<Rightarrow> 'd kmem \<Rightarrow> ptr \<Rightarrow> ptr \<Rightarrow> (int \<times> 'd ADGenericChain \<times> 'd kmem) kres" where
  "ad_chain_put c m p data =
     kbind (ad_lock c) (\<lambda>c.
     if init_flag (links c) = 0 then kret (-1, ad_unlock c, m)
     else kbind (ad_chain_add c m p data) (\<lambda>(iRet, c, m). kret (iRet, ad_unlock c, m)))"

definition ad_chain_remove :: "'d ADGenericChain \<Rightarrow> 'd kmem \<Rightarrow> (int \<times> 'd ADGenericChain \<times> 'd kmem) kres" where
  "ad_chain_remove c m = kbind (chain_remove (links c) m) (\<lambda>(r, l, m). kret (r, c\<lparr>links := l\<rparr>, m))"

definition ad_chain_get :: "'d ADGenericChain \<Rightarrow> 'd kmem \<Rightarrow> (ptr \<times> 'd ADGenericChain \<times> 'd kmem) kres" where
  "ad_chain_get c m =
     kbind (ad_lock c) (\<lambda>c.
     if init_flag (links c) = 0 then kret (NULL, ad_unlock c, m)
     else
       kbind (deref m (base_chain (links c))) (\<lambda>b.
       if pNext b = NULL then kret (NULL, ad_unlock c, m)
       else
         kbind (deref m (pNext b)) (\<lambda>n.
         kbind (ad_chain_remove c m) (\<lambda>(_, c, m). kret (pData n, ad_unlock c, m)))))"

definition ad_get_top :: "'d ADGenericChain \<Rightarrow> 'd kmem \<Rightarrow> ptr kres" where
  "ad_get_top c m = chain_get_top (links c) m"

definition ad_get_chain_size :: "'d ADGenericChain \<Rightarrow> (s32 \<times> 'd ADGenericChain) kres" where
  "ad_get_chain_size c = kbind (ad_lock c) (\<lambda>c. kret (sz (links c), ad_unlock c))"

definition ad_chain_generate_ident :: "'d ADGenericChain \<Rightarrow> (s32 \<times> 'd ADGenericChain) kres" where
  "ad_chain_generate_ident c =
     kbind (ad_lock c) (\<lambda>c.
     let c = c\<lparr>ident_generator := ident_generator c + 1\<rparr> in kret (ident_generator c, ad_unlock c))"

text \<open>The search loop of the two getters, with the test they apply to each element.\<close>

definition ad_get_matching :: "'d ADGenericChain \<Rightarrow> 'd kmem \<Rightarrow> (ptr \<Rightarrow> bool) \<Rightarrow> ptr kres" where
  "ad_get_matching c m P =
     get_matching (links c) m (if is_helper_attached c \<noteq> 0 then None else Some P)"

definition ad_chain_get_by_ident :: "'d ADGenericChain \<Rightarrow> 'd kmem \<Rightarrow> s32 \<Rightarrow> ptr kres" where
  "ad_chain_get_by_ident c m ident = ad_get_matching c m (\<lambda>d. identify_chain_element c m d ident = 0)"

definition ad_chain_get_by_double_ident :: "'d ADGenericChain \<Rightarrow> 'd kmem \<Rightarrow> s32 \<Rightarrow> s32 \<Rightarrow> ptr kres" where
  "ad_chain_get_by_double_ident c m ident1 ident2 =
     ad_get_matching c m (\<lambda>d. double_identify_chain_element c m d ident1 ident2 = 0)"

text \<open>
  The two removals read the first holder of the chain when they are entered, before they take the lock.
  What they do with it once they have the lock is a definition of its own, as another thread may run in
  between.
\<close>

definition ad_first :: "'d ADGenericChain \<Rightarrow> 'd kmem \<Rightarrow> ptr kres" where
  "ad_first c m = kbind (deref m (base_chain (links c))) (\<lambda>b. kret (pNext b))"

definition ad_remove_from ::
  "'d ADGenericChain \<Rightarrow> 'd kmem \<Rightarrow> ptr \<Rightarrow> (ptr \<Rightarrow> bool) \<Rightarrow> (ptr \<times> 'd ADGenericChain \<times> 'd kmem) kres" where
  "ad_remove_from c m pHolder P =
     kbind (ad_lock c) (\<lambda>c.
     if init_flag (links c) = 0 then kret (NULL, ad_unlock c, m)
     else if pHolder = NULL then kret (NULL, ad_unlock c, m)
     else if is_helper_attached c \<noteq> 0 then kret (NULL, ad_unlock c, m)
     else
       kbind (find_holder P (holders m) pHolder) (\<lambda>pHolder.
       if pHolder = NULL then kret (NULL, ad_unlock c, m)
       else
         kbind (deref m pHolder) (\<lambda>n.
         kbind (chain_unlink m pHolder) (\<lambda>m.
         let c = c\<lparr>links := (links c)\<lparr>sz := sz (links c) - 1\<rparr>\<rparr> in
         kret (pData n, ad_unlock c, m)))))"

definition ad_chain_remove_by_ident ::
  "'d ADGenericChain \<Rightarrow> 'd kmem \<Rightarrow> s32 \<Rightarrow> (ptr \<times> 'd ADGenericChain \<times> 'd kmem) kres" where
  "ad_chain_remove_by_ident c m ident =
     kbind (ad_first c m) (\<lambda>pHolder. ad_remove_from c m pHolder (\<lambda>d. identify_chain_element c m d ident = 0))"

definition ad_chain_remove_by_double_ident ::
  "'d ADGenericChain \<Rightarrow> 'd kmem \<Rightarrow> s32 \<Rightarrow> s32 \<Rightarrow> (ptr \<times> 'd ADGenericChain \<times> 'd kmem) kres" where
  "ad_chain_remove_by_double_ident c m ident1 ident2 =
     kbind (ad_first c m) (\<lambda>pHolder.
       ad_remove_from c m pHolder (\<lambda>d. double_identify_chain_element c m d ident1 ident2 = 0))"

definition ad_chain_get_by_index :: "'d ADGenericChain \<Rightarrow> 'd kmem \<Rightarrow> s32 \<Rightarrow> ptr kres" where
  "ad_chain_get_by_index c m index =
     kbind (deref m (base_chain (links c))) (\<lambda>b.
     if pNext b = NULL then kret NULL
     else if sint (sz (links c)) \<le> sint index then kret NULL
     else
       kbind (walk (holders m) (pNext b) (nat (sint index))) (\<lambda>pHolder.
       if pHolder = NULL then kret NULL
       else kbind (deref m pHolder) (\<lambda>n. kret (pData n))))"

section \<open>Emptying\<close>

text \<open>\<open>remove\<close> has the statements of \<open>chain_remove\<close>.\<close>

definition ad_remove :: "'d ADGenericChain \<Rightarrow> 'd kmem \<Rightarrow> (int \<times> 'd ADGenericChain \<times> 'd kmem) kres" where
  "ad_remove c m = ad_chain_remove c m"

partial_function (option) ad_remove_all ::
  "'d ADGenericChain \<Rightarrow> 'd kmem \<Rightarrow> (int \<times> 'd ADGenericChain \<times> 'd kmem) kres" where
  "ad_remove_all c m =
     kbind (deref m (base_chain (links c))) (\<lambda>b.
     if pNext b = NULL then kret (0, c, m)
     else
       kbind (deref m (pNext b)) (\<lambda>n.
       kbind (if disable_autoremove c = 0
              then kbind (free_chain_element_data c m (pData n)) (\<lambda>m. kfree_obj m (pData n))
              else kret m) (\<lambda>m.
       kbind (ad_remove c m) (\<lambda>r. ad_remove_all (fst (snd r)) (snd (snd r))))))"

definition ad_chain_empty :: "'d ADGenericChain \<Rightarrow> 'd kmem \<Rightarrow> (int \<times> 'd ADGenericChain \<times> 'd kmem) kres" where
  "ad_chain_empty c m =
     kbind (ad_lock c) (\<lambda>c.
     kbind (ad_remove_all c m) (\<lambda>(_, c, m). kret (0, ad_unlock (c\<lparr>ident_generator := 0\<rparr>), m)))"

definition ad_chain_delete :: "'d ADGenericChain \<Rightarrow> 'd kmem \<Rightarrow> ('d ADGenericChain \<times> 'd kmem) kres" where
  "ad_chain_delete c m =
     kbind (ad_lock c) (\<lambda>c.
     kbind (ad_remove_all c m) (\<lambda>(_, c, m).
     kret (ad_unlock (c\<lparr>links := (links c)\<lparr>init_flag := 0\<rparr>\<rparr>), m)))"

definition disable_auto_remove :: "'d ADGenericChain \<Rightarrow> int \<times> 'd ADGenericChain" where
  "disable_auto_remove c = (0, c\<lparr>disable_autoremove := 1\<rparr>)"

definition enable_auto_remove :: "'d ADGenericChain \<Rightarrow> int \<times> 'd ADGenericChain" where
  "enable_auto_remove c = (0, c\<lparr>disable_autoremove := 0\<rparr>)"

section \<open>The operations on well-formed chains\<close>

text \<open>A chain that is live, unlocked and links the holders \<open>xs\<close>.\<close>

definition ad_rep :: "'d ADGenericChain \<Rightarrow> 'd kmem \<Rightarrow> (ptr \<times> ptr) list \<Rightarrow> bool" where
  "ad_rep c m xs \<longleftrightarrow> chain_rep (links c) m xs \<and> sema (links c) \<noteq> 0 \<and> init_flag (links c) \<noteq> 0"

lemma ad_lock_eq: "ad_rep c m xs \<Longrightarrow> ad_lock c = kret (c\<lparr>links := (links c)\<lparr>sema := sema (links c) - 1\<rparr>\<rparr>)"
  by (simp add: ad_rep_def ad_lock_def)

lemma ad_chain_put_kernel:
  "ad_chain_put c m p d = kbind (chain_put (links c) m p d) (\<lambda>(r, l, m). kret (r, c\<lparr>links := l\<rparr>, m))"
  by (cases "sema (links c) = 0")
    (auto simp: ad_chain_put_def chain_put_def ad_lock_def ad_unlock_def ad_chain_add_def down_def kbind_assoc
      split_def intro!: kbind_cong)

lemma ad_chain_get_kernel:
  "ad_chain_get c m = kbind (chain_get (links c) m) (\<lambda>(d, l, m). kret (d, c\<lparr>links := l\<rparr>, m))"
  by (cases "sema (links c) = 0")
    (auto simp: ad_chain_get_def chain_get_def ad_lock_def ad_unlock_def ad_chain_remove_def down_def kbind_assoc
      split_def intro!: kbind_cong)

lemma ad_chain_put_rep:
  assumes "ad_rep c m xs" and "fresh_ptr m p"
  obtains c' m' where "ad_chain_put c m p d = kret (0, c', m')" "ad_rep c' m' (xs @ [(p, d)])"
    "c' = c\<lparr>links := grown (links c)\<rparr>" "same_outside ({base_chain (links c), p} \<union> fst ` set xs) m m'"
proof -
  from assms obtain m' where "chain_put (links c) m p d = kret (0, grown (links c), m')"
    "chain_rep (grown (links c)) m' (xs @ [(p, d)])" "same_outside ({base_chain (links c), p} \<union> fst ` set xs) m m'"
    using chain_put_rep [of "links c" m xs p d] by (auto simp: ad_rep_def)
  then show thesis using that assms by (simp add: ad_chain_put_kernel ad_rep_def)
qed

lemma ad_chain_get_rep:
  assumes "ad_rep c m ((q, d) # xs)"
  obtains c' m' where "ad_chain_get c m = kret (d, c', m')" "ad_rep c' m' xs" "holders m' q = None"
    "c' = c\<lparr>links := (links c)\<lparr>sz := sz (links c) - 1\<rparr>\<rparr>"
    "same_outside ({base_chain (links c), q} \<union> fst ` set xs) m m'"
proof -
  from assms obtain m' where "chain_get (links c) m = kret (d, (links c)\<lparr>sz := sz (links c) - 1\<rparr>, m')"
    "chain_rep ((links c)\<lparr>sz := sz (links c) - 1\<rparr>) m' xs" "holders m' q = None"
    "same_outside ({base_chain (links c), q} \<union> fst ` set xs) m m'"
    using chain_get_rep [of "links c" m q d xs] by (auto simp: ad_rep_def)
  then show thesis using that assms by (simp add: ad_chain_get_kernel ad_rep_def)
qed

lemma ad_chain_get_empty: "ad_rep c m [] \<Longrightarrow> ad_chain_get c m = kret (NULL, c, m)"
  by (simp add: ad_rep_def ad_chain_get_kernel chain_get_empty)

text \<open>With nobody in between, a removal does what the kernel's removal does.\<close>

lemma ad_remove_kernel:
  assumes "holders m (base_chain (links c)) = Some b" and "pConsumer c \<noteq> None"
  shows "kbind (ad_first c m) (\<lambda>q. ad_remove_from c m q P) =
    kbind (remove_matching (links c) m (Some P)) (\<lambda>(d, l, m). kret (d, c\<lparr>links := l\<rparr>, m))"
  using assms
  by (cases "sema (links c) = 0")
    (auto simp: ad_first_def ad_remove_from_def remove_matching_def ad_lock_def ad_unlock_def down_def
      is_helper_attached_def kbind_assoc Let_def split_def intro!: kbind_cong)

lemma ad_remove_rep:
  assumes "ad_rep c m (ys @ (q, d) # zs)" and "P d" and "\<forall>d' \<in> snd ` set ys. \<not> P d'" and "pConsumer c \<noteq> None"
  obtains c' m' where "kbind (ad_first c m) (\<lambda>q. ad_remove_from c m q P) = kret (d, c', m')" "ad_rep c' m' (ys @ zs)"
    "holders m' q = None" "same_outside ({base_chain (links c)} \<union> fst ` set (ys @ (q, d) # zs)) m m'"
    "c' = c\<lparr>links := (links c)\<lparr>sz := sz (links c) - 1\<rparr>\<rparr>"
proof -
  have rep: "chain_rep (links c) m (ys @ (q, d) # zs)" "sema (links c) \<noteq> 0" "init_flag (links c) \<noteq> 0"
    using assms(1) by (simp_all add: ad_rep_def)
  obtain b where b: "holders m (base_chain (links c)) = Some b" using rep(1) by (rule chain_repE)
  obtain m' where "remove_matching (links c) m (Some P) = kret (d, (links c)\<lparr>sz := sz (links c) - 1\<rparr>, m')"
    "chain_rep ((links c)\<lparr>sz := sz (links c) - 1\<rparr>) m' (ys @ zs)" "holders m' q = None"
    "same_outside ({base_chain (links c)} \<union> fst ` set (ys @ (q, d) # zs)) m m'"
    using remove_matching_rep [OF rep(1) assms(2,3) rep(2,3)] by blast
  then show thesis using that rep ad_remove_kernel [OF b assms(4), of P] by (simp add: ad_rep_def)
qed

lemma ad_remove_none:
  assumes "ad_rep c m xs" and "\<forall>d \<in> snd ` set xs. \<not> P d" and "pConsumer c \<noteq> None"
  shows "kbind (ad_first c m) (\<lambda>q. ad_remove_from c m q P) = kret (NULL, c, m)"
proof -
  have rep: "chain_rep (links c) m xs" "sema (links c) \<noteq> 0" using assms(1) by (simp_all add: ad_rep_def)
  obtain b where b: "holders m (base_chain (links c)) = Some b" using rep(1) by (rule chain_repE)
  show ?thesis using ad_remove_kernel [OF b assms(3), of P] remove_matching_none [OF rep(1) assms(2) rep(2)] by simp
qed

lemma ad_get_by_index_rep:
  assumes "ad_rep c m xs" and "length xs < 2 ^ 31" and "0 \<le> sint i"
  shows "ad_chain_get_by_index c m i = kret (if nat (sint i) < length xs then snd (xs ! nat (sint i)) else NULL)"
proof -
  have rep: "chain_rep (links c) m xs" using assms(1) by (simp add: ad_rep_def)
  then obtain b where b: "holders m (base_chain (links c)) = Some b"
    "dseg (holders m) (base_chain (links c)) (pNext b) xs NULL" by (auto elim: chain_repE)
  have size: "sint (sz (links c)) = int (length xs)"
    using rep assms(2) by (simp add: chain_rep_def sint_of_nat_small)
  show ?thesis
  proof (cases "nat (sint i) < length xs")
    case True
    then have "pNext b \<noteq> NULL" using b(2) by (cases xs) (auto split: option.splits)
    moreover have "\<not> sint (sz (links c)) \<le> sint i" using True assms(3) size by linarith
    ultimately show ?thesis
      using b walk_dseg [OF b(2) True] dseg_nth [OF b(2) True] True by (auto simp: ad_chain_get_by_index_def)
  next
    case False
    then have "sint (sz (links c)) \<le> sint i" using assms(3) size by linarith
    then show ?thesis using b False by (simp add: ad_chain_get_by_index_def)
  qed
qed

section \<open>The chain as a queue\<close>

definition ad_list :: "'d ADGenericChain \<times> 'd kmem \<Rightarrow> ptr list \<Rightarrow> bool" where
  "ad_list s ds \<longleftrightarrow> (\<exists>xs. ad_rep (fst s) (snd s) xs \<and> map snd xs = ds)"

interpretation ad_fifo: kernel_queue
  ad_list "\<lambda>s. fresh_ptr (snd s)"
  "\<lambda>s p d. ad_chain_put (fst s) (snd s) p d" "\<lambda>s. ad_chain_get (fst s) (snd s)"
proof (unfold_locales, goal_cases)
  case (1 s ds p d)
  then obtain xs where xs: "ad_rep (fst s) (snd s) xs" "map snd xs = ds" by (auto simp: ad_list_def)
  obtain c' m' where m': "ad_chain_put (fst s) (snd s) p d = kret (0, c', m')" "ad_rep c' m' (xs @ [(p, d)])"
    "same_outside ({base_chain (links (fst s)), p} \<union> fst ` set xs) (snd s) m'"
    by (rule ad_chain_put_rep [OF xs(1) 1(2)])
  have "chain_rep (links (fst s)) (snd s) xs" using xs(1) by (simp add: ad_rep_def)
  from fresh_same_outside [OF this m'(3)] have "\<forall>q. fresh_ptr (snd s) q \<longrightarrow> q \<noteq> p \<longrightarrow> fresh_ptr m' q" by blast
  moreover have "ad_list (c', m') (ds @ [d])"
    unfolding ad_list_def using m'(2) xs(2) by (intro exI [of _ "xs @ [(p, d)]"]) simp
  ultimately show ?case using m'(1) by auto
next
  case (2 s ds d)
  then show ?case by (auto simp: ad_list_def ad_rep_def ad_chain_put_kernel chain_put_nomem)
next
  case (3 s)
  then show ?case by (auto simp: ad_list_def ad_chain_get_empty)
next
  case (4 s d ds)
  then obtain q xs where xs: "ad_rep (fst s) (snd s) ((q, d) # xs)" "map snd xs = ds"
    by (auto simp: ad_list_def)
  show ?case by (rule ad_chain_get_rep [OF xs(1)]) (use xs(2) in \<open>auto simp: ad_list_def\<close>)
qed

section \<open>Emptying a chain\<close>

text \<open>
  What \<open>remove_all\<close> relies on of the consumer's callback: it frees what an element owns and leaves
  the holders and the elements \<open>D\<close> alone.
\<close>

definition frees_owned :: "'d ADGenericChain \<Rightarrow> ptr set \<Rightarrow> bool" where
  "frees_owned c D \<longleftrightarrow> (\<forall>m d. d \<in> D \<and> objs m d \<noteq> None \<longrightarrow>
     (\<exists>m'. free_chain_element_data c m d = kret m' \<and> holders m' = holders m \<and> (\<forall>e \<in> D. objs m' e = objs m e) \<and>
        dom (objs m') \<subseteq> dom (objs m)))"

lemma chain_rep_live: "chain_rep c m xs \<Longrightarrow> q \<in> insert (base_chain c) (fst ` set xs) \<Longrightarrow> holders m q \<noteq> None"
  by (auto elim!: chain_repE dest: dseg_live)

lemma frees_owned_mono: "frees_owned c D \<Longrightarrow> D' \<subseteq> D \<Longrightarrow> frees_owned c D'"
  unfolding frees_owned_def by (meson subsetD)

lemma ad_remove_all_rep:
  assumes "chain_rep (links c) m xs" and "distinct (map snd xs)"
    and "\<forall>d \<in> snd ` set xs. d \<noteq> NULL \<and> objs m d \<noteq> None" and "frees_owned c (snd ` set xs)"
  shows "\<exists>m'. ad_remove_all c m = kret (0, c\<lparr>links := (links c)\<lparr>sz := 0\<rparr>\<rparr>, m') \<and>
    chain_rep ((links c)\<lparr>sz := 0\<rparr>) m' [] \<and> (\<forall>q \<in> fst ` set xs. holders m' q = None) \<and>
    (disable_autoremove c = 0 \<longrightarrow> (\<forall>d \<in> snd ` set xs. objs m' d = None)) \<and>
    (disable_autoremove c \<noteq> 0 \<longrightarrow> objs m' = objs m) \<and>
    dom (holders m') \<subseteq> dom (holders m) \<and> dom (objs m') \<subseteq> dom (objs m)"
  using assms
proof (induction xs arbitrary: c m)
  case Nil
  then obtain b where b: "holders m (base_chain (links c)) = Some b" "pNext b = NULL"
    by (auto elim!: chain_repE)
  have eq: "(links c)\<lparr>sz := 0\<rparr> = links c" using Nil.prems(1) by (auto simp: chain_rep_def)
  show ?case
    unfolding eq using b Nil.prems(1)
    by (intro exI [of _ m]) (simp add: ad_remove_all.simps [of c m])
next
  case (Cons x xs)
  obtain q d where x: "x = (q, d)" by (cases x)
  from Cons.prems(1) x obtain b n where b: "holders m (base_chain (links c)) = Some b" "pNext b = q" "q \<noteq> NULL"
    "holders m q = Some n" "pData n = d"
    by (auto elim!: chain_repE split: option.splits)
  obtain mf where mf: "free_chain_element_data c m d = kret mf" "holders mf = holders m"
    "\<forall>e \<in> snd ` set (x # xs). objs mf e = objs m e" "dom (objs mf) \<subseteq> dom (objs m)"
    using Cons.prems(3,4) x unfolding frees_owned_def by (metis image_eqI list.set_intros(1) snd_conv)
  define m0 where "m0 = (if disable_autoremove c = 0 then mf\<lparr>objs := (objs mf)(d := None)\<rparr> else m)"
  have free: "(if disable_autoremove c = 0
              then kbind (free_chain_element_data c m d) (\<lambda>m. kfree_obj m d) else kret m) = kret m0"
    using Cons.prems(3) x mf by (auto simp: kfree_obj_def m0_def)
  have m0: "dom (objs m0) \<subseteq> dom (objs m)" "holders m0 = holders m" using mf by (auto simp: m0_def)
  have rep0: "chain_rep (links c) m0 ((q, d) # xs)"
    using Cons.prems(1) x chain_rep_mem [of m0 m] mf(2) by (simp add: m0_def)
  from chain_remove_rep [OF rep0] obtain m1 where m1:
    "chain_remove (links c) m0 = kret (0, (links c)\<lparr>sz := sz (links c) - 1\<rparr>, m1)"
    "chain_rep ((links c)\<lparr>sz := sz (links c) - 1\<rparr>) m1 xs"
    "holders m1 q = None" "same_outside ({base_chain (links c), q} \<union> fst ` set xs) m0 m1"
    by blast
  define c1 where "c1 = c\<lparr>links := (links c)\<lparr>sz := sz (links c) - 1\<rparr>\<rparr>"
  have o1: "objs m1 = objs m0" using m1(4) by (simp add: same_outside_def)
  have 1: "\<forall>e \<in> snd ` set xs. e \<noteq> NULL \<and> objs m1 e \<noteq> None"
    using Cons.prems(2,3) x mf(3) by (auto simp: o1 m0_def)
  have "frees_owned c (snd ` set xs)" using Cons.prems(4) by (rule frees_owned_mono) auto
  moreover have "free_chain_element_data c1 = free_chain_element_data c"
    by (simp add: fun_eq_iff free_chain_element_data_def c1_def split: option.split)
  ultimately have 2: "frees_owned c1 (snd ` set xs)" by (simp add: frees_owned_def)
  from Cons.IH [of c1 m1] m1(2) Cons.prems(2) 1 2 obtain m' where m':
    "ad_remove_all c1 m1 = kret (0, c1\<lparr>links := (links c1)\<lparr>sz := 0\<rparr>\<rparr>, m')"
    "chain_rep ((links c1)\<lparr>sz := 0\<rparr>) m' []" "\<forall>q \<in> fst ` set xs. holders m' q = None"
    "disable_autoremove c1 = 0 \<longrightarrow> (\<forall>d \<in> snd ` set xs. objs m' d = None)"
    "disable_autoremove c1 \<noteq> 0 \<longrightarrow> objs m' = objs m1"
    "dom (holders m') \<subseteq> dom (holders m1)" "dom (objs m') \<subseteq> dom (objs m1)"
    by (auto simp: c1_def)
  have dom1: "dom (holders m1) \<subseteq> dom (holders m0)"
  proof
    fix t assume t: "t \<in> dom (holders m1)"
    show "t \<in> dom (holders m0)"
    proof (cases "t \<in> {base_chain (links c), q} \<union> fst ` set xs")
      case True
      then show ?thesis using chain_rep_live [OF rep0, of t] by auto
    next
      case False
      then show ?thesis using m1(4) t by (simp add: same_outside_def dom_def)
    qed
  qed
  have run: "ad_remove_all c m = ad_remove_all c1 m1"
    using b free m1(1)
    by (subst ad_remove_all.simps) (cases "disable_autoremove c = 0"; simp add: ad_remove_def ad_chain_remove_def c1_def)
  have dom_h: "dom (holders m') \<subseteq> dom (holders m)" using m'(6) dom1 unfolding m0(2) by (rule subset_trans)
  have dom_o: "dom (objs m') \<subseteq> dom (objs m)" using m'(7) m0(1) o1 by auto
  have q: "holders m' q = None" using m'(6) m1(3) by (auto simp: dom_def)
  have d: "disable_autoremove c = 0 \<longrightarrow> objs m' d = None" using m'(7) o1 by (auto simp: m0_def dom_def)
  have all: "disable_autoremove c \<noteq> 0 \<longrightarrow> objs m' = objs m" using m'(5) o1 by (simp add: m0_def c1_def)
  have run': "ad_remove_all c m = kret (0, c\<lparr>links := (links c)\<lparr>sz := 0\<rparr>\<rparr>, m')" and "chain_rep ((links c)\<lparr>sz := 0\<rparr>) m' []"
    using run m'(1,2) by (simp_all add: c1_def)
  then show ?case using m'(3,4) q d all dom_h dom_o x by (intro exI [of _ m']) (auto simp: c1_def)
qed

section \<open>Properties\<close>

text \<open>A consumer that identifies elements by their contents, and the chain with two elements of \<open>Chain\<close>.\<close>

definition ex_consumer :: "string ADChainConsumer" where
  "ex_consumer = \<lparr>cb_identify = (\<lambda>m d i _. if (case objs m d of None \<Rightarrow> False | Some s \<Rightarrow> of_char (hd s) = unat i) then 0 else -1),
     cb_double_identify = (\<lambda>m d i j _. -1), cb_free = (\<lambda>m d _. kret m)\<rparr>"

definition ex_ad_chain :: "string ADGenericChain" where
  "ex_ad_chain = \<lparr>links = ex_chain2, disable_autoremove = 0, ident_generator = 0, pConsumer = Some ex_consumer, chain_id = 0\<rparr>"

lemma ex_ad_rep: "ad_rep ex_ad_chain ex_mem2 [(2, 20), (3, 30)]"
  using ex_rep(2) by (simp add: ad_rep_def ex_ad_chain_def) (simp add: ex_chain2_def)

text \<open>
  Fact: emptying a chain of the services. On a well-formed, unlocked chain whose elements are
  live and distinct and whose consumer frees only what the elements own, \<open>chain_empty\<close> returns; the
  chain is empty, well-formed and unlocked, every holder is freed, every element is freed unless automatic
  removal is disabled, in which case no element is touched, and identifiers start at 1 again.
\<close>

theorem ad_chain_empty_frees:
  assumes "ad_rep c m xs" and "distinct (map snd xs)"
    and "\<forall>d \<in> snd ` set xs. d \<noteq> NULL \<and> objs m d \<noteq> None" and "frees_owned c (snd ` set xs)"
  shows "\<exists>c' m'. ad_chain_empty c m = kret (0, c', m') \<and> ad_rep c' m' [] \<and>
    (\<forall>q \<in> fst ` set xs. holders m' q = None) \<and>
    (\<forall>d \<in> snd ` set xs. if disable_autoremove c = 0 then objs m' d = None else objs m' d = objs m d) \<and>
    ident_generator c' = 0"
proof -
  let ?l = "(links c)\<lparr>sema := sema (links c) - 1\<rparr>" let ?c = "c\<lparr>links := ?l\<rparr>"
  have rep: "chain_rep (links ?c) m xs" using assms(1) by (simp add: ad_rep_def)
  have "free_chain_element_data ?c = free_chain_element_data c"
    by (simp add: fun_eq_iff free_chain_element_data_def split: option.split)
  then have "frees_owned ?c (snd ` set xs)" using assms(4) by (simp add: frees_owned_def)
  from ad_remove_all_rep [OF rep assms(2,3) this] obtain m' where m':
    "ad_remove_all ?c m = kret (0, ?c\<lparr>links := ?l\<lparr>sz := 0\<rparr>\<rparr>, m')" "chain_rep (?l\<lparr>sz := 0\<rparr>) m' []"
    "\<forall>q \<in> fst ` set xs. holders m' q = None"
    "disable_autoremove c = 0 \<longrightarrow> (\<forall>d \<in> snd ` set xs. objs m' d = None)"
    "disable_autoremove c \<noteq> 0 \<longrightarrow> objs m' = objs m"
    by auto
  moreover have "chain_rep ((links c)\<lparr>sz := 0\<rparr>) m' []"
    using m'(2) by (simp add: chain_rep_cong [of "(links c)\<lparr>sz := 0\<rparr>" "?l\<lparr>sz := 0\<rparr>"])
  ultimately show ?thesis using assms(1)
    by (simp add: ad_chain_empty_def ad_lock_eq [OF assms(1)] ad_unlock_def ad_rep_def)
qed

theorem ad_chain_empty_frees_witness:
  "\<exists>c' m'. ad_chain_empty ex_ad_chain ex_mem2 = kret (0, c', m') \<and> ad_rep c' m' [] \<and>
    holders m' 2 = None \<and> holders m' 3 = None \<and> objs m' 20 = None \<and> objs m' 30 = None \<and> ident_generator c' = 0"
proof -
  have "frees_owned ex_ad_chain (snd ` set [(2, 20), (3, 30)])"
    by (auto simp: frees_owned_def free_chain_element_data_def ex_ad_chain_def ex_consumer_def)
  moreover have "\<forall>d \<in> snd ` set [(2 :: nat, 20), (3, 30)]. d \<noteq> NULL \<and> objs ex_mem2 d \<noteq> None"
    by (simp add: ex_mem2_def)
  moreover have "disable_autoremove ex_ad_chain = 0" by (simp add: ex_ad_chain_def)
  ultimately show ?thesis using ad_chain_empty_frees [OF ex_ad_rep] by force
qed

text \<open>
  Fact: removal by identifier races with any other removal. \<open>chain_remove_by_ident\<close> reads the first
  holder before it takes the lock; when another thread takes that element with \<open>chain_get\<close> in
  between, the search starts at a freed holder, whatever identifier is searched. Without such an
  interruption it returns the first matching element and unlinks it.
\<close>

theorem ad_remove_by_ident_race:
  assumes "ad_rep c m ((q, d) # xs)" and "pConsumer c \<noteq> None"
  shows "(\<exists>c' m'. ad_first c m = kret q \<and> ad_chain_get c m = kret (d, c', m') \<and>
      ad_remove_from c' m' q (\<lambda>e. identify_chain_element c' m' e ident = 0) = kfail BadDeref) \<and>
    (identify_chain_element c m d ident \<noteq> 0 \<or>
      (\<exists>c' m'. ad_chain_remove_by_ident c m ident = kret (d, c', m') \<and> ad_rep c' m' xs))"
proof
  obtain c' m' where g: "ad_chain_get c m = kret (d, c', m')" "ad_rep c' m' xs" "holders m' q = None"
    "c' = c\<lparr>links := (links c)\<lparr>sz := sz (links c) - 1\<rparr>\<rparr>"
    by (rule ad_chain_get_rep [OF assms(1)])
  have first: "ad_first c m = kret q" "q \<noteq> NULL"
    using assms(1) by (auto simp: ad_rep_def ad_first_def elim!: chain_repE split: option.splits)
  have "is_helper_attached c' = 0" using assms(2) g(4) by (simp add: is_helper_attached_def)
  then have "ad_remove_from c' m' q (\<lambda>e. identify_chain_element c' m' e ident = 0) = kfail BadDeref"
    using g(2,3) first(2)
    by (simp add: ad_remove_from_def ad_lock_eq [OF g(2)] is_helper_attached_def find_holder.simps)
      (simp add: ad_rep_def)
  with g(1) first(1) show "\<exists>c' m'. ad_first c m = kret q \<and> ad_chain_get c m = kret (d, c', m') \<and>
      ad_remove_from c' m' q (\<lambda>e. identify_chain_element c' m' e ident = 0) = kfail BadDeref"
    by blast
  show "identify_chain_element c m d ident \<noteq> 0 \<or>
      (\<exists>c' m'. ad_chain_remove_by_ident c m ident = kret (d, c', m') \<and> ad_rep c' m' xs)"
  proof (cases "identify_chain_element c m d ident = 0")
    case True
    obtain c' m' where "ad_chain_remove_by_ident c m ident = kret (d, c', m')" "ad_rep c' m' ([] @ xs)"
      unfolding ad_chain_remove_by_ident_def 
      by (rule ad_remove_rep [of c m "[]" q d xs "\<lambda>d. identify_chain_element c m d ident = 0"])
        (use assms True in auto)
    then show ?thesis by auto
  qed simp
qed

theorem ad_remove_by_ident_race_witness:
  "(\<exists>c' m'. ad_first ex_ad_chain ex_mem2 = kret 2 \<and> ad_chain_get ex_ad_chain ex_mem2 = kret (20, c', m') \<and>
      ad_remove_from c' m' 2 (\<lambda>e. identify_chain_element c' m' e 97 = 0) = kfail BadDeref) \<and>
   (\<exists>c' m'. ad_chain_remove_by_ident ex_ad_chain ex_mem2 97 = kret (20, c', m') \<and> ad_rep c' m' [(3, 30)])"
proof -
  have "pConsumer ex_ad_chain \<noteq> None" "identify_chain_element ex_ad_chain ex_mem2 20 97 = 0"
    by (simp_all add: ex_ad_chain_def ex_consumer_def identify_chain_element_def ex_mem2_def)
  with ad_remove_by_ident_race [OF ex_ad_rep, of 97] show ?thesis by blast
qed

end
