(* ===== verification/Rpc_Result.thy ===== *)
theory Rpc_Result
  imports Prelude
begin

text \<open>
  The result codes shared by the services and their clients
  (\<open>src/sources/lib/lib-adav-old/include/ADCommon.hpp\<close>) and their conversion to and from strings in
  \<open>ADCmnStringProcessor.cpp\<close>.
\<close>

datatype RPC_SRV_RESULT =
  RPC_SRV_RESULT_SUCCESS | RPC_SRV_RESULT_FAIL | RPC_SRV_RESULT_IN_PROG |
  RPC_SRV_RESULT_BUSY | RPC_SRV_RESULT_NOT_STARTED | RPC_SRV_RESULT_TIMEOUT |
  RPC_SRV_RESULT_ARG_ERROR | RPC_SRV_RESULT_MEM_ERROR | RPC_SRV_RESULT_BUS_ERROR |
  RPC_SRV_RESULT_ACTION_NOT_ALLOWED | RPC_SRV_RESULT_DEV_NOT_ACCESSIBLE | RPC_SRV_RESULT_FILE_NOT_FOUND |
  RPC_SRV_RESULT_FEATURE_NOT_AVAILABLE | RPC_SRV_RESULT_FEATURE_UNSUPPORTED | RPC_SRV_RESULT_TASK_ID_NOT_FOUND |
  RPC_SRV_RESULT_VALUE_OUT_OF_RANGE | RPC_SRV_RESULT_FILE_OPEN_ERR | RPC_SRV_RESULT_FILE_READ_ERR |
  RPC_SRV_RESULT_FILE_WRITE_ERR | RPC_SRV_RESULT_FILE_SAME | RPC_SRV_RESULT_FILE_DIFFERENT |
  RPC_SRV_RESULT_HOST_NOT_REACHABLE_ERR | RPC_SRV_RESULT_RESEND | RPC_SRV_RESULT_CS_EXPOSURE_ERR |
  RPC_SRV_RESULT_CS_I2C_ERR | RPC_SRV_RESULT_ITEM_NOT_FOUND | RPC_SRV_RESULT_FILE_ERROR |
  RPC_SRV_RESULT_DEVINFO_ERROR | RPC_SRV_RESULT_FILE_EMPTY | RPC_SRV_RESULT_ITEM_DUPLICATE_FOUND |
  RPC_SRV_RESULT_UNKNOWN_COMMAND | RPC_SRV_RESULT_DEVNODE_ACCERR | RPC_SRV_RESULT_DEVNODE_OPENERR |
  RPC_SRV_RESULT_OFFLINE_NODE | RPC_SRV_RESULT_UNKNOWN | RPC_SRV_RESULT_NONE

text \<open>The enumerators in their order; the value of an enumerator is its position.\<close>

definition rpc_srv_results :: "RPC_SRV_RESULT list" where
  "rpc_srv_results = [
   RPC_SRV_RESULT_SUCCESS, RPC_SRV_RESULT_FAIL, RPC_SRV_RESULT_IN_PROG,
   RPC_SRV_RESULT_BUSY, RPC_SRV_RESULT_NOT_STARTED, RPC_SRV_RESULT_TIMEOUT,
   RPC_SRV_RESULT_ARG_ERROR, RPC_SRV_RESULT_MEM_ERROR, RPC_SRV_RESULT_BUS_ERROR,
   RPC_SRV_RESULT_ACTION_NOT_ALLOWED, RPC_SRV_RESULT_DEV_NOT_ACCESSIBLE, RPC_SRV_RESULT_FILE_NOT_FOUND,
   RPC_SRV_RESULT_FEATURE_NOT_AVAILABLE, RPC_SRV_RESULT_FEATURE_UNSUPPORTED, RPC_SRV_RESULT_TASK_ID_NOT_FOUND,
   RPC_SRV_RESULT_VALUE_OUT_OF_RANGE, RPC_SRV_RESULT_FILE_OPEN_ERR, RPC_SRV_RESULT_FILE_READ_ERR,
   RPC_SRV_RESULT_FILE_WRITE_ERR, RPC_SRV_RESULT_FILE_SAME, RPC_SRV_RESULT_FILE_DIFFERENT,
   RPC_SRV_RESULT_HOST_NOT_REACHABLE_ERR, RPC_SRV_RESULT_RESEND, RPC_SRV_RESULT_CS_EXPOSURE_ERR,
   RPC_SRV_RESULT_CS_I2C_ERR, RPC_SRV_RESULT_ITEM_NOT_FOUND, RPC_SRV_RESULT_FILE_ERROR,
   RPC_SRV_RESULT_DEVINFO_ERROR, RPC_SRV_RESULT_FILE_EMPTY, RPC_SRV_RESULT_ITEM_DUPLICATE_FOUND,
   RPC_SRV_RESULT_UNKNOWN_COMMAND, RPC_SRV_RESULT_DEVNODE_ACCERR, RPC_SRV_RESULT_DEVNODE_OPENERR,
   RPC_SRV_RESULT_OFFLINE_NODE, RPC_SRV_RESULT_UNKNOWN, RPC_SRV_RESULT_NONE]"

definition rpc_server_result_table :: "string list" where
  "rpc_server_result_table = [
   ''Success'', ''Fail'', ''InProgress'', ''Busy'', ''NotStarted'', ''Timeout'',
   ''ArgError'', ''MemError'', ''BusError'', ''ActionBlocked'', ''DeviceError'', ''FileNotFound'',
   ''FeatureNotAvailable'', ''UnsupportedFeature'', ''taskIDNotFound'', ''valueOutOfRange'', ''FileOpenErr'', ''FileReadErr'',
   ''FileWriteErr'', ''FileSame'', ''FileNotSame'', ''HostUnreachable'', ''resend'', ''csExposureError'',
   ''csI2CErr'', ''ItemNotFound'', ''FileError'', ''DevInfoErr'', ''FileEmpty'', ''DuplicateItem'',
   ''UnknownCmd'', ''DevNodeAccErr'', ''DevNodeOpenErr'', ''OfflineNode'', ''Unknown'', ''none'',
   '''']"

fun enum_index :: "RPC_SRV_RESULT list \<Rightarrow> RPC_SRV_RESULT \<Rightarrow> nat" where
  "enum_index [] r = 0"
| "enum_index (x # xs) r = (if x = r then 0 else Suc (enum_index xs r))"

definition rpc_code :: "RPC_SRV_RESULT \<Rightarrow> nat" where
  "rpc_code r = enum_index rpc_srv_results r"

definition convert_server_result_to_string :: "RPC_SRV_RESULT \<Rightarrow> string" where
  "convert_server_result_to_string result =
     (if rpc_code RPC_SRV_RESULT_NONE \<le> rpc_code result
      then rpc_server_result_table ! rpc_code RPC_SRV_RESULT_UNKNOWN
      else rpc_server_result_table ! rpc_code result)"

text \<open>The loop from index \<open>i\<close>.\<close>

function find_result :: "string \<Rightarrow> nat \<Rightarrow> RPC_SRV_RESULT" where
  "find_result str i =
     (if i < rpc_code RPC_SRV_RESULT_NONE
      then if str = rpc_server_result_table ! i then rpc_srv_results ! i else find_result str (i + 1)
      else RPC_SRV_RESULT_UNKNOWN)"
  by pat_completeness auto
termination by (relation "measure (\<lambda>(_, i). rpc_code RPC_SRV_RESULT_NONE - i)") auto

declare find_result.simps [simp del]

definition convert_string_to_server_result :: "string \<Rightarrow> RPC_SRV_RESULT" where
  "convert_string_to_server_result result_string = find_result result_string 0"

text \<open>The first of the first \<open>max\<close> strings of a table that is the string, or \<open>max\<close>.\<close>

function string_to_enum_from :: "string list \<Rightarrow> string \<Rightarrow> nat \<Rightarrow> nat \<Rightarrow> nat" where
  "string_to_enum_from table str mx index =
     (if index < mx then if table ! index = str then index else string_to_enum_from table str mx (index + 1)
      else mx)"
  by pat_completeness auto
termination by (relation "measure (\<lambda>(_, _, mx, i). mx - i)") auto

declare string_to_enum_from.simps [simp del]

definition string_to_enum :: "string list \<Rightarrow> string \<Rightarrow> nat \<Rightarrow> nat" where
  "string_to_enum table str max_enum_value = string_to_enum_from table str max_enum_value 0"

section \<open>Properties\<close>

lemma string_to_enum_from_least:
  assumes "i < mx" and "table ! i = str" and "\<And>j. k \<le> j \<Longrightarrow> j < i \<Longrightarrow> table ! j \<noteq> str" and "k \<le> i"
  shows "string_to_enum_from table str mx k = i"
  using assms(3,4)
proof (induction "i - k" arbitrary: k)
  case 0
  then show ?case using assms(1,2) by (subst string_to_enum_from.simps) simp
next
  case (Suc n)
  then show ?case using assms(1) by (subst string_to_enum_from.simps) simp
qed

lemma string_to_enum_from_none:
  "(\<And>j. k \<le> j \<Longrightarrow> j < mx \<Longrightarrow> table ! j \<noteq> str) \<Longrightarrow> k \<le> mx \<Longrightarrow> string_to_enum_from table str mx k = mx"
proof (induction "mx - k" arbitrary: k)
  case 0
  then show ?case by (subst string_to_enum_from.simps) simp
next
  case (Suc n)
  then show ?case by (subst string_to_enum_from.simps) simp
qed

lemma string_to_enum_nth:
  "distinct table \<Longrightarrow> mx \<le> length table \<Longrightarrow> i < mx \<Longrightarrow> string_to_enum table (table ! i) mx = i"
  unfolding string_to_enum_def
  by (rule string_to_enum_from_least) (auto simp: nth_eq_iff_index_eq)

lemma rpc_code_simps: "rpc_code RPC_SRV_RESULT_NONE = 35" "rpc_code RPC_SRV_RESULT_UNKNOWN = 34"
  by (simp_all add: rpc_code_def rpc_srv_results_def)

lemma rpc_code_nth: "rpc_srv_results ! rpc_code r = r" "rpc_code r < 36"
  by (cases r; simp add: rpc_code_def rpc_srv_results_def)+

lemma find_result_eq: "find_result str i = (if i \<le> 35 then rpc_srv_results ! (let k = string_to_enum_from rpc_server_result_table str 35 i
    in if k < 35 then k else 34) else RPC_SRV_RESULT_UNKNOWN)"
proof (induction "35 - i" arbitrary: i)
  case 0
  have "rpc_srv_results ! 34 = RPC_SRV_RESULT_UNKNOWN" by (simp add: rpc_srv_results_def)
  with 0 show ?case by (subst find_result.simps) (auto simp: rpc_code_simps string_to_enum_from.simps)
next
  case (Suc n)
  then show ?case
    by (subst find_result.simps, subst string_to_enum_from.simps) (auto simp: rpc_code_simps eq_commute [of str])
qed

lemma result_table_distinct: "distinct rpc_server_result_table" "length rpc_server_result_table = 37"
  by (simp_all add: rpc_server_result_table_def)

text \<open>
  Fact: result codes survive the trip through their names. Every code that a service reports as a
  name is recovered from it, except \<open>NONE\<close>, which is reported as unknown; and a name that is not in the
  table reads as unknown.
\<close>

theorem rpc_result_roundtrip:
  "convert_string_to_server_result (convert_server_result_to_string r) =
     (if r = RPC_SRV_RESULT_NONE then RPC_SRV_RESULT_UNKNOWN else r) \<and>
   (str \<in> set (take 35 rpc_server_result_table) \<or> convert_string_to_server_result str = RPC_SRV_RESULT_UNKNOWN)"
proof
  have nth: "string_to_enum_from rpc_server_result_table (rpc_server_result_table ! i) 35 0 = i" if "i < 35" for i
    using string_to_enum_nth [of rpc_server_result_table 35 i] that result_table_distinct
    by (simp add: string_to_enum_def)
  have inverse: "convert_string_to_server_result (rpc_server_result_table ! i) = rpc_srv_results ! i" if "i < 35" for i
    using nth [OF that] that by (simp add: convert_string_to_server_result_def find_result_eq)
  show "convert_string_to_server_result (convert_server_result_to_string r) =
     (if r = RPC_SRV_RESULT_NONE then RPC_SRV_RESULT_UNKNOWN else r)"
  proof (cases "rpc_code r < 35")
    case True
    then have "r \<noteq> RPC_SRV_RESULT_NONE" using rpc_code_simps(1) by auto
    with True inverse [OF True] rpc_code_nth(1) [of r] show ?thesis
      by (simp add: convert_server_result_to_string_def rpc_code_simps)
  next
    case False
    then have "rpc_code r = 35" using rpc_code_nth(2) [of r] by simp
    then have "r = RPC_SRV_RESULT_NONE" using rpc_code_nth(1) rpc_code_simps(1) by metis
    moreover have "rpc_srv_results ! 34 = RPC_SRV_RESULT_UNKNOWN" by (simp add: rpc_srv_results_def)
    ultimately show ?thesis using inverse [of 34]
      by (simp add: convert_server_result_to_string_def rpc_code_simps)
  qed
  show "str \<in> set (take 35 rpc_server_result_table) \<or> convert_string_to_server_result str = RPC_SRV_RESULT_UNKNOWN"
  proof (cases "\<exists>j < 35. rpc_server_result_table ! j = str")
    case True
    then show ?thesis using result_table_distinct(2) by (auto simp: in_set_conv_nth)
  next
    case False
    then have "string_to_enum_from rpc_server_result_table str 35 0 = 35"
      by (intro string_to_enum_from_none) auto
    then show ?thesis by (simp add: convert_string_to_server_result_def find_result_eq rpc_srv_results_def)
  qed
qed

end
