(* ===== verification/Task_Worker.thy ===== *)
theory Task_Worker
  imports Rpc_Result
begin

text \<open>
  The background worker of the services, \<open>src/sources/lib/lib-adav-old/src/ADTaskWorker.cpp\<close>, with the
  one-shot thread of \<open>ADThread.cpp\<close> it runs on: callers push tasks and get an identifier, the worker
  thread runs them in order, and callers poll the status by identifier. The two chains are the lists of
  their elements, as \<open>Ad_Chain\<close> shows \<open>chain_put\<close> to append, \<open>chain_get\<close> to take the first
  element and the searches to find the first match. \<open>new\<close> does not return null. The semaphore the thread
  sleeps on is the number of wake-ups it holds. \<open>run\<close> is the consumer's \<open>run_work\<close>. The events the
  worker sends to its own service over the network are kept in \<open>self_events\<close>: number and two arguments.
\<close>

section \<open>The worker\<close>

datatype WORK_CMD_AFTER_DONE =
  WORK_CMD_AFTER_DONE_PRESERVE | WORK_CMD_AFTER_DONE_DELETE | WORK_CMD_AFTER_DONE_UNKNOWN | WORK_CMD_AFTER_DONE_NONE

datatype ADLIB_ASYNC_RESP_TYPE =
  ADLIB_ASYNC_RESP_TYPE_POLL | ADLIB_ASYNC_RESP_TYPE_TRIGGER | ADLIB_ASYNC_RESP_TYPE_EVENT |
  ADLIB_ASYNC_RESP_TYPE_UNKNOWN | ADLIB_ASYNC_RESP_TYPE_NONE

record 'w WORK_CMD_TASK =
  w_taskID :: s32
  w_percent_complete :: s32
  w_command :: s32
  w_taskSts :: RPC_SRV_RESULT
  done_action :: WORK_CMD_AFTER_DONE
  resp_type :: ADLIB_ASYNC_RESP_TYPE
  pWorkData :: 'w

record WORK_CMD_TASK_IN_PROG =
  taskID :: s32
  percent_complete :: s32
  command :: s32
  taskSts :: RPC_SRV_RESULT
  task_err_message :: string

record 'w ADTaskWorker =
  work_chain :: "'w WORK_CMD_TASK list"
  work_inprog_chain :: "WORK_CMD_TASK_IN_PROG list"
  ident_gen :: s32
  one_shot_sema :: nat
  self_events :: "(s32 \<times> s32 \<times> s32) list"

type_synonym 'w runner = "s32 \<Rightarrow> 'w \<Rightarrow> RPC_SRV_RESULT"

section \<open>Searching the chain of tasks in progress\<close>

fun get_by_ident :: "s32 \<Rightarrow> WORK_CMD_TASK_IN_PROG list \<Rightarrow> WORK_CMD_TASK_IN_PROG option" where
  "get_by_ident ident [] = None"
| "get_by_ident ident (r # rs) = (if taskID r = ident then Some r else get_by_ident ident rs)"

fun remove_by_ident :: "s32 \<Rightarrow> WORK_CMD_TASK_IN_PROG list \<Rightarrow> WORK_CMD_TASK_IN_PROG list" where
  "remove_by_ident ident [] = []"
| "remove_by_ident ident (r # rs) = (if taskID r = ident then rs else r # remove_by_ident ident rs)"

text \<open>Changing the element that the search returns, through its pointer.\<close>

fun change_by_ident ::
  "s32 \<Rightarrow> (WORK_CMD_TASK_IN_PROG \<Rightarrow> WORK_CMD_TASK_IN_PROG) \<Rightarrow> WORK_CMD_TASK_IN_PROG list \<Rightarrow> WORK_CMD_TASK_IN_PROG list" where
  "change_by_ident ident f [] = []"
| "change_by_ident ident f (r # rs) = (if taskID r = ident then f r # rs else r # change_by_ident ident f rs)"

fun remove_work :: "s32 \<Rightarrow> 'w WORK_CMD_TASK list \<Rightarrow> 'w WORK_CMD_TASK list" where
  "remove_work ident [] = []"
| "remove_work ident (w # ws) = (if w_taskID w = ident then ws else w # remove_work ident ws)"

section \<open>Pushing a task\<close>

text \<open>The steps of \<open>push_task\<close> between which other threads can run.\<close>

definition generate_ident :: "'w ADTaskWorker \<Rightarrow> s32 \<times> 'w ADTaskWorker" where
  "generate_ident tw = (ident_gen tw + 1, tw\<lparr>ident_gen := ident_gen tw + 1\<rparr>)"

definition new_task :: "s32 \<Rightarrow> s32 \<Rightarrow> 'w \<Rightarrow> WORK_CMD_AFTER_DONE \<Rightarrow> 'w WORK_CMD_TASK" where
  "new_task ident cmd dat act = \<lparr>w_taskID = ident, w_percent_complete = 0, w_command = cmd,
     w_taskSts = RPC_SRV_RESULT_IN_PROG, done_action = act,
     resp_type = ADLIB_ASYNC_RESP_TYPE_POLL, pWorkData = dat\<rparr>"

definition new_in_prog :: "s32 \<Rightarrow> s32 \<Rightarrow> WORK_CMD_TASK_IN_PROG" where
  "new_in_prog ident cmd = \<lparr>taskID = ident, percent_complete = 0, command = cmd,
     taskSts = RPC_SRV_RESULT_IN_PROG, task_err_message = []\<rparr>"

definition put_work :: "'w WORK_CMD_TASK \<Rightarrow> 'w ADTaskWorker \<Rightarrow> 'w ADTaskWorker" where
  "put_work w tw = tw\<lparr>work_chain := work_chain tw @ [w]\<rparr>"

definition put_in_prog :: "WORK_CMD_TASK_IN_PROG \<Rightarrow> 'w ADTaskWorker \<Rightarrow> 'w ADTaskWorker" where
  "put_in_prog r tw = tw\<lparr>work_inprog_chain := work_inprog_chain tw @ [r]\<rparr>"

definition wakeup_thread :: "'w ADTaskWorker \<Rightarrow> 'w ADTaskWorker" where
  "wakeup_thread tw = tw\<lparr>one_shot_sema := one_shot_sema tw + 1\<rparr>"

text \<open>
  \<open>put1\<close> and \<open>put2\<close> tell whether \<open>chain_put\<close> finds memory for its holder. The result, the
  identifier handed out and the worker.
\<close>

definition push_task ::
  "bool \<Rightarrow> bool \<Rightarrow> s32 \<Rightarrow> 'w \<Rightarrow> WORK_CMD_AFTER_DONE \<Rightarrow> 'w ADTaskWorker \<Rightarrow> int \<times> s32 \<times> 'w ADTaskWorker" where
  "push_task put1 put2 work_cmd dat act tw =
     (let (ident, tw) = generate_ident tw;
          work_obj = new_task ident work_cmd dat act;
          work_inprog_obj = new_in_prog ident work_cmd in
      if \<not> put1 then (-1, ident, tw)
      else
        let tw = put_work work_obj tw in
        if \<not> put2 then (-1, ident, tw\<lparr>work_chain := remove_work ident (work_chain tw)\<rparr>)
        else (0, ident, wakeup_thread (put_in_prog work_inprog_obj tw)))"

section \<open>The worker thread\<close>

text \<open>What the thread does with a task it has taken, once \<open>run_work\<close> has returned.\<close>

definition ADLIB_EVENT_NUM_INPROG_DONE :: s32 where
  "ADLIB_EVENT_NUM_INPROG_DONE = 0"

text \<open>
  \<open>self_events\<close> are the events that the macro \<open>NOTIFY_EVENT\<close> was used for. Whether its client gets a connection to the port of
  the service itself is not part of it: a failure is only logged.
\<close>

definition notify_self :: "s32 \<Rightarrow> s32 \<Rightarrow> s32 \<Rightarrow> 'w ADTaskWorker \<Rightarrow> 'w ADTaskWorker" where
  "notify_self evntNum evntArg evntArg2 tw = tw\<lparr>self_events := self_events tw @ [(evntNum, evntArg, evntArg2)]\<rparr>"

definition finish_task :: "'w runner \<Rightarrow> 'w WORK_CMD_TASK \<Rightarrow> 'w ADTaskWorker \<Rightarrow> 'w ADTaskWorker" where
  "finish_task run work_obj tw =
     (let task_result = run (w_command work_obj) (pWorkData work_obj);
          act = (if resp_type work_obj = ADLIB_ASYNC_RESP_TYPE_TRIGGER then WORK_CMD_AFTER_DONE_DELETE
                 else done_action work_obj) in
      if act = WORK_CMD_AFTER_DONE_PRESERVE
      then let tw = tw\<lparr>work_inprog_chain := change_by_ident (w_taskID work_obj)
             (\<lambda>r. r\<lparr>taskSts := task_result, percent_complete := 100\<rparr>) (work_inprog_chain tw)\<rparr> in
        notify_self ADLIB_EVENT_NUM_INPROG_DONE (w_taskID work_obj) (of_nat (rpc_code task_result)) tw
      else tw\<lparr>work_inprog_chain := remove_by_ident (w_taskID work_obj) (work_inprog_chain tw)\<rparr>)"

definition take_task :: "'w ADTaskWorker \<Rightarrow> 'w WORK_CMD_TASK option \<times> 'w ADTaskWorker" where
  "take_task tw =
     (case work_chain tw of [] \<Rightarrow> (None, tw) | w # ws \<Rightarrow> (Some w, tw\<lparr>work_chain := ws\<rparr>))"

definition monoshot_callback_function :: "'w runner \<Rightarrow> 'w ADTaskWorker \<Rightarrow> 'w ADTaskWorker" where
  "monoshot_callback_function run tw =
     (case take_task tw of (None, tw) \<Rightarrow> tw | (Some w, tw) \<Rightarrow> finish_task run w tw)"

section \<open>Polling\<close>

text \<open>
  The status stored through \<open>taskSts\<close>; the function itself always returns success. The element is
  searched, and removed with a second search when its task has ended. The function takes the lock for the parts separately; here the poll is
  one step, so what the worker does between the parts comes before or after it.
\<close>

definition get_task_status :: "s32 \<Rightarrow> 'w ADTaskWorker \<Rightarrow> RPC_SRV_RESULT \<times> 'w ADTaskWorker" where
  "get_task_status ident tw =
     (case get_by_ident ident (work_inprog_chain tw) of
        None \<Rightarrow> (RPC_SRV_RESULT_TASK_ID_NOT_FOUND, tw)
      | Some r \<Rightarrow>
          if taskSts r = RPC_SRV_RESULT_IN_PROG then (RPC_SRV_RESULT_IN_PROG, tw)
          else
            (case get_by_ident ident (work_inprog_chain tw) of
               None \<Rightarrow> (RPC_SRV_RESULT_MEM_ERROR, tw)
             | Some r \<Rightarrow> (taskSts r, tw\<lparr>work_inprog_chain := remove_by_ident ident (work_inprog_chain tw)\<rparr>)))"

definition is_command_in_progress :: "s32 \<Rightarrow> 'w ADTaskWorker \<Rightarrow> int" where
  "is_command_in_progress cmd tw = 0"

definition reset_task_id_and_chain :: "'w ADTaskWorker \<Rightarrow> RPC_SRV_RESULT \<times> 'w ADTaskWorker" where
  "reset_task_id_and_chain tw = (RPC_SRV_RESULT_SUCCESS, tw\<lparr>work_inprog_chain := [], ident_gen := 0\<rparr>)"

definition tw_init :: "'w ADTaskWorker" where
  "tw_init = \<lparr>work_chain = [], work_inprog_chain = [], ident_gen = 0, one_shot_sema = 0, self_events = []\<rparr>"

definition tw_delete :: "'w ADTaskWorker \<Rightarrow> 'w ADTaskWorker" where
  "tw_delete tw = tw\<lparr>work_chain := [], work_inprog_chain := []\<rparr>"

section \<open>Threads\<close>

text \<open>
  Where a thread is inside \<open>push_task\<close>: outside, about to put the task, about to put the record, about
  to wake the worker.
\<close>

datatype 'w pusher = P_Idle | P_Work s32 "s32" 'w | P_In_Prog s32 s32 | P_Wake

text \<open>
  The worker with its callers. \<open>running\<close> is the task the worker thread has taken and not finished.
  \<open>hist\<close> (the commands and data of all tasks, in the order of their identifiers), \<open>taken\<close> (how many
  tasks the worker took) and \<open>reported\<close> (the identifiers whose end was reported) are only for the
  statements.
\<close>

record 'w tw_conf =
  tw :: "'w ADTaskWorker"
  pushers :: "'w pusher list"
  running :: "'w WORK_CMD_TASK option"
  hist :: "(s32 \<times> 'w) list"
  taken :: nat
  reported :: "nat set"

inductive tw_step :: "'w runner \<Rightarrow> 'w tw_conf \<Rightarrow> 'w tw_conf \<Rightarrow> bool" for run where
  push_ident: "\<lbrakk>p < length (pushers c); pushers c ! p = P_Idle; generate_ident (tw c) = (ident, t)\<rbrakk> \<Longrightarrow>
    tw_step run c (c\<lparr>tw := t, pushers := (pushers c)[p := P_Work ident cmd dat], hist := hist c @ [(cmd, dat)]\<rparr>)"
| push_work: "\<lbrakk>p < length (pushers c); pushers c ! p = P_Work ident cmd dat\<rbrakk> \<Longrightarrow>
    tw_step run c (c\<lparr>tw := put_work (new_task ident cmd dat WORK_CMD_AFTER_DONE_PRESERVE) (tw c),
       pushers := (pushers c)[p := P_In_Prog ident cmd]\<rparr>)"
| push_in_prog: "\<lbrakk>p < length (pushers c); pushers c ! p = P_In_Prog ident cmd\<rbrakk> \<Longrightarrow>
    tw_step run c (c\<lparr>tw := put_in_prog (new_in_prog ident cmd) (tw c), pushers := (pushers c)[p := P_Wake]\<rparr>)"
| push_wake: "\<lbrakk>p < length (pushers c); pushers c ! p = P_Wake\<rbrakk> \<Longrightarrow>
    tw_step run c (c\<lparr>tw := wakeup_thread (tw c), pushers := (pushers c)[p := P_Idle]\<rparr>)"
| take: "\<lbrakk>running c = None; one_shot_sema (tw c) = Suc n; take_task ((tw c)\<lparr>one_shot_sema := n\<rparr>) = (w, t)\<rbrakk> \<Longrightarrow>
    tw_step run c (c\<lparr>tw := t, running := w, taken := taken c + (if w = None then 0 else 1)\<rparr>)"
| finish: "running c = Some w \<Longrightarrow> tw_step run c (c\<lparr>tw := finish_task run w (tw c), running := None\<rparr>)"
| poll: "get_task_status ident (tw c) = (sts, t) \<Longrightarrow>
    tw_step run c (c\<lparr>tw := t, reported := reported c \<union>
      (if work_inprog_chain t = work_inprog_chain (tw c) then {} else {unat ident})\<rparr>)"

inductive tw_reach :: "'w runner \<Rightarrow> nat \<Rightarrow> 'w tw_conf \<Rightarrow> bool" for run n where
  init: "tw_reach run n \<lparr>tw = tw_init, pushers = replicate n P_Idle, running = None, hist = [], taken = 0, reported = {}\<rparr>"
| step: "tw_reach run n c \<Longrightarrow> tw_step run c c' \<Longrightarrow> tw_reach run n c'"

inductive_cases tw_stepE: "tw_step run c c'"

section \<open>Chains of records with distinct identifiers\<close>

lemma unat_of_nat_s32: "k < 2 ^ 32 \<Longrightarrow> unat (of_nat k :: s32) = k"
  by (simp add: unsigned_of_nat take_bit_nat_eq_self)

lemma of_nat_eq_s32: "i < 2 ^ 32 \<Longrightarrow> j < 2 ^ 32 \<Longrightarrow> (of_nat i :: s32) = of_nat j \<longleftrightarrow> i = j"
  by (metis unat_of_nat_s32)

lemma filter_ne: "j \<notin> set is \<Longrightarrow> filter (\<lambda>i. i \<noteq> j) is = is"
  by (induction "is") auto

lemma get_by_ident_map:
  "(\<And>i. taskID (rec i) = of_nat i) \<Longrightarrow> \<forall>i \<in> set is. i < 2 ^ 32 \<Longrightarrow> j < 2 ^ 32 \<Longrightarrow>
     get_by_ident (of_nat j) (map rec is) = (if j \<in> set is then Some (rec j) else None)"
  by (induction "is") (auto simp: of_nat_eq_s32 [where j = j])

lemma change_by_ident_map:
  "(\<And>i. taskID (rec i) = of_nat i) \<Longrightarrow> \<forall>i \<in> set is. i < 2 ^ 32 \<Longrightarrow> j < 2 ^ 32 \<Longrightarrow> distinct is \<Longrightarrow>
     change_by_ident (of_nat j) f (map rec is) = map (\<lambda>i. if i = j then f (rec i) else rec i) is"
  by (induction "is") (auto simp: of_nat_eq_s32 [where j = j])

lemma remove_by_ident_map:
  "(\<And>i. taskID (rec i) = of_nat i) \<Longrightarrow> \<forall>i \<in> set is. i < 2 ^ 32 \<Longrightarrow> j < 2 ^ 32 \<Longrightarrow> distinct is \<Longrightarrow>
     remove_by_ident (of_nat j) (map rec is) = map rec (filter (\<lambda>i. i \<noteq> j) is)"
  by (induction "is") (auto simp: of_nat_eq_s32 [where j = j] filter_ne)

section \<open>One caller at a time\<close>

definition task_of :: "(s32 \<times> 'w) list \<Rightarrow> nat \<Rightarrow> 'w WORK_CMD_TASK" where
  "task_of h i = new_task (of_nat i) (fst (h ! (i - 1))) (snd (h ! (i - 1))) WORK_CMD_AFTER_DONE_PRESERVE"

definition result_of :: "'w runner \<Rightarrow> (s32 \<times> 'w) list \<Rightarrow> nat \<Rightarrow> RPC_SRV_RESULT" where
  "result_of run h i = run (fst (h ! (i - 1))) (snd (h ! (i - 1)))"

definition record_of :: "'w runner \<Rightarrow> (s32 \<times> 'w) list \<Rightarrow> nat \<Rightarrow> nat \<Rightarrow> WORK_CMD_TASK_IN_PROG" where
  "record_of run h fin i =
     (if i \<le> fin then (new_in_prog (of_nat i) (fst (h ! (i - 1))))\<lparr>taskSts := result_of run h i, percent_complete := 100\<rparr>
      else new_in_prog (of_nat i) (fst (h ! (i - 1))))"

definition done_event :: "'w runner \<Rightarrow> (s32 \<times> 'w) list \<Rightarrow> nat \<Rightarrow> s32 \<times> s32 \<times> s32" where
  "done_event run h i = (ADLIB_EVENT_NUM_INPROG_DONE, of_nat i, of_nat (rpc_code (result_of run h i)))"

text \<open>How many tasks, records and wake-ups the callers have put, and how many tasks are finished.\<close>

definition put_count :: "'w tw_conf \<Rightarrow> nat" where
  "put_count c = (case pushers c ! 0 of P_Work _ _ _ \<Rightarrow> length (hist c) - 1 | _ \<Rightarrow> length (hist c))"

definition recorded :: "'w tw_conf \<Rightarrow> nat" where
  "recorded c = (case pushers c ! 0 of P_Work _ _ _ \<Rightarrow> length (hist c) - 1 | P_In_Prog _ _ \<Rightarrow> length (hist c) - 1
     | _ \<Rightarrow> length (hist c))"

definition wake_count :: "'w tw_conf \<Rightarrow> nat" where
  "wake_count c = (case pushers c ! 0 of P_Idle \<Rightarrow> length (hist c) | _ \<Rightarrow> length (hist c) - 1)"

definition finished :: "'w tw_conf \<Rightarrow> nat" where
  "finished c = taken c - (if running c = None then 0 else 1)"

definition pusher_ok :: "'w pusher \<Rightarrow> (s32 \<times> 'w) list \<Rightarrow> bool" where
  "pusher_ok p h = (case p of P_Idle \<Rightarrow> True
     | P_Work ident cmd dat \<Rightarrow> h \<noteq> [] \<and> ident = of_nat (length h) \<and> last h = (cmd, dat)
     | P_In_Prog ident cmd \<Rightarrow> h \<noteq> [] \<and> ident = of_nat (length h) \<and> fst (last h) = cmd
     | P_Wake \<Rightarrow> h \<noteq> [])"

text \<open>
  The invariant of the worker's state \<open>t\<close>, for the history \<open>h\<close>, \<open>tk\<close> tasks taken, \<open>P\<close> tasks,
  \<open>R\<close> records and \<open>W\<close> wake-ups put.
\<close>

definition fin_count :: "nat \<Rightarrow> 'w WORK_CMD_TASK option \<Rightarrow> nat" where
  "fin_count tk rn = tk - (if rn = None then 0 else 1)"

definition tw_core ::
  "'w runner \<Rightarrow> 'w ADTaskWorker \<Rightarrow> (s32 \<times> 'w) list \<Rightarrow> nat \<Rightarrow> 'w WORK_CMD_TASK option \<Rightarrow> nat set
     \<Rightarrow> nat \<Rightarrow> nat \<Rightarrow> nat \<Rightarrow> bool" where
  "tw_core run t h tk rn rep P R W \<longleftrightarrow>
     work_chain t = map (task_of h) [Suc tk..<Suc P] \<and> one_shot_sema t + tk = W \<and>
     (rn = None \<or> 0 < tk \<and> rn = Some (task_of h tk)) \<and>
     work_inprog_chain t = map (record_of run h (fin_count tk rn)) (filter (\<lambda>i. i \<notin> rep) [1..<Suc R]) \<and>
     self_events t = map (done_event run h) [1..<Suc (fin_count tk rn)] \<and>
     rep \<subseteq> {1..fin_count tk rn} \<and> W \<le> R \<and> R \<le> P \<and> P \<le> length h"

definition tw_inv :: "'w runner \<Rightarrow> 'w tw_conf \<Rightarrow> bool" where
  "tw_inv run c \<longleftrightarrow> length (pushers c) = 1 \<and> pusher_ok (pushers c ! 0) (hist c) \<and>
     ident_gen (tw c) = of_nat (length (hist c)) \<and>
     tw_core run (tw c) (hist c) (taken c) (running c) (reported c) (put_count c) (recorded c) (wake_count c)"

lemma fin_count_le: "fin_count tk rn \<le> tk"
  by (simp add: fin_count_def)

lemma taskID_record_of [simp]: "taskID (record_of run h fin i) = of_nat i"
  by (simp add: record_of_def new_in_prog_def)

text \<open>Entries of earlier identifiers do not change when a task is added.\<close>

lemma task_of_append: "i \<le> length h \<Longrightarrow> 0 < i \<Longrightarrow> task_of (h @ [x]) i = task_of h i"
  by (simp add: task_of_def nth_append)

lemma record_of_append: "i \<le> length h \<Longrightarrow> 0 < i \<Longrightarrow> record_of run (h @ [x]) fin i = record_of run h fin i"
  by (simp add: record_of_def result_of_def nth_append)

lemma done_event_append: "i \<le> length h \<Longrightarrow> 0 < i \<Longrightarrow> done_event run (h @ [x]) i = done_event run h i"
  by (cases i) (simp_all add: done_event_def result_of_def nth_append)

lemma core_ident:
  assumes core: "tw_core run t h tk rn rep P R W"
  shows "tw_core run (t\<lparr>ident_gen := g\<rparr>) (h @ [x]) tk rn rep P R W"
proof -
  have le: "W \<le> R" "R \<le> P" "P \<le> length h" "tk \<le> W" using core by (auto simp: tw_core_def)
  have 1: "map (task_of (h @ [x])) [Suc tk..<Suc P] = map (task_of h) [Suc tk..<Suc P]"
    using le by (intro map_cong refl task_of_append) auto
  have 2: "map (record_of run (h @ [x]) (fin_count tk rn)) (filter (\<lambda>i. i \<notin> rep) [1..<Suc R]) =
      map (record_of run h (fin_count tk rn)) (filter (\<lambda>i. i \<notin> rep) [1..<Suc R])"
    using le by (intro map_cong refl record_of_append) auto
  have 3: "0 < tk \<Longrightarrow> task_of (h @ [x]) tk = task_of h tk" using le by (intro task_of_append) auto
  have 4: "map (done_event run (h @ [x])) [1..<Suc (fin_count tk rn)] = map (done_event run h) [1..<Suc (fin_count tk rn)]"
    using le fin_count_le [of tk rn] by (intro map_cong refl done_event_append) auto
  show ?thesis using core 3 unfolding tw_core_def 1 2 4 by auto
qed

lemma core_put_work:
  assumes "tw_core run t h tk rn rep P R W" and "P < length h"
  shows "tw_core run (put_work (task_of h (Suc P)) t) h tk rn rep (Suc P) R W"
proof -
  have "Suc tk \<le> Suc P" using assms(1) by (auto simp: tw_core_def)
  then have "[Suc tk..<Suc (Suc P)] = [Suc tk..<Suc P] @ [Suc P]" by (simp add: upt_Suc_append)
  then show ?thesis using assms unfolding tw_core_def by (auto simp: put_work_def simp del: upt_Suc)
qed

lemma core_put_in_prog:
  assumes "tw_core run t h tk rn rep P R W" and "R < P"
  shows "tw_core run (put_in_prog (new_in_prog (of_nat (Suc R)) (fst (h ! R))) t) h tk rn rep P (Suc R) W"
proof -
  have le: "tk \<le> R" "rep \<subseteq> {1..fin_count tk rn}" using assms(1) by (auto simp: tw_core_def)
  then have fin: "fin_count tk rn \<le> R" using fin_count_le [of tk rn] by linarith
  then have "Suc R \<notin> rep" using le(2) by auto
  moreover have "new_in_prog (of_nat (Suc R)) (fst (h ! R)) = record_of run h (fin_count tk rn) (Suc R)"
    using fin by (simp add: record_of_def)
  moreover have "[1..<Suc (Suc R)] = [1..<Suc R] @ [Suc R]" by (simp add: upt_Suc_append)
  ultimately show ?thesis using assms unfolding tw_core_def by (auto simp: put_in_prog_def simp del: upt_Suc)
qed

lemma core_wake: "tw_core run t h tk rn rep P R W \<Longrightarrow> W < R \<Longrightarrow> tw_core run (wakeup_thread t) h tk rn rep P R (Suc W)"
  by (simp add: tw_core_def wakeup_thread_def)

lemma core_take:
  assumes core: "tw_core run t h tk None rep P R W" and s: "one_shot_sema t = Suc n"
  shows "\<exists>t'. take_task (t\<lparr>one_shot_sema := n\<rparr>) = (Some (task_of h (Suc tk)), t') \<and> ident_gen t' = ident_gen t \<and>
    tw_core run t' h (Suc tk) (Some (task_of h (Suc tk))) rep P R W"
proof -
  have "Suc tk \<le> P" using core s by (auto simp: tw_core_def)
  then have "[Suc tk..<Suc P] = Suc tk # [Suc (Suc tk)..<Suc P]" by (simp add: upt_conv_Cons del: upt_Suc)
  then have chain: "work_chain t = task_of h (Suc tk) # map (task_of h) [Suc (Suc tk)..<Suc P]"
    using core by (simp add: tw_core_def del: upt_Suc)
  then show ?thesis using core s by (auto simp: take_task_def tw_core_def fin_count_def simp del: upt_Suc)
qed

lemma core_finish:
  assumes core: "tw_core run t h tk (Some w) rep P R W" and len: "length h < 2 ^ 32"
  shows "tw_core run (finish_task run w t) h tk None rep P R W"
proof -
  have w: "w = task_of h tk" "0 < tk" "tk \<le> R" "R \<le> length h" "rep \<subseteq> {1..tk - 1}"
    using core by (auto simp: tw_core_def fin_count_def)
  let ?is = "filter (\<lambda>i. i \<notin> rep) [1..<Suc R]"
  let ?f = "\<lambda>r. r\<lparr>taskSts := result_of run h tk, percent_complete := 100\<rparr>"
  have small: "\<forall>i \<in> set ?is. i < 2 ^ 32" "tk < 2 ^ 32" using w len by auto
  have "change_by_ident (of_nat tk) ?f (map (record_of run h (tk - 1)) ?is) =
      map (\<lambda>i. if i = tk then ?f (record_of run h (tk - 1) i) else record_of run h (tk - 1) i) ?is"
    by (rule change_by_ident_map [OF _ small]) simp_all
  also have "\<dots> = map (record_of run h tk) ?is"
    using w(2) by (intro map_cong refl) (auto simp: record_of_def)
  finally have "change_by_ident (of_nat tk) ?f (map (record_of run h (tk - 1)) ?is) = map (record_of run h tk) ?is" .
  moreover have "work_inprog_chain t = map (record_of run h (tk - 1)) ?is"
    using core by (simp add: tw_core_def fin_count_def)
  moreover have "rep \<subseteq> {1..tk}" using w(5) by (fastforce simp: subset_iff)
  moreover have "[1..<Suc tk] = [1..<Suc (tk - 1)] @ [tk]" using w(2) by (simp add: upt_Suc_append)
  then have "map (done_event run h) [1..<Suc tk] = self_events t @ [done_event run h tk]"
    using core by (simp add: tw_core_def fin_count_def del: upt_Suc)
  ultimately show ?thesis
    using core w unfolding tw_core_def
    by (simp add: finish_task_def notify_self_def done_event_def task_of_def new_task_def result_of_def fin_count_def Let_def
        del: upt_Suc)
qed

text \<open>What a poll answers, and that it keeps the invariant.\<close>

definition answer :: "'w runner \<Rightarrow> (s32 \<times> 'w) list \<Rightarrow> nat \<Rightarrow> nat \<Rightarrow> nat set \<Rightarrow> nat \<Rightarrow> RPC_SRV_RESULT" where
  "answer run h fin R rep i =
     (if i = 0 \<or> R < i \<or> i \<in> rep then RPC_SRV_RESULT_TASK_ID_NOT_FOUND
      else if i \<le> fin then result_of run h i else RPC_SRV_RESULT_IN_PROG)"

lemma core_poll:
  assumes core: "tw_core run t h tk rn rep P R W" and len: "length h < 2 ^ 32" and i: "i < 2 ^ 32"
  shows "\<exists>t'. get_task_status (of_nat i) t = (answer run h (fin_count tk rn) R rep i, t') \<and> ident_gen t' = ident_gen t \<and>
    tw_core run t' h tk rn (rep \<union> (if work_inprog_chain t' = work_inprog_chain t then {} else {i})) P R W"
proof -
  let ?fin = "fin_count tk rn" let ?is = "filter (\<lambda>i. i \<notin> rep) [1..<Suc R]"
  have chain: "work_inprog_chain t = map (record_of run h ?fin) ?is" and R: "R \<le> length h"
    using core by (auto simp: tw_core_def)
  have small: "\<forall>i \<in> set ?is. i < 2 ^ 32" using R len by auto
  have get: "get_by_ident (of_nat i) (work_inprog_chain t) = (if i \<in> set ?is then Some (record_of run h ?fin i) else None)"
    unfolding chain by (rule get_by_ident_map [OF _ small i]) simp
  have sts: "taskSts (record_of run h ?fin i) = (if i \<le> ?fin then result_of run h i else RPC_SRV_RESULT_IN_PROG)"
    by (simp add: record_of_def new_in_prog_def)
  show ?thesis
  proof (cases "i \<in> set ?is \<and> i \<le> ?fin \<and> result_of run h i \<noteq> RPC_SRV_RESULT_IN_PROG")
    case False
    have "get_task_status (of_nat i) t = (answer run h ?fin R rep i, t)"
      using False get sts unfolding get_task_status_def answer_def by (auto simp del: upt_Suc)
    then show ?thesis using core by auto
  next
    case True
    have "remove_by_ident (of_nat i) (work_inprog_chain t) = map (record_of run h ?fin) (filter (\<lambda>j. j \<noteq> i) ?is)"
      unfolding chain by (rule remove_by_ident_map [OF _ small i]) simp_all
    also have "filter (\<lambda>j. j \<noteq> i) ?is = filter (\<lambda>j. j \<notin> insert i rep) [1..<Suc R]" by (simp add: conj_commute)
    finally have rem: "remove_by_ident (of_nat i) (work_inprog_chain t) =
        map (record_of run h ?fin) (filter (\<lambda>j. j \<notin> insert i rep) [1..<Suc R])" .
    define t' where "t' = t\<lparr>work_inprog_chain := remove_by_ident (of_nat i) (work_inprog_chain t)\<rparr>"
    have "get_task_status (of_nat i) t = (answer run h ?fin R rep i, t')"
      using True get sts unfolding get_task_status_def answer_def t'_def by (auto simp del: upt_Suc)
    moreover have "get_by_ident (of_nat i) (work_inprog_chain t') = None"
      unfolding t'_def using rem get_by_ident_map [of "record_of run h ?fin" "filter (\<lambda>j. j \<notin> insert i rep) [1..<Suc R]" i] small i
      by (auto simp del: upt_Suc)
    then have "work_inprog_chain t' \<noteq> work_inprog_chain t" using get True by auto
    moreover have "tw_core run t' h tk rn (insert i rep) P R W"
      using core rem True unfolding tw_core_def t'_def by (auto simp del: upt_Suc)
    ultimately show ?thesis by (auto simp: t'_def)
  qed
qed

lemma tw_inv_init:
  "tw_inv run \<lparr>tw = tw_init, pushers = replicate 1 P_Idle, running = None, hist = [], taken = 0, reported = {}\<rparr>"
  by (simp add: tw_inv_def tw_init_def tw_core_def pusher_ok_def put_count_def recorded_def wake_count_def fin_count_def)

lemma counts_cong:
  "pushers c' = pushers c \<Longrightarrow> hist c' = hist c \<Longrightarrow>
     put_count c' = put_count c \<and> recorded c' = recorded c \<and> wake_count c' = wake_count c"
  by (simp add: put_count_def recorded_def wake_count_def split: pusher.split)

lemma tw_inv_step:
  assumes inv: "tw_inv run c" and step: "tw_step run c c'" and len: "length (hist c') < 2 ^ 32"
  shows "tw_inv run c'"
  using step
proof (cases rule: tw_step.cases)
  case (push_ident p ident t cmd dat)
  with inv have "p = 0" by (simp add: tw_inv_def)
  with inv push_ident core_ident [of run "tw c" "hist c" _ _ _ _ _ _ "of_nat (length (hist c)) + 1" "(cmd, dat)"] show ?thesis
    by (auto simp: tw_inv_def generate_ident_def pusher_ok_def put_count_def recorded_def wake_count_def add.commute)
next
  case (push_work p ident cmd dat)
  with inv have p: "p = 0" by (simp add: tw_inv_def)
  have h: "hist c \<noteq> []" "ident = of_nat (length (hist c))" "last (hist c) = (cmd, dat)"
    using inv push_work p by (auto simp: tw_inv_def pusher_ok_def)
  then have "new_task ident cmd dat WORK_CMD_AFTER_DONE_PRESERVE = task_of (hist c) (Suc (length (hist c) - 1))"
    by (simp add: task_of_def last_conv_nth)
  with inv push_work p h core_put_work [of run "tw c" "hist c" _ _ _ "length (hist c) - 1"] show ?thesis
    by (auto simp: tw_inv_def pusher_ok_def put_count_def recorded_def wake_count_def put_work_def)
next
  case (push_in_prog p ident cmd)
  with inv have p: "p = 0" by (simp add: tw_inv_def)
  have h: "hist c \<noteq> []" "ident = of_nat (length (hist c))" "fst (last (hist c)) = cmd"
    using inv push_in_prog p by (auto simp: tw_inv_def pusher_ok_def)
  then have "new_in_prog ident cmd = new_in_prog (of_nat (Suc (length (hist c) - 1))) (fst (hist c ! (length (hist c) - 1)))"
    by (simp add: last_conv_nth)
  with inv push_in_prog p h core_put_in_prog [of run "tw c" "hist c" _ _ _ _ "length (hist c) - 1"] show ?thesis
    by (auto simp: tw_inv_def pusher_ok_def put_count_def recorded_def wake_count_def put_in_prog_def)
next
  case (push_wake p)
  with inv have p: "p = 0" by (simp add: tw_inv_def)
  have h: "hist c \<noteq> []" using inv push_wake p by (auto simp: tw_inv_def pusher_ok_def)
  with inv push_wake p core_wake [of run "tw c" "hist c" _ _ _ _ _ "length (hist c) - 1"] show ?thesis
    by (auto simp: tw_inv_def pusher_ok_def put_count_def recorded_def wake_count_def wakeup_thread_def)
next
  case (take n w t)
  have cnt: "put_count c' = put_count c" "recorded c' = recorded c" "wake_count c' = wake_count c"
    using counts_cong [of c' c] take(1) by simp_all
  have core: "tw_core run (tw c) (hist c) (taken c) None (reported c) (put_count c) (recorded c) (wake_count c)"
    using inv take(2) by (simp add: tw_inv_def)
  obtain t' where "w = Some (task_of (hist c) (Suc (taken c)))" "t = t'" "ident_gen t' = ident_gen (tw c)"
    "tw_core run t' (hist c) (Suc (taken c)) (Some (task_of (hist c) (Suc (taken c)))) (reported c)
       (put_count c) (recorded c) (wake_count c)"
    using core_take [OF core take(3)] take(4) by auto
  then show ?thesis using inv unfolding tw_inv_def cnt by (simp add: take(1))
next
  case (finish w)
  have cnt: "put_count c' = put_count c" "recorded c' = recorded c" "wake_count c' = wake_count c"
    using counts_cong [of c' c] finish(1) by simp_all
  have core: "tw_core run (tw c) (hist c) (taken c) (Some w) (reported c) (put_count c) (recorded c) (wake_count c)"
    using inv finish(2) by (simp add: tw_inv_def)
  have "ident_gen (finish_task run w (tw c)) = ident_gen (tw c)" by (simp add: finish_task_def notify_self_def Let_def)
  moreover have "length (hist c) < 2 ^ 32" using len finish(1) by simp
  ultimately show ?thesis using inv core_finish [OF core] unfolding tw_inv_def cnt by (simp add: finish(1))
next
  case (poll ident sts t)
  have cnt: "put_count c' = put_count c" "recorded c' = recorded c" "wake_count c' = wake_count c"
    using counts_cong [of c' c] poll(1) by simp_all
  have core: "tw_core run (tw c) (hist c) (taken c) (running c) (reported c) (put_count c) (recorded c) (wake_count c)"
    using inv by (simp add: tw_inv_def)
  have "unat ident < 2 ^ 32" "length (hist c) < 2 ^ 32" using unsigned_less [of ident] len poll(1) by simp_all
  from core_poll [OF core this(2,1)] poll(2) have "ident_gen t = ident_gen (tw c)"
    "tw_core run t (hist c) (taken c) (running c)
      (reported c \<union> (if work_inprog_chain t = work_inprog_chain (tw c) then {} else {unat ident})) (put_count c) (recorded c) (wake_count c)"
    by simp_all
  then show ?thesis using inv unfolding tw_inv_def cnt by (simp add: poll(1))
qed

lemma tw_step_hist: "tw_step run c c' \<Longrightarrow> length (hist c) \<le> length (hist c')"
  by (erule tw_stepE) auto

lemma tw_reach_inv: "tw_reach run 1 c \<Longrightarrow> length (hist c) < 2 ^ 32 \<Longrightarrow> tw_inv run c"
proof (induction rule: tw_reach.induct)
  case init
  show ?case by (rule tw_inv_init)
next
  case (step c c')
  then show ?case using tw_inv_step tw_step_hist by (meson le_less_trans)
qed

section \<open>Properties\<close>

text \<open>
  Property C4: with one caller at a time the worker delivers results. In every state that the caller, the
  worker thread and pollers can reach, in any interleaving and before the identifiers wrap around, polling
  a task answers: not found, when its record is not there yet or its end has been reported; the result of
  running its own command on its own data, when the worker has finished it; in progress otherwise. The
  semaphore holds a wake-up for every queued task, but for one the caller has not announced yet. For every
  finished task, in order, the worker has sent its service one event with the identifier and the result.
\<close>

theorem task_status_correct:
  assumes "tw_reach run 1 c" and "length (hist c) < 2 ^ 32" and "i < 2 ^ 32"
  shows "fst (get_task_status (of_nat i) (tw c)) =
      (if i = 0 \<or> recorded c < i \<or> i \<in> reported c then RPC_SRV_RESULT_TASK_ID_NOT_FOUND
       else if i \<le> finished c then run (fst (hist c ! (i - 1))) (snd (hist c ! (i - 1)))
       else RPC_SRV_RESULT_IN_PROG) \<and>
    length (hist c) - 1 \<le> recorded c \<and> reported c \<subseteq> {1..finished c} \<and>
    length (work_chain (tw c)) - one_shot_sema (tw c) \<le> 1 \<and>
    self_events (tw c) = map (\<lambda>i. (ADLIB_EVENT_NUM_INPROG_DONE, of_nat i,
      of_nat (rpc_code (run (fst (hist c ! (i - 1))) (snd (hist c ! (i - 1))))))) [1..<Suc (finished c)]"
proof -
  have inv: "tw_inv run c" using tw_reach_inv assms by blast
  then have core: "tw_core run (tw c) (hist c) (taken c) (running c) (reported c) (put_count c) (recorded c) (wake_count c)"
    by (simp add: tw_inv_def)
  have fin: "finished c = fin_count (taken c) (running c)" by (simp add: finished_def fin_count_def)
  have "reported c \<subseteq> {1..finished c}" "length (work_chain (tw c)) = put_count c - taken c"
    "one_shot_sema (tw c) + taken c = wake_count c" "self_events (tw c) = map (done_event run (hist c)) [1..<Suc (finished c)]"
    using core by (simp_all add: tw_core_def fin del: upt_Suc)
  moreover have "put_count c \<le> wake_count c + 1" "length (hist c) - 1 \<le> recorded c"
    by (auto simp: put_count_def wake_count_def recorded_def split: pusher.split)
  ultimately show ?thesis
    using core_poll [OF core assms(2,3)] fin by (auto simp: answer_def result_of_def done_event_def simp del: upt_Suc)
qed

text \<open>Steps to explicit configurations, for executions.\<close>

lemma reach_step: "tw_reach run n c \<Longrightarrow> tw_step run c c' \<Longrightarrow> c' = c'' \<Longrightarrow> tw_reach run n c''"
  using tw_reach.step by blast

definition done_rec :: "s32 \<Rightarrow> s32 \<Rightarrow> RPC_SRV_RESULT \<Rightarrow> WORK_CMD_TASK_IN_PROG" where
  "done_rec ident cmd res = (new_in_prog ident cmd)\<lparr>taskSts := res, percent_complete := 100\<rparr>"

lemma reach_one_task:
  "tw_reach run 1 \<lparr>tw = \<lparr>work_chain = [], work_inprog_chain = [done_rec 1 7 (run 7 d)], ident_gen = 1, one_shot_sema = 0,
       self_events = [(0, 1, of_nat (rpc_code (run 7 d)))]\<rparr>,
     pushers = [P_Idle], running = None, hist = [(7, d)], taken = 1, reported = {}\<rparr>"
proof -
  let ?c = "\<lambda>q r g s e ps rn h k. \<lparr>tw = \<lparr>work_chain = q, work_inprog_chain = r, ident_gen = g, one_shot_sema = s, self_events = e\<rparr>,
     pushers = ps, running = rn, hist = h, taken = k, reported = {}\<rparr>"
  let ?w = "new_task 1 7 d WORK_CMD_AFTER_DONE_PRESERVE" let ?h = "[(7, d)]" let ?r = "new_in_prog 1 7"
  have 0: "tw_reach run 1 (?c [] [] 0 0 [] [P_Idle] None [] 0)"
    using tw_reach.init [of run 1] by (simp add: tw_init_def)
  have 1: "tw_reach run 1 (?c [] [] 1 0 [] [P_Work 1 7 d] None ?h 0)"
    by (rule reach_step [OF 0 push_ident [of 0]]) (simp_all add: generate_ident_def)
  have 2: "tw_reach run 1 (?c [?w] [] 1 0 [] [P_In_Prog 1 7] None ?h 0)"
    by (rule reach_step [OF 1 push_work [of 0]]) (simp_all add: put_work_def)
  have 3: "tw_reach run 1 (?c [?w] [?r] 1 0 [] [P_Wake] None ?h 0)"
    by (rule reach_step [OF 2 push_in_prog [of 0]]) (simp_all add: put_in_prog_def)
  have 4: "tw_reach run 1 (?c [?w] [?r] 1 1 [] [P_Idle] None ?h 0)"
    by (rule reach_step [OF 3 push_wake [of 0]]) (simp_all add: wakeup_thread_def)
  have 5: "tw_reach run 1 (?c [] [?r] 1 0 [] [P_Idle] (Some ?w) ?h 1)"
    by (rule reach_step [OF 4 tw_step.take [where n = 0 and w = "Some ?w"]]) (simp_all add: take_task_def)
  show ?thesis
    by (rule reach_step [OF 5 finish [where w = ?w]]) (simp_all add: finish_task_def notify_self_def ADLIB_EVENT_NUM_INPROG_DONE_def Let_def new_task_def new_in_prog_def done_rec_def)
qed

theorem task_status_correct_witness:
  "fst (get_task_status 1 (\<lparr>work_chain = [], work_inprog_chain = [done_rec 1 7 RPC_SRV_RESULT_TIMEOUT], ident_gen = 1,
        one_shot_sema = 0, self_events = [(0, 1, 5)]\<rparr> :: unit ADTaskWorker)) = RPC_SRV_RESULT_TIMEOUT"
  using task_status_correct [OF reach_one_task [of "\<lambda>_ _. RPC_SRV_RESULT_TIMEOUT" "()"], of 1]
  by (simp add: recorded_def finished_def rpc_code_def rpc_srv_results_def)

text \<open>
  Fact: with two callers at a time a result can be lost. The task and its record are put into two
  chains without a common lock. When a second caller wakes the worker before the first has put its record,
  the worker runs the first task and finds no record to store the result in; the record put afterwards says
  in progress for ever, with nothing queued, nothing running and no wake-up left.
\<close>

theorem two_callers_lose_result:
  "\<exists>c. tw_reach run 2 c \<and> length (hist c) = 2 \<and> taken c = 2 \<and> running c = None \<and> pushers c = [P_Idle, P_Idle] \<and>
     work_chain (tw c) = [] \<and> one_shot_sema (tw c) = 0 \<and>
     get_task_status 1 (tw c) = (RPC_SRV_RESULT_IN_PROG, tw c)"
proof -
  let ?c = "\<lambda>q r g s e ps rn h k. \<lparr>tw = \<lparr>work_chain = q, work_inprog_chain = r, ident_gen = g, one_shot_sema = s, self_events = e\<rparr>,
     pushers = ps, running = rn, hist = h, taken = k, reported = {}\<rparr>"
  fix d :: 'a
  let ?w = "\<lambda>i. new_task i 7 d WORK_CMD_AFTER_DONE_PRESERVE" let ?h = "[(7, d), (7, d)]" let ?r = "\<lambda>i. new_in_prog i 7"
  have 0: "tw_reach run 2 (?c [] [] 0 0 [] [P_Idle, P_Idle] None [] 0)"
    using tw_reach.init [of run 2] by (simp add: tw_init_def numeral_2_eq_2)
  have 1: "tw_reach run 2 (?c [] [] 1 0 [] [P_Work 1 7 d, P_Idle] None [(7, d)] 0)"
    by (rule reach_step [OF 0 push_ident [of 0]]) (simp_all add: generate_ident_def)
  have 2: "tw_reach run 2 (?c [] [] 2 0 [] [P_Work 1 7 d, P_Work 2 7 d] None ?h 0)"
    by (rule reach_step [OF 1 push_ident [of 1]]) (simp_all add: generate_ident_def)
  have 3: "tw_reach run 2 (?c [?w 1] [] 2 0 [] [P_In_Prog 1 7, P_Work 2 7 d] None ?h 0)"
    by (rule reach_step [OF 2 push_work [of 0]]) (simp_all add: put_work_def)
  have 4: "tw_reach run 2 (?c [?w 1, ?w 2] [] 2 0 [] [P_In_Prog 1 7, P_In_Prog 2 7] None ?h 0)"
    by (rule reach_step [OF 3 push_work [of 1]]) (simp_all add: put_work_def)
  have 5: "tw_reach run 2 (?c [?w 1, ?w 2] [?r 2] 2 0 [] [P_In_Prog 1 7, P_Wake] None ?h 0)"
    by (rule reach_step [OF 4 push_in_prog [of 1]]) (simp_all add: put_in_prog_def)
  have 6: "tw_reach run 2 (?c [?w 1, ?w 2] [?r 2] 2 1 [] [P_In_Prog 1 7, P_Idle] None ?h 0)"
    by (rule reach_step [OF 5 push_wake [of 1]]) (simp_all add: wakeup_thread_def)
  have 7: "tw_reach run 2 (?c [?w 2] [?r 2] 2 0 [] [P_In_Prog 1 7, P_Idle] (Some (?w 1)) ?h 1)"
    by (rule reach_step [OF 6 tw_step.take [where n = 0 and w = "Some (?w 1)"]]) (simp_all add: take_task_def)
  have 8: "tw_reach run 2 (?c [?w 2] [?r 2] 2 0 [(0, 1, of_nat (rpc_code (run 7 d)))] [P_In_Prog 1 7, P_Idle] None ?h 1)"
    by (rule reach_step [OF 7 finish [where w = "?w 1"]]) (simp_all add: finish_task_def notify_self_def ADLIB_EVENT_NUM_INPROG_DONE_def Let_def new_task_def new_in_prog_def)
  have 9: "tw_reach run 2 (?c [?w 2] [?r 2, ?r 1] 2 0 [(0, 1, of_nat (rpc_code (run 7 d)))] [P_Wake, P_Idle] None ?h 1)"
    by (rule reach_step [OF 8 push_in_prog [of 0]]) (simp_all add: put_in_prog_def)
  have 10: "tw_reach run 2 (?c [?w 2] [?r 2, ?r 1] 2 1 [(0, 1, of_nat (rpc_code (run 7 d)))] [P_Idle, P_Idle] None ?h 1)"
    by (rule reach_step [OF 9 push_wake [of 0]]) (simp_all add: wakeup_thread_def)
  have 11: "tw_reach run 2 (?c [] [?r 2, ?r 1] 2 0 [(0, 1, of_nat (rpc_code (run 7 d)))] [P_Idle, P_Idle] (Some (?w 2)) ?h 2)"
    by (rule reach_step [OF 10 tw_step.take [where n = 0 and w = "Some (?w 2)"]]) (simp_all add: take_task_def)
  have 12: "tw_reach run 2 (?c [] [done_rec 2 7 (run 7 d), ?r 1] 2 0 [(0, 1, of_nat (rpc_code (run 7 d))), (0, 2, of_nat (rpc_code (run 7 d)))] [P_Idle, P_Idle] None ?h 2)"
    by (rule reach_step [OF 11 finish [where w = "?w 2"]]) (simp_all add: finish_task_def notify_self_def ADLIB_EVENT_NUM_INPROG_DONE_def Let_def new_task_def new_in_prog_def done_rec_def)
  show ?thesis
    by (intro exI conjI, rule 12) (simp_all add: get_task_status_def done_rec_def new_in_prog_def)
qed

text \<open>
  Fact: a task whose caller does not want the result deletes its own record only: every other task is polled
  with the same answer before and after the worker runs it.
\<close>

theorem delete_action_keeps_others:
  assumes "work_chain t = w # ws" and "done_action w \<noteq> WORK_CMD_AFTER_DONE_PRESERVE" and "ident \<noteq> w_taskID w"
  shows "fst (get_task_status ident (monoshot_callback_function run t)) = fst (get_task_status ident t)"
proof -
  have "get_by_ident ident (remove_by_ident (w_taskID w) rs) = get_by_ident ident rs" for rs
    using assms(3) by (induction rs) auto
  then show ?thesis
    using assms by (simp add: monoshot_callback_function_def take_task_def finish_task_def get_task_status_def Let_def
        split: option.split)
qed

theorem delete_action_keeps_others_witness:
  "fst (get_task_status 1 (monoshot_callback_function (\<lambda>_ _. RPC_SRV_RESULT_SUCCESS)
     (snd (snd (push_task True True 8 () WORK_CMD_AFTER_DONE_DELETE
       (monoshot_callback_function (\<lambda>_ _. RPC_SRV_RESULT_TIMEOUT)
         (snd (snd (push_task True True 7 () WORK_CMD_AFTER_DONE_PRESERVE tw_init)))))))))
   = RPC_SRV_RESULT_TIMEOUT"
  using delete_action_keeps_others [of "snd (snd (push_task True True 8 () WORK_CMD_AFTER_DONE_DELETE
       (monoshot_callback_function (\<lambda>_ _. RPC_SRV_RESULT_TIMEOUT)
         (snd (snd (push_task True True 7 () WORK_CMD_AFTER_DONE_PRESERVE tw_init))))))"
      "new_task 2 8 () WORK_CMD_AFTER_DONE_DELETE" "[]" 1 "\<lambda>_ _. RPC_SRV_RESULT_SUCCESS"]
  by (simp add: push_task_def generate_ident_def put_work_def put_in_prog_def wakeup_thread_def tw_init_def new_task_def
      new_in_prog_def monoshot_callback_function_def take_task_def finish_task_def get_task_status_def notify_self_def)

end
