(* ===== verification/Llctl.thy ===== *)
theory Llctl
  imports C_Strings
begin

text \<open>
  The LED tool for the LAN9512 Ethernet chip, \<open>src/sources/utils/lan9512-blink/llctl.c\<close>. The USB
  library is a parameter: \<open>dev\<close> is the value of the configuration register of the chip, or none when
  no such device is found. \<open>junk\<close> is the value the uninitialised \<open>new_config\<close> starts with.
\<close>

section \<open>Constants\<close>

definition DUP_MASK :: u32 where "DUP_MASK = push_bit 16 0x001 OR push_bit 4 0x1"
definition LNK_MASK :: u32 where "LNK_MASK = push_bit 16 0x010 OR push_bit 4 0x2"
definition SPD_MASK :: u32 where "SPD_MASK = push_bit 16 0x100 OR push_bit 4 0x4"

definition MODE_OFF :: s32 where "MODE_OFF = 0"
definition MODE_ON :: s32 where "MODE_ON = 1"
definition MODE_STATUS :: s32 where "MODE_STATUS = 2"
definition MODE_TOGGLE :: s32 where "MODE_TOGGLE = 3"
definition MODE_KEEP :: s32 where "MODE_KEEP = 15"
definition MODE_ERR :: s32 where "MODE_ERR = -1"

lemmas mode_defs = MODE_OFF_def MODE_ON_def MODE_STATUS_def MODE_TOGGLE_def MODE_KEEP_def MODE_ERR_def

section \<open>The command line\<close>

text \<open>\<open>strtol(s, NULL, 16)\<close>, which saturates, stored into an \<open>int\<close>.\<close>

definition strtol16_int :: "string \<Rightarrow> s32" where
  "strtol16_int nptr =
     (let s = dropWhile is_space nptr;
          neg = (s \<noteq> [] \<and> hd s = CHR ''-'');
          s = (if s \<noteq> [] \<and> (hd s = CHR ''-'' \<or> hd s = CHR ''+'') then tl s else s);
          s = (if 3 \<le> length s \<and> hd s = CHR ''0'' \<and> (s ! 1 = CHR ''x'' \<or> s ! 1 = CHR ''X'') \<and> hex_digit (s ! 2) \<noteq> None
               then drop 2 s else s);
          n = fst (hex_val 0 s)
      in if neg then (if 2 ^ 63 \<le> n then 0 else - of_nat n)
         else (if 2 ^ 63 \<le> n then -1 else of_nat n))"

definition ledmode :: "string \<Rightarrow> s32" where
  "ledmode str =
     (case str of [] \<Rightarrow> MODE_ERR
      | c # _ \<Rightarrow>
          if c = CHR ''0'' then MODE_OFF else if c = CHR ''1'' then MODE_ON
          else if c = CHR ''s'' then MODE_STATUS else if c = CHR ''t'' then MODE_TOGGLE else MODE_ERR)"

text \<open>What parsing an argument leads to: \<open>usage\<close> exits, the LED commands go on with the array.\<close>

datatype parsed = Usage | Read | Write s32 | Go "s32 list"

definition parse_cmdline :: "string \<Rightarrow> s32 list \<Rightarrow> parsed kres" where
  "parse_cmdline str cmd_arr =
     (if length str = 1 \<and> hd str = CHR ''r'' then kret Read
      else if 2 \<le> length str \<and> hd str = CHR ''w'' then kret (Write (strtol16_int (tl str)))
      else if length str \<noteq> 2 then kret Usage
      else
        let mode = ledmode (tl str) in
        if hd str = CHR ''d'' then kret (Go (cmd_arr[0 := mode]))
        else if hd str = CHR ''l'' then kret (Go (cmd_arr[1 := mode]))
        else if hd str = CHR ''f'' then kret (Go (cmd_arr[2 := mode]))
        else kfail BufferOverrun)"

fun parse_args :: "string list \<Rightarrow> s32 list \<Rightarrow> parsed kres" where
  "parse_args [] cmd_arr = kret (Go cmd_arr)"
| "parse_args (a # as) cmd_arr =
     kbind (parse_cmdline a cmd_arr) (\<lambda>p. case p of Go cmd_arr \<Rightarrow> parse_args as cmd_arr | _ \<Rightarrow> kret p)"

section \<open>The configuration register\<close>

definition mask_arr :: "u32 list" where
  "mask_arr = [DUP_MASK, LNK_MASK, SPD_MASK]"

text \<open>One round of the loop: the bits of an LED after its command.\<close>

definition new_bits :: "s32 \<Rightarrow> u32 \<Rightarrow> u32 \<Rightarrow> u32" where
  "new_bits cmd msk cur_config =
     (let cur = cur_config AND msk;
          cur = (if cmd = MODE_TOGGLE \<and> cur < 65536 then cur XOR (msk AND 0xffff) else cur);
          cur = (if cmd = MODE_ON then (cur AND (0xffff0000 XOR msk)) OR (msk AND 0xffff) else cur);
          cur = (if cmd = MODE_OFF then cur AND ((msk AND 0xffff) XOR 0xffff) else cur);
          cur = (if cmd = MODE_STATUS then (cur AND ((msk AND 0xffff) XOR 0xffff)) OR (msk AND 0xffff0000) else cur)
      in cur)"

definition new_config :: "u32 \<Rightarrow> s32 list \<Rightarrow> u32 \<Rightarrow> u32" where
  "new_config junk cmd_arr cur_config =
     fold (\<lambda>i cfg. cfg OR new_bits (cmd_arr ! i) (mask_arr ! i) cur_config) [0, 1, 2] junk"

text \<open>The exit code, the value of the register, and the value that is printed. Without a device
  \<open>get_usb_device\<close> returns no pointer, and opening it fails.\<close>

definition llctl_main :: "u32 \<Rightarrow> string list \<Rightarrow> u32 option \<Rightarrow> (int \<times> u32 option \<times> u32 option) kres" where
  "llctl_main junk args dev =
     (if args = [] then kret (1, dev, None)
      else
        kbind (parse_args args [MODE_KEEP, MODE_KEEP, MODE_KEEP]) (\<lambda>p.
          case p of
            Usage \<Rightarrow> kret (1, dev, None)
          | Read \<Rightarrow> (case dev of None \<Rightarrow> kfail BadDeref | Some cfg \<Rightarrow> kret (0, dev, Some cfg))
          | Write v \<Rightarrow> (case dev of None \<Rightarrow> kfail BadDeref | Some cfg \<Rightarrow> kret (0, Some v, None))
          | Go cmd_arr \<Rightarrow>
              (case dev of None \<Rightarrow> kfail BadDeref
               | Some cfg \<Rightarrow> kret (0, Some (new_config junk cmd_arr cfg), None))))"

section \<open>What the commands mean for an LED\<close>

text \<open>An LED shows its LAN status, or is switched on or off by hand: its two bits of the register.\<close>

definition status_bit :: "nat \<Rightarrow> nat" where "status_bit i = 16 + 4 * i"
definition override_bit :: "nat \<Rightarrow> nat" where "override_bit i = 4 + i"

definition led :: "u32 \<Rightarrow> nat \<Rightarrow> bool \<times> bool" where
  "led cfg i = (bit cfg (status_bit i), bit cfg (override_bit i))"

fun led_spec :: "char option \<Rightarrow> bool \<times> bool \<Rightarrow> bool \<times> bool" where
  "led_spec None (s, v) = (s, v)"
| "led_spec (Some c) (s, v) =
     (if c = CHR ''0'' then (False, False) else if c = CHR ''1'' then (False, True)
      else if c = CHR ''s'' then (True, False) else if c = CHR ''t'' \<and> \<not> s then (s, \<not> v) else (s, v))"

lemma mask_arr_eq: "i < 3 \<Longrightarrow> mask_arr ! i = push_bit (status_bit i) 1 OR push_bit (override_bit i) 1"
proof -
  assume "i < 3"
  then consider "i = 0" | "i = 1" | "i = 2" by linarith
  then show ?thesis
    by cases (simp_all add: mask_arr_def DUP_MASK_def LNK_MASK_def SPD_MASK_def status_bit_def override_bit_def)
qed

lemma bit_mask:
  assumes "i < 3"
  shows "bit (mask_arr ! i) n \<longleftrightarrow> n = status_bit i \<or> n = override_bit i"
proof -
  have "status_bit i < 32" "override_bit i < 32" using assms by (simp_all add: status_bit_def override_bit_def)
  then show ?thesis
    unfolding mask_arr_eq [OF assms]
    by (simp only: bit_or_iff bit_push_bit_iff bit_1_iff possible_bit_word) auto
qed

lemma bit_low: "bit (0xffff :: u32) n \<longleftrightarrow> n < 16"
proof -
  have "(0xffff :: u32) = mask 16" by (simp add: mask_eq_exp_minus_1)
  then show ?thesis by (simp only: bit_mask_iff possible_bit_word) auto
qed

lemma bit_high: "bit (0xffff0000 :: u32) n \<longleftrightarrow> 16 \<le> n \<and> n < 32"
proof -
  have "(0xffff0000 :: u32) = push_bit 16 (mask 16)" by (simp add: mask_eq_exp_minus_1)
  then show ?thesis by (simp only: bit_push_bit_iff bit_mask_iff possible_bit_word) auto
qed

lemma small_iff: "w < (65536 :: u32) \<longleftrightarrow> (\<forall>n \<ge> 16. \<not> bit w n)"
proof -
  have "w < 65536 \<longleftrightarrow> drop_bit 16 (unat w) = 0"
    by (simp add: word_less_nat_alt drop_bit_eq_div div_eq_0_iff)
  also have "\<dots> \<longleftrightarrow> drop_bit 16 w = 0" by (simp add: unat_drop_bit_eq [symmetric] unsigned_eq_0_iff)
  also have "\<dots> \<longleftrightarrow> (\<forall>n \<ge> 16. \<not> bit w n)"
  proof
    assume 0: "drop_bit 16 w = 0"
    show "\<forall>n \<ge> 16. \<not> bit w n"
    proof (intro allI impI)
      fix n :: nat assume "16 \<le> n"
      have "\<not> bit (drop_bit 16 w) (n - 16)" by (simp add: 0)
      with \<open>16 \<le> n\<close> show "\<not> bit w n" by (simp add: bit_drop_bit_eq)
    qed
  next
    assume "\<forall>n \<ge> 16. \<not> bit w n"
    then show "drop_bit 16 w = 0" by (intro bit_word_eqI) (simp add: bit_drop_bit_eq)
  qed
  finally show ?thesis .
qed

lemma bit_positions:
  "i < 3 \<Longrightarrow> 16 \<le> status_bit i" "i < 3 \<Longrightarrow> status_bit i < 32" "i < 3 \<Longrightarrow> override_bit i < 16"
  "status_bit i = status_bit j \<longleftrightarrow> i = j" "override_bit i = override_bit j \<longleftrightarrow> i = j"
  by (simp_all add: status_bit_def override_bit_def)

lemma status_not_override: "i < 3 \<Longrightarrow> j < 3 \<Longrightarrow> status_bit i \<noteq> override_bit j" "i < 3 \<Longrightarrow> j < 3 \<Longrightarrow> override_bit j \<noteq> status_bit i"
  by (auto simp: status_bit_def override_bit_def)

lemma toggle_guard: "i < 3 \<Longrightarrow> (cfg AND mask_arr ! i) < 65536 \<longleftrightarrow> \<not> bit cfg (status_bit i)"
  using bit_positions(1-3) [of i] by (auto simp: small_iff bit_and_iff bit_mask)

text \<open>The bits of an LED after a command, and that no other bit is set.\<close>

lemma bit_new_bits:
  assumes i: "i < 3"
  shows "bit (new_bits cmd (mask_arr ! i) cfg) n \<longleftrightarrow>
    n = status_bit i \<and> (cmd = MODE_STATUS \<or> bit cfg n \<and> cmd \<noteq> MODE_ON \<and> cmd \<noteq> MODE_OFF) \<or>
    n = override_bit i \<and> (cmd = MODE_ON \<or> cmd = MODE_TOGGLE \<and> \<not> bit cfg (status_bit i) \<and> \<not> bit cfg n \<or>
       bit cfg n \<and> cmd \<noteq> MODE_OFF \<and> cmd \<noteq> MODE_STATUS \<and> (cmd = MODE_TOGGLE \<longrightarrow> bit cfg (status_bit i)))"
proof -
  note pos = bit_positions(1-3) [OF i] and simps = bit_and_iff bit_or_iff bit_xor_iff bit_mask [OF i] bit_low bit_high
  have cfg: "bit cfg k \<Longrightarrow> k < 32" for k using bit_imp_le_length [of cfg k] by simp
  consider "cmd = MODE_OFF" | "cmd = MODE_ON" | "cmd = MODE_STATUS" | "cmd = MODE_TOGGLE" |
    "cmd \<noteq> MODE_OFF" "cmd \<noteq> MODE_ON" "cmd \<noteq> MODE_STATUS" "cmd \<noteq> MODE_TOGGLE" by blast
  then show ?thesis
  proof cases
    case 1
    then have "new_bits cmd (mask_arr ! i) cfg = cfg AND mask_arr ! i AND ((mask_arr ! i AND 0xffff) XOR 0xffff)"
      by (simp only: new_bits_def Let_def mode_defs) (simp add: and.assoc)
    with 1 show ?thesis using pos by (simp only: simps) (auto simp: mode_defs)
  next
    case 2
    then have "new_bits cmd (mask_arr ! i) cfg =
        (cfg AND mask_arr ! i AND (0xffff0000 XOR mask_arr ! i)) OR (mask_arr ! i AND 0xffff)"
      by (simp only: new_bits_def Let_def mode_defs) (simp add: and.assoc)
    with 2 show ?thesis using pos by (simp only: simps) (auto simp: mode_defs)
  next
    case 3
    then have "new_bits cmd (mask_arr ! i) cfg =
        (cfg AND mask_arr ! i AND ((mask_arr ! i AND 0xffff) XOR 0xffff)) OR (mask_arr ! i AND 0xffff0000)"
      by (simp only: new_bits_def Let_def mode_defs) (simp add: and.assoc)
    with 3 show ?thesis using pos by (simp only: simps) (auto simp: mode_defs)
  next
    case 4
    then have "new_bits cmd (mask_arr ! i) cfg =
        (if bit cfg (status_bit i) then cfg AND mask_arr ! i else (cfg AND mask_arr ! i) XOR (mask_arr ! i AND 0xffff))"
      using toggle_guard [OF i, of cfg] by (simp only: new_bits_def Let_def mode_defs) simp
    with 4 show ?thesis using pos by (cases "bit cfg (status_bit i)"; simp only: simps if_True if_False) (auto simp: mode_defs)
  next
    case 5
    then have "new_bits cmd (mask_arr ! i) cfg = cfg AND mask_arr ! i" by (simp add: new_bits_def)
    with 5 show ?thesis using pos by (simp only: simps) auto
  qed
qed

section \<open>Properties\<close>

definition letter :: "nat \<Rightarrow> char" where
  "letter i = [CHR ''d'', CHR ''l'', CHR ''f''] ! i"

definition led_arg :: "string \<Rightarrow> bool" where
  "led_arg a \<longleftrightarrow> (\<exists>i < 3. \<exists>c. a = [letter i, c])"

text \<open>The last command for an LED on the command line.\<close>

fun last_cmd :: "nat \<Rightarrow> string list \<Rightarrow> char option" where
  "last_cmd i [] = None"
| "last_cmd i (a # as) = (case last_cmd i as of Some c \<Rightarrow> Some c
     | None \<Rightarrow> if hd a = letter i then Some (a ! 1) else None)"

definition mode_of :: "char option \<Rightarrow> s32 \<Rightarrow> s32" where
  "mode_of c m = (case c of None \<Rightarrow> m | Some c \<Rightarrow> ledmode [c])"

lemma parse_led_arg:
  assumes "length arr = 3" and "i < 3"
  shows "parse_cmdline [letter i, c] arr = kret (Go (arr[i := ledmode [c]]))"
proof -
  consider "i = 0" | "i = 1" | "i = 2" using assms(2) by linarith
  then show ?thesis by cases (simp_all add: parse_cmdline_def letter_def)
qed

lemma letter_inj: "i < 3 \<Longrightarrow> j < 3 \<Longrightarrow> letter i = letter j \<longleftrightarrow> i = j"
  by (auto simp: letter_def less_Suc_eq numeral_3_eq_3)

lemma parse_args_leds:
  "list_all led_arg args \<Longrightarrow> length arr = 3 \<Longrightarrow>
     \<exists>arr'. parse_args args arr = kret (Go arr') \<and> length arr' = 3 \<and> (\<forall>i < 3. arr' ! i = mode_of (last_cmd i args) (arr ! i))"
proof (induction args arbitrary: arr)
  case Nil
  then show ?case by (simp add: mode_of_def)
next
  case (Cons a as)
  then obtain j c where a: "a = [letter j, c]" "j < 3" by (auto simp: led_arg_def)
  from Cons.IH [of "arr[j := ledmode [c]]"] Cons.prems obtain arr' where
    "parse_args as (arr[j := ledmode [c]]) = kret (Go arr')" "length arr' = 3"
    "\<forall>i < 3. arr' ! i = mode_of (last_cmd i as) (arr[j := ledmode [c]] ! i)" by auto
  moreover have "mode_of (last_cmd i as) (arr[j := ledmode [c]] ! i) = mode_of (last_cmd i (a # as)) (arr ! i)" if "i < 3" for i
    using that a Cons.prems(2) letter_inj [OF a(2) that]
    by (auto simp: mode_of_def nth_list_update split: option.split)
  ultimately show ?case using parse_led_arg [OF Cons.prems(2) a(2)] by (auto simp: a(1))
qed

lemma new_config_bits:
  "bit (new_config 0 arr cfg) n \<longleftrightarrow> (\<exists>i < 3. bit (new_bits (arr ! i) (mask_arr ! i) cfg) n)"
  by (auto simp: new_config_def bit_or_iff numeral_3_eq_3 less_Suc_eq numeral_2_eq_2)

lemma new_config_junk: "new_config junk arr cfg = junk OR new_config 0 arr cfg"
  by (simp add: new_config_def or.assoc)

lemma led_new_config:
  assumes "i < 3" and "arr ! i = mode_of c MODE_KEEP"
  shows "led (new_config 0 arr cfg) i = led_spec c (led cfg i)"
proof -
  have other: "\<not> bit (new_bits (arr ! j) (mask_arr ! j) cfg) n" if "j < 3" "j \<noteq> i" "n = status_bit i \<or> n = override_bit i" for j n
    using that assms(1) status_not_override by (auto simp: bit_new_bits bit_positions(4,5))
  have "bit (new_config 0 arr cfg) n \<longleftrightarrow> bit (new_bits (arr ! i) (mask_arr ! i) cfg) n" if "n = status_bit i \<or> n = override_bit i" for n
    using other [OF _ _ that] assms(1) unfolding new_config_bits by metis
  then have "led (new_config 0 arr cfg) i = led (new_bits (arr ! i) (mask_arr ! i) cfg) i"
    by (simp add: led_def)
  also have "\<dots> = led_spec c (led cfg i)"
    using assms status_not_override [of i i]
    by (cases c) (auto simp: led_def bit_new_bits mode_of_def ledmode_def mode_defs)
  finally show ?thesis .
qed

text \<open>
  Fact: each LED gets what the last command for it says. For any command line of LED commands the
  tool writes the register once; in the value, were \<open>new_config\<close> initialised to zero, each LED is off, on or
  showing its LAN status as commanded, a toggle flips only an LED switched by hand, an LED without a
  command and one with an unknown mode letter are unchanged, and every bit that belongs to no LED is
  cleared. What the uninitialised variable holds is or-ed to it.
\<close>

theorem llctl_sets_leds:
  assumes "args \<noteq> []" and "list_all led_arg args"
  shows "\<exists>reg. llctl_main junk args (Some cfg) = kret (0, Some (junk OR reg), None) \<and>
    (\<forall>i < 3. led reg i = led_spec (last_cmd i args) (led cfg i)) \<and>
    (\<forall>n. (\<exists>i < 3. n = status_bit i \<or> n = override_bit i) \<or> \<not> bit reg n)"
proof -
  obtain arr where arr: "parse_args args [MODE_KEEP, MODE_KEEP, MODE_KEEP] = kret (Go arr)" "length arr = 3"
    "\<forall>i < 3. arr ! i = mode_of (last_cmd i args) ([MODE_KEEP, MODE_KEEP, MODE_KEEP] ! i)"
    using parse_args_leds [OF assms(2), of "[MODE_KEEP, MODE_KEEP, MODE_KEEP]"] by auto
  have keep: "[MODE_KEEP, MODE_KEEP, MODE_KEEP] ! i = MODE_KEEP" if "i < 3" for i
    using that by (auto simp: numeral_3_eq_3 less_Suc_eq)
  have "llctl_main junk args (Some cfg) = kret (0, Some (junk OR new_config 0 arr cfg), None)"
    using assms(1) arr(1) by (simp add: llctl_main_def new_config_junk [of junk])
  moreover have "led (new_config 0 arr cfg) i = led_spec (last_cmd i args) (led cfg i)" if "i < 3" for i
    using led_new_config [OF that] arr(3) keep that by simp
  moreover have "(\<exists>i < 3. n = status_bit i \<or> n = override_bit i) \<or> \<not> bit (new_config 0 arr cfg) n" for n
    by (auto simp: new_config_bits bit_new_bits)
  ultimately show ?thesis by blast
qed

theorem llctl_sets_leds_witness:
  "\<exists>reg. llctl_main 0 [''d0'', ''l1'', ''d1'', ''fs''] (Some 0) = kret (0, Some reg, None) \<and>
     led reg 0 = (False, True) \<and> led reg 1 = (False, True) \<and> led reg 2 = (True, False)"
proof -
  have args: "list_all led_arg [''d0'', ''l1'', ''d1'', ''fs'']"
    by (simp add: led_arg_def letter_def numeral_3_eq_3 Ex_less_Suc2) 
  then obtain reg where "llctl_main 0 [''d0'', ''l1'', ''d1'', ''fs''] (Some 0) = kret (0, Some (0 OR reg), None)"
    "\<forall>i < 3. led reg i = led_spec (last_cmd i [''d0'', ''l1'', ''d1'', ''fs'']) (led 0 i)"
    using llctl_sets_leds [OF _ args, of 0 0] by auto
  then show ?thesis by (intro exI [of _ reg]) (simp add: letter_def led_def)
qed

text \<open>
  Fact: an LED letter the tool does not know makes it write in front of the array of commands.
\<close>

theorem llctl_unknown_led:
  assumes "length a = 2" and "hd a \<notin> set ''dlfw''"
  shows "llctl_main junk (a # args) dev = kfail BufferOverrun"
  using assms by (auto simp: llctl_main_def parse_cmdline_def Let_def)

theorem llctl_unknown_led_witness: "llctl_main 0 [''x1''] (Some 0) = kfail BufferOverrun"
  using llctl_unknown_led [of "''x1''" 0 "[]" "Some 0"] by simp

end
