(* ===== verification/Usb_Relay.thy ===== *)
theory Usb_Relay
  imports C_Strings
begin

text \<open>
  The tool that switches a USB relay, \<open>src/sources/utils/usb-relay-ctl/usb-relay-ctl.c\<close>. The answers of
  \<open>getopt\<close>, the option letter and \<open>optarg\<close>, are an argument; as the option string is \<open>d:n:s\<close>, an
  option \<open>s\<close> comes with a null \<open>optarg\<close>. The serial port is an argument: whether it can be opened.
  Its terminal settings are not modelled. The buffers of \<open>main\<close> start with unknown contents.
\<close>

section \<open>The program\<close>

record relay_vars =
  dev_node :: string
  relay_state :: string
  relay_pos :: s32

text \<open>\<open>strcpy\<close> into a buffer of 256 bytes.\<close>

definition strcpy256 :: "string option \<Rightarrow> string kres" where
  "strcpy256 src = (case src of None \<Rightarrow> kfail BadDeref
     | Some s \<Rightarrow> if length s < 256 then kret s else kfail BufferOverrun)"

fun relay_options :: "(char \<times> string option) list \<Rightarrow> relay_vars \<Rightarrow> relay_vars kres" where
  "relay_options [] v = kret v"
| "relay_options ((opt, optarg) # os) v =
     (if opt = CHR ''d'' then kbind (strcpy256 optarg) (\<lambda>s. relay_options os (v\<lparr>dev_node := s\<rparr>))
      else if opt = CHR ''n'' then
        (case optarg of None \<Rightarrow> kfail BadDeref | Some s \<Rightarrow> relay_options os (v\<lparr>relay_pos := atoi s\<rparr>))
      else if opt = CHR ''s'' then kbind (strcpy256 optarg) (\<lambda>s. relay_options os (v\<lparr>relay_state := s\<rparr>))
      else relay_options os v)"

text \<open>The four bytes; \<open>strcmp\<close> is true for strings that differ.\<close>

definition relay_frame :: "relay_vars \<Rightarrow> bytes" where
  "relay_frame v = [0xA0, 0x01] @ (if relay_state v \<noteq> ''on'' then [0x01, 0xA2] else [0x00, 0xA1])"

text \<open>The exit code, and what is written to which device.\<close>

definition relay_main :: "(string \<Rightarrow> bool) \<Rightarrow> (char \<times> string option) list \<Rightarrow> relay_vars \<Rightarrow> (int \<times> (string \<times> bytes) option) kres" where
  "relay_main can_open opts v =
     kbind (relay_options opts v) (\<lambda>v.
       if \<not> can_open ''/dev/ttyUSB0'' then kret (-1, None)
       else kret (0, Some (''/dev/ttyUSB0'', relay_frame v)))"

section \<open>Properties\<close>

text \<open>What \<open>getopt\<close> answers for the option string \<open>d:n:s\<close>.\<close>

definition getopt_answers :: "(char \<times> string option) list \<Rightarrow> bool" where
  "getopt_answers opts \<longleftrightarrow> (\<forall>(c, a) \<in> set opts. (c = CHR ''d'' \<or> c = CHR ''n'') = (a \<noteq> None))"

definition fits :: "string option \<Rightarrow> bool" where
  "fits a \<longleftrightarrow> (case a of None \<Rightarrow> True | Some s \<Rightarrow> length s < 256)"

lemma relay_options_ok:
  "getopt_answers opts \<Longrightarrow> \<forall>(c, a) \<in> set opts. c \<noteq> CHR ''s'' \<and> fits a \<Longrightarrow>
     \<exists>v'. relay_options opts v = kret v' \<and> relay_state v' = relay_state v"
proof (induction opts arbitrary: v)
  case (Cons x os)
  obtain c a where x: "x = (c, a)" by (cases x)
  have ca: "c \<noteq> CHR ''s''" "fits a" "(c = CHR ''d'' \<or> c = CHR ''n'') = (a \<noteq> None)"
    using Cons.prems by (simp_all add: x getopt_answers_def)
  have IH: "\<exists>v'. relay_options os u = kret v' \<and> relay_state v' = relay_state u" for u
    by (rule Cons.IH) (use Cons.prems in \<open>simp_all add: getopt_answers_def\<close>)
  show ?case
  proof (cases a)
    case None
    with ca IH show ?thesis by (simp add: x)
  next
    case (Some s)
    then have "strcpy256 a = kret s" using ca(2) by (simp add: fits_def strcpy256_def)
    moreover have "c = CHR ''d'' \<or> c = CHR ''n''" using ca(3) Some by simp
    ultimately show ?thesis
      using IH [of "v\<lparr>dev_node := s\<rparr>"] IH [of "v\<lparr>relay_pos := atoi s\<rparr>"] Some
      by (elim disjE) (simp_all add: x)
  qed
qed simp

lemma relay_options_s:
  "getopt_answers opts \<Longrightarrow> CHR ''s'' \<in> fst ` set opts \<Longrightarrow>
     relay_options opts v = kfail BadDeref \<or> relay_options opts v = kfail BufferOverrun"
proof (induction opts arbitrary: v)
  case (Cons x os)
  obtain c a where x: "x = (c, a)" by (cases x)
  have os: "getopt_answers os" using Cons.prems(1) by (simp add: getopt_answers_def)
  show ?case
  proof (cases "c = CHR ''s''")
    case True
    then have "a = None" using Cons.prems(1) x by (auto simp: getopt_answers_def)
    with True x show ?thesis by (simp add: strcpy256_def)
  next
    case False
    then have s: "CHR ''s'' \<in> fst ` set os" using Cons.prems(2) x by auto
    show ?thesis
    proof (cases a)
      case None
      then have "c \<noteq> CHR ''d''" "c \<noteq> CHR ''n''" using Cons.prems(1) x by (auto simp: getopt_answers_def)
      with False x Cons.IH [OF os s] show ?thesis by simp
    next
      case (Some t)
      then have "c = CHR ''d'' \<or> c = CHR ''n''" using Cons.prems(1) x by (auto simp: getopt_answers_def)
      with False x Some Cons.IH [OF os s] show ?thesis by (auto simp: strcpy256_def)
    qed
  qed
qed simp

text \<open>
  Fact: the state given on the command line never reaches the relay. Any use of the option \<open>s\<close> ends
  in a fault, as its argument is a null pointer. Without it, for whatever the uninitialised buffer holds and
  whatever device and position are given, the tool writes to \<open>/dev/ttyUSB0\<close> a frame for relay 1 with a
  correct checksum, which switches the relay on unless the buffer happens to hold the string on.
\<close>

theorem relay_state_not_set:
  assumes "getopt_answers opts" and "list_all (\<lambda>(c, a). fits a) opts"
  shows "if CHR ''s'' \<in> fst ` set opts
    then relay_main can_open opts v = kfail BadDeref \<or> relay_main can_open opts v = kfail BufferOverrun
    else (\<exists>b2 b3. relay_main (\<lambda>_. True) opts v = kret (0, Some (''/dev/ttyUSB0'', [0xA0, 0x01, b2, b3])) \<and>
       b3 = 0xA0 + 0x01 + b2 \<and> b2 = (if relay_state v = ''on'' then 0 else 1))"
proof (cases "CHR ''s'' \<in> fst ` set opts")
  case True
  then show ?thesis using relay_options_s [OF assms(1), of v] by (auto simp: relay_main_def)
next
  case False
  then have "\<forall>(c, a) \<in> set opts. c \<noteq> CHR ''s'' \<and> fits a"
    using assms(2) by (force simp: list_all_iff)
  from relay_options_ok [OF assms(1) this, of v] False show ?thesis
    by (auto simp: relay_main_def relay_frame_def)
qed

theorem relay_state_not_set_witness:
  "relay_main (\<lambda>_. True) [(CHR ''n'', Some ''2''), (CHR ''s'', None)] \<lparr>dev_node = [], relay_state = [], relay_pos = 0\<rparr> = kfail BadDeref \<and>
   relay_main (\<lambda>_. True) [(CHR ''n'', Some ''2'')] \<lparr>dev_node = [], relay_state = [], relay_pos = 0\<rparr>
     = kret (0, Some (''/dev/ttyUSB0'', [0xA0, 0x01, 0x01, 0xA2]))"
  using relay_state_not_set [of "[(CHR ''n'', Some ''2''), (CHR ''s'', None)]" "\<lambda>_. True" "\<lparr>dev_node = [], relay_state = [], relay_pos = 0\<rparr>"]
    relay_state_not_set [of "[(CHR ''n'', Some ''2'')]" "\<lambda>_. True" "\<lparr>dev_node = [], relay_state = [], relay_pos = 0\<rparr>"]
  by (simp add: getopt_answers_def fits_def) (simp add: strcpy256_def relay_main_def relay_frame_def)

end
