(* ===== verification/Json_Checker.thy ===== *)
theory Json_Checker
  imports C_Alloc
begin

text \<open>
  The JSON checker of the JSON-RPC server, a pushdown automaton
  (\<open>src/sources/lib/lib-adav-old/src/ADJsonChecker.cpp\<close>), and its caller
  \<open>json_checker_function\<close> in \<open>ADJsonRpcProxy.cpp\<close>. The tables are those of the source, row by row;
  an entry \<open>S s\<close> is a new state and \<open>A n\<close> the action the source codes as \<open>-n\<close>, \<open>A 1\<close> being the
  universal error code.
\<close>

section \<open>Tables\<close>

datatype classes =
  C_SPACE | C_WHITE | C_LCURB | C_RCURB | C_LSQRB | C_RSQRB | C_COLON | C_COMMA |
  C_QUOTE | C_BACKS | C_SLASH | C_PLUS | C_MINUS | C_POINT | C_ZERO | C_DIGIT |
  C_LOW_A | C_LOW_B | C_LOW_C | C_LOW_D | C_LOW_E | C_LOW_F | C_LOW_L | C_LOW_N |
  C_LOW_R | C_LOW_S | C_LOW_T | C_LOW_U | C_ABCDF | C_E | C_ETC

text \<open>The value of an enumerator.\<close>

fun class_no :: "classes \<Rightarrow> nat" where
  "class_no C_SPACE = 0"
| "class_no C_WHITE = 1"
| "class_no C_LCURB = 2"
| "class_no C_RCURB = 3"
| "class_no C_LSQRB = 4"
| "class_no C_RSQRB = 5"
| "class_no C_COLON = 6"
| "class_no C_COMMA = 7"
| "class_no C_QUOTE = 8"
| "class_no C_BACKS = 9"
| "class_no C_SLASH = 10"
| "class_no C_PLUS = 11"
| "class_no C_MINUS = 12"
| "class_no C_POINT = 13"
| "class_no C_ZERO = 14"
| "class_no C_DIGIT = 15"
| "class_no C_LOW_A = 16"
| "class_no C_LOW_B = 17"
| "class_no C_LOW_C = 18"
| "class_no C_LOW_D = 19"
| "class_no C_LOW_E = 20"
| "class_no C_LOW_F = 21"
| "class_no C_LOW_L = 22"
| "class_no C_LOW_N = 23"
| "class_no C_LOW_R = 24"
| "class_no C_LOW_S = 25"
| "class_no C_LOW_T = 26"
| "class_no C_LOW_U = 27"
| "class_no C_ABCDF = 28"
| "class_no C_E = 29"
| "class_no C_ETC = 30"

text \<open>\<open>None\<close> is a control character, which the source marks with the error code.\<close>

definition ascii_class :: "classes option list" where
  "ascii_class = [
   None, None, None, None, None, None, None, None,
   None, Some C_WHITE, Some C_WHITE, None, None, Some C_WHITE, None, None,
   None, None, None, None, None, None, None, None,
   None, None, None, None, None, None, None, None,
   Some C_SPACE, Some C_ETC, Some C_QUOTE, Some C_ETC, Some C_ETC, Some C_ETC, Some C_ETC, Some C_ETC,
   Some C_ETC, Some C_ETC, Some C_ETC, Some C_PLUS, Some C_COMMA, Some C_MINUS, Some C_POINT, Some C_SLASH,
   Some C_ZERO, Some C_DIGIT, Some C_DIGIT, Some C_DIGIT, Some C_DIGIT, Some C_DIGIT, Some C_DIGIT, Some C_DIGIT,
   Some C_DIGIT, Some C_DIGIT, Some C_COLON, Some C_ETC, Some C_ETC, Some C_ETC, Some C_ETC, Some C_ETC,
   Some C_ETC, Some C_ABCDF, Some C_ABCDF, Some C_ABCDF, Some C_ABCDF, Some C_E, Some C_ABCDF, Some C_ETC,
   Some C_ETC, Some C_ETC, Some C_ETC, Some C_ETC, Some C_ETC, Some C_ETC, Some C_ETC, Some C_ETC,
   Some C_ETC, Some C_ETC, Some C_ETC, Some C_ETC, Some C_ETC, Some C_ETC, Some C_ETC, Some C_ETC,
   Some C_ETC, Some C_ETC, Some C_ETC, Some C_LSQRB, Some C_BACKS, Some C_RSQRB, Some C_ETC, Some C_ETC,
   Some C_ETC, Some C_LOW_A, Some C_LOW_B, Some C_LOW_C, Some C_LOW_D, Some C_LOW_E, Some C_LOW_F, Some C_ETC,
   Some C_ETC, Some C_ETC, Some C_ETC, Some C_ETC, Some C_LOW_L, Some C_ETC, Some C_LOW_N, Some C_ETC,
   Some C_ETC, Some C_ETC, Some C_LOW_R, Some C_LOW_S, Some C_LOW_T, Some C_LOW_U, Some C_ETC, Some C_ETC,
   Some C_ETC, Some C_ETC, Some C_ETC, Some C_LCURB, Some C_ETC, Some C_RCURB, Some C_ETC, Some C_ETC]"

datatype states =
  GO | OK | OB | KE | CO | VA | AR | ST | ES | U1 |
  U2 | U3 | U4 | MI | ZE | IN | FR | E1 | E2 | E3 |
  T1 | T2 | T3 | F1 | F2 | F3 | F4 | N1 | N2 | N3

datatype cell = S states | A nat

fun state_transition_table :: "states \<Rightarrow> cell list" where
  "state_transition_table GO = [
   S GO, S GO, A 6, A 1, A 5, A 1, A 1, A 1, A 1, A 1, A 1, A 1, A 1, A 1, A 1, A 1,
   A 1, A 1, A 1, A 1, A 1, A 1, A 1, A 1, A 1, A 1, A 1, A 1, A 1, A 1, A 1]"
| "state_transition_table OK = [
   S OK, S OK, A 1, A 8, A 1, A 7, A 1, A 3, A 1, A 1, A 1, A 1, A 1, A 1, A 1, A 1,
   A 1, A 1, A 1, A 1, A 1, A 1, A 1, A 1, A 1, A 1, A 1, A 1, A 1, A 1, A 1]"
| "state_transition_table OB = [
   S OB, S OB, A 1, A 9, A 1, A 1, A 1, A 1, S ST, A 1, A 1, A 1, A 1, A 1, A 1, A 1,
   A 1, A 1, A 1, A 1, A 1, A 1, A 1, A 1, A 1, A 1, A 1, A 1, A 1, A 1, A 1]"
| "state_transition_table KE = [
   S KE, S KE, A 1, A 1, A 1, A 1, A 1, A 1, S ST, A 1, A 1, A 1, A 1, A 1, A 1, A 1,
   A 1, A 1, A 1, A 1, A 1, A 1, A 1, A 1, A 1, A 1, A 1, A 1, A 1, A 1, A 1]"
| "state_transition_table CO = [
   S CO, S CO, A 1, A 1, A 1, A 1, A 2, A 1, A 1, A 1, A 1, A 1, A 1, A 1, A 1, A 1,
   A 1, A 1, A 1, A 1, A 1, A 1, A 1, A 1, A 1, A 1, A 1, A 1, A 1, A 1, A 1]"
| "state_transition_table VA = [
   S VA, S VA, A 6, A 1, A 5, A 1, A 1, A 1, S ST, A 1, A 1, A 1, S MI, A 1, S ZE, S IN,
   A 1, A 1, A 1, A 1, A 1, S F1, A 1, S N1, A 1, A 1, S T1, A 1, A 1, A 1, A 1]"
| "state_transition_table AR = [
   S AR, S AR, A 6, A 1, A 5, A 7, A 1, A 1, S ST, A 1, A 1, A 1, S MI, A 1, S ZE, S IN,
   A 1, A 1, A 1, A 1, A 1, S F1, A 1, S N1, A 1, A 1, S T1, A 1, A 1, A 1, A 1]"
| "state_transition_table ST = [
   S ST, A 1, S ST, S ST, S ST, S ST, S ST, S ST, A 4, S ES, S ST, S ST, S ST, S ST, S ST, S ST,
   S ST, S ST, S ST, S ST, S ST, S ST, S ST, S ST, S ST, S ST, S ST, S ST, S ST, S ST, S ST]"
| "state_transition_table ES = [
   A 1, A 1, A 1, A 1, A 1, A 1, A 1, A 1, S ST, S ST, S ST, A 1, A 1, A 1, A 1, A 1,
   A 1, S ST, A 1, A 1, A 1, S ST, A 1, S ST, S ST, A 1, S ST, S U1, A 1, A 1, A 1]"
| "state_transition_table U1 = [
   A 1, A 1, A 1, A 1, A 1, A 1, A 1, A 1, A 1, A 1, A 1, A 1, A 1, A 1, S U2, S U2,
   S U2, S U2, S U2, S U2, S U2, S U2, A 1, A 1, A 1, A 1, A 1, A 1, S U2, S U2, A 1]"
| "state_transition_table U2 = [
   A 1, A 1, A 1, A 1, A 1, A 1, A 1, A 1, A 1, A 1, A 1, A 1, A 1, A 1, S U3, S U3,
   S U3, S U3, S U3, S U3, S U3, S U3, A 1, A 1, A 1, A 1, A 1, A 1, S U3, S U3, A 1]"
| "state_transition_table U3 = [
   A 1, A 1, A 1, A 1, A 1, A 1, A 1, A 1, A 1, A 1, A 1, A 1, A 1, A 1, S U4, S U4,
   S U4, S U4, S U4, S U4, S U4, S U4, A 1, A 1, A 1, A 1, A 1, A 1, S U4, S U4, A 1]"
| "state_transition_table U4 = [
   A 1, A 1, A 1, A 1, A 1, A 1, A 1, A 1, A 1, A 1, A 1, A 1, A 1, A 1, S ST, S ST,
   S ST, S ST, S ST, S ST, S ST, S ST, A 1, A 1, A 1, A 1, A 1, A 1, S ST, S ST, A 1]"
| "state_transition_table MI = [
   A 1, A 1, A 1, A 1, A 1, A 1, A 1, A 1, A 1, A 1, A 1, A 1, A 1, A 1, S ZE, S IN,
   A 1, A 1, A 1, A 1, A 1, A 1, A 1, A 1, A 1, A 1, A 1, A 1, A 1, A 1, A 1]"
| "state_transition_table ZE = [
   S OK, S OK, A 1, A 8, A 1, A 7, A 1, A 3, A 1, A 1, A 1, A 1, A 1, S FR, A 1, A 1,
   A 1, A 1, A 1, A 1, A 1, A 1, A 1, A 1, A 1, A 1, A 1, A 1, A 1, A 1, A 1]"
| "state_transition_table IN = [
   S OK, S OK, A 1, A 8, A 1, A 7, A 1, A 3, A 1, A 1, A 1, A 1, A 1, S FR, S IN, S IN,
   A 1, A 1, A 1, A 1, S E1, A 1, A 1, A 1, A 1, A 1, A 1, A 1, A 1, S E1, A 1]"
| "state_transition_table FR = [
   S OK, S OK, A 1, A 8, A 1, A 7, A 1, A 3, A 1, A 1, A 1, A 1, A 1, A 1, S FR, S FR,
   A 1, A 1, A 1, A 1, S E1, A 1, A 1, A 1, A 1, A 1, A 1, A 1, A 1, S E1, A 1]"
| "state_transition_table E1 = [
   A 1, A 1, A 1, A 1, A 1, A 1, A 1, A 1, A 1, A 1, A 1, S E2, S E2, A 1, S E3, S E3,
   A 1, A 1, A 1, A 1, A 1, A 1, A 1, A 1, A 1, A 1, A 1, A 1, A 1, A 1, A 1]"
| "state_transition_table E2 = [
   A 1, A 1, A 1, A 1, A 1, A 1, A 1, A 1, A 1, A 1, A 1, A 1, A 1, A 1, S E3, S E3,
   A 1, A 1, A 1, A 1, A 1, A 1, A 1, A 1, A 1, A 1, A 1, A 1, A 1, A 1, A 1]"
| "state_transition_table E3 = [
   S OK, S OK, A 1, A 8, A 1, A 7, A 1, A 3, A 1, A 1, A 1, A 1, A 1, A 1, S E3, S E3,
   A 1, A 1, A 1, A 1, A 1, A 1, A 1, A 1, A 1, A 1, A 1, A 1, A 1, A 1, A 1]"
| "state_transition_table T1 = [
   A 1, A 1, A 1, A 1, A 1, A 1, A 1, A 1, A 1, A 1, A 1, A 1, A 1, A 1, A 1, A 1,
   A 1, A 1, A 1, A 1, A 1, A 1, A 1, A 1, S T2, A 1, A 1, A 1, A 1, A 1, A 1]"
| "state_transition_table T2 = [
   A 1, A 1, A 1, A 1, A 1, A 1, A 1, A 1, A 1, A 1, A 1, A 1, A 1, A 1, A 1, A 1,
   A 1, A 1, A 1, A 1, A 1, A 1, A 1, A 1, A 1, A 1, A 1, S T3, A 1, A 1, A 1]"
| "state_transition_table T3 = [
   A 1, A 1, A 1, A 1, A 1, A 1, A 1, A 1, A 1, A 1, A 1, A 1, A 1, A 1, A 1, A 1,
   A 1, A 1, A 1, A 1, S OK, A 1, A 1, A 1, A 1, A 1, A 1, A 1, A 1, A 1, A 1]"
| "state_transition_table F1 = [
   A 1, A 1, A 1, A 1, A 1, A 1, A 1, A 1, A 1, A 1, A 1, A 1, A 1, A 1, A 1, A 1,
   S F2, A 1, A 1, A 1, A 1, A 1, A 1, A 1, A 1, A 1, A 1, A 1, A 1, A 1, A 1]"
| "state_transition_table F2 = [
   A 1, A 1, A 1, A 1, A 1, A 1, A 1, A 1, A 1, A 1, A 1, A 1, A 1, A 1, A 1, A 1,
   A 1, A 1, A 1, A 1, A 1, A 1, S F3, A 1, A 1, A 1, A 1, A 1, A 1, A 1, A 1]"
| "state_transition_table F3 = [
   A 1, A 1, A 1, A 1, A 1, A 1, A 1, A 1, A 1, A 1, A 1, A 1, A 1, A 1, A 1, A 1,
   A 1, A 1, A 1, A 1, A 1, A 1, A 1, A 1, A 1, S F4, A 1, A 1, A 1, A 1, A 1]"
| "state_transition_table F4 = [
   A 1, A 1, A 1, A 1, A 1, A 1, A 1, A 1, A 1, A 1, A 1, A 1, A 1, A 1, A 1, A 1,
   A 1, A 1, A 1, A 1, S OK, A 1, A 1, A 1, A 1, A 1, A 1, A 1, A 1, A 1, A 1]"
| "state_transition_table N1 = [
   A 1, A 1, A 1, A 1, A 1, A 1, A 1, A 1, A 1, A 1, A 1, A 1, A 1, A 1, A 1, A 1,
   A 1, A 1, A 1, A 1, A 1, A 1, A 1, A 1, A 1, A 1, A 1, S N2, A 1, A 1, A 1]"
| "state_transition_table N2 = [
   A 1, A 1, A 1, A 1, A 1, A 1, A 1, A 1, A 1, A 1, A 1, A 1, A 1, A 1, A 1, A 1,
   A 1, A 1, A 1, A 1, A 1, A 1, S N3, A 1, A 1, A 1, A 1, A 1, A 1, A 1, A 1]"
| "state_transition_table N3 = [
   A 1, A 1, A 1, A 1, A 1, A 1, A 1, A 1, A 1, A 1, A 1, A 1, A 1, A 1, A 1, A 1,
   A 1, A 1, A 1, A 1, A 1, A 1, S OK, A 1, A 1, A 1, A 1, A 1, A 1, A 1, A 1]"

datatype modes = MODE_ARRAY | MODE_DONE | MODE_KEY | MODE_OBJECT

section \<open>The checker\<close>

record JSON_checker =
  jstate :: states
  jdepth :: int
  jtop :: int
  jstack :: "modes list"

text \<open>Reading and writing a cell of the allocated stack.\<close>

definition stack_at :: "JSON_checker \<Rightarrow> modes kres" where
  "stack_at jc = (if 0 \<le> jtop jc \<and> nat (jtop jc) < length (jstack jc)
     then kret (jstack jc ! nat (jtop jc)) else kfail BufferOverrun)"

definition push :: "JSON_checker \<Rightarrow> modes \<Rightarrow> (bool \<times> JSON_checker) kres" where
  "push jc mode =
     (let jc = jc\<lparr>jtop := jtop jc + 1\<rparr> in
      if jdepth jc \<le> jtop jc then kret (False, jc)
      else if 0 \<le> jtop jc \<and> nat (jtop jc) < length (jstack jc)
      then kret (True, jc\<lparr>jstack := (jstack jc)[nat (jtop jc) := mode]\<rparr>)
      else kfail BufferOverrun)"

definition pop :: "JSON_checker \<Rightarrow> modes \<Rightarrow> (bool \<times> JSON_checker) kres" where
  "pop jc mode =
     (if jtop jc < 0 then kret (False, jc)
      else kbind (stack_at jc) (\<lambda>m.
        if m \<noteq> mode then kret (False, jc) else kret (True, jc\<lparr>jtop := jtop jc - 1\<rparr>)))"

text \<open>
  The object and its stack are two blocks; nothing checks the allocations. \<open>calloc\<close> clears the stack,
  and 0 is \<open>MODE_ARRAY\<close>.
\<close>

definition new_JSON_checker :: "allocator \<Rightarrow> alloc \<Rightarrow> int \<Rightarrow> (JSON_checker \<times> alloc) kres" where
  "new_JSON_checker ok h depth =
     (let (got, h) = malloc ok h in
      if \<not> got then kfail BadDeref
      else let (got, h) = malloc ok h;
           jc = \<lparr>jstate = GO, jdepth = depth, jtop = - 1,
                 jstack = (if got then replicate (nat depth) MODE_ARRAY else [])\<rparr> in
      if \<not> got \<and> 0 < depth then kfail BadDeref
      else kbind (push jc MODE_DONE) (\<lambda>(_, jc). kret (jc, h)))"

text \<open>
  A checker that rejects deletes itself, so the result of a call is \<open>None\<close> for \<open>false\<close>, and the checker
  for \<open>true\<close>.
\<close>

definition reject :: "alloc \<Rightarrow> (JSON_checker option \<times> alloc) kres" where
  "reject h = kret (None, free (free h))"

definition char_class :: "int \<Rightarrow> classes option" where
  "char_class next_char = (if 128 \<le> next_char then Some C_ETC else ascii_class ! nat next_char)"

text \<open>Pop a mode, then push another or go on, and change the state.\<close>

definition pop_then :: "JSON_checker \<Rightarrow> alloc \<Rightarrow> modes \<Rightarrow> states \<Rightarrow> (JSON_checker option \<times> alloc) kres" where
  "pop_then jc h mode st = kbind (pop jc mode) (\<lambda>(done, jc).
     if \<not> done then reject h else kret (Some (jc\<lparr>jstate := st\<rparr>), h))"

definition push_then :: "JSON_checker \<Rightarrow> alloc \<Rightarrow> modes \<Rightarrow> states \<Rightarrow> (JSON_checker option \<times> alloc) kres" where
  "push_then jc h mode st = kbind (push jc mode) (\<lambda>(done, jc).
     if \<not> done then reject h else kret (Some (jc\<lparr>jstate := st\<rparr>), h))"

definition flip_then ::
  "JSON_checker \<Rightarrow> alloc \<Rightarrow> modes \<Rightarrow> modes \<Rightarrow> states \<Rightarrow> (JSON_checker option \<times> alloc) kres" where
  "flip_then jc h old new st = kbind (pop jc old) (\<lambda>(done, jc).
     if \<not> done then reject h else push_then jc h new st)"

definition JSON_action :: "JSON_checker \<Rightarrow> alloc \<Rightarrow> nat \<Rightarrow> (JSON_checker option \<times> alloc) kres" where
  "JSON_action jc h act =
     (if act = 9 then pop_then jc h MODE_KEY OK
      else if act = 8 then pop_then jc h MODE_OBJECT OK
      else if act = 7 then pop_then jc h MODE_ARRAY OK
      else if act = 6 then push_then jc h MODE_KEY OB
      else if act = 5 then push_then jc h MODE_ARRAY AR
      else if act = 4 then kbind (stack_at jc) (\<lambda>m. case m of
          MODE_KEY \<Rightarrow> kret (Some (jc\<lparr>jstate := CO\<rparr>), h)
        | MODE_ARRAY \<Rightarrow> kret (Some (jc\<lparr>jstate := OK\<rparr>), h)
        | MODE_OBJECT \<Rightarrow> kret (Some (jc\<lparr>jstate := OK\<rparr>), h)
        | MODE_DONE \<Rightarrow> reject h)
      else if act = 3 then kbind (stack_at jc) (\<lambda>m. case m of
          MODE_OBJECT \<Rightarrow> flip_then jc h MODE_OBJECT MODE_KEY KE
        | MODE_ARRAY \<Rightarrow> kret (Some (jc\<lparr>jstate := VA\<rparr>), h)
        | _ \<Rightarrow> reject h)
      else if act = 2 then flip_then jc h MODE_KEY MODE_OBJECT VA
      else reject h)"

definition JSON_checker_char :: "JSON_checker \<Rightarrow> alloc \<Rightarrow> int \<Rightarrow> (JSON_checker option \<times> alloc) kres" where
  "JSON_checker_char jc h next_char =
     (if next_char < 0 then reject h
      else case char_class next_char of
        None \<Rightarrow> reject h
      | Some next_class \<Rightarrow>
          (case state_transition_table (jstate jc) ! class_no next_class of
             S next_state \<Rightarrow> kret (Some (jc\<lparr>jstate := next_state\<rparr>), h)
           | A act \<Rightarrow> JSON_action jc h act))"

definition JSON_checker_done :: "JSON_checker \<Rightarrow> alloc \<Rightarrow> (bool \<times> alloc) kres" where
  "JSON_checker_done jc h =
     (if jstate jc = OK
      then kbind (pop jc MODE_DONE) (\<lambda>(done, _). kret (done, free (free h)))
      else kret (False, free (free h)))"

text \<open>
  The caller. A \<open>char\<close> of the text becomes an \<open>int\<close>; whether a byte above 127 is then negative
  depends on the signedness of \<open>char\<close> on the target. The result is whether the function returns 0.
\<close>

definition char_int :: "bool \<Rightarrow> char \<Rightarrow> int" where
  "char_int sg c = (if sg \<and> 128 \<le> (of_char c :: int) then of_char c - 256 else of_char c)"

fun check_chars :: "bool \<Rightarrow> JSON_checker \<Rightarrow> alloc \<Rightarrow> string \<Rightarrow> (bool \<times> alloc) kres" where
  "check_chars sg jc h [] = JSON_checker_done jc h"
| "check_chars sg jc h (c # cs) =
     (if char_int sg c \<le> 0 then JSON_checker_done jc h
      else kbind (JSON_checker_char jc h (char_int sg c)) (\<lambda>(r, h). case r of
          None \<Rightarrow> kret (False, h)
        | Some jc \<Rightarrow> check_chars sg jc h cs))"

definition json_checker_function :: "allocator \<Rightarrow> bool \<Rightarrow> alloc \<Rightarrow> string \<Rightarrow> (bool \<times> alloc) kres" where
  "json_checker_function ok sg h str =
     kbind (new_JSON_checker ok h 20) (\<lambda>(jc, h). check_chars sg jc h str)"

end
