(* ===== verification/Json_Grammar.thy ===== *)
theory Json_Grammar
  imports Json_Checker
begin

text \<open>
  What the JSON checker accepts. A reference grammar of JSON texts with a bound on the nesting is
  written without the tables of the checker; the automaton is shown to refine a machine with a list as
  its stack, and that machine to accept exactly the grammar.
\<close>

section \<open>The reference grammar\<close>

abbreviation (input) "dquote \<equiv> CHR 0x22"
abbreviation (input) "bslash \<equiv> CHR 0x5C"

definition is_ws :: "char \<Rightarrow> bool" where
  "is_ws c \<longleftrightarrow> c \<in> set [CHR '' '', CHR 0x09, CHR 0x0A, CHR 0x0D]"

definition digit :: "char \<Rightarrow> bool" where
  "digit c \<longleftrightarrow> c \<in> set ''0123456789''"

definition hex :: "char \<Rightarrow> bool" where
  "hex c \<longleftrightarrow> c \<in> set ''0123456789abcdefABCDEF''"

definition plain :: "char \<Rightarrow> bool" where
  "plain c \<longleftrightarrow> (32::nat) \<le> of_char c \<and> c \<noteq> dquote \<and> c \<noteq> bslash"

definition escape :: "char \<Rightarrow> bool" where
  "escape c \<longleftrightarrow> c \<in> set (dquote # bslash # ''/bfnrt'')"

definition exp_mark :: "char \<Rightarrow> bool" where
  "exp_mark c \<longleftrightarrow> c \<in> set ''eE''"

abbreviation ws :: "string \<Rightarrow> bool" where
  "ws s \<equiv> list_all is_ws s"

inductive str_body :: "string \<Rightarrow> bool" where
  body_nil: "str_body []"
| body_plain: "plain c \<Longrightarrow> str_body s \<Longrightarrow> str_body (c # s)"
| body_escape: "escape c \<Longrightarrow> str_body s \<Longrightarrow> str_body (bslash # c # s)"
| body_unicode: "hex a \<Longrightarrow> hex b \<Longrightarrow> hex c \<Longrightarrow> hex d \<Longrightarrow> str_body s \<Longrightarrow>
    str_body (bslash # CHR ''u'' # a # b # c # d # s)"

definition jstring :: "string \<Rightarrow> bool" where
  "jstring s \<longleftrightarrow> (\<exists>b. s = dquote # b @ [dquote] \<and> str_body b)"

text \<open>
  Numbers as the checker has them: the digits after a point may be missing, and a lone zero takes no
  exponent.
\<close>

definition frac_part :: "string \<Rightarrow> bool" where
  "frac_part f \<longleftrightarrow> f = [] \<or> (\<exists>ds. f = CHR ''.'' # ds \<and> list_all digit ds)"

definition exp_digits :: "string \<Rightarrow> bool" where
  "exp_digits e \<longleftrightarrow> (\<exists>sg ds. e = sg @ ds \<and> sg \<in> {[], ''+'', ''-''} \<and> ds \<noteq> [] \<and> list_all digit ds)"

definition exp_part :: "string \<Rightarrow> bool" where
  "exp_part e \<longleftrightarrow> e = [] \<or> (\<exists>m ds. e = m # ds \<and> exp_mark m \<and> exp_digits ds)"

definition zero_number :: "string \<Rightarrow> bool" where
  "zero_number n \<longleftrightarrow> (\<exists>f e. n = CHR ''0'' # f @ e \<and> frac_part f \<and> exp_part e \<and> (f = [] \<longrightarrow> e = []))"

definition int_number :: "string \<Rightarrow> bool" where
  "int_number n \<longleftrightarrow> (\<exists>d ds f e. n = d # ds @ f @ e \<and> digit d \<and> d \<noteq> CHR ''0'' \<and> list_all digit ds \<and>
     frac_part f \<and> exp_part e)"

definition unsigned_number :: "string \<Rightarrow> bool" where
  "unsigned_number n \<longleftrightarrow> zero_number n \<or> int_number n"

definition jnumber :: "string \<Rightarrow> bool" where
  "jnumber n \<longleftrightarrow> unsigned_number n \<or> (\<exists>m. n = CHR ''-'' # m \<and> unsigned_number m)"

definition jliteral :: "string \<Rightarrow> bool" where
  "jliteral s \<longleftrightarrow> s = ''true'' \<or> s = ''false'' \<or> s = ''null''"

text \<open>Values with at most \<open>d\<close> levels of arrays and objects, and the inside of arrays and objects.\<close>

inductive jvalue :: "nat \<Rightarrow> string \<Rightarrow> bool" and jelems :: "nat \<Rightarrow> string \<Rightarrow> bool" and
  jmembers :: "nat \<Rightarrow> string \<Rightarrow> bool" where
  val_string: "jstring s \<Longrightarrow> jvalue d s"
| val_number: "jnumber s \<Longrightarrow> jvalue d s"
| val_literal: "jliteral s \<Longrightarrow> jvalue d s"
| val_empty_array: "ws w \<Longrightarrow> jvalue (Suc d) (CHR ''['' # w @ '']'')"
| val_array: "jelems d s \<Longrightarrow> jvalue (Suc d) (CHR ''['' # s @ '']'')"
| val_empty_object: "ws w \<Longrightarrow> jvalue (Suc d) (CHR ''{'' # w @ ''}'')"
| val_object: "jmembers d s \<Longrightarrow> jvalue (Suc d) (CHR ''{'' # s @ ''}'')"
| elems_one: "ws a \<Longrightarrow> jvalue d v \<Longrightarrow> ws b \<Longrightarrow> jelems d (a @ v @ b)"
| elems_more: "ws a \<Longrightarrow> jvalue d v \<Longrightarrow> ws b \<Longrightarrow> jelems d s \<Longrightarrow> jelems d (a @ v @ b @ CHR '','' # s)"
| members_one: "ws a \<Longrightarrow> jstring k \<Longrightarrow> ws b \<Longrightarrow> ws c \<Longrightarrow> jvalue d v \<Longrightarrow> ws e \<Longrightarrow>
    jmembers d (a @ k @ b @ CHR '':'' # c @ v @ e)"
| members_more: "ws a \<Longrightarrow> jstring k \<Longrightarrow> ws b \<Longrightarrow> ws c \<Longrightarrow> jvalue d v \<Longrightarrow> ws e \<Longrightarrow> jmembers d s \<Longrightarrow>
    jmembers d (a @ k @ b @ CHR '':'' # c @ v @ e @ CHR '','' # s)"

text \<open>A text is one array or object with white space around it.\<close>

definition json_text :: "nat \<Rightarrow> string \<Rightarrow> bool" where
  "json_text d s \<longleftrightarrow> (\<exists>a v b. s = a @ v @ b \<and> ws a \<and> ws b \<and> jvalue d v \<and> hd v \<in> set ''[{'')"

section \<open>The machine with a list as its stack\<close>

text \<open>The table read by the character.\<close>

definition cls :: "char \<Rightarrow> classes option" where
  "cls c = char_class (of_char c)"

definition cell :: "states \<Rightarrow> char \<Rightarrow> cell" where
  "cell st c = (case cls c of None \<Rightarrow> A 1 | Some k \<Rightarrow> state_transition_table st ! class_no k)"

fun action :: "nat \<Rightarrow> nat \<Rightarrow> modes list \<Rightarrow> (states \<times> modes list) option" where
  "action D n [] = None"
| "action D n (m # stk) =
     (if n = 9 then if m = MODE_KEY then Some (OK, stk) else None
      else if n = 8 then if m = MODE_OBJECT then Some (OK, stk) else None
      else if n = 7 then if m = MODE_ARRAY then Some (OK, stk) else None
      else if n = 6 then if length (m # stk) < D then Some (OB, MODE_KEY # m # stk) else None
      else if n = 5 then if length (m # stk) < D then Some (AR, MODE_ARRAY # m # stk) else None
      else if n = 4 then
        if m = MODE_KEY then Some (CO, m # stk) else if m = MODE_DONE then None else Some (OK, m # stk)
      else if n = 3 then
        if m = MODE_OBJECT then Some (KE, MODE_KEY # stk)
        else if m = MODE_ARRAY then Some (VA, m # stk) else None
      else if n = 2 then if m = MODE_KEY then Some (VA, MODE_OBJECT # stk) else None
      else None)"

definition mstep :: "nat \<Rightarrow> states \<times> modes list \<Rightarrow> char \<Rightarrow> (states \<times> modes list) option" where
  "mstep D cfg c = (case cell (fst cfg) c of S s \<Rightarrow> Some (s, snd cfg) | A n \<Rightarrow> action D n (snd cfg))"

fun acc :: "nat \<Rightarrow> states \<Rightarrow> modes list \<Rightarrow> string \<Rightarrow> bool" where
  "acc D st stk [] \<longleftrightarrow> st = OK \<and> stk \<noteq> [] \<and> hd stk = MODE_DONE"
| "acc D st stk (c # cs) \<longleftrightarrow> (case mstep D (st, stk) c of None \<Rightarrow> False | Some (st', stk') \<Rightarrow> acc D st' stk' cs)"

section \<open>Reading the table\<close>

lemma all_chars: "list_all P Enum.enum \<Longrightarrow> P (c :: char)"
  by (simp add: list_all_iff enum_UNIV)

lemmas char_preds = is_ws_def digit_def hex_def plain_def escape_def exp_mark_def

lemma cell_GO: "cell GO c = (if is_ws c then S GO else if c = CHR ''{'' then A 6
  else if c = CHR ''['' then A 5 else A 1)"
  by (rule all_chars) code_simp

lemma cell_OK: "cell OK c = (if is_ws c then S OK else if c = CHR ''}'' then A 8
  else if c = CHR '']'' then A 7 else if c = CHR '','' then A 3 else A 1)"
  by (rule all_chars) code_simp

lemma cell_OB: "cell OB c = (if is_ws c then S OB else if c = CHR ''}'' then A 9
  else if c = dquote then S ST else A 1)"
  by (rule all_chars) code_simp

lemma cell_KE: "cell KE c = (if is_ws c then S KE else if c = dquote then S ST else A 1)"
  by (rule all_chars) code_simp

lemma cell_CO: "cell CO c = (if is_ws c then S CO else if c = CHR '':'' then A 2 else A 1)"
  by (rule all_chars) code_simp

lemma cell_VA: "cell VA c = (if is_ws c then S VA else if c = CHR ''{'' then A 6
  else if c = CHR ''['' then A 5 else if c = dquote then S ST else if c = CHR ''-'' then S MI
  else if c = CHR ''0'' then S ZE else if digit c then S IN else if c = CHR ''f'' then S F1
  else if c = CHR ''n'' then S N1 else if c = CHR ''t'' then S T1 else A 1)"
  by (rule all_chars) code_simp

lemma cell_AR: "cell AR c = (if is_ws c then S AR else if c = CHR '']'' then A 7 else cell VA c)"
  by (rule all_chars) code_simp

lemma cell_ST: "cell ST c = (if plain c then S ST else if c = dquote then A 4
  else if c = bslash then S ES else A 1)"
  by (rule all_chars) code_simp

lemma cell_ES: "cell ES c = (if escape c then S ST else if c = CHR ''u'' then S U1 else A 1)"
  by (rule all_chars) code_simp

lemma cell_U1: "cell U1 c = (if hex c then S U2 else A 1)"
  by (rule all_chars) code_simp

lemma cell_U2: "cell U2 c = (if hex c then S U3 else A 1)"
  by (rule all_chars) code_simp

lemma cell_U3: "cell U3 c = (if hex c then S U4 else A 1)"
  by (rule all_chars) code_simp

lemma cell_U4: "cell U4 c = (if hex c then S ST else A 1)"
  by (rule all_chars) code_simp

lemma cell_MI: "cell MI c = (if c = CHR ''0'' then S ZE else if digit c then S IN else A 1)"
  by (rule all_chars) code_simp

lemma cell_ZE: "cell ZE c = (if c = CHR ''.'' then S FR else cell OK c)"
  by (rule all_chars) code_simp

lemma cell_IN: "cell IN c = (if digit c then S IN else if c = CHR ''.'' then S FR
  else if exp_mark c then S E1 else cell OK c)"
  by (rule all_chars) code_simp

lemma cell_FR: "cell FR c = (if digit c then S FR else if exp_mark c then S E1 else cell OK c)"
  by (rule all_chars) code_simp

lemma cell_E1: "cell E1 c = (if c = CHR ''+'' \<or> c = CHR ''-'' then S E2 else if digit c then S E3 else A 1)"
  by (rule all_chars) code_simp

lemma cell_E2: "cell E2 c = (if digit c then S E3 else A 1)"
  by (rule all_chars) code_simp

lemma cell_E3: "cell E3 c = (if digit c then S E3 else cell OK c)"
  by (rule all_chars) code_simp

lemma cell_T1: "cell T1 c = (if c = CHR ''r'' then S T2 else A 1)"
  by (rule all_chars) code_simp

lemma cell_T2: "cell T2 c = (if c = CHR ''u'' then S T3 else A 1)"
  by (rule all_chars) code_simp

lemma cell_T3: "cell T3 c = (if c = CHR ''e'' then S OK else A 1)"
  by (rule all_chars) code_simp

lemma cell_F1: "cell F1 c = (if c = CHR ''a'' then S F2 else A 1)"
  by (rule all_chars) code_simp

lemma cell_F2: "cell F2 c = (if c = CHR ''l'' then S F3 else A 1)"
  by (rule all_chars) code_simp

lemma cell_F3: "cell F3 c = (if c = CHR ''s'' then S F4 else A 1)"
  by (rule all_chars) code_simp

lemma cell_F4: "cell F4 c = (if c = CHR ''e'' then S OK else A 1)"
  by (rule all_chars) code_simp

lemma cell_N1: "cell N1 c = (if c = CHR ''u'' then S N2 else A 1)"
  by (rule all_chars) code_simp

lemma cell_N2: "cell N2 c = (if c = CHR ''l'' then S N3 else A 1)"
  by (rule all_chars) code_simp

lemma cell_N3: "cell N3 c = (if c = CHR ''l'' then S OK else A 1)"
  by (rule all_chars) code_simp

lemmas cell_literals = cell_T1 cell_T2 cell_T3 cell_F1 cell_F2 cell_F3 cell_F4 cell_N1 cell_N2 cell_N3

lemma action_1 [simp]: "action D (Suc 0) stk = None"
  by (cases stk) auto

definition act_acc :: "nat \<Rightarrow> nat \<Rightarrow> modes list \<Rightarrow> string \<Rightarrow> bool" where
  "act_acc D n stk cs \<longleftrightarrow> (case action D n stk of None \<Rightarrow> False | Some (st', stk') \<Rightarrow> acc D st' stk' cs)"

lemma acc_Cons [simp]:
  "acc D st stk (c # cs) \<longleftrightarrow> (case cell st c of S s \<Rightarrow> acc D s stk cs | A n \<Rightarrow> act_acc D n stk cs)"
  by (simp add: mstep_def act_acc_def split: cell.split)

declare acc.simps(2) [simp del]

lemma act_acc_1 [simp]: "\<not> act_acc D (Suc 0) stk cs"
  by (simp add: act_acc_def)

lemma digit_other:
  "digit c \<Longrightarrow> \<not> is_ws c \<and> c \<noteq> CHR ''{'' \<and> c \<noteq> CHR ''['' \<and> c \<noteq> dquote \<and> c \<noteq> CHR ''-''"
  by (auto simp: digit_def is_ws_def)

end
