(* ===== verification/Json_Accepts.thy ===== *)
theory Json_Accepts
  imports Json_Grammar
begin

text \<open>
  The list-stack machine of the JSON checker accepts exactly the reference grammar, and the checker of
  the source refines that machine.
\<close>

section \<open>From the machine to the grammar\<close>

lemma acc_skip_ws:
  assumes "st \<in> {GO, OK, OB, KE, CO, VA, AR}" and "ws w"
  shows "acc D st stk (w @ s) \<longleftrightarrow> acc D st stk s"
proof -
  have "cell st c = S st" if "is_ws c" for c
    using assms(1) that by (auto simp: cell_GO cell_OK cell_OB cell_KE cell_CO cell_VA cell_AR)
  then show ?thesis
    using assms(2) by (induction w) simp_all
qed

lemma ws_split:
  obtains w t where "s = w @ t" "ws w" "t = [] \<or> \<not> is_ws (hd t)"
proof
  show "s = takeWhile is_ws s @ dropWhile is_ws s" by simp
  show "ws (takeWhile is_ws s)" by (auto simp: list_all_iff dest: set_takeWhileD)
  show "dropWhile is_ws s = [] \<or> \<not> is_ws (hd (dropWhile is_ws s))" using hd_dropWhile by blast
qed

lemma acc_E3: "acc D E3 stk s \<Longrightarrow> \<exists>ds t. s = ds @ t \<and> list_all digit ds \<and> acc D OK stk t"
proof (induction s)
  case (Cons c s)
  show ?case
  proof (cases "digit c")
    case True
    then obtain ds t where "s = ds @ t" "list_all digit ds" "acc D OK stk t"
      using Cons by (auto simp: cell_E3)
    then show ?thesis using True by (intro exI [of _ "c # ds"] exI [of _ t]) simp
  next
    case False
    then have "acc D OK stk (c # s)" using Cons.prems by (simp add: cell_E3)
    then show ?thesis by (intro exI [of _ "[]"] exI [of _ "c # s"]) simp
  qed
qed simp

lemma acc_E1: "acc D E1 stk s \<Longrightarrow> \<exists>e t. s = e @ t \<and> exp_digits e \<and> acc D OK stk t"
proof -
  have E2: "\<exists>ds t. s = ds @ t \<and> ds \<noteq> [] \<and> list_all digit ds \<and> acc D OK stk t" if "acc D E2 stk s" for s
  proof (cases s)
    case (Cons c u)
    then have "digit c" "acc D E3 stk u"
      using that by (auto simp: cell_E2 split: if_splits)
    with acc_E3 obtain ds t where "u = ds @ t" "list_all digit ds" "acc D OK stk t" by blast
    with \<open>digit c\<close> Cons show ?thesis by (intro exI [of _ "c # ds"] exI [of _ t]) simp
  qed (use that in simp)
  assume s: "acc D E1 stk s"
  show ?thesis
  proof (cases s)
    case (Cons c u)
    consider "c \<in> set ''+-''" "acc D E2 stk u" | "digit c" "acc D E3 stk u"
      using s Cons by (auto simp: cell_E1 split: if_splits)
    then show ?thesis
    proof cases
      case 1
      with E2 obtain ds t where "u = ds @ t" "ds \<noteq> []" "list_all digit ds" "acc D OK stk t" by blast
      with 1 Cons show ?thesis
        unfolding exp_digits_def by (intro exI [of _ "c # ds"] exI [of _ t]) (auto intro: exI [of _ "[c]"])
    next
      case 2
      with acc_E3 obtain ds t where "u = ds @ t" "list_all digit ds" "acc D OK stk t" by blast
      with 2 Cons show ?thesis
        unfolding exp_digits_def by (intro exI [of _ "c # ds"] exI [of _ t]) (auto intro: exI [of _ "[]"])
    qed
  qed (use s in simp)
qed

lemma acc_FR: "acc D FR stk s \<Longrightarrow> \<exists>ds e t. s = ds @ e @ t \<and> list_all digit ds \<and> exp_part e \<and> acc D OK stk t"
proof (induction s)
  case (Cons c s)
  consider "digit c" "acc D FR stk s" | "exp_mark c" "acc D E1 stk s" | "acc D OK stk (c # s)"
    using Cons.prems by (auto simp: cell_FR split: if_splits)
  then show ?case
  proof cases
    case 1
    with Cons.IH obtain ds e t where "s = ds @ e @ t" "list_all digit ds" "exp_part e" "acc D OK stk t" by blast
    with 1 show ?thesis by (intro exI [of _ "c # ds"] exI [of _ e] exI [of _ t]) simp
  next
    case 2
    with acc_E1 obtain e t where "s = e @ t" "exp_digits e" "acc D OK stk t" by blast
    with 2 show ?thesis
      by (intro exI [of _ "[]"] exI [of _ "c # e"] exI [of _ t]) (auto simp: exp_part_def)
  next
    case 3
    then show ?thesis by (intro exI [of _ "[]"] exI [of _ "c # s"]) (simp add: exp_part_def)
  qed
qed simp

lemma acc_IN: "acc D IN stk s \<Longrightarrow>
  \<exists>ds f e t. s = ds @ f @ e @ t \<and> list_all digit ds \<and> frac_part f \<and> exp_part e \<and> acc D OK stk t"
proof (induction s)
  case (Cons c s)
  consider "digit c" "acc D IN stk s" | "c = CHR ''.''" "acc D FR stk s" | "exp_mark c" "acc D E1 stk s"
    | "acc D OK stk (c # s)"
    using Cons.prems by (auto simp: cell_IN split: if_splits)
  then show ?case
  proof cases
    case 1
    with Cons.IH obtain ds f e t where
      "s = ds @ f @ e @ t" "list_all digit ds" "frac_part f" "exp_part e" "acc D OK stk t" by blast
    with 1 show ?thesis by (intro exI [of _ "c # ds"] exI [of _ f] exI [of _ e] exI [of _ t]) simp
  next
    case 2
    with acc_FR obtain ds e t where "s = ds @ e @ t" "list_all digit ds" "exp_part e" "acc D OK stk t" by blast
    with 2 show ?thesis
      by (intro exI [of _ "[]"] exI [of _ "c # ds"] exI [of _ e] exI [of _ t]) (auto simp: frac_part_def)
  next
    case 3
    with acc_E1 obtain e t where "s = e @ t" "exp_digits e" "acc D OK stk t" by blast
    with 3 show ?thesis
      by (intro exI [of _ "[]"] exI [of _ "[]"] exI [of _ "c # e"] exI [of _ t])
        (auto simp: exp_part_def frac_part_def)
  next
    case 4
    then show ?thesis by (intro exI [of _ "[]"] exI [of _ "c # s"]) (simp add: exp_part_def frac_part_def)
  qed
qed simp

lemma acc_ZE: "acc D ZE stk s \<Longrightarrow>
  \<exists>f e t. s = f @ e @ t \<and> frac_part f \<and> exp_part e \<and> (f = [] \<longrightarrow> e = []) \<and> acc D OK stk t"
proof (cases s)
  case (Cons c u)
  assume "acc D ZE stk s"
  then consider "c = CHR ''.''" "acc D FR stk u" | "acc D OK stk (c # u)"
    using Cons by (auto simp: cell_ZE split: if_splits)
  then show ?thesis
  proof cases
    case 1
    with acc_FR obtain ds e t where "u = ds @ e @ t" "list_all digit ds" "exp_part e" "acc D OK stk t" by blast
    with 1 Cons show ?thesis
      by (intro exI [of _ "c # ds"] exI [of _ e] exI [of _ t]) (auto simp: frac_part_def)
  next
    case 2
    with Cons show ?thesis by (intro exI [of _ "[]"] exI [of _ "c # u"]) (simp add: exp_part_def frac_part_def)
  qed
qed simp

lemma zero_numberI:
  "frac_part f \<Longrightarrow> exp_part e \<Longrightarrow> f = [] \<longrightarrow> e = [] \<Longrightarrow> unsigned_number (CHR ''0'' # f @ e)"
  unfolding unsigned_number_def zero_number_def by blast

lemma int_numberI:
  "digit d \<Longrightarrow> d \<noteq> CHR ''0'' \<Longrightarrow> list_all digit ds \<Longrightarrow> frac_part f \<Longrightarrow> exp_part e \<Longrightarrow>
   unsigned_number (d # ds @ f @ e)"
  unfolding unsigned_number_def int_number_def by blast

lemma acc_unsigned:
  assumes "st \<in> {VA, MI}" and "acc D st stk (c # s)" and "digit c"
  shows "\<exists>n t. c # s = n @ t \<and> unsigned_number n \<and> acc D OK stk t"
proof (cases "c = CHR ''0''")
  case True
  then have "acc D ZE stk s"
    using assms by (auto simp: cell_VA cell_MI is_ws_def)
  with acc_ZE obtain f e t where "s = f @ e @ t" "frac_part f" "exp_part e" "f = [] \<longrightarrow> e = []" "acc D OK stk t"
    by blast
  with True show ?thesis
    by (intro exI [of _ "c # f @ e"] exI [of _ t]) (simp add: zero_numberI)
next
  case False
  then have "cell VA c = S IN" "cell MI c = S IN"
    using assms(3) digit_other [OF assms(3)] by (simp_all add: cell_VA cell_MI)
  then have "acc D IN stk s" using assms(1,2) by auto
  from acc_IN [OF this] obtain ds f e t where
    "s = ds @ f @ e @ t" "list_all digit ds" "frac_part f" "exp_part e" "acc D OK stk t" by blast
  with False assms(3) show ?thesis
    by (intro exI [of _ "c # ds @ f @ e"] exI [of _ t]) (simp add: int_numberI)
qed

lemma acc_MI: "acc D MI stk s \<Longrightarrow> \<exists>n t. s = n @ t \<and> unsigned_number n \<and> acc D OK stk t"
proof (cases s)
  case (Cons c u)
  assume s: "acc D MI stk s"
  then have "digit c" using Cons by (auto simp: cell_MI digit_def split: if_splits)
  then show ?thesis using acc_unsigned s Cons by blast
qed simp

lemma acc_literal:
  "acc D T1 stk s \<Longrightarrow> \<exists>t. s = ''rue'' @ t \<and> acc D OK stk t"
  "acc D F1 stk s \<Longrightarrow> \<exists>t. s = ''alse'' @ t \<and> acc D OK stk t"
  "acc D N1 stk s \<Longrightarrow> \<exists>t. s = ''ull'' @ t \<and> acc D OK stk t"
proof -
  have T3: "\<exists>t. s = ''e'' @ t \<and> acc D OK stk t" if "acc D T3 stk s \<or> acc D F4 stk s" for s
    using that by (cases s) (auto simp: cell_literals split: if_splits)
  have N3: "\<exists>t. s = ''l'' @ t \<and> acc D OK stk t" if "acc D N3 stk s" for s
    using that by (cases s) (auto simp: cell_literals split: if_splits)
  have T2: "\<exists>t. s = ''ue'' @ t \<and> acc D OK stk t" if "acc D T2 stk s" for s
    using that T3 by (cases s) (fastforce simp: cell_literals split: if_splits)+
  have F3: "\<exists>t. s = ''se'' @ t \<and> acc D OK stk t" if "acc D F3 stk s" for s
    using that T3 by (cases s) (fastforce simp: cell_literals split: if_splits)+
  have F2: "\<exists>t. s = ''lse'' @ t \<and> acc D OK stk t" if "acc D F2 stk s" for s
    using that F3 by (cases s) (fastforce simp: cell_literals split: if_splits)+
  have N2: "\<exists>t. s = ''ll'' @ t \<and> acc D OK stk t" if "acc D N2 stk s" for s
    using that N3 by (cases s) (fastforce simp: cell_literals split: if_splits)+
  show "acc D T1 stk s \<Longrightarrow> \<exists>t. s = ''rue'' @ t \<and> acc D OK stk t"
    using T2 by (cases s) (fastforce simp: cell_literals split: if_splits)+
  show "acc D F1 stk s \<Longrightarrow> \<exists>t. s = ''alse'' @ t \<and> acc D OK stk t"
    using F2 by (cases s) (fastforce simp: cell_literals split: if_splits)+
  show "acc D N1 stk s \<Longrightarrow> \<exists>t. s = ''ull'' @ t \<and> acc D OK stk t"
    using N2 by (cases s) (fastforce simp: cell_literals split: if_splits)+
qed

lemma acc_ST:
  "acc D ST stk s \<Longrightarrow> \<exists>b t. s = b @ dquote # t \<and> str_body b \<and> act_acc D 4 stk t"
proof (induction s rule: length_induct)
  case (1 s)
  have IH: "\<exists>b t. u = b @ dquote # t \<and> str_body b \<and> act_acc D 4 stk t"
    if "acc D ST stk u" "length u < length s" for u
    using 1(1) that by blast
  obtain c u where s: "s = c # u" using 1(2) by (cases s) auto
  consider "plain c" "acc D ST stk u" | "c = dquote" "act_acc D 4 stk u" | "c = bslash" "acc D ES stk u"
    using 1(2) s by (auto simp: cell_ST split: if_splits)
  then show ?case
  proof cases
    case 1
    with IH [of u] s obtain b t where "u = b @ dquote # t" "str_body b" "act_acc D 4 stk t" by auto
    with 1 s show ?thesis by (intro exI [of _ "c # b"] exI [of _ t]) (simp add: body_plain)
  next
    case 2
    with s show ?thesis by (intro exI [of _ "[]"] exI [of _ u]) (simp add: body_nil)
  next
    case 3
    then obtain d v where u: "u = d # v" by (cases u) auto
    consider "escape d" "acc D ST stk v" | "d = CHR ''u''" "acc D U1 stk v"
      using 3 u by (auto simp: cell_ES split: if_splits)
    then show ?thesis
    proof cases
      case 1
      with IH [of v] s u obtain b t where "v = b @ dquote # t" "str_body b" "act_acc D 4 stk t" by auto
      with 1 3 s u show ?thesis
        by (intro exI [of _ "bslash # d # b"] exI [of _ t]) (simp add: body_escape)
    next
      case 2
      then obtain x1 v1 where "v = x1 # v1" "hex x1" "acc D U2 stk v1"
        by (cases v) (auto simp: cell_U1 split: if_splits)
      moreover then obtain x2 v2 where "v1 = x2 # v2" "hex x2" "acc D U3 stk v2"
        by (cases v1) (auto simp: cell_U2 split: if_splits)
      moreover then obtain x3 v3 where "v2 = x3 # v3" "hex x3" "acc D U4 stk v3"
        by (cases v2) (auto simp: cell_U3 split: if_splits)
      moreover then obtain x4 v4 where "v3 = x4 # v4" "hex x4" "acc D ST stk v4"
        by (cases v3) (auto simp: cell_U4 split: if_splits)
      moreover then obtain b t where "v4 = b @ dquote # t" "str_body b" "act_acc D 4 stk t"
        using IH [of v4] s u calculation by auto
      ultimately show ?thesis using 2 3 s u
        by (intro exI [of _ "bslash # CHR ''u'' # x1 # x2 # x3 # x4 # b"] exI [of _ t])
          (simp add: body_unicode)
    qed
  qed
qed

text \<open>A string at the head of the input.\<close>

lemma acc_string:
  assumes "acc D ST stk s" and "stk \<noteq> []"
  shows "hd stk = MODE_KEY \<Longrightarrow> \<exists>k t. dquote # s = k @ t \<and> jstring k \<and> acc D CO stk t"
    and "hd stk \<in> {MODE_ARRAY, MODE_OBJECT} \<Longrightarrow> \<exists>k t. dquote # s = k @ t \<and> jstring k \<and> acc D OK stk t"
proof -
  from acc_ST [OF assms(1)] obtain b t where b: "s = b @ dquote # t" "str_body b" "act_acc D 4 stk t" by blast
  then have "dquote # s = (dquote # b @ [dquote]) @ t" "jstring (dquote # b @ [dquote])"
    by (auto simp: jstring_def)
  moreover have "hd stk = MODE_KEY \<Longrightarrow> acc D CO stk t"
    "hd stk \<in> {MODE_ARRAY, MODE_OBJECT} \<Longrightarrow> acc D OK stk t"
    using b(3) assms(2) by (cases stk; auto simp: act_acc_def)+
  ultimately show "hd stk = MODE_KEY \<Longrightarrow> \<exists>k t. dquote # s = k @ t \<and> jstring k \<and> acc D CO stk t"
    "hd stk \<in> {MODE_ARRAY, MODE_OBJECT} \<Longrightarrow> \<exists>k t. dquote # s = k @ t \<and> jstring k \<and> acc D OK stk t"
    by blast+
qed

text \<open>What the machine has read when it stands behind a value, an array or an object.\<close>

definition reads_value :: "nat \<Rightarrow> modes list \<Rightarrow> string \<Rightarrow> bool" where
  "reads_value D stk s \<longleftrightarrow> (\<exists>v t. s = v @ t \<and> jvalue (D - length stk) v \<and> acc D OK stk t)"

definition reads_elems :: "nat \<Rightarrow> modes list \<Rightarrow> string \<Rightarrow> bool" where
  "reads_elems D stk s \<longleftrightarrow> (\<exists>e t. s = e @ CHR '']'' # t \<and> jelems (D - Suc (length stk)) e \<and> acc D OK stk t)"

definition reads_members :: "nat \<Rightarrow> modes list \<Rightarrow> string \<Rightarrow> bool" where
  "reads_members D stk s \<longleftrightarrow> (\<exists>e t. s = e @ CHR ''}'' # t \<and> jmembers (D - Suc (length stk)) e \<and> acc D OK stk t)"

text \<open>One element: white space, a value and white space, up to the comma or bracket.\<close>

lemma reads_elems_step:
  assumes val: "\<And>t. length t \<le> length s \<Longrightarrow> acc D VA (MODE_ARRAY # stk) t \<Longrightarrow> t \<noteq> [] \<Longrightarrow> \<not> is_ws (hd t) \<Longrightarrow>
      reads_value D (MODE_ARRAY # stk) t"
    and more: "\<And>t. length t < length s \<Longrightarrow> acc D VA (MODE_ARRAY # stk) t \<Longrightarrow> reads_elems D stk t"
    and s: "acc D VA (MODE_ARRAY # stk) s"
  shows "reads_elems D stk s"
proof -
  obtain a u where u: "s = a @ u" "ws a" "u = [] \<or> \<not> is_ws (hd u)" by (rule ws_split)
  have acc_u: "acc D VA (MODE_ARRAY # stk) u" using s u acc_skip_ws [of VA a] by simp
  then have "u \<noteq> []" by auto
  with val [of u] acc_u u obtain v t where v: "u = v @ t" "jvalue (D - Suc (length stk)) v"
    "acc D OK (MODE_ARRAY # stk) t"
    by (auto simp: reads_value_def)
  obtain b r where r: "t = b @ r" "ws b" "r = [] \<or> \<not> is_ws (hd r)" by (rule ws_split)
  have "acc D OK (MODE_ARRAY # stk) r" using v(3) r acc_skip_ws [of OK b] by simp
  then obtain c q where q: "r = c # q" by (cases r) auto
  then consider "c = CHR '']''" "acc D OK stk q" | "c = CHR '',''" "acc D VA (MODE_ARRAY # stk) q"
    using \<open>acc D OK (MODE_ARRAY # stk) r\<close> r(3) by (auto simp: cell_OK act_acc_def split: if_splits)
  then show ?thesis
  proof cases
    case 1
    have "jelems (D - Suc (length stk)) (a @ v @ b)" using u(2) v(2) r(2) by (rule elems_one)
    then show ?thesis using 1 u v r q unfolding reads_elems_def by (intro exI [of _ "a @ v @ b"] exI [of _ q]) simp
  next
    case 2
    then have "reads_elems D stk q" using more [of q] u v r q by simp
    then obtain e t' where e: "q = e @ CHR '']'' # t'" "jelems (D - Suc (length stk)) e" "acc D OK stk t'"
      by (auto simp: reads_elems_def)
    have "jelems (D - Suc (length stk)) (a @ v @ b @ CHR '','' # e)"
      using u(2) v(2) r(2) e(2) by (rule elems_more)
    then show ?thesis using 2 u v r q e unfolding reads_elems_def
      by (intro exI [of _ "a @ v @ b @ CHR '','' # e"] exI [of _ t']) simp
  qed
qed

lemma reads_members_step:
  assumes val: "\<And>t. length t < length s \<Longrightarrow> acc D VA (MODE_OBJECT # stk) t \<Longrightarrow> t \<noteq> [] \<Longrightarrow> \<not> is_ws (hd t) \<Longrightarrow>
      reads_value D (MODE_OBJECT # stk) t"
    and more: "\<And>t. length t < length s \<Longrightarrow> acc D KE (MODE_KEY # stk) t \<Longrightarrow> reads_members D stk t"
    and s: "acc D KE (MODE_KEY # stk) s"
  shows "reads_members D stk s"
proof -
  obtain a u where u: "s = a @ u" "ws a" "u = [] \<or> \<not> is_ws (hd u)" by (rule ws_split)
  have acc_u: "acc D KE (MODE_KEY # stk) u" using s u acc_skip_ws [of KE a] by simp
  then obtain x where x: "u = dquote # x" "acc D ST (MODE_KEY # stk) x"
    using u(3) by (cases u) (auto simp: cell_KE split: if_splits)
  from acc_string(1) [OF x(2)] obtain k t where k: "u = k @ t" "jstring k" "acc D CO (MODE_KEY # stk) t"
    using x(1) by auto
  have "k \<noteq> []" using k(2) by (auto simp: jstring_def)
  obtain b t1 where t1: "t = b @ t1" "ws b" "t1 = [] \<or> \<not> is_ws (hd t1)" by (rule ws_split)
  have "acc D CO (MODE_KEY # stk) t1" using k(3) t1 acc_skip_ws [of CO b] by simp
  then obtain t2 where t2: "t1 = CHR '':'' # t2" "acc D VA (MODE_OBJECT # stk) t2"
    using t1(3) by (cases t1) (auto simp: cell_CO act_acc_def split: if_splits)
  obtain c t3 where t3: "t2 = c @ t3" "ws c" "t3 = [] \<or> \<not> is_ws (hd t3)" by (rule ws_split)
  have acc3: "acc D VA (MODE_OBJECT # stk) t3" using t2(2) t3 acc_skip_ws [of VA c] by simp
  then have "t3 \<noteq> []" by auto
  with val [of t3] acc3 u k t1 t2 t3 \<open>k \<noteq> []\<close> obtain v t4 where
    v: "t3 = v @ t4" "jvalue (D - Suc (length stk)) v" "acc D OK (MODE_OBJECT # stk) t4"
    by (auto simp: reads_value_def)
  obtain e r where r: "t4 = e @ r" "ws e" "r = [] \<or> \<not> is_ws (hd r)" by (rule ws_split)
  have "acc D OK (MODE_OBJECT # stk) r" using v(3) r acc_skip_ws [of OK e] by simp
  then obtain d q where q: "r = d # q" by (cases r) auto
  then consider "d = CHR ''}''" "acc D OK stk q" | "d = CHR '',''" "acc D KE (MODE_KEY # stk) q"
    using \<open>acc D OK (MODE_OBJECT # stk) r\<close> r(3) by (auto simp: cell_OK act_acc_def split: if_splits)
  then show ?thesis
  proof cases
    case 1
    have "jmembers (D - Suc (length stk)) (a @ k @ b @ CHR '':'' # c @ v @ e)"
      using u(2) k(2) t1(2) t3(2) v(2) r(2) by (rule members_one)
    then show ?thesis using 1 u k t1 t2 t3 v r q unfolding reads_members_def
      by (intro exI [of _ "a @ k @ b @ CHR '':'' # c @ v @ e"] exI [of _ q]) simp
  next
    case 2
    then have "reads_members D stk q" using more [of q] u k t1 t2 t3 v r q by simp
    then obtain m t' where m: "q = m @ CHR ''}'' # t'" "jmembers (D - Suc (length stk)) m" "acc D OK stk t'"
      by (auto simp: reads_members_def)
    have "jmembers (D - Suc (length stk)) (a @ k @ b @ CHR '':'' # c @ v @ e @ CHR '','' # m)"
      using u(2) k(2) t1(2) t3(2) v(2) r(2) m(2) by (rule members_more)
    then show ?thesis using 2 u k t1 t2 t3 v r q m unfolding reads_members_def
      by (intro exI [of _ "a @ k @ b @ CHR '':'' # c @ v @ e @ CHR '','' # m"] exI [of _ t']) simp
  qed
qed

lemma reads_array:
  assumes elems: "\<And>t. length t \<le> length u \<Longrightarrow> acc D VA (MODE_ARRAY # stk) t \<Longrightarrow> reads_elems D stk t"
    and u: "acc D AR (MODE_ARRAY # stk) u" and D: "length stk < D"
  shows "reads_value D stk (CHR ''['' # u)"
proof -
  have d: "D - length stk = Suc (D - Suc (length stk))" using D by simp
  obtain w r where r: "u = w @ r" "ws w" "r = [] \<or> \<not> is_ws (hd r)" by (rule ws_split)
  have acc_r: "acc D AR (MODE_ARRAY # stk) r" using u r acc_skip_ws [of AR w] by simp
  then obtain c q where q: "r = c # q" by (cases r) auto
  show ?thesis
  proof (cases "c = CHR '']''")
    case True
    then have "acc D OK stk q" using acc_r q by (simp add: cell_AR act_acc_def is_ws_def)
    moreover have "jvalue (D - length stk) (CHR ''['' # w @ '']'')" unfolding d using r(2) by (rule val_empty_array)
    ultimately show ?thesis using True r q unfolding reads_value_def
      by (intro exI [of _ "CHR ''['' # w @ '']''"] exI [of _ q]) simp
  next
    case False
    then have "acc D VA (MODE_ARRAY # stk) r" using acc_r q r(3) by (simp add: cell_AR)
    then have "acc D VA (MODE_ARRAY # stk) u" using r acc_skip_ws [of VA w] by simp
    then obtain e t where e: "u = e @ CHR '']'' # t" "jelems (D - Suc (length stk)) e" "acc D OK stk t"
      using elems [of u] by (auto simp: reads_elems_def)
    have "jvalue (D - length stk) (CHR ''['' # e @ '']'')" unfolding d using e(2) by (rule val_array)
    then show ?thesis using e unfolding reads_value_def
      by (intro exI [of _ "CHR ''['' # e @ '']''"] exI [of _ t]) simp
  qed
qed

lemma reads_object:
  assumes members: "\<And>t. length t \<le> length u \<Longrightarrow> acc D KE (MODE_KEY # stk) t \<Longrightarrow> reads_members D stk t"
    and u: "acc D OB (MODE_KEY # stk) u" and D: "length stk < D"
  shows "reads_value D stk (CHR ''{'' # u)"
proof -
  have d: "D - length stk = Suc (D - Suc (length stk))" using D by simp
  obtain w r where r: "u = w @ r" "ws w" "r = [] \<or> \<not> is_ws (hd r)" by (rule ws_split)
  have acc_r: "acc D OB (MODE_KEY # stk) r" using u r acc_skip_ws [of OB w] by simp
  then obtain c q where q: "r = c # q" by (cases r) auto
  show ?thesis
  proof (cases "c = CHR ''}''")
    case True
    then have "acc D OK stk q" using acc_r q by (simp add: cell_OB act_acc_def is_ws_def)
    moreover have "jvalue (D - length stk) (CHR ''{'' # w @ ''}'')" unfolding d using r(2) by (rule val_empty_object)
    ultimately show ?thesis using True r q unfolding reads_value_def
      by (intro exI [of _ "CHR ''{'' # w @ ''}''"] exI [of _ q]) simp
  next
    case False
    then have "acc D KE (MODE_KEY # stk) r" using acc_r q r(3) by (auto simp: cell_OB cell_KE)
    then have "acc D KE (MODE_KEY # stk) u" using r acc_skip_ws [of KE w] by simp
    then obtain e t where e: "u = e @ CHR ''}'' # t" "jmembers (D - Suc (length stk)) e" "acc D OK stk t"
      using members [of u] by (auto simp: reads_members_def)
    have "jvalue (D - length stk) (CHR ''{'' # e @ ''}'')" unfolding d using e(2) by (rule val_object)
    then show ?thesis using e unfolding reads_value_def
      by (intro exI [of _ "CHR ''{'' # e @ ''}''"] exI [of _ t]) simp
  qed
qed

lemma reads_scalarI: "s = v @ t \<Longrightarrow> jstring v \<or> jnumber v \<or> jliteral v \<Longrightarrow> acc D OK stk t \<Longrightarrow> reads_value D stk s"
  unfolding reads_value_def using val_string val_number val_literal by blast

lemma reads_value_step:
  assumes elems: "\<And>stk t. length t < length s \<Longrightarrow> acc D VA (MODE_ARRAY # stk) t \<Longrightarrow> reads_elems D stk t"
    and members: "\<And>stk t. length t < length s \<Longrightarrow> acc D KE (MODE_KEY # stk) t \<Longrightarrow> reads_members D stk t"
    and s: "acc D VA stk s" "s \<noteq> []" "\<not> is_ws (hd s)" and stk: "stk \<noteq> []" "hd stk \<in> {MODE_ARRAY, MODE_OBJECT}"
  shows "reads_value D stk s"
proof -
  obtain c u where c: "s = c # u" "\<not> is_ws c" using s(2,3) by (cases s) auto
  have act: "act_acc D 6 stk u \<Longrightarrow> length stk < D \<and> acc D OB (MODE_KEY # stk) u"
    "act_acc D 5 stk u \<Longrightarrow> length stk < D \<and> acc D AR (MODE_ARRAY # stk) u"
    using stk(1) by (cases stk; auto simp: act_acc_def split: if_splits)+
  consider "c = CHR ''{''" "act_acc D 6 stk u" | "c = CHR ''[''" "act_acc D 5 stk u" | "c = dquote" "acc D ST stk u"
    | "c = CHR ''-''" "acc D MI stk u" | "digit c" "acc D VA stk (c # u)" | "c = CHR ''f''" "acc D F1 stk u"
    | "c = CHR ''n''" "acc D N1 stk u" | "c = CHR ''t''" "acc D T1 stk u"
    using s(1) c by (auto simp: cell_VA digit_def split: if_splits)
  then show ?thesis
  proof cases
    case 1
    then show ?thesis using reads_object [of u] members act(1) c(1) by simp
  next
    case 2
    then show ?thesis using reads_array [of u] elems act(2) c(1) by simp
  next
    case 3
    with acc_string(2) [OF 3(2) stk(1) stk(2)] c(1) show ?thesis using reads_scalarI by blast
  next
    case 4
    from acc_MI [OF 4(2)] obtain n t where "u = n @ t" "unsigned_number n" "acc D OK stk t" by blast
    with 4 c(1) show ?thesis by (intro reads_scalarI [of s "c # n" t]) (simp_all add: jnumber_def)
  next
    case 5
    with acc_unsigned [of VA D stk c u] c(1) show ?thesis using reads_scalarI jnumber_def by blast
  next
    case 6
    from acc_literal(2) [OF 6(2)] obtain t where "u = ''alse'' @ t" "acc D OK stk t" by blast
    with 6 c(1) show ?thesis by (intro reads_scalarI [of s "''false''" t]) (simp_all add: jliteral_def)
  next
    case 7
    from acc_literal(3) [OF 7(2)] obtain t where "u = ''ull'' @ t" "acc D OK stk t" by blast
    with 7 c(1) show ?thesis by (intro reads_scalarI [of s "''null''" t]) (simp_all add: jliteral_def)
  next
    case 8
    from acc_literal(1) [OF 8(2)] obtain t where "u = ''rue'' @ t" "acc D OK stk t" by blast
    with 8 c(1) show ?thesis by (intro reads_scalarI [of s "''true''" t]) (simp_all add: jliteral_def)
  qed
qed

lemma machine_sound:
  "(\<forall>stk. acc D VA (MODE_ARRAY # stk) s \<longrightarrow> reads_elems D stk s) \<and>
   (\<forall>stk. acc D KE (MODE_KEY # stk) s \<longrightarrow> reads_members D stk s)"
proof (induction s rule: length_induct)
  case (1 s)
  have elems: "reads_elems D stk t" if "length t < length s" "acc D VA (MODE_ARRAY # stk) t" for stk t
    using 1 that by blast
  have members: "reads_members D stk t" if "length t < length s" "acc D KE (MODE_KEY # stk) t" for stk t
    using 1 that by blast
  have val: "reads_value D stk t" if "length t \<le> length s" "acc D VA stk t" "t \<noteq> []" "\<not> is_ws (hd t)"
    "stk \<noteq> []" "hd stk \<in> {MODE_ARRAY, MODE_OBJECT}" for stk t
    by (rule reads_value_step) (use that elems members in auto)
  show ?case
  proof (intro conjI allI impI)
    fix stk assume "acc D VA (MODE_ARRAY # stk) s"
    then show "reads_elems D stk s" by (rule reads_elems_step [rotated 2]) (use val elems in auto)
  next
    fix stk assume "acc D KE (MODE_KEY # stk) s"
    then show "reads_members D stk s" by (rule reads_members_step [rotated 2]) (use val members in auto)
  qed
qed

text \<open>A whole text.\<close>

lemma text_sound:
  assumes "acc D GO [MODE_DONE] s"
  shows "json_text (D - 1) s"
proof -
  obtain a u where u: "s = a @ u" "ws a" "u = [] \<or> \<not> is_ws (hd u)" by (rule ws_split)
  have acc_u: "acc D GO [MODE_DONE] u" using assms u acc_skip_ws [of GO a] by simp
  then obtain c q where q: "u = c # q" by (cases u) auto
  consider "c = CHR ''{''" "1 < D" "acc D OB [MODE_KEY, MODE_DONE] q" | "c = CHR ''[''" "1 < D" "acc D AR [MODE_ARRAY, MODE_DONE] q"
    using acc_u q u(3) by (auto simp: cell_GO act_acc_def split: if_splits)
  then have "reads_value D [MODE_DONE] u \<and> hd u \<in> set ''[{''"
    using reads_object [of q D "[MODE_DONE]"] reads_array [of q D "[MODE_DONE]"] machine_sound q by cases auto
  then obtain v t where v: "u = v @ t" "jvalue (D - 1) v" "acc D OK [MODE_DONE] t" "hd u \<in> set ''[{''"
    by (auto simp: reads_value_def)
  have "v \<noteq> []" using v(2) by cases (auto simp: jstring_def jnumber_def unsigned_number_def zero_number_def int_number_def jliteral_def)
  obtain b r where r: "t = b @ r" "ws b" "r = [] \<or> \<not> is_ws (hd r)" by (rule ws_split)
  have "acc D OK [MODE_DONE] r" using v(3) r acc_skip_ws [of OK b] by simp
  then have "r = []" using r(3) by (cases r) (auto simp: cell_OK act_acc_def split: if_splits)
  then show ?thesis using u v r \<open>v \<noteq> []\<close> unfolding json_text_def by (intro exI [of _ a] exI [of _ v] exI [of _ b]) auto
qed

section \<open>From the grammar to the machine\<close>

lemma acc_body: "str_body b \<Longrightarrow> acc D ST stk (b @ dquote # t) \<longleftrightarrow> act_acc D 4 stk t"
proof (induction rule: str_body.induct)
  case body_nil
  show ?case by (simp add: cell_ST plain_def)
next
  case (body_plain c s)
  then show ?case by (simp add: cell_ST)
next
  case (body_escape c s)
  then show ?case by (simp add: cell_ST cell_ES plain_def)
next
  case (body_unicode a b c d s)
  then show ?case by (simp add: cell_ST cell_ES cell_U1 cell_U2 cell_U3 cell_U4 plain_def escape_def)
qed

lemma acc_jstring:
  assumes "jstring k" and "st \<in> {OB, KE, VA, AR}"
  shows "acc D st stk (k @ t) \<longleftrightarrow> act_acc D 4 stk t"
  using assms acc_body by (auto simp: jstring_def cell_OB cell_KE cell_VA cell_AR is_ws_def)

text \<open>Behind a number inside an array or object the text goes on.\<close>

lemma acc_after_number:
  assumes "acc D OK stk t" and "stk \<noteq> []" and "hd stk \<noteq> MODE_DONE" and "st \<in> {ZE, IN, FR, E3}"
  shows "acc D st stk t"
proof (cases t)
  case (Cons c u)
  then have "is_ws c \<or> c \<in> set ''}],''" using assms(1) by (auto simp: cell_OK split: if_splits)
  then have "\<not> digit c \<and> c \<noteq> CHR ''.'' \<and> \<not> exp_mark c" by (auto simp: is_ws_def digit_def exp_mark_def)
  then have "cell st c = cell OK c" using assms(4) by (auto simp: cell_ZE cell_IN cell_FR cell_E3)
  then show ?thesis using assms(1) Cons by simp
qed (use assms in auto)

lemma acc_digits:
  assumes "list_all digit ds" and "st \<in> {IN, FR, E3}"
  shows "acc D st stk (ds @ t) \<longleftrightarrow> acc D st stk t"
  using assms by (induction ds) (auto simp: cell_IN cell_FR cell_E3)

lemma digit_signs: "digit c \<Longrightarrow> c \<noteq> CHR ''+'' \<and> c \<noteq> CHR ''-'' \<and> c \<noteq> CHR ''.'' \<and> c \<noteq> CHR '']''"
  by (auto simp: digit_def)

lemma mark_other: "exp_mark c \<Longrightarrow> \<not> digit c \<and> c \<noteq> CHR ''.''"
  by (auto simp: exp_mark_def digit_def)

lemma acc_exp:
  assumes "acc D OK stk t" and "stk \<noteq> []" and "hd stk \<noteq> MODE_DONE" and "exp_part e" and "st \<in> {IN, FR}"
  shows "acc D st stk (e @ t)"
proof (cases "e = []")
  case True
  then show ?thesis using acc_after_number assms by auto
next
  case False
  then obtain m sg ds where e: "e = m # sg @ ds" "exp_mark m" "sg \<in> {[], ''+'', ''-''}" "ds \<noteq> []" "list_all digit ds"
    using assms(4) by (auto simp: exp_part_def exp_digits_def)
  then obtain d ds' where d: "ds = d # ds'" "digit d" "list_all digit ds'" by (cases ds) auto
  have "acc D E3 stk (ds' @ t)" using acc_digits d acc_after_number assms by auto
  then have "acc D E1 stk (sg @ ds @ t)"
    using e(3) d digit_signs [OF d(2)] by (auto simp: cell_E1 cell_E2)
  moreover have "cell st m = S E1" using assms(5) mark_other [OF e(2)] e(2) by (auto simp: cell_IN cell_FR)
  ultimately show ?thesis using e(1) by simp
qed

lemma acc_frac_exp:
  assumes "acc D OK stk t" and "stk \<noteq> []" and "hd stk \<noteq> MODE_DONE" and "frac_part f" and "exp_part e"
  shows "acc D IN stk (f @ e @ t)" and "(f = [] \<longrightarrow> e = []) \<Longrightarrow> acc D ZE stk (f @ e @ t)"
proof -
  have dot: "cell IN (CHR ''.'') = S FR" "cell ZE (CHR ''.'') = S FR"
    by (simp_all add: cell_IN cell_ZE digit_def)
  have FR: "acc D FR stk (ds @ e @ t)" if "list_all digit ds" for ds
    using acc_exp assms that by (simp add: acc_digits)
  show "acc D IN stk (f @ e @ t)"
    using assms(4) FR dot acc_exp [OF assms(1-3,5), of IN] by (auto simp: frac_part_def)
  show "(f = [] \<longrightarrow> e = []) \<Longrightarrow> acc D ZE stk (f @ e @ t)"
    using assms(4) FR dot acc_after_number [OF assms(1-3), of ZE] by (auto simp: frac_part_def)
qed

lemma acc_number:
  assumes "acc D OK stk t" and "stk \<noteq> []" and "hd stk \<noteq> MODE_DONE" and "jnumber n"
  shows "acc D VA stk (n @ t)"
proof -
  have u: "acc D st stk (n @ t)" if "unsigned_number n" "st \<in> {VA, MI}" for n st
    using that(1) unfolding unsigned_number_def
  proof
    assume "zero_number n"
    then obtain f e where n: "n = CHR ''0'' # f @ e" "frac_part f" "exp_part e" "f = [] \<longrightarrow> e = []"
      by (auto simp: zero_number_def)
    have "cell st (CHR ''0'') = S ZE" using that(2) by (auto simp: cell_VA cell_MI is_ws_def)
    then show ?thesis using n acc_frac_exp(2) [OF assms(1-3)] by simp
  next
    assume "int_number n"
    then obtain d ds f e where n: "n = d # ds @ f @ e" "digit d" "d \<noteq> CHR ''0''" "list_all digit ds"
      "frac_part f" "exp_part e" by (auto simp: int_number_def)
    have "cell st d = S IN" using that(2) n(2,3) digit_other [OF n(2)] by (auto simp: cell_VA cell_MI)
    then show ?thesis using n acc_frac_exp(1) [OF assms(1-3)] by (simp add: acc_digits)
  qed
  then show ?thesis using assms(4) by (auto simp: jnumber_def cell_VA is_ws_def)
qed

lemma acc_literals: "jliteral v \<Longrightarrow> acc D VA stk (v @ t) \<longleftrightarrow> acc D OK stk t"
  by (auto simp: jliteral_def cell_VA cell_literals is_ws_def digit_def)

lemma number_head: "jnumber v \<Longrightarrow> v \<noteq> [] \<and> (digit (hd v) \<or> hd v = CHR ''-'')"
  by (auto simp: jnumber_def unsigned_number_def zero_number_def int_number_def digit_def)

lemma value_head:
  assumes "jvalue d v"
  shows "v \<noteq> [] \<and> hd v \<noteq> CHR '']'' \<and> \<not> is_ws (hd v)"
  using assms
proof cases
  case val_number
  then show ?thesis using number_head digit_signs digit_other by (fastforce simp: is_ws_def)
qed (auto simp: jstring_def jliteral_def is_ws_def)

lemma acc_AR_value:
  assumes "jvalue d v"
  shows "acc D AR stk (v @ t) \<longleftrightarrow> acc D VA stk (v @ t)"
  using value_head [OF assms] by (cases v) (auto simp: cell_AR)

text \<open>The punctuation, as steps of the machine.\<close>

lemma acc_open:
  "stk \<noteq> [] \<Longrightarrow> length stk < D \<Longrightarrow> st \<in> {GO, VA, AR} \<Longrightarrow>
     acc D st stk (CHR ''['' # u) \<longleftrightarrow> acc D AR (MODE_ARRAY # stk) u"
  "stk \<noteq> [] \<Longrightarrow> length stk < D \<Longrightarrow> st \<in> {GO, VA, AR} \<Longrightarrow>
     acc D st stk (CHR ''{'' # u) \<longleftrightarrow> acc D OB (MODE_KEY # stk) u"
  by (cases stk; auto simp: cell_GO cell_VA cell_AR is_ws_def act_acc_def)+

lemma acc_close:
  "st \<in> {OK, AR} \<Longrightarrow> acc D st (MODE_ARRAY # stk) (CHR '']'' # u) \<longleftrightarrow> acc D OK stk u"
  "acc D OK (MODE_OBJECT # stk) (CHR ''}'' # u) \<longleftrightarrow> acc D OK stk u"
  "acc D OB (MODE_KEY # stk) (CHR ''}'' # u) \<longleftrightarrow> acc D OK stk u"
  by (auto simp: cell_OK cell_AR cell_OB is_ws_def act_acc_def)

lemma acc_separate:
  "acc D OK (MODE_ARRAY # stk) (CHR '','' # u) \<longleftrightarrow> acc D VA (MODE_ARRAY # stk) u"
  "acc D OK (MODE_OBJECT # stk) (CHR '','' # u) \<longleftrightarrow> acc D KE (MODE_KEY # stk) u"
  "acc D CO (MODE_KEY # stk) (CHR '':'' # u) \<longleftrightarrow> acc D VA (MODE_OBJECT # stk) u"
  by (auto simp: cell_OK cell_CO is_ws_def act_acc_def)

lemma acc_key: "jstring k \<Longrightarrow> st \<in> {OB, KE} \<Longrightarrow> acc D st (MODE_KEY # stk) (k @ u) \<longleftrightarrow> acc D CO (MODE_KEY # stk) u"
  by (auto simp: acc_jstring act_acc_def)

definition value_ok :: "nat \<Rightarrow> nat \<Rightarrow> string \<Rightarrow> bool" where
  "value_ok D d v \<longleftrightarrow> (\<forall>stk t. stk \<noteq> [] \<and> hd stk \<in> {MODE_ARRAY, MODE_OBJECT} \<and> length stk + d \<le> D \<and>
     acc D OK stk t \<longrightarrow> acc D VA stk (v @ t))"

definition elems_ok :: "nat \<Rightarrow> nat \<Rightarrow> string \<Rightarrow> bool" where
  "elems_ok D d e \<longleftrightarrow> (\<forall>stk t st. Suc (length stk) + d \<le> D \<and> acc D OK stk t \<and> st \<in> {VA, AR} \<longrightarrow>
     acc D st (MODE_ARRAY # stk) (e @ CHR '']'' # t))"

definition members_ok :: "nat \<Rightarrow> nat \<Rightarrow> string \<Rightarrow> bool" where
  "members_ok D d m \<longleftrightarrow> (\<forall>stk t st. Suc (length stk) + d \<le> D \<and> acc D OK stk t \<and> st \<in> {KE, OB} \<longrightarrow>
     acc D st (MODE_KEY # stk) (m @ CHR ''}'' # t))"

lemma elem_ok:
  assumes "ws a" and "jvalue d v" and "value_ok D d v" and "ws b"
    and "Suc (length stk) + d \<le> D" and "acc D OK (MODE_ARRAY # stk) u" and "st \<in> {VA, AR}"
  shows "acc D st (MODE_ARRAY # stk) (a @ v @ b @ u)"
proof -
  have "acc D OK (MODE_ARRAY # stk) (b @ u)" using assms(4,6) by (simp add: acc_skip_ws)
  then have "acc D VA (MODE_ARRAY # stk) (v @ b @ u)" using assms(3,5) by (simp add: value_ok_def)
  then have "acc D st (MODE_ARRAY # stk) (v @ b @ u)" using assms(7) acc_AR_value [OF assms(2)] by auto
  then show ?thesis using assms(1,7) by (subst acc_skip_ws) auto
qed

lemma member_ok:
  assumes "ws a" and "jstring k" and "ws b" and "ws c" and "value_ok D d v" and "ws e"
    and "Suc (length stk) + d \<le> D" and "acc D OK (MODE_OBJECT # stk) u" and "st \<in> {KE, OB}"
  shows "acc D st (MODE_KEY # stk) (a @ k @ b @ CHR '':'' # c @ v @ e @ u)"
proof -
  have "acc D OK (MODE_OBJECT # stk) (e @ u)" using assms(6,8) by (simp add: acc_skip_ws)
  then have "acc D VA (MODE_OBJECT # stk) (v @ e @ u)" using assms(5,7) by (simp add: value_ok_def)
  then have "acc D CO (MODE_KEY # stk) (b @ CHR '':'' # c @ v @ e @ u)"
    using assms(3,4) by (simp add: acc_skip_ws acc_separate del: acc_Cons)
  then have "acc D st (MODE_KEY # stk) (k @ b @ CHR '':'' # c @ v @ e @ u)"
    using assms(2,9) by (subst acc_key) auto
  then show ?thesis using assms(1,9) by (subst acc_skip_ws) auto
qed

lemma grammar_ok:
  "(jvalue d v \<longrightarrow> value_ok D d v) \<and> (jelems d e \<longrightarrow> elems_ok D d e) \<and> (jmembers d m \<longrightarrow> members_ok D d m)"
proof (rule jvalue_jelems_jmembers.induct, goal_cases)
  case (1 s d)
  then show ?case unfolding value_ok_def
  proof (intro allI impI)
    fix stk t assume "stk \<noteq> [] \<and> hd stk \<in> {MODE_ARRAY, MODE_OBJECT} \<and> length stk + d \<le> D \<and> acc D OK stk t"
    then show "acc D VA stk (s @ t)" using 1 by (cases stk) (auto simp: acc_jstring act_acc_def)
  qed
next
  case (2 s d)
  then show ?case unfolding value_ok_def using acc_number by fastforce
next
  case (3 s d)
  then show ?case by (simp add: value_ok_def acc_literals)
next
  case (4 w d)
  then show ?case by (simp add: value_ok_def acc_open acc_close acc_skip_ws del: acc_Cons)
next
  case (5 d s)
  then show ?case by (simp add: value_ok_def elems_ok_def acc_open del: acc_Cons)
next
  case (6 w d)
  then show ?case by (simp add: value_ok_def acc_open acc_close acc_skip_ws del: acc_Cons)
next
  case (7 d s)
  then show ?case by (simp add: value_ok_def members_ok_def acc_open del: acc_Cons)
next
  case (8 a d v b)
  then show ?case unfolding elems_ok_def using elem_ok acc_close(1) by simp
next
  case (9 a d v b s)
  then have "acc D OK (MODE_ARRAY # stk) (CHR '','' # s @ CHR '']'' # t)"
    if "Suc (length stk) + d \<le> D" "acc D OK stk t" for stk t
    using that by (simp add: acc_separate elems_ok_def del: acc_Cons)
  then show ?case using 9 elem_ok unfolding elems_ok_def by simp
next
  case (10 a k b c d v e)
  then show ?case unfolding members_ok_def using member_ok acc_close(2) by simp
next
  case (11 a k b c d v e s)
  then have "acc D OK (MODE_OBJECT # stk) (CHR '','' # s @ CHR ''}'' # t)"
    if "Suc (length stk) + d \<le> D" "acc D OK stk t" for stk t
    using that by (simp add: acc_separate members_ok_def del: acc_Cons)
  then show ?case using 11 member_ok unfolding members_ok_def by simp
qed

lemma text_complete:
  assumes "json_text d s" and "d < D"
  shows "acc D GO [MODE_DONE] s"
proof -
  obtain a v b where s: "s = a @ v @ b" "ws a" "ws b" "jvalue d v" "hd v \<in> set ''[{''"
    using assms(1) by (auto simp: json_text_def)
  have "acc D OK [MODE_DONE] (b @ [])" using acc_skip_ws [of OK b D "[MODE_DONE]" "[]"] s(3) by simp
  then have b: "acc D OK [MODE_DONE] b" by simp
  have "acc D GO [MODE_DONE] (v @ b)"
    using s(4)
  proof cases
    case val_string then show ?thesis using s(5) by (auto simp: jstring_def)
  next
    case val_number then show ?thesis using s(5) number_head by (fastforce simp: digit_def)
  next
    case val_literal then show ?thesis using s(5) by (auto simp: jliteral_def)
  next
    case (val_empty_array w d')
    then show ?thesis using b assms(2) by (simp add: acc_open acc_close acc_skip_ws del: acc_Cons)
  next
    case (val_array d' e)
    then show ?thesis using b assms(2) grammar_ok by (simp add: acc_open elems_ok_def del: acc_Cons)
  next
    case (val_empty_object w d')
    then show ?thesis using b assms(2) by (simp add: acc_open acc_close acc_skip_ws del: acc_Cons)
  next
    case (val_object d' m)
    then show ?thesis using b assms(2) grammar_ok by (simp add: acc_open members_ok_def del: acc_Cons)
  qed
  then show ?thesis using s(1,2) by (simp add: acc_skip_ws)
qed

theorem machine_accepts: "0 < D \<Longrightarrow> acc D GO [MODE_DONE] s \<longleftrightarrow> json_text (D - 1) s"
  using text_sound text_complete [of "D - 1" s D] by auto

section \<open>The checker refines the machine\<close>

definition jrep :: "nat \<Rightarrow> JSON_checker \<Rightarrow> modes list \<Rightarrow> bool" where
  "jrep D jc stk \<longleftrightarrow> jdepth jc = int D \<and> length (jstack jc) = D \<and> length stk \<le> D \<and>
     jtop jc = int (length stk) - 1 \<and> take (length stk) (jstack jc) = rev stk"

lemma jrep_state [simp]: "jrep D (jc\<lparr>jstate := st\<rparr>) stk = jrep D jc stk"
  by (simp add: jrep_def)

lemma stack_at_rep:
  assumes "jrep D jc (m # stk)"
  shows "stack_at jc = kret m"
proof -
  have "jstack jc ! length stk = rev (m # stk) ! length stk"
    using assms nth_take [of "length stk" "Suc (length stk)" "jstack jc"] by (simp add: jrep_def)
  then show ?thesis using assms by (simp add: stack_at_def jrep_def nth_append)
qed

lemma push_rep:
  assumes "jrep D jc stk"
  shows "length stk < D \<Longrightarrow> \<exists>jc'. push jc m = kret (True, jc') \<and> jrep D jc' (m # stk)"
    and "length stk = D \<Longrightarrow> \<exists>jc'. push jc m = kret (False, jc')"
proof -
  let ?jc = "jc\<lparr>jtop := int (length stk), jstack := (jstack jc)[length stk := m]\<rparr>"
  assume D: "length stk < D"
  have "take (Suc (length stk)) ((jstack jc)[length stk := m]) = rev (m # stk)"
    using assms D by (simp add: jrep_def take_Suc_conv_app_nth)
  then have "jrep D ?jc (m # stk)" using assms D by (simp add: jrep_def)
  moreover have "push jc m = kret (True, ?jc)" using assms D by (simp add: push_def jrep_def)
  ultimately show "\<exists>jc'. push jc m = kret (True, jc') \<and> jrep D jc' (m # stk)" by blast
next
  assume "length stk = D"
  then show "\<exists>jc'. push jc m = kret (False, jc')" using assms by (simp add: push_def jrep_def)
qed

lemma pop_rep:
  assumes "jrep D jc (m # stk)"
  shows "pop jc m = kret (True, jc\<lparr>jtop := jtop jc - 1\<rparr>)" and "jrep D (jc\<lparr>jtop := jtop jc - 1\<rparr>) stk"
    and "n \<noteq> m \<Longrightarrow> pop jc n = kret (False, jc)"
proof -
  show "pop jc m = kret (True, jc\<lparr>jtop := jtop jc - 1\<rparr>)" "n \<noteq> m \<Longrightarrow> pop jc n = kret (False, jc)"
    using assms stack_at_rep [OF assms] by (auto simp: pop_def jrep_def)
  have "take (Suc (length stk)) (jstack jc) = rev (m # stk)" using assms by (simp add: jrep_def)
  then have "take (length stk) (take (Suc (length stk)) (jstack jc)) = take (length stk) (rev (m # stk))" by simp
  then have "take (length stk) (jstack jc) = rev stk" by (simp add: min_def)
  then show "jrep D (jc\<lparr>jtop := jtop jc - 1\<rparr>) stk" using assms by (simp add: jrep_def)
qed

text \<open>The outcome of a call that follows a step of the machine.\<close>

definition follows :: "nat \<Rightarrow> alloc \<Rightarrow> (JSON_checker option \<times> alloc) kres \<Rightarrow> (states \<times> modes list) option \<Rightarrow> bool" where
  "follows D h r out = (case out of
     None \<Rightarrow> r = kret (None, free (free h))
   | Some (st, stk) \<Rightarrow> (\<exists>jc. r = kret (Some jc, h) \<and> jstate jc = st \<and> jrep D jc stk))"

lemma pop_then_follows:
  assumes "jrep D jc (m # stk)"
  shows "follows D h (pop_then jc h n st) (if m = n then Some (st, stk) else None)"
  using pop_rep [OF assms] by (auto simp: pop_then_def follows_def reject_def)

lemma push_then_follows:
  assumes "jrep D jc stk"
  shows "follows D h (push_then jc h m st) (if length stk < D then Some (st, m # stk) else None)"
proof (cases "length stk < D")
  case True
  then show ?thesis using push_rep(1) [OF assms True, of m] by (auto simp: push_then_def follows_def)
next
  case False
  then have "length stk = D" using assms by (simp add: jrep_def)
  then show ?thesis using push_rep(2) [OF assms, of m] by (auto simp: push_then_def follows_def reject_def)
qed

lemma flip_then_follows:
  assumes "jrep D jc (m # stk)"
  shows "follows D h (flip_then jc h old new st) (if m = old then Some (st, new # stk) else None)"
proof -
  have "length stk < D" using assms by (simp add: jrep_def)
  then show ?thesis
    using pop_rep [OF assms] push_then_follows [OF pop_rep(2) [OF assms], of h new st]
    by (auto simp: flip_then_def follows_def reject_def)
qed

lemma action_follows:
  assumes "jrep D jc (m # stk)"
  shows "follows D h (JSON_action jc h n) (action D n (m # stk))"
proof -
  have here: "follows D h (kret (Some (jc\<lparr>jstate := st\<rparr>), h)) (Some (st, m # stk))" for st
    using assms by (simp add: follows_def)
  have stop: "follows D h (reject h) None" by (simp add: follows_def reject_def)
  consider "n = 9" | "n = 8" | "n = 7" | "n = 6" | "n = 5" | "n = 4" | "n = 3" | "n = 2" | "n \<notin> {2, 3, 4, 5, 6, 7, 8, 9}"
    by auto
  then show ?thesis
  proof cases
    case 1 then show ?thesis using pop_then_follows [OF assms, of h MODE_KEY OK] by (simp add: JSON_action_def)
  next
    case 2 then show ?thesis using pop_then_follows [OF assms, of h MODE_OBJECT OK] by (simp add: JSON_action_def)
  next
    case 3 then show ?thesis using pop_then_follows [OF assms, of h MODE_ARRAY OK] by (simp add: JSON_action_def)
  next
    case 4 then show ?thesis using push_then_follows [OF assms, of h MODE_KEY OB] by (simp add: JSON_action_def)
  next
    case 5 then show ?thesis using push_then_follows [OF assms, of h MODE_ARRAY AR] by (simp add: JSON_action_def)
  next
    case 6 then show ?thesis using stack_at_rep [OF assms] here stop by (cases m) (simp_all add: JSON_action_def)
  next
    case 7 then show ?thesis
      using stack_at_rep [OF assms] here stop flip_then_follows [OF assms, of h MODE_OBJECT MODE_KEY KE]
      by (cases m) (simp_all add: JSON_action_def)
  next
    case 8 then show ?thesis using flip_then_follows [OF assms, of h MODE_KEY MODE_OBJECT VA] by (simp add: JSON_action_def)
  next
    case 9 then show ?thesis using stop by (simp add: JSON_action_def)
  qed
qed

lemma checker_char_follows:
  assumes "jrep D jc stk" and "stk \<noteq> []" and "0 \<le> n" and "n = of_char c"
  shows "follows D h (JSON_checker_char jc h n) (mstep D (jstate jc, stk) c)"
proof -
  obtain m r where stk: "stk = m # r" using assms(2) by (cases stk) auto
  have "follows D h (JSON_action jc h k) (action D k stk)" for k
    using action_follows assms(1) stk by blast
  moreover have "follows D h (kret (Some (jc\<lparr>jstate := st\<rparr>), h)) (Some (st, stk))" for st
    using assms(1) by (simp add: follows_def)
  moreover have "follows D h (reject h) None" by (simp add: follows_def reject_def)
  ultimately show ?thesis
    using assms(3,4) stk by (simp add: JSON_checker_char_def mstep_def cell_def cls_def split: option.split cell.split)
qed

lemma mstep_bottom:
  assumes "mstep D (st, stk) c = Some (st', stk')" and "stk \<noteq> []" and "last stk = MODE_DONE"
  shows "stk' \<noteq> [] \<and> last stk' = MODE_DONE"
  using assms by (cases stk) (auto simp: mstep_def split: cell.splits if_splits)

lemma done_rep:
  assumes "jrep D jc stk" and "stk \<noteq> []"
  shows "JSON_checker_done jc h = kret (acc D (jstate jc) stk [], free (free h))"
proof -
  obtain m r where stk: "stk = m # r" using assms(2) by (cases stk) auto
  have "pop jc MODE_DONE = kret (m = MODE_DONE, if m = MODE_DONE then jc\<lparr>jtop := jtop jc - 1\<rparr> else jc)"
    using pop_rep [of D jc m r] assms(1) stk by (cases "m = MODE_DONE") simp_all
  then show ?thesis using stk by (simp add: JSON_checker_done_def)
qed

text \<open>The part of the text the loop hands to the checker: it stops at the first byte that is not positive.\<close>

definition checked_part :: "bool \<Rightarrow> string \<Rightarrow> string" where
  "checked_part sg s = takeWhile (\<lambda>c. 0 < char_int sg c) s"

lemma char_int_pos: "0 < char_int sg c \<Longrightarrow> char_int sg c = of_char c"
proof -
  have "(of_char c :: int) mod 256 < 256" by (rule pos_mod_bound) simp
  then show "0 < char_int sg c \<Longrightarrow> char_int sg c = of_char c" by (simp add: char_int_def split: if_splits)
qed

lemma check_chars_acc:
  assumes "jrep D jc stk" and "stk \<noteq> []" and "last stk = MODE_DONE"
  shows "check_chars sg jc h s = kret (acc D (jstate jc) stk (checked_part sg s), free (free h))"
  using assms
proof (induction s arbitrary: jc stk)
  case Nil
  then show ?case using done_rep by (simp add: checked_part_def)
next
  case (Cons c s)
  show ?case
  proof (cases "char_int sg c \<le> 0")
    case True
    then show ?thesis using Cons.prems done_rep by (simp add: checked_part_def)
  next
    case False
    then have n: "char_int sg c = of_char c" using char_int_pos [of sg c] by simp
    have part: "checked_part sg (c # s) = c # checked_part sg s" using False by (simp add: checked_part_def)
    have f: "follows D h (JSON_checker_char jc h (char_int sg c)) (mstep D (jstate jc, stk) c)"
      using checker_char_follows Cons.prems False n by simp
    show ?thesis
    proof (cases "mstep D (jstate jc, stk) c")
      case None
      then show ?thesis using f False part by (simp add: follows_def acc.simps(2) del: acc_Cons)
    next
      case (Some cfg)
      obtain st' stk' where cfg: "cfg = (st', stk')" by (cases cfg)
      with f Some obtain jc' where "JSON_checker_char jc h (char_int sg c) = kret (Some jc', h)"
        "jstate jc' = st'" "jrep D jc' stk'" by (auto simp: follows_def)
      moreover have "stk' \<noteq> []" "last stk' = MODE_DONE" using mstep_bottom Some cfg Cons.prems by blast+
      ultimately show ?thesis using Cons.IH False part Some cfg by (simp add: acc.simps(2) del: acc_Cons)
    qed
  qed
qed

lemma new_checker_rep:
  assumes "ok (allocs h)" and "ok (Suc (allocs h))" and "0 < D"
  shows "\<exists>jc h'. new_JSON_checker ok h (int D) = kret (jc, h') \<and> live h' = live h + 2 \<and> jstate jc = GO \<and>
    jrep D jc [MODE_DONE]"
proof -
  let ?jc = "\<lparr>jstate = GO, jdepth = int D, jtop = - 1, jstack = replicate D MODE_ARRAY\<rparr>"
  have "jrep D ?jc []" by (simp add: jrep_def)
  with push_rep(1) [of D ?jc "[]" MODE_DONE] assms(3) obtain jc where
    "push ?jc MODE_DONE = kret (True, jc)" "jrep D jc [MODE_DONE]" by auto
  moreover then have "jstate jc = GO" by (auto simp: push_def Let_def split: if_splits)
  ultimately show ?thesis using assms by (simp add: new_JSON_checker_def malloc_def)
qed
section \<open>The checker and the grammar\<close>

lemma checker_judges:
  assumes "ok (allocs h)" and "ok (Suc (allocs h))"
  shows "\<exists>h'. json_checker_function ok sg h s = kret (json_text 19 (checked_part sg s), h') \<and> live h' = live h"
proof -
  obtain jc h' where new: "new_JSON_checker ok h 20 = kret (jc, h')" "live h' = live h + 2" "jstate jc = GO"
    "jrep 20 jc [MODE_DONE]"
    using new_checker_rep [of ok h 20] assms by auto
  then show ?thesis
    using check_chars_acc [OF new(4)] machine_accepts [of 20] by (simp add: json_checker_function_def)
qed

text \<open>
  Property C10: when memory is available the checker returns, faults nowhere and leaves no block behind, and it
  says yes exactly to the JSON texts with at most 19 levels of arrays and objects; what it judges is the
  text up to the first byte whose \<open>char\<close> value is not positive.
\<close>

theorem json_checker_exact:
  assumes "ok (allocs h)" and "ok (Suc (allocs h))"
  shows "\<exists>h'. json_checker_function ok sg h s = kret (json_text 19 (checked_part sg s), h') \<and> live h' = live h"
  using assms by (rule checker_judges)

text \<open>
  The theorem on small texts: a number may end in its point, a lone zero takes no exponent, and where
  \<open>char\<close> is signed a byte above 127 ends the part of the text that is judged.
\<close>

theorem json_checker_exact_witness:
  "json_text 19 ''[1.]'' \<and> \<not> json_text 19 ''[0e1]'' \<and>
   \<not> json_text 19 (checked_part True (''['' @ [dquote, CHR 0xC3, CHR 0xA9, dquote] @ '']'')) \<and>
   json_text 19 (checked_part False (''['' @ [dquote, CHR 0xC3, CHR 0xA9, dquote] @ '']''))"
proof -
  let ?ok = "\<lambda>n::nat. True" and ?h = "\<lparr>allocs = 0, live = 0\<rparr>"
  have run: "json_text 19 (checked_part sg s) = b"
    if "json_checker_function ?ok sg ?h s = kret (b, h')" for sg s b h'
    using json_checker_exact [of ?ok ?h sg s] that by auto
  have "json_checker_function ?ok False ?h ''[1.]'' = kret (True, \<lparr>allocs = 2, live = 0\<rparr>)"
    "json_checker_function ?ok False ?h ''[0e1]'' = kret (False, \<lparr>allocs = 2, live = 0\<rparr>)"
    by code_simp+
  moreover have "checked_part False ''[1.]'' = ''[1.]''" "checked_part False ''[0e1]'' = ''[0e1]''"
    by code_simp+
  moreover have "json_checker_function ?ok True ?h (''['' @ [dquote, CHR 0xC3, CHR 0xA9, dquote] @ '']'') =
      kret (False, \<lparr>allocs = 2, live = 0\<rparr>)"
    "json_checker_function ?ok False ?h (''['' @ [dquote, CHR 0xC3, CHR 0xA9, dquote] @ '']'') =
      kret (True, \<lparr>allocs = 2, live = 0\<rparr>)"
    by code_simp+
  ultimately show ?thesis using run by metis
qed

text \<open>
  Fact: where \<open>char\<close> is signed, everything behind the first byte above 127 goes unchecked, so any bytes may
  follow a JSON text.
\<close>

theorem json_checker_ignores_tail:
  assumes "ok (allocs h)" and "ok (Suc (allocs h))"
    and "list_all (\<lambda>c. 0 < (of_char c :: nat) \<and> of_char c < (128 :: nat)) s" and "json_text 19 s"
    and "128 \<le> (of_char c :: nat)"
  shows "\<exists>h'. json_checker_function ok True h (s @ c # rest) = kret (True, h')"
proof -
  have nat: "(of_char d :: int) = int (of_char d)" for d by (simp add: of_nat_of_char)
  have "list_all (\<lambda>d. 0 < char_int True d) s"
    using assms(3) unfolding list_all_iff char_int_def nat by auto
  moreover have "(of_char c :: int) mod 256 < 256" by (rule pos_mod_bound) simp
  moreover have "128 \<le> (of_char c :: int)" using assms(5) nat [of c] by linarith
  ultimately have "list_all (\<lambda>d. 0 < char_int True d) s \<and> \<not> 0 < char_int True c" by (simp add: char_int_def)
  then have "checked_part True (s @ c # rest) = s"
    by (simp add: checked_part_def list_all_iff takeWhile_append)
  then show ?thesis using checker_judges [OF assms(1,2), of True "s @ c # rest"] assms(4) by auto
qed

theorem json_checker_ignores_tail_witness:
  "\<exists>h'. json_checker_function (\<lambda>n. True) True \<lparr>allocs = 0, live = 0\<rparr>
     (''{}'' @ CHR 0xFF # ''no JSON at all'') = kret (True, h')"
proof (rule json_checker_ignores_tail)
  show "json_text 19 ''{}''"
    using val_empty_object [of "[]" 18] unfolding json_text_def
    by (intro exI [of _ "[]"] exI [of _ "''{}''"]) (simp add: numeral_eq_Suc)
qed simp_all

end
