(* ===== verification/Net_Server.thy ===== *)
theory Net_Server
  imports Prelude
begin

text \<open>
  The TCP server of the services, \<open>src/sources/lib/lib-adav-old/src/ADNetServer.cpp\<close>: one thread that
  selects, accepts and receives and cuts what it receives into JSON requests, and one that sends the
  queued responses. The chains are the lists of their elements, as \<open>Ad_Chain\<close> shows of the chain class;
  \<open>new\<close> does not return null, and \<open>ok n\<close> tells whether the \<open>n\<close>-th \<open>chain_put\<close> finds memory for its
  holder. The consumer that is told of new data is the parameter \<open>notify\<close>.
\<close>

section \<open>State\<close>

record net_data_obj =
  nd_ident :: s32
  nd_sock :: nat
  nd_port :: int
  nd_ip :: string
  nd_cltid :: int
  nd_len :: nat
  nd_buffer :: string

text \<open>
  \<open>peers\<close> (the client at the other end of an open descriptor) and \<open>sent\<close> (what each client was sent)
  are the side of the operating system.
\<close>

record net_server =
  listen_sd :: nat
  max_sd :: nat
  master_set :: "nat set"
  end_server :: bool
  connected :: bool
  request_chain :: "net_data_obj list"
  response_chain :: "net_data_obj list"
  clientInfo_chain :: "net_data_obj list"
  request_ident :: s32
  clientInfo_ident :: s32
  wakeups :: nat
  put_calls :: nat
  peers :: "nat \<Rightarrow> nat option"
  sent :: "(nat \<times> string) list"

definition AD_NET_SERVER_MAX_BUFFER_SIZE :: nat where
  "AD_NET_SERVER_MAX_BUFFER_SIZE = 65535"

definition FD_SETSIZE :: nat where
  "FD_SETSIZE = 1024"

text \<open>A C string in a buffer ends at the first null byte.\<close>

definition c_str :: "string \<Rightarrow> string" where
  "c_str s = takeWhile (\<lambda>c. c \<noteq> CHR 0x00) s"

definition char_at :: "string \<Rightarrow> nat \<Rightarrow> char" where
  "char_at buf i = (if i < length buf then buf ! i else CHR 0x00)"

section \<open>Clients\<close>

fun find_sock :: "nat \<Rightarrow> net_data_obj list \<Rightarrow> net_data_obj option" where
  "find_sock sd [] = None"
| "find_sock sd (x # xs) = (if nd_sock x = sd then Some x else find_sock sd xs)"

fun remove_sock :: "nat \<Rightarrow> net_data_obj list \<Rightarrow> net_data_obj list" where
  "remove_sock sd [] = []"
| "remove_sock sd (x # xs) = (if nd_sock x = sd then xs else x # remove_sock sd xs)"

definition register_client_info ::
  "(nat \<Rightarrow> bool) \<Rightarrow> nat \<Rightarrow> int \<Rightarrow> string \<Rightarrow> 'a net_server_scheme \<Rightarrow> 'a net_server_scheme kres" where
  "register_client_info ok sd clt_port clt_ip st =
     (let ident = clientInfo_ident st + 1; st = st\<lparr>clientInfo_ident := ident\<rparr>;
          ip_len = length clt_ip; copied = (if 0 < ip_len \<and> ip_len < 1023 then clt_ip else []);
          obj = \<lparr>nd_ident = ident, nd_sock = sd, nd_port = clt_port, nd_ip = copied, nd_cltid = 0,
                 nd_len = 0, nd_buffer = []\<rparr> in
      if 512 \<le> length copied then kfail BufferOverrun
      else let placed = ok (put_calls st); st = st\<lparr>put_calls := put_calls st + 1\<rparr> in
           kret (if placed then st\<lparr>clientInfo_chain := clientInfo_chain st @ [obj]\<rparr> else st))"

definition deregister_client_info :: "nat \<Rightarrow> 'a net_server_scheme \<Rightarrow> 'a net_server_scheme" where
  "deregister_client_info sd st = st\<lparr>clientInfo_chain := remove_sock sd (clientInfo_chain st)\<rparr>"

text \<open>The address, port and identifier of the client, or the initial values when it is not found.\<close>

definition get_client_info :: "nat \<Rightarrow> 'a net_server_scheme \<Rightarrow> string \<times> int \<times> int" where
  "get_client_info sd st = (case find_sock sd (clientInfo_chain st) of
     Some x \<Rightarrow> (nd_ip x, nd_port x, sint (nd_ident x)) | None \<Rightarrow> ([], -1, -1))"

text \<open>\<open>getnameinfo\<close> gives the numeric address and port, or fails.\<close>

definition print_client_info ::
  "(nat \<Rightarrow> bool) \<Rightarrow> nat \<Rightarrow> (string \<times> int) option \<Rightarrow> 'a net_server_scheme \<Rightarrow> 'a net_server_scheme kres" where
  "print_client_info ok sd name st = (case name of
     Some (hbuf, port) \<Rightarrow> register_client_info ok sd port hbuf st | None \<Rightarrow> kret st)"

section \<open>Receiving\<close>

text \<open>A request object, put into the chain of requests. The result tells whether the put succeeded.\<close>

definition put_request ::
  "(nat \<Rightarrow> bool) \<Rightarrow> nat \<Rightarrow> string \<times> int \<times> int \<Rightarrow> string \<Rightarrow> nat \<Rightarrow> 'a net_server_scheme \<Rightarrow> bool \<times> 'a net_server_scheme" where
  "put_request ok sd info text len st =
     (let ident = request_ident st + 1;
          obj = \<lparr>nd_ident = ident, nd_sock = sd, nd_port = fst (snd info), nd_ip = fst info,
                 nd_cltid = snd (snd info), nd_len = len, nd_buffer = c_str text\<rparr>;
          placed = ok (put_calls st); st = st\<lparr>request_ident := ident, put_calls := put_calls st + 1\<rparr> in
      (placed, if placed then st\<lparr>request_chain := request_chain st @ [obj]\<rparr> else st))"

text \<open>
  The loop that looks for the end of one object and the start of the next, from index \<open>i\<close>; the rest
  starts at \<open>last_index\<close>. The byte behind the data is null. The result is that of the function.
\<close>

function frame_loop ::
  "(nat \<Rightarrow> bool) \<Rightarrow> nat \<Rightarrow> string \<times> int \<times> int \<Rightarrow> string \<Rightarrow> nat \<Rightarrow> nat \<Rightarrow> 'a net_server_scheme \<Rightarrow>
    bool \<times> 'a net_server_scheme" where
  "frame_loop ok sd info buf i last_index st =
     (if i < length buf then
        if char_at buf i = CHR ''}'' \<and> char_at buf (i + 1) = CHR ''{'' then
          case put_request ok sd info (take (i - last_index + 1) (drop last_index buf)) (i - last_index + 1) st of
            (False, st) \<Rightarrow> (False, st)
          | (True, st) \<Rightarrow> frame_loop ok sd info buf (i + 1) (i + 1) st
        else frame_loop ok sd info buf (i + 1) last_index st
      else put_request ok sd info (drop last_index buf) (length buf - last_index) st)"
  by pat_completeness auto
termination by (relation "measure (\<lambda>(_, _, _, buf, i, _, _). length buf - i)") auto

declare frame_loop.simps [simp del]

definition json_receive_data_and_notify_consumer ::
  "(nat \<Rightarrow> bool) \<Rightarrow> ('a net_server_scheme \<Rightarrow> 'a net_server_scheme kres) \<Rightarrow> nat \<Rightarrow> string \<Rightarrow> 'a net_server_scheme \<Rightarrow>
    (int \<times> 'a net_server_scheme) kres" where
  "json_receive_data_and_notify_consumer ok notify sd buf st =
     (case frame_loop ok sd (get_client_info sd st) buf 0 0 st of
        (False, st) \<Rightarrow> kret (-1, st)
      | (True, st) \<Rightarrow> kbind (notify st) (\<lambda>st. kret (0, st)))"

definition binary_receive_data_and_notify_consumer ::
  "(nat \<Rightarrow> bool) \<Rightarrow> ('a net_server_scheme \<Rightarrow> 'a net_server_scheme kres) \<Rightarrow> nat \<Rightarrow> string \<Rightarrow> 'a net_server_scheme \<Rightarrow>
    (int \<times> 'a net_server_scheme) kres" where
  "binary_receive_data_and_notify_consumer ok notify sd buf st =
     (case put_request ok sd (get_client_info sd st) buf (length buf) st of
        (False, st) \<Rightarrow> kret (-1, st)
      | (True, st) \<Rightarrow> kbind (notify st) (\<lambda>st. kret (0, st)))"

section \<open>Responses\<close>

definition schedule_response :: "(nat \<Rightarrow> bool) \<Rightarrow> nat \<Rightarrow> string \<Rightarrow> 'a net_server_scheme \<Rightarrow> int \<times> 'a net_server_scheme" where
  "schedule_response ok sd buf st =
     (let obj = \<lparr>nd_ident = 0, nd_sock = sd, nd_port = 0, nd_ip = [], nd_cltid = 0, nd_len = length buf, nd_buffer = buf\<rparr>;
          placed = ok (put_calls st); st = st\<lparr>put_calls := put_calls st + 1\<rparr> in
      if placed then (0, st\<lparr>response_chain := response_chain st @ [obj], wakeups := wakeups st + 1\<rparr>) else (-1, st))"

definition IsConnectionAlive :: "nat \<Rightarrow> 'a net_server_scheme \<Rightarrow> bool" where
  "IsConnectionAlive sd st \<longleftrightarrow> peers st sd \<noteq> None"

text \<open>One run of the sending thread; the socket takes the first \<open>room\<close> bytes and \<open>send\<close> does not wait.\<close>

definition send_response :: "nat \<Rightarrow> 'a net_server_scheme \<Rightarrow> 'a net_server_scheme" where
  "send_response room st = (case response_chain st of
     [] \<Rightarrow> st
   | x # xs \<Rightarrow>
       let st = st\<lparr>response_chain := xs\<rparr> in
       (case peers st (nd_sock x) of
          Some client \<Rightarrow> if IsConnectionAlive (nd_sock x) st
            then st\<lparr>sent := sent st @ [(client, take room (take (nd_len x) (nd_buffer x)))]\<rparr> else st
        | None \<Rightarrow> st))"

section \<open>The listening thread\<close>

text \<open>What \<open>accept\<close> and \<open>recv\<close> return; when a list of results is used up, the call would block.\<close>

datatype accept_result = Connection nat nat "(string \<times> int) option" | Accept_Error
datatype recv_result = Received string | Peer_Closed | Recv_Error

record events =
  readable :: "nat set"
  ready :: nat
  accepting :: "accept_result list"
  receiving :: "nat \<Rightarrow> recv_result list"

fun accept_loop :: "(nat \<Rightarrow> bool) \<Rightarrow> accept_result list \<Rightarrow> 'a net_server_scheme \<Rightarrow> 'a net_server_scheme kres" where
  "accept_loop ok [] st = kret st"
| "accept_loop ok (Accept_Error # rs) st = kret (st\<lparr>end_server := True\<rparr>)"
| "accept_loop ok (Connection new_sd client name # rs) st =
     kbind (print_client_info ok new_sd name (st\<lparr>peers := (peers st)(new_sd \<mapsto> client)\<rparr>)) (\<lambda>st.
       if FD_SETSIZE \<le> new_sd then kfail BufferOverrun
       else accept_loop ok rs (st\<lparr>master_set := insert new_sd (master_set st), max_sd := max (max_sd st) new_sd\<rparr>))"

text \<open>The result tells whether the connection is to be closed.\<close>

fun recv_loop ::
  "(nat \<Rightarrow> bool) \<Rightarrow> ('a net_server_scheme \<Rightarrow> 'a net_server_scheme kres) \<Rightarrow> nat \<Rightarrow> recv_result list \<Rightarrow>
    'a net_server_scheme \<Rightarrow> (bool \<times> 'a net_server_scheme) kres" where
  "recv_loop ok notify sd [] st = kret (False, st)"
| "recv_loop ok notify sd (Recv_Error # rs) st = kret (True, st)"
| "recv_loop ok notify sd (Peer_Closed # rs) st = kret (True, deregister_client_info sd st)"
| "recv_loop ok notify sd (Received buf # rs) st =
     (if AD_NET_SERVER_MAX_BUFFER_SIZE \<le> length buf then kfail BufferOverrun
      else kbind (json_receive_data_and_notify_consumer ok notify sd buf st) (\<lambda>(_, st).
        recv_loop ok notify sd rs st))"

text \<open>The next lower descriptor that is set.\<close>

fun lower_max :: "nat set \<Rightarrow> nat \<Rightarrow> nat kres" where
  "lower_max S 0 = (if 0 \<in> S then kret 0 else kfail BufferOverrun)"
| "lower_max S (Suc n) = (if Suc n \<in> S then kret (Suc n) else lower_max S n)"

definition close_connection :: "nat \<Rightarrow> 'a net_server_scheme \<Rightarrow> 'a net_server_scheme kres" where
  "close_connection i st =
     (let st = st\<lparr>peers := (peers st)(i := None), master_set := master_set st - {i}\<rparr> in
      if i = max_sd st then kbind (lower_max (master_set st) (max_sd st)) (\<lambda>n. kret (st\<lparr>max_sd := n\<rparr>))
      else kret st)"

definition serve_descriptor ::
  "(nat \<Rightarrow> bool) \<Rightarrow> ('a net_server_scheme \<Rightarrow> 'a net_server_scheme kres) \<Rightarrow> events \<Rightarrow> nat \<Rightarrow> 'a net_server_scheme \<Rightarrow>
    'a net_server_scheme kres" where
  "serve_descriptor ok notify ev i st =
     (if i = listen_sd st then accept_loop ok (accepting ev) st
      else kbind (recv_loop ok notify i (receiving ev i) st) (\<lambda>(close_conn, st).
        if close_conn then close_connection i st else kret st))"

text \<open>The loop over the descriptors after a \<open>select\<close> that returned \<open>desc_ready\<close> of them in \<open>readable ev\<close>.\<close>

function scan_descriptors ::
  "(nat \<Rightarrow> bool) \<Rightarrow> ('a net_server_scheme \<Rightarrow> 'a net_server_scheme kres) \<Rightarrow> events \<Rightarrow> nat \<Rightarrow> nat \<Rightarrow> 'a net_server_scheme \<Rightarrow>
    'a net_server_scheme kres" where
  "scan_descriptors ok notify ev desc_ready i st =
     (if i \<le> max_sd st \<and> 0 < desc_ready then
        if i \<in> readable ev
        then kbind (serve_descriptor ok notify ev i st) (scan_descriptors ok notify ev (desc_ready - 1) (i + 1))
        else scan_descriptors ok notify ev desc_ready (i + 1) st
      else kret st)"
  by pat_completeness auto
termination
  by (relation "inv_image (less_than <*lex*> less_than) (\<lambda>(_, _, _, n, i, st). (n, max_sd st + 1 - i))") auto

declare scan_descriptors.simps [simp del]

text \<open>The listening thread over a sequence of returns of \<open>select\<close>: an error, a timeout, or ready descriptors.\<close>

datatype select_result = Select_Error | Select_Timeout | Select_Ready events

fun listen_thread ::
  "(nat \<Rightarrow> bool) \<Rightarrow> ('a net_server_scheme \<Rightarrow> 'a net_server_scheme kres) \<Rightarrow> select_result list \<Rightarrow> 'a net_server_scheme \<Rightarrow>
    'a net_server_scheme kres" where
  "listen_thread ok notify [] st = kret st"
| "listen_thread ok notify (r # rs) st =
     (if end_server st then kret st
      else case r of
        Select_Error \<Rightarrow> kret st
      | Select_Timeout \<Rightarrow> listen_thread ok notify rs st
      | Select_Ready ev \<Rightarrow> kbind (scan_descriptors ok notify ev (ready ev) 0 st) (listen_thread ok notify rs))"

section \<open>Starting and stopping\<close>

text \<open>The returns of the system calls of \<open>start_listening\<close>; a failure closes the new socket again.\<close>

record listen_calls =
  r_socket :: int
  r_setsockopt :: int
  r_ioctl :: int
  r_bind :: int
  r_listen :: int

definition net_new :: net_server where
  "net_new = \<lparr>listen_sd = 0, max_sd = 0, master_set = {}, end_server = False, connected = False, request_chain = [],
     response_chain = [], clientInfo_chain = [], request_ident = 0, clientInfo_ident = 0, wakeups = 0,
     put_calls = 0, peers = (\<lambda>_. None), sent = []\<rparr>"

definition start_listening :: "listen_calls \<Rightarrow> 'a net_server_scheme \<Rightarrow> (int \<times> 'a net_server_scheme) kres" where
  "start_listening r st =
     (if r_socket r < 0 then kret (-1, st)
      else let sd = nat (r_socket r); st = st\<lparr>listen_sd := sd\<rparr> in
        if r_setsockopt r < 0 then kret (-1, st)
        else if r_ioctl r < 0 then kret (-1, st)
        else if r_bind r < 0 then kret (-1, st)
        else if r_listen r < 0 then kret (-1, st)
        else if FD_SETSIZE \<le> sd then kfail BufferOverrun
        else kret (0, st\<lparr>max_sd := sd, master_set := {sd}, end_server := False, connected := True\<rparr>))"

definition stop_listening :: "'a net_server_scheme \<Rightarrow> int \<times> 'a net_server_scheme" where
  "stop_listening st =
     (if \<not> connected st then (0, st)
      else (0, st\<lparr>end_server := True, request_chain := [], response_chain := [], clientInfo_chain := [],
        peers := (\<lambda>i. if i \<le> max_sd st \<and> i \<in> master_set st then None else peers st i), connected := False\<rparr>))"

text \<open>A server that listens on the descriptor \<open>sd\<close>.\<close>

definition net_init :: "nat \<Rightarrow> net_server" where
  "net_init sd = net_new\<lparr>listen_sd := sd, max_sd := sd, master_set := {sd}, connected := True\<rparr>"

end
