(* ===== verification/Net_Proofs.thy ===== *)
theory Net_Proofs
  imports Net_Server
begin

text \<open>
  The TCP server: how it cuts the received bytes into requests, its set of descriptors, and what
  happens when a descriptor is used for another client.
\<close>

section \<open>Cutting a stream into requests\<close>

text \<open>The reference: cut between every closing and opening brace that are neighbours.\<close>

fun frames :: "string \<Rightarrow> string list" where
  "frames [] = [[]]"
| "frames [c] = [[c]]"
| "frames (c # d # s) =
     (if c = CHR ''}'' \<and> d = CHR ''{'' then [c] # frames (d # s)
      else (c # hd (frames (d # s))) # tl (frames (d # s)))"

lemma frames_ne [simp]: "frames s \<noteq> []"
  by (induction s rule: frames.induct) auto

lemma concat_frames [simp]: "concat (frames s) = s"
proof (induction s rule: frames.induct)
  case (3 c d s)
  then show ?case by (cases "frames (d # s)") auto
qed auto

definition put_frame :: "nat \<Rightarrow> string \<times> int \<times> int \<Rightarrow> string \<Rightarrow> 'a net_server_scheme \<Rightarrow> 'a net_server_scheme" where
  "put_frame sd info f st = snd (put_request (\<lambda>_. True) sd info f (length f) st)"

lemma put_request_ok: "\<forall>n. ok n \<Longrightarrow> put_request ok sd info f (length f) st = (True, put_frame sd info f st)"
  by (simp add: put_request_def put_frame_def Let_def)

lemma frames_step:
  assumes "i < length buf"
  shows "frames (drop i buf) =
    (if char_at buf i = CHR ''}'' \<and> char_at buf (i + 1) = CHR ''{'' then [buf ! i] # frames (drop (i + 1) buf)
     else if i + 1 < length buf then (buf ! i # hd (frames (drop (i + 1) buf))) # tl (frames (drop (i + 1) buf))
     else [[buf ! i]])"
proof (cases "i + 1 < length buf")
  case True
  have "drop i buf = buf ! i # buf ! (i + 1) # drop (i + 2) buf" "drop (i + 1) buf = buf ! (i + 1) # drop (i + 2) buf"
    using assms True Cons_nth_drop_Suc [of i buf] Cons_nth_drop_Suc [of "i + 1" buf] by simp_all
  then show ?thesis using assms True by (simp add: char_at_def)
next
  case False
  then have "drop i buf = [buf ! i]" using assms Cons_nth_drop_Suc [of i buf] by simp
  then show ?thesis using assms False by (simp add: char_at_def)
qed

lemma frame_loop_frames:
  assumes "\<forall>n. ok n" and "last_index \<le> i" and "i \<le> length buf"
  shows "frame_loop ok sd info buf i last_index st =
    (True, fold (put_frame sd info)
       ((take (i - last_index) (drop last_index buf) @ hd (frames (drop i buf))) # tl (frames (drop i buf))) st)"
  using assms(2,3)
proof (induction "length buf - i" arbitrary: i last_index st)
  case 0
  then have i: "i = length buf" by simp
  have "drop last_index buf = take (i - last_index) (drop last_index buf)" using i by simp
  then show ?case
    using i put_request_ok [OF assms(1), of sd info "drop last_index buf" st]
    by (subst frame_loop.simps) simp
next
  case (Suc n)
  then have i: "i < length buf" by simp
  have take: "take (Suc i - last_index) (drop last_index buf) = take (i - last_index) (drop last_index buf) @ [buf ! i]"
    using i Suc.prems by (simp add: Suc_diff_le take_Suc_conv_app_nth)
  have len: "length (take (Suc i - last_index) (drop last_index buf)) = i - last_index + 1"
    using i Suc.prems by simp
  show ?case
  proof (cases "char_at buf i = CHR ''}'' \<and> char_at buf (i + 1) = CHR ''{''")
    case True
    have "put_request ok sd info (take (i - last_index + 1) (drop last_index buf)) (i - last_index + 1) st =
        (True, put_frame sd info (take (i - last_index) (drop last_index buf) @ [buf ! i]) st)"
      using put_request_ok [OF assms(1), of sd info "take (Suc i - last_index) (drop last_index buf)" st] len take Suc.prems
      by (simp add: Suc_diff_le)
    then show ?thesis
      using True i Suc.hyps(1) [of "i + 1" "i + 1"] Suc.hyps(2) frames_step [OF i]
      by (subst frame_loop.simps) simp
  next
    case False
    have "frame_loop ok sd info buf i last_index st = frame_loop ok sd info buf (i + 1) last_index st"
      using False i by (subst frame_loop.simps) auto
    moreover have "frames (drop i buf) = (buf ! i # hd (frames (drop (i + 1) buf))) # tl (frames (drop (i + 1) buf))"
      using frames_step [OF i] False by (cases "i + 1 < length buf") auto
    ultimately show ?thesis
      using Suc.hyps(1) [of "i + 1" last_index] Suc.hyps(2) Suc.prems i take by simp
  qed
qed

lemma put_frame_chain:
  "request_chain (put_frame sd info f st) = request_chain st @
    [\<lparr>nd_ident = request_ident st + 1, nd_sock = sd, nd_port = fst (snd info), nd_ip = fst info,
      nd_cltid = snd (snd info), nd_len = length f, nd_buffer = c_str f\<rparr>]"
  by (simp add: put_frame_def put_request_def Let_def)

lemma fold_put_frame:
  "map (\<lambda>x. (nd_sock x, nd_len x, nd_buffer x)) (request_chain (fold (put_frame sd info) fs st)) =
   map (\<lambda>x. (nd_sock x, nd_len x, nd_buffer x)) (request_chain st) @ map (\<lambda>f. (sd, length f, c_str f)) fs"
  by (induction fs arbitrary: st) (simp_all add: put_frame_chain)

lemma receive_frames:
  assumes "\<forall>n. ok n"
  shows "json_receive_data_and_notify_consumer ok notify sd buf st =
    kbind (notify (fold (put_frame sd (get_client_info sd st)) (frames buf) st)) (\<lambda>st. kret (0, st))"
proof -
  have "(hd (frames buf) # tl (frames buf)) = frames buf" by simp
  then show ?thesis
    using frame_loop_frames [OF assms, of 0 0 buf sd "get_client_info sd st" st]
    by (simp add: json_receive_data_and_notify_consumer_def)
qed

text \<open>
  A request that starts with an opening and ends with a closing brace and in which no closing brace is right before an opening one. A request may well have
  both inside a string; the code cuts it there, see \<open>json_string_cut\<close>.
\<close>

fun no_cut :: "string \<Rightarrow> bool" where
  "no_cut (c # d # s) \<longleftrightarrow> (c = CHR ''}'' \<longrightarrow> d \<noteq> CHR ''{'') \<and> no_cut (d # s)"
| "no_cut _ \<longleftrightarrow> True"

definition framed :: "string \<Rightarrow> bool" where
  "framed s \<longleftrightarrow> s \<noteq> [] \<and> hd s = CHR ''{'' \<and> last s = CHR ''}'' \<and> no_cut s \<and> list_all (\<lambda>c. c \<noteq> CHR 0x00) s"

lemma frames_no_cut: "no_cut s \<Longrightarrow> frames s = [s]"
  by (induction s rule: frames.induct) auto

lemma frames_append:
  assumes "s \<noteq> []" and "t \<noteq> []" and "last s = CHR ''}''" and "hd t = CHR ''{''" and "no_cut s"
  shows "frames (s @ t) = s # frames t"
  using assms
proof (induction s rule: frames.induct)
  case (2 c)
  then show ?case by (cases t) auto
qed auto

lemma frames_concat:
  assumes "list_all framed objs" and "objs \<noteq> []"
  shows "frames (concat objs) = objs"
  using assms
proof (induction objs)
  case (Cons s objs)
  show ?case
  proof (cases "objs = []")
    case True
    then show ?thesis using Cons.prems by (simp add: framed_def frames_no_cut)
  next
    case False
    then obtain u us where u: "objs = u # us" by (cases objs) auto
    then have "concat objs \<noteq> []" "hd (concat objs) = CHR ''{''" using Cons.prems by (auto simp: framed_def)
    then show ?thesis using Cons False frames_append [of s "concat objs"] by (simp add: framed_def)
  qed
qed simp

lemma c_str_id: "list_all (\<lambda>c. c \<noteq> CHR 0x00) s \<Longrightarrow> c_str s = s"
  by (simp add: c_str_def list_all_iff)

text \<open>
  Property C36: requests that arrive together in one receive are queued one by one, in order and unchanged, and the
  consumer is told once, when there is memory for them, each request begins with an opening and ends with a closing brace, has no null character
  and nowhere inside, not even in a string, a closing brace right before an opening one, where the code would cut it.
\<close>

theorem json_requests_separated:
  assumes "\<forall>n. ok n" and "list_all framed objs" and "objs \<noteq> []"
  shows "\<exists>st'. json_receive_data_and_notify_consumer ok notify sd (concat objs) st =
      kbind (notify st') (\<lambda>st. kret (0, st)) \<and>
    map (\<lambda>x. (nd_sock x, nd_len x, nd_buffer x)) (request_chain st') =
      map (\<lambda>x. (nd_sock x, nd_len x, nd_buffer x)) (request_chain st) @ map (\<lambda>s. (sd, length s, s)) objs"
proof -
  have "map (\<lambda>s. (sd, length s, c_str s)) objs = map (\<lambda>s. (sd, length s, s)) objs"
    using assms(2) by (induction objs) (auto simp: framed_def c_str_id)
  then show ?thesis
    unfolding receive_frames [OF assms(1)] frames_concat [OF assms(2,3)]
    by (intro exI [of _ "fold (put_frame sd (get_client_info sd st)) objs st"]) (simp add: fold_put_frame)
qed

theorem json_requests_separated_witness:
  "\<exists>st'. json_receive_data_and_notify_consumer (\<lambda>_. True) kret 5 (concat [''{a}'', ''{{}b}'']) (net_init 3) =
      kbind (kret st') (\<lambda>st. kret (0, st)) \<and>
    map (\<lambda>x. (nd_sock x, nd_len x, nd_buffer x)) (request_chain st') =
      map (\<lambda>x. (nd_sock x, nd_len x, nd_buffer x)) (request_chain (net_init 3)) @
      map (\<lambda>s. (5, length s, s)) [''{a}'', ''{{}b}'']"
  by (rule json_requests_separated) (simp_all add: framed_def)

text \<open>
  Fact: braces inside a string are cut too: a request whose string holds a closing and an opening brace is
  queued as two broken ones.
\<close>

theorem json_string_cut:
  "\<exists>st'. json_receive_data_and_notify_consumer (\<lambda>_. True) kret sd (''{'' @ [CHR 0x22] @ ''}{'' @ [CHR 0x22] @ '':1}'') st = kret (0, st') \<and>
    map nd_buffer (request_chain st') = map nd_buffer (request_chain st) @ [''{'' @ [CHR 0x22] @ ''}'', ''{'' @ [CHR 0x22] @ '':1}'']"
  unfolding receive_frames [of "\<lambda>_. True", simplified]
  by (simp add: put_frame_chain c_str_def)

section \<open>The set of descriptors\<close>

text \<open>
  The set holds the listening socket and the descriptors of the open connections, and \<open>max_sd\<close> is its
  largest member, so that \<open>select\<close> watches all of them.
\<close>

definition net_inv :: "'a net_server_scheme \<Rightarrow> bool" where
  "net_inv st \<longleftrightarrow> listen_sd st \<in> master_set st \<and> max_sd st \<in> master_set st \<and>
     (\<forall>i \<in> master_set st. i \<le> max_sd st) \<and> max_sd st < FD_SETSIZE \<and>
     (\<forall>i. peers st i \<noteq> None \<longleftrightarrow> i \<in> master_set st \<and> i \<noteq> listen_sd st)"

text \<open>The part of the state the invariant is about.\<close>

definition conns :: "'a net_server_scheme \<Rightarrow> nat \<times> nat \<times> nat set \<times> (nat \<Rightarrow> nat option)" where
  "conns st = (listen_sd st, max_sd st, master_set st, peers st)"

lemma net_inv_conns: "conns st' = conns st \<Longrightarrow> net_inv st \<Longrightarrow> net_inv st' \<and> listen_sd st' = listen_sd st"
  by (simp add: conns_def net_inv_def)

lemma put_request_conns [simp]: "put_request ok sd info f n st = (b, st') \<Longrightarrow> conns st' = conns st"
  by (auto simp: put_request_def conns_def Let_def split: if_splits)

lemma frame_loop_conns: "frame_loop ok sd info buf i last_index st = (b, st') \<Longrightarrow> conns st' = conns st"
proof (induction ok sd info buf i last_index st rule: frame_loop.induct)
  case (1 ok sd info buf i last_index st)
  show ?case
  proof (cases "i < length buf \<and> char_at buf i = CHR ''}'' \<and> char_at buf (i + 1) = CHR ''{''")
    case True
    obtain p s1 where p: "put_request ok sd info (take (i - last_index + 1) (drop last_index buf)) (i - last_index + 1) st = (p, s1)"
      by fastforce
    then show ?thesis
      using 1 True put_request_conns [OF p] by (cases p) (auto simp: frame_loop.simps [of ok sd info buf i])
  next
    case False
    then show ?thesis using 1 by (auto simp: frame_loop.simps [of ok sd info buf i] split: if_splits)
  qed
qed

text \<open>A consumer that returns and does not touch the connections.\<close>

definition quiet :: "('a net_server_scheme \<Rightarrow> 'a net_server_scheme kres) \<Rightarrow> bool" where
  "quiet notify \<longleftrightarrow> (\<forall>st. \<exists>st'. notify st = kret st' \<and> conns st' = conns st)"

lemma receive_conns:
  assumes "quiet notify"
  shows "\<exists>r st'. json_receive_data_and_notify_consumer ok notify sd buf st = kret (r, st') \<and> conns st' = conns st"
proof -
  obtain b s1 where loop: "frame_loop ok sd (get_client_info sd st) buf 0 0 st = (b, s1)" by fastforce
  obtain s2 where "notify s1 = kret s2" "conns s2 = conns s1" using assms by (auto simp: quiet_def)
  then show ?thesis
    using loop frame_loop_conns [OF loop] by (cases b) (simp_all add: json_receive_data_and_notify_consumer_def)
qed

text \<open>
  Reports that the sets and the buffers have room for: descriptors below the size of the sets, names of hosts of less than 512 characters, and fewer bytes
  than the receive buffer has. The system may report others: a receive that fills the buffer, a descriptor beyond the sets or a long name overruns them.
\<close>

definition accept_fits :: "nat \<Rightarrow> accept_result \<Rightarrow> bool" where
  "accept_fits lsd r = (case r of Accept_Error \<Rightarrow> True
     | Connection sd client name \<Rightarrow> sd < FD_SETSIZE \<and> sd \<noteq> lsd \<and> (case name of None \<Rightarrow> True | Some (h, p) \<Rightarrow> length h < 512))"

definition recv_fits :: "recv_result \<Rightarrow> bool" where
  "recv_fits r = (case r of Received buf \<Rightarrow> length buf < AD_NET_SERVER_MAX_BUFFER_SIZE | _ \<Rightarrow> True)"

definition events_fit :: "nat \<Rightarrow> events \<Rightarrow> bool" where
  "events_fit lsd ev \<longleftrightarrow> list_all (accept_fits lsd) (accepting ev) \<and> (\<forall>i. list_all recv_fits (receiving ev i))"

definition select_fits :: "nat \<Rightarrow> select_result \<Rightarrow> bool" where
  "select_fits lsd r = (case r of Select_Ready ev \<Rightarrow> events_fit lsd ev | _ \<Rightarrow> True)"

lemma recv_loop_conns:
  assumes "quiet notify" and "list_all recv_fits rs"
  shows "\<exists>b st'. recv_loop ok notify sd rs st = kret (b, st') \<and> conns st' = conns st"
  using assms(2)
proof (induction rs arbitrary: st)
  case Nil
  show ?case by (intro exI [of _ False] exI [of _ st]) simp
next
  case (Cons r rs)
  show ?case
  proof (cases r)
    case (Received buf)
    from receive_conns [OF assms(1), of ok sd buf st] obtain r1 s1 where
      s1: "json_receive_data_and_notify_consumer ok notify sd buf st = kret (r1, s1)" "conns s1 = conns st" by blast
    moreover from Cons.IH [of s1] Cons.prems obtain b s2 where "recv_loop ok notify sd rs s1 = kret (b, s2)" "conns s2 = conns s1"
      by auto
    ultimately show ?thesis using Cons.prems Received by (simp add: recv_fits_def)
  next
    case Peer_Closed
    then show ?thesis
      by (intro exI [of _ True] exI [of _ "deregister_client_info sd st"]) (simp add: deregister_client_info_def conns_def)
  next
    case Recv_Error
    then show ?thesis by (intro exI [of _ True] exI [of _ st]) simp
  qed
qed

lemma print_client_info_conns:
  assumes "accept_fits lsd (Connection sd client name)"
  shows "\<exists>st'. print_client_info ok sd name st = kret st' \<and> conns st' = conns st"
  using assms
  by (auto simp: print_client_info_def register_client_info_def accept_fits_def conns_def Let_def
      split: option.splits prod.splits)

lemma accept_loop_inv:
  assumes "list_all (accept_fits (listen_sd st)) rs" and "net_inv st"
  shows "\<exists>st'. accept_loop ok rs st = kret st' \<and> net_inv st' \<and> listen_sd st' = listen_sd st"
  using assms
proof (induction rs arbitrary: st)
  case (Cons r rs)
  show ?case
  proof (cases r)
    case (Connection sd client name)
    with Cons.prems have sd: "sd < FD_SETSIZE" "sd \<noteq> listen_sd st" by (auto simp: accept_fits_def)
    let ?s0 = "st\<lparr>peers := (peers st)(sd \<mapsto> client)\<rparr>"
    from print_client_info_conns [of "listen_sd st" sd client name ok ?s0] Cons.prems Connection obtain s1 where
      s1: "print_client_info ok sd name ?s0 = kret s1" "conns s1 = conns ?s0" by auto
    let ?s2 = "s1\<lparr>master_set := insert sd (master_set s1), max_sd := max (max_sd s1) sd\<rparr>"
    have "net_inv ?s2" "listen_sd ?s2 = listen_sd st"
      using Cons.prems(2) sd s1(2) by (auto simp: net_inv_def conns_def max_def)
    then show ?thesis using Cons.IH [of ?s2] Cons.prems(1) Connection s1 sd by auto
  next
    case Accept_Error
    then show ?thesis using Cons.prems(2) by (auto simp: net_inv_def)
  qed
qed simp

lemma lower_max_ok:
  assumes "m \<in> S" and "m \<le> n"
  shows "\<exists>k. lower_max S n = kret k \<and> k \<in> S \<and> k \<le> n \<and> (\<forall>i \<in> S. i \<le> n \<longrightarrow> i \<le> k)"
  using assms
proof (induction n)
  case (Suc n)
  show ?case
  proof (cases "Suc n \<in> S")
    case False
    then have "m \<le> n" using Suc.prems by (metis le_SucE)
    with Suc False show ?thesis by (fastforce simp: le_Suc_eq)
  qed auto
qed auto

lemma close_connection_inv:
  assumes "net_inv st" and "i \<noteq> listen_sd st"
  shows "\<exists>st'. close_connection i st = kret st' \<and> net_inv st' \<and> listen_sd st' = listen_sd st"
proof (cases "i = max_sd st")
  case False
  then show ?thesis using assms by (auto simp: close_connection_def net_inv_def)
next
  case True
  have "listen_sd st \<in> master_set st - {i}" "listen_sd st \<le> max_sd st" using assms by (auto simp: net_inv_def)
  from lower_max_ok [OF this] obtain k where k: "lower_max (master_set st - {i}) (max_sd st) = kret k"
    "k \<in> master_set st - {i}" "k \<le> max_sd st" "\<forall>j \<in> master_set st - {i}. j \<le> max_sd st \<longrightarrow> j \<le> k" by blast
  then show ?thesis using True assms by (auto simp: close_connection_def net_inv_def)
qed

lemma serve_descriptor_inv:
  assumes "quiet notify" and "events_fit (listen_sd st) ev" and "net_inv st"
  shows "\<exists>st'. serve_descriptor ok notify ev i st = kret st' \<and> net_inv st' \<and> listen_sd st' = listen_sd st"
proof (cases "i = listen_sd st")
  case True
  then show ?thesis using accept_loop_inv assms by (auto simp: serve_descriptor_def events_fit_def)
next
  case False
  from recv_loop_conns [OF assms(1), of "receiving ev i" ok i st] assms(2) obtain b s1 where
    s1: "recv_loop ok notify i (receiving ev i) st = kret (b, s1)" "conns s1 = conns st" by (auto simp: events_fit_def)
  then have "net_inv s1" "listen_sd s1 = listen_sd st" using net_inv_conns assms(3) by blast+
  then show ?thesis using close_connection_inv [of s1 i] s1(1) False by (cases b) (auto simp: serve_descriptor_def)
qed

lemma scan_descriptors_inv:
  assumes "quiet notify" and "events_fit (listen_sd st) ev" and "net_inv st"
  shows "\<exists>st'. scan_descriptors ok notify ev n i st = kret st' \<and> net_inv st' \<and> listen_sd st' = listen_sd st"
  using assms
proof (induction ok notify ev n i st rule: scan_descriptors.induct)
  case (1 ok notify ev n i st)
  show ?case
  proof (cases "i \<le> max_sd st \<and> 0 < n \<and> i \<in> readable ev")
    case True
    obtain s1 where s1: "serve_descriptor ok notify ev i st = kret s1" "net_inv s1" "listen_sd s1 = listen_sd st"
      using serve_descriptor_inv 1(3-5) by blast
    have "events_fit (listen_sd s1) ev" using 1(4) s1(3) by simp
    then have "\<exists>st'. scan_descriptors ok notify ev (n - 1) (i + 1) s1 = kret st' \<and> net_inv st' \<and> listen_sd st' = listen_sd s1"
      using True 1(1) [of s1] 1(3) s1(2) by simp
    then show ?thesis using True s1 by (subst scan_descriptors.simps) simp
  next
    case False
    then show ?thesis using 1 by (subst scan_descriptors.simps) auto
  qed
qed

text \<open>
  Property C24: over any sequence of returns of \<open>select\<close>, \<open>accept\<close> and \<open>recv\<close> that the thread has room for, the listening thread does not fault, and
  its set is at every return exactly the listening socket and the open connections, with \<open>max_sd\<close> the
  largest. There is room when every \<open>recv\<close> returns fewer bytes than the buffer holds and every \<open>accept\<close> a descriptor below
  \<open>FD_SETSIZE\<close>, other than that of the listening socket, and a host name of less than 512 characters; nothing in the code enforces it. The consumer
  of the requests is assumed to return and to leave the connections alone.
\<close>

theorem listen_thread_keeps_set:
  assumes "quiet notify" and "net_inv st"
    and "list_all (select_fits (listen_sd st)) rs"
  shows "\<exists>st'. listen_thread ok notify rs st = kret st' \<and> net_inv st'"
  using assms(2,3)
proof (induction rs arbitrary: st)
  case (Cons r rs)
  show ?case
  proof (cases r)
    case (Select_Ready ev)
    with Cons.prems scan_descriptors_inv [OF assms(1), of st ev ok "ready ev" 0] obtain s1 where
      s1: "scan_descriptors ok notify ev (ready ev) 0 st = kret s1" "net_inv s1" "listen_sd s1 = listen_sd st"
      by (auto simp: select_fits_def)
    from Cons.IH [OF s1(2)] s1(3) Cons.prems(2) obtain s2 where "listen_thread ok notify rs s1 = kret s2" "net_inv s2" by auto
    then show ?thesis using Select_Ready s1(1) Cons.prems(1) by auto
  qed (use Cons in auto)
qed auto

theorem listen_thread_keeps_set_witness:
  "\<exists>st'. listen_thread (\<lambda>_. True) kret
      [Select_Timeout, Select_Ready \<lparr>readable = {3}, ready = 1, accepting = [Connection 5 1 (Some (''10.0.0.1'', 99))],
         receiving = (\<lambda>_. [])\<rparr>,
       Select_Ready \<lparr>readable = {5}, ready = 1, accepting = [], receiving = (\<lambda>_. [Received ''{}'', Peer_Closed])\<rparr>]
      (net_init 3) = kret st' \<and> net_inv st'"
  by (rule listen_thread_keeps_set)
    (auto simp: quiet_def net_inv_def net_init_def net_new_def FD_SETSIZE_def select_fits_def events_fit_def accept_fits_def
      recv_fits_def AD_NET_SERVER_MAX_BUFFER_SIZE_def)

text \<open>
  Starting gives such a state, or leaves the server not connected; stopping closes every connection.
\<close>

lemma start_listening_inv:
  assumes "start_listening r st = kret (rc, st')" and "\<forall>i. peers st i = None"
  shows "if rc = 0 then net_inv st' \<and> connected st' else connected st' = connected st"
  using assms by (auto simp: start_listening_def net_inv_def Let_def split: if_splits)

lemma stop_listening_closes: "net_inv st \<Longrightarrow> connected st \<Longrightarrow> peers (snd (stop_listening st)) i = None"
  by (auto simp: stop_listening_def net_inv_def)

section \<open>A descriptor that is used again\<close>

lemma close_accept:
  assumes "net_inv st" and "sd \<noteq> listen_sd st" and "accept_fits (listen_sd st) (Connection sd b name)"
  shows "\<exists>s1 s2. close_connection sd st = kret s1 \<and> accept_loop ok [Connection sd b name] s1 = kret s2 \<and>
    response_chain s2 = response_chain st \<and> sent s2 = sent st \<and> peers s2 sd = Some b \<and>
    (\<exists>xs. clientInfo_chain s2 = clientInfo_chain st @ xs)"
proof -
  obtain s1 where s1: "close_connection sd st = kret s1" "net_inv s1"
    using close_connection_inv [OF assms(1,2)] by blast
  then have c: "response_chain s1 = response_chain st" "sent s1 = sent st" "clientInfo_chain s1 = clientInfo_chain st"
    by (auto simp: close_connection_def Let_def kbind_eq_kret split: if_splits)
  let ?s0 = "s1\<lparr>peers := (peers s1)(sd \<mapsto> b)\<rparr>"
  from print_client_info_conns [OF assms(3), of ok ?s0] obtain s2 where
    s2: "print_client_info ok sd name ?s0 = kret s2" "conns s2 = conns ?s0" by blast
  have "response_chain s2 = response_chain ?s0" "sent s2 = sent ?s0" "\<exists>xs. clientInfo_chain s2 = clientInfo_chain ?s0 @ xs"
    using s2(1) by (auto simp: print_client_info_def register_client_info_def Let_def split: option.splits prod.splits if_splits)
  moreover have "peers s2 sd = Some b" using s2(2) by (simp add: conns_def)
  moreover have "sd < FD_SETSIZE" using assms(3) by (simp add: accept_fits_def)
  ultimately show ?thesis using s1(1) s2(1) c
    by (intro exI [of _ s1] exI [of _ "s2\<lparr>master_set := insert sd (master_set s2), max_sd := max (max_sd s2) sd\<rparr>"]) simp
qed

text \<open>
  Fact: a response that is still queued when its client leaves is sent to the client that gets the descriptor
  next; the sender only asks whether the descriptor is connected.
\<close>

theorem response_to_next_client:
  assumes "net_inv st" and "peers st sd = Some a" and "response_chain st = x # xs" and "nd_sock x = sd"
    and "accept_fits (listen_sd st) (Connection sd b name)"
  shows "\<exists>s1 s2. close_connection sd st = kret s1 \<and> accept_loop ok [Connection sd b name] s1 = kret s2 \<and>
    sent (send_response room s2) = sent st @ [(b, take room (take (nd_len x) (nd_buffer x)))]"
proof -
  have "sd \<noteq> listen_sd st" using assms(1,2) by (auto simp: net_inv_def)
  from close_accept [OF assms(1) this assms(5), of ok] obtain s1 s2 where
    "close_connection sd st = kret s1" "accept_loop ok [Connection sd b name] s1 = kret s2"
    "response_chain s2 = x # xs" "sent s2 = sent st" "peers s2 sd = Some b" using assms(3) by auto
  then show ?thesis using assms(4) by (intro exI [of _ s1] exI [of _ s2]) (simp add: send_response_def IsConnectionAlive_def)
qed

definition answered_5 :: net_server where
  "answered_5 = (net_init 3)\<lparr>master_set := {3, 5}, max_sd := 5, peers := [5 \<mapsto> 100],
     response_chain := [\<lparr>nd_ident = 0, nd_sock = 5, nd_port = 0, nd_ip = [], nd_cltid = 0, nd_len = 6, nd_buffer = ''secret''\<rparr>]\<rparr>"

theorem response_to_next_client_witness:
  "\<exists>s1 s2. close_connection 5 answered_5 = kret s1 \<and>
    accept_loop (\<lambda>_. True) [Connection 5 200 (Some (''10.0.0.9'', 7))] s1 = kret s2 \<and>
    sent (send_response 1000 s2) = [(200, ''secret'')]"
  using response_to_next_client [of answered_5 5 100 "hd (response_chain answered_5)" "[]" 200 "Some (''10.0.0.9'', 7)" "\<lambda>_. True" 1000]
  by (auto simp: answered_5_def net_inv_def net_init_def net_new_def FD_SETSIZE_def accept_fits_def)

lemma find_sock_append: "find_sock sd xs = Some x \<Longrightarrow> find_sock sd (xs @ ys) = Some x"
  by (induction xs) auto

text \<open>
  Fact: a connection that ends with an error keeps its entry in the list of clients, so the next client on the
  descriptor is taken for the previous one.
\<close>

theorem client_info_stale:
  assumes "net_inv st" and "sd \<noteq> listen_sd st" and "find_sock sd (clientInfo_chain st) = Some x"
    and "accept_fits (listen_sd st) (Connection sd b name)" and "receiving ev sd = [Recv_Error]"
  shows "\<exists>s1 s2. serve_descriptor ok notify ev sd st = kret s1 \<and> accept_loop ok [Connection sd b name] s1 = kret s2 \<and>
    get_client_info sd s2 = (nd_ip x, nd_port x, sint (nd_ident x))"
proof -
  from close_accept [OF assms(1,2,4), of ok] obtain s1 s2 xs where
    "close_connection sd st = kret s1" "accept_loop ok [Connection sd b name] s1 = kret s2"
    "clientInfo_chain s2 = clientInfo_chain st @ xs" by auto
  then show ?thesis using assms(2,3,5) find_sock_append
    by (intro exI [of _ s1] exI [of _ s2]) (simp add: serve_descriptor_def get_client_info_def)
qed

definition client_5 :: net_server where
  "client_5 = (net_init 3)\<lparr>master_set := {3, 5}, max_sd := 5, peers := [5 \<mapsto> 100],
     clientInfo_chain := [\<lparr>nd_ident = 1, nd_sock = 5, nd_port = 99, nd_ip = ''10.0.0.1'', nd_cltid = 0, nd_len = 0, nd_buffer = []\<rparr>]\<rparr>"

theorem client_info_stale_witness:
  "\<exists>s1 s2. serve_descriptor (\<lambda>_. True) kret \<lparr>readable = {5}, ready = 1, accepting = [], receiving = (\<lambda>_. [Recv_Error])\<rparr> 5 client_5 = kret s1 \<and>
    accept_loop (\<lambda>_. True) [Connection 5 200 (Some (''10.0.0.9'', 7))] s1 = kret s2 \<and>
    get_client_info 5 s2 = (''10.0.0.1'', 99, 1)"
  using client_info_stale [of client_5 5 "hd (clientInfo_chain client_5)" 200 "Some (''10.0.0.9'', 7)"
      "\<lparr>readable = {5}, ready = 1, accepting = [], receiving = (\<lambda>_. [Recv_Error])\<rparr>" "\<lambda>_. True" kret]
  by (auto simp: client_5_def net_inv_def net_init_def net_new_def FD_SETSIZE_def accept_fits_def)

end
