(* ===== verification/Json_Rpc.thy ===== *)
theory Json_Rpc
  imports Json_Accepts Net_Proofs C_Strings
begin

text \<open>
  The JSON-RPC server of the services: \<open>ADJsonRpcProxy.cpp\<close> takes requests from the TCP server and queues
  the responses, \<open>ADJsonRpcMapper.cpp\<close> runs the methods in a thread of its own (both under
  \<open>src/sources/lib/lib-adav-old/src/\<close>). A task object is reached through its address from the chain of
  open requests and from the chain of the mapper. The JSON library is a parameter: its parser, the
  lookup of a member of an object, the text of a value (none for a member that is missing) and its printer.
  A value that the server builds is a tree of type \<open>json\<close>, and an object is the list of its members. The
  reference counts of the library are not modelled.
\<close>

section \<open>JSON values\<close>

datatype json = JNull | JBool bool | JInt int | JDouble string | JStr string | JArr "json list" | JObj "(string \<times> json) list"

record json_lib =
  tokener_parse :: "string \<Rightarrow> json option"
  object_get :: "json \<Rightarrow> string \<Rightarrow> json option"
  get_string :: "json option \<Rightarrow> string option"
  to_json_string :: "json \<Rightarrow> string"

section \<open>State\<close>

datatype CMD_TASK_ACC = CMD_TASK_ACCESS_SYNC | CMD_TASK_ACCESS_ASYNC | CMD_TASK_ACCESS_NONE

datatype CMD_TASK_RESULT =
  CMD_TASK_RESULT_FAIL | CMD_TASK_RESULT_SUCCESS | CMD_TASK_RESULT_INVALID_PARAM | CMD_TASK_RESULT_DEV_TIMEOUT |
  CMD_TASK_RESULT_DEV_ERR | CMD_TASK_RESULT_MEM_FAIL | CMD_TASK_RESULT_IN_PROGRESS | CMD_TASK_RESULT_NOT_STARTED |
  CMD_TASK_RESULT_ACTUAL_VALUE | CMD_TASK_RESULT_UNKNOWN

datatype JSON_RPC_ERR_TYPE =
  JSON_RPC_ERR_PARSE_ERROR | JSON_RPC_ERR_INVALID_REQ | JSON_RPC_ERR_METHOD_NOT_FOUND |
  JSON_RPC_ERR_INVALID_PARAMS | JSON_RPC_ERR_INTERNAL_ERROR | JSON_RPC_ERR_UNKNOWN_ERROR

fun err_code :: "JSON_RPC_ERR_TYPE \<Rightarrow> int" where
  "err_code JSON_RPC_ERR_PARSE_ERROR = -32700"
| "err_code JSON_RPC_ERR_INVALID_REQ = -32600"
| "err_code JSON_RPC_ERR_METHOD_NOT_FOUND = -32601"
| "err_code JSON_RPC_ERR_INVALID_PARAMS = -32602"
| "err_code JSON_RPC_ERR_INTERNAL_ERROR = -32603"
| "err_code JSON_RPC_ERR_UNKNOWN_ERROR = -33000"

record ADJsonRpcCommand =
  cmd_method :: string
  method_index :: int

record api_task_obj =
  t_ident :: s32
  t_req_id :: s32
  t_net :: net_data_obj
  t_method :: ADJsonRpcCommand
  t_access :: CMD_TASK_ACC
  t_result :: CMD_TASK_RESULT
  t_rpc_code :: nat
  t_json :: "json option"
  t_custom :: string

record rpc = net_server +
  rpc_call_list :: "ADJsonRpcCommand list"
  tasks :: "nat \<Rightarrow> api_task_obj option"
  next_task :: nat
  ReqRespChain :: "nat list"
  ReqResp_ident :: s32
  RespChain :: "s32 list"
  resp_sema :: nat
  ReqChain :: "nat list"
  req_sema :: nat
  total_req_received :: nat
  total_res_sent :: nat
  jheap :: alloc

text \<open>
  The surroundings of the server: the memory for chain holders and for the JSON checker, whether \<open>char\<close> is
  signed, and the JSON library.
\<close>

record platform =
  put_ok :: "nat \<Rightarrow> bool"
  mem_ok :: allocator
  char_signed :: bool
  jlib :: json_lib

text \<open>\<open>sprintf\<close> of a string into an array of the given size.\<close>

definition sprintf_s :: "nat \<Rightarrow> string \<Rightarrow> string kres" where
  "sprintf_s n s = (if length s < n then kret s else kfail BufferOverrun)"

section \<open>Registering methods\<close>

definition JSON_RPC_METHOD_NAME_MAX_LENGTH :: nat where
  "JSON_RPC_METHOD_NAME_MAX_LENGTH = 256"

definition attach_rpc_method :: "string \<Rightarrow> int \<Rightarrow> rpc \<Rightarrow> int \<times> rpc" where
  "attach_rpc_method method_name method_indx st =
     (if JSON_RPC_METHOD_NAME_MAX_LENGTH \<le> length method_name then (-1, st)
      else (0, st\<lparr>rpc_call_list := rpc_call_list st @ [\<lparr>cmd_method = method_name, method_index = method_indx\<rparr>]\<rparr>))"

fun is_this_method_registered :: "string \<Rightarrow> ADJsonRpcCommand list \<Rightarrow> ADJsonRpcCommand option" where
  "is_this_method_registered name [] = None"
| "is_this_method_registered name (c # cs) = (if cmd_method c = name then Some c else is_this_method_registered name cs)"

section \<open>Reading a request\<close>

text \<open>The four readers copy the string into an array of 256 characters.\<close>

definition check_jsonrpc_2_0 :: "json_lib \<Rightarrow> json \<Rightarrow> int kres" where
  "check_jsonrpc_2_0 lib obj = (case get_string lib (object_get lib obj ''jsonrpc'') of
     None \<Rightarrow> kret (-1)
   | Some s \<Rightarrow> kbind (sprintf_s 256 s) (\<lambda>tmp_arr. kret (if tmp_arr = ''2.0'' then 0 else -1)))"

definition get_jsonrpc_method :: "json_lib \<Rightarrow> json \<Rightarrow> rpc \<Rightarrow> ADJsonRpcCommand option kres" where
  "get_jsonrpc_method lib obj st = (case get_string lib (object_get lib obj ''method'') of
     None \<Rightarrow> kret None
   | Some s \<Rightarrow> kbind (sprintf_s JSON_RPC_METHOD_NAME_MAX_LENGTH s) (\<lambda>tmp_arr.
       kret (is_this_method_registered tmp_arr (rpc_call_list st))))"

definition get_jsonrpc_acc :: "json_lib \<Rightarrow> json \<Rightarrow> CMD_TASK_ACC kres" where
  "get_jsonrpc_acc lib obj = (case get_string lib (object_get lib obj ''access'') of
     None \<Rightarrow> kret CMD_TASK_ACCESS_SYNC
   | Some s \<Rightarrow> kbind (sprintf_s 256 s) (\<lambda>tmp_arr.
       kret (if tmp_arr = ''sync'' then CMD_TASK_ACCESS_SYNC
             else if tmp_arr = ''async'' then CMD_TASK_ACCESS_ASYNC else CMD_TASK_ACCESS_SYNC)))"

definition get_jsonrpc_id :: "json_lib \<Rightarrow> json \<Rightarrow> s32 option kres" where
  "get_jsonrpc_id lib obj = (case get_string lib (object_get lib obj ''id'') of
     None \<Rightarrow> kret None
   | Some s \<Rightarrow> kbind (sprintf_s 256 s) (\<lambda>tmp_arr. kret (Some (atoi tmp_arr))))"

section \<open>Responses\<close>

definition err_message :: "JSON_RPC_ERR_TYPE \<Rightarrow> string" where
  "err_message err_type = (case err_type of
     JSON_RPC_ERR_PARSE_ERROR \<Rightarrow> ''Parse error.''
   | JSON_RPC_ERR_INVALID_REQ \<Rightarrow> ''Invalid Request.''
   | JSON_RPC_ERR_METHOD_NOT_FOUND \<Rightarrow> ''Method not found.''
   | JSON_RPC_ERR_INVALID_PARAMS \<Rightarrow> ''Invalid params.''
   | _ \<Rightarrow> ''Internal error.'')"

definition error_object :: "s32 \<Rightarrow> JSON_RPC_ERR_TYPE \<Rightarrow> json" where
  "error_object rid err_type = JObj [
     (''jsonrpc'', JStr ''2.0''),
     (''error'', JObj [(''code'', JInt (err_code err_type)), (''message'', JStr (err_message err_type))]),
     (''id'', case err_type of JSON_RPC_ERR_METHOD_NOT_FOUND \<Rightarrow> JInt (sint rid)
                | JSON_RPC_ERR_INVALID_PARAMS \<Rightarrow> JInt (sint rid) | _ \<Rightarrow> JNull)]"

definition json_send_error_response_string ::
  "platform \<Rightarrow> s32 \<Rightarrow> nat \<Rightarrow> JSON_RPC_ERR_TYPE \<Rightarrow> rpc \<Rightarrow> rpc kres" where
  "json_send_error_response_string pl rid sock err_type st =
     kbind (sprintf_s AD_NET_SERVER_MAX_BUFFER_SIZE (to_json_string (jlib pl) (error_object rid err_type))) (\<lambda>message.
     kret (snd (schedule_response (put_ok pl) sock message st)))"

definition result_object :: "s32 \<Rightarrow> string \<Rightarrow> json option \<Rightarrow> json" where
  "result_object rid result resp = JObj [
     (''jsonrpc'', JStr ''2.0''),
     (''result'', case resp of Some obj \<Rightarrow> obj
        | None \<Rightarrow> JObj [(''return'', JStr ''fail''), (''errorType'', JStr result)]),
     (''id'', JInt (sint rid))]"

definition json_send_result_response_string ::
  "platform \<Rightarrow> s32 \<Rightarrow> nat \<Rightarrow> string \<Rightarrow> api_task_obj \<Rightarrow> rpc \<Rightarrow> rpc kres" where
  "json_send_result_response_string pl rid sock result task_obj st =
     kbind (sprintf_s AD_NET_SERVER_MAX_BUFFER_SIZE (to_json_string (jlib pl) (result_object rid result (t_json task_obj))))
       (\<lambda>message. kret (snd (schedule_response (put_ok pl) sock message st)))"

definition result_text :: "api_task_obj \<Rightarrow> string" where
  "result_text resp_obj = (case t_result resp_obj of
     CMD_TASK_RESULT_FAIL \<Rightarrow> ''Fail''
   | CMD_TASK_RESULT_SUCCESS \<Rightarrow> ''Success''
   | CMD_TASK_RESULT_INVALID_PARAM \<Rightarrow> ''ParamError''
   | CMD_TASK_RESULT_DEV_TIMEOUT \<Rightarrow> ''Timeout''
   | CMD_TASK_RESULT_DEV_ERR \<Rightarrow> ''DevError''
   | CMD_TASK_RESULT_MEM_FAIL \<Rightarrow> ''MemError''
   | CMD_TASK_RESULT_IN_PROGRESS \<Rightarrow> ''InProgress''
   | CMD_TASK_RESULT_ACTUAL_VALUE \<Rightarrow> t_custom resp_obj
   | _ \<Rightarrow> ''Unknown'')"

definition json_send_new_result :: "platform \<Rightarrow> api_task_obj \<Rightarrow> rpc \<Rightarrow> rpc kres" where
  "json_send_new_result pl resp_obj st =
     kbind (sprintf_s 512 (result_text resp_obj)) (\<lambda>result_string.
     json_send_result_response_string pl (t_req_id resp_obj) (nd_sock (t_net resp_obj)) result_string resp_obj st)"

section \<open>Taking a request\<close>

text \<open>The mapper's callback: the task goes into its chain and its thread is woken.\<close>

definition rpc_call_notification :: "platform \<Rightarrow> nat \<Rightarrow> rpc \<Rightarrow> rpc" where
  "rpc_call_notification pl task st =
     (let placed = put_ok pl (put_calls st); st = st\<lparr>put_calls := put_calls st + 1\<rparr> in
      if placed then st\<lparr>ReqChain := ReqChain st @ [task], req_sema := req_sema st + 1\<rparr> else st)"

text \<open>The part of \<open>json_process_request\<close> that follows once the method is found.\<close>

definition accept_request ::
  "platform \<Rightarrow> net_data_obj \<Rightarrow> s32 \<Rightarrow> ADJsonRpcCommand \<Rightarrow> json \<Rightarrow> rpc \<Rightarrow> (int \<times> rpc) kres" where
  "accept_request pl req_obj json_req_id pRpcMethod new_obj st =
     (let ident = ReqResp_ident st + 1; st = st\<lparr>ReqResp_ident := ident\<rparr> in
      kbind (get_jsonrpc_acc (jlib pl) new_obj) (\<lambda>acs.
      let pTaskObj = next_task st;
          placed = put_ok pl (put_calls st); st = st\<lparr>put_calls := put_calls st + 1\<rparr>;
          obj = \<lparr>t_ident = ident, t_req_id = json_req_id, t_net = req_obj, t_method = pRpcMethod, t_access = acs,
                 t_result = CMD_TASK_RESULT_NOT_STARTED, t_rpc_code = 4, t_json = None, t_custom = []\<rparr> in
      if \<not> placed then
        kbind (json_send_error_response_string pl json_req_id (nd_sock req_obj) JSON_RPC_ERR_INTERNAL_ERROR st)
          (\<lambda>st. kret (-1, st))
      else
        let st = st\<lparr>tasks := (tasks st)(pTaskObj \<mapsto> obj), next_task := pTaskObj + 1,
                    ReqRespChain := ReqRespChain st @ [pTaskObj]\<rparr>;
            st = rpc_call_notification pl pTaskObj st in
        kret (0, st\<lparr>total_req_received := total_req_received st + 1\<rparr>)))"

text \<open>An error response, and the result \<open>-1\<close> that makes the caller free the request.\<close>

definition refuse :: "platform \<Rightarrow> s32 \<Rightarrow> nat \<Rightarrow> JSON_RPC_ERR_TYPE \<Rightarrow> rpc \<Rightarrow> (int \<times> rpc) kres" where
  "refuse pl rid sock err_type st =
     kbind (json_send_error_response_string pl rid sock err_type st) (\<lambda>st. kret (-1, st))"

definition json_process_request :: "platform \<Rightarrow> net_data_obj \<Rightarrow> rpc \<Rightarrow> (int \<times> rpc) kres" where
  "json_process_request pl req_obj st =
     (let json_string = nd_buffer req_obj; sock = nd_sock req_obj; lib = jlib pl in
      if char_at json_string 0 = CHR ''['' then refuse pl 0 sock JSON_RPC_ERR_INVALID_REQ st
      else kbind (json_checker_function (mem_ok pl) (char_signed pl) (jheap st) json_string) (\<lambda>(valid, h).
      let st = st\<lparr>jheap := h\<rparr> in
      if \<not> valid then refuse pl 0 sock JSON_RPC_ERR_PARSE_ERROR st
      else case tokener_parse lib json_string of
        None \<Rightarrow> refuse pl 0 sock JSON_RPC_ERR_PARSE_ERROR st
      | Some new_obj \<Rightarrow>
          kbind (check_jsonrpc_2_0 lib new_obj) (\<lambda>_.
          kbind (get_jsonrpc_id lib new_obj) (\<lambda>rid. case rid of
            None \<Rightarrow> refuse pl 0 sock JSON_RPC_ERR_INVALID_REQ st
          | Some json_req_id \<Rightarrow>
              kbind (get_jsonrpc_method lib new_obj st) (\<lambda>method. case method of
                None \<Rightarrow> refuse pl json_req_id sock JSON_RPC_ERR_METHOD_NOT_FOUND st
              | Some pRpcMethod \<Rightarrow> accept_request pl req_obj json_req_id pRpcMethod new_obj st)))))"

text \<open>The consumer of the TCP server: it takes requests until the chain is empty.\<close>

fun process_requests :: "platform \<Rightarrow> net_data_obj list \<Rightarrow> rpc \<Rightarrow> rpc kres" where
  "process_requests pl [] st = kret st"
| "process_requests pl (x # xs) st = kbind (json_process_request pl x st) (\<lambda>(_, st). process_requests pl xs st)"

definition on_data_arrival :: "platform \<Rightarrow> rpc \<Rightarrow> rpc kres" where
  "on_data_arrival pl st = process_requests pl (request_chain st) (st\<lparr>request_chain := []\<rparr>)"

section \<open>Answering\<close>

definition json_send_response :: "platform \<Rightarrow> nat \<Rightarrow> rpc \<Rightarrow> (int \<times> rpc) kres" where
  "json_send_response pl pTaskObj st = (case tasks st pTaskObj of
     None \<Rightarrow> kfail BadDeref
   | Some task \<Rightarrow>
       let placed = put_ok pl (put_calls st); st = st\<lparr>put_calls := put_calls st + 1\<rparr> in
       if \<not> placed then kret (-1, st)
       else kret (0, st\<lparr>RespChain := RespChain st @ [t_ident task], resp_sema := resp_sema st + 1\<rparr>))"

fun find_task :: "(nat \<Rightarrow> api_task_obj option) \<Rightarrow> s32 \<Rightarrow> nat list \<Rightarrow> nat option" where
  "find_task ts ident [] = None"
| "find_task ts ident (p # ps) = (case ts p of
     Some t \<Rightarrow> if t_ident t = ident then Some p else find_task ts ident ps
   | None \<Rightarrow> find_task ts ident ps)"

text \<open>One run of the response thread, after its wake-up.\<close>

definition json_process_rsponse :: "platform \<Rightarrow> rpc \<Rightarrow> (int \<times> rpc) kres" where
  "json_process_rsponse pl st = (case RespChain st of
     [] \<Rightarrow> kret (-1, st)
   | pRespID # rest \<Rightarrow>
       let st = st\<lparr>RespChain := rest\<rparr> in
       (case find_task (tasks st) pRespID (ReqRespChain st) of
          None \<Rightarrow> kret (-1, st)
        | Some p \<Rightarrow>
            (case tasks st p of
               None \<Rightarrow> kfail BadDeref
             | Some task \<Rightarrow>
                 let st = st\<lparr>ReqRespChain := remove1 p (ReqRespChain st)\<rparr> in
                 kbind (json_send_new_result pl task st) (\<lambda>st.
                 kret (0, st\<lparr>tasks := (tasks st)(p := None), total_res_sent := total_res_sent st + 1\<rparr>)))))"

section \<open>The mapper\<close>

record JsonDataCommObj =
  d_req_id :: s32
  d_cmd_index :: int
  d_mapper_result :: CMD_TASK_RESULT
  d_rpc_code :: nat
  d_worker_result :: int
  d_socket_data :: string
  d_json :: "json option"
  d_custom :: string
  d_cltport :: int
  d_ip :: string
  d_sock_id :: int
  d_sock_descr :: nat

text \<open>The callbacks of a service.\<close>

record mapper_cb =
  process_json_to_binary :: "JsonDataCommObj \<Rightarrow> int \<times> JsonDataCommObj"
  process_work :: "JsonDataCommObj \<Rightarrow> JsonDataCommObj"
  process_binary_to_json :: "JsonDataCommObj \<Rightarrow> JsonDataCommObj"

definition data_obj :: "api_task_obj \<Rightarrow> JsonDataCommObj" where
  "data_obj t = \<lparr>d_req_id = t_req_id t, d_cmd_index = method_index (t_method t), d_mapper_result = CMD_TASK_RESULT_UNKNOWN,
     d_rpc_code = 4, d_worker_result = -1, d_socket_data = nd_buffer (t_net t), d_json = t_json t, d_custom = t_custom t,
     d_cltport = nd_port (t_net t), d_ip = nd_ip (t_net t), d_sock_id = nd_cltid (t_net t), d_sock_descr = nd_sock (t_net t)\<rparr>"

definition run_method :: "mapper_cb \<Rightarrow> JsonDataCommObj \<Rightarrow> JsonDataCommObj" where
  "run_method cb d = (let (r, d) = process_json_to_binary cb d in
     if r \<noteq> 0 then d else process_binary_to_json cb (process_work cb d))"

text \<open>One run of the mapper thread, after its wake-up.\<close>

definition mapper_callback :: "platform \<Rightarrow> mapper_cb \<Rightarrow> rpc \<Rightarrow> rpc kres" where
  "mapper_callback pl cb st = (case ReqChain st of
     [] \<Rightarrow> kret st
   | p # rest \<Rightarrow>
       let st = st\<lparr>ReqChain := rest\<rparr> in
       (case tasks st p of
          None \<Rightarrow> kfail BadDeref
        | Some t \<Rightarrow>
            let d = run_method cb (data_obj t);
                t = t\<lparr>t_result := d_mapper_result d, t_rpc_code := d_rpc_code d, t_json := d_json d, t_custom := d_custom d\<rparr> in
            kbind (json_send_response pl p (st\<lparr>tasks := (tasks st)(p \<mapsto> t)\<rparr>)) (\<lambda>(_, st). kret st)))"

end
