(* ===== verification/Json_Rpc_Proofs.thy ===== *)
theory Json_Rpc_Proofs
  imports Json_Rpc "HOL-Library.Multiset"
begin

text \<open>
  The JSON-RPC server: the outcome of each operation, and the three threads together. In every
  interleaving a request that was taken is answered exactly once, with its identifier and on its socket.
\<close>

section \<open>Outcomes of the operations\<close>

definition puts_ok :: "platform \<Rightarrow> bool" where
  "puts_ok pl \<longleftrightarrow> (\<forall>n. put_ok pl n)"

text \<open>A response queued on a socket.\<close>

definition respond :: "nat \<Rightarrow> string \<Rightarrow> rpc \<Rightarrow> rpc" where
  "respond sock msg st = snd (schedule_response (\<lambda>_. True) sock msg st)"

lemma respond_eq: "puts_ok pl \<Longrightarrow> snd (schedule_response (put_ok pl) sock msg st) = respond sock msg st"
  by (simp add: puts_ok_def respond_def schedule_response_def Let_def)

lemma respond_simps [simp]:
  "map (\<lambda>x. (nd_sock x, nd_buffer x)) (response_chain (respond sock msg st)) =
     map (\<lambda>x. (nd_sock x, nd_buffer x)) (response_chain st) @ [(sock, msg)]"
  "tasks (respond sock msg st) = tasks st" "next_task (respond sock msg st) = next_task st"
  "ReqRespChain (respond sock msg st) = ReqRespChain st" "ReqResp_ident (respond sock msg st) = ReqResp_ident st"
  "RespChain (respond sock msg st) = RespChain st" "resp_sema (respond sock msg st) = resp_sema st"
  "ReqChain (respond sock msg st) = ReqChain st" "req_sema (respond sock msg st) = req_sema st"
  by (simp_all add: respond_def schedule_response_def Let_def)

lemma refuse_outcome:
  assumes "puts_ok pl" and "refuse pl rid sock e st = kret (r, st')"
  shows "r = -1 \<and> st' = respond sock (to_json_string (jlib pl) (error_object rid e)) st"
  using assms
  by (auto simp: refuse_def json_send_error_response_string_def sprintf_s_def respond_eq split: if_splits)

text \<open>A task queued for the mapper.\<close>

definition queue_task :: "net_data_obj \<Rightarrow> s32 \<Rightarrow> ADJsonRpcCommand \<Rightarrow> CMD_TASK_ACC \<Rightarrow> rpc \<Rightarrow> rpc" where
  "queue_task x rid m acs st =
     (let p = next_task st; ident = ReqResp_ident st + 1;
          obj = \<lparr>t_ident = ident, t_req_id = rid, t_net = x, t_method = m, t_access = acs,
                 t_result = CMD_TASK_RESULT_NOT_STARTED, t_rpc_code = 4, t_json = None, t_custom = []\<rparr> in
      st\<lparr>ReqResp_ident := ident, tasks := (tasks st)(p \<mapsto> obj), next_task := p + 1,
        ReqRespChain := ReqRespChain st @ [p], put_calls := put_calls st + 2, ReqChain := ReqChain st @ [p],
        req_sema := req_sema st + 1, total_req_received := total_req_received st + 1\<rparr>)"

lemma accept_outcome:
  assumes "puts_ok pl" and "accept_request pl x rid m obj st = kret (r, st')"
  shows "r = 0 \<and> (\<exists>acs. st' = queue_task x rid m acs st)"
proof -
  have ok: "put_ok pl n" for n using assms(1) by (simp add: puts_ok_def)
  from assms(2) obtain acs where "get_jsonrpc_acc (jlib pl) obj = kret acs"
    "r = 0" "st' = queue_task x rid m acs st"
    unfolding accept_request_def Let_def kbind_eq_kret
    by (auto simp: ok rpc_call_notification_def queue_task_def Let_def)
  then show ?thesis by blast
qed

text \<open>What a request gives: a refusal, or a task that carries the identifier of the request.\<close>

definition request_id :: "platform \<Rightarrow> string \<Rightarrow> s32 option" where
  "request_id pl s = (case tokener_parse (jlib pl) s of
     Some obj \<Rightarrow> (case get_string (jlib pl) (object_get (jlib pl) obj ''id'') of Some s \<Rightarrow> Some (atoi s) | None \<Rightarrow> None)
   | None \<Rightarrow> None)"

lemma get_jsonrpc_id_outcome:
  "get_jsonrpc_id lib obj = kret (Some rid) \<Longrightarrow>
   (case get_string lib (object_get lib obj ''id'') of Some s \<Rightarrow> Some (atoi s) | None \<Rightarrow> None) = Some rid"
  by (auto simp: get_jsonrpc_id_def sprintf_s_def split: option.splits if_splits)

lemma process_request_outcome:
  assumes "puts_ok pl" and "json_process_request pl x st = kret (r, st')"
  shows "(r = -1 \<and> (\<exists>h rid e. st' = respond (nd_sock x) (to_json_string (jlib pl) (error_object rid e)) (st\<lparr>jheap := h\<rparr>))) \<or>
    (r = 0 \<and> (\<exists>h rid m acs. request_id pl (nd_buffer x) = Some rid \<and> st' = queue_task x rid m acs (st\<lparr>jheap := h\<rparr>)))"
proof (cases "char_at (nd_buffer x) 0 = CHR ''[''")
  case True
  then have "refuse pl 0 (nd_sock x) JSON_RPC_ERR_INVALID_REQ (st\<lparr>jheap := jheap st\<rparr>) = kret (r, st')"
    using assms(2) by (simp add: json_process_request_def Let_def)
  then show ?thesis using refuse_outcome [OF assms(1)] by blast
next
  case False
  with assms(2) obtain valid h where chk: "json_checker_function (mem_ok pl) (char_signed pl) (jheap st) (nd_buffer x) = kret (valid, h)"
    by (auto simp: json_process_request_def Let_def kbind_eq_kret)
  let ?st = "st\<lparr>jheap := h\<rparr>"
  have refuse: ?thesis if "refuse pl rid (nd_sock x) e ?st = kret (r, st')" for rid e
    using refuse_outcome [OF assms(1) that] by blast
  show ?thesis
  proof (cases "valid \<and> tokener_parse (jlib pl) (nd_buffer x) \<noteq> None")
    case no: False
    then have "refuse pl 0 (nd_sock x) JSON_RPC_ERR_PARSE_ERROR ?st = kret (r, st')"
      using assms(2) False chk by (auto simp: json_process_request_def Let_def split: if_splits)
    then show ?thesis by (rule refuse)
  next
    case True
    then obtain obj where obj: "tokener_parse (jlib pl) (nd_buffer x) = Some obj" by auto
    from assms(2) False chk True obj obtain rid where rid: "get_jsonrpc_id (jlib pl) obj = kret rid"
      "(case rid of None \<Rightarrow> refuse pl 0 (nd_sock x) JSON_RPC_ERR_INVALID_REQ ?st
        | Some i \<Rightarrow> kbind (get_jsonrpc_method (jlib pl) obj ?st) (\<lambda>method. case method of
            None \<Rightarrow> refuse pl i (nd_sock x) JSON_RPC_ERR_METHOD_NOT_FOUND ?st
          | Some m \<Rightarrow> accept_request pl x i m obj ?st)) = kret (r, st')"
      by (auto simp: json_process_request_def Let_def kbind_eq_kret)
    show ?thesis
    proof (cases rid)
      case None
      then show ?thesis using rid(2) refuse by simp
    next
      case (Some i)
      then have rqid: "request_id pl (nd_buffer x) = Some i"
        using get_jsonrpc_id_outcome rid(1) obj by (simp add: request_id_def)
      from rid(2) Some obtain mth where "(case mth of
            None \<Rightarrow> refuse pl i (nd_sock x) JSON_RPC_ERR_METHOD_NOT_FOUND ?st
          | Some m \<Rightarrow> accept_request pl x i m obj ?st) = kret (r, st')"
        by (auto simp: kbind_eq_kret)
      then show ?thesis using refuse accept_outcome [OF assms(1)] rqid by (cases mth) (simp, fastforce)
    qed
  qed
qed

section \<open>Threads\<close>

text \<open>
  The state with the history: the requests that were taken, the refusals, and the answers with what the
  task held when it was answered.
\<close>

record rpc_conf =
  rst :: rpc
  accepted :: "(nat \<times> s32) list"
  refusals :: "(nat \<times> string) list"
  answers :: "(nat \<times> s32 \<times> string \<times> json option) list"

definition answer_of :: "api_task_obj \<Rightarrow> nat \<times> s32 \<times> string \<times> json option" where
  "answer_of t = (nd_sock (t_net t), t_req_id t, result_text t, t_json t)"

text \<open>The listening thread hands over a request, the mapper thread runs, the response thread runs.\<close>

inductive rpc_step :: "platform \<Rightarrow> mapper_cb \<Rightarrow> rpc_conf \<Rightarrow> rpc_conf \<Rightarrow> bool" for pl cb where
  take_request: "json_process_request pl x (rst c) = kret (0, st) \<Longrightarrow> request_id pl (nd_buffer x) = Some rid \<Longrightarrow>
    rpc_step pl cb c (c\<lparr>rst := st, accepted := accepted c @ [(nd_sock x, rid)]\<rparr>)"
| refuse_request: "json_process_request pl x (rst c) = kret (-1, st) \<Longrightarrow>
    rpc_step pl cb c (c\<lparr>rst := st, refusals := refusals c @ [(nd_sock x, nd_buffer (last (response_chain st)))]\<rparr>)"
| run_mapper: "req_sema (rst c) = Suc n \<Longrightarrow> mapper_callback pl cb ((rst c)\<lparr>req_sema := n\<rparr>) = kret st \<Longrightarrow>
    rpc_step pl cb c (c\<lparr>rst := st\<rparr>)"
| run_response: "resp_sema (rst c) = Suc n \<Longrightarrow> json_process_rsponse pl ((rst c)\<lparr>resp_sema := n\<rparr>) = kret (r, st) \<Longrightarrow>
    find_task (tasks (rst c)) (hd (RespChain (rst c))) (ReqRespChain (rst c)) = Some p \<Longrightarrow> tasks (rst c) p = Some t \<Longrightarrow>
    rpc_step pl cb c (c\<lparr>rst := st, answers := answers c @ [answer_of t]\<rparr>)"
| response_lost: "resp_sema (rst c) = Suc n \<Longrightarrow> json_process_rsponse pl ((rst c)\<lparr>resp_sema := n\<rparr>) = kret (-1, st) \<Longrightarrow>
    rpc_step pl cb c (c\<lparr>rst := st\<rparr>)"

definition rpc_idle :: "rpc \<Rightarrow> bool" where
  "rpc_idle st \<longleftrightarrow> tasks st = (\<lambda>_. None) \<and> next_task st = 0 \<and> ReqRespChain st = [] \<and> ReqResp_ident st = 0 \<and>
     RespChain st = [] \<and> resp_sema st = 0 \<and> ReqChain st = [] \<and> req_sema st = 0 \<and> response_chain st = []"

inductive rpc_reach :: "platform \<Rightarrow> mapper_cb \<Rightarrow> rpc_conf \<Rightarrow> bool" for pl cb where
  start: "rpc_idle st \<Longrightarrow> rpc_reach pl cb \<lparr>rst = st, accepted = [], refusals = [], answers = []\<rparr>"
| step: "rpc_reach pl cb c \<Longrightarrow> rpc_step pl cb c c' \<Longrightarrow> rpc_reach pl cb c'"

section \<open>The invariant\<close>

text \<open>
  Every open task is with the mapper or with the response thread, each under its own identifier; the
  semaphores count the chains; what was taken is open or answered; what was queued is a refusal or an answer.
\<close>

definition task_key :: "(nat \<Rightarrow> api_task_obj option) \<Rightarrow> nat \<Rightarrow> nat \<times> s32" where
  "task_key ts p = (nd_sock (t_net (the (ts p))), t_req_id (the (ts p)))"

definition tasks_ok :: "rpc \<Rightarrow> bool" where
  "tasks_ok st \<longleftrightarrow> distinct (ReqRespChain st) \<and> ReqResp_ident st = of_nat (next_task st) \<and>
     (\<forall>p. p \<in> set (ReqRespChain st) \<longleftrightarrow> tasks st p \<noteq> None) \<and>
     (\<forall>p t. tasks st p = Some t \<longrightarrow> p < next_task st \<and> t_ident t = of_nat (Suc p))"

definition queues_ok :: "rpc \<Rightarrow> bool" where
  "queues_ok st \<longleftrightarrow> req_sema st = length (ReqChain st) \<and> resp_sema st = length (RespChain st) \<and>
     (\<exists>ps. RespChain st = map (\<lambda>p. of_nat (Suc p)) ps \<and> mset (ReqRespChain st) = mset (ReqChain st) + mset ps)"

definition answer_text :: "platform \<Rightarrow> nat \<times> s32 \<times> string \<times> json option \<Rightarrow> nat \<times> string" where
  "answer_text pl a = (fst a, to_json_string (jlib pl) (result_object (fst (snd a)) (fst (snd (snd a))) (snd (snd (snd a)))))"

definition answer_key :: "nat \<times> s32 \<times> string \<times> json option \<Rightarrow> nat \<times> s32" where
  "answer_key a = (fst a, fst (snd a))"

definition history_ok :: "platform \<Rightarrow> rpc_conf \<Rightarrow> bool" where
  "history_ok pl c \<longleftrightarrow> length (accepted c) = next_task (rst c) \<and>
     mset (accepted c) = mset (map (task_key (tasks (rst c))) (ReqRespChain (rst c))) + mset (map answer_key (answers c)) \<and>
     mset (map (\<lambda>x. (nd_sock x, nd_buffer x)) (response_chain (rst c))) =
       mset (refusals c) + mset (map (answer_text pl) (answers c))"

definition rpc_inv :: "platform \<Rightarrow> rpc_conf \<Rightarrow> bool" where
  "rpc_inv pl c \<longleftrightarrow> tasks_ok (rst c) \<and> queues_ok (rst c) \<and> history_ok pl c"

lemma start_inv: "rpc_idle st \<Longrightarrow> rpc_inv pl \<lparr>rst = st, accepted = [], refusals = [], answers = []\<rparr>"
  by (simp add: rpc_idle_def rpc_inv_def tasks_ok_def queues_ok_def history_ok_def)

lemma queue_task_simps [simp]:
  "tasks (queue_task x rid m acs st) = (tasks st)(next_task st \<mapsto>
     \<lparr>t_ident = ReqResp_ident st + 1, t_req_id = rid, t_net = x, t_method = m, t_access = acs,
      t_result = CMD_TASK_RESULT_NOT_STARTED, t_rpc_code = 4, t_json = None, t_custom = []\<rparr>)"
  "next_task (queue_task x rid m acs st) = Suc (next_task st)"
  "ReqRespChain (queue_task x rid m acs st) = ReqRespChain st @ [next_task st]"
  "ReqResp_ident (queue_task x rid m acs st) = ReqResp_ident st + 1"
  "ReqChain (queue_task x rid m acs st) = ReqChain st @ [next_task st]"
  "req_sema (queue_task x rid m acs st) = Suc (req_sema st)"
  "RespChain (queue_task x rid m acs st) = RespChain st" "resp_sema (queue_task x rid m acs st) = resp_sema st"
  "response_chain (queue_task x rid m acs st) = response_chain st"
  by (simp_all add: queue_task_def Let_def)

lemma fresh_task: "tasks_ok st \<Longrightarrow> tasks st (next_task st) = None \<and> next_task st \<notin> set (ReqRespChain st)"
proof -
  assume t: "tasks_ok st"
  have "tasks st (next_task st) = None"
  proof (rule ccontr)
    assume "tasks st (next_task st) \<noteq> None"
    then obtain u where "tasks st (next_task st) = Some u" by auto
    then have "next_task st < next_task st" using t unfolding tasks_ok_def by blast
    then show False by simp
  qed
  then show ?thesis using t by (auto simp: tasks_ok_def)
qed

lemma task_key_fresh:
  assumes "tasks_ok st"
  shows "image_mset (task_key ((tasks st)(next_task st \<mapsto> t))) (mset (ReqRespChain st)) =
    image_mset (task_key (tasks st)) (mset (ReqRespChain st))"
proof -
  have "next_task st \<notin> set (ReqRespChain st)" using fresh_task [OF assms] by simp
  then show ?thesis by (intro image_mset_cong) (auto simp: task_key_def)
qed

lemma task_key_upd [simp]: "task_key (ts(p \<mapsto> t)) p = (nd_sock (t_net t), t_req_id t)"
  by (simp add: task_key_def)

lemma take_request_inv:
  assumes "rpc_inv pl c" and "puts_ok pl" and "json_process_request pl x (rst c) = kret (0, st)" and "request_id pl (nd_buffer x) = Some rid"
  shows "rpc_inv pl (c\<lparr>rst := st, accepted := accepted c @ [(nd_sock x, rid)]\<rparr>)"
proof -
  obtain h m acs where st: "st = queue_task x rid m acs ((rst c)\<lparr>jheap := h\<rparr>)"
    using process_request_outcome [OF assms(2,3)] assms(4) by auto
  have t: "tasks_ok (rst c)" and q: "queues_ok (rst c)" and h: "history_ok pl c" using assms(1) by (auto simp: rpc_inv_def)
  have "next_task (rst c) \<notin> set (ReqRespChain (rst c))" using fresh_task [OF t] by simp
  then have "tasks_ok st" using t st by (auto simp: tasks_ok_def less_Suc_eq)
  moreover have "queues_ok st" using q st by (auto simp: queues_ok_def)
  moreover have "history_ok pl (c\<lparr>rst := st, accepted := accepted c @ [(nd_sock x, rid)]\<rparr>)"
    using h st task_key_fresh [OF t] by (simp add: history_ok_def)
  ultimately show ?thesis by (simp add: rpc_inv_def)
qed

lemma refuse_request_inv:
  assumes "rpc_inv pl c" and "puts_ok pl" and "json_process_request pl x (rst c) = kret (-1, st)"
  shows "rpc_inv pl (c\<lparr>rst := st, refusals := refusals c @ [(nd_sock x, nd_buffer (last (response_chain st)))]\<rparr>)"
proof -
  obtain h msg where st: "st = respond (nd_sock x) msg ((rst c)\<lparr>jheap := h\<rparr>)"
    using process_request_outcome [OF assms(2,3)] by auto
  have "nd_buffer (last (response_chain st)) = msg" using st by (simp add: respond_def schedule_response_def Let_def)
  then show ?thesis
    using assms(1) st by (simp add: rpc_inv_def tasks_ok_def queues_ok_def history_ok_def)
qed

text \<open>The mapper leaves the key and the identifier of a task alone.\<close>

lemma mapper_inv:
  assumes "rpc_inv pl c" and "puts_ok pl" and "req_sema (rst c) = Suc n"
    and "mapper_callback pl cb ((rst c)\<lparr>req_sema := n\<rparr>) = kret st"
  shows "rpc_inv pl (c\<lparr>rst := st\<rparr>)"
proof -
  have t: "tasks_ok (rst c)" and q: "queues_ok (rst c)" and h: "history_ok pl c" using assms(1) by (auto simp: rpc_inv_def)
  from q assms(3) obtain p rest where p: "ReqChain (rst c) = p # rest" "length rest = n"
    by (cases "ReqChain (rst c)") (auto simp: queues_ok_def)
  from q obtain ps where ps: "RespChain (rst c) = map (\<lambda>p. of_nat (Suc p)) ps"
    "mset (ReqRespChain (rst c)) = mset (ReqChain (rst c)) + mset ps" by (auto simp: queues_ok_def)
  then have "p \<in> set (ReqRespChain (rst c))" using p by (metis list.set_intros(1) set_mset_mset union_iff)
  with t obtain task where task: "tasks (rst c) p = Some task" "t_ident task = of_nat (Suc p)"
    by (auto simp: tasks_ok_def)
  have ok: "put_ok pl k" for k using assms(2) by (simp add: puts_ok_def)
  define d where "d = run_method cb (data_obj task)"
  define task' where "task' = task\<lparr>t_result := d_mapper_result d, t_rpc_code := d_rpc_code d, t_json := d_json d, t_custom := d_custom d\<rparr>"
  have task': "t_ident task' = t_ident task" "t_net task' = t_net task" "t_req_id task' = t_req_id task"
    by (simp_all add: task'_def)
  have st: "st = (rst c)\<lparr>req_sema := n, ReqChain := rest, tasks := (tasks (rst c))(p \<mapsto> task'),
      put_calls := put_calls (rst c) + 1, RespChain := RespChain (rst c) @ [of_nat (Suc p)], resp_sema := resp_sema (rst c) + 1\<rparr>"
    using assms(4) p task by (auto simp: mapper_callback_def Let_def json_send_response_def ok task'_def d_def)
  have "tasks_ok st" using t task task' st by (auto simp: tasks_ok_def)
  moreover have "queues_ok st" unfolding queues_ok_def
  proof (intro conjI exI [of _ "ps @ [p]"])
    show "mset (ReqRespChain st) = mset (ReqChain st) + mset (ps @ [p])" using ps(2) p st by simp
  qed (use q p ps st in \<open>auto simp: queues_ok_def\<close>)
  moreover have "task_key ((tasks (rst c))(p \<mapsto> task')) = task_key (tasks (rst c))"
    using task task' by (auto simp: task_key_def)
  then have "history_ok pl (c\<lparr>rst := st\<rparr>)" using h st by (simp add: history_ok_def)
  ultimately show ?thesis by (simp add: rpc_inv_def)
qed

lemma find_task_ident:
  assumes "tasks_ok st" and "next_task st < 2 ^ 32" and "p \<in> set ps" and "set ps \<subseteq> set (ReqRespChain st)"
  shows "find_task (tasks st) (of_nat (Suc p)) ps = Some p"
  using assms(3,4)
proof (induction ps)
  case (Cons q ps)
  obtain t where t: "tasks st q = Some t" "q < next_task st" "t_ident t = of_nat (Suc q)"
    using Cons.prems assms(1) by (auto simp: tasks_ok_def)
  obtain u where u: "p < next_task st" using Cons.prems assms(1) by (auto simp: tasks_ok_def)
  have "(of_nat (Suc q) :: s32) = of_nat (Suc p) \<longleftrightarrow> q = p"
  proof
    assume "(of_nat (Suc q) :: s32) = of_nat (Suc p)"
    then have "unat (of_nat (Suc q) :: s32) = unat (of_nat (Suc p) :: s32)" by simp
    then show "q = p" using t(2) u assms(2) by (simp add: unsigned_of_nat take_bit_nat_eq_self del: of_nat_Suc)
  qed simp
  then show ?case using Cons t by auto
qed simp

lemma response_inv:
  assumes "rpc_inv pl c" and "puts_ok pl" and "next_task (rst c) < 2 ^ 32" and "resp_sema (rst c) = Suc n"
    and "json_process_rsponse pl ((rst c)\<lparr>resp_sema := n\<rparr>) = kret (r, st)"
  shows "r = 0 \<and> (\<exists>p t. find_task (tasks (rst c)) (hd (RespChain (rst c))) (ReqRespChain (rst c)) = Some p \<and>
    tasks (rst c) p = Some t \<and> rpc_inv pl (c\<lparr>rst := st, answers := answers c @ [answer_of t]\<rparr>))"
proof -
  have t: "tasks_ok (rst c)" and q: "queues_ok (rst c)" and h: "history_ok pl c" using assms(1) by (auto simp: rpc_inv_def)
  from q obtain ps where ps: "RespChain (rst c) = map (\<lambda>p. of_nat (Suc p)) ps"
    "mset (ReqRespChain (rst c)) = mset (ReqChain (rst c)) + mset ps" by (auto simp: queues_ok_def)
  obtain p rest where p: "ps = p # rest" "length rest = n"
    using q assms(4) ps(1) by (cases ps) (auto simp: queues_ok_def)
  have in_p: "p \<in> set (ReqRespChain (rst c))" using ps(2) p by (metis list.set_intros(1) set_mset_mset union_iff)
  then obtain task where task: "tasks (rst c) p = Some task" using t by (auto simp: tasks_ok_def)
  have find: "find_task (tasks (rst c)) (of_nat (Suc p)) (ReqRespChain (rst c)) = Some p"
    using find_task_ident [OF t assms(3) in_p] by simp
  let ?s = "(rst c)\<lparr>resp_sema := n, RespChain := map (\<lambda>p. of_nat (Suc p)) rest, ReqRespChain := remove1 p (ReqRespChain (rst c))\<rparr>"
  have "kbind (json_send_new_result pl task ?s)
      (\<lambda>st. kret (0, st\<lparr>tasks := (tasks st)(p := None), total_res_sent := total_res_sent st + 1\<rparr>)) = kret (r, st)"
    using assms(5) ps(1) p(1) find task by (simp add: json_process_rsponse_def del: of_nat_Suc)
  then have r: "r = 0" and st: "st = (respond (nd_sock (t_net task)) (snd (answer_text pl (answer_of task))) ?s)
      \<lparr>tasks := (tasks (rst c))(p := None), total_res_sent := total_res_sent st\<rparr>"
    by (auto simp: json_send_new_result_def json_send_result_response_string_def sprintf_s_def respond_eq [OF assms(2)]
        answer_text_def answer_of_def split: if_splits)
  have rest: "distinct (ReqRespChain (rst c))" "mset (remove1 p (ReqRespChain (rst c))) = mset (ReqChain (rst c)) + mset rest"
    using t ps(2) p by (auto simp: tasks_ok_def)
  have "tasks_ok st" using t by (subst st, auto simp: tasks_ok_def)
  moreover have "queues_ok st" using q rest p by (subst st, auto simp: queues_ok_def)
  moreover have "history_ok pl (c\<lparr>rst := st, answers := answers c @ [answer_of task]\<rparr>)"
  proof -
    have "image_mset (task_key ((tasks (rst c))(p := None))) (mset (remove1 p (ReqRespChain (rst c)))) =
        image_mset (task_key (tasks (rst c))) (mset (remove1 p (ReqRespChain (rst c))))"
      using rest(1) by (intro image_mset_cong) (auto simp: task_key_def simp del: mset_remove1)
    moreover have "mset (ReqRespChain (rst c)) = add_mset p (mset (remove1 p (ReqRespChain (rst c))))" using in_p by simp
    moreover have "task_key (tasks (rst c)) p = answer_key (answer_of task)"
      using task by (simp add: task_key_def answer_key_def answer_of_def)
    moreover have "nd_sock (t_net task) = fst (answer_text pl (answer_of task))" by (simp add: answer_text_def answer_of_def)
    ultimately show ?thesis using h by (subst st) (simp add: history_ok_def del: mset_remove1)
  qed
  ultimately show ?thesis using r find task ps(1) p(1) by (simp add: rpc_inv_def)
qed

lemma step_accepted: "rpc_step pl cb c c' \<Longrightarrow> length (accepted c) \<le> length (accepted c')"
  by (induction rule: rpc_step.induct) auto

lemma step_inv:
  assumes "rpc_step pl cb c c'" and "rpc_inv pl c" and "puts_ok pl" and "length (accepted c) < 2 ^ 32"
  shows "rpc_inv pl c'"
  using assms(1)
proof cases
  case (take_request x st rid)
  then show ?thesis using take_request_inv assms by blast
next
  case (refuse_request x st)
  then show ?thesis using refuse_request_inv assms by blast
next
  case (run_mapper n st)
  then show ?thesis using mapper_inv assms by blast
next
  case (run_response n r st p t)
  have "next_task (rst c) < 2 ^ 32" using assms(2,4) by (simp add: rpc_inv_def history_ok_def)
  from response_inv [OF assms(2,3) this run_response(2,3)] run_response(1,4,5) show ?thesis by auto
next
  case (response_lost n st)
  have "next_task (rst c) < 2 ^ 32" using assms(2,4) by (simp add: rpc_inv_def history_ok_def)
  from response_inv [OF assms(2,3) this response_lost(2,3)] show ?thesis by simp
qed

lemma reach_inv:
  assumes "rpc_reach pl cb c" and "puts_ok pl" and "length (accepted c) < 2 ^ 32"
  shows "rpc_inv pl c"
  using assms(1,3)
proof (induction rule: rpc_reach.induct)
  case (start st)
  then show ?case by (simp add: start_inv)
next
  case (step c c')
  have "length (accepted c) < 2 ^ 32" using step_accepted [OF step.hyps(2)] step.prems by simp
  then show ?case using step_inv [OF step.hyps(2)] step.IH assms(2) by blast
qed

text \<open>
  Property C11: whatever the order in which the listening, the mapper and the response thread run, the responses that were
  queued are the refusals and one answer, with its identifier and on its socket, for each request that was
  taken and is not open any more; and when no thread has a wake-up left, no request is open.
\<close>

theorem rpc_each_request_answered:
  assumes "puts_ok pl" and "rpc_reach pl cb c" and "length (accepted c) < 2 ^ 32"
  shows "mset (map (\<lambda>x. (nd_sock x, nd_buffer x)) (response_chain (rst c))) =
      mset (refusals c) + mset (map (answer_text pl) (answers c)) \<and>
    mset (accepted c) = mset (map (task_key (tasks (rst c))) (ReqRespChain (rst c))) + mset (map answer_key (answers c)) \<and>
    (req_sema (rst c) + resp_sema (rst c) = 0 \<longrightarrow> ReqRespChain (rst c) = [])"
proof -
  have "rpc_inv pl c" using reach_inv assms by blast
  then show ?thesis by (auto simp: rpc_inv_def history_ok_def queues_ok_def)
qed

text \<open>A small platform and a server with one method, for the examples.\<close>

definition ex_get :: "json \<Rightarrow> string \<Rightarrow> json option" where
  "ex_get obj key = (case obj of JObj ms \<Rightarrow> map_of ms key | _ \<Rightarrow> None)"

definition ex_string :: "json option \<Rightarrow> string option" where
  "ex_string obj = (case obj of Some (JStr s) \<Rightarrow> Some s | Some (JInt i) \<Rightarrow> Some (show_int i) | _ \<Rightarrow> None)"

definition ex_lib :: json_lib where
  "ex_lib = \<lparr>tokener_parse = (\<lambda>_. Some (JObj [(''id'', JInt 7), (''method'', JStr ''m'')])),
     object_get = ex_get, get_string = ex_string, to_json_string = (\<lambda>v. case v of JInt i \<Rightarrow> show_int i | _ \<Rightarrow> ''text'')\<rparr>"

definition ex_platform :: platform where
  "ex_platform = \<lparr>put_ok = (\<lambda>_. True), mem_ok = (\<lambda>_. True), char_signed = False, jlib = ex_lib\<rparr>"

definition ex_request :: net_data_obj where
  "ex_request = \<lparr>nd_ident = 1, nd_sock = 5, nd_port = 0, nd_ip = [], nd_cltid = 1, nd_len = 2, nd_buffer = ''{}''\<rparr>"

definition ex_rpc :: rpc where
  "ex_rpc = net_server.extend (net_init 3) (rpc.fields [\<lparr>cmd_method = ''m'', method_index = 1\<rparr>] (\<lambda>_. None) 0 [] 0 [] 0 [] 0 0 0
     \<lparr>allocs = 0, live = 0\<rparr>)"

definition ex_cb :: mapper_cb where
  "ex_cb = \<lparr>process_json_to_binary = (\<lambda>d. (0, d)), process_work = (\<lambda>d. d),
     process_binary_to_json = (\<lambda>d. d\<lparr>d_mapper_result := CMD_TASK_RESULT_SUCCESS\<rparr>)\<rparr>"

lemma ex_check: "json_checker_function (\<lambda>_. True) False \<lparr>allocs = 0, live = 0\<rparr> ''{}'' = kret (True, \<lparr>allocs = 2, live = 0\<rparr>)"
  by code_simp

lemma ex_atoi: "atoi (show_int 7) = 7"
  by (simp add: atoi_show_int)

lemma ex_req_id: "request_id ex_platform (nd_buffer ex_request) = Some 7"
  by (simp add: request_id_def ex_platform_def ex_lib_def ex_get_def ex_string_def ex_atoi)

lemma ex_idle: "rpc_idle ex_rpc"
  by (simp add: rpc_idle_def ex_rpc_def net_server.defs rpc.defs net_init_def net_new_def)

lemma ex_show: "show_int 7 = ''7''"
  by code_simp

definition ex_taken :: rpc where
  "ex_taken = queue_task ex_request 7 \<lparr>cmd_method = ''m'', method_index = 1\<rparr> CMD_TASK_ACCESS_SYNC
     (ex_rpc\<lparr>jheap := \<lparr>allocs = 2, live = 0\<rparr>\<rparr>)"

lemmas ex_defs = ex_request_def ex_platform_def ex_rpc_def net_server.defs rpc.defs net_init_def net_new_def ex_lib_def ex_cb_def

lemma ex_take: "json_process_request ex_platform ex_request ex_rpc = kret (0, ex_taken)"
  by (simp add: json_process_request_def ex_defs char_at_def ex_check check_jsonrpc_2_0_def ex_get_def ex_string_def
      get_jsonrpc_id_def ex_show ex_atoi [unfolded ex_show] get_jsonrpc_method_def sprintf_s_def
      JSON_RPC_METHOD_NAME_MAX_LENGTH_def accept_request_def get_jsonrpc_acc_def rpc_call_notification_def
      ex_taken_def queue_task_def Let_def)

lemma ex_run:
  "\<exists>st2 st3 t. mapper_callback ex_platform ex_cb (ex_taken\<lparr>req_sema := 0\<rparr>) = kret st2 \<and> resp_sema st2 = Suc 0 \<and>
     json_process_rsponse ex_platform (st2\<lparr>resp_sema := 0\<rparr>) = kret (0, st3) \<and>
     find_task (tasks st2) (hd (RespChain st2)) (ReqRespChain st2) = Some 0 \<and> tasks st2 0 = Some t \<and>
     req_sema st3 + resp_sema st3 = 0 \<and> answer_of t = (5, 7, ''Success'', None)"
  by (simp add: ex_taken_def queue_task_def ex_defs Let_def mapper_callback_def json_send_response_def run_method_def
      data_obj_def json_process_rsponse_def json_send_new_result_def sprintf_s_def result_text_def
      json_send_result_response_string_def AD_NET_SERVER_MAX_BUFFER_SIZE_def result_object_def schedule_response_def answer_of_def)

theorem rpc_each_request_answered_witness:
  "\<exists>c. rpc_reach ex_platform ex_cb c \<and> accepted c = [(5, 7)] \<and> ReqRespChain (rst c) = [] \<and>
    mset (map (\<lambda>x. (nd_sock x, nd_buffer x)) (response_chain (rst c))) = {#(5, ''text'')#}"
proof -
  obtain st2 st3 t where run: "mapper_callback ex_platform ex_cb (ex_taken\<lparr>req_sema := 0\<rparr>) = kret st2" "resp_sema st2 = Suc 0"
    "json_process_rsponse ex_platform (st2\<lparr>resp_sema := 0\<rparr>) = kret (0, st3)"
    "find_task (tasks st2) (hd (RespChain st2)) (ReqRespChain st2) = Some 0" "tasks st2 0 = Some t"
    "req_sema st3 + resp_sema st3 = 0" "answer_of t = (5, 7, ''Success'', None)"
    using ex_run by (elim exE conjE) (rule that)
  let ?c0 = "\<lparr>rst = ex_rpc, accepted = [], refusals = [], answers = []\<rparr>"
  let ?c1 = "?c0\<lparr>rst := ex_taken, accepted := [(5, 7)]\<rparr>" and ?c2 = "?c0\<lparr>rst := st2, accepted := [(5, 7)]\<rparr>"
  let ?c3 = "?c0\<lparr>rst := st3, accepted := [(5, 7)], answers := [answer_of t]\<rparr>"
  have "rpc_reach ex_platform ex_cb ?c0" using ex_idle by (rule rpc_reach.start)
  moreover have "rpc_step ex_platform ex_cb ?c0 ?c1"
    using rpc_step.take_request [of ex_platform ex_request ?c0 ex_taken 7 ex_cb] ex_take ex_req_id by (simp add: ex_request_def)
  moreover have "req_sema ex_taken = Suc 0" by (simp add: ex_taken_def ex_defs queue_task_def Let_def)
  then have "rpc_step ex_platform ex_cb ?c1 ?c2"
    using rpc_step.run_mapper [of ?c1 0 ex_platform ex_cb st2] run(1) by simp
  moreover have "rpc_step ex_platform ex_cb ?c2 ?c3"
    using rpc_step.run_response [of ?c2 0 ex_platform 0 st3 0 t ex_cb] run by simp
  ultimately have reach: "rpc_reach ex_platform ex_cb ?c3" using rpc_reach.step by blast
  have "puts_ok ex_platform" by (simp add: puts_ok_def ex_platform_def)
  from rpc_each_request_answered [OF this reach] run(6,7) reach show ?thesis
    by (intro exI [of _ ?c3]) (simp add: answer_text_def ex_platform_def ex_lib_def result_object_def)
qed

text \<open>
  Fact: a method name of 256 characters or more, in a request that is valid JSON and has an identifier, is written
  beyond the end of an array on the stack.
\<close>

theorem long_method_overruns:
  assumes "mem_ok pl (allocs (jheap st))" and "mem_ok pl (Suc (allocs (jheap st)))"
    and "json_text 19 (checked_part (char_signed pl) (nd_buffer x))" and "hd (nd_buffer x) \<noteq> CHR ''[''" and "nd_buffer x \<noteq> []"
    and "tokener_parse (jlib pl) (nd_buffer x) = Some obj"
    and "get_string (jlib pl) (object_get (jlib pl) obj ''jsonrpc'') = Some ''2.0''"
    and "get_string (jlib pl) (object_get (jlib pl) obj ''id'') = Some rid" and "length rid < 256"
    and "get_string (jlib pl) (object_get (jlib pl) obj ''method'') = Some m" and "256 \<le> length m"
  shows "json_process_request pl x st = kfail BufferOverrun"
proof -
  obtain h where "json_checker_function (mem_ok pl) (char_signed pl) (jheap st) (nd_buffer x) = kret (True, h)"
    using checker_judges [OF assms(1,2), of "char_signed pl" "nd_buffer x"] assms(3) by auto
  moreover have "char_at (nd_buffer x) 0 \<noteq> CHR ''[''" using assms(4,5) by (simp add: char_at_def hd_conv_nth)
  ultimately show ?thesis
    using assms(6-11) by (simp add: json_process_request_def check_jsonrpc_2_0_def get_jsonrpc_id_def get_jsonrpc_method_def
        sprintf_s_def JSON_RPC_METHOD_NAME_MAX_LENGTH_def Let_def)
qed

definition long_request :: string where
  "long_request = ''{'' @ [dquote] @ ''method'' @ [dquote] @ '':'' @ [dquote] @ replicate 256 CHR ''m'' @ [dquote] @ ''}''"

definition long_platform :: platform where
  "long_platform = ex_platform\<lparr>jlib := \<lparr>tokener_parse = (\<lambda>_. Some (JObj [(''jsonrpc'', JStr ''2.0''), (''id'', JStr ''1''),
     (''method'', JStr (replicate 256 CHR ''m''))])), object_get = ex_get, get_string = ex_string, to_json_string = (\<lambda>_. [])\<rparr>\<rparr>"

lemma long_is_json: "json_text 19 long_request"
proof -
  have body: "str_body (replicate n CHR ''m'')" for n by (induction n) (auto intro: str_body.intros simp: plain_def)
  have "jstring (dquote # replicate 256 CHR ''m'' @ [dquote])" unfolding jstring_def using body by blast
  moreover have "str_body ''method''" by (auto intro!: str_body.intros simp: plain_def)
  then have "jstring (dquote # ''method'' @ [dquote])" unfolding jstring_def by blast
  ultimately have "jmembers 18 ([] @ (dquote # ''method'' @ [dquote]) @ [] @ CHR '':'' # [] @ (dquote # replicate 256 CHR ''m'' @ [dquote]) @ [])"
    by (intro members_one val_string) simp_all
  from val_object [OF this] show ?thesis unfolding json_text_def
    by (intro exI [of _ "[]"] exI [of _ long_request]) (simp add: long_request_def numeral_eq_Suc)
qed

theorem long_method_overruns_witness:
  "json_process_request long_platform (ex_request\<lparr>nd_buffer := long_request\<rparr>) ex_rpc = kfail BufferOverrun"
proof (rule long_method_overruns [where rid = "''1''" and m = "replicate 256 CHR ''m''" and
    obj = "JObj [(''jsonrpc'', JStr ''2.0''), (''id'', JStr ''1''), (''method'', JStr (replicate 256 CHR ''m''))]"])
  have "checked_part False s = s" if "list_all (\<lambda>c. 0 < (of_char c :: int)) s" for s
    using that by (simp add: checked_part_def char_int_def list_all_iff)
  moreover have "list_all (\<lambda>c. 0 < (of_char c :: int)) long_request" by (simp add: long_request_def list_all_iff)
  ultimately show "json_text 19 (checked_part (char_signed long_platform) (nd_buffer (ex_request\<lparr>nd_buffer := long_request\<rparr>)))"
    using long_is_json by (simp add: long_platform_def ex_platform_def)
qed (simp_all add: long_platform_def ex_platform_def long_request_def ex_get_def ex_string_def)

section \<open>From the socket to the mapper\<close>

text \<open>A text that the server takes as a request: valid JSON with an identifier and a known method, no long strings.\<close>

definition short_member :: "json_lib \<Rightarrow> json \<Rightarrow> string \<Rightarrow> bool" where
  "short_member lib obj key = (case get_string lib (object_get lib obj key) of None \<Rightarrow> True | Some s \<Rightarrow> length s < 256)"

definition good_text :: "platform \<Rightarrow> ADJsonRpcCommand list \<Rightarrow> string \<Rightarrow> bool" where
  "good_text pl ms s \<longleftrightarrow> framed s \<and> json_text 19 (checked_part (char_signed pl) s) \<and>
     (case tokener_parse (jlib pl) s of None \<Rightarrow> False | Some obj \<Rightarrow>
        list_all (short_member (jlib pl) obj) [''jsonrpc'', ''id'', ''method'', ''access''] \<and>
        get_string (jlib pl) (object_get (jlib pl) obj ''id'') \<noteq> None \<and>
        (case get_string (jlib pl) (object_get (jlib pl) obj ''method'') of None \<Rightarrow> False
         | Some m \<Rightarrow> is_this_method_registered m ms \<noteq> None))"

definition request_method :: "platform \<Rightarrow> ADJsonRpcCommand list \<Rightarrow> string \<Rightarrow> ADJsonRpcCommand option" where
  "request_method pl ms s = (case tokener_parse (jlib pl) s of
     Some obj \<Rightarrow> (case get_string (jlib pl) (object_get (jlib pl) obj ''method'') of Some m \<Rightarrow> is_this_method_registered m ms | None \<Rightarrow> None)
   | None \<Rightarrow> None)"

lemma good_text_task:
  assumes "puts_ok pl" and "\<forall>n. mem_ok pl n" and "good_text pl (rpc_call_list st) (nd_buffer x)"
  shows "\<exists>h rid m acs. request_id pl (nd_buffer x) = Some rid \<and> request_method pl (rpc_call_list st) (nd_buffer x) = Some m \<and>
    json_process_request pl x st = kret (0, queue_task x rid m acs (st\<lparr>jheap := h\<rparr>))"
proof -
  from assms(3) obtain obj i m c where obj: "tokener_parse (jlib pl) (nd_buffer x) = Some obj"
    "list_all (short_member (jlib pl) obj) [''jsonrpc'', ''id'', ''method'', ''access'']"
    "get_string (jlib pl) (object_get (jlib pl) obj ''id'') = Some i" "get_string (jlib pl) (object_get (jlib pl) obj ''method'') = Some m"
    "is_this_method_registered m (rpc_call_list st) = Some c"
    by (auto simp: good_text_def split: option.splits)
  obtain h where chk: "json_checker_function (mem_ok pl) (char_signed pl) (jheap st) (nd_buffer x) = kret (True, h)"
    using checker_judges [of "mem_ok pl" "jheap st" "char_signed pl" "nd_buffer x"] assms(2,3) by (auto simp: good_text_def)
  have first: "char_at (nd_buffer x) 0 \<noteq> CHR ''[''" using assms(3) by (auto simp: good_text_def framed_def char_at_def hd_conv_nth)
  have v: "\<exists>r. check_jsonrpc_2_0 (jlib pl) obj = kret r" "\<exists>acs. get_jsonrpc_acc (jlib pl) obj = kret acs"
    using obj(2) by (auto simp: check_jsonrpc_2_0_def get_jsonrpc_acc_def short_member_def sprintf_s_def split: option.splits)
  have short: "length i < 256" "length m < 256" using obj(2-4) by (auto simp: short_member_def)
  then have k: "get_jsonrpc_id (jlib pl) obj = kret (Some (atoi i))"
    "get_jsonrpc_method (jlib pl) obj (st\<lparr>jheap := h\<rparr>) = kret (Some c)"
    using obj(3-5) by (auto simp: get_jsonrpc_id_def get_jsonrpc_method_def sprintf_s_def JSON_RPC_METHOD_NAME_MAX_LENGTH_def)
  from v(2) obtain acs where "get_jsonrpc_acc (jlib pl) obj = kret acs" by blast
  then have "accept_request pl x (atoi i) c obj (st\<lparr>jheap := h\<rparr>) = kret (0, queue_task x (atoi i) c acs (st\<lparr>jheap := h\<rparr>))"
    using assms(1) by (simp add: accept_request_def puts_ok_def rpc_call_notification_def queue_task_def Let_def)
  then have "json_process_request pl x st = kret (0, queue_task x (atoi i) c acs (st\<lparr>jheap := h\<rparr>))"
    using first chk obj(1) v(1) k by (auto simp: json_process_request_def Let_def)
  moreover have "request_id pl (nd_buffer x) = Some (atoi i)" "request_method pl (rpc_call_list st) (nd_buffer x) = Some c"
    using obj(1,3-5) by (simp_all add: request_id_def request_method_def)
  ultimately show ?thesis by blast
qed

lemma good_text_taken:
  assumes "puts_ok pl" and "\<forall>n. mem_ok pl n" and "good_text pl (rpc_call_list st) (nd_buffer x)"
  shows "\<exists>h rid m acs. request_id pl (nd_buffer x) = Some rid \<and>
    json_process_request pl x st = kret (0, queue_task x rid m acs (st\<lparr>jheap := h\<rparr>))"
  using good_text_task [OF assms] by blast

lemma queue_task_list [simp]: "rpc_call_list (queue_task x rid m acs st) = rpc_call_list st"
  by (simp add: queue_task_def Let_def)

text \<open>A row of requests becomes a row of tasks.\<close>

lemma process_requests_taken:
  assumes "puts_ok pl" and "\<forall>n. mem_ok pl n" and "list_all (\<lambda>x. good_text pl (rpc_call_list st) (nd_buffer x)) xs"
  shows "\<exists>st'. process_requests pl xs st = kret st' \<and> response_chain st' = response_chain st \<and>
    (\<forall>p < next_task st. tasks st' p = tasks st p) \<and>
    (let ps = [next_task st ..< next_task st + length xs] in
      ReqRespChain st' = ReqRespChain st @ ps \<and> ReqChain st' = ReqChain st @ ps \<and>
      map (\<lambda>p. Some (task_key (tasks st') p)) ps = map (\<lambda>x. map_option (Pair (nd_sock x)) (request_id pl (nd_buffer x))) xs)"
  using assms(3)
proof (induction xs arbitrary: st)
  case Nil
  then show ?case by simp
next
  case (Cons x xs)
  obtain h rid m acs where x: "request_id pl (nd_buffer x) = Some rid"
    "json_process_request pl x st = kret (0, queue_task x rid m acs (st\<lparr>jheap := h\<rparr>))"
    using good_text_taken [OF assms(1,2), of st x] Cons.prems by auto
  let ?s = "queue_task x rid m acs (st\<lparr>jheap := h\<rparr>)"
  obtain st' where st': "process_requests pl xs ?s = kret st'" "response_chain st' = response_chain ?s"
    "\<forall>p < next_task ?s. tasks st' p = tasks ?s p"
    "let ps = [next_task ?s ..< next_task ?s + length xs] in
      ReqRespChain st' = ReqRespChain ?s @ ps \<and> ReqChain st' = ReqChain ?s @ ps \<and>
      map (\<lambda>p. Some (task_key (tasks st') p)) ps = map (\<lambda>x. map_option (Pair (nd_sock x)) (request_id pl (nd_buffer x))) xs"
    using Cons.IH [of ?s] Cons.prems by auto
  have row: "[next_task st ..< next_task st + length (x # xs)] =
      next_task st # [Suc (next_task st) ..< Suc (next_task st) + length xs]"
    by (simp add: upt_conv_Cons del: upt_Suc)
  have "task_key (tasks st') (next_task st) = (nd_sock x, rid)" using st'(3) by (simp add: task_key_def)
  then show ?case unfolding row using st' x
    by (intro exI [of _ st']) (auto simp: Let_def simp del: upt_Suc)
qed

lemma put_frame_rpc:
  "rpc_call_list (fold (put_frame sd info) fs st) = rpc_call_list st" "next_task (fold (put_frame sd info) fs st) = next_task st"
  "ReqRespChain (fold (put_frame sd info) fs st) = ReqRespChain st" "ReqChain (fold (put_frame sd info) fs st) = ReqChain st"
  "response_chain (fold (put_frame sd info) fs st) = response_chain st"
  by (induction fs arbitrary: st) (simp_all add: put_frame_def put_request_def Let_def)

text \<open>
  Fact: requests that arrive together on a socket become tasks for the mapper in their order, each with its
  identifier and that socket, and nothing is sent yet.
\<close>

theorem pipelined_requests_taken:
  assumes "puts_ok pl" and "\<forall>n. mem_ok pl n" and "request_chain st = []" and "objs \<noteq> []"
    and "list_all (good_text pl (rpc_call_list st)) objs"
  shows "\<exists>st' ps. json_receive_data_and_notify_consumer (put_ok pl) (on_data_arrival pl) sd (concat objs) st = kret (0, st') \<and>
    response_chain st' = response_chain st \<and> ReqRespChain st' = ReqRespChain st @ ps \<and> ReqChain st' = ReqChain st @ ps \<and>
    map (\<lambda>p. Some (task_key (tasks st') p)) ps = map (\<lambda>s. map_option (Pair sd) (request_id pl s)) objs"
proof -
  have fr: "list_all framed objs" using assms(5) by (auto simp: list_all_iff good_text_def)
  let ?s = "fold (put_frame sd (get_client_info sd st)) objs st"
  have "map (\<lambda>x. (nd_sock x, nd_len x, nd_buffer x)) (request_chain ?s) = map (\<lambda>s. (sd, length s, c_str s)) objs"
    using fold_put_frame [of sd "get_client_info sd st" objs st] assms(3) by simp
  moreover have "map (\<lambda>s. (sd, length s, c_str s)) objs = map (\<lambda>s. (sd, length s, s)) objs"
    using fr by (induction objs) (auto simp: framed_def c_str_id)
  ultimately have "map (\<lambda>(a, _, s). (a, s)) (map (\<lambda>x. (nd_sock x, nd_len x, nd_buffer x)) (request_chain ?s)) =
      map (\<lambda>(a, _, s). (a, s)) (map (\<lambda>s. (sd, length s, s)) objs)" by simp
  then have xs: "map (\<lambda>x. (nd_sock x, nd_buffer x)) (request_chain ?s) = map (Pair sd) objs" by (simp add: comp_def)
  have "list_all (\<lambda>(a, s). good_text pl (rpc_call_list st) s) (map (\<lambda>x. (nd_sock x, nd_buffer x)) (request_chain ?s))"
    unfolding xs using assms(5) by (simp add: list_all_iff)
  then have "list_all (\<lambda>x. good_text pl (rpc_call_list ?s) (nd_buffer x)) (request_chain ?s)"
    by (simp add: put_frame_rpc list_all_iff)
  then obtain st' ps where st': "process_requests pl (request_chain ?s) (?s\<lparr>request_chain := []\<rparr>) = kret st'"
    "response_chain st' = response_chain st" "ReqRespChain st' = ReqRespChain st @ ps" "ReqChain st' = ReqChain st @ ps"
    "map (\<lambda>p. Some (task_key (tasks st') p)) ps =
       map (\<lambda>x. map_option (Pair (nd_sock x)) (request_id pl (nd_buffer x))) (request_chain ?s)"
    using process_requests_taken [OF assms(1,2), of "?s\<lparr>request_chain := []\<rparr>" "request_chain ?s"]
    by (auto simp: put_frame_rpc Let_def)
  have "map (\<lambda>x. map_option (Pair (nd_sock x)) (request_id pl (nd_buffer x))) (request_chain ?s) =
      map (\<lambda>(a, s). map_option (Pair a) (request_id pl s)) (map (\<lambda>x. (nd_sock x, nd_buffer x)) (request_chain ?s))" by simp
  also have "\<dots> = map (\<lambda>s. map_option (Pair sd) (request_id pl s)) objs" unfolding xs by simp
  finally have keys: "map (\<lambda>p. Some (task_key (tasks st') p)) ps = map (\<lambda>s. map_option (Pair sd) (request_id pl s)) objs"
    using st'(5) by simp
  have "json_receive_data_and_notify_consumer (put_ok pl) (on_data_arrival pl) sd (concat objs) st = kret (0, st')"
    using receive_frames [of "put_ok pl" "on_data_arrival pl" sd "concat objs" st] frames_concat [OF fr assms(4)] assms(1) st'(1)
    by (simp add: puts_ok_def on_data_arrival_def)
  then show ?thesis using st'(2-4) keys by blast
qed

lemma json_textI: "jvalue d v \<Longrightarrow> hd v \<in> set ''[{'' \<Longrightarrow> json_text d v"
  unfolding json_text_def by (rule exI [of _ "[]"], rule exI [of _ v], rule exI [of _ "[]"]) simp

theorem pipelined_requests_taken_witness:
  "\<exists>st' ps. json_receive_data_and_notify_consumer (put_ok ex_platform) (on_data_arrival ex_platform) 5 (concat [''{}'', ''{ }'']) ex_rpc =
      kret (0, st') \<and>
    response_chain st' = response_chain ex_rpc \<and> ReqRespChain st' = ReqRespChain ex_rpc @ ps \<and> ReqChain st' = ReqChain ex_rpc @ ps \<and>
    map (\<lambda>p. Some (task_key (tasks st') p)) ps = map (\<lambda>s. map_option (Pair 5) (request_id ex_platform s)) [''{}'', ''{ }'']"
proof (rule pipelined_requests_taken)
  have "json_text 19 ''{}''" "json_text 19 ''{ }''"
    using json_textI [OF val_empty_object [of "[]" 18]] json_textI [OF val_empty_object [of "'' ''" 18]]
    by (simp_all add: is_ws_def)
  then show "list_all (good_text ex_platform (rpc_call_list ex_rpc)) [''{}'', ''{ }'']"
    by (simp add: good_text_def framed_def ex_defs checked_part_def char_int_def short_member_def ex_get_def ex_string_def ex_show)
qed (simp_all add: puts_ok_def ex_defs)

text \<open>
  Fact: when the mapper's chain has no memory for a request that was already filed as open, the request counts as
  taken but nobody is woken for it and nothing is sent.
\<close>

theorem request_lost_without_memory:
  assumes "put_ok pl (put_calls st)" and "\<not> put_ok pl (Suc (put_calls st))" and "get_jsonrpc_acc (jlib pl) obj = kret acs"
  shows "\<exists>st'. accept_request pl x rid m obj st = kret (0, st') \<and> ReqRespChain st' = ReqRespChain st @ [next_task st] \<and>
    ReqChain st' = ReqChain st \<and> req_sema st' = req_sema st \<and> response_chain st' = response_chain st"
  using assms by (simp add: accept_request_def rpc_call_notification_def Let_def)

theorem request_lost_without_memory_witness:
  "\<exists>st'. accept_request (ex_platform\<lparr>put_ok := (\<lambda>n. n = 0)\<rparr>) ex_request 7 \<lparr>cmd_method = ''m'', method_index = 1\<rparr> (JObj []) ex_rpc = kret (0, st') \<and>
    ReqRespChain st' = ReqRespChain ex_rpc @ [next_task ex_rpc] \<and> ReqChain st' = ReqChain ex_rpc \<and>
    req_sema st' = req_sema ex_rpc \<and> response_chain st' = response_chain ex_rpc"
  by (rule request_lost_without_memory [where acs = CMD_TASK_ACCESS_SYNC])
    (simp_all add: ex_defs get_jsonrpc_acc_def ex_get_def ex_string_def)

end
