(* ===== verification/Runtime_Counter.thy ===== *)
theory Runtime_Counter
  imports Prelude
begin

text \<open>
  The counter of running minutes, \<open>src/sources/lib/lib-adav-old/src/ADRuntimeMinCounter.cpp\<close>, driven by the
  heartbeat of a timer. \<open>unsigned long\<close> has 32 bits, as on the boards the services run on. The uptime in
  seconds that a call reads from \<open>/proc/uptime\<close> is an argument.
\<close>

section \<open>The class\<close>

record ADRuntimeMinCounter =
  Counter :: u32
  counting :: bool
  heartbeat_ms_time :: s32
  current_uptime_sec :: u32
  last_uptime_sec :: u32
  ten_sec_counter :: s32
  attached :: bool

definition counter_new :: ADRuntimeMinCounter where
  "counter_new = \<lparr>Counter = 0, counting = False, heartbeat_ms_time = 100, current_uptime_sec = 0, last_uptime_sec = 0,
     ten_sec_counter = 0, attached = False\<rparr>"

definition AttachHeartBeat :: "s32 \<Rightarrow> ADRuntimeMinCounter \<Rightarrow> int \<times> ADRuntimeMinCounter" where
  "AttachHeartBeat time_ms c = (if attached c then (0, c) else (0, c\<lparr>attached := True, heartbeat_ms_time := time_ms\<rparr>))"

definition StartCounting :: "u32 \<Rightarrow> ADRuntimeMinCounter \<Rightarrow> int \<times> ADRuntimeMinCounter" where
  "StartCounting uptime c = (if \<not> attached c then (-1, c) else (0, c\<lparr>last_uptime_sec := uptime, counting := True\<rparr>))"

definition StopCounting :: "ADRuntimeMinCounter \<Rightarrow> int \<times> ADRuntimeMinCounter" where
  "StopCounting c = (0, c\<lparr>counting := False\<rparr>)"

definition IncreaseMinuteCount :: "s32 \<Rightarrow> ADRuntimeMinCounter \<Rightarrow> ADRuntimeMinCounter" where
  "IncreaseMinuteCount new_val c = c\<lparr>Counter := Counter c + new_val\<rparr>"

definition SetCounterValue :: "u32 \<Rightarrow> ADRuntimeMinCounter \<Rightarrow> int \<times> ADRuntimeMinCounter" where
  "SetCounterValue minutes c = (0, c\<lparr>Counter := minutes\<rparr>)"

definition GetCounterValue :: "ADRuntimeMinCounter \<Rightarrow> u32" where
  "GetCounterValue c = Counter c"

definition timer_notification :: "u32 \<Rightarrow> ADRuntimeMinCounter \<Rightarrow> ADRuntimeMinCounter" where
  "timer_notification uptime c =
     (if \<not> counting c then c
      else let c = c\<lparr>ten_sec_counter := ten_sec_counter c + heartbeat_ms_time c\<rparr> in
        if sint (ten_sec_counter c) < 10000 then c
        else let c = c\<lparr>ten_sec_counter := 0, current_uptime_sec := uptime\<rparr> in
          if current_uptime_sec c - last_uptime_sec c < 60 then c
          else let diff = (current_uptime_sec c - last_uptime_sec c) div 60;
                   c = IncreaseMinuteCount diff c in
               c\<lparr>last_uptime_sec := current_uptime_sec c\<rparr>)"

section \<open>What is counted\<close>

text \<open>The uptimes at which the heartbeats make the counter look at the clock.\<close>

fun looks :: "s32 \<Rightarrow> s32 \<Rightarrow> u32 list \<Rightarrow> u32 list" where
  "looks hb ten [] = []"
| "looks hb ten (u # us) =
     (if sint (ten + hb) < 10000 then looks hb (ten + hb) us else u # looks hb 0 us)"

text \<open>Clock readings that do not go back and are at most \<open>g\<close> seconds apart.\<close>

fun steady :: "nat \<Rightarrow> u32 \<Rightarrow> u32 list \<Rightarrow> bool" where
  "steady g u [] \<longleftrightarrow> True"
| "steady g u (v # vs) \<longleftrightarrow> unat u \<le> unat v \<and> unat v \<le> unat u + g \<and> steady g v vs"

text \<open>
  The counter with the start \<open>u0\<close> of the counting and the reading \<open>u\<close> of the last look: the minutes
  counted so far stand for the seconds up to \<open>last_uptime_sec\<close>, each for 60 to \<open>60 + g\<close> of them.
\<close>

definition counted :: "nat \<Rightarrow> u32 \<Rightarrow> u32 \<Rightarrow> ADRuntimeMinCounter \<Rightarrow> bool" where
  "counted g u0 u c \<longleftrightarrow> counting c \<and> unat u0 \<le> unat (last_uptime_sec c) \<and> unat (last_uptime_sec c) \<le> unat u \<and>
     60 * unat (Counter c) \<le> unat (last_uptime_sec c) - unat u0 \<and>
     unat (last_uptime_sec c) - unat u0 \<le> (60 + g) * unat (Counter c) \<and> unat u - unat (last_uptime_sec c) < 60"

lemma unat_div_60: "unat (w div 60 :: u32) = unat w div 60"
  by (simp add: unat_div)

lemma look_counted:
  assumes "counted g u0 u c" and "unat u \<le> unat v" and "unat v \<le> unat u + g"
    and "\<not> sint (ten_sec_counter c + heartbeat_ms_time c) < 10000"
  shows "counted g u0 v (timer_notification v c)"
proof -
  have le: "last_uptime_sec c \<le> v" using assms(1,2) by (simp add: counted_def word_le_nat_alt)
  then have d: "unat (v - last_uptime_sec c) = unat v - unat (last_uptime_sec c)" by (simp add: unat_sub)
  define n where "n = unat v - unat (last_uptime_sec c)"
  have lt: "(v - last_uptime_sec c < 60) = (n < 60)" using d by (simp add: word_less_nat_alt n_def)
  show ?thesis
  proof (cases "n < 60")
    case True
    then show ?thesis using assms lt by (simp add: timer_notification_def counted_def Let_def n_def)
  next
    case False
    have "n < 60 + g" using assms(1-3) by (auto simp: n_def counted_def)
    have q: "60 * (n div 60) \<le> n" "n \<le> (60 + g) * (n div 60)"
    proof -
      have "1 \<le> n div 60" using False by simp
      then have "60 + g \<le> (60 + g) * (n div 60)" by simp
      then show "n \<le> (60 + g) * (n div 60)" using \<open>n < 60 + g\<close> by linarith
    qed simp
    have small: "unat (Counter c) + n div 60 < 2 ^ 32"
    proof -
      have "60 * unat (Counter c) \<le> unat (last_uptime_sec c)" using assms(1) unfolding counted_def by linarith
      moreover have "unat (last_uptime_sec c) + n = unat v" using assms(1,2) by (simp add: n_def counted_def)
      moreover have "unat v < 2 ^ 32" by (rule order_less_le_trans [OF unsigned_less]) simp
      ultimately show ?thesis using q(1) by linarith
    qed
    let ?c = "timer_notification v c" and ?L = "unat (last_uptime_sec c) - unat u0"
    have C: "unat (Counter ?c) = unat (Counter c) + n div 60" and V: "last_uptime_sec ?c = v" and "counting ?c"
      using small d unat_add_lem [THEN iffD1, of "Counter c" "(v - last_uptime_sec c) div 60"] assms(1,4) False lt
      by (simp_all add: unat_div_60 n_def timer_notification_def counted_def Let_def IncreaseMinuteCount_def)
    have P: "unat v - unat u0 = ?L + n" using assms(1,2) by (simp add: n_def counted_def)
    have A: "60 * unat (Counter c) \<le> ?L" and B: "?L \<le> (60 + g) * unat (Counter c)"
      using assms(1) by (simp_all add: counted_def)
    have "60 * unat (Counter ?c) \<le> ?L + n" using q(1) A unfolding C add_mult_distrib2 by linarith
    moreover have "?L + n \<le> (60 + g) * unat (Counter ?c)" using add_mono [OF B q(2)] by (simp add: C add_mult_distrib2)
    moreover have "unat u0 \<le> unat v" using assms(1,2) by (simp add: counted_def)
    ultimately show ?thesis using \<open>counting ?c\<close> V P by (simp add: counted_def)
  qed
qed

lemma quiet_counted:
  assumes "sint (ten_sec_counter c + heartbeat_ms_time c) < 10000" and "counting c"
  shows "timer_notification v c = c\<lparr>ten_sec_counter := ten_sec_counter c + heartbeat_ms_time c\<rparr>"
  using assms by (simp add: timer_notification_def)

lemma timer_notification_keeps [simp]: "heartbeat_ms_time (timer_notification v c) = heartbeat_ms_time c"
  by (simp add: timer_notification_def IncreaseMinuteCount_def Let_def)

lemma beats_counted:
  assumes "counted g u0 u c" and "steady g u (looks (heartbeat_ms_time c) (ten_sec_counter c) us)"
  shows "counted g u0 (last (u # looks (heartbeat_ms_time c) (ten_sec_counter c) us)) (fold timer_notification us c)"
  using assms
proof (induction us arbitrary: u c)
  case Nil
  then show ?case by simp
next
  case (Cons v us)
  have "counting c" using Cons.prems(1) by (simp add: counted_def)
  show ?case
  proof (cases "sint (ten_sec_counter c + heartbeat_ms_time c) < 10000")
    case True
    let ?c = "c\<lparr>ten_sec_counter := ten_sec_counter c + heartbeat_ms_time c\<rparr>"
    have "counted g u0 u ?c" using Cons.prems(1) by (simp add: counted_def)
    then show ?thesis using Cons.IH [of u ?c] Cons.prems(2) True quiet_counted [OF True \<open>counting c\<close>] by simp
  next
    case False
    have "ten_sec_counter (timer_notification v c) = 0"
      using False \<open>counting c\<close> by (simp add: timer_notification_def IncreaseMinuteCount_def Let_def)
    moreover have "counted g u0 v (timer_notification v c)"
      using look_counted Cons.prems False by simp
    ultimately show ?thesis using Cons.IH [of v "timer_notification v c"] Cons.prems(2) False by simp
  qed
qed

text \<open>
  Property C37: counting never runs ahead of the clock, and falls behind it by at most \<open>g\<close> seconds for each minute counted
  and the minute that is open, where \<open>g\<close> is the longest time between two looks at the clock.
\<close>

theorem runtime_minutes_bounds:
  assumes "attached c" and "Counter c = 0" and "steady g u0 (looks (heartbeat_ms_time c) (ten_sec_counter c) us)"
  shows "let c' = fold timer_notification us (snd (StartCounting u0 c));
             passed = unat (last (u0 # looks (heartbeat_ms_time c) (ten_sec_counter c) us)) - unat u0 in
    60 * unat (GetCounterValue c') \<le> passed \<and> passed < (60 + g) * unat (GetCounterValue c') + 60"
proof -
  let ?c = "snd (StartCounting u0 c)"
  have "counted g u0 u0 ?c" using assms by (simp add: StartCounting_def counted_def)
  moreover have "heartbeat_ms_time ?c = heartbeat_ms_time c" "ten_sec_counter ?c = ten_sec_counter c"
    by (simp_all add: StartCounting_def)
  ultimately have "counted g u0 (last (u0 # looks (heartbeat_ms_time c) (ten_sec_counter c) us)) (fold timer_notification us ?c)"
    using beats_counted [of g u0 u0 ?c us] assms(3) by simp
  then show ?thesis by (auto simp: counted_def Let_def GetCounterValue_def)
qed

theorem runtime_minutes_bounds_witness:
  "let c' = fold timer_notification [22, 44, 66] (snd (StartCounting 0 (snd (AttachHeartBeat 22000 counter_new))));
       passed = unat (last (0 # looks 22000 0 [22, 44, 66 :: u32])) - unat (0 :: u32) in
    60 * unat (GetCounterValue c') \<le> passed \<and> passed < (60 + 22) * unat (GetCounterValue c') + 60"
  using runtime_minutes_bounds [of "snd (AttachHeartBeat 22000 counter_new)" 22 0 "[22, 44, 66]"]
  by (simp add: AttachHeartBeat_def counter_new_def)

end
