(* ===== verification/Event_Mgr.thy ===== *)
theory Event_Mgr
  imports Prelude
begin

text \<open>
  The event manager of the services, \<open>src/sources/lib/lib-adav-old/src/ADEvntMgr.cpp\<close>: other services
  subscribe with the port on which they want to be told, the notify thread sends each event to the
  subscribers of its number, and the process thread hands events that arrive from other services to the
  attached receivers. The list of subscriptions holds addresses of entries in a heap, so that a deleted entry
  is seen when it is used. Whether the \<open>n\<close>-th connection can be made is the argument \<open>net\<close>; the messages
  that were sent and the calls of the receivers are logs of the state.
\<close>

section \<open>State\<close>

record EventEntry =
  e_cltToken :: s32
  e_portNum :: s32
  e_eventNum :: s32
  e_srvToken :: s32
  e_sock_descr :: s32
  e_sock_id :: s32
  e_ip :: string
  e_deleteFlag :: bool

record EventProcEntry =
  p_eventNum :: s32
  p_eventArg :: s32
  p_cltToken :: s32
  p_eventArg2 :: s32

text \<open>A message to a subscriber: address, port, client token, event number and its two arguments.\<close>

type_synonym event_msg = "string \<times> s32 \<times> s32 \<times> s32 \<times> s32 \<times> s32"

type_synonym entry_heap = "ptr \<Rightarrow> EventEntry option"

record ADEvntMgr =
  AckToken :: s32
  eventList :: "ptr list"
  entries :: entry_heap
  notifyEvent :: "EventProcEntry list"
  processEvent :: "EventProcEntry list"
  notify_sema :: nat
  process_sema :: nat
  connects :: nat
  event_log :: "event_msg list"
  receivers :: "nat list"
  received :: "(nat \<times> s32 \<times> s32 \<times> s32 \<times> s32) list"

definition ev_new :: ADEvntMgr where
  "ev_new = \<lparr>AckToken = 0, eventList = [], entries = (\<lambda>_. None), notifyEvent = [], processEvent = [], notify_sema = 0,
     process_sema = 0, connects = 0, event_log = [], receivers = [], received = []\<rparr>"

definition AttachReceiver :: "nat \<Rightarrow> ADEvntMgr \<Rightarrow> ADEvntMgr" where
  "AttachReceiver r m = m\<lparr>receivers := receivers m @ [r]\<rparr>"

section \<open>Subscriptions\<close>

definition FindEventEntry :: "s32 \<Rightarrow> EventEntry \<Rightarrow> bool" where
  "FindEventEntry srv_token e \<longleftrightarrow> srv_token = e_srvToken e"

definition FindDuplicateEntry :: "EventEntry \<Rightarrow> EventEntry \<Rightarrow> bool" where
  "FindDuplicateEntry my e \<longleftrightarrow>
     \<not> (e_cltToken my \<noteq> e_cltToken e \<or> e_portNum my \<noteq> e_portNum e \<or> e_eventNum my \<noteq> e_eventNum e)"

text \<open>\<open>find_if\<close> over the entries of the list: whether one is found.\<close>

fun find_if :: "(EventEntry \<Rightarrow> bool) \<Rightarrow> entry_heap \<Rightarrow> ptr list \<Rightarrow> bool kres" where
  "find_if P h [] = kret False"
| "find_if P h (p # ps) = (case h p of None \<Rightarrow> kfail BadDeref
     | Some e \<Rightarrow> if P e then kret True else find_if P h ps)"

text \<open>\<open>remove_if\<close> with a predicate that deletes the entry it accepts, followed by \<open>erase\<close>.\<close>

fun remove_if :: "(EventEntry \<Rightarrow> bool) \<Rightarrow> entry_heap \<Rightarrow> ptr list \<Rightarrow> (ptr list \<times> entry_heap) kres" where
  "remove_if P h [] = kret ([], h)"
| "remove_if P h (p # ps) = (case h p of None \<Rightarrow> kfail BadDeref
     | Some e \<Rightarrow> if P e then remove_if P (h(p := None)) ps
         else kbind (remove_if P h ps) (\<lambda>(qs, h). kret (p # qs, h)))"

text \<open>The result and the token that is handed out, the caller's old one when there is a duplicate.\<close>

definition register_event_subscription :: "ptr \<Rightarrow> s32 \<Rightarrow> ADEvntMgr \<Rightarrow> (int \<times> s32 \<times> ADEvntMgr) kres" where
  "register_event_subscription pEvent ack_token m = (case entries m pEvent of
     None \<Rightarrow> kfail BadDeref
   | Some e \<Rightarrow> kbind (find_if (FindDuplicateEntry e) (entries m) (eventList m)) (\<lambda>found.
       if \<not> found then
         let t = AckToken m + 1 in
         kret (0, t, m\<lparr>AckToken := t, entries := (entries m)(pEvent \<mapsto> e\<lparr>e_srvToken := t\<rparr>),
           eventList := eventList m @ [pEvent]\<rparr>)
       else kret (-1, ack_token, m)))"

text \<open>
  How the RPC manager subscribes: \<open>pEvent\<close> is the address of the new entry, with the flag of deletion clear; an
  entry that is refused is freed again.
\<close>

definition subscribe_entry :: "ptr \<Rightarrow> EventEntry \<Rightarrow> s32 \<Rightarrow> ADEvntMgr \<Rightarrow> (int \<times> s32 \<times> ADEvntMgr) kres" where
  "subscribe_entry pEvent e ack_token m =
     kbind (register_event_subscription pEvent ack_token (m\<lparr>entries := (entries m)(pEvent \<mapsto> e\<lparr>e_deleteFlag := False\<rparr>)\<rparr>))
       (\<lambda>(res, srvToken, m).
         kret (res, srvToken, if res = 0 then m else m\<lparr>entries := (entries m)(pEvent := None)\<rparr>))"

definition unregister_event_subscription :: "s32 \<Rightarrow> ADEvntMgr \<Rightarrow> (int \<times> ADEvntMgr) kres" where
  "unregister_event_subscription srv_token m =
     kbind (find_if (FindEventEntry srv_token) (entries m) (eventList m)) (\<lambda>found.
       if \<not> found then kret (-1, m)
       else kbind (remove_if (FindEventEntry srv_token) (entries m) (eventList m)) (\<lambda>(ps, h).
         kret (0, m\<lparr>eventList := ps, entries := h\<rparr>)))"

section \<open>Notification\<close>

definition notify_event :: "s32 \<Rightarrow> s32 \<Rightarrow> s32 \<Rightarrow> ADEvntMgr \<Rightarrow> int \<times> ADEvntMgr" where
  "notify_event eventNum eventArg eventArg2 m =
     (0, m\<lparr>notifyEvent := notifyEvent m @ [\<lparr>p_eventNum = eventNum, p_eventArg = eventArg, p_cltToken = 0, p_eventArg2 = eventArg2\<rparr>],
        notify_sema := notify_sema m + 1\<rparr>)"

text \<open>The entry is read for its address before the connection is made and for its token afterwards.\<close>

definition send_event :: "(nat \<Rightarrow> bool) \<Rightarrow> EventEntry \<Rightarrow> EventProcEntry \<Rightarrow> ADEvntMgr \<Rightarrow> int \<times> ADEvntMgr" where
  "send_event net pEvent v m =
     (let n = connects m; m = m\<lparr>connects := n + 1\<rparr> in
      if \<not> net n then (-1, m)
      else (0, m\<lparr>event_log := event_log m @ [(e_ip pEvent, e_portNum pEvent, e_cltToken pEvent, p_eventNum v, p_eventArg v, p_eventArg2 v)]\<rparr>))"

definition wants :: "EventEntry \<Rightarrow> EventProcEntry \<Rightarrow> bool" where
  "wants e v \<longleftrightarrow> e_eventNum e = -1 \<or> e_eventNum e = p_eventNum v"

text \<open>The body of the loop over the subscriptions, in two parts: sending, and marking the entry.\<close>

definition notify_send :: "(nat \<Rightarrow> bool) \<Rightarrow> EventProcEntry \<Rightarrow> nat \<Rightarrow> ADEvntMgr \<Rightarrow> (bool \<times> ADEvntMgr) kres" where
  "notify_send net v i m =
     (if i < length (eventList m) then
        (case entries m (eventList m ! i) of
           None \<Rightarrow> kfail BadDeref
         | Some e \<Rightarrow> if wants e v then (case send_event net e v m of (r, m) \<Rightarrow> kret (r = -1, m)) else kret (False, m))
      else kfail BufferOverrun)"

definition notify_mark :: "nat \<Rightarrow> ADEvntMgr \<Rightarrow> ADEvntMgr kres" where
  "notify_mark i m =
     (if i < length (eventList m) then
        (case entries m (eventList m ! i) of
           None \<Rightarrow> kfail BadDeref
         | Some e \<Rightarrow> kret (m\<lparr>entries := (entries m)(eventList m ! i \<mapsto> e\<lparr>e_deleteFlag := True\<rparr>)\<rparr>))
      else kfail BufferOverrun)"

text \<open>The loop over the last \<open>n\<close> subscriptions, and what follows it.\<close>

fun notify_loop :: "(nat \<Rightarrow> bool) \<Rightarrow> EventProcEntry \<Rightarrow> nat \<Rightarrow> ADEvntMgr \<Rightarrow> ADEvntMgr kres" where
  "notify_loop net v 0 m = kret m"
| "notify_loop net v (Suc n) m =
     (let i = length (eventList m) - Suc n in
      kbind (notify_send net v i m) (\<lambda>(failed, m).
      kbind (if failed then notify_mark i m else kret m) (\<lambda>m. notify_loop net v n m)))"

definition remove_non_listeners :: "ADEvntMgr \<Rightarrow> ADEvntMgr kres" where
  "remove_non_listeners m =
     kbind (remove_if e_deleteFlag (entries m) (eventList m)) (\<lambda>(ps, h). kret (m\<lparr>eventList := ps, entries := h\<rparr>))"

definition notify_one :: "(nat \<Rightarrow> bool) \<Rightarrow> EventProcEntry \<Rightarrow> ADEvntMgr \<Rightarrow> ADEvntMgr kres" where
  "notify_one net v m =
     kbind (notify_loop net v (length (eventList m)) m) (\<lambda>m.
     kbind (remove_non_listeners m) (\<lambda>m. kret (m\<lparr>notifyEvent := tl (notifyEvent m)\<rparr>)))"

text \<open>One run of the notify thread: it takes the events that are queued when it runs undisturbed.\<close>

fun notify_all :: "(nat \<Rightarrow> bool) \<Rightarrow> EventProcEntry list \<Rightarrow> ADEvntMgr \<Rightarrow> ADEvntMgr kres" where
  "notify_all net [] m = kret m"
| "notify_all net (v # vs) m = kbind (notify_one net v m) (notify_all net vs)"

definition notify_thread :: "(nat \<Rightarrow> bool) \<Rightarrow> ADEvntMgr \<Rightarrow> ADEvntMgr kres" where
  "notify_thread net m = notify_all net (notifyEvent m) m"

section \<open>Reception\<close>

definition process_event :: "s32 \<Rightarrow> s32 \<Rightarrow> s32 \<Rightarrow> s32 \<Rightarrow> ADEvntMgr \<Rightarrow> int \<times> ADEvntMgr" where
  "process_event event_num event_arg clt_token event_arg2 m =
     (0, m\<lparr>processEvent := processEvent m @
            [\<lparr>p_eventNum = event_num, p_eventArg = event_arg, p_cltToken = clt_token, p_eventArg2 = event_arg2\<rparr>],
        process_sema := process_sema m + 1\<rparr>)"

definition notify_subscribers :: "EventProcEntry \<Rightarrow> ADEvntMgr \<Rightarrow> ADEvntMgr" where
  "notify_subscribers v m = m\<lparr>received := received m @
     map (\<lambda>r. (r, p_cltToken v, p_eventNum v, p_eventArg v, p_eventArg2 v)) (receivers m)\<rparr>"

fun process_all :: "EventProcEntry list \<Rightarrow> ADEvntMgr \<Rightarrow> ADEvntMgr" where
  "process_all [] m = m"
| "process_all (v # vs) m = process_all vs ((notify_subscribers v m)\<lparr>processEvent := vs\<rparr>)"

definition process_thread :: "ADEvntMgr \<Rightarrow> ADEvntMgr" where
  "process_thread m = process_all (processEvent m) m"

section \<open>The end of the manager\<close>

fun delete_all :: "entry_heap \<Rightarrow> ptr list \<Rightarrow> entry_heap kres" where
  "delete_all h [] = kret h"
| "delete_all h (p # ps) = (case h p of None \<Rightarrow> kfail BadFree | Some _ \<Rightarrow> delete_all (h(p := None)) ps)"

definition ev_delete :: "ADEvntMgr \<Rightarrow> ADEvntMgr kres" where
  "ev_delete m = kbind (delete_all (entries m) (eventList m)) (\<lambda>h. kret (m\<lparr>entries := h\<rparr>))"

end
