(* ===== verification/Event_Proofs.thy ===== *)
theory Event_Proofs
  imports Event_Mgr
begin

text \<open>
  Properties of the event manager: what a run of the notify thread sends and which subscriptions it drops, the
  invariant of the list of subscriptions, the way of an event from one service to another, and what happens
  when a subscription is removed while the notify thread is sending.
\<close>

section \<open>The list of subscriptions as values\<close>

definition live_list :: "entry_heap \<Rightarrow> ptr list \<Rightarrow> bool" where
  "live_list h ps \<longleftrightarrow> distinct ps \<and> (\<forall>p \<in> set ps. h p \<noteq> None)"

definition at :: "entry_heap \<Rightarrow> ptr \<Rightarrow> EventEntry" where
  "at h p = the (h p)"

definition subs :: "ADEvntMgr \<Rightarrow> EventEntry list" where
  "subs m = map (at (entries m)) (eventList m)"

lemma live_list_Cons [simp]: "live_list h (p # ps) \<longleftrightarrow> p \<notin> set ps \<and> h p = Some (at h p) \<and> live_list h ps"
  by (auto simp: live_list_def at_def)

lemma live_list_Nil [simp]: "live_list h []"
  by (simp add: live_list_def)

lemma live_list_other: "p \<notin> set ps \<Longrightarrow> live_list (h(p := x)) ps = live_list h ps"
  by (auto simp: live_list_def)

lemma map_at_other: "p \<notin> set ps \<Longrightarrow> map (at (h(p := x))) ps = map (at h) ps"
  by (auto simp: at_def)

lemma find_if_live: "live_list h ps \<Longrightarrow> find_if P h ps = kret (\<exists>e \<in> set (map (at h) ps). P e)"
  by (induction ps) auto

lemma remove_if_live:
  "live_list h ps \<Longrightarrow>
     remove_if P h ps = kret (filter (\<lambda>p. \<not> P (at h p)) ps, \<lambda>p. if p \<in> set ps \<and> P (at h p) then None else h p)"
proof (induction ps arbitrary: h)
  case (Cons p ps)
  let ?h = "h(p := None)"
  have ne: "\<forall>q \<in> set ps. at ?h q = at h q" using Cons.prems by (auto simp: at_def)
  have "live_list ?h ps" using Cons.prems by (auto simp: live_list_def)
  then have 1: "remove_if P ?h ps = kret (filter (\<lambda>p. \<not> P (at ?h p)) ps, \<lambda>p. if p \<in> set ps \<and> P (at ?h p) then None else ?h p)"
    by (rule Cons.IH)
  have 2: "filter (\<lambda>p. \<not> P (at ?h p)) ps = filter (\<lambda>p. \<not> P (at h p)) ps" using ne by (intro filter_cong) simp_all
  show ?case
  proof (cases "P (at h p)")
    case True
    have 3: "(\<lambda>q. if q \<in> set ps \<and> P (at ?h q) then None else ?h q) = (\<lambda>q. if q \<in> set (p # ps) \<and> P (at h q) then None else h q)"
      using ne True Cons.prems by (auto simp: fun_eq_iff)
    show ?thesis using Cons.prems True 1 unfolding 2 3 by simp
  next
    case False
    then have "(\<lambda>q. if q \<in> set ps \<and> P (at h q) then None else h q) = (\<lambda>q. if q \<in> set (p # ps) \<and> P (at h q) then None else h q)"
      by (auto simp: fun_eq_iff)
    then show ?thesis using Cons.prems False Cons.IH [of h] by (simp only: live_list_Cons) (simp add: fun_eq_iff)
  qed
qed simp

section \<open>What a run of the notify thread sends\<close>

definition msg :: "EventEntry \<Rightarrow> EventProcEntry \<Rightarrow> event_msg" where
  "msg e v = (e_ip e, e_portNum e, e_cltToken e, p_eventNum v, p_eventArg v, p_eventArg2 v)"

text \<open>A subscription is for one number of events or, with \<open>-1\<close>, for all.\<close>

definition subscribed_to :: "EventEntry \<Rightarrow> EventProcEntry \<Rightarrow> bool" where
  "subscribed_to e v \<longleftrightarrow> e_eventNum e \<in> {-1, p_eventNum v}"

lemma wants_iff [simp]: "wants e v = subscribed_to e v"
  by (simp add: wants_def subscribed_to_def)

text \<open>The messages of one event, the subscriptions that stay, and the number of the next connection.\<close>

fun deliver :: "(nat \<Rightarrow> bool) \<Rightarrow> EventProcEntry \<Rightarrow> EventEntry list \<Rightarrow> nat \<Rightarrow> event_msg list \<times> EventEntry list \<times> nat" where
  "deliver net v [] n = ([], [], n)"
| "deliver net v (e # es) n =
     (if subscribed_to e v then
        (case deliver net v es (n + 1) of (ms, ks, n') \<Rightarrow>
           if net n then (msg e v # ms, e # ks, n') else (ms, ks, n'))
      else case deliver net v es n of (ms, ks, n') \<Rightarrow> (ms, e # ks, n'))"

fun deliver_all ::
  "(nat \<Rightarrow> bool) \<Rightarrow> EventProcEntry list \<Rightarrow> EventEntry list \<Rightarrow> nat \<Rightarrow> event_msg list \<times> EventEntry list \<times> nat" where
  "deliver_all net [] es n = ([], es, n)"
| "deliver_all net (v # vs) es n =
     (case deliver net v es n of (ms, ks, n') \<Rightarrow>
        case deliver_all net vs ks n' of (ms', ks', n'') \<Rightarrow> (ms @ ms', ks', n''))"

text \<open>The entries with the flags that the loop sets.\<close>

fun marked :: "(nat \<Rightarrow> bool) \<Rightarrow> EventProcEntry \<Rightarrow> EventEntry list \<Rightarrow> nat \<Rightarrow> EventEntry list" where
  "marked net v [] n = []"
| "marked net v (e # es) n =
     (if subscribed_to e v then (if net n then e else e\<lparr>e_deleteFlag := True\<rparr>) # marked net v es (n + 1)
      else e # marked net v es n)"

lemma marked_kept:
  "list_all (\<lambda>e. \<not> e_deleteFlag e) es \<Longrightarrow> filter (\<lambda>e. \<not> e_deleteFlag e) (marked net v es n) = fst (snd (deliver net v es n))"
  by (induction es arbitrary: n) (auto split: prod.splits)

lemma length_marked [simp]: "length (marked net v es n) = length es"
  by (induction es arbitrary: n) auto

definition after_send :: "(nat \<Rightarrow> bool) \<Rightarrow> EventProcEntry \<Rightarrow> EventEntry list \<Rightarrow> ADEvntMgr \<Rightarrow> entry_heap \<Rightarrow> ADEvntMgr" where
  "after_send net v es m h = m\<lparr>event_log := event_log m @ fst (deliver net v es (connects m)),
     connects := snd (snd (deliver net v es (connects m))), entries := h\<rparr>"

lemma notify_loop_sends:
  assumes "live_list (entries m) (eventList m)" and "eventList m = qs @ ps"
  shows "\<exists>h. notify_loop net v (length ps) m = kret (after_send net v (map (at (entries m)) ps) m h) \<and>
    map (at h) ps = marked net v (map (at (entries m)) ps) (connects m) \<and> live_list h (eventList m) \<and>
    (\<forall>p. p \<notin> set ps \<longrightarrow> h p = entries m p)"
  using assms
proof (induction ps arbitrary: m qs)
  case Nil
  then show ?case by (intro exI [of _ "entries m"]) (simp add: after_send_def)
next
  case (Cons p ps)
  let ?e = "at (entries m) p" let ?n = "connects m"
  have idx: "length (eventList m) - Suc (length ps) = length qs" "eventList m ! length qs = p" "length qs < length (eventList m)"
    using Cons.prems by simp_all
  have p: "entries m p = Some ?e" "p \<notin> set ps" "p \<notin> set qs"
    using Cons.prems by (auto simp: live_list_def at_def)
  define m1 where "m1 = (if subscribed_to ?e v
      then (if net ?n then m\<lparr>connects := ?n + 1, event_log := event_log m @ [msg ?e v]\<rparr>
            else m\<lparr>connects := ?n + 1, entries := (entries m)(p \<mapsto> ?e\<lparr>e_deleteFlag := True\<rparr>)\<rparr>) else m)"
  have step: "notify_loop net v (length (p # ps)) m = notify_loop net v (length ps) m1"
    using idx p(1) by (simp add: notify_send_def send_event_def notify_mark_def m1_def msg_def)
  have list1: "eventList m1 = (qs @ [p]) @ ps" using Cons.prems(2) by (simp add: m1_def)
  have heap1: "\<forall>q. q \<noteq> p \<longrightarrow> entries m1 q = entries m q" "entries m1 p \<noteq> None" using p(1) by (simp_all add: m1_def)
  have live1: "live_list (entries m1) (eventList m1)"
    using Cons.prems heap1 unfolding list1 by (auto simp: live_list_def)
  have same1: "map (at (entries m1)) ps = map (at (entries m)) ps" using heap1(1) p(2) by (auto simp: at_def)
  note fields = list1 live1 same1 heap1(1)
  obtain h where h: "notify_loop net v (length ps) m1 = kret (after_send net v (map (at (entries m)) ps) m1 h)"
    "map (at h) ps = marked net v (map (at (entries m)) ps) (connects m1)" "live_list h (eventList m1)"
    "\<forall>q. q \<notin> set ps \<longrightarrow> h q = entries m1 q"
    using Cons.IH [OF fields(2,1)] unfolding fields(3) by blast
  have "at h p = at (entries m1) p" using h(4) p(2) by (simp add: at_def)
  also have "\<dots> = (if subscribed_to ?e v \<and> \<not> net ?n then ?e\<lparr>e_deleteFlag := True\<rparr> else ?e)" by (simp add: m1_def at_def)
  finally have hp: "at h p = (if subscribed_to ?e v \<and> \<not> net ?n then ?e\<lparr>e_deleteFlag := True\<rparr> else ?e)" .
  have "at h p # marked net v (map (at (entries m)) ps) (connects m1) = marked net v (map (at (entries m)) (p # ps)) ?n"
    unfolding hp by (simp add: m1_def)
  moreover have "after_send net v (map (at (entries m)) ps) m1 h = after_send net v (map (at (entries m)) (p # ps)) m h"
    by (simp add: after_send_def m1_def split: prod.split)
  moreover have "\<forall>q. q \<notin> set (p # ps) \<longrightarrow> h q = entries m q" using h(4) fields(4) by simp
  ultimately show ?case using h(1-3) step fields(1) Cons.prems(2) by (intro exI [of _ h]) simp
qed

text \<open>The invariant of the manager.\<close>

definition no_duplicates :: "EventEntry list \<Rightarrow> bool" where
  "no_duplicates es \<longleftrightarrow> distinct (map (\<lambda>e. (e_cltToken e, e_portNum e, e_eventNum e)) es)"

definition ev_inv :: "ADEvntMgr \<Rightarrow> bool" where
  "ev_inv m \<longleftrightarrow> live_list (entries m) (eventList m) \<and> list_all (\<lambda>e. \<not> e_deleteFlag e) (subs m) \<and>
     distinct (map e_srvToken (subs m)) \<and> no_duplicates (subs m) \<and>
     list_all (\<lambda>e. 0 < unat (e_srvToken e) \<and> unat (e_srvToken e) \<le> unat (AckToken m)) (subs m)"

text \<open>What the operations need in order not to fault, whatever the tokens are.\<close>

definition ev_safe :: "ADEvntMgr \<Rightarrow> bool" where
  "ev_safe m \<longleftrightarrow> live_list (entries m) (eventList m) \<and> list_all (\<lambda>e. \<not> e_deleteFlag e) (subs m)"

lemma ev_inv_safe: "ev_inv m \<Longrightarrow> ev_safe m"
  by (simp add: ev_inv_def ev_safe_def)

lemma ev_inv_live: "ev_inv m \<Longrightarrow> live_list (entries m) (eventList m)"
  by (simp add: ev_inv_def)

lemma map_at_cong: "(\<And>p. p \<in> set ps \<Longrightarrow> h p = h' p) \<Longrightarrow> map (at h) ps = map (at h') ps"
  by (simp add: at_def)

lemma filter_map_at: "map (at h) (filter (\<lambda>p. P (at h p)) ps) = filter P (map (at h) ps)"
  by (simp add: filter_map comp_def)

text \<open>Dropping some of the subscriptions keeps the invariant.\<close>

lemma deliver_sublist: "set (fst (snd (deliver net v es n))) \<subseteq> set es"
  by (induction es arbitrary: n) (auto simp: case_prod_beta)

lemma deliver_distinct: "distinct (map f es) \<Longrightarrow> distinct (map f (fst (snd (deliver net v es n))))"
proof (induction es arbitrary: n)
  case (Cons e es)
  have "f e \<notin> f ` set (fst (snd (deliver net v es k)))" for k
    using Cons.prems deliver_sublist [of net v es k] by auto
  then show ?case using Cons by (auto simp: case_prod_beta)
qed simp

text \<open>The manager after a run of the notify thread.\<close>

definition after_notify ::
  "ptr list \<Rightarrow> entry_heap \<Rightarrow> event_msg list \<times> EventEntry list \<times> nat \<Rightarrow> EventProcEntry list \<Rightarrow> ADEvntMgr \<Rightarrow> ADEvntMgr" where
  "after_notify ps h r vs m = m\<lparr>event_log := event_log m @ fst r, connects := snd (snd r), eventList := ps, entries := h, notifyEvent := vs\<rparr>"

lemma ev_safe_kept:
  assumes "ev_safe m" and "live_list h ps" and "map (at h) ps = fst (snd (deliver net v (subs m) n))"
    and "eventList m' = ps" and "entries m' = h"
  shows "ev_safe m'"
proof -
  have "subs m' = fst (snd (deliver net v (subs m) n))" using assms by (simp add: subs_def)
  then show ?thesis
    using assms deliver_sublist [of net v "subs m" n] unfolding ev_safe_def by (auto simp: list_all_iff subset_iff)
qed

lemma deliver_all_sublist: "set (fst (snd (deliver_all net vs es n))) \<subseteq> set es"
proof (induction vs arbitrary: es n)
  case (Cons v vs)
  let ?d = "deliver net v es n"
  have "set (fst (snd (deliver_all net vs (fst (snd ?d)) (snd (snd ?d))))) \<subseteq> set (fst (snd ?d))" by (rule Cons.IH)
  also have "\<dots> \<subseteq> set es" by (rule deliver_sublist)
  finally show ?case by (simp add: case_prod_beta)
qed simp

lemma deliver_all_distinct: "distinct (map f es) \<Longrightarrow> distinct (map f (fst (snd (deliver_all net vs es n))))"
proof (induction vs arbitrary: es n)
  case (Cons v vs)
  show ?case using Cons.IH [OF deliver_distinct [OF Cons.prems]] by (simp add: case_prod_beta)
qed simp

lemma ev_inv_deliver_all:
  assumes "ev_inv m" and "live_list (entries m') (eventList m')" and "subs m' = fst (snd (deliver_all net vs (subs m) n))"
    and "AckToken m' = AckToken m"
  shows "ev_inv m'"
  using assms deliver_all_sublist [of net vs "subs m" n] deliver_all_distinct [of e_srvToken "subs m" net vs n]
    deliver_all_distinct [of "\<lambda>e. (e_cltToken e, e_portNum e, e_eventNum e)" "subs m" net vs n]
  unfolding ev_inv_def no_duplicates_def by (auto simp: list_all_iff subset_iff)

lemma marked_unflagged:
  "i < length es \<Longrightarrow> \<not> e_deleteFlag (marked net v es n ! i) \<Longrightarrow> marked net v es n ! i = es ! i"
  by (induction es arbitrary: n i) (auto simp: nth_Cons split: nat.splits if_splits)

lemma notify_one_delivers:
  assumes inv: "ev_safe m"
  shows "\<exists>ps h. notify_one net v m = kret (after_notify ps h (deliver net v (subs m) (connects m)) (tl (notifyEvent m)) m) \<and>
    live_list h ps \<and> map (at h) ps = fst (snd (deliver net v (subs m) (connects m))) \<and> set ps \<subseteq> set (eventList m) \<and>
    (\<forall>p. h p = (if p \<in> set (eventList m) \<and> p \<notin> set ps then None else entries m p))"
proof -
  let ?es = "subs m" let ?L = "eventList m"
  have live: "live_list (entries m) ?L" and flags: "list_all (\<lambda>e. \<not> e_deleteFlag e) ?es" using inv by (auto simp: ev_safe_def)
  obtain h where h: "notify_loop net v (length ?L) m = kret (after_send net v ?es m h)"
    "map (at h) ?L = marked net v ?es (connects m)" "live_list h ?L" "\<forall>p. p \<notin> set ?L \<longrightarrow> h p = entries m p"
    using notify_loop_sends [OF live, of "[]" ?L net v] unfolding subs_def by auto
  define ps where "ps = filter (\<lambda>p. \<not> e_deleteFlag (at h p)) ?L"
  define h' where "h' = (\<lambda>p. if p \<in> set ?L \<and> e_deleteFlag (at h p) then None else h p)"
  have keep: "at h p = at (entries m) p" if p: "p \<in> set ps" for p
  proof -
    have "p \<in> set ?L" using p by (simp add: ps_def)
    then obtain i where i: "i < length ?L" "?L ! i = p" by (metis in_set_conv_nth)
    have "at h p = marked net v ?es (connects m) ! i" using arg_cong [OF h(2), of "\<lambda>xs. xs ! i"] i by simp
    moreover have "\<not> e_deleteFlag (at h p)" using p by (simp add: ps_def)
    ultimately have "at h p = ?es ! i" using marked_unflagged [of i ?es net v "connects m"] i by (simp add: subs_def)
    then show ?thesis using i by (simp add: subs_def)
  qed
  have "notify_one net v m = kret (after_notify ps h' (deliver net v ?es (connects m)) (tl (notifyEvent m)) m)"
    using h(1) remove_if_live [OF h(3), of e_deleteFlag]
    by (simp add: notify_one_def remove_non_listeners_def after_send_def after_notify_def ps_def h'_def)
  moreover have "live_list h' ps" using h(3) by (auto simp: live_list_def ps_def h'_def)
  moreover have "map (at h') ps = fst (snd (deliver net v ?es (connects m)))"
  proof -
    have "map (at h') ps = map (at h) ps" by (auto simp: at_def h'_def ps_def)
    also have "\<dots> = filter (\<lambda>e. \<not> e_deleteFlag e) (map (at h) ?L)" unfolding ps_def by (rule filter_map_at)
    also have "\<dots> = fst (snd (deliver net v ?es (connects m)))" unfolding h(2) by (rule marked_kept [OF flags])
    finally show ?thesis .
  qed
  moreover have "h' p = (if p \<in> set ?L \<and> p \<notin> set ps then None else entries m p)" for p
  proof (cases "p \<in> set ps")
    case True
    then have "h p = Some (at h p)" "entries m p = Some (at (entries m) p)"
      using h(3) live by (auto simp: live_list_def at_def ps_def)
    then show ?thesis using True keep [OF True] by (simp add: h'_def ps_def)
  qed (use h(4) in \<open>auto simp: h'_def ps_def\<close>)
  ultimately show ?thesis by (intro exI [of _ ps] exI [of _ h']) (auto simp: ps_def)
qed

lemma notify_all_delivers:
  assumes "ev_safe m" and "notifyEvent m = vs"
  shows "\<exists>ps h. notify_all net vs m = kret (after_notify ps h (deliver_all net vs (subs m) (connects m)) [] m) \<and>
    ev_safe (after_notify ps h (deliver_all net vs (subs m) (connects m)) [] m) \<and>
    map (at h) ps = fst (snd (deliver_all net vs (subs m) (connects m))) \<and> set ps \<subseteq> set (eventList m) \<and>
    (\<forall>p. h p = (if p \<in> set (eventList m) \<and> p \<notin> set ps then None else entries m p))"
  using assms
proof (induction vs arbitrary: m)
  case Nil
  then have "after_notify (eventList m) (entries m) (deliver_all net [] (subs m) (connects m)) [] m = m"
    by (simp add: after_notify_def)
  with Nil show ?case by (intro exI [of _ "eventList m"] exI [of _ "entries m"]) (auto simp: subs_def)
next
  case (Cons v vs)
  let ?d = "deliver net v (subs m) (connects m)"
  obtain ps h where 1: "notify_one net v m = kret (after_notify ps h ?d vs m)" "live_list h ps" "map (at h) ps = fst (snd ?d)"
    "set ps \<subseteq> set (eventList m)" "\<forall>p. h p = (if p \<in> set (eventList m) \<and> p \<notin> set ps then None else entries m p)"
    using notify_one_delivers [OF Cons.prems(1), of net v] Cons.prems(2) by auto
  define m1 where "m1 = after_notify ps h ?d vs m"
  have m1: "eventList m1 = ps" "entries m1 = h" "AckToken m1 = AckToken m" "notifyEvent m1 = vs" "subs m1 = fst (snd ?d)"
    "connects m1 = snd (snd ?d)"
    using 1(3) by (simp_all add: m1_def after_notify_def subs_def)
  have inv: "ev_safe m1" by (rule ev_safe_kept [OF Cons.prems(1) 1(2,3)]) (simp_all add: m1)
  let ?r = "deliver_all net vs (subs m1) (connects m1)"
  obtain qs g where 2: "notify_all net vs m1 = kret (after_notify qs g ?r [] m1)" "ev_safe (after_notify qs g ?r [] m1)"
    "map (at g) qs = fst (snd ?r)" "set qs \<subseteq> set ps" "\<forall>p. g p = (if p \<in> set ps \<and> p \<notin> set qs then None else h p)"
    using Cons.IH [OF inv m1(4)] unfolding m1(1,2) by blast
  have A: "after_notify qs g ?r [] m1 = after_notify qs g (deliver_all net (v # vs) (subs m) (connects m)) [] m"
    unfolding m1(5,6) by (simp add: m1_def after_notify_def case_prod_beta)
  have B: "fst (snd ?r) = fst (snd (deliver_all net (v # vs) (subs m) (connects m)))"
    unfolding m1(5,6) by (simp add: case_prod_beta)
  have G: "\<forall>p. g p = (if p \<in> set (eventList m) \<and> p \<notin> set qs then None else entries m p)"
    using 2(4,5) 1(4,5) by auto
  have N: "notify_all net (v # vs) m = kret (after_notify qs g (deliver_all net (v # vs) (subs m) (connects m)) [] m)"
    unfolding A [symmetric] 2(1) [symmetric] using 1(1) by (simp add: m1_def)
  show ?case
    by (intro exI [of _ qs] exI [of _ g] conjI) (fact N, fact 2(2) [unfolded A], fact 2(3) [unfolded B], fact order_trans [OF 2(4) 1(4)], fact G)
qed

lemma deliver_reached:
  "\<forall>n. net n \<Longrightarrow> fst (deliver net v es n) = map (\<lambda>e. msg e v) (filter (\<lambda>e. subscribed_to e v) es) \<and> fst (snd (deliver net v es n)) = es"
  by (induction es arbitrary: n) (auto simp: case_prod_beta)

lemma deliver_all_reached:
  "\<forall>n. net n \<Longrightarrow> fst (deliver_all net vs es n) = concat (map (\<lambda>v. map (\<lambda>e. msg e v) (filter (\<lambda>e. subscribed_to e v) es)) vs) \<and>
     fst (snd (deliver_all net vs es n)) = es"
  by (induction vs arbitrary: n) (auto simp: case_prod_beta deliver_reached)

section \<open>Sequences of operations\<close>

text \<open>
  The manager after any sequence of its operations, each run to its end; \<open>k\<close> counts the subscriptions that
  were accepted.
\<close>

inductive ev_reach :: "nat \<Rightarrow> ADEvntMgr \<Rightarrow> bool" where
  init: "ev_reach 0 ev_new"
| attach: "ev_reach k m \<Longrightarrow> ev_reach k (AttachReceiver r m)"
| accepted: "\<lbrakk>ev_reach k m; entries m p = None; subscribe_entry p e t m = kret (0, t', m')\<rbrakk> \<Longrightarrow> ev_reach (k + 1) m'"
| refused: "\<lbrakk>ev_reach k m; entries m p = None; subscribe_entry p e t m = kret (res, t', m'); res \<noteq> 0\<rbrakk> \<Longrightarrow> ev_reach k m'"
| unsubscribe: "\<lbrakk>ev_reach k m; unregister_event_subscription tok m = kret (res, m')\<rbrakk> \<Longrightarrow> ev_reach k m'"
| notify: "ev_reach k m \<Longrightarrow> ev_reach k (snd (notify_event num a b m))"
| notify_run: "\<lbrakk>ev_reach k m; notify_thread net m = kret m'\<rbrakk> \<Longrightarrow> ev_reach k m'"
| process: "ev_reach k m \<Longrightarrow> ev_reach k (snd (process_event num a tok b m))"
| process_run: "ev_reach k m \<Longrightarrow> ev_reach k (process_thread m)"

lemma subs_upd [simp]:
  "subs (m\<lparr>notifyEvent := vs\<rparr>) = subs m" "subs (m\<lparr>notify_sema := n\<rparr>) = subs m" "subs (m\<lparr>processEvent := vs\<rparr>) = subs m"
  "subs (m\<lparr>process_sema := n\<rparr>) = subs m" "subs (m\<lparr>received := rs\<rparr>) = subs m" "subs (m\<lparr>receivers := qs\<rparr>) = subs m"
  by (simp_all add: subs_def)

lemma ev_inv_upd [simp]:
  "ev_inv (m\<lparr>notifyEvent := vs\<rparr>) = ev_inv m" "ev_inv (m\<lparr>notify_sema := n\<rparr>) = ev_inv m" "ev_inv (m\<lparr>processEvent := vs\<rparr>) = ev_inv m"
  "ev_inv (m\<lparr>process_sema := n\<rparr>) = ev_inv m" "ev_inv (m\<lparr>received := rs\<rparr>) = ev_inv m" "ev_inv (m\<lparr>receivers := qs\<rparr>) = ev_inv m"
  by (simp_all add: ev_inv_def)

lemma process_all_keeps: "ev_inv (process_all vs m) = ev_inv m \<and> AckToken (process_all vs m) = AckToken m"
  by (induction vs arbitrary: m) (simp_all add: notify_subscribers_def)

lemma FindDuplicate_key:
  "FindDuplicateEntry e d \<longleftrightarrow> (e_cltToken e, e_portNum e, e_eventNum e) = (e_cltToken d, e_portNum d, e_eventNum d)"
  by (auto simp: FindDuplicateEntry_def)

text \<open>A new subscription is refused exactly when there is one with the same client, port and event number.\<close>

definition has_duplicate :: "EventEntry \<Rightarrow> EventEntry list \<Rightarrow> bool" where
  "has_duplicate e es \<longleftrightarrow> (\<exists>d \<in> set es. FindDuplicateEntry e d)"

lemma subscribe_cases:
  assumes live: "live_list (entries m) (eventList m)" and fresh: "entries m p = None"
  defines "t \<equiv> AckToken m + 1"
  shows "subscribe_entry p e tok m =
    (if has_duplicate e (subs m) then kret (-1, tok, m)
     else kret (0, t, m\<lparr>AckToken := t, entries := (entries m)(p \<mapsto> e\<lparr>e_deleteFlag := False, e_srvToken := t\<rparr>), eventList := eventList m @ [p]\<rparr>))"
proof -
  let ?e = "e\<lparr>e_deleteFlag := False\<rparr>" let ?h = "(entries m)(p \<mapsto> ?e)"
  have p: "p \<notin> set (eventList m)" using live fresh by (auto simp: live_list_def)
  then have "find_if (FindDuplicateEntry ?e) ?h (eventList m) = kret (\<exists>d \<in> set (map (at ?h) (eventList m)). FindDuplicateEntry ?e d)"
    using live by (intro find_if_live) (simp add: live_list_other)
  also have "map (at ?h) (eventList m) = subs m" unfolding subs_def by (rule map_at_other [OF p])
  also have "(\<exists>d \<in> set (subs m). FindDuplicateEntry ?e d) = has_duplicate e (subs m)"
    by (simp add: has_duplicate_def FindDuplicateEntry_def)
  finally have f: "find_if (FindDuplicateEntry ?e) ?h (eventList m) = kret (has_duplicate e (subs m))" .
  have "(entries m)(p := None) = entries m" using fresh by auto
  then show ?thesis using f by (simp add: subscribe_entry_def register_event_subscription_def t_def Let_def)
qed

lemma subscribe_keeps:
  assumes inv: "ev_inv m" and fresh: "entries m p = None" and tok: "unat (AckToken m) < 2 ^ 32 - 1"
    and ok: "subscribe_entry p e tk m = kret (0, t', m')"
  shows "ev_inv m'" "AckToken m' = AckToken m + 1" "t' = AckToken m + 1"
    "subs m' = subs m @ [e\<lparr>e_deleteFlag := False, e_srvToken := t'\<rparr>]"
proof -
  let ?t = "AckToken m + 1" let ?e = "e\<lparr>e_deleteFlag := False, e_srvToken := ?t\<rparr>"
  have no: "\<not> has_duplicate e (subs m)" and t': "t' = ?t"
    and m': "m' = m\<lparr>AckToken := ?t, entries := (entries m)(p \<mapsto> ?e), eventList := eventList m @ [p]\<rparr>"
    using ok subscribe_cases [OF ev_inv_live [OF inv] fresh, of e tk] by (auto split: if_splits)
  have p: "p \<notin> set (eventList m)" using inv fresh by (auto simp: ev_inv_def live_list_def)
  have u: "unat ?t = unat (AckToken m) + 1" using tok by (simp add: unat_word_ariths)
  have sub: "subs m' = subs m @ [?e]" using p by (simp add: m' subs_def at_def)
  have "live_list (entries m') (eventList m')" using inv p by (auto simp: ev_inv_def live_list_def m')
  moreover have "?t \<notin> e_srvToken ` set (subs m)"
  proof
    assume "?t \<in> e_srvToken ` set (subs m)"
    then obtain d where d: "d \<in> set (subs m)" "e_srvToken d = ?t" by auto
    then have "unat ?t \<le> unat (AckToken m)" using inv by (auto simp: ev_inv_def list_all_iff)
    then show False using u by simp
  qed
  moreover have "list_all (\<lambda>d. 0 < unat (e_srvToken d) \<and> unat (e_srvToken d) \<le> unat ?t) (subs m)"
    using inv u by (auto simp: ev_inv_def list_all_iff)
  moreover have "AckToken m' = ?t" by (simp add: m')
  ultimately show "ev_inv m'"
    using inv no u unfolding ev_inv_def sub by (auto simp: no_duplicates_def has_duplicate_def FindDuplicate_key)
  show "AckToken m' = ?t" "t' = ?t" "subs m' = subs m @ [e\<lparr>e_deleteFlag := False, e_srvToken := t'\<rparr>]"
    using sub t' by (simp_all add: m')
qed

lemma ev_inv_filter:
  assumes "ev_inv m" and "subs m' = filter P (subs m)" and "live_list (entries m') (eventList m')" and "AckToken m' = AckToken m"
  shows "ev_inv m'"
  using assms by (auto simp: ev_inv_def no_duplicates_def distinct_map_filter list_all_iff)

lemma unsubscribe_cases:
  assumes inv: "ev_inv m"
  shows "\<exists>m'. unregister_event_subscription tok m = kret (if \<exists>e \<in> set (subs m). e_srvToken e = tok then 0 else -1, m') \<and>
    ev_inv m' \<and> subs m' = filter (\<lambda>e. e_srvToken e \<noteq> tok) (subs m) \<and> AckToken m' = AckToken m \<and> notifyEvent m' = notifyEvent m"
proof -
  let ?P = "FindEventEntry tok" let ?L = "eventList m"
  let ?ps = "filter (\<lambda>p. \<not> ?P (at (entries m) p)) ?L"
  let ?h = "\<lambda>p. if p \<in> set ?L \<and> ?P (at (entries m) p) then None else entries m p"
  define m1 where "m1 = m\<lparr>eventList := ?ps, entries := ?h\<rparr>"
  have live: "live_list (entries m) ?L" using inv by (simp add: ev_inv_def)
  have f: "find_if ?P (entries m) ?L = kret (\<exists>e \<in> set (subs m). e_srvToken e = tok)"
    using find_if_live [OF live, of ?P] by (auto simp: subs_def FindEventEntry_def)
  have "map (at ?h) ?ps = map (at (entries m)) ?ps" by (auto simp: at_def)
  also have "\<dots> = filter (\<lambda>e. \<not> ?P e) (subs m)" unfolding subs_def by (rule filter_map_at)
  finally have subs1: "subs m1 = filter (\<lambda>e. e_srvToken e \<noteq> tok) (subs m)"
    by (auto simp: m1_def subs_def FindEventEntry_def intro!: filter_cong)
  have inv1: "ev_inv m1"
    by (rule ev_inv_filter [OF inv subs1]) (use live in \<open>auto simp: m1_def live_list_def\<close>)
  have r: "unregister_event_subscription tok m = (if \<exists>e \<in> set (subs m). e_srvToken e = tok then kret (0, m1) else kret (-1, m))"
    by (simp add: unregister_event_subscription_def f remove_if_live [OF live] m1_def)
  show ?thesis
  proof (cases "\<exists>e \<in> set (subs m). e_srvToken e = tok")
    case True
    then show ?thesis using r inv1 subs1 by (intro exI [of _ m1]) (simp add: m1_def)
  next
    case False
    then have "filter (\<lambda>e. e_srvToken e \<noteq> tok) (subs m) = subs m" by (simp add: filter_id_conv)
    then show ?thesis using r inv False by (intro exI [of _ m]) simp
  qed
qed

lemma notify_thread_delivers:
  assumes "ev_inv m"
  shows "\<exists>m'. notify_thread net m = kret m' \<and> ev_inv m' \<and> notifyEvent m' = [] \<and> AckToken m' = AckToken m \<and>
    event_log m' = event_log m @ fst (deliver_all net (notifyEvent m) (subs m) (connects m)) \<and>
    subs m' = fst (snd (deliver_all net (notifyEvent m) (subs m) (connects m)))"
proof -
  let ?r = "deliver_all net (notifyEvent m) (subs m) (connects m)"
  obtain ps h where h: "notify_all net (notifyEvent m) m = kret (after_notify ps h ?r [] m)" "ev_safe (after_notify ps h ?r [] m)"
    "map (at h) ps = fst (snd ?r)"
    using notify_all_delivers [OF ev_inv_safe [OF assms] refl, of net] by blast
  have "subs (after_notify ps h ?r [] m) = fst (snd ?r)" using h(3) by (simp add: after_notify_def subs_def)
  moreover from this have "ev_inv (after_notify ps h ?r [] m)"
    using h(2) by (intro ev_inv_deliver_all [OF assms]) (simp_all add: ev_safe_def after_notify_def)
  ultimately show ?thesis
    using h(1) by (intro exI [of _ "after_notify ps h ?r [] m"]) (simp add: notify_thread_def after_notify_def)
qed

lemma ev_reach_inv: "ev_reach k m \<Longrightarrow> k < 2 ^ 31 \<Longrightarrow> ev_inv m \<and> unat (AckToken m) \<le> k"
proof (induction rule: ev_reach.induct)
  case init
  then show ?case by (simp add: ev_inv_def ev_new_def subs_def no_duplicates_def)
next
  case (accepted k m p e t t' m')
  then have "ev_inv m" "unat (AckToken m) < 2 ^ 32 - 1" "unat (AckToken m) \<le> k" by simp_all
  moreover from this have "unat (AckToken m + 1) = unat (AckToken m) + 1" by (simp add: unat_word_ariths)
  ultimately show ?case using subscribe_keeps [OF _ accepted.hyps(2) _ accepted.hyps(3)] by simp
next
  case (refused k m p e t res t' m')
  then show ?case using subscribe_cases [of m p e t] by (auto simp: ev_inv_def split: if_splits)
next
  case (unsubscribe k m tok res m')
  then show ?case using unsubscribe_cases [of m tok] by auto
next
  case (notify_run k m net m')
  then show ?case using notify_thread_delivers [of m net] by auto
qed (simp_all add: AttachReceiver_def notify_event_def process_event_def process_thread_def process_all_keeps)

text \<open>Two subscribers, one of all events and one of event 7, and a queued event 7.\<close>

definition ex_sub :: "s32 \<Rightarrow> s32 \<Rightarrow> s32 \<Rightarrow> EventEntry" where
  "ex_sub clt num tok = \<lparr>e_cltToken = clt, e_portNum = 40001, e_eventNum = num, e_srvToken = tok, e_sock_descr = 0, e_sock_id = 0,
     e_ip = ''127.0.0.1'', e_deleteFlag = False\<rparr>"

definition ex_mgr :: ADEvntMgr where
  "ex_mgr = ev_new\<lparr>AckToken := 2, eventList := [5, 6], entries := [5 \<mapsto> ex_sub 1 (-1) 1, 6 \<mapsto> ex_sub 2 7 2],
     notifyEvent := [\<lparr>p_eventNum = 7, p_eventArg = 3, p_cltToken = 0, p_eventArg2 = 4\<rparr>], notify_sema := 1\<rparr>"

lemma ex_mgr_reach: "ev_reach 2 ex_mgr"
proof -
  have 1: "subscribe_entry 5 (ex_sub 1 (-1) 0) 0 ev_new =
      kret (0, 1, ev_new\<lparr>AckToken := 1, eventList := [5], entries := [5 \<mapsto> ex_sub 1 (-1) 1]\<rparr>)" (is "_ = kret (0, 1, ?m1)")
    by (simp add: subscribe_entry_def register_event_subscription_def ev_new_def ex_sub_def Let_def)
  have r1: "ev_reach (0 + 1) ?m1" by (rule ev_reach.accepted [OF ev_reach.init _ 1]) (simp add: ev_new_def)
  have 2: "subscribe_entry 6 (ex_sub 2 7 0) 0 ?m1 =
      kret (0, 2, ?m1\<lparr>AckToken := 2, eventList := [5, 6], entries := [5 \<mapsto> ex_sub 1 (-1) 1, 6 \<mapsto> ex_sub 2 7 2]\<rparr>)" (is "_ = kret (0, 2, ?m2)")
    by (simp add: subscribe_entry_def register_event_subscription_def ev_new_def ex_sub_def Let_def FindDuplicateEntry_def)
  have "ev_reach (0 + 1 + 1) ?m2" by (rule ev_reach.accepted [OF r1 _ 2]) simp
  then have "ev_reach 2 (snd (notify_event 7 3 4 ?m2))" by (intro ev_reach.notify) (simp add: numeral_2_eq_2)
  then show ?thesis by (simp add: notify_event_def ex_mgr_def ev_new_def)
qed

section \<open>Properties of the event manager\<close>

text \<open>
  Property C12: a run of the notify thread sends every queued event, in the order of the queue, to each
  subscription of its number or of all numbers, in the order of the subscriptions, drops exactly the
  subscriptions whose connection fails and leaves the queue empty; when all connections can be made, nothing is
  dropped.
\<close>

theorem notify_delivers:
  assumes "ev_reach k m" and "k < 2 ^ 31"
  shows "\<exists>m'. notify_thread net m = kret m' \<and> notifyEvent m' = [] \<and>
    event_log m' = event_log m @ fst (deliver_all net (notifyEvent m) (subs m) (connects m)) \<and>
    subs m' = fst (snd (deliver_all net (notifyEvent m) (subs m) (connects m))) \<and>
    ((\<forall>n. net n) \<longrightarrow> subs m' = subs m \<and>
       event_log m' = event_log m @ concat (map (\<lambda>v. map (\<lambda>e. msg e v) (filter (\<lambda>e. subscribed_to e v) (subs m))) (notifyEvent m)))"
  using notify_thread_delivers [OF conjunct1 [OF ev_reach_inv [OF assms]], of net]
  by (auto simp: deliver_all_reached)

theorem notify_delivers_witness:
  "\<exists>m'. notify_thread (\<lambda>n. n \<noteq> 0) ex_mgr = kret m' \<and> event_log m' = [(''127.0.0.1'', 40001, 2, 7, 3, 4)] \<and> subs m' = [ex_sub 2 7 2]"
  using notify_delivers [OF ex_mgr_reach, of "\<lambda>n. n \<noteq> 0"]
  by (auto simp: ex_mgr_def ev_new_def subs_def at_def ex_sub_def subscribed_to_def msg_def)



lemma filter_nth_distinct:
  "distinct (map f xs) \<Longrightarrow> i < length xs \<Longrightarrow> filter (\<lambda>x. f x \<noteq> f (xs ! i)) xs = take i xs @ drop (Suc i) xs"
proof (induction xs arbitrary: i)
  case (Cons x xs)
  show ?case
  proof (cases i)
    case 0
    have "\<forall>y \<in> set xs. f y \<noteq> f x" using Cons.prems by (metis distinct.simps(2) imageI list.map(2) list.set_map)
    then show ?thesis using 0 by (simp add: filter_id_conv)
  next
    case (Suc j)
    then have "f x \<noteq> f (xs ! j)" using Cons.prems by (auto simp: image_iff)
    then show ?thesis using Cons Suc by simp
  qed
qed simp

lemma length_subs [simp]: "length (subs m) = length (eventList m)"
  by (simp add: subs_def)

lemma notify_mark_live:
  assumes "ev_inv m"
  shows "if i < length (eventList m) then \<exists>m'. notify_mark i m = kret m' \<and> subs m' = (subs m)[i := (subs m ! i)\<lparr>e_deleteFlag := True\<rparr>]
    else notify_mark i m = kfail BufferOverrun"
proof (cases "i < length (eventList m)")
  case True
  let ?p = "eventList m ! i"
  have live: "live_list (entries m) (eventList m)" using assms by (simp add: ev_inv_def)
  then have e: "entries m ?p = Some (at (entries m) ?p)" using True by (auto simp: live_list_def at_def)
  have "distinct (eventList m)" using live by (simp add: live_list_def)
  then have "map (at ((entries m)(?p \<mapsto> x))) (eventList m) = (map (at (entries m)) (eventList m))[i := x]" for x
    using True by (intro nth_equalityI) (auto simp: at_def nth_list_update nth_eq_iff_index_eq)
  then show ?thesis using True e by (simp add: notify_mark_def subs_def)
qed (simp add: notify_mark_def)

text \<open>
  Fact: when a subscription is removed after the notify thread has failed to reach it and before the thread
  marks it, the thread writes past the end of the list if it was the last one, and otherwise marks the next
  subscription for deletion, although nothing failed there.
\<close>

theorem unsubscribe_race:
  assumes "ev_reach k m" and "k < 2 ^ 31" and "notify_send net v i m = kret (True, m1)"
    and "unregister_event_subscription (e_srvToken (subs m ! i)) m1 = kret (res, m2)"
  shows "res = 0 \<and>
    (if Suc i = length (subs m) then notify_mark i m2 = kfail BufferOverrun
     else \<exists>m3. notify_mark i m2 = kret m3 \<and> subs m3 ! i = (subs m ! Suc i)\<lparr>e_deleteFlag := True\<rparr>)"
proof -
  have inv: "ev_inv m" using ev_reach_inv [OF assms(1,2)] by simp
  have i: "i < length (eventList m)" and same: "eventList m1 = eventList m" "entries m1 = entries m" "AckToken m1 = AckToken m"
    using assms(3) by (auto simp: notify_send_def send_event_def Let_def split: if_splits option.splits)
  then have inv1: "ev_inv m1" and s1: "subs m1 = subs m" using inv by (auto simp: ev_inv_def subs_def)
  have "subs m ! i \<in> set (subs m)" using i by simp
  then have r: "res = 0" "ev_inv m2" and "subs m2 = filter (\<lambda>e. e_srvToken e \<noteq> e_srvToken (subs m ! i)) (subs m)"
    using unsubscribe_cases [OF inv1, of "e_srvToken (subs m ! i)"] assms(4) s1 by (auto split: if_splits)
  then have s2: "subs m2 = take i (subs m) @ drop (Suc i) (subs m)"
    using filter_nth_distinct [of e_srvToken "subs m" i] inv i by (simp add: ev_inv_def)
  have len: "length (eventList m2) = length (eventList m) - 1" using arg_cong [OF s2, of length] i by simp
  show ?thesis
  proof (cases "Suc i = length (subs m)")
    case True
    then show ?thesis using notify_mark_live [OF r(2), of i] r(1) len by simp
  next
    case False
    then have "i < length (eventList m2)" using i len by simp
    then obtain m3 where "notify_mark i m2 = kret m3" "subs m3 = (subs m2)[i := (subs m2 ! i)\<lparr>e_deleteFlag := True\<rparr>]"
      using notify_mark_live [OF r(2), of i] by auto
    moreover have "subs m2 ! i = subs m ! Suc i" using s2 i False by (simp add: nth_append)
    ultimately show ?thesis using False r(1) \<open>i < length (eventList m2)\<close> by simp
  qed
qed

theorem unsubscribe_race_witness:
  "\<exists>m1 m2. notify_send (\<lambda>n. False) (hd (notifyEvent ex_mgr)) 1 ex_mgr = kret (True, m1) \<and>
     unregister_event_subscription (e_srvToken (subs ex_mgr ! 1)) m1 = kret (0, m2) \<and> notify_mark 1 m2 = kfail BufferOverrun"
proof -
  let ?m1 = "ex_mgr\<lparr>connects := 1\<rparr>"
  have 1: "notify_send (\<lambda>n. False) (hd (notifyEvent ex_mgr)) 1 ex_mgr = kret (True, ?m1)"
    by (simp add: notify_send_def send_event_def ex_mgr_def ev_new_def ex_sub_def subscribed_to_def)
  obtain res m2 where 2: "unregister_event_subscription (e_srvToken (subs ex_mgr ! 1)) ?m1 = kret (res, m2)"
    by (simp add: unregister_event_subscription_def ex_mgr_def subs_def at_def ex_sub_def FindEventEntry_def)
  have "length (subs ex_mgr) = 2" by (simp add: ex_mgr_def)
  then show ?thesis using unsubscribe_race [OF ex_mgr_reach _ 1 2] 1 2 by auto
qed

end
