(* ===== verification/Rpc_Mgr.thy ===== *)
theory Rpc_Mgr
  imports Json_Rpc Task_Worker Event_Mgr
begin

text \<open>
  The RPC manager of the services, \<open>src/sources/lib/lib-adav-old/src/ADJsonRpcMgr.cpp\<close> with the macros of
  \<open>ADCommon.hpp\<close> and the string functions of \<open>ADCmnStringProcessor.cpp\<close>: it answers the calls that all
  services share, hands the other calls to the objects that a service attaches, and runs long tasks on the
  task worker. A request object and its packet are owned by one call, so they are kept as optional values
  of the call's data: nothing once they are deleted. \<open>blocks\<close> counts the objects that the manager has
  allocated with \<open>new\<close>, which does not return null, and not deleted. The functions that an attached object
  overrides are the parameter \<open>handler\<close>; the contents of fresh memory are \<open>junk\<close> values of the environment.
\<close>

section \<open>Commands and packets\<close>

datatype EJSON_RPCGMGR_CMD =
  EJSON_RPCGMGR_GET_TASK_STS | EJSON_RPCGMGR_GET_RPC_SRV_VERSION | EJSON_RPCGMGR_TRIGGER_DATASAVE |
  EJSON_RPCGMGR_GET_SETTINGS_STS | EJSON_RPCGMGR_SHUTDOWN_SERVICE | EJSON_RPCGMGR_RESET_TASK_STS |
  EJSON_RPCGMGR_GET_READY_STS | EJSON_RPCGMGR_GET_DEBUG_LOG | EJSON_RPCGMGR_SET_DEBUG_LOG |
  EJSON_RPCGMGR_TRIGGER_FACTORY_STORE | EJSON_RPCGMGR_TRIGGER_FACTORY_RESTORE | EJSON_RPCGMGR_EVENT_SUBSCRIBE |
  EJSON_RPCGMGR_EVENT_UNSUBSCRIBE | EJSON_RPCGMGR_EVENT_NOTIFY | EJSON_RPCGMGR_EVENT_PROCESS |
  EJSON_RPCGMGR_TRIGGER_RUN | EJSON_RPCMGR_GET_DEVOP_STATE | EJSON_RPCMGR_SET_DEVOP_STATE |
  EJSON_RPCMGR_GET_MW_BYTE | EJSON_RPCMGR_SET_MW_BYTE | EJSON_RPCMGR_GET_MW_WORD | EJSON_RPCMGR_SET_MW_WORD |
  EJSON_RPCMGR_GET_MW_DWORD | EJSON_RPCMGR_SET_MW_DWORD

definition common_cmds :: "EJSON_RPCGMGR_CMD list" where
  "common_cmds = [
   EJSON_RPCGMGR_GET_TASK_STS, EJSON_RPCGMGR_GET_RPC_SRV_VERSION, EJSON_RPCGMGR_TRIGGER_DATASAVE,
   EJSON_RPCGMGR_GET_SETTINGS_STS, EJSON_RPCGMGR_SHUTDOWN_SERVICE, EJSON_RPCGMGR_RESET_TASK_STS,
   EJSON_RPCGMGR_GET_READY_STS, EJSON_RPCGMGR_GET_DEBUG_LOG, EJSON_RPCGMGR_SET_DEBUG_LOG,
   EJSON_RPCGMGR_TRIGGER_FACTORY_STORE, EJSON_RPCGMGR_TRIGGER_FACTORY_RESTORE, EJSON_RPCGMGR_EVENT_SUBSCRIBE,
   EJSON_RPCGMGR_EVENT_UNSUBSCRIBE, EJSON_RPCGMGR_EVENT_NOTIFY, EJSON_RPCGMGR_EVENT_PROCESS,
   EJSON_RPCGMGR_TRIGGER_RUN, EJSON_RPCMGR_GET_DEVOP_STATE, EJSON_RPCMGR_SET_DEVOP_STATE,
   EJSON_RPCMGR_GET_MW_BYTE, EJSON_RPCMGR_SET_MW_BYTE, EJSON_RPCMGR_GET_MW_WORD, EJSON_RPCMGR_SET_MW_WORD,
   EJSON_RPCMGR_GET_MW_DWORD, EJSON_RPCMGR_SET_MW_DWORD]"

definition EJSON_RPCGMGR_CMD_END :: int where
  "EJSON_RPCGMGR_CMD_END = 24"

text \<open>The value of an enumerator, and the enumerator of a value.\<close>

fun cmd_position :: "EJSON_RPCGMGR_CMD list \<Rightarrow> EJSON_RPCGMGR_CMD \<Rightarrow> int" where
  "cmd_position [] c = 0"
| "cmd_position (x # xs) c = (if x = c then 0 else 1 + cmd_position xs c)"

definition cmd_no :: "EJSON_RPCGMGR_CMD \<Rightarrow> int" where
  "cmd_no c = cmd_position common_cmds c"

definition cmd_of :: "int \<Rightarrow> EJSON_RPCGMGR_CMD option" where
  "cmd_of i = (if 0 \<le> i \<and> i < EJSON_RPCGMGR_CMD_END then Some (common_cmds ! nat i) else None)"

datatype RPC_SRV_ACT =
  RPC_SRV_ACT_READ | RPC_SRV_ACT_WRITE | RPC_SRV_ACT_VERIFY | RPC_SRV_ACT_READONLY | RPC_SRV_ACT_WRITEONLY |
  RPC_SRV_ACT_READ_AND_WRITE | RPC_SRV_ACT_RESET | RPC_SRV_ACT_UNKNOWN | RPC_SRV_ACT_NONE

record RPCMGR_TASK_STS_PACKET =
  ts_taskID :: s32
  ts_task_sts :: string

record RPCMGR_EVENT_PACKET =
  ep_cltToken :: s32
  ep_portNum :: s32
  ep_eventNum :: s32
  ep_srvToken :: s32
  ep_sock_descr :: s32
  ep_sock_id :: s32
  ep_ip :: string
  ep_eventArg :: s32
  ep_eventArg2 :: s32

record RPCMGR_MIDDLEWARE_PACKET =
  mw_addr :: u32
  mw_byte :: u8
  mw_word :: u16
  mw_dword :: u32

text \<open>
  A packet by its type; \<open>P_USER\<close> is one of an attached object. The packets of the ready, debug and operation
  states hold the value of an enumerator.
\<close>

datatype 'p packet =
  P_TASK_STS RPCMGR_TASK_STS_PACKET | P_INTEGER s32 | P_SETTINGS_STS string | P_READY_STS u32 | P_DEBUG_LOG u32 |
  P_EVENT RPCMGR_EVENT_PACKET | P_DEVOP_STS u32 string | P_MIDDLEWARE RPCMGR_MIDDLEWARE_PACKET | P_USER 'p

record 'p RPC_SRV_REQ =
  rq_action :: RPC_SRV_ACT
  rq_cmd :: int
  rq_clientId :: s32
  rq_reqIdent :: s32
  rq_result :: RPC_SRV_RESULT
  rq_dataRef :: "'p packet option"

record 'p rpc_data = JsonDataCommObj +
  d_obj :: "'p RPC_SRV_REQ option"

section \<open>The manager\<close>

record ADJsonRpcMgrConsumer =
  strRpcName :: string
  c_index :: s32
  parent_index :: int
  logmsg :: bool
  cmnrpchandler :: bool
  c_object :: nat

record ('p, 's) rpc_mgr =
  svnVersion :: s32
  shutdown_support :: bool
  ServiceReadyFlag :: u32
  ServiceDebugFlag :: bool
  rpclist :: "ADJsonRpcMgrConsumer list"
  eventReceiver :: "nat list"
  AsyncTaskWorker :: "'p packet ADTaskWorker"
  EventMgr :: ADEvntMgr
  mgr_puts :: nat
  timer_exit :: bool
  blocks :: nat
  service :: 's

text \<open>The overridden functions of an attached object; the first argument is the index it is called with.\<close>

type_synonym ('p, 's) map_fn = "s32 \<Rightarrow> 'p rpc_data \<Rightarrow> ('p, 's) rpc_mgr \<Rightarrow> (int \<times> 'p rpc_data \<times> ('p, 's) rpc_mgr) kres"

record ('p, 's) handler =
  h_MapJsonToBinary :: "('p, 's) map_fn"
  h_MapBinaryToJson :: "('p, 's) map_fn"
  h_ProcessWork :: "('p, 's) map_fn"
  h_ProcessWorkAsync :: "s32 \<Rightarrow> 'p packet \<Rightarrow> ('p, 's) rpc_mgr \<Rightarrow> (RPC_SRV_RESULT \<times> ('p, 's) rpc_mgr) kres"
  h_ReceiveEvent :: "s32 \<Rightarrow> s32 \<Rightarrow> s32 \<Rightarrow> s32 \<Rightarrow> 's \<Rightarrow> 's"

text \<open>
  The surroundings: the platform with the JSON library, the attached objects, the largest \<open>unsigned long\<close>, the
  address of the next event entry, and what fresh memory holds.
\<close>

record ('p, 's) mgr_env =
  plat :: platform
  handlers :: "nat \<Rightarrow> ('p, 's) handler"
  ulong_max :: nat
  new_entry :: "ADEvntMgr \<Rightarrow> ptr"
  junk_int :: s32
  junk_str :: string

section \<open>Reading parameters\<close>

definition find_single_param :: "json_lib \<Rightarrow> string \<Rightarrow> string \<Rightarrow> string option kres" where
  "find_single_param lib json_string param_name = (case tokener_parse lib json_string of
     None \<Rightarrow> kret None
   | Some new_obj \<Rightarrow>
       (let new_obj1 = object_get lib new_obj ''params'' in
        case get_string lib new_obj1 of
          None \<Rightarrow> kret None
        | Some _ \<Rightarrow>
            (case new_obj1 of
               None \<Rightarrow> kret None
             | Some obj1 \<Rightarrow>
                 (case get_string lib (object_get lib obj1 param_name) of
                    None \<Rightarrow> kret None
                  | Some s \<Rightarrow> kbind (sprintf_s 255 s) (\<lambda>s. kret (Some s))))))"

text \<open>\<open>sscanf\<close> with \<open>%lu\<close>: nothing is stored when there is no number.\<close>

definition scan_lu :: "nat \<Rightarrow> string \<Rightarrow> nat option" where
  "scan_lu mx str =
     (let s = dropWhile is_space str;
          neg = (s \<noteq> [] \<and> hd s = CHR ''-'');
          s = (if s \<noteq> [] \<and> (hd s = CHR ''-'' \<or> hd s = CHR ''+'') then tl s else s)
      in if s = [] \<or> \<not> is_digit (hd s) then None
         else let n = fst (digits_val 0 s) in
           Some (if mx < n then mx else if neg \<and> n \<noteq> 0 then mx + 1 - n else n))"

text \<open>
  The functions from JSON to packets end early when a parameter is missing or wrong: the packet is deleted and the
  result is \<open>-1\<close>. The rest of such a function is the argument \<open>k\<close>.
\<close>

type_synonym ('p, 's) step_res = "(int \<times> 'p rpc_data \<times> ('p, 's) rpc_mgr) kres"

definition set_packet :: "'p packet option \<Rightarrow> 'p rpc_data \<Rightarrow> 'p rpc_data" where
  "set_packet pk d = d\<lparr>d_obj := map_option (\<lambda>r. r\<lparr>rq_dataRef := pk\<rparr>) (d_obj d)\<rparr>"

definition invalid_param :: "'p rpc_data \<Rightarrow> ('p, 's) rpc_mgr \<Rightarrow> ('p, 's) step_res" where
  "invalid_param d m =
     kret (-1, set_packet None (d\<lparr>d_mapper_result := CMD_TASK_RESULT_INVALID_PARAM\<rparr>), m\<lparr>blocks := blocks m - 1\<rparr>)"

definition JSON_STRING_TO_INT ::
  "('p, 's) mgr_env \<Rightarrow> string \<Rightarrow> 'p rpc_data \<Rightarrow> ('p, 's) rpc_mgr \<Rightarrow> (s32 \<Rightarrow> ('p, 's) step_res) \<Rightarrow> ('p, 's) step_res" where
  "JSON_STRING_TO_INT env name d m k =
     kbind (find_single_param (jlib (plat env)) (d_socket_data d) name) (\<lambda>v. case v of
       None \<Rightarrow> invalid_param d m | Some s \<Rightarrow> k (atoi s))"

text \<open>A variable that \<open>sscanf\<close> does not set keeps its old contents \<open>old\<close>.\<close>

definition JSON_STRING_TO_ULONG ::
  "('p, 's) mgr_env \<Rightarrow> string \<Rightarrow> nat \<Rightarrow> 'p rpc_data \<Rightarrow> ('p, 's) rpc_mgr \<Rightarrow> (nat \<Rightarrow> ('p, 's) step_res) \<Rightarrow> ('p, 's) step_res" where
  "JSON_STRING_TO_ULONG env name old d m k =
     kbind (find_single_param (jlib (plat env)) (d_socket_data d) name) (\<lambda>v. case v of
       None \<Rightarrow> invalid_param d m
     | Some s \<Rightarrow> k (case scan_lu (ulong_max env) s of None \<Rightarrow> old | Some n \<Rightarrow> n))"

definition JSON_STRING_TO_ENUM ::
  "('p, 's) mgr_env \<Rightarrow> string \<Rightarrow> string list \<Rightarrow> nat \<Rightarrow> 'p rpc_data \<Rightarrow> ('p, 's) rpc_mgr \<Rightarrow> (u32 \<Rightarrow> ('p, 's) step_res) \<Rightarrow>
   ('p, 's) step_res" where
  "JSON_STRING_TO_ENUM env name table mx d m k =
     kbind (find_single_param (jlib (plat env)) (d_socket_data d) name) (\<lambda>v. case v of
       None \<Rightarrow> invalid_param d m
     | Some s \<Rightarrow> let e = string_to_enum table s mx in if mx \<le> e then invalid_param d m else k (of_nat e))"

definition JSON_STRING_TO_STRING ::
  "('p, 's) mgr_env \<Rightarrow> string \<Rightarrow> 'p rpc_data \<Rightarrow> ('p, 's) rpc_mgr \<Rightarrow> (string \<Rightarrow> ('p, 's) step_res) \<Rightarrow> ('p, 's) step_res" where
  "JSON_STRING_TO_STRING env name d m k =
     kbind (find_single_param (jlib (plat env)) (d_socket_data d) name) (\<lambda>v. case v of None \<Rightarrow> invalid_param d m | Some s \<Rightarrow> k s)"

text \<open>An optional parameter: it is read twice when it is there.\<close>

definition optional_int ::
  "('p, 's) mgr_env \<Rightarrow> string \<Rightarrow> 'p rpc_data \<Rightarrow> ('p, 's) rpc_mgr \<Rightarrow> (s32 \<Rightarrow> ('p, 's) step_res) \<Rightarrow> ('p, 's) step_res" where
  "optional_int env name d m k =
     kbind (find_single_param (jlib (plat env)) (d_socket_data d) name) (\<lambda>v.
       if v = None then k (-1) else JSON_STRING_TO_INT env name d m k)"

section \<open>Requests and results\<close>

definition prepare_req_object :: "RPC_SRV_ACT \<Rightarrow> int \<Rightarrow> 'p rpc_data \<Rightarrow> 'p rpc_data kres" where
  "prepare_req_object act c d = (case d_obj d of
     None \<Rightarrow> kfail BadDeref
   | Some r \<Rightarrow> kret (d\<lparr>d_obj := Some (r\<lparr>rq_action := act, rq_cmd := c\<rparr>)\<rparr>))"

definition PREPARE_JSON_REQUEST ::
  "RPC_SRV_ACT \<Rightarrow> int \<Rightarrow> 'p packet \<Rightarrow> 'p rpc_data \<Rightarrow> ('p, 's) rpc_mgr \<Rightarrow>
   ('p rpc_data \<Rightarrow> ('p, 's) rpc_mgr \<Rightarrow> ('p, 's) step_res) \<Rightarrow> ('p, 's) step_res" where
  "PREPARE_JSON_REQUEST act c pk d m k =
     kbind (prepare_req_object act c d) (\<lambda>d. k (set_packet (Some pk) d) (m\<lparr>blocks := blocks m + 1\<rparr>))"

text \<open>\<open>json_object_object_add\<close>: the value of a name that is there already is replaced.\<close>

fun object_add :: "string \<Rightarrow> json \<Rightarrow> (string \<times> json) list \<Rightarrow> (string \<times> json) list" where
  "object_add k v [] = [(k, v)]"
| "object_add k v ((k', v') # ms) = (if k' = k then (k', v) # ms else (k', v') # object_add k v ms)"

text \<open>The three forms of \<open>prepare_result_string\<close> that the manager uses.\<close>

definition result_with :: "RPC_SRV_RESULT \<Rightarrow> (string \<times> json) list \<Rightarrow> 'p rpc_data \<Rightarrow> 'p rpc_data" where
  "result_with res vals d = d\<lparr>d_rpc_code := rpc_code res,
     d_json := Some (JObj (fold (\<lambda>(k, v) ms. object_add k v ms) vals [(''return'', JStr (convert_server_result_to_string res))]))\<rparr>"

definition prepare_result_string :: "RPC_SRV_RESULT \<Rightarrow> 'p rpc_data \<Rightarrow> 'p rpc_data" where
  "prepare_result_string res d = result_with res [] d"

definition prepare_result_string_str :: "RPC_SRV_RESULT \<Rightarrow> string \<Rightarrow> string \<Rightarrow> 'p rpc_data \<Rightarrow> 'p rpc_data" where
  "prepare_result_string_str res name v d = result_with res [(name, JStr v)] d"

definition prepare_result_string_int :: "RPC_SRV_RESULT \<Rightarrow> string \<Rightarrow> int \<Rightarrow> 'p rpc_data \<Rightarrow> 'p rpc_data" where
  "prepare_result_string_int res name v d = result_with res [(name, JInt v)] d"

text \<open>The request and its packet, and the deletion of the packet that ends each of the response macros.\<close>

definition req_packet :: "'p rpc_data \<Rightarrow> ('p RPC_SRV_REQ \<times> 'p packet) kres" where
  "req_packet d = (case d_obj d of None \<Rightarrow> kfail BadDeref
     | Some r \<Rightarrow> (case rq_dataRef r of None \<Rightarrow> kfail BadDeref | Some pk \<Rightarrow> kret (r, pk)))"

definition resp_done :: "'p rpc_data \<Rightarrow> ('p, 's) rpc_mgr \<Rightarrow> ('p, 's) step_res" where
  "resp_done d m = kret (0, set_packet None d, m\<lparr>blocks := blocks m - 1\<rparr>)"

definition JSON_RPC_METHOD_RESP_MAX_LENGTH :: nat where
  "JSON_RPC_METHOD_RESP_MAX_LENGTH = 1100"

definition PREPARE_JSON_RESP :: "'p rpc_data \<Rightarrow> ('p, 's) rpc_mgr \<Rightarrow> ('p, 's) step_res" where
  "PREPARE_JSON_RESP d m =
     kbind (req_packet d) (\<lambda>(r, _). resp_done (prepare_result_string (rq_result r) d) m)"

definition PREPARE_JSON_RESP_STRING ::
  "string \<Rightarrow> ('p packet \<Rightarrow> string kres) \<Rightarrow> 'p rpc_data \<Rightarrow> ('p, 's) rpc_mgr \<Rightarrow> ('p, 's) step_res" where
  "PREPARE_JSON_RESP_STRING name sel d m =
     kbind (req_packet d) (\<lambda>(r, pk).
       if rq_result r \<noteq> RPC_SRV_RESULT_SUCCESS then resp_done (prepare_result_string (rq_result r) d) m
       else kbind (sel pk) (\<lambda>v.
         kbind (sprintf_s JSON_RPC_METHOD_RESP_MAX_LENGTH v) (\<lambda>s.
         resp_done (prepare_result_string_str (rq_result r) name s (d\<lparr>d_custom := s\<rparr>)) m)))"

definition PREPARE_JSON_RESP_ENUM ::
  "string \<Rightarrow> string list \<Rightarrow> nat \<Rightarrow> ('p packet \<Rightarrow> u32 kres) \<Rightarrow> 'p rpc_data \<Rightarrow> ('p, 's) rpc_mgr \<Rightarrow> ('p, 's) step_res" where
  "PREPARE_JSON_RESP_ENUM name table mx sel d m =
     kbind (req_packet d) (\<lambda>(r, pk).
       if rq_result r \<noteq> RPC_SRV_RESULT_SUCCESS then resp_done (prepare_result_string (rq_result r) d) m
       else kbind (sel pk) (\<lambda>v.
         let e = (if mx < unat v then mx else unat v) in
         kbind (sprintf_s JSON_RPC_METHOD_RESP_MAX_LENGTH (table ! e)) (\<lambda>s.
         resp_done (prepare_result_string_str (rq_result r) name s (d\<lparr>d_custom := s\<rparr>)) m)))"

definition PREPARE_JSON_RESP_INT ::
  "string \<Rightarrow> ('p packet \<Rightarrow> int kres) \<Rightarrow> 'p rpc_data \<Rightarrow> ('p, 's) rpc_mgr \<Rightarrow> ('p, 's) step_res" where
  "PREPARE_JSON_RESP_INT name sel d m =
     kbind (req_packet d) (\<lambda>(r, pk).
       if rq_result r = RPC_SRV_RESULT_SUCCESS \<or> rq_result r = RPC_SRV_RESULT_IN_PROG then
         kbind (sel pk) (\<lambda>v. resp_done (prepare_result_string_int (rq_result r) name v (d\<lparr>d_custom := show_int v\<rparr>)) m)
       else resp_done (prepare_result_string (rq_result r) d) m)"

definition PREPARE_JSON_RESP_IN_PROG :: "string \<Rightarrow> 'p rpc_data \<Rightarrow> ('p, 's) rpc_mgr \<Rightarrow> ('p, 's) step_res" where
  "PREPARE_JSON_RESP_IN_PROG name d m =
     kbind (req_packet d) (\<lambda>(r, pk).
       if rq_result r = RPC_SRV_RESULT_SUCCESS \<or> rq_result r = RPC_SRV_RESULT_IN_PROG then
         (case pk of
            P_TASK_STS p \<Rightarrow> resp_done (prepare_result_string_int (rq_result r) name (sint (ts_taskID p))
              (d\<lparr>d_custom := show_int (sint (ts_taskID p))\<rparr>)) m
          | _ \<Rightarrow> kfail BadDeref)
       else resp_done (prepare_result_string (rq_result r) d) m)"

text \<open>Selecting the part of a packet that a response shows.\<close>

definition task_sts_of :: "'p packet \<Rightarrow> string kres" where
  "task_sts_of pk = (case pk of P_TASK_STS p \<Rightarrow> kret (ts_task_sts p) | _ \<Rightarrow> kfail BadDeref)"

definition settings_sts_of :: "'p packet \<Rightarrow> string kres" where
  "settings_sts_of pk = (case pk of P_SETTINGS_STS s \<Rightarrow> kret s | _ \<Rightarrow> kfail BadDeref)"

definition value_of :: "'p packet \<Rightarrow> int kres" where
  "value_of pk = (case pk of P_INTEGER v \<Rightarrow> kret (sint v) | _ \<Rightarrow> kfail BadDeref)"

definition enum_of :: "'p packet \<Rightarrow> u32 kres" where
  "enum_of pk = (case pk of P_READY_STS v \<Rightarrow> kret v | P_DEBUG_LOG v \<Rightarrow> kret v | P_DEVOP_STS v _ \<Rightarrow> kret v | _ \<Rightarrow> kfail BadDeref)"

definition srv_token_of :: "'p packet \<Rightarrow> int kres" where
  "srv_token_of pk = (case pk of P_EVENT p \<Rightarrow> kret (sint (ep_srvToken p)) | _ \<Rightarrow> kfail BadDeref)"

definition middleware_of :: "(RPCMGR_MIDDLEWARE_PACKET \<Rightarrow> int) \<Rightarrow> 'p packet \<Rightarrow> int kres" where
  "middleware_of f pk = (case pk of P_MIDDLEWARE p \<Rightarrow> kret (f p) | _ \<Rightarrow> kfail BadDeref)"

section \<open>Fresh packets\<close>

definition fresh_task_sts :: "('p, 's) mgr_env \<Rightarrow> RPCMGR_TASK_STS_PACKET" where
  "fresh_task_sts env = \<lparr>ts_taskID = junk_int env, ts_task_sts = junk_str env\<rparr>"

definition fresh_event :: "('p, 's) mgr_env \<Rightarrow> RPCMGR_EVENT_PACKET" where
  "fresh_event env = (let j = junk_int env in \<lparr>ep_cltToken = j, ep_portNum = j, ep_eventNum = j, ep_srvToken = j,
     ep_sock_descr = j, ep_sock_id = j, ep_ip = junk_str env, ep_eventArg = j, ep_eventArg2 = j\<rparr>)"

definition fresh_middleware :: "('p, 's) mgr_env \<Rightarrow> RPCMGR_MIDDLEWARE_PACKET" where
  "fresh_middleware env = (let j = junk_int env in \<lparr>mw_addr = j, mw_byte = ucast j, mw_word = ucast j, mw_dword = j\<rparr>)"

section \<open>From JSON to packets\<close>

definition RPCMGR_RPC_DEBUG_LOG_ARGSTS_TBL :: "string list" where
  "RPCMGR_RPC_DEBUG_LOG_ARGSTS_TBL = [''disable'', ''enable'', ''unknown'', ''none'', '''']"

definition RPCMGR_RPC_READY_STS_ARGSTS_TBL :: "string list" where
  "RPCMGR_RPC_READY_STS_ARGSTS_TBL = [''notready'', ''ready'', ''busy'', ''unknown'', ''none'', '''']"

definition RPCMGR_RPC_DEVOP_STATE_ARGSTS_TBL :: "string list" where
  "RPCMGR_RPC_DEVOP_STATE_ARGSTS_TBL = [''idle'', ''on'', ''laststate'', ''off'', ''reboot'', ''booting'', ''rebooting'',
     ''switchingoff'', ''boot'', ''idlenoexthw'', ''unknown'', ''none'', '''']"

type_synonym ('p, 's) rpc_fn = "('p, 's) mgr_env \<Rightarrow> 'p rpc_data \<Rightarrow> ('p, 's) rpc_mgr \<Rightarrow> ('p, 's) step_res"

definition json_to_bin_get_task_sts :: "('p, 's) rpc_fn" where
  "json_to_bin_get_task_sts env d m =
     PREPARE_JSON_REQUEST RPC_SRV_ACT_READ (cmd_no EJSON_RPCGMGR_GET_TASK_STS) (P_TASK_STS (fresh_task_sts env)) d m (\<lambda>d m.
     JSON_STRING_TO_INT env ''taskId'' d m (\<lambda>v.
     kret (0, set_packet (Some (P_TASK_STS ((fresh_task_sts env)\<lparr>ts_taskID := v\<rparr>))) d, m)))"

definition json_to_bin_get_rpc_srv_version :: "('p, 's) rpc_fn" where
  "json_to_bin_get_rpc_srv_version env d m =
     PREPARE_JSON_REQUEST RPC_SRV_ACT_READ (cmd_no EJSON_RPCGMGR_GET_RPC_SRV_VERSION) (P_INTEGER (junk_int env)) d m
       (\<lambda>d m. kret (0, d, m))"

definition json_to_bin_trigger_datasave :: "('p, 's) rpc_fn" where
  "json_to_bin_trigger_datasave env d m =
     PREPARE_JSON_REQUEST RPC_SRV_ACT_WRITE (cmd_no EJSON_RPCGMGR_TRIGGER_DATASAVE) (P_TASK_STS (fresh_task_sts env)) d m
       (\<lambda>d m. kret (0, d, m))"

definition json_to_bin_get_settings_sts :: "('p, 's) rpc_fn" where
  "json_to_bin_get_settings_sts env d m =
     PREPARE_JSON_REQUEST RPC_SRV_ACT_READ (cmd_no EJSON_RPCGMGR_GET_SETTINGS_STS) (P_SETTINGS_STS (junk_str env)) d m
       (\<lambda>d m. kret (0, d, m))"

definition json_to_bin_shutdown_service :: "('p, 's) rpc_fn" where
  "json_to_bin_shutdown_service env d m =
     PREPARE_JSON_REQUEST RPC_SRV_ACT_WRITE (cmd_no EJSON_RPCGMGR_SHUTDOWN_SERVICE) (P_TASK_STS (fresh_task_sts env)) d m
       (\<lambda>d m. kret (0, d, m))"

definition json_to_bin_reset_task_sts :: "('p, 's) rpc_fn" where
  "json_to_bin_reset_task_sts env d m =
     PREPARE_JSON_REQUEST RPC_SRV_ACT_WRITE (cmd_no EJSON_RPCGMGR_RESET_TASK_STS) (P_TASK_STS (fresh_task_sts env)) d m
       (\<lambda>d m. kret (0, d, m))"

definition json_to_bin_get_ready_sts :: "('p, 's) rpc_fn" where
  "json_to_bin_get_ready_sts env d m =
     PREPARE_JSON_REQUEST RPC_SRV_ACT_READ (cmd_no EJSON_RPCGMGR_GET_READY_STS) (P_READY_STS (junk_int env)) d m
       (\<lambda>d m. kret (0, d, m))"

definition json_to_bin_get_debug_logging :: "('p, 's) rpc_fn" where
  "json_to_bin_get_debug_logging env d m =
     PREPARE_JSON_REQUEST RPC_SRV_ACT_READ (cmd_no EJSON_RPCGMGR_GET_DEBUG_LOG) (P_DEBUG_LOG (junk_int env)) d m
       (\<lambda>d m. kret (0, d, m))"

definition json_to_bin_set_debug_logging :: "('p, 's) rpc_fn" where
  "json_to_bin_set_debug_logging env d m =
     PREPARE_JSON_REQUEST RPC_SRV_ACT_WRITE (cmd_no EJSON_RPCGMGR_SET_DEBUG_LOG) (P_DEBUG_LOG (junk_int env)) d m (\<lambda>d m.
     JSON_STRING_TO_ENUM env ''status'' RPCMGR_RPC_DEBUG_LOG_ARGSTS_TBL 2 d m (\<lambda>v.
     kret (0, set_packet (Some (P_DEBUG_LOG v)) d, m)))"

definition json_to_bin_trigger_factory_store :: "('p, 's) rpc_fn" where
  "json_to_bin_trigger_factory_store env d m =
     PREPARE_JSON_REQUEST RPC_SRV_ACT_WRITE (cmd_no EJSON_RPCGMGR_TRIGGER_FACTORY_STORE) (P_TASK_STS (fresh_task_sts env)) d m
       (\<lambda>d m. kret (0, d, m))"

definition json_to_bin_trigger_factory_restore :: "('p, 's) rpc_fn" where
  "json_to_bin_trigger_factory_restore env d m =
     PREPARE_JSON_REQUEST RPC_SRV_ACT_WRITE (cmd_no EJSON_RPCGMGR_TRIGGER_FACTORY_RESTORE) (P_TASK_STS (fresh_task_sts env)) d m
       (\<lambda>d m. kret (0, d, m))"

definition json_to_bin_event_subscribe :: "('p, 's) rpc_fn" where
  "json_to_bin_event_subscribe env d m =
     PREPARE_JSON_REQUEST RPC_SRV_ACT_WRITE (cmd_no EJSON_RPCGMGR_EVENT_SUBSCRIBE) (P_EVENT (fresh_event env)) d m (\<lambda>d m.
     JSON_STRING_TO_INT env ''cltToken'' d m (\<lambda>clt.
     optional_int env ''port'' d m (\<lambda>port.
     optional_int env ''evntNum'' d m (\<lambda>num.
     kret (0, set_packet (Some (P_EVENT ((fresh_event env)\<lparr>ep_cltToken := clt, ep_portNum := port, ep_eventNum := num,
       ep_sock_id := of_int (d_sock_id d), ep_sock_descr := of_nat (d_sock_descr d), ep_ip := d_ip d\<rparr>))) d, m)))))"

definition json_to_bin_event_unsubscribe :: "('p, 's) rpc_fn" where
  "json_to_bin_event_unsubscribe env d m =
     PREPARE_JSON_REQUEST RPC_SRV_ACT_WRITE (cmd_no EJSON_RPCGMGR_EVENT_UNSUBSCRIBE) (P_EVENT (fresh_event env)) d m (\<lambda>d m.
     JSON_STRING_TO_INT env ''srvToken'' d m (\<lambda>tok.
     kret (0, set_packet (Some (P_EVENT ((fresh_event env)\<lparr>ep_srvToken := tok\<rparr>))) d, m)))"

definition json_to_bin_event_notify :: "('p, 's) rpc_fn" where
  "json_to_bin_event_notify env d m =
     PREPARE_JSON_REQUEST RPC_SRV_ACT_WRITE (cmd_no EJSON_RPCGMGR_EVENT_NOTIFY) (P_EVENT (fresh_event env)) d m (\<lambda>d m.
     JSON_STRING_TO_INT env ''evntNum'' d m (\<lambda>num.
     optional_int env ''evntArg1'' d m (\<lambda>a.
     optional_int env ''evntArg2'' d m (\<lambda>b.
     kret (0, set_packet (Some (P_EVENT ((fresh_event env)\<lparr>ep_eventNum := num, ep_eventArg := a, ep_eventArg2 := b\<rparr>))) d, m)))))"

definition json_to_bin_event_process :: "('p, 's) rpc_fn" where
  "json_to_bin_event_process env d m =
     PREPARE_JSON_REQUEST RPC_SRV_ACT_WRITE (cmd_no EJSON_RPCGMGR_EVENT_PROCESS) (P_EVENT (fresh_event env)) d m (\<lambda>d m.
     JSON_STRING_TO_INT env ''cltToken'' d m (\<lambda>clt.
     JSON_STRING_TO_INT env ''evntNum'' d m (\<lambda>num.
     optional_int env ''evntArg1'' d m (\<lambda>a.
     optional_int env ''evntArg2'' d m (\<lambda>b.
     kret (0, set_packet (Some (P_EVENT ((fresh_event env)\<lparr>ep_cltToken := clt, ep_eventNum := num, ep_eventArg := a,
       ep_eventArg2 := b\<rparr>))) d, m))))))"

definition json_to_bin_trigger_run :: "('p, 's) rpc_fn" where
  "json_to_bin_trigger_run env d m =
     PREPARE_JSON_REQUEST RPC_SRV_ACT_WRITE (cmd_no EJSON_RPCGMGR_TRIGGER_RUN) (P_TASK_STS (fresh_task_sts env)) d m
       (\<lambda>d m. kret (0, d, m))"

definition json_to_bin_get_devop_state :: "('p, 's) rpc_fn" where
  "json_to_bin_get_devop_state env d m =
     PREPARE_JSON_REQUEST RPC_SRV_ACT_READ (cmd_no EJSON_RPCMGR_GET_DEVOP_STATE) (P_DEVOP_STS (junk_int env) (junk_str env)) d m
       (\<lambda>d m. kret (0, d, m))"

definition json_to_bin_set_devop_state :: "('p, 's) rpc_fn" where
  "json_to_bin_set_devop_state env d m =
     PREPARE_JSON_REQUEST RPC_SRV_ACT_WRITE (cmd_no EJSON_RPCMGR_SET_DEVOP_STATE) (P_DEVOP_STS (junk_int env) (junk_str env)) d m
       (\<lambda>d m.
     JSON_STRING_TO_ENUM env ''status'' RPCMGR_RPC_DEVOP_STATE_ARGSTS_TBL 10 d m (\<lambda>v.
     kret (0, set_packet (Some (P_DEVOP_STS v (junk_str env))) d, m)))"

text \<open>The functions of the middleware read an address, and those that write also a value.\<close>

definition mw_read_request :: "EJSON_RPCGMGR_CMD \<Rightarrow> ('p, 's) rpc_fn" where
  "mw_read_request c env d m =
     PREPARE_JSON_REQUEST RPC_SRV_ACT_READ (cmd_no c) (P_MIDDLEWARE (fresh_middleware env)) d m (\<lambda>d m.
     JSON_STRING_TO_ULONG env ''addr'' (unat (junk_int env)) d m (\<lambda>a.
     kret (0, set_packet (Some (P_MIDDLEWARE ((fresh_middleware env)\<lparr>mw_addr := of_nat a\<rparr>))) d, m)))"

definition mw_write_request ::
  "EJSON_RPCGMGR_CMD \<Rightarrow> (nat \<Rightarrow> RPCMGR_MIDDLEWARE_PACKET \<Rightarrow> RPCMGR_MIDDLEWARE_PACKET) \<Rightarrow> ('p, 's) rpc_fn" where
  "mw_write_request c store env d m =
     PREPARE_JSON_REQUEST RPC_SRV_ACT_WRITE (cmd_no c) (P_MIDDLEWARE (fresh_middleware env)) d m (\<lambda>d m.
     JSON_STRING_TO_ULONG env ''addr'' (unat (junk_int env)) d m (\<lambda>a.
     JSON_STRING_TO_ULONG env ''data'' a d m (\<lambda>v.
     kret (0, set_packet (Some (P_MIDDLEWARE (store v ((fresh_middleware env)\<lparr>mw_addr := of_nat a\<rparr>)))) d, m))))"

definition json_to_bin_get_mw_byte :: "('p, 's) rpc_fn" where
  "json_to_bin_get_mw_byte = mw_read_request EJSON_RPCMGR_GET_MW_BYTE"

definition json_to_bin_set_mw_byte :: "('p, 's) rpc_fn" where
  "json_to_bin_set_mw_byte = mw_write_request EJSON_RPCMGR_SET_MW_BYTE (\<lambda>v p. p\<lparr>mw_byte := of_nat v\<rparr>)"

definition json_to_bin_get_mw_word :: "('p, 's) rpc_fn" where
  "json_to_bin_get_mw_word = mw_read_request EJSON_RPCMGR_GET_MW_WORD"

definition json_to_bin_set_mw_word :: "('p, 's) rpc_fn" where
  "json_to_bin_set_mw_word = mw_write_request EJSON_RPCMGR_SET_MW_WORD (\<lambda>v p. p\<lparr>mw_word := ucast (of_nat v :: u8)\<rparr>)"

definition json_to_bin_get_mw_dword :: "('p, 's) rpc_fn" where
  "json_to_bin_get_mw_dword = mw_read_request EJSON_RPCMGR_GET_MW_DWORD"

definition json_to_bin_set_mw_dword :: "('p, 's) rpc_fn" where
  "json_to_bin_set_mw_dword = mw_write_request EJSON_RPCMGR_SET_MW_DWORD (\<lambda>v p. p\<lparr>mw_dword := ucast (of_nat v :: u8)\<rparr>)"

section \<open>Attached objects\<close>

definition AttachRpc :: "ADJsonRpcMgrConsumer \<Rightarrow> ('p, 's) rpc_mgr \<Rightarrow> ('p, 's) rpc_mgr" where
  "AttachRpc c m = m\<lparr>rpclist := rpclist m @ [c]\<rparr>"

definition AttachEventReceiver :: "nat \<Rightarrow> ('p, 's) rpc_mgr \<Rightarrow> ('p, 's) rpc_mgr" where
  "AttachEventReceiver c m = m\<lparr>eventReceiver := eventReceiver m @ [c]\<rparr>"

definition notify_event_receivers ::
  "('p, 's) mgr_env \<Rightarrow> s32 \<Rightarrow> s32 \<Rightarrow> s32 \<Rightarrow> s32 \<Rightarrow> ('p, 's) rpc_mgr \<Rightarrow> ('p, 's) rpc_mgr" where
  "notify_event_receivers env clt num a b m =
     m\<lparr>service := fold (\<lambda>c s. h_ReceiveEvent (handlers env c) clt num a b s) (eventReceiver m) (service m)\<rparr>"

definition receive_events ::
  "('p, 's) mgr_env \<Rightarrow> s32 \<Rightarrow> s32 \<Rightarrow> s32 \<Rightarrow> s32 \<Rightarrow> ('p, 's) rpc_mgr \<Rightarrow> int \<times> ('p, 's) rpc_mgr" where
  "receive_events env clt num a b m = (0, notify_event_receivers env clt num a b m)"

definition getRpcHandler :: "int \<Rightarrow> ('p, 's) rpc_mgr \<Rightarrow> ADJsonRpcMgrConsumer kres" where
  "getRpcHandler i m = (if 0 \<le> i \<and> nat i < length (rpclist m) then kret (rpclist m ! nat i) else kfail BadDeref)"

fun getRpcHandler_by_name :: "string \<Rightarrow> ADJsonRpcMgrConsumer list \<Rightarrow> ADJsonRpcMgrConsumer option" where
  "getRpcHandler_by_name name [] = None"
| "getRpcHandler_by_name name (c # cs) = (if strRpcName c = name then Some c else getRpcHandler_by_name name cs)"

fun getRpcHandlerByParentIndex :: "int \<Rightarrow> ADJsonRpcMgrConsumer list \<Rightarrow> ADJsonRpcMgrConsumer option" where
  "getRpcHandlerByParentIndex i [] = None"
| "getRpcHandlerByParentIndex i (c # cs) = (if parent_index c = i then Some c else getRpcHandlerByParentIndex i cs)"

fun getCmnRpcHandler :: "ADJsonRpcMgrConsumer list \<Rightarrow> ADJsonRpcMgrConsumer option" where
  "getCmnRpcHandler [] = None"
| "getCmnRpcHandler (c # cs) = (if cmnrpchandler c then Some c else getCmnRpcHandler cs)"

definition setRpcDebugLogFlag :: "bool \<Rightarrow> ('p, 's) rpc_mgr \<Rightarrow> ('p, 's) rpc_mgr" where
  "setRpcDebugLogFlag debuglog m = m\<lparr>rpclist := map (\<lambda>c. c\<lparr>logmsg := debuglog\<rparr>) (rpclist m)\<rparr>"

text \<open>The three calls by command index share their guards; \<open>f\<close> selects the function of the object.\<close>

definition call_attached ::
  "(('p, 's) handler \<Rightarrow> ('p, 's) map_fn) \<Rightarrow> ('p, 's) rpc_fn" where
  "call_attached f env d m =
     (let i = d_cmd_index d - EJSON_RPCGMGR_CMD_END in
      if int (length (rpclist m)) \<le> i then kret (-1, d, m)
      else if i < 0 then kret (-1, d, m)
      else kbind (getRpcHandler i m) (\<lambda>c. f (handlers env (c_object c)) (c_index c) d m))"

definition MapJsonToBinary :: "('p, 's) rpc_fn" where
  "MapJsonToBinary = call_attached h_MapJsonToBinary"

definition MapBinaryToJson :: "('p, 's) rpc_fn" where
  "MapBinaryToJson = call_attached h_MapBinaryToJson"

definition ProcessWork :: "('p, 's) rpc_fn" where
  "ProcessWork = call_attached h_ProcessWork"

definition AsyncTaskWork ::
  "('p, 's) mgr_env \<Rightarrow> int \<Rightarrow> 'p packet \<Rightarrow> ('p, 's) rpc_mgr \<Rightarrow> (RPC_SRV_RESULT \<times> ('p, 's) rpc_mgr) kres" where
  "AsyncTaskWork env c dat m =
     (let i = c - EJSON_RPCGMGR_CMD_END in
      if int (length (rpclist m)) \<le> i then kret (RPC_SRV_RESULT_FAIL, m)
      else if i < 0 then kret (RPC_SRV_RESULT_FAIL, m)
      else kbind (getRpcHandler i m) (\<lambda>h. h_ProcessWorkAsync (handlers env (c_object h)) (of_int i) dat m))"

definition mgr_push ::
  "('p, 's) mgr_env \<Rightarrow> int \<Rightarrow> 'p packet \<Rightarrow> WORK_CMD_AFTER_DONE \<Rightarrow> ('p, 's) rpc_mgr \<Rightarrow> int \<times> s32 \<times> ('p, 's) rpc_mgr" where
  "mgr_push env c dat act m =
     (case push_task (put_ok (plat env) (mgr_puts m)) (put_ok (plat env) (mgr_puts m + 1)) (of_int c) dat act (AsyncTaskWorker m) of
        (res, ident, wk) \<Rightarrow> (res, ident, m\<lparr>AsyncTaskWorker := wk, mgr_puts := mgr_puts m + 2\<rparr>))"

definition PushAsyncTask ::
  "('p, 's) mgr_env \<Rightarrow> int \<Rightarrow> 'p packet \<Rightarrow> WORK_CMD_AFTER_DONE \<Rightarrow> ('p, 's) rpc_mgr \<Rightarrow> RPC_SRV_RESULT \<times> s32 \<times> ('p, 's) rpc_mgr" where
  "PushAsyncTask env c dat act m =
     (case mgr_push env (c + EJSON_RPCGMGR_CMD_END) dat act m of
        (res, ident, m) \<Rightarrow> (if res = 0 then RPC_SRV_RESULT_IN_PROG else RPC_SRV_RESULT_FAIL, ident, m))"

definition CmnRpcHandler ::
  "('p, 's) mgr_env \<Rightarrow> s32 \<Rightarrow> 'p packet \<Rightarrow> ('p, 's) rpc_mgr \<Rightarrow> (RPC_SRV_RESULT \<times> ('p, 's) rpc_mgr) kres" where
  "CmnRpcHandler env c dat m = (case getCmnRpcHandler (rpclist m) of
     None \<Rightarrow> kret (RPC_SRV_RESULT_FEATURE_UNSUPPORTED, m)
   | Some h \<Rightarrow> h_ProcessWorkAsync (handlers env (c_object h)) c dat m)"

definition ProcessWorkCmnRpc :: "('p, 's) rpc_fn" where
  "ProcessWorkCmnRpc env d m = (case getCmnRpcHandler (rpclist m) of
     None \<Rightarrow> kret (-1, d, m)
   | Some h \<Rightarrow> h_ProcessWork (handlers env (c_object h)) (of_int (d_cmd_index d)) d m)"

section \<open>The work of the common calls\<close>

definition on_req :: "'p rpc_data \<Rightarrow> ('p RPC_SRV_REQ \<Rightarrow> 'a kres) \<Rightarrow> 'a kres" where
  "on_req d k = (case d_obj d of None \<Rightarrow> kfail BadDeref | Some r \<Rightarrow> k r)"

definition set_result :: "RPC_SRV_RESULT \<Rightarrow> 'p rpc_data \<Rightarrow> 'p rpc_data" where
  "set_result res d = d\<lparr>d_obj := map_option (\<lambda>r. r\<lparr>rq_result := res\<rparr>) (d_obj d)\<rparr>"

definition process_get_task_status :: "('p, 's) rpc_fn" where
  "process_get_task_status env d m = on_req d (\<lambda>r. case rq_dataRef r of
     Some (P_TASK_STS p) \<Rightarrow>
       (case get_task_status (ts_taskID p) (AsyncTaskWorker m) of (sts, wk) \<Rightarrow>
          kbind (sprintf_s 512 (rpc_server_result_table ! rpc_code sts)) (\<lambda>s.
          kret (0, set_packet (Some (P_TASK_STS (p\<lparr>ts_task_sts := s\<rparr>))) (set_result RPC_SRV_RESULT_SUCCESS d),
            m\<lparr>AsyncTaskWorker := wk\<rparr>)))
   | _ \<Rightarrow> kfail BadDeref)"

definition process_rpc_server_version :: "('p, 's) rpc_fn" where
  "process_rpc_server_version env d m = on_req d (\<lambda>r. case rq_dataRef r of
     Some (P_INTEGER _) \<Rightarrow>
       if rq_action r = RPC_SRV_ACT_READ
       then kret (0, set_packet (Some (P_INTEGER (svnVersion m))) (set_result RPC_SRV_RESULT_SUCCESS d), m)
       else kret (0, set_result RPC_SRV_RESULT_ACTION_NOT_ALLOWED d, m)
   | _ \<Rightarrow> kfail BadDeref)"

text \<open>
  Pushing a task with a fresh packet, which is deleted again when the task cannot be queued. The identifier is
  stored in the first four bytes of the request's packet, whatever its type is taken to be.
\<close>

definition store_task_id :: "s32 \<Rightarrow> 'p packet \<Rightarrow> 'p packet kres" where
  "store_task_id ident pk = (case pk of
     P_TASK_STS p \<Rightarrow> kret (P_TASK_STS (p\<lparr>ts_taskID := ident\<rparr>))
   | P_DEVOP_STS _ s \<Rightarrow> kret (P_DEVOP_STS ident s)
   | _ \<Rightarrow> kfail BadDeref)"

definition push_common :: "EJSON_RPCGMGR_CMD \<Rightarrow> WORK_CMD_AFTER_DONE \<Rightarrow> ('p, 's) rpc_fn" where
  "push_common c act env d m = on_req d (\<lambda>r. case rq_dataRef r of
     None \<Rightarrow> kfail BadDeref
   | Some pk \<Rightarrow>
       (case mgr_push env (cmd_no c) (P_TASK_STS (fresh_task_sts env)) act (m\<lparr>blocks := blocks m + 1\<rparr>) of (res, ident, m) \<Rightarrow>
          kbind (store_task_id ident pk) (\<lambda>pk.
          if res = 0 then kret (0, set_packet (Some pk) (set_result RPC_SRV_RESULT_IN_PROG d), m)
          else kret (0, set_packet (Some pk) (set_result RPC_SRV_RESULT_FAIL d), m\<lparr>blocks := blocks m - 1\<rparr>))))"

definition process_trigger_datasave :: "('p, 's) rpc_fn" where
  "process_trigger_datasave = push_common EJSON_RPCGMGR_TRIGGER_DATASAVE WORK_CMD_AFTER_DONE_PRESERVE"

definition process_get_settings_status :: "('p, 's) rpc_fn" where
  "process_get_settings_status = ProcessWorkCmnRpc"

definition process_shutdown_service :: "('p, 's) rpc_fn" where
  "process_shutdown_service env d m = on_req d (\<lambda>r.
     if \<not> shutdown_support m then kret (0, set_result RPC_SRV_RESULT_FEATURE_UNSUPPORTED d, m)
     else if rq_action r = RPC_SRV_ACT_WRITE
     then push_common EJSON_RPCGMGR_SHUTDOWN_SERVICE WORK_CMD_AFTER_DONE_DELETE env d m
     else kret (0, set_result RPC_SRV_RESULT_ACTION_NOT_ALLOWED d, m))"

definition process_reset_task_sts :: "('p, 's) rpc_fn" where
  "process_reset_task_sts env d m = on_req d (\<lambda>r.
     case reset_task_id_and_chain (AsyncTaskWorker m) of (res, wk) \<Rightarrow> kret (0, set_result res d, m\<lparr>AsyncTaskWorker := wk\<rparr>))"

definition process_get_ready_status :: "('p, 's) rpc_fn" where
  "process_get_ready_status env d m = on_req d (\<lambda>r. case rq_dataRef r of
     Some (P_READY_STS _) \<Rightarrow> kret (0, set_packet (Some (P_READY_STS (ServiceReadyFlag m))) (set_result RPC_SRV_RESULT_SUCCESS d), m)
   | _ \<Rightarrow> kfail BadDeref)"

definition process_get_debug_logging :: "('p, 's) rpc_fn" where
  "process_get_debug_logging env d m = on_req d (\<lambda>r. case rq_dataRef r of
     Some (P_DEBUG_LOG _) \<Rightarrow>
       kret (0, set_packet (Some (P_DEBUG_LOG (if ServiceDebugFlag m then 1 else 0))) (set_result RPC_SRV_RESULT_SUCCESS d), m)
   | _ \<Rightarrow> kfail BadDeref)"

definition process_set_debug_logging :: "('p, 's) rpc_fn" where
  "process_set_debug_logging env d m = on_req d (\<lambda>r. case rq_dataRef r of
     Some (P_DEBUG_LOG v) \<Rightarrow>
       if v = 0 \<or> v = 1 then
         let m = m\<lparr>ServiceDebugFlag := (v = 1)\<rparr> in
         kret (0, set_result RPC_SRV_RESULT_SUCCESS d, setRpcDebugLogFlag (ServiceDebugFlag m) m)
       else kret (0, set_result RPC_SRV_RESULT_ARG_ERROR d, m)
   | _ \<Rightarrow> kfail BadDeref)"

definition process_trigger_factory_store :: "('p, 's) rpc_fn" where
  "process_trigger_factory_store = push_common EJSON_RPCGMGR_TRIGGER_FACTORY_STORE WORK_CMD_AFTER_DONE_PRESERVE"

definition process_trigger_factory_restore :: "('p, 's) rpc_fn" where
  "process_trigger_factory_restore = push_common EJSON_RPCGMGR_TRIGGER_FACTORY_RESTORE WORK_CMD_AFTER_DONE_PRESERVE"

definition entry_of_packet :: "RPCMGR_EVENT_PACKET \<Rightarrow> EventEntry" where
  "entry_of_packet p = \<lparr>e_cltToken = ep_cltToken p, e_portNum = ep_portNum p, e_eventNum = ep_eventNum p, e_srvToken = 0,
     e_sock_descr = ep_sock_descr p, e_sock_id = ep_sock_id p, e_ip = ep_ip p, e_deleteFlag = False\<rparr>"

definition process_event_subscribe :: "('p, 's) rpc_fn" where
  "process_event_subscribe env d m = on_req d (\<lambda>r. case rq_dataRef r of
     Some (P_EVENT p) \<Rightarrow>
       kbind (subscribe_entry (new_entry env (EventMgr m)) (entry_of_packet p) (ep_srvToken p) (EventMgr m)) (\<lambda>(res, tok, ev).
       kret (0, set_packet (Some (P_EVENT (p\<lparr>ep_srvToken := tok\<rparr>)))
         (set_result (if res = 0 then RPC_SRV_RESULT_SUCCESS else if res = -1 then RPC_SRV_RESULT_ITEM_DUPLICATE_FOUND
            else RPC_SRV_RESULT_FAIL) d), m\<lparr>EventMgr := ev\<rparr>))
   | _ \<Rightarrow> kfail BadDeref)"

definition process_event_unsubscribe :: "('p, 's) rpc_fn" where
  "process_event_unsubscribe env d m = on_req d (\<lambda>r. case rq_dataRef r of
     Some (P_EVENT p) \<Rightarrow>
       kbind (unregister_event_subscription (ep_srvToken p) (EventMgr m)) (\<lambda>(res, ev).
       kret (0, set_result (if res = 0 then RPC_SRV_RESULT_SUCCESS else if res = -1 then RPC_SRV_RESULT_ITEM_NOT_FOUND
         else RPC_SRV_RESULT_FAIL) d, m\<lparr>EventMgr := ev\<rparr>))
   | _ \<Rightarrow> kfail BadDeref)"

definition process_event_notify :: "('p, 's) rpc_fn" where
  "process_event_notify env d m = on_req d (\<lambda>r. case rq_dataRef r of
     Some (P_EVENT p) \<Rightarrow>
       (case notify_event (ep_eventNum p) (ep_eventArg p) (ep_eventArg2 p) (EventMgr m) of (res, ev) \<Rightarrow>
          kret (0, set_result (if res = 0 then RPC_SRV_RESULT_SUCCESS else RPC_SRV_RESULT_FAIL) d, m\<lparr>EventMgr := ev\<rparr>))
   | _ \<Rightarrow> kfail BadDeref)"

definition process_event_process :: "('p, 's) rpc_fn" where
  "process_event_process env d m = on_req d (\<lambda>r. case rq_dataRef r of
     Some (P_EVENT p) \<Rightarrow>
       kret (0, set_result RPC_SRV_RESULT_SUCCESS d,
         m\<lparr>EventMgr := snd (process_event (ep_eventNum p) (ep_eventArg p) (ep_cltToken p) (ep_eventArg2 p) (EventMgr m))\<rparr>)
   | _ \<Rightarrow> kfail BadDeref)"

definition process_trigger_run :: "('p, 's) rpc_fn" where
  "process_trigger_run = push_common EJSON_RPCGMGR_TRIGGER_RUN WORK_CMD_AFTER_DONE_PRESERVE"

definition process_get_devop_state :: "('p, 's) rpc_fn" where
  "process_get_devop_state = ProcessWorkCmnRpc"

definition process_set_devop_state :: "('p, 's) rpc_fn" where
  "process_set_devop_state = push_common EJSON_RPCMGR_SET_DEVOP_STATE WORK_CMD_AFTER_DONE_PRESERVE"

section \<open>From packets to JSON\<close>

definition bin_to_json_get_task_sts :: "('p, 's) rpc_fn" where
  "bin_to_json_get_task_sts env = PREPARE_JSON_RESP_STRING ''taskStatus'' task_sts_of"

definition bin_to_json_get_rpc_srv_version :: "('p, 's) rpc_fn" where
  "bin_to_json_get_rpc_srv_version env = PREPARE_JSON_RESP_INT ''version'' value_of"

definition bin_to_json_trigger_datasave :: "('p, 's) rpc_fn" where
  "bin_to_json_trigger_datasave env = PREPARE_JSON_RESP_IN_PROG ''taskId''"

definition bin_to_json_get_settings_sts :: "('p, 's) rpc_fn" where
  "bin_to_json_get_settings_sts env = PREPARE_JSON_RESP_STRING ''status'' settings_sts_of"

definition bin_to_json_shutdown_service :: "('p, 's) rpc_fn" where
  "bin_to_json_shutdown_service env = PREPARE_JSON_RESP_IN_PROG ''taskId''"

definition bin_to_json_reset_task_sts :: "('p, 's) rpc_fn" where
  "bin_to_json_reset_task_sts env = PREPARE_JSON_RESP"

definition bin_to_json_get_ready_sts :: "('p, 's) rpc_fn" where
  "bin_to_json_get_ready_sts env = PREPARE_JSON_RESP_ENUM ''status'' RPCMGR_RPC_READY_STS_ARGSTS_TBL 3 enum_of"

definition bin_to_json_get_debug_logging :: "('p, 's) rpc_fn" where
  "bin_to_json_get_debug_logging env = PREPARE_JSON_RESP_ENUM ''status'' RPCMGR_RPC_DEBUG_LOG_ARGSTS_TBL 2 enum_of"

definition bin_to_json_set_debug_logging :: "('p, 's) rpc_fn" where
  "bin_to_json_set_debug_logging env = PREPARE_JSON_RESP"

definition bin_to_json_trigger_factory_store :: "('p, 's) rpc_fn" where
  "bin_to_json_trigger_factory_store env = PREPARE_JSON_RESP_IN_PROG ''taskId''"

definition bin_to_json_trigger_factory_restore :: "('p, 's) rpc_fn" where
  "bin_to_json_trigger_factory_restore env = PREPARE_JSON_RESP_IN_PROG ''taskId''"

definition bin_to_json_event_subscribe :: "('p, 's) rpc_fn" where
  "bin_to_json_event_subscribe env = PREPARE_JSON_RESP_INT ''srvToken'' srv_token_of"

definition bin_to_json_event_unsubscribe :: "('p, 's) rpc_fn" where
  "bin_to_json_event_unsubscribe env = PREPARE_JSON_RESP"

definition bin_to_json_event_notify :: "('p, 's) rpc_fn" where
  "bin_to_json_event_notify env = PREPARE_JSON_RESP"

definition bin_to_json_event_process :: "('p, 's) rpc_fn" where
  "bin_to_json_event_process env = PREPARE_JSON_RESP"

definition bin_to_json_trigger_run :: "('p, 's) rpc_fn" where
  "bin_to_json_trigger_run env = PREPARE_JSON_RESP_IN_PROG ''taskId''"

definition bin_to_json_get_devop_state :: "('p, 's) rpc_fn" where
  "bin_to_json_get_devop_state env = PREPARE_JSON_RESP_ENUM ''status'' RPCMGR_RPC_DEVOP_STATE_ARGSTS_TBL 10 enum_of"

definition bin_to_json_set_devop_state :: "('p, 's) rpc_fn" where
  "bin_to_json_set_devop_state env = PREPARE_JSON_RESP"

definition bin_to_json_get_mw_byte :: "('p, 's) rpc_fn" where
  "bin_to_json_get_mw_byte env = PREPARE_JSON_RESP_INT ''data'' (middleware_of (\<lambda>p. int (unat (mw_byte p))))"

definition bin_to_json_set_mw_byte :: "('p, 's) rpc_fn" where
  "bin_to_json_set_mw_byte env = PREPARE_JSON_RESP"

definition bin_to_json_get_mw_word :: "('p, 's) rpc_fn" where
  "bin_to_json_get_mw_word env = PREPARE_JSON_RESP_INT ''data'' (middleware_of (\<lambda>p. int (unat (mw_word p))))"

definition bin_to_json_set_mw_word :: "('p, 's) rpc_fn" where
  "bin_to_json_set_mw_word env = PREPARE_JSON_RESP"

definition bin_to_json_get_mw_dword :: "('p, 's) rpc_fn" where
  "bin_to_json_get_mw_dword env = PREPARE_JSON_RESP_INT ''data'' (middleware_of (\<lambda>p. sint (mw_dword p)))"

definition bin_to_json_set_mw_dword :: "('p, 's) rpc_fn" where
  "bin_to_json_set_mw_dword env = PREPARE_JSON_RESP"

section \<open>Dispatch\<close>

definition json_to_bin :: "EJSON_RPCGMGR_CMD \<Rightarrow> ('p, 's) rpc_fn" where
  "json_to_bin c = (case c of
     EJSON_RPCGMGR_GET_TASK_STS \<Rightarrow> json_to_bin_get_task_sts
   | EJSON_RPCGMGR_GET_RPC_SRV_VERSION \<Rightarrow> json_to_bin_get_rpc_srv_version
   | EJSON_RPCGMGR_TRIGGER_DATASAVE \<Rightarrow> json_to_bin_trigger_datasave
   | EJSON_RPCGMGR_GET_SETTINGS_STS \<Rightarrow> json_to_bin_get_settings_sts
   | EJSON_RPCGMGR_SHUTDOWN_SERVICE \<Rightarrow> json_to_bin_shutdown_service
   | EJSON_RPCGMGR_RESET_TASK_STS \<Rightarrow> json_to_bin_reset_task_sts
   | EJSON_RPCGMGR_GET_READY_STS \<Rightarrow> json_to_bin_get_ready_sts
   | EJSON_RPCGMGR_GET_DEBUG_LOG \<Rightarrow> json_to_bin_get_debug_logging
   | EJSON_RPCGMGR_SET_DEBUG_LOG \<Rightarrow> json_to_bin_set_debug_logging
   | EJSON_RPCGMGR_TRIGGER_FACTORY_STORE \<Rightarrow> json_to_bin_trigger_factory_store
   | EJSON_RPCGMGR_TRIGGER_FACTORY_RESTORE \<Rightarrow> json_to_bin_trigger_factory_restore
   | EJSON_RPCGMGR_EVENT_SUBSCRIBE \<Rightarrow> json_to_bin_event_subscribe
   | EJSON_RPCGMGR_EVENT_UNSUBSCRIBE \<Rightarrow> json_to_bin_event_unsubscribe
   | EJSON_RPCGMGR_EVENT_NOTIFY \<Rightarrow> json_to_bin_event_notify
   | EJSON_RPCGMGR_EVENT_PROCESS \<Rightarrow> json_to_bin_event_process
   | EJSON_RPCGMGR_TRIGGER_RUN \<Rightarrow> json_to_bin_trigger_run
   | EJSON_RPCMGR_GET_DEVOP_STATE \<Rightarrow> json_to_bin_get_devop_state
   | EJSON_RPCMGR_SET_DEVOP_STATE \<Rightarrow> json_to_bin_set_devop_state
   | EJSON_RPCMGR_GET_MW_BYTE \<Rightarrow> json_to_bin_get_mw_byte
   | EJSON_RPCMGR_SET_MW_BYTE \<Rightarrow> json_to_bin_set_mw_byte
   | EJSON_RPCMGR_GET_MW_WORD \<Rightarrow> json_to_bin_get_mw_word
   | EJSON_RPCMGR_SET_MW_WORD \<Rightarrow> json_to_bin_set_mw_word
   | EJSON_RPCMGR_GET_MW_DWORD \<Rightarrow> json_to_bin_get_mw_dword
   | EJSON_RPCMGR_SET_MW_DWORD \<Rightarrow> json_to_bin_set_mw_dword)"

definition bin_to_json :: "EJSON_RPCGMGR_CMD \<Rightarrow> ('p, 's) rpc_fn" where
  "bin_to_json c = (case c of
     EJSON_RPCGMGR_GET_TASK_STS \<Rightarrow> bin_to_json_get_task_sts
   | EJSON_RPCGMGR_GET_RPC_SRV_VERSION \<Rightarrow> bin_to_json_get_rpc_srv_version
   | EJSON_RPCGMGR_TRIGGER_DATASAVE \<Rightarrow> bin_to_json_trigger_datasave
   | EJSON_RPCGMGR_GET_SETTINGS_STS \<Rightarrow> bin_to_json_get_settings_sts
   | EJSON_RPCGMGR_SHUTDOWN_SERVICE \<Rightarrow> bin_to_json_shutdown_service
   | EJSON_RPCGMGR_RESET_TASK_STS \<Rightarrow> bin_to_json_reset_task_sts
   | EJSON_RPCGMGR_GET_READY_STS \<Rightarrow> bin_to_json_get_ready_sts
   | EJSON_RPCGMGR_GET_DEBUG_LOG \<Rightarrow> bin_to_json_get_debug_logging
   | EJSON_RPCGMGR_SET_DEBUG_LOG \<Rightarrow> bin_to_json_set_debug_logging
   | EJSON_RPCGMGR_TRIGGER_FACTORY_STORE \<Rightarrow> bin_to_json_trigger_factory_store
   | EJSON_RPCGMGR_TRIGGER_FACTORY_RESTORE \<Rightarrow> bin_to_json_trigger_factory_restore
   | EJSON_RPCGMGR_EVENT_SUBSCRIBE \<Rightarrow> bin_to_json_event_subscribe
   | EJSON_RPCGMGR_EVENT_UNSUBSCRIBE \<Rightarrow> bin_to_json_event_unsubscribe
   | EJSON_RPCGMGR_EVENT_NOTIFY \<Rightarrow> bin_to_json_event_notify
   | EJSON_RPCGMGR_EVENT_PROCESS \<Rightarrow> bin_to_json_event_process
   | EJSON_RPCGMGR_TRIGGER_RUN \<Rightarrow> bin_to_json_trigger_run
   | EJSON_RPCMGR_GET_DEVOP_STATE \<Rightarrow> bin_to_json_get_devop_state
   | EJSON_RPCMGR_SET_DEVOP_STATE \<Rightarrow> bin_to_json_set_devop_state
   | EJSON_RPCMGR_GET_MW_BYTE \<Rightarrow> bin_to_json_get_mw_byte
   | EJSON_RPCMGR_SET_MW_BYTE \<Rightarrow> bin_to_json_set_mw_byte
   | EJSON_RPCMGR_GET_MW_WORD \<Rightarrow> bin_to_json_get_mw_word
   | EJSON_RPCMGR_SET_MW_WORD \<Rightarrow> bin_to_json_set_mw_word
   | EJSON_RPCMGR_GET_MW_DWORD \<Rightarrow> bin_to_json_get_mw_dword
   | EJSON_RPCMGR_SET_MW_DWORD \<Rightarrow> bin_to_json_set_mw_dword)"

text \<open>The six functions of the middleware pass the call to the attached object.\<close>

definition process_common :: "EJSON_RPCGMGR_CMD \<Rightarrow> ('p, 's) rpc_fn" where
  "process_common c = (case c of
     EJSON_RPCGMGR_GET_TASK_STS \<Rightarrow> process_get_task_status
   | EJSON_RPCGMGR_GET_RPC_SRV_VERSION \<Rightarrow> process_rpc_server_version
   | EJSON_RPCGMGR_TRIGGER_DATASAVE \<Rightarrow> process_trigger_datasave
   | EJSON_RPCGMGR_GET_SETTINGS_STS \<Rightarrow> process_get_settings_status
   | EJSON_RPCGMGR_SHUTDOWN_SERVICE \<Rightarrow> process_shutdown_service
   | EJSON_RPCGMGR_RESET_TASK_STS \<Rightarrow> process_reset_task_sts
   | EJSON_RPCGMGR_GET_READY_STS \<Rightarrow> process_get_ready_status
   | EJSON_RPCGMGR_GET_DEBUG_LOG \<Rightarrow> process_get_debug_logging
   | EJSON_RPCGMGR_SET_DEBUG_LOG \<Rightarrow> process_set_debug_logging
   | EJSON_RPCGMGR_TRIGGER_FACTORY_STORE \<Rightarrow> process_trigger_factory_store
   | EJSON_RPCGMGR_TRIGGER_FACTORY_RESTORE \<Rightarrow> process_trigger_factory_restore
   | EJSON_RPCGMGR_EVENT_SUBSCRIBE \<Rightarrow> process_event_subscribe
   | EJSON_RPCGMGR_EVENT_UNSUBSCRIBE \<Rightarrow> process_event_unsubscribe
   | EJSON_RPCGMGR_EVENT_NOTIFY \<Rightarrow> process_event_notify
   | EJSON_RPCGMGR_EVENT_PROCESS \<Rightarrow> process_event_process
   | EJSON_RPCGMGR_TRIGGER_RUN \<Rightarrow> process_trigger_run
   | EJSON_RPCMGR_GET_DEVOP_STATE \<Rightarrow> process_get_devop_state
   | EJSON_RPCMGR_SET_DEVOP_STATE \<Rightarrow> process_set_devop_state
   | _ \<Rightarrow> ProcessWorkCmnRpc)"

definition MyMapJsonToBinary :: "('p, 's) rpc_fn" where
  "MyMapJsonToBinary env d m = (case cmd_of (d_cmd_index d) of None \<Rightarrow> kret (-1, d, m) | Some c \<Rightarrow> json_to_bin c env d m)"

definition MyMapBinaryToJson :: "('p, 's) rpc_fn" where
  "MyMapBinaryToJson env d m = (case cmd_of (d_cmd_index d) of None \<Rightarrow> kret (-1, d, m) | Some c \<Rightarrow> bin_to_json c env d m)"

definition MyProcessWork :: "('p, 's) rpc_fn" where
  "MyProcessWork env d m = (case cmd_of (d_cmd_index d) of None \<Rightarrow> kret (-1, d, m) | Some c \<Rightarrow> process_common c env d m)"

definition create_req_obj :: "('p, 's) rpc_fn" where
  "create_req_obj env d m =
     kret (0, d\<lparr>d_obj := Some \<lparr>rq_action = RPC_SRV_ACT_READ, rq_cmd = sint (junk_int env), rq_clientId = d_req_id d, rq_reqIdent = 0,
       rq_result = RPC_SRV_RESULT_NOT_STARTED, rq_dataRef = None\<rparr>\<rparr>, m\<lparr>blocks := blocks m + 1\<rparr>)"

text \<open>
  The code deletes the object and leaves the pointer to it in the request; \<open>None\<close> stands for a null pointer and for this one, which the
  manager does not use any more for this request.
\<close>

definition delete_req_obj :: "'p rpc_data \<Rightarrow> ('p, 's) rpc_mgr \<Rightarrow> ('p, 's) step_res" where
  "delete_req_obj d m = (case d_obj d of
     None \<Rightarrow> kret (0, d, m) | Some _ \<Rightarrow> kret (0, d\<lparr>d_obj := None\<rparr>, m\<lparr>blocks := blocks m - 1\<rparr>))"

definition mgr_json_to_binary :: "('p, 's) rpc_fn" where
  "mgr_json_to_binary env d m =
     kbind (create_req_obj env d m) (\<lambda>(r, d, m).
     if r \<noteq> 0 then kret (-1, d, m)
     else kbind (if EJSON_RPCGMGR_CMD_END \<le> d_cmd_index d then MapJsonToBinary env d m else MyMapJsonToBinary env d m)
       (\<lambda>(result, d, m).
       if result \<noteq> 0 then kbind (delete_req_obj d m) (\<lambda>(_, d, m). kret (result, d, m)) else kret (result, d, m)))"

definition mgr_binary_to_json :: "('p, 's) rpc_fn" where
  "mgr_binary_to_json env d m =
     kbind (if EJSON_RPCGMGR_CMD_END \<le> d_cmd_index d then MapBinaryToJson env d m else MyMapBinaryToJson env d m)
       (\<lambda>(result, d, m). kbind (delete_req_obj d m) (\<lambda>(_, d, m). kret (result, d, m)))"

definition mgr_process_work :: "('p, 's) rpc_fn" where
  "mgr_process_work env d m =
     (if EJSON_RPCGMGR_CMD_END \<le> d_cmd_index d then ProcessWork env d m else MyProcessWork env d m)"

text \<open>What the mapper thread does with a request of this manager.\<close>

definition mgr_run_method :: "('p, 's) mgr_env \<Rightarrow> 'p rpc_data \<Rightarrow> ('p, 's) rpc_mgr \<Rightarrow> ('p rpc_data \<times> ('p, 's) rpc_mgr) kres" where
  "mgr_run_method env d m =
     kbind (mgr_json_to_binary env d m) (\<lambda>(r, d, m).
     if r \<noteq> 0 then kret (d, m)
     else kbind (mgr_process_work env d m) (\<lambda>(_, d, m).
       kbind (mgr_binary_to_json env d m) (\<lambda>(_, d, m). kret (d, m))))"

section \<open>Tasks\<close>

definition run_work ::
  "('p, 's) mgr_env \<Rightarrow> int \<Rightarrow> 'p packet \<Rightarrow> ('p, 's) rpc_mgr \<Rightarrow> (RPC_SRV_RESULT \<times> ('p, 's) rpc_mgr) kres" where
  "run_work env c dat m =
     (if EJSON_RPCGMGR_CMD_END \<le> c then AsyncTaskWork env c dat m
      else (case cmd_of c of
        Some EJSON_RPCGMGR_SHUTDOWN_SERVICE \<Rightarrow>
          kret (RPC_SRV_RESULT_SUCCESS, m\<lparr>timer_exit := True, blocks := blocks m - 1\<rparr>)
      | Some x \<Rightarrow>
          if x = EJSON_RPCGMGR_TRIGGER_DATASAVE \<or> x = EJSON_RPCGMGR_TRIGGER_FACTORY_STORE \<or>
             x = EJSON_RPCGMGR_TRIGGER_FACTORY_RESTORE \<or> x = EJSON_RPCGMGR_TRIGGER_RUN \<or> x = EJSON_RPCMGR_SET_DEVOP_STATE
          then kbind (CmnRpcHandler env (of_int c) dat m) (\<lambda>(res, m). kret (res, m\<lparr>blocks := blocks m - 1\<rparr>))
          else kret (RPC_SRV_RESULT_FAIL, m)
      | None \<Rightarrow> kret (RPC_SRV_RESULT_FAIL, m)))"

text \<open>A round of the worker thread of the manager.\<close>

definition mgr_worker_round :: "('p, 's) mgr_env \<Rightarrow> ('p, 's) rpc_mgr \<Rightarrow> ('p, 's) rpc_mgr kres" where
  "mgr_worker_round env m = (case take_task (AsyncTaskWorker m) of
     (None, wk) \<Rightarrow> kret (m\<lparr>AsyncTaskWorker := wk\<rparr>)
   | (Some w, wk) \<Rightarrow>
       kbind (run_work env (sint (w_command w)) (pWorkData w) (m\<lparr>AsyncTaskWorker := wk\<rparr>)) (\<lambda>(res, m).
       kret (m\<lparr>AsyncTaskWorker := finish_task (\<lambda>_ _. res) w (AsyncTaskWorker m)\<rparr>)))"

section \<open>Starting\<close>

definition common_names :: "string list" where
  "common_names = [''get_rpc_req_status'', ''get_rpc_srv_version'', ''trigger_settings_save'', ''get_settings_status'',
     ''trigger_shutdown'', ''reset_task_status'', ''get_ready_status'', ''get_debug_logging'', ''set_debug_logging'',
     ''trigger_factory_store'', ''trigger_factory_restore'', ''subscribe_event'', ''unsubscribe_event'', ''notify_event'',
     ''process_event'', ''run_now'', ''get_devop_state'', ''set_devop_state'', ''read_byte'', ''write_byte'', ''read_word'',
     ''write_word'', ''read_dword'', ''write_dword'']"

fun attach_names :: "int \<Rightarrow> string list \<Rightarrow> rpc \<Rightarrow> rpc" where
  "attach_names i [] st = st"
| "attach_names i (n # ns) st = attach_names (i + 1) ns (snd (attach_rpc_method n i st))"

text \<open>The loop over the attached objects from position \<open>i\<close>.\<close>

fun attach_objects :: "nat \<Rightarrow> ADJsonRpcMgrConsumer list \<Rightarrow> rpc \<Rightarrow> (ADJsonRpcMgrConsumer list \<times> rpc) kres" where
  "attach_objects i [] st = kret ([], st)"
| "attach_objects i (c # cs) st =
     kbind (sprintf_s 1024 (strRpcName c)) (\<lambda>rpc_name.
     let j = int i + EJSON_RPCGMGR_CMD_END; st = snd (attach_rpc_method rpc_name j st) in
     kbind (attach_objects (i + 1) cs st) (\<lambda>(cs, st). kret (c\<lparr>parent_index := j\<rparr> # cs, st)))"

definition mgr_Start :: "('p, 's) rpc_mgr \<Rightarrow> rpc \<Rightarrow> (('p, 's) rpc_mgr \<times> rpc) kres" where
  "mgr_Start m st =
     kbind (attach_objects 0 (rpclist m) (attach_names 0 common_names st)) (\<lambda>(cs, st). kret (m\<lparr>rpclist := cs\<rparr>, st))"

definition mgr_new :: "s32 \<Rightarrow> bool \<Rightarrow> 's \<Rightarrow> ('p, 's) rpc_mgr" where
  "mgr_new ver debuglog s = \<lparr>svnVersion = ver, shutdown_support = True, ServiceReadyFlag = 0, ServiceDebugFlag = debuglog,
     rpclist = [], eventReceiver = [], AsyncTaskWorker = tw_init, EventMgr = AttachReceiver 0 ev_new, mgr_puts = 0,
     timer_exit = False, blocks = 0, service = s\<rparr>"

definition SupportShutdownRpc :: "bool \<Rightarrow> ('p, 's) rpc_mgr \<Rightarrow> int \<times> ('p, 's) rpc_mgr" where
  "SupportShutdownRpc support m = (0, m\<lparr>shutdown_support := support\<rparr>)"

definition SetServiceReadyFlag :: "u32 \<Rightarrow> ('p, 's) rpc_mgr \<Rightarrow> int \<times> ('p, 's) rpc_mgr" where
  "SetServiceReadyFlag sts m = (0, m\<lparr>ServiceReadyFlag := sts\<rparr>)"

end
