(* ===== verification/Json_Client.thy ===== *)
theory Json_Client
  imports Rpc_Mgr
begin

text \<open>
  The client of the services, \<open>ADJsonRpcClient.cpp\<close> with its socket \<open>ADNetClient.cpp\<close>, both under
  \<open>src/sources/lib/lib-adav-old/src/\<close>. Each function of the class builds a request, sends it, waits for the answer
  and reads the result and some values from it. The functions come in many copies that differ in the number and the types
  of the parameters: here each of them names its parameters, and \<open>request_text\<close>, \<open>find_fields\<close> and \<open>rpc_exchange\<close>
  hold what they share. A function of the class that has several signatures has several definitions; the letters at the
  end are the types of the parameters, and \<open>last\<close> marks those that take the send buffer as their last argument. Numbers
  with a fraction are kept as the text that \<open>atof\<close> reads or the library prints; the arrays of the caller that values
  are copied to are taken to be large enough. The socket functions of the system are parameters that act on the
  surroundings \<open>w\<close>.
\<close>

section \<open>The socket\<close>

record 'w socket =
  sock_open :: "string \<Rightarrow> s32 \<Rightarrow> 'w \<Rightarrow> bool \<times> 'w"
  sock_close :: "'w \<Rightarrow> 'w"
  sock_send :: "string \<Rightarrow> 'w \<Rightarrow> 'w"
  sock_recv :: "nat \<Rightarrow> 'w \<Rightarrow> string option \<times> 'w"

text \<open>\<open>connected\<close> of the client and \<open>net_connected\<close> of its socket; the buffers hold what a reader of the string sees.\<close>

record rpc_client =
  req_id :: s32
  clt_connected :: bool
  net_connected :: bool
  net_ip :: string
  net_port :: s32
  send_buffer :: string
  recv_buffer :: string

definition client_new :: rpc_client where
  "client_new = \<lparr>req_id = 0, clt_connected = False, net_connected = False, net_ip = [], net_port = -1, send_buffer = [], recv_buffer = []\<rparr>"

definition sock_connect_again :: "'w socket \<Rightarrow> rpc_client \<Rightarrow> 'w \<Rightarrow> int \<times> rpc_client \<times> 'w" where
  "sock_connect_again sk c w =
     (if net_connected c then (-1, c, w)
      else if sint (net_port c) < 1 then (-1, c, w)
      else if net_ip c = [] then (-1, c, w)
      else case sock_open sk (net_ip c) (net_port c) w of (ok, w) \<Rightarrow>
        if ok then (0, c\<lparr>net_connected := True\<rparr>, w) else (-1, c, w))"

definition sock_connect :: "'w socket \<Rightarrow> string \<Rightarrow> s32 \<Rightarrow> rpc_client \<Rightarrow> 'w \<Rightarrow> int \<times> rpc_client \<times> 'w" where
  "sock_connect sk ip_addr port_num c w =
     (if net_connected c then (-1, c, w)
      else if sint port_num < 1 then (-1, c, w)
      else if ip_addr = [] then (-1, c, w)
      else sock_connect_again sk (c\<lparr>net_port := port_num, net_ip := ip_addr\<rparr>) w)"

definition sock_disconnect :: "'w socket \<Rightarrow> rpc_client \<Rightarrow> 'w \<Rightarrow> int \<times> rpc_client \<times> 'w" where
  "sock_disconnect sk c w = (0, c\<lparr>net_connected := False\<rparr>, if net_connected c then sock_close sk w else w)"

definition send_data :: "'w socket \<Rightarrow> string \<Rightarrow> 'w \<Rightarrow> 'w" where
  "send_data sk s w = sock_send sk (s @ [CHR 0x00]) w"

text \<open>The loop of \<open>receive_data_blocking\<close> with \<open>n\<close> rounds left.\<close>

fun clt_recv_loop :: "'w socket \<Rightarrow> nat \<Rightarrow> nat \<Rightarrow> 'w \<Rightarrow> string option \<times> 'w" where
  "clt_recv_loop sk len 0 w = sock_recv sk len w"
| "clt_recv_loop sk len (Suc n) w = (case sock_recv sk len w of
     (Some s, w) \<Rightarrow> (Some s, w) | (None, w) \<Rightarrow> clt_recv_loop sk len n w)"

definition MAX_RECV_BUFFER_SIZE :: nat where
  "MAX_RECV_BUFFER_SIZE = 1400"

definition MAX_SEND_BUFFER_SIZE :: nat where
  "MAX_SEND_BUFFER_SIZE = 1400"

text \<open>The receive buffer is passed with its whole size, and the terminating null is stored after what was received.\<close>

definition receive_data_blocking :: "'w socket \<Rightarrow> nat \<Rightarrow> rpc_client \<Rightarrow> 'w \<Rightarrow> (int \<times> rpc_client \<times> 'w) kres" where
  "receive_data_blocking sk timeout_ms c w =
     (if \<not> net_connected c then kret (-1, c, w)
      else case clt_recv_loop sk MAX_RECV_BUFFER_SIZE timeout_ms w of
        (None, w) \<Rightarrow> kret (-1, c, w)
      | (Some s, w) \<Rightarrow>
          if MAX_RECV_BUFFER_SIZE \<le> length s then kfail BufferOverrun
          else kret (int (length s), c\<lparr>recv_buffer := takeWhile (\<lambda>x. x \<noteq> CHR 0x00) s\<rparr>, w))"

definition rpc_server_connect :: "'w socket \<Rightarrow> string \<Rightarrow> s32 \<Rightarrow> rpc_client \<Rightarrow> 'w \<Rightarrow> int \<times> rpc_client \<times> 'w" where
  "rpc_server_connect sk ip_addr port_num c w =
     (if clt_connected c then (-1, c, w)
      else case sock_connect sk ip_addr port_num c w of (r, c, w) \<Rightarrow>
        if r = 0 then (0, c\<lparr>clt_connected := True\<rparr>, w) else (-1, c, w))"

definition rpc_server_disconnect :: "'w socket \<Rightarrow> rpc_client \<Rightarrow> 'w \<Rightarrow> int \<times> rpc_client \<times> 'w" where
  "rpc_server_disconnect sk c w =
     (case (if clt_connected c then sock_disconnect sk c w else (0, c, w)) of (_, c, w) \<Rightarrow> (0, c\<lparr>clt_connected := False\<rparr>, w))"

section \<open>What the functions share\<close>

text \<open>The surroundings of the client: the JSON library and its \<open>json_object_get_int\<close>, and the largest \<open>unsigned long\<close>.\<close>

record client_env =
  clib :: json_lib
  get_int :: "json \<Rightarrow> s32"
  clt_ulong_max :: nat

datatype arg = AInt s32 | ALong "64 word" | ADbl string | AStr string

fun arg_json :: "arg \<Rightarrow> json" where
  "arg_json (AInt i) = JInt (sint i)"
| "arg_json (ALong v) = JInt (sint v)"
| "arg_json (ADbl t) = JDouble t"
| "arg_json (AStr s) = JStr s"

definition params_json :: "(string \<times> arg) list \<Rightarrow> json" where
  "params_json ps = JObj (fold (\<lambda>(k, a) ms. object_add k (arg_json a) ms) ps [])"

definition request_json :: "string \<Rightarrow> s32 \<Rightarrow> (string \<times> arg) list \<Rightarrow> json" where
  "request_json rpc ID ps = JObj ([(''jsonrpc'', JStr ''2.0''), (''method'', JStr rpc)] @
     (if ps = [] then [] else [(''params'', params_json ps)]) @ [(''id'', JInt (sint ID))])"

text \<open>The text is copied to the send buffer.\<close>

definition request_text :: "client_env \<Rightarrow> string \<Rightarrow> s32 \<Rightarrow> (string \<times> arg) list \<Rightarrow> string kres" where
  "request_text env rpc ID ps = sprintf_s MAX_SEND_BUFFER_SIZE (to_json_string (clib env) (request_json rpc ID ps))"

text \<open>
  How a value is taken from the answer: with \<open>atoi\<close>, \<open>atof\<close> or \<open>sprintf\<close> from its text, with \<open>json_object_get_int\<close>, or with \<open>atof\<close>
  after a test of the object only.
\<close>

datatype kind = KAtoi | KAtof | KStr | KInt | KAtofObj

datatype out = OInt s32 | ODbl string | OStr string

text \<open>The loop over the values: the first that is missing ends it, and the others are not stored.\<close>

fun read_fields :: "client_env \<Rightarrow> json \<Rightarrow> (string \<times> kind) list \<Rightarrow> out option list kres" where
  "read_fields env ob [] = kret []"
| "read_fields env ob ((n, k) # fs) =
     (let v = object_get (clib env) ob n; s = get_string (clib env) v; stop = kret (map (\<lambda>_. None) ((n, k) # fs)) in
      if k = KAtofObj then
        (case v of None \<Rightarrow> stop
         | Some _ \<Rightarrow> (case s of None \<Rightarrow> kfail BadDeref
             | Some t \<Rightarrow> kbind (read_fields env ob fs) (\<lambda>rest. kret (Some (ODbl t) # rest))))
      else (case s of None \<Rightarrow> stop
        | Some t \<Rightarrow>
            let r = (case k of KAtoi \<Rightarrow> OInt (atoi t) | KAtof \<Rightarrow> ODbl t | KStr \<Rightarrow> OStr t
              | _ \<Rightarrow> OInt (case v of Some ob' \<Rightarrow> get_int env ob' | None \<Rightarrow> 0)) in
            kbind (read_fields env ob fs) (\<lambda>rest. kret (Some r # rest))))"

text \<open>The result code, the text of the result and the values; the text is copied to an array of 255 characters.\<close>

type_synonym answer = "int \<times> string \<times> out option list"

definition find_fields :: "client_env \<Rightarrow> string \<Rightarrow> string \<Rightarrow> (string \<times> kind) list \<Rightarrow> answer kres" where
  "find_fields env js ret fs =
     (let lib = clib env; none = kret (-1, [], map (\<lambda>_. None) fs) in
      case tokener_parse lib js of
        None \<Rightarrow> none
      | Some new_obj \<Rightarrow>
          (let new_obj1 = object_get lib new_obj ''result'' in
           case get_string lib new_obj1 of
             None \<Rightarrow> none
           | Some _ \<Rightarrow>
               (case new_obj1 of
                  None \<Rightarrow> none
                | Some ob \<Rightarrow>
                    (case get_string lib (object_get lib ob ret) of
                       None \<Rightarrow> none
                     | Some t \<Rightarrow> kbind (sprintf_s 255 t) (\<lambda>t. kbind (read_fields env ob fs) (\<lambda>outs. kret (0, t, outs)))))))"

type_synonym 'w call_res = "(RPC_SRV_RESULT \<times> out option list \<times> rpc_client \<times> 'w) kres"

definition rpc_exchange :: "'w socket \<Rightarrow> nat \<Rightarrow> string kres \<Rightarrow> (string \<Rightarrow> answer kres) \<Rightarrow> rpc_client \<Rightarrow> 'w \<Rightarrow> 'w call_res" where
  "rpc_exchange sk timeout_ms request look c w =
     kbind request (\<lambda>s.
     let c = c\<lparr>req_id := req_id c + 1, send_buffer := s\<rparr>; w = send_data sk (send_buffer c) w in
     kbind (receive_data_blocking sk timeout_ms c w) (\<lambda>(_, c, w).
     kbind (look (recv_buffer c)) (\<lambda>(r, t, outs).
     kret (if r \<noteq> 0 then RPC_SRV_RESULT_UNKNOWN else convert_string_to_server_result t, outs, c, w))))"

text \<open>Some of the functions store a string first, which stays when there is no value.\<close>

definition preset :: "string \<Rightarrow> 'w call_res \<Rightarrow> 'w call_res" where
  "preset s r = kbind r (\<lambda>(res, outs, c, w). kret (res, map (\<lambda>x. case x of None \<Rightarrow> Some (OStr s) | Some v \<Rightarrow> Some v) outs, c, w))"

text \<open>The names and values of \<open>CmdExecutionObj\<close>, the first at position 0.\<close>

record CmdExecutionObj =
  get_rpc_name :: string
  set_rpc_name :: string
  arg_name :: "nat \<Rightarrow> string"
  arg_value :: "nat \<Rightarrow> string"
  arg_int :: "nat \<Rightarrow> s32"
  arg_double :: "nat \<Rightarrow> string"

text \<open>Names and texts of values, where a function takes many of them.\<close>

type_synonym key = string

section \<open>Requests\<close>

definition prepare_json_request :: "client_env \<Rightarrow> string \<Rightarrow> s32 \<Rightarrow> string kres" where
  "prepare_json_request env rpc ID = request_text env rpc ID []"

definition prepare_json_request_s :: "client_env \<Rightarrow> string \<Rightarrow> s32 \<Rightarrow> string \<Rightarrow> string \<Rightarrow> string kres" where
  "prepare_json_request_s env rpc ID n v = request_text env rpc ID [(n, AStr v)]"

definition prepare_json_request_i :: "client_env \<Rightarrow> string \<Rightarrow> s32 \<Rightarrow> string \<Rightarrow> s32 \<Rightarrow> string kres" where
  "prepare_json_request_i env rpc ID n v = request_text env rpc ID [(n, AInt v)]"

definition prepare_json_request_ii_last :: "client_env \<Rightarrow> string \<Rightarrow> s32 \<Rightarrow> string \<Rightarrow> s32 \<Rightarrow> string \<Rightarrow> s32 \<Rightarrow> string kres" where
  "prepare_json_request_ii_last env rpc ID name1 value1 name2 value2 = request_text env rpc ID [(name1, AInt value1), (name2, AInt value2)]"

definition prepare_json_request_iii_last :: "client_env \<Rightarrow> string \<Rightarrow> s32 \<Rightarrow> string \<Rightarrow> s32 \<Rightarrow> string \<Rightarrow> s32 \<Rightarrow> string \<Rightarrow> s32 \<Rightarrow> string kres" where
  "prepare_json_request_iii_last env rpc ID name1 value1 name2 value2 name3 value3 = request_text env rpc ID [(name1, AInt value1), (name2, AInt value2), (name3, AInt value3)]"

definition prepare_json_request_is_last :: "client_env \<Rightarrow> string \<Rightarrow> s32 \<Rightarrow> string \<Rightarrow> s32 \<Rightarrow> string \<Rightarrow> string \<Rightarrow> string kres" where
  "prepare_json_request_is_last env rpc ID name1 value1 name2 value2 = request_text env rpc ID [(name1, AInt value1), (name2, AStr value2)]"

definition prepare_json_request_i_last :: "client_env \<Rightarrow> string \<Rightarrow> s32 \<Rightarrow> string \<Rightarrow> s32 \<Rightarrow> string kres" where
  "prepare_json_request_i_last env rpc ID n v = request_text env rpc ID [(n, AInt v)]"

definition prepare_json_request_ii :: "client_env \<Rightarrow> string \<Rightarrow> s32 \<Rightarrow> string \<Rightarrow> s32 \<Rightarrow> string \<Rightarrow> s32 \<Rightarrow> string kres" where
  "prepare_json_request_ii env rpc ID name1 value1 name2 value2 = request_text env rpc ID [(name1, AInt value1), (name2, AInt value2)]"

definition prepare_json_request_is :: "client_env \<Rightarrow> string \<Rightarrow> s32 \<Rightarrow> string \<Rightarrow> s32 \<Rightarrow> string \<Rightarrow> string \<Rightarrow> string kres" where
  "prepare_json_request_is env rpc ID name1 value1 name2 value2 = request_text env rpc ID [(name1, AInt value1), (name2, AStr value2)]"

definition prepare_json_request_ss :: "client_env \<Rightarrow> string \<Rightarrow> s32 \<Rightarrow> key \<Rightarrow> key \<Rightarrow> key \<Rightarrow> key \<Rightarrow> string kres" where
  "prepare_json_request_ss env rpc ID name1 value1 name2 value2 = request_text env rpc ID [(name1, AStr value1), (name2, AStr value2)]"

definition prepare_json_request_si :: "client_env \<Rightarrow> string \<Rightarrow> s32 \<Rightarrow> key \<Rightarrow> key \<Rightarrow> key \<Rightarrow> s32 \<Rightarrow> string kres" where
  "prepare_json_request_si env rpc ID name1 value1 name2 value2 = request_text env rpc ID [(name1, AStr value1), (name2, AInt value2)]"

definition prepare_json_request_sss :: "client_env \<Rightarrow> string \<Rightarrow> s32 \<Rightarrow> key \<Rightarrow> key \<Rightarrow> key \<Rightarrow> key \<Rightarrow> key \<Rightarrow> key \<Rightarrow> string kres" where
  "prepare_json_request_sss env rpc ID name1 value1 name2 value2 name3 value3 = request_text env rpc ID [(name1, AStr value1), (name2, AStr value2), (name3, AStr value3)]"

definition prepare_json_request_ssss :: "client_env \<Rightarrow> string \<Rightarrow> s32 \<Rightarrow> key \<Rightarrow> key \<Rightarrow> key \<Rightarrow> key \<Rightarrow> key \<Rightarrow> key \<Rightarrow> key \<Rightarrow> key \<Rightarrow> string kres" where
  "prepare_json_request_ssss env rpc ID name1 value1 name2 value2 name3 value3 name4 value4 = request_text env rpc ID [(name1, AStr value1), (name2, AStr value2), (name3, AStr value3), (name4, AStr value4)]"

definition prepare_json_request_sssssssss :: "client_env \<Rightarrow> string \<Rightarrow> s32 \<Rightarrow> key \<Rightarrow> key \<Rightarrow> key \<Rightarrow> key \<Rightarrow> key \<Rightarrow> key \<Rightarrow> key \<Rightarrow> key \<Rightarrow> key \<Rightarrow> key \<Rightarrow> key \<Rightarrow> key \<Rightarrow> key \<Rightarrow> key \<Rightarrow> key \<Rightarrow> key \<Rightarrow> key \<Rightarrow> key \<Rightarrow> string kres" where
  "prepare_json_request_sssssssss env rpc ID name1 value1 name2 value2 name3 value3 name4 value4 name5 value5 name6 value6 name7 value7 name8 value8 name9 value9 = request_text env rpc ID [(name1, AStr value1), (name2, AStr value2), (name3, AStr value3), (name4, AStr value4), (name5, AStr value5), (name6, AStr value6), (name7, AStr value7), (name8, AStr value8), (name9, AStr value9)]"

definition prepare_json_request_siii :: "client_env \<Rightarrow> string \<Rightarrow> s32 \<Rightarrow> key \<Rightarrow> key \<Rightarrow> key \<Rightarrow> s32 \<Rightarrow> string \<Rightarrow> s32 \<Rightarrow> string \<Rightarrow> s32 \<Rightarrow> string kres" where
  "prepare_json_request_siii env rpc ID name1 value1 name2 value2 name3 value3 name4 value4 = request_text env rpc ID [(name1, AStr value1), (name2, AInt value2), (name3, AInt value3), (name4, AInt value4)]"

definition prepare_json_request_ssiii :: "client_env \<Rightarrow> string \<Rightarrow> s32 \<Rightarrow> key \<Rightarrow> key \<Rightarrow> key \<Rightarrow> key \<Rightarrow> key \<Rightarrow> s32 \<Rightarrow> string \<Rightarrow> s32 \<Rightarrow> string \<Rightarrow> s32 \<Rightarrow> string kres" where
  "prepare_json_request_ssiii env rpc ID name1 value1 name2 value2 name3 value3 name4 value4 name5 value5 = request_text env rpc ID [(name1, AStr value1), (name2, AStr value2), (name3, AInt value3), (name4, AInt value4), (name5, AInt value5)]"

definition prepare_json_request_lll :: "client_env \<Rightarrow> string \<Rightarrow> s32 \<Rightarrow> string \<Rightarrow> 64 word \<Rightarrow> string \<Rightarrow> 64 word \<Rightarrow> string \<Rightarrow> 64 word \<Rightarrow> string kres" where
  "prepare_json_request_lll env rpc ID name1 value1 name2 value2 name3 value3 = request_text env rpc ID [(name1, ALong value1), (name2, ALong value2), (name3, ALong value3)]"

definition prepare_json_request_sssss :: "client_env \<Rightarrow> string \<Rightarrow> s32 \<Rightarrow> key \<Rightarrow> key \<Rightarrow> key \<Rightarrow> key \<Rightarrow> key \<Rightarrow> key \<Rightarrow> key \<Rightarrow> key \<Rightarrow> key \<Rightarrow> key \<Rightarrow> string kres" where
  "prepare_json_request_sssss env rpc ID name1 value1 name2 value2 name3 value3 name4 value4 name5 value5 = request_text env rpc ID [(name1, AStr value1), (name2, AStr value2), (name3, AStr value3), (name4, AStr value4), (name5, AStr value5)]"

definition prepare_json_request_three_int_two_string :: "client_env \<Rightarrow> string \<Rightarrow> s32 \<Rightarrow> string \<Rightarrow> s32 \<Rightarrow> string \<Rightarrow> s32 \<Rightarrow> string \<Rightarrow> s32 \<Rightarrow> key \<Rightarrow> key \<Rightarrow> key \<Rightarrow> key \<Rightarrow> string kres" where
  "prepare_json_request_three_int_two_string env rpc ID name1 value1 name2 value2 name3 value3 name4 value4 name5 value5 = request_text env rpc ID [(name1, AInt value1), (name2, AInt value2), (name3, AInt value3), (name4, AStr value4), (name5, AStr value5)]"

definition prepare_json_request_four_int :: "client_env \<Rightarrow> string \<Rightarrow> s32 \<Rightarrow> string \<Rightarrow> s32 \<Rightarrow> string \<Rightarrow> s32 \<Rightarrow> string \<Rightarrow> s32 \<Rightarrow> string \<Rightarrow> s32 \<Rightarrow> string kres" where
  "prepare_json_request_four_int env rpc ID name1 value1 name2 value2 name3 value3 name4 value4 = request_text env rpc ID [(name1, AInt value1), (name2, AInt value2), (name3, AInt value3), (name4, AInt value4)]"

definition prepare_json_request_four_int_two_string :: "client_env \<Rightarrow> string \<Rightarrow> s32 \<Rightarrow> string \<Rightarrow> s32 \<Rightarrow> string \<Rightarrow> s32 \<Rightarrow> string \<Rightarrow> s32 \<Rightarrow> string \<Rightarrow> s32 \<Rightarrow> key \<Rightarrow> key \<Rightarrow> key \<Rightarrow> key \<Rightarrow> string kres" where
  "prepare_json_request_four_int_two_string env rpc ID name1 value1 name2 value2 name3 value3 name4 value4 name5 value5 name6 value6 = request_text env rpc ID [(name1, AInt value1), (name2, AInt value2), (name3, AInt value3), (name4, AInt value4), (name5, AStr value5), (name6, AStr value6)]"

definition prepare_json_request_two_int_two_string :: "client_env \<Rightarrow> string \<Rightarrow> s32 \<Rightarrow> string \<Rightarrow> s32 \<Rightarrow> string \<Rightarrow> s32 \<Rightarrow> key \<Rightarrow> key \<Rightarrow> key \<Rightarrow> key \<Rightarrow> string kres" where
  "prepare_json_request_two_int_two_string env rpc ID name1 value1 name2 value2 name3 value3 name4 value4 = request_text env rpc ID [(name1, AInt value1), (name2, AInt value2), (name3, AStr value3), (name4, AStr value4)]"

definition prepare_json_request_two_int_one_double_one_string :: "client_env \<Rightarrow> string \<Rightarrow> s32 \<Rightarrow> string \<Rightarrow> s32 \<Rightarrow> key \<Rightarrow> key \<Rightarrow> key \<Rightarrow> key \<Rightarrow> key \<Rightarrow> s32 \<Rightarrow> string kres" where
  "prepare_json_request_two_int_one_double_one_string env rpc ID name1 value1 name2 value2 name3 value3 name4 value4 = request_text env rpc ID [(name1, AInt value1), (name2, ADbl value2), (name3, AStr value3), (name4, AInt value4)]"

definition prepare_json_request_seven_int_param :: "client_env \<Rightarrow> string \<Rightarrow> s32 \<Rightarrow> string \<Rightarrow> s32 \<Rightarrow> string \<Rightarrow> s32 \<Rightarrow> string \<Rightarrow> s32 \<Rightarrow> string \<Rightarrow> s32 \<Rightarrow> string \<Rightarrow> s32 \<Rightarrow> string \<Rightarrow> s32 \<Rightarrow> string \<Rightarrow> s32 \<Rightarrow> string kres" where
  "prepare_json_request_seven_int_param env rpc ID name1 value1 name2 value2 name3 value3 name4 value4 name5 value5 name6 value6 name7 value7 = request_text env rpc ID [(name1, AInt value1), (name2, AInt value2), (name3, AInt value3), (name4, AInt value4), (name5, AInt value5), (name6, AInt value6), (name7, AInt value7)]"

definition prepare_json_request_single_int_nine_double_param :: "client_env \<Rightarrow> string \<Rightarrow> s32 \<Rightarrow> string \<Rightarrow> s32 \<Rightarrow> key \<Rightarrow> key \<Rightarrow> key \<Rightarrow> key \<Rightarrow> key \<Rightarrow> key \<Rightarrow> key \<Rightarrow> key \<Rightarrow> key \<Rightarrow> key \<Rightarrow> key \<Rightarrow> key \<Rightarrow> key \<Rightarrow> key \<Rightarrow> key \<Rightarrow> key \<Rightarrow> key \<Rightarrow> key \<Rightarrow> string kres" where
  "prepare_json_request_single_int_nine_double_param env rpc ID name1 value1 name2 value2 name3 value3 name4 value4 name5 value5 name6 value6 name7 value7 name8 value8 name9 value9 name10 value10 = request_text env rpc ID [(name1, AInt value1), (name2, ADbl value2), (name3, ADbl value3), (name4, ADbl value4), (name5, ADbl value5), (name6, ADbl value6), (name7, ADbl value7), (name8, ADbl value8), (name9, ADbl value9), (name10, ADbl value10)]"

definition prepare_json_request_three_double :: "client_env \<Rightarrow> string \<Rightarrow> s32 \<Rightarrow> key \<Rightarrow> key \<Rightarrow> key \<Rightarrow> key \<Rightarrow> key \<Rightarrow> key \<Rightarrow> string kres" where
  "prepare_json_request_three_double env rpc ID name1 value1 name2 value2 name3 value3 = request_text env rpc ID [(name1, ADbl value1), (name2, ADbl value2), (name3, ADbl value3)]"

definition prepare_json_request_three_string_nine_double_param :: "client_env \<Rightarrow> string \<Rightarrow> s32 \<Rightarrow> key \<Rightarrow> key \<Rightarrow> key \<Rightarrow> key \<Rightarrow> key \<Rightarrow> key \<Rightarrow> key \<Rightarrow> key \<Rightarrow> key \<Rightarrow> key \<Rightarrow> key \<Rightarrow> key \<Rightarrow> key \<Rightarrow> key \<Rightarrow> key \<Rightarrow> key \<Rightarrow> key \<Rightarrow> key \<Rightarrow> key \<Rightarrow> key \<Rightarrow> key \<Rightarrow> key \<Rightarrow> key \<Rightarrow> key \<Rightarrow> string kres" where
  "prepare_json_request_three_string_nine_double_param env rpc ID name1 value1 name2 value2 name3 value3 name4 value4 name5 value5 name6 value6 name7 value7 name8 value8 name9 value9 name10 value10 name11 value11 name12 value12 = request_text env rpc ID [(name1, AStr value1), (name2, AStr value2), (name3, AStr value3), (name4, ADbl value4), (name5, ADbl value5), (name6, ADbl value6), (name7, ADbl value7), (name8, ADbl value8), (name9, ADbl value9), (name10, ADbl value10), (name11, ADbl value11), (name12, ADbl value12)]"

definition prepare_json_request_one_string_three_int :: "client_env \<Rightarrow> string \<Rightarrow> s32 \<Rightarrow> key \<Rightarrow> key \<Rightarrow> key \<Rightarrow> s32 \<Rightarrow> string \<Rightarrow> s32 \<Rightarrow> string \<Rightarrow> s32 \<Rightarrow> string kres" where
  "prepare_json_request_one_string_three_int env rpc ID name1 value1 name2 value2 name3 value3 name4 value4 = request_text env rpc ID [(name1, AStr value1), (name2, AInt value2), (name3, AInt value3), (name4, AInt value4)]"

section \<open>Answers\<close>

definition find_json_result :: "client_env \<Rightarrow> string \<Rightarrow> string \<Rightarrow> answer kres" where
  "find_json_result env js ret = find_fields env js ret []"

definition find_json_result_and_single_string_param :: "client_env \<Rightarrow> key \<Rightarrow> key \<Rightarrow> key \<Rightarrow> answer kres" where
  "find_json_result_and_single_string_param env js ret param_name = find_fields env js ret [(param_name, KStr)]"

definition find_json_result_and_single_string_param_int :: "client_env \<Rightarrow> key \<Rightarrow> key \<Rightarrow> key \<Rightarrow> answer kres" where
  "find_json_result_and_single_string_param_int env js ret param_name = find_fields env js ret [(param_name, KInt)]"

definition find_json_result_and_four_int_param :: "client_env \<Rightarrow> key \<Rightarrow> key \<Rightarrow> key \<Rightarrow> key \<Rightarrow> key \<Rightarrow> key \<Rightarrow> answer kres" where
  "find_json_result_and_four_int_param env js ret para1 para2 para3 para4 = find_fields env js ret [(para1, KAtoi), (para2, KAtoi), (para3, KAtoi), (para4, KAtoi)]"

definition find_json_result_and_three_int_param :: "client_env \<Rightarrow> key \<Rightarrow> key \<Rightarrow> key \<Rightarrow> key \<Rightarrow> key \<Rightarrow> answer kres" where
  "find_json_result_and_three_int_param env js ret _ _ _ = find_fields env js ret [(''blk_red'', KAtoi), (''blk_green'', KAtoi), (''blk_blue'', KAtoi)]"

definition find_json_result_and_three_string_nine_double_param :: "client_env \<Rightarrow> key \<Rightarrow> key \<Rightarrow> key \<Rightarrow> key \<Rightarrow> key \<Rightarrow> key \<Rightarrow> key \<Rightarrow> key \<Rightarrow> key \<Rightarrow> key \<Rightarrow> key \<Rightarrow> key \<Rightarrow> key \<Rightarrow> key \<Rightarrow> answer kres" where
  "find_json_result_and_three_string_nine_double_param env js ret _ _ _ _ _ _ _ _ _ _ _ _ = find_fields env js ret [(''timestamp'', KStr), (''proddata'', KStr), (''processVer'', KStr), (''red_X'', KAtofObj), (''red_Y'', KAtofObj), (''red_Z'', KAtofObj), (''green_X'', KAtofObj), (''green_Y'', KAtofObj), (''green_Z'', KAtofObj), (''blue_X'', KAtofObj), (''blue_Y'', KAtofObj), (''blue_Z'', KAtofObj)]"

definition find_json_result_and_three_double_delta_param :: "client_env \<Rightarrow> key \<Rightarrow> key \<Rightarrow> key \<Rightarrow> key \<Rightarrow> key \<Rightarrow> answer kres" where
  "find_json_result_and_three_double_delta_param env js ret para1 para2 para3 = find_fields env js ret [(para1, KAtofObj), (para2, KAtofObj), (para3, KAtofObj)]"

definition find_json_result_and_three_double_param :: "client_env \<Rightarrow> key \<Rightarrow> key \<Rightarrow> key \<Rightarrow> key \<Rightarrow> key \<Rightarrow> answer kres" where
  "find_json_result_and_three_double_param env js ret _ _ _ = find_fields env js ret [(''X'', KAtofObj), (''Y'', KAtofObj), (''Z'', KAtofObj)]"

definition find_json_result_and_nine_double_param :: "client_env \<Rightarrow> key \<Rightarrow> key \<Rightarrow> key \<Rightarrow> key \<Rightarrow> key \<Rightarrow> key \<Rightarrow> key \<Rightarrow> key \<Rightarrow> key \<Rightarrow> key \<Rightarrow> key \<Rightarrow> answer kres" where
  "find_json_result_and_nine_double_param env js ret _ _ _ _ _ _ _ _ _ = find_fields env js ret [(''red_X'', KAtofObj), (''red_Y'', KAtofObj), (''red_Z'', KAtofObj), (''green_X'', KAtofObj), (''green_Y'', KAtofObj), (''green_Z'', KAtofObj), (''blue_X'', KAtofObj), (''blue_Y'', KAtofObj), (''blue_Z'', KAtofObj)]"

definition find_json_result_and_seven_int_param :: "client_env \<Rightarrow> key \<Rightarrow> key \<Rightarrow> key \<Rightarrow> key \<Rightarrow> key \<Rightarrow> key \<Rightarrow> key \<Rightarrow> key \<Rightarrow> key \<Rightarrow> answer kres" where
  "find_json_result_and_seven_int_param env js ret para1 para2 para3 para4 para5 para6 para7 = find_fields env js ret [(para1, KAtoi), (para2, KAtoi), (para3, KAtoi), (para4, KAtoi), (para5, KAtoi), (para6, KAtoi), (para7, KAtoi)]"

definition find_json_result_and_two_int_param :: "client_env \<Rightarrow> key \<Rightarrow> key \<Rightarrow> key \<Rightarrow> key \<Rightarrow> answer kres" where
  "find_json_result_and_two_int_param env js ret para1 para2 = find_fields env js ret [(para1, KAtoi), (para2, KAtoi)]"

definition find_json_result_and_six_int_param :: "client_env \<Rightarrow> key \<Rightarrow> key \<Rightarrow> key \<Rightarrow> key \<Rightarrow> key \<Rightarrow> key \<Rightarrow> key \<Rightarrow> key \<Rightarrow> answer kres" where
  "find_json_result_and_six_int_param env js ret _ _ _ _ _ _ = find_fields env js ret [(''red_0'', KAtoi), (''green_0'', KAtoi), (''blue_0'', KAtoi), (''red_1'', KAtoi), (''green_1'', KAtoi), (''blue_1'', KAtoi)]"

definition find_json_result_and_two_string_eight_int_param :: "client_env \<Rightarrow> key \<Rightarrow> key \<Rightarrow> key \<Rightarrow> key \<Rightarrow> key \<Rightarrow> key \<Rightarrow> key \<Rightarrow> key \<Rightarrow> key \<Rightarrow> key \<Rightarrow> key \<Rightarrow> key \<Rightarrow> answer kres" where
  "find_json_result_and_two_string_eight_int_param env js ret _ _ _ _ _ _ _ _ _ _ = find_fields env js ret [(''cs_resp0'', KStr), (''cs_resp1'', KStr), (''red_0'', KAtoi), (''green_0'', KAtoi), (''blue_0'', KAtoi), (''white_0'', KAtoi), (''red_1'', KAtoi), (''green_1'', KAtoi), (''blue_1'', KAtoi), (''white_1'', KAtoi)]"

definition find_json_result_and_two_int_two_string_param :: "client_env \<Rightarrow> key \<Rightarrow> key \<Rightarrow> key \<Rightarrow> key \<Rightarrow> key \<Rightarrow> key \<Rightarrow> answer kres" where
  "find_json_result_and_two_int_two_string_param env js ret _ _ _ _ = find_fields env js ret [(''gain'', KAtoi), (''prescale'', KAtoi), (''period'', KStr), (''pulses'', KStr)]"

definition find_json_result_and_four_int_one_string_param :: "client_env \<Rightarrow> key \<Rightarrow> key \<Rightarrow> key \<Rightarrow> key \<Rightarrow> key \<Rightarrow> key \<Rightarrow> key \<Rightarrow> answer kres" where
  "find_json_result_and_four_int_one_string_param env js ret para1 para2 para3 para4 para5 = find_fields env js ret [(para1, KAtoi), (para2, KAtoi), (para3, KAtoi), (para4, KAtoi), (para5, KStr)]"

definition find_json_result_and_four_int_two_string_param :: "client_env \<Rightarrow> key \<Rightarrow> key \<Rightarrow> key \<Rightarrow> key \<Rightarrow> key \<Rightarrow> key \<Rightarrow> key \<Rightarrow> key \<Rightarrow> answer kres" where
  "find_json_result_and_four_int_two_string_param env js ret para1 para2 para3 para4 para5 para6 = find_fields env js ret [(para1, KAtoi), (para2, KAtoi), (para3, KAtoi), (para4, KAtoi), (para5, KStr), (para6, KStr)]"

definition find_json_result_and_two_string_param :: "client_env \<Rightarrow> key \<Rightarrow> key \<Rightarrow> key \<Rightarrow> key \<Rightarrow> answer kres" where
  "find_json_result_and_two_string_param env js ret para1 para2 = find_fields env js ret [(para1, KStr), (para2, KStr)]"

definition find_json_result_and_two_int_three_double_one_string_param :: "client_env \<Rightarrow> key \<Rightarrow> key \<Rightarrow> key \<Rightarrow> key \<Rightarrow> key \<Rightarrow> key \<Rightarrow> key \<Rightarrow> key \<Rightarrow> answer kres" where
  "find_json_result_and_two_int_three_double_one_string_param env js ret _ _ _ _ _ _ = find_fields env js ret [(''colortemp'', KAtoi), (''locusOffset'', KAtof), (''gammaFactor'', KStr), (''brightness'', KAtoi), (''target_x'', KAtof), (''target_y'', KAtof)]"

definition find_json_result_and_two_int_two_double_one_string_param :: "client_env \<Rightarrow> key \<Rightarrow> key \<Rightarrow> key \<Rightarrow> key \<Rightarrow> key \<Rightarrow> key \<Rightarrow> answer kres" where
  "find_json_result_and_two_int_two_double_one_string_param env js ret para1 para2 para3 para4 = find_fields env js ret [(para1, KAtoi), (para2, KAtoi), (para3, KAtof), (para4, KAtof)]"

definition find_json_result_and_two_int_two_float_one_string_param :: "client_env \<Rightarrow> key \<Rightarrow> key \<Rightarrow> key \<Rightarrow> key \<Rightarrow> key \<Rightarrow> key \<Rightarrow> answer kres" where
  "find_json_result_and_two_int_two_float_one_string_param env js ret para1 para2 para3 para4 = find_fields env js ret [(para1, KAtoi), (para2, KAtoi), (para3, KAtof), (para4, KAtof)]"

definition find_json_result_one_string_three_int_param :: "client_env \<Rightarrow> key \<Rightarrow> key \<Rightarrow> key \<Rightarrow> key \<Rightarrow> key \<Rightarrow> key \<Rightarrow> answer kres" where
  "find_json_result_one_string_three_int_param env js ret para1 para2 para3 para4 = find_fields env js ret [(para1, KStr), (para2, KAtoi), (para3, KAtoi), (para4, KAtoi)]"

definition find_json_result_one_string_one_int_param :: "client_env \<Rightarrow> key \<Rightarrow> key \<Rightarrow> key \<Rightarrow> key \<Rightarrow> answer kres" where
  "find_json_result_one_string_one_int_param env js ret para1 para2 = find_fields env js ret [(para1, KStr), (para2, KAtoi)]"

definition find_json_result_and_five_string_param_statusErrorInfo :: "client_env \<Rightarrow> key \<Rightarrow> key \<Rightarrow> key \<Rightarrow> key \<Rightarrow> key \<Rightarrow> key \<Rightarrow> key \<Rightarrow> answer kres" where
  "find_json_result_and_five_string_param_statusErrorInfo env js ret _ _ _ _ _ = find_fields env js ret [(''colorOutOfTolerance'', KStr), (''colorNotReachable'', KStr), (''brightnessNotReachable'', KStr), (''spectralCalibMissing'', KStr), (''sensorState'', KStr)]"

definition find_json_result_and_four_string_param :: "client_env \<Rightarrow> key \<Rightarrow> key \<Rightarrow> key \<Rightarrow> key \<Rightarrow> key \<Rightarrow> key \<Rightarrow> answer kres" where
  "find_json_result_and_four_string_param env js ret para1 para2 para3 para4 = find_fields env js ret [(para1, KStr), (para2, KStr), (para3, KStr), (para4, KStr)]"

definition find_json_result_and_three_string_param :: "client_env \<Rightarrow> key \<Rightarrow> key \<Rightarrow> key \<Rightarrow> key \<Rightarrow> key \<Rightarrow> answer kres" where
  "find_json_result_and_three_string_param env js ret para1 para2 para3 = find_fields env js ret [(para1, KStr), (para2, KStr), (para3, KStr)]"

definition find_json_result_and_six_int_one_string_param :: "client_env \<Rightarrow> key \<Rightarrow> key \<Rightarrow> key \<Rightarrow> key \<Rightarrow> key \<Rightarrow> key \<Rightarrow> key \<Rightarrow> key \<Rightarrow> answer kres" where
  "find_json_result_and_six_int_one_string_param env js ret para1 para2 para3 para4 para5 para6 = find_fields env js ret [(para1, KAtoi), (para2, KAtoi), (para3, KAtoi), (para4, KAtoi), (para5, KAtoi), (para6, KAtoi)]"

section \<open>Calls\<close>

definition set_integer_type :: "client_env \<Rightarrow> 'w socket \<Rightarrow> string \<Rightarrow> string \<Rightarrow> s32 \<Rightarrow> rpc_client \<Rightarrow> 'w \<Rightarrow> 'w call_res" where
  "set_integer_type env sk rpc method_param_name method_param_value c w =
     rpc_exchange sk 4000 (prepare_json_request_i env rpc (req_id c) method_param_name method_param_value)
       (\<lambda>js. find_json_result env js ''return'') c w"

definition set_integer_type_str :: "client_env \<Rightarrow> 'w socket \<Rightarrow> key \<Rightarrow> key \<Rightarrow> key \<Rightarrow> rpc_client \<Rightarrow> 'w \<Rightarrow> 'w call_res" where
  "set_integer_type_str env sk rpc method_param_name method_param_value c w =
     rpc_exchange sk 4000 (prepare_json_request_s env rpc (req_id c) method_param_name method_param_value)
       (\<lambda>js. find_json_result env js ''return'') c w"

definition get_integer_type :: "client_env \<Rightarrow> 'w socket \<Rightarrow> string \<Rightarrow> string \<Rightarrow> rpc_client \<Rightarrow> 'w \<Rightarrow> 'w call_res" where
  "get_integer_type env sk rpc param_name c w =
     preset ''NotFound'' (rpc_exchange sk 4000 (prepare_json_request env rpc (req_id c))
       (\<lambda>js. find_json_result_and_single_string_param env js ''return'' param_name) c w)"

definition set_integer_type_with_addr_para :: "client_env \<Rightarrow> 'w socket \<Rightarrow> string \<Rightarrow> string \<Rightarrow> s32 \<Rightarrow> string \<Rightarrow> s32 \<Rightarrow> rpc_client \<Rightarrow> 'w \<Rightarrow> 'w call_res" where
  "set_integer_type_with_addr_para env sk rpc addr_para_name addr_para_value method_param_name method_param_value c w =
     rpc_exchange sk 4000 (prepare_json_request_ii_last env rpc (req_id c) addr_para_name addr_para_value method_param_name method_param_value)
       (\<lambda>js. find_json_result env js ''return'') c w"

definition get_integer_type_with_addr_para :: "client_env \<Rightarrow> 'w socket \<Rightarrow> string \<Rightarrow> string \<Rightarrow> s32 \<Rightarrow> string \<Rightarrow> rpc_client \<Rightarrow> 'w \<Rightarrow> 'w call_res" where
  "get_integer_type_with_addr_para env sk rpc addr_para_name addr_para_value resp_param_name c w =
     preset ''unknown'' (rpc_exchange sk 4000 (prepare_json_request_i_last env rpc (req_id c) addr_para_name addr_para_value)
       (\<lambda>js. find_json_result_and_single_string_param env js ''return'' resp_param_name) c w)"

definition set_three_int_type :: "client_env \<Rightarrow> 'w socket \<Rightarrow> string \<Rightarrow> string \<Rightarrow> s32 \<Rightarrow> string \<Rightarrow> s32 \<Rightarrow> string \<Rightarrow> s32 \<Rightarrow> rpc_client \<Rightarrow> 'w \<Rightarrow> 'w call_res" where
  "set_three_int_type env sk rpc int1Nm int1Vl int2Nm int2Vl int3Nm int3Vl c w =
     rpc_exchange sk 4000 (prepare_json_request_iii_last env rpc (req_id c) int1Nm int1Vl int2Nm int2Vl int3Nm int3Vl)
       (\<lambda>js. find_json_result env js ''return'') c w"

definition set_three_int_get_one_int :: "client_env \<Rightarrow> 'w socket \<Rightarrow> string \<Rightarrow> string \<Rightarrow> s32 \<Rightarrow> string \<Rightarrow> s32 \<Rightarrow> string \<Rightarrow> s32 \<Rightarrow> string \<Rightarrow> rpc_client \<Rightarrow> 'w \<Rightarrow> 'w call_res" where
  "set_three_int_get_one_int env sk rpc int1Nm int1Vl int2Nm int2Vl int3Nm int3Vl int4Nm c w =
     rpc_exchange sk 4000 (prepare_json_request_iii_last env rpc (req_id c) int1Nm int1Vl int2Nm int2Vl int3Nm int3Vl)
       (\<lambda>js. find_json_result_and_single_string_param_int env js ''return'' int4Nm) c w"

definition set_enum_type_with_addr_para :: "client_env \<Rightarrow> 'w socket \<Rightarrow> string \<Rightarrow> string \<Rightarrow> s32 \<Rightarrow> string \<Rightarrow> string \<Rightarrow> rpc_client \<Rightarrow> 'w \<Rightarrow> 'w call_res" where
  "set_enum_type_with_addr_para env sk rpc addr_para_name addr_para_value method_param_name method_param_value c w =
     rpc_exchange sk 4000 (prepare_json_request_is_last env rpc (req_id c) addr_para_name addr_para_value method_param_name method_param_value)
       (\<lambda>js. find_json_result env js ''return'') c w"

definition get_enum_type_with_addr_para :: "client_env \<Rightarrow> 'w socket \<Rightarrow> string \<Rightarrow> string \<Rightarrow> s32 \<Rightarrow> string \<Rightarrow> rpc_client \<Rightarrow> 'w \<Rightarrow> 'w call_res" where
  "get_enum_type_with_addr_para env sk rpc addr_para_name addr_para_value resp_param_name c w =
     preset ''unknown'' (rpc_exchange sk 4000 (prepare_json_request_i_last env rpc (req_id c) addr_para_name addr_para_value)
       (\<lambda>js. find_json_result_and_single_string_param env js ''return'' resp_param_name) c w)"

definition get_string_type_with_string_para :: "client_env \<Rightarrow> 'w socket \<Rightarrow> key \<Rightarrow> key \<Rightarrow> key \<Rightarrow> string option \<Rightarrow> rpc_client \<Rightarrow> 'w \<Rightarrow> 'w call_res" where
  "get_string_type_with_string_para env sk rpc str_para_name str_para_value res_para_name c w =
     preset ''unknown'' (rpc_exchange sk 4000 (prepare_json_request_s env rpc (req_id c) str_para_name str_para_value)
       (\<lambda>js. find_json_result_and_single_string_param env js ''return'' (case res_para_name of Some s \<Rightarrow> s | None \<Rightarrow> str_para_name)) c w)"

definition get_int_type_with_string_para :: "client_env \<Rightarrow> 'w socket \<Rightarrow> string \<Rightarrow> string \<Rightarrow> s32 \<Rightarrow> string option \<Rightarrow> rpc_client \<Rightarrow> 'w \<Rightarrow> 'w call_res" where
  "get_int_type_with_string_para env sk rpc str_para_name str_para_value res_para_name c w =
     preset ''unknown'' (rpc_exchange sk 4000 (prepare_json_request_i env rpc (req_id c) str_para_name str_para_value)
       (\<lambda>js. find_json_result_and_single_string_param env js ''return'' (case res_para_name of Some s \<Rightarrow> s | None \<Rightarrow> str_para_name)) c w)"

definition get_string_type_with_string_para_with_addr_para :: "client_env \<Rightarrow> 'w socket \<Rightarrow> string \<Rightarrow> string \<Rightarrow> s32 \<Rightarrow> string \<Rightarrow> string \<Rightarrow> string option \<Rightarrow> rpc_client \<Rightarrow> 'w \<Rightarrow> 'w call_res" where
  "get_string_type_with_string_para_with_addr_para env sk rpc addr_para_name addr_para_value str_para_value str_para_name res_para_name c w =
     preset ''unknown'' (rpc_exchange sk 4000 (prepare_json_request_is env rpc (req_id c) addr_para_name addr_para_value str_para_name str_para_value)
       (\<lambda>js. find_json_result_and_single_string_param env js ''return'' (case res_para_name of Some s \<Rightarrow> s | None \<Rightarrow> str_para_name)) c w)"

definition set_double_string_type :: "client_env \<Rightarrow> 'w socket \<Rightarrow> key \<Rightarrow> key \<Rightarrow> key \<Rightarrow> key \<Rightarrow> key \<Rightarrow> rpc_client \<Rightarrow> 'w \<Rightarrow> 'w call_res" where
  "set_double_string_type env sk rpc first_param_name first_param_value second_param_name second_param_value c w =
     rpc_exchange sk 4000 (prepare_json_request_ss env rpc (req_id c) first_param_name first_param_value second_param_name second_param_value)
       (\<lambda>js. find_json_result env js ''return'') c w"

definition set_tripple_string_type :: "client_env \<Rightarrow> 'w socket \<Rightarrow> key \<Rightarrow> key \<Rightarrow> key \<Rightarrow> key \<Rightarrow> key \<Rightarrow> key \<Rightarrow> key \<Rightarrow> rpc_client \<Rightarrow> 'w \<Rightarrow> 'w call_res" where
  "set_tripple_string_type env sk rpc first_param_name first_param_value second_param_name second_param_value third_param_name third_param_value c w =
     rpc_exchange sk 4000 (prepare_json_request_sss env rpc (req_id c) first_param_name first_param_value second_param_name second_param_value third_param_name third_param_value)
       (\<lambda>js. find_json_result env js ''return'') c w"

definition set_four_string_type :: "client_env \<Rightarrow> 'w socket \<Rightarrow> key \<Rightarrow> key \<Rightarrow> key \<Rightarrow> key \<Rightarrow> key \<Rightarrow> key \<Rightarrow> key \<Rightarrow> key \<Rightarrow> key \<Rightarrow> rpc_client \<Rightarrow> 'w \<Rightarrow> 'w call_res" where
  "set_four_string_type env sk rpc para1 para1val para2 para2val para3 para3val para4 para4val c w =
     rpc_exchange sk 4000 (prepare_json_request_ssss env rpc (req_id c) para1 para1val para2 para2val para3 para3val para4 para4val)
       (\<lambda>js. find_json_result env js ''return'') c w"

definition set_three_string_type :: "client_env \<Rightarrow> 'w socket \<Rightarrow> key \<Rightarrow> key \<Rightarrow> key \<Rightarrow> key \<Rightarrow> key \<Rightarrow> key \<Rightarrow> key \<Rightarrow> rpc_client \<Rightarrow> 'w \<Rightarrow> 'w call_res" where
  "set_three_string_type env sk rpc para1 para1val para2 para2val para3 para3val c w =
     rpc_exchange sk 4000 (prepare_json_request_sss env rpc (req_id c) para1 para1val para2 para2val para3 para3val)
       (\<lambda>js. find_json_result env js ''return'') c w"

definition set_tripple_string_get_single_string_type :: "client_env \<Rightarrow> 'w socket \<Rightarrow> key \<Rightarrow> key \<Rightarrow> key \<Rightarrow> key \<Rightarrow> key \<Rightarrow> key \<Rightarrow> key \<Rightarrow> key \<Rightarrow> rpc_client \<Rightarrow> 'w \<Rightarrow> 'w call_res" where
  "set_tripple_string_get_single_string_type env sk rpc first_param_name first_param_value second_param_name second_param_value third_param_name third_param_value fourth_param_name c w =
     rpc_exchange sk 4000 (prepare_json_request_sss env rpc (req_id c) first_param_name first_param_value second_param_name second_param_value third_param_name third_param_value)
       (\<lambda>js. find_json_result_and_single_string_param env js ''return'' fourth_param_name) c w"

definition set_single_string_triple_int_type :: "client_env \<Rightarrow> 'w socket \<Rightarrow> key \<Rightarrow> key \<Rightarrow> key \<Rightarrow> key \<Rightarrow> s32 \<Rightarrow> string \<Rightarrow> s32 \<Rightarrow> string \<Rightarrow> s32 \<Rightarrow> rpc_client \<Rightarrow> 'w \<Rightarrow> 'w call_res" where
  "set_single_string_triple_int_type env sk rpc first_param_name first_param_value second_param_name second_param_value third_param_name third_param_value fourth_param_name fourth_param_value c w =
     rpc_exchange sk 4000 (prepare_json_request_siii env rpc (req_id c) first_param_name first_param_value second_param_name second_param_value third_param_name third_param_value fourth_param_name fourth_param_value)
       (\<lambda>js. find_json_result env js ''return'') c w"

definition set_single_string_single_int_type :: "client_env \<Rightarrow> 'w socket \<Rightarrow> key \<Rightarrow> key \<Rightarrow> key \<Rightarrow> key \<Rightarrow> s32 \<Rightarrow> rpc_client \<Rightarrow> 'w \<Rightarrow> 'w call_res" where
  "set_single_string_single_int_type env sk rpc first_param_name first_param_value second_param_name second_param_value c w =
     rpc_exchange sk 4000 (prepare_json_request_si env rpc (req_id c) first_param_name first_param_value second_param_name second_param_value)
       (\<lambda>js. find_json_result env js ''return'') c w"

definition set_double_string_triple_int_type :: "client_env \<Rightarrow> 'w socket \<Rightarrow> key \<Rightarrow> key \<Rightarrow> key \<Rightarrow> key \<Rightarrow> key \<Rightarrow> key \<Rightarrow> s32 \<Rightarrow> string \<Rightarrow> s32 \<Rightarrow> string \<Rightarrow> s32 \<Rightarrow> rpc_client \<Rightarrow> 'w \<Rightarrow> 'w call_res" where
  "set_double_string_triple_int_type env sk rpc first_param_name first_param_value second_param_name second_param_value third_param_name third_param_value fourth_param_name fourth_param_value fifth_param_name fifth_param_value c w =
     rpc_exchange sk 4000 (prepare_json_request_ssiii env rpc (req_id c) first_param_name first_param_value second_param_name second_param_value third_param_name third_param_value fourth_param_name fourth_param_value fifth_param_name fifth_param_value)
       (\<lambda>js. find_json_result env js ''return'') c w"

definition set_four_int_type :: "client_env \<Rightarrow> 'w socket \<Rightarrow> string \<Rightarrow> string \<Rightarrow> s32 \<Rightarrow> string \<Rightarrow> s32 \<Rightarrow> string \<Rightarrow> s32 \<Rightarrow> string \<Rightarrow> s32 \<Rightarrow> rpc_client \<Rightarrow> 'w \<Rightarrow> 'w call_res" where
  "set_four_int_type env sk rpc first_name first_value second_name second_value third_name third_value fourth_name fourth_value c w =
     rpc_exchange sk 4000 (prepare_json_request_four_int env rpc (req_id c) first_name first_value second_name second_value third_name third_value fourth_name fourth_value)
       (\<lambda>js. find_json_result env js ''return'') c w"

definition get_four_int_type :: "client_env \<Rightarrow> 'w socket \<Rightarrow> key \<Rightarrow> key \<Rightarrow> key \<Rightarrow> key \<Rightarrow> key \<Rightarrow> rpc_client \<Rightarrow> 'w \<Rightarrow> 'w call_res" where
  "get_four_int_type env sk rpc para1 para2 para3 para4 c w =
     rpc_exchange sk 4000 (prepare_json_request env rpc (req_id c))
       (\<lambda>js. find_json_result_and_four_int_param env js ''return'' para1 para2 para3 para4) c w"

definition get_five_string_type_status_error_info :: "client_env \<Rightarrow> 'w socket \<Rightarrow> CmdExecutionObj \<Rightarrow> rpc_client \<Rightarrow> 'w \<Rightarrow> 'w call_res" where
  "get_five_string_type_status_error_info env sk ob c w =
     rpc_exchange sk 8000 (prepare_json_request env (get_rpc_name ob) (req_id c))
       (\<lambda>js. find_json_result_and_five_string_param_statusErrorInfo env js ''return'' (arg_name ob 0) (arg_name ob 1) (arg_name ob 2) (arg_name ob 3) (arg_name ob 4)) c w"

definition set_four_int_two_string_type :: "client_env \<Rightarrow> 'w socket \<Rightarrow> string \<Rightarrow> string \<Rightarrow> s32 \<Rightarrow> string \<Rightarrow> s32 \<Rightarrow> string \<Rightarrow> s32 \<Rightarrow> string \<Rightarrow> s32 \<Rightarrow> key \<Rightarrow> key \<Rightarrow> key \<Rightarrow> key \<Rightarrow> rpc_client \<Rightarrow> 'w \<Rightarrow> 'w call_res" where
  "set_four_int_two_string_type env sk rpc first_name first_value second_name second_value third_name third_value fourth_name fourth_value fifth_name fifth_value sixth_name sixth_value c w =
     rpc_exchange sk 4000 (prepare_json_request_four_int_two_string env rpc (req_id c) first_name first_value second_name second_value third_name third_value fourth_name fourth_value fifth_name fifth_value sixth_name sixth_value)
       (\<lambda>js. find_json_result env js ''return'') c w"

definition set_single_string_with_string_para :: "client_env \<Rightarrow> 'w socket \<Rightarrow> key \<Rightarrow> key \<Rightarrow> key \<Rightarrow> key \<Rightarrow> key \<Rightarrow> rpc_client \<Rightarrow> 'w \<Rightarrow> 'w call_res" where
  "set_single_string_with_string_para env sk rpc para1 para1val para2 para2val c w =
     rpc_exchange sk 4000 (prepare_json_request_ss env rpc (req_id c) para1 para1val para2 para2val)
       (\<lambda>js. find_json_result env js ''return'') c w"

definition set_single_string_with_five_string_para :: "client_env \<Rightarrow> 'w socket \<Rightarrow> key \<Rightarrow> key \<Rightarrow> key \<Rightarrow> key \<Rightarrow> key \<Rightarrow> key \<Rightarrow> key \<Rightarrow> key \<Rightarrow> key \<Rightarrow> key \<Rightarrow> key \<Rightarrow> rpc_client \<Rightarrow> 'w \<Rightarrow> 'w call_res" where
  "set_single_string_with_five_string_para env sk rpc para1 para1val para2 para2val para3 para3val para4 para4val para5 para5val c w =
     rpc_exchange sk 4000 (prepare_json_request_sssss env rpc (req_id c) para1 para1val para2 para2val para3 para3val para4 para4val para5 para5val)
       (\<lambda>js. find_json_result env js ''return'') c w"

definition set_single_string_with_nine_string_para :: "client_env \<Rightarrow> 'w socket \<Rightarrow> key \<Rightarrow> key \<Rightarrow> key \<Rightarrow> key \<Rightarrow> key \<Rightarrow> key \<Rightarrow> key \<Rightarrow> key \<Rightarrow> key \<Rightarrow> key \<Rightarrow> key \<Rightarrow> key \<Rightarrow> key \<Rightarrow> key \<Rightarrow> key \<Rightarrow> key \<Rightarrow> key \<Rightarrow> key \<Rightarrow> key \<Rightarrow> rpc_client \<Rightarrow> 'w \<Rightarrow> 'w call_res" where
  "set_single_string_with_nine_string_para env sk rpc para1 para1val para2 para2val para3 para3val para4 para4val para5 para5val para6 para6val para7 para7val para8 para8val para9 para9val c w =
     rpc_exchange sk 4000 (prepare_json_request_sssssssss env rpc (req_id c) para1 para1val para2 para2val para3 para3val para4 para4val para5 para5val para6 para6val para7 para7val para8 para8val para9 para9val)
       (\<lambda>js. find_json_result env js ''return'') c w"

definition get_four_int_one_string_with_string_para :: "client_env \<Rightarrow> 'w socket \<Rightarrow> key \<Rightarrow> key \<Rightarrow> key \<Rightarrow> key \<Rightarrow> key \<Rightarrow> key \<Rightarrow> key \<Rightarrow> key \<Rightarrow> rpc_client \<Rightarrow> 'w \<Rightarrow> 'w call_res" where
  "get_four_int_one_string_with_string_para env sk rpc para1 para2 para3 para4 para5 para6 para6val c w =
     rpc_exchange sk 4000 (prepare_json_request_s env rpc (req_id c) para6 para6val)
       (\<lambda>js. find_json_result_and_four_int_one_string_param env js ''return'' para1 para2 para3 para4 para5) c w"

definition get_four_int_two_string_with_string_para :: "client_env \<Rightarrow> 'w socket \<Rightarrow> key \<Rightarrow> key \<Rightarrow> key \<Rightarrow> key \<Rightarrow> key \<Rightarrow> key \<Rightarrow> key \<Rightarrow> key \<Rightarrow> key \<Rightarrow> rpc_client \<Rightarrow> 'w \<Rightarrow> 'w call_res" where
  "get_four_int_two_string_with_string_para env sk rpc para1 para2 para3 para4 para5 para6 para7 para7val c w =
     rpc_exchange sk 4000 (prepare_json_request_s env rpc (req_id c) para7 para7val)
       (\<lambda>js. find_json_result_and_four_int_two_string_param env js ''return'' para1 para2 para3 para4 para5 para6) c w"

definition get_single_string_with_string_para :: "client_env \<Rightarrow> 'w socket \<Rightarrow> key \<Rightarrow> key \<Rightarrow> key \<Rightarrow> key \<Rightarrow> rpc_client \<Rightarrow> 'w \<Rightarrow> 'w call_res" where
  "get_single_string_with_string_para env sk rpc para1 para1val para2 c w =
     rpc_exchange sk 4000 (prepare_json_request_s env rpc (req_id c) para1 para1val)
       (\<lambda>js. find_json_result_and_single_string_param env js ''return'' para2) c w"

definition get_two_string_with_string_para :: "client_env \<Rightarrow> 'w socket \<Rightarrow> key \<Rightarrow> key \<Rightarrow> key \<Rightarrow> rpc_client \<Rightarrow> 'w \<Rightarrow> 'w call_res" where
  "get_two_string_with_string_para env sk rpc para1 para2 c w =
     rpc_exchange sk 4000 (prepare_json_request env rpc (req_id c))
       (\<lambda>js. find_json_result_and_two_string_param env js ''return'' para1 para2) c w"

definition get_three_string_with_string_para :: "client_env \<Rightarrow> 'w socket \<Rightarrow> key \<Rightarrow> key \<Rightarrow> key \<Rightarrow> key \<Rightarrow> rpc_client \<Rightarrow> 'w \<Rightarrow> 'w call_res" where
  "get_three_string_with_string_para env sk rpc para1 para2 para3 c w =
     rpc_exchange sk 4000 (prepare_json_request env rpc (req_id c))
       (\<lambda>js. find_json_result_and_three_string_param env js ''return'' para1 para2 para3) c w"

definition get_two_int_three_double_one_string_type :: "client_env \<Rightarrow> 'w socket \<Rightarrow> key \<Rightarrow> key \<Rightarrow> key \<Rightarrow> key \<Rightarrow> key \<Rightarrow> key \<Rightarrow> key \<Rightarrow> rpc_client \<Rightarrow> 'w \<Rightarrow> 'w call_res" where
  "get_two_int_three_double_one_string_type env sk rpc para1 para2 para3 para4 para5 para6 c w =
     rpc_exchange sk 4000 (prepare_json_request env rpc (req_id c))
       (\<lambda>js. find_json_result_and_two_int_three_double_one_string_param env js ''return'' para1 para2 para3 para4 para5 para6) c w"

definition get_two_int_two_float_one_string_with_string_para :: "client_env \<Rightarrow> 'w socket \<Rightarrow> key \<Rightarrow> key \<Rightarrow> key \<Rightarrow> key \<Rightarrow> key \<Rightarrow> key \<Rightarrow> key \<Rightarrow> rpc_client \<Rightarrow> 'w \<Rightarrow> 'w call_res" where
  "get_two_int_two_float_one_string_with_string_para env sk rpc para1 para1val para2 para3 para4 para5 c w =
     rpc_exchange sk 4000 (prepare_json_request_s env rpc (req_id c) para1 para1val)
       (\<lambda>js. find_json_result_and_two_int_two_double_one_string_param env js ''return'' para2 para3 para4 para5) c w"

definition get_two_int_two_float_one_string_with_string_para_single :: "client_env \<Rightarrow> 'w socket \<Rightarrow> key \<Rightarrow> key \<Rightarrow> key \<Rightarrow> key \<Rightarrow> key \<Rightarrow> key \<Rightarrow> key \<Rightarrow> rpc_client \<Rightarrow> 'w \<Rightarrow> 'w call_res" where
  "get_two_int_two_float_one_string_with_string_para_single env sk rpc para1 para1val para2 para3 para4 para5 c w =
     rpc_exchange sk 4000 (prepare_json_request_s env rpc (req_id c) para1 para1val)
       (\<lambda>js. find_json_result_and_two_int_two_float_one_string_param env js ''return'' para2 para3 para4 para5) c w"

definition get_three_int_type_with_integer_para :: "client_env \<Rightarrow> 'w socket \<Rightarrow> CmdExecutionObj \<Rightarrow> rpc_client \<Rightarrow> 'w \<Rightarrow> 'w call_res" where
  "get_three_int_type_with_integer_para env sk ob c w =
     rpc_exchange sk 8000 (prepare_json_request_i env (get_rpc_name ob) (req_id c) (arg_name ob 0) (arg_int ob 0))
       (\<lambda>js. find_json_result_and_three_int_param env js ''return'' (arg_name ob 0) (arg_name ob 1) (arg_name ob 2)) c w"

definition get_two_string_eight_int_type_with_three_int_two_string_para :: "client_env \<Rightarrow> 'w socket \<Rightarrow> CmdExecutionObj \<Rightarrow> rpc_client \<Rightarrow> 'w \<Rightarrow> 'w call_res" where
  "get_two_string_eight_int_type_with_three_int_two_string_para env sk ob c w =
     rpc_exchange sk 8000 (prepare_json_request_three_int_two_string env (get_rpc_name ob) (req_id c) (arg_name ob 0) (arg_int ob 0) (arg_name ob 1) (arg_int ob 1) (arg_name ob 2) (arg_int ob 2) (arg_name ob 3) (arg_value ob 3) (arg_name ob 4) (arg_value ob 4))
       (\<lambda>js. find_json_result_and_two_string_eight_int_param env js ''return'' (arg_name ob 0) (arg_name ob 1) (arg_name ob 2) (arg_name ob 3) (arg_name ob 4) (arg_name ob 5) (arg_name ob 6) (arg_name ob 7) (arg_name ob 8) (arg_name ob 9)) c w"

definition get_two_int_type_max_min_brightness :: "client_env \<Rightarrow> 'w socket \<Rightarrow> CmdExecutionObj \<Rightarrow> rpc_client \<Rightarrow> 'w \<Rightarrow> 'w call_res" where
  "get_two_int_type_max_min_brightness env sk ob c w =
     rpc_exchange sk 8000 (prepare_json_request env (get_rpc_name ob) (req_id c))
       (\<lambda>js. find_json_result_and_two_int_param env js ''return'' ''max_brightness'' ''min_brightness'') c w"

definition get_six_int_type :: "client_env \<Rightarrow> 'w socket \<Rightarrow> CmdExecutionObj \<Rightarrow> rpc_client \<Rightarrow> 'w \<Rightarrow> 'w call_res" where
  "get_six_int_type env sk ob c w =
     rpc_exchange sk 8000 (prepare_json_request env (get_rpc_name ob) (req_id c))
       (\<lambda>js. find_json_result_and_six_int_param env js ''return'' (arg_name ob 0) (arg_name ob 1) (arg_name ob 2) (arg_name ob 3) (arg_name ob 4) (arg_name ob 5)) c w"

definition get_seven_int_type_native_params :: "client_env \<Rightarrow> 'w socket \<Rightarrow> CmdExecutionObj \<Rightarrow> rpc_client \<Rightarrow> 'w \<Rightarrow> 'w call_res" where
  "get_seven_int_type_native_params env sk ob c w =
     rpc_exchange sk 8000 (prepare_json_request env (get_rpc_name ob) (req_id c))
       (\<lambda>js. find_json_result_and_seven_int_param env js ''return'' ''backlight'' ''rOffset'' ''gOffset'' ''bOffset'' ''rGain'' ''gGain'' ''bGain'') c w"

definition get_three_double_type :: "client_env \<Rightarrow> 'w socket \<Rightarrow> CmdExecutionObj \<Rightarrow> rpc_client \<Rightarrow> 'w \<Rightarrow> 'w call_res" where
  "get_three_double_type env sk ob c w =
     rpc_exchange sk 8000 (prepare_json_request env (get_rpc_name ob) (req_id c))
       (\<lambda>js. find_json_result_and_three_double_delta_param env js ''return'' (arg_name ob 0) (arg_name ob 1) (arg_name ob 2)) c w"

definition get_three_double_type_with_string_para :: "client_env \<Rightarrow> 'w socket \<Rightarrow> CmdExecutionObj \<Rightarrow> rpc_client \<Rightarrow> 'w \<Rightarrow> 'w call_res" where
  "get_three_double_type_with_string_para env sk ob c w =
     rpc_exchange sk 8000 (prepare_json_request_s env (get_rpc_name ob) (req_id c) (arg_name ob 0) (arg_value ob 0))
       (\<lambda>js. find_json_result_and_three_double_param env js ''return'' (arg_name ob 0) (arg_name ob 1) (arg_name ob 2)) c w"

definition get_nine_double_type :: "client_env \<Rightarrow> 'w socket \<Rightarrow> CmdExecutionObj \<Rightarrow> rpc_client \<Rightarrow> 'w \<Rightarrow> 'w call_res" where
  "get_nine_double_type env sk ob c w =
     rpc_exchange sk 8000 (prepare_json_request env (get_rpc_name ob) (req_id c))
       (\<lambda>js. find_json_result_and_nine_double_param env js ''return'' (arg_name ob 0) (arg_name ob 1) (arg_name ob 2) (arg_name ob 3) (arg_name ob 4) (arg_name ob 5) (arg_name ob 6) (arg_name ob 7) (arg_name ob 8)) c w"

definition get_three_string_nine_double_type :: "client_env \<Rightarrow> 'w socket \<Rightarrow> CmdExecutionObj \<Rightarrow> rpc_client \<Rightarrow> 'w \<Rightarrow> 'w call_res" where
  "get_three_string_nine_double_type env sk ob c w =
     rpc_exchange sk 8000 (prepare_json_request env (get_rpc_name ob) (req_id c))
       (\<lambda>js. find_json_result_and_three_string_nine_double_param env js ''return'' (arg_name ob 0) (arg_name ob 1) (arg_name ob 2) (arg_name ob 3) (arg_name ob 4) (arg_name ob 5) (arg_name ob 6) (arg_name ob 7) (arg_name ob 8) (arg_name ob 9) (arg_name ob 10) (arg_name ob 11)) c w"

definition set_three_string_nine_double_type :: "client_env \<Rightarrow> 'w socket \<Rightarrow> CmdExecutionObj \<Rightarrow> rpc_client \<Rightarrow> 'w \<Rightarrow> 'w call_res" where
  "set_three_string_nine_double_type env sk ob c w =
     rpc_exchange sk 8000 (prepare_json_request_three_string_nine_double_param env (set_rpc_name ob) (req_id c) (arg_name ob 0) (arg_value ob 0) (arg_name ob 1) (arg_value ob 1) (arg_name ob 2) (arg_value ob 2) (arg_name ob 3) (arg_double ob 3) (arg_name ob 4) (arg_double ob 4) (arg_name ob 5) (arg_double ob 5) (arg_name ob 6) (arg_double ob 6) (arg_name ob 7) (arg_double ob 7) (arg_name ob 8) (arg_double ob 8) (arg_name ob 9) (arg_double ob 9) (arg_name ob 10) (arg_double ob 10) (arg_name ob 11) (arg_double ob 11))
       (\<lambda>js. find_json_result env js ''return'') c w"

definition set_seven_int_type :: "client_env \<Rightarrow> 'w socket \<Rightarrow> CmdExecutionObj \<Rightarrow> rpc_client \<Rightarrow> 'w \<Rightarrow> 'w call_res" where
  "set_seven_int_type env sk ob c w =
     rpc_exchange sk 8000 (prepare_json_request_seven_int_param env (set_rpc_name ob) (req_id c) (arg_name ob 0) (arg_int ob 0) (arg_name ob 1) (arg_int ob 1) (arg_name ob 2) (arg_int ob 2) (arg_name ob 3) (arg_int ob 3) (arg_name ob 4) (arg_int ob 4) (arg_name ob 5) (arg_int ob 5) (arg_name ob 6) (arg_int ob 6))
       (\<lambda>js. find_json_result env js ''return'') c w"

definition set_single_int_nine_double_type :: "client_env \<Rightarrow> 'w socket \<Rightarrow> CmdExecutionObj \<Rightarrow> rpc_client \<Rightarrow> 'w \<Rightarrow> 'w call_res" where
  "set_single_int_nine_double_type env sk ob c w =
     rpc_exchange sk 8000 (prepare_json_request_single_int_nine_double_param env (set_rpc_name ob) (req_id c) (arg_name ob 0) (arg_int ob 0) (arg_name ob 1) (arg_double ob 1) (arg_name ob 2) (arg_double ob 2) (arg_name ob 3) (arg_double ob 3) (arg_name ob 4) (arg_double ob 4) (arg_name ob 5) (arg_double ob 5) (arg_name ob 6) (arg_double ob 6) (arg_name ob 7) (arg_double ob 7) (arg_name ob 8) (arg_double ob 8) (arg_name ob 9) (arg_double ob 9))
       (\<lambda>js. find_json_result env js ''return'') c w"

definition set_two_int_two_string_type :: "client_env \<Rightarrow> 'w socket \<Rightarrow> string \<Rightarrow> string \<Rightarrow> s32 \<Rightarrow> string \<Rightarrow> s32 \<Rightarrow> key \<Rightarrow> key \<Rightarrow> key \<Rightarrow> key \<Rightarrow> rpc_client \<Rightarrow> 'w \<Rightarrow> 'w call_res" where
  "set_two_int_two_string_type env sk rpc first_name first_value second_name second_value third_name third_value fourth_name fourth_value c w =
     rpc_exchange sk 4000 (prepare_json_request_two_int_two_string env rpc (req_id c) first_name first_value second_name second_value third_name third_value fourth_name fourth_value)
       (\<lambda>js. find_json_result env js ''return'') c w"

definition set_three_double_type :: "client_env \<Rightarrow> 'w socket \<Rightarrow> key \<Rightarrow> key \<Rightarrow> key \<Rightarrow> key \<Rightarrow> key \<Rightarrow> key \<Rightarrow> key \<Rightarrow> rpc_client \<Rightarrow> 'w \<Rightarrow> 'w call_res" where
  "set_three_double_type env sk rpc first_name first_value second_name second_value third_name third_value c w =
     rpc_exchange sk 4000 (prepare_json_request_three_double env rpc (req_id c) first_name first_value second_name second_value third_name third_value)
       (\<lambda>js. find_json_result env js ''return'') c w"

definition set_two_int_one_double_one_string_type :: "client_env \<Rightarrow> 'w socket \<Rightarrow> string \<Rightarrow> string \<Rightarrow> s32 \<Rightarrow> key \<Rightarrow> key \<Rightarrow> key \<Rightarrow> key \<Rightarrow> key \<Rightarrow> s32 \<Rightarrow> rpc_client \<Rightarrow> 'w \<Rightarrow> 'w call_res" where
  "set_two_int_one_double_one_string_type env sk rpc first_name first_value second_name second_value third_name third_value fourth_name fourth_value c w =
     rpc_exchange sk 4000 (prepare_json_request_two_int_one_double_one_string env rpc (req_id c) first_name first_value second_name second_value third_name third_value fourth_name fourth_value)
       (\<lambda>js. find_json_result env js ''return'') c w"

definition get_two_int_two_string_type :: "client_env \<Rightarrow> 'w socket \<Rightarrow> key \<Rightarrow> key \<Rightarrow> key \<Rightarrow> key \<Rightarrow> key \<Rightarrow> rpc_client \<Rightarrow> 'w \<Rightarrow> 'w call_res" where
  "get_two_int_two_string_type env sk rpc para1 para2 para3 para4 c w =
     rpc_exchange sk 4000 (prepare_json_request env rpc (req_id c))
       (\<lambda>js. find_json_result_and_two_int_two_string_param env js ''return'' para1 para2 para3 para4) c w"

definition get_two_string_eight_int_type_with_integer_para :: "client_env \<Rightarrow> 'w socket \<Rightarrow> CmdExecutionObj \<Rightarrow> rpc_client \<Rightarrow> 'w \<Rightarrow> 'w call_res" where
  "get_two_string_eight_int_type_with_integer_para env sk ob c w =
     rpc_exchange sk 80000 (prepare_json_request_i env (get_rpc_name ob) (req_id c) (arg_name ob 0) (arg_int ob 0))
       (\<lambda>js. find_json_result_and_two_string_eight_int_param env js ''return'' (arg_name ob 0) (arg_name ob 1) (arg_name ob 2) (arg_name ob 3) (arg_name ob 4) (arg_name ob 5) (arg_name ob 6) (arg_name ob 7) (arg_name ob 8) (arg_name ob 9)) c w"

definition get_three_string_with_one_string_para :: "client_env \<Rightarrow> 'w socket \<Rightarrow> key \<Rightarrow> key \<Rightarrow> key \<Rightarrow> key \<Rightarrow> key \<Rightarrow> key \<Rightarrow> rpc_client \<Rightarrow> 'w \<Rightarrow> 'w call_res" where
  "get_three_string_with_one_string_para env sk rpc para1 para1val para2 para3 para4 c w =
     rpc_exchange sk 4000 (prepare_json_request_s env rpc (req_id c) para1 para1val)
       (\<lambda>js. find_json_result_and_three_string_param env js ''return'' para2 para3 para4) c w"

definition get_three_string_type :: "client_env \<Rightarrow> 'w socket \<Rightarrow> key \<Rightarrow> key \<Rightarrow> key \<Rightarrow> key \<Rightarrow> rpc_client \<Rightarrow> 'w \<Rightarrow> 'w call_res" where
  "get_three_string_type env sk rpc para1 para2 para3 c w =
     rpc_exchange sk 4000 (prepare_json_request env rpc (req_id c))
       (\<lambda>js. find_json_result_and_three_string_param env js ''return'' para1 para2 para3) c w"

definition get_four_string_type :: "client_env \<Rightarrow> 'w socket \<Rightarrow> key \<Rightarrow> key \<Rightarrow> key \<Rightarrow> key \<Rightarrow> key \<Rightarrow> rpc_client \<Rightarrow> 'w \<Rightarrow> 'w call_res" where
  "get_four_string_type env sk rpc para1 para2 para3 para4 c w =
     rpc_exchange sk 4000 (prepare_json_request env rpc (req_id c))
       (\<lambda>js. find_json_result_and_four_string_param env js ''return'' para1 para2 para3 para4) c w"

definition set_one_string_three_int_type :: "client_env \<Rightarrow> 'w socket \<Rightarrow> key \<Rightarrow> key \<Rightarrow> key \<Rightarrow> key \<Rightarrow> s32 \<Rightarrow> string \<Rightarrow> s32 \<Rightarrow> string \<Rightarrow> s32 \<Rightarrow> rpc_client \<Rightarrow> 'w \<Rightarrow> 'w call_res" where
  "set_one_string_three_int_type env sk rpc strname strval int1name int1val int2name int2val int3name int3val c w =
     rpc_exchange sk 4000 (prepare_json_request_one_string_three_int env rpc (req_id c) strname strval int1name int1val int2name int2val int3name int3val)
       (\<lambda>js. find_json_result env js ''return'') c w"

definition get_one_string_three_int_type :: "client_env \<Rightarrow> 'w socket \<Rightarrow> key \<Rightarrow> key \<Rightarrow> key \<Rightarrow> key \<Rightarrow> key \<Rightarrow> rpc_client \<Rightarrow> 'w \<Rightarrow> 'w call_res" where
  "get_one_string_three_int_type env sk rpc para1 para2 para3 para4 c w =
     rpc_exchange sk 4000 (prepare_json_request env rpc (req_id c))
       (\<lambda>js. find_json_result_one_string_three_int_param env js ''return'' para1 para2 para3 para4) c w"

definition get_one_string_one_int_type :: "client_env \<Rightarrow> 'w socket \<Rightarrow> key \<Rightarrow> key \<Rightarrow> key \<Rightarrow> rpc_client \<Rightarrow> 'w \<Rightarrow> 'w call_res" where
  "get_one_string_one_int_type env sk rpc para1 para2 c w =
     rpc_exchange sk 4000 (prepare_json_request env rpc (req_id c))
       (\<lambda>js. find_json_result_one_string_one_int_param env js ''return'' para1 para2) c w"

definition set_double_string_get_single_string_type :: "client_env \<Rightarrow> 'w socket \<Rightarrow> key \<Rightarrow> key \<Rightarrow> key \<Rightarrow> key \<Rightarrow> key \<Rightarrow> key \<Rightarrow> rpc_client \<Rightarrow> 'w \<Rightarrow> 'w call_res" where
  "set_double_string_get_single_string_type env sk rpc first_param_name first_param_value second_param_name second_param_value third_para_name c w =
     rpc_exchange sk 4000 (prepare_json_request_ss env rpc (req_id c) first_param_name first_param_value second_param_name second_param_value)
       (\<lambda>js. find_json_result_and_single_string_param env js ''return'' third_para_name) c w"

definition set_single_string_type :: "client_env \<Rightarrow> 'w socket \<Rightarrow> key \<Rightarrow> key \<Rightarrow> key \<Rightarrow> rpc_client \<Rightarrow> 'w \<Rightarrow> 'w call_res" where
  "set_single_string_type env sk rpc method_param_name method_param_value c w =
     rpc_exchange sk 4000 (prepare_json_request_s env rpc (req_id c) method_param_name method_param_value)
       (\<lambda>js. find_json_result env js ''return'') c w"

definition set_single_string_get_single_string_type :: "client_env \<Rightarrow> 'w socket \<Rightarrow> key \<Rightarrow> key \<Rightarrow> key \<Rightarrow> key \<Rightarrow> rpc_client \<Rightarrow> 'w \<Rightarrow> 'w call_res" where
  "set_single_string_get_single_string_type env sk rpc method_param_name method_param_value ret_para_name c w =
     rpc_exchange sk 4000 (prepare_json_request_s env rpc (req_id c) method_param_name method_param_value)
       (\<lambda>js. find_json_result_and_single_string_param env js ''return'' ret_para_name) c w"

definition set_single_string_get_single_string_type_with_addr_para :: "client_env \<Rightarrow> 'w socket \<Rightarrow> string \<Rightarrow> string \<Rightarrow> s32 \<Rightarrow> key \<Rightarrow> key \<Rightarrow> key \<Rightarrow> rpc_client \<Rightarrow> 'w \<Rightarrow> 'w call_res" where
  "set_single_string_get_single_string_type_with_addr_para env sk rpc addr_para_name addr_para_value method_param_name method_param_value ret_para_name c w =
     rpc_exchange sk 4000 (prepare_json_request_is env rpc (req_id c) addr_para_name addr_para_value method_param_name method_param_value)
       (\<lambda>js. find_json_result_and_single_string_param env js ''return'' ret_para_name) c w"

definition set_action_noarg_type :: "client_env \<Rightarrow> 'w socket \<Rightarrow> string \<Rightarrow> rpc_client \<Rightarrow> 'w \<Rightarrow> 'w call_res" where
  "set_action_noarg_type env sk rpc c w =
     rpc_exchange sk 4000 (prepare_json_request env rpc (req_id c))
       (\<lambda>js. find_json_result env js ''return'') c w"

definition set_action_noarg_get_single_string_type :: "client_env \<Rightarrow> 'w socket \<Rightarrow> string \<Rightarrow> string \<Rightarrow> rpc_client \<Rightarrow> 'w \<Rightarrow> 'w call_res" where
  "set_action_noarg_get_single_string_type env sk rpc ret_para_name c w =
     rpc_exchange sk 4000 (prepare_json_request env rpc (req_id c))
       (\<lambda>js. find_json_result_and_single_string_param env js ''return'' ret_para_name) c w"

definition get_string_type :: "client_env \<Rightarrow> 'w socket \<Rightarrow> string \<Rightarrow> string \<Rightarrow> rpc_client \<Rightarrow> 'w \<Rightarrow> 'w call_res" where
  "get_string_type env sk rpc param_name c w =
     preset ''NotFound'' (rpc_exchange sk 4000 (prepare_json_request env rpc (req_id c))
       (\<lambda>js. find_json_result_and_single_string_param env js ''return'' param_name) c w)"

definition set_three_ulong_type :: "client_env \<Rightarrow> 'w socket \<Rightarrow> string \<Rightarrow> string \<Rightarrow> 64 word \<Rightarrow> string \<Rightarrow> 64 word \<Rightarrow> string \<Rightarrow> 64 word \<Rightarrow> rpc_client \<Rightarrow> 'w \<Rightarrow> 'w call_res" where
  "set_three_ulong_type env sk rpc first_name first_value second_name second_value third_name third_value c w =
     rpc_exchange sk 4000 (prepare_json_request_lll env rpc (req_id c) first_name first_value second_name second_value third_name third_value)
       (\<lambda>js. find_json_result env js ''return'') c w"

definition get_six_int_one_string_with_string_para :: "client_env \<Rightarrow> 'w socket \<Rightarrow> key \<Rightarrow> key \<Rightarrow> key \<Rightarrow> key \<Rightarrow> key \<Rightarrow> key \<Rightarrow> key \<Rightarrow> key \<Rightarrow> key \<Rightarrow> rpc_client \<Rightarrow> 'w \<Rightarrow> 'w call_res" where
  "get_six_int_one_string_with_string_para env sk rpc para1 para1val para2 para3 para4 para5 para6 para7 c w =
     rpc_exchange sk 4000 (prepare_json_request_s env rpc (req_id c) para1 para1val)
       (\<lambda>js. find_json_result_and_six_int_one_string_param env js ''return'' para2 para3 para4 para5 para6 para7) c w"

text \<open>
  The answer is read as three strings first; \<open>junk\<close> is what an array holds that was not stored to, and the numbers keep
  their value when there is none in the string.
\<close>

definition ulong_of :: "client_env \<Rightarrow> string \<Rightarrow> nat \<Rightarrow> out option \<Rightarrow> nat" where
  "ulong_of env junk old x = (case scan_lu (clt_ulong_max env) (case x of Some (OStr s) \<Rightarrow> s | _ \<Rightarrow> junk) of None \<Rightarrow> old | Some n \<Rightarrow> n)"

definition get_three_ulong_type ::
  "client_env \<Rightarrow> 'w socket \<Rightarrow> string \<Rightarrow> string \<Rightarrow> string \<Rightarrow> string \<Rightarrow> string \<Rightarrow> nat list \<Rightarrow> rpc_client \<Rightarrow> 'w \<Rightarrow>
   (RPC_SRV_RESULT \<times> nat list \<times> rpc_client \<times> 'w) kres" where
  "get_three_ulong_type env sk junk rpc first_name second_name third_name old c w =
     kbind (get_three_string_type env sk rpc first_name second_name third_name c w) (\<lambda>(res, outs, c, w).
     kret (res, if res = RPC_SRV_RESULT_SUCCESS then map2 (ulong_of env junk) old outs else [0, 0, 0], c, w))"

definition send_raw_data_and_receive_resp :: "'w socket \<Rightarrow> string \<Rightarrow> rpc_client \<Rightarrow> 'w \<Rightarrow> (string \<times> rpc_client \<times> 'w) kres" where
  "send_raw_data_and_receive_resp sk tx_buffer c w =
     kbind (receive_data_blocking sk 4000 (c\<lparr>recv_buffer := []\<rparr>) (send_data sk tx_buffer w)) (\<lambda>(_, c, w).
     kret (recv_buffer c, c, w))"

end
