(* ===== verification/Rpc_Mgr_Proofs.thy ===== *)
theory Rpc_Mgr_Proofs
  imports Rpc_Mgr Event_Proofs
begin

text \<open>
  Properties of the RPC manager. The contract of a call, of which the common calls and the calls of the services
  are instances, is a locale: reading the parameters, doing the work and building the answer neither fault nor
  lose memory.
\<close>

section \<open>Calls that return\<close>

definition returns :: "'a kres \<Rightarrow> ('a \<Rightarrow> bool) \<Rightarrow> bool" where
  "returns r Q \<longleftrightarrow> (\<exists>x. r = kret x \<and> Q x)"

lemma returns_kret [simp]: "returns (kret x) Q \<longleftrightarrow> Q x"
  by (simp add: returns_def)

lemma returns_kfail [simp]: "\<not> returns (kfail e) Q"
  by (simp add: returns_def)

lemma returns_kbind [simp]: "returns (kbind r f) Q \<longleftrightarrow> returns r (\<lambda>x. returns (f x) Q)"
  by (auto simp: returns_def kbind_eq_kret)

lemma returns_mono: "returns r P \<Longrightarrow> (\<And>x. P x \<Longrightarrow> Q x) \<Longrightarrow> returns r Q"
  by (auto simp: returns_def)

section \<open>Parameters\<close>

text \<open>
  The text of a parameter, and requests whose parameters fit into the array they are copied to. Nothing in the code keeps a client from sending a longer one,
  which is copied behind the end of the array; the theorems that assume \<open>params_fit\<close> are about the other requests.
\<close>

definition param_text :: "json_lib \<Rightarrow> string \<Rightarrow> string \<Rightarrow> string option" where
  "param_text lib txt name = (case tokener_parse lib txt of
     None \<Rightarrow> None
   | Some ob \<Rightarrow> (case object_get lib ob ''params'' of
       None \<Rightarrow> None
     | Some ps \<Rightarrow> (case get_string lib (Some ps) of None \<Rightarrow> None | Some _ \<Rightarrow> get_string lib (object_get lib ps name))))"

definition params_fit :: "json_lib \<Rightarrow> string \<Rightarrow> bool" where
  "params_fit lib txt \<longleftrightarrow> (\<forall>name s. param_text lib txt name = Some s \<longrightarrow> length s < 255)"

lemma find_single_param_fits:
  assumes "params_fit lib txt"
  shows "find_single_param lib txt name = kret (param_text lib txt name)"
  using assms [unfolded params_fit_def, rule_format, of name]
  by (auto simp: find_single_param_def param_text_def sprintf_s_def Let_def split: option.splits)

section \<open>The contract of a call\<close>

text \<open>The blocks that no queued task holds.\<close>

definition owned :: "('p, 's) rpc_mgr \<Rightarrow> int" where
  "owned m = int (blocks m) - int (length (work_chain (AsyncTaskWorker m)))"

definition holds :: "('p packet \<Rightarrow> bool) \<Rightarrow> 'p rpc_data \<Rightarrow> bool" where
  "holds P d \<longleftrightarrow> (\<exists>r pk. d_obj d = Some r \<and> rq_dataRef r = Some pk \<and> P pk)"

definition empty_req :: "'p rpc_data \<Rightarrow> bool" where
  "empty_req d \<longleftrightarrow> (\<exists>r. d_obj d = Some r \<and> rq_dataRef r = None)"

definition same_call :: "'p rpc_data \<Rightarrow> 'p rpc_data \<Rightarrow> bool" where
  "same_call d d' \<longleftrightarrow> d_cmd_index d' = d_cmd_index d \<and> d_socket_data d' = d_socket_data d \<and> d_req_id d' = d_req_id d"

text \<open>
  \<open>jb\<close>, \<open>pw\<close> and \<open>bj\<close> are the three parts of a call, \<open>P\<close> its packets, \<open>I\<close> what holds of the manager between
  the parts, and \<open>fits\<close> what is asked of the request.
\<close>

locale rpc_call =
  fixes jb pw bj :: "'p rpc_data \<Rightarrow> ('p, 's) rpc_mgr \<Rightarrow> ('p, 's) step_res"
    and P :: "'p packet \<Rightarrow> bool" and I :: "('p, 's) rpc_mgr \<Rightarrow> bool" and fits :: "string \<Rightarrow> bool"
  assumes inv_blocks: "I (m\<lparr>blocks := n\<rparr>) = I m"
    and map_in: "\<lbrakk>fits (d_socket_data d); I m; empty_req d; 0 < owned m\<rbrakk> \<Longrightarrow>
      returns (jb d m) (\<lambda>(res, d', m'). I m' \<and> same_call d d' \<and> d_json d' = d_json d \<and>
        (if res = 0 then holds P d' \<and> owned m' = owned m + 1 else empty_req d' \<and> owned m' = owned m))"
    and work: "\<lbrakk>I m; holds P d; 1 < owned m\<rbrakk> \<Longrightarrow>
      returns (pw d m) (\<lambda>(res, d', m'). I m' \<and> same_call d d' \<and> holds P d' \<and> owned m' = owned m)"
    and map_out: "\<lbrakk>I m; holds P d; 1 < owned m\<rbrakk> \<Longrightarrow>
      returns (bj d m) (\<lambda>(res, d', m'). I m' \<and> same_call d d' \<and> empty_req d' \<and> owned m' + 1 = owned m \<and> d_json d' \<noteq> None)"
begin

text \<open>The whole call, from the request to the answer.\<close>

definition serve :: "('p, 's) mgr_env \<Rightarrow> 'p rpc_data \<Rightarrow> ('p, 's) rpc_mgr \<Rightarrow> ('p rpc_data \<times> ('p, 's) rpc_mgr) kres" where
  "serve env d m =
     kbind (create_req_obj env d m) (\<lambda>(_, d, m).
     kbind (jb d m) (\<lambda>(result, d, m).
     if result \<noteq> 0 then kbind (delete_req_obj d m) (\<lambda>(_, d, m). kret (d, m))
     else kbind (pw d m) (\<lambda>(_, d, m).
       kbind (bj d m) (\<lambda>(_, d, m). kbind (delete_req_obj d m) (\<lambda>(_, d, m). kret (d, m))))))"

definition accepts :: "('p, 's) mgr_env \<Rightarrow> 'p rpc_data \<Rightarrow> ('p, 's) rpc_mgr \<Rightarrow> bool" where
  "accepts env d m \<longleftrightarrow> returns (kbind (create_req_obj env d m) (\<lambda>(_, d, m). jb d m)) (\<lambda>(res, _, _). res = 0)"

lemma delete_req: "empty_req d \<Longrightarrow> 0 < owned m \<Longrightarrow>
  delete_req_obj d m = kret (0, d\<lparr>d_obj := None\<rparr>, m\<lparr>blocks := blocks m - 1\<rparr>) \<and>
  owned (m\<lparr>blocks := blocks m - 1\<rparr>) = owned m - 1"
  by (auto simp: delete_req_obj_def empty_req_def owned_def)

lemma serve_balanced:
  assumes fits: "fits (d_socket_data d)" and inv: "I m" and own: "0 \<le> owned m"
  shows "returns (serve env d m) (\<lambda>(d', m'). I m' \<and> d_obj d' = None \<and> owned m' = owned m \<and>
    d_cmd_index d' = d_cmd_index d \<and> (if accepts env d m then d_json d' \<noteq> None else d_json d' = d_json d))"
proof -
  obtain d1 m1 where 1: "create_req_obj env d m = kret (0, d1, m1)" "empty_req d1" "owned m1 = owned m + 1" "I m1"
    "same_call d d1" "d_json d1 = d_json d"
    using inv by (simp add: create_req_obj_def empty_req_def owned_def inv_blocks same_call_def)
  have fits1: "fits (d_socket_data d1)" and own1: "0 < owned m1" using fits own 1 by (simp_all add: same_call_def)
  obtain res d2 m2 where 2: "jb d1 m1 = kret (res, d2, m2)" "I m2" "same_call d1 d2" "d_json d2 = d_json d1"
    "if res = 0 then holds P d2 \<and> owned m2 = owned m1 + 1 else empty_req d2 \<and> owned m2 = owned m1"
    using map_in [OF fits1 1(4,2) own1] by (auto simp: returns_def)
  have acc: "accepts env d m \<longleftrightarrow> res = 0" using 1(1) 2(1) by (simp add: accepts_def)
  show ?thesis
  proof (cases "res = 0")
    case False
    then have e: "empty_req d2" "owned m2 = owned m + 1" using 2(5) 1(3) by simp_all
    then have "delete_req_obj d2 m2 = kret (0, d2\<lparr>d_obj := None\<rparr>, m2\<lparr>blocks := blocks m2 - 1\<rparr>)"
      "owned (m2\<lparr>blocks := blocks m2 - 1\<rparr>) = owned m" using delete_req [of d2 m2] own by auto
    then show ?thesis using False acc 1 2 by (simp add: serve_def inv_blocks same_call_def)
  next
    case True
    then have h: "holds P d2" "1 < owned m2" "owned m2 = owned m + 2" using 2(5) 1(3) own by simp_all
    obtain r3 d3 m3 where 3: "pw d2 m2 = kret (r3, d3, m3)" "I m3" "same_call d2 d3" "holds P d3" "owned m3 = owned m2"
      using work [OF 2(2) h(1,2)] by (auto simp: returns_def)
    obtain r4 d4 m4 where 4: "bj d3 m3 = kret (r4, d4, m4)" "I m4" "same_call d3 d4" "empty_req d4" "owned m4 + 1 = owned m3"
      "d_json d4 \<noteq> None"
      using map_out [OF 3(2,4)] h(2) 3(5) by (auto simp: returns_def)
    have own4: "0 < owned m4" "owned m4 = owned m + 1" using 4(5) 3(5) h(3) own by simp_all
    show ?thesis using True acc 1 2 3 4 delete_req [OF 4(4) own4(1)] own4(2)
      by (simp add: serve_def inv_blocks same_call_def)
  qed
qed

lemma run_is_serve:
  assumes fits: "fits (d_socket_data d)" and inv: "I m" and own: "0 \<le> owned m"
    and in_eq: "\<And>d' m'. \<lbrakk>d_cmd_index d' = d_cmd_index d; I m'\<rbrakk> \<Longrightarrow>
      (if EJSON_RPCGMGR_CMD_END \<le> d_cmd_index d then MapJsonToBinary env d' m' else MyMapJsonToBinary env d' m') = jb d' m'"
    and work_eq: "\<And>d' m'. \<lbrakk>d_cmd_index d' = d_cmd_index d; I m'\<rbrakk> \<Longrightarrow> mgr_process_work env d' m' = pw d' m'"
    and out_eq: "\<And>d' m'. \<lbrakk>d_cmd_index d' = d_cmd_index d; I m'\<rbrakk> \<Longrightarrow>
      (if EJSON_RPCGMGR_CMD_END \<le> d_cmd_index d then MapBinaryToJson env d' m' else MyMapBinaryToJson env d' m') = bj d' m'"
  shows "mgr_run_method env d m = serve env d m"
proof -
  obtain d1 m1 where 1: "create_req_obj env d m = kret (0, d1, m1)" "empty_req d1" "owned m1 = owned m + 1" "I m1" "same_call d d1"
    using inv by (simp add: create_req_obj_def empty_req_def owned_def inv_blocks same_call_def)
  have i1: "d_cmd_index d1 = d_cmd_index d" and fits1: "fits (d_socket_data d1)" and own1: "0 < owned m1"
    using 1 fits own by (simp_all add: same_call_def)
  obtain res d2 m2 where 2: "jb d1 m1 = kret (res, d2, m2)" "I m2" "d_cmd_index d2 = d_cmd_index d"
    "res = 0 \<Longrightarrow> holds P d2 \<and> 1 < owned m2"
    using map_in [OF fits1 1(4,2) own1] i1 own1 by (auto simp: returns_def same_call_def split: if_splits)
  have j: "mgr_json_to_binary env d m = (if res \<noteq> 0 then kbind (delete_req_obj d2 m2) (\<lambda>(_, d, m). kret (res, d, m)) else kret (res, d2, m2))"
    using 1(1) 2(1) in_eq [OF i1 1(4)] i1 by (simp add: mgr_json_to_binary_def)
  show ?thesis
  proof (cases "res = 0")
    case False
    then show ?thesis using 1(1) 2(1) j by (cases "delete_req_obj d2 m2" rule: kres_cases) (auto simp: mgr_run_method_def serve_def)
  next
    case True
    obtain r3 d3 m3 where 3: "pw d2 m2 = kret (r3, d3, m3)" "I m3" "d_cmd_index d3 = d_cmd_index d"
      using work [OF 2(2) conjunct1 [OF 2(4) [OF True]] conjunct2 [OF 2(4) [OF True]]] 2(3) by (auto simp: returns_def same_call_def)
    show ?thesis using True 1(1) 2(1) j 3(1) work_eq [OF 2(3,2)] out_eq [OF 3(3,2)] 3(3)
      by (cases "bj d3 m3" rule: kres_cases)
        (auto simp: mgr_run_method_def serve_def mgr_binary_to_json_def delete_req_obj_def split: option.splits)
  qed
qed

end

section \<open>The event manager without faults\<close>

definition ev_ok :: "ADEvntMgr \<Rightarrow> bool" where
  "ev_ok ev \<longleftrightarrow> ev_safe ev \<and> dom (entries ev) = set (eventList ev)"

lemma ev_ok_subscribe:
  assumes ok: "ev_ok ev" and fresh: "entries ev p = None"
  shows "returns (subscribe_entry p e t ev) (\<lambda>(res, t', ev'). ev_ok ev')"
proof -
  have live: "live_list (entries ev) (eventList ev)" using ok by (simp add: ev_ok_def ev_safe_def)
  have p: "p \<notin> set (eventList ev)" using ok fresh by (auto simp: ev_ok_def)
  let ?t = "AckToken ev + 1" let ?e = "e\<lparr>e_deleteFlag := False, e_srvToken := ?t\<rparr>"
  let ?ev = "ev\<lparr>AckToken := ?t, entries := (entries ev)(p \<mapsto> ?e), eventList := eventList ev @ [p]\<rparr>"
  have "subs ?ev = subs ev @ [?e]" using p by (simp add: subs_def at_def)
  moreover have "live_list (entries ?ev) (eventList ?ev)" using live p by (auto simp: live_list_def)
  ultimately have "ev_ok ?ev" using ok by (auto simp: ev_ok_def ev_safe_def)
  then show ?thesis using subscribe_cases [OF live fresh, of e t] ok by simp
qed

lemma ev_ok_unregister:
  assumes ok: "ev_ok ev"
  shows "returns (unregister_event_subscription tok ev) (\<lambda>(res, ev'). ev_ok ev')"
proof -
  let ?P = "FindEventEntry tok" let ?L = "eventList ev"
  let ?ps = "filter (\<lambda>p. \<not> ?P (at (entries ev) p)) ?L"
  let ?h = "\<lambda>p. if p \<in> set ?L \<and> ?P (at (entries ev) p) then None else entries ev p"
  have live: "live_list (entries ev) ?L" using ok by (simp add: ev_ok_def ev_safe_def)
  have "map (at ?h) ?ps = map (at (entries ev)) ?ps" by (auto simp: at_def)
  also have "\<dots> = filter (\<lambda>e. \<not> ?P e) (subs ev)" unfolding subs_def by (rule filter_map_at)
  finally have "subs (ev\<lparr>eventList := ?ps, entries := ?h\<rparr>) = filter (\<lambda>e. \<not> ?P e) (subs ev)" by (simp add: subs_def)
  moreover have "live_list ?h ?ps" using live by (auto simp: live_list_def)
  moreover have "dom ?h = set ?ps" using ok live by (auto simp: ev_ok_def live_list_def split: if_splits)
  ultimately have "ev_ok (ev\<lparr>eventList := ?ps, entries := ?h\<rparr>)" using ok by (auto simp: ev_ok_def ev_safe_def list_all_iff)
  then show ?thesis
    using ok by (auto simp: unregister_event_subscription_def find_if_live [OF live] remove_if_live [OF live])
qed

lemma ev_ok_upd [simp]:
  "ev_ok (m\<lparr>notifyEvent := vs\<rparr>) = ev_ok m" "ev_ok (m\<lparr>notify_sema := n\<rparr>) = ev_ok m" "ev_ok (m\<lparr>processEvent := vs\<rparr>) = ev_ok m"
  "ev_ok (m\<lparr>process_sema := n\<rparr>) = ev_ok m" "ev_ok (m\<lparr>received := rs\<rparr>) = ev_ok m" "ev_ok (m\<lparr>receivers := qs\<rparr>) = ev_ok m"
  by (simp_all add: ev_ok_def ev_safe_def)

lemma ev_ok_notify_thread:
  assumes ok: "ev_ok ev"
  shows "returns (notify_thread net ev) ev_ok"
proof -
  let ?r = "deliver_all net (notifyEvent ev) (subs ev) (connects ev)"
  obtain ps h where h: "notify_all net (notifyEvent ev) ev = kret (after_notify ps h ?r [] ev)" "ev_safe (after_notify ps h ?r [] ev)"
    "set ps \<subseteq> set (eventList ev)" "\<forall>p. h p = (if p \<in> set (eventList ev) \<and> p \<notin> set ps then None else entries ev p)"
    using notify_all_delivers [OF _ refl, of ev net] ok unfolding ev_ok_def by blast
  have "dom h = set ps" using h(3,4) ok by (auto simp: ev_ok_def dom_def split: if_splits)
  then show ?thesis using h(1,2) by (auto simp: notify_thread_def ev_ok_def after_notify_def)
qed

lemma ev_ok_process_all: "ev_ok (process_all vs ev) = ev_ok ev"
  by (induction vs arbitrary: ev) (simp_all add: notify_subscribers_def)

lemma ev_ok_new: "ev_ok (AttachReceiver r ev_new)"
  by (simp add: AttachReceiver_def ev_new_def ev_ok_def ev_safe_def subs_def)

section \<open>The common calls\<close>

fun right_packet :: "EJSON_RPCGMGR_CMD \<Rightarrow> 'p packet \<Rightarrow> bool" where
  "right_packet c (P_TASK_STS p) \<longleftrightarrow> length (ts_task_sts p) < 512 \<and>
     c \<in> {EJSON_RPCGMGR_GET_TASK_STS, EJSON_RPCGMGR_TRIGGER_DATASAVE, EJSON_RPCGMGR_SHUTDOWN_SERVICE, EJSON_RPCGMGR_RESET_TASK_STS,
       EJSON_RPCGMGR_TRIGGER_FACTORY_STORE, EJSON_RPCGMGR_TRIGGER_FACTORY_RESTORE, EJSON_RPCGMGR_TRIGGER_RUN}"
| "right_packet c (P_INTEGER _) \<longleftrightarrow> c = EJSON_RPCGMGR_GET_RPC_SRV_VERSION"
| "right_packet c (P_SETTINGS_STS s) \<longleftrightarrow> c = EJSON_RPCGMGR_GET_SETTINGS_STS \<and> length s < 512"
| "right_packet c (P_READY_STS _) \<longleftrightarrow> c = EJSON_RPCGMGR_GET_READY_STS"
| "right_packet c (P_DEBUG_LOG _) \<longleftrightarrow> c \<in> {EJSON_RPCGMGR_GET_DEBUG_LOG, EJSON_RPCGMGR_SET_DEBUG_LOG}"
| "right_packet c (P_EVENT _) \<longleftrightarrow> c \<in> {EJSON_RPCGMGR_EVENT_SUBSCRIBE, EJSON_RPCGMGR_EVENT_UNSUBSCRIBE,
     EJSON_RPCGMGR_EVENT_NOTIFY, EJSON_RPCGMGR_EVENT_PROCESS}"
| "right_packet c (P_DEVOP_STS _ _) \<longleftrightarrow> c \<in> {EJSON_RPCMGR_GET_DEVOP_STATE, EJSON_RPCMGR_SET_DEVOP_STATE}"
| "right_packet c (P_MIDDLEWARE _) \<longleftrightarrow> c \<in> {EJSON_RPCMGR_GET_MW_BYTE, EJSON_RPCMGR_SET_MW_BYTE, EJSON_RPCMGR_GET_MW_WORD,
     EJSON_RPCMGR_SET_MW_WORD, EJSON_RPCMGR_GET_MW_DWORD, EJSON_RPCMGR_SET_MW_DWORD}"
| "right_packet c (P_USER _) \<longleftrightarrow> False"

text \<open>The tasks of the manager itself.\<close>

definition task_cmd :: "int \<Rightarrow> bool" where
  "task_cmd i \<longleftrightarrow> (\<exists>c \<in> {EJSON_RPCGMGR_TRIGGER_DATASAVE, EJSON_RPCGMGR_SHUTDOWN_SERVICE, EJSON_RPCGMGR_TRIGGER_FACTORY_STORE,
     EJSON_RPCGMGR_TRIGGER_FACTORY_RESTORE, EJSON_RPCGMGR_TRIGGER_RUN, EJSON_RPCMGR_SET_DEVOP_STATE}. i = cmd_no c)"

definition own_task :: "'p packet WORK_CMD_TASK \<Rightarrow> bool" where
  "own_task w \<longleftrightarrow> task_cmd (sint (w_command w)) \<and> (\<exists>p. pWorkData w = P_TASK_STS p)"

definition shape :: "ADJsonRpcMgrConsumer list \<Rightarrow> (s32 \<times> nat \<times> bool) list" where
  "shape cs = map (\<lambda>c. (c_index c, c_object c, cmnrpchandler c)) cs"

text \<open>
  What holds of the manager of a service between calls: \<open>objs\<close> are the attached objects, \<open>Tk\<close> the tasks they may
  queue, and \<open>J\<close> holds of the service's data.
\<close>

definition mgr_inv ::
  "(s32 \<times> nat \<times> bool) list \<Rightarrow> (int \<Rightarrow> 'p packet \<Rightarrow> bool) \<Rightarrow> ('s \<Rightarrow> bool) \<Rightarrow> ('p, 's) rpc_mgr \<Rightarrow> bool" where
  "mgr_inv objs Tk J m \<longleftrightarrow> ev_ok (EventMgr m) \<and> shape (rpclist m) = objs \<and> J (service m) \<and>
     (\<forall>w \<in> set (work_chain (AsyncTaskWorker m)). own_task w \<or> Tk (sint (w_command w)) (pWorkData w))"

lemmas macro_defs = PREPARE_JSON_REQUEST_def prepare_req_object_def JSON_STRING_TO_INT_def JSON_STRING_TO_ULONG_def
  JSON_STRING_TO_ENUM_def optional_int_def invalid_param_def set_packet_def

lemmas json_to_bin_defs = json_to_bin_get_task_sts_def json_to_bin_get_rpc_srv_version_def json_to_bin_trigger_datasave_def
  json_to_bin_get_settings_sts_def json_to_bin_shutdown_service_def json_to_bin_reset_task_sts_def json_to_bin_get_ready_sts_def
  json_to_bin_get_debug_logging_def json_to_bin_set_debug_logging_def json_to_bin_trigger_factory_store_def
  json_to_bin_trigger_factory_restore_def json_to_bin_event_subscribe_def json_to_bin_event_unsubscribe_def
  json_to_bin_event_notify_def json_to_bin_event_process_def json_to_bin_trigger_run_def json_to_bin_get_devop_state_def
  json_to_bin_set_devop_state_def json_to_bin_get_mw_byte_def json_to_bin_set_mw_byte_def json_to_bin_get_mw_word_def
  json_to_bin_set_mw_word_def json_to_bin_get_mw_dword_def json_to_bin_set_mw_dword_def mw_read_request_def mw_write_request_def

lemmas bin_to_json_defs = bin_to_json_get_task_sts_def bin_to_json_get_rpc_srv_version_def bin_to_json_trigger_datasave_def
  bin_to_json_get_settings_sts_def bin_to_json_shutdown_service_def bin_to_json_reset_task_sts_def bin_to_json_get_ready_sts_def
  bin_to_json_get_debug_logging_def bin_to_json_set_debug_logging_def bin_to_json_trigger_factory_store_def
  bin_to_json_trigger_factory_restore_def bin_to_json_event_subscribe_def bin_to_json_event_unsubscribe_def
  bin_to_json_event_notify_def bin_to_json_event_process_def bin_to_json_trigger_run_def bin_to_json_get_devop_state_def
  bin_to_json_set_devop_state_def bin_to_json_get_mw_byte_def bin_to_json_set_mw_byte_def bin_to_json_get_mw_word_def
  bin_to_json_set_mw_word_def bin_to_json_get_mw_dword_def bin_to_json_set_mw_dword_def

lemma mgr_inv_blocks: "mgr_inv objs Tk J (m\<lparr>blocks := n\<rparr>) = mgr_inv objs Tk J m"
  by (simp add: mgr_inv_def)

lemma common_map_in:
  assumes fits: "params_fit (jlib (plat env)) (d_socket_data d)" and inv: "mgr_inv objs Tk J m" and req: "empty_req d" and own: "0 < owned m"
    and junk: "length (junk_str env) < 512"
  shows "returns (json_to_bin c env d m) (\<lambda>(res, d', m'). mgr_inv objs Tk J m' \<and> same_call d d' \<and> d_json d' = d_json d \<and>
     (if res = 0 then holds (right_packet c) d' \<and> owned m' = owned m + 1 else empty_req d' \<and> owned m' = owned m))"
proof -
  obtain r where r: "d_obj d = Some r" "rq_dataRef r = None" using req by (auto simp: empty_req_def)
  note rules = json_to_bin_def json_to_bin_defs macro_defs find_single_param_fits [OF fits] r holds_def empty_req_def same_call_def
    mgr_inv_blocks owned_def fresh_task_sts_def Let_def
  show ?thesis using inv junk own
    by (cases c) (auto simp: rules split: option.splits)
qed

lemmas resp_defs = PREPARE_JSON_RESP_def PREPARE_JSON_RESP_STRING_def PREPARE_JSON_RESP_ENUM_def PREPARE_JSON_RESP_INT_def
  PREPARE_JSON_RESP_IN_PROG_def req_packet_def resp_done_def set_packet_def prepare_result_string_def prepare_result_string_str_def
  prepare_result_string_int_def result_with_def

lemma nth_short: "list_all (\<lambda>s. length s < n) xs \<Longrightarrow> i < length xs \<Longrightarrow> length (xs ! i) < n"
  by (simp add: list_all_length)

lemma common_map_out:
  assumes inv: "mgr_inv objs Tk J m" and pk: "holds (right_packet c) d" and own: "1 < owned m"
  shows "returns (bin_to_json c env d m) (\<lambda>(res, d', m'). mgr_inv objs Tk J m' \<and> same_call d d' \<and> empty_req d' \<and>
     owned m' + 1 = owned m \<and> d_json d' \<noteq> None)"
proof -
  obtain r pk where r: "d_obj d = Some r" "rq_dataRef r = Some pk" "right_packet c pk" using pk by (auto simp: holds_def)
  have short: "list_all (\<lambda>s. length s < 1100) RPCMGR_RPC_DEBUG_LOG_ARGSTS_TBL" "list_all (\<lambda>s. length s < 1100) RPCMGR_RPC_READY_STS_ARGSTS_TBL"
    "list_all (\<lambda>s. length s < 1100) RPCMGR_RPC_DEVOP_STATE_ARGSTS_TBL"
    "length RPCMGR_RPC_DEBUG_LOG_ARGSTS_TBL = 5" "length RPCMGR_RPC_READY_STS_ARGSTS_TBL = 6" "length RPCMGR_RPC_DEVOP_STATE_ARGSTS_TBL = 13"
    by (simp_all add: RPCMGR_RPC_DEBUG_LOG_ARGSTS_TBL_def RPCMGR_RPC_READY_STS_ARGSTS_TBL_def RPCMGR_RPC_DEVOP_STATE_ARGSTS_TBL_def)
  note rules = bin_to_json_def bin_to_json_defs resp_defs r(1,2) empty_req_def same_call_def mgr_inv_blocks owned_def Let_def
    sprintf_s_def JSON_RPC_METHOD_RESP_MAX_LENGTH_def task_sts_of_def settings_sts_of_def value_of_def enum_of_def srv_token_of_def
    middleware_of_def
  show ?thesis using inv own r(3) short by (cases c; cases pk) (auto simp: rules nth_short)
qed

lemma cmd_no_range: "0 \<le> cmd_no c" "cmd_no c < 24"
  by (cases c; simp add: cmd_no_def common_cmds_def)+

lemma sint_cmd_no: "sint (of_int (cmd_no c) :: s32) = cmd_no c"
  by (cases c) (simp_all add: cmd_no_def common_cmds_def)

lemma push_task_cases:
  "\<exists>ident tws. push_task a b c dat act wk = (if a \<and> b then 0 else -1, ident, tws) \<and>
     work_chain tws = (if a \<and> b then work_chain wk @ [new_task ident c dat act] else if a then remove_work ident (work_chain wk @ [new_task ident c dat act]) else work_chain wk)"
  by (auto simp: push_task_def generate_ident_def put_work_def put_in_prog_def wakeup_thread_def Let_def)

lemma remove_work_set: "set (remove_work i tl1) \<subseteq> set tl1"
  by (induction tl1) auto

lemma remove_work_length: "\<exists>w \<in> set tl1. w_taskID w = i \<Longrightarrow> Suc (length (remove_work i tl1)) = length tl1"
  by (induction tl1) auto

lemma mgr_push_keeps:
  assumes inv: "mgr_inv objs Tk J m" and task: "\<And>ident. own_task (new_task ident (of_int c) dat act) \<or> Tk (sint (of_int c :: s32)) dat"
    and push: "mgr_push env c dat act m = (res, ident, m')"
  shows "mgr_inv objs Tk J m'" "blocks m' = blocks m" "rpclist m' = rpclist m" "service m' = service m"
    "length (work_chain (AsyncTaskWorker m')) = length (work_chain (AsyncTaskWorker m)) + (if res = 0 then 1 else 0)"
proof -
  obtain a b where ab: "a = put_ok (plat env) (mgr_puts m)" "b = put_ok (plat env) (mgr_puts m + 1)" by blast
  obtain i tws where p: "push_task a b (of_int c) dat act (AsyncTaskWorker m) = (if a \<and> b then 0 else -1, i, tws)"
    "work_chain tws = (if a \<and> b then work_chain (AsyncTaskWorker m) @ [new_task i (of_int c) dat act]
       else if a then remove_work i (work_chain (AsyncTaskWorker m) @ [new_task i (of_int c) dat act]) else work_chain (AsyncTaskWorker m))"
    using push_task_cases [of a b "of_int c" dat act "AsyncTaskWorker m"] by blast
  have m': "m' = m\<lparr>AsyncTaskWorker := tws, mgr_puts := mgr_puts m + 2\<rparr>" "res = (if a \<and> b then 0 else -1)"
    using push p(1) by (auto simp: mgr_push_def ab)
  let ?w = "new_task i (of_int c) dat act"
  have w: "w_taskID ?w = i" "w_command ?w = of_int c" "pWorkData ?w = dat" by (simp_all add: new_task_def)
  have "set (work_chain tws) \<subseteq> set (work_chain (AsyncTaskWorker m)) \<union> {?w}"
    using p(2) remove_work_set [of i "work_chain (AsyncTaskWorker m) @ [?w]"] by auto
  then have "\<forall>w \<in> set (work_chain tws). own_task w \<or> Tk (sint (w_command w)) (pWorkData w)"
    using inv task [of i] w unfolding mgr_inv_def by auto
  then show "mgr_inv objs Tk J m'" using inv by (simp add: mgr_inv_def m'(1))
  show "blocks m' = blocks m" "rpclist m' = rpclist m" "service m' = service m" by (simp_all add: m')
  show "length (work_chain (AsyncTaskWorker m')) = length (work_chain (AsyncTaskWorker m)) + (if res = 0 then 1 else 0)"
    using p(2) remove_work_length [of "work_chain (AsyncTaskWorker m) @ [?w]" i] w(1) by (auto simp: m')
qed

lemma own_task_new: "c \<in> {EJSON_RPCGMGR_TRIGGER_DATASAVE, EJSON_RPCGMGR_SHUTDOWN_SERVICE, EJSON_RPCGMGR_TRIGGER_FACTORY_STORE,
     EJSON_RPCGMGR_TRIGGER_FACTORY_RESTORE, EJSON_RPCGMGR_TRIGGER_RUN, EJSON_RPCMGR_SET_DEVOP_STATE} \<Longrightarrow>
   own_task (new_task ident (of_int (cmd_no c)) (P_TASK_STS p) act)"
  unfolding own_task_def task_cmd_def by (simp add: new_task_def sint_cmd_no) blast

lemma push_common_keeps:
  assumes inv: "mgr_inv objs Tk J m" and pk: "holds (right_packet c) d"
    and c: "c \<in> {EJSON_RPCGMGR_TRIGGER_DATASAVE, EJSON_RPCGMGR_SHUTDOWN_SERVICE, EJSON_RPCGMGR_TRIGGER_FACTORY_STORE,
     EJSON_RPCGMGR_TRIGGER_FACTORY_RESTORE, EJSON_RPCGMGR_TRIGGER_RUN, EJSON_RPCMGR_SET_DEVOP_STATE}"
  shows "returns (push_common c act env d m) (\<lambda>(res, d', m'). mgr_inv objs Tk J m' \<and> same_call d d' \<and> holds (right_packet c) d' \<and>
    owned m' = owned m)"
proof -
  obtain r pk where r: "d_obj d = Some r" "rq_dataRef r = Some pk" "right_packet c pk" using pk by (auto simp: holds_def)
  obtain res ident m1 where push: "mgr_push env (cmd_no c) (P_TASK_STS (fresh_task_sts env)) act (m\<lparr>blocks := blocks m + 1\<rparr>) = (res, ident, m1)"
    by (cases "mgr_push env (cmd_no c) (P_TASK_STS (fresh_task_sts env)) act (m\<lparr>blocks := blocks m + 1\<rparr>)") auto
  have inv': "mgr_inv objs Tk J (m\<lparr>blocks := blocks m + 1\<rparr>)" using inv by (simp add: mgr_inv_blocks)
  note k = mgr_push_keeps [OF inv' disjI1 [OF own_task_new [OF c]] push]
  obtain pk' where pk': "store_task_id ident pk = kret pk'" "right_packet c pk'" using r(3) c by (cases pk) (auto simp: store_task_id_def)
  show ?thesis using k push r pk'
    by (auto simp: push_common_def on_req_def set_packet_def set_result_def holds_def same_call_def owned_def mgr_inv_blocks)
qed

section \<open>Surroundings\<close>

text \<open>Surroundings in which an event entry gets an address that no entry of the list has; no object is attached yet.\<close>

definition next_ptr :: "ADEvntMgr \<Rightarrow> ptr" where
  "next_ptr ev = Suc (fold max (eventList ev) 0)"

definition service_env :: "platform \<Rightarrow> nat \<Rightarrow> s32 \<Rightarrow> string \<Rightarrow> ('p, 's) mgr_env" where
  "service_env pl mx j s = \<lparr>plat = pl,
     handlers = (\<lambda>_. \<lparr>h_MapJsonToBinary = (\<lambda>_ d m. kret (-1, d, m)), h_MapBinaryToJson = (\<lambda>_ d m. kret (-1, d, m)),
       h_ProcessWork = (\<lambda>_ d m. kret (-1, d, m)), h_ProcessWorkAsync = (\<lambda>_ _ m. kret (RPC_SRV_RESULT_FAIL, m)), h_ReceiveEvent = (\<lambda>_ _ _ _ s. s)\<rparr>),
     ulong_max = mx, new_entry = next_ptr, junk_int = j, junk_str = take 511 s\<rparr>"

lemma fold_max_ge: "x \<in> set xs \<Longrightarrow> x \<le> fold max xs (k :: nat)"
proof (induction xs arbitrary: k)
  case (Cons y ys)
  have "k \<le> fold max zs k" for zs and k :: nat by (induction zs arbitrary: k) (auto intro: order_trans [OF max.cobounded2])
  then have "y \<le> fold max ys (max y k)" by (meson max.boundedE)
  then show ?case using Cons by auto
qed simp

lemma next_ptr_fresh: "dom (entries ev) = set (eventList ev) \<Longrightarrow> entries ev (next_ptr ev) = None"
  using fold_max_ge [of "next_ptr ev" "eventList ev" 0] by (force simp: next_ptr_def dom_def)

section \<open>The contract of a service\<close>

text \<open>
  What a service has to provide: room for events, an object for the common calls, if there is one, that keeps
  the kind of the packet and does not allocate, and attached objects that keep the contract of a call and free
  the data of the tasks they queue.
\<close>

locale rpc_service =
  fixes env :: "('p, 's) mgr_env" and objs :: "(s32 \<times> nat \<times> bool) list" and Tk :: "int \<Rightarrow> 'p packet \<Rightarrow> bool" and J :: "'s \<Rightarrow> bool"
    and Pk :: "nat \<Rightarrow> 'p packet \<Rightarrow> bool"
  assumes fresh: "dom (entries ev) = set (eventList ev) \<Longrightarrow> entries ev (new_entry env ev) = None"
    and junk: "length (junk_str env) < 512"
    and cmn_work: "\<lbrakk>mgr_inv objs Tk J m; getCmnRpcHandler (rpclist m) = Some h; holds (right_packet c) d\<rbrakk> \<Longrightarrow>
      returns (h_ProcessWork (handlers env (c_object h)) i d m) (\<lambda>(res, d', m'). mgr_inv objs Tk J m' \<and> same_call d d' \<and>
        holds (right_packet c) d' \<and> owned m' = owned m)"
    and cmn_async: "\<lbrakk>mgr_inv objs Tk J m; getCmnRpcHandler (rpclist m) = Some h\<rbrakk> \<Longrightarrow>
      returns (h_ProcessWorkAsync (handlers env (c_object h)) i (P_TASK_STS p) m) (\<lambda>(res, m'). mgr_inv objs Tk J m' \<and> owned m' = owned m)"
    and task_range: "Tk cn pk \<Longrightarrow> 24 \<le> cn"
    and async: "\<lbrakk>mgr_inv objs Tk J m; Tk cn pk; 0 < owned m\<rbrakk> \<Longrightarrow>
      returns (AsyncTaskWork env cn pk m) (\<lambda>(res, m'). mgr_inv objs Tk J m' \<and> owned m' + 1 = owned m)"
    and receive: "J s \<Longrightarrow> J (h_ReceiveEvent (handlers env ob) clt num a b s)"
    and attached: "\<lbrakk>n < length objs; objs ! n = (ix, ob, False)\<rbrakk> \<Longrightarrow>
      rpc_call (h_MapJsonToBinary (handlers env ob) ix) (h_ProcessWork (handlers env ob) ix) (h_MapBinaryToJson (handlers env ob) ix)
        (Pk n) (mgr_inv objs Tk J) (params_fit (jlib (plat env)))"
begin

lemma cmn_call:
  assumes inv: "mgr_inv objs Tk J m" and pk: "holds (right_packet c) d"
  shows "returns (ProcessWorkCmnRpc env d m) (\<lambda>(res, d', m'). mgr_inv objs Tk J m' \<and> same_call d d' \<and> holds (right_packet c) d' \<and>
    owned m' = owned m)"
  using assms cmn_work [OF inv _ pk] by (auto simp: ProcessWorkCmnRpc_def same_call_def split: option.splits)

lemma common_work:
  assumes inv: "mgr_inv objs Tk J m" and pk: "holds (right_packet c) d"
  shows "returns (process_common c env d m) (\<lambda>(res, d', m'). mgr_inv objs Tk J m' \<and> same_call d d' \<and> holds (right_packet c) d' \<and>
    owned m' = owned m)"
proof -
  obtain r pk where r: "d_obj d = Some r" "rq_dataRef r = Some pk" "right_packet c pk" using pk by (auto simp: holds_def)
  have ev: "ev_ok (EventMgr m)" using inv by (simp add: mgr_inv_def)
  then have fr: "entries (EventMgr m) (new_entry env (EventMgr m)) = None" by (intro fresh) (simp add: ev_ok_def)
  note rules = process_common_def on_req_def set_packet_def set_result_def holds_def same_call_def owned_def r(1,2)
  note push = push_common_keeps [OF inv assms(2)] and call = cmn_call [OF assms]
  show ?thesis
  proof (cases c)
    case EJSON_RPCGMGR_GET_TASK_STS
    have "length (rpc_server_result_table ! rpc_code sts) < 512" for sts
      by (cases sts) (simp_all add: rpc_code_def rpc_srv_results_def rpc_server_result_table_def)
    moreover have "work_chain (snd (get_task_status i wk)) = work_chain wk" for i and wk :: "'p packet ADTaskWorker"
      by (auto simp: get_task_status_def split: option.splits)
    ultimately show ?thesis using inv r EJSON_RPCGMGR_GET_TASK_STS
      by (cases pk) (auto simp: rules process_get_task_status_def mgr_inv_def sprintf_s_def case_prod_beta)
  next
    case EJSON_RPCGMGR_EVENT_SUBSCRIBE
    then obtain p where p: "pk = P_EVENT p" using r(3) by (cases pk) auto
    show ?thesis using ev_ok_subscribe [OF ev fr, of "entry_of_packet p" "ep_srvToken p"] inv EJSON_RPCGMGR_EVENT_SUBSCRIBE p
      by (auto simp: rules process_event_subscribe_def mgr_inv_def elim!: returns_mono)
  next
    case EJSON_RPCGMGR_EVENT_UNSUBSCRIBE
    then obtain p where p: "pk = P_EVENT p" using r(3) by (cases pk) auto
    show ?thesis using ev_ok_unregister [OF ev, of "ep_srvToken p"] inv EJSON_RPCGMGR_EVENT_UNSUBSCRIBE p
      by (auto simp: rules process_event_unsubscribe_def mgr_inv_def elim!: returns_mono)
  next
    case EJSON_RPCGMGR_TRIGGER_DATASAVE
    then show ?thesis using push by (simp add: process_common_def process_trigger_datasave_def)
  next
    case EJSON_RPCGMGR_TRIGGER_FACTORY_STORE
    then show ?thesis using push by (simp add: process_common_def process_trigger_factory_store_def)
  next
    case EJSON_RPCGMGR_TRIGGER_FACTORY_RESTORE
    then show ?thesis using push by (simp add: process_common_def process_trigger_factory_restore_def)
  next
    case EJSON_RPCGMGR_TRIGGER_RUN
    then show ?thesis using push by (simp add: process_common_def process_trigger_run_def)
  next
    case EJSON_RPCMGR_SET_DEVOP_STATE
    then show ?thesis using push by (simp add: process_common_def process_set_devop_state_def)
  next
    case EJSON_RPCGMGR_GET_SETTINGS_STS
    then show ?thesis using call by (simp add: process_common_def process_get_settings_status_def)
  next
    case EJSON_RPCMGR_GET_DEVOP_STATE
    then show ?thesis using call by (simp add: process_common_def process_get_devop_state_def)
  next
    case EJSON_RPCMGR_GET_MW_BYTE
    then show ?thesis using call by (simp add: process_common_def)
  next
    case EJSON_RPCMGR_SET_MW_BYTE
    then show ?thesis using call by (simp add: process_common_def)
  next
    case EJSON_RPCMGR_GET_MW_WORD
    then show ?thesis using call by (simp add: process_common_def)
  next
    case EJSON_RPCMGR_SET_MW_WORD
    then show ?thesis using call by (simp add: process_common_def)
  next
    case EJSON_RPCMGR_GET_MW_DWORD
    then show ?thesis using call by (simp add: process_common_def)
  next
    case EJSON_RPCMGR_SET_MW_DWORD
    then show ?thesis using call by (simp add: process_common_def)
  next
    case EJSON_RPCGMGR_SHUTDOWN_SERVICE
    then have push': "returns (push_common EJSON_RPCGMGR_SHUTDOWN_SERVICE WORK_CMD_AFTER_DONE_DELETE env d m)
        (\<lambda>(res, d', m'). mgr_inv objs Tk J m' \<and> same_call d d' \<and> holds (right_packet c) d' \<and> owned m' = owned m)"
      using push by simp
    have "holds (right_packet c) (set_result res d)" for res using r by (auto simp: holds_def set_result_def)
    then show ?thesis using push' inv r(1) EJSON_RPCGMGR_SHUTDOWN_SERVICE
      by (simp add: process_common_def process_shutdown_service_def on_req_def) (simp add: same_call_def set_result_def)
  next
    case EJSON_RPCGMGR_RESET_TASK_STS
    then show ?thesis using inv r
      by (auto simp: rules process_reset_task_sts_def reset_task_id_and_chain_def mgr_inv_def)
  next
    case EJSON_RPCGMGR_GET_RPC_SRV_VERSION
    then show ?thesis using inv r by (cases pk) (auto simp: rules process_rpc_server_version_def)
  next
    case EJSON_RPCGMGR_GET_READY_STS
    then show ?thesis using inv r by (cases pk) (auto simp: rules process_get_ready_status_def)
  next
    case EJSON_RPCGMGR_GET_DEBUG_LOG
    then show ?thesis using inv r by (cases pk) (auto simp: rules process_get_debug_logging_def)
  next
    case EJSON_RPCGMGR_SET_DEBUG_LOG
    then show ?thesis using inv r
      by (cases pk) (auto simp: rules process_set_debug_logging_def setRpcDebugLogFlag_def mgr_inv_def shape_def Let_def comp_def)
  next
    case EJSON_RPCGMGR_EVENT_NOTIFY
    then show ?thesis using inv r by (cases pk) (auto simp: rules process_event_notify_def notify_event_def mgr_inv_def)
  next
    case EJSON_RPCGMGR_EVENT_PROCESS
    then show ?thesis using inv r by (cases pk) (auto simp: rules process_event_process_def process_event_def mgr_inv_def)
  qed
qed

end

sublocale rpc_service < common: rpc_call "json_to_bin c env" "process_common c env" "bin_to_json c env" "right_packet c"
  "mgr_inv objs Tk J" "params_fit (jlib (plat env))" for c
proof unfold_locales
qed (rule mgr_inv_blocks, rule common_map_in [OF _ _ _ _ junk], assumption+, rule common_work, assumption+, rule common_map_out, assumption+)

section \<open>A service at work\<close>

text \<open>The process thread takes one event and tells the receivers of the service.\<close>

definition mgr_process_round :: "('p, 's) mgr_env \<Rightarrow> ('p, 's) rpc_mgr \<Rightarrow> ('p, 's) rpc_mgr" where
  "mgr_process_round env m = (case processEvent (EventMgr m) of
     [] \<Rightarrow> m
   | v # vs \<Rightarrow> snd (receive_events env (p_cltToken v) (p_eventNum v) (p_eventArg v) (p_eventArg2 v)
       (m\<lparr>EventMgr := (notify_subscribers v (EventMgr m))\<lparr>processEvent := vs\<rparr>\<rparr>)))"

text \<open>
  The calls that the registered methods can make, except for the method of an object for the common calls. A step of the service is a call whose
  parameters are all shorter than 255 characters, a round of its worker, a run of the thread of the notifications or a round of the loop of its process.
\<close>

definition callable :: "('p, 's) rpc_mgr \<Rightarrow> 'p rpc_data \<Rightarrow> bool" where
  "callable m d \<longleftrightarrow> d_obj d = None \<and> 0 \<le> d_cmd_index d \<and>
     (24 \<le> d_cmd_index d \<longrightarrow> (let n = nat (d_cmd_index d - 24) in n < length (rpclist m) \<and> \<not> cmnrpchandler (rpclist m ! n)))"

inductive srv_step :: "('p, 's) mgr_env \<Rightarrow> ('p, 's) rpc_mgr \<Rightarrow> ('p, 's) rpc_mgr \<Rightarrow> bool" for env where
  call: "\<lbrakk>params_fit (jlib (plat env)) (d_socket_data d); callable m d; mgr_run_method env d m = kret (d', m')\<rbrakk> \<Longrightarrow> srv_step env m m'"
| work: "mgr_worker_round env m = kret m' \<Longrightarrow> srv_step env m m'"
| notify: "notify_thread net (EventMgr m) = kret ev \<Longrightarrow> srv_step env m (m\<lparr>EventMgr := ev\<rparr>)"
| process: "srv_step env m (mgr_process_round env m)"

inductive srv_reach :: "('p, 's) mgr_env \<Rightarrow> ('p, 's) rpc_mgr \<Rightarrow> ('p, 's) rpc_mgr \<Rightarrow> bool" for env m0 where
  init: "srv_reach env m0 m0"
| step: "srv_reach env m0 m \<Longrightarrow> srv_step env m m' \<Longrightarrow> srv_reach env m0 m'"

lemma cmd_of_some: "0 \<le> i \<Longrightarrow> i < 24 \<Longrightarrow> \<exists>c. cmd_of i = Some c"
  by (simp add: cmd_of_def EJSON_RPCGMGR_CMD_END_def)

lemma shape_nth: "shape cs = objs \<Longrightarrow> n < length cs \<Longrightarrow>
  n < length objs \<and> objs ! n = (c_index (cs ! n), c_object (cs ! n), cmnrpchandler (cs ! n))"
  by (auto simp: shape_def)

lemma no_common_handler:
  assumes "mgr_inv objs Tk J m" and "list_all (\<lambda>(_, _, b). \<not> b) objs"
  shows "getCmnRpcHandler (rpclist m) = None"
proof -
  have "list_all (\<lambda>(_, _, b). \<not> b) (shape cs) \<Longrightarrow> getCmnRpcHandler cs = None" for cs
    by (induction cs) (auto simp: shape_def)
  then show ?thesis using assms by (auto simp: mgr_inv_def)
qed

text \<open>A call of an attached object, served by its three parts.\<close>

lemma attached_serve:
  assumes call: "rpc_call (h_MapJsonToBinary (handlers env ob) ix) (h_ProcessWork (handlers env ob) ix) (h_MapBinaryToJson (handlers env ob) ix) P
      (mgr_inv objs Tk J) fits"
    and o: "n < length objs" "objs ! n = (ix, ob, b)" and idx: "d_cmd_index d = 24 + int n"
    and fits: "fits (d_socket_data d)" and inv: "mgr_inv objs Tk J m" and own: "0 \<le> owned m"
  shows "mgr_run_method env d m =
    rpc_call.serve (h_MapJsonToBinary (handlers env ob) ix) (h_ProcessWork (handlers env ob) ix) (h_MapBinaryToJson (handlers env ob) ix) env d m"
proof -
  have same: "n < length (rpclist m')" "c_index (rpclist m' ! n) = ix" "c_object (rpclist m' ! n) = ob" if "mgr_inv objs Tk J m'" for m'
  proof -
    have sh: "shape (rpclist m') = objs" using that by (simp add: mgr_inv_def)
    then show l: "n < length (rpclist m')" using o(1) by (auto simp: shape_def)
    show "c_index (rpclist m' ! n) = ix" "c_object (rpclist m' ! n) = ob" using shape_nth [OF sh l] o(2) by simp_all
  qed
  have get: "call_attached f env d' m' = f (handlers env ob) ix d' m'" if "d_cmd_index d' = d_cmd_index d" "mgr_inv objs Tk J m'" for f d' m'
    using same [OF that(2)] that(1) idx by (simp add: call_attached_def getRpcHandler_def EJSON_RPCGMGR_CMD_END_def)
  show ?thesis using idx by (intro rpc_call.run_is_serve [OF call fits inv own])
    (simp_all add: MapJsonToBinary_def ProcessWork_def MapBinaryToJson_def mgr_process_work_def EJSON_RPCGMGR_CMD_END_def get)
qed

context rpc_service
begin

lemma run_common:
  assumes c: "cmd_of (d_cmd_index d) = Some c" and fits: "params_fit (jlib (plat env)) (d_socket_data d)" and inv: "mgr_inv objs Tk J m"
    and own: "0 \<le> owned m"
  shows "mgr_run_method env d m = common.serve c env d m"
proof -
  have "d_cmd_index d < 24" using c by (simp add: cmd_of_def EJSON_RPCGMGR_CMD_END_def split: if_splits)
  then show ?thesis using c
    by (intro common.run_is_serve [OF fits inv own])
      (simp_all add: MyMapJsonToBinary_def MyProcessWork_def MyMapBinaryToJson_def mgr_process_work_def EJSON_RPCGMGR_CMD_END_def)
qed

lemma run_attached:
  assumes call: "callable m d" and idx: "24 \<le> d_cmd_index d" and fits: "params_fit (jlib (plat env)) (d_socket_data d)"
    and inv: "mgr_inv objs Tk J m" and own: "0 \<le> owned m"
  shows "\<exists>ix ob n. n = nat (d_cmd_index d - 24) \<and> n < length objs \<and> objs ! n = (ix, ob, False) \<and> mgr_run_method env d m =
    rpc_call.serve (h_MapJsonToBinary (handlers env ob) ix) (h_ProcessWork (handlers env ob) ix) (h_MapBinaryToJson (handlers env ob) ix) env d m"
proof -
  define n where "n = nat (d_cmd_index d - 24)"
  define ix ob where "ix = c_index (rpclist m ! n)" and "ob = c_object (rpclist m ! n)"
  have n: "n < length (rpclist m)" "\<not> cmnrpchandler (rpclist m ! n)" using call idx by (simp_all add: callable_def n_def Let_def)
  have sh: "shape (rpclist m) = objs" using inv by (simp add: mgr_inv_def)
  have o: "n < length objs" "objs ! n = (ix, ob, False)" using shape_nth [OF sh n(1)] n(2) by (simp_all add: ix_def ob_def)
  have "d_cmd_index d = 24 + int n" using idx by (simp add: n_def)
  then show ?thesis using o attached_serve [OF attached [OF o] o _ fits inv own] n_def by blast
qed

lemma call_returns:
  assumes call: "callable m d" and fits: "params_fit (jlib (plat env)) (d_socket_data d)" and inv: "mgr_inv objs Tk J m" and own: "0 \<le> owned m"
  shows "returns (mgr_run_method env d m) (\<lambda>(d', m'). mgr_inv objs Tk J m' \<and> d_obj d' = None \<and> owned m' = owned m)"
proof (cases "24 \<le> d_cmd_index d")
  case True
  then obtain ix ob n where n: "n < length objs" "objs ! n = (ix, ob, False)" and
    eq: "mgr_run_method env d m = rpc_call.serve (h_MapJsonToBinary (handlers env ob) ix) (h_ProcessWork (handlers env ob) ix)
      (h_MapBinaryToJson (handlers env ob) ix) env d m"
    using run_attached [OF call True fits inv own] by blast
  show ?thesis unfolding eq by (rule returns_mono [OF rpc_call.serve_balanced [OF attached [OF n] fits inv own]]) auto
next
  case False
  then obtain c where c: "cmd_of (d_cmd_index d) = Some c" using call cmd_of_some [of "d_cmd_index d"] by (auto simp: callable_def)
  show ?thesis unfolding run_common [OF c fits inv own]
    by (rule returns_mono [OF common.serve_balanced [OF fits inv own]]) auto
qed

lemma run_work_returns:
  assumes inv: "mgr_inv objs Tk J m" and own: "0 < owned m" and t: "own_task w \<or> Tk (sint (w_command w)) (pWorkData w)"
  shows "returns (run_work env (sint (w_command w)) (pWorkData w) m) (\<lambda>(res, m'). mgr_inv objs Tk J m' \<and> owned m' + 1 = owned m)"
proof (cases "own_task w")
  case True
  then obtain p c where p: "pWorkData w = P_TASK_STS p" and c: "sint (w_command w) = cmd_no c"
    "c \<in> {EJSON_RPCGMGR_TRIGGER_DATASAVE, EJSON_RPCGMGR_SHUTDOWN_SERVICE, EJSON_RPCGMGR_TRIGGER_FACTORY_STORE,
     EJSON_RPCGMGR_TRIGGER_FACTORY_RESTORE, EJSON_RPCGMGR_TRIGGER_RUN, EJSON_RPCMGR_SET_DEVOP_STATE}"
    unfolding own_task_def task_cmd_def by blast
  have cmd: "cmd_of (cmd_no c) = Some c" "\<not> EJSON_RPCGMGR_CMD_END \<le> cmd_no c"
    by (cases c; simp add: cmd_of_def cmd_no_def common_cmds_def EJSON_RPCGMGR_CMD_END_def)+
  have h: "returns (CmnRpcHandler env i (P_TASK_STS p) m) (\<lambda>(res, m'). mgr_inv objs Tk J m' \<and> owned m' = owned m)" for i
    using inv cmn_async [OF inv] by (auto simp: CmnRpcHandler_def split: option.splits)
  have dec: "owned (m'\<lparr>blocks := blocks m' - 1\<rparr>) + 1 = owned m'" if "0 < owned m'" for m' :: "('p, 's) rpc_mgr"
    using that by (simp add: owned_def)
  show ?thesis
  proof (cases "c = EJSON_RPCGMGR_SHUTDOWN_SERVICE")
    case True
    then show ?thesis using inv own c(1) cmd p by (simp add: run_work_def mgr_inv_def owned_def)
  next
    case False
    have "returns (kbind (CmnRpcHandler env (of_int (cmd_no c)) (P_TASK_STS p) m) (\<lambda>(res, m). kret (res, m\<lparr>blocks := blocks m - 1\<rparr>)))
        (\<lambda>(res, m'). mgr_inv objs Tk J m' \<and> owned m' + 1 = owned m)"
      unfolding returns_kbind by (rule returns_mono [OF h]) (use own dec in \<open>auto simp: mgr_inv_blocks\<close>)
    moreover have "run_work env (cmd_no c) (P_TASK_STS p) m =
        kbind (CmnRpcHandler env (of_int (cmd_no c)) (P_TASK_STS p) m) (\<lambda>(res, m). kret (res, m\<lparr>blocks := blocks m - 1\<rparr>))"
      using False c(2) cmd by (auto simp: run_work_def)
    ultimately show ?thesis using c(1) p by simp
  qed
next
  case False
  then have t': "Tk (sint (w_command w)) (pWorkData w)" using t by simp
  then show ?thesis using async [OF inv t' own] task_range [OF t'] by (simp add: run_work_def EJSON_RPCGMGR_CMD_END_def)
qed

lemma finish_work_chain: "work_chain (finish_task run w wk) = work_chain wk" for wk :: "'p packet ADTaskWorker"
  by (simp add: finish_task_def notify_self_def Let_def)

lemma worker_returns:
  assumes inv: "mgr_inv objs Tk J m" and own: "0 \<le> owned m"
  shows "returns (mgr_worker_round env m) (\<lambda>m'. mgr_inv objs Tk J m' \<and> owned m' = owned m)"
proof (cases "work_chain (AsyncTaskWorker m)")
  case Nil
  then show ?thesis using inv by (simp add: mgr_worker_round_def take_task_def)
next
  case (Cons w wks)
  let ?m = "m\<lparr>AsyncTaskWorker := (AsyncTaskWorker m)\<lparr>work_chain := wks\<rparr>\<rparr>"
  have i: "mgr_inv objs Tk J ?m" "owned ?m = owned m + 1" "own_task w \<or> Tk (sint (w_command w)) (pWorkData w)"
    using inv Cons by (auto simp: mgr_inv_def owned_def)
  have "returns (run_work env (sint (w_command w)) (pWorkData w) ?m) (\<lambda>(res, m'). mgr_inv objs Tk J m' \<and> owned m' + 1 = owned ?m)"
    using own i by (intro run_work_returns) simp_all
  then show ?thesis using Cons i(2)
    by (auto simp: mgr_worker_round_def take_task_def elim!: returns_mono) (simp_all add: mgr_inv_def owned_def finish_work_chain)
qed

lemma receivers_keep: "J s \<Longrightarrow> J (fold (\<lambda>c s. h_ReceiveEvent (handlers env c) clt num a b s) rs s)"
  by (induction rs arbitrary: s) (simp_all add: receive)

lemma process_round_keeps:
  assumes inv: "mgr_inv objs Tk J m"
  shows "mgr_inv objs Tk J (mgr_process_round env m) \<and> owned (mgr_process_round env m) = owned m"
  using inv receivers_keep
  by (auto simp: mgr_process_round_def receive_events_def notify_event_receivers_def notify_subscribers_def mgr_inv_def owned_def
      split: list.splits)

lemma step_keeps:
  assumes "srv_step env m m'" and inv: "mgr_inv objs Tk J m" and own: "0 \<le> owned m"
  shows "mgr_inv objs Tk J m' \<and> owned m' = owned m"
  using assms(1)
proof cases
  case (call d d')
  then show ?thesis using call_returns [OF call(2,1) inv own] by simp
next
  case work
  then show ?thesis using worker_returns [OF inv own] by simp
next
  case (notify net ev)
  have "ev_ok ev" using ev_ok_notify_thread [of "EventMgr m" net] inv notify(2) by (simp add: mgr_inv_def)
  then show ?thesis using inv notify(1) by (simp add: mgr_inv_def owned_def)
next
  case process
  then show ?thesis using process_round_keeps [OF inv] by simp
qed

lemma reach_keeps:
  assumes "srv_reach env m0 m" and inv: "mgr_inv objs Tk J m0" and own: "0 \<le> owned m0"
  shows "mgr_inv objs Tk J m \<and> owned m = owned m0"
  using assms(1)
proof induction
  case init
  then show ?case using inv by simp
next
  case (step m m')
  then show ?case using step_keeps [OF step.hyps(2)] own by auto
qed

text \<open>A service that has reached a state without leaks answers every call, and its threads end their rounds.\<close>

theorem service_balanced:
  assumes reach: "srv_reach env m0 m" and inv: "mgr_inv objs Tk J m0" and own: "owned m0 = 0"
  shows "blocks m = length (work_chain (AsyncTaskWorker m))"
    and "\<lbrakk>params_fit (jlib (plat env)) (d_socket_data d); callable m d\<rbrakk> \<Longrightarrow>
      returns (mgr_run_method env d m) (\<lambda>(d', m'). d_obj d' = None \<and> srv_reach env m0 m')"
    and "returns (mgr_worker_round env m) (\<lambda>m'. srv_reach env m0 m')"
    and "returns (notify_thread net (EventMgr m)) (\<lambda>ev. srv_reach env m0 (m\<lparr>EventMgr := ev\<rparr>))"
proof -
  have k: "mgr_inv objs Tk J m" "owned m = 0" using reach_keeps [OF reach inv] own by simp_all
  show "blocks m = length (work_chain (AsyncTaskWorker m))" using k(2) by (simp add: owned_def)
  show "returns (mgr_run_method env d m) (\<lambda>(d', m'). d_obj d' = None \<and> srv_reach env m0 m')"
    if fits: "params_fit (jlib (plat env)) (d_socket_data d)" and "callable m d"
    using call_returns [OF that(2,1) k(1)] k(2) srv_step.call [OF that] srv_reach.step [OF reach] by (auto simp: returns_def)
  show "returns (mgr_worker_round env m) (\<lambda>m'. srv_reach env m0 m')"
    using worker_returns [OF k(1)] k(2) by (auto simp: returns_def intro: srv_reach.step [OF reach] srv_step.work)
  show "returns (notify_thread net (EventMgr m)) (\<lambda>ev. srv_reach env m0 (m\<lparr>EventMgr := ev\<rparr>))"
    using ev_ok_notify_thread [of "EventMgr m" net] k(1)
    by (auto simp: returns_def mgr_inv_def intro: srv_reach.step [OF reach] srv_step.notify)
qed

end

end
