(* ===== verification/Event_Notifier.thy ===== *)
theory Event_Notifier
  imports Prelude
begin

text \<open>
  The event notifier of the services, \<open>ADEvntNotifier.cpp\<close> of \<open>src/sources/lib/lib-adav-old/src/\<close>: a list of events that a
  thread of its own sends with a call of the service's own method \<open>notify_event\<close>.
\<close>

record EvntNotifyEntry =
  n_eventNum :: s32
  n_eventArg :: s32
  n_port :: s32
  n_eventArg2 :: s32

record ADEvntNotifier =
  NotifierList :: "EvntNotifyEntry list"
  notifier_sema :: nat

definition notifier_new :: ADEvntNotifier where
  "notifier_new = \<lparr>NotifierList = [], notifier_sema = 0\<rparr>"

definition NotifyEvent :: "s32 \<Rightarrow> s32 \<Rightarrow> s32 \<Rightarrow> s32 \<Rightarrow> ADEvntNotifier \<Rightarrow> int \<times> ADEvntNotifier" where
  "NotifyEvent num a port b n = (0, n\<lparr>NotifierList := NotifierList n @ [\<lparr>n_eventNum = num, n_eventArg = a, n_port = port, n_eventArg2 = b\<rparr>],
     notifier_sema := notifier_sema n + 1\<rparr>)"

text \<open>
  The calls of the client that the thread makes: connecting to a port of this host, the call with three numbers, and
  disconnecting. They act on the surroundings \<open>w\<close>.
\<close>

record 'w notify_client =
  clt_connect :: "s32 \<Rightarrow> 'w \<Rightarrow> int \<times> 'w"
  clt_three_int :: "s32 \<Rightarrow> s32 \<Rightarrow> s32 \<Rightarrow> 'w \<Rightarrow> bool \<times> 'w"
  clt_disconnect :: "'w \<Rightarrow> 'w"

definition send_entry :: "'w notify_client \<Rightarrow> EvntNotifyEntry \<Rightarrow> 'w \<Rightarrow> 'w" where
  "send_entry clt x w = (case clt_connect clt (n_port x) w of (r, w) \<Rightarrow>
     if r \<noteq> 0 then w
     else clt_disconnect clt (snd (clt_three_int clt (n_eventNum x) (n_eventArg x) (n_eventArg2 x) w)))"

text \<open>The loop of the thread: the first entry is removed after it was tried, sent or not.\<close>

fun notifier_loop :: "'w notify_client \<Rightarrow> EvntNotifyEntry list \<Rightarrow> 'w \<Rightarrow> 'w" where
  "notifier_loop clt [] w = w"
| "notifier_loop clt (x # xs) w = notifier_loop clt xs (send_entry clt x w)"

definition notifier_thread :: "'w notify_client \<Rightarrow> ADEvntNotifier \<Rightarrow> 'w \<Rightarrow> ADEvntNotifier \<times> 'w" where
  "notifier_thread clt n w = (n\<lparr>NotifierList := []\<rparr>, notifier_loop clt (NotifierList n) w)"

end
