(* ===== verification/Gpioctl.thy ===== *)
theory Gpioctl
  imports Rpc_Mgr_Proofs Event_Notifier Json_Rpc_Proofs
begin

text \<open>
  The GPIO service, \<open>src/sources/services/gpioctl/srv/src/\<close>: its calls \<open>gpio_get\<close> and \<open>gpio_set\<close>
  (\<open>GpioCtrlRpc.cpp\<close>), and the access to the registers of the board (\<open>RaspiIo.cpp\<close>). The registers are a parameter: what a read returns
  after a sequence of writes, whether the memory can be mapped, and what the processor makes of a shift by 32
  or more, which the language leaves undefined.
\<close>

section \<open>The registers\<close>

record gpio_hw =
  node_ok :: "nat \<Rightarrow> bool"
  read_reg :: "(nat \<times> u32) list \<Rightarrow> nat \<Rightarrow> u32"
  wide_shift :: "nat \<Rightarrow> u32"

text \<open>
  The data of the service: the cache with the event notifier, the writes to the
  mapped block in order, the number of attempts to map it and of mappings that are not undone.
\<close>

record gpio_state =
  gpio_data :: "u32 list"
  gpio_data_prev :: "u32 list"
  EventNotifier :: ADEvntNotifier
  reg_writes :: "(nat \<times> u32) list"
  node_opens :: nat
  mapped :: nat

definition GPIOCTL_MAX_GPIO_PINS :: nat where
  "GPIOCTL_MAX_GPIO_PINS = 64"

definition gpio_cache :: gpio_state where
  "gpio_cache = \<lparr>gpio_data = replicate GPIOCTL_MAX_GPIO_PINS 2, gpio_data_prev = replicate GPIOCTL_MAX_GPIO_PINS 2, EventNotifier = notifier_new,
     reg_writes = [], node_opens = 0, mapped = 0\<rparr>"

definition one_shl :: "gpio_hw \<Rightarrow> nat \<Rightarrow> u32" where
  "one_shl hw n = (if n < 32 then push_bit n 1 else wide_shift hw n)"

definition write_reg :: "nat \<Rightarrow> u32 \<Rightarrow> gpio_state \<Rightarrow> gpio_state" where
  "write_reg i v s = s\<lparr>reg_writes := reg_writes s @ [(i, v)]\<rparr>"

definition INP_GPIO :: "gpio_hw \<Rightarrow> nat \<Rightarrow> gpio_state \<Rightarrow> gpio_state" where
  "INP_GPIO hw g s = write_reg (g div 10) (read_reg hw (reg_writes s) (g div 10) AND NOT (push_bit (g mod 10 * 3) 7)) s"

definition OUT_GPIO :: "gpio_hw \<Rightarrow> nat \<Rightarrow> gpio_state \<Rightarrow> gpio_state" where
  "OUT_GPIO hw g s = write_reg (g div 10) (read_reg hw (reg_writes s) (g div 10) OR push_bit (g mod 10 * 3) 1) s"

definition OpenGPIONode :: "gpio_hw \<Rightarrow> gpio_state \<Rightarrow> RPC_SRV_RESULT \<times> gpio_state" where
  "OpenGPIONode hw s =
     (if node_ok hw (node_opens s) then (RPC_SRV_RESULT_SUCCESS, s\<lparr>node_opens := node_opens s + 1, mapped := mapped s + 1\<rparr>)
      else (RPC_SRV_RESULT_FAIL, s\<lparr>node_opens := node_opens s + 1\<rparr>))"

definition CloseGPIONode :: "gpio_state \<Rightarrow> gpio_state" where
  "CloseGPIONode s = s\<lparr>mapped := mapped s - 1\<rparr>"

definition ReadGPIO :: "gpio_hw \<Rightarrow> nat \<Rightarrow> gpio_state \<Rightarrow> RPC_SRV_RESULT \<times> u32 option \<times> gpio_state" where
  "ReadGPIO hw addr s = (case OpenGPIONode hw s of (res, s) \<Rightarrow>
     if res \<noteq> RPC_SRV_RESULT_SUCCESS then (RPC_SRV_RESULT_FAIL, None, s)
     else let s = INP_GPIO hw addr s; v = read_reg hw (reg_writes s) 13 AND one_shl hw addr in
       (RPC_SRV_RESULT_SUCCESS, Some v, CloseGPIONode s))"

definition WriteGPIO :: "gpio_hw \<Rightarrow> nat \<Rightarrow> u32 \<Rightarrow> gpio_state \<Rightarrow> RPC_SRV_RESULT \<times> gpio_state" where
  "WriteGPIO hw addr v s = (case OpenGPIONode hw s of (res, s) \<Rightarrow>
     if res \<noteq> RPC_SRV_RESULT_SUCCESS then (RPC_SRV_RESULT_FAIL, s)
     else let s = OUT_GPIO hw addr (INP_GPIO hw addr s) in
       (RPC_SRV_RESULT_SUCCESS, CloseGPIONode (write_reg (if v = 0 then 7 else 10) (one_shl hw addr) s)))"

section \<open>The calls\<close>

definition EGPIOCTL_EVENT_TYPE_OUTPUT_CHANGED :: s32 where
  "EGPIOCTL_EVENT_TYPE_OUTPUT_CHANGED = 5"

text \<open>\<open>SERVER_JSON_PORT_NUM\<close> of this service.\<close>

definition GPIOCTL_JSON_PORT_NUMBER :: s32 where
  "GPIOCTL_JSON_PORT_NUMBER = 40003"

record GPIOCTL_IO_ACCESS_PACKET =
  io_addr :: u32
  io_data :: u32

type_synonym gpio_rpc = "GPIOCTL_IO_ACCESS_PACKET rpc_data"
type_synonym gpio_mgr = "(GPIOCTL_IO_ACCESS_PACKET, gpio_state) rpc_mgr"
type_synonym gpio_env = "(GPIOCTL_IO_ACCESS_PACKET, gpio_state) mgr_env"
type_synonym gpio_res = "(GPIOCTL_IO_ACCESS_PACKET, gpio_state) step_res"

definition io_packet :: "gpio_env \<Rightarrow> u32 \<Rightarrow> u32 \<Rightarrow> GPIOCTL_IO_ACCESS_PACKET packet" where
  "io_packet env a v = P_USER \<lparr>io_addr = a, io_data = v\<rparr>"

definition json_to_bin_gpio_get :: "gpio_env \<Rightarrow> gpio_rpc \<Rightarrow> gpio_mgr \<Rightarrow> gpio_res" where
  "json_to_bin_gpio_get env d m =
     PREPARE_JSON_REQUEST RPC_SRV_ACT_READ 0 (io_packet env (junk_int env) (junk_int env)) d m (\<lambda>d m.
     JSON_STRING_TO_INT env ''addr'' d m (\<lambda>a.
     kret (0, set_packet (Some (io_packet env a (junk_int env))) d, m)))"

definition io_data_of :: "GPIOCTL_IO_ACCESS_PACKET packet \<Rightarrow> int kres" where
  "io_data_of pk = (case pk of P_USER p \<Rightarrow> kret (sint (io_data p)) | _ \<Rightarrow> kfail BadDeref)"

definition bin_to_json_gpio_get :: "gpio_rpc \<Rightarrow> gpio_mgr \<Rightarrow> gpio_res" where
  "bin_to_json_gpio_get = PREPARE_JSON_RESP_INT ''data'' io_data_of"

definition process_gpio_get :: "gpio_rpc \<Rightarrow> gpio_mgr \<Rightarrow> gpio_res" where
  "process_gpio_get d m = on_req d (\<lambda>r. case rq_dataRef r of
     Some (P_USER p) \<Rightarrow>
       if GPIOCTL_MAX_GPIO_PINS \<le> unat (io_addr p) then kret (0, set_result RPC_SRV_RESULT_ARG_ERROR d, m)
       else kret (0, set_packet (Some (P_USER (p\<lparr>io_data := gpio_data (service m) ! unat (io_addr p)\<rparr>)))
         (set_result RPC_SRV_RESULT_SUCCESS d), m)
   | _ \<Rightarrow> kfail BadDeref)"

definition json_to_bin_gpio_set :: "gpio_env \<Rightarrow> gpio_rpc \<Rightarrow> gpio_mgr \<Rightarrow> gpio_res" where
  "json_to_bin_gpio_set env d m =
     PREPARE_JSON_REQUEST RPC_SRV_ACT_WRITE 1 (io_packet env (junk_int env) (junk_int env)) d m (\<lambda>d m.
     JSON_STRING_TO_INT env ''addr'' d m (\<lambda>a.
     JSON_STRING_TO_INT env ''data'' d m (\<lambda>v.
     kret (0, set_packet (Some (io_packet env a v)) d, m))))"

definition bin_to_json_gpio_set :: "gpio_rpc \<Rightarrow> gpio_mgr \<Rightarrow> gpio_res" where
  "bin_to_json_gpio_set = PREPARE_JSON_RESP"

text \<open>The cache after a write that succeeded: an event is queued when the value differs from the last one.\<close>

definition cache_write :: "nat \<Rightarrow> u32 \<Rightarrow> gpio_state \<Rightarrow> gpio_state" where
  "cache_write i v s =
     (let s = s\<lparr>gpio_data := (gpio_data s)[i := v]\<rparr> in
      if gpio_data s ! i \<noteq> gpio_data_prev s ! i then
        s\<lparr>gpio_data_prev := (gpio_data_prev s)[i := gpio_data s ! i],
          EventNotifier := snd (NotifyEvent EGPIOCTL_EVENT_TYPE_OUTPUT_CHANGED (of_nat i) GPIOCTL_JSON_PORT_NUMBER (-1) (EventNotifier s))\<rparr>
      else s)"

definition process_gpio_set :: "bool \<Rightarrow> gpio_hw \<Rightarrow> gpio_rpc \<Rightarrow> gpio_mgr \<Rightarrow> gpio_res" where
  "process_gpio_set emu hw d m = on_req d (\<lambda>r. case rq_dataRef r of
     Some (P_USER p) \<Rightarrow>
       let i = unat (io_addr p) in
       if GPIOCTL_MAX_GPIO_PINS \<le> i then kret (0, set_result RPC_SRV_RESULT_ARG_ERROR d, m)
       else (case (if emu then (RPC_SRV_RESULT_SUCCESS, service m) else WriteGPIO hw i (io_data p) (service m)) of (res, s) \<Rightarrow>
         kret (0, set_result res d, m\<lparr>service := (if res = RPC_SRV_RESULT_SUCCESS then cache_write i (io_data p) s else s)\<rparr>))
   | _ \<Rightarrow> kfail BadDeref)"

text \<open>The class: the same functions for both objects, which differ in the index they are called with.\<close>

definition GpioCtrlRpc :: "bool \<Rightarrow> gpio_hw \<Rightarrow> gpio_env \<Rightarrow> (GPIOCTL_IO_ACCESS_PACKET, gpio_state) handler" where
  "GpioCtrlRpc emu hw env = \<lparr>
     h_MapJsonToBinary = (\<lambda>i d m. if i = 0 then json_to_bin_gpio_get env d m else if i = 1 then json_to_bin_gpio_set env d m else kret (-1, d, m)),
     h_MapBinaryToJson = (\<lambda>i d m. if i = 0 then bin_to_json_gpio_get d m else if i = 1 then bin_to_json_gpio_set d m else kret (-1, d, m)),
     h_ProcessWork = (\<lambda>i d m. if i = 0 then process_gpio_get d m else if i = 1 then process_gpio_set emu hw d m else kret (0, d, m)),
     h_ProcessWorkAsync = (\<lambda>i dat m. kret (RPC_SRV_RESULT_FAIL, m)),
     h_ReceiveEvent = (\<lambda>_ _ _ _ s. s)\<rparr>"

section \<open>The service\<close>

definition gpio_world :: "platform \<Rightarrow> nat \<Rightarrow> s32 \<Rightarrow> string \<Rightarrow> bool \<Rightarrow> gpio_hw \<Rightarrow> gpio_env" where
  "gpio_world pl mx j s emu hw = (let e = service_env pl mx j s in e\<lparr>handlers := (\<lambda>_. GpioCtrlRpc emu hw e)\<rparr>)"

text \<open>The objects that \<open>main\<close> attaches.\<close>

definition gpio_objects :: "bool \<Rightarrow> ADJsonRpcMgrConsumer list" where
  "gpio_objects dbglog = [
     \<lparr>strRpcName = ''gpio_get'', c_index = 0, parent_index = 0, logmsg = dbglog, cmnrpchandler = False, c_object = 0\<rparr>,
     \<lparr>strRpcName = ''gpio_set'', c_index = 1, parent_index = 0, logmsg = dbglog, cmnrpchandler = False, c_object = 1\<rparr>]"

definition gpio_main :: "s32 \<Rightarrow> bool \<Rightarrow> rpc \<Rightarrow> (gpio_mgr \<times> rpc) kres" where
  "gpio_main ver dbglog st =
     kbind (mgr_Start (fold AttachRpc (gpio_objects dbglog) (mgr_new ver dbglog gpio_cache)) st) (\<lambda>(m, st).
     kret (snd (SetServiceReadyFlag 1 m), st))"

section \<open>The contract of the service\<close>

definition gpio_objs :: "(s32 \<times> nat \<times> bool) list" where
  "gpio_objs = [(0, 0, False), (1, 1, False)]"

definition gpio_ok :: "gpio_state \<Rightarrow> bool" where
  "gpio_ok s \<longleftrightarrow> length (gpio_data s) = GPIOCTL_MAX_GPIO_PINS \<and> length (gpio_data_prev s) = GPIOCTL_MAX_GPIO_PINS \<and> mapped s = 0"

abbreviation gpio_inv :: "gpio_mgr \<Rightarrow> bool" where
  "gpio_inv \<equiv> mgr_inv gpio_objs (\<lambda>_ _. False) gpio_ok"

definition is_io :: "GPIOCTL_IO_ACCESS_PACKET packet \<Rightarrow> bool" where
  "is_io pk \<longleftrightarrow> (\<exists>p. pk = P_USER p)"

lemma cache_write_ok [simp]: "gpio_ok (cache_write i v s) = gpio_ok s"
  by (simp add: cache_write_def gpio_ok_def Let_def)

lemma WriteGPIO_ok: "gpio_ok s \<Longrightarrow> gpio_ok (snd (WriteGPIO hw i v s))"
  by (simp add: WriteGPIO_def OpenGPIONode_def CloseGPIONode_def INP_GPIO_def OUT_GPIO_def write_reg_def gpio_ok_def Let_def)

lemma gpio_inv_service: "gpio_inv m \<Longrightarrow> gpio_ok s \<Longrightarrow> gpio_inv (m\<lparr>service := s\<rparr>)"
  by (simp add: mgr_inv_def)

lemma io_packet_user [simp]: "io_packet env a v = P_USER \<lparr>io_addr = a, io_data = v\<rparr>"
  by (simp add: io_packet_def)

lemma gpio_map_in:
  assumes fits: "params_fit (jlib (plat env)) (d_socket_data d)" and inv: "gpio_inv m" and req: "empty_req d" and own: "0 < owned m"
    and f: "f = json_to_bin_gpio_get \<or> f = json_to_bin_gpio_set"
  shows "returns (f env d m) (\<lambda>(res, d', m'). gpio_inv m' \<and> same_call d d' \<and> d_json d' = d_json d \<and>
     (if res = 0 then holds is_io d' \<and> owned m' = owned m + 1 else empty_req d' \<and> owned m' = owned m))"
proof -
  obtain r where r: "d_obj d = Some r" "rq_dataRef r = None" using req by (auto simp: empty_req_def)
  show ?thesis using inv own f
    by (auto simp: json_to_bin_gpio_get_def json_to_bin_gpio_set_def macro_defs find_single_param_fits [OF fits] r holds_def empty_req_def
        same_call_def mgr_inv_blocks owned_def is_io_def split: option.splits)
qed

lemma gpio_work:
  assumes inv: "gpio_inv m" and pk: "holds is_io d" and f: "f = process_gpio_get \<or> f = process_gpio_set emu hw"
  shows "returns (f d m) (\<lambda>(res, d', m'). gpio_inv m' \<and> same_call d d' \<and> holds is_io d' \<and> owned m' = owned m)"
proof -
  obtain r p where r: "d_obj d = Some r" "rq_dataRef r = Some (P_USER p)" using pk by (auto simp: holds_def is_io_def)
  have "gpio_ok (service m)" using inv by (simp add: mgr_inv_def)
  then have "gpio_ok (snd (WriteGPIO hw i v (service m)))" for i v by (rule WriteGPIO_ok)
  then show ?thesis using inv f \<open>gpio_ok (service m)\<close>
    by (auto simp: process_gpio_get_def process_gpio_set_def on_req_def r set_result_def set_packet_def holds_def is_io_def
        same_call_def owned_def Let_def case_prod_beta gpio_inv_service)
qed

lemma gpio_map_out:
  assumes inv: "gpio_inv m" and pk: "holds is_io d" and own: "1 < owned m" and f: "f = bin_to_json_gpio_get \<or> f = bin_to_json_gpio_set"
  shows "returns (f d m) (\<lambda>(res, d', m'). gpio_inv m' \<and> same_call d d' \<and> empty_req d' \<and> owned m' + 1 = owned m \<and> d_json d' \<noteq> None)"
proof -
  obtain r p where r: "d_obj d = Some r" "rq_dataRef r = Some (P_USER p)" using pk by (auto simp: holds_def is_io_def)
  show ?thesis using inv own f
    by (auto simp: bin_to_json_gpio_get_def bin_to_json_gpio_set_def resp_defs io_data_of_def r empty_req_def same_call_def
        mgr_inv_blocks owned_def)
qed

lemma gpio_call:
  assumes "jb = json_to_bin_gpio_get env \<and> pw = process_gpio_get \<and> bj = bin_to_json_gpio_get \<or>
    jb = json_to_bin_gpio_set env \<and> pw = process_gpio_set emu hw \<and> bj = bin_to_json_gpio_set"
  shows "rpc_call jb pw bj is_io gpio_inv (params_fit (jlib (plat env)))"
proof (unfold_locales, goal_cases)
  case 1
  show ?case by (rule mgr_inv_blocks)
next
  case (2 d m)
  show ?case using assms gpio_map_in [OF 2(1-4) disjI1 [OF refl]] gpio_map_in [OF 2(1-4) disjI2 [OF refl]]
    by (elim disjE conjE) simp_all
next
  case (3 m d)
  show ?case using assms gpio_work [OF 3(1,2) disjI1 [OF refl]] gpio_work [OF 3(1,2) disjI2 [OF refl]] by auto
next
  case (4 m d)
  show ?case using assms gpio_map_out [OF 4(1-3) disjI1 [OF refl]] gpio_map_out [OF 4(1-3) disjI2 [OF refl]] by auto
qed

lemma gpio_no_cmn: "list_all (\<lambda>(_, _, b). \<not> b) gpio_objs"
  by (simp add: gpio_objs_def)

interpretation gpio: rpc_service "gpio_world pl mx j s emu hw" gpio_objs "\<lambda>_ _. False" gpio_ok "\<lambda>_. is_io" for pl mx j s emu hw
proof (rule rpc_service.intro, goal_cases)
  case (8 n ix ob)
  then have "n = 0 \<and> ix = 0 \<or> n = 1 \<and> ix = 1" by (auto simp: gpio_objs_def less_Suc_eq)
  moreover have "plat (gpio_world pl mx j s emu hw) = plat (service_env pl mx j s :: gpio_env)" by (simp add: gpio_world_def Let_def)
  ultimately show ?case
    by (auto intro!: gpio_call [of _ "service_env pl mx j s" _ _ emu hw] simp: gpio_world_def GpioCtrlRpc_def Let_def)
qed (auto simp: gpio_world_def service_env_def next_ptr_fresh GpioCtrlRpc_def Let_def dest: no_common_handler [OF _ gpio_no_cmn])

interpretation gpio_get: rpc_call "json_to_bin_gpio_get env" process_gpio_get bin_to_json_gpio_get is_io gpio_inv
  "params_fit (jlib (plat env))" for env :: gpio_env
  by (rule gpio_call) simp

interpretation gpio_set: rpc_call "json_to_bin_gpio_set env" "process_gpio_set emu hw" bin_to_json_gpio_set is_io gpio_inv
  "params_fit (jlib (plat env))" for env :: gpio_env and emu hw
  by (rule gpio_call [of _ _ _ _ emu hw]) simp

section \<open>What the calls do\<close>

text \<open>A request with the given parameters, as numbers.\<close>

definition asks :: "json_lib \<Rightarrow> string \<Rightarrow> string \<Rightarrow> s32 \<Rightarrow> bool" where
  "asks lib txt name v \<longleftrightarrow> (\<exists>s. param_text lib txt name = Some s \<and> atoi s = v)"

definition gpio_get_call :: "json_lib \<Rightarrow> u32 \<Rightarrow> gpio_rpc \<Rightarrow> bool" where
  "gpio_get_call lib a d \<longleftrightarrow> d_obj d = None \<and> d_cmd_index d = 24 \<and> params_fit lib (d_socket_data d) \<and> asks lib (d_socket_data d) ''addr'' a"

definition gpio_set_call :: "json_lib \<Rightarrow> u32 \<times> u32 \<Rightarrow> gpio_rpc \<Rightarrow> bool" where
  "gpio_set_call lib av d \<longleftrightarrow> d_obj d = None \<and> d_cmd_index d = 25 \<and> params_fit lib (d_socket_data d) \<and>
     asks lib (d_socket_data d) ''addr'' (fst av) \<and> asks lib (d_socket_data d) ''data'' (snd av)"

text \<open>The result of a write and the state after it.\<close>

definition gpio_write :: "bool \<Rightarrow> gpio_hw \<Rightarrow> u32 \<Rightarrow> u32 \<Rightarrow> gpio_state \<Rightarrow> RPC_SRV_RESULT \<times> gpio_state" where
  "gpio_write emu hw a v s =
     (if GPIOCTL_MAX_GPIO_PINS \<le> unat a then (RPC_SRV_RESULT_ARG_ERROR, s)
      else case (if emu then (RPC_SRV_RESULT_SUCCESS, s) else WriteGPIO hw (unat a) v s) of (res, s) \<Rightarrow>
        (res, if res = RPC_SRV_RESULT_SUCCESS then cache_write (unat a) v s else s))"

lemma gpio_rpclist: "gpio_inv m \<Longrightarrow> length (rpclist m) = 2 \<and> \<not> cmnrpchandler (rpclist m ! 0) \<and> \<not> cmnrpchandler (rpclist m ! 1)"
  by (auto simp: mgr_inv_def shape_def gpio_objs_def length_Suc_conv map_eq_Cons_conv)

lemma gpio_callable: "gpio_inv m \<Longrightarrow> d_obj d = None \<Longrightarrow> d_cmd_index d = 24 \<or> d_cmd_index d = 25 \<Longrightarrow> callable m d"
  using gpio_rpclist [of m] by (auto simp: callable_def)

lemma gpio_plat [simp]: "plat (gpio_world pl mx j s emu hw) = pl" "junk_int (gpio_world pl mx j s emu hw) = j"
  "plat (service_env pl mx j s) = pl" "junk_int (service_env pl mx j s) = j"
  by (simp_all add: gpio_world_def service_env_def Let_def)

lemma gpio_set_run:
  assumes inv: "gpio_inv m" and own: "0 \<le> owned m" and call: "gpio_set_call (jlib pl) (a, v) d"
  shows "returns (mgr_run_method (gpio_world pl mx j s emu hw) d m) (\<lambda>(d', m'). service m' = snd (gpio_write emu hw a v (service m)) \<and>
    d_json d' = Some (JObj [(''return'', JStr (convert_server_result_to_string (fst (gpio_write emu hw a v (service m)))))]) \<and>
    d_mapper_result d' = d_mapper_result d \<and> gpio_inv m' \<and> owned m' = owned m)"
proof -
  let ?env = "gpio_world pl mx j s emu hw" and ?e = "service_env pl mx j s :: gpio_env"
  have c: "callable m d" using inv call by (intro gpio_callable) (auto simp: gpio_set_call_def)
  have fits: "params_fit (jlib (plat ?env)) (d_socket_data d)" using call by (simp add: gpio_set_call_def)
  have run: "mgr_run_method ?env d m = gpio_set.serve ?e emu hw ?env d m"
    using gpio.run_attached [OF c _ fits inv own] call
    by (auto simp: gpio_set_call_def gpio_objs_def) (simp add: gpio_world_def GpioCtrlRpc_def Let_def)
  obtain sa sv where p: "param_text (jlib pl) (d_socket_data d) ''addr'' = Some sa" "atoi sa = a"
    "param_text (jlib pl) (d_socket_data d) ''data'' = Some sv" "atoi sv = v" "params_fit (jlib pl) (d_socket_data d)"
    using call by (auto simp: gpio_set_call_def asks_def)
  have "returns (gpio_set.serve ?e emu hw ?env d m) (\<lambda>(d', m'). service m' = snd (gpio_write emu hw a v (service m)) \<and>
    d_json d' = Some (JObj [(''return'', JStr (convert_server_result_to_string (fst (gpio_write emu hw a v (service m)))))]) \<and> d_mapper_result d' = d_mapper_result d)"
    using p(1,3) unfolding gpio_set.serve_def by (auto simp: create_req_obj_def json_to_bin_gpio_set_def macro_defs find_single_param_fits [OF p(5)] p(2,4)
      process_gpio_set_def on_req_def set_result_def bin_to_json_gpio_set_def resp_defs delete_req_obj_def gpio_write_def Let_def case_prod_beta)
  then show ?thesis using gpio.call_returns [OF c fits inv own] unfolding run by (auto simp: returns_def)
qed

lemma gpio_get_run:
  assumes inv: "gpio_inv m" and own: "0 \<le> owned m" and call: "gpio_get_call (jlib pl) a d"
  shows "returns (mgr_run_method (gpio_world pl mx j s emu hw) d m) (\<lambda>(d', m'). service m' = service m \<and>
    d_json d' = Some (JObj (if unat a < GPIOCTL_MAX_GPIO_PINS
      then [(''return'', JStr ''Success''), (''data'', JInt (sint (gpio_data (service m) ! unat a)))] else [(''return'', JStr ''ArgError'')])) \<and>
    d_mapper_result d' = d_mapper_result d \<and> gpio_inv m' \<and> owned m' = owned m)"
proof -
  let ?env = "gpio_world pl mx j s emu hw" and ?e = "service_env pl mx j s :: gpio_env"
  have c: "callable m d" using inv call by (intro gpio_callable) (auto simp: gpio_get_call_def)
  have fits: "params_fit (jlib (plat ?env)) (d_socket_data d)" using call by (simp add: gpio_get_call_def)
  have run: "mgr_run_method ?env d m = gpio_get.serve ?e ?env d m"
    using gpio.run_attached [OF c _ fits inv own] call
    by (auto simp: gpio_get_call_def gpio_objs_def) (simp add: gpio_world_def GpioCtrlRpc_def Let_def)
  obtain sa where p: "param_text (jlib pl) (d_socket_data d) ''addr'' = Some sa" "atoi sa = a" "params_fit (jlib pl) (d_socket_data d)"
    using call by (auto simp: gpio_get_call_def asks_def)
  have "returns (gpio_get.serve ?e ?env d m) (\<lambda>(d', m'). service m' = service m \<and>
    d_json d' = Some (JObj (if unat a < GPIOCTL_MAX_GPIO_PINS
      then [(''return'', JStr ''Success''), (''data'', JInt (sint (gpio_data (service m) ! unat a)))] else [(''return'', JStr ''ArgError'')])) \<and> d_mapper_result d' = d_mapper_result d)"
    using p(1) unfolding gpio_get.serve_def by (auto simp: create_req_obj_def json_to_bin_gpio_get_def macro_defs find_single_param_fits [OF p(3)] p(2)
      process_gpio_get_def on_req_def set_result_def bin_to_json_gpio_get_def resp_defs io_data_of_def delete_req_obj_def
      convert_server_result_to_string_def rpc_server_result_table_def rpc_code_def rpc_srv_results_def)
  then show ?thesis using gpio.call_returns [OF c fits inv own] unfolding run by (auto simp: returns_def)
qed

section \<open>Properties\<close>

text \<open>A library that knows two requests, for the examples.\<close>

definition io_lib :: json_lib where
  "io_lib = \<lparr>tokener_parse = (\<lambda>s. Some (JObj [(''params'', JObj (if s = ''set''
       then [(''addr'', JStr ''4''), (''data'', JStr ''1'')] else [(''addr'', JStr ''4'')]))])),
     object_get = ex_get, get_string = (\<lambda>v. case v of Some (JObj _) \<Rightarrow> Some ''{}'' | _ \<Rightarrow> ex_string v),
     to_json_string = (\<lambda>_. ''{}'')\<rparr>"

definition io_platform :: platform where
  "io_platform = ex_platform\<lparr>jlib := io_lib\<rparr>"

definition io_hw :: gpio_hw where
  "io_hw = \<lparr>node_ok = (\<lambda>_. True), read_reg = (\<lambda>_ _. 0), wide_shift = (\<lambda>_. 0)\<rparr>"

definition io_request :: "int \<Rightarrow> string \<Rightarrow> gpio_rpc" where
  "io_request i s = \<lparr>d_req_id = 1, d_cmd_index = i, d_mapper_result = CMD_TASK_RESULT_UNKNOWN, d_rpc_code = 4, d_worker_result = -1,
     d_socket_data = s, d_json = None, d_custom = [], d_cltport = 0, d_ip = [], d_sock_id = 1, d_sock_descr = 5, d_obj = None\<rparr>"

lemma io_param: "param_text io_lib s name = (if name = ''addr'' then Some ''4'' else if s = ''set'' \<and> name = ''data'' then Some ''1'' else None)"
  by (auto simp: param_text_def io_lib_def ex_get_def ex_string_def)

lemma io_fit: "params_fit io_lib s"
  by (auto simp: params_fit_def io_param split: if_splits)

lemma io_numbers: "atoi ''4'' = 4" "atoi ''1'' = 1"
  by code_simp+

lemma io_calls: "gpio_set_call io_lib (4, 1) (io_request 25 ''set'')" "gpio_get_call io_lib 4 (io_request 24 ''get'')"
  by (simp_all add: gpio_set_call_def gpio_get_call_def io_request_def io_fit asks_def io_param io_numbers)

lemma io_starts: "\<exists>m0 st'. gpio_main 1 False ex_rpc = kret (m0, st')"
  by (simp add: gpio_main_def mgr_Start_def gpio_objects_def AttachRpc_def mgr_new_def sprintf_s_def SetServiceReadyFlag_def Let_def)

lemma gpio_main_starts:
  "gpio_main ver dbglog st = kret (m, st') \<Longrightarrow> gpio_inv m \<and> owned m = 0 \<and> service m = gpio_cache"
  by (auto simp: gpio_main_def mgr_Start_def gpio_objects_def AttachRpc_def mgr_new_def sprintf_s_def SetServiceReadyFlag_def Let_def
      mgr_inv_def owned_def ev_ok_new shape_def gpio_objs_def gpio_ok_def gpio_cache_def tw_init_def)

text \<open>
  Property C17: the GPIO service neither leaks nor faults as long as no call has a parameter of 255 characters or more, which the code copies into an array
  of 255 without a check. Whatever such calls, tasks and events it has served since it was
  started, in whatever order, its objects are just those that the queued tasks hold and the register block is
  not mapped; and the next call of a registered method, its parameters again shorter than 255 characters, the next round of the worker and the next run of
  the notification thread return.
\<close>

theorem gpio_service_balanced:
  assumes start: "gpio_main ver dbglog st = kret (m0, st')" and reach: "srv_reach (gpio_world pl mx j s emu hw) m0 m"
  shows "blocks m = length (work_chain (AsyncTaskWorker m)) \<and> mapped (service m) = 0 \<and>
    (\<forall>d. params_fit (jlib pl) (d_socket_data d) \<and> callable m d \<longrightarrow>
      (\<exists>d' m'. mgr_run_method (gpio_world pl mx j s emu hw) d m = kret (d', m') \<and> d_obj d' = None \<and> srv_reach (gpio_world pl mx j s emu hw) m0 m')) \<and>
    (\<exists>m'. mgr_worker_round (gpio_world pl mx j s emu hw) m = kret m') \<and> (\<exists>ev. notify_thread net (EventMgr m) = kret ev)"
proof -
  have i: "gpio_inv m0" "owned m0 = 0" using gpio_main_starts [OF start] by simp_all
  note b = gpio.service_balanced [OF reach i]
  have "gpio_ok (service m)" using gpio.reach_keeps [OF reach i(1)] i(2) by (simp add: mgr_inv_def)
  then show ?thesis using b(1,3) b(4) [of net] b(2) by (force simp: returns_def gpio_ok_def)
qed

theorem gpio_service_balanced_witness:
  "\<exists>m0 st' d' m'. gpio_main 1 False ex_rpc = kret (m0, st') \<and>
    mgr_run_method (gpio_world io_platform 0 0 [] False io_hw) (io_request 25 ''set'') m0 = kret (d', m') \<and> d_obj d' = None"
proof -
  obtain m0 st' where start: "gpio_main 1 False ex_rpc = kret (m0, st')" using io_starts by blast
  have "callable m0 (io_request 25 ''set'')" using gpio_main_starts [OF start] by (intro gpio_callable) (simp_all add: io_request_def)
  then show ?thesis using start gpio_service_balanced [OF start srv_reach.init, of io_platform 0 0 "[]" False io_hw "\<lambda>_. True"]
    by (auto simp: io_platform_def io_fit)
qed

text \<open>Several calls, one after the other.\<close>

fun run_calls :: "('p, 's) mgr_env \<Rightarrow> 'p rpc_data list \<Rightarrow> ('p, 's) rpc_mgr \<Rightarrow> ('p rpc_data list \<times> ('p, 's) rpc_mgr) kres" where
  "run_calls env [] m = kret ([], m)"
| "run_calls env (d # ds) m =
     kbind (mgr_run_method env d m) (\<lambda>(d, m). kbind (run_calls env ds m) (\<lambda>(ds, m). kret (d # ds, m)))"

text \<open>How often the values of a pin change.\<close>

fun changes :: "u32 \<Rightarrow> u32 list \<Rightarrow> nat" where
  "changes x [] = 0"
| "changes x (y # ys) = (if x = y then 0 else 1) + changes y ys"

definition events_of :: "nat \<Rightarrow> gpio_state \<Rightarrow> nat" where
  "events_of i s = length (filter (\<lambda>x. n_eventArg x = of_nat i) (NotifierList (EventNotifier s)))"

definition pin_writes :: "nat \<Rightarrow> (u32 \<times> u32) list \<Rightarrow> u32 list" where
  "pin_writes i avs = map snd (filter (\<lambda>(a, _). unat a = i) avs)"

lemma gpio_write_dev:
  assumes "emu \<or> (\<forall>n. node_ok hw n)" and "unat a < 64"
  obtains s1 where "gpio_write emu hw a v s = (RPC_SRV_RESULT_SUCCESS, cache_write (unat a) v s1)" "gpio_data s1 = gpio_data s"
    "gpio_data_prev s1 = gpio_data_prev s" "EventNotifier s1 = EventNotifier s" "mapped s1 = mapped s"
proof
  let ?s = "if emu then s else snd (WriteGPIO hw (unat a) v s)"
  note defs = WriteGPIO_def OpenGPIONode_def CloseGPIONode_def INP_GPIO_def OUT_GPIO_def write_reg_def Let_def
  show "gpio_write emu hw a v s = (RPC_SRV_RESULT_SUCCESS, cache_write (unat a) v ?s)"
    using assms by (cases emu) (simp_all add: gpio_write_def GPIOCTL_MAX_GPIO_PINS_def defs)
  show "gpio_data ?s = gpio_data s" "gpio_data_prev ?s = gpio_data_prev s" "EventNotifier ?s = EventNotifier s" "mapped ?s = mapped s"
    by (simp_all add: defs)
qed

lemma gpio_write_pin:
  assumes ok: "gpio_ok s" and dev: "emu \<or> (\<forall>n. node_ok hw n)" and i: "i < 64" and same: "gpio_data s ! i = gpio_data_prev s ! i"
  shows "let s' = snd (gpio_write emu hw a v s) in gpio_ok s' \<and>
    gpio_data s' ! i = (if unat a = i then v else gpio_data s ! i) \<and> gpio_data_prev s' ! i = gpio_data s' ! i \<and>
    events_of i s' = events_of i s + (if unat a = i \<and> gpio_data s ! i \<noteq> v then 1 else 0)"
proof (cases "unat a < 64")
  case True
  obtain s1 where s1: "gpio_write emu hw a v s = (RPC_SRV_RESULT_SUCCESS, cache_write (unat a) v s1)" "gpio_data s1 = gpio_data s"
    "gpio_data_prev s1 = gpio_data_prev s" "EventNotifier s1 = EventNotifier s" "mapped s1 = mapped s"
    by (rule gpio_write_dev [OF dev True])
  have "unat (of_nat i :: u32) = i" using i by (simp add: unat_of_nat)
  then have cast: "a = of_nat i \<longleftrightarrow> unat a = i" by auto
  have len: "length (gpio_data s) = 64" "length (gpio_data_prev s) = 64" "gpio_ok s1"
    using ok s1 by (simp_all add: gpio_ok_def GPIOCTL_MAX_GPIO_PINS_def)
  show ?thesis using True i same len s1 cast
    by (cases "unat a = i") (auto simp: cache_write_def Let_def events_of_def NotifyEvent_def gpio_ok_def)
next
  case False
  then show ?thesis using ok same i by (auto simp: gpio_write_def GPIOCTL_MAX_GPIO_PINS_def)
qed

lemma gpio_sets_run:
  assumes calls: "list_all2 (gpio_set_call (jlib pl)) avs ds" and dev: "emu \<or> (\<forall>n. node_ok hw n)" and i: "i < 64"
    and inv: "gpio_inv m" and own: "0 \<le> owned m" and same: "gpio_data (service m) ! i = gpio_data_prev (service m) ! i"
  shows "returns (run_calls (gpio_world pl mx j s emu hw) ds m) (\<lambda>(ds', m'). gpio_inv m' \<and> owned m' = owned m \<and>
    gpio_data (service m') ! i = last (gpio_data (service m) ! i # pin_writes i avs) \<and>
    events_of i (service m') = events_of i (service m) + changes (gpio_data (service m) ! i) (pin_writes i avs))"
  using calls inv own same
proof (induction avs ds arbitrary: m rule: list_all2_induct)
  case Nil
  then show ?case by (simp add: pin_writes_def)
next
  case (Cons av avs d ds)
  obtain a v where av: "av = (a, v)" by (cases av)
  obtain d1 m1 where 1: "mgr_run_method (gpio_world pl mx j s emu hw) d m = kret (d1, m1)" "gpio_inv m1" "owned m1 = owned m"
    "service m1 = snd (gpio_write emu hw a v (service m))"
    using gpio_set_run [OF Cons.prems(1,2), of pl a v d mx j s emu hw] Cons.hyps(1) av by (auto simp: returns_def)
  have ok: "gpio_ok (service m)" using Cons.prems(1) by (simp add: mgr_inv_def)
  note w = gpio_write_pin [OF ok dev i Cons.prems(3), of a v, unfolded Let_def, folded 1(4)]
  have "returns (run_calls (gpio_world pl mx j s emu hw) ds m1) (\<lambda>(ds', m'). gpio_inv m' \<and> owned m' = owned m1 \<and>
    gpio_data (service m') ! i = last (gpio_data (service m1) ! i # pin_writes i avs) \<and>
    events_of i (service m') = events_of i (service m1) + changes (gpio_data (service m1) ! i) (pin_writes i avs))"
    using Cons.IH [OF 1(2)] 1(3) Cons.prems(2) w by simp
  then show ?case using 1 w by (auto simp: av pin_writes_def elim!: returns_mono)
qed

text \<open>
  Property C23: events of the GPIO service follow the values of the pins. After any sequence of accepted \<open>gpio_set\<close> calls
  on a service that was just started, every pin holds the value that was last written to it (2 when there was none),
  \<open>gpio_get\<close> returns it, and the number of events queued for the pin is the number of times its value changed.
\<close>

theorem gpio_sets_then_get:
  assumes start: "gpio_main ver dbglog st = kret (m0, st')" and dev: "emu \<or> (\<forall>n. node_ok hw n)"
    and calls: "list_all2 (gpio_set_call (jlib pl)) avs ds" and i: "i < 64" and get: "gpio_get_call (jlib pl) (of_nat i) d"
  shows "\<exists>ds' m' d' m''. run_calls (gpio_world pl mx j s emu hw) ds m0 = kret (ds', m') \<and>
    events_of i (service m') = changes 2 (pin_writes i avs) \<and>
    mgr_run_method (gpio_world pl mx j s emu hw) d m' = kret (d', m'') \<and>
    d_json d' = Some (JObj [(''return'', JStr ''Success''), (''data'', JInt (sint (last (2 # pin_writes i avs))))])"
proof -
  have m0: "gpio_inv m0" "0 \<le> owned m0" "gpio_data (service m0) ! i = 2" "gpio_data_prev (service m0) ! i = 2" "events_of i (service m0) = 0"
    using gpio_main_starts [OF start] i by (simp_all add: gpio_cache_def GPIOCTL_MAX_GPIO_PINS_def events_of_def notifier_new_def)
  obtain ds' m' where 1: "run_calls (gpio_world pl mx j s emu hw) ds m0 = kret (ds', m')" "gpio_inv m'" "0 \<le> owned m'"
    "gpio_data (service m') ! i = last (2 # pin_writes i avs)" "events_of i (service m') = changes 2 (pin_writes i avs)"
    using gpio_sets_run [OF calls dev i m0(1,2), of mx j s] m0(2-5) by (auto simp: returns_def)
  have u: "unat (of_nat i :: u32) = i" using i by (simp add: unat_of_nat)
  obtain d' m'' where "mgr_run_method (gpio_world pl mx j s emu hw) d m' = kret (d', m'')"
    "d_json d' = Some (JObj [(''return'', JStr ''Success''), (''data'', JInt (sint (last (2 # pin_writes i avs))))])"
    using gpio_get_run [OF 1(2,3) get, of mx j s emu hw] u i 1(4) by (auto simp: returns_def GPIOCTL_MAX_GPIO_PINS_def)
  then show ?thesis using 1(1,5) by blast
qed

theorem gpio_sets_then_get_witness:
  "\<exists>m0 st' ds' m' d' m''. gpio_main 1 False ex_rpc = kret (m0, st') \<and>
    run_calls (gpio_world io_platform 0 0 [] False io_hw) [io_request 25 ''set'', io_request 25 ''set''] m0 = kret (ds', m') \<and>
    events_of 4 (service m') = 1 \<and>
    mgr_run_method (gpio_world io_platform 0 0 [] False io_hw) (io_request 24 ''get'') m' = kret (d', m'') \<and>
    d_json d' = Some (JObj [(''return'', JStr ''Success''), (''data'', JInt 1)])"
proof -
  obtain m0 st' where start: "gpio_main 1 False ex_rpc = kret (m0, st')" using io_starts by blast
  have "list_all2 (gpio_set_call (jlib io_platform)) [(4, 1), (4, 1)] [io_request 25 ''set'', io_request 25 ''set'']"
    "gpio_get_call (jlib io_platform) (of_nat 4) (io_request 24 ''get'')" "False \<or> (\<forall>n. node_ok io_hw n)"
    using io_calls by (simp_all add: io_platform_def io_hw_def)
  from gpio_sets_then_get [OF start this(3,1) _ this(2), of 0 0 "[]"] start show ?thesis by (force simp: pin_writes_def)
qed

text \<open>
  Fact: the pin is driven the other way round. A write of a value other than 0 ends with the register that clears the pin,
  and a write of 0 with the one that sets it, and what \<open>gpio_get\<close> reports is the value and not the level.
\<close>

theorem write_gpio_inverted:
  assumes "node_ok hw (node_opens s)" and "a < 32"
  shows "fst (WriteGPIO hw a v s) = RPC_SRV_RESULT_SUCCESS \<and>
    last (reg_writes (snd (WriteGPIO hw a v s))) = (if v = 0 then 7 else 10, push_bit a 1)"
  using assms by (simp add: WriteGPIO_def OpenGPIONode_def CloseGPIONode_def INP_GPIO_def OUT_GPIO_def write_reg_def one_shl_def Let_def)

end
