(* ===== verification/Client_Server.thy ===== *)
theory Client_Server
  imports Json_Client Gpioctl
begin

text \<open>
  A client and a service together: the request of the client arrives at the TCP server of the service, the JSON-RPC server
  files it, the mapper runs the RPC manager on it, the answer goes back on the socket and the client reads it.
\<close>

section \<open>A service on the network\<close>

text \<open>One run of the mapper thread (\<open>ADJsonRpcMapper.cpp\<close>) whose callbacks are those of the RPC manager.\<close>

definition call_data :: "api_task_obj \<Rightarrow> 'p rpc_data" where
  "call_data t = JsonDataCommObj.extend (data_obj t) (rpc_data.fields None)"

definition mgr_mapper_callback :: "('p, 's) mgr_env \<Rightarrow> rpc \<Rightarrow> ('p, 's) rpc_mgr \<Rightarrow> (rpc \<times> ('p, 's) rpc_mgr) kres" where
  "mgr_mapper_callback env st m = (case ReqChain st of
     [] \<Rightarrow> kret (st, m)
   | p # rest \<Rightarrow>
       let st = st\<lparr>ReqChain := rest\<rparr> in
       (case tasks st p of
          None \<Rightarrow> kfail BadDeref
        | Some t \<Rightarrow>
            kbind (mgr_run_method env (call_data t) m) (\<lambda>(d, m).
            let t = t\<lparr>t_result := d_mapper_result d, t_rpc_code := d_rpc_code d, t_json := d_json d, t_custom := d_custom d\<rparr> in
            kbind (json_send_response (plat env) p (st\<lparr>tasks := (tasks st)(p \<mapsto> t)\<rparr>)) (\<lambda>(_, st). kret (st, m)))))"

text \<open>The threads of the service in the order in which one request passes them; \<open>room\<close> is what the socket takes.\<close>

definition service_turn ::
  "('p, 's) mgr_env \<Rightarrow> nat \<Rightarrow> nat \<Rightarrow> string \<Rightarrow> rpc \<Rightarrow> ('p, 's) rpc_mgr \<Rightarrow> (rpc \<times> ('p, 's) rpc_mgr) kres" where
  "service_turn env sd room s st m =
     kbind (recv_loop (put_ok (plat env)) (on_data_arrival (plat env)) sd [Received s] st) (\<lambda>(_, st).
     kbind (mgr_mapper_callback env st m) (\<lambda>(st, m).
     kbind (json_process_rsponse (plat env) st) (\<lambda>(_, st). kret (send_response room st, m))))"

text \<open>A service that waits for requests, with a client on socket \<open>sd\<close>.\<close>

definition waiting :: "nat \<Rightarrow> nat \<Rightarrow> rpc \<Rightarrow> bool" where
  "waiting sd cl st \<longleftrightarrow> request_chain st = [] \<and> ReqChain st = [] \<and> ReqRespChain st = [] \<and> RespChain st = [] \<and> response_chain st = [] \<and>
     peers st sd = Some cl"

lemma no_cut_snoc: "no_cut s \<Longrightarrow> no_cut (s @ [CHR 0x00])"
  by (induction s rule: no_cut.induct) auto

lemma take_request:
  assumes ok: "puts_ok pl" "\<forall>n. mem_ok pl n" and w: "waiting sd cl st" and good: "good_text pl (rpc_call_list st) s" and len: "length s < 65534"
  shows "\<exists>x rid c acs st1. recv_loop (put_ok pl) (on_data_arrival pl) sd [Received (s @ [CHR 0x00])] st = kret (False, queue_task x rid c acs st1) \<and>
    nd_buffer x = s \<and> nd_sock x = sd \<and> request_id pl s = Some rid \<and> request_method pl (rpc_call_list st) s = Some c \<and>
    waiting sd cl st1 \<and> rpc_call_list st1 = rpc_call_list st \<and> sent st1 = sent st"
proof -
  have fr: "framed s" using good by (simp add: good_text_def)
  then have "no_cut (s @ [CHR 0x00])" by (simp add: framed_def no_cut_snoc)
  then have "frames (s @ [CHR 0x00]) = [s @ [CHR 0x00]]" by (rule frames_no_cut)
  then have rcv: "json_receive_data_and_notify_consumer (put_ok pl) (on_data_arrival pl) sd (s @ [CHR 0x00]) st =
      kbind (on_data_arrival pl (put_frame sd (get_client_info sd st) (s @ [CHR 0x00]) st)) (\<lambda>st. kret (0, st))"
    using receive_frames [of "put_ok pl" "on_data_arrival pl" sd "s @ [CHR 0x00]" st] ok(1) by (simp add: puts_ok_def)
  let ?s = "put_frame sd (get_client_info sd st) (s @ [CHR 0x00]) st"
  define x where "x = hd (request_chain ?s)"
  have nul: "takeWhile (\<lambda>c. c \<noteq> CHR 0x00) s = s" using fr by (simp add: framed_def takeWhile_eq_all_conv list_all_iff)
  have x: "request_chain ?s = [x]" "nd_buffer x = s" "nd_sock x = sd"
    using w nul fr by (simp_all add: x_def put_frame_def put_request_def waiting_def c_str_def takeWhile_append1 takeWhile_tail Let_def framed_def list_all_iff)
  let ?t = "?s\<lparr>request_chain := []\<rparr>"
  have t: "waiting sd cl ?t" "rpc_call_list ?t = rpc_call_list st" "sent ?t = sent st"
    using w by (simp_all add: put_frame_def put_request_def waiting_def Let_def)
  obtain h rid c acs where k: "request_id pl s = Some rid" "request_method pl (rpc_call_list st) s = Some c"
    "json_process_request pl x ?t = kret (0, queue_task x rid c acs (?t\<lparr>jheap := h\<rparr>))"
    using good_text_task [OF ok, of ?t x] good x(2) t(2) by auto
  have "recv_loop (put_ok pl) (on_data_arrival pl) sd [Received (s @ [CHR 0x00])] st =
      kret (False, queue_task x rid c acs (?t\<lparr>jheap := h\<rparr>))"
    using len rcv k(3) x(1) by (simp add: on_data_arrival_def AD_NET_SERVER_MAX_BUFFER_SIZE_def)
  moreover have "waiting sd cl (?t\<lparr>jheap := h\<rparr>)" using t(1) by (simp add: waiting_def)
  ultimately show ?thesis using k x t(2,3) by fastforce
qed

text \<open>What the manager makes of a call of the method \<open>k\<close> with the request \<open>s\<close>.\<close>

definition answers_call :: "('p, 's) mgr_env \<Rightarrow> ADJsonRpcCommand \<Rightarrow> string \<Rightarrow> ('p, 's) rpc_mgr \<Rightarrow> json \<Rightarrow> (('p, 's) rpc_mgr \<Rightarrow> bool) \<Rightarrow> bool" where
  "answers_call env k s m js R \<longleftrightarrow> (\<forall>d. d_obj d = None \<and> d_cmd_index d = method_index k \<and> d_socket_data d = s \<and>
     d_mapper_result d = CMD_TASK_RESULT_UNKNOWN \<longrightarrow>
     returns (mgr_run_method env d m) (\<lambda>(d', m'). d_json d' = Some js \<and> d_mapper_result d' = CMD_TASK_RESULT_UNKNOWN \<and> R m'))"

text \<open>The answer of a service to one request.\<close>

lemma service_turn_answers:
  assumes ok: "puts_ok (plat env)" "\<forall>n. mem_ok (plat env) n" and w: "waiting sd cl st" and good: "good_text (plat env) (rpc_call_list st) s"
    and len: "length s < 65534" and rid: "request_id (plat env) s = Some rid"
    and meth: "request_method (plat env) (rpc_call_list st) s = Some c"
    and ans: "length (to_json_string (jlib (plat env)) (result_object rid ''Unknown'' (Some js))) < 65535"
    and run: "answers_call env c s m js R"
  shows "returns (service_turn env sd room (s @ [CHR 0x00]) st m) (\<lambda>(st', m'). R m' \<and> waiting sd cl st' \<and> rpc_call_list st' = rpc_call_list st \<and>
    sent st' = sent st @ [(cl, take room (to_json_string (jlib (plat env)) (result_object rid ''Unknown'' (Some js))))])"
proof -
  obtain x acs st1 where t: "recv_loop (put_ok (plat env)) (on_data_arrival (plat env)) sd [Received (s @ [CHR 0x00])] st =
      kret (False, queue_task x rid c acs st1)" "nd_buffer x = s" "nd_sock x = sd" "waiting sd cl st1" "rpc_call_list st1 = rpc_call_list st"
    "sent st1 = sent st"
    using take_request [OF ok w good len] rid meth by auto
  let ?st = "queue_task x rid c acs st1"
  let ?t = "\<lparr>t_ident = ReqResp_ident st1 + 1, t_req_id = rid, t_net = x, t_method = c, t_access = acs,
      t_result = CMD_TASK_RESULT_NOT_STARTED, t_rpc_code = 4, t_json = None, t_custom = []\<rparr>"
  have "returns (mgr_run_method env (call_data ?t) m) (\<lambda>(d', m'). d_json d' = Some js \<and> d_mapper_result d' = CMD_TASK_RESULT_UNKNOWN \<and> R m')"
    using run by (simp add: answers_call_def call_data_def data_obj_def JsonDataCommObj.defs rpc_data.defs t(2))
  then obtain d' m' where d': "mgr_run_method env (call_data ?t) m = kret (d', m')" "d_json d' = Some js"
    "d_mapper_result d' = CMD_TASK_RESULT_UNKNOWN" "R m'" by (auto simp: returns_def)
  note wt = t(4) [unfolded waiting_def]
  let ?t' = "?t\<lparr>t_result := d_mapper_result d', t_rpc_code := d_rpc_code d', t_json := d_json d', t_custom := d_custom d'\<rparr>"
  let ?st2 = "?st\<lparr>ReqChain := [], tasks := (tasks ?st)(next_task st1 \<mapsto> ?t'), put_calls := put_calls ?st + 1,
     RespChain := [ReqResp_ident st1 + 1], resp_sema := resp_sema ?st + 1\<rparr>"
  have 2: "mgr_mapper_callback env ?st m = kret (?st2, m')"
    using wt d'(1) ok(1) by (simp add: mgr_mapper_callback_def json_send_response_def puts_ok_def Let_def)
  have "result_text ?t' = ''Unknown''" by (simp add: result_text_def d'(3))
  then have 3: "json_process_rsponse (plat env) ?st2 = kret (0, (respond sd (to_json_string (jlib (plat env)) (result_object rid ''Unknown'' (Some js)))
      (?st2\<lparr>RespChain := [], ReqRespChain := []\<rparr>))\<lparr>tasks := (tasks ?st2)(next_task st1 := None), total_res_sent := total_res_sent ?st2 + 1\<rparr>)"
    using wt ans t(3) d'(2) ok(1) by (simp add: json_process_rsponse_def json_send_new_result_def json_send_result_response_string_def sprintf_s_def
      AD_NET_SERVER_MAX_BUFFER_SIZE_def respond_eq Let_def) (simp add: respond_def schedule_response_def queue_task_def Let_def)
  show ?thesis using t(1,5,6) 2 3 d'(4) wt
    by (simp add: service_turn_def) (simp add: send_response_def respond_def schedule_response_def waiting_def IsConnectionAlive_def queue_task_def Let_def)
qed

section \<open>A client of the service\<close>

text \<open>The surroundings of the client: the service and the bytes that the client has not read yet.\<close>

record ('p, 's) peer =
  p_rpc :: rpc
  p_mgr :: "('p, 's) rpc_mgr"
  p_in :: string
  p_down :: bool

definition received_by :: "nat \<Rightarrow> (nat \<times> string) list \<Rightarrow> string" where
  "received_by cl out = concat (map snd (filter (\<lambda>(k, _). k = cl) out))"

definition peer_socket :: "('p, 's) mgr_env \<Rightarrow> nat \<Rightarrow> nat \<Rightarrow> nat \<Rightarrow> ('p, 's) peer socket" where
  "peer_socket env sd cl room = \<lparr>
     sock_open = (\<lambda>_ _ w. (True, w)), sock_close = (\<lambda>w. w),
     sock_send = (\<lambda>s w. case service_turn env sd room s (p_rpc w) (p_mgr w) of
        Some (Inr (st, m)) \<Rightarrow> w\<lparr>p_rpc := st, p_mgr := m, p_in := p_in w @ received_by cl (drop (length (sent (p_rpc w))) (sent st))\<rparr>
      | _ \<Rightarrow> w\<lparr>p_down := True\<rparr>),
     sock_recv = (\<lambda>n w. if p_in w = [] then (None, w) else (Some (take n (p_in w)), w\<lparr>p_in := drop n (p_in w)\<rparr>))\<rparr>"

text \<open>What is documented of the JSON library: how members and texts of values are read, and that a value that is printed reads back.\<close>

definition reads :: "json_lib \<Rightarrow> bool" where
  "reads lib \<longleftrightarrow> (\<forall>ms k. object_get lib (JObj ms) k = map_of ms k) \<and> (\<forall>s. get_string lib (Some (JStr s)) = Some s) \<and>
     (\<forall>i. get_string lib (Some (JInt i)) = Some (show_int i)) \<and> (\<forall>ms. get_string lib (Some (JObj ms)) \<noteq> None) \<and> get_string lib None = None"

definition prints :: "platform \<Rightarrow> json \<Rightarrow> bool" where
  "prints pl v \<longleftrightarrow> (let s = to_json_string (jlib pl) v in
     tokener_parse (jlib pl) s = Some v \<and> framed s \<and> json_text 19 (checked_part (char_signed pl) s) \<and> length s < 1400)"

lemma exchange_with_service:
  fixes env :: "('p, 's) mgr_env"
  assumes pl: "plat env = pl"
  defines "txt \<equiv> \<lambda>js rid. to_json_string (jlib pl) (result_object rid ''Unknown'' (Some js))"
  assumes ok: "puts_ok pl" "\<forall>n. mem_ok pl n" and w: "waiting sd cl (p_rpc w)" "p_in w = []" and con: "net_connected c"
    and good: "good_text pl (rpc_call_list (p_rpc w)) s" and len: "length s < 1400" and rid: "request_id pl s = Some rid"
    and meth: "request_method pl (rpc_call_list (p_rpc w)) s = Some k" and ans: "prints pl (result_object rid ''Unknown'' (Some js))"
    and room: "1400 \<le> room"
    and run: "answers_call env k s (p_mgr w) js R" and look: "look (txt js rid) = kret (0, t, outs)"
  shows "\<exists>w'. rpc_exchange (peer_socket env sd cl room) tm (kret s) look c w =
      kret (convert_string_to_server_result t, outs, c\<lparr>req_id := req_id c + 1, send_buffer := s, recv_buffer := txt js rid\<rparr>, w') \<and>
    R (p_mgr w') \<and> waiting sd cl (p_rpc w') \<and> p_in w' = [] \<and> rpc_call_list (p_rpc w') = rpc_call_list (p_rpc w)"
proof -
  have a: "length (txt js rid) < 1400" "framed (txt js rid)" using ans by (simp_all add: prints_def txt_def Let_def)
  have "returns (service_turn env sd room (s @ [CHR 0x00]) (p_rpc w) (p_mgr w)) (\<lambda>(st', m'). R m' \<and> waiting sd cl st' \<and>
      rpc_call_list st' = rpc_call_list (p_rpc w) \<and> sent st' = sent (p_rpc w) @ [(cl, take room (txt js rid))])"
    unfolding txt_def by (rule service_turn_answers [of env, unfolded pl, OF ok w(1) good _ rid meth _ run]) (use len a(1) in \<open>simp_all add: txt_def\<close>)
  then obtain st' m' where t: "service_turn env sd room (s @ [CHR 0x00]) (p_rpc w) (p_mgr w) = kret (st', m')" "R m'" "waiting sd cl st'"
    "rpc_call_list st' = rpc_call_list (p_rpc w)" "sent st' = sent (p_rpc w) @ [(cl, txt js rid)]"
    using a(1) room by (auto simp: returns_def)
  let ?w = "w\<lparr>p_rpc := st', p_mgr := m', p_in := txt js rid\<rparr>"
  have snd: "send_data (peer_socket env sd cl room) s w = ?w"
    using t(1,5) w(2) by (simp add: send_data_def peer_socket_def kret_def received_by_def)
  have ne: "txt js rid \<noteq> []" using a(2) by (simp add: framed_def)
  have "clt_recv_loop (peer_socket env sd cl room) MAX_RECV_BUFFER_SIZE tm ?w = (Some (txt js rid), ?w\<lparr>p_in := []\<rparr>)"
    using ne a(1) by (cases tm) (simp_all add: peer_socket_def MAX_RECV_BUFFER_SIZE_def)
  moreover have "takeWhile (\<lambda>x. x \<noteq> CHR 0x00) (txt js rid) = txt js rid"
    using a(2) by (simp add: framed_def takeWhile_eq_all_conv list_all_iff)
  ultimately show ?thesis using t(2-4) con a(1) snd look
    by (intro exI [of _ "?w\<lparr>p_in := []\<rparr>"]) (simp add: rpc_exchange_def receive_data_blocking_def MAX_RECV_BUFFER_SIZE_def Let_def del: takeWhile_eq_all_conv)
qed

section \<open>The requests of the client\<close>

lemma sint_show_short: "length (show_int (sint (i :: s32))) \<le> 11"
  by (rule length_show_int) (use sint_range_size [of i] in \<open>simp_all add: word_size\<close>)

text \<open>A request that the library prints is taken by a server that has its method, with its number and its parameters.\<close>

lemma request_taken:
  assumes lib: "reads (jlib pl)" and pr: "prints pl (request_json rpc i ps)" and reg: "is_this_method_registered rpc ms = Some k" and len: "length rpc < 256"
  defines "s \<equiv> to_json_string (jlib pl) (request_json rpc i ps)"
  shows "good_text pl ms s" "request_id pl s = Some i" "request_method pl ms s = Some k" "length s < 1400"
    "ps \<noteq> [] \<Longrightarrow> param_text (jlib pl) s n =
      (case params_json ps of JObj q \<Rightarrow> get_string (jlib pl) (map_of q n) | _ \<Rightarrow> None)"
proof -
  let ?ob = "request_json rpc i ps"
  have parse: "tokener_parse (jlib pl) s = Some ?ob" and fr: "framed s" "json_text 19 (checked_part (char_signed pl) s)" and "length s < 1400"
    using pr by (simp_all add: prints_def s_def Let_def)
  then show "length s < 1400" by simp
  note rd = lib [unfolded reads_def]
  have mem: "object_get (jlib pl) ?ob ''id'' = Some (JInt (sint i))" "object_get (jlib pl) ?ob ''method'' = Some (JStr rpc)"
    "object_get (jlib pl) ?ob ''jsonrpc'' = Some (JStr ''2.0'')" "object_get (jlib pl) ?ob ''access'' = None"
    "ps \<noteq> [] \<Longrightarrow> object_get (jlib pl) ?ob ''params'' = Some (params_json ps)"
    using rd by (simp_all add: request_json_def)
  have "length (show_int (sint i)) < 256" using sint_show_short [of i] by simp
  then show "good_text pl ms s" using fr parse mem(1-4) rd reg len by (simp add: good_text_def short_member_def)
  show "request_id pl s = Some i" using parse mem(1) rd by (simp add: request_id_def atoi_show_int)
  show "request_method pl ms s = Some k" using parse mem(2) rd reg by (simp add: request_method_def)
  show "param_text (jlib pl) s n = (case params_json ps of JObj q \<Rightarrow> get_string (jlib pl) (map_of q n) | _ \<Rightarrow> None)" if "ps \<noteq> []"
  proof -
    obtain q where q: "params_json ps = JObj q" by (simp add: params_json_def)
    obtain y where "get_string (jlib pl) (Some (JObj q)) = Some y" using rd by blast
    then show ?thesis using parse mem(5) [OF that] q rd by (simp add: param_text_def)
  qed
qed

lemma answer_read:
  assumes lib: "reads (jlib pl)" and pr: "prints pl (result_object rid t (Some (JObj ms)))" and clib: "clib env = jlib pl"
    and ret: "map_of ms ''return'' = Some (JStr r)" and len: "length r < 255"
  shows "find_fields env (to_json_string (jlib pl) (result_object rid t (Some (JObj ms)))) ''return'' fs =
    kbind (read_fields env (JObj ms) fs) (\<lambda>outs. kret (0, r, outs))"
proof -
  note rd = lib [unfolded reads_def]
  let ?ob = "result_object rid t (Some (JObj ms))"
  have "tokener_parse (jlib pl) (to_json_string (jlib pl) ?ob) = Some ?ob" using pr by (simp add: prints_def Let_def)
  moreover have "object_get (jlib pl) ?ob ''result'' = Some (JObj ms)" "object_get (jlib pl) (JObj ms) ''return'' = Some (JStr r)"
    using rd ret by (simp_all add: result_object_def)
  moreover obtain y where "get_string (jlib pl) (Some (JObj ms)) = Some y" using rd by blast
  ultimately show ?thesis using rd clib len by (simp add: find_fields_def sprintf_s_def Let_def)
qed

section \<open>The GPIO service and its client\<close>

lemma gpio_methods:
  assumes "gpio_main ver dbglog st = kret (m, st')" and "rpc_call_list st = []"
  shows "is_this_method_registered ''gpio_get'' (rpc_call_list st') = Some \<lparr>cmd_method = ''gpio_get'', method_index = 24\<rparr>"
    "is_this_method_registered ''gpio_set'' (rpc_call_list st') = Some \<lparr>cmd_method = ''gpio_set'', method_index = 25\<rparr>"
    "is_this_method_registered ''notify_event'' (rpc_call_list st') = Some \<lparr>cmd_method = ''notify_event'', method_index = 13\<rparr>"
  using assms by (auto simp: gpio_main_def mgr_Start_def gpio_objects_def AttachRpc_def mgr_new_def sprintf_s_def common_names_def
      attach_rpc_method_def JSON_RPC_METHOD_NAME_MAX_LENGTH_def SetServiceReadyFlag_def EJSON_RPCGMGR_CMD_END_def Let_def)

lemma gpio_main_waiting: "gpio_main ver dbglog st = kret (m, st') \<Longrightarrow> waiting sd cl st \<Longrightarrow> waiting sd cl st'"
  by (auto simp: gpio_main_def mgr_Start_def gpio_objects_def AttachRpc_def mgr_new_def sprintf_s_def common_names_def
      attach_rpc_method_def JSON_RPC_METHOD_NAME_MAX_LENGTH_def SetServiceReadyFlag_def waiting_def Let_def)

lemma two_numbers_asked:
  assumes "reads (jlib pl)" and "prints pl (request_json rpc i [(''addr'', AInt a), (''data'', AInt v)])" and "is_this_method_registered rpc ms = Some k"
    and "length rpc < 256"
  defines "s \<equiv> to_json_string (jlib pl) (request_json rpc i [(''addr'', AInt a), (''data'', AInt v)])"
  shows "params_fit (jlib pl) s" "asks (jlib pl) s ''addr'' a" "asks (jlib pl) s ''data'' v"
proof -
  note p = request_taken(5) [OF assms(1-4), folded s_def]
  have "param_text (jlib pl) s n = (if n = ''addr'' then Some (show_int (sint a)) else if n = ''data'' then Some (show_int (sint v)) else None)" for n
    using p assms(1) by (simp add: params_json_def reads_def)
  then show "params_fit (jlib pl) s" "asks (jlib pl) s ''addr'' a" "asks (jlib pl) s ''data'' v"
    using sint_show_short [of a] sint_show_short [of v] by (auto simp: params_fit_def asks_def atoi_show_int split: if_splits)
qed

lemma one_number_asked:
  assumes "reads (jlib pl)" and "prints pl (request_json rpc i [(''addr'', AInt a)])" and "is_this_method_registered rpc ms = Some k" and "length rpc < 256"
  defines "s \<equiv> to_json_string (jlib pl) (request_json rpc i [(''addr'', AInt a)])"
  shows "params_fit (jlib pl) s" "asks (jlib pl) s ''addr'' a"
proof -
  note p = request_taken(5) [OF assms(1-4), folded s_def]
  have "param_text (jlib pl) s n = (if n = ''addr'' then Some (show_int (sint a)) else None)" for n
    using p assms(1) by (simp add: params_json_def reads_def)
  then show "params_fit (jlib pl) s" "asks (jlib pl) s ''addr'' a"
    using sint_show_short [of a] by (auto simp: params_fit_def asks_def atoi_show_int split: if_splits)
qed

lemma convert_success: "convert_server_result_to_string RPC_SRV_RESULT_SUCCESS = ''Success''"
  "convert_string_to_server_result ''Success'' = RPC_SRV_RESULT_SUCCESS"
  by code_simp+

definition gpio_served :: "nat \<Rightarrow> nat \<Rightarrow> (GPIOCTL_IO_ACCESS_PACKET, gpio_state) peer \<Rightarrow> bool" where
  "gpio_served sd cl w \<longleftrightarrow> waiting sd cl (p_rpc w) \<and> p_in w = [] \<and> gpio_inv (p_mgr w) \<and> owned (p_mgr w) = 0 \<and>
     is_this_method_registered ''gpio_get'' (rpc_call_list (p_rpc w)) = Some \<lparr>cmd_method = ''gpio_get'', method_index = 24\<rparr> \<and>
     is_this_method_registered ''gpio_set'' (rpc_call_list (p_rpc w)) = Some \<lparr>cmd_method = ''gpio_set'', method_index = 25\<rparr> \<and>
     is_this_method_registered ''notify_event'' (rpc_call_list (p_rpc w)) = Some \<lparr>cmd_method = ''notify_event'', method_index = 13\<rparr>"

lemma client_gpio_set:
  assumes sv: "gpio_served sd cl w" and con: "net_connected c" and ok: "puts_ok pl" "\<forall>n. mem_ok pl n" and lib: "reads (jlib pl)" "clib cenv = jlib pl"
    and room: "1400 \<le> room" and dev: "emu \<or> (\<forall>n. node_ok hw n)" and pin: "unat a < 64"
    and pr: "prints pl (request_json ''gpio_set'' (req_id c) [(''addr'', AInt a), (''data'', AInt v)])"
      "prints pl (result_object (req_id c) ''Unknown'' (Some (JObj [(''return'', JStr ''Success'')])))"
  shows "\<exists>c1 w1. set_integer_type_with_addr_para cenv (peer_socket (gpio_world pl mx j s emu hw) sd cl room) ''gpio_set'' ''addr'' a ''data'' v c w =
      kret (RPC_SRV_RESULT_SUCCESS, [], c1, w1) \<and> gpio_served sd cl w1 \<and> net_connected c1 \<and> req_id c1 = req_id c + 1 \<and>
    gpio_data (service (p_mgr w1)) ! unat a = v"
proof -
  note sv = sv [unfolded gpio_served_def]
  have reg: "is_this_method_registered ''gpio_set'' (rpc_call_list (p_rpc w)) = Some \<lparr>cmd_method = ''gpio_set'', method_index = 25\<rparr>"
    and m0: "gpio_inv (p_mgr w)" "0 \<le> owned (p_mgr w)" and ln: "length ''gpio_set'' < 256" and wt: "waiting sd cl (p_rpc w)" "p_in w = []" using sv by simp_all
  obtain s1 where wr: "gpio_write emu hw a v (service (p_mgr w)) = (RPC_SRV_RESULT_SUCCESS, cache_write (unat a) v s1)"
    "gpio_data s1 = gpio_data (service (p_mgr w))" by (rule gpio_write_dev [OF dev pin])
  have "length (gpio_data (service (p_mgr w))) = 64" using m0(1) by (simp add: mgr_inv_def gpio_ok_def GPIOCTL_MAX_GPIO_PINS_def)
  then have data: "gpio_data (cache_write (unat a) v s1) ! unat a = v" using pin wr(2) by (simp add: cache_write_def Let_def)
  let ?t = "to_json_string (jlib pl) (request_json ''gpio_set'' (req_id c) [(''addr'', AInt a), (''data'', AInt v)])"
  let ?js = "JObj [(''return'', JStr ''Success'')]"
  note q = request_taken [OF lib(1) pr(1) reg ln] and n = two_numbers_asked [OF lib(1) pr(1) reg ln]
  let ?R = "\<lambda>m'. service m' = cache_write (unat a) v s1 \<and> gpio_inv m' \<and> owned m' = 0"
  have "gpio_set_call (jlib pl) (a, v) d" if "d_obj d = None" "d_cmd_index d = 25" "d_socket_data d = ?t" for d :: gpio_rpc
    using that n by (simp add: gpio_set_call_def)
  then have run: "answers_call (gpio_world pl mx j s emu hw) \<lparr>cmd_method = ''gpio_set'', method_index = 25\<rparr> ?t (p_mgr w) ?js ?R"
    unfolding answers_call_def using sv wr(1)
    by (intro allI impI returns_mono [OF gpio_set_run [OF m0(1,2)]]) (auto simp: convert_success)
  have look: "find_json_result cenv (to_json_string (jlib pl) (result_object (req_id c) ''Unknown'' (Some ?js))) ''return'' = kret (0, ''Success'', [])"
    using answer_read [OF lib(1) pr(2) lib(2), of "''Success''" "[]"] by (simp add: find_json_result_def)
  have prep: "prepare_json_request_ii_last cenv ''gpio_set'' (req_id c) ''addr'' a ''data'' v = kret ?t"
    using q(4) lib(2) by (simp add: prepare_json_request_ii_last_def request_text_def sprintf_s_def MAX_SEND_BUFFER_SIZE_def)
  obtain w1 where w1: "rpc_exchange (peer_socket (gpio_world pl mx j s emu hw) sd cl room) 4000 (kret ?t)
      (\<lambda>js. find_json_result cenv js ''return'') c w = kret (RPC_SRV_RESULT_SUCCESS, [], c\<lparr>req_id := req_id c + 1, send_buffer := ?t,
        recv_buffer := to_json_string (jlib pl) (result_object (req_id c) ''Unknown'' (Some ?js))\<rparr>, w1)"
    "?R (p_mgr w1)" "waiting sd cl (p_rpc w1)" "p_in w1 = []" "rpc_call_list (p_rpc w1) = rpc_call_list (p_rpc w)"
    using exchange_with_service [OF gpio_plat(1) ok wt con q(1,4,2,3) pr(2) room run,
      of "\<lambda>js. find_json_result cenv js ''return''", OF look, unfolded convert_success] by blast
  have "gpio_served sd cl w1" using sv w1(2-5) by (simp add: gpio_served_def)
  then show ?thesis unfolding set_integer_type_with_addr_para_def prep w1(1) using con data w1(2) by simp
qed

lemma client_gpio_get:
  assumes sv: "gpio_served sd cl w" and con: "net_connected c" and ok: "puts_ok pl" "\<forall>n. mem_ok pl n" and lib: "reads (jlib pl)" "clib cenv = jlib pl"
    and room: "1400 \<le> room" and pin: "unat a < 64" and v: "gpio_data (service (p_mgr w)) ! unat a = v"
    and pr: "prints pl (request_json ''gpio_get'' (req_id c) [(''addr'', AInt a)])"
      "prints pl (result_object (req_id c) ''Unknown'' (Some (JObj [(''return'', JStr ''Success''), (''data'', JInt (sint v))])))"
  shows "\<exists>c1 w1. get_integer_type_with_addr_para cenv (peer_socket (gpio_world pl mx j s emu hw) sd cl room) ''gpio_get'' ''addr'' a ''data'' c w =
      kret (RPC_SRV_RESULT_SUCCESS, [Some (OStr (show_int (sint v)))], c1, w1)"
proof -
  note sv = sv [unfolded gpio_served_def]
  have reg: "is_this_method_registered ''gpio_get'' (rpc_call_list (p_rpc w)) = Some \<lparr>cmd_method = ''gpio_get'', method_index = 24\<rparr>"
    and m0: "gpio_inv (p_mgr w)" "0 \<le> owned (p_mgr w)" and ln: "length ''gpio_get'' < 256" and wt: "waiting sd cl (p_rpc w)" "p_in w = []" using sv by simp_all
  let ?t = "to_json_string (jlib pl) (request_json ''gpio_get'' (req_id c) [(''addr'', AInt a)])"
  let ?js = "JObj [(''return'', JStr ''Success''), (''data'', JInt (sint v))]"
  note q = request_taken [OF lib(1) pr(1) reg ln] and n = one_number_asked [OF lib(1) pr(1) reg ln]
  have "gpio_get_call (jlib pl) a d" if "d_obj d = None" "d_cmd_index d = 24" "d_socket_data d = ?t" for d :: gpio_rpc
    using that n by (simp add: gpio_get_call_def)
  then have run: "answers_call (gpio_world pl mx j s emu hw) \<lparr>cmd_method = ''gpio_get'', method_index = 24\<rparr> ?t (p_mgr w) ?js (\<lambda>_. True)"
    unfolding answers_call_def using pin v
    by (intro allI impI returns_mono [OF gpio_get_run [OF m0(1,2)]]) (auto simp: GPIOCTL_MAX_GPIO_PINS_def)
  let ?look = "\<lambda>js. find_json_result_and_single_string_param cenv js ''return'' ''data''"
  have look: "?look (to_json_string (jlib pl) (result_object (req_id c) ''Unknown'' (Some ?js))) = kret (0, ''Success'', [Some (OStr (show_int (sint v)))])"
    using answer_read [OF lib(1) pr(2) lib(2), of "''Success''" "[(''data'', KStr)]"] lib
    by (simp add: find_json_result_and_single_string_param_def reads_def Let_def)
  have prep: "prepare_json_request_i_last cenv ''gpio_get'' (req_id c) ''addr'' a = kret ?t"
    using q(4) lib(2) by (simp add: prepare_json_request_i_last_def request_text_def sprintf_s_def MAX_SEND_BUFFER_SIZE_def)
  obtain w1 where w1: "rpc_exchange (peer_socket (gpio_world pl mx j s emu hw) sd cl room) 4000 (kret ?t) ?look c w =
      kret (RPC_SRV_RESULT_SUCCESS, [Some (OStr (show_int (sint v)))], c\<lparr>req_id := req_id c + 1, send_buffer := ?t,
        recv_buffer := to_json_string (jlib pl) (result_object (req_id c) ''Unknown'' (Some ?js))\<rparr>, w1)"
    using exchange_with_service [OF gpio_plat(1) ok wt con q(1,4,2,3) pr(2) room run, of ?look, OF look, unfolded convert_success] by blast
  show ?thesis unfolding get_integer_type_with_addr_para_def prep w1(1) by (simp add: preset_def)
qed

text \<open>
  Property C5: a client reads back what it has set. A client that is connected to a GPIO service just started calls \<open>gpio_set\<close> and then
  \<open>gpio_get\<close> for a pin: the requests pass the TCP server, the JSON checker, the JSON-RPC server, the mapper and the RPC manager, both calls
  report success, and the second returns the number that the first was given.
\<close>

theorem client_sets_and_gets:
  assumes start: "gpio_main ver dbglog st = kret (p_mgr w, p_rpc w)" "rpc_call_list st = []" "waiting sd cl st" "p_in w = []"
    and con: "net_connected c" and ok: "puts_ok pl" "\<forall>n. mem_ok pl n" and lib: "reads (jlib pl)" "clib cenv = jlib pl" and room: "1400 \<le> room"
    and dev: "emu \<or> (\<forall>n. node_ok hw n)" and pin: "unat a < 64"
    and pr: "prints pl (request_json ''gpio_set'' (req_id c) [(''addr'', AInt a), (''data'', AInt v)])"
      "prints pl (result_object (req_id c) ''Unknown'' (Some (JObj [(''return'', JStr ''Success'')])))"
      "prints pl (request_json ''gpio_get'' (req_id c + 1) [(''addr'', AInt a)])"
      "prints pl (result_object (req_id c + 1) ''Unknown'' (Some (JObj [(''return'', JStr ''Success''), (''data'', JInt (sint v))])))"
  shows "\<exists>c1 w1 c2 w2.
    set_integer_type_with_addr_para cenv (peer_socket (gpio_world pl mx j s emu hw) sd cl room) ''gpio_set'' ''addr'' a ''data'' v c w =
      kret (RPC_SRV_RESULT_SUCCESS, [], c1, w1) \<and>
    get_integer_type_with_addr_para cenv (peer_socket (gpio_world pl mx j s emu hw) sd cl room) ''gpio_get'' ''addr'' a ''data'' c1 w1 =
      kret (RPC_SRV_RESULT_SUCCESS, [Some (OStr (show_int (sint v)))], c2, w2)"
proof -
  have "gpio_served sd cl w" using gpio_main_starts [OF start(1)] gpio_methods [OF start(1,2)] gpio_main_waiting [OF start(1,3)] start(4)
    by (simp add: gpio_served_def)
  then obtain c1 w1 where 1: "gpio_served sd cl w1" "net_connected c1" "req_id c1 = req_id c + 1" "gpio_data (service (p_mgr w1)) ! unat a = v"
    "set_integer_type_with_addr_para cenv (peer_socket (gpio_world pl mx j s emu hw) sd cl room) ''gpio_set'' ''addr'' a ''data'' v c w =
      kret (RPC_SRV_RESULT_SUCCESS, [], c1, w1)"
    using client_gpio_set [OF _ con ok lib room dev pin pr(1,2)] by blast
  show ?thesis using 1(5) client_gpio_get [OF 1(1,2) ok lib room pin 1(4) pr(3,4) [folded 1(3)]] by blast
qed

text \<open>A library that prints five values and reads them back, and a started service, for the example.\<close>

definition cs_values :: "json list" where
  "cs_values = [request_json ''gpio_set'' 0 [(''addr'', AInt 4), (''data'', AInt 1)], result_object 0 ''Unknown'' (Some (JObj [(''return'', JStr ''Success'')])),
     request_json ''gpio_get'' 1 [(''addr'', AInt 4)], result_object 1 ''Unknown'' (Some (JObj [(''return'', JStr ''Success''), (''data'', JInt 1)])),
     request_json ''notify_event'' 0 [(''evntNum'', AInt 5), (''evntArg1'', AInt 7), (''evntArg2'', AInt 0)]]"

definition cs_lib :: json_lib where
  "cs_lib = \<lparr>tokener_parse = (\<lambda>s. Some (cs_values ! (length s - 2))), object_get = (\<lambda>v k. case v of JObj ms \<Rightarrow> map_of ms k | _ \<Rightarrow> None),
     get_string = (\<lambda>v. case v of Some (JStr s) \<Rightarrow> Some s | Some (JInt i) \<Rightarrow> Some (show_int i) | Some (JObj _) \<Rightarrow> Some ''{}'' | _ \<Rightarrow> None),
     to_json_string = (\<lambda>v. if v = cs_values ! 0 then ''{}'' else if v = cs_values ! 1 then ''{ }'' else if v = cs_values ! 2 then ''{  }''
       else if v = cs_values ! 3 then ''{   }'' else ''{    }'')\<rparr>"

definition cs_platform :: platform where
  "cs_platform = ex_platform\<lparr>jlib := cs_lib\<rparr>"

lemma cs_reads: "reads (jlib cs_platform)"
  by (simp add: reads_def cs_platform_def cs_lib_def)

lemma cs_printed: "to_json_string cs_lib (cs_values ! 0) = ''{}''" "to_json_string cs_lib (cs_values ! 1) = ''{ }''"
  "to_json_string cs_lib (cs_values ! 2) = ''{  }''" "to_json_string cs_lib (cs_values ! 3) = ''{   }''"
  "to_json_string cs_lib (cs_values ! 4) = ''{    }''"
  by (simp_all add: cs_lib_def cs_values_def request_json_def result_object_def params_json_def)

lemma blank_object: "set bs \<subseteq> {CHR '' ''} \<Longrightarrow> json_text 19 (CHR ''{'' # bs @ ''}'')"
  using val_empty_object [of bs 18] by (intro json_textI) (auto simp: is_ws_def list_all_iff)

lemma cs_prints: "i < 5 \<Longrightarrow> prints cs_platform (cs_values ! i)"
proof -
  have "prints cs_platform (cs_values ! 0)" "prints cs_platform (cs_values ! 1)" "prints cs_platform (cs_values ! 2)" "prints cs_platform (cs_values ! 3)"
    "prints cs_platform (cs_values ! 4)"
    using cs_printed blank_object [of "[]"] blank_object [of "'' ''"] blank_object [of "''  ''"] blank_object [of "''   ''"] blank_object [of "''    ''"]
    by (simp_all add: prints_def cs_platform_def ex_platform_def framed_def checked_part_def char_int_def) (simp_all add: cs_lib_def numeral_eq_Suc)
  then show "i < 5 \<Longrightarrow> ?thesis" by (auto simp: less_Suc_eq numeral_eq_Suc)
qed

theorem client_sets_and_gets_witness:
  "\<exists>w c1 w1 c2 w2. gpio_main 1 False (ex_rpc\<lparr>rpc_call_list := [], peers := (peers ex_rpc)(5 \<mapsto> 9)\<rparr>) = kret (p_mgr w, p_rpc w) \<and>
    set_integer_type_with_addr_para \<lparr>clib = cs_lib, get_int = (\<lambda>_. 0), clt_ulong_max = 0\<rparr> (peer_socket (gpio_world cs_platform 0 0 [] True io_hw) 5 9 2000)
      ''gpio_set'' ''addr'' 4 ''data'' 1 (client_new\<lparr>net_connected := True\<rparr>) w = kret (RPC_SRV_RESULT_SUCCESS, [], c1, w1) \<and>
    get_integer_type_with_addr_para \<lparr>clib = cs_lib, get_int = (\<lambda>_. 0), clt_ulong_max = 0\<rparr> (peer_socket (gpio_world cs_platform 0 0 [] True io_hw) 5 9 2000)
      ''gpio_get'' ''addr'' 4 ''data'' c1 w1 = kret (RPC_SRV_RESULT_SUCCESS, [Some (OStr (show_int 1))], c2, w2)"
proof -
  let ?st = "ex_rpc\<lparr>rpc_call_list := [], peers := (peers ex_rpc)(5 \<mapsto> 9)\<rparr>"
  obtain m0 st' where start: "gpio_main 1 False ?st = kret (m0, st')"
    by (simp add: gpio_main_def mgr_Start_def gpio_objects_def AttachRpc_def mgr_new_def sprintf_s_def SetServiceReadyFlag_def Let_def)
  let ?w = "\<lparr>p_rpc = st', p_mgr = m0, p_in = [], p_down = False\<rparr>" let ?c = "client_new\<lparr>net_connected := True\<rparr>"
  have wt: "waiting 5 9 ?st" by (simp add: waiting_def ex_rpc_def net_server.defs rpc.defs net_init_def net_new_def)
  have "prints cs_platform (request_json ''gpio_set'' (req_id ?c) [(''addr'', AInt 4), (''data'', AInt 1)])"
    "prints cs_platform (result_object (req_id ?c) ''Unknown'' (Some (JObj [(''return'', JStr ''Success'')])))"
    "prints cs_platform (request_json ''gpio_get'' (req_id ?c + 1) [(''addr'', AInt 4)])"
    "prints cs_platform (result_object (req_id ?c + 1) ''Unknown'' (Some (JObj [(''return'', JStr ''Success''), (''data'', JInt (sint (1 :: s32)))])))"
    using cs_prints [of 0] cs_prints [of 1] cs_prints [of 2] cs_prints [of 3] by (simp_all add: cs_values_def client_new_def)
  from client_sets_and_gets [of 1 False ?st ?w 5 9 ?c cs_platform "\<lparr>clib = cs_lib, get_int = (\<lambda>_. 0), clt_ulong_max = 0\<rparr>" 2000 True io_hw 4 1 0 0 "[]", OF _ _ wt _ _ _ _ cs_reads _ _ _ _ this]
    start show ?thesis by (intro exI [of _ ?w]) (simp add: puts_ok_def cs_platform_def ex_platform_def)
qed

section \<open>Answers that are missing or too long\<close>

lemma recv_fails: "\<forall>w. fst (sock_recv sk n w) = None \<Longrightarrow> fst (clt_recv_loop sk n k w) = None"
proof (induction k arbitrary: w)
  case (Suc k)
  obtain w' where "sock_recv sk n w = (None, w')" using Suc.prems by (metis fst_conv prod.exhaust_sel)
  then show ?case using Suc by simp
qed simp

lemma recv_first: "sock_recv sk n w = (Some s, w') \<Longrightarrow> clt_recv_loop sk n k w = (Some s, w')"
  by (cases k) simp_all

text \<open>
  Fact: a call without an answer reports the answer of an earlier call. When the client is not connected, or every receive fails until the
  time is over, \<open>set_integer_type\<close> returns what the receive buffer still says, here a success, although no service has seen or done anything.
\<close>

theorem stale_answer_reported:
  assumes req: "length (to_json_string (clib env) (request_json rpc (req_id c) [(n, AInt v)])) < 1400"
    and old: "find_json_result env (recv_buffer c) ''return'' = kret (0, ''Success'', [])"
    and none: "\<not> net_connected c \<or> (\<forall>w'. fst (sock_recv sk 1400 w') = None)"
  shows "\<exists>c' w'. set_integer_type env sk rpc n v c w = kret (RPC_SRV_RESULT_SUCCESS, [], c', w') \<and> recv_buffer c' = recv_buffer c"
proof -
  let ?s = "to_json_string (clib env) (request_json rpc (req_id c) [(n, AInt v)])"
  have "\<exists>w''. receive_data_blocking sk 4000 c' w' = kret (-1, c', w'')" if "net_connected c' = net_connected c" for c' w'
    using none that recv_fails [of sk 1400 4000 w']
    by (cases "clt_recv_loop sk 1400 4000 w'") (auto simp: receive_data_blocking_def MAX_RECV_BUFFER_SIZE_def)
  then obtain w' where "receive_data_blocking sk 4000 (c\<lparr>req_id := req_id c + 1, send_buffer := ?s\<rparr>) (send_data sk ?s w) =
      kret (-1, c\<lparr>req_id := req_id c + 1, send_buffer := ?s\<rparr>, w')" by fastforce
  then show ?thesis using req old
    by (simp add: set_integer_type_def rpc_exchange_def prepare_json_request_i_def request_text_def sprintf_s_def MAX_SEND_BUFFER_SIZE_def
        convert_success Let_def)
qed

definition dead_socket :: "unit socket" where
  "dead_socket = \<lparr>sock_open = (\<lambda>_ _ w. (False, w)), sock_close = (\<lambda>w. w), sock_send = (\<lambda>_ w. w), sock_recv = (\<lambda>_ w. (None, w))\<rparr>"

definition cs_env :: client_env where
  "cs_env = \<lparr>clib = cs_lib, get_int = (\<lambda>_. 0), clt_ulong_max = 0\<rparr>"

theorem stale_answer_reported_witness:
  "\<exists>c' w'. set_integer_type cs_env dead_socket ''gpio_set'' ''addr'' 9 (client_new\<lparr>recv_buffer := ''{ }''\<rparr>) () =
     kret (RPC_SRV_RESULT_SUCCESS, [], c', w') \<and> recv_buffer c' = ''{ }''"
proof -
  have "find_json_result cs_env ''{ }'' ''return'' = kret (0, ''Success'', [])"
    by (simp add: find_json_result_def find_fields_def cs_env_def cs_lib_def cs_values_def result_object_def sprintf_s_def)
  then show ?thesis
    using stale_answer_reported [of cs_env "''gpio_set''" "client_new\<lparr>recv_buffer := ''{ }''\<rparr>" "''addr''" 9 dead_socket "()"]
    by (simp add: cs_env_def cs_lib_def client_new_def)
qed

text \<open>
  Fact: an answer that fills the receive buffer is terminated one byte behind it.
\<close>

theorem full_answer_overruns:
  assumes req: "length (to_json_string (clib env) (request_json rpc (req_id c) [(n, AInt v)])) < 1400" and con: "net_connected c"
    and full: "\<forall>w'. \<exists>s w''. sock_recv sk 1400 w' = (Some s, w'') \<and> length s = 1400"
  shows "set_integer_type env sk rpc n v c w = kfail BufferOverrun"
proof -
  have "receive_data_blocking sk 4000 c' w' = kfail BufferOverrun" if "net_connected c'" for c' w'
  proof -
    obtain s w'' where "sock_recv sk 1400 w' = (Some s, w'')" "length s = 1400" using full by blast
    then show ?thesis using that by (simp add: receive_data_blocking_def MAX_RECV_BUFFER_SIZE_def recv_first)
  qed
  then show ?thesis using req con
    by (simp add: set_integer_type_def rpc_exchange_def prepare_json_request_i_def request_text_def sprintf_s_def MAX_SEND_BUFFER_SIZE_def Let_def)
qed

theorem full_answer_overruns_witness:
  "set_integer_type cs_env (dead_socket\<lparr>sock_recv := (\<lambda>n w. (Some (replicate n CHR ''x''), w))\<rparr>) ''gpio_set'' ''addr'' 9
     (client_new\<lparr>net_connected := True\<rparr>) () = kfail BufferOverrun"
  by (rule full_answer_overruns) (simp_all add: cs_env_def cs_lib_def client_new_def)

section \<open>Events of a service\<close>

text \<open>The notifier's client: a new one for each event, on the port of the service itself.\<close>

definition notifier_client :: "client_env \<Rightarrow> 'w socket \<Rightarrow> (rpc_client \<times> 'w) notify_client" where
  "notifier_client env sk = \<lparr>
     clt_connect = (\<lambda>port (_, w). case rpc_server_connect sk ''127.0.0.1'' port client_new w of (r, c, w) \<Rightarrow> (r, c, w)),
     clt_three_int = (\<lambda>a b d (c, w). case set_three_int_type env sk ''notify_event'' ''evntNum'' a ''evntArg1'' b ''evntArg2'' d c w of
        Some (Inr (res, _, c, w)) \<Rightarrow> (res = RPC_SRV_RESULT_SUCCESS, c, w) | _ \<Rightarrow> (False, c, w)),
     clt_disconnect = (\<lambda>(c, w). case rpc_server_disconnect sk c w of (_, c, w) \<Rightarrow> (c, w))\<rparr>"

context rpc_service
begin

lemma notify_call:
  assumes inv: "mgr_inv objs Tk J m" and own: "0 \<le> owned m" and d: "d_obj d = None" "d_cmd_index d = 13"
    and fits: "params_fit (jlib (plat env)) (d_socket_data d)"
    and args: "asks (jlib (plat env)) (d_socket_data d) ''evntNum'' num" "asks (jlib (plat env)) (d_socket_data d) ''evntArg1'' a"
      "asks (jlib (plat env)) (d_socket_data d) ''evntArg2'' b"
  shows "returns (mgr_run_method env d m) (\<lambda>(d', m'). EventMgr m' = snd (notify_event num a b (EventMgr m)) \<and> service m' = service m \<and>
    d_json d' = Some (JObj [(''return'', JStr ''Success'')]) \<and> d_mapper_result d' = d_mapper_result d \<and> mgr_inv objs Tk J m' \<and> owned m' = owned m)"
proof -
  have c: "cmd_of (d_cmd_index d) = Some EJSON_RPCGMGR_EVENT_NOTIFY" using d by (simp add: cmd_of_def EJSON_RPCGMGR_CMD_END_def common_cmds_def)
  have call: "callable m d" using d by (simp add: callable_def)
  obtain x y z where p: "param_text (jlib (plat env)) (d_socket_data d) ''evntNum'' = Some x" "atoi x = num"
    "param_text (jlib (plat env)) (d_socket_data d) ''evntArg1'' = Some y" "atoi y = a"
    "param_text (jlib (plat env)) (d_socket_data d) ''evntArg2'' = Some z" "atoi z = b" using args by (auto simp: asks_def)
  have "returns (common.serve EJSON_RPCGMGR_EVENT_NOTIFY env d m) (\<lambda>(d', m'). EventMgr m' = snd (notify_event num a b (EventMgr m)) \<and>
      service m' = service m \<and> d_json d' = Some (JObj [(''return'', JStr ''Success'')]) \<and> d_mapper_result d' = d_mapper_result d)"
    using p(1,3,5) unfolding common.serve_def
    by (simp add: create_req_obj_def json_to_bin_def json_to_bin_event_notify_def macro_defs find_single_param_fits [OF fits] p(2,4,6)
      process_common_def process_event_notify_def notify_event_def on_req_def set_result_def bin_to_json_def bin_to_json_event_notify_def resp_defs
      delete_req_obj_def convert_success)
  then show ?thesis using call_returns [OF call fits inv own] unfolding run_common [OF c fits inv own] by (auto simp: returns_def)
qed

end

definition event_args :: "EvntNotifyEntry \<Rightarrow> (string \<times> arg) list" where
  "event_args x = [(''evntNum'', AInt (n_eventNum x)), (''evntArg1'', AInt (n_eventArg x)), (''evntArg2'', AInt (n_eventArg2 x))]"

lemma event_asked:
  assumes "reads (jlib pl)" and "prints pl (request_json rpc i (event_args x))" and "is_this_method_registered rpc ms = Some k" and "length rpc < 256"
  defines "s \<equiv> to_json_string (jlib pl) (request_json rpc i (event_args x))"
  shows "params_fit (jlib pl) s" "asks (jlib pl) s ''evntNum'' (n_eventNum x)" "asks (jlib pl) s ''evntArg1'' (n_eventArg x)"
    "asks (jlib pl) s ''evntArg2'' (n_eventArg2 x)"
proof -
  note p = request_taken(5) [OF assms(1-4), folded s_def]
  have "param_text (jlib pl) s n = (if n = ''evntNum'' then Some (show_int (sint (n_eventNum x))) else if n = ''evntArg1'' then Some (show_int (sint (n_eventArg x)))
      else if n = ''evntArg2'' then Some (show_int (sint (n_eventArg2 x))) else None)" for n
    using p assms(1) by (simp add: event_args_def params_json_def reads_def)
  then show "params_fit (jlib pl) s" "asks (jlib pl) s ''evntNum'' (n_eventNum x)" "asks (jlib pl) s ''evntArg1'' (n_eventArg x)"
    "asks (jlib pl) s ''evntArg2'' (n_eventArg2 x)"
    using sint_show_short [of "n_eventNum x"] sint_show_short [of "n_eventArg x"] sint_show_short [of "n_eventArg2 x"]
    by (auto simp: params_fit_def asks_def atoi_show_int split: if_splits)
qed

lemma send_entry_notifies:
  fixes pl mx j s emu hw sd cl room
  defines "sk \<equiv> peer_socket (gpio_world pl mx j s emu hw) sd cl room"
  assumes sv: "gpio_served sd cl w" and ok: "puts_ok pl" "\<forall>n. mem_ok pl n" and lib: "reads (jlib pl)" "clib cenv = jlib pl" and room: "1400 \<le> room"
    and port: "1 \<le> sint (n_port x)" and pr: "prints pl (request_json ''notify_event'' 0 (event_args x))"
      "prints pl (result_object 0 ''Unknown'' (Some (JObj [(''return'', JStr ''Success'')])))"
  shows "\<exists>c' w'. send_entry (notifier_client cenv sk) x (c, w) = (c', w') \<and> gpio_served sd cl w' \<and> service (p_mgr w') = service (p_mgr w) \<and>
    EventMgr (p_mgr w') = snd (notify_event (n_eventNum x) (n_eventArg x) (n_eventArg2 x) (EventMgr (p_mgr w)))"
proof -
  note sv = sv [unfolded gpio_served_def]
  have reg: "is_this_method_registered ''notify_event'' (rpc_call_list (p_rpc w)) = Some \<lparr>cmd_method = ''notify_event'', method_index = 13\<rparr>"
    and m0: "gpio_inv (p_mgr w)" "0 \<le> owned (p_mgr w)" and ln: "length ''notify_event'' < 256" and wt: "waiting sd cl (p_rpc w)" "p_in w = []" using sv by simp_all
  let ?t = "to_json_string (jlib pl) (request_json ''notify_event'' 0 (event_args x))" let ?js = "JObj [(''return'', JStr ''Success'')]"
  note q = request_taken [OF lib(1) pr(1) reg ln] and n = event_asked [OF lib(1) pr(1) reg ln]
  let ?R = "\<lambda>m'. EventMgr m' = snd (notify_event (n_eventNum x) (n_eventArg x) (n_eventArg2 x) (EventMgr (p_mgr w))) \<and> service m' = service (p_mgr w) \<and>
    gpio_inv m' \<and> owned m' = 0"
  have run: "answers_call (gpio_world pl mx j s emu hw) \<lparr>cmd_method = ''notify_event'', method_index = 13\<rparr> ?t (p_mgr w) ?js ?R"
    unfolding answers_call_def using sv n
    by (intro allI impI returns_mono [OF gpio.notify_call [OF m0, where num = "n_eventNum x" and a = "n_eventArg x" and b = "n_eventArg2 x"]]) auto
  define c0 where "c0 = client_new\<lparr>net_port := n_port x, net_ip := ''127.0.0.1'', net_connected := True, clt_connected := True\<rparr>"
  have con: "rpc_server_connect sk ''127.0.0.1'' (n_port x) client_new w = (0, c0, w)"
    using port by (simp add: rpc_server_connect_def sock_connect_def sock_connect_again_def client_new_def sk_def peer_socket_def c0_def)
  have look: "find_json_result cenv (to_json_string (jlib pl) (result_object 0 ''Unknown'' (Some ?js))) ''return'' = kret (0, ''Success'', [])"
    using answer_read [OF lib(1) pr(2) lib(2), of "''Success''" "[]"] by (simp add: find_json_result_def)
  have c0: "net_connected c0" "req_id c0 = 0" by (simp_all add: c0_def client_new_def)
  obtain c1 w1 where w1: "rpc_exchange sk 4000 (kret ?t) (\<lambda>js. find_json_result cenv js ''return'') c0 w = kret (RPC_SRV_RESULT_SUCCESS, [], c1, w1)"
    "?R (p_mgr w1)" "waiting sd cl (p_rpc w1)" "p_in w1 = []" "rpc_call_list (p_rpc w1) = rpc_call_list (p_rpc w)"
    using exchange_with_service [OF gpio_plat(1) ok wt c0(1) q(1,4,2,3) pr(2) room run,
      of "\<lambda>js. find_json_result cenv js ''return''", OF look, unfolded convert_success, folded sk_def] by blast
  have "prepare_json_request_iii_last cenv ''notify_event'' (req_id c0) ''evntNum'' (n_eventNum x) ''evntArg1'' (n_eventArg x) ''evntArg2'' (n_eventArg2 x) = kret ?t"
    using q(4) lib(2) c0(2) by (simp add: prepare_json_request_iii_last_def request_text_def event_args_def sprintf_s_def MAX_SEND_BUFFER_SIZE_def)
  then have call: "set_three_int_type cenv sk ''notify_event'' ''evntNum'' (n_eventNum x) ''evntArg1'' (n_eventArg x) ''evntArg2'' (n_eventArg2 x) c0 w =
      kret (RPC_SRV_RESULT_SUCCESS, [], c1, w1)" using w1(1) by (simp add: set_three_int_type_def)
  have "snd (snd (rpc_server_disconnect sk c1 w1)) = w1"
    by (simp add: rpc_server_disconnect_def sock_disconnect_def sk_def peer_socket_def)
  then have "\<exists>c'. send_entry (notifier_client cenv sk) x (c, w) = (c', w1)"
    using con call by (cases "rpc_server_disconnect sk c1 w1") (simp add: send_entry_def notifier_client_def kret_def)
  moreover have "gpio_served sd cl w1" using sv w1(2-5) by (simp add: gpio_served_def)
  ultimately show ?thesis using w1(2) by blast
qed

lemma notifier_loop_notifies:
  fixes pl mx j s emu hw sd cl room
  defines "sk \<equiv> peer_socket (gpio_world pl mx j s emu hw) sd cl room"
  assumes ok: "puts_ok pl" "\<forall>n. mem_ok pl n" and lib: "reads (jlib pl)" "clib cenv = jlib pl" and room: "1400 \<le> room"
    and ans: "prints pl (result_object 0 ''Unknown'' (Some (JObj [(''return'', JStr ''Success'')])))"
    and xs: "list_all (\<lambda>x. 1 \<le> sint (n_port x) \<and> prints pl (request_json ''notify_event'' 0 (event_args x))) xs" and sv: "gpio_served sd cl w"
  shows "\<exists>c' w'. notifier_loop (notifier_client cenv sk) xs (c, w) = (c', w') \<and> gpio_served sd cl w' \<and> service (p_mgr w') = service (p_mgr w) \<and>
    notifyEvent (EventMgr (p_mgr w')) = notifyEvent (EventMgr (p_mgr w)) @
      map (\<lambda>x. \<lparr>p_eventNum = n_eventNum x, p_eventArg = n_eventArg x, p_cltToken = 0, p_eventArg2 = n_eventArg2 x\<rparr>) xs"
  using xs sv
proof (induction xs arbitrary: c w)
  case Nil
  then show ?case by simp
next
  case (Cons x xs)
  have p: "1 \<le> sint (n_port x)" "prints pl (request_json ''notify_event'' 0 (event_args x))" using Cons.prems(1) by simp_all
  obtain c1 w1 where 1: "send_entry (notifier_client cenv sk) x (c, w) = (c1, w1)" "gpio_served sd cl w1" "service (p_mgr w1) = service (p_mgr w)"
    "EventMgr (p_mgr w1) = snd (notify_event (n_eventNum x) (n_eventArg x) (n_eventArg2 x) (EventMgr (p_mgr w)))"
    using send_entry_notifies [where mx = mx and j = j and s = s and emu = emu and hw = hw and c = c, OF Cons.prems(2) ok lib room p ans, folded sk_def] by blast
  then show ?case using Cons.IH [OF _ 1(2), of c1] Cons.prems(1) by (auto simp: notify_event_def)
qed

text \<open>
  Property C22: the events of the GPIO service reach its event manager. The notifier's thread sends every event that was queued, in order, with a call
  of the service's own method, and afterwards the queue of the event manager has grown by just these events, with their numbers and arguments;
  the notifier's list is empty and the data of the service is unchanged.
\<close>

theorem notifier_reaches_event_manager:
  assumes "puts_ok pl" and "\<forall>n. mem_ok pl n" and "reads (jlib pl)" and "clib cenv = jlib pl" and "1400 \<le> room"
    and "prints pl (result_object 0 ''Unknown'' (Some (JObj [(''return'', JStr ''Success'')])))"
    and "list_all (\<lambda>x. 1 \<le> sint (n_port x) \<and> prints pl (request_json ''notify_event'' 0 (event_args x))) (NotifierList n)"
    and "gpio_served sd cl w"
  shows "\<exists>n' c' w'. notifier_thread (notifier_client cenv (peer_socket (gpio_world pl mx j s emu hw) sd cl room)) n (c, w) = (n', c', w') \<and>
    NotifierList n' = [] \<and> service (p_mgr w') = service (p_mgr w) \<and> gpio_served sd cl w' \<and>
    notifyEvent (EventMgr (p_mgr w')) = notifyEvent (EventMgr (p_mgr w)) @
      map (\<lambda>x. \<lparr>p_eventNum = n_eventNum x, p_eventArg = n_eventArg x, p_cltToken = 0, p_eventArg2 = n_eventArg2 x\<rparr>) (NotifierList n)"
  using notifier_loop_notifies [OF assms, of mx j s emu hw c] by (auto simp: notifier_thread_def)

definition ex_event :: EvntNotifyEntry where
  "ex_event = \<lparr>n_eventNum = 5, n_eventArg = 7, n_port = 8127, n_eventArg2 = 0\<rparr>"

theorem notifier_reaches_event_manager_witness:
  "\<exists>w n' c' w'. gpio_main 1 False (ex_rpc\<lparr>rpc_call_list := [], peers := (peers ex_rpc)(5 \<mapsto> 9)\<rparr>) = kret (p_mgr w, p_rpc w) \<and>
    notifier_thread (notifier_client cs_env (peer_socket (gpio_world cs_platform 0 0 [] True io_hw) 5 9 2000)) (notifier_new\<lparr>NotifierList := [ex_event]\<rparr>)
      (client_new, w) = (n', c', w') \<and>
    notifyEvent (EventMgr (p_mgr w')) = notifyEvent (EventMgr (p_mgr w)) @ [\<lparr>p_eventNum = 5, p_eventArg = 7, p_cltToken = 0, p_eventArg2 = 0\<rparr>]"
proof -
  let ?st = "ex_rpc\<lparr>rpc_call_list := [], peers := (peers ex_rpc)(5 \<mapsto> 9)\<rparr>"
  obtain m0 st' where start: "gpio_main 1 False ?st = kret (m0, st')"
    by (simp add: gpio_main_def mgr_Start_def gpio_objects_def AttachRpc_def mgr_new_def sprintf_s_def SetServiceReadyFlag_def Let_def)
  let ?w = "\<lparr>p_rpc = st', p_mgr = m0, p_in = [], p_down = False\<rparr>"
  have wt: "waiting 5 9 ?st" by (simp add: waiting_def ex_rpc_def net_server.defs rpc.defs net_init_def net_new_def)
  have sv: "gpio_served 5 9 ?w" using gpio_main_starts [OF start] gpio_methods [OF start] gpio_main_waiting [OF start wt]
    by (simp add: gpio_served_def)
  have "prints cs_platform (result_object 0 ''Unknown'' (Some (JObj [(''return'', JStr ''Success'')])))"
    "prints cs_platform (request_json ''notify_event'' 0 (event_args ex_event))"
    using cs_prints [of 1] cs_prints [of 4] by (simp_all add: cs_values_def event_args_def ex_event_def)
  then show ?thesis
    using notifier_reaches_event_manager [of cs_platform cs_env 2000 "notifier_new\<lparr>NotifierList := [ex_event]\<rparr>" 5 9 ?w 0 0 "[]" True io_hw client_new,
      OF _ _ cs_reads _ _ _ _ sv] start
    by (intro exI [of _ ?w]) (auto simp: puts_ok_def cs_platform_def ex_platform_def cs_env_def ex_event_def)
qed

end
