(* ===== verification/Result_Strings.thy ===== *)
theory Result_Strings
  imports Client_Server
begin

text \<open>
  The answers of the services with several values: the forms of \<open>prepare_result_string\<close> in
  \<open>src/sources/lib/lib-adav-old/src/ADCmnStringProcessor.cpp\<close>, one definition for each signature, whose letters are the types of
  the values. They are what a service builds and the functions of the client take apart. A \<open>float\<close> is the text that
  \<open>sprintf\<close> gives for it, a \<open>double\<close> the text that the library prints.
\<close>

section \<open>Answers with several values\<close>

definition result_values :: "RPC_SRV_RESULT \<Rightarrow> (string \<times> arg) list \<Rightarrow> 'p rpc_data \<Rightarrow> 'p rpc_data" where
  "result_values res vals d = result_with res (map (\<lambda>(k, a). (k, arg_json a)) vals) d"

definition prepare_result_string_iiff :: "RPC_SRV_RESULT \<Rightarrow> string \<Rightarrow> s32 \<Rightarrow> string \<Rightarrow> s32 \<Rightarrow> key \<Rightarrow> key \<Rightarrow> key \<Rightarrow> key \<Rightarrow> 'p rpc_data \<Rightarrow> 'p rpc_data" where
  "prepare_result_string_iiff res name1 val1 name2 val2 name3 val3 name4 val4 d = result_values res [(name1, AInt val1), (name2, AInt val2), (name3, AStr val3), (name4, AStr val4)] d"

definition prepare_result_string_iiii :: "RPC_SRV_RESULT \<Rightarrow> string \<Rightarrow> s32 \<Rightarrow> string \<Rightarrow> s32 \<Rightarrow> string \<Rightarrow> s32 \<Rightarrow> string \<Rightarrow> s32 \<Rightarrow> 'p rpc_data \<Rightarrow> 'p rpc_data" where
  "prepare_result_string_iiii res name1 val1 name2 val2 name3 val3 name4 val4 d = result_values res [(name1, AInt val1), (name2, AInt val2), (name3, AInt val3), (name4, AInt val4)] d"

definition prepare_result_string_iiiis :: "RPC_SRV_RESULT \<Rightarrow> string \<Rightarrow> s32 \<Rightarrow> string \<Rightarrow> s32 \<Rightarrow> string \<Rightarrow> s32 \<Rightarrow> string \<Rightarrow> s32 \<Rightarrow> string \<Rightarrow> string \<Rightarrow> 'p rpc_data \<Rightarrow> 'p rpc_data" where
  "prepare_result_string_iiiis res name1 val1 name2 val2 name3 val3 name4 val4 name5 val5 d = result_values res [(name1, AInt val1), (name2, AInt val2), (name3, AInt val3), (name4, AInt val4), (name5, AStr val5)] d"

definition prepare_result_string_sssss :: "RPC_SRV_RESULT \<Rightarrow> key \<Rightarrow> key \<Rightarrow> key \<Rightarrow> key \<Rightarrow> key \<Rightarrow> key \<Rightarrow> key \<Rightarrow> key \<Rightarrow> key \<Rightarrow> key \<Rightarrow> 'p rpc_data \<Rightarrow> 'p rpc_data" where
  "prepare_result_string_sssss res name1 val1 name2 val2 name3 val3 name4 val4 name5 val5 d = result_values res [(name1, AStr val1), (name2, AStr val2), (name3, AStr val3), (name4, AStr val4), (name5, AStr val5)] d"

definition prepare_result_string_ssss :: "RPC_SRV_RESULT \<Rightarrow> key \<Rightarrow> key \<Rightarrow> key \<Rightarrow> key \<Rightarrow> key \<Rightarrow> key \<Rightarrow> key \<Rightarrow> key \<Rightarrow> 'p rpc_data \<Rightarrow> 'p rpc_data" where
  "prepare_result_string_ssss res name1 val1 name2 val2 name3 val3 name4 val4 d = result_values res [(name1, AStr val1), (name2, AStr val2), (name3, AStr val3), (name4, AStr val4)] d"

definition prepare_result_string_iiiiss :: "RPC_SRV_RESULT \<Rightarrow> string \<Rightarrow> s32 \<Rightarrow> string \<Rightarrow> s32 \<Rightarrow> string \<Rightarrow> s32 \<Rightarrow> string \<Rightarrow> s32 \<Rightarrow> key \<Rightarrow> key \<Rightarrow> key \<Rightarrow> key \<Rightarrow> 'p rpc_data \<Rightarrow> 'p rpc_data" where
  "prepare_result_string_iiiiss res name1 val1 name2 val2 name3 val3 name4 val4 name5 val5 name6 val6 d = result_values res [(name1, AInt val1), (name2, AInt val2), (name3, AInt val3), (name4, AInt val4), (name5, AStr val5), (name6, AStr val6)] d"

definition prepare_result_string_iiiiiii :: "RPC_SRV_RESULT \<Rightarrow> string \<Rightarrow> s32 \<Rightarrow> string \<Rightarrow> s32 \<Rightarrow> string \<Rightarrow> s32 \<Rightarrow> string \<Rightarrow> s32 \<Rightarrow> string \<Rightarrow> s32 \<Rightarrow> string \<Rightarrow> s32 \<Rightarrow> string \<Rightarrow> s32 \<Rightarrow> 'p rpc_data \<Rightarrow> 'p rpc_data" where
  "prepare_result_string_iiiiiii res name1 val1 name2 val2 name3 val3 name4 val4 name5 val5 name6 val6 name7 val7 d = result_values res [(name1, AInt val1), (name2, AInt val2), (name3, AInt val3), (name4, AInt val4), (name5, AInt val5), (name6, AInt val6), (name7, AInt val7)] d"

definition prepare_result_string_iii :: "RPC_SRV_RESULT \<Rightarrow> string \<Rightarrow> s32 \<Rightarrow> string \<Rightarrow> s32 \<Rightarrow> string \<Rightarrow> s32 \<Rightarrow> 'p rpc_data \<Rightarrow> 'p rpc_data" where
  "prepare_result_string_iii res name1 val1 name2 val2 name3 val3 d = result_values res [(name1, AInt val1), (name2, AInt val2), (name3, AInt val3)] d"

definition prepare_result_string_iiiiiiii :: "RPC_SRV_RESULT \<Rightarrow> string \<Rightarrow> s32 \<Rightarrow> string \<Rightarrow> s32 \<Rightarrow> string \<Rightarrow> s32 \<Rightarrow> string \<Rightarrow> s32 \<Rightarrow> string \<Rightarrow> s32 \<Rightarrow> string \<Rightarrow> s32 \<Rightarrow> string \<Rightarrow> s32 \<Rightarrow> string \<Rightarrow> s32 \<Rightarrow> 'p rpc_data \<Rightarrow> 'p rpc_data" where
  "prepare_result_string_iiiiiiii res name1 val1 name2 val2 name3 val3 name4 val4 name5 val5 name6 val6 name7 val7 name8 val8 d = result_values res [(name1, AInt val1), (name2, AInt val2), (name3, AInt val3), (name4, AInt val4), (name5, AInt val5), (name6, AInt val6), (name7, AInt val7), (name8, AInt val8)] d"

definition prepare_result_string_ii :: "RPC_SRV_RESULT \<Rightarrow> string \<Rightarrow> s32 \<Rightarrow> string \<Rightarrow> s32 \<Rightarrow> 'p rpc_data \<Rightarrow> 'p rpc_data" where
  "prepare_result_string_ii res name1 val1 name2 val2 d = result_values res [(name1, AInt val1), (name2, AInt val2)] d"

definition prepare_result_string_ss :: "RPC_SRV_RESULT \<Rightarrow> key \<Rightarrow> key \<Rightarrow> key \<Rightarrow> key \<Rightarrow> 'p rpc_data \<Rightarrow> 'p rpc_data" where
  "prepare_result_string_ss res name1 val1 name2 val2 d = result_values res [(name1, AStr val1), (name2, AStr val2)] d"

definition prepare_result_string_ssiiiiiiii :: "RPC_SRV_RESULT \<Rightarrow> key \<Rightarrow> key \<Rightarrow> key \<Rightarrow> key \<Rightarrow> key \<Rightarrow> s32 \<Rightarrow> string \<Rightarrow> s32 \<Rightarrow> string \<Rightarrow> s32 \<Rightarrow> string \<Rightarrow> s32 \<Rightarrow> string \<Rightarrow> s32 \<Rightarrow> string \<Rightarrow> s32 \<Rightarrow> string \<Rightarrow> s32 \<Rightarrow> string \<Rightarrow> s32 \<Rightarrow> 'p rpc_data \<Rightarrow> 'p rpc_data" where
  "prepare_result_string_ssiiiiiiii res name1 val1 name2 val2 name3 val3 name4 val4 name5 val5 name6 val6 name7 val7 name8 val8 name9 val9 name10 val10 d = result_values res [(name1, AStr val1), (name2, AStr val2), (name3, AInt val3), (name4, AInt val4), (name5, AInt val5), (name6, AInt val6), (name7, AInt val7), (name8, AInt val8), (name9, AInt val9), (name10, AInt val10)] d"

definition prepare_result_string_iiiiii :: "RPC_SRV_RESULT \<Rightarrow> string \<Rightarrow> s32 \<Rightarrow> string \<Rightarrow> s32 \<Rightarrow> string \<Rightarrow> s32 \<Rightarrow> string \<Rightarrow> s32 \<Rightarrow> string \<Rightarrow> s32 \<Rightarrow> string \<Rightarrow> s32 \<Rightarrow> 'p rpc_data \<Rightarrow> 'p rpc_data" where
  "prepare_result_string_iiiiii res name1 val1 name2 val2 name3 val3 name4 val4 name5 val5 name6 val6 d = result_values res [(name1, AInt val1), (name2, AInt val2), (name3, AInt val3), (name4, AInt val4), (name5, AInt val5), (name6, AInt val6)] d"

definition prepare_result_string_ddd :: "RPC_SRV_RESULT \<Rightarrow> key \<Rightarrow> key \<Rightarrow> key \<Rightarrow> key \<Rightarrow> key \<Rightarrow> key \<Rightarrow> 'p rpc_data \<Rightarrow> 'p rpc_data" where
  "prepare_result_string_ddd res name1 val1 name2 val2 name3 val3 d = result_values res [(name1, ADbl val1), (name2, ADbl val2), (name3, ADbl val3)] d"

definition prepare_result_string_idsidd :: "RPC_SRV_RESULT \<Rightarrow> string \<Rightarrow> s32 \<Rightarrow> key \<Rightarrow> key \<Rightarrow> key \<Rightarrow> key \<Rightarrow> key \<Rightarrow> s32 \<Rightarrow> key \<Rightarrow> key \<Rightarrow> key \<Rightarrow> key \<Rightarrow> 'p rpc_data \<Rightarrow> 'p rpc_data" where
  "prepare_result_string_idsidd res name1 val1 name2 val2 name3 val3 name4 val4 name5 val5 name6 val6 d = result_values res [(name1, AInt val1), (name2, ADbl val2), (name3, AStr val3), (name4, AInt val4), (name5, ADbl val5), (name6, ADbl val6)] d"

definition prepare_result_string_ddddddddd :: "RPC_SRV_RESULT \<Rightarrow> key \<Rightarrow> key \<Rightarrow> key \<Rightarrow> key \<Rightarrow> key \<Rightarrow> key \<Rightarrow> key \<Rightarrow> key \<Rightarrow> key \<Rightarrow> key \<Rightarrow> key \<Rightarrow> key \<Rightarrow> key \<Rightarrow> key \<Rightarrow> key \<Rightarrow> key \<Rightarrow> key \<Rightarrow> key \<Rightarrow> 'p rpc_data \<Rightarrow> 'p rpc_data" where
  "prepare_result_string_ddddddddd res name1 val1 name2 val2 name3 val3 name4 val4 name5 val5 name6 val6 name7 val7 name8 val8 name9 val9 d = result_values res [(name1, ADbl val1), (name2, ADbl val2), (name3, ADbl val3), (name4, ADbl val4), (name5, ADbl val5), (name6, ADbl val6), (name7, ADbl val7), (name8, ADbl val8), (name9, ADbl val9)] d"

definition prepare_result_string_sssddddddddd :: "RPC_SRV_RESULT \<Rightarrow> key \<Rightarrow> key \<Rightarrow> key \<Rightarrow> key \<Rightarrow> key \<Rightarrow> key \<Rightarrow> key \<Rightarrow> key \<Rightarrow> key \<Rightarrow> key \<Rightarrow> key \<Rightarrow> key \<Rightarrow> key \<Rightarrow> key \<Rightarrow> key \<Rightarrow> key \<Rightarrow> key \<Rightarrow> key \<Rightarrow> key \<Rightarrow> key \<Rightarrow> key \<Rightarrow> key \<Rightarrow> key \<Rightarrow> key \<Rightarrow> 'p rpc_data \<Rightarrow> 'p rpc_data" where
  "prepare_result_string_sssddddddddd res name1 val1 name2 val2 name3 val3 name4 val4 name5 val5 name6 val6 name7 val7 name8 val8 name9 val9 name10 val10 name11 val11 name12 val12 d = result_values res [(name1, AStr val1), (name2, AStr val2), (name3, AStr val3), (name4, ADbl val4), (name5, ADbl val5), (name6, ADbl val6), (name7, ADbl val7), (name8, ADbl val8), (name9, ADbl val9), (name10, ADbl val10), (name11, ADbl val11), (name12, ADbl val12)] d"

definition prepare_result_string_iiss :: "RPC_SRV_RESULT \<Rightarrow> string \<Rightarrow> s32 \<Rightarrow> string \<Rightarrow> s32 \<Rightarrow> key \<Rightarrow> key \<Rightarrow> key \<Rightarrow> key \<Rightarrow> 'p rpc_data \<Rightarrow> 'p rpc_data" where
  "prepare_result_string_iiss res name1 val1 name2 val2 name3 val3 name4 val4 d = result_values res [(name1, AInt val1), (name2, AInt val2), (name3, AStr val3), (name4, AStr val4)] d"

definition prepare_result_string_siii :: "RPC_SRV_RESULT \<Rightarrow> key \<Rightarrow> key \<Rightarrow> key \<Rightarrow> s32 \<Rightarrow> string \<Rightarrow> s32 \<Rightarrow> string \<Rightarrow> s32 \<Rightarrow> 'p rpc_data \<Rightarrow> 'p rpc_data" where
  "prepare_result_string_siii res name1 val1 name2 val2 name3 val3 name4 val4 d = result_values res [(name1, AStr val1), (name2, AInt val2), (name3, AInt val3), (name4, AInt val4)] d"

definition prepare_result_string_sss :: "RPC_SRV_RESULT \<Rightarrow> key \<Rightarrow> key \<Rightarrow> key \<Rightarrow> key \<Rightarrow> key \<Rightarrow> key \<Rightarrow> 'p rpc_data \<Rightarrow> 'p rpc_data" where
  "prepare_result_string_sss res name1 val1 name2 val2 name3 val3 d = result_values res [(name1, AStr val1), (name2, AStr val2), (name3, AStr val3)] d"

definition prepare_result_string_lll :: "RPC_SRV_RESULT \<Rightarrow> string \<Rightarrow> 64 word \<Rightarrow> string \<Rightarrow> 64 word \<Rightarrow> string \<Rightarrow> 64 word \<Rightarrow> 'p rpc_data \<Rightarrow> 'p rpc_data" where
  "prepare_result_string_lll res name1 val1 name2 val2 name3 val3 d = result_values res [(name1, ALong val1), (name2, ALong val2), (name3, ALong val3)] d"

definition prepare_result_string_si :: "RPC_SRV_RESULT \<Rightarrow> key \<Rightarrow> key \<Rightarrow> key \<Rightarrow> s32 \<Rightarrow> 'p rpc_data \<Rightarrow> 'p rpc_data" where
  "prepare_result_string_si res name1 val1 name2 val2 d = result_values res [(name1, AStr val1), (name2, AInt val2)] d"

text \<open>The results of the display panels; those without a code of their own become \<open>RPC_SRV_RESULT_UNKNOWN\<close>.\<close>

datatype EDISP_PANEL_RESULT =
  EDISP_PANEL_RESULT_SUCCESS | EDISP_PANEL_RESULT_FAIL | EDISP_PANEL_RESULT_IN_PROG | EDISP_PANEL_RESULT_NOT_STARTED |
  EDISP_PANEL_RESULT_TIMEOUT | EDISP_PANEL_RESULT_ARG_ERROR | EDISP_PANEL_RESULT_MEM_ERROR | EDISP_PANEL_RESULT_BUS_ERROR |
  EDISP_PANEL_RESULT_RESEND | EDISP_PANEL_RESULT_FILE_NOT_FOUND | EDISP_PANEL_RESULT_UNKNOWN | EDISP_PANEL_RESULT_NONE

definition panel_code :: "EDISP_PANEL_RESULT \<Rightarrow> RPC_SRV_RESULT" where
  "panel_code r = (case r of
     EDISP_PANEL_RESULT_SUCCESS \<Rightarrow> RPC_SRV_RESULT_SUCCESS
   | EDISP_PANEL_RESULT_FAIL \<Rightarrow> RPC_SRV_RESULT_FAIL
   | EDISP_PANEL_RESULT_RESEND \<Rightarrow> RPC_SRV_RESULT_RESEND
   | EDISP_PANEL_RESULT_TIMEOUT \<Rightarrow> RPC_SRV_RESULT_TIMEOUT
   | _ \<Rightarrow> RPC_SRV_RESULT_UNKNOWN)"

definition prepare_result_string_panel :: "EDISP_PANEL_RESULT \<Rightarrow> 'p rpc_data \<Rightarrow> 'p rpc_data" where
  "prepare_result_string_panel r d = prepare_result_string (panel_code r) d"

definition prepare_result_string_panel_str :: "EDISP_PANEL_RESULT \<Rightarrow> string \<Rightarrow> string \<Rightarrow> 'p rpc_data \<Rightarrow> 'p rpc_data" where
  "prepare_result_string_panel_str r name v d = prepare_result_string_str (panel_code r) name v d"

section \<open>The client reads what the service has written\<close>

text \<open>How a value is read, and what the client gets.\<close>

fun arg_kind :: "arg \<Rightarrow> kind" where
  "arg_kind (AInt i) = KAtoi"
| "arg_kind (ALong v) = KStr"
| "arg_kind (ADbl t) = KAtof"
| "arg_kind (AStr s) = KStr"

fun arg_out :: "arg \<Rightarrow> out" where
  "arg_out (AInt i) = OInt i"
| "arg_out (ALong v) = OStr (show_int (sint v))"
| "arg_out (ADbl t) = ODbl t"
| "arg_out (AStr s) = OStr s"

fun no_double :: "arg \<Rightarrow> bool" where
  "no_double (ADbl t) = False"
| "no_double a = True"

lemma map_of_object_add: "map_of (object_add k v ms) = (map_of ms)(k \<mapsto> v)"
  by (induction k v ms rule: object_add.induct) auto

lemma map_of_added: "map_of (fold (\<lambda>(k, v) ms. object_add k v ms) vals init) = map_of init ++ map_of (rev vals)"
  by (induction vals arbitrary: init) (auto simp: map_of_object_add map_add_def fun_eq_iff split: option.splits)

lemma added_values:
  assumes d: "distinct (map fst vals)" and k: "k \<notin> fst ` set vals"
  shows "(k', v) \<in> set vals \<Longrightarrow> map_of (fold (\<lambda>(k, v) ms. object_add k v ms) vals [(k, x)]) k' = Some v"
    and "map_of (fold (\<lambda>(k, v) ms. object_add k v ms) vals [(k, x)]) k = Some x"
proof -
  have "distinct (map fst (rev vals))" using d by (simp add: rev_map [symmetric])
  then have "map_of (rev vals) k' = Some v" if "(k', v) \<in> set vals" using that by simp
  then show "(k', v) \<in> set vals \<Longrightarrow> map_of (fold (\<lambda>(k, v) ms. object_add k v ms) vals [(k, x)]) k' = Some v"
    by (simp add: map_of_added map_add_def)
  have "map_of (rev vals) k = None" using k by (simp add: map_of_eq_None_iff)
  then show "map_of (fold (\<lambda>(k, v) ms. object_add k v ms) vals [(k, x)]) k = Some x" by (simp add: map_of_added map_add_def)
qed

lemma values_read:
  assumes "reads (clib env)" and "\<forall>(k, a) \<in> set vals. map_of ms k = Some (arg_json a) \<and> no_double a"
  shows "read_fields env (JObj ms) (map (\<lambda>(k, a). (k, arg_kind a)) vals) = kret (map (\<lambda>(_, a). Some (arg_out a)) vals)"
  using assms(2)
proof (induction vals)
  case (Cons x vals)
  obtain k a where "x = (k, a)" by (cases x)
  then show ?case using Cons assms(1) by (cases a) (auto simp: reads_def atoi_show_int Let_def)
qed simp

text \<open>The texts of the results fit into the array of the client.\<close>

lemma result_text_short: "length (convert_server_result_to_string res) < 255"
  by (cases res) (simp_all add: convert_server_result_to_string_def rpc_code_def rpc_srv_results_def rpc_server_result_table_def)

text \<open>
  Fact: the client reads what the service has written. For any values with distinct names other than that of the result, the answer
  that the service builds with \<open>prepare_result_string\<close> is taken apart by the client into the same values, in the same order, and the code
  that the client makes of the text of the result is the code that the service put in.
\<close>

theorem result_values_read_back:
  assumes lib: "reads (jlib pl)" "clib env = jlib pl" and names: "distinct (map fst vals)" "''return'' \<notin> fst ` set vals"
    and vals: "list_all (\<lambda>(_, a). no_double a) vals" and pr: "prints pl (result_object rid ''Unknown'' (d_json (result_values res vals d)))"
  shows "\<exists>t. find_fields env (to_json_string (jlib pl) (result_object rid ''Unknown'' (d_json (result_values res vals d)))) ''return''
      (map (\<lambda>(k, a). (k, arg_kind a)) vals) = kret (0, t, map (\<lambda>(_, a). Some (arg_out a)) vals) \<and>
    convert_string_to_server_result t = (if res = RPC_SRV_RESULT_NONE then RPC_SRV_RESULT_UNKNOWN else res)"
proof -
  let ?vs = "map (\<lambda>(k, a). (k, arg_json a)) vals" let ?r = "convert_server_result_to_string res"
  let ?ms = "fold (\<lambda>(k, v) ms. object_add k v ms) ?vs [(''return'', JStr ?r)]"
  have js: "d_json (result_values res vals d) = Some (JObj ?ms)" by (simp add: result_values_def result_with_def)
  have fst: "map fst ?vs = map fst vals" by (induction vals) auto
  have n: "distinct (map fst ?vs)" "''return'' \<notin> fst ` set ?vs" unfolding fst using names by (auto simp: image_iff)
  have "map_of ?ms k = Some (arg_json a) \<and> no_double a" if "(k, a) \<in> set vals" for k a
    using added_values(1) [OF n, of k "arg_json a"] vals that by (force simp: list_all_iff)
  then have "read_fields env (JObj ?ms) (map (\<lambda>(k, a). (k, arg_kind a)) vals) = kret (map (\<lambda>(_, a). Some (arg_out a)) vals)"
    by (intro values_read) (use lib in auto)
  then show ?thesis
    using answer_read [OF lib(1) pr [unfolded js] lib(2) added_values(2) [OF n] result_text_short, of "map (\<lambda>(k, a). (k, arg_kind a)) vals"]
      rpc_result_roundtrip [of res "[]"] unfolding js by simp
qed

definition ex_answer :: json where
  "ex_answer = result_object 3 ''Unknown'' (Some (JObj [(''return'', JStr ''Success''), (''brightness'', JInt 7), (''contrast'', JInt 5)]))"

definition ex_printer :: platform where
  "ex_printer = cs_platform\<lparr>jlib := cs_lib\<lparr>to_json_string := (\<lambda>_. ''{}''), tokener_parse := (\<lambda>_. Some ex_answer)\<rparr>\<rparr>"

theorem result_values_read_back_witness:
  "\<forall>d :: unit rpc_data. \<exists>t. find_json_result_and_two_int_param (cs_env\<lparr>clib := jlib ex_printer\<rparr>) (to_json_string (jlib ex_printer) (result_object 3 ''Unknown''
      (d_json (prepare_result_string_ii RPC_SRV_RESULT_SUCCESS ''brightness'' 7 ''contrast'' 5 d)))) ''return'' ''brightness'' ''contrast'' =
    kret (0, t, [Some (OInt 7), Some (OInt 5)]) \<and> convert_string_to_server_result t = RPC_SRV_RESULT_SUCCESS"
proof (rule allI)
  fix d :: "unit rpc_data"
  let ?v = "[(''brightness'', AInt 7), (''contrast'', AInt 5)]"
  have js: "d_json (result_values RPC_SRV_RESULT_SUCCESS ?v d) = Some (JObj [(''return'', JStr ''Success''), (''brightness'', JInt 7), (''contrast'', JInt 5)])"
    by (simp add: result_values_def result_with_def convert_server_result_to_string_def rpc_code_def rpc_srv_results_def rpc_server_result_table_def)
  have pr: "prints ex_printer (result_object 3 ''Unknown'' (d_json (result_values RPC_SRV_RESULT_SUCCESS ?v d)))"
    using blank_object [of "[]"]
    by (simp add: js ex_answer_def [symmetric] prints_def ex_printer_def cs_platform_def ex_platform_def framed_def checked_part_def char_int_def)
  have "reads (jlib ex_printer)" using cs_reads by (simp add: reads_def ex_printer_def cs_platform_def)
  from result_values_read_back [OF this _ _ _ _ pr, of "cs_env\<lparr>clib := jlib ex_printer\<rparr>"] show
    "\<exists>t. find_json_result_and_two_int_param (cs_env\<lparr>clib := jlib ex_printer\<rparr>) (to_json_string (jlib ex_printer) (result_object 3 ''Unknown''
      (d_json (prepare_result_string_ii RPC_SRV_RESULT_SUCCESS ''brightness'' 7 ''contrast'' 5 d)))) ''return'' ''brightness'' ''contrast'' =
    kret (0, t, [Some (OInt 7), Some (OInt 5)]) \<and> convert_string_to_server_result t = RPC_SRV_RESULT_SUCCESS"
    by (simp add: find_json_result_and_two_int_param_def prepare_result_string_ii_def)
qed

end
