(* ===== verification/Cpp_Strings.thy ===== *)
theory Cpp_Strings
  imports C_Strings "HOL-Library.List_Lexorder" "HOL-Library.Char_ord"
begin

text \<open>
  What the services use of the C++ library: words and lines of a string stream, lines of a file, lower case, and
  \<open>std::map\<close> from strings to strings with its order.
\<close>

section \<open>Streams\<close>

text \<open>\<open>stream >> word\<close>: the word, empty when there is none, and what is left.\<close>

definition read_word :: "string \<Rightarrow> string \<times> string" where
  "read_word s = (let t = dropWhile is_space s in (takeWhile (\<lambda>c. \<not> is_space c) t, dropWhile (\<lambda>c. \<not> is_space c) t))"

definition first_word :: "string \<Rightarrow> string" where
  "first_word s = fst (read_word s)"

definition second_word :: "string \<Rightarrow> string" where
  "second_word s = first_word (snd (read_word s))"

definition third_word :: "string \<Rightarrow> string" where
  "third_word s = first_word (snd (read_word (snd (read_word s))))"

text \<open>\<open>while (stream >> word)\<close>.\<close>

function words :: "string \<Rightarrow> string list" where
  "words s = (case read_word s of (w, rest) \<Rightarrow> if w = [] then [] else w # words rest)"
  by auto

lemma read_word_shorter: "read_word s = (w, rest) \<Longrightarrow> w \<noteq> [] \<Longrightarrow> length rest < length s"
proof -
  assume a: "read_word s = (w, rest)" "w \<noteq> []"
  let ?t = "dropWhile is_space s"
  have w: "w = takeWhile (\<lambda>c. \<not> is_space c) ?t" "rest = dropWhile (\<lambda>c. \<not> is_space c) ?t" using a(1) by (simp_all add: read_word_def Let_def)
  then have "?t = w @ rest" by simp
  then have "length ?t = length w + length rest" by (metis length_append)
  then show ?thesis using a(2) length_dropWhile_le [of is_space s] by (cases w) auto
qed

termination words
  by (relation "measure length") (auto dest: read_word_shorter [OF sym])

declare words.simps [simp del]

text \<open>\<open>getline(stream, line)\<close> for the rest of a stream: up to the end of the line.\<close>

definition rest_line :: "string \<Rightarrow> string" where
  "rest_line s = takeWhile (\<lambda>c. c \<noteq> CHR 0x0A) s"

text \<open>\<open>while (stream.good()) getline(stream, part, c)\<close>: a separator at the end leaves an empty part.\<close>

fun split_on :: "char \<Rightarrow> string \<Rightarrow> string list" where
  "split_on c [] = [[]]"
| "split_on c (x # xs) = (if x = c then [] # split_on c xs else (case split_on c xs of [] \<Rightarrow> [[x]] | p # ps \<Rightarrow> (x # p) # ps))"

text \<open>Two calls of \<open>getline(stream, part, c)\<close>: the second part is empty when there is none.\<close>

definition two_parts :: "char \<Rightarrow> string \<Rightarrow> string \<times> string" where
  "two_parts c s = (case split_on c s of a # b # _ \<Rightarrow> (a, b) | [a] \<Rightarrow> (a, []) | [] \<Rightarrow> ([], []))"

text \<open>\<open>while (getline(file, line))\<close>: no line after the last line feed.\<close>

definition file_lines :: "string \<Rightarrow> string list" where
  "file_lines s = (let ls = split_on (CHR 0x0A) s in if last ls = [] then butlast ls else ls)"

definition lower_case :: "string \<Rightarrow> string" where
  "lower_case s = map (\<lambda>c. if CHR ''A'' \<le> c \<and> c \<le> CHR ''Z'' then char_of (of_char c + 32 :: nat) else c) s"

section \<open>Maps\<close>

text \<open>\<open>std::map\<close> as the list of its pairs in the order of their keys.\<close>

type_synonym 'v str_map = "(string \<times> 'v) list"

fun map_put :: "string \<Rightarrow> 'v \<Rightarrow> 'v str_map \<Rightarrow> 'v str_map" where
  "map_put k v [] = [(k, v)]"
| "map_put k v ((k', v') # m) = (if k < k' then (k, v) # (k', v') # m else if k = k' then (k, v) # m else (k', v') # map_put k v m)"

definition map_erase :: "string \<Rightarrow> 'v str_map \<Rightarrow> 'v str_map" where
  "map_erase k m = filter (\<lambda>(k', _). k' \<noteq> k) m"

definition map_ok :: "'v str_map \<Rightarrow> bool" where
  "map_ok m \<longleftrightarrow> sorted_wrt (<) (map fst m)"

section \<open>Lemmas\<close>

lemma split_on_ne: "split_on c s \<noteq> []"
  by (induction s) (auto split: list.splits)

lemma split_on_free: "c \<notin> set s \<Longrightarrow> split_on c s = [s]"
  by (induction s) auto

lemma split_on_append: "c \<notin> set s \<Longrightarrow> split_on c (s @ c # t) = s # split_on c t"
  by (induction s) auto

lemma split_on_free_parts: "p \<in> set (split_on c s) \<Longrightarrow> c \<notin> set p"
  by (induction s arbitrary: p) (fastforce split: list.splits if_splits)+

lemma two_parts_free: "c \<notin> set a \<Longrightarrow> c \<notin> set b \<Longrightarrow> two_parts c (a @ c # b) = (a, b)"
  by (simp add: two_parts_def split_on_append split_on_free)

lemma file_lines_unlines:
  "list_all (\<lambda>l. CHR 0x0A \<notin> set l) ls \<Longrightarrow> file_lines (concat (map (\<lambda>l. l @ [CHR 0x0A]) ls)) = ls"
proof -
  assume "list_all (\<lambda>l. CHR 0x0A \<notin> set l) ls"
  then have "split_on (CHR 0x0A) (concat (map (\<lambda>l. l @ [CHR 0x0A]) ls)) = ls @ [[]]"
    by (induction ls) (simp_all add: split_on_append)
  then show ?thesis by (simp add: file_lines_def)
qed

lemma map_of_put: "map_ok m \<Longrightarrow> map_of (map_put k v m) = (map_of m)(k \<mapsto> v)"
  by (induction k v m rule: map_put.induct) (fastforce simp: map_ok_def)+

lemma set_map_put: "fst ` set (map_put k v m) = insert k (fst ` set m)"
  by (induction k v m rule: map_put.induct) auto

lemma map_ok_put: "map_ok m \<Longrightarrow> map_ok (map_put k v m)"
proof (induction k v m rule: map_put.induct)
  case (2 k v k' v' m)
  have "x \<in> fst ` set (map_put k v m) \<Longrightarrow> x = k \<or> x \<in> fst ` set m" for x using set_map_put [of k v m] by auto
  then show ?case using 2 by (fastforce simp: map_ok_def)
qed (simp add: map_ok_def)

lemma map_of_erase: "map_of (map_erase k m) = (map_of m)(k := None)"
  by (induction m) (auto simp: map_erase_def)

lemma map_ok_erase: "map_ok m \<Longrightarrow> map_ok (map_erase k m)"
  by (induction m) (auto simp: map_ok_def map_erase_def)

text \<open>The pairs determine the map: putting the pairs of a map into an empty one gives it back.\<close>

lemma map_put_last: "\<forall>x \<in> fst ` set m. x < k \<Longrightarrow> map_put k v m = m @ [(k, v)]"
  by (induction k v m rule: map_put.induct) (auto dest: less_asym)

lemma map_put_all: "map_ok (m @ n) \<Longrightarrow> foldl (\<lambda>m (k, v). map_put k v m) m n = m @ n"
proof (induction n arbitrary: m)
  case (Cons p n)
  obtain k v where p: "p = (k, v)" by (cases p)
  have "\<forall>x \<in> fst ` set m. x < k" using Cons.prems by (auto simp: p map_ok_def sorted_wrt_append)
  then show ?case using Cons.IH [of "m @ [p]"] Cons.prems by (simp add: p map_put_last)
qed simp

lemma map_ok_unique: "map_ok m \<Longrightarrow> map_ok n \<Longrightarrow> map_of m = map_of n \<Longrightarrow> m = n"
proof -
  assume a: "map_ok m" "map_ok n" "map_of m = map_of n"
  have d: "distinct (map fst m)" "distinct (map fst n)" using a(1,2) by (auto simp: map_ok_def strict_sorted_iff)
  have "set m = set n" using d a(3) by (metis map_of_inject_set)
  then show "m = n" using d a(1,2)
    by (intro map_sorted_distinct_set_unique [of fst]) (auto simp: map_ok_def strict_sorted_iff distinct_map)
qed

end
