(* ===== verification/Xmpp_Proxy.thy ===== *)
theory Xmpp_Proxy
  imports Prelude Cpp_Strings
begin

text \<open>
  The connection of the XMPP service to the chat server, \<open>ADXmppProxy.cpp\<close> of
  \<open>src/sources/services/xmproxy/srv/src/\<close>: the client object and its state, the sessions with the
  buddies, who may send requests and who is accepted as a buddy, replies and messages, and the ping that finds a
  dead connection. The chat library itself is not part of the sources: the roster it holds is an argument of the functions
  that read it, and what it is asked to do is a list of stanzas. A client object is known by its number.
\<close>

section \<open>State\<close>

text \<open>An entry of the roster: its address and whether it is online.\<close>

type_synonym roster = "(string \<times> bool) list"

datatype stanza =
    Chat nat string string string
  | Ping nat
  | Subscribe nat string
  | Unsubscribe nat string
  | Dispose nat string

record ADXmppProxy =
  xp_client :: "nat option"
  xp_made :: nat
  iConnect :: bool
  DisconnectNow :: bool
  OnDemandDisconnect :: bool
  failed_authorization :: bool
  xp_connected :: bool
  HeartBeat :: s32
  mySessions :: "nat str_map"
  AcceptBuddyList :: "string list"
  AdminBuddy :: string
  BkupAdminBuddy :: string
  PingPipe :: "s32 list"
  ping_sema :: nat
  xp_sent :: "stanza list"

definition proxy_new :: ADXmppProxy where
  "proxy_new = \<lparr>xp_client = None, xp_made = 0, iConnect = False, DisconnectNow = False, OnDemandDisconnect = False,
     failed_authorization = False, xp_connected = False, HeartBeat = 0, mySessions = [], AcceptBuddyList = [], AdminBuddy = [],
     BkupAdminBuddy = [], PingPipe = [], ping_sema = 0, xp_sent = []\<rparr>"

definition emit :: "stanza \<Rightarrow> ADXmppProxy \<Rightarrow> ADXmppProxy" where
  "emit st x = x\<lparr>xp_sent := xp_sent x @ [st]\<rparr>"

section \<open>The connection\<close>

text \<open>
  \<open>connect\<close> up to the loop that receives, and what it does when the loop has ended. In between the library calls the
  functions below.
\<close>

definition proxy_connect :: "string \<Rightarrow> string \<Rightarrow> ADXmppProxy \<Rightarrow> ADXmppProxy" where
  "proxy_connect adminbuddy bkupadminbuddy x =
     (if xp_client x \<noteq> None then x
      else x\<lparr>AdminBuddy := adminbuddy, BkupAdminBuddy := bkupadminbuddy, xp_client := Some (xp_made x), xp_made := xp_made x + 1,
        xp_connected := True, HeartBeat := 0\<rparr>)"

definition proxy_connect_end :: "ADXmppProxy \<Rightarrow> ADXmppProxy" where
  "proxy_connect_end x = x\<lparr>xp_client := None, xp_connected := False\<rparr>"

definition onConnect :: "ADXmppProxy \<Rightarrow> ADXmppProxy" where
  "onConnect x = x\<lparr>iConnect := True\<rparr>"

definition onDisconnect :: "bool \<Rightarrow> ADXmppProxy \<Rightarrow> ADXmppProxy" where
  "onDisconnect auth_failed x = x\<lparr>failed_authorization := failed_authorization x \<or> auth_failed, iConnect := False\<rparr>"

text \<open>
  \<open>disconnect\<close> asks the library to close the connection and waits for the thread that runs \<open>connect\<close>. \<open>ends\<close> says
  whether that thread gets to its end; the library tells the listener of the disconnection before.
\<close>

definition disconnect :: "bool \<Rightarrow> ADXmppProxy \<Rightarrow> ADXmppProxy kres" where
  "disconnect ends x = (case xp_client x of
     None \<Rightarrow> kret x
   | Some _ \<Rightarrow> let x = onDisconnect False x in
       if \<not> xp_connected x then kret x else if ends then kret (proxy_connect_end x) else khang)"

section \<open>Requests and replies\<close>

definition is_admin_user :: "string \<Rightarrow> ADXmppProxy \<Rightarrow> bool" where
  "is_admin_user user x \<longleftrightarrow> user = AdminBuddy x \<or> user = BkupAdminBuddy x"

text \<open>The roster belongs to the client object.\<close>

definition get_roster :: "roster \<Rightarrow> ADXmppProxy \<Rightarrow> roster kres" where
  "get_roster ro x = (if xp_client x = None then kfail BadDeref else kret ro)"

definition on_roster :: "string \<Rightarrow> roster \<Rightarrow> bool" where
  "on_roster who ro \<longleftrightarrow> who \<in> fst ` set ro"

text \<open>
  A request is passed on when it comes from an admin or from the roster; the consumer of the
  messages is the argument \<open>f\<close>, which acts on the rest of the service.
\<close>

definition receive_request :: "roster \<Rightarrow> (string \<Rightarrow> string \<Rightarrow> 'm \<Rightarrow> 'm kres) \<Rightarrow> string \<Rightarrow> string \<Rightarrow> ADXmppProxy \<Rightarrow> 'm \<Rightarrow> (int \<times> 'm) kres" where
  "receive_request ro f req sender x m =
     (if sender = AdminBuddy x \<or> sender = BkupAdminBuddy x then kbind (f req sender m) (\<lambda>m. kret (0, m))
      else kbind (get_roster ro x) (\<lambda>ro.
        if on_roster sender ro then kbind (f req sender m) (\<lambda>m. kret (0, m)) else kret (-1, m)))"

definition handleMessage :: "roster \<Rightarrow> (string \<Rightarrow> string \<Rightarrow> 'm \<Rightarrow> 'm kres) \<Rightarrow> string \<Rightarrow> string \<Rightarrow> ADXmppProxy \<Rightarrow> 'm \<Rightarrow> 'm kres" where
  "handleMessage ro f body bare x m = (if body = [] then kret m else kbind (receive_request ro f body bare x m) (\<lambda>(_, m). kret m))"

text \<open>
  A session and its filters belong to the client they were made for and are deleted with it, while \<open>mySessions\<close> keeps the
  pointers: to send through the session of a client other than \<open>j\<close> is to use freed memory.
\<close>

definition use_session :: "nat \<Rightarrow> nat \<Rightarrow> stanza \<Rightarrow> ADXmppProxy \<Rightarrow> ADXmppProxy kres" where
  "use_session n k st x = (if k = n then kret (emit st x) else kfail BadDeref)"

definition send_reply :: "string \<Rightarrow> string \<Rightarrow> ADXmppProxy \<Rightarrow> (int \<times> ADXmppProxy) kres" where
  "send_reply reply sender x = (case xp_client x of
     None \<Rightarrow> kret (-1, x)
   | Some n \<Rightarrow> (case map_of (mySessions x) sender of
       None \<Rightarrow> kret (-1, x)
     | Some k \<Rightarrow> kbind (use_session n k (Chat k sender reply []) x) (\<lambda>x. kret (0, x))))"

text \<open>
  A new session, which belongs to the client \<open>j\<close>; an older session with the same buddy is disposed of. The library only compares
  the pointer it is given with its own sessions, so the session of a deleted client does no harm here.
\<close>

definition handleMessageSession :: "string \<Rightarrow> ADXmppProxy \<Rightarrow> ADXmppProxy" where
  "handleMessageSession bare x = (case xp_client x of
     None \<Rightarrow> x
   | Some n \<Rightarrow>
       let x = (case map_of (mySessions x) bare of
           None \<Rightarrow> x
         | Some _ \<Rightarrow> (emit (Dispose n bare) x)\<lparr>mySessions := map_erase bare (mySessions x)\<rparr>) in
       x\<lparr>mySessions := map_put bare n (mySessions x)\<rparr>)"

section \<open>The ping\<close>

definition send_client_alive_ping :: "ADXmppProxy \<Rightarrow> ADXmppProxy" where
  "send_client_alive_ping x = (if PingPipe x = [] then x\<lparr>PingPipe := [0], ping_sema := ping_sema x + 1\<rparr> else x)"

definition ping_once :: "bool \<Rightarrow> ADXmppProxy \<Rightarrow> ADXmppProxy kres" where
  "ping_once ends x = (case xp_client x of
     None \<Rightarrow> kret x
   | Some n \<Rightarrow>
       let x = (emit (Ping n) x)\<lparr>HeartBeat := HeartBeat x + 1\<rparr> in
       if sint (HeartBeat x) > 3 then disconnect ends x else kret x)"

text \<open>The thread of the pings: the entry is removed after its ping.\<close>

fun ping_loop :: "bool \<Rightarrow> s32 list \<Rightarrow> ADXmppProxy \<Rightarrow> ADXmppProxy kres" where
  "ping_loop ends [] x = kret x"
| "ping_loop ends (_ # ps) x = kbind (ping_once ends x) (\<lambda>x. ping_loop ends ps (x\<lparr>PingPipe := ps\<rparr>))"

definition ping_thread :: "bool \<Rightarrow> ADXmppProxy \<Rightarrow> ADXmppProxy kres" where
  "ping_thread ends x = ping_loop ends (PingPipe x) x"

datatype event = PingPing | PingPong | PingError | OtherEvent

definition handleEvent :: "event \<Rightarrow> ADXmppProxy \<Rightarrow> ADXmppProxy" where
  "handleEvent e x = (if e = PingPong then x\<lparr>HeartBeat := HeartBeat x - 1\<rparr> else x)"

section \<open>Buddies\<close>

definition accept_buddy :: "string \<Rightarrow> ADXmppProxy \<Rightarrow> int \<times> ADXmppProxy" where
  "accept_buddy buddy x = (0, if buddy \<in> set (AcceptBuddyList x) then x else x\<lparr>AcceptBuddyList := AcceptBuddyList x @ [buddy]\<rparr>)"

definition remove_buddy :: "string \<Rightarrow> ADXmppProxy \<Rightarrow> int \<times> ADXmppProxy" where
  "remove_buddy buddy x =
     (if buddy \<in> set (AcceptBuddyList x) then (0, x\<lparr>AcceptBuddyList := remove1 buddy (AcceptBuddyList x)\<rparr>) else (-1, x))"

definition handleSubscriptionRequest :: "string \<Rightarrow> ADXmppProxy \<Rightarrow> bool" where
  "handleSubscriptionRequest bare x \<longleftrightarrow> (if bare = AdminBuddy x \<or> bare = BkupAdminBuddy x then True else bare \<in> set (AcceptBuddyList x))"

definition handleUnsubscriptionRequest :: "string \<Rightarrow> ADXmppProxy \<Rightarrow> bool \<times> ADXmppProxy" where
  "handleUnsubscriptionRequest bare x = (True, snd (remove_buddy bare x))"

definition subscribe_buddy :: "string \<Rightarrow> ADXmppProxy \<Rightarrow> (int \<times> ADXmppProxy) kres" where
  "subscribe_buddy buddy x = (case xp_client x of None \<Rightarrow> kfail BadDeref | Some n \<Rightarrow> kret (0, emit (Subscribe n buddy) x))"

definition unsubscribe_buddy :: "string \<Rightarrow> ADXmppProxy \<Rightarrow> (int \<times> ADXmppProxy) kres" where
  "unsubscribe_buddy buddy x = (case xp_client x of None \<Rightarrow> kfail BadDeref | Some n \<Rightarrow> kret (0, emit (Unsubscribe n buddy) x))"

text \<open>The library has no item for an address that is not on the roster.\<close>

definition get_buddy_online_state :: "roster \<Rightarrow> string \<Rightarrow> ADXmppProxy \<Rightarrow> bool kres" where
  "get_buddy_online_state ro buddy x = kbind (get_roster ro x) (\<lambda>ro.
     case map_of ro buddy of None \<Rightarrow> kfail BadDeref | Some online \<Rightarrow> kret online)"

definition lines_of :: "string list \<Rightarrow> string" where
  "lines_of ls = concat (map (\<lambda>l. l @ [CHR 0x0A]) ls)"

definition get_buddy_list :: "roster \<Rightarrow> ADXmppProxy \<Rightarrow> string kres" where
  "get_buddy_list ro x = kbind (get_roster ro x) (\<lambda>ro. kret (lines_of (map fst ro)))"

definition get_accept_buddy_list :: "ADXmppProxy \<Rightarrow> string" where
  "get_accept_buddy_list x = lines_of (AcceptBuddyList x)"

definition IsMyBuddy :: "roster \<Rightarrow> string \<Rightarrow> ADXmppProxy \<Rightarrow> bool kres" where
  "IsMyBuddy ro who x = (if \<not> iConnect x then kret False else kbind (get_roster ro x) (\<lambda>ro. kret (on_roster who ro)))"

text \<open>Without a session with the buddy a session is made for the message and disposed of.\<close>

definition SendMessageToBuddy :: "roster \<Rightarrow> string \<Rightarrow> string \<Rightarrow> string \<Rightarrow> ADXmppProxy \<Rightarrow> (bool \<times> ADXmppProxy) kres" where
  "SendMessageToBuddy ro address body subject x =
     (if \<not> iConnect x then kret (False, x)
      else case xp_client x of None \<Rightarrow> kfail BadDeref
        | Some n \<Rightarrow>
            if \<not> on_roster address ro then kret (False, x)
            else (case map_of (mySessions x) address of
                Some k \<Rightarrow> kbind (use_session n k (Chat k address body subject) x) (\<lambda>x. kret (True, x))
              | None \<Rightarrow> kret (True, emit (Dispose n address) (emit (Chat n address body subject) x))))"

datatype PresenceType = Available | ChatP | Away | DND | XA | Unavailable | Probe | ErrorP | Invalid | OtherP

fun convert_presence_enum_to_str :: "PresenceType \<Rightarrow> string" where
  "convert_presence_enum_to_str Available = ''Available''"
| "convert_presence_enum_to_str ChatP = ''Chat''"
| "convert_presence_enum_to_str Away = ''Away''"
| "convert_presence_enum_to_str DND = ''DND''"
| "convert_presence_enum_to_str XA = ''XA''"
| "convert_presence_enum_to_str Unavailable = ''Unavailable''"
| "convert_presence_enum_to_str Probe = ''Probe''"
| "convert_presence_enum_to_str ErrorP = ''Error''"
| "convert_presence_enum_to_str Invalid = ''Invalid''"
| "convert_presence_enum_to_str OtherP = ''Unknown''"

end
