(* ===== verification/Xmpp_Proxy_Proofs.thy ===== *)
theory Xmpp_Proxy_Proofs
  imports Xmpp_Proxy Rpc_Mgr_Proofs
begin

text \<open>
  The connection of the XMPP service as a state machine: the calls of the library, of the timer, of the thread of the pings and
  of the commands in any order, and what holds in every state they lead to.
\<close>

section \<open>Steps\<close>

text \<open>
  What is relied on of the chat library: it calls the listener only while there is a client object, it reports the end of a
  connection before its loop ends, and it reports a pong only for a ping that was not answered yet. The roster may
  be a different one at each step. A call that faults has no next state.
\<close>

inductive xmpp_step :: "ADXmppProxy \<Rightarrow> ADXmppProxy \<Rightarrow> bool" where
  opened: "xmpp_step x (proxy_connect a b x)"
| up: "xp_client x \<noteq> None \<Longrightarrow> xmpp_step x (onConnect x)"
| down: "xp_client x \<noteq> None \<Longrightarrow> xmpp_step x (onDisconnect e x)"
| closed: "xp_client x \<noteq> None \<Longrightarrow> \<not> iConnect x \<Longrightarrow> xmpp_step x (proxy_connect_end x)"
| demand: "xmpp_step x (x\<lparr>OnDemandDisconnect := b\<rparr>)"
| forced: "xmpp_step x (x\<lparr>DisconnectNow := True\<rparr>)"
| leave: "disconnect True x = kret x' \<Longrightarrow> xmpp_step x x'"
| session: "xmpp_step x (handleMessageSession a x)"
| replied: "send_reply t a x = kret (r, x') \<Longrightarrow> xmpp_step x x'"
| tick: "xmpp_step x (send_client_alive_ping x)"
| pings: "ping_thread True x = kret x' \<Longrightarrow> xmpp_step x x'"
| pong: "0 < sint (HeartBeat x) \<Longrightarrow> xmpp_step x (handleEvent e x)"
| accepted: "xmpp_step x (snd (accept_buddy a x))"
| removed: "xmpp_step x (snd (remove_buddy a x))"
| subscribe: "subscribe_buddy a x = kret (r, x') \<Longrightarrow> xmpp_step x x'"
| unsubscribe: "unsubscribe_buddy a x = kret (r, x') \<Longrightarrow> xmpp_step x x'"
| message: "SendMessageToBuddy ro a t s x = kret (r, x') \<Longrightarrow> xmpp_step x x'"

inductive_cases xmpp_stepE: "xmpp_step x x'"

abbreviation xmpp_reachable :: "ADXmppProxy \<Rightarrow> bool" where
  "xmpp_reachable \<equiv> xmpp_step\<^sup>*\<^sup>* proxy_new"

section \<open>The invariant\<close>

text \<open>
  The session that is kept with a buddy belongs to a client that was deleted meanwhile; there is none of this kind when
  the sessions are all of the client that is there.
\<close>

definition stale_session :: "string \<Rightarrow> ADXmppProxy \<Rightarrow> bool" where
  "stale_session a x \<longleftrightarrow> xp_client x \<noteq> None \<and> map_of (mySessions x) a \<noteq> None \<and> map_of (mySessions x) a \<noteq> xp_client x"

definition sessions_current :: "ADXmppProxy \<Rightarrow> bool" where
  "sessions_current x \<longleftrightarrow> (\<forall>a. \<not> stale_session a x)"

lemma sessions_currentI:
  "\<lbrakk>sessions_current x; xp_client y = xp_client x \<or> xp_client y = None; mySessions y = mySessions x\<rbrakk> \<Longrightarrow> sessions_current y"
  by (auto simp: sessions_current_def stale_session_def)

definition client_ok :: "ADXmppProxy \<Rightarrow> bool" where
  "client_ok x \<longleftrightarrow> xp_connected x = (xp_client x \<noteq> None) \<and> (iConnect x \<longrightarrow> xp_client x \<noteq> None) \<and>
     (\<forall>n. xp_client x = Some n \<longrightarrow> Suc n = xp_made x) \<and> length (PingPipe x) \<le> 1"

definition heart_ok :: "ADXmppProxy \<Rightarrow> bool" where
  "heart_ok x \<longleftrightarrow> 0 \<le> sint (HeartBeat x) \<and> sint (HeartBeat x) \<le> (if xp_client x = None then 4 else 3)"

definition below :: "nat \<Rightarrow> nat str_map \<Rightarrow> bool" where
  "below k m \<longleftrightarrow> (\<forall>n \<in> snd ` set m. n < k)"

definition lists_ok :: "ADXmppProxy \<Rightarrow> bool" where
  "lists_ok x \<longleftrightarrow> map_ok (mySessions x) \<and> below (xp_made x) (mySessions x) \<and> distinct (AcceptBuddyList x)"

definition proxy_ok :: "ADXmppProxy \<Rightarrow> bool" where
  "proxy_ok x \<longleftrightarrow> client_ok x \<and> heart_ok x \<and> lists_ok x"

lemmas proxy_ok_defs = proxy_ok_def client_ok_def heart_ok_def lists_ok_def

lemma proxy_ok_new: "proxy_ok proxy_new"
  by (simp add: proxy_ok_defs proxy_new_def map_ok_def below_def)

lemma emit_fields [simp]:
  "xp_client (emit st x) = xp_client x" "xp_made (emit st x) = xp_made x" "iConnect (emit st x) = iConnect x"
  "xp_connected (emit st x) = xp_connected x" "HeartBeat (emit st x) = HeartBeat x" "mySessions (emit st x) = mySessions x"
  "AcceptBuddyList (emit st x) = AcceptBuddyList x" "PingPipe (emit st x) = PingPipe x"
  "AdminBuddy (emit st x) = AdminBuddy x" "BkupAdminBuddy (emit st x) = BkupAdminBuddy x" "xp_sent (emit st x) = xp_sent x @ [st]"
  by (simp_all add: emit_def)

text \<open>Sending uses no session but the one with the addressee, and keeps the client and the sessions.\<close>

definition same_link :: "ADXmppProxy \<Rightarrow> ADXmppProxy \<Rightarrow> bool" where
  "same_link x y \<longleftrightarrow> xp_client y = xp_client x \<and> mySessions y = mySessions x \<and> client_ok y = client_ok x"

lemma same_link_emit: "same_link x x" "same_link x (emit st x)" "same_link x (emit st (emit st' x))"
  by (simp_all add: same_link_def client_ok_def)

lemma same_link_current: "same_link x y \<Longrightarrow> sessions_current y = sessions_current x"
  by (simp add: same_link_def sessions_current_def stale_session_def)

lemma send_reply_returns: "\<not> stale_session a x \<Longrightarrow> returns (send_reply t a x) (\<lambda>(_, y). same_link x y)"
  by (auto simp: send_reply_def use_session_def stale_session_def same_link_emit split: option.splits)

lemma send_reply_stale: "stale_session a x \<Longrightarrow> send_reply t a x = kfail BadDeref"
  by (auto simp: send_reply_def use_session_def stale_session_def)

lemma send_message_returns:
  "\<lbrakk>iConnect x \<longrightarrow> xp_client x \<noteq> None; \<not> stale_session a x\<rbrakk> \<Longrightarrow>
     returns (SendMessageToBuddy ro a t s x) (\<lambda>(_, y). same_link x y)"
  by (auto simp: SendMessageToBuddy_def use_session_def stale_session_def same_link_emit split: option.splits)

lemma proxy_ok_emit [simp]: "proxy_ok (emit st x) = proxy_ok x"
  by (simp add: proxy_ok_defs)

lemma below_nil: "below k []"
  by (simp add: below_def)

lemma below_put: "below k m \<Longrightarrow> v < k \<Longrightarrow> below k (map_put a v m)"
  by (induction a v m rule: map_put.induct) (auto simp: below_def)

lemma below_erase: "below k m \<Longrightarrow> below k (map_erase a m)"
  by (auto simp: below_def map_erase_def)

lemma below_Suc: "below k m \<Longrightarrow> below (Suc k) m"
  by (auto simp: below_def less_Suc_eq)

lemma proxy_ok_disconnect: "proxy_ok x \<Longrightarrow> disconnect True x = kret x' \<Longrightarrow> proxy_ok x' \<and> xp_client x' = None \<and> \<not> xp_connected x'"
  by (auto simp: disconnect_def proxy_ok_defs onDisconnect_def proxy_connect_end_def Let_def split: option.splits if_splits)

lemma session_ok: "proxy_ok x \<Longrightarrow> proxy_ok (handleMessageSession a x)"
proof -
  assume ok: "proxy_ok x"
  have put: "proxy_ok (y\<lparr>mySessions := map_put a n (mySessions y)\<rparr>)" if "proxy_ok y" "xp_client y = Some n" for y n
    using that by (auto simp: proxy_ok_defs map_ok_put below_put)
  have "proxy_ok ((emit st x)\<lparr>mySessions := map_erase a (mySessions x)\<rparr>)" for st
    using ok by (auto simp: proxy_ok_defs map_ok_erase below_erase)
  then show ?thesis using ok put
    by (auto simp: handleMessageSession_def Let_def split: option.splits)
qed

lemma sint_inc: "0 \<le> sint (h :: s32) \<Longrightarrow> sint h \<le> 4 \<Longrightarrow> sint (h + 1) = sint h + 1"
  by (simp add: sint_word_ariths(1) signed_take_bit_int_eq_self)

lemma sint_dec: "0 < sint (h :: s32) \<Longrightarrow> sint (h - 1) = sint h - 1"
proof -
  assume "0 < sint h"
  moreover have "sint h < 2 ^ 31" using sint_range_size [of h] by (simp add: word_size)
  ultimately show ?thesis by (simp add: sint_word_ariths(2) signed_take_bit_int_eq_self)
qed

lemma ping_once_ok:
  assumes ok: "proxy_ok x" and r: "ping_once True x = kret x'"
  shows "proxy_ok (x'\<lparr>PingPipe := []\<rparr>)"
proof (cases "xp_client x")
  case None
  then show ?thesis using ok r by (auto simp: ping_once_def proxy_ok_defs)
next
  case (Some n)
  let ?y = "(emit (Ping n) x)\<lparr>HeartBeat := HeartBeat x + 1\<rparr>"
  have h: "sint (HeartBeat ?y) = sint (HeartBeat x) + 1" "0 \<le> sint (HeartBeat x)" "sint (HeartBeat x) \<le> 3"
    using ok Some sint_inc [of "HeartBeat x"] by (auto simp: proxy_ok_defs)
  show ?thesis
  proof (cases "3 < sint (HeartBeat ?y)")
    case True
    then have "disconnect True ?y = kret x'" using r Some by (simp add: ping_once_def Let_def)
    then show ?thesis using ok Some h
      by (auto simp: disconnect_def proxy_ok_defs onDisconnect_def proxy_connect_end_def Let_def split: if_splits)
  next
    case False
    then have "x' = ?y" using r Some by (auto simp: ping_once_def Let_def)
    then show ?thesis using ok False h by (auto simp: proxy_ok_defs)
  qed
qed

lemma ping_thread_ok: "proxy_ok x \<Longrightarrow> ping_thread True x = kret x' \<Longrightarrow> proxy_ok x'"
proof -
  assume ok: "proxy_ok x" and r: "ping_thread True x = kret x'"
  have "length (PingPipe x) \<le> 1" using ok by (simp add: proxy_ok_defs)
  then consider "PingPipe x = []" | p where "PingPipe x = [p]" by (cases "PingPipe x") auto
  then show ?thesis
  proof cases
    case 1
    then show ?thesis using ok r by (auto simp: ping_thread_def)
  next
    case 2
    then obtain y where "ping_once True x = kret y" "x' = y\<lparr>PingPipe := []\<rparr>" using r by (auto simp: ping_thread_def kbind_eq_kret)
    then show ?thesis using ping_once_ok [OF ok] by simp
  qed
qed

lemma xmpp_step_ok: "xmpp_step x x' \<Longrightarrow> proxy_ok x \<Longrightarrow> proxy_ok x'"
proof (induction rule: xmpp_step.induct)
  case (leave x x')
  then show ?case using proxy_ok_disconnect by blast
next
  case (session x a)
  then show ?case by (rule session_ok)
next
  case (pings x x')
  then show ?case using ping_thread_ok by blast
next
  case (pong x e)
  then show ?case using sint_dec [of "HeartBeat x"] by (auto simp: proxy_ok_defs handleEvent_def)
next
  case (message ro a t s x r x')
  then show ?case by (auto simp: SendMessageToBuddy_def use_session_def split: if_splits option.splits)
next
  case (replied t a x r x')
  then show ?case by (auto simp: send_reply_def use_session_def split: if_splits option.splits)
next
  case (opened x a b)
  then show ?case by (auto simp: proxy_ok_defs proxy_connect_def below_Suc)
next
  case (removed x a)
  then show ?case by (auto simp: proxy_ok_defs remove_buddy_def)
qed (auto simp: proxy_ok_defs onConnect_def onDisconnect_def proxy_connect_end_def send_client_alive_ping_def
    accept_buddy_def subscribe_buddy_def unsubscribe_buddy_def split: option.splits)

lemma xmpp_reachable_ok: "xmpp_reachable x \<Longrightarrow> proxy_ok x"
  by (induction rule: rtranclp_induct) (simp_all add: proxy_ok_new xmpp_step_ok)

section \<open>Properties\<close>

lemma first_connection_current: "proxy_ok x \<Longrightarrow> xp_made x \<le> 1 \<longrightarrow> \<not> stale_session a x"
  by (force simp: proxy_ok_defs stale_session_def below_def dest: map_of_SomeD)

lemma send_message_exact:
  assumes "iConnect x \<longrightarrow> xp_client x \<noteq> None"
  shows "if stale_session a x \<and> iConnect x \<and> on_roster a ro then SendMessageToBuddy ro a t s x = kfail BadDeref
    else returns (SendMessageToBuddy ro a t s x) (\<lambda>_. True)"
  using assms by (auto simp: SendMessageToBuddy_def use_session_def stale_session_def split: option.split)

text \<open>
  Property C7: in every state that the connection of the XMPP service gets to, the flag of the connection tells whether there is a client object, a
  connection that is up has one, at most one ping is waiting and at most four are unanswered, every session is of a client object that was made,
  and no buddy is accepted twice. Looking a buddy up therefore never uses a client object that is not there. Sending to a buddy or replying
  to one faults in exactly one case, when the session that is kept with him belongs to a client that was deleted: never before the
  connection is made for the second time, and after that a use of freed memory.
\<close>

theorem xmpp_connection_sound:
  "xmpp_reachable x \<Longrightarrow>
     xp_connected x = (xp_client x \<noteq> None) \<and> length (PingPipe x) \<le> 1 \<and> 0 \<le> sint (HeartBeat x) \<and> sint (HeartBeat x) \<le> 4 \<and>
     (\<forall>n \<in> snd ` set (mySessions x). n < xp_made x) \<and> distinct (AcceptBuddyList x) \<and>
     returns (IsMyBuddy ro a x) (\<lambda>_. True) \<and>
     (if stale_session a x \<and> iConnect x \<and> on_roster a ro then SendMessageToBuddy ro a t s x = kfail BadDeref
      else returns (SendMessageToBuddy ro a t s x) (\<lambda>_. True)) \<and>
     (if stale_session a x then send_reply t a x = kfail BadDeref else returns (send_reply t a x) (\<lambda>_. True)) \<and>
     (xp_made x \<le> 1 \<longrightarrow> \<not> stale_session a x)"
proof -
  assume "xmpp_reachable x"
  then have ok: "proxy_ok x" by (rule xmpp_reachable_ok)
  have c: "iConnect x \<longrightarrow> xp_client x \<noteq> None" using ok by (simp add: proxy_ok_defs)
  have "xp_made x \<le> 1 \<longrightarrow> \<not> stale_session a x" using ok by (rule first_connection_current)
  moreover have "if stale_session a x \<and> iConnect x \<and> on_roster a ro then SendMessageToBuddy ro a t s x = kfail BadDeref
      else returns (SendMessageToBuddy ro a t s x) (\<lambda>_. True)" using c by (rule send_message_exact)
  moreover have "if stale_session a x then send_reply t a x = kfail BadDeref else returns (send_reply t a x) (\<lambda>_. True)"
    using send_reply_stale send_reply_returns [THEN returns_mono] by auto
  moreover have "returns (IsMyBuddy ro a x) (\<lambda>_. True)" using c by (auto simp: IsMyBuddy_def get_roster_def)
  moreover have "0 \<le> sint (HeartBeat x) \<and> sint (HeartBeat x) \<le> 4" using ok by (simp add: proxy_ok_defs split: if_splits)
  ultimately show ?thesis using ok by (simp add: proxy_ok_def client_ok_def lists_ok_def below_def)
qed

theorem xmpp_connection_sound_witness:
  "xp_connected (onConnect (proxy_connect ''a@x'' [] proxy_new)) \<and>
   returns (SendMessageToBuddy [(''b@x'', True)] ''b@x'' ''hi'' [] (onConnect (proxy_connect ''a@x'' [] proxy_new))) (\<lambda>_. True)"
proof -
  let ?x = "proxy_connect ''a@x'' [] proxy_new"
  have "xmpp_step proxy_new ?x" by (rule xmpp_step.opened)
  moreover have "xmpp_step ?x (onConnect ?x)" by (rule xmpp_step.up) (simp add: proxy_connect_def proxy_new_def)
  ultimately have r: "xmpp_reachable (onConnect ?x)" by (meson rtranclp.rtrancl_into_rtrancl rtranclp.rtrancl_refl)
  show ?thesis using xmpp_connection_sound [OF r, of "[(''b@x'', True)]" "''b@x''" "''hi''" "[]"]
    by (simp add: onConnect_def proxy_connect_def proxy_new_def stale_session_def)
qed

text \<open>A round of the timer and of the thread of the pings.\<close>

definition ping_round :: "ADXmppProxy \<Rightarrow> ADXmppProxy kres" where
  "ping_round x = ping_thread True (send_client_alive_ping x)"

fun ping_rounds :: "nat \<Rightarrow> ADXmppProxy \<Rightarrow> ADXmppProxy kres" where
  "ping_rounds 0 x = kret x"
| "ping_rounds (Suc n) x = kbind (ping_round x) (ping_rounds n)"

lemma ping_round_alive:
  "xp_client x = Some n \<Longrightarrow> PingPipe x = [] \<Longrightarrow> HeartBeat x = of_nat k \<Longrightarrow> k < 3 \<Longrightarrow>
     \<exists>x'. ping_round x = kret x' \<and> xp_client x' = Some n \<and> PingPipe x' = [] \<and> HeartBeat x' = of_nat (Suc k) \<and> xp_connected x' = xp_connected x"
  by (simp add: ping_round_def send_client_alive_ping_def ping_thread_def ping_once_def Let_def)
    (auto simp: less_Suc_eq numeral_3_eq_3)

lemma ping_round_dead:
  "xp_client x = Some n \<Longrightarrow> PingPipe x = [] \<Longrightarrow> HeartBeat x = 3 \<Longrightarrow> xp_connected x \<Longrightarrow>
     \<exists>x'. ping_round x = kret x' \<and> xp_client x' = None \<and> \<not> xp_connected x' \<and> \<not> iConnect x'"
  by (simp add: ping_round_def send_client_alive_ping_def ping_thread_def ping_once_def Let_def disconnect_def onDisconnect_def
      proxy_connect_end_def)

text \<open>
  Fact: a connection whose server does not answer is closed by the fourth ping and not before: after three pings without a
  pong the client is still there, and after four it is gone, so that the thread of the connection can make a new one.
\<close>

theorem unanswered_pings_close:
  assumes "xp_client x = Some n" "xp_connected x" "PingPipe x = []" "HeartBeat x = 0"
  shows "(\<exists>y. ping_rounds 3 x = kret y \<and> xp_client y = Some n) \<and>
    (\<exists>y. ping_rounds 4 x = kret y \<and> xp_client y = None \<and> \<not> xp_connected y \<and> \<not> iConnect y)"
proof -
  obtain a where a: "ping_round x = kret a" "xp_client a = Some n" "PingPipe a = []" "HeartBeat a = 1" "xp_connected a"
    using ping_round_alive [of x n 0] assms by auto
  obtain b where b: "ping_round a = kret b" "xp_client b = Some n" "PingPipe b = []" "HeartBeat b = 2" "xp_connected b"
    using ping_round_alive [of a n 1] a by auto
  obtain c where c: "ping_round b = kret c" "xp_client c = Some n" "PingPipe c = []" "HeartBeat c = 3" "xp_connected c"
    using ping_round_alive [of b n 2] b by auto
  obtain d where d: "ping_round c = kret d" "xp_client d = None" "\<not> xp_connected d" "\<not> iConnect d"
    using ping_round_dead [of c n] c by auto
  show ?thesis using a(1) b(1) c(1,2) d by (simp add: eval_nat_numeral)
qed

theorem unanswered_pings_close_witness:
  "\<exists>y. ping_rounds 4 (proxy_connect [] [] proxy_new) = kret y \<and> xp_client y = None"
  using unanswered_pings_close [of "proxy_connect [] [] proxy_new" 0] by (auto simp: proxy_connect_def proxy_new_def)

text \<open>
  Fact: the sessions outlive the connection they were made on. After the connection was lost and made again, a reply to a buddy with whom
  there was a session uses the session of the old client object, which was deleted.
\<close>

theorem stale_session_used:
  assumes "xp_client x = Some n" "xp_connected x" "n < xp_made x"
    "disconnect True (handleMessageSession a x) = kret y"
  shows "xp_client (proxy_connect b c y) \<noteq> None \<and> send_reply t a (proxy_connect b c y) = kfail BadDeref"
proof -
  let ?s = "handleMessageSession a x"
  have "map_of (map_put a n m) a = Some n" for m :: "nat str_map"
    by (induction a n m rule: map_put.induct) auto
  then have s: "xp_client ?s = Some n" "xp_connected ?s" "xp_made ?s = xp_made x" "map_of (mySessions ?s) a = Some n"
    using assms(1,2) by (auto simp: handleMessageSession_def Let_def split: option.splits)
  then have "y = proxy_connect_end (onDisconnect False ?s)" using assms(4)
    by (simp add: disconnect_def Let_def onDisconnect_def split: if_splits)
  then have y: "xp_client y = None" "xp_made y = xp_made x" "map_of (mySessions y) a = Some n"
    using s by (simp_all add: proxy_connect_end_def onDisconnect_def)
  then show ?thesis using assms(3) by (simp add: proxy_connect_def send_reply_def use_session_def)
qed

theorem stale_session_used_witness:
  "\<exists>y. disconnect True (handleMessageSession ''b@x'' (proxy_connect [] [] proxy_new)) = kret y \<and>
     send_reply ''hi'' ''b@x'' (proxy_connect [] [] y) = kfail BadDeref"
proof -
  let ?x = "proxy_connect [] [] proxy_new"
  obtain y where y: "disconnect True (handleMessageSession ''b@x'' ?x) = kret y"
    by (simp add: disconnect_def handleMessageSession_def proxy_connect_def proxy_new_def Let_def onDisconnect_def)
  show ?thesis using y stale_session_used [of ?x 0 "''b@x''" y "[]" "[]" "''hi''"] by (simp add: proxy_connect_def proxy_new_def)
qed

end
