(* ===== verification/Sonoff_Client.thy ===== *)
theory Sonoff_Client
  imports Json_Client Cpp_Strings
begin

text \<open>
  The client of a network relay, \<open>ADSonOffHttpClient.cpp\<close> of \<open>src/sources/lib/lib-adav-old/src/\<close>. It has the socket and the
  buffers of the client of the services, so its object is the record \<open>rpc_client\<close>; the number of the request is not used.
\<close>

datatype SONOFF_STATE = SONOFF_STATE_OFF | SONOFF_STATE_ON | SONOFF_STATE_UNKNOWN | SONOFF_STATE_NONE

definition sonoff_connect :: "'w socket \<Rightarrow> string \<Rightarrow> s32 \<Rightarrow> rpc_client \<Rightarrow> 'w \<Rightarrow> RPC_SRV_RESULT \<times> rpc_client \<times> 'w" where
  "sonoff_connect sk ip_addr port_num c w =
     (if clt_connected c then (RPC_SRV_RESULT_SUCCESS, c, w)
      else case sock_connect sk ip_addr port_num c w of (r, c, w) \<Rightarrow>
        if r = 0 then (RPC_SRV_RESULT_SUCCESS, c\<lparr>clt_connected := True\<rparr>, w) else (RPC_SRV_RESULT_FAIL, c, w))"

definition sonoff_disconnect :: "'w socket \<Rightarrow> rpc_client \<Rightarrow> 'w \<Rightarrow> RPC_SRV_RESULT \<times> rpc_client \<times> 'w" where
  "sonoff_disconnect sk c w =
     (case (if clt_connected c then sock_disconnect sk c w else (0, c, w)) of (_, c, w) \<Rightarrow>
        (RPC_SRV_RESULT_SUCCESS, c\<lparr>clt_connected := False\<rparr>, w))"

definition crlf :: string where
  "crlf = [CHR 0x0D, CHR 0x0A]"

definition http_get :: "string \<Rightarrow> rpc_client \<Rightarrow> string" where
  "http_get what c = ''GET /cm?cmnd=Power%20'' @ what @ '' HTTP/1.1'' @ crlf @ '' Host:'' @ net_ip c @ crlf @ crlf"

definition http_send :: "'w socket \<Rightarrow> string \<Rightarrow> rpc_client \<Rightarrow> 'w \<Rightarrow> (rpc_client \<times> 'w) kres" where
  "http_send sk what c w = kbind (sprintf_s MAX_SEND_BUFFER_SIZE (http_get what c)) (\<lambda>s.
     kret (c\<lparr>send_buffer := s\<rparr>, send_data sk s w))"

definition set_sonoff_toggle :: "'w socket \<Rightarrow> rpc_client \<Rightarrow> 'w \<Rightarrow> (RPC_SRV_RESULT \<times> rpc_client \<times> 'w) kres" where
  "set_sonoff_toggle sk c w =
     (if \<not> clt_connected c then kret (RPC_SRV_RESULT_HOST_NOT_REACHABLE_ERR, c, w)
      else kbind (http_send sk ''TOGGLE'' c w) (\<lambda>(c, w).
        kbind (receive_data_blocking sk 4000 c w) (\<lambda>(_, c, w). kret (RPC_SRV_RESULT_SUCCESS, c, w))))"

text \<open>A null is stored at position 100 of the receive buffer.\<close>

definition cut_buffer :: "rpc_client \<Rightarrow> rpc_client" where
  "cut_buffer c = c\<lparr>recv_buffer := take 100 (recv_buffer c)\<rparr>"

definition sixth_word :: "string \<Rightarrow> string" where
  "sixth_word s = (let ls = words s in if 5 < length ls then ls ! 5 else [])"

definition get_sonoff_state :: "'w socket \<Rightarrow> rpc_client \<Rightarrow> 'w \<Rightarrow> (RPC_SRV_RESULT \<times> SONOFF_STATE \<times> rpc_client \<times> 'w) kres" where
  "get_sonoff_state sk c w =
     (if \<not> clt_connected c then kret (RPC_SRV_RESULT_HOST_NOT_REACHABLE_ERR, SONOFF_STATE_UNKNOWN, c, w)
      else kbind (http_send sk [] c w) (\<lambda>(c, w).
        kbind (receive_data_blocking sk 4000 c w) (\<lambda>(_, c, w).
        kbind (receive_data_blocking sk 4000 (cut_buffer c) w) (\<lambda>(_, c, w).
        let c = cut_buffer c; a = sixth_word (recv_buffer c) in
        kret (RPC_SRV_RESULT_SUCCESS,
          if a = ''ON'' then SONOFF_STATE_ON else if a = ''OFF'' then SONOFF_STATE_OFF else SONOFF_STATE_UNKNOWN, c, w)))))"

definition set_sonoff_state :: "'w socket \<Rightarrow> SONOFF_STATE \<Rightarrow> rpc_client \<Rightarrow> 'w \<Rightarrow> (RPC_SRV_RESULT \<times> rpc_client \<times> 'w) kres" where
  "set_sonoff_state sk state c w =
     (if \<not> clt_connected c then kret (RPC_SRV_RESULT_HOST_NOT_REACHABLE_ERR, c, w)
      else if state \<noteq> SONOFF_STATE_OFF \<and> state \<noteq> SONOFF_STATE_ON then kret (RPC_SRV_RESULT_ARG_ERROR, c, w)
      else kbind (http_send sk (if state = SONOFF_STATE_OFF then ''off'' else ''On'') c w) (\<lambda>(c, w).
        kbind (receive_data_blocking sk 4000 c w) (\<lambda>(_, c, w). kret (RPC_SRV_RESULT_SUCCESS, c, w))))"

end
