(* ===== verification/Xmpp_State.thy ===== *)
theory Xmpp_State
  imports Xmpp_Proxy Sonoff_Client
begin

text \<open>
  The data of the command interpreter of the XMPP service, \<open>XmppMgr.h\<close> and \<open>XmppMgr.cpp\<close> of
  \<open>src/sources/services/xmproxy/srv/src/\<close>: the table of the commands, the list of the tasks that wait for an event of another
  service, the aliases and the event subscriptions with the files they are kept in, and the account. The files of
  the device are part of the state.
\<close>

section \<open>Commands\<close>

datatype EXMPP_CMD_TYPES =
  EXMPP_CMD_SMS_DELETE_ALL | EXMPP_CMD_SMS_DELETE | EXMPP_CMD_SMS_GET | EXMPP_CMD_SMS_SEND |
  EXMPP_CMD_SMS_LIST_UPDATE | EXMPP_CMD_SMS_GET_TOTAL | EXMPP_CMD_FMW_GET_VERSION | EXMPP_CMD_FMW_UPDATE |
  EXMPP_CMD_FMW_UPDATE_STS | EXMPP_CMD_FMW_UPDATE_RES | EXMPP_CMD_FMW_REBOOT | EXMPP_CMD_FMW_UPTIME |
  EXMPP_CMD_FMW_HOSTNAME | EXMPP_CMD_FMW_GET_MYIP | EXMPP_CMD_FMW_RESET_HOSTNAME | EXMPP_CMD_DIAL_VOICE |
  EXMPP_CMD_DIAL_USSD | EXMPP_CMD_GET_USSD | EXMPP_CMD_DEBUG_LOG_STS | EXMPP_CMD_GSM_MODEM_IDENT |
  EXMPP_CMD_LOG_UPDATE | EXMPP_CMD_LOG_COUNT | EXMPP_CMD_LOG_MSG | EXMPP_CMD_FMW_GET_LOCALIP |
  EXMPP_CMD_FMW_POWEROFF | EXMPP_CMD_GPIO | EXMPP_CMD_GSM_EVENT_NOTIFY | EXMPP_CMD_GPIO_EVENT_NOTIFY |
  EXMPP_CMD_ALIAS | EXMPP_CMD_SLEEP | EXMPP_CMD_ACCOUNT | EXMPP_CMD_BOTNAME |
  EXMPP_CMD_BUDDY_LIST | EXMPP_CMD_SHELLCMD | EXMPP_CMD_SHELLCMD_RESP | EXMPP_CMD_DEVIDENT |
  EXMPP_CMD_SHUTDOWN | EXMPP_CMD_SONOFF | EXMPP_CMD_DISPCLEAR | EXMPP_CMD_DISPPRINT |
  EXMPP_CMD_DISPBKLT | EXMPP_CMD_SHELLCMD_TRIG | EXMPP_CMD_BUDDY_ADD | EXMPP_CMD_BUDDY_REMOVE |
  EXMPP_CMD_BUDDY_SUBSCRIBE | EXMPP_CMD_BUDDY_UNSUBSCRIBE | EXMPP_CMD_ACCEPT_BUDDY_LIST | EXMPP_CMD_RELAY_MESSAGE |
  EXMPP_CMD_UNKNOWN | EXMPP_CMD_NONE

datatype EXMPP_USER_ACCESS_TYPES = EXMPP_USER_ACCESS_ADMIN | EXMPP_USER_ACCESS_READWRITE | EXMPP_USER_ACCESS_READONLY |
  EXMPP_USER_ACCESS_UNKNOWN | EXMPP_USER_ACCESS_NONE

record XMPROXY_CMD_TABLE =
  cmdsts :: bool
  cmd :: EXMPP_CMD_TYPES
  cmd_name :: string
  cmd_arg :: string
  cmdaccess :: EXMPP_USER_ACCESS_TYPES

definition cmd_row :: "bool \<Rightarrow> EXMPP_CMD_TYPES \<Rightarrow> string \<Rightarrow> string \<Rightarrow> EXMPP_USER_ACCESS_TYPES \<Rightarrow> XMPROXY_CMD_TABLE" where
  "cmd_row sts c n a acs = \<lparr>cmdsts = sts, cmd = c, cmd_name = n, cmd_arg = a, cmdaccess = acs\<rparr>"

definition xmproxy_cmd_table :: "XMPROXY_CMD_TABLE list" where
  "xmproxy_cmd_table = [
     cmd_row True EXMPP_CMD_GSM_MODEM_IDENT ''gsmcheck'' '''' EXMPP_USER_ACCESS_READWRITE,
     cmd_row True EXMPP_CMD_SMS_LIST_UPDATE ''smsupdate'' '''' EXMPP_USER_ACCESS_READWRITE,
     cmd_row True EXMPP_CMD_SMS_GET_TOTAL ''smstotal'' '''' EXMPP_USER_ACCESS_READWRITE,
     cmd_row True EXMPP_CMD_SMS_GET ''smsget'' ''<zero_index_msg>'' EXMPP_USER_ACCESS_READWRITE,
     cmd_row True EXMPP_CMD_SMS_DELETE_ALL ''smsdeleteall'' '''' EXMPP_USER_ACCESS_READWRITE,
     cmd_row True EXMPP_CMD_SMS_SEND ''smssend'' ''<phone-num> <msg>'' EXMPP_USER_ACCESS_READWRITE,
     cmd_row True EXMPP_CMD_DIAL_VOICE ''dialvoice'' ''<phone-num>'' EXMPP_USER_ACCESS_READWRITE,
     cmd_row True EXMPP_CMD_DIAL_USSD ''dialussd'' ''<ussd-code>'' EXMPP_USER_ACCESS_READWRITE,
     cmd_row True EXMPP_CMD_GET_USSD ''readussd'' '''' EXMPP_USER_ACCESS_READWRITE,
     cmd_row True EXMPP_CMD_FMW_GET_VERSION ''version'' '''' EXMPP_USER_ACCESS_READWRITE,
     cmd_row True EXMPP_CMD_FMW_UPDATE ''sysupdate'' '''' EXMPP_USER_ACCESS_READWRITE,
     cmd_row True EXMPP_CMD_FMW_REBOOT ''reboot'' '''' EXMPP_USER_ACCESS_READWRITE,
     cmd_row True EXMPP_CMD_FMW_POWEROFF ''poweroff'' '''' EXMPP_USER_ACCESS_READWRITE,
     cmd_row True EXMPP_CMD_FMW_UPTIME ''uptime'' '''' EXMPP_USER_ACCESS_READWRITE,
     cmd_row True EXMPP_CMD_FMW_HOSTNAME ''hostname'' ''[name]'' EXMPP_USER_ACCESS_READWRITE,
     cmd_row True EXMPP_CMD_FMW_RESET_HOSTNAME ''resethostname'' '''' EXMPP_USER_ACCESS_READWRITE,
     cmd_row True EXMPP_CMD_FMW_GET_MYIP ''publicip'' '''' EXMPP_USER_ACCESS_READWRITE,
     cmd_row True EXMPP_CMD_FMW_GET_LOCALIP ''localip'' '''' EXMPP_USER_ACCESS_READWRITE,
     cmd_row False EXMPP_CMD_DEBUG_LOG_STS ''logsts'' '''' EXMPP_USER_ACCESS_READWRITE,
     cmd_row False EXMPP_CMD_LOG_UPDATE ''logupdate'' '''' EXMPP_USER_ACCESS_READWRITE,
     cmd_row False EXMPP_CMD_LOG_COUNT ''logcount'' '''' EXMPP_USER_ACCESS_READWRITE,
     cmd_row False EXMPP_CMD_LOG_MSG ''logmsg'' ''<zero_index_lineNum>'' EXMPP_USER_ACCESS_READWRITE,
     cmd_row True EXMPP_CMD_GPIO ''gpio'' ''<gpio_num> [sts(0/1)]'' EXMPP_USER_ACCESS_READWRITE,
     cmd_row True EXMPP_CMD_GSM_EVENT_NOTIFY ''eventgsm'' ''<sts[0/1]>'' EXMPP_USER_ACCESS_READWRITE,
     cmd_row True EXMPP_CMD_GPIO_EVENT_NOTIFY ''eventgpio'' ''<gpio_num> [sts(0/1)]'' EXMPP_USER_ACCESS_READWRITE,
     cmd_row True EXMPP_CMD_ALIAS ''alias'' ''name=cmd'' EXMPP_USER_ACCESS_READWRITE,
     cmd_row True EXMPP_CMD_SLEEP ''sleep'' ''<seconds>'' EXMPP_USER_ACCESS_READWRITE,
     cmd_row True EXMPP_CMD_ACCOUNT ''account'' '''' EXMPP_USER_ACCESS_READWRITE,
     cmd_row True EXMPP_CMD_BOTNAME ''botname'' ''[name]'' EXMPP_USER_ACCESS_READWRITE,
     cmd_row True EXMPP_CMD_BUDDY_LIST ''buddylist'' '''' EXMPP_USER_ACCESS_READWRITE,
     cmd_row True EXMPP_CMD_SHELLCMD ''shellcmd'' ''<command>'' EXMPP_USER_ACCESS_READWRITE,
     cmd_row True EXMPP_CMD_SHELLCMD_RESP ''shellcmdresp'' '''' EXMPP_USER_ACCESS_READWRITE,
     cmd_row True EXMPP_CMD_SHELLCMD_TRIG ''shellcmdtrig'' ''<command>'' EXMPP_USER_ACCESS_READWRITE,
     cmd_row True EXMPP_CMD_DEVIDENT ''identify'' '''' EXMPP_USER_ACCESS_READWRITE,
     cmd_row True EXMPP_CMD_SHUTDOWN ''xmpshutdown'' '''' EXMPP_USER_ACCESS_ADMIN,
     cmd_row True EXMPP_CMD_SONOFF ''sonoff'' ''<ip/hostname> [sts(on/off/toggle)]'' EXMPP_USER_ACCESS_READWRITE,
     cmd_row True EXMPP_CMD_DISPCLEAR ''dispclear'' '''' EXMPP_USER_ACCESS_READWRITE,
     cmd_row True EXMPP_CMD_DISPPRINT ''display'' ''<line1/line2/line3..]> <message>'' EXMPP_USER_ACCESS_READWRITE,
     cmd_row True EXMPP_CMD_DISPBKLT ''dispbklt'' ''<sts[on/off]>'' EXMPP_USER_ACCESS_READWRITE,
     cmd_row True EXMPP_CMD_BUDDY_ADD ''acceptbuddy'' ''[buddyID]'' EXMPP_USER_ACCESS_ADMIN,
     cmd_row True EXMPP_CMD_BUDDY_REMOVE ''rejectbuddy'' ''[buddyID]'' EXMPP_USER_ACCESS_ADMIN,
     cmd_row True EXMPP_CMD_BUDDY_SUBSCRIBE ''subscribe'' ''[buddyID]'' EXMPP_USER_ACCESS_ADMIN,
     cmd_row True EXMPP_CMD_BUDDY_UNSUBSCRIBE ''unsubscribe'' ''[buddyID]'' EXMPP_USER_ACCESS_ADMIN,
     cmd_row True EXMPP_CMD_ACCEPT_BUDDY_LIST ''acceptbuddylist'' '''' EXMPP_USER_ACCESS_READWRITE,
     cmd_row True EXMPP_CMD_RELAY_MESSAGE ''relaymsg'' ''<buddyID> <message>'' EXMPP_USER_ACCESS_ADMIN]"

section \<open>State\<close>

record XmppCmdEntry =
  cmdMsg :: string
  sender :: string

record AyncEventEntry =
  taskID :: s32
  srvPort :: s32
  xmppTID :: s32
  reply_to :: string

datatype EXMPP_EVNT_TYPES = EXMPP_EVNT_GSM | EXMPP_EVNT_GPIO | EXMPP_EVNT_UNKNOWN | EXMPP_EVNT_NONE

record EventSubscrEntry =
  subscriber :: string
  m_EvntType :: EXMPP_EVNT_TYPES
  m_EvntArg :: s32
  m_Status :: bool

record XmppMgr =
  XmppTaskIDCounter :: s32
  heartbeat_ms :: s32
  event_period_ms :: s32
  CyclicTime_ms :: s32
  LastFmwUpdateTaskID :: s32
  bboxSmsServerAddr :: string
  processCmd :: "XmppCmdEntry list"
  cmd_sema :: nat
  AsyncTaskList :: "AyncEventEntry list"
  XmppUserName :: string
  XmppUserPw :: string
  XmppAdminBuddy :: string
  XmppBkupAdminBuddy :: string
  XmppBotName :: string
  XmppBotNameFilePath :: string
  XmppNetInterface :: string
  AiAgentUrl :: string
  XmppProxy :: ADXmppProxy
  AliasListFile :: string
  AliasList :: "string str_map"
  UpdateUrlFile :: string
  EventSubscrListFile :: string
  myEventList :: "EventSubscrEntry list"
  ResponseMsg :: string
  client_thread :: bool
  cmd_table :: "XMPROXY_CMD_TABLE list"
  fs :: "string \<rightharpoonup> string"

definition CLIENT_ALIVE_PING_DURATION_MS :: s32 where
  "CLIENT_ALIVE_PING_DURATION_MS = 90000"

definition BBOXSMS_SERVER_ADDR :: string where
  "BBOXSMS_SERVER_ADDR = ''127.0.0.1''"

definition xmpp_new :: "(string \<rightharpoonup> string) \<Rightarrow> XmppMgr" where
  "xmpp_new files = \<lparr>XmppTaskIDCounter = 0, heartbeat_ms = 100, event_period_ms = 0, CyclicTime_ms = CLIENT_ALIVE_PING_DURATION_MS,
     LastFmwUpdateTaskID = 0, bboxSmsServerAddr = BBOXSMS_SERVER_ADDR, processCmd = [], cmd_sema = 0, AsyncTaskList = [],
     XmppUserName = [], XmppUserPw = [], XmppAdminBuddy = [], XmppBkupAdminBuddy = [], XmppBotName = [], XmppBotNameFilePath = [],
     XmppNetInterface = [], AiAgentUrl = [], XmppProxy = proxy_new, AliasListFile = [], AliasList = [], UpdateUrlFile = [],
     EventSubscrListFile = [], myEventList = [], ResponseMsg = [], client_thread = False, cmd_table = xmproxy_cmd_table, fs = files\<rparr>"

text \<open>
  The surroundings of a command: the client of the services and its socket, the text that an array has before anything
  is stored in it, whether a file can be opened for writing, the first address of a host, the roster, and whether the thread of the connection
  ends when it is told to.
\<close>

record 'w xmpp_env =
  xe_clt :: client_env
  xe_sock :: "'w socket"
  xe_junk :: string
  can_write :: "string \<Rightarrow> bool"
  host_addr :: "string \<Rightarrow> string option"
  xe_roster :: roster
  xe_ends :: bool

section \<open>The table of the commands\<close>

definition set_group :: "EXMPP_CMD_TYPES list \<Rightarrow> bool \<Rightarrow> XmppMgr \<Rightarrow> XmppMgr" where
  "set_group cs sts m = m\<lparr>cmd_table := map (\<lambda>e. if cmd e \<in> set cs \<and> cmdsts e then e\<lparr>cmdsts := sts\<rparr> else e) (cmd_table m)\<rparr>"

definition SetUSBGsmSts :: "bool \<Rightarrow> XmppMgr \<Rightarrow> XmppMgr" where
  "SetUSBGsmSts = set_group [EXMPP_CMD_GSM_MODEM_IDENT, EXMPP_CMD_SMS_LIST_UPDATE, EXMPP_CMD_SMS_GET_TOTAL, EXMPP_CMD_SMS_GET,
     EXMPP_CMD_SMS_DELETE_ALL, EXMPP_CMD_SMS_SEND, EXMPP_CMD_DIAL_VOICE, EXMPP_CMD_DIAL_USSD, EXMPP_CMD_GET_USSD,
     EXMPP_CMD_GSM_EVENT_NOTIFY]"

definition SetOpenWrtCmdGroupSts :: "bool \<Rightarrow> XmppMgr \<Rightarrow> XmppMgr" where
  "SetOpenWrtCmdGroupSts = set_group [EXMPP_CMD_GPIO, EXMPP_CMD_GPIO_EVENT_NOTIFY, EXMPP_CMD_FMW_HOSTNAME,
     EXMPP_CMD_FMW_RESET_HOSTNAME, EXMPP_CMD_FMW_POWEROFF, EXMPP_CMD_SHUTDOWN]"

definition print_help :: "XmppMgr \<Rightarrow> string" where
  "print_help m = concat (map (\<lambda>e. if cmdsts e then cmd_name e @ '' '' @ cmd_arg e @ [CHR 0x0A] else []) (cmd_table m))"

fun find_cmd :: "string \<Rightarrow> XMPROXY_CMD_TABLE list \<Rightarrow> EXMPP_CMD_TYPES" where
  "find_cmd c [] = EXMPP_CMD_UNKNOWN"
| "find_cmd c (e # es) = (if cmdsts e \<and> c = cmd_name e then cmd e else find_cmd c es)"

definition ResolveCmdStr :: "string \<Rightarrow> XmppMgr \<Rightarrow> EXMPP_CMD_TYPES" where
  "ResolveCmdStr msg m = find_cmd (lower_case (first_word msg)) (cmd_table m)"

section \<open>Tasks that wait for an event\<close>

definition FindAsyncEventEntry :: "s32 \<Rightarrow> s32 \<Rightarrow> AyncEventEntry \<Rightarrow> bool" where
  "FindAsyncEventEntry tid port e \<longleftrightarrow> taskID e = tid \<and> srvPort e = port"

text \<open>The number of the task is \<open>None\<close> where the function leaves it as it was.\<close>

definition AccessAsyncTaskList ::
  "s32 \<Rightarrow> s32 \<Rightarrow> bool \<Rightarrow> string \<Rightarrow> XmppMgr \<Rightarrow> RPC_SRV_RESULT \<times> s32 option \<times> string \<times> XmppMgr" where
  "AccessAsyncTaskList tid port insertEntryFlag who m =
     (if insertEntryFlag then
        let n = XmppTaskIDCounter m + 1 in
        (RPC_SRV_RESULT_SUCCESS, Some n, who, m\<lparr>XmppTaskIDCounter := n,
           AsyncTaskList := AsyncTaskList m @ [\<lparr>taskID = tid, srvPort = port, xmppTID = n, reply_to = who\<rparr>]\<rparr>)
      else case find (FindAsyncEventEntry tid port) (AsyncTaskList m) of
        None \<Rightarrow> (RPC_SRV_RESULT_FAIL, None, who, m)
      | Some e \<Rightarrow> (RPC_SRV_RESULT_SUCCESS, Some (xmppTID e), reply_to e,
           m\<lparr>AsyncTaskList := filter (\<lambda>e. \<not> FindAsyncEventEntry tid port e) (AsyncTaskList m)\<rparr>))"

section \<open>Files\<close>

definition file_text :: "string \<Rightarrow> XmppMgr \<Rightarrow> string" where
  "file_text p m = (case fs m p of None \<Rightarrow> [] | Some t \<Rightarrow> t)"

definition append_text :: "'w xmpp_env \<Rightarrow> string \<Rightarrow> string \<Rightarrow> XmppMgr \<Rightarrow> XmppMgr" where
  "append_text env p t m = (if can_write env p then m\<lparr>fs := (fs m)(p \<mapsto> file_text p m @ t)\<rparr> else m)"

definition rewrite_file :: "'w xmpp_env \<Rightarrow> string \<Rightarrow> string \<Rightarrow> XmppMgr \<Rightarrow> XmppMgr" where
  "rewrite_file env p t m = (if can_write env p then m\<lparr>fs := (fs m)(p \<mapsto> t)\<rparr> else m)"

section \<open>Aliases\<close>

definition alias_line :: "string \<times> string \<Rightarrow> string" where
  "alias_line kv = fst kv @ ''='' @ snd kv @ [CHR 0x0A]"

definition LoadAliasList :: "string \<Rightarrow> XmppMgr \<Rightarrow> RPC_SRV_RESULT \<times> XmppMgr" where
  "LoadAliasList listFile m =
     (if listFile = [] then (RPC_SRV_RESULT_FAIL, m)
      else (RPC_SRV_RESULT_SUCCESS, m\<lparr>AliasList :=
        foldl (\<lambda>al l. case two_parts (CHR ''='') l of (k, v) \<Rightarrow> map_put k v al) (AliasList m) (file_lines (file_text listFile m))\<rparr>))"

definition ExtendAliasList :: "'w xmpp_env \<Rightarrow> string \<Rightarrow> string \<Rightarrow> string \<Rightarrow> XmppMgr \<Rightarrow> RPC_SRV_RESULT \<times> XmppMgr" where
  "ExtendAliasList env listFile k v m =
     (if listFile = [] then (RPC_SRV_RESULT_FAIL, m) else (RPC_SRV_RESULT_SUCCESS, append_text env listFile (alias_line (k, v)) m))"

definition RewriteAliasList :: "'w xmpp_env \<Rightarrow> string \<Rightarrow> XmppMgr \<Rightarrow> RPC_SRV_RESULT \<times> XmppMgr" where
  "RewriteAliasList env listFile m =
     (if listFile = [] then (RPC_SRV_RESULT_FAIL, m)
      else (RPC_SRV_RESULT_SUCCESS, rewrite_file env listFile (concat (map alias_line (AliasList m))) m))"

definition proc_cmd_alias :: "'w xmpp_env \<Rightarrow> string \<Rightarrow> XmppMgr \<Rightarrow> RPC_SRV_RESULT \<times> string \<times> XmppMgr" where
  "proc_cmd_alias env msg m =
     (if msg = ''Alias'' \<or> msg = ''alias'' then
        (RPC_SRV_RESULT_SUCCESS, CHR 0x0A # concat (map alias_line (AliasList m)), m)
      else case two_parts (CHR ''='') msg of (c, v) \<Rightarrow>
        let k = dropWhile is_space (rest_line (snd (read_word c))) in
        if v = [] then
          (RPC_SRV_RESULT_SUCCESS, [], snd (RewriteAliasList env (AliasListFile m) (m\<lparr>AliasList := map_erase k (AliasList m)\<rparr>)))
        else if map_of (AliasList m) k \<noteq> None then
          (RPC_SRV_RESULT_SUCCESS, [],
            snd (RewriteAliasList env (AliasListFile m) (m\<lparr>AliasList := map_put k v (map_erase k (AliasList m))\<rparr>)))
        else
          (RPC_SRV_RESULT_SUCCESS, [], snd (ExtendAliasList env (AliasListFile m) k v (m\<lparr>AliasList := map_put k v (AliasList m)\<rparr>))))"

definition xpand_word :: "string str_map \<Rightarrow> string \<Rightarrow> string" where
  "xpand_word al a = (if a \<noteq> [] \<and> hd a = CHR ''$'' then
     let a = lower_case (tl a) in (case map_of al a of None \<Rightarrow> a | Some v \<Rightarrow> v) else a)"

text \<open>\<open>xpandarg\<close> and \<open>xpandargs\<close>, with the new argument as their value.\<close>

definition xpandarg :: "string \<Rightarrow> XmppMgr \<Rightarrow> RPC_SRV_RESULT \<times> string" where
  "xpandarg cmdArg m = (if cmdArg = [] then (RPC_SRV_RESULT_FAIL, cmdArg) else (RPC_SRV_RESULT_SUCCESS, xpand_word (AliasList m) cmdArg))"

definition xpandargs :: "string \<Rightarrow> XmppMgr \<Rightarrow> RPC_SRV_RESULT \<times> string" where
  "xpandargs cmdArg m = (RPC_SRV_RESULT_SUCCESS, concat (map (\<lambda>t. xpand_word (AliasList m) t @ '' '') (words cmdArg)))"

section \<open>Event subscriptions\<close>

definition FindEventSubscrEntry :: "string \<Rightarrow> s32 \<Rightarrow> EXMPP_EVNT_TYPES \<Rightarrow> EventSubscrEntry \<Rightarrow> bool" where
  "FindEventSubscrEntry addr a ty e =
     (if m_EvntType e = EXMPP_EVNT_GSM then subscriber e = addr \<and> m_EvntType e = ty
      else if m_EvntType e = EXMPP_EVNT_GPIO then subscriber e = addr \<and> m_EvntArg e = a \<and> m_EvntType e = ty
      else False)"

fun evnt_name :: "EXMPP_EVNT_TYPES \<Rightarrow> string" where
  "evnt_name EXMPP_EVNT_GSM = ''gsm''"
| "evnt_name EXMPP_EVNT_GPIO = ''gpio''"
| "evnt_name EXMPP_EVNT_UNKNOWN = ''unknown''"
| "evnt_name EXMPP_EVNT_NONE = ''none''"

definition subscr_line :: "string \<Rightarrow> EXMPP_EVNT_TYPES \<Rightarrow> s32 \<Rightarrow> string" where
  "subscr_line addr ty a = addr @ '' '' @ evnt_name ty @ '' '' @ show_int (sint a) @ [CHR 0x0A]"

definition read_subscr :: "string \<Rightarrow> EventSubscrEntry list" where
  "read_subscr l =
     (let ty = second_word l; io = atoi (third_word l); e = \<lparr>subscriber = first_word l, m_EvntType = EXMPP_EVNT_GSM, m_EvntArg = io, m_Status = True\<rparr> in
      if ty = evnt_name EXMPP_EVNT_GSM then [e]
      else if ty = evnt_name EXMPP_EVNT_GPIO then [e\<lparr>m_EvntType := EXMPP_EVNT_GPIO\<rparr>]
      else [])"

definition LoadEventSubscrList :: "string \<Rightarrow> XmppMgr \<Rightarrow> RPC_SRV_RESULT \<times> XmppMgr" where
  "LoadEventSubscrList listFile m =
     (if listFile = [] then (RPC_SRV_RESULT_FAIL, m)
      else (RPC_SRV_RESULT_SUCCESS, m\<lparr>myEventList := myEventList m @ concat (map read_subscr (file_lines (file_text listFile m)))\<rparr>))"

definition ExtendEventSubscrList ::
  "'w xmpp_env \<Rightarrow> string \<Rightarrow> string \<Rightarrow> EXMPP_EVNT_TYPES \<Rightarrow> s32 \<Rightarrow> XmppMgr \<Rightarrow> RPC_SRV_RESULT \<times> XmppMgr" where
  "ExtendEventSubscrList env listFile addr ty a m =
     (if listFile = [] then (RPC_SRV_RESULT_FAIL, m) else (RPC_SRV_RESULT_SUCCESS, append_text env listFile (subscr_line addr ty a) m))"

definition RewriteEventSubscrList :: "'w xmpp_env \<Rightarrow> string \<Rightarrow> XmppMgr \<Rightarrow> RPC_SRV_RESULT \<times> XmppMgr" where
  "RewriteEventSubscrList env listFile m =
     (if listFile = [] then (RPC_SRV_RESULT_FAIL, m)
      else (RPC_SRV_RESULT_SUCCESS, rewrite_file env listFile
        (concat (map (\<lambda>e. if m_Status e then subscr_line (subscriber e) (m_EvntType e) (m_EvntArg e) else []) (myEventList m))) m))"

text \<open>Changing the status of the first entry that \<open>p\<close> selects.\<close>

fun set_first :: "(EventSubscrEntry \<Rightarrow> bool) \<Rightarrow> bool \<Rightarrow> EventSubscrEntry list \<Rightarrow> EventSubscrEntry list" where
  "set_first p b [] = []"
| "set_first p b (e # es) = (if p e then e\<lparr>m_Status := b\<rparr> # es else e # set_first p b es)"

text \<open>What the two commands for subscriptions share: the status is read or set.\<close>

definition event_status ::
  "'w xmpp_env \<Rightarrow> string \<Rightarrow> EXMPP_EVNT_TYPES \<Rightarrow> s32 \<Rightarrow> string option \<Rightarrow> XmppMgr \<Rightarrow> RPC_SRV_RESULT \<times> string \<times> XmppMgr" where
  "event_status env who ty io arg m =
     (let p = FindEventSubscrEntry who io ty; it = find p (myEventList m) in
      case arg of
        None \<Rightarrow> (RPC_SRV_RESULT_SUCCESS, case it of None \<Rightarrow> ''0'' | Some e \<Rightarrow> if m_Status e then ''1'' else ''0'', m)
      | Some a \<Rightarrow>
          if it \<noteq> None then
            (RPC_SRV_RESULT_SUCCESS, [],
              snd (RewriteEventSubscrList env (EventSubscrListFile m) (m\<lparr>myEventList := set_first p (a = ''1'') (myEventList m)\<rparr>)))
          else if a = ''1'' then
            (RPC_SRV_RESULT_SUCCESS, [], snd (ExtendEventSubscrList env (EventSubscrListFile m) who ty io
              (m\<lparr>myEventList := myEventList m @ [\<lparr>subscriber = who, m_EvntType = ty, m_EvntArg = io, m_Status = True\<rparr>]\<rparr>)))
          else (RPC_SRV_RESULT_SUCCESS, [], m))"

definition proc_cmd_event_gsm :: "'w xmpp_env \<Rightarrow> string \<Rightarrow> string \<Rightarrow> XmppMgr \<Rightarrow> RPC_SRV_RESULT \<times> string \<times> XmppMgr" where
  "proc_cmd_event_gsm env msg who m =
     (if first_word msg = [] then (RPC_SRV_RESULT_UNKNOWN_COMMAND, [], m)
      else event_status env who EXMPP_EVNT_GSM 0 (if second_word msg = [] then None else Some (second_word msg)) m)"

definition proc_cmd_event_gpio :: "'w xmpp_env \<Rightarrow> string \<Rightarrow> string \<Rightarrow> XmppMgr \<Rightarrow> RPC_SRV_RESULT \<times> string \<times> XmppMgr" where
  "proc_cmd_event_gpio env msg who m =
     (if first_word msg = [] then (RPC_SRV_RESULT_UNKNOWN_COMMAND, [], m)
      else if second_word msg = [] then (RPC_SRV_RESULT_ARG_ERROR, [], m)
      else let io = atoi (snd (xpandarg (second_word msg) m)); v = third_word msg in
        if v = [] then event_status env who EXMPP_EVNT_GPIO io None m
        else event_status env who EXMPP_EVNT_GPIO io (Some (snd (xpandarg v m))) m)"

section \<open>The account\<close>

text \<open>
  A file that is read line by line: whether the stream is good, and what is left. On a stream that is not good
  \<open>getline\<close> leaves the line as it was.
\<close>

definition get_line :: "bool \<times> string \<Rightarrow> string \<Rightarrow> string \<times> bool \<times> string" where
  "get_line st line = (case st of (good, s) \<Rightarrow>
     if \<not> good then (line, st)
     else if CHR 0x0A \<in> set s then (rest_line s, True, tl (dropWhile (\<lambda>c. c \<noteq> CHR 0x0A) s))
     else (s, False, []))"

definition open_file :: "string \<Rightarrow> XmppMgr \<Rightarrow> bool \<times> string" where
  "open_file p m = (case fs m p of None \<Rightarrow> (False, []) | Some t \<Rightarrow> (True, t))"

text \<open>The second word of a line, or the old value when there is none.\<close>

definition word_or :: "string \<Rightarrow> string \<Rightarrow> string" where
  "word_or old line = (let v = second_word line in if v = [] then old else v)"

definition Start :: "string \<Rightarrow> XmppMgr \<Rightarrow> RPC_SRV_RESULT \<times> XmppMgr" where
  "Start accountFilePath m =
     (if accountFilePath = [] then (RPC_SRV_RESULT_FAIL, m)
      else
        let m = snd (LoadAliasList (AliasListFile m) m); m = snd (LoadEventSubscrList (EventSubscrListFile m) m);
            (line, st) = get_line (open_file accountFilePath m) []
        in if line = [] then (RPC_SRV_RESULT_FAIL, m)
        else let m = m\<lparr>XmppUserName := word_or (XmppUserName m) line\<rparr> in
        if XmppUserName m = [] then (RPC_SRV_RESULT_FAIL, m)
        else let (line, st) = get_line st line in
        if line = [] then (RPC_SRV_RESULT_FAIL, m)
        else let m = m\<lparr>XmppUserPw := word_or (XmppUserPw m) line\<rparr> in
        if XmppUserPw m = [] then (RPC_SRV_RESULT_FAIL, m)
        else let (line, st) = get_line st line;
                 m = m\<lparr>XmppAdminBuddy := word_or (if line = [] then [] else XmppAdminBuddy m) line\<rparr>;
                 (line, st) = get_line st line;
                 m = m\<lparr>XmppBkupAdminBuddy := word_or (if line = [] then [] else XmppBkupAdminBuddy m) line\<rparr>
             in (RPC_SRV_RESULT_SUCCESS, m\<lparr>client_thread := True\<rparr>))"

definition SetBotNameFilePath :: "string \<Rightarrow> XmppMgr \<Rightarrow> XmppMgr" where
  "SetBotNameFilePath p m = (let m = m\<lparr>XmppBotNameFilePath := p\<rparr> in
     if p = [] then m else m\<lparr>XmppBotName := fst (get_line (open_file p m) (XmppBotName m))\<rparr>)"

section \<open>The connection and the timer\<close>

text \<open>A round of the thread of the connection up to the loop that receives.\<close>

definition connect_attempt :: "XmppMgr \<Rightarrow> XmppMgr" where
  "connect_attempt m = (if OnDemandDisconnect (XmppProxy m) then m
     else m\<lparr>XmppProxy := proxy_connect (XmppAdminBuddy m) (XmppBkupAdminBuddy m) (XmppProxy m)\<rparr>)"

definition xmpp_Stop :: "bool \<Rightarrow> XmppMgr \<Rightarrow> (RPC_SRV_RESULT \<times> XmppMgr) kres" where
  "xmpp_Stop ends m = kbind (disconnect ends ((XmppProxy m)\<lparr>DisconnectNow := True\<rparr>)) (\<lambda>x.
     kret (RPC_SRV_RESULT_SUCCESS, m\<lparr>XmppProxy := x, client_thread := False\<rparr>))"

definition set_online_status :: "bool \<Rightarrow> bool \<Rightarrow> XmppMgr \<Rightarrow> (RPC_SRV_RESULT \<times> XmppMgr) kres" where
  "set_online_status ends status m =
     (if status then kret (RPC_SRV_RESULT_SUCCESS, m\<lparr>XmppProxy := (XmppProxy m)\<lparr>OnDemandDisconnect := False\<rparr>\<rparr>)
      else kbind (disconnect ends ((XmppProxy m)\<lparr>OnDemandDisconnect := True\<rparr>)) (\<lambda>x. kret (RPC_SRV_RESULT_SUCCESS, m\<lparr>XmppProxy := x\<rparr>)))"

definition xmpp_timer_notification :: "XmppMgr \<Rightarrow> int \<times> XmppMgr" where
  "xmpp_timer_notification m =
     (let m = m\<lparr>event_period_ms := event_period_ms m + heartbeat_ms m\<rparr> in
      if sint (event_period_ms m) < sint (CyclicTime_ms m) then (0, m)
      else (0, m\<lparr>event_period_ms := 0, XmppProxy := send_client_alive_ping (XmppProxy m)\<rparr>))"

end
