(* ===== verification/Xmpp_Commands.thy ===== *)
theory Xmpp_Commands
  imports Xmpp_State
begin

text \<open>
  The commands of the XMPP service, the functions \<open>proc_cmd_...\<close> of \<open>XmppMgr.cpp\<close>. Most of them parse the message, call a
  method of another service on this host and return a value of its answer; those that start a task of the service remember who is
  to be told of its end. A command returns its result code and the text of its value.
\<close>

section \<open>What the commands share\<close>

type_synonym 'w cmd_res = "(RPC_SRV_RESULT \<times> string \<times> XmppMgr \<times> 'w) kres"

definition ADCMN_PORT_SYSMGR :: s32 where
  "ADCMN_PORT_SYSMGR = 40001"

definition ADCMN_PORT_GPIOCTL :: s32 where
  "ADCMN_PORT_GPIOCTL = 40003"

definition ADCMN_PORT_BBOXSMS :: s32 where
  "ADCMN_PORT_BBOXSMS = 40004"

definition ADCMN_PORT_XMPROXY :: s32 where
  "ADCMN_PORT_XMPROXY = 40005"

text \<open>A client of the service at a port; \<open>call\<close> makes the calls before the client disconnects, and \<open>k\<close> is what follows.\<close>

definition with_service ::
  "'w xmpp_env \<Rightarrow> s32 \<Rightarrow> (rpc_client \<Rightarrow> 'w \<Rightarrow> ('a \<times> rpc_client \<times> 'w) kres) \<Rightarrow> XmppMgr \<Rightarrow> 'w \<Rightarrow> ('a \<Rightarrow> 'w \<Rightarrow> 'w cmd_res) \<Rightarrow> 'w cmd_res" where
  "with_service env port call m w k =
     (case rpc_server_connect (xe_sock env) (bboxSmsServerAddr m) port client_new w of (r, c, w) \<Rightarrow>
        if r \<noteq> 0 then kret (RPC_SRV_RESULT_HOST_NOT_REACHABLE_ERR, [], m, w)
        else kbind (call c w) (\<lambda>(a, c, w). k a (snd (snd (rpc_server_disconnect (xe_sock env) c w)))))"

text \<open>The result and the first value of a call; \<open>store\<close> copies the value to an array of \<open>n\<close> characters that held \<open>old\<close>.\<close>

definition value_out :: "'w call_res \<Rightarrow> ((RPC_SRV_RESULT \<times> out option) \<times> rpc_client \<times> 'w) kres" where
  "value_out r = kbind r (\<lambda>(res, outs, c, w). kret ((res, if outs = [] then None else hd outs), c, w))"

definition store :: "nat \<Rightarrow> string \<Rightarrow> out option \<Rightarrow> string kres" where
  "store n old v = (case v of Some (OStr s) \<Rightarrow> sprintf_s n s | _ \<Rightarrow> kret old)"

text \<open>A command that returns the value of the call.\<close>

definition value_cmd :: "'w xmpp_env \<Rightarrow> s32 \<Rightarrow> nat \<Rightarrow> string \<Rightarrow> (rpc_client \<Rightarrow> 'w \<Rightarrow> 'w call_res) \<Rightarrow> XmppMgr \<Rightarrow> 'w \<Rightarrow> 'w cmd_res" where
  "value_cmd env port n old call m w =
     with_service env port (\<lambda>c w. kbind (value_out (call c w)) (\<lambda>((res, v), c, w). kbind (store n old v) (\<lambda>s. kret ((res, s), c, w)))) m w
       (\<lambda>(res, s) w. kret (res, s, m, w))"

definition plain_cmd :: "'w xmpp_env \<Rightarrow> s32 \<Rightarrow> (rpc_client \<Rightarrow> 'w \<Rightarrow> 'w call_res) \<Rightarrow> XmppMgr \<Rightarrow> 'w \<Rightarrow> 'w cmd_res" where
  "plain_cmd env port call m w = with_service env port (\<lambda>c w. value_out (call c w)) m w (\<lambda>(res, _) w. kret (res, [], m, w))"

text \<open>The answer of a command that starts a task.\<close>

definition task_answer :: "s32 \<Rightarrow> string \<Rightarrow> RPC_SRV_RESULT \<Rightarrow> string \<Rightarrow> XmppMgr \<Rightarrow> 'w \<Rightarrow> 'w cmd_res" where
  "task_answer port who res tID m w =
     (if res = RPC_SRV_RESULT_IN_PROG then
        (case AccessAsyncTaskList (atoi tID) port True who m of (_, n, _, m) \<Rightarrow>
           kret (res, ''taskID='' @ show_int (sint (case n of None \<Rightarrow> -1 | Some x \<Rightarrow> x)), m, w))
      else kret (res, ''taskID='' @ show_int (-1), m, w))"

definition async_cmd ::
  "'w xmpp_env \<Rightarrow> s32 \<Rightarrow> string \<Rightarrow> string \<Rightarrow> (rpc_client \<Rightarrow> 'w \<Rightarrow> 'w call_res) \<Rightarrow> XmppMgr \<Rightarrow> 'w \<Rightarrow> 'w cmd_res" where
  "async_cmd env port old who call m w =
     with_service env port (\<lambda>c w. kbind (value_out (call c w)) (\<lambda>((res, v), c, w). kbind (store 255 old v) (\<lambda>s. kret ((res, s), c, w)))) m w
       (\<lambda>(res, tID) w. task_answer port who res tID m w)"

definition quick :: "RPC_SRV_RESULT \<Rightarrow> XmppMgr \<Rightarrow> 'w \<Rightarrow> 'w cmd_res" where
  "quick res m w = kret (res, [], m, w)"

definition of_pure :: "RPC_SRV_RESULT \<times> string \<times> XmppMgr \<Rightarrow> 'w \<Rightarrow> 'w cmd_res" where
  "of_pure r w = (case r of (res, s, m) \<Rightarrow> kret (res, s, m, w))"

text \<open>The rest of the line after the first word and after the second.\<close>

definition rest1 :: "string \<Rightarrow> string" where
  "rest1 msg = rest_line (snd (read_word msg))"

definition rest2 :: "string \<Rightarrow> string" where
  "rest2 msg = rest_line (snd (read_word (snd (read_word msg))))"

definition arg1 :: "string \<Rightarrow> XmppMgr \<Rightarrow> string" where
  "arg1 msg m = snd (xpandarg (second_word msg) m)"

section \<open>Messages and calls over the phone\<close>

definition proc_cmd_sms_deleteall :: "'w xmpp_env \<Rightarrow> string \<Rightarrow> string \<Rightarrow> XmppMgr \<Rightarrow> 'w \<Rightarrow> 'w cmd_res" where
  "proc_cmd_sms_deleteall env msg who m w = async_cmd env ADCMN_PORT_BBOXSMS (xe_junk env) who
     (set_action_noarg_get_single_string_type (xe_clt env) (xe_sock env) ''delete_all_sms'' ''taskId'') m w"

definition proc_cmd_sms_delete :: "string \<Rightarrow> XmppMgr \<Rightarrow> 'w \<Rightarrow> 'w cmd_res" where
  "proc_cmd_sms_delete msg m w = quick RPC_SRV_RESULT_FEATURE_NOT_AVAILABLE m w"

definition proc_cmd_sms_get :: "'w xmpp_env \<Rightarrow> string \<Rightarrow> XmppMgr \<Rightarrow> 'w \<Rightarrow> 'w cmd_res" where
  "proc_cmd_sms_get env msg m w =
     (if first_word msg = [] then quick RPC_SRV_RESULT_UNKNOWN_COMMAND m w
      else if second_word msg = [] then quick RPC_SRV_RESULT_ARG_ERROR m w
      else value_cmd env ADCMN_PORT_BBOXSMS 1024 []
        (get_int_type_with_string_para (xe_clt env) (xe_sock env) ''get_sms'' ''index'' (atoi (arg1 msg m)) (Some ''message'')) m w)"

definition proc_cmd_sms_send :: "'w xmpp_env \<Rightarrow> string \<Rightarrow> string \<Rightarrow> XmppMgr \<Rightarrow> 'w \<Rightarrow> 'w cmd_res" where
  "proc_cmd_sms_send env msg who m w =
     (if first_word msg = [] then quick RPC_SRV_RESULT_UNKNOWN_COMMAND m w
      else if second_word msg = [] then quick RPC_SRV_RESULT_ARG_ERROR m w
      else if rest2 msg = [] then quick RPC_SRV_RESULT_ARG_ERROR m w
      else async_cmd env ADCMN_PORT_BBOXSMS (xe_junk env) who
        (set_double_string_get_single_string_type (xe_clt env) (xe_sock env) ''send_sms'' ''destination'' (arg1 msg m)
          ''message'' (snd (xpandargs (rest2 msg) m)) ''taskId'') m w)"

definition proc_cmd_sms_list_update :: "'w xmpp_env \<Rightarrow> string \<Rightarrow> string \<Rightarrow> XmppMgr \<Rightarrow> 'w \<Rightarrow> 'w cmd_res" where
  "proc_cmd_sms_list_update env msg who m w = async_cmd env ADCMN_PORT_BBOXSMS (xe_junk env) who
     (set_action_noarg_get_single_string_type (xe_clt env) (xe_sock env) ''update_sms_list'' ''taskId'') m w"

definition proc_cmd_sms_get_total :: "'w xmpp_env \<Rightarrow> string \<Rightarrow> XmppMgr \<Rightarrow> 'w \<Rightarrow> 'w cmd_res" where
  "proc_cmd_sms_get_total env msg m w = value_cmd env ADCMN_PORT_BBOXSMS 255 []
     (get_integer_type (xe_clt env) (xe_sock env) ''get_total_sms'' ''msgcount'') m w"

definition proc_cmd_dial_voice :: "'w xmpp_env \<Rightarrow> string \<Rightarrow> string \<Rightarrow> string \<Rightarrow> XmppMgr \<Rightarrow> 'w \<Rightarrow> 'w cmd_res" where
  "proc_cmd_dial_voice env msg rpc_cmd who m w =
     (if first_word msg = [] then quick RPC_SRV_RESULT_UNKNOWN_COMMAND m w
      else if second_word msg = [] then quick RPC_SRV_RESULT_ARG_ERROR m w
      else async_cmd env ADCMN_PORT_BBOXSMS (xe_junk env) who
        (set_single_string_get_single_string_type (xe_clt env) (xe_sock env) rpc_cmd ''destination'' (arg1 msg m) ''taskId'') m w)"

definition proc_cmd_get_ussd :: "'w xmpp_env \<Rightarrow> string \<Rightarrow> XmppMgr \<Rightarrow> 'w \<Rightarrow> 'w cmd_res" where
  "proc_cmd_get_ussd env msg m w = value_cmd env ADCMN_PORT_BBOXSMS 255 []
     (get_string_type (xe_clt env) (xe_sock env) ''get_ussd'' ''message'') m w"

definition proc_cmd_gsm_modem_identify :: "'w xmpp_env \<Rightarrow> string \<Rightarrow> string \<Rightarrow> XmppMgr \<Rightarrow> 'w \<Rightarrow> 'w cmd_res" where
  "proc_cmd_gsm_modem_identify env msg who m w = async_cmd env ADCMN_PORT_BBOXSMS (xe_junk env) who
     (set_action_noarg_get_single_string_type (xe_clt env) (xe_sock env) ''identify_dev'' ''taskId'') m w"

section \<open>The system manager\<close>

definition proc_cmd_fmw_get_version :: "'w xmpp_env \<Rightarrow> string \<Rightarrow> XmppMgr \<Rightarrow> 'w \<Rightarrow> 'w cmd_res" where
  "proc_cmd_fmw_get_version env msg m w = value_cmd env ADCMN_PORT_SYSMGR 255 []
     (get_string_type_with_string_para (xe_clt env) (xe_sock env) ''get_fmw_version'' ''module'' ''current'' (Some ''version'')) m w"

definition BRBOX_SYS_CONFIG_FILE_PATH :: string where
  "BRBOX_SYS_CONFIG_FILE_PATH = ''/etc/sysconfig.txt''"

definition GITHUB_FMW_DOWNLOAD_FOLDER :: string where
  "GITHUB_FMW_DOWNLOAD_FOLDER = ''http://github.com/hackboxguy/downloads/raw/master/''"

text \<open>The address of the image, when the type of the system is known.\<close>

definition update_url :: "string \<Rightarrow> XmppMgr \<Rightarrow> string" where
  "update_url line m =
     (let custom = (if UpdateUrlFile m = [] then [] else rest_line (file_text (UpdateUrlFile m) m)) in
      if custom = [] then GITHUB_FMW_DOWNLOAD_FOLDER @ line @ ''.uimg'' else custom)"

text \<open>The two calls of the update: the second only when the download is in progress.\<close>

definition update_calls ::
  "'w xmpp_env \<Rightarrow> string \<Rightarrow> rpc_client \<Rightarrow> 'w \<Rightarrow> ((RPC_SRV_RESULT \<times> string option) \<times> rpc_client \<times> 'w) kres" where
  "update_calls env url c w =
     kbind (value_out (set_double_string_get_single_string_type (xe_clt env) (xe_sock env) ''download_ftp_file'' ''srcaddr'' url
       ''targetpath'' ''/tmp/uBrBoxRoot.uimg'' ''taskId'' c w)) (\<lambda>((res, v), c, w).
     kbind (store 255 [] v) (\<lambda>tmp.
     if res \<noteq> RPC_SRV_RESULT_IN_PROG then kret ((res, None), c, w)
     else kbind (value_out (set_double_string_get_single_string_type (xe_clt env) (xe_sock env) ''firmware_update'' ''module'' ''project''
       ''filepath'' ''/tmp/uBrBoxRoot.uimg'' ''taskId'' c w)) (\<lambda>((res, v), c, w).
     kbind (store 255 tmp v) (\<lambda>tmp. kret ((res, Some tmp), c, w)))))"

definition proc_cmd_fmw_update :: "'w xmpp_env \<Rightarrow> string \<Rightarrow> string \<Rightarrow> XmppMgr \<Rightarrow> 'w \<Rightarrow> 'w cmd_res" where
  "proc_cmd_fmw_update env msg who m w =
     (let line = rest_line (file_text BRBOX_SYS_CONFIG_FILE_PATH m) in
      if first_word msg = [] then quick RPC_SRV_RESULT_UNKNOWN_COMMAND m w
      else if line = [] then quick RPC_SRV_RESULT_FAIL m w
      else with_service env ADCMN_PORT_SYSMGR (update_calls env (update_url line m)) m w (\<lambda>(res, tmp) w. case tmp of
          None \<Rightarrow> quick res m w
        | Some tID \<Rightarrow> task_answer ADCMN_PORT_SYSMGR who res tID (m\<lparr>LastFmwUpdateTaskID := atoi tID\<rparr>) w))"

definition proc_cmd_fmw_reboot :: "'w xmpp_env \<Rightarrow> string \<Rightarrow> string \<Rightarrow> XmppMgr \<Rightarrow> 'w \<Rightarrow> 'w cmd_res" where
  "proc_cmd_fmw_reboot env msg who m w = async_cmd env ADCMN_PORT_SYSMGR [] who
     (set_single_string_get_single_string_type (xe_clt env) (xe_sock env) ''set_device_operation'' ''operation'' ''reboot'' ''taskId'') m w"

definition proc_cmd_fmw_poweroff :: "'w xmpp_env \<Rightarrow> string \<Rightarrow> string \<Rightarrow> XmppMgr \<Rightarrow> 'w \<Rightarrow> 'w cmd_res" where
  "proc_cmd_fmw_poweroff env msg who m w = async_cmd env ADCMN_PORT_SYSMGR [] who
     (set_single_string_get_single_string_type (xe_clt env) (xe_sock env) ''set_device_operation'' ''operation'' ''standby'' ''taskId'') m w"

definition proc_cmd_fmw_update_sts :: "'w xmpp_env \<Rightarrow> string \<Rightarrow> XmppMgr \<Rightarrow> 'w \<Rightarrow> 'w cmd_res" where
  "proc_cmd_fmw_update_sts env msg m w =
     kbind (value_cmd env ADCMN_PORT_SYSMGR 255 [] (get_string_type (xe_clt env) (xe_sock env) ''get_async_task'' ''task'') m w)
       (\<lambda>(res, s, m, w). kret (res, if res \<noteq> RPC_SRV_RESULT_SUCCESS then s else if s = ''none'' then ''Idle'' else ''Busy'', m, w))"

definition proc_cmd_fmw_update_res :: "'w xmpp_env \<Rightarrow> string \<Rightarrow> XmppMgr \<Rightarrow> 'w \<Rightarrow> 'w cmd_res" where
  "proc_cmd_fmw_update_res env msg m w = value_cmd env ADCMN_PORT_SYSMGR 255 []
     (get_string_type_with_string_para (xe_clt env) (xe_sock env) ''get_rpc_req_status'' ''taskId''
       (show_int (sint (LastFmwUpdateTaskID m))) (Some ''taskStatus'')) m w"

text \<open>The three arrays of \<open>uptime\<close>, which are empty before the call.\<close>

definition three_out :: "'w call_res \<Rightarrow> ((RPC_SRV_RESULT \<times> string) \<times> rpc_client \<times> 'w) kres" where
  "three_out r = kbind r (\<lambda>(res, outs, c, w).
     let v = (\<lambda>i. if i < length outs then outs ! i else None) in
     kbind (store 255 [] (v 0)) (\<lambda>_. kbind (store 255 [] (v 1)) (\<lambda>_. kbind (store 255 [] (v 2)) (\<lambda>s. kret ((res, s), c, w)))))"

text \<open>Division of the language, which rounds to zero.\<close>

definition hours :: "int \<Rightarrow> int" where
  "hours sec = (if sec < 0 then - (- sec div 3600) else sec div 3600)"

definition proc_cmd_fmw_uptime :: "'w xmpp_env \<Rightarrow> string \<Rightarrow> XmppMgr \<Rightarrow> 'w \<Rightarrow> 'w cmd_res" where
  "proc_cmd_fmw_uptime env msg m w = with_service env ADCMN_PORT_SYSMGR
     (\<lambda>c w. three_out (get_three_string_type (xe_clt env) (xe_sock env) ''get_load_info'' ''current'' ''average'' ''uptime'' c w)) m w
     (\<lambda>(res, s) w. kret (res, show_int (hours (sint (atoi s))) @ '' Hours'', m, w))"

definition proc_cmd_fmw_get_hostname :: "'w xmpp_env \<Rightarrow> string \<Rightarrow> XmppMgr \<Rightarrow> 'w \<Rightarrow> 'w cmd_res" where
  "proc_cmd_fmw_get_hostname env msg m w = value_cmd env ADCMN_PORT_SYSMGR 255 []
     (get_string_type (xe_clt env) (xe_sock env) ''get_hostname'' ''hostname'') m w"

definition proc_cmd_fmw_set_hostname :: "'w xmpp_env \<Rightarrow> string \<Rightarrow> XmppMgr \<Rightarrow> 'w \<Rightarrow> 'w cmd_res" where
  "proc_cmd_fmw_set_hostname env msg m w =
     (if first_word msg = [] then quick RPC_SRV_RESULT_UNKNOWN_COMMAND m w
      else if second_word msg = [] then quick RPC_SRV_RESULT_ARG_ERROR m w
      else plain_cmd env ADCMN_PORT_SYSMGR (set_single_string_type (xe_clt env) (xe_sock env) ''set_hostname'' ''hostname'' (second_word msg)) m w)"

definition proc_cmd_fmw_hostname :: "'w xmpp_env \<Rightarrow> string \<Rightarrow> XmppMgr \<Rightarrow> 'w \<Rightarrow> 'w cmd_res" where
  "proc_cmd_fmw_hostname env msg m w =
     (if first_word msg = [] then quick RPC_SRV_RESULT_UNKNOWN_COMMAND m w
      else if arg1 msg m = [] then proc_cmd_fmw_get_hostname env msg m w
      else proc_cmd_fmw_set_hostname env msg m w)"

definition proc_cmd_fmw_get_myip :: "'w xmpp_env \<Rightarrow> string \<Rightarrow> XmppMgr \<Rightarrow> 'w \<Rightarrow> 'w cmd_res" where
  "proc_cmd_fmw_get_myip env msg m w = value_cmd env ADCMN_PORT_SYSMGR 255 []
     (get_string_type (xe_clt env) (xe_sock env) ''get_my_public_ip'' ''ip'') m w"

text \<open>The interfaces are tried in order; the array keeps the value of the last call.\<close>

fun ip_calls ::
  "'w xmpp_env \<Rightarrow> string list \<Rightarrow> RPC_SRV_RESULT \<times> string \<Rightarrow> rpc_client \<Rightarrow> 'w \<Rightarrow> ((RPC_SRV_RESULT \<times> string) \<times> rpc_client \<times> 'w) kres" where
  "ip_calls env [] r c w = kret (r, c, w)"
| "ip_calls env (i # is) r c w =
     kbind (value_out (get_string_type_with_string_para (xe_clt env) (xe_sock env) ''get_ip_addr'' ''iface'' i (Some ''addr'') c w))
       (\<lambda>((res, v), c, w). kbind (store 255 (snd r) v) (\<lambda>s.
          if res \<noteq> RPC_SRV_RESULT_SUCCESS then ip_calls env is (res, s) c w else kret ((res, s), c, w)))"

definition proc_cmd_fmw_get_localip :: "'w xmpp_env \<Rightarrow> string \<Rightarrow> XmppMgr \<Rightarrow> 'w \<Rightarrow> 'w cmd_res" where
  "proc_cmd_fmw_get_localip env msg m w = with_service env ADCMN_PORT_SYSMGR
     (ip_calls env (if XmppNetInterface m = [] then [''eth0'', ''eth1'', ''ppp0''] else [XmppNetInterface m]) (RPC_SRV_RESULT_UNKNOWN, [])) m w
     (\<lambda>(res, s) w. kret (res, s, m, w))"

definition proc_cmd_fmw_set_default_hostname :: "'w xmpp_env \<Rightarrow> string \<Rightarrow> XmppMgr \<Rightarrow> 'w \<Rightarrow> 'w cmd_res" where
  "proc_cmd_fmw_set_default_hostname env msg m w =
     plain_cmd env ADCMN_PORT_SYSMGR (set_action_noarg_type (xe_clt env) (xe_sock env) ''set_default_hostname'') m w"

definition proc_cmd_logsts :: "'w xmpp_env \<Rightarrow> string \<Rightarrow> XmppMgr \<Rightarrow> 'w \<Rightarrow> 'w cmd_res" where
  "proc_cmd_logsts env msg m w =
     (let portArg = second_word msg; logArg = third_word msg in
      if first_word msg = [] then quick RPC_SRV_RESULT_UNKNOWN_COMMAND m w
      else if portArg = [] then quick RPC_SRV_RESULT_ARG_ERROR m w
      else if logArg = [] then value_cmd env (atoi portArg) 255 (xe_junk env)
        (get_string_type (xe_clt env) (xe_sock env) ''get_debug_logging'' ''status'') m w
      else plain_cmd env (atoi portArg) (set_single_string_type (xe_clt env) (xe_sock env) ''set_debug_logging'' ''status'' logArg) m w)"

definition proc_cmd_log_list_update :: "'w xmpp_env \<Rightarrow> string \<Rightarrow> string \<Rightarrow> XmppMgr \<Rightarrow> 'w \<Rightarrow> 'w cmd_res" where
  "proc_cmd_log_list_update env msg who m w = async_cmd env ADCMN_PORT_SYSMGR (xe_junk env) who
     (set_action_noarg_get_single_string_type (xe_clt env) (xe_sock env) ''update_loglist'' ''taskId'') m w"

definition proc_cmd_log_get_count :: "'w xmpp_env \<Rightarrow> string \<Rightarrow> XmppMgr \<Rightarrow> 'w \<Rightarrow> 'w cmd_res" where
  "proc_cmd_log_get_count env msg m w = value_cmd env ADCMN_PORT_SYSMGR 255 []
     (get_integer_type (xe_clt env) (xe_sock env) ''get_log_count'' ''logcount'') m w"

definition proc_cmd_log_get_line :: "'w xmpp_env \<Rightarrow> string \<Rightarrow> XmppMgr \<Rightarrow> 'w \<Rightarrow> 'w cmd_res" where
  "proc_cmd_log_get_line env msg m w =
     (if first_word msg = [] then quick RPC_SRV_RESULT_UNKNOWN_COMMAND m w
      else if second_word msg = [] then quick RPC_SRV_RESULT_ARG_ERROR m w
      else value_cmd env ADCMN_PORT_SYSMGR 1024 []
        (get_int_type_with_string_para (xe_clt env) (xe_sock env) ''get_log_line'' ''index'' (atoi (second_word msg)) (Some ''logmsg'')) m w)"

definition proc_cmd_shellcmd :: "'w xmpp_env \<Rightarrow> string \<Rightarrow> string \<Rightarrow> EXMPP_CMD_TYPES \<Rightarrow> XmppMgr \<Rightarrow> 'w \<Rightarrow> 'w cmd_res" where
  "proc_cmd_shellcmd env msg who cmdtype m w =
     (if first_word msg = [] then quick RPC_SRV_RESULT_UNKNOWN_COMMAND m w
      else if rest1 msg = [] then quick RPC_SRV_RESULT_ARG_ERROR m w
      else async_cmd env ADCMN_PORT_SYSMGR (xe_junk env) who
        (set_single_string_get_single_string_type (xe_clt env) (xe_sock env)
          (if cmdtype = EXMPP_CMD_SHELLCMD_TRIG then ''run_shellcmdtrig'' else ''run_shellcmd'') ''command''
          (snd (xpandargs (rest1 msg) m)) ''taskId'') m w)"

definition SHELLCMD_RESP_FILE_PATH :: string where
  "SHELLCMD_RESP_FILE_PATH = ''/tmp/shellcmd.resp''"

definition SHELLCMD_RESP_MAX_FILE_SIZE :: nat where
  "SHELLCMD_RESP_MAX_FILE_SIZE = 1300"

definition proc_cmd_shellcmdresp :: "string \<Rightarrow> string \<Rightarrow> XmppMgr \<Rightarrow> 'w \<Rightarrow> 'w cmd_res" where
  "proc_cmd_shellcmdresp msg who m w = (case fs m SHELLCMD_RESP_FILE_PATH of
     None \<Rightarrow> quick RPC_SRV_RESULT_FILE_OPEN_ERR m w
   | Some t \<Rightarrow> if SHELLCMD_RESP_MAX_FILE_SIZE < length t then quick RPC_SRV_RESULT_VALUE_OUT_OF_RANGE m w
       else kret (RPC_SRV_RESULT_SUCCESS, t, m, w))"

definition proc_cmd_devident :: "'w xmpp_env \<Rightarrow> string \<Rightarrow> string \<Rightarrow> XmppMgr \<Rightarrow> 'w \<Rightarrow> 'w cmd_res" where
  "proc_cmd_devident env msg who m w = async_cmd env ADCMN_PORT_SYSMGR (xe_junk env) who
     (set_action_noarg_get_single_string_type (xe_clt env) (xe_sock env) ''device_identify'' ''taskId'') m w"

definition proc_cmd_xmpshutdown :: "'w xmpp_env \<Rightarrow> string \<Rightarrow> string \<Rightarrow> XmppMgr \<Rightarrow> 'w \<Rightarrow> 'w cmd_res" where
  "proc_cmd_xmpshutdown env msg who m w = async_cmd env ADCMN_PORT_XMPROXY (xe_junk env) who
     (set_action_noarg_get_single_string_type (xe_clt env) (xe_sock env) ''trigger_shutdown'' ''taskId'') m w"

definition proc_cmd_disp_clear :: "'w xmpp_env \<Rightarrow> string \<Rightarrow> XmppMgr \<Rightarrow> 'w \<Rightarrow> 'w cmd_res" where
  "proc_cmd_disp_clear env msg m w =
     plain_cmd env ADCMN_PORT_SYSMGR (set_action_noarg_type (xe_clt env) (xe_sock env) ''display_clear'') m w"

definition proc_cmd_disp_print :: "'w xmpp_env \<Rightarrow> string \<Rightarrow> XmppMgr \<Rightarrow> 'w \<Rightarrow> 'w cmd_res" where
  "proc_cmd_disp_print env msg m w =
     (if first_word msg = [] then quick RPC_SRV_RESULT_UNKNOWN_COMMAND m w
      else if second_word msg = [] then quick RPC_SRV_RESULT_ARG_ERROR m w
      else if rest2 msg = [] then value_cmd env ADCMN_PORT_SYSMGR 255 []
        (get_integer_type_with_addr_para (xe_clt env) (xe_sock env) ''display_print'' ''line'' (atoi (arg1 msg m)) ''msg'') m w
      else plain_cmd env ADCMN_PORT_SYSMGR
        (set_double_string_type (xe_clt env) (xe_sock env) ''display_print'' ''line'' (arg1 msg m) ''msg'' (snd (xpandarg (rest2 msg) m))) m w)"

definition proc_cmd_get_display_backlight :: "'w xmpp_env \<Rightarrow> string \<Rightarrow> XmppMgr \<Rightarrow> 'w \<Rightarrow> 'w cmd_res" where
  "proc_cmd_get_display_backlight env msg m w = value_cmd env ADCMN_PORT_SYSMGR 255 []
     (get_string_type (xe_clt env) (xe_sock env) ''display_backlight_get'' ''status'') m w"

definition proc_cmd_set_display_backlight :: "'w xmpp_env \<Rightarrow> string \<Rightarrow> XmppMgr \<Rightarrow> 'w \<Rightarrow> 'w cmd_res" where
  "proc_cmd_set_display_backlight env msg m w =
     (if first_word msg = [] then quick RPC_SRV_RESULT_UNKNOWN_COMMAND m w
      else if second_word msg = [] then quick RPC_SRV_RESULT_ARG_ERROR m w
      else plain_cmd env ADCMN_PORT_SYSMGR (set_single_string_type (xe_clt env) (xe_sock env) ''display_backlight_set'' ''status'' (arg1 msg m)) m w)"

definition proc_cmd_disp_backlight :: "'w xmpp_env \<Rightarrow> string \<Rightarrow> XmppMgr \<Rightarrow> 'w \<Rightarrow> 'w cmd_res" where
  "proc_cmd_disp_backlight env msg m w =
     (if first_word msg = [] then quick RPC_SRV_RESULT_UNKNOWN_COMMAND m w
      else if second_word msg = [] then proc_cmd_get_display_backlight env msg m w
      else proc_cmd_set_display_backlight env msg m w)"

section \<open>Pins and relays\<close>

definition proc_cmd_gpio :: "'w xmpp_env \<Rightarrow> string \<Rightarrow> XmppMgr \<Rightarrow> 'w \<Rightarrow> 'w cmd_res" where
  "proc_cmd_gpio env msg m w =
     (if first_word msg = [] then quick RPC_SRV_RESULT_UNKNOWN_COMMAND m w
      else if second_word msg = [] then quick RPC_SRV_RESULT_ARG_ERROR m w
      else if third_word msg = [] then value_cmd env ADCMN_PORT_GPIOCTL 255 []
        (get_integer_type_with_addr_para (xe_clt env) (xe_sock env) ''gpio_get'' ''addr'' (atoi (arg1 msg m)) ''data'') m w
      else plain_cmd env ADCMN_PORT_GPIOCTL (set_integer_type_with_addr_para (xe_clt env) (xe_sock env) ''gpio_set'' ''addr''
        (atoi (arg1 msg m)) ''data'' (atoi (snd (xpandarg (third_word msg) m)))) m w)"

definition hostname_to_ip :: "'w xmpp_env \<Rightarrow> string \<Rightarrow> RPC_SRV_RESULT \<times> string" where
  "hostname_to_ip env host = (case host_addr env host of None \<Rightarrow> (RPC_SRV_RESULT_FAIL, []) | Some a \<Rightarrow> (RPC_SRV_RESULT_SUCCESS, a))"

definition with_relay ::
  "'w xmpp_env \<Rightarrow> string \<Rightarrow> (rpc_client \<Rightarrow> 'w \<Rightarrow> ((RPC_SRV_RESULT \<times> string) \<times> rpc_client \<times> 'w) kres) \<Rightarrow> XmppMgr \<Rightarrow> 'w \<Rightarrow> 'w cmd_res" where
  "with_relay env ip call m w =
     (case sonoff_connect (xe_sock env) ip 80 client_new w of (r, c, w) \<Rightarrow>
        if r \<noteq> RPC_SRV_RESULT_SUCCESS then quick RPC_SRV_RESULT_HOST_NOT_REACHABLE_ERR m w
        else kbind (call c w) (\<lambda>((res, s), c, w). kret (res, s, m, snd (snd (sonoff_disconnect (xe_sock env) c w)))))"

definition relay_write :: "(RPC_SRV_RESULT \<times> rpc_client \<times> 'w) kres \<Rightarrow> ((RPC_SRV_RESULT \<times> string) \<times> rpc_client \<times> 'w) kres" where
  "relay_write r = kbind r (\<lambda>(res, c, w). kret ((res, []), c, w))"

definition proc_cmd_sonoff :: "'w xmpp_env \<Rightarrow> string \<Rightarrow> XmppMgr \<Rightarrow> 'w \<Rightarrow> 'w cmd_res" where
  "proc_cmd_sonoff env msg m w =
     (if first_word msg = [] then quick RPC_SRV_RESULT_UNKNOWN_COMMAND m w
      else if second_word msg = [] then quick RPC_SRV_RESULT_ARG_ERROR m w
      else case hostname_to_ip env (arg1 msg m) of (r, ip) \<Rightarrow>
        if r \<noteq> RPC_SRV_RESULT_SUCCESS then quick RPC_SRV_RESULT_FAIL m w
        else if third_word msg = [] then
          with_relay env ip (\<lambda>c w. kbind (get_sonoff_state (xe_sock env) c w) (\<lambda>(res, state, c, w).
            kret ((res, if state = SONOFF_STATE_ON then ''on'' else if state = SONOFF_STATE_OFF then ''off'' else ''unknown''), c, w))) m w
        else let a = snd (xpandarg (third_word msg) m) in
          if a = ''on'' then with_relay env ip (\<lambda>c w. relay_write (set_sonoff_state (xe_sock env) SONOFF_STATE_ON c w)) m w
          else if a = ''off'' then with_relay env ip (\<lambda>c w. relay_write (set_sonoff_state (xe_sock env) SONOFF_STATE_OFF c w)) m w
          else if a = ''toggle'' then with_relay env ip (\<lambda>c w. relay_write (set_sonoff_toggle (xe_sock env) c w)) m w
          else quick RPC_SRV_RESULT_ARG_ERROR m w)"

section \<open>The proxy itself\<close>

text \<open>The pause itself is not modelled.\<close>

definition proc_cmd_sleep :: "string \<Rightarrow> XmppMgr \<Rightarrow> 'w \<Rightarrow> 'w cmd_res" where
  "proc_cmd_sleep msg m w =
     (if first_word msg = [] then quick RPC_SRV_RESULT_UNKNOWN_COMMAND m w
      else if second_word msg = [] then quick RPC_SRV_RESULT_ARG_ERROR m w
      else quick RPC_SRV_RESULT_SUCCESS m w)"

definition proc_cmd_account_name :: "string \<Rightarrow> XmppMgr \<Rightarrow> 'w \<Rightarrow> 'w cmd_res" where
  "proc_cmd_account_name msg m w = kret (RPC_SRV_RESULT_SUCCESS, if XmppUserName m = [] then ''none'' else XmppUserName m, m, w)"

definition proc_cmd_bot_name :: "'w xmpp_env \<Rightarrow> string \<Rightarrow> XmppMgr \<Rightarrow> 'w \<Rightarrow> 'w cmd_res" where
  "proc_cmd_bot_name env msg m w =
     (if first_word msg = [] then quick RPC_SRV_RESULT_UNKNOWN_COMMAND m w
      else if rest1 msg = [] then kret (RPC_SRV_RESULT_SUCCESS, if XmppBotName m = [] then ''none'' else XmppBotName m, m, w)
      else let m = m\<lparr>XmppBotName := snd (xpandarg (rest1 msg) m)\<rparr> in
        quick RPC_SRV_RESULT_SUCCESS
          (if XmppBotNameFilePath m = [] then m else rewrite_file env (XmppBotNameFilePath m) (XmppBotName m @ [CHR 0x0A]) m) w)"

definition proc_cmd_buddy_list :: "'w xmpp_env \<Rightarrow> string \<Rightarrow> XmppMgr \<Rightarrow> 'w \<Rightarrow> 'w cmd_res" where
  "proc_cmd_buddy_list env msg m w = kbind (get_buddy_list (xe_roster env) (XmppProxy m)) (\<lambda>s.
     kret (RPC_SRV_RESULT_SUCCESS, CHR 0x0A # s, m, w))"

definition proc_cmd_accept_buddy_list :: "string \<Rightarrow> XmppMgr \<Rightarrow> 'w \<Rightarrow> 'w cmd_res" where
  "proc_cmd_accept_buddy_list msg m w = kret (RPC_SRV_RESULT_SUCCESS, CHR 0x0A # get_accept_buddy_list (XmppProxy m), m, w)"

text \<open>The four commands for an admin: \<open>f\<close> gets the name without blanks.\<close>

definition admin_cmd ::
  "string \<Rightarrow> string \<Rightarrow> (string \<Rightarrow> ADXmppProxy \<Rightarrow> (RPC_SRV_RESULT \<times> ADXmppProxy) kres) \<Rightarrow> XmppMgr \<Rightarrow> 'w \<Rightarrow> 'w cmd_res" where
  "admin_cmd msg who f m w =
     (if \<not> is_admin_user who (XmppProxy m) then quick RPC_SRV_RESULT_ACTION_NOT_ALLOWED m w
      else if first_word msg = [] then quick RPC_SRV_RESULT_UNKNOWN_COMMAND m w
      else if rest1 msg = [] then quick RPC_SRV_RESULT_ARG_ERROR m w
      else kbind (f (filter (\<lambda>c. c \<noteq> CHR '' '') (snd (xpandarg (rest1 msg) m))) (XmppProxy m)) (\<lambda>(res, x).
        quick res (m\<lparr>XmppProxy := x\<rparr>) w))"

definition proc_cmd_buddy_add :: "string \<Rightarrow> string \<Rightarrow> XmppMgr \<Rightarrow> 'w \<Rightarrow> 'w cmd_res" where
  "proc_cmd_buddy_add msg who m w = admin_cmd msg who (\<lambda>b x. kret (RPC_SRV_RESULT_SUCCESS, snd (accept_buddy b x))) m w"

definition proc_cmd_buddy_remove :: "string \<Rightarrow> string \<Rightarrow> XmppMgr \<Rightarrow> 'w \<Rightarrow> 'w cmd_res" where
  "proc_cmd_buddy_remove msg who m w = admin_cmd msg who (\<lambda>b x. case remove_buddy b x of (r, x) \<Rightarrow>
     kret (if r = 0 then RPC_SRV_RESULT_SUCCESS else RPC_SRV_RESULT_ITEM_NOT_FOUND, x)) m w"

definition proc_cmd_buddy_subscribe :: "string \<Rightarrow> string \<Rightarrow> XmppMgr \<Rightarrow> 'w \<Rightarrow> 'w cmd_res" where
  "proc_cmd_buddy_subscribe msg who m w = admin_cmd msg who (\<lambda>b x. kbind (subscribe_buddy b x) (\<lambda>(_, x). kret (RPC_SRV_RESULT_SUCCESS, x))) m w"

definition proc_cmd_buddy_unsubscribe :: "string \<Rightarrow> string \<Rightarrow> XmppMgr \<Rightarrow> 'w \<Rightarrow> 'w cmd_res" where
  "proc_cmd_buddy_unsubscribe msg who m w = admin_cmd msg who (\<lambda>b x. kbind (unsubscribe_buddy b x) (\<lambda>(_, x). kret (RPC_SRV_RESULT_SUCCESS, x))) m w"

definition proc_cmd_send_message :: "'w xmpp_env \<Rightarrow> string \<Rightarrow> string \<Rightarrow> string \<Rightarrow> XmppMgr \<Rightarrow> (RPC_SRV_RESULT \<times> XmppMgr) kres" where
  "proc_cmd_send_message env who message subject m =
     kbind (IsMyBuddy (xe_roster env) who (XmppProxy m)) (\<lambda>b.
     if \<not> b then kret (RPC_SRV_RESULT_ACTION_NOT_ALLOWED, m)
     else kbind (get_buddy_online_state (xe_roster env) who (XmppProxy m)) (\<lambda>online.
       if \<not> online then kret (RPC_SRV_RESULT_OFFLINE_NODE, m)
       else kbind (SendMessageToBuddy (xe_roster env) who message subject (XmppProxy m)) (\<lambda>(ok, x).
         kret (if ok then RPC_SRV_RESULT_SUCCESS else RPC_SRV_RESULT_FAIL, m\<lparr>XmppProxy := x\<rparr>))))"

definition proc_cmd_relay_message :: "'w xmpp_env \<Rightarrow> string \<Rightarrow> string \<Rightarrow> XmppMgr \<Rightarrow> 'w \<Rightarrow> 'w cmd_res" where
  "proc_cmd_relay_message env msg who m w =
     (if \<not> is_admin_user who (XmppProxy m) then quick RPC_SRV_RESULT_ACTION_NOT_ALLOWED m w
      else if first_word msg = [] then quick RPC_SRV_RESULT_UNKNOWN_COMMAND m w
      else if second_word msg = [] then quick RPC_SRV_RESULT_ARG_ERROR m w
      else if rest2 msg = [] then quick RPC_SRV_RESULT_ARG_ERROR m w
      else kbind (proc_cmd_send_message env (arg1 msg m) (snd (xpandarg (rest2 msg) m)) ''message'' m) (\<lambda>(res, m). quick res m w))"

definition proc_cmd_subscribe_message :: "string \<Rightarrow> XmppMgr \<Rightarrow> (RPC_SRV_RESULT \<times> XmppMgr) kres" where
  "proc_cmd_subscribe_message who m = kbind (subscribe_buddy who (XmppProxy m)) (\<lambda>(r, x).
     kret (if r = 0 then RPC_SRV_RESULT_SUCCESS else RPC_SRV_RESULT_FAIL, m\<lparr>XmppProxy := x\<rparr>))"

definition proc_cmd_add_buddy :: "string \<Rightarrow> XmppMgr \<Rightarrow> RPC_SRV_RESULT \<times> XmppMgr" where
  "proc_cmd_add_buddy who m = (case accept_buddy who (XmppProxy m) of (r, x) \<Rightarrow>
     (if r = 0 then RPC_SRV_RESULT_SUCCESS else RPC_SRV_RESULT_FAIL, m\<lparr>XmppProxy := x\<rparr>))"

end
