(* ===== verification/Xmpp_Mgr.thy ===== *)
theory Xmpp_Mgr
  imports Xmpp_Commands
begin

text \<open>
  The command interpreter of the XMPP service, the rest of \<open>XmppMgr.cpp\<close>, and the handler of the events of the other
  services, \<open>EvntHandler.cpp\<close>: a message that is let through is queued, the thread of the commands expands aliases, runs
  each command and replies to the sender, and the end of a task is reported to the one that started it.
\<close>

section \<open>Messages\<close>

definition contains :: "string \<Rightarrow> string \<Rightarrow> bool" where
  "contains p s \<longleftrightarrow> list_ex (\<lambda>i. take (length p) (drop i s) = p) [0..<Suc (length s)]"

text \<open>The library that asks a language model is not part of the default build.\<close>

definition generate_ai_response :: "string \<Rightarrow> string" where
  "generate_ai_response prompt = ''Error generating response''"

definition reply_with :: "string \<Rightarrow> string \<Rightarrow> XmppMgr \<Rightarrow> XmppMgr kres" where
  "reply_with t who m = kbind (send_reply t who (XmppProxy m)) (\<lambda>(_, x). kret (m\<lparr>XmppProxy := x\<rparr>))"

definition onXmppMessage :: "string \<Rightarrow> string \<Rightarrow> XmppMgr \<Rightarrow> XmppMgr kres" where
  "onXmppMessage msg who m =
     (if msg = ''Echo'' \<or> msg = ''echo'' then reply_with msg who m
      else if msg = ''Help'' \<or> msg = ''help'' then reply_with (print_help m) who m
      else if contains ''return='' msg then kret (m\<lparr>ResponseMsg := msg\<rparr>)
      else if AiAgentUrl m \<noteq> [] then reply_with (generate_ai_response msg) who m
      else kret (m\<lparr>processCmd := processCmd m @ [\<lparr>cmdMsg = msg, sender = who\<rparr>], cmd_sema := cmd_sema m + 1\<rparr>))"

text \<open>
  A message that the chat library hands over. When the library has no session with the sender, at the first message of a chat, it
  makes one and hands that over before: \<open>fresh\<close>.
\<close>

definition session_starts :: "string \<Rightarrow> XmppMgr \<Rightarrow> XmppMgr" where
  "session_starts bare m = m\<lparr>XmppProxy := handleMessageSession bare (XmppProxy m)\<rparr>"

definition message_arrives :: "roster \<Rightarrow> bool \<Rightarrow> string \<Rightarrow> string \<Rightarrow> XmppMgr \<Rightarrow> XmppMgr kres" where
  "message_arrives ro fresh body bare m =
     (let m = (if fresh then session_starts bare m else m) in handleMessage ro onXmppMessage body bare (XmppProxy m) m)"

section \<open>The thread of the commands\<close>

definition is_alias_cmd :: "XmppCmdEntry \<Rightarrow> bool" where
  "is_alias_cmd e \<longleftrightarrow> first_word (cmdMsg e) = ''Alias'' \<or> first_word (cmdMsg e) = ''alias''"

text \<open>The commands of a message: an alias for the whole message, then aliases for its parts.\<close>

definition expand_cmds :: "string str_map \<Rightarrow> string \<Rightarrow> string list" where
  "expand_cmds al msg =
     (let msg = lower_case msg; msg = (case map_of al msg of None \<Rightarrow> msg | Some v \<Rightarrow> v) in
      concat (map (\<lambda>p. case map_of al p of None \<Rightarrow> [p] | Some v \<Rightarrow> split_on (CHR '';'') v) (split_on (CHR '';'') msg)))"

definition run_command :: "'w xmpp_env \<Rightarrow> string \<Rightarrow> string \<Rightarrow> XmppMgr \<Rightarrow> 'w \<Rightarrow> 'w cmd_res" where
  "run_command env msg who m w = (case ResolveCmdStr msg m of
     EXMPP_CMD_SMS_DELETE_ALL \<Rightarrow> proc_cmd_sms_deleteall env msg who m w
   | EXMPP_CMD_SMS_DELETE \<Rightarrow> proc_cmd_sms_delete msg m w
   | EXMPP_CMD_SMS_GET \<Rightarrow> proc_cmd_sms_get env msg m w
   | EXMPP_CMD_SMS_SEND \<Rightarrow> proc_cmd_sms_send env msg who m w
   | EXMPP_CMD_SMS_LIST_UPDATE \<Rightarrow> proc_cmd_sms_list_update env msg who m w
   | EXMPP_CMD_SMS_GET_TOTAL \<Rightarrow> proc_cmd_sms_get_total env msg m w
   | EXMPP_CMD_FMW_GET_VERSION \<Rightarrow> proc_cmd_fmw_get_version env msg m w
   | EXMPP_CMD_FMW_UPDATE \<Rightarrow> proc_cmd_fmw_update env msg who m w
   | EXMPP_CMD_FMW_UPDATE_STS \<Rightarrow> proc_cmd_fmw_update_sts env msg m w
   | EXMPP_CMD_FMW_UPDATE_RES \<Rightarrow> proc_cmd_fmw_update_res env msg m w
   | EXMPP_CMD_FMW_REBOOT \<Rightarrow> proc_cmd_fmw_reboot env msg who m w
   | EXMPP_CMD_FMW_POWEROFF \<Rightarrow> proc_cmd_fmw_poweroff env msg who m w
   | EXMPP_CMD_FMW_UPTIME \<Rightarrow> proc_cmd_fmw_uptime env msg m w
   | EXMPP_CMD_FMW_HOSTNAME \<Rightarrow> proc_cmd_fmw_hostname env msg m w
   | EXMPP_CMD_FMW_GET_MYIP \<Rightarrow> proc_cmd_fmw_get_myip env msg m w
   | EXMPP_CMD_FMW_RESET_HOSTNAME \<Rightarrow> proc_cmd_fmw_set_default_hostname env msg m w
   | EXMPP_CMD_DIAL_VOICE \<Rightarrow> proc_cmd_dial_voice env msg ''dial_voice'' who m w
   | EXMPP_CMD_DIAL_USSD \<Rightarrow> proc_cmd_dial_voice env msg ''dial_ussd'' who m w
   | EXMPP_CMD_GET_USSD \<Rightarrow> proc_cmd_get_ussd env msg m w
   | EXMPP_CMD_DEBUG_LOG_STS \<Rightarrow> proc_cmd_logsts env msg m w
   | EXMPP_CMD_GSM_MODEM_IDENT \<Rightarrow> proc_cmd_gsm_modem_identify env msg who m w
   | EXMPP_CMD_LOG_UPDATE \<Rightarrow> proc_cmd_log_list_update env msg who m w
   | EXMPP_CMD_LOG_COUNT \<Rightarrow> proc_cmd_log_get_count env msg m w
   | EXMPP_CMD_LOG_MSG \<Rightarrow> proc_cmd_log_get_line env msg m w
   | EXMPP_CMD_FMW_GET_LOCALIP \<Rightarrow> proc_cmd_fmw_get_localip env msg m w
   | EXMPP_CMD_GPIO \<Rightarrow> proc_cmd_gpio env msg m w
   | EXMPP_CMD_GSM_EVENT_NOTIFY \<Rightarrow> of_pure (proc_cmd_event_gsm env msg who m) w
   | EXMPP_CMD_GPIO_EVENT_NOTIFY \<Rightarrow> of_pure (proc_cmd_event_gpio env msg who m) w
   | EXMPP_CMD_SLEEP \<Rightarrow> proc_cmd_sleep msg m w
   | EXMPP_CMD_ACCOUNT \<Rightarrow> proc_cmd_account_name msg m w
   | EXMPP_CMD_BOTNAME \<Rightarrow> proc_cmd_bot_name env msg m w
   | EXMPP_CMD_BUDDY_LIST \<Rightarrow> proc_cmd_buddy_list env msg m w
   | EXMPP_CMD_SHELLCMD \<Rightarrow> proc_cmd_shellcmd env msg who EXMPP_CMD_SHELLCMD m w
   | EXMPP_CMD_SHELLCMD_RESP \<Rightarrow> proc_cmd_shellcmdresp msg who m w
   | EXMPP_CMD_SHELLCMD_TRIG \<Rightarrow> proc_cmd_shellcmd env msg who EXMPP_CMD_SHELLCMD_TRIG m w
   | EXMPP_CMD_DEVIDENT \<Rightarrow> proc_cmd_devident env msg who m w
   | EXMPP_CMD_SHUTDOWN \<Rightarrow> proc_cmd_xmpshutdown env msg who m w
   | EXMPP_CMD_SONOFF \<Rightarrow> proc_cmd_sonoff env msg m w
   | EXMPP_CMD_DISPCLEAR \<Rightarrow> proc_cmd_disp_clear env msg m w
   | EXMPP_CMD_DISPPRINT \<Rightarrow> proc_cmd_disp_print env msg m w
   | EXMPP_CMD_DISPBKLT \<Rightarrow> proc_cmd_disp_backlight env msg m w
   | EXMPP_CMD_BUDDY_ADD \<Rightarrow> proc_cmd_buddy_add msg who m w
   | EXMPP_CMD_BUDDY_REMOVE \<Rightarrow> proc_cmd_buddy_remove msg who m w
   | EXMPP_CMD_BUDDY_SUBSCRIBE \<Rightarrow> proc_cmd_buddy_subscribe msg who m w
   | EXMPP_CMD_BUDDY_UNSUBSCRIBE \<Rightarrow> proc_cmd_buddy_unsubscribe msg who m w
   | EXMPP_CMD_ACCEPT_BUDDY_LIST \<Rightarrow> proc_cmd_accept_buddy_list msg m w
   | EXMPP_CMD_RELAY_MESSAGE \<Rightarrow> proc_cmd_relay_message env msg who m w
   | _ \<Rightarrow> quick RPC_SRV_RESULT_UNKNOWN_COMMAND m w)"

definition response :: "RPC_SRV_RESULT \<Rightarrow> string \<Rightarrow> string" where
  "response res s = ''return='' @ rpc_server_result_table ! rpc_code res @ '' : result='' @ s"

fun run_parts :: "'w xmpp_env \<Rightarrow> string list \<Rightarrow> string \<Rightarrow> XmppMgr \<Rightarrow> 'w \<Rightarrow> (XmppMgr \<times> 'w) kres" where
  "run_parts env [] who m w = kret (m, w)"
| "run_parts env (p # ps) who m w = kbind (run_command env p who m w) (\<lambda>(res, s, m, w).
     kbind (reply_with (response res s) who m) (\<lambda>m. run_parts env ps who m w))"

definition process_entry :: "'w xmpp_env \<Rightarrow> XmppCmdEntry \<Rightarrow> XmppMgr \<Rightarrow> 'w \<Rightarrow> (XmppMgr \<times> 'w) kres" where
  "process_entry env e m w =
     (if is_alias_cmd e then
        (case proc_cmd_alias env (cmdMsg e) m of (res, s, m) \<Rightarrow> kbind (reply_with (response res s) (sender e) m) (\<lambda>m. kret (m, w)))
      else run_parts env (expand_cmds (AliasList m) (cmdMsg e)) (sender e) m w)"

text \<open>
  The loop of the thread: the entry is removed after it was processed, and an alias command ends the loop. Messages
  that arrive meanwhile wake the thread again.
\<close>

fun cmd_loop :: "'w xmpp_env \<Rightarrow> XmppCmdEntry list \<Rightarrow> XmppMgr \<Rightarrow> 'w \<Rightarrow> (XmppMgr \<times> 'w) kres" where
  "cmd_loop env [] m w = kret (m, w)"
| "cmd_loop env (e # es) m w = kbind (process_entry env e m w) (\<lambda>(m, w).
     let m = m\<lparr>processCmd := es\<rparr> in if is_alias_cmd e then kret (m, w) else cmd_loop env es m w)"

text \<open>One wakeup of the thread.\<close>

definition cmd_thread :: "'w xmpp_env \<Rightarrow> XmppMgr \<Rightarrow> 'w \<Rightarrow> (XmppMgr \<times> 'w) kres" where
  "cmd_thread env m w = cmd_loop env (processCmd m) (m\<lparr>cmd_sema := cmd_sema m - 1\<rparr>) w"

section \<open>The end of tasks, and events\<close>

definition RpcResponseCallback :: "string \<Rightarrow> s32 \<Rightarrow> string \<Rightarrow> XmppMgr \<Rightarrow> XmppMgr kres" where
  "RpcResponseCallback taskRes tid who m =
     reply_with (''return='' @ taskRes @ '' : result='' @ ''taskID='' @ show_int (sint tid)) who m"

definition RpcResponseCallback_res :: "RPC_SRV_RESULT \<Rightarrow> s32 \<Rightarrow> string \<Rightarrow> XmppMgr \<Rightarrow> XmppMgr kres" where
  "RpcResponseCallback_res taskRes tid who m = RpcResponseCallback (rpc_server_result_table ! rpc_code taskRes) tid who m"

fun send_events :: "roster \<Rightarrow> string \<Rightarrow> s32 \<Rightarrow> EventSubscrEntry list \<Rightarrow> ADXmppProxy \<Rightarrow> ADXmppProxy kres" where
  "send_events ro t a [] x = kret x"
| "send_events ro t a (e # es) x =
     (if m_EvntType e = EXMPP_EVNT_GPIO \<and> m_EvntArg e = a \<and> m_Status e then
        kbind (SendMessageToBuddy ro (subscriber e) t ''event'' x) (\<lambda>(_, x). send_events ro t a es x)
      else send_events ro t a es x)"

definition GpioEventCallback :: "roster \<Rightarrow> s32 \<Rightarrow> XmppMgr \<Rightarrow> XmppMgr kres" where
  "GpioEventCallback ro evntArg m =
     kbind (send_events ro (''eventgpio '' @ show_int (sint evntArg)) evntArg (myEventList m) (XmppProxy m)) (\<lambda>x. kret (m\<lparr>XmppProxy := x\<rparr>))"

text \<open>The event handler: its subscriptions, with the tokens that the services gave.\<close>

record EvntHandler =
  sysmgrEventActive :: bool
  sysMgrSrvToken :: s32
  bboxSmsEventActive :: bool
  bboxSmsSrvToken :: s32
  gpioEventActive :: bool
  gpioSrvToken :: s32

text \<open>A client of a service, as the macros of \<open>ADCommon.hpp\<close> use it; the token stays as it was without an answer.\<close>

definition SUBSCRIBE_EVENT :: "'w xmpp_env \<Rightarrow> string \<Rightarrow> s32 \<Rightarrow> s32 \<Rightarrow> s32 \<Rightarrow> s32 \<Rightarrow> s32 \<Rightarrow> 'w \<Rightarrow> (s32 \<times> 'w) kres" where
  "SUBSCRIBE_EVENT env ip destPort srvToken cltToken evntNum srcPort w =
     (case rpc_server_connect (xe_sock env) ip destPort client_new w of (r, c, w) \<Rightarrow>
        if r \<noteq> 0 then kret (srvToken, w)
        else kbind (value_out (set_three_int_get_one_int (xe_clt env) (xe_sock env) ''subscribe_event'' ''cltToken'' cltToken ''port'' srcPort
            ''evntNum'' evntNum ''srvToken'' c w)) (\<lambda>((_, v), c, w).
          kret (case v of Some (OInt i) \<Rightarrow> i | _ \<Rightarrow> srvToken, snd (snd (rpc_server_disconnect (xe_sock env) c w)))))"

definition UNSUBSCRIBE_EVENT :: "'w xmpp_env \<Rightarrow> string \<Rightarrow> s32 \<Rightarrow> s32 \<Rightarrow> 'w \<Rightarrow> 'w kres" where
  "UNSUBSCRIBE_EVENT env ip destPort srvToken w =
     (case rpc_server_connect (xe_sock env) ip destPort client_new w of (r, c, w) \<Rightarrow>
        if r \<noteq> 0 then kret w
        else kbind (set_integer_type (xe_clt env) (xe_sock env) ''unsubscribe_event'' ''srvToken'' srvToken c w)
          (\<lambda>(_, _, c, w). kret (snd (snd (rpc_server_disconnect (xe_sock env) c w)))))"

definition EvntHandler_new :: "'w xmpp_env \<Rightarrow> 'w \<Rightarrow> (EvntHandler \<times> 'w) kres" where
  "EvntHandler_new env w =
     kbind (SUBSCRIBE_EVENT env ''127.0.0.1'' ADCMN_PORT_SYSMGR (-1) ADCMN_PORT_SYSMGR (-1) ADCMN_PORT_XMPROXY w) (\<lambda>(s, w).
     kbind (SUBSCRIBE_EVENT env ''127.0.0.1'' ADCMN_PORT_BBOXSMS (-1) ADCMN_PORT_BBOXSMS (-1) ADCMN_PORT_XMPROXY w) (\<lambda>(b, w).
     kbind (SUBSCRIBE_EVENT env ''127.0.0.1'' ADCMN_PORT_GPIOCTL (-1) ADCMN_PORT_GPIOCTL (-1) ADCMN_PORT_XMPROXY w) (\<lambda>(g, w).
     kret (\<lparr>sysmgrEventActive = (s \<noteq> -1), sysMgrSrvToken = s, bboxSmsEventActive = (b \<noteq> -1), bboxSmsSrvToken = b,
       gpioEventActive = (g \<noteq> -1), gpioSrvToken = g\<rparr>, w))))"

definition EvntHandler_delete :: "'w xmpp_env \<Rightarrow> EvntHandler \<Rightarrow> 'w \<Rightarrow> 'w kres" where
  "EvntHandler_delete env h w =
     kbind (if sysmgrEventActive h then UNSUBSCRIBE_EVENT env ''127.0.0.1'' ADCMN_PORT_SYSMGR (sysMgrSrvToken h) w else kret w) (\<lambda>w.
     kbind (if bboxSmsEventActive h then UNSUBSCRIBE_EVENT env ''127.0.0.1'' ADCMN_PORT_BBOXSMS (bboxSmsSrvToken h) w else kret w) (\<lambda>w.
     if gpioEventActive h then UNSUBSCRIBE_EVENT env ''127.0.0.1'' ADCMN_PORT_GPIOCTL (gpioSrvToken h) w else kret w))"

definition mark_dead :: "s32 \<Rightarrow> EvntHandler \<Rightarrow> EvntHandler" where
  "mark_dead tok h = h\<lparr>sysmgrEventActive := sysmgrEventActive h \<and> tok \<noteq> ADCMN_PORT_SYSMGR,
     bboxSmsEventActive := bboxSmsEventActive h \<and> tok \<noteq> ADCMN_PORT_BBOXSMS,
     gpioEventActive := gpioEventActive h \<and> tok \<noteq> ADCMN_PORT_GPIOCTL\<rparr>"

text \<open>The status of the task, as its service reports it; without an answer to the call the array holds \<open>unknown\<close>.\<close>

definition task_finished :: "'w xmpp_env \<Rightarrow> s32 \<Rightarrow> s32 \<Rightarrow> XmppMgr \<Rightarrow> 'w \<Rightarrow> (XmppMgr \<times> 'w) kres" where
  "task_finished env tok tid m w = (case AccessAsyncTaskList tid tok False [] m of (res, n, who, m) \<Rightarrow>
     if res \<noteq> RPC_SRV_RESULT_SUCCESS then kret (m, w)
     else case rpc_server_connect (xe_sock env) ''127.0.0.1'' tok client_new w of (r, c, w) \<Rightarrow>
       if r \<noteq> 0 then kret (m, w)
       else kbind (value_out (get_string_type_with_string_para (xe_clt env) (xe_sock env) ''get_rpc_req_status'' ''taskId''
           (show_int (sint tid)) (Some ''taskStatus'') c w)) (\<lambda>((_, v), c, w).
         kbind (store 255 (xe_junk env) v) (\<lambda>s.
         kbind (RpcResponseCallback s (case n of None \<Rightarrow> -1 | Some x \<Rightarrow> x) who m) (\<lambda>m.
         kret (m, snd (snd (rpc_server_disconnect (xe_sock env) c w)))))))"

definition ReceiveEvent ::
  "'w xmpp_env \<Rightarrow> s32 \<Rightarrow> s32 \<Rightarrow> s32 \<Rightarrow> EvntHandler \<Rightarrow> XmppMgr \<Rightarrow> 'w \<Rightarrow> (EvntHandler \<times> XmppMgr \<times> 'w) kres" where
  "ReceiveEvent env cltToken evntNum evntArg h m w =
     (let h = (if evntNum = 1 then mark_dead cltToken h else h) in
      if evntNum = 0 then kbind (task_finished env cltToken evntArg m w) (\<lambda>(m, w). kret (h, m, w))
      else if cltToken = ADCMN_PORT_GPIOCTL \<and> evntNum = 5 then
        kbind (GpioEventCallback (xe_roster env) evntArg m) (\<lambda>m. kret (h, m, w))
      else kret (h, m, w))"

end
