(* ===== verification/Xmpp_Files.thy ===== *)
theory Xmpp_Files
  imports Xmpp_Mgr
begin

text \<open>
  What is proved of the files of the XMPP service: the aliases and the event subscriptions are the same after a restart, an
  alias that was defined is what a message expands to, and an account file without a line feed at its end makes the password the
  name of the admins.
\<close>

section \<open>Aliases\<close>

definition alias_pair :: "string \<times> string \<Rightarrow> bool" where
  "alias_pair kv \<longleftrightarrow> CHR 0x0A \<notin> set (fst kv) \<and> CHR ''='' \<notin> set (fst kv) \<and> CHR 0x0A \<notin> set (snd kv) \<and> CHR ''='' \<notin> set (snd kv)"

definition put_pairs :: "(string \<times> string) list \<Rightarrow> string str_map" where
  "put_pairs ps = foldl (\<lambda>al (k, v). map_put k v al) [] ps"

text \<open>The file holds lines whose pairs give the list of the aliases.\<close>

definition alias_saved :: "XmppMgr \<Rightarrow> bool" where
  "alias_saved m \<longleftrightarrow> (\<exists>ps. file_text (AliasListFile m) m = concat (map alias_line ps) \<and> list_all alias_pair ps \<and> AliasList m = put_pairs ps)"

lemma put_pairs_snoc [simp]: "put_pairs (ps @ [(k, v)]) = map_put k v (put_pairs ps)"
  by (simp add: put_pairs_def)

lemma put_pairs_ok: "map_ok (put_pairs ps)"
  by (induction ps rule: rev_induct) (auto simp: map_ok_put, simp add: put_pairs_def map_ok_def)

lemma set_put_sub: "set (map_put k v m) \<subseteq> insert (k, v) (set m)"
  by (induction k v m rule: map_put.induct) auto

lemma set_put_pairs: "set (put_pairs ps) \<subseteq> set ps"
proof (induction ps rule: rev_induct)
  case (snoc p ps)
  obtain k v where p: "p = (k, v)" by (cases p)
  show ?case using snoc set_put_sub [of k v "put_pairs ps"] by (auto simp: p)
qed (simp add: put_pairs_def)

lemma put_pairs_self: "map_ok m \<Longrightarrow> put_pairs m = m"
  using map_put_all [of "[]" m] by (simp add: put_pairs_def)

lemma alias_lines:
  "list_all alias_pair ps \<Longrightarrow> file_lines (concat (map alias_line ps)) = map (\<lambda>(k, v). k @ CHR ''='' # v) ps"
proof -
  assume a: "list_all alias_pair ps"
  let ?l = "\<lambda>(k, v). k @ CHR ''='' # v"
  have "alias_line p = ?l p @ [CHR 0x0A]" for p by (cases p) (simp add: alias_line_def)
  then have "map alias_line ps = map (\<lambda>l. l @ [CHR 0x0A]) (map ?l ps)" by simp
  moreover have "list_all (\<lambda>l. CHR 0x0A \<notin> set l) (map ?l ps)" using a by (auto simp: list_all_iff alias_pair_def)
  ultimately show ?thesis using file_lines_unlines [of "map ?l ps"] by metis
qed

lemma load_pairs:
  "list_all alias_pair ps \<Longrightarrow>
     foldl (\<lambda>al l. case two_parts (CHR ''='') l of (k, v) \<Rightarrow> map_put k v al) al (map (\<lambda>(k, v). k @ CHR ''='' # v) ps)
     = foldl (\<lambda>al (k, v). map_put k v al) al ps"
  by (induction ps arbitrary: al) (auto simp: alias_pair_def two_parts_free)

text \<open>What a new start of the service loads.\<close>

definition reload_aliases :: "XmppMgr \<Rightarrow> string str_map" where
  "reload_aliases m = AliasList (snd (LoadAliasList (AliasListFile m) (m\<lparr>AliasList := []\<rparr>)))"

lemma file_text_upd [simp]:
  "file_text f (m\<lparr>AliasList := a\<rparr>) = file_text f m" "file_text f (m\<lparr>myEventList := e\<rparr>) = file_text f m"
  by (simp_all add: file_text_def)

lemma saved_reload: "alias_saved m \<Longrightarrow> AliasListFile m \<noteq> [] \<Longrightarrow> reload_aliases m = AliasList m"
  by (auto simp: alias_saved_def reload_aliases_def LoadAliasList_def alias_lines load_pairs put_pairs_def)

lemma two_parts_sub:
  assumes "two_parts c s = (a, b)"
  shows "c \<notin> set a" "c \<notin> set b" "set b \<subseteq> set s"
proof -
  have sub: "p \<in> set (split_on c s) \<Longrightarrow> set p \<subseteq> set s" for p
    by (induction s arbitrary: p) (fastforce split: list.splits if_splits)+
  have "a \<in> set (split_on c s) \<or> a = []" "b \<in> set (split_on c s) \<or> b = []"
    using assms by (auto simp: two_parts_def split: list.splits)
  then show "c \<notin> set a" "c \<notin> set b" "set b \<subseteq> set s" using sub split_on_free_parts [of _ c s] by auto
qed

lemma in_dropWhile: "x \<in> set (dropWhile P xs) \<Longrightarrow> x \<in> set xs"
  by (rule set_dropWhileD)

lemma key_of_parts:
  assumes "CHR ''='' \<notin> set c"
  shows "CHR ''='' \<notin> set (dropWhile is_space (rest_line (snd (read_word c))))" "CHR 0x0A \<notin> set (dropWhile is_space (rest_line (snd (read_word c))))"
proof -
  let ?r = "rest_line (snd (read_word c))"
  have "set ?r \<subseteq> set c" by (auto simp: rest_line_def read_word_def Let_def dest!: set_takeWhileD set_dropWhileD)
  moreover have "CHR 0x0A \<notin> set ?r" by (auto simp: rest_line_def dest: set_takeWhileD)
  ultimately show "CHR ''='' \<notin> set (dropWhile is_space ?r)" "CHR 0x0A \<notin> set (dropWhile is_space ?r)"
    using assms set_dropWhileD [of _ is_space ?r] by blast+
qed

lemma saved_rewrite:
  assumes "map_ok al" "list_all alias_pair al" "can_write env (AliasListFile m)" "AliasListFile m \<noteq> []"
  shows "alias_saved (snd (RewriteAliasList env (AliasListFile m) (m\<lparr>AliasList := al\<rparr>)))"
  unfolding alias_saved_def using assms
  by (intro exI [of _ al]) (simp add: RewriteAliasList_def rewrite_file_def file_text_def put_pairs_self)

lemma alias_files [simp]:
  "AliasListFile (snd (RewriteAliasList env f m)) = AliasListFile m" "AliasListFile (snd (ExtendAliasList env f k v m)) = AliasListFile m"
  by (simp_all add: RewriteAliasList_def ExtendAliasList_def rewrite_file_def append_text_def)

lemma saved_ok: "alias_saved m \<Longrightarrow> map_ok (AliasList m) \<and> list_all alias_pair (AliasList m)"
proof -
  assume "alias_saved m"
  then obtain ps where "list_all alias_pair ps" "AliasList m = put_pairs ps" by (auto simp: alias_saved_def)
  then show ?thesis using put_pairs_ok [of ps] set_put_pairs [of ps] by (auto simp: list_all_iff)
qed

lemma alias_step:
  assumes saved: "alias_saved m" and f: "AliasListFile m \<noteq> []" "can_write env (AliasListFile m)" and msg: "CHR 0x0A \<notin> set msg"
    and r: "proc_cmd_alias env msg m = (res, s, m')"
  shows "alias_saved m' \<and> AliasListFile m' = AliasListFile m"
proof (cases "msg = ''Alias'' \<or> msg = ''alias''")
  case True
  then show ?thesis using saved r by (auto simp: proc_cmd_alias_def)
next
  case False
  obtain c v where p: "two_parts (CHR ''='') msg = (c, v)" by (cases "two_parts (CHR ''='') msg")
  define k where "k = dropWhile is_space (rest_line (snd (read_word c)))"
  have kv: "alias_pair (k, v)" using two_parts_sub [OF p] key_of_parts [of c] msg by (auto simp: alias_pair_def k_def)
  have ok: "map_ok (AliasList m)" "list_all alias_pair (AliasList m)" using saved_ok [OF saved] by auto
  have "list_all alias_pair (map_erase k (AliasList m))" using ok(2) by (auto simp: map_erase_def list_all_iff)
  then have e: "map_ok (map_erase k (AliasList m))" "list_all alias_pair (map_erase k (AliasList m))"
    using map_ok_erase [OF ok(1)] by simp_all
  have pe: "list_all alias_pair (map_put k v (map_erase k (AliasList m)))"
    using e(2) kv set_put_sub [of k v "map_erase k (AliasList m)"] by (auto simp: list_all_iff)
  consider "v = []" | "v \<noteq> []" "map_of (AliasList m) k \<noteq> None" | "v \<noteq> []" "map_of (AliasList m) k = None" by blast
  then show ?thesis
  proof cases
    case 1
    then have "m' = snd (RewriteAliasList env (AliasListFile m) (m\<lparr>AliasList := map_erase k (AliasList m)\<rparr>))"
      using r False p by (simp add: proc_cmd_alias_def k_def)
    then show ?thesis using saved_rewrite [OF e f(2,1)] by simp
  next
    case 2
    then have "m' = snd (RewriteAliasList env (AliasListFile m) (m\<lparr>AliasList := map_put k v (map_erase k (AliasList m))\<rparr>))"
      using r False p by (auto simp: proc_cmd_alias_def k_def Let_def)
    then show ?thesis using saved_rewrite [OF map_ok_put [OF e(1)] pe f(2,1)] by simp
  next
    case 3
    then have m': "m' = snd (ExtendAliasList env (AliasListFile m) k v (m\<lparr>AliasList := map_put k v (AliasList m)\<rparr>))"
      using r False p by (auto simp: proc_cmd_alias_def k_def Let_def)
    obtain ps where ps: "file_text (AliasListFile m) m = concat (map alias_line ps)" "list_all alias_pair ps" "AliasList m = put_pairs ps"
      using saved by (auto simp: alias_saved_def)
    have "alias_saved m'" unfolding alias_saved_def using f ps kv
      by (intro exI [of _ "ps @ [(k, v)]"]) (simp add: m' ExtendAliasList_def append_text_def, simp add: file_text_def)
    then show ?thesis by (simp add: m')
  qed
qed

text \<open>A sequence of alias commands.\<close>

definition alias_cmds :: "'w xmpp_env \<Rightarrow> string list \<Rightarrow> XmppMgr \<Rightarrow> XmppMgr" where
  "alias_cmds env msgs m = fold (\<lambda>msg m. snd (snd (proc_cmd_alias env msg m))) msgs m"

lemma alias_cmds_saved:
  "alias_saved m \<Longrightarrow> AliasListFile m \<noteq> [] \<Longrightarrow> can_write env (AliasListFile m) \<Longrightarrow> list_all (\<lambda>t. CHR 0x0A \<notin> set t) msgs \<Longrightarrow>
     alias_saved (alias_cmds env msgs m) \<and> AliasListFile (alias_cmds env msgs m) = AliasListFile m"
proof (induction msgs arbitrary: m)
  case (Cons t ts)
  obtain res s m' where r: "proc_cmd_alias env t m = (res, s, m')" by (cases "proc_cmd_alias env t m")
  then show ?case using Cons.IH [of m'] Cons.prems alias_step [OF Cons.prems(1,2,3) _ r] by (simp add: alias_cmds_def)
qed (simp add: alias_cmds_def)

text \<open>
  Property C8: aliases survive a restart. However many alias commands define, change and delete aliases, starting without a file of aliases and as long as
  the file can be written and no message has a line feed, the service loads exactly the list of aliases it had.
\<close>

theorem aliases_survive_restart:
  assumes "AliasListFile m \<noteq> []" "can_write env (AliasListFile m)" "AliasList m = []" "fs m (AliasListFile m) = None"
    "list_all (\<lambda>t. CHR 0x0A \<notin> set t) msgs"
  shows "reload_aliases (alias_cmds env msgs m) = AliasList (alias_cmds env msgs m)"
proof -
  have "alias_saved m" unfolding alias_saved_def using assms by (intro exI [of _ "[]"]) (simp add: file_text_def put_pairs_def)
  then show ?thesis using alias_cmds_saved [OF _ assms(1,2,5)] saved_reload assms(1) by auto
qed

text \<open>Surroundings for examples: nothing can be reached, and every file can be written.\<close>

definition silent_env :: "nat xmpp_env" where
  "silent_env = \<lparr>xe_clt = \<lparr>clib = \<lparr>tokener_parse = (\<lambda>_. None), object_get = (\<lambda>_ _. None), get_string = (\<lambda>_. None), to_json_string = (\<lambda>_. [])\<rparr>,
     get_int = (\<lambda>_. 0), clt_ulong_max = 0\<rparr>,
     xe_sock = \<lparr>sock_open = (\<lambda>_ _ w. (False, w)), sock_close = (\<lambda>w. w), sock_send = (\<lambda>_ w. w), sock_recv = (\<lambda>_ w. (None, w))\<rparr>,
     xe_junk = [], can_write = (\<lambda>_. True), host_addr = (\<lambda>_. None), xe_roster = [], xe_ends = True\<rparr>"

definition files_at :: XmppMgr where
  "files_at = (xmpp_new (\<lambda>_. None))\<lparr>AliasListFile := ''/etc/alias'', EventSubscrListFile := ''/etc/events''\<rparr>"

lemma files_at_fields [simp]:
  "AliasListFile files_at = ''/etc/alias''" "EventSubscrListFile files_at = ''/etc/events''" "AliasList files_at = []"
  "myEventList files_at = []" "fs files_at p = None" "can_write silent_env p"
  by (simp_all add: files_at_def xmpp_new_def silent_env_def)

theorem aliases_survive_restart_witness:
  "reload_aliases (alias_cmds silent_env [''alias on=gpio 2 1'', ''alias off=gpio 2 0'', ''alias on=''] files_at) =
   AliasList (alias_cmds silent_env [''alias on=gpio 2 1'', ''alias off=gpio 2 0'', ''alias on=''] files_at)"
  using aliases_survive_restart [of files_at silent_env "[''alias on=gpio 2 1'', ''alias off=gpio 2 0'', ''alias on='']"] by simp

lemma read_alias: "read_word (''alias '' @ k) = (''alias'', CHR '' '' # k)"
  by (simp add: read_word_def is_space_def)

lemma alias_list_kept [simp]:
  "AliasList (snd (RewriteAliasList env f m)) = AliasList m" "AliasList (snd (ExtendAliasList env f k v m)) = AliasList m"
  by (simp_all add: RewriteAliasList_def ExtendAliasList_def rewrite_file_def append_text_def)

lemma alias_define:
  assumes k: "CHR ''='' \<notin> set k" "CHR 0x0A \<notin> set k" "k \<noteq> []" "\<not> is_space (hd k)" and v: "v \<noteq> []" "CHR ''='' \<notin> set v"
    and ok: "map_ok (AliasList m)"
  shows "map_of (AliasList (snd (snd (proc_cmd_alias env (''alias '' @ k @ ''='' @ v) m)))) = (map_of (AliasList m))(k \<mapsto> v)"
proof -
  let ?msg = "''alias '' @ k @ ''='' @ v"
  have "CHR ''='' \<notin> set (''alias '' @ k)" using k(1) by simp
  then have p: "two_parts (CHR ''='') ?msg = (''alias '' @ k, v)" using two_parts_free [of "CHR ''=''" "''alias '' @ k" v] v(2) by simp
  have "rest_line (CHR '' '' # k) = CHR '' '' # k" using k(2) by (auto simp: rest_line_def takeWhile_eq_all_conv)
  moreover have "dropWhile is_space (CHR '' '' # k) = k" using k(3,4) by (cases k) (auto simp: is_space_def)
  ultimately have key: "dropWhile is_space (rest_line (snd (read_word (''alias '' @ k)))) = k" by (simp only: read_alias snd_conv)
  have ne: "?msg \<noteq> ''Alias''" "?msg \<noteq> ''alias''" by simp_all
  have "map_of (map_put k v (map_erase k (AliasList m))) = (map_of (AliasList m))(k \<mapsto> v)"
    by (simp add: map_of_put map_ok_erase ok map_of_erase)
  then show ?thesis
    by (simp only: proc_cmd_alias_def ne p prod.case key Let_def v(1) if_False simp_thms) (simp add: map_of_put ok)
qed

text \<open>
  Fact: an alias is what a message expands to. After \<open>alias k=v\<close>, a message that is \<open>k\<close> up to the case of its letters runs the one
  command \<open>v\<close>, whatever was defined before, if \<open>k\<close> is in lower case and \<open>v\<close> is a single command that is not an alias itself.
\<close>

theorem alias_expands:
  assumes k: "CHR ''='' \<notin> set k" "CHR 0x0A \<notin> set k" "k \<noteq> []" "\<not> is_space (hd k)" and v: "v \<noteq> []" "CHR ''='' \<notin> set v" "CHR '';'' \<notin> set v"
    and ok: "map_ok (AliasList m)" and single: "v \<noteq> k" "map_of (AliasList m) v = None" and msg: "lower_case msg = k"
  shows "expand_cmds (AliasList (snd (snd (proc_cmd_alias env (''alias '' @ k @ ''='' @ v) m)))) msg = [v]"
  using alias_define [OF k v(1,2) ok, of env] v(3) single msg by (simp add: expand_cmds_def split_on_free)

theorem alias_expands_witness:
  "expand_cmds (AliasList (snd (snd (proc_cmd_alias silent_env ''alias light on=gpio 2 1'' files_at)))) ''Light On'' = [''gpio 2 1'']"
proof -
  have l: "lower_case ''Light On'' = ''light on''" by code_simp
  show ?thesis using alias_expands [of "''light on''" "''gpio 2 1''" files_at "''Light On''" silent_env] l
    by (simp add: map_ok_def is_space_def)
qed

section \<open>Event subscriptions\<close>

definition is_word :: "string \<Rightarrow> bool" where
  "is_word a \<longleftrightarrow> a \<noteq> [] \<and> list_all (\<lambda>c. \<not> is_space c) a"

definition subscr_ok :: "EventSubscrEntry \<Rightarrow> bool" where
  "subscr_ok e \<longleftrightarrow> is_word (subscriber e) \<and> (m_EvntType e = EXMPP_EVNT_GSM \<or> m_EvntType e = EXMPP_EVNT_GPIO)"

definition entry_line :: "EventSubscrEntry \<Rightarrow> string" where
  "entry_line e = subscr_line (subscriber e) (m_EvntType e) (m_EvntArg e)"

definition events_saved :: "XmppMgr \<Rightarrow> bool" where
  "events_saved m \<longleftrightarrow> list_all subscr_ok (myEventList m) \<and>
     file_text (EventSubscrListFile m) m = concat (map entry_line (filter m_Status (myEventList m)))"

definition reload_events :: "XmppMgr \<Rightarrow> EventSubscrEntry list" where
  "reload_events m = myEventList (snd (LoadEventSubscrList (EventSubscrListFile m) (m\<lparr>myEventList := []\<rparr>)))"

lemma read_word_at:
  assumes "is_word a" "t = [] \<or> is_space (hd t)" "list_all is_space bs"
  shows "read_word (bs @ a @ t) = (a, t)"
proof -
  have "dropWhile is_space (bs @ a @ t) = a @ t" using assms(1,3)
    by (cases a) (auto simp: is_word_def list_all_iff dropWhile_append2)
  moreover have "takeWhile (\<lambda>c. \<not> is_space c) (a @ t) = a" "dropWhile (\<lambda>c. \<not> is_space c) (a @ t) = t"
    using assms(1,2) by (cases t; auto simp: is_word_def list_all_iff takeWhile_append2 dropWhile_append2)+
  ultimately show ?thesis by (simp add: read_word_def)
qed

lemma show_int_word: "is_word (show_int i)"
proof -
  have "c \<in> set (dec_nat n) \<Longrightarrow> \<not> is_space c" for c n using dec_nat_digits [of n] digit_not_space by (auto simp: list_all_iff)
  then show ?thesis by (auto simp: is_word_def show_int_def list_all_iff)
qed

lemma evnt_name_word: "is_word (evnt_name ty)"
  by (cases ty) (simp_all add: is_word_def is_space_def)

lemma read_entry:
  assumes ok: "subscr_ok e" and on: "m_Status e"
  shows "read_subscr (subscriber e @ '' '' @ evnt_name (m_EvntType e) @ '' '' @ show_int (sint (m_EvntArg e))) = [e]"
proof -
  let ?n = "show_int (sint (m_EvntArg e))" and ?t = "evnt_name (m_EvntType e)"
  let ?l = "subscriber e @ '' '' @ ?t @ '' '' @ ?n"
  have sp: "is_space CHR '' ''" by (simp add: is_space_def)
  have 1: "read_word ?l = (subscriber e, '' '' @ ?t @ '' '' @ ?n)"
    using read_word_at [of "subscriber e" "'' '' @ ?t @ '' '' @ ?n" "[]"] ok sp by (simp add: subscr_ok_def)
  have 2: "read_word ('' '' @ ?t @ '' '' @ ?n) = (?t, '' '' @ ?n)"
    using read_word_at [of ?t "'' '' @ ?n" "'' ''"] evnt_name_word sp by simp
  have 3: "read_word ('' '' @ ?n) = (?n, [])" using read_word_at [of ?n "[]" "'' ''"] show_int_word sp by simp
  have f: "first_word ?l = subscriber e" "second_word ?l = ?t" "third_word ?l = ?n"
    by (simp_all only: first_word_def second_word_def third_word_def 1 2 3 fst_conv snd_conv)
  have "atoi ?n = m_EvntArg e" by (simp add: atoi_show_int)
  then show ?thesis unfolding read_subscr_def f Let_def using ok on by (cases e) (auto simp: subscr_ok_def)
qed

lemma word_no_nl: "is_word a \<Longrightarrow> CHR 0x0A \<notin> set a"
  by (auto simp: is_word_def list_all_iff is_space_def)

lemma load_entries:
  "list_all subscr_ok es \<Longrightarrow> list_all m_Status es \<Longrightarrow> concat (map read_subscr (file_lines (concat (map entry_line es)))) = es"
proof -
  assume a: "list_all subscr_ok es" "list_all m_Status es"
  let ?l = "\<lambda>e. subscriber e @ '' '' @ evnt_name (m_EvntType e) @ '' '' @ show_int (sint (m_EvntArg e))"
  have "entry_line e = ?l e @ [CHR 0x0A]" for e by (simp add: entry_line_def subscr_line_def)
  then have m: "map entry_line es = map (\<lambda>l. l @ [CHR 0x0A]) (map ?l es)" by simp
  have "list_all (\<lambda>l. CHR 0x0A \<notin> set l) (map ?l es)"
    using a(1) word_no_nl [OF evnt_name_word] word_no_nl [OF show_int_word] by (auto simp: list_all_iff subscr_ok_def word_no_nl)
  then have f: "file_lines (concat (map entry_line es)) = map ?l es" using file_lines_unlines [of "map ?l es"] m by metis
  have "map read_subscr (map ?l es) = map (\<lambda>e. [e]) es" using a read_entry by (auto simp: list_all_iff)
  moreover have "concat (map (\<lambda>e. [e]) es) = es" by simp
  ultimately show ?thesis unfolding f by metis
qed

lemma events_reload: "events_saved m \<Longrightarrow> EventSubscrListFile m \<noteq> [] \<Longrightarrow> reload_events m = filter m_Status (myEventList m)"
  using load_entries [of "filter m_Status (myEventList m)"]
  by (simp add: events_saved_def reload_events_def LoadEventSubscrList_def list_all_iff)

lemma find_if_set: "find p (set_first p b es) = None \<longleftrightarrow> find p es = None" if "\<And>e. p (e\<lparr>m_Status := b\<rparr>) = p e"
  using that by (induction es) auto

lemma set_first_ok: "list_all subscr_ok es \<Longrightarrow> list_all subscr_ok (set_first p b es)"
  by (induction es) (auto simp: subscr_ok_def)

lemma event_status_saved:
  assumes s: "events_saved m" and f: "EventSubscrListFile m \<noteq> []" "can_write env (EventSubscrListFile m)"
    and who: "is_word who" and ty: "ty = EXMPP_EVNT_GSM \<or> ty = EXMPP_EVNT_GPIO" and r: "event_status env who ty io arg m = (res, t, m')"
  shows "events_saved m' \<and> EventSubscrListFile m' = EventSubscrListFile m"
proof -
  have lines: "(\<lambda>e. if m_Status e then subscr_line (subscriber e) (m_EvntType e) (m_EvntArg e) else []) = (\<lambda>e. if m_Status e then entry_line e else [])"
    by (auto simp: entry_line_def)
  have conc: "concat (map (\<lambda>e. if m_Status e then entry_line e else []) es) = concat (map entry_line (filter m_Status es))" for es
    by (induction es) auto
  consider "m' = m" | a where "m' = snd (RewriteEventSubscrList env (EventSubscrListFile m)
      (m\<lparr>myEventList := set_first (FindEventSubscrEntry who io ty) a (myEventList m)\<rparr>))"
    | "m' = snd (ExtendEventSubscrList env (EventSubscrListFile m) who ty io
      (m\<lparr>myEventList := myEventList m @ [\<lparr>subscriber = who, m_EvntType = ty, m_EvntArg = io, m_Status = True\<rparr>]\<rparr>))"
    using r by (auto simp: event_status_def Let_def split: option.splits if_splits)
  then show ?thesis
  proof cases
    case 1
    then show ?thesis using s by simp
  next
    case 2
    then show ?thesis using s f
      by (simp add: RewriteEventSubscrList_def rewrite_file_def events_saved_def file_text_def lines conc set_first_ok)
  next
    case 3
    then show ?thesis using s f who ty
      by (simp add: ExtendEventSubscrList_def append_text_def events_saved_def subscr_ok_def, simp add: file_text_def entry_line_def)
  qed
qed

text \<open>A sequence of the two commands for events, each with its sender; the flag tells the command for the modem.\<close>

definition event_cmds :: "'w xmpp_env \<Rightarrow> (bool \<times> string \<times> string) list \<Rightarrow> XmppMgr \<Rightarrow> XmppMgr" where
  "event_cmds env cs m = fold (\<lambda>(gsm, msg, who) m.
     snd (snd (if gsm then proc_cmd_event_gsm env msg who m else proc_cmd_event_gpio env msg who m))) cs m"

lemma event_cmd_saved:
  assumes s: "events_saved m" and f: "EventSubscrListFile m \<noteq> []" "can_write env (EventSubscrListFile m)" and who: "is_word who"
    and m': "m' = snd (snd (if gsm then proc_cmd_event_gsm env msg who m else proc_cmd_event_gpio env msg who m))"
  shows "events_saved m' \<and> EventSubscrListFile m' = EventSubscrListFile m"
proof -
  have "m' = m \<or> (\<exists>ty io arg res t. event_status env who ty io arg m = (res, t, m') \<and> (ty = EXMPP_EVNT_GSM \<or> ty = EXMPP_EVNT_GPIO))"
    unfolding m' by (auto simp: proc_cmd_event_gsm_def proc_cmd_event_gpio_def Let_def) (metis prod.collapse)+
  then show ?thesis using s event_status_saved [OF s f who] by blast
qed

lemma event_cmds_saved:
  "events_saved m \<Longrightarrow> EventSubscrListFile m \<noteq> [] \<Longrightarrow> can_write env (EventSubscrListFile m) \<Longrightarrow> list_all (\<lambda>(_, _, who). is_word who) cs \<Longrightarrow>
     events_saved (event_cmds env cs m) \<and> EventSubscrListFile (event_cmds env cs m) = EventSubscrListFile m"
proof (induction cs arbitrary: m)
  case (Cons c cs)
  obtain gsm msg who where c: "c = (gsm, msg, who)" by (cases c)
  define m' where "m' = snd (snd (if gsm then proc_cmd_event_gsm env msg who m else proc_cmd_event_gpio env msg who m))"
  have "events_saved m' \<and> EventSubscrListFile m' = EventSubscrListFile m"
    using event_cmd_saved [OF Cons.prems(1-3) _ m'_def] Cons.prems(4) by (simp add: c)
  moreover have "event_cmds env (c # cs) m = event_cmds env cs m'" by (simp add: event_cmds_def c m'_def)
  ultimately show ?case using Cons.IH [of m'] Cons.prems by simp
qed (simp add: event_cmds_def)

text \<open>
  Fact: event subscriptions survive a restart. After any sequence of the commands that turn the events of the modem and of pins on and off,
  a restart loads the subscriptions that are on, with their owners and pins in their order, and none that is off.
\<close>

theorem subscriptions_survive_restart:
  assumes "EventSubscrListFile m \<noteq> []" "can_write env (EventSubscrListFile m)" "myEventList m = []" "fs m (EventSubscrListFile m) = None"
    "list_all (\<lambda>(_, _, who). is_word who) cs"
  shows "reload_events (event_cmds env cs m) = filter m_Status (myEventList (event_cmds env cs m))"
proof -
  have "events_saved m" using assms by (simp add: events_saved_def file_text_def)
  then show ?thesis using event_cmds_saved [OF _ assms(1,2,5)] events_reload assms(1) by auto
qed

theorem subscriptions_survive_restart_witness:
  "reload_events (event_cmds silent_env [(False, ''eventgpio 4 1'', ''a@x''), (True, ''eventgsm 1'', ''b@x''), (False, ''eventgpio 4 0'', ''a@x'')] files_at) =
   filter m_Status (myEventList (event_cmds silent_env [(False, ''eventgpio 4 1'', ''a@x''), (True, ''eventgsm 1'', ''b@x''), (False, ''eventgpio 4 0'', ''a@x'')] files_at))"
  using subscriptions_survive_restart [of files_at silent_env "[(False, ''eventgpio 4 1'', ''a@x''), (True, ''eventgsm 1'', ''b@x''), (False, ''eventgpio 4 0'', ''a@x'')]"]
  by (simp add: is_word_def is_space_def)

section \<open>The account file\<close>

lemma second_of_line: "is_word a \<Longrightarrow> is_word b \<Longrightarrow> second_word (a @ '' '' @ b) = b"
  using read_word_at [of a "'' '' @ b" "[]"] read_word_at [of b "[]" "'' ''"]
  by (simp add: second_word_def first_word_def is_space_def)

lemma get_line_cut: "CHR 0x0A \<notin> set a \<Longrightarrow> get_line (True, a @ [CHR 0x0A] @ t) l = (a, True, t)"
proof -
  assume n: "CHR 0x0A \<notin> set a"
  then have "takeWhile (\<lambda>c. c \<noteq> CHR 0x0A) (a @ CHR 0x0A # t) = a" "dropWhile (\<lambda>c. c \<noteq> CHR 0x0A) (a @ CHR 0x0A # t) = CHR 0x0A # t"
    by (induction a) auto
  then show ?thesis by (simp add: get_line_def rest_line_def)
qed

text \<open>
  Fact: an account file that has only the lines of the user and of the password, without a line feed at its end, makes the password
  the name of the admin and of the backup admin: the two lines that are missing are not read, and the last line that was read is
  taken for them.
\<close>

theorem password_becomes_admin:
  assumes u: "is_word u" and p: "is_word pw" and f: "path \<noteq> []" "fs m path = Some (''user: '' @ u @ [CHR 0x0A] @ ''pw: '' @ pw)"
  shows "XmppAdminBuddy (snd (Start path m)) = pw \<and> XmppBkupAdminBuddy (snd (Start path m)) = pw \<and> fst (Start path m) = RPC_SRV_RESULT_SUCCESS"
proof -
  have w: "is_word ''user:''" "is_word ''pw:''" by (simp_all add: is_word_def is_space_def)
  have lu: "second_word (''user: '' @ u) = u" using second_of_line [OF w(1) u] by simp
  have lp: "second_word (''pw: '' @ pw) = pw" using second_of_line [OF w(2) p] by simp
  let ?l1 = "''user: '' @ u" and ?l2 = "''pw: '' @ pw"
  have n1: "CHR 0x0A \<notin> set ?l1" and n2: "CHR 0x0A \<notin> set ?l2" using word_no_nl u p by auto
  have g1: "get_line (True, ?l1 @ [CHR 0x0A] @ ?l2) l = (?l1, True, ?l2)" for l using get_line_cut [OF n1] .
  have g2: "get_line (True, ?l2) l = (?l2, False, [])" for l using n2 by (simp add: get_line_def)
  have g3: "get_line (False, t) l = (l, False, t)" for t l by (simp add: get_line_def)
  let ?m = "snd (LoadEventSubscrList (EventSubscrListFile (snd (LoadAliasList (AliasListFile m) m))) (snd (LoadAliasList (AliasListFile m) m)))"
  have "fs ?m path = fs m path" by (simp add: LoadEventSubscrList_def LoadAliasList_def)
  then have o: "open_file path ?m = (True, ?l1 @ [CHR 0x0A] @ ?l2)" using f(2) by (simp add: open_file_def)
  have ne: "?l1 \<noteq> []" "?l2 \<noteq> []" "u \<noteq> []" "pw \<noteq> []" using u p by (auto simp: is_word_def)
  show ?thesis using f(1)
    by (simp only: Start_def Let_def o g1 g2 g3 prod.case ne if_False simp_thms word_or_def lu lp) (simp add: ne)
qed

theorem password_becomes_admin_witness:
  "\<forall>m. fs m ''/etc/login'' = Some (''user: u@x'' @ [CHR 0x0A] @ ''pw: secret'') \<longrightarrow> XmppAdminBuddy (snd (Start ''/etc/login'' m)) = ''secret''"
  using password_becomes_admin [of "''u@x''" "''secret''" "''/etc/login''"] by (simp add: is_word_def is_space_def)

end
