(* ===== verification/Xmpp_Proofs.thy ===== *)
theory Xmpp_Proofs
  imports Xmpp_Files Xmpp_Proxy_Proofs
begin

text \<open>
  What is proved of the commands of the XMPP service: who may send them, that each is answered once and to its sender, that none
  is left in the queue, what only an admin may do, and that the end of a task is reported to the one that started it.
\<close>

section \<open>Commands that leave the connection alone\<close>

definition keeps :: "XmppMgr \<Rightarrow> 'w cmd_res \<Rightarrow> bool" where
  "keeps m r \<longleftrightarrow> (\<forall>res s m' w'. r = kret (res, s, m', w') \<longrightarrow>
     XmppProxy m' = XmppProxy m \<and> processCmd m' = processCmd m \<and> cmd_sema m' = cmd_sema m)"

named_theorems keep

lemma keeps_kret [keep]: "keeps m (kret (res, s, m, w))"
  by (simp add: keeps_def)

lemma keeps_quick [keep]: "keeps m (quick res m w)"
  by (simp add: quick_def keeps_kret)

lemma keeps_kbind: "(\<And>x. keeps m (f x)) \<Longrightarrow> keeps m (kbind r f)"
  unfolding keeps_def kbind_eq_kret by blast

lemma keeps_with_service: "(\<And>a w. keeps m (k a w)) \<Longrightarrow> keeps m (with_service env port call m w k)"
  by (auto simp: with_service_def keeps_kret split: prod.splits intro!: keeps_kbind)

lemma keeps_value_cmd [keep]: "keeps m (value_cmd env port n old call m w)"
  unfolding value_cmd_def by (rule keeps_with_service) (auto simp: keeps_kret split: prod.splits)

lemma keeps_plain_cmd [keep]: "keeps m (plain_cmd env port call m w)"
  unfolding plain_cmd_def by (rule keeps_with_service) (auto simp: keeps_kret split: prod.splits)

lemma keeps_task_answer [keep]: "XmppProxy m = XmppProxy m0 \<Longrightarrow> processCmd m = processCmd m0 \<Longrightarrow> cmd_sema m = cmd_sema m0 \<Longrightarrow>
    keeps m0 (task_answer port who res tID m w)"
  by (auto simp: task_answer_def keeps_def AccessAsyncTaskList_def Let_def)

lemma keeps_task_cmd [keep]: "keeps m (async_cmd env port old who call m w)"
  unfolding async_cmd_def by (rule keeps_with_service) (auto intro: keeps_task_answer split: prod.splits)

lemma keeps_relay [keep]: "keeps m (with_relay env ip call m w)"
  by (auto simp: with_relay_def keeps_quick keeps_kret split: prod.splits intro!: keeps_kbind)

lemma keeps_sonoff [keep]: "keeps m (proc_cmd_sonoff env t m w)"
  by (auto simp: proc_cmd_sonoff_def Let_def keep split: prod.splits)

lemma keeps_update [keep]: "keeps m (proc_cmd_fmw_update env t who m w)"
  unfolding proc_cmd_fmw_update_def Let_def
  by (auto simp: keep split: prod.splits option.splits intro!: keeps_with_service keeps_task_answer)

lemma keeps_files:
  "XmppProxy (snd (RewriteEventSubscrList env f m)) = XmppProxy m" "processCmd (snd (RewriteEventSubscrList env f m)) = processCmd m"
  "cmd_sema (snd (RewriteEventSubscrList env f m)) = cmd_sema m"
  "XmppProxy (snd (ExtendEventSubscrList env f a ty i m)) = XmppProxy m" "processCmd (snd (ExtendEventSubscrList env f a ty i m)) = processCmd m"
  "cmd_sema (snd (ExtendEventSubscrList env f a ty i m)) = cmd_sema m"
  by (simp_all add: RewriteEventSubscrList_def ExtendEventSubscrList_def rewrite_file_def append_text_def)

lemma keeps_event_status [keep]: "keeps m (of_pure (event_status env who ty io arg m) w)"
  by (auto simp: event_status_def of_pure_def keeps_def Let_def keeps_files split: option.splits if_splits)

lemma keeps_events [keep]: "keeps m (of_pure (proc_cmd_event_gsm env t who m) w)" "keeps m (of_pure (proc_cmd_event_gpio env t who m) w)"
  by (auto simp: proc_cmd_event_gsm_def proc_cmd_event_gpio_def Let_def keep) (simp_all add: of_pure_def keep)

lemma keeps_bot_name [keep]: "keeps m (proc_cmd_bot_name env t m w)"
  by (simp add: proc_cmd_bot_name_def keeps_quick keeps_kret Let_def) (simp add: keeps_def quick_def rewrite_file_def)

lemma keeps_shell [keep]: "keeps m (proc_cmd_shellcmdresp t who m w)"
  by (auto simp: proc_cmd_shellcmdresp_def keep split: option.splits)

lemma keeps_buddy_list [keep]: "keeps m (proc_cmd_buddy_list env t m w)"
  unfolding proc_cmd_buddy_list_def by (rule keeps_kbind) (rule keep)

lemma keeps_update_sts [keep]: "keeps m (proc_cmd_fmw_update_sts env t m w)"
  using keeps_value_cmd [of m env ADCMN_PORT_SYSMGR 255 "[]" "get_string_type (xe_clt env) (xe_sock env) ''get_async_task'' ''task''" w]
  by (auto simp: proc_cmd_fmw_update_sts_def keeps_def kbind_eq_kret)

lemma keeps_uptime [keep]: "keeps m (proc_cmd_fmw_uptime env t m w)" "keeps m (proc_cmd_fmw_get_localip env t m w)"
  unfolding proc_cmd_fmw_uptime_def proc_cmd_fmw_get_localip_def
  by (auto simp: keep split: prod.splits intro!: keeps_with_service)

lemmas cmd_defs =
  proc_cmd_sms_deleteall_def proc_cmd_sms_delete_def proc_cmd_sms_get_def proc_cmd_sms_send_def proc_cmd_sms_list_update_def
  proc_cmd_sms_get_total_def proc_cmd_dial_voice_def proc_cmd_get_ussd_def proc_cmd_gsm_modem_identify_def proc_cmd_fmw_get_version_def
  proc_cmd_fmw_reboot_def proc_cmd_fmw_poweroff_def proc_cmd_fmw_update_res_def proc_cmd_fmw_get_hostname_def
  proc_cmd_fmw_set_hostname_def proc_cmd_fmw_hostname_def proc_cmd_fmw_get_myip_def proc_cmd_fmw_set_default_hostname_def
  proc_cmd_logsts_def proc_cmd_log_list_update_def proc_cmd_log_get_count_def proc_cmd_log_get_line_def proc_cmd_shellcmd_def
  proc_cmd_devident_def proc_cmd_xmpshutdown_def proc_cmd_disp_clear_def proc_cmd_disp_print_def proc_cmd_get_display_backlight_def
  proc_cmd_set_display_backlight_def proc_cmd_disp_backlight_def proc_cmd_gpio_def proc_cmd_sleep_def proc_cmd_account_name_def
  proc_cmd_accept_buddy_list_def

text \<open>The commands that touch the connection.\<close>

definition admin_cmds :: "EXMPP_CMD_TYPES list" where
  "admin_cmds = [EXMPP_CMD_BUDDY_ADD, EXMPP_CMD_BUDDY_REMOVE, EXMPP_CMD_BUDDY_SUBSCRIBE, EXMPP_CMD_BUDDY_UNSUBSCRIBE, EXMPP_CMD_RELAY_MESSAGE]"

lemma run_command_keeps: "ResolveCmdStr t m \<notin> set admin_cmds \<Longrightarrow> keeps m (run_command env t who m w)"
  by (cases "ResolveCmdStr t m") (simp_all add: run_command_def admin_cmds_def keep cmd_defs Let_def)

section \<open>What commands send\<close>

definition is_reply :: "stanza \<Rightarrow> bool" where
  "is_reply st = (case st of Chat _ _ b _ \<Rightarrow> take 7 b = ''return='' | _ \<Rightarrow> False)"

text \<open>Nothing but stanzas that are not replies was sent, and the client and its sessions are the same.\<close>

definition sends_no_reply :: "ADXmppProxy \<Rightarrow> ADXmppProxy \<Rightarrow> bool" where
  "sends_no_reply x x' \<longleftrightarrow> xp_client x' = xp_client x \<and> mySessions x' = mySessions x \<and>
     (\<exists>more. xp_sent x' = xp_sent x @ more \<and> list_all (\<lambda>st. \<not> is_reply st) more)"

lemma quiet_refl [simp]: "sends_no_reply x x"
  by (auto simp: sends_no_reply_def intro: exI [of _ "[]"])

lemma quiet_accept: "sends_no_reply x (x\<lparr>AcceptBuddyList := l\<rparr>)"
  by (auto simp: sends_no_reply_def intro: exI [of _ "[]"])

lemma quiet_emit: "sends_no_reply x y \<Longrightarrow> \<not> is_reply st \<Longrightarrow> sends_no_reply x (emit st y)"
  by (auto simp: sends_no_reply_def)

lemma admin_cmd_quiet:
  assumes f: "\<And>b x res x'. f b x = kret (res, x') \<Longrightarrow> sends_no_reply x x'" and r: "admin_cmd t who f m w = kret (res, s, m', w')"
  shows "sends_no_reply (XmppProxy m) (XmppProxy m') \<and> processCmd m' = processCmd m \<and> cmd_sema m' = cmd_sema m"
  using r by (auto simp: admin_cmd_def quick_def kbind_eq_kret dest: f split: if_splits)

lemma buddy_cmds_quiet:
  "proc_cmd_buddy_add t who m w = kret (res, s, m', w') \<Longrightarrow> sends_no_reply (XmppProxy m) (XmppProxy m') \<and> processCmd m' = processCmd m \<and> cmd_sema m' = cmd_sema m"
  "proc_cmd_buddy_remove t who m w = kret (res, s, m', w') \<Longrightarrow> sends_no_reply (XmppProxy m) (XmppProxy m') \<and> processCmd m' = processCmd m \<and> cmd_sema m' = cmd_sema m"
  "proc_cmd_buddy_subscribe t who m w = kret (res, s, m', w') \<Longrightarrow> sends_no_reply (XmppProxy m) (XmppProxy m') \<and> processCmd m' = processCmd m \<and> cmd_sema m' = cmd_sema m"
  "proc_cmd_buddy_unsubscribe t who m w = kret (res, s, m', w') \<Longrightarrow> sends_no_reply (XmppProxy m) (XmppProxy m') \<and> processCmd m' = processCmd m \<and> cmd_sema m' = cmd_sema m"
  unfolding proc_cmd_buddy_add_def proc_cmd_buddy_remove_def proc_cmd_buddy_subscribe_def proc_cmd_buddy_unsubscribe_def
  by (erule admin_cmd_quiet [rotated];
      auto simp: accept_buddy_def remove_buddy_def subscribe_buddy_def unsubscribe_buddy_def kbind_eq_kret is_reply_def
        split: if_splits option.splits intro!: quiet_emit quiet_accept)+

text \<open>The text of a relayed message begins with the blank after the name, so no alias is looked up for it and it is no reply.\<close>

lemma rest2_head: "rest2 t \<noteq> [] \<Longrightarrow> is_space (hd (rest2 t))"
proof -
  assume ne: "rest2 t \<noteq> []"
  let ?r = "snd (read_word (snd (read_word t)))"
  have "rest2 t = rest_line ?r" by (simp add: rest2_def)
  then have r: "?r \<noteq> []" "hd (rest2 t) = hd ?r" using ne by (cases ?r; auto simp: rest_line_def split: if_splits)+
  have "?r = dropWhile (\<lambda>c. \<not> is_space c) (dropWhile is_space (snd (read_word t)))" by (simp add: read_word_def Let_def)
  then show ?thesis using r hd_dropWhile [of "\<lambda>c. \<not> is_space c"] by metis
qed

lemma relay_text: "rest2 t \<noteq> [] \<Longrightarrow> snd (xpandarg (rest2 t) m) = rest2 t \<and> \<not> is_reply (Chat n a (rest2 t) sj)"
proof -
  assume ne: "rest2 t \<noteq> []"
  obtain c cs where c: "rest2 t = c # cs" using ne by (cases "rest2 t") auto
  have "is_space c" using rest2_head [OF ne] c by simp
  then have "c \<noteq> CHR ''$''" "c \<noteq> CHR ''r''" by (auto simp: is_space_def)
  then show ?thesis by (simp add: c xpandarg_def xpand_word_def is_reply_def eval_nat_numeral)
qed

lemma send_message_quiet:
  assumes r: "proc_cmd_send_message env who b sj m = kret (res, m')" and b: "\<And>n a. \<not> is_reply (Chat n a b sj)"
  shows "sends_no_reply (XmppProxy m) (XmppProxy m') \<and> processCmd m' = processCmd m \<and> cmd_sema m' = cmd_sema m"
proof -
  have d: "\<not> is_reply (Dispose n a)" for n a by (simp add: is_reply_def)
  have "sends_no_reply x x'" if "SendMessageToBuddy ro a b sj x = kret (ok, x')" for ro a x ok x'
    using that b d by (auto simp: SendMessageToBuddy_def use_session_def kbind_eq_kret split: if_splits option.splits intro!: quiet_emit)
  then show ?thesis using r by (auto simp: proc_cmd_send_message_def kbind_eq_kret split: if_splits)
qed

lemma relay_quiet:
  assumes r: "proc_cmd_relay_message env t who m w = kret (res, s, m', w')"
  shows "sends_no_reply (XmppProxy m) (XmppProxy m') \<and> processCmd m' = processCmd m \<and> cmd_sema m' = cmd_sema m"
proof (cases "m' = m")
  case False
  then have ne: "rest2 t \<noteq> []" and "proc_cmd_send_message env (arg1 t m) (snd (xpandarg (rest2 t) m)) ''message'' m = kret (res, m')"
    using r by (auto simp: proc_cmd_relay_message_def quick_def kbind_eq_kret split: if_splits)
  then show ?thesis using send_message_quiet relay_text [OF ne] by metis
qed simp

lemma run_command_quiet:
  assumes r: "run_command env t who m w = kret (res, s, m', w')"
  shows "sends_no_reply (XmppProxy m) (XmppProxy m') \<and> processCmd m' = processCmd m \<and> cmd_sema m' = cmd_sema m"
proof (cases "ResolveCmdStr t m \<in> set admin_cmds")
  case True
  let ?r = "kret (res, s, m', w')"
  have "proc_cmd_buddy_add t who m w = ?r \<or> proc_cmd_buddy_remove t who m w = ?r \<or> proc_cmd_buddy_subscribe t who m w = ?r \<or>
      proc_cmd_buddy_unsubscribe t who m w = ?r \<or> proc_cmd_relay_message env t who m w = ?r"
    using True r by (auto simp: run_command_def admin_cmds_def)
  then show ?thesis by (elim disjE) (erule buddy_cmds_quiet relay_quiet)+
next
  case False
  then show ?thesis using run_command_keeps [OF False, of env who w] r by (auto simp: keeps_def)
qed

section \<open>One reply for each command\<close>

definition new_replies :: "XmppMgr \<Rightarrow> XmppMgr \<Rightarrow> stanza list" where
  "new_replies m m' = filter is_reply (drop (length (xp_sent (XmppProxy m))) (xp_sent (XmppProxy m')))"

text \<open>The client is \<open>n\<close>, and there is a session with \<open>who\<close> that belongs to it.\<close>

definition in_session :: "string \<Rightarrow> nat \<Rightarrow> XmppMgr \<Rightarrow> bool" where
  "in_session who n m \<longleftrightarrow> xp_client (XmppProxy m) = Some n \<and> map_of (mySessions (XmppProxy m)) who = Some n"

text \<open>From \<open>m\<close> to \<open>m'\<close> the replies \<open>ts\<close> were sent to \<open>who\<close>, and what is queued did not change.\<close>

definition replied_with :: "string \<Rightarrow> nat \<Rightarrow> string list \<Rightarrow> XmppMgr \<Rightarrow> XmppMgr \<Rightarrow> bool" where
  "replied_with who n ts m m' \<longleftrightarrow> in_session who n m' \<and> (\<exists>more. xp_sent (XmppProxy m') = xp_sent (XmppProxy m) @ more \<and>
     filter is_reply more = map (\<lambda>t. Chat n who t []) ts)"

lemma replied_refl: "in_session who n m \<Longrightarrow> replied_with who n [] m m"
  by (auto simp: replied_with_def intro: exI [of _ "[]"])

lemma replied_trans: "replied_with who n ts m m' \<Longrightarrow> replied_with who n us m' m'' \<Longrightarrow> replied_with who n (ts @ us) m m''"
  by (auto simp: replied_with_def)

lemma replied_quiet: "in_session who n m \<Longrightarrow> sends_no_reply (XmppProxy m) (XmppProxy m') \<Longrightarrow> replied_with who n [] m m'"
  by (auto simp: replied_with_def in_session_def sends_no_reply_def list_all_iff filter_empty_conv)

lemma replied_reply:
  "in_session who n m \<Longrightarrow> take 7 t = ''return='' \<Longrightarrow> reply_with t who m = kret m' \<Longrightarrow> replied_with who n [t] m m'"
  by (auto simp: replied_with_def in_session_def reply_with_def send_reply_def use_session_def is_reply_def)

lemma reply_with_queue:
  "reply_with t who m = kret m' \<Longrightarrow> processCmd m' = processCmd m \<and> cmd_sema m' = cmd_sema m \<and> cmd_table m' = cmd_table m"
  by (auto simp: reply_with_def kbind_eq_kret)

lemma replied_session: "replied_with who n ts m m' \<Longrightarrow> in_session who n m'"
  by (simp add: replied_with_def)

lemma new_replies_eq: "replied_with who n ts m m' \<Longrightarrow> new_replies m m' = map (\<lambda>t. Chat n who t []) ts"
  by (auto simp: replied_with_def new_replies_def)

lemma response_form: "take 7 (response res s) = ''return=''"
  by (simp add: response_def)

lemma run_parts_replies:
  "run_parts env ps who m w = kret (m', w') \<Longrightarrow> in_session who n m \<Longrightarrow> \<exists>ts. length ts = length ps \<and> replied_with who n ts m m'"
proof (induction ps arbitrary: m w)
  case Nil
  then show ?case using replied_refl by auto
next
  case (Cons p ps)
  from Cons.prems(1) obtain res s m1 w1 m2 where c: "run_command env p who m w = kret (res, s, m1, w1)"
    and reply: "reply_with (response res s) who m1 = kret m2" and rest: "run_parts env ps who m2 w1 = kret (m', w')"
    by (auto simp: kbind_eq_kret)
  have a: "replied_with who n [] m m1" using run_command_quiet [OF c] replied_quiet [OF Cons.prems(2)] by blast
  have b: "replied_with who n [response res s] m1 m2" by (rule replied_reply [OF replied_session [OF a] response_form reply])
  obtain ts where "length ts = length ps" "replied_with who n ts m2 m'" using Cons.IH [OF rest replied_session [OF b]] by blast
  then show ?case using replied_trans [OF replied_trans [OF a b]] by (intro exI [of _ "response res s # ts"]) auto
qed

lemma alias_proxy: "proc_cmd_alias env t m = (res, s, m') \<Longrightarrow> XmppProxy m' = XmppProxy m \<and> processCmd m' = processCmd m \<and> cmd_sema m' = cmd_sema m"
  by (auto simp: proc_cmd_alias_def RewriteAliasList_def ExtendAliasList_def rewrite_file_def append_text_def Let_def split: prod.splits if_splits)

text \<open>
  Property C6: every command is answered once, and its sender is answered. When the thread of the commands has processed a message of a buddy with whom there is a
  session, exactly as many replies were sent as the message has commands after its aliases were expanded, one for an alias command,
  and all of them to the sender of the message.
\<close>

theorem one_reply_per_command:
  assumes r: "process_entry env e m w = kret (m', w')" and s: "in_session (sender e) n m"
  shows "length (new_replies m m') = (if is_alias_cmd e then 1 else length (expand_cmds (AliasList m) (cmdMsg e))) \<and>
    (\<forall>st \<in> set (new_replies m m'). \<exists>t. st = Chat n (sender e) t [])"
proof -
  have "\<exists>ts. length ts = (if is_alias_cmd e then 1 else length (expand_cmds (AliasList m) (cmdMsg e))) \<and> replied_with (sender e) n ts m m'"
  proof (cases "is_alias_cmd e")
    case True
    obtain res s m1 where a: "proc_cmd_alias env (cmdMsg e) m = (res, s, m1)" by (cases "proc_cmd_alias env (cmdMsg e) m")
    have "replied_with (sender e) n [] m m1" using alias_proxy [OF a] replied_quiet [OF s] by simp
    moreover have reply: "reply_with (response res s) (sender e) m1 = kret m'" using r True a by (auto simp: process_entry_def kbind_eq_kret)
    ultimately have "replied_with (sender e) n ([] @ [response res s]) m m'"
      using replied_trans replied_reply [OF replied_session response_form reply] by blast
    then show ?thesis using True by (intro exI [of _ "[response res s]"]) simp
  next
    case False
    then show ?thesis using run_parts_replies [of env _ "sender e" m w m' w' n] r s by (simp add: process_entry_def)
  qed
  then obtain ts where "length ts = (if is_alias_cmd e then 1 else length (expand_cmds (AliasList m) (cmdMsg e)))"
    "new_replies m m' = map (\<lambda>t. Chat n (sender e) t []) ts" using new_replies_eq by blast
  then show ?thesis by auto
qed

section \<open>The queue\<close>

lemma run_parts_queue: "run_parts env ps who m w = kret (m', w') \<Longrightarrow> processCmd m' = processCmd m \<and> cmd_sema m' = cmd_sema m"
proof (induction ps arbitrary: m w)
  case (Cons p ps)
  from Cons.prems obtain res s m1 w1 m2 where c: "run_command env p who m w = kret (res, s, m1, w1)"
    and reply: "reply_with (response res s) who m1 = kret m2" and rest: "run_parts env ps who m2 w1 = kret (m', w')"
    by (auto simp: kbind_eq_kret)
  then show ?case using run_command_quiet [OF c] reply_with_queue [OF reply] Cons.IH [OF rest] by simp
qed simp

lemma process_entry_queue: "process_entry env e m w = kret (m', w') \<Longrightarrow> processCmd m' = processCmd m \<and> cmd_sema m' = cmd_sema m"
  by (auto simp: process_entry_def kbind_eq_kret dest!: run_parts_queue reply_with_queue dest: alias_proxy split: prod.splits if_splits)

lemma cmd_loop_queue:
  "cmd_loop env es m w = kret (m', w') \<Longrightarrow> processCmd m = es \<Longrightarrow>
     length (processCmd m') \<le> length es - 1 \<and> cmd_sema m' = cmd_sema m"
proof (induction es arbitrary: m w)
  case (Cons e es)
  from Cons.prems obtain m1 w1 where p: "process_entry env e m w = kret (m1, w1)"
    and rest: "(if is_alias_cmd e then kret (m1\<lparr>processCmd := es\<rparr>, w1) else cmd_loop env es (m1\<lparr>processCmd := es\<rparr>) w1) = kret (m', w')"
    by (auto simp: kbind_eq_kret Let_def)
  show ?case
  proof (cases "is_alias_cmd e")
    case True
    then show ?thesis using rest process_entry_queue [OF p] by auto
  next
    case False
    then show ?thesis using Cons.IH [of "m1\<lparr>processCmd := es\<rparr>" w1] rest process_entry_queue [OF p] by auto
  qed
qed simp

text \<open>
  The steps of the service that touch the queue: a message arrives, or the thread runs for one of its wakeups. The surroundings
  may change at any time; a step that faults has no next state.
\<close>

inductive cmd_step :: "XmppMgr \<times> 'w \<Rightarrow> XmppMgr \<times> 'w \<Rightarrow> bool" where
  arrives: "onXmppMessage t who m = kret m' \<Longrightarrow> cmd_step (m, w) (m', w')"
| runs: "0 < cmd_sema m \<Longrightarrow> cmd_thread env m w = kret (m', w') \<Longrightarrow> cmd_step (m, w) (m', w'')"

lemma cmd_step_ok:
  "cmd_step c c' \<Longrightarrow> length (processCmd (fst c)) \<le> cmd_sema (fst c) \<Longrightarrow> length (processCmd (fst c')) \<le> cmd_sema (fst c')"
proof (induction rule: cmd_step.induct)
  case (arrives t who m m' w w')
  then show ?case by (auto simp: onXmppMessage_def dest: reply_with_queue split: if_splits)
next
  case (runs m env w m' w' w'')
  then show ?case using cmd_loop_queue [of env "processCmd m" "m\<lparr>cmd_sema := cmd_sema m - 1\<rparr>" w m' w'] by (auto simp: cmd_thread_def)
qed

text \<open>
  Property C14: no command is forgotten in the queue. From the start of the service, in whatever order messages arrive and the thread of the
  commands runs, there are at least as many wakeups of the thread left as messages in the queue, so as long as a message waits
  the thread will run again, although an alias command ends its loop.
\<close>

theorem queue_never_stuck:
  "cmd_step\<^sup>*\<^sup>* (xmpp_new files, w) (m, w') \<Longrightarrow> length (processCmd m) \<le> cmd_sema m \<and> (processCmd m \<noteq> [] \<longrightarrow> 0 < cmd_sema m)"
proof -
  assume "cmd_step\<^sup>*\<^sup>* (xmpp_new files, w) (m, w')"
  then have "length (processCmd (fst (m, w'))) \<le> cmd_sema (fst (m, w'))"
    by (induction rule: rtranclp_induct) (simp add: xmpp_new_def, rule cmd_step_ok)
  then show ?thesis by (cases "processCmd m") auto
qed

theorem queue_never_stuck_witness:
  "\<exists>m. onXmppMessage ''gpio 1'' ''a@x'' (xmpp_new (\<lambda>_. None)) = kret m \<and> processCmd m \<noteq> [] \<and> 0 < cmd_sema m"
proof -
  have "\<not> contains ''return='' ''gpio 1''" by code_simp
  then obtain m where m: "onXmppMessage ''gpio 1'' ''a@x'' (xmpp_new (\<lambda>_. None)) = kret m" "processCmd m \<noteq> []"
    by (simp add: onXmppMessage_def xmpp_new_def)
  then show ?thesis
    using queue_never_stuck [OF r_into_rtranclp [of cmd_step, OF cmd_step.arrives [OF m(1), where w = "()" and w' = "()"]]] by blast
qed

section \<open>Who may do what\<close>

text \<open>Messages that arrive one after the other, each with the roster of its time, and whether it is the first of a chat.\<close>

fun messages_arrive :: "(roster \<times> bool \<times> string \<times> string) list \<Rightarrow> XmppMgr \<Rightarrow> XmppMgr kres" where
  "messages_arrive [] m = kret m"
| "messages_arrive ((ro, fresh, body, who) # ms) m = kbind (message_arrives ro fresh body who m) (messages_arrive ms)"

definition chats :: "XmppMgr \<Rightarrow> stanza list" where
  "chats m = filter (\<lambda>st. case st of Chat _ _ _ _ \<Rightarrow> True | _ \<Rightarrow> False) (xp_sent (XmppProxy m))"

text \<open>
  From \<open>m\<close> to \<open>m'\<close> nothing changed but the sessions with the senders \<open>us\<close> and the stanzas that end an older session of theirs.
\<close>

definition only_sessions :: "string set \<Rightarrow> XmppMgr \<Rightarrow> XmppMgr \<Rightarrow> bool" where
  "only_sessions us m m' \<longleftrightarrow> m' = m\<lparr>XmppProxy := (XmppProxy m)\<lparr>mySessions := mySessions (XmppProxy m'), xp_sent := xp_sent (XmppProxy m')\<rparr>\<rparr> \<and>
     chats m' = chats m \<and>
     (\<forall>b. b \<notin> us \<longrightarrow> map_of (mySessions (XmppProxy m')) b = map_of (mySessions (XmppProxy m)) b)"

lemma only_sessions_refl: "only_sessions us m m"
  by (simp add: only_sessions_def)

lemma only_sessionsE:
  assumes "only_sessions us m m'"
  obtains ss l where "m' = m\<lparr>XmppProxy := (XmppProxy m)\<lparr>mySessions := ss, xp_sent := l\<rparr>\<rparr>"
  using assms unfolding only_sessions_def by blast

lemma only_sessions_trans:
  assumes "only_sessions us m m1" "only_sessions vs m1 m2"
  shows "only_sessions (us \<union> vs) m m2"
proof -
  obtain ss l ss' l' where "m1 = m\<lparr>XmppProxy := (XmppProxy m)\<lparr>mySessions := ss, xp_sent := l\<rparr>\<rparr>"
    "m2 = m1\<lparr>XmppProxy := (XmppProxy m1)\<lparr>mySessions := ss', xp_sent := l'\<rparr>\<rparr>" using assms by (blast elim: only_sessionsE)
  then have "m2 = m\<lparr>XmppProxy := (XmppProxy m)\<lparr>mySessions := mySessions (XmppProxy m2), xp_sent := xp_sent (XmppProxy m2)\<rparr>\<rparr>" by simp
  moreover have "chats m2 = chats m"
    "b \<notin> us \<union> vs \<Longrightarrow> map_of (mySessions (XmppProxy m2)) b = map_of (mySessions (XmppProxy m)) b" for b
    using assms unfolding only_sessions_def by auto
  ultimately show ?thesis unfolding only_sessions_def by blast
qed

lemma map_of_put_other: "b \<noteq> a \<Longrightarrow> map_of (map_put a v m) b = map_of m b"
  by (induction a v m rule: map_put.induct) auto

lemma map_of_erase_other: "b \<noteq> a \<Longrightarrow> map_of (map_erase a m) b = map_of m b"
  by (induction m) (auto simp: map_erase_def)

lemma session_starts_only: "only_sessions {a} m (session_starts a m)"
proof (cases "xp_client (XmppProxy m)")
  case None
  then have "session_starts a m = m" by (simp add: session_starts_def handleMessageSession_def)
  then show ?thesis by (simp add: only_sessions_refl)
next
  case (Some n)
  let ?x = "XmppProxy m" and ?old = "map_of (mySessions (XmppProxy m)) a \<noteq> None"
  let ?ss = "map_put a n (if ?old then map_erase a (mySessions ?x) else mySessions ?x)"
  let ?l = "xp_sent ?x @ (if ?old then [Dispose n a] else [])"
  have eq: "session_starts a m = m\<lparr>XmppProxy := ?x\<lparr>mySessions := ?ss, xp_sent := ?l\<rparr>\<rparr>"
    using Some by (simp add: session_starts_def handleMessageSession_def emit_def Let_def split: option.split)
  show ?thesis unfolding only_sessions_def eq by (auto simp: chats_def map_of_put_other map_of_erase_other)
qed

lemma stranger_message:
  assumes "xp_client (XmppProxy m) \<noteq> None" "\<not> is_admin_user who (XmppProxy m)" "\<not> on_roster who ro"
  shows "message_arrives ro fresh body who m = kret (if fresh then session_starts who m else m)"
proof -
  obtain ss l where "session_starts who m = m\<lparr>XmppProxy := (XmppProxy m)\<lparr>mySessions := ss, xp_sent := l\<rparr>\<rparr>"
    by (rule only_sessionsE [OF session_starts_only])
  then show ?thesis using assms
    by (auto simp: message_arrives_def handleMessage_def receive_request_def is_admin_user_def get_roster_def Let_def)
qed

text \<open>
  Property C13: only an admin or a buddy of the roster gets a command into the service. However many messages of others arrive while there is
  a client object, the service handles them all without a fault and is as it was before, with two exceptions: the first message of a chat
  enters the session of its sender into the sessions, in place of an older one with the same sender, which is disposed of. No command is queued, no
  alias, task or session of anybody else changes, and no message is sent.
\<close>

theorem strangers_ignored:
  assumes "xp_client (XmppProxy m) \<noteq> None"
    and "list_all (\<lambda>(ro, fresh, body, who). \<not> is_admin_user who (XmppProxy m) \<and> \<not> on_roster who ro) ms"
  shows "\<exists>m'. messages_arrive ms m = kret m' \<and> only_sessions {who. \<exists>ro body. (ro, True, body, who) \<in> set ms} m m'"
  using assms
proof (induction ms arbitrary: m)
  case Nil
  then show ?case by (simp add: only_sessions_refl)
next
  case (Cons a ms)
  obtain ro fresh body who where a: "a = (ro, fresh, body, who)" by (cases a)
  let ?m1 = "if fresh then session_starts who m else m" and ?us = "\<lambda>ms. {who. \<exists>ro body. (ro, True, body, who) \<in> set ms}"
  have r: "message_arrives ro fresh body who m = kret ?m1" using Cons.prems by (intro stranger_message) (simp_all add: a)
  have s: "only_sessions {w. fresh \<and> w = who} m ?m1" using session_starts_only [of who m] by (simp add: only_sessions_refl)
  then obtain ss l where "?m1 = m\<lparr>XmppProxy := (XmppProxy m)\<lparr>mySessions := ss, xp_sent := l\<rparr>\<rparr>" by (rule only_sessionsE)
  then have "xp_client (XmppProxy ?m1) = xp_client (XmppProxy m)" "is_admin_user w (XmppProxy ?m1) = is_admin_user w (XmppProxy m)" for w
    by (simp_all add: is_admin_user_def)
  then obtain m' where m': "messages_arrive ms ?m1 = kret m'" "only_sessions (?us ms) ?m1 m'" using Cons.IH [of ?m1] Cons.prems by auto
  have "{w. fresh \<and> w = who} \<union> ?us ms = ?us (a # ms)" by (auto simp: a)
  then have "only_sessions (?us (a # ms)) m m'" using only_sessions_trans [OF s m'(2)] by (simp only:)
  moreover have "messages_arrive (a # ms) m = kret m'" using r m'(1) by (simp add: a)
  ultimately show ?case by blast
qed

definition online :: XmppMgr where
  "online = (xmpp_new (\<lambda>_. None))\<lparr>XmppProxy := handleMessageSession ''b@x'' (onConnect (proxy_connect ''a@x'' ''a@x'' proxy_new))\<rparr>"

lemma online_proxy:
  "xp_client (XmppProxy online) = Some 0" "AdminBuddy (XmppProxy online) = ''a@x''" "BkupAdminBuddy (XmppProxy online) = ''a@x''"
  "map_of (mySessions (XmppProxy online)) ''b@x'' = Some 0" "AliasList online = []" "cmd_table online = xmproxy_cmd_table"
  "AsyncTaskList online = []"
  by (simp_all add: online_def handleMessageSession_def onConnect_def proxy_connect_def proxy_new_def xmpp_new_def Let_def)

theorem strangers_ignored_witness:
  "\<exists>m'. messages_arrive [([(''b@x'', True)], True, ''reboot'', ''eve@x''), ([], False, ''help'', ''eve@x'')] online = kret m' \<and>
     only_sessions {''eve@x''} online m'"
  using strangers_ignored [of online "[([(''b@x'', True)], True, ''reboot'', ''eve@x''), ([], False, ''help'', ''eve@x'')]"]
  by (simp add: is_admin_user_def online_proxy on_roster_def)

text \<open>
  Fact: the five commands that change who may use the service or send messages in its name are refused to everybody but the admins: the answer is that the action is
  blocked, and nothing changes.
\<close>

theorem admin_commands_refused:
  assumes "ResolveCmdStr t m \<in> set admin_cmds" "\<not> is_admin_user who (XmppProxy m)"
  shows "run_command env t who m w = kret (RPC_SRV_RESULT_ACTION_NOT_ALLOWED, [], m, w)"
  using assms by (auto simp: run_command_def admin_cmds_def proc_cmd_buddy_add_def proc_cmd_buddy_remove_def proc_cmd_buddy_subscribe_def
      proc_cmd_buddy_unsubscribe_def proc_cmd_relay_message_def admin_cmd_def quick_def)

lemma online_accept: "ResolveCmdStr ''acceptbuddy c@x'' online = EXMPP_CMD_BUDDY_ADD"
proof -
  have "lower_case (first_word ''acceptbuddy c@x'') = ''acceptbuddy''" by code_simp
  then show ?thesis by (simp add: ResolveCmdStr_def online_proxy xmproxy_cmd_table_def cmd_row_def)
qed

theorem admin_commands_refused_witness:
  "run_command silent_env ''acceptbuddy c@x'' ''b@x'' online 0 = kret (RPC_SRV_RESULT_ACTION_NOT_ALLOWED, [], online, 0)"
  by (rule admin_commands_refused) (simp_all add: online_accept admin_cmds_def is_admin_user_def online_proxy)

theorem one_reply_per_command_witness:
  "\<exists>m' w'. process_entry silent_env \<lparr>cmdMsg = ''account;account'', sender = ''b@x''\<rparr> online 0 = kret (m', w') \<and> length (new_replies online m') = 2"
proof -
  let ?e = "\<lparr>cmdMsg = ''account;account'', sender = ''b@x''\<rparr>"
  have lower: "lower_case ''account;account'' = ''account;account''" by code_simp
  have ex: "expand_cmds (AliasList online) (cmdMsg ?e) = [''account'', ''account'']" by (simp add: expand_cmds_def online_proxy lower)
  have fw: "first_word ''account;account'' = ''account;account''" by (simp add: first_word_def read_word_def is_space_def)
  then have na: "\<not> is_alias_cmd ?e" by (simp add: is_alias_cmd_def)
  have acc: "lower_case (first_word ''account'') = ''account''" by code_simp
  have res: "cmd_table m = xmproxy_cmd_table \<Longrightarrow> ResolveCmdStr ''account'' m = EXMPP_CMD_ACCOUNT" for m
    by (simp add: ResolveCmdStr_def acc xmproxy_cmd_table_def cmd_row_def)
  have "\<exists>m' w'. process_entry silent_env ?e online 0 = kret (m', w')"
    by (simp add: process_entry_def na ex [simplified] run_command_def res online_proxy(1,4,6) proc_cmd_account_name_def reply_with_def send_reply_def
        use_session_def emit_def)
  then obtain m' w' where r: "process_entry silent_env ?e online 0 = kret (m', w')" by blast
  show ?thesis using r one_reply_per_command [OF r, of 0] na ex by (simp add: in_session_def online_proxy)
qed

section \<open>The end of a task\<close>

text \<open>
  What the service does while a task runs, as far as the list of the tasks is concerned: other commands start tasks, events
  other than the one of this task arrive, and everything else leaves the list alone.
\<close>

inductive other_step :: "s32 \<Rightarrow> s32 \<Rightarrow> XmppMgr \<times> 'w \<Rightarrow> XmppMgr \<times> 'w \<Rightarrow> bool" for tid port where
  started: "task_answer port' who res tID m w = kret (res', s, m', w') \<Longrightarrow> (atoi tID, port') \<noteq> (tid, port) \<Longrightarrow>
    other_step tid port (m, w) (m', w'')"
| told: "ReceiveEvent env port' ev tid' h m w = kret (h', m', w') \<Longrightarrow> (ev, tid', port') \<noteq> (0, tid, port) \<Longrightarrow>
    other_step tid port (m, w) (m', w'')"
| rest: "AsyncTaskList m' = AsyncTaskList m \<Longrightarrow> other_step tid port (m, w) (m', w')"

text \<open>The only entry for the task.\<close>

definition waits_for :: "AyncEventEntry \<Rightarrow> XmppMgr \<Rightarrow> bool" where
  "waits_for e m \<longleftrightarrow> filter (FindAsyncEventEntry (taskID e) (srvPort e)) (AsyncTaskList m) = [e]"

lemma reply_tasks: "RpcResponseCallback t n who m = kret m' \<Longrightarrow> AsyncTaskList m' = AsyncTaskList m"
  by (auto simp: RpcResponseCallback_def reply_with_def kbind_eq_kret)

lemma filter_other: "(tid', port') \<noteq> (tid, port) \<Longrightarrow>
    filter (FindAsyncEventEntry tid port) (filter (\<lambda>e. \<not> FindAsyncEventEntry tid' port' e) xs) = filter (FindAsyncEventEntry tid port) xs"
  by (induction xs) (auto simp: FindAsyncEventEntry_def)

lemma task_finished_other:
  assumes r: "task_finished env port' tid' m w = kret (m', w')" and ne: "(tid', port') \<noteq> (tid, port)"
  shows "filter (FindAsyncEventEntry tid port) (AsyncTaskList m') = filter (FindAsyncEventEntry tid port) (AsyncTaskList m)"
proof -
  have "AsyncTaskList m' = AsyncTaskList m \<or> AsyncTaskList m' = filter (\<lambda>e. \<not> FindAsyncEventEntry tid' port' e) (AsyncTaskList m)"
    using r by (auto simp: task_finished_def AccessAsyncTaskList_def kbind_eq_kret dest!: reply_tasks split: option.splits prod.splits if_splits)
  then show ?thesis using filter_other [OF ne] by auto
qed

lemma other_step_waits: "other_step (taskID e) (srvPort e) x x' \<Longrightarrow> waits_for e (fst x) \<Longrightarrow> waits_for e (fst x')"
proof (induction rule: other_step.induct)
  case (started port' who res tID m w res' s m' w' w'')
  then show ?case by (auto simp: waits_for_def task_answer_def AccessAsyncTaskList_def FindAsyncEventEntry_def Let_def split: if_splits)
next
  case (told env port' ev tid' h m w h' m' w' w'')
  then show ?case
    by (auto simp: waits_for_def ReceiveEvent_def GpioEventCallback_def kbind_eq_kret task_finished_other Let_def split: if_splits)
next
  case (rest m' m w w')
  then show ?case by (simp add: waits_for_def)
qed

lemma find_waits: "filter p xs = [e] \<Longrightarrow> find p xs = Some e"
  by (induction xs) (auto split: if_splits)

text \<open>
  Property C9: the end of a task is reported to the one that started it, under the number it was told. When a service has accepted a
  task for a command of \<open>who\<close>, \<open>who\<close> is answered with a number. Whatever other tasks are started and other events arrive meanwhile, when
  the service sends the event that the task is done, one message goes to \<open>who\<close>, with the status that the service tells and the same
  number, the task is not waited for any more and all other tasks are. Assumed are what the report needs: no other task of the same
  service with the same number is waited for, there is a session with \<open>who\<close> that belongs to the client, the service can be
  reached for the status, and answers with one shorter than 255 characters.
\<close>

theorem task_end_reported:
  assumes fresh: "list_all (\<lambda>e. \<not> FindAsyncEventEntry (atoi tID) port e) (AsyncTaskList m)"
    and start: "task_answer port who RPC_SRV_RESULT_IN_PROG tID m w = kret (res, answer0, m1, w1)"
    and later: "(other_step (atoi tID) port)\<^sup>*\<^sup>* (m1, w1) (m2, w2)"
    and conn: "rpc_server_connect (xe_sock env) ''127.0.0.1'' port client_new w2 = (0, c, w3)"
    and call: "get_string_type_with_string_para (xe_clt env) (xe_sock env) ''get_rpc_req_status'' ''taskId'' (show_int (sint (atoi tID)))
      (Some ''taskStatus'') c w3 = kret (r, [Some (OStr st)], c', w4)"
    and short: "length st < 255" and session: "in_session who n m2"
  shows "\<exists>k m3 w5. answer0 = ''taskID='' @ k \<and> ReceiveEvent env port 0 (atoi tID) h m2 w2 = kret (h, m3, w5) \<and>
    xp_sent (XmppProxy m3) = xp_sent (XmppProxy m2) @ [Chat n who (''return='' @ st @ '' : result=taskID='' @ k) []] \<and>
    AsyncTaskList m3 = filter (\<lambda>e. \<not> FindAsyncEventEntry (atoi tID) port e) (AsyncTaskList m2)"
proof -
  let ?n = "XmppTaskIDCounter m + 1" and ?p = "FindAsyncEventEntry (atoi tID) port"
  let ?e = "\<lparr>taskID = atoi tID, srvPort = port, xmppTID = ?n, reply_to = who\<rparr>"
  have a: "answer0 = ''taskID='' @ show_int (sint ?n)" and m1: "AsyncTaskList m1 = AsyncTaskList m @ [?e]"
    using start by (auto simp: task_answer_def AccessAsyncTaskList_def Let_def)
  have "waits_for ?e m1" using fresh by (simp add: waits_for_def m1 FindAsyncEventEntry_def list_all_iff filter_empty_conv)
  then have "waits_for ?e (fst (m1, w1))" by simp
  with later have "waits_for ?e (fst (m2, w2))" by (induction rule: rtranclp_induct) (use other_step_waits [of ?e] in auto)
  then have f: "AccessAsyncTaskList (atoi tID) port False [] m2 =
      (RPC_SRV_RESULT_SUCCESS, Some ?n, who, m2\<lparr>AsyncTaskList := filter (\<lambda>e. \<not> ?p e) (AsyncTaskList m2)\<rparr>)"
    by (simp add: AccessAsyncTaskList_def waits_for_def find_waits)
  have v: "value_out (get_string_type_with_string_para (xe_clt env) (xe_sock env) ''get_rpc_req_status'' ''taskId'' (show_int (sint (atoi tID)))
      (Some ''taskStatus'') c w3) = kret ((r, Some (OStr st)), c', w4)" by (simp add: value_out_def call)
  obtain m3 where m3: "RpcResponseCallback st ?n who (m2\<lparr>AsyncTaskList := filter (\<lambda>e. \<not> ?p e) (AsyncTaskList m2)\<rparr>) = kret m3"
    "xp_sent (XmppProxy m3) = xp_sent (XmppProxy m2) @ [Chat n who (''return='' @ st @ '' : result=taskID='' @ show_int (sint ?n)) []]"
    using session by (simp add: RpcResponseCallback_def reply_with_def send_reply_def use_session_def in_session_def)
  have "task_finished env port (atoi tID) m2 w2 = kret (m3, snd (snd (rpc_server_disconnect (xe_sock env) c' w4)))"
    using short by (simp add: task_finished_def f conn v store_def sprintf_s_def m3)
  then show ?thesis using a m3 reply_tasks [OF m3(1)] by (auto simp: ReceiveEvent_def)
qed

text \<open>Surroundings for examples: every service answers \<open>Success\<close> to everything.\<close>

definition answering_env :: "string \<Rightarrow> nat xmpp_env" where
  "answering_env printed = silent_env\<lparr>xe_clt := \<lparr>clib = \<lparr>tokener_parse = (\<lambda>_. Some JNull), object_get = (\<lambda>_ _. Some JNull),
      get_string = map_option (\<lambda>_. ''Success''), to_json_string = (\<lambda>_. printed)\<rparr>, get_int = (\<lambda>_. 0), clt_ulong_max = 0\<rparr>,
    xe_sock := \<lparr>sock_open = (\<lambda>_ _ w. (True, w)), sock_close = (\<lambda>w. w), sock_send = (\<lambda>_ w. w), sock_recv = (\<lambda>_ w. (Some ''{}'', w))\<rparr>\<rparr>"

lemma recv_now: "sock_recv sk n w = (Some t, w') \<Longrightarrow> clt_recv_loop sk n k w = (Some t, w')"
  by (cases k) simp_all

theorem task_end_reported_witness:
  "\<exists>k m1 k' m2 m3 w5. task_answer 40001 ''b@x'' RPC_SRV_RESULT_IN_PROG ''7'' online 0 = kret (RPC_SRV_RESULT_IN_PROG, ''taskID='' @ k, m1, 0 :: nat) \<and>
     task_answer 40001 ''a@x'' RPC_SRV_RESULT_IN_PROG ''8'' m1 0 = kret (RPC_SRV_RESULT_IN_PROG, k', m2, 0 :: nat) \<and>
     ReceiveEvent (answering_env []) 40001 0 (atoi ''7'') undefined m2 0 = kret (undefined, m3, w5) \<and>
     xp_sent (XmppProxy m3) = xp_sent (XmppProxy m2) @ [Chat 0 ''b@x'' (''return=Success : result=taskID='' @ k) []]"
proof -
  let ?env = "answering_env []"
  let ?c = "client_new\<lparr>net_port := 40001, net_ip := ''127.0.0.1'', net_connected := True, clt_connected := True\<rparr>"
  have conn: "rpc_server_connect (xe_sock ?env) ''127.0.0.1'' 40001 client_new 0 = (0, ?c, 0)"
    by (simp add: rpc_server_connect_def sock_connect_def sock_connect_again_def client_new_def answering_env_def)
  obtain r c' w4 where call: "get_string_type_with_string_para (xe_clt ?env) (xe_sock ?env) ''get_rpc_req_status'' ''taskId'' i
      (Some ''taskStatus'') ?c 0 = kret (r, [Some (OStr ''Success'')], c', w4)" for i
    by (simp add: get_string_type_with_string_para_def preset_def rpc_exchange_def prepare_json_request_s_def request_text_def sprintf_s_def
        receive_data_blocking_def recv_now find_json_result_and_single_string_param_def find_fields_def answering_env_def MAX_SEND_BUFFER_SIZE_def
        MAX_RECV_BUFFER_SIZE_def client_new_def send_data_def)
  obtain k m1 where start: "task_answer 40001 ''b@x'' RPC_SRV_RESULT_IN_PROG ''7'' online (0 :: nat) = kret (RPC_SRV_RESULT_IN_PROG, ''taskID='' @ k, m1, 0)"
    and proxy: "XmppProxy m1 = XmppProxy online" by (simp add: task_answer_def AccessAsyncTaskList_def Let_def)
  obtain k' m2 where other: "task_answer 40001 ''a@x'' RPC_SRV_RESULT_IN_PROG ''8'' m1 (0 :: nat) = kret (RPC_SRV_RESULT_IN_PROG, k', m2, 0)"
    and proxy2: "XmppProxy m2 = XmppProxy online" using proxy by (simp add: task_answer_def AccessAsyncTaskList_def Let_def)
  have "atoi ''8'' \<noteq> atoi ''7''" by code_simp
  then have "other_step (atoi ''7'') 40001 (m1, 0) (m2, 0 :: nat)" using other_step.started [OF other] by simp
  then have later: "(other_step (atoi ''7'') 40001)\<^sup>*\<^sup>* (m1, 0) (m2, 0 :: nat)" by (rule r_into_rtranclp)
  show ?thesis using start other task_end_reported [OF _ start later conn call, of 0 undefined] proxy2
    by (fastforce simp: online_proxy in_session_def)
qed

text \<open>
  Fact: an event that arrives before the task was entered is lost. When the service reports the end of a task that the command thread has
  not entered into its list yet, nothing is sent, and the entry that is made afterwards waits for an event that has passed.
\<close>

theorem early_event_lost:
  assumes "list_all (\<lambda>e. \<not> FindAsyncEventEntry tid port e) (AsyncTaskList m)"
  shows "ReceiveEvent env port 0 tid h m w = kret (h, m, w)"
proof -
  have "find (FindAsyncEventEntry tid port) (AsyncTaskList m) = None" using assms by (auto simp: find_None_iff list_all_iff)
  then show ?thesis by (simp add: ReceiveEvent_def task_finished_def AccessAsyncTaskList_def)
qed

theorem early_event_lost_witness: "\<forall>h. ReceiveEvent silent_env 40001 0 7 h online 0 = kret (h, online, 0)"
  using early_event_lost [of 7 40001 online silent_env _ 0] by (simp add: online_proxy)

section \<open>Long commands\<close>

text \<open>
  Fact: a long message of a buddy overruns the send buffer of the client. When the request for a shell command is as
  long as the buffer of 1400 characters, the text is copied behind its end; nothing limits the length of a message.
\<close>

theorem long_command_overruns:
  assumes conn: "sock_open (xe_sock env) (bboxSmsServerAddr m) ADCMN_PORT_SYSMGR w = (True, w1)" "bboxSmsServerAddr m \<noteq> []"
    and t: "ResolveCmdStr t m = EXMPP_CMD_SHELLCMD" "first_word t \<noteq> []" "rest1 t \<noteq> []"
    and long: "MAX_SEND_BUFFER_SIZE \<le> length (to_json_string (clib (xe_clt env)) (request_json ''run_shellcmd'' 0
      [(''command'', AStr (snd (xpandargs (rest1 t) m)))]))"
  shows "run_command env t who m w = kfail BufferOverrun"
  using conn t long
  by (simp add: run_command_def proc_cmd_shellcmd_def async_cmd_def with_service_def rpc_server_connect_def sock_connect_def sock_connect_again_def
      client_new_def ADCMN_PORT_SYSMGR_def value_out_def set_single_string_get_single_string_type_def rpc_exchange_def prepare_json_request_s_def
      request_text_def sprintf_s_def)

theorem long_command_overruns_witness:
  "run_command (answering_env (replicate 1400 CHR ''x'')) ''shellcmd ls'' ''b@x'' online 0 = kfail BufferOverrun"
proof -
  let ?env = "answering_env (replicate 1400 CHR ''x'')"
  have f: "first_word ''shellcmd ls'' = ''shellcmd''" and r: "rest1 ''shellcmd ls'' = '' ls''" by code_simp+
  have l: "lower_case ''shellcmd'' = ''shellcmd''" by code_simp
  have "ResolveCmdStr ''shellcmd ls'' online = EXMPP_CMD_SHELLCMD" by (simp add: ResolveCmdStr_def f l online_proxy xmproxy_cmd_table_def cmd_row_def)
  moreover have "bboxSmsServerAddr online \<noteq> []" by (simp add: online_def xmpp_new_def BBOXSMS_SERVER_ADDR_def)
  ultimately show ?thesis using long_command_overruns [of ?env online 0 0 "''shellcmd ls''" "''b@x''"] f r
    by (simp add: answering_env_def MAX_SEND_BUFFER_SIZE_def)
qed

section \<open>Without the other services\<close>

definition unreachable :: "'w xmpp_env \<Rightarrow> bool" where
  "unreachable env \<longleftrightarrow> (\<forall>ip port w. \<not> fst (sock_open (xe_sock env) ip port w))"

text \<open>The client object and its sessions are there as long as the command runs.\<close>

definition same_conn :: "ADXmppProxy \<Rightarrow> ADXmppProxy \<Rightarrow> bool" where
  "same_conn x y \<longleftrightarrow> xp_client y = xp_client x \<and> mySessions y = mySessions x"

definition link_up :: "ADXmppProxy \<Rightarrow> bool" where
  "link_up x \<longleftrightarrow> xp_client x \<noteq> None \<and> sessions_current x"

lemma same_conn_refl [simp]: "same_conn x x"
  by (simp add: same_conn_def)

lemma link_up_same: "same_conn x y \<Longrightarrow> link_up y = link_up x"
  by (simp add: same_conn_def link_up_def sessions_current_def stale_session_def)

definition returned :: "XmppMgr \<Rightarrow> 'w cmd_res \<Rightarrow> bool" where
  "returned m r \<longleftrightarrow> (\<exists>res s m' w'. r = kret (res, s, m', w') \<and> same_conn (XmppProxy m) (XmppProxy m'))"

named_theorems back_from

lemma returned_kret [back_from]: "XmppProxy m' = XmppProxy m \<Longrightarrow> returned m (kret (res, s, m', w'))"
  by (simp add: returned_def)

lemma returned_quick [back_from]: "same_conn (XmppProxy m) (XmppProxy m') \<Longrightarrow> returned m (quick res m' w')"
  by (simp add: quick_def returned_def)

lemma sock_connect_fails: "unreachable env \<Longrightarrow> fst (sock_connect (xe_sock env) ip port c w) = -1"
  by (auto simp: sock_connect_def sock_connect_again_def unreachable_def split: prod.splits) (metis fst_conv)

lemma returned_with_service [back_from]: "unreachable env \<Longrightarrow> returned m (with_service env port call m w k)"
  using sock_connect_fails [of env "bboxSmsServerAddr m" port client_new w]
  by (auto simp: with_service_def rpc_server_connect_def client_new_def returned_def split: prod.splits)

lemma returned_relay [back_from]: "unreachable env \<Longrightarrow> returned m (with_relay env ip call m w)"
  using sock_connect_fails [of env ip 80 client_new w]
  by (auto simp: with_relay_def sonoff_connect_def client_new_def returned_quick split: prod.splits)

lemma returned_wrapped [back_from]:
  "unreachable env \<Longrightarrow> returned m (value_cmd env port n old call m w)"
  "unreachable env \<Longrightarrow> returned m (plain_cmd env port call m w)"
  "unreachable env \<Longrightarrow> returned m (async_cmd env port old who call m w)"
  by (simp_all add: value_cmd_def plain_cmd_def async_cmd_def back_from)

lemma returned_keeps: "\<exists>x. r = kret x \<Longrightarrow> keeps m r \<Longrightarrow> returned m r"
proof -
  assume "\<exists>x. r = kret x" and k: "keeps m r"
  then obtain res s m' w' where "r = kret (res, s, m', w')" by auto
  then show "returned m r" using k by (simp add: returned_def keeps_def)
qed

lemma returned_events [back_from]: "returned m (of_pure (proc_cmd_event_gsm env t who m) w)" "returned m (of_pure (proc_cmd_event_gpio env t who m) w)"
  by (rule returned_keeps [OF _ keeps_events(1)], simp add: of_pure_def split: prod.split)
    (rule returned_keeps [OF _ keeps_events(2)], simp add: of_pure_def split: prod.split)

lemma returned_update_sts [back_from]: "unreachable env \<Longrightarrow> returned m (proc_cmd_fmw_update_sts env t m w)"
proof -
  assume "unreachable env"
  then have "returned m (value_cmd env ADCMN_PORT_SYSMGR 255 [] (get_string_type (xe_clt env) (xe_sock env) ''get_async_task'' ''task'') m w)"
    by (rule returned_wrapped)
  then show ?thesis by (auto simp: proc_cmd_fmw_update_sts_def returned_def)
qed

lemma returned_others [back_from]:
  "unreachable env \<Longrightarrow> returned m (proc_cmd_fmw_update env t who m w)"
  "unreachable env \<Longrightarrow> returned m (proc_cmd_fmw_uptime env t m w)"
  "unreachable env \<Longrightarrow> returned m (proc_cmd_fmw_get_localip env t m w)"
  "unreachable env \<Longrightarrow> returned m (proc_cmd_sonoff env t m w)"
  "returned m (proc_cmd_bot_name env t m w)"
  "returned m (proc_cmd_shellcmdresp t who m w)"
  "xp_client (XmppProxy m) \<noteq> None \<Longrightarrow> returned m (proc_cmd_buddy_list env t m w)"
  by (auto simp: proc_cmd_fmw_update_def proc_cmd_fmw_uptime_def proc_cmd_fmw_get_localip_def proc_cmd_sonoff_def proc_cmd_bot_name_def
      proc_cmd_shellcmdresp_def proc_cmd_buddy_list_def get_buddy_list_def get_roster_def rewrite_file_def Let_def back_from
      split: option.split prod.split)

lemma returned_admin:
  assumes "\<And>b x. xp_client x = xp_client (XmppProxy m) \<Longrightarrow> \<exists>res x'. f b x = kret (res, x') \<and> same_conn x x'"
  shows "returned m (admin_cmd t who f m w)"
proof -
  obtain res x' where f: "f (filter (\<lambda>c. c \<noteq> CHR '' '') (snd (xpandarg (rest1 t) m))) (XmppProxy m) = kret (res, x')"
    "same_conn (XmppProxy m) x'" using assms by blast
  show ?thesis by (simp add: admin_cmd_def f back_from)
qed

lemma returned_buddies [back_from]:
  "returned m (proc_cmd_buddy_add t who m w)" "returned m (proc_cmd_buddy_remove t who m w)"
  "xp_client (XmppProxy m) \<noteq> None \<Longrightarrow> returned m (proc_cmd_buddy_subscribe t who m w)"
  "xp_client (XmppProxy m) \<noteq> None \<Longrightarrow> returned m (proc_cmd_buddy_unsubscribe t who m w)"
  unfolding proc_cmd_buddy_add_def proc_cmd_buddy_remove_def proc_cmd_buddy_subscribe_def proc_cmd_buddy_unsubscribe_def
  by (rule returned_admin; auto simp: accept_buddy_def remove_buddy_def subscribe_buddy_def unsubscribe_buddy_def same_conn_def)+

lemma returned_relay_message [back_from]:
  "link_up (XmppProxy m) \<Longrightarrow> returned m (proc_cmd_relay_message env t who m w)"
proof -
  assume c: "link_up (XmppProxy m)"
  have ro: "map_of (xe_roster env) a = None \<Longrightarrow> \<not> on_roster a (xe_roster env)" for a
    by (simp add: on_roster_def map_of_eq_None_iff)
  have sent: "\<exists>ok x. SendMessageToBuddy ro a b sj (XmppProxy m) = kret (ok, x) \<and> same_conn (XmppProxy m) x" for ro a b sj
    using c send_message_returns [of "XmppProxy m" a ro b sj]
    by (auto simp: link_up_def sessions_current_def same_link_def same_conn_def returns_def)
  have "\<exists>res m'. proc_cmd_send_message env a b sj m = kret (res, m') \<and> same_conn (XmppProxy m) (XmppProxy m')" for a b sj
    using c ro [of a] sent [of "xe_roster env" a b sj] by (cases "map_of (xe_roster env) a")
      (auto simp: proc_cmd_send_message_def IsMyBuddy_def get_buddy_online_state_def get_roster_def link_up_def)
  then obtain res m' where "proc_cmd_send_message env (arg1 t m) (snd (xpandarg (rest2 t) m)) ''message'' m = kret (res, m')"
    "same_conn (XmppProxy m) (XmppProxy m')" by blast
  then show ?thesis by (simp add: proc_cmd_relay_message_def back_from)
qed

lemma run_command_returns:
  assumes "unreachable env" and up: "link_up (XmppProxy m)"
  shows "returned m (run_command env t who m w)"
  using assms up [unfolded link_up_def, THEN conjunct1] by (cases "ResolveCmdStr t m") (simp_all add: run_command_def cmd_defs back_from Let_def)

lemma reply_with_returns:
  assumes "link_up (XmppProxy m)"
  shows "\<exists>m'. reply_with t who m = kret m' \<and> link_up (XmppProxy m')"
proof -
  obtain i y where r: "send_reply t who (XmppProxy m) = kret (i, y)" "same_link (XmppProxy m) y"
    using assms send_reply_returns [of who "XmppProxy m" t] by (auto simp: link_up_def sessions_current_def returns_def)
  then have "link_up y" using assms same_link_current [OF r(2)] by (simp add: link_up_def same_link_def)
  then show ?thesis by (simp add: reply_with_def r(1))
qed

lemma run_parts_returns:
  "unreachable env \<Longrightarrow> link_up (XmppProxy m) \<Longrightarrow>
     \<exists>m' w'. run_parts env ps who m w = kret (m', w') \<and> link_up (XmppProxy m')"
proof (induction ps arbitrary: m w)
  case (Cons p ps)
  obtain res s m1 w1 where r: "run_command env p who m w = kret (res, s, m1, w1)" "same_conn (XmppProxy m) (XmppProxy m1)"
    using run_command_returns [OF Cons.prems, of p who w] by (auto simp: returned_def)
  then obtain m2 where "reply_with (response res s) who m1 = kret m2" "link_up (XmppProxy m2)"
    using reply_with_returns Cons.prems(2) link_up_same by blast
  then show ?case using Cons.IH [OF Cons.prems(1)] r(1) by simp
qed simp

lemma process_entry_returns:
  assumes "unreachable env" "link_up (XmppProxy m)"
  shows "\<exists>m' w'. process_entry env e m w = kret (m', w') \<and> link_up (XmppProxy m')"
proof (cases "is_alias_cmd e")
  case True
  obtain res s m1 where a: "proc_cmd_alias env (cmdMsg e) m = (res, s, m1)" by (cases "proc_cmd_alias env (cmdMsg e) m")
  then show ?thesis using True assms(2) alias_proxy [OF a] reply_with_returns [of m1 "response res s" "sender e"]
    by (auto simp: process_entry_def)
next
  case False
  then show ?thesis using run_parts_returns [OF assms] by (simp add: process_entry_def)
qed

lemma cmd_loop_returns:
  "unreachable env \<Longrightarrow> link_up (XmppProxy m) \<Longrightarrow>
     \<exists>m' w'. cmd_loop env es m w = kret (m', w') \<and> link_up (XmppProxy m')"
proof (induction es arbitrary: m w)
  case (Cons e es)
  obtain m1 w1 where r: "process_entry env e m w = kret (m1, w1)" "link_up (XmppProxy m1)"
    using process_entry_returns [OF Cons.prems] by blast
  then show ?case using Cons.IH [OF Cons.prems(1), of "m1\<lparr>processCmd := es\<rparr>" w1] by (simp add: Let_def)
qed simp

text \<open>\<open>n\<close> wakeups of the thread.\<close>

fun wakeups :: "'w xmpp_env \<Rightarrow> nat \<Rightarrow> XmppMgr \<Rightarrow> 'w \<Rightarrow> (XmppMgr \<times> 'w) kres" where
  "wakeups env 0 m w = kret (m, w)"
| "wakeups env (Suc n) m w = kbind (cmd_thread env m w) (\<lambda>(m, w). wakeups env n m w)"

lemma wakeups_drain:
  "unreachable env \<Longrightarrow> link_up (XmppProxy m) \<Longrightarrow> length (processCmd m) \<le> n \<Longrightarrow>
     \<exists>m' w'. wakeups env n m w = kret (m', w') \<and> processCmd m' = []"
proof (induction n arbitrary: m w)
  case (Suc n)
  let ?m = "m\<lparr>cmd_sema := cmd_sema m - 1\<rparr>"
  obtain m1 w1 where r: "cmd_loop env (processCmd m) ?m w = kret (m1, w1)" "link_up (XmppProxy m1)"
    using cmd_loop_returns [OF Suc.prems(1), of ?m "processCmd m" w] Suc.prems(2) by auto
  then have "length (processCmd m1) \<le> n" using cmd_loop_queue [OF r(1)] Suc.prems(3) by auto
  then show ?case using Suc.IH [OF Suc.prems(1) r(2)] r(1) by (simp add: cmd_thread_def)
qed simp

text \<open>
  Property C15: the interpreter gets through its queue without the other services. When no service can be reached, every command of every message comes back and
  after the wakeups that the thread has left, at least as many as messages wait, the queue is empty. This is so while there is a client object and all the
  sessions that are kept are sessions of this client, as on the first connection; a reply through the session of a client that was deleted faults.
\<close>

theorem queue_drained_unreachable:
  assumes "unreachable env" "xp_client (XmppProxy m) \<noteq> None" "sessions_current (XmppProxy m)" "length (processCmd m) \<le> cmd_sema m"
  shows "\<exists>m' w'. wakeups env (cmd_sema m) m w = kret (m', w') \<and> processCmd m' = []"
  using assms wakeups_drain [of env m "cmd_sema m" w] by (auto simp: link_up_def)

theorem queue_drained_unreachable_witness:
  "\<exists>m1 m2. onXmppMessage ''alias x=y'' ''b@x'' online = kret m1 \<and> onXmppMessage ''reboot'' ''b@x'' m1 = kret m2 \<and>
     (\<exists>m' w'. wakeups silent_env 2 m2 0 = kret (m', w') \<and> processCmd m' = [])"
proof -
  have c: "\<not> contains ''return='' ''reboot''" "\<not> contains ''return='' ''alias x=y''" by code_simp+
  have e: "processCmd online = []" "cmd_sema online = 0" "AiAgentUrl online = []" by (simp_all add: online_def xmpp_new_def)
  obtain m1 m2 where m: "onXmppMessage ''alias x=y'' ''b@x'' online = kret m1" "onXmppMessage ''reboot'' ''b@x'' m1 = kret m2"
    "XmppProxy m2 = XmppProxy online" "length (processCmd m2) = 2" "cmd_sema m2 = 2"
    using c e by (simp add: onXmppMessage_def)
  have "unreachable silent_env" by (simp add: unreachable_def silent_env_def)
  moreover have "sessions_current (XmppProxy m2)"
    by (simp add: m(3) sessions_current_def stale_session_def online_def handleMessageSession_def onConnect_def proxy_connect_def proxy_new_def Let_def)
  ultimately show ?thesis using m queue_drained_unreachable [of silent_env m2 0] by (simp add: online_proxy)
qed

end
