(* ===== verification/Xmpp_Rpc.thy ===== *)
theory Xmpp_Rpc
  imports Xmpp_Proofs Gpioctl
begin

text \<open>
  The calls of the XMPP service, \<open>XmppRpc.cpp\<close> of \<open>src/sources/services/xmproxy/srv/src/\<close>, and the objects its \<open>main.cpp\<close> attaches: the status
  of the connection, going on and off line, and sending messages, subscriptions and acceptances for programs of this host.
\<close>

section \<open>The calls\<close>

text \<open>The packets of the calls; the texts are those of arrays of 512 and 1024 characters.\<close>

datatype XMPROXY_PACKET =
    XMPROXY_ASYNCTASK_PACKET u32
  | XMPROXY_ONLINESTS_PACKET u32
  | XMPROXY_SENDMSG_PACKET string string
  | XMPROXY_SUBSCRIBE_PACKET string string
  | XMPROXY_ACCEPT_BUDDY_PACKET string string

record XMPROXY_CMN_DATA_CACHE =
  pXmpMgr :: XmppMgr
  AsyncCmdInProgress :: s32

definition EJSON_XMPROXY_RPC_NONE :: s32 where
  "EJSON_XMPROXY_RPC_NONE = 8"

type_synonym xm_data = "XMPROXY_PACKET rpc_data"
type_synonym xm_mgr = "(XMPROXY_PACKET, XMPROXY_CMN_DATA_CACHE) rpc_mgr"
type_synonym xm_env = "(XMPROXY_PACKET, XMPROXY_CMN_DATA_CACHE) mgr_env"
type_synonym xm_res = "(XMPROXY_PACKET, XMPROXY_CMN_DATA_CACHE) step_res"

definition XMPROXY_RPC_ASYNCTASK_ARG_TABL :: "string list" where
  "XMPROXY_RPC_ASYNCTASK_ARG_TABL = [''listUpdate'', ''devIdent'', ''deleteAll'', ''none'', ''none'', '''']"

definition XMPROXY_RPC_ONLINE_STATUS_ARG_TABL :: "string list" where
  "XMPROXY_RPC_ONLINE_STATUS_ARG_TABL = [''online'', ''offline'', ''unknown'', ''none'', '''']"

text \<open>No task of this service is one of those the function names.\<close>

definition get_async_task_in_progress :: "xm_mgr \<Rightarrow> u32" where
  "get_async_task_in_progress m = 3"

definition json_to_bin_get_async_task_in_progress :: "xm_env \<Rightarrow> xm_data \<Rightarrow> xm_mgr \<Rightarrow> xm_res" where
  "json_to_bin_get_async_task_in_progress env d m =
     PREPARE_JSON_REQUEST RPC_SRV_ACT_READ 0 (P_USER (XMPROXY_ASYNCTASK_PACKET (junk_int env))) d m (\<lambda>d m. kret (0, d, m))"

definition task_of_packet :: "XMPROXY_PACKET packet \<Rightarrow> u32 kres" where
  "task_of_packet pk = (case pk of P_USER (XMPROXY_ASYNCTASK_PACKET v) \<Rightarrow> kret v | _ \<Rightarrow> kfail BadDeref)"

definition bin_to_json_get_async_task_in_progress :: "xm_data \<Rightarrow> xm_mgr \<Rightarrow> xm_res" where
  "bin_to_json_get_async_task_in_progress = PREPARE_JSON_RESP_ENUM ''task'' XMPROXY_RPC_ASYNCTASK_ARG_TABL 3 task_of_packet"

definition process_get_async_task_in_progress :: "xm_data \<Rightarrow> xm_mgr \<Rightarrow> xm_res" where
  "process_get_async_task_in_progress d m = on_req d (\<lambda>r. case rq_dataRef r of
     Some (P_USER (XMPROXY_ASYNCTASK_PACKET _)) \<Rightarrow>
       if rq_action r \<noteq> RPC_SRV_ACT_READ then kret (0, set_result RPC_SRV_RESULT_ACTION_NOT_ALLOWED d, m)
       else kret (0, set_packet (Some (P_USER (XMPROXY_ASYNCTASK_PACKET (get_async_task_in_progress m)))) (set_result RPC_SRV_RESULT_SUCCESS d), m)
   | _ \<Rightarrow> kfail BadDeref)"

definition json_to_bin_get_online_status :: "xm_env \<Rightarrow> xm_data \<Rightarrow> xm_mgr \<Rightarrow> xm_res" where
  "json_to_bin_get_online_status env d m =
     PREPARE_JSON_REQUEST RPC_SRV_ACT_READ 2 (P_USER (XMPROXY_ONLINESTS_PACKET (junk_int env))) d m (\<lambda>d m. kret (0, d, m))"

definition online_of :: "XMPROXY_PACKET packet \<Rightarrow> u32 kres" where
  "online_of pk = (case pk of P_USER (XMPROXY_ONLINESTS_PACKET v) \<Rightarrow> kret v | _ \<Rightarrow> kfail BadDeref)"

definition bin_to_json_get_online_status :: "xm_data \<Rightarrow> xm_mgr \<Rightarrow> xm_res" where
  "bin_to_json_get_online_status = PREPARE_JSON_RESP_ENUM ''status'' XMPROXY_RPC_ONLINE_STATUS_ARG_TABL 2 online_of"

definition process_get_online_status :: "xm_data \<Rightarrow> xm_mgr \<Rightarrow> xm_res" where
  "process_get_online_status d m = on_req d (\<lambda>r. case rq_dataRef r of
     Some (P_USER (XMPROXY_ONLINESTS_PACKET _)) \<Rightarrow>
       if rq_action r \<noteq> RPC_SRV_ACT_READ then kret (0, set_result RPC_SRV_RESULT_ACTION_NOT_ALLOWED d, m)
       else kret (0, set_packet (Some (P_USER (XMPROXY_ONLINESTS_PACKET (if iConnect (XmppProxy (pXmpMgr (service m))) then 0 else 1))))
         (set_result RPC_SRV_RESULT_SUCCESS d), m)
   | _ \<Rightarrow> kfail BadDeref)"

definition json_to_bin_set_online_status :: "xm_env \<Rightarrow> xm_data \<Rightarrow> xm_mgr \<Rightarrow> xm_res" where
  "json_to_bin_set_online_status env d m =
     PREPARE_JSON_REQUEST RPC_SRV_ACT_WRITE 3 (P_USER (XMPROXY_ONLINESTS_PACKET (junk_int env))) d m (\<lambda>d m.
     JSON_STRING_TO_ENUM env ''status'' XMPROXY_RPC_ONLINE_STATUS_ARG_TABL 2 d m (\<lambda>v.
     kret (0, set_packet (Some (P_USER (XMPROXY_ONLINESTS_PACKET v))) d, m)))"

definition bin_to_json_set_online_status :: "xm_data \<Rightarrow> xm_mgr \<Rightarrow> xm_res" where
  "bin_to_json_set_online_status = PREPARE_JSON_RESP"

text \<open>Putting a result and a state of the manager of the messages back.\<close>

definition done_with :: "xm_data \<Rightarrow> xm_mgr \<Rightarrow> RPC_SRV_RESULT \<times> XmppMgr \<Rightarrow> xm_res" where
  "done_with d m r = kret (0, set_result (fst r) d, m\<lparr>service := (service m)\<lparr>pXmpMgr := snd r\<rparr>\<rparr>)"

definition process_set_online_status :: "bool \<Rightarrow> xm_data \<Rightarrow> xm_mgr \<Rightarrow> xm_res" where
  "process_set_online_status ends d m = on_req d (\<lambda>r. case rq_dataRef r of
     Some (P_USER (XMPROXY_ONLINESTS_PACKET v)) \<Rightarrow>
       if rq_action r \<noteq> RPC_SRV_ACT_WRITE then kret (0, set_result RPC_SRV_RESULT_ACTION_NOT_ALLOWED d, m)
       else kbind (set_online_status ends (v = 0) (pXmpMgr (service m))) (done_with d m)
   | _ \<Rightarrow> kfail BadDeref)"

definition json_to_bin_set_send_message :: "xm_env \<Rightarrow> xm_data \<Rightarrow> xm_mgr \<Rightarrow> xm_res" where
  "json_to_bin_set_send_message env d m =
     PREPARE_JSON_REQUEST RPC_SRV_ACT_WRITE 4 (P_USER (XMPROXY_SENDMSG_PACKET (junk_str env) (junk_str env))) d m (\<lambda>d m.
     JSON_STRING_TO_STRING env ''to'' d m (\<lambda>a. JSON_STRING_TO_STRING env ''msg'' d m (\<lambda>b.
     kret (0, set_packet (Some (P_USER (XMPROXY_SENDMSG_PACKET a b))) d, m))))"

definition bin_to_json_set_send_message :: "xm_data \<Rightarrow> xm_mgr \<Rightarrow> xm_res" where
  "bin_to_json_set_send_message = PREPARE_JSON_RESP"

definition process_set_send_message :: "'w xmpp_env \<Rightarrow> xm_data \<Rightarrow> xm_mgr \<Rightarrow> xm_res" where
  "process_set_send_message xe d m = on_req d (\<lambda>r. case rq_dataRef r of
     Some (P_USER (XMPROXY_SENDMSG_PACKET a b)) \<Rightarrow> kbind (proc_cmd_send_message xe a b ''message'' (pXmpMgr (service m))) (done_with d m)
   | _ \<Rightarrow> kfail BadDeref)"

definition json_to_bin_set_subscribe_message :: "xm_env \<Rightarrow> xm_data \<Rightarrow> xm_mgr \<Rightarrow> xm_res" where
  "json_to_bin_set_subscribe_message env d m =
     PREPARE_JSON_REQUEST RPC_SRV_ACT_WRITE 5 (P_USER (XMPROXY_SUBSCRIBE_PACKET (junk_str env) (junk_str env))) d m (\<lambda>d m.
     JSON_STRING_TO_STRING env ''to'' d m (\<lambda>a. JSON_STRING_TO_STRING env ''msg'' d m (\<lambda>b.
     kret (0, set_packet (Some (P_USER (XMPROXY_SUBSCRIBE_PACKET a b))) d, m))))"

definition bin_to_json_set_subscribe_message :: "xm_data \<Rightarrow> xm_mgr \<Rightarrow> xm_res" where
  "bin_to_json_set_subscribe_message = PREPARE_JSON_RESP"

definition process_set_subscribe_message :: "xm_data \<Rightarrow> xm_mgr \<Rightarrow> xm_res" where
  "process_set_subscribe_message d m = on_req d (\<lambda>r. case rq_dataRef r of
     Some (P_USER (XMPROXY_SUBSCRIBE_PACKET a b)) \<Rightarrow> kbind (proc_cmd_subscribe_message a (pXmpMgr (service m))) (done_with d m)
   | _ \<Rightarrow> kfail BadDeref)"

definition json_to_bin_set_accept_buddy :: "xm_env \<Rightarrow> xm_data \<Rightarrow> xm_mgr \<Rightarrow> xm_res" where
  "json_to_bin_set_accept_buddy env d m =
     PREPARE_JSON_REQUEST RPC_SRV_ACT_WRITE 6 (P_USER (XMPROXY_ACCEPT_BUDDY_PACKET (junk_str env) (junk_str env))) d m (\<lambda>d m.
     JSON_STRING_TO_STRING env ''to'' d m (\<lambda>a. JSON_STRING_TO_STRING env ''msg'' d m (\<lambda>b.
     kret (0, set_packet (Some (P_USER (XMPROXY_ACCEPT_BUDDY_PACKET a b))) d, m))))"

definition bin_to_json_set_accept_buddy :: "xm_data \<Rightarrow> xm_mgr \<Rightarrow> xm_res" where
  "bin_to_json_set_accept_buddy = PREPARE_JSON_RESP"

definition process_set_accept_buddy :: "xm_data \<Rightarrow> xm_mgr \<Rightarrow> xm_res" where
  "process_set_accept_buddy d m = on_req d (\<lambda>r. case rq_dataRef r of
     Some (P_USER (XMPROXY_ACCEPT_BUDDY_PACKET a b)) \<Rightarrow> done_with d m (proc_cmd_add_buddy a (pXmpMgr (service m)))
   | _ \<Rightarrow> kfail BadDeref)"

text \<open>The class: the index tells which call an object is for.\<close>

definition XmppRpc :: "'w xmpp_env \<Rightarrow> xm_env \<Rightarrow> (XMPROXY_PACKET, XMPROXY_CMN_DATA_CACHE) handler" where
  "XmppRpc xe env = \<lparr>
     h_MapJsonToBinary = (\<lambda>i d m. if i = 0 then json_to_bin_get_async_task_in_progress env d m
       else if i = 2 then json_to_bin_get_online_status env d m else if i = 3 then json_to_bin_set_online_status env d m
       else if i = 4 then json_to_bin_set_send_message env d m else if i = 5 then json_to_bin_set_subscribe_message env d m
       else if i = 6 then json_to_bin_set_accept_buddy env d m else kret (-1, d, m)),
     h_MapBinaryToJson = (\<lambda>i d m. if i = 0 then bin_to_json_get_async_task_in_progress d m
       else if i = 2 then bin_to_json_get_online_status d m else if i = 3 then bin_to_json_set_online_status d m
       else if i = 4 then bin_to_json_set_send_message d m else if i = 5 then bin_to_json_set_subscribe_message d m
       else if i = 6 then bin_to_json_set_accept_buddy d m else kret (-1, d, m)),
     h_ProcessWork = (\<lambda>i d m. if i = 0 then process_get_async_task_in_progress d m
       else if i = 2 then process_get_online_status d m else if i = 3 then process_set_online_status (xe_ends xe) d m
       else if i = 4 then process_set_send_message xe d m else if i = 5 then process_set_subscribe_message d m
       else if i = 6 then process_set_accept_buddy d m else kret (0, d, m)),
     h_ProcessWorkAsync = (\<lambda>i dat m. kret (RPC_SRV_RESULT_FAIL, m\<lparr>service := (service m)\<lparr>AsyncCmdInProgress := EJSON_XMPROXY_RPC_NONE\<rparr>\<rparr>)),
     h_ReceiveEvent = (\<lambda>_ _ _ _ s. s)\<rparr>"

definition xmpp_objects :: "bool \<Rightarrow> ADJsonRpcMgrConsumer list" where
  "xmpp_objects dbglog = map (\<lambda>(n, i, ob). \<lparr>strRpcName = n, c_index = i, parent_index = 0, logmsg = dbglog, cmnrpchandler = False, c_object = ob\<rparr>)
     [(''get_async_task'', 0, 0), (''get_online_status'', 2, 1), (''set_online_status'', 3, 2), (''send_message'', 4, 3), (''send_subscribe'', 5, 4),
      (''accept_buddy'', 6, 5)]"

section \<open>The contract of the calls\<close>

text \<open>What the calls need of the connection.\<close>

definition link_ok :: "ADXmppProxy \<Rightarrow> bool" where
  "link_ok x \<longleftrightarrow> client_ok x \<and> sessions_current x"

definition xm_inv :: "xm_mgr \<Rightarrow> bool" where
  "xm_inv m \<longleftrightarrow> link_ok (XmppProxy (pXmpMgr (service m)))"

lemma xm_inv_blocks [simp]: "xm_inv (m\<lparr>blocks := n\<rparr>) = xm_inv m"
  by (simp add: xm_inv_def)

fun is_async :: "XMPROXY_PACKET packet \<Rightarrow> bool" where
  "is_async (P_USER (XMPROXY_ASYNCTASK_PACKET _)) = True" | "is_async _ = False"

fun is_online :: "XMPROXY_PACKET packet \<Rightarrow> bool" where
  "is_online (P_USER (XMPROXY_ONLINESTS_PACKET _)) = True" | "is_online _ = False"

fun is_sendmsg :: "XMPROXY_PACKET packet \<Rightarrow> bool" where
  "is_sendmsg (P_USER (XMPROXY_SENDMSG_PACKET _ _)) = True" | "is_sendmsg _ = False"

fun is_subscribe :: "XMPROXY_PACKET packet \<Rightarrow> bool" where
  "is_subscribe (P_USER (XMPROXY_SUBSCRIBE_PACKET _ _)) = True" | "is_subscribe _ = False"

fun is_accept :: "XMPROXY_PACKET packet \<Rightarrow> bool" where
  "is_accept (P_USER (XMPROXY_ACCEPT_BUDDY_PACKET _ _)) = True" | "is_accept _ = False"

lemmas json_in_defs = json_to_bin_get_async_task_in_progress_def json_to_bin_get_online_status_def json_to_bin_set_online_status_def
  json_to_bin_set_send_message_def json_to_bin_set_subscribe_message_def json_to_bin_set_accept_buddy_def JSON_STRING_TO_STRING_def

lemmas json_out_defs = bin_to_json_get_async_task_in_progress_def bin_to_json_get_online_status_def bin_to_json_set_online_status_def
  bin_to_json_set_send_message_def bin_to_json_set_subscribe_message_def bin_to_json_set_accept_buddy_def task_of_packet_def online_of_def
  XMPROXY_RPC_ASYNCTASK_ARG_TABL_def XMPROXY_RPC_ONLINE_STATUS_ARG_TABL_def

text \<open>What is the same for every call: reading the parameters and building the answer only touch the blocks.\<close>

definition keeps_service :: "(xm_mgr \<Rightarrow> bool) \<Rightarrow> bool" where
  "keeps_service I \<longleftrightarrow> (\<forall>m n. I (m\<lparr>blocks := n\<rparr>) = I m)"

lemma xm_map_in:
  assumes I: "keeps_service I" and fits: "params_fit (jlib (plat env)) (d_socket_data d)" and inv: "I m" and req: "empty_req d" and own: "0 < owned m"
    and f: "(f, P) \<in> {(json_to_bin_get_async_task_in_progress, is_async), (json_to_bin_get_online_status, is_online),
      (json_to_bin_set_online_status, is_online), (json_to_bin_set_send_message, is_sendmsg),
      (json_to_bin_set_subscribe_message, is_subscribe), (json_to_bin_set_accept_buddy, is_accept)}"
  shows "returns (f env d m) (\<lambda>(res, d', m'). I m' \<and> same_call d d' \<and> d_json d' = d_json d \<and>
     (if res = 0 then holds P d' \<and> owned m' = owned m + 1 else empty_req d' \<and> owned m' = owned m))"
proof -
  obtain r where r: "d_obj d = Some r" "rq_dataRef r = None" using req by (auto simp: empty_req_def)
  have b: "I (m\<lparr>blocks := n\<rparr>) = I m" for n using I by (simp add: keeps_service_def)
  show ?thesis using inv own f
    by (auto simp: json_in_defs macro_defs find_single_param_fits [OF fits] r holds_def empty_req_def same_call_def b owned_def Let_def split: option.splits)
qed

lemma xm_map_out:
  assumes I: "keeps_service I" and inv: "I m" and pk: "holds P d" and own: "1 < owned m"
    and f: "(f, P) \<in> {(bin_to_json_get_async_task_in_progress, is_async), (bin_to_json_get_online_status, is_online),
      (bin_to_json_set_online_status, is_online), (bin_to_json_set_send_message, is_sendmsg),
      (bin_to_json_set_subscribe_message, is_subscribe), (bin_to_json_set_accept_buddy, is_accept)}"
  shows "returns (f d m) (\<lambda>(res, d', m'). I m' \<and> same_call d d' \<and> empty_req d' \<and> owned m' + 1 = owned m \<and> d_json d' \<noteq> None)"
proof -
  obtain r pk where r: "d_obj d = Some r" "rq_dataRef r = Some pk" "P pk" using pk by (auto simp: holds_def)
  have b: "I (m\<lparr>blocks := n\<rparr>) = I m" for n using I by (simp add: keeps_service_def)
  show ?thesis using inv own f r(3)
    by (auto simp: json_out_defs resp_defs r(1,2) empty_req_def same_call_def b owned_def Let_def sprintf_s_def JSON_RPC_METHOD_RESP_MAX_LENGTH_def nth_Cons' elim!: is_async.elims(2) is_online.elims(2))
qed

lemmas work_defs = process_get_async_task_in_progress_def process_get_online_status_def process_set_online_status_def
  process_set_send_message_def process_set_subscribe_message_def process_set_accept_buddy_def on_req_def

text \<open>What the work of a call owes: it returns, keeps the packet and what the connection needs.\<close>

definition works :: "(XMPROXY_PACKET packet \<Rightarrow> bool) \<Rightarrow> (xm_mgr \<Rightarrow> bool) \<Rightarrow> xm_data \<Rightarrow> xm_mgr \<Rightarrow> xm_res \<Rightarrow> bool" where
  "works P I d m q \<longleftrightarrow> returns q (\<lambda>(res, d', m'). I m' \<and> same_call d d' \<and> holds P d' \<and> owned m' = owned m)"

lemma works_result: "\<lbrakk>I m; holds P d\<rbrakk> \<Longrightarrow> works P I d m (kret (0, set_result res d, m))"
  by (auto simp: works_def same_call_def holds_def set_result_def)

lemma works_packet: "\<lbrakk>I m; holds P d; P pk\<rbrakk> \<Longrightarrow> works P I d m (kret (0, set_packet (Some pk) (set_result res d), m))"
  by (auto simp: works_def same_call_def holds_def set_result_def set_packet_def)

lemma works_done:
  assumes "returns q (\<lambda>(res, g). I (m\<lparr>service := (service m)\<lparr>pXmpMgr := g\<rparr>\<rparr>))" and "holds P d"
  shows "works P I d m (kbind q (done_with d m))"
  using assms by (auto simp: works_def returns_def done_with_def same_call_def holds_def set_result_def owned_def)

text \<open>The operations of the manager of the messages the calls use.\<close>

lemma set_online_status_ok:
  assumes "link_ok (XmppProxy g)"
  shows "returns (set_online_status True b g) (\<lambda>(res, g'). link_ok (XmppProxy g'))"
  using assms by (auto simp: set_online_status_def disconnect_def link_ok_def client_ok_def sessions_current_def stale_session_def onDisconnect_def
      proxy_connect_end_def Let_def split: option.split)

lemma proc_cmd_send_message_ok:
  assumes "link_ok (XmppProxy g)"
  shows "returns (proc_cmd_send_message xe a b sj g) (\<lambda>(res, g'). link_ok (XmppProxy g'))"
proof -
  let ?x = "XmppProxy g"
  have c: "iConnect ?x \<longrightarrow> xp_client ?x \<noteq> None" "\<not> stale_session a ?x" using assms
    by (auto simp: link_ok_def client_ok_def sessions_current_def)
  have ok: "link_ok y" if "same_link ?x y" for y
    using that assms same_link_current [OF that] by (simp add: link_ok_def same_link_def)
  obtain r y where sent: "SendMessageToBuddy (xe_roster xe) a b sj ?x = kret (r, y)" "link_ok y"
    using send_message_returns [OF c, of "xe_roster xe" b sj] ok by (auto simp: returns_def)
  have "map_of ro a = None \<Longrightarrow> \<not> on_roster a ro" for ro :: roster by (simp add: on_roster_def map_of_eq_None_iff)
  from this [of "xe_roster xe"] show ?thesis using assms c sent
    by (cases "map_of (xe_roster xe) a")
      (auto simp: proc_cmd_send_message_def IsMyBuddy_def get_buddy_online_state_def get_roster_def)
qed

lemma proc_cmd_add_buddy_ok: "link_ok (XmppProxy g) \<Longrightarrow> link_ok (XmppProxy (snd (proc_cmd_add_buddy a g)))"
  by (simp add: proc_cmd_add_buddy_def accept_buddy_def link_ok_def client_ok_def sessions_current_def stale_session_def)

lemma works_get_async:
  assumes "I m" and h: "holds is_async d"
  shows "works is_async I d m (process_get_async_task_in_progress d m)"
  using h works_result [of I m is_async d] works_packet [of I m is_async d] assms
  by (auto simp: holds_def work_defs elim!: is_async.elims(2))

lemma works_get_online:
  assumes "I m" and h: "holds is_online d"
  shows "works is_online I d m (process_get_online_status d m)"
  using h works_result [of I m is_online d] works_packet [of I m is_online d] assms
  by (auto simp: holds_def work_defs elim!: is_online.elims(2))

lemma works_set_online:
  assumes inv: "xm_inv m" and h: "holds is_online d"
  shows "works is_online xm_inv d m (process_set_online_status True d m)"
proof -
  have "works is_online xm_inv d m (kbind (set_online_status True b (pXmpMgr (service m))) (done_with d m))" for b
    by (rule works_done [OF _ h]) (use set_online_status_ok inv in \<open>simp add: xm_inv_def\<close>)
  then show ?thesis using h inv works_result [of xm_inv m is_online d] by (auto simp: holds_def work_defs elim!: is_online.elims(2))
qed

lemma works_send:
  assumes inv: "xm_inv m" and h: "holds is_sendmsg d"
  shows "works is_sendmsg xm_inv d m (process_set_send_message xe d m)"
proof -
  have "works is_sendmsg xm_inv d m (kbind (proc_cmd_send_message xe a b sj (pXmpMgr (service m))) (done_with d m))" for a b sj
    by (rule works_done [OF _ h]) (use proc_cmd_send_message_ok inv in \<open>simp add: xm_inv_def\<close>)
  then show ?thesis using h by (auto simp: holds_def work_defs elim!: is_sendmsg.elims(2))
qed

lemma works_accept:
  assumes inv: "xm_inv m" and h: "holds is_accept d"
  shows "works is_accept xm_inv d m (process_set_accept_buddy d m)"
proof -
  have "works is_accept xm_inv d m (kbind (kret (proc_cmd_add_buddy a (pXmpMgr (service m)))) (done_with d m))" for a
    by (rule works_done [OF _ h]) (use proc_cmd_add_buddy_ok inv in \<open>simp add: xm_inv_def case_prod_beta\<close>)
  then show ?thesis using h by (auto simp: holds_def work_defs elim!: is_accept.elims(2))
qed

text \<open>Each call keeps the contract of the manager of the calls.\<close>

lemma xm_keeps [simp]: "keeps_service xm_inv"
  by (simp add: keeps_service_def)

lemma xm_call:
  assumes "(jb, P) \<in> {(json_to_bin_get_async_task_in_progress, is_async), (json_to_bin_get_online_status, is_online),
      (json_to_bin_set_online_status, is_online), (json_to_bin_set_send_message, is_sendmsg),
      (json_to_bin_set_subscribe_message, is_subscribe), (json_to_bin_set_accept_buddy, is_accept)}"
    and "(bj, P) \<in> {(bin_to_json_get_async_task_in_progress, is_async), (bin_to_json_get_online_status, is_online),
      (bin_to_json_set_online_status, is_online), (bin_to_json_set_send_message, is_sendmsg),
      (bin_to_json_set_subscribe_message, is_subscribe), (bin_to_json_set_accept_buddy, is_accept)}"
    and "\<And>d m. \<lbrakk>xm_inv m; holds P d\<rbrakk> \<Longrightarrow> works P xm_inv d m (pw d m)"
  shows "rpc_call (jb env) pw bj P xm_inv (params_fit (jlib (plat env)))"
proof (unfold_locales, goal_cases)
  case (2 d m)
  show ?case by (rule xm_map_in [OF xm_keeps 2 assms(1)])
next
  case (3 m d)
  then show ?case using assms(3) by (simp add: works_def)
next
  case (4 m d)
  show ?case by (rule xm_map_out [OF xm_keeps 4 assms(2)])
qed simp

interpretation xm_async: rpc_call "json_to_bin_get_async_task_in_progress env" process_get_async_task_in_progress
  bin_to_json_get_async_task_in_progress is_async xm_inv "params_fit (jlib (plat env))" for env :: xm_env
  by (rule xm_call) (simp_all add: works_get_async)

interpretation xm_get: rpc_call "json_to_bin_get_online_status env" process_get_online_status bin_to_json_get_online_status is_online xm_inv
  "params_fit (jlib (plat env))" for env :: xm_env
  by (rule xm_call) (simp_all add: works_get_online)

interpretation xm_set: rpc_call "json_to_bin_set_online_status env" "process_set_online_status True" bin_to_json_set_online_status is_online xm_inv
  "params_fit (jlib (plat env))" for env :: xm_env
  by (rule xm_call) (simp_all add: works_set_online)

interpretation xm_send: rpc_call "json_to_bin_set_send_message env" "process_set_send_message xe" bin_to_json_set_send_message is_sendmsg xm_inv
  "params_fit (jlib (plat env))" for env :: xm_env and xe
  by (rule xm_call) (simp_all add: works_send)

interpretation xm_accept: rpc_call "json_to_bin_set_accept_buddy env" process_set_accept_buddy bin_to_json_set_accept_buddy is_accept xm_inv
  "params_fit (jlib (plat env))" for env :: xm_env
  by (rule xm_call) (simp_all add: works_accept)

section \<open>Properties\<close>

text \<open>One call, from the request object to the answer, by the functions of the class the index selects.\<close>

abbreviation xm_serve :: "'w xmpp_env \<Rightarrow> xm_env \<Rightarrow> s32 \<Rightarrow> xm_data \<Rightarrow> xm_mgr \<Rightarrow> (xm_data \<times> xm_mgr) kres" where
  "xm_serve xe env i \<equiv> rpc_call.serve (h_MapJsonToBinary (XmppRpc xe env) i) (h_ProcessWork (XmppRpc xe env) i) (h_MapBinaryToJson (XmppRpc xe env) i) env"

text \<open>
  Property C16: the calls of the XMPP service neither leak nor fault, \<open>send_subscribe\<close> apart. While the thread of the connection gets to its
  end after a disconnection, each of them returns, with the request object and the packet freed and the connection in a consistent state.
  Two things are assumed: every parameter of the request is shorter than 255 characters, because the mappers copy it into an array of that size without a
  check, and the sessions that are kept belong to the client that is there, because \<open>send_message\<close> faults on one of a deleted client.
\<close>

theorem xmpp_calls_balanced:
  assumes i: "i \<in> {0, 2, 3, 4, 6}" and ends: "xe_ends xe" and fits: "params_fit (jlib (plat env)) (d_socket_data d)"
    and ok: "client_ok (XmppProxy (pXmpMgr (service m)))" "sessions_current (XmppProxy (pXmpMgr (service m)))" and own: "0 \<le> owned m"
  shows "\<exists>d' m'. xm_serve xe env i d m = kret (d', m') \<and> d_obj d' = None \<and> owned m' = owned m \<and>
    client_ok (XmppProxy (pXmpMgr (service m'))) \<and> sessions_current (XmppProxy (pXmpMgr (service m')))"
proof -
  have inv: "xm_inv m" using ok by (simp add: xm_inv_def link_ok_def)
  note balanced = xm_async.serve_balanced xm_get.serve_balanced xm_set.serve_balanced xm_send.serve_balanced xm_accept.serve_balanced
  have "returns (xm_serve xe env i d m) (\<lambda>(d', m'). xm_inv m' \<and> d_obj d' = None \<and> owned m' = owned m)"
    using i ends by (auto simp: XmppRpc_def intro!: balanced [OF fits inv own, THEN returns_mono])
  then show ?thesis by (auto simp: returns_def xm_inv_def link_ok_def)
qed

definition rpc_online :: xm_mgr where
  "rpc_online = mgr_new 1 False \<lparr>pXmpMgr = online, AsyncCmdInProgress = EJSON_XMPROXY_RPC_NONE\<rparr>"

definition xm_request :: "RPC_SRV_ACT \<Rightarrow> XMPROXY_PACKET option \<Rightarrow> xm_data" where
  "xm_request act pk = \<lparr>d_req_id = 1, d_cmd_index = 26, d_mapper_result = CMD_TASK_RESULT_UNKNOWN, d_rpc_code = 4, d_worker_result = -1,
     d_socket_data = ''set'', d_json = None, d_custom = [], d_cltport = 0, d_ip = [], d_sock_id = 1, d_sock_descr = 5,
     d_obj = map_option (\<lambda>p. \<lparr>rq_action = act, rq_cmd = 0, rq_clientId = 0, rq_reqIdent = 0, rq_result = RPC_SRV_RESULT_SUCCESS,
       rq_dataRef = Some (P_USER p)\<rparr>) pk\<rparr>"

lemma rpc_online_ok: "client_ok (XmppProxy (pXmpMgr (service rpc_online)))" "sessions_current (XmppProxy (pXmpMgr (service rpc_online)))"
  "owned rpc_online = 0"
  by (simp_all add: sessions_current_def stale_session_def rpc_online_def mgr_new_def client_ok_def online_def handleMessageSession_def onConnect_def proxy_connect_def proxy_new_def
      xmpp_new_def owned_def tw_init_def Let_def)

theorem xmpp_calls_balanced_witness:
  "\<exists>d' m'. xm_serve (silent_env\<lparr>xe_ends := True\<rparr>) (service_env io_platform 0 0 []) 4 (xm_request RPC_SRV_ACT_WRITE None) rpc_online = kret (d', m') \<and>
     d_obj d' = None \<and> owned m' = 0"
  using xmpp_calls_balanced [of 4 "silent_env\<lparr>xe_ends := True\<rparr>" "service_env io_platform 0 0 []" "xm_request RPC_SRV_ACT_WRITE None" rpc_online]
  by (force simp: rpc_online_ok service_env_def io_platform_def io_fit)

text \<open>
  Fact: \<open>send_subscribe\<close> takes the service down when it is off line. After \<open>set_online_status\<close> has reported success for
  anything but \<open>online\<close> there is no client object, and the next \<open>send_subscribe\<close> call dereferences the null pointer, whatever its parameters.
\<close>

theorem offline_subscribe_faults:
  assumes ok: "client_ok (XmppProxy (pXmpMgr (service m)))"
    and off: "d_obj d = Some r" "rq_action r = RPC_SRV_ACT_WRITE" "rq_dataRef r = Some (P_USER (XMPROXY_ONLINESTS_PACKET v))" "v \<noteq> 0"
    and sub: "d_obj d2 = Some r2" "rq_dataRef r2 = Some (P_USER (XMPROXY_SUBSCRIBE_PACKET a b))"
  shows "\<exists>m'. process_set_online_status True d m = kret (0, set_result RPC_SRV_RESULT_SUCCESS d, m') \<and>
     process_set_subscribe_message d2 m' = kfail BadDeref"
  using ok off sub
  by (cases "xp_client (XmppProxy (pXmpMgr (service m)))")
    (simp_all add: work_defs set_online_status_def disconnect_def onDisconnect_def proxy_connect_end_def done_with_def proc_cmd_subscribe_message_def
      subscribe_buddy_def client_ok_def Let_def)

theorem offline_subscribe_faults_witness:
  "\<exists>m'. process_set_online_status True (xm_request RPC_SRV_ACT_WRITE (Some (XMPROXY_ONLINESTS_PACKET 1))) rpc_online =
       kret (0, set_result RPC_SRV_RESULT_SUCCESS (xm_request RPC_SRV_ACT_WRITE (Some (XMPROXY_ONLINESTS_PACKET 1))), m') \<and>
     process_set_subscribe_message (xm_request RPC_SRV_ACT_WRITE (Some (XMPROXY_SUBSCRIBE_PACKET ''b@x'' []))) m' = kfail BadDeref"
  by (rule offline_subscribe_faults [OF rpc_online_ok(1), where v = 1 and a = "''b@x''" and b = "[]"]) ((simp add: xm_request_def)+)

end
