(* ===== verification/Sms_Mgr.thy ===== *)
theory Sms_Mgr
  imports Json_Rpc Rpc_Result
begin

text \<open>
  The manager of the short message service, \<open>SmsMgr.cpp\<close> of \<open>src/sources/services/bboxsms/srv/src/\<close>: the list of messages, and the
  exchanges with a modem through the library Gammu. The library is not part of the sources: its functions are the record \<open>gsm_lib\<close>, acting on a
  phone of any type. Each exchange allocates a state machine of the library; \<open>machines\<close> counts those that were not freed. The callbacks
  that the manager registers are called with what the library reports during a call. Texts are those that the library
  decodes to the character set of the console.
\<close>

section \<open>The library\<close>

text \<open>The results that the sources name, and the others.\<close>

datatype GSM_Error = ERR_NONE | ERR_EMPTY | ERR_CORRUPTED | ERR_TIMEOUT | ERR_UNKNOWN | ERR_NOTIMPLEMENTED | ERR_NOTSUPPORTED | ERR_OTHER nat

record GSM_SMSMessage =
  sms_Location :: s32
  sms_Folder :: s32
  sms_Number :: string
  sms_Text :: string
  coding_8bit :: bool

text \<open>The buffer for the parts of a message: how many there are, and the array.\<close>

record GSM_MultiSMSMessage =
  parts :: nat
  part :: "nat \<Rightarrow> GSM_SMSMessage"

text \<open>What the library reports to a callback: the result of a transmission, the number of a call if it is known, and the reply to a code.\<close>

datatype gsm_event = SmsStatus s32 | CallInfo "s32 option" | UssdReply string

record 'w gsm_lib =
  GSM_AllocStateMachine :: "'w \<Rightarrow> bool \<times> 'w"
  GSM_InitConnection :: "'w \<Rightarrow> GSM_Error \<times> 'w"
  GSM_IsConnected :: "'w \<Rightarrow> bool"
  GSM_TerminateConnection :: "'w \<Rightarrow> GSM_Error \<times> 'w"
  GSM_GetManufacturer :: "'w \<Rightarrow> GSM_Error \<times> string \<times> 'w"
  GSM_GetModel :: "'w \<Rightarrow> GSM_Error \<times> string \<times> 'w"
  GSM_GetNextSMS :: "bool \<Rightarrow> GSM_MultiSMSMessage \<Rightarrow> 'w \<Rightarrow> GSM_Error \<times> GSM_MultiSMSMessage \<times> 'w"
  GSM_GetSMSFolders :: "'w \<Rightarrow> GSM_Error \<times> s32 \<times> 'w"
  GSM_DeleteSMS :: "GSM_SMSMessage \<Rightarrow> 'w \<Rightarrow> GSM_Error \<times> 'w"
  GSM_GetSMSC :: "'w \<Rightarrow> GSM_Error \<times> 'w"
  GSM_SendSMS :: "string \<Rightarrow> string \<Rightarrow> 'w \<Rightarrow> GSM_Error \<times> gsm_event list \<times> 'w"
  GSM_ReadDevice :: "bool \<Rightarrow> 'w \<Rightarrow> gsm_event list \<times> 'w"
  GSM_SetIncomingCall :: "bool \<Rightarrow> 'w \<Rightarrow> GSM_Error \<times> gsm_event list \<times> 'w"
  GSM_DialVoice :: "string \<Rightarrow> 'w \<Rightarrow> GSM_Error \<times> gsm_event list \<times> 'w"
  GSM_CancelCall :: "s32 \<Rightarrow> bool \<Rightarrow> 'w \<Rightarrow> GSM_Error \<times> 'w"
  GSM_SetIncomingUSSD :: "bool \<Rightarrow> 'w \<Rightarrow> GSM_Error \<times> gsm_event list \<times> 'w"
  GSM_DialService :: "string \<Rightarrow> 'w \<Rightarrow> GSM_Error \<times> gsm_event list \<times> 'w"

section \<open>State\<close>

record MsgEntry =
  Message :: string
  From :: string
  Location :: s32
  Folder :: s32

datatype SMS_ACCESS_TYPE = SMS_ACCESS_UPDATE_LIST | SMS_ACCESS_READ_LAST | SMS_ACCESS_READ_INDEX | SMS_ACCESS_COUNT_LIST |
  SMS_ACCESS_EMPTY_LIST | SMS_ACCESS_UNKNOWN | SMS_ACCESS_NONE

record 'w SmsMgr =
  GsmDevDetected :: bool
  GsmDevManf :: string
  GsmDevModel :: string
  LatestUSSDReply :: string
  msgList :: "MsgEntry list"
  sms_send_status :: GSM_Error
  TerminateID :: s32
  ussdCodeArrived :: bool
  ussdCode :: string
  num_replies :: s32
  machines :: nat
  phone :: 'w

definition sms_new :: "'w \<Rightarrow> 'w SmsMgr" where
  "sms_new w = \<lparr>GsmDevDetected = False, GsmDevManf = [], GsmDevModel = [], LatestUSSDReply = ''none'', msgList = [], sms_send_status = ERR_OTHER 0,
     TerminateID = -1, ussdCodeArrived = False, ussdCode = [], num_replies = 0, machines = 0, phone = w\<rparr>"

section \<open>The list of messages\<close>

text \<open>
  The function that all accesses to the list go through, under its lock. It returns the result, the values it has stored in \<open>total\<close>, \<open>msg\<close> and
  \<open>from\<close>, and the state; the index is compared with the size as an unsigned number, so that a
  negative one is beyond every list.
\<close>

definition GetOrUpdateTotal ::
  "SMS_ACCESS_TYPE \<Rightarrow> s32 \<Rightarrow> MsgEntry list \<Rightarrow> 'w SmsMgr \<Rightarrow> RPC_SRV_RESULT \<times> s32 option \<times> (string \<times> string) option \<times> 'w SmsMgr" where
  "GetOrUpdateTotal access indx newList g = (case access of
     SMS_ACCESS_UPDATE_LIST \<Rightarrow> (RPC_SRV_RESULT_SUCCESS, None, None, g\<lparr>msgList := newList\<rparr>)
   | SMS_ACCESS_READ_LAST \<Rightarrow>
       if msgList g = [] then (RPC_SRV_RESULT_FILE_EMPTY, None, None, g)
       else (RPC_SRV_RESULT_SUCCESS, None, Some (Message (last (msgList g)), From (last (msgList g))), g)
   | SMS_ACCESS_READ_INDEX \<Rightarrow>
       if msgList g = [] then (RPC_SRV_RESULT_FILE_EMPTY, None, None, g)
       else if sint indx < 0 \<or> length (msgList g) \<le> unat indx then (RPC_SRV_RESULT_VALUE_OUT_OF_RANGE, None, None, g)
       else (RPC_SRV_RESULT_SUCCESS, None, Some (Message (msgList g ! unat indx), From (msgList g ! unat indx)), g)
   | SMS_ACCESS_COUNT_LIST \<Rightarrow> (RPC_SRV_RESULT_SUCCESS, Some (of_nat (length (msgList g))), None, g)
   | SMS_ACCESS_EMPTY_LIST \<Rightarrow> (RPC_SRV_RESULT_SUCCESS, None, None, g\<lparr>msgList := []\<rparr>)
   | _ \<Rightarrow> (RPC_SRV_RESULT_ARG_ERROR, None, None, g))"

text \<open>The text is copied to an array of 1024 characters.\<close>

definition GetSms :: "s32 \<Rightarrow> 'w SmsMgr \<Rightarrow> (RPC_SRV_RESULT \<times> string) kres" where
  "GetSms index g = (case GetOrUpdateTotal SMS_ACCESS_READ_INDEX index [] g of (res, _, v, _) \<Rightarrow>
     kbind (sprintf_s 1024 (case v of None \<Rightarrow> [] | Some (msg, _) \<Rightarrow> msg)) (\<lambda>s. kret (res, s)))"

definition GetTotalSms :: "'w SmsMgr \<Rightarrow> RPC_SRV_RESULT \<times> s32" where
  "GetTotalSms g = (case GetOrUpdateTotal SMS_ACCESS_COUNT_LIST 0 [] g of (res, tot, _, _) \<Rightarrow> (res, case tot of None \<Rightarrow> 0 | Some n \<Rightarrow> n))"

definition EmptySmsList :: "'w SmsMgr \<Rightarrow> RPC_SRV_RESULT \<times> 'w SmsMgr" where
  "EmptySmsList g = (case GetOrUpdateTotal SMS_ACCESS_EMPTY_LIST 0 [] g of (res, _, _, g) \<Rightarrow> (res, g))"

section \<open>Exchanges with the modem\<close>

definition error_handler :: "'w gsm_lib \<Rightarrow> GSM_Error \<Rightarrow> 'w SmsMgr \<Rightarrow> int \<times> 'w SmsMgr" where
  "error_handler lib e g =
     (if e = ERR_NONE then (0, g)
      else (-1, if GSM_IsConnected lib (phone g) then g\<lparr>phone := snd (GSM_TerminateConnection lib (phone g))\<rparr> else g))"

text \<open>A call of the library whose error ends the exchange with \<open>-1\<close>; \<open>k\<close> is the rest of it.\<close>

definition attempt ::
  "'w gsm_lib \<Rightarrow> GSM_Error \<Rightarrow> 'w SmsMgr \<Rightarrow> ('w SmsMgr \<Rightarrow> (int \<times> 'w SmsMgr) kres) \<Rightarrow> (int \<times> 'w SmsMgr) kres" where
  "attempt lib e g k = (case error_handler lib e g of (r, g) \<Rightarrow> if r \<noteq> 0 then kret (-1, g) else k g)"

text \<open>How each exchange begins and ends.\<close>

definition open_phone :: "'w gsm_lib \<Rightarrow> 'w SmsMgr \<Rightarrow> ('w SmsMgr \<Rightarrow> (int \<times> 'w SmsMgr) kres) \<Rightarrow> (int \<times> 'w SmsMgr) kres" where
  "open_phone lib g k = (case GSM_AllocStateMachine lib (phone g) of (ok, w) \<Rightarrow>
     if \<not> ok then kret (-1, g\<lparr>phone := w\<rparr>)
     else case GSM_InitConnection lib w of (e, w) \<Rightarrow> attempt lib e (g\<lparr>phone := w, machines := machines g + 1\<rparr>) k)"

definition close_phone :: "'w gsm_lib \<Rightarrow> int \<Rightarrow> 'w SmsMgr \<Rightarrow> (int \<times> 'w SmsMgr) kres" where
  "close_phone lib v g = (case GSM_TerminateConnection lib (phone g) of (e, w) \<Rightarrow>
     attempt lib e (g\<lparr>phone := w\<rparr>) (\<lambda>g. kret (v, g\<lparr>machines := machines g - 1\<rparr>)))"

definition DetectSmsDevice :: "'w gsm_lib \<Rightarrow> 'w SmsMgr \<Rightarrow> (int \<times> 'w SmsMgr) kres" where
  "DetectSmsDevice lib g = open_phone lib (g\<lparr>GsmDevDetected := False\<rparr>) (\<lambda>g.
     case GSM_GetManufacturer lib (phone g) of (e, s, w) \<Rightarrow> attempt lib e (g\<lparr>phone := w\<rparr>) (\<lambda>g.
     let g = g\<lparr>GsmDevManf := s\<rparr> in
     case GSM_GetModel lib (phone g) of (e, s, w) \<Rightarrow> attempt lib e (g\<lparr>phone := w\<rparr>) (\<lambda>g.
     kbind (close_phone lib 0 (g\<lparr>GsmDevModel := s\<rparr>)) (\<lambda>(r, g).
     kret (r, if r = 0 then g\<lparr>GsmDevDetected := True\<rparr> else g)))))"

subsection \<open>Reading the messages\<close>

definition entry_of :: "GSM_SMSMessage \<Rightarrow> MsgEntry" where
  "entry_of s = \<lparr>Message = (if coding_8bit s then ''Error!! 8bit msg'' else sms_Text s), From = sms_Number s, Location = sms_Location s,
     Folder = sms_Folder s\<rparr>"

definition entries_of :: "GSM_MultiSMSMessage \<Rightarrow> MsgEntry list" where
  "entries_of b = map (\<lambda>i. entry_of (part b i)) [0..<parts b]"

text \<open>The loop over the messages; \<open>es\<close> are the entries read so far. An error of the library ends the exchange at once.\<close>

partial_function (option) sms_read_loop ::
  "'w gsm_lib \<Rightarrow> bool \<Rightarrow> GSM_MultiSMSMessage \<Rightarrow> MsgEntry list \<Rightarrow> 'w SmsMgr \<Rightarrow> (int \<times> MsgEntry list \<times> 'w SmsMgr) kres" where
  "sms_read_loop lib start b es g = (case GSM_GetNextSMS lib start b (phone g) of (e, b, w) \<Rightarrow>
     let g = g\<lparr>phone := w\<rparr> in
     if e = ERR_EMPTY then kret (0, es, g)
     else case error_handler lib e g of (r, g) \<Rightarrow>
       if r \<noteq> 0 then kret (-1, es, g) else sms_read_loop lib False b (es @ entries_of b) g)"

definition first_buffer :: "GSM_MultiSMSMessage \<Rightarrow> GSM_MultiSMSMessage" where
  "first_buffer b = b\<lparr>parts := 0, part := (part b)(0 := (part b 0)\<lparr>sms_Location := 0, sms_Folder := 0\<rparr>)\<rparr>"

text \<open>\<open>b\<close> is the uninitialised buffer.\<close>

definition ReadSms :: "'w gsm_lib \<Rightarrow> GSM_MultiSMSMessage \<Rightarrow> 'w SmsMgr \<Rightarrow> (int \<times> 'w SmsMgr) kres" where
  "ReadSms lib b g = open_phone lib g (\<lambda>g.
     kbind (sms_read_loop lib True (first_buffer b) [] g) (\<lambda>(r, es, g).
     if r \<noteq> 0 then kret (-1, g)
     else kbind (close_phone lib 0 g) (\<lambda>(r, g).
       if r \<noteq> 0 then kret (-1, g)
       else case GetOrUpdateTotal SMS_ACCESS_UPDATE_LIST 0 es g of (_, _, _, g) \<Rightarrow> kret (sint (of_nat (length es) :: s32), g))))"

subsection \<open>Deleting\<close>

definition set_folder :: "s32 \<Rightarrow> GSM_MultiSMSMessage \<Rightarrow> GSM_MultiSMSMessage" where
  "set_folder f b = b\<lparr>part := (part b)(0 := (part b 0)\<lparr>sms_Folder := f\<rparr>)\<rparr>"

text \<open>The loop runs while the last result is \<open>ERR_NONE\<close>; a corrupted message is skipped with \<open>continue\<close>, before \<open>start\<close> is cleared.\<close>

partial_function (option) delete_loop ::
  "'w gsm_lib \<Rightarrow> s32 \<Rightarrow> bool \<Rightarrow> GSM_MultiSMSMessage \<Rightarrow> GSM_Error \<Rightarrow> 'w SmsMgr \<Rightarrow> 'w SmsMgr kres" where
  "delete_loop lib foldernum start b e g =
     (if e \<noteq> ERR_NONE then kret g
      else case GSM_GetNextSMS lib start (set_folder 0 b) (phone g) of (e, b, w) \<Rightarrow>
        let g = g\<lparr>phone := w\<rparr> in
        if e = ERR_EMPTY then kret g
        else if e = ERR_CORRUPTED then delete_loop lib foldernum start b ERR_NONE g
        else if sms_Folder (part b 0) = foldernum then
          (case GSM_DeleteSMS lib (part (set_folder 0 b) 0) (phone g) of (e, w) \<Rightarrow>
             delete_loop lib foldernum False (set_folder 0 b) e (g\<lparr>phone := w\<rparr>))
        else delete_loop lib foldernum False b e g)"

definition DeleteAllSMS :: "'w gsm_lib \<Rightarrow> GSM_MultiSMSMessage \<Rightarrow> s32 \<Rightarrow> 'w SmsMgr \<Rightarrow> (int \<times> 'w SmsMgr) kres" where
  "DeleteAllSMS lib b foldernum g = open_phone lib g (\<lambda>g.
     case GSM_GetSMSFolders lib (phone g) of (e, n, w) \<Rightarrow>
     let g = g\<lparr>phone := w\<rparr> in
     if sint n < sint foldernum then kbind (close_phone lib 0 g) (\<lambda>(_, g). kret (-1, g))
     else kbind (delete_loop lib foldernum True b e g) (close_phone lib 0))"

subsection \<open>Sending\<close>

definition send_sms_callback :: "s32 \<Rightarrow> 'w SmsMgr \<Rightarrow> 'w SmsMgr" where
  "send_sms_callback status g = g\<lparr>sms_send_status := (if status = 0 then ERR_NONE else ERR_UNKNOWN)\<rparr>"

definition sms_events :: "gsm_event list \<Rightarrow> 'w SmsMgr \<Rightarrow> 'w SmsMgr" where
  "sms_events evs g = fold (\<lambda>ev g. case ev of SmsStatus st \<Rightarrow> send_sms_callback st g | _ \<Rightarrow> g) evs g"

text \<open>Up to \<open>n\<close> rounds of waiting for the reply of the network.\<close>

fun wait_sent :: "'w gsm_lib \<Rightarrow> nat \<Rightarrow> 'w SmsMgr \<Rightarrow> int \<times> 'w SmsMgr" where
  "wait_sent lib 0 g = (-1, g)"
| "wait_sent lib (Suc n) g = (case GSM_ReadDevice lib True (phone g) of (evs, w) \<Rightarrow>
     let g = sms_events evs (g\<lparr>phone := w\<rparr>) in
     if sms_send_status g = ERR_NONE then (0, g)
     else if sms_send_status g \<noteq> ERR_TIMEOUT then (-1, g)
     else wait_sent lib n g)"

definition SendSms :: "'w gsm_lib \<Rightarrow> string \<Rightarrow> string \<Rightarrow> 'w SmsMgr \<Rightarrow> (int \<times> 'w SmsMgr) kres" where
  "SendSms lib recipient_number message_text g = open_phone lib g (\<lambda>g.
     case GSM_GetSMSC lib (phone g) of (e, w) \<Rightarrow> attempt lib e (g\<lparr>phone := w\<rparr>) (\<lambda>g.
     case GSM_SendSMS lib recipient_number message_text (phone g) of (e, evs, w) \<Rightarrow>
     attempt lib e (sms_events evs (g\<lparr>sms_send_status := ERR_TIMEOUT, phone := w\<rparr>)) (\<lambda>g.
     case wait_sent lib 50 g of (r, g) \<Rightarrow> close_phone lib r g)))"

subsection \<open>Calls and codes\<close>

definition IncomingCall0 :: "s32 option \<Rightarrow> 'w SmsMgr \<Rightarrow> 'w SmsMgr" where
  "IncomingCall0 call g = (case call of None \<Rightarrow> g | Some i \<Rightarrow> g\<lparr>TerminateID := i\<rparr>)"

definition call_events :: "gsm_event list \<Rightarrow> 'w SmsMgr \<Rightarrow> 'w SmsMgr" where
  "call_events evs g = fold (\<lambda>ev g. case ev of CallInfo c \<Rightarrow> IncomingCall0 c g | _ \<Rightarrow> g) evs g"

definition DialVoice :: "'w gsm_lib \<Rightarrow> string \<Rightarrow> 'w SmsMgr \<Rightarrow> (int \<times> 'w SmsMgr) kres" where
  "DialVoice lib recipient_number g = open_phone lib g (\<lambda>g.
     case GSM_SetIncomingCall lib True (phone g) of (e, evs, w) \<Rightarrow>
     attempt lib e (call_events evs (g\<lparr>TerminateID := -1, phone := w\<rparr>)) (\<lambda>g.
     case GSM_DialVoice lib recipient_number (phone g) of (e, evs, w) \<Rightarrow> attempt lib e (call_events evs (g\<lparr>phone := w\<rparr>)) (\<lambda>g.
     case GSM_ReadDevice lib True (phone g) of (evs, w) \<Rightarrow>
     let g = call_events evs (g\<lparr>phone := w\<rparr>) in
     case (if TerminateID g \<noteq> -1 then GSM_CancelCall lib (TerminateID g) False (phone g) else GSM_CancelCall lib 0 True (phone g)) of (e, w) \<Rightarrow>
     attempt lib e (g\<lparr>phone := w\<rparr>) (close_phone lib 0))))"

definition IncomingUSSD2 :: "string \<Rightarrow> 'w SmsMgr \<Rightarrow> 'w SmsMgr kres" where
  "IncomingUSSD2 t g = kbind (sprintf_s 1024 t) (\<lambda>t. kret (g\<lparr>ussdCode := t, ussdCodeArrived := True, num_replies := num_replies g + 1\<rparr>))"

fun ussd_events :: "gsm_event list \<Rightarrow> 'w SmsMgr \<Rightarrow> 'w SmsMgr kres" where
  "ussd_events [] g = kret g"
| "ussd_events (ev # evs) g = (case ev of UssdReply t \<Rightarrow> kbind (IncomingUSSD2 t g) (ussd_events evs) | _ \<Rightarrow> ussd_events evs g)"

text \<open>The loop that waits for the reply: rounds that are left, and the counter, which is the first value of the result.\<close>

fun wait_ussd :: "'w gsm_lib \<Rightarrow> nat \<Rightarrow> nat \<Rightarrow> 'w SmsMgr \<Rightarrow> (nat \<times> 'w SmsMgr) kres" where
  "wait_ussd lib 0 timeout g = kret (timeout + 1, g)"
| "wait_ussd lib (Suc n) timeout g =
     (if ussdCodeArrived g then kret (timeout + 1, g)
      else case GSM_ReadDevice lib False (phone g) of (evs, w) \<Rightarrow>
        kbind (ussd_events evs (g\<lparr>phone := w\<rparr>)) (wait_ussd lib n (timeout + 1)))"

definition dial_code :: "'w gsm_lib \<Rightarrow> string \<Rightarrow> 'w \<Rightarrow> GSM_Error \<times> gsm_event list \<times> 'w" where
  "dial_code lib code w = (case GSM_DialService lib code w of (e, evs, w) \<Rightarrow>
     if e = ERR_NOTIMPLEMENTED \<or> e = ERR_NOTSUPPORTED
     then (case GSM_DialVoice lib code w of (e, evs', w) \<Rightarrow> (e, evs @ evs', w)) else (e, evs, w))"

definition DialUSSDCode :: "'w gsm_lib \<Rightarrow> string \<Rightarrow> 'w SmsMgr \<Rightarrow> (int \<times> 'w SmsMgr) kres" where
  "DialUSSDCode lib code g = open_phone lib (g\<lparr>ussdCode := ''no-ussd-code'', ussdCodeArrived := False\<rparr>) (\<lambda>g.
     case GSM_SetIncomingUSSD lib True (phone g) of (e, evs, w) \<Rightarrow> kbind (ussd_events evs (g\<lparr>phone := w\<rparr>)) (\<lambda>g. attempt lib e g (\<lambda>g.
     case dial_code lib code (phone g) of (e, evs, w) \<Rightarrow> kbind (ussd_events evs (g\<lparr>phone := w\<rparr>)) (\<lambda>g. attempt lib e g (\<lambda>g.
     kbind (wait_ussd lib 300 0 (g\<lparr>num_replies := 0\<rparr>)) (\<lambda>(timeout, g).
     case GSM_SetIncomingUSSD lib False (phone g) of (e, evs, w) \<Rightarrow> kbind (ussd_events evs (g\<lparr>phone := w\<rparr>)) (\<lambda>g. attempt lib e g (\<lambda>g.
     kbind (close_phone lib 0 (g\<lparr>LatestUSSDReply := ussdCode g\<rparr>)) (\<lambda>(r, g).
     kret (if r \<noteq> 0 \<or> 300 \<le> timeout then -1 else 0, g))))))))))"

definition GetLatestUSSDReply :: "'w SmsMgr \<Rightarrow> (RPC_SRV_RESULT \<times> string) kres" where
  "GetLatestUSSDReply g = kbind (sprintf_s 1024 (LatestUSSDReply g)) (\<lambda>s. kret (RPC_SRV_RESULT_SUCCESS, s))"

end
