(* ===== verification/Sms_Rpc.thy ===== *)
theory Sms_Rpc
  imports Gpioctl Sms_Mgr
begin

text \<open>
  The short message service, \<open>SmsRpc.cpp\<close> and \<open>main.cpp\<close> of \<open>src/sources/services/bboxsms/srv/src/\<close>: eleven calls, six of which queue a task for
  the task worker that then talks to the modem. \<open>lib\<close> is the library of the modem, \<open>b\<close> the contents of an uninitialised buffer
  for messages, and \<open>emu\<close> the emulation mode, in which tasks do nothing.
\<close>

section \<open>Packets\<close>

record BBOXSMS_SMS_PACKET =
  total_sms :: s32
  sp_index :: s32
  sp_sms :: string
  destNum :: string
  sp_taskID :: s32

datatype sms_packet = BBOXSMS_ASYNCTASK_PACKET u32 | SMS_PACKET BBOXSMS_SMS_PACKET

record 'w BBOXSMS_CMN_DATA_CACHE =
  pSmsMgr :: "'w SmsMgr"
  sms_AsyncCmdInProgress :: s32

type_synonym sms_rpc = "sms_packet rpc_data"
type_synonym 'w sms_mgr = "(sms_packet, 'w BBOXSMS_CMN_DATA_CACHE) rpc_mgr"
type_synonym 'w sms_env = "(sms_packet, 'w BBOXSMS_CMN_DATA_CACHE) mgr_env"
type_synonym 'w sms_res = "(sms_packet, 'w BBOXSMS_CMN_DATA_CACHE) step_res"

definition EJSON_BBOXSMS_RPC_NONE :: s32 where
  "EJSON_BBOXSMS_RPC_NONE = 12"

definition BBOXSMS_RPC_ASYNCTASK_ARG_TABL :: "string list" where
  "BBOXSMS_RPC_ASYNCTASK_ARG_TABL = [''listUpdate'', ''devIdent'', ''deleteAll'', ''sendSms'', ''dialVoice'', ''dialUssd'', ''none'', ''none'', '''']"

definition fresh_sms :: "'w sms_env \<Rightarrow> BBOXSMS_SMS_PACKET" where
  "fresh_sms env = \<lparr>total_sms = junk_int env, sp_index = junk_int env, sp_sms = junk_str env, destNum = junk_str env, sp_taskID = junk_int env\<rparr>"

definition on_sms :: "sms_rpc \<Rightarrow> (BBOXSMS_SMS_PACKET \<Rightarrow> 'w sms_res) \<Rightarrow> 'w sms_res" where
  "on_sms d k = on_req d (\<lambda>r. case rq_dataRef r of Some (P_USER (SMS_PACKET p)) \<Rightarrow> k p | _ \<Rightarrow> kfail BadDeref)"

definition task_of_sms :: "sms_packet packet \<Rightarrow> int kres" where
  "task_of_sms pk = (case pk of P_USER (SMS_PACKET p) \<Rightarrow> kret (sint (sp_taskID p)) | _ \<Rightarrow> kfail BadDeref)"

definition text_of_sms :: "sms_packet packet \<Rightarrow> string kres" where
  "text_of_sms pk = (case pk of P_USER (SMS_PACKET p) \<Rightarrow> kret (sp_sms p) | _ \<Rightarrow> kfail BadDeref)"

definition total_of_sms :: "sms_packet packet \<Rightarrow> int kres" where
  "total_of_sms pk = (case pk of P_USER (SMS_PACKET p) \<Rightarrow> kret (sint (total_sms p)) | _ \<Rightarrow> kfail BadDeref)"

definition async_of_sms :: "sms_packet packet \<Rightarrow> u32 kres" where
  "async_of_sms pk = (case pk of P_USER (BBOXSMS_ASYNCTASK_PACKET v) \<Rightarrow> kret v | _ \<Rightarrow> kfail BadDeref)"

section \<open>From JSON to packets\<close>

definition sms_request :: "RPC_SRV_ACT \<Rightarrow> int \<Rightarrow> 'w sms_env \<Rightarrow> sms_rpc \<Rightarrow> 'w sms_mgr \<Rightarrow> (sms_rpc \<Rightarrow> 'w sms_mgr \<Rightarrow> 'w sms_res) \<Rightarrow> 'w sms_res" where
  "sms_request act c env d m k = PREPARE_JSON_REQUEST act c (P_USER (SMS_PACKET (fresh_sms env))) d m k"

definition put_sms :: "BBOXSMS_SMS_PACKET \<Rightarrow> sms_rpc \<Rightarrow> 'w sms_mgr \<Rightarrow> 'w sms_res" where
  "put_sms p d m = kret (0, set_packet (Some (P_USER (SMS_PACKET p))) d, m)"

definition json_to_bin_get_async_task_sms :: "'w sms_env \<Rightarrow> sms_rpc \<Rightarrow> 'w sms_mgr \<Rightarrow> 'w sms_res" where
  "json_to_bin_get_async_task_sms env d m =
     PREPARE_JSON_REQUEST RPC_SRV_ACT_READ 0 (P_USER (BBOXSMS_ASYNCTASK_PACKET (junk_int env))) d m (\<lambda>d m. kret (0, d, m))"

definition json_to_bin_delete_all :: "'w sms_env \<Rightarrow> sms_rpc \<Rightarrow> 'w sms_mgr \<Rightarrow> 'w sms_res" where
  "json_to_bin_delete_all env d m = sms_request RPC_SRV_ACT_WRITE 1 env d m (\<lambda>d m. kret (0, d, m))"

definition json_to_bin_get_total_sms :: "'w sms_env \<Rightarrow> sms_rpc \<Rightarrow> 'w sms_mgr \<Rightarrow> 'w sms_res" where
  "json_to_bin_get_total_sms env d m = sms_request RPC_SRV_ACT_READ 3 env d m (\<lambda>d m. kret (0, d, m))"

definition json_to_bin_get_sms :: "'w sms_env \<Rightarrow> sms_rpc \<Rightarrow> 'w sms_mgr \<Rightarrow> 'w sms_res" where
  "json_to_bin_get_sms env d m = sms_request RPC_SRV_ACT_READ 4 env d m (\<lambda>d m.
     JSON_STRING_TO_INT env ''index'' d m (\<lambda>i. put_sms ((fresh_sms env)\<lparr>sp_index := i\<rparr>) d m))"

definition json_to_bin_send_sms :: "'w sms_env \<Rightarrow> sms_rpc \<Rightarrow> 'w sms_mgr \<Rightarrow> 'w sms_res" where
  "json_to_bin_send_sms env d m = sms_request RPC_SRV_ACT_WRITE 5 env d m (\<lambda>d m.
     JSON_STRING_TO_STRING env ''destination'' d m (\<lambda>a. JSON_STRING_TO_STRING env ''message'' d m (\<lambda>t.
     put_sms ((fresh_sms env)\<lparr>destNum := a, sp_sms := t\<rparr>) d m)))"

definition json_to_bin_sms_list_update :: "'w sms_env \<Rightarrow> sms_rpc \<Rightarrow> 'w sms_mgr \<Rightarrow> 'w sms_res" where
  "json_to_bin_sms_list_update env d m = sms_request RPC_SRV_ACT_WRITE 6 env d m (\<lambda>d m. kret (0, d, m))"

definition json_to_bin_ident_device :: "'w sms_env \<Rightarrow> sms_rpc \<Rightarrow> 'w sms_mgr \<Rightarrow> 'w sms_res" where
  "json_to_bin_ident_device env d m = sms_request RPC_SRV_ACT_WRITE 7 env d m (\<lambda>d m. kret (0, d, m))"

definition json_to_bin_dial_voice :: "'w sms_env \<Rightarrow> sms_rpc \<Rightarrow> 'w sms_mgr \<Rightarrow> 'w sms_res" where
  "json_to_bin_dial_voice env d m = sms_request RPC_SRV_ACT_WRITE 8 env d m (\<lambda>d m.
     JSON_STRING_TO_STRING env ''destination'' d m (\<lambda>a. put_sms ((fresh_sms env)\<lparr>destNum := a\<rparr>) d m))"

definition json_to_bin_dial_ussd :: "'w sms_env \<Rightarrow> sms_rpc \<Rightarrow> 'w sms_mgr \<Rightarrow> 'w sms_res" where
  "json_to_bin_dial_ussd env d m = sms_request RPC_SRV_ACT_WRITE 9 env d m (\<lambda>d m.
     JSON_STRING_TO_STRING env ''destination'' d m (\<lambda>a. put_sms ((fresh_sms env)\<lparr>destNum := a\<rparr>) d m))"

definition json_to_bin_get_ussd :: "'w sms_env \<Rightarrow> sms_rpc \<Rightarrow> 'w sms_mgr \<Rightarrow> 'w sms_res" where
  "json_to_bin_get_ussd env d m = sms_request RPC_SRV_ACT_READ 10 env d m (\<lambda>d m. kret (0, d, m))"

section \<open>From packets to JSON\<close>

definition bin_to_json_get_async_task_sms :: "sms_rpc \<Rightarrow> 'w sms_mgr \<Rightarrow> 'w sms_res" where
  "bin_to_json_get_async_task_sms = PREPARE_JSON_RESP_ENUM ''task'' BBOXSMS_RPC_ASYNCTASK_ARG_TABL 6 async_of_sms"

text \<open>The six calls that queue a task answer with its number. The macro is that of \<open>PREPARE_JSON_RESP_INT\<close> for the member \<open>taskID\<close>.\<close>

definition bin_to_json_task :: "sms_rpc \<Rightarrow> 'w sms_mgr \<Rightarrow> 'w sms_res" where
  "bin_to_json_task = PREPARE_JSON_RESP_INT ''taskId'' task_of_sms"

definition bin_to_json_get_total_sms :: "sms_rpc \<Rightarrow> 'w sms_mgr \<Rightarrow> 'w sms_res" where
  "bin_to_json_get_total_sms = PREPARE_JSON_RESP_INT ''msgcount'' total_of_sms"

definition bin_to_json_get_sms :: "sms_rpc \<Rightarrow> 'w sms_mgr \<Rightarrow> 'w sms_res" where
  "bin_to_json_get_sms = PREPARE_JSON_RESP_STRING ''message'' text_of_sms"

definition bin_to_json_get_ussd :: "sms_rpc \<Rightarrow> 'w sms_mgr \<Rightarrow> 'w sms_res" where
  "bin_to_json_get_ussd = PREPARE_JSON_RESP_STRING ''message'' text_of_sms"

section \<open>The work of the calls\<close>

definition get_async_task_sms :: "'w sms_mgr \<Rightarrow> u32" where
  "get_async_task_sms m =
     (let c = sms_AsyncCmdInProgress (service m) in
      if c = 6 then 0 else if c = 7 then 1 else if c = 1 then 2 else if c = 5 then 3 else if c = 8 then 4 else if c = 9 then 5 else 6)"

definition process_get_async_task_sms :: "sms_rpc \<Rightarrow> 'w sms_mgr \<Rightarrow> 'w sms_res" where
  "process_get_async_task_sms d m = on_req d (\<lambda>r. case rq_dataRef r of
     Some (P_USER (BBOXSMS_ASYNCTASK_PACKET _)) \<Rightarrow>
       if rq_action r \<noteq> RPC_SRV_ACT_READ then kret (0, set_result RPC_SRV_RESULT_ACTION_NOT_ALLOWED d, m)
       else kret (0, set_packet (Some (P_USER (BBOXSMS_ASYNCTASK_PACKET (get_async_task_sms m)))) (set_result RPC_SRV_RESULT_SUCCESS d), m)
   | _ \<Rightarrow> kfail BadDeref)"

text \<open>Queueing a task with the fresh packet that \<open>f\<close> fills from the packet of the request; it is deleted again when it cannot be queued.\<close>

definition push_sms :: "'w sms_env \<Rightarrow> int \<Rightarrow> (BBOXSMS_SMS_PACKET \<Rightarrow> BBOXSMS_SMS_PACKET \<Rightarrow> BBOXSMS_SMS_PACKET) \<Rightarrow> sms_rpc \<Rightarrow> 'w sms_mgr \<Rightarrow> 'w sms_res" where
  "push_sms env c f d m = on_sms d (\<lambda>p.
     case PushAsyncTask env c (P_USER (SMS_PACKET (f p (fresh_sms env)))) WORK_CMD_AFTER_DONE_PRESERVE (m\<lparr>blocks := blocks m + 1\<rparr>) of
       (res, ident, m) \<Rightarrow> kret (0, set_packet (Some (P_USER (SMS_PACKET (p\<lparr>sp_taskID := ident\<rparr>)))) (set_result res d),
         if res \<noteq> RPC_SRV_RESULT_IN_PROG then m\<lparr>blocks := blocks m - 1\<rparr> else m))"

definition process_delete_all :: "'w sms_env \<Rightarrow> sms_rpc \<Rightarrow> 'w sms_mgr \<Rightarrow> 'w sms_res" where
  "process_delete_all env = push_sms env 1 (\<lambda>p q. q)"

definition process_send_sms :: "'w sms_env \<Rightarrow> sms_rpc \<Rightarrow> 'w sms_mgr \<Rightarrow> 'w sms_res" where
  "process_send_sms env = push_sms env 5 (\<lambda>p q. q\<lparr>destNum := destNum p, sp_sms := sp_sms p\<rparr>)"

definition process_sms_list_update :: "'w sms_env \<Rightarrow> sms_rpc \<Rightarrow> 'w sms_mgr \<Rightarrow> 'w sms_res" where
  "process_sms_list_update env = push_sms env 6 (\<lambda>p q. q)"

definition process_ident_device :: "'w sms_env \<Rightarrow> sms_rpc \<Rightarrow> 'w sms_mgr \<Rightarrow> 'w sms_res" where
  "process_ident_device env = push_sms env 7 (\<lambda>p q. q)"

definition process_dial_voice :: "'w sms_env \<Rightarrow> sms_rpc \<Rightarrow> 'w sms_mgr \<Rightarrow> 'w sms_res" where
  "process_dial_voice env = push_sms env 8 (\<lambda>p q. q\<lparr>destNum := destNum p\<rparr>)"

definition process_dial_ussd :: "'w sms_env \<Rightarrow> sms_rpc \<Rightarrow> 'w sms_mgr \<Rightarrow> 'w sms_res" where
  "process_dial_ussd env = push_sms env 9 (\<lambda>p q. q\<lparr>destNum := destNum p\<rparr>)"

definition process_get_sms :: "sms_rpc \<Rightarrow> 'w sms_mgr \<Rightarrow> 'w sms_res" where
  "process_get_sms d m = on_sms d (\<lambda>p. kbind (GetSms (sp_index p) (pSmsMgr (service m))) (\<lambda>(res, s).
     kret (0, set_packet (Some (P_USER (SMS_PACKET (p\<lparr>sp_sms := s\<rparr>)))) (set_result res d), m)))"

definition process_get_total_sms :: "sms_rpc \<Rightarrow> 'w sms_mgr \<Rightarrow> 'w sms_res" where
  "process_get_total_sms d m = on_sms d (\<lambda>p. case GetTotalSms (pSmsMgr (service m)) of (res, n) \<Rightarrow>
     kret (0, set_packet (Some (P_USER (SMS_PACKET (p\<lparr>total_sms := n\<rparr>)))) (set_result res d), m))"

definition process_get_ussd :: "sms_rpc \<Rightarrow> 'w sms_mgr \<Rightarrow> 'w sms_res" where
  "process_get_ussd d m = on_sms d (\<lambda>p. kbind (GetLatestUSSDReply (pSmsMgr (service m))) (\<lambda>(res, s).
     kret (0, set_packet (Some (P_USER (SMS_PACKET (p\<lparr>sp_sms := s\<rparr>)))) (set_result res d), m)))"

section \<open>The work of the tasks\<close>

type_synonym 'w task_res = "(RPC_SRV_RESULT \<times> 'w SmsMgr) kres"

text \<open>A task that is successful when the exchange has the right result; nothing is done in emulation mode.\<close>

definition task_result :: "bool \<Rightarrow> (int \<Rightarrow> bool) \<Rightarrow> (int \<times> 'w SmsMgr) kres \<Rightarrow> 'w SmsMgr \<Rightarrow> 'w task_res" where
  "task_result emu ok q g = (if emu then kret (RPC_SRV_RESULT_SUCCESS, g)
     else kbind q (\<lambda>(r, g). kret (if ok r then RPC_SRV_RESULT_SUCCESS else RPC_SRV_RESULT_FAIL, g)))"

fun delete_folders :: "'w gsm_lib \<Rightarrow> GSM_MultiSMSMessage \<Rightarrow> s32 list \<Rightarrow> 'w SmsMgr \<Rightarrow> (int \<times> 'w SmsMgr) kres" where
  "delete_folders lib b [] g = kret (0, g)"
| "delete_folders lib b (f # fs) g = kbind (DeleteAllSMS lib b f g) (\<lambda>(r, g). if r \<noteq> 0 then kret (-1, g) else delete_folders lib b fs g)"

definition process_async_delete_all :: "'w gsm_lib \<Rightarrow> GSM_MultiSMSMessage \<Rightarrow> bool \<Rightarrow> 'w SmsMgr \<Rightarrow> 'w task_res" where
  "process_async_delete_all lib b emu g = task_result emu (\<lambda>r. r = 0) (delete_folders lib b [1, 2, 3, 4] g) g"

definition process_async_list_update :: "'w gsm_lib \<Rightarrow> GSM_MultiSMSMessage \<Rightarrow> bool \<Rightarrow> 'w SmsMgr \<Rightarrow> 'w task_res" where
  "process_async_list_update lib b emu g = task_result emu (\<lambda>r. 0 \<le> r) (ReadSms lib b g) g"

definition process_async_ident_device :: "'w gsm_lib \<Rightarrow> bool \<Rightarrow> 'w SmsMgr \<Rightarrow> 'w task_res" where
  "process_async_ident_device lib emu g = task_result emu (\<lambda>r. r = 0) (DetectSmsDevice lib g) g"

definition process_async_send_sms :: "'w gsm_lib \<Rightarrow> bool \<Rightarrow> BBOXSMS_SMS_PACKET \<Rightarrow> 'w SmsMgr \<Rightarrow> 'w task_res" where
  "process_async_send_sms lib emu p g = task_result emu (\<lambda>r. r = 0) (SendSms lib (destNum p) (sp_sms p) g) g"

definition process_async_dial_voice :: "'w gsm_lib \<Rightarrow> bool \<Rightarrow> BBOXSMS_SMS_PACKET \<Rightarrow> 'w SmsMgr \<Rightarrow> 'w task_res" where
  "process_async_dial_voice lib emu p g = task_result emu (\<lambda>r. r = 0) (DialVoice lib (destNum p) g) g"

definition process_async_dial_ussd :: "'w gsm_lib \<Rightarrow> bool \<Rightarrow> BBOXSMS_SMS_PACKET \<Rightarrow> 'w SmsMgr \<Rightarrow> 'w task_res" where
  "process_async_dial_ussd lib emu p g = task_result emu (\<lambda>r. r = 0) (DialUSSDCode lib (destNum p) g) g"

text \<open>The task with a number, without the deletion of its packet; the list of messages is emptied after a deletion whatever its result was.\<close>

definition sms_task :: "'w gsm_lib \<Rightarrow> GSM_MultiSMSMessage \<Rightarrow> bool \<Rightarrow> s32 \<Rightarrow> BBOXSMS_SMS_PACKET \<Rightarrow> 'w SmsMgr \<Rightarrow> 'w task_res" where
  "sms_task lib b emu c p g =
     (if c = 6 then process_async_list_update lib b emu g
      else if c = 7 then process_async_ident_device lib emu g
      else if c = 1 then kbind (process_async_delete_all lib b emu g) (\<lambda>(r, g). kret (r, snd (EmptySmsList g)))
      else if c = 5 then process_async_send_sms lib emu p g
      else if c = 8 then process_async_dial_voice lib emu p g
      else process_async_dial_ussd lib emu p g)"

definition SmsRpc_ProcessWorkAsync ::
  "'w gsm_lib \<Rightarrow> GSM_MultiSMSMessage \<Rightarrow> bool \<Rightarrow> s32 \<Rightarrow> sms_packet packet \<Rightarrow> 'w sms_mgr \<Rightarrow> (RPC_SRV_RESULT \<times> 'w sms_mgr) kres" where
  "SmsRpc_ProcessWorkAsync lib b emu c dat m =
     (let m = m\<lparr>service := (service m)\<lparr>sms_AsyncCmdInProgress := c\<rparr>\<rparr> in
      kbind (if c \<in> {1, 5, 6, 7, 8, 9} then
          (case dat of
             P_USER (SMS_PACKET p) \<Rightarrow> kbind (sms_task lib b emu c p (pSmsMgr (service m))) (\<lambda>(r, g).
               kret (r, m\<lparr>service := (service m)\<lparr>pSmsMgr := g\<rparr>, blocks := blocks m - 1\<rparr>))
           | _ \<Rightarrow> kfail BadDeref)
        else kret (RPC_SRV_RESULT_FAIL, m))
      (\<lambda>(r, m). kret (r, m\<lparr>service := (service m)\<lparr>sms_AsyncCmdInProgress := EJSON_BBOXSMS_RPC_NONE\<rparr>\<rparr>)))"

section \<open>The service\<close>

definition SmsRpc :: "'w gsm_lib \<Rightarrow> GSM_MultiSMSMessage \<Rightarrow> bool \<Rightarrow> 'w sms_env \<Rightarrow> (sms_packet, 'w BBOXSMS_CMN_DATA_CACHE) handler" where
  "SmsRpc lib b emu env = \<lparr>
     h_MapJsonToBinary = (\<lambda>i d m. if i = 0 then json_to_bin_get_async_task_sms env d m
       else if i = 1 then json_to_bin_delete_all env d m else if i = 3 then json_to_bin_get_total_sms env d m
       else if i = 4 then json_to_bin_get_sms env d m else if i = 5 then json_to_bin_send_sms env d m
       else if i = 6 then json_to_bin_sms_list_update env d m else if i = 7 then json_to_bin_ident_device env d m
       else if i = 8 then json_to_bin_dial_voice env d m else if i = 9 then json_to_bin_dial_ussd env d m
       else if i = 10 then json_to_bin_get_ussd env d m else kret (-1, d, m)),
     h_MapBinaryToJson = (\<lambda>i d m. if i = 0 then bin_to_json_get_async_task_sms d m
       else if i = 3 then bin_to_json_get_total_sms d m else if i = 4 then bin_to_json_get_sms d m
       else if i \<in> {1, 5, 6, 7, 8, 9} then bin_to_json_task d m
       else if i = 10 then bin_to_json_get_ussd d m else kret (-1, d, m)),
     h_ProcessWork = (\<lambda>i d m. if i = 0 then process_get_async_task_sms d m
       else if i = 1 then process_delete_all env d m else if i = 3 then process_get_total_sms d m
       else if i = 4 then process_get_sms d m else if i = 5 then process_send_sms env d m
       else if i = 6 then process_sms_list_update env d m else if i = 7 then process_ident_device env d m
       else if i = 8 then process_dial_voice env d m else if i = 9 then process_dial_ussd env d m
       else if i = 10 then process_get_ussd d m else kret (0, d, m)),
     h_ProcessWorkAsync = SmsRpc_ProcessWorkAsync lib b emu,
     h_ReceiveEvent = (\<lambda>_ _ _ _ s. s)\<rparr>"

definition sms_world :: "platform \<Rightarrow> nat \<Rightarrow> s32 \<Rightarrow> string \<Rightarrow> 'w gsm_lib \<Rightarrow> GSM_MultiSMSMessage \<Rightarrow> bool \<Rightarrow> 'w sms_env" where
  "sms_world pl mx j s lib b emu = (let e = service_env pl mx j s in e\<lparr>handlers := (\<lambda>_. SmsRpc lib b emu e)\<rparr>)"

definition sms_names :: "string list" where
  "sms_names = [''get_async_task'', ''delete_all_sms'', ''delete_sms'', ''get_total_sms'', ''get_sms'', ''send_sms'', ''update_sms_list'', ''identify_dev'',
     ''dial_voice'', ''dial_ussd'', ''get_ussd'']"

definition sms_objects :: "bool \<Rightarrow> ADJsonRpcMgrConsumer list" where
  "sms_objects dbglog = map (\<lambda>i. \<lparr>strRpcName = sms_names ! i, c_index = of_nat i, parent_index = 0, logmsg = dbglog, cmnrpchandler = False, c_object = i\<rparr>) [0..<11]"

definition sms_main :: "s32 \<Rightarrow> bool \<Rightarrow> 'w \<Rightarrow> rpc \<Rightarrow> ('w sms_mgr \<times> rpc) kres" where
  "sms_main ver dbglog w st =
     kbind (mgr_Start (fold AttachRpc (sms_objects dbglog)
       (mgr_new ver dbglog \<lparr>pSmsMgr = sms_new w, sms_AsyncCmdInProgress = EJSON_BBOXSMS_RPC_NONE\<rparr>)) st) (\<lambda>(m, st).
     kret (snd (SetServiceReadyFlag 1 m), st))"

end
