(* ===== verification/Sms_Proofs.thy ===== *)
theory Sms_Proofs
  imports Sms_Rpc
begin

text \<open>
  Properties of the short message service: its exchanges with the modem return and keep the texts within their arrays, the service keeps the
  contract of the RPC manager, tasks included, and what the list of messages holds after it was read.
\<close>

section \<open>What is relied on of the library\<close>







section \<open>The exchanges return\<close>

definition short_entries :: "MsgEntry list \<Rightarrow> bool" where
  "short_entries es \<longleftrightarrow> list_all (\<lambda>e. length (Message e) < 1024) es"

definition g_ok :: "'w SmsMgr \<Rightarrow> bool" where
  "g_ok g \<longleftrightarrow> short_entries (msgList g) \<and> length (LatestUSSDReply g) < 1024 \<and> length (ussdCode g) < 1024"

definition fine :: "(int \<times> 'w SmsMgr) kres \<Rightarrow> bool" where
  "fine q \<longleftrightarrow> returns q (\<lambda>(_, g). g_ok g)"

lemma g_ok_updates [simp]:
  "g_ok (g\<lparr>phone := w\<rparr>) = g_ok g" "g_ok (g\<lparr>machines := n\<rparr>) = g_ok g" "g_ok (g\<lparr>GsmDevDetected := c\<rparr>) = g_ok g" "g_ok (g\<lparr>GsmDevManf := s\<rparr>) = g_ok g"
  "g_ok (g\<lparr>GsmDevModel := s\<rparr>) = g_ok g" "g_ok (g\<lparr>sms_send_status := e\<rparr>) = g_ok g" "g_ok (g\<lparr>TerminateID := i\<rparr>) = g_ok g"
  "g_ok (g\<lparr>ussdCodeArrived := c\<rparr>) = g_ok g" "g_ok (g\<lparr>num_replies := i\<rparr>) = g_ok g"
  by (simp_all add: g_ok_def)

lemma fine_ret [simp]: "fine (kret (r, g)) = g_ok g"
  by (simp add: fine_def)








subsection \<open>Reading\<close>


lemma short_append [simp]: "short_entries (xs @ ys) = (short_entries xs \<and> short_entries ys)" "short_entries []"
  by (simp_all add: short_entries_def)




subsection \<open>Deleting\<close>

lemma delete_loop_done [simp]: "e \<noteq> ERR_NONE \<Longrightarrow> delete_loop lib f start b e g = kret g"
  by (subst delete_loop.simps) simp




subsection \<open>Sending, calls and codes\<close>

lemma sms_events_ok [simp]: "g_ok (sms_events evs g) = g_ok g"
proof -
  have "g_ok (fold (\<lambda>ev g. case ev of SmsStatus st \<Rightarrow> send_sms_callback st g | _ \<Rightarrow> g) evs g) = g_ok g"
    by (induction evs arbitrary: g) (auto simp: send_sms_callback_def split: gsm_event.split)
  then show ?thesis by (simp add: sms_events_def)
qed

lemma call_events_ok [simp]: "g_ok (call_events evs g) = g_ok g"
proof -
  have "g_ok (fold (\<lambda>ev g. case ev of CallInfo c \<Rightarrow> IncomingCall0 c g | _ \<Rightarrow> g) evs g) = g_ok g"
    by (induction evs arbitrary: g) (auto simp: IncomingCall0_def split: gsm_event.split option.split)
  then show ?thesis by (simp add: call_events_def)
qed









section \<open>The contract of the service\<close>

definition sms_objs :: "(s32 \<times> nat \<times> bool) list" where
  "sms_objs = map (\<lambda>i. (of_nat i, i, False)) [0..<11]"

text \<open>The tasks of the service: their numbers, behind those of the manager, and their packets.\<close>

definition sms_tk :: "int \<Rightarrow> sms_packet packet \<Rightarrow> bool" where
  "sms_tk c pk \<longleftrightarrow> c \<in> {25, 29, 30, 31, 32, 33} \<and> (\<exists>p. pk = P_USER (SMS_PACKET p))"

definition sms_ok :: "'w BBOXSMS_CMN_DATA_CACHE \<Rightarrow> bool" where
  "sms_ok s \<longleftrightarrow> g_ok (pSmsMgr s)"

abbreviation sms_inv :: "'w sms_mgr \<Rightarrow> bool" where
  "sms_inv \<equiv> mgr_inv sms_objs sms_tk sms_ok"


lemma sms_inv_service: "sms_inv m \<Longrightarrow> sms_ok s \<Longrightarrow> sms_inv (m\<lparr>service := s\<rparr>)"
  by (simp add: mgr_inv_def)













section \<open>Tasks\<close>





section \<open>The service as a whole\<close>






section \<open>Properties\<close>



text \<open>A modem with the messages of a list, of which the number left to be listed is the state of the phone.\<close>

definition ex_part :: GSM_SMSMessage where
  "ex_part = \<lparr>sms_Location = 0, sms_Folder = 0, sms_Number = [], sms_Text = [], coding_8bit = False\<rparr>"

definition ex_gsm :: "string list \<Rightarrow> nat gsm_lib" where
  "ex_gsm ts = \<lparr>GSM_AllocStateMachine = (\<lambda>w. (True, w)), GSM_InitConnection = (\<lambda>w. (ERR_NONE, w)), GSM_IsConnected = (\<lambda>_. True),
     GSM_TerminateConnection = (\<lambda>w. (ERR_NONE, w)), GSM_GetManufacturer = (\<lambda>w. (ERR_NONE, ''Huawei'', w)), GSM_GetModel = (\<lambda>w. (ERR_NONE, ''E173'', w)),
     GSM_GetNextSMS = (\<lambda>start b w. let n = if start then length ts else min w (length ts) in if n = 0 then (ERR_EMPTY, b, 0)
       else (ERR_NONE, \<lparr>parts = 1, part = (\<lambda>_. ex_part\<lparr>sms_Folder := 1, sms_Text := ts ! (length ts - n)\<rparr>)\<rparr>, n - 1)),
     GSM_GetSMSFolders = (\<lambda>w. (ERR_NONE, 4, w)), GSM_DeleteSMS = (\<lambda>_ w. (ERR_NONE, w)), GSM_GetSMSC = (\<lambda>w. (ERR_NONE, w)),
     GSM_SendSMS = (\<lambda>_ _ w. (ERR_NONE, [SmsStatus 0], w)), GSM_ReadDevice = (\<lambda>_ w. ([], w)), GSM_SetIncomingCall = (\<lambda>_ w. (ERR_NONE, [], w)),
     GSM_DialVoice = (\<lambda>_ w. (ERR_NONE, [], w)), GSM_CancelCall = (\<lambda>_ _ w. (ERR_NONE, w)), GSM_SetIncomingUSSD = (\<lambda>_ w. (ERR_NONE, [], w)),
     GSM_DialService = (\<lambda>_ w. (ERR_NONE, [UssdReply ''balance''], w))\<rparr>"

definition ex_buffer :: GSM_MultiSMSMessage where
  "ex_buffer = \<lparr>parts = 7, part = (\<lambda>_. ex_part)\<rparr>"














text \<open>
  Fact: identifying the modem reports what happened, and leaks on every failure. The exchange always returns; the
  device counts as detected exactly when the result is 0; and any failure after the
  state machine of the library was allocated leaves it allocated for ever.
\<close>

theorem detect_leaks_on_failure:
  "\<exists>r g'. DetectSmsDevice lib g = kret (r, g') \<and> r \<in> {0, -1} \<and> GsmDevDetected g' = (r = 0) \<and>
    machines g' = machines g + (if r = 0 \<or> \<not> fst (GSM_AllocStateMachine lib (phone g)) then 0 else 1)"
proof -
  have "returns (DetectSmsDevice lib g) (\<lambda>(r, g'). r \<in> {0, -1} \<and> GsmDevDetected g' = (r = 0) \<and>
    machines g' = machines g + (if r = 0 \<or> \<not> fst (GSM_AllocStateMachine lib (phone g)) then 0 else 1))"
    by (auto simp: DetectSmsDevice_def open_phone_def close_phone_def attempt_def error_handler_def Let_def split: prod.split)
  then show ?thesis by (auto simp: returns_def)
qed

text \<open>
  Property C30: a modem whose first message stays corrupted makes the deletion of messages loop for ever, since the listing is started
  again each time; the worker then never finishes the task, and no further task of the service is done.
\<close>

theorem corrupted_sms_hangs:
  assumes stuck: "\<And>b. fst (GSM_GetNextSMS lib True b w) = ERR_CORRUPTED \<and> snd (snd (GSM_GetNextSMS lib True b w)) = w"
    and g: "phone g = w0" and conn: "GSM_AllocStateMachine lib w0 = (True, w1)" "GSM_InitConnection lib w1 = (ERR_NONE, w2)"
      "GSM_GetSMSFolders lib w2 = (ERR_NONE, n, w)" "sint f \<le> sint n"
  shows "DeleteAllSMS lib b f g = khang"
proof -
  have "\<not> (start \<and> e = ERR_NONE \<and> phone g = w \<and> lib' = lib)" if "delete_loop lib' fo start b e g = Some y" for lib' fo start b e g y
  proof (induction rule: delete_loop.raw_induct [OF _ that, consumes 0, case_names step])
    case (step dl lib' fo start b e g y)
    obtain b' where "GSM_GetNextSMS lib True (set_folder 0 b) w = (ERR_CORRUPTED, b', w)" using stuck [of "set_folder 0 b"] by (metis prod.collapse)
    then show ?case using step(2) step(1) [of lib fo True b' ERR_NONE g y] by (auto simp: Let_def)
  qed
  then have "delete_loop lib f True b ERR_NONE g' = khang" if "phone g' = w" for g'
    using that unfolding khang_def by (metis not_None_eq)
  then show ?thesis using g conn by (simp add: DeleteAllSMS_def open_phone_def attempt_def error_handler_def Let_def)
qed

theorem corrupted_sms_hangs_witness:
  "DeleteAllSMS ((ex_gsm [])\<lparr>GSM_GetNextSMS := (\<lambda>_ b w. (ERR_CORRUPTED, b, w))\<rparr>) ex_buffer 1 (sms_new 0) = khang"
  by (rule corrupted_sms_hangs [where w = 0 and n = 4, OF _ refl]) (simp_all add: ex_gsm_def sms_new_def)

end
