(* ===== verification/Sys_Info.thy ===== *)
theory Sys_Info
  imports Json_Rpc Rpc_Result Cpp_Strings "HOL-Library.Signed_Division"
begin

text \<open>
  Information on the system, \<open>ADSysInfo.cpp\<close> of \<open>src/sources/lib/lib-adav-old/src/\<close>: memory, load and processor from the files of the kernel,
  network interfaces, and shell commands. The shell, the files and the network are the record \<open>shell\<close> of functions on a world of any type; the
  conversions of floating point numbers are functions of it as well.
\<close>

section \<open>Surroundings\<close>

record if_req =
  if_name :: string
  if_inet :: bool
  if_addr :: string
  if_hwaddr :: "u8 list option"
  if_netmask :: "string option"

text \<open>
  \<open>sh_system\<close> is \<open>system\<close>, \<open>sh_popen\<close> the output of a command, if it can be started, \<open>sh_ifconf\<close> the interfaces with the answers to the requests for
  each. \<open>sh_load\<close> are the current and average load that the text shows, in percent for the number of cores.
\<close>

record 'w shell =
  sh_system :: "string \<Rightarrow> 'w \<Rightarrow> int \<times> 'w"
  sh_popen :: "string \<Rightarrow> 'w \<Rightarrow> string option \<times> 'w"
  sh_read :: "string \<Rightarrow> 'w \<Rightarrow> string option"
  sh_write :: "string \<Rightarrow> string \<Rightarrow> 'w \<Rightarrow> bool \<times> 'w"
  sh_regular :: "string \<Rightarrow> 'w \<Rightarrow> bool"
  sh_ifconf :: "'w \<Rightarrow> if_req list option"
  sh_load :: "string \<Rightarrow> s32 \<Rightarrow> s32 \<times> s32"
  sh_uptime :: "string \<Rightarrow> s32"
  sh_junk :: s32
  sh_junk_str :: string

text \<open>The first line of the output of a command, read with room for \<open>n\<close> characters; it is empty at the end of the output.\<close>

definition first_line :: "'w shell \<Rightarrow> nat \<Rightarrow> string \<Rightarrow> 'w \<Rightarrow> string option \<times> 'w" where
  "first_line sh n command w = (case sh_popen sh command w of (None, w) \<Rightarrow> (None, w) | (Some t, w) \<Rightarrow> (Some (fst (fgets n t)), w))"

text \<open>The text without its last character, which the code overwrites; an empty text has none.\<close>

definition chop :: "string \<Rightarrow> string kres" where
  "chop t = (if c_str t = [] then kfail BufferOverrun else kret (butlast (c_str t)))"

section \<open>Shell commands\<close>

definition shell_result :: "int \<Rightarrow> RPC_SRV_RESULT" where
  "shell_result res =
     (if res = 0 then RPC_SRV_RESULT_SUCCESS else if res = 1 then RPC_SRV_RESULT_FILE_OPEN_ERR else if res = 2 then RPC_SRV_RESULT_FILE_READ_ERR
      else if res = 3 then RPC_SRV_RESULT_FILE_WRITE_ERR else if res = 4 then RPC_SRV_RESULT_ARG_ERROR else if res = 5 then RPC_SRV_RESULT_ARG_ERROR
      else if res = 6 then RPC_SRV_RESULT_HOST_NOT_REACHABLE_ERR else if res = 7 then RPC_SRV_RESULT_FILE_SAME
      else if res = 8 then RPC_SRV_RESULT_FILE_DIFFERENT else if res = 9 then RPC_SRV_RESULT_FILE_NOT_FOUND else RPC_SRV_RESULT_FAIL)"

definition run_shell_script :: "'w shell \<Rightarrow> string \<Rightarrow> bool \<Rightarrow> 'w \<Rightarrow> (RPC_SRV_RESULT \<times> 'w) kres" where
  "run_shell_script sh script emulation w =
     (if emulation then kret (RPC_SRV_RESULT_SUCCESS, w)
      else kbind (sprintf_s 1024 script) (\<lambda>command. case sh_system sh command w of (res, w) \<Rightarrow> kret (shell_result (res sdiv 256), w)))"

text \<open>The other form, which returns the first line of the output; \<open>ret_val\<close> is what the array holds without one.\<close>

definition run_shell_output :: "'w shell \<Rightarrow> string \<Rightarrow> string \<Rightarrow> 'w \<Rightarrow> RPC_SRV_RESULT \<times> string \<times> 'w" where
  "run_shell_output sh cmd ret_val w = (case first_line sh 249 cmd w of
     (None, w) \<Rightarrow> (RPC_SRV_RESULT_FILE_OPEN_ERR, ret_val, w)
   | (Some l, w) \<Rightarrow> (RPC_SRV_RESULT_SUCCESS, if l = [] then ret_val else c_str l, w))"

section \<open>Files of the kernel\<close>

text \<open>\<open>strstr\<close>: the text from the first occurrence on.\<close>

fun strstr :: "string \<Rightarrow> string \<Rightarrow> string option" where
  "strstr x [] = (if x = [] then Some [] else None)"
| "strstr x (c # cs) = (if take (length x) (c # cs) = x then Some (c # cs) else strstr x cs)"

fun count_string_occurance :: "string \<Rightarrow> string \<Rightarrow> nat" where
  "count_string_occurance x [] = 0"
| "count_string_occurance x (c # cs) = (if take (length x) (c # cs) = x then 1 else 0) + count_string_occurance x cs"

text \<open>
  The last part of a file that the reading loop leaves, parts ending at null characters. A file that cannot be opened is read through a null
  pointer, and an empty one leaves the array unset.
\<close>

definition proc_text :: "'w shell \<Rightarrow> string \<Rightarrow> 'w \<Rightarrow> string kres" where
  "proc_text sh path w = (case sh_read sh path w of None \<Rightarrow> kfail BadDeref
     | Some t \<Rightarrow> if t = [] then kfail BadDeref
         else let ps = split_on (CHR 0x00) t in kret (if last ps = [] then last (butlast ps) else last ps))"

definition get_cpu_cores :: "'w shell \<Rightarrow> 'w \<Rightarrow> s32 kres" where
  "get_cpu_cores sh w = kbind (proc_text sh ''/proc/cpuinfo'' w) (\<lambda>t. kret (of_nat (count_string_occurance ''model name'' t)))"

definition get_current_and_average_load :: "'w shell \<Rightarrow> s32 \<Rightarrow> 'w \<Rightarrow> (s32 \<times> s32) kres" where
  "get_current_and_average_load sh cores w = kbind (proc_text sh ''/proc/loadavg'' w) (\<lambda>t. kret (sh_load sh t cores))"

text \<open>\<open>sscanf\<close> of a label and a number; the variable keeps its contents when there is no number.\<close>

definition scan_after :: "string \<Rightarrow> string \<Rightarrow> s32 \<Rightarrow> s32" where
  "scan_after label t old = (case scan_d (drop (length label) t) of None \<Rightarrow> old | Some (v, _) \<Rightarrow> v)"

text \<open>None is the result \<open>-1\<close>.\<close>

definition get_mem_and_free_mem :: "'w shell \<Rightarrow> 'w \<Rightarrow> (s32 \<times> s32) option kres" where
  "get_mem_and_free_mem sh w = kbind (proc_text sh ''/proc/meminfo'' w) (\<lambda>t.
     kret (case strstr ''MemTotal:'' t of None \<Rightarrow> None
       | Some a \<Rightarrow> (case strstr ''MemFree:'' t of None \<Rightarrow> None
           | Some b \<Rightarrow> Some (scan_after ''MemTotal:'' a (sh_junk sh), scan_after ''MemFree:'' b (sh_junk sh)))))"

definition get_uptime :: "'w shell \<Rightarrow> 'w \<Rightarrow> s32 kres" where
  "get_uptime sh w = kbind (proc_text sh ''/proc/uptime'' w) (\<lambda>t. kret (sh_uptime sh t))"

text \<open>\<open>sscanf\<close> of a label and a word, into an array of 512 characters.\<close>

definition word_after :: "'w shell \<Rightarrow> string \<Rightarrow> string \<Rightarrow> string kres" where
  "word_after sh label t = (let x = first_word (drop (length label) t) in sprintf_s 512 (if x = [] then sh_junk_str sh else x))"

definition model_label :: "string \<Rightarrow> string" where
  "model_label s = s @ [CHR 0x09, CHR '':'']"

definition get_cpu_model_name :: "'w shell \<Rightarrow> 'w \<Rightarrow> string option kres" where
  "get_cpu_model_name sh w = kbind (proc_text sh ''/proc/cpuinfo'' w) (\<lambda>t.
     let next = (case strstr (model_label ''model name'') t of None \<Rightarrow> kret None
           | Some s \<Rightarrow> kbind (word_after sh (model_label ''model name'') s) (\<lambda>model. kret (Some model))) in
     case strstr (model_label ''Processor'') t of None \<Rightarrow> next
     | Some s \<Rightarrow> kbind (word_after sh (model_label ''Processor'') s) (\<lambda>model. kbind (sprintf_s 256 model) (\<lambda>tmp_str.
         if take 3 tmp_str = ''ARM'' then kret (Some model) else next)))"

record system_status =
  st_mem :: s32
  st_memfree :: s32
  st_cores :: s32
  st_cur_load :: s32
  st_avg_load :: s32
  st_uptime :: s32
  st_model :: string

definition read_system_status :: "'w shell \<Rightarrow> 'w \<Rightarrow> system_status kres" where
  "read_system_status sh w =
     kbind (get_cpu_cores sh w) (\<lambda>n. let cores = (if sint n < 1 then 1 else n) in
     kbind (get_current_and_average_load sh cores w) (\<lambda>(cur, avg).
     kbind (get_mem_and_free_mem sh w) (\<lambda>q. case (case q of None \<Rightarrow> (-1, -1) | Some q \<Rightarrow> q) of (mem, memfree) \<Rightarrow>
     kbind (get_uptime sh w) (\<lambda>up.
     kbind (get_cpu_model_name sh w) (\<lambda>model.
     kret \<lparr>st_mem = mem, st_memfree = memfree, st_cores = cores, st_cur_load = cur, st_avg_load = avg, st_uptime = up,
       st_model = (case model of None \<Rightarrow> ''unknown'' | Some s \<Rightarrow> s)\<rparr>)))))"

definition read_mem_info :: "'w shell \<Rightarrow> 'w \<Rightarrow> (string \<times> string \<times> string) kres" where
  "read_mem_info sh w = kbind (read_system_status sh w) (\<lambda>st.
     kret (show_int (sint (st_mem st) sdiv 1024), show_int (sint (st_memfree st) sdiv 1024), show_int (sint (st_mem st - st_memfree st) sdiv 1024)))"

definition read_load_info :: "'w shell \<Rightarrow> 'w \<Rightarrow> (string \<times> string \<times> string) kres" where
  "read_load_info sh w = kbind (read_system_status sh w) (\<lambda>st.
     kret (show_int (sint (st_cur_load st)), show_int (sint (st_avg_load st)), show_int (sint (st_uptime st))))"

definition read_cpu_info :: "'w shell \<Rightarrow> 'w \<Rightarrow> (string \<times> string \<times> string) kres" where
  "read_cpu_info sh w = kbind (read_system_status sh w) (\<lambda>st. kret (st_model st, show_int (sint (st_cores st)), ''unknown''))"

section \<open>Network interfaces\<close>

definition MAX_ALLOWED_INTERFACES :: nat where
  "MAX_ALLOWED_INTERFACES = 8"

record eth_name_ip_str =
  eth_dev :: string
  eth_ip :: string
  eth_mac :: string
  eth_netmask :: string

definition hex_char :: "nat \<Rightarrow> char" where
  "hex_char n = ''0123456789ABCDEF'' ! n"

fun mac_text :: "u8 list \<Rightarrow> string" where
  "mac_text [] = []"
| "mac_text [b] = [hex_char (unat b div 16), hex_char (unat b mod 16)]"
| "mac_text (b # bs) = [hex_char (unat b div 16), hex_char (unat b mod 16), CHR '':''] @ mac_text bs"

text \<open>The loop over the interfaces, with the entries so far; the array has \<open>MAX_ALLOWED_INTERFACES\<close> entries, and the test allows one more.\<close>

fun probe_loop :: "if_req list \<Rightarrow> eth_name_ip_str list \<Rightarrow> eth_name_ip_str list option kres" where
  "probe_loop [] es = kret (Some es)"
| "probe_loop (r # rs) es =
     (if \<not> if_inet r then probe_loop rs es
      else case if_hwaddr r of None \<Rightarrow> kret None
      | Some hw \<Rightarrow>
          if MAX_ALLOWED_INTERFACES < length es then kret (Some es)
          else if MAX_ALLOWED_INTERFACES \<le> length es then kfail BufferOverrun
          else probe_loop rs (es @ [\<lparr>eth_dev = if_name r, eth_ip = if_addr r, eth_mac = mac_text hw,
            eth_netmask = (case if_netmask r of None \<Rightarrow> ''not_available'' | Some s \<Rightarrow> s)\<rparr>]))"

definition probe_eth_interface_details :: "'w shell \<Rightarrow> 'w \<Rightarrow> eth_name_ip_str list option kres" where
  "probe_eth_interface_details sh w = (case sh_ifconf sh w of None \<Rightarrow> kret None | Some rs \<Rightarrow> probe_loop rs [])"

fun find_iface :: "string \<Rightarrow> eth_name_ip_str list \<Rightarrow> eth_name_ip_str option" where
  "find_iface eth [] = None"
| "find_iface eth (e # es) = (if eth_dev e = ''lo'' then find_iface eth es else if eth_dev e = eth then Some e else find_iface eth es)"

text \<open>The result, and the hardware address, address and netmask.\<close>

definition read_network_info :: "'w shell \<Rightarrow> string \<Rightarrow> 'w \<Rightarrow> (int \<times> string \<times> string \<times> string) kres" where
  "read_network_info sh eth w = kbind (probe_eth_interface_details sh w) (\<lambda>q. kret (case q of None \<Rightarrow> (-1, ''unknown'', ''unknown'', ''unknown'')
     | Some es \<Rightarrow> (case find_iface eth es of None \<Rightarrow> (-1, ''unknown'', ''unknown'', ''unknown'') | Some e \<Rightarrow> (0, eth_mac e, eth_ip e, eth_netmask e))))"

text \<open>None when it fails; the arrays then keep their contents.\<close>

definition read_network_info_ifconfig :: "'w shell \<Rightarrow> string \<Rightarrow> 'w \<Rightarrow> ((string \<times> string \<times> string) option \<times> 'w) kres" where
  "read_network_info_ifconfig sh eth w =
     kbind (sprintf_s 512 (''ifconfig | grep '' @ eth @ '' >/dev/null'')) (\<lambda>cmd. case sh_system sh cmd w of (r, w) \<Rightarrow>
     if r \<noteq> 0 then kret (None, w)
     else kbind (sprintf_s 512 (''ifconfig | grep '' @ eth @ '' | awk '' @ [CHR 0x27] @ ''{print $5}'' @ [CHR 0x27])) (\<lambda>cmd.
       case first_line sh 249 cmd w of (None, w) \<Rightarrow> kret (None, w)
       | (Some l, w) \<Rightarrow> if l = [] then kret (None, w)
           else kbind (chop l) (\<lambda>mac. kret (Some (mac, ''NotConnected'', ''NotConnected''), w))))"

definition eth_filter :: string where
  "eth_filter = ''ifconfig | grep '' @ [CHR 0x22] @ ''Link encap'' @ [CHR 0x22] @ '' | grep -v '' @ [CHR 0x22] @ ''Local Loopback'' @ [CHR 0x22]"

definition get_total_eth_count :: "'w shell \<Rightarrow> 'w \<Rightarrow> RPC_SRV_RESULT \<times> s32 \<times> 'w" where
  "get_total_eth_count sh w = (case sh_system sh (eth_filter @ '' >/dev/null'') w of (r, w) \<Rightarrow>
     if r \<noteq> 0 then (RPC_SRV_RESULT_SUCCESS, 0, w)
     else case first_line sh 249 (eth_filter @ '' | sed -n '' @ [CHR 0x27] @ ''$='' @ [CHR 0x27]) w of
       (None, w) \<Rightarrow> (RPC_SRV_RESULT_FILE_OPEN_ERR, 0, w)
     | (Some l, w) \<Rightarrow> (RPC_SRV_RESULT_SUCCESS, if l = [] then 0 else atoi (c_str l), w))"

text \<open>\<open>old\<close> is what the array holds when the command prints nothing.\<close>

definition get_nth_eth_name :: "'w shell \<Rightarrow> s32 \<Rightarrow> string \<Rightarrow> 'w \<Rightarrow> (RPC_SRV_RESULT \<times> string \<times> 'w) kres" where
  "get_nth_eth_name sh index old w =
     (case first_line sh 249 (eth_filter @ '' | sed -n '' @ [CHR 0x27] @ show_int (sint index) @ '',1p'' @ [CHR 0x27] @ '' | awk '' @
         [CHR 0x27] @ ''{print $1}'' @ [CHR 0x27]) w of
       (None, w) \<Rightarrow> kret (RPC_SRV_RESULT_FILE_OPEN_ERR, old, w)
     | (Some l, w) \<Rightarrow> if l = [] then kret (RPC_SRV_RESULT_SUCCESS, old, w)
         else kbind (chop l) (\<lambda>s. kret (RPC_SRV_RESULT_SUCCESS, s, w)))"

end
