(* ===== verification/Sysmgr.thy ===== *)
theory Sysmgr
  imports Gpioctl Sys_Info
begin

text \<open>
  The system manager, \<open>SysRpc.cpp\<close>, \<open>NetRpc.cpp\<close>, \<open>DispCtrlRpc.cpp\<close>, \<open>CmnRpc.cpp\<close> and \<open>LogHandler.cpp\<close> of \<open>src/sources/services/sysmgr/srv/src/\<close>: the
  calls on the system, the network and the display, the tasks and the list of log messages. Every call has an object of its own, so that
  the flags of the class \<open>SysRpc\<close>, which tell what was read already, exist once per object. The interfaces of the device identification, the
  display and the event monitor are functions on the world.
\<close>

section \<open>Packets and state\<close>

text \<open>The packets of the calls, with the members of the structures in their order; the three for load, memory and processor have the same members.\<close>

datatype sys_packet =
    SYSMGR_MAC_ADDR_PACKET u32 string s32 string
  | SYSMGR_INFO_PACKET string string string
  | SYSMGR_DEV_OP_PACKET u32 s32
  | SYSMGR_FMW_MODULE_PACKET u32 string s32
  | SYSMGR_BOOT_SYSTEM_PACKET u32
  | SYSMGR_DOWNLOAD_FILE_PACKET string string string s32
  | SYSMGR_ASYNCTASK_PACKET u32
  | SYSMGR_DEVTYPE_PACKET u32
  | SYSMGR_HOSTNAME_PACKET string
  | SYSMGR_MY_PUBLIC_IP_PACKET string
  | SYSMGR_LOG_PACKET s32 s32 string s32
  | SYSMGR_NET_INFO_PACKET u32 string string
  | SYSMGR_SHELLCMD_PACKET string s32
  | SYSMGR_DEVIDENT_PACKET s32
  | SYSMGR_EVNT_SUBSCR_PACKET s32
  | SYSMGR_PRINT_PACKET u32 string u32

record LOG_MSG_PACKET =
  LineNum :: s32
  Msg :: string

record sys_flags =
  crnt_fmwver_updated :: bool
  bkup_fmwver_updated :: bool
  boot_system_updated :: bool

record 'w SYSMGR_CMN_DATA_CACHE =
  BoardType :: u32
  SyscfgType :: u32
  DevOp :: u32
  crnt_fmwver :: string
  bkup_fmwver :: string
  bootsys :: u32
  sys_AsyncCmdInProgress :: s32
  logmsg_chain :: "LOG_MSG_PACKET list"
  obj_flags :: "nat \<Rightarrow> sys_flags"
  sys_world :: 'w

record 'w DisplayDevice =
  clear_display :: "'w \<Rightarrow> RPC_SRV_RESULT \<times> 'w"
  print_line :: "string \<Rightarrow> u32 \<Rightarrow> 'w \<Rightarrow> RPC_SRV_RESULT \<times> 'w"
  get_back_light :: "'w \<Rightarrow> RPC_SRV_RESULT \<times> bool \<times> 'w"
  set_back_light :: "bool \<Rightarrow> 'w \<Rightarrow> RPC_SRV_RESULT \<times> 'w"

text \<open>What the calls work with: the shell, the objects behind the pointers of the cache, and the emulation mode.\<close>

record 'w sys_parts =
  sp_shell :: "'w shell"
  device_identify :: "('w \<Rightarrow> RPC_SRV_RESULT \<times> 'w) option"
  ReSubscribeEvents :: "('w \<Rightarrow> RPC_SRV_RESULT \<times> 'w) option"
  pDisplay :: "'w DisplayDevice option"
  sp_emulation :: bool

type_synonym sys_rpc = "sys_packet rpc_data"
type_synonym 'w sys_mgr = "(sys_packet, 'w SYSMGR_CMN_DATA_CACHE) rpc_mgr"
type_synonym 'w sys_env = "(sys_packet, 'w SYSMGR_CMN_DATA_CACHE) mgr_env"
type_synonym 'w sys_res = "(sys_packet, 'w SYSMGR_CMN_DATA_CACHE) step_res"

definition EJSON_SYSMGR_RPC_NONE :: s32 where
  "EJSON_SYSMGR_RPC_NONE = 36"

definition SYSMGR_RPC_MAC_ADDR_ARG_IFACE_TABL :: "string list" where
  "SYSMGR_RPC_MAC_ADDR_ARG_IFACE_TABL = [''eth0'', ''eth1'', ''wlan0'', ''br-lan'', ''eth0.1'', ''eth0.2'', ''br0'', ''tun1'', ''enp110s0'', ''usb0'',
     ''unknown'', ''none'', '''']"

definition SYSMGR_RPC_DEV_OP_ARG_TABL :: "string list" where
  "SYSMGR_RPC_DEV_OP_ARG_TABL = [''idle'', ''on'', ''laststate'', ''standby'', ''reboot'', ''booting'', ''rebooting'', ''switchingoff'', ''boot'',
     ''unknown'', ''none'', '''']"

definition SYSMGR_RPC_FMW_VER_ARG_TABL :: "string list" where
  "SYSMGR_RPC_FMW_VER_ARG_TABL = [''current'', ''backup'', ''kernel'', ''project'', ''brbox1'', ''brbox2'', ''unknown'', ''none'', '''']"

definition SYSMGR_RPC_BOOT_SYSTEM_ARG_TABL :: "string list" where
  "SYSMGR_RPC_BOOT_SYSTEM_ARG_TABL = [''brbox1'', ''brbox2'', ''unknown'', ''none'', '''']"

definition SYSMGR_RPC_ASYNCTASK_ARG_TABL :: "string list" where
  "SYSMGR_RPC_ASYNCTASK_ARG_TABL = [''devop'', ''fupdate'', ''ftpdownload'', ''tftpdownload'', ''loglistupdt'', ''shellcmd'', ''devident'',
     ''shellcmdtrig'', ''none'', ''none'', '''']"

definition ADCMN_BOARD_TYPE_TABLE :: "string list" where
  "ADCMN_BOARD_TYPE_TABLE = [''RASPI_A'', ''RASPI_APLUS'', ''RASPI_B'', ''RASPI_BPLUS'', ''RASPI_B2'', ''BAYTRAIL'', ''BAYTRAIL_I210'', ''BBB'', ''RASPI_0'',
     ''RASPI_0W'', ''RASPI_3'', ''X86_64'', ''X86_32'', ''A5_V11'', ''NEXX_3020'', ''GL_MT300NV2'', ''RASPI_2'', ''RASPI_4'', ''Unknown'', ''none'', '''']"

definition SYSMGR_RPC_DISP_LINE_ARG_TABL :: "string list" where
  "SYSMGR_RPC_DISP_LINE_ARG_TABL = [''line1'', ''line2'', ''line3'', ''line4'', ''lineall'', ''none'', ''none'', '''']"

definition SYSMGR_RPC_DISP_BKLT_ARG_TABL :: "string list" where
  "SYSMGR_RPC_DISP_BKLT_ARG_TABL = [''off'', ''on'', ''unknown'', ''none'', '''']"

section \<open>The list of log messages\<close>

definition grep_log_message_line :: "'w shell \<Rightarrow> string \<Rightarrow> string \<Rightarrow> nat \<Rightarrow> 'w \<Rightarrow> (string option \<times> 'w) kres" where
  "grep_log_message_line sh log_filepath match_string line w =
     kbind (sprintf_s 1024 (''grep '' @ match_string @ '' '' @ log_filepath @ '' | sed '' @ [CHR 0x27] @ show_int (int line) @ '','' @ show_int (int line) @
       ''!d'' @ [CHR 0x27] @ '' '')) (\<lambda>command. kret (case first_line sh 509 command w of
         (None, w) \<Rightarrow> (None, w) | (Some l, w) \<Rightarrow> (if l = [] then None else Some (c_str l), w)))"

text \<open>The loop for the lines \<open>i + 1\<close> to \<open>i + n\<close>; a line that cannot be read is left out.\<close>

fun update_logmsg_chain :: "'w shell \<Rightarrow> string \<Rightarrow> string \<Rightarrow> nat \<Rightarrow> nat \<Rightarrow> LOG_MSG_PACKET list \<Rightarrow> 'w \<Rightarrow> (LOG_MSG_PACKET list \<times> 'w) kres" where
  "update_logmsg_chain sh log_filepath match_string i 0 ch w = kret (ch, w)"
| "update_logmsg_chain sh log_filepath match_string i (Suc n) ch w =
     kbind (grep_log_message_line sh log_filepath match_string (i + 1) w) (\<lambda>(q, w).
     update_logmsg_chain sh log_filepath match_string (i + 1) n (case q of None \<Rightarrow> ch | Some t \<Rightarrow> ch @ [\<lparr>LineNum = of_nat (i + 1), Msg = t\<rparr>]) w)"

definition read_log_message_count :: "'w shell \<Rightarrow> string \<Rightarrow> string \<Rightarrow> LOG_MSG_PACKET list \<Rightarrow> 'w \<Rightarrow> (RPC_SRV_RESULT \<times> LOG_MSG_PACKET list \<times> 'w) kres" where
  "read_log_message_count sh log_filepath match_string ch w =
     kbind (sprintf_s 1024 (''grep '' @ match_string @ '' '' @ log_filepath @ '' | sed -n '' @ [CHR 0x27] @ ''$='' @ [CHR 0x27])) (\<lambda>command.
     case first_line sh 249 command w of
       (None, w) \<Rightarrow> kret (RPC_SRV_RESULT_FILE_OPEN_ERR, ch, w)
     | (Some l, w) \<Rightarrow> if l = [] then kret (RPC_SRV_RESULT_ITEM_NOT_FOUND, ch, w)
         else kbind (update_logmsg_chain sh log_filepath match_string 0 (nat (sint (atoi (c_str l)))) [] w) (\<lambda>(ch, w). kret (RPC_SRV_RESULT_SUCCESS, ch, w)))"

definition LOG_FILE_PATH :: string where
  "LOG_FILE_PATH = ''/tmp/messages''"

definition UpdateLogList :: "'w shell \<Rightarrow> LOG_MSG_PACKET list \<Rightarrow> 'w \<Rightarrow> (RPC_SRV_RESULT \<times> LOG_MSG_PACKET list \<times> 'w) kres" where
  "UpdateLogList sh ch w =
     (if \<not> sh_regular sh LOG_FILE_PATH w then kret (RPC_SRV_RESULT_FILE_READ_ERR, ch, w)
      else kbind (read_log_message_count sh LOG_FILE_PATH ''BRBOX'' [] w) (\<lambda>(_, ch, w). kret (RPC_SRV_RESULT_SUCCESS, ch, w)))"

definition GetLogLines :: "LOG_MSG_PACKET list \<Rightarrow> s32" where
  "GetLogLines ch = of_nat (length ch)"

text \<open>The lines are counted from one, the index of the caller from zero. \<open>message\<close> is the array of the caller.\<close>

definition read_log_message_line :: "LOG_MSG_PACKET list \<Rightarrow> s32 \<Rightarrow> string \<Rightarrow> RPC_SRV_RESULT \<times> string" where
  "read_log_message_line ch line_num message = (case find (\<lambda>p. LineNum p = line_num + 1) ch of
     None \<Rightarrow> (RPC_SRV_RESULT_ITEM_NOT_FOUND, message) | Some p \<Rightarrow> (RPC_SRV_RESULT_SUCCESS, Msg p))"

section \<open>What the calls share\<close>

definition on_pk :: "sys_rpc \<Rightarrow> (sys_packet \<Rightarrow> 'w sys_res) \<Rightarrow> 'w sys_res" where
  "on_pk d k = on_req d (\<lambda>r. case rq_dataRef r of Some (P_USER p) \<Rightarrow> k p | _ \<Rightarrow> kfail BadDeref)"

definition guarded :: "RPC_SRV_ACT \<Rightarrow> sys_rpc \<Rightarrow> 'w sys_mgr \<Rightarrow> 'w sys_res \<Rightarrow> 'w sys_res" where
  "guarded act d m k = on_req d (\<lambda>r. if rq_action r \<noteq> act then kret (0, set_result RPC_SRV_RESULT_ACTION_NOT_ALLOWED d, m) else k)"

definition put_w :: "'w \<Rightarrow> 'w sys_mgr \<Rightarrow> 'w sys_mgr" where
  "put_w w m = m\<lparr>service := (service m)\<lparr>sys_world := w\<rparr>\<rparr>"

definition answer :: "RPC_SRV_RESULT \<Rightarrow> sys_packet \<Rightarrow> sys_rpc \<Rightarrow> 'w sys_mgr \<Rightarrow> 'w sys_res" where
  "answer res p d m = kret (0, set_packet (Some (P_USER p)) (set_result res d), m)"

definition just_result :: "RPC_SRV_RESULT \<Rightarrow> sys_rpc \<Rightarrow> 'w sys_mgr \<Rightarrow> 'w sys_res" where
  "just_result res d m = kret (0, set_result res d, m)"

definition sys_request :: "RPC_SRV_ACT \<Rightarrow> int \<Rightarrow> sys_packet \<Rightarrow> sys_rpc \<Rightarrow> 'w sys_mgr \<Rightarrow> (sys_rpc \<Rightarrow> 'w sys_mgr \<Rightarrow> 'w sys_res) \<Rightarrow> 'w sys_res" where
  "sys_request act c p d m k = PREPARE_JSON_REQUEST act c (P_USER p) d m k"

definition put_sys :: "sys_packet \<Rightarrow> sys_rpc \<Rightarrow> 'w sys_mgr \<Rightarrow> 'w sys_res" where
  "put_sys p d m = kret (0, set_packet (Some (P_USER p)) d, m)"

text \<open>Queueing a task with the packet \<open>p\<close>; \<open>back\<close> stores the number of the task in the packet of the request.\<close>

definition push_sys :: "'w sys_env \<Rightarrow> int \<Rightarrow> sys_packet \<Rightarrow> (s32 \<Rightarrow> sys_packet) \<Rightarrow> sys_rpc \<Rightarrow> 'w sys_mgr \<Rightarrow> 'w sys_res" where
  "push_sys env c p store_id d m =
     (case PushAsyncTask env c (P_USER p) WORK_CMD_AFTER_DONE_PRESERVE (m\<lparr>blocks := blocks m + 1\<rparr>) of (res, ident, m) \<Rightarrow>
        answer res (store_id ident) d (if res \<noteq> RPC_SRV_RESULT_IN_PROG then m\<lparr>blocks := blocks m - 1\<rparr> else m))"

text \<open>The numbers of the tasks and the texts, as the macros for the responses select them.\<close>

definition task_of_sys :: "sys_packet packet \<Rightarrow> int kres" where
  "task_of_sys pk = (case pk of P_USER (SYSMGR_DEV_OP_PACKET _ t) \<Rightarrow> kret (sint t) | P_USER (SYSMGR_FMW_MODULE_PACKET _ _ t) \<Rightarrow> kret (sint t)
     | P_USER (SYSMGR_DOWNLOAD_FILE_PACKET _ _ _ t) \<Rightarrow> kret (sint t) | P_USER (SYSMGR_LOG_PACKET _ _ _ t) \<Rightarrow> kret (sint t)
     | P_USER (SYSMGR_SHELLCMD_PACKET _ t) \<Rightarrow> kret (sint t) | P_USER (SYSMGR_DEVIDENT_PACKET t) \<Rightarrow> kret (sint t) | _ \<Rightarrow> kfail BadDeref)"

definition bin_to_json_in_prog :: "sys_rpc \<Rightarrow> 'w sys_mgr \<Rightarrow> 'w sys_res" where
  "bin_to_json_in_prog = PREPARE_JSON_RESP_INT ''taskId'' task_of_sys"

text \<open>The response with three texts.\<close>

definition bin_to_json_info :: "string \<Rightarrow> string \<Rightarrow> string \<Rightarrow> sys_rpc \<Rightarrow> 'w sys_mgr \<Rightarrow> 'w sys_res" where
  "bin_to_json_info n1 n2 n3 d m = kbind (req_packet d) (\<lambda>(r, pk).
     if rq_result r \<noteq> RPC_SRV_RESULT_SUCCESS then resp_done (prepare_result_string (rq_result r) d) m
     else case pk of P_USER (SYSMGR_INFO_PACKET a b c) \<Rightarrow> resp_done (result_with (rq_result r) [(n1, JStr a), (n2, JStr b), (n3, JStr c)] d) m
       | _ \<Rightarrow> kfail BadDeref)"

end
