(* ===== verification/Sys_Rpc.thy ===== *)
theory Sys_Rpc
  imports Sysmgr
begin

text \<open>
  The calls of the system manager: the classes \<open>NetRpc\<close>, \<open>DispCtrlRpc\<close>, \<open>CmnRpc\<close> and \<open>SysRpc\<close>, the objects that \<open>main.cpp\<close> attaches, and the tasks. \<open>sp\<close> are the
  shell and the other objects the calls work with; \<open>ob\<close> is the object of the class.
\<close>

section \<open>Network\<close>

definition fresh_mac :: "'w sys_env \<Rightarrow> sys_packet" where
  "fresh_mac env = SYSMGR_MAC_ADDR_PACKET (junk_int env) (junk_str env) (junk_int env) (junk_str env)"

definition fresh_net :: "'w sys_env \<Rightarrow> sys_packet" where
  "fresh_net env = SYSMGR_NET_INFO_PACKET (junk_int env) (junk_str env) (junk_str env)"

definition json_to_bin_get_mac_addr :: "'w sys_env \<Rightarrow> sys_rpc \<Rightarrow> 'w sys_mgr \<Rightarrow> 'w sys_res" where
  "json_to_bin_get_mac_addr env d m = sys_request RPC_SRV_ACT_READ 0 (fresh_mac env) d m (\<lambda>d m.
     JSON_STRING_TO_STRING env ''iface'' d m (\<lambda>a. put_sys (SYSMGR_MAC_ADDR_PACKET (junk_int env) (junk_str env) (junk_int env) a) d m))"

definition mac_of :: "sys_packet packet \<Rightarrow> string kres" where
  "mac_of pk = (case pk of P_USER (SYSMGR_MAC_ADDR_PACKET _ a _ _) \<Rightarrow> kret a | _ \<Rightarrow> kfail BadDeref)"

definition bin_to_json_get_mac_addr :: "sys_rpc \<Rightarrow> 'w sys_mgr \<Rightarrow> 'w sys_res" where
  "bin_to_json_get_mac_addr = PREPARE_JSON_RESP_STRING ''addr'' mac_of"

text \<open>The hardware address, address or netmask that \<open>sel\<close> selects: from the kernel, or else from \<open>ifconfig\<close>.\<close>

definition net_info :: "'w shell \<Rightarrow> (string \<times> string \<times> string \<Rightarrow> string) \<Rightarrow> string \<Rightarrow> 'w \<Rightarrow> (RPC_SRV_RESULT \<times> string \<times> 'w) kres" where
  "net_info sh sel eth w = kbind (read_network_info sh eth w) (\<lambda>(r, q).
     if r = 0 then kret (RPC_SRV_RESULT_SUCCESS, sel q, w)
     else kbind (read_network_info_ifconfig sh eth w) (\<lambda>(p, w). kret (case p of
       None \<Rightarrow> (RPC_SRV_RESULT_FAIL, sel q, w) | Some p \<Rightarrow> (RPC_SRV_RESULT_SUCCESS, sel p, w))))"

definition process_get_mac_addr :: "'w sys_parts \<Rightarrow> sys_rpc \<Rightarrow> 'w sys_mgr \<Rightarrow> 'w sys_res" where
  "process_get_mac_addr sp d m = on_pk d (\<lambda>p. case p of
     SYSMGR_MAC_ADDR_PACKET ty _ n eth \<Rightarrow> kbind (net_info (sp_shell sp) (\<lambda>(a, _, _). a) eth (sys_world (service m))) (\<lambda>(res, a, w).
       answer res (SYSMGR_MAC_ADDR_PACKET ty a n eth) d (put_w w m))
   | _ \<Rightarrow> kfail BadDeref)"

definition json_to_bin_set_mac_addr :: "'w sys_env \<Rightarrow> sys_rpc \<Rightarrow> 'w sys_mgr \<Rightarrow> 'w sys_res" where
  "json_to_bin_set_mac_addr env d m = sys_request RPC_SRV_ACT_WRITE 1 (fresh_mac env) d m (\<lambda>d m.
     JSON_STRING_TO_ENUM env ''iface'' SYSMGR_RPC_MAC_ADDR_ARG_IFACE_TABL 10 d m (\<lambda>v.
     put_sys (SYSMGR_MAC_ADDR_PACKET v (junk_str env) (junk_int env) (junk_str env)) d m))"

definition bin_to_json_set_mac_addr :: "sys_rpc \<Rightarrow> 'w sys_mgr \<Rightarrow> 'w sys_res" where
  "bin_to_json_set_mac_addr = PREPARE_JSON_RESP"

definition process_set_mac_addr :: "sys_rpc \<Rightarrow> 'w sys_mgr \<Rightarrow> 'w sys_res" where
  "process_set_mac_addr d m = on_req d (\<lambda>r. just_result RPC_SRV_RESULT_FEATURE_UNSUPPORTED d m)"

definition json_to_bin_get_eth_count :: "'w sys_env \<Rightarrow> sys_rpc \<Rightarrow> 'w sys_mgr \<Rightarrow> 'w sys_res" where
  "json_to_bin_get_eth_count env d m = sys_request RPC_SRV_ACT_READ 2 (fresh_mac env) d m (\<lambda>d m. kret (0, d, m))"

definition eth_count_of :: "sys_packet packet \<Rightarrow> int kres" where
  "eth_count_of pk = (case pk of P_USER (SYSMGR_MAC_ADDR_PACKET _ _ n _) \<Rightarrow> kret (sint n) | _ \<Rightarrow> kfail BadDeref)"

definition bin_to_json_get_eth_count :: "sys_rpc \<Rightarrow> 'w sys_mgr \<Rightarrow> 'w sys_res" where
  "bin_to_json_get_eth_count = PREPARE_JSON_RESP_INT ''count'' eth_count_of"

definition process_get_eth_count :: "'w sys_parts \<Rightarrow> sys_rpc \<Rightarrow> 'w sys_mgr \<Rightarrow> 'w sys_res" where
  "process_get_eth_count sp d m = on_pk d (\<lambda>p. case p of
     SYSMGR_MAC_ADDR_PACKET ty a _ eth \<Rightarrow> (case get_total_eth_count (sp_shell sp) (sys_world (service m)) of (res, n, w) \<Rightarrow>
       answer res (SYSMGR_MAC_ADDR_PACKET ty a n eth) d (put_w w m))
   | _ \<Rightarrow> kfail BadDeref)"

definition json_to_bin_get_eth_name :: "'w sys_env \<Rightarrow> sys_rpc \<Rightarrow> 'w sys_mgr \<Rightarrow> 'w sys_res" where
  "json_to_bin_get_eth_name env d m = sys_request RPC_SRV_ACT_READ 3 (fresh_mac env) d m (\<lambda>d m.
     JSON_STRING_TO_INT env ''index'' d m (\<lambda>i. put_sys (SYSMGR_MAC_ADDR_PACKET (junk_int env) (junk_str env) i (junk_str env)) d m))"

definition eth_name_of :: "sys_packet packet \<Rightarrow> string kres" where
  "eth_name_of pk = (case pk of P_USER (SYSMGR_MAC_ADDR_PACKET _ _ _ s) \<Rightarrow> kret s | _ \<Rightarrow> kfail BadDeref)"

definition bin_to_json_get_eth_name :: "sys_rpc \<Rightarrow> 'w sys_mgr \<Rightarrow> 'w sys_res" where
  "bin_to_json_get_eth_name = PREPARE_JSON_RESP_STRING ''name'' eth_name_of"

definition process_get_eth_name :: "'w sys_parts \<Rightarrow> sys_rpc \<Rightarrow> 'w sys_mgr \<Rightarrow> 'w sys_res" where
  "process_get_eth_name sp d m = on_pk d (\<lambda>p. case p of
     SYSMGR_MAC_ADDR_PACKET ty a i eth \<Rightarrow> (case get_total_eth_count (sp_shell sp) (sys_world (service m)) of (res, n, w) \<Rightarrow>
       if res \<noteq> RPC_SRV_RESULT_SUCCESS then just_result res d (put_w w m)
       else if n = 0 then just_result RPC_SRV_RESULT_FAIL d (put_w w m)
       else if sint i > sint (n - 1) then just_result RPC_SRV_RESULT_ARG_ERROR d (put_w w m)
       else kbind (get_nth_eth_name (sp_shell sp) (i + 1) eth w) (\<lambda>(res, eth, w).
         answer res (SYSMGR_MAC_ADDR_PACKET ty a i eth) d (put_w w m)))
   | _ \<Rightarrow> kfail BadDeref)"

definition net_get_request :: "int \<Rightarrow> 'w sys_env \<Rightarrow> sys_rpc \<Rightarrow> 'w sys_mgr \<Rightarrow> 'w sys_res" where
  "net_get_request c env d m = sys_request RPC_SRV_ACT_READ c (fresh_net env) d m (\<lambda>d m.
     JSON_STRING_TO_STRING env ''iface'' d m (\<lambda>a. put_sys (SYSMGR_NET_INFO_PACKET (junk_int env) (junk_str env) a) d m))"

definition net_set_request :: "int \<Rightarrow> 'w sys_env \<Rightarrow> sys_rpc \<Rightarrow> 'w sys_mgr \<Rightarrow> 'w sys_res" where
  "net_set_request c env d m = sys_request RPC_SRV_ACT_WRITE c (fresh_net env) d m (\<lambda>d m.
     JSON_STRING_TO_ENUM env ''iface'' SYSMGR_RPC_MAC_ADDR_ARG_IFACE_TABL 10 d m (\<lambda>v. put_sys (SYSMGR_NET_INFO_PACKET v (junk_str env) (junk_str env)) d m))"

definition json_to_bin_get_ip_addr :: "'w sys_env \<Rightarrow> sys_rpc \<Rightarrow> 'w sys_mgr \<Rightarrow> 'w sys_res" where
  "json_to_bin_get_ip_addr = net_get_request 23"

definition json_to_bin_set_ip_addr :: "'w sys_env \<Rightarrow> sys_rpc \<Rightarrow> 'w sys_mgr \<Rightarrow> 'w sys_res" where
  "json_to_bin_set_ip_addr = net_set_request 24"

definition json_to_bin_get_netmask :: "'w sys_env \<Rightarrow> sys_rpc \<Rightarrow> 'w sys_mgr \<Rightarrow> 'w sys_res" where
  "json_to_bin_get_netmask = net_get_request 25"

definition json_to_bin_set_netmask :: "'w sys_env \<Rightarrow> sys_rpc \<Rightarrow> 'w sys_mgr \<Rightarrow> 'w sys_res" where
  "json_to_bin_set_netmask = net_set_request 26"

definition addr_of :: "sys_packet packet \<Rightarrow> string kres" where
  "addr_of pk = (case pk of P_USER (SYSMGR_NET_INFO_PACKET _ a _) \<Rightarrow> kret a | _ \<Rightarrow> kfail BadDeref)"

definition bin_to_json_get_ip_addr :: "sys_rpc \<Rightarrow> 'w sys_mgr \<Rightarrow> 'w sys_res" where
  "bin_to_json_get_ip_addr = PREPARE_JSON_RESP_STRING ''addr'' addr_of"

definition bin_to_json_get_netmask :: "sys_rpc \<Rightarrow> 'w sys_mgr \<Rightarrow> 'w sys_res" where
  "bin_to_json_get_netmask = PREPARE_JSON_RESP_STRING ''addr'' addr_of"

definition bin_to_json_set_ip_addr :: "sys_rpc \<Rightarrow> 'w sys_mgr \<Rightarrow> 'w sys_res" where
  "bin_to_json_set_ip_addr = PREPARE_JSON_RESP"

definition bin_to_json_set_netmask :: "sys_rpc \<Rightarrow> 'w sys_mgr \<Rightarrow> 'w sys_res" where
  "bin_to_json_set_netmask = PREPARE_JSON_RESP"

definition net_get_work :: "(string \<times> string \<times> string \<Rightarrow> string) \<Rightarrow> 'w sys_parts \<Rightarrow> sys_rpc \<Rightarrow> 'w sys_mgr \<Rightarrow> 'w sys_res" where
  "net_get_work sel sp d m = on_pk d (\<lambda>p. case p of
     SYSMGR_NET_INFO_PACKET ty _ eth \<Rightarrow> kbind (net_info (sp_shell sp) sel eth (sys_world (service m))) (\<lambda>(res, a, w).
       answer res (SYSMGR_NET_INFO_PACKET ty a eth) d (put_w w m))
   | _ \<Rightarrow> kfail BadDeref)"

definition process_get_ip_addr :: "'w sys_parts \<Rightarrow> sys_rpc \<Rightarrow> 'w sys_mgr \<Rightarrow> 'w sys_res" where
  "process_get_ip_addr = net_get_work (\<lambda>(_, ip, _). ip)"

definition process_get_netmask :: "'w sys_parts \<Rightarrow> sys_rpc \<Rightarrow> 'w sys_mgr \<Rightarrow> 'w sys_res" where
  "process_get_netmask = net_get_work (\<lambda>(_, _, nm). nm)"

definition process_set_ip_addr :: "sys_rpc \<Rightarrow> 'w sys_mgr \<Rightarrow> 'w sys_res" where
  "process_set_ip_addr d m = on_req d (\<lambda>r. just_result RPC_SRV_RESULT_FEATURE_UNSUPPORTED d m)"

definition process_set_netmask :: "sys_rpc \<Rightarrow> 'w sys_mgr \<Rightarrow> 'w sys_res" where
  "process_set_netmask d m = on_req d (\<lambda>r. just_result RPC_SRV_RESULT_FEATURE_UNSUPPORTED d m)"

definition NetRpc :: "'w sys_parts \<Rightarrow> 'w sys_env \<Rightarrow> (sys_packet, 'w SYSMGR_CMN_DATA_CACHE) handler" where
  "NetRpc sp env = \<lparr>
     h_MapJsonToBinary = (\<lambda>i d m. if i = 0 then json_to_bin_get_mac_addr env d m else if i = 1 then json_to_bin_set_mac_addr env d m
       else if i = 2 then json_to_bin_get_eth_count env d m else if i = 3 then json_to_bin_get_eth_name env d m
       else if i = 23 then json_to_bin_get_ip_addr env d m else if i = 24 then json_to_bin_set_ip_addr env d m
       else if i = 25 then json_to_bin_get_netmask env d m else if i = 26 then json_to_bin_set_netmask env d m else kret (-1, d, m)),
     h_MapBinaryToJson = (\<lambda>i d m. if i = 0 then bin_to_json_get_mac_addr d m else if i = 1 then bin_to_json_set_mac_addr d m
       else if i = 2 then bin_to_json_get_eth_count d m else if i = 3 then bin_to_json_get_eth_name d m
       else if i = 23 then bin_to_json_get_ip_addr d m else if i = 24 then bin_to_json_set_ip_addr d m
       else if i = 25 then bin_to_json_get_netmask d m else if i = 26 then bin_to_json_set_netmask d m else kret (-1, d, m)),
     h_ProcessWork = (\<lambda>i d m. if i = 0 then process_get_mac_addr sp d m else if i = 1 then process_set_mac_addr d m
       else if i = 2 then process_get_eth_count sp d m else if i = 3 then process_get_eth_name sp d m
       else if i = 23 then process_get_ip_addr sp d m else if i = 24 then process_set_ip_addr d m
       else if i = 25 then process_get_netmask sp d m else if i = 26 then process_set_netmask d m else kret (0, d, m)),
     h_ProcessWorkAsync = (\<lambda>_ _ m. kret (RPC_SRV_RESULT_FAIL, m)),
     h_ReceiveEvent = (\<lambda>_ _ _ _ s. s)\<rparr>"

section \<open>Display\<close>

definition fresh_print :: "'w sys_env \<Rightarrow> sys_packet" where
  "fresh_print env = SYSMGR_PRINT_PACKET (junk_int env) (junk_str env) (junk_int env)"

definition json_to_bin_disp_clear :: "'w sys_env \<Rightarrow> sys_rpc \<Rightarrow> 'w sys_mgr \<Rightarrow> 'w sys_res" where
  "json_to_bin_disp_clear env d m = sys_request RPC_SRV_ACT_WRITE 30 (fresh_print env) d m (\<lambda>d m. kret (0, d, m))"

definition json_to_bin_disp_print :: "'w sys_env \<Rightarrow> sys_rpc \<Rightarrow> 'w sys_mgr \<Rightarrow> 'w sys_res" where
  "json_to_bin_disp_print env d m = sys_request RPC_SRV_ACT_WRITE 31 (fresh_print env) d m (\<lambda>d m.
     JSON_STRING_TO_ENUM env ''line'' SYSMGR_RPC_DISP_LINE_ARG_TABL 5 d m (\<lambda>v. JSON_STRING_TO_STRING env ''msg'' d m (\<lambda>a.
     put_sys (SYSMGR_PRINT_PACKET v a (junk_int env)) d m)))"

definition json_to_bin_backlight_get :: "'w sys_env \<Rightarrow> sys_rpc \<Rightarrow> 'w sys_mgr \<Rightarrow> 'w sys_res" where
  "json_to_bin_backlight_get env d m = sys_request RPC_SRV_ACT_READ 32 (fresh_print env) d m (\<lambda>d m. kret (0, d, m))"

definition json_to_bin_backlight_set :: "'w sys_env \<Rightarrow> sys_rpc \<Rightarrow> 'w sys_mgr \<Rightarrow> 'w sys_res" where
  "json_to_bin_backlight_set env d m = sys_request RPC_SRV_ACT_WRITE 33 (fresh_print env) d m (\<lambda>d m.
     JSON_STRING_TO_ENUM env ''status'' SYSMGR_RPC_DISP_BKLT_ARG_TABL 2 d m (\<lambda>v. put_sys (SYSMGR_PRINT_PACKET (junk_int env) (junk_str env) v) d m))"

definition backlight_of :: "sys_packet packet \<Rightarrow> u32 kres" where
  "backlight_of pk = (case pk of P_USER (SYSMGR_PRINT_PACKET _ _ v) \<Rightarrow> kret v | _ \<Rightarrow> kfail BadDeref)"

definition bin_to_json_disp_clear :: "sys_rpc \<Rightarrow> 'w sys_mgr \<Rightarrow> 'w sys_res" where
  "bin_to_json_disp_clear = PREPARE_JSON_RESP"

definition bin_to_json_disp_print :: "sys_rpc \<Rightarrow> 'w sys_mgr \<Rightarrow> 'w sys_res" where
  "bin_to_json_disp_print = PREPARE_JSON_RESP"

definition bin_to_json_backlight_get :: "sys_rpc \<Rightarrow> 'w sys_mgr \<Rightarrow> 'w sys_res" where
  "bin_to_json_backlight_get = PREPARE_JSON_RESP_ENUM ''status'' SYSMGR_RPC_DISP_BKLT_ARG_TABL 2 backlight_of"

definition bin_to_json_backlight_set :: "sys_rpc \<Rightarrow> 'w sys_mgr \<Rightarrow> 'w sys_res" where
  "bin_to_json_backlight_set = PREPARE_JSON_RESP"

text \<open>An operation of the display, when there is one.\<close>

definition on_display :: "'w sys_parts \<Rightarrow> sys_rpc \<Rightarrow> 'w sys_mgr \<Rightarrow> ('w DisplayDevice \<Rightarrow> sys_packet \<Rightarrow> 'w \<Rightarrow> 'w sys_res) \<Rightarrow> 'w sys_res" where
  "on_display sp d m k = on_pk d (\<lambda>p. case pDisplay sp of None \<Rightarrow> just_result RPC_SRV_RESULT_FAIL d m | Some disp \<Rightarrow> k disp p (sys_world (service m)))"

definition process_disp_clear :: "'w sys_parts \<Rightarrow> sys_rpc \<Rightarrow> 'w sys_mgr \<Rightarrow> 'w sys_res" where
  "process_disp_clear sp d m = on_display sp d m (\<lambda>disp p w. case clear_display disp w of (res, w) \<Rightarrow> just_result res d (put_w w m))"

definition process_disp_print :: "'w sys_parts \<Rightarrow> sys_rpc \<Rightarrow> 'w sys_mgr \<Rightarrow> 'w sys_res" where
  "process_disp_print sp d m = on_display sp d m (\<lambda>disp p w. case p of
     SYSMGR_PRINT_PACKET l a _ \<Rightarrow> (case print_line disp a l w of (res, w) \<Rightarrow> just_result res d (put_w w m)) | _ \<Rightarrow> kfail BadDeref)"

definition process_backlight_get :: "'w sys_parts \<Rightarrow> sys_rpc \<Rightarrow> 'w sys_mgr \<Rightarrow> 'w sys_res" where
  "process_backlight_get sp d m = on_display sp d m (\<lambda>disp p w. case p of
     SYSMGR_PRINT_PACKET l a _ \<Rightarrow> (case get_back_light disp w of (res, on, w) \<Rightarrow> answer res (SYSMGR_PRINT_PACKET l a (if on then 1 else 0)) d (put_w w m))
   | _ \<Rightarrow> kfail BadDeref)"

definition process_backlight_set :: "'w sys_parts \<Rightarrow> sys_rpc \<Rightarrow> 'w sys_mgr \<Rightarrow> 'w sys_res" where
  "process_backlight_set sp d m = on_display sp d m (\<lambda>disp p w. case p of
     SYSMGR_PRINT_PACKET _ _ v \<Rightarrow> (case set_back_light disp (v = 1) w of (res, w) \<Rightarrow> just_result res d (put_w w m)) | _ \<Rightarrow> kfail BadDeref)"

definition DispCtrlRpc :: "'w sys_parts \<Rightarrow> 'w sys_env \<Rightarrow> (sys_packet, 'w SYSMGR_CMN_DATA_CACHE) handler" where
  "DispCtrlRpc sp env = \<lparr>
     h_MapJsonToBinary = (\<lambda>i d m. if i = 30 then json_to_bin_disp_clear env d m else if i = 31 then json_to_bin_disp_print env d m
       else if i = 32 then json_to_bin_backlight_get env d m else if i = 33 then json_to_bin_backlight_set env d m else kret (-1, d, m)),
     h_MapBinaryToJson = (\<lambda>i d m. if i = 30 then bin_to_json_disp_clear d m else if i = 31 then bin_to_json_disp_print d m
       else if i = 32 then bin_to_json_backlight_get d m else if i = 33 then bin_to_json_backlight_set d m else kret (-1, d, m)),
     h_ProcessWork = (\<lambda>i d m. if i = 30 then process_disp_clear sp d m else if i = 31 then process_disp_print sp d m
       else if i = 32 then process_backlight_get sp d m else if i = 33 then process_backlight_set sp d m else kret (0, d, m)),
     h_ProcessWorkAsync = (\<lambda>_ _ m. kret (RPC_SRV_RESULT_FAIL, m)),
     h_ReceiveEvent = (\<lambda>_ _ _ _ s. s)\<rparr>"

text \<open>The object for the common calls, which accepts everything and does nothing.\<close>

definition CmnRpc :: "(sys_packet, 'w SYSMGR_CMN_DATA_CACHE) handler" where
  "CmnRpc = \<lparr>h_MapJsonToBinary = (\<lambda>_ d m. kret (0, d, m)), h_MapBinaryToJson = (\<lambda>_ d m. kret (0, d, m)), h_ProcessWork = (\<lambda>_ d m. kret (0, d, m)),
     h_ProcessWorkAsync = (\<lambda>_ _ m. kret (RPC_SRV_RESULT_SUCCESS, m)), h_ReceiveEvent = (\<lambda>_ _ _ _ s. s)\<rparr>"

end
