(* ===== verification/Sys_Calls.thy ===== *)
theory Sys_Calls
  imports Sys_Rpc
begin

text \<open>
  The class \<open>SysRpc\<close> of the system manager with its tasks, and the objects that \<open>main.cpp\<close> attaches. A task is done by the object whose place in the list is
  the number of the task, not by the object of the call.
\<close>

section \<open>Boards\<close>

definition openwrt_system :: "'w SYSMGR_CMN_DATA_CACHE \<Rightarrow> bool" where
  "openwrt_system c = (let b = BoardType c in
     if b \<in> {13, 14, 15} then True else if b \<in> {0, 1, 2, 3, 4, 8, 9} then SyscfgType c = 0
     else if b \<in> {16, 10, 17} then SyscfgType c = 1 else False)"

section \<open>Load, memory and processor\<close>

definition fresh_info :: "'w sys_env \<Rightarrow> sys_packet" where
  "fresh_info env = SYSMGR_INFO_PACKET (junk_str env) (junk_str env) (junk_str env)"

definition json_to_bin_get_loadinfo :: "'w sys_env \<Rightarrow> sys_rpc \<Rightarrow> 'w sys_mgr \<Rightarrow> 'w sys_res" where
  "json_to_bin_get_loadinfo env d m = sys_request RPC_SRV_ACT_READ 4 (fresh_info env) d m (\<lambda>d m. kret (0, d, m))"

definition json_to_bin_get_meminfo :: "'w sys_env \<Rightarrow> sys_rpc \<Rightarrow> 'w sys_mgr \<Rightarrow> 'w sys_res" where
  "json_to_bin_get_meminfo env d m = sys_request RPC_SRV_ACT_READ 5 (fresh_info env) d m (\<lambda>d m. kret (0, d, m))"

definition json_to_bin_get_cpuinfo :: "'w sys_env \<Rightarrow> sys_rpc \<Rightarrow> 'w sys_mgr \<Rightarrow> 'w sys_res" where
  "json_to_bin_get_cpuinfo env d m = sys_request RPC_SRV_ACT_READ 6 (fresh_info env) d m (\<lambda>d m. kret (0, d, m))"

definition bin_to_json_get_loadinfo :: "sys_rpc \<Rightarrow> 'w sys_mgr \<Rightarrow> 'w sys_res" where
  "bin_to_json_get_loadinfo = bin_to_json_info ''current'' ''average'' ''uptime''"

definition bin_to_json_get_meminfo :: "sys_rpc \<Rightarrow> 'w sys_mgr \<Rightarrow> 'w sys_res" where
  "bin_to_json_get_meminfo = bin_to_json_info ''memMB'' ''memfreeMB'' ''memusedMB''"

definition bin_to_json_get_cpuinfo :: "sys_rpc \<Rightarrow> 'w sys_mgr \<Rightarrow> 'w sys_res" where
  "bin_to_json_get_cpuinfo = bin_to_json_info ''model'' ''cores'' ''frequency''"

definition info_work :: "('w shell \<Rightarrow> 'w \<Rightarrow> (string \<times> string \<times> string) kres) \<Rightarrow> 'w sys_parts \<Rightarrow> sys_rpc \<Rightarrow> 'w sys_mgr \<Rightarrow> 'w sys_res" where
  "info_work f sp d m = guarded RPC_SRV_ACT_READ d m (on_pk d (\<lambda>p. case p of
     SYSMGR_INFO_PACKET _ _ _ \<Rightarrow> kbind (f (sp_shell sp) (sys_world (service m))) (\<lambda>(a, b, c). answer RPC_SRV_RESULT_SUCCESS (SYSMGR_INFO_PACKET a b c) d m)
   | _ \<Rightarrow> kfail BadDeref))"

definition process_get_loadinfo :: "'w sys_parts \<Rightarrow> sys_rpc \<Rightarrow> 'w sys_mgr \<Rightarrow> 'w sys_res" where
  "process_get_loadinfo = info_work read_load_info"

definition process_get_meminfo :: "'w sys_parts \<Rightarrow> sys_rpc \<Rightarrow> 'w sys_mgr \<Rightarrow> 'w sys_res" where
  "process_get_meminfo = info_work read_mem_info"

definition process_get_cpuinfo :: "'w sys_parts \<Rightarrow> sys_rpc \<Rightarrow> 'w sys_mgr \<Rightarrow> 'w sys_res" where
  "process_get_cpuinfo = info_work read_cpu_info"

section \<open>State of the device\<close>

definition fresh_devop :: "'w sys_env \<Rightarrow> sys_packet" where
  "fresh_devop env = SYSMGR_DEV_OP_PACKET (junk_int env) (junk_int env)"

definition json_to_bin_get_devop :: "'w sys_env \<Rightarrow> sys_rpc \<Rightarrow> 'w sys_mgr \<Rightarrow> 'w sys_res" where
  "json_to_bin_get_devop env d m = sys_request RPC_SRV_ACT_READ 7 (fresh_devop env) d m (\<lambda>d m. kret (0, d, m))"

definition devop_of :: "sys_packet packet \<Rightarrow> u32 kres" where
  "devop_of pk = (case pk of P_USER (SYSMGR_DEV_OP_PACKET v _) \<Rightarrow> kret v | _ \<Rightarrow> kfail BadDeref)"

definition bin_to_json_get_devop :: "sys_rpc \<Rightarrow> 'w sys_mgr \<Rightarrow> 'w sys_res" where
  "bin_to_json_get_devop = PREPARE_JSON_RESP_ENUM ''operation'' SYSMGR_RPC_DEV_OP_ARG_TABL 9 devop_of"

definition process_get_devop :: "sys_rpc \<Rightarrow> 'w sys_mgr \<Rightarrow> 'w sys_res" where
  "process_get_devop d m = guarded RPC_SRV_ACT_READ d m (on_pk d (\<lambda>p. case p of
     SYSMGR_DEV_OP_PACKET _ t \<Rightarrow> answer RPC_SRV_RESULT_SUCCESS (SYSMGR_DEV_OP_PACKET (DevOp (service m)) t) d m | _ \<Rightarrow> kfail BadDeref))"

definition json_to_bin_set_devop :: "'w sys_env \<Rightarrow> sys_rpc \<Rightarrow> 'w sys_mgr \<Rightarrow> 'w sys_res" where
  "json_to_bin_set_devop env d m = sys_request RPC_SRV_ACT_WRITE 8 (fresh_devop env) d m (\<lambda>d m.
     JSON_STRING_TO_ENUM env ''operation'' SYSMGR_RPC_DEV_OP_ARG_TABL 9 d m (\<lambda>v. put_sys (SYSMGR_DEV_OP_PACKET v (junk_int env)) d m))"

definition bin_to_json_set_devop :: "sys_rpc \<Rightarrow> 'w sys_mgr \<Rightarrow> 'w sys_res" where
  "bin_to_json_set_devop = bin_to_json_in_prog"

definition process_set_devop :: "'w sys_env \<Rightarrow> sys_rpc \<Rightarrow> 'w sys_mgr \<Rightarrow> 'w sys_res" where
  "process_set_devop env d m = guarded RPC_SRV_ACT_WRITE d m (on_pk d (\<lambda>p. case p of
     SYSMGR_DEV_OP_PACKET v _ \<Rightarrow> push_sys env 8 (SYSMGR_DEV_OP_PACKET v (junk_int env)) (SYSMGR_DEV_OP_PACKET v) d m | _ \<Rightarrow> kfail BadDeref))"

text \<open>The work of the tasks: the result, and the state of the service.\<close>

type_synonym 'w sys_task = "(RPC_SRV_RESULT \<times> 'w SYSMGR_CMN_DATA_CACHE) kres"

definition run_script :: "'w sys_parts \<Rightarrow> nat \<Rightarrow> string \<Rightarrow> 'w SYSMGR_CMN_DATA_CACHE \<Rightarrow> 'w sys_task" where
  "run_script sp n cmdline c = kbind (sprintf_s n cmdline) (\<lambda>cmdline.
     kbind (run_shell_script (sp_shell sp) cmdline (sp_emulation sp) (sys_world c)) (\<lambda>(res, w). kret (res, c\<lparr>sys_world := w\<rparr>)))"

definition process_async_set_devop :: "'w sys_parts \<Rightarrow> u32 \<Rightarrow> 'w SYSMGR_CMN_DATA_CACHE \<Rightarrow> 'w sys_task" where
  "process_async_set_devop sp v c =
     (if v = 0 \<or> v = 1 then kret (RPC_SRV_RESULT_SUCCESS, c\<lparr>DevOp := v\<rparr>)
      else if v = 3 then run_script sp 512 ''sleep 3;poweroff'' c
      else if v = 4 then run_script sp 512 ''sleep 3;reboot'' c
      else kret (RPC_SRV_RESULT_ARG_ERROR, c))"

section \<open>Firmware\<close>

definition SYSMGR_TEMP_FMW_READ_FILE :: string where
  "SYSMGR_TEMP_FMW_READ_FILE = ''/tmp/temp-fmw-ver.txt''"

definition fresh_fmw :: "'w sys_env \<Rightarrow> sys_packet" where
  "fresh_fmw env = SYSMGR_FMW_MODULE_PACKET (junk_int env) (junk_str env) (junk_int env)"

definition json_to_bin_get_fmwver :: "'w sys_env \<Rightarrow> sys_rpc \<Rightarrow> 'w sys_mgr \<Rightarrow> 'w sys_res" where
  "json_to_bin_get_fmwver env d m = sys_request RPC_SRV_ACT_READ 9 (fresh_fmw env) d m (\<lambda>d m.
     JSON_STRING_TO_ENUM env ''module'' SYSMGR_RPC_FMW_VER_ARG_TABL 6 d m (\<lambda>v. put_sys (SYSMGR_FMW_MODULE_PACKET v (junk_str env) (junk_int env)) d m))"

definition fmw_text_of :: "sys_packet packet \<Rightarrow> string kres" where
  "fmw_text_of pk = (case pk of P_USER (SYSMGR_FMW_MODULE_PACKET _ s _) \<Rightarrow> kret s | _ \<Rightarrow> kfail BadDeref)"

definition bin_to_json_get_fmwver :: "sys_rpc \<Rightarrow> 'w sys_mgr \<Rightarrow> 'w sys_res" where
  "bin_to_json_get_fmwver = PREPARE_JSON_RESP_STRING ''version'' fmw_text_of"

text \<open>
  Running a command that writes the temporary file, and the first hundred characters of that file without the line feed at the end: the result, the
  text if there is one, and the world. The last character of an empty text is before the array.
\<close>

definition read_temp_file :: "'w shell \<Rightarrow> string \<Rightarrow> 'w \<Rightarrow> (RPC_SRV_RESULT \<times> string option \<times> 'w) kres" where
  "read_temp_file sh cmdline w = (case sh_system sh cmdline w of (r, w) \<Rightarrow>
     if r \<noteq> 0 then kret (RPC_SRV_RESULT_FILE_OPEN_ERR, None, w)
     else case sh_read sh SYSMGR_TEMP_FMW_READ_FILE w of None \<Rightarrow> kret (RPC_SRV_RESULT_FILE_OPEN_ERR, None, w)
     | Some t \<Rightarrow> if t = [] then kret (RPC_SRV_RESULT_FILE_READ_ERR, None, w)
         else let s = c_str (take 100 t) in
           if s = [] then kfail BufferOverrun else kret (RPC_SRV_RESULT_SUCCESS, Some (if last s = CHR 0x0A then butlast s else s), w))"

text \<open>The version that is read is kept in an array of 100 characters, and the flag is that of the object \<open>ob\<close>.\<close>

definition process_get_fmwver :: "nat \<Rightarrow> 'w sys_parts \<Rightarrow> sys_rpc \<Rightarrow> 'w sys_mgr \<Rightarrow> 'w sys_res" where
  "process_get_fmwver ob sp d m = guarded RPC_SRV_ACT_READ d m (on_pk d (\<lambda>p. case p of
     SYSMGR_FMW_MODULE_PACKET v _ t \<Rightarrow>
       (let c = service m; fl = obj_flags c ob; out = (\<lambda>s. SYSMGR_FMW_MODULE_PACKET v s t);
            tool = (\<lambda>opt. (if openwrt_system c then ''cat /etc/version.txt > '' else ''brdskmgr '' @ opt @ '' > '') @ SYSMGR_TEMP_FMW_READ_FILE) in
        if sp_emulation sp then answer RPC_SRV_RESULT_SUCCESS (out ''00.01.12345'') d m
        else if v = 0 \<and> crnt_fmwver_updated fl then answer RPC_SRV_RESULT_SUCCESS (out (crnt_fmwver c)) d m
        else if v = 1 \<and> bkup_fmwver_updated fl then answer RPC_SRV_RESULT_SUCCESS (out (bkup_fmwver c)) d m
        else if v \<noteq> 0 \<and> v \<noteq> 1 then answer RPC_SRV_RESULT_FEATURE_NOT_AVAILABLE (out ''unknown'') d m
        else kbind (read_temp_file (sp_shell sp) (tool (if v = 0 then ''-v'' else ''-b'')) (sys_world c)) (\<lambda>(res, q, w).
          case q of None \<Rightarrow> answer res (out ''unknown'') d (put_w w m)
          | Some s \<Rightarrow> kbind (sprintf_s 100 s) (\<lambda>s.
              let c = c\<lparr>sys_world := w\<rparr> in answer res (out s) d (m\<lparr>service :=
                (if v = 0 then c\<lparr>crnt_fmwver := s, obj_flags := (obj_flags c)(ob := fl\<lparr>crnt_fmwver_updated := True\<rparr>)\<rparr>
                 else c\<lparr>bkup_fmwver := s, obj_flags := (obj_flags c)(ob := fl\<lparr>bkup_fmwver_updated := True\<rparr>)\<rparr>)\<rparr>))))
   | _ \<Rightarrow> kfail BadDeref))"

definition json_to_bin_get_bootsys :: "'w sys_env \<Rightarrow> sys_rpc \<Rightarrow> 'w sys_mgr \<Rightarrow> 'w sys_res" where
  "json_to_bin_get_bootsys env d m = sys_request RPC_SRV_ACT_READ 10 (SYSMGR_BOOT_SYSTEM_PACKET (junk_int env)) d m (\<lambda>d m. kret (0, d, m))"

definition bootsys_of :: "sys_packet packet \<Rightarrow> u32 kres" where
  "bootsys_of pk = (case pk of P_USER (SYSMGR_BOOT_SYSTEM_PACKET v) \<Rightarrow> kret v | _ \<Rightarrow> kfail BadDeref)"

definition bin_to_json_get_bootsys :: "sys_rpc \<Rightarrow> 'w sys_mgr \<Rightarrow> 'w sys_res" where
  "bin_to_json_get_bootsys = PREPARE_JSON_RESP_ENUM ''system'' SYSMGR_RPC_BOOT_SYSTEM_ARG_TABL 2 bootsys_of"

text \<open>With an empty file the result is not set.\<close>

definition process_get_bootsys :: "nat \<Rightarrow> 'w sys_parts \<Rightarrow> sys_rpc \<Rightarrow> 'w sys_mgr \<Rightarrow> 'w sys_res" where
  "process_get_bootsys ob sp d m = guarded RPC_SRV_ACT_READ d m (on_pk d (\<lambda>p. case p of
     SYSMGR_BOOT_SYSTEM_PACKET _ \<Rightarrow>
       (let c = service m; fl = obj_flags c ob in
        if boot_system_updated fl then answer RPC_SRV_RESULT_SUCCESS (SYSMGR_BOOT_SYSTEM_PACKET (bootsys c)) d m
        else kbind (read_temp_file (sp_shell sp) (''brdskmgr -c > '' @ SYSMGR_TEMP_FMW_READ_FILE) (sys_world c)) (\<lambda>(res, q, w).
          case q of None \<Rightarrow> if res = RPC_SRV_RESULT_FILE_READ_ERR then kret (0, d, put_w w m) else just_result res d (put_w w m)
          | Some s \<Rightarrow>
              (let e = string_to_enum SYSMGR_RPC_BOOT_SYSTEM_ARG_TABL s 2 in
               if 2 \<le> e then answer RPC_SRV_RESULT_FAIL (SYSMGR_BOOT_SYSTEM_PACKET 2) d (put_w w m)
               else answer RPC_SRV_RESULT_SUCCESS (SYSMGR_BOOT_SYSTEM_PACKET (of_nat e)) d (m\<lparr>service :=
                 c\<lparr>sys_world := w, bootsys := of_nat e, obj_flags := (obj_flags c)(ob := fl\<lparr>boot_system_updated := True\<rparr>)\<rparr>\<rparr>))))
   | _ \<Rightarrow> kfail BadDeref))"

definition json_to_bin_set_fmwupdate :: "'w sys_env \<Rightarrow> sys_rpc \<Rightarrow> 'w sys_mgr \<Rightarrow> 'w sys_res" where
  "json_to_bin_set_fmwupdate env d m = sys_request RPC_SRV_ACT_WRITE 11 (fresh_fmw env) d m (\<lambda>d m.
     JSON_STRING_TO_ENUM env ''module'' SYSMGR_RPC_FMW_VER_ARG_TABL 6 d m (\<lambda>v. JSON_STRING_TO_STRING env ''filepath'' d m (\<lambda>a.
     put_sys (SYSMGR_FMW_MODULE_PACKET v a (junk_int env)) d m)))"

definition bin_to_json_set_fmwupdate :: "sys_rpc \<Rightarrow> 'w sys_mgr \<Rightarrow> 'w sys_res" where
  "bin_to_json_set_fmwupdate = bin_to_json_in_prog"

definition process_set_fmwupdate :: "'w sys_env \<Rightarrow> sys_rpc \<Rightarrow> 'w sys_mgr \<Rightarrow> 'w sys_res" where
  "process_set_fmwupdate env d m = guarded RPC_SRV_ACT_WRITE d m (on_pk d (\<lambda>p. case p of
     SYSMGR_FMW_MODULE_PACKET v s _ \<Rightarrow>
       if v \<noteq> 3 then just_result RPC_SRV_RESULT_ARG_ERROR d m
       else push_sys env 11 (SYSMGR_FMW_MODULE_PACKET v s (junk_int env)) (SYSMGR_FMW_MODULE_PACKET v s) d m
   | _ \<Rightarrow> kfail BadDeref))"

definition process_async_set_fmwupdate :: "nat \<Rightarrow> 'w sys_parts \<Rightarrow> u32 \<Rightarrow> string \<Rightarrow> 'w SYSMGR_CMN_DATA_CACHE \<Rightarrow> 'w sys_task" where
  "process_async_set_fmwupdate ob sp v s c =
     (if v \<noteq> 3 then kret (RPC_SRV_RESULT_ARG_ERROR, c)
      else kbind (run_script sp 512 (if openwrt_system c then ''sleep 2;mips-update.sh -u '' @ s @ '' > /tmp/update.result'' else ''update -u '' @ s) c)
        (\<lambda>(res, c). kret (res, c\<lparr>obj_flags := (obj_flags c)(ob := (obj_flags c ob)\<lparr>bkup_fmwver_updated := False\<rparr>)\<rparr>)))"

section \<open>Downloads\<close>

definition json_to_bin_download_file :: "int \<Rightarrow> 'w sys_env \<Rightarrow> sys_rpc \<Rightarrow> 'w sys_mgr \<Rightarrow> 'w sys_res" where
  "json_to_bin_download_file i env d m =
     sys_request RPC_SRV_ACT_WRITE i (SYSMGR_DOWNLOAD_FILE_PACKET (junk_str env) (junk_str env) (junk_str env) (junk_int env)) d m (\<lambda>d m.
     JSON_STRING_TO_STRING env ''srcaddr'' d m (\<lambda>a.
     (\<lambda>k. if i = 13 then JSON_STRING_TO_STRING env ''srcfile'' d m k else k []) (\<lambda>f.
     JSON_STRING_TO_STRING env ''targetpath'' d m (\<lambda>g. put_sys (SYSMGR_DOWNLOAD_FILE_PACKET a f g (junk_int env)) d m))))"

definition bin_to_json_download_file :: "sys_rpc \<Rightarrow> 'w sys_mgr \<Rightarrow> 'w sys_res" where
  "bin_to_json_download_file = bin_to_json_in_prog"

definition process_download_file :: "int \<Rightarrow> 'w sys_env \<Rightarrow> sys_rpc \<Rightarrow> 'w sys_mgr \<Rightarrow> 'w sys_res" where
  "process_download_file i env d m = on_pk d (\<lambda>p. case p of
     SYSMGR_DOWNLOAD_FILE_PACKET a f g _ \<Rightarrow> push_sys env i (SYSMGR_DOWNLOAD_FILE_PACKET a f g (junk_int env)) (SYSMGR_DOWNLOAD_FILE_PACKET a f g) d m
   | _ \<Rightarrow> kfail BadDeref)"

definition process_async_download_file :: "s32 \<Rightarrow> 'w sys_parts \<Rightarrow> string \<Rightarrow> string \<Rightarrow> string \<Rightarrow> 'w SYSMGR_CMN_DATA_CACHE \<Rightarrow> 'w sys_task" where
  "process_async_download_file i sp srcurl sourcefilepath targetfilepath c =
     (if i = 12 then run_script sp 512 ((if BoardType c = 15 then ''wget '' else ''wget --tries=2 '') @ srcurl @ '' -O '' @ targetfilepath) c
      else if i = 13 then run_script sp 512 (''tftp '' @ srcurl @ '' -c get '' @ sourcefilepath @ '' '' @ targetfilepath) c
      else kret (RPC_SRV_RESULT_ARG_ERROR, c))"

section \<open>The task in progress, the board\<close>

definition json_to_bin_get_async_task_sys :: "'w sys_env \<Rightarrow> sys_rpc \<Rightarrow> 'w sys_mgr \<Rightarrow> 'w sys_res" where
  "json_to_bin_get_async_task_sys env d m = sys_request RPC_SRV_ACT_READ 14 (SYSMGR_ASYNCTASK_PACKET (junk_int env)) d m (\<lambda>d m. kret (0, d, m))"

definition async_of_sys :: "sys_packet packet \<Rightarrow> u32 kres" where
  "async_of_sys pk = (case pk of P_USER (SYSMGR_ASYNCTASK_PACKET v) \<Rightarrow> kret v | _ \<Rightarrow> kfail BadDeref)"

definition bin_to_json_get_async_task_sys :: "sys_rpc \<Rightarrow> 'w sys_mgr \<Rightarrow> 'w sys_res" where
  "bin_to_json_get_async_task_sys = PREPARE_JSON_RESP_ENUM ''task'' SYSMGR_RPC_ASYNCTASK_ARG_TABL 8 async_of_sys"

definition get_async_task_sys :: "'w sys_mgr \<Rightarrow> u32" where
  "get_async_task_sys m = (let c = sys_AsyncCmdInProgress (service m) in
     if c = 8 then 0 else if c = 11 then 1 else if c = 12 then 2 else if c = 13 then 3 else if c = 20 then 4 else if c = 27 then 5
     else if c = 28 then 6 else if c = 34 then 7 else 8)"

definition process_get_async_task_sys :: "sys_rpc \<Rightarrow> 'w sys_mgr \<Rightarrow> 'w sys_res" where
  "process_get_async_task_sys d m = guarded RPC_SRV_ACT_READ d m (on_pk d (\<lambda>p. case p of
     SYSMGR_ASYNCTASK_PACKET _ \<Rightarrow> answer RPC_SRV_RESULT_SUCCESS (SYSMGR_ASYNCTASK_PACKET (get_async_task_sys m)) d m | _ \<Rightarrow> kfail BadDeref))"

definition json_to_bin_get_devtype :: "'w sys_env \<Rightarrow> sys_rpc \<Rightarrow> 'w sys_mgr \<Rightarrow> 'w sys_res" where
  "json_to_bin_get_devtype env d m = sys_request RPC_SRV_ACT_READ 15 (SYSMGR_DEVTYPE_PACKET (junk_int env)) d m (\<lambda>d m. kret (0, d, m))"

definition devtype_of :: "sys_packet packet \<Rightarrow> u32 kres" where
  "devtype_of pk = (case pk of P_USER (SYSMGR_DEVTYPE_PACKET v) \<Rightarrow> kret v | _ \<Rightarrow> kfail BadDeref)"

definition bin_to_json_get_devtype :: "sys_rpc \<Rightarrow> 'w sys_mgr \<Rightarrow> 'w sys_res" where
  "bin_to_json_get_devtype = PREPARE_JSON_RESP_ENUM ''type'' ADCMN_BOARD_TYPE_TABLE 18 devtype_of"

definition process_get_devtype :: "sys_rpc \<Rightarrow> 'w sys_mgr \<Rightarrow> 'w sys_res" where
  "process_get_devtype d m = guarded RPC_SRV_ACT_READ d m (on_pk d (\<lambda>p. case p of
     SYSMGR_DEVTYPE_PACKET _ \<Rightarrow> answer RPC_SRV_RESULT_SUCCESS (SYSMGR_DEVTYPE_PACKET (BoardType (service m))) d m | _ \<Rightarrow> kfail BadDeref))"

section \<open>Names and addresses\<close>

definition HOST_NAME_FILE_PATH :: string where
  "HOST_NAME_FILE_PATH = ''/mnt/settings/etc/hostname''"

definition DEF_HOST_NAME_FILE_PATH :: string where
  "DEF_HOST_NAME_FILE_PATH = ''/etc/hostname''"

definition json_to_bin_get_hostname :: "'w sys_env \<Rightarrow> sys_rpc \<Rightarrow> 'w sys_mgr \<Rightarrow> 'w sys_res" where
  "json_to_bin_get_hostname env d m = sys_request RPC_SRV_ACT_READ 16 (SYSMGR_HOSTNAME_PACKET (junk_str env)) d m (\<lambda>d m. kret (0, d, m))"

definition hostname_of :: "sys_packet packet \<Rightarrow> string kres" where
  "hostname_of pk = (case pk of P_USER (SYSMGR_HOSTNAME_PACKET s) \<Rightarrow> kret s | _ \<Rightarrow> kfail BadDeref)"

definition bin_to_json_get_hostname :: "sys_rpc \<Rightarrow> 'w sys_mgr \<Rightarrow> 'w sys_res" where
  "bin_to_json_get_hostname = PREPARE_JSON_RESP_STRING ''hostname'' hostname_of"

definition process_get_hostname :: "'w sys_parts \<Rightarrow> sys_rpc \<Rightarrow> 'w sys_mgr \<Rightarrow> 'w sys_res" where
  "process_get_hostname sp d m = guarded RPC_SRV_ACT_READ d m (on_pk d (\<lambda>p. case p of
     SYSMGR_HOSTNAME_PACKET _ \<Rightarrow>
       (let w = sys_world (service m); sh = sp_shell sp in
        case (case sh_read sh HOST_NAME_FILE_PATH w of None \<Rightarrow> sh_read sh DEF_HOST_NAME_FILE_PATH w | Some t \<Rightarrow> Some t) of
          None \<Rightarrow> just_result RPC_SRV_RESULT_FILE_OPEN_ERR d m
        | Some t \<Rightarrow> kbind (sprintf_s 1024 (c_str (first_word t))) (\<lambda>s. answer RPC_SRV_RESULT_SUCCESS (SYSMGR_HOSTNAME_PACKET s) d m))
   | _ \<Rightarrow> kfail BadDeref))"

definition json_to_bin_set_hostname :: "'w sys_env \<Rightarrow> sys_rpc \<Rightarrow> 'w sys_mgr \<Rightarrow> 'w sys_res" where
  "json_to_bin_set_hostname env d m = sys_request RPC_SRV_ACT_WRITE 17 (SYSMGR_HOSTNAME_PACKET (junk_str env)) d m (\<lambda>d m.
     JSON_STRING_TO_STRING env ''hostname'' d m (\<lambda>a. put_sys (SYSMGR_HOSTNAME_PACKET a) d m))"

definition bin_to_json_set_hostname :: "sys_rpc \<Rightarrow> 'w sys_mgr \<Rightarrow> 'w sys_res" where
  "bin_to_json_set_hostname = PREPARE_JSON_RESP"

definition process_set_hostname :: "'w sys_parts \<Rightarrow> sys_rpc \<Rightarrow> 'w sys_mgr \<Rightarrow> 'w sys_res" where
  "process_set_hostname sp d m = on_pk d (\<lambda>p. case p of
     SYSMGR_HOSTNAME_PACKET s \<Rightarrow> (case sh_write (sp_shell sp) HOST_NAME_FILE_PATH s (sys_world (service m)) of (ok, w) \<Rightarrow>
       just_result (if ok then RPC_SRV_RESULT_SUCCESS else RPC_SRV_RESULT_FILE_OPEN_ERR) d (put_w w m))
   | _ \<Rightarrow> kfail BadDeref)"

definition json_to_bin_get_myip :: "'w sys_env \<Rightarrow> sys_rpc \<Rightarrow> 'w sys_mgr \<Rightarrow> 'w sys_res" where
  "json_to_bin_get_myip env d m = sys_request RPC_SRV_ACT_READ 18 (SYSMGR_MY_PUBLIC_IP_PACKET (junk_str env)) d m (\<lambda>d m. kret (0, d, m))"

definition myip_of :: "sys_packet packet \<Rightarrow> string kres" where
  "myip_of pk = (case pk of P_USER (SYSMGR_MY_PUBLIC_IP_PACKET s) \<Rightarrow> kret s | _ \<Rightarrow> kfail BadDeref)"

definition bin_to_json_get_myip :: "sys_rpc \<Rightarrow> 'w sys_mgr \<Rightarrow> 'w sys_res" where
  "bin_to_json_get_myip = PREPARE_JSON_RESP_STRING ''ip'' myip_of"

definition process_get_myip :: "'w sys_parts \<Rightarrow> sys_rpc \<Rightarrow> 'w sys_mgr \<Rightarrow> 'w sys_res" where
  "process_get_myip sp d m = on_pk d (\<lambda>p. case p of
     SYSMGR_MY_PUBLIC_IP_PACKET s \<Rightarrow> (case run_shell_output (sp_shell sp) ''wget http://ipinfo.io/ip -qO -'' s (sys_world (service m)) of (res, s, w) \<Rightarrow>
       answer res (SYSMGR_MY_PUBLIC_IP_PACKET s) d (put_w w m))
   | _ \<Rightarrow> kfail BadDeref)"

definition json_to_bin_set_def_hostname :: "'w sys_env \<Rightarrow> sys_rpc \<Rightarrow> 'w sys_mgr \<Rightarrow> 'w sys_res" where
  "json_to_bin_set_def_hostname env d m = sys_request RPC_SRV_ACT_WRITE 19 (SYSMGR_HOSTNAME_PACKET (junk_str env)) d m (\<lambda>d m. kret (0, d, m))"

definition bin_to_json_set_def_hostname :: "sys_rpc \<Rightarrow> 'w sys_mgr \<Rightarrow> 'w sys_res" where
  "bin_to_json_set_def_hostname = PREPARE_JSON_RESP"

definition process_set_def_hostname :: "'w sys_parts \<Rightarrow> sys_rpc \<Rightarrow> 'w sys_mgr \<Rightarrow> 'w sys_res" where
  "process_set_def_hostname sp d m = on_req d (\<lambda>r.
     kbind (run_script sp 512 ''default-hostname -f y'' (service m)) (\<lambda>(res, c). just_result res d (m\<lparr>service := c\<rparr>)))"

section \<open>Log messages\<close>

definition fresh_log :: "'w sys_env \<Rightarrow> sys_packet" where
  "fresh_log env = SYSMGR_LOG_PACKET (junk_int env) (junk_int env) (junk_str env) (junk_int env)"

definition json_to_bin_loglist_update :: "'w sys_env \<Rightarrow> sys_rpc \<Rightarrow> 'w sys_mgr \<Rightarrow> 'w sys_res" where
  "json_to_bin_loglist_update env d m = sys_request RPC_SRV_ACT_WRITE 20 (fresh_log env) d m (\<lambda>d m. kret (0, d, m))"

definition bin_to_json_loglist_update :: "sys_rpc \<Rightarrow> 'w sys_mgr \<Rightarrow> 'w sys_res" where
  "bin_to_json_loglist_update = bin_to_json_in_prog"

definition process_loglist_update :: "'w sys_env \<Rightarrow> sys_rpc \<Rightarrow> 'w sys_mgr \<Rightarrow> 'w sys_res" where
  "process_loglist_update env d m = on_pk d (\<lambda>p. case p of
     SYSMGR_LOG_PACKET i n s _ \<Rightarrow> push_sys env 20 (fresh_log env) (SYSMGR_LOG_PACKET i n s) d m | _ \<Rightarrow> kfail BadDeref)"

definition process_async_loglist_update :: "'w sys_parts \<Rightarrow> 'w SYSMGR_CMN_DATA_CACHE \<Rightarrow> 'w sys_task" where
  "process_async_loglist_update sp c =
     kbind (UpdateLogList (sp_shell sp) (logmsg_chain c) (sys_world c)) (\<lambda>(res, ch, w). kret (res, c\<lparr>logmsg_chain := ch, sys_world := w\<rparr>))"

definition json_to_bin_get_logcount :: "'w sys_env \<Rightarrow> sys_rpc \<Rightarrow> 'w sys_mgr \<Rightarrow> 'w sys_res" where
  "json_to_bin_get_logcount env d m = sys_request RPC_SRV_ACT_READ 21 (fresh_log env) d m (\<lambda>d m. kret (0, d, m))"

definition logcount_of :: "sys_packet packet \<Rightarrow> int kres" where
  "logcount_of pk = (case pk of P_USER (SYSMGR_LOG_PACKET _ n _ _) \<Rightarrow> kret (sint n) | _ \<Rightarrow> kfail BadDeref)"

definition bin_to_json_get_logcount :: "sys_rpc \<Rightarrow> 'w sys_mgr \<Rightarrow> 'w sys_res" where
  "bin_to_json_get_logcount = PREPARE_JSON_RESP_INT ''logcount'' logcount_of"

definition process_get_logcount :: "sys_rpc \<Rightarrow> 'w sys_mgr \<Rightarrow> 'w sys_res" where
  "process_get_logcount d m = on_pk d (\<lambda>p. case p of
     SYSMGR_LOG_PACKET i _ s t \<Rightarrow> answer RPC_SRV_RESULT_SUCCESS (SYSMGR_LOG_PACKET i (GetLogLines (logmsg_chain (service m))) s t) d m | _ \<Rightarrow> kfail BadDeref)"

definition json_to_bin_get_logline :: "'w sys_env \<Rightarrow> sys_rpc \<Rightarrow> 'w sys_mgr \<Rightarrow> 'w sys_res" where
  "json_to_bin_get_logline env d m = sys_request RPC_SRV_ACT_READ 22 (fresh_log env) d m (\<lambda>d m.
     JSON_STRING_TO_INT env ''index'' d m (\<lambda>i. put_sys (SYSMGR_LOG_PACKET i (junk_int env) (junk_str env) (junk_int env)) d m))"

definition logline_of :: "sys_packet packet \<Rightarrow> string kres" where
  "logline_of pk = (case pk of P_USER (SYSMGR_LOG_PACKET _ _ s _) \<Rightarrow> kret s | _ \<Rightarrow> kfail BadDeref)"

definition bin_to_json_get_logline :: "sys_rpc \<Rightarrow> 'w sys_mgr \<Rightarrow> 'w sys_res" where
  "bin_to_json_get_logline = PREPARE_JSON_RESP_STRING ''logmsg'' logline_of"

definition process_get_logline :: "sys_rpc \<Rightarrow> 'w sys_mgr \<Rightarrow> 'w sys_res" where
  "process_get_logline d m = on_pk d (\<lambda>p. case p of
     SYSMGR_LOG_PACKET i n s t \<Rightarrow> (case read_log_message_line (logmsg_chain (service m)) i s of (res, s) \<Rightarrow> answer res (SYSMGR_LOG_PACKET i n s t) d m)
   | _ \<Rightarrow> kfail BadDeref)"

section \<open>Commands, identification and events\<close>

definition json_to_bin_run_shellcmd :: "'w sys_env \<Rightarrow> sys_rpc \<Rightarrow> 'w sys_mgr \<Rightarrow> 'w sys_res" where
  "json_to_bin_run_shellcmd env d m = sys_request RPC_SRV_ACT_WRITE 27 (SYSMGR_SHELLCMD_PACKET (junk_str env) (junk_int env)) d m (\<lambda>d m.
     JSON_STRING_TO_STRING env ''command'' d m (\<lambda>a. put_sys (SYSMGR_SHELLCMD_PACKET a (junk_int env)) d m))"

definition bin_to_json_run_shellcmd :: "sys_rpc \<Rightarrow> 'w sys_mgr \<Rightarrow> 'w sys_res" where
  "bin_to_json_run_shellcmd = bin_to_json_in_prog"

text \<open>Only the call \<open>run_shellcmd\<close> redirects the output; both queue the same task.\<close>

definition process_run_shellcmd :: "bool \<Rightarrow> 'w sys_env \<Rightarrow> sys_rpc \<Rightarrow> 'w sys_mgr \<Rightarrow> 'w sys_res" where
  "process_run_shellcmd trig env d m = on_pk d (\<lambda>p. case p of
     SYSMGR_SHELLCMD_PACKET a _ \<Rightarrow> kbind (sprintf_s 1024 (if trig then a else a @ '' > /tmp/shellcmd.resp'')) (\<lambda>tmpcmd.
       push_sys env 27 (SYSMGR_SHELLCMD_PACKET tmpcmd (junk_int env)) (SYSMGR_SHELLCMD_PACKET a) d m)
   | _ \<Rightarrow> kfail BadDeref)"

definition process_async_run_shellcmd :: "'w sys_parts \<Rightarrow> string \<Rightarrow> 'w SYSMGR_CMN_DATA_CACHE \<Rightarrow> 'w sys_task" where
  "process_async_run_shellcmd sp a c = (if sp_emulation sp then kret (RPC_SRV_RESULT_SUCCESS, c)
     else case sh_system (sp_shell sp) a (sys_world c) of (r, w) \<Rightarrow>
       kret (if r \<noteq> 0 then RPC_SRV_RESULT_FAIL else RPC_SRV_RESULT_SUCCESS, c\<lparr>sys_world := w\<rparr>))"

definition json_to_bin_devident :: "'w sys_env \<Rightarrow> sys_rpc \<Rightarrow> 'w sys_mgr \<Rightarrow> 'w sys_res" where
  "json_to_bin_devident env d m = sys_request RPC_SRV_ACT_WRITE 28 (SYSMGR_DEVIDENT_PACKET (junk_int env)) d m (\<lambda>d m. kret (0, d, m))"

definition bin_to_json_devident :: "sys_rpc \<Rightarrow> 'w sys_mgr \<Rightarrow> 'w sys_res" where
  "bin_to_json_devident = bin_to_json_in_prog"

definition process_devident :: "'w sys_env \<Rightarrow> sys_rpc \<Rightarrow> 'w sys_mgr \<Rightarrow> 'w sys_res" where
  "process_devident env d m = on_pk d (\<lambda>p. case p of
     SYSMGR_DEVIDENT_PACKET _ \<Rightarrow> push_sys env 28 (SYSMGR_DEVIDENT_PACKET (junk_int env)) SYSMGR_DEVIDENT_PACKET d m | _ \<Rightarrow> kfail BadDeref)"

definition process_async_devident :: "'w sys_parts \<Rightarrow> 'w SYSMGR_CMN_DATA_CACHE \<Rightarrow> 'w sys_task" where
  "process_async_devident sp c = (if sp_emulation sp then kret (RPC_SRV_RESULT_SUCCESS, c)
     else case device_identify sp of None \<Rightarrow> kret (RPC_SRV_RESULT_FEATURE_NOT_AVAILABLE, c)
       | Some f \<Rightarrow> (case f (sys_world c) of (res, w) \<Rightarrow> kret (res, c\<lparr>sys_world := w\<rparr>)))"

definition json_to_bin_subscribe_events :: "'w sys_env \<Rightarrow> sys_rpc \<Rightarrow> 'w sys_mgr \<Rightarrow> 'w sys_res" where
  "json_to_bin_subscribe_events env d m = sys_request RPC_SRV_ACT_WRITE 29 (SYSMGR_EVNT_SUBSCR_PACKET (junk_int env)) d m (\<lambda>d m. kret (0, d, m))"

definition bin_to_json_subscribe_events :: "sys_rpc \<Rightarrow> 'w sys_mgr \<Rightarrow> 'w sys_res" where
  "bin_to_json_subscribe_events = PREPARE_JSON_RESP"

definition process_subscribe_events :: "'w sys_parts \<Rightarrow> sys_rpc \<Rightarrow> 'w sys_mgr \<Rightarrow> 'w sys_res" where
  "process_subscribe_events sp d m = on_req d (\<lambda>r. case ReSubscribeEvents sp of None \<Rightarrow> just_result RPC_SRV_RESULT_FEATURE_NOT_AVAILABLE d m
     | Some f \<Rightarrow> (case f (sys_world (service m)) of (res, w) \<Rightarrow> just_result res d (put_w w m)))"

section \<open>The class and the tasks\<close>

text \<open>The task with a number, done by the object \<open>ob\<close>, without the deletion of its packet; a packet of another type is not what the code casts it to.\<close>

definition sys_task :: "nat \<Rightarrow> 'w sys_parts \<Rightarrow> s32 \<Rightarrow> sys_packet \<Rightarrow> 'w SYSMGR_CMN_DATA_CACHE \<Rightarrow> 'w sys_task" where
  "sys_task ob sp i p c =
     (if i = 8 then (case p of SYSMGR_DEV_OP_PACKET v _ \<Rightarrow> process_async_set_devop sp v c | _ \<Rightarrow> kfail BadDeref)
      else if i = 11 then (case p of SYSMGR_FMW_MODULE_PACKET v s _ \<Rightarrow> process_async_set_fmwupdate ob sp v s c | _ \<Rightarrow> kfail BadDeref)
      else if i = 12 \<or> i = 13 then (case p of SYSMGR_DOWNLOAD_FILE_PACKET a f g _ \<Rightarrow> process_async_download_file i sp a f g c | _ \<Rightarrow> kfail BadDeref)
      else if i = 20 then process_async_loglist_update sp c
      else if i = 27 then (case p of SYSMGR_SHELLCMD_PACKET a _ \<Rightarrow> process_async_run_shellcmd sp a c | _ \<Rightarrow> kfail BadDeref)
      else process_async_devident sp c)"

definition SysRpc_ProcessWorkAsync ::
  "nat \<Rightarrow> 'w sys_parts \<Rightarrow> s32 \<Rightarrow> sys_packet packet \<Rightarrow> 'w sys_mgr \<Rightarrow> (RPC_SRV_RESULT \<times> 'w sys_mgr) kres" where
  "SysRpc_ProcessWorkAsync ob sp i dat m =
     (let m = m\<lparr>service := (service m)\<lparr>sys_AsyncCmdInProgress := i\<rparr>\<rparr> in
      kbind (if i \<in> {8, 11, 12, 13, 20, 27, 28} then
          (case dat of P_USER p \<Rightarrow> kbind (sys_task ob sp i p (service m)) (\<lambda>(r, c). kret (r, m\<lparr>service := c, blocks := blocks m - 1\<rparr>))
           | _ \<Rightarrow> kfail BadDeref)
        else kret (RPC_SRV_RESULT_FAIL, m))
      (\<lambda>(r, m). kret (r, m\<lparr>service := (service m)\<lparr>sys_AsyncCmdInProgress := EJSON_SYSMGR_RPC_NONE\<rparr>\<rparr>)))"

definition SysRpc :: "'w sys_parts \<Rightarrow> 'w sys_env \<Rightarrow> nat \<Rightarrow> (sys_packet, 'w SYSMGR_CMN_DATA_CACHE) handler" where
  "SysRpc sp env ob = \<lparr>
     h_MapJsonToBinary = (\<lambda>i d m. if i = 4 then json_to_bin_get_loadinfo env d m else if i = 5 then json_to_bin_get_meminfo env d m
       else if i = 6 then json_to_bin_get_cpuinfo env d m else if i = 7 then json_to_bin_get_devop env d m
       else if i = 8 then json_to_bin_set_devop env d m else if i = 9 then json_to_bin_get_fmwver env d m
       else if i = 10 then json_to_bin_get_bootsys env d m else if i = 11 then json_to_bin_set_fmwupdate env d m
       else if i = 12 then json_to_bin_download_file 12 env d m else if i = 13 then json_to_bin_download_file 13 env d m
       else if i = 14 then json_to_bin_get_async_task_sys env d m else if i = 15 then json_to_bin_get_devtype env d m
       else if i = 16 then json_to_bin_get_hostname env d m else if i = 17 then json_to_bin_set_hostname env d m
       else if i = 18 then json_to_bin_get_myip env d m else if i = 19 then json_to_bin_set_def_hostname env d m
       else if i = 20 then json_to_bin_loglist_update env d m else if i = 21 then json_to_bin_get_logcount env d m
       else if i = 22 then json_to_bin_get_logline env d m else if i = 27 \<or> i = 34 then json_to_bin_run_shellcmd env d m
       else if i = 28 then json_to_bin_devident env d m else if i = 29 then json_to_bin_subscribe_events env d m else kret (-1, d, m)),
     h_MapBinaryToJson = (\<lambda>i d m. if i = 4 then bin_to_json_get_loadinfo d m else if i = 5 then bin_to_json_get_meminfo d m
       else if i = 6 then bin_to_json_get_cpuinfo d m else if i = 7 then bin_to_json_get_devop d m
       else if i = 8 then bin_to_json_set_devop d m else if i = 9 then bin_to_json_get_fmwver d m
       else if i = 10 then bin_to_json_get_bootsys d m else if i = 11 then bin_to_json_set_fmwupdate d m
       else if i = 12 \<or> i = 13 then bin_to_json_download_file d m else if i = 14 then bin_to_json_get_async_task_sys d m
       else if i = 15 then bin_to_json_get_devtype d m else if i = 16 then bin_to_json_get_hostname d m
       else if i = 17 then bin_to_json_set_hostname d m else if i = 18 then bin_to_json_get_myip d m
       else if i = 19 then bin_to_json_set_def_hostname d m else if i = 20 then bin_to_json_loglist_update d m
       else if i = 21 then bin_to_json_get_logcount d m else if i = 22 then bin_to_json_get_logline d m
       else if i = 27 \<or> i = 34 then bin_to_json_run_shellcmd d m else if i = 28 then bin_to_json_devident d m
       else if i = 29 then bin_to_json_subscribe_events d m else kret (-1, d, m)),
     h_ProcessWork = (\<lambda>i d m. if i = 4 then process_get_loadinfo sp d m else if i = 5 then process_get_meminfo sp d m
       else if i = 6 then process_get_cpuinfo sp d m else if i = 7 then process_get_devop d m
       else if i = 8 then process_set_devop env d m else if i = 9 then process_get_fmwver ob sp d m
       else if i = 10 then process_get_bootsys ob sp d m else if i = 11 then process_set_fmwupdate env d m
       else if i = 12 then process_download_file 12 env d m else if i = 13 then process_download_file 13 env d m
       else if i = 14 then process_get_async_task_sys d m else if i = 15 then process_get_devtype d m
       else if i = 16 then process_get_hostname sp d m else if i = 17 then process_set_hostname sp d m
       else if i = 18 then process_get_myip sp d m else if i = 19 then process_set_def_hostname sp d m
       else if i = 20 then process_loglist_update env d m else if i = 21 then process_get_logcount d m
       else if i = 22 then process_get_logline d m else if i = 27 then process_run_shellcmd False env d m
       else if i = 28 then process_devident env d m else if i = 29 then process_subscribe_events sp d m
       else if i = 34 then process_run_shellcmd True env d m else kret (0, d, m)),
     h_ProcessWorkAsync = SysRpc_ProcessWorkAsync ob sp,
     h_ReceiveEvent = (\<lambda>_ _ _ _ s. s)\<rparr>"

section \<open>The service\<close>

text \<open>The objects in the order of \<open>main\<close>: their names and the indexes they are constructed with.\<close>

definition sys_rpcs :: "(string \<times> s32) list" where
  "sys_rpcs = [(''get_mac_addr'', 0), (''set_mac_addr'', 1), (''get_eth_count'', 2), (''get_eth_name'', 3), (''get_ip_addr'', 23), (''set_ip_addr'', 24),
     (''get_netmask'', 25), (''set_netmask'', 26), (''get_load_info'', 4), (''get_mem_info'', 5), (''get_cpu_info'', 6), (''get_device_operation'', 7),
     (''set_device_operation'', 8), (''get_fmw_version'', 9), (''get_boot_system'', 10), (''firmware_update'', 11), (''download_tftp_file'', 13),
     (''download_ftp_file'', 12), (''get_async_task'', 14), (''get_devtype'', 15), (''get_hostname'', 16), (''set_hostname'', 17), (''get_my_public_ip'', 18),
     (''set_default_hostname'', 19), (''update_loglist'', 20), (''get_log_count'', 21), (''get_log_line'', 22), (''run_shellcmd'', 27),
     (''device_identify'', 28), (''re_subscribe_events'', 29), (''run_shellcmdtrig'', 34), (''display_clear'', 30), (''display_print'', 31),
     (''display_backlight_get'', 32), (''display_backlight_set'', 33), (''cmnrpc'', 0)]"

definition sys_objects :: "bool \<Rightarrow> ADJsonRpcMgrConsumer list" where
  "sys_objects dbglog = map (\<lambda>n. \<lparr>strRpcName = fst (sys_rpcs ! n), c_index = snd (sys_rpcs ! n), parent_index = 0, logmsg = dbglog,
     cmnrpchandler = (n = 35), c_object = n\<rparr>) [0..<36]"

definition sys_handlers :: "'w sys_parts \<Rightarrow> 'w sys_env \<Rightarrow> nat \<Rightarrow> (sys_packet, 'w SYSMGR_CMN_DATA_CACHE) handler" where
  "sys_handlers sp env ob = (if ob < 8 then NetRpc sp env else if ob < 31 then SysRpc sp env ob else if ob < 35 then DispCtrlRpc sp env else CmnRpc)"

definition sys_world_env :: "platform \<Rightarrow> nat \<Rightarrow> s32 \<Rightarrow> string \<Rightarrow> 'w sys_parts \<Rightarrow> 'w sys_env" where
  "sys_world_env pl mx j s sp = (let e = service_env pl mx j s in e\<lparr>handlers := sys_handlers sp e\<rparr>)"

definition sys_cache :: "u32 \<Rightarrow> u32 \<Rightarrow> s32 \<Rightarrow> string \<Rightarrow> 'w \<Rightarrow> 'w SYSMGR_CMN_DATA_CACHE" where
  "sys_cache board cfg j s w = \<lparr>BoardType = board, SyscfgType = cfg, DevOp = j, crnt_fmwver = s, bkup_fmwver = s, bootsys = j,
     sys_AsyncCmdInProgress = EJSON_SYSMGR_RPC_NONE, logmsg_chain = [],
     obj_flags = (\<lambda>_. \<lparr>crnt_fmwver_updated = False, bkup_fmwver_updated = False, boot_system_updated = False\<rparr>), sys_world = w\<rparr>"

text \<open>The start, up to the event receivers.\<close>

definition sys_main :: "s32 \<Rightarrow> bool \<Rightarrow> 'w SYSMGR_CMN_DATA_CACHE \<Rightarrow> rpc \<Rightarrow> ('w sys_mgr \<times> rpc) kres" where
  "sys_main ver dbglog c st =
     kbind (mgr_Start (snd (SupportShutdownRpc False (fold AttachRpc (sys_objects dbglog) (mgr_new ver dbglog c)))) st) (\<lambda>(m, st).
     kret (snd (SetServiceReadyFlag 1 m), st))"

end
