(* ===== verification/Sys_Contract.thy ===== *)
theory Sys_Contract
  imports Sys_Calls
begin

text \<open>
  The calls of the system manager keep the contract of the RPC manager: in surroundings whose files and outputs are in order they return, and give back the
  objects they take.
\<close>

section \<open>What is relied on of the surroundings\<close>

text \<open>
  The files of the kernel can be read and are not empty, the words in them and the names of the host fit into their arrays, no more than eight
  interfaces have an internet address, and no output of a command has a null character.
\<close>

definition proc_ok :: "'w shell \<Rightarrow> bool" where
  "proc_ok sh \<longleftrightarrow> (\<forall>w. \<forall>p \<in> {''/proc/cpuinfo'', ''/proc/loadavg'', ''/proc/meminfo'', ''/proc/uptime''}. returns (proc_text sh p w) (\<lambda>_. True)) \<and>
     (\<forall>w. returns (get_cpu_model_name sh w) (\<lambda>_. True))"

definition ifaces_ok :: "if_req list \<Rightarrow> bool" where
  "ifaces_ok rs \<longleftrightarrow> length (filter if_inet rs) \<le> 8 \<and>
     list_all (\<lambda>r. length (if_addr r) < 100 \<and> pred_option (\<lambda>hw. length hw \<le> 20) (if_hwaddr r) \<and> pred_option (\<lambda>s. length s < 100) (if_netmask r)) rs"

definition files_ok :: "'w shell \<Rightarrow> bool" where
  "files_ok sh \<longleftrightarrow> (\<forall>w. pred_option (\<lambda>t. t \<noteq> [] \<longrightarrow> c_str t \<noteq> [] \<and> length (c_str t) < 100) (sh_read sh SYSMGR_TEMP_FMW_READ_FILE w)) \<and>
     (\<forall>w. \<forall>p \<in> {HOST_NAME_FILE_PATH, DEF_HOST_NAME_FILE_PATH}. pred_option (\<lambda>t. length t < 1024) (sh_read sh p w))"

definition shell_ok :: "'w shell \<Rightarrow> bool" where
  "shell_ok sh \<longleftrightarrow> proc_ok sh \<and> files_ok sh \<and> (\<forall>w. pred_option ifaces_ok (sh_ifconf sh w)) \<and>
     (\<forall>cmdl w. pred_option (\<lambda>t. CHR 0x00 \<notin> set t) (fst (sh_popen sh cmdl w)))"

section \<open>The information\<close>

lemma first_line_ok:
  assumes "shell_ok sh" and "first_line sh n cmdl w = (Some l, w')"
  shows "CHR 0x00 \<notin> set l" "length l \<le> n"
proof -
  have "set (fst (fgets n t)) \<subseteq> set t \<and> length (fst (fgets n t)) \<le> n" for t by (induction n t rule: fgets.induct) (auto split: prod.splits)
  then show "CHR 0x00 \<notin> set l" "length l \<le> n"
    using assms by (auto simp: shell_ok_def first_line_def split: prod.splits option.splits) (metis fst_conv option.pred_inject(2) subsetD)
qed

lemma chop_ok: "CHR 0x00 \<notin> set l \<Longrightarrow> l \<noteq> [] \<Longrightarrow> chop l = kret (butlast l)"
proof -
  assume "CHR 0x00 \<notin> set l" "l \<noteq> []"
  moreover from this have "c_str l = l" by (auto simp: c_str_def takeWhile_eq_all_conv)
  ultimately show ?thesis by (simp add: chop_def)
qed

lemma mac_text_length: "length (mac_text bs) \<le> 3 * length bs"
  by (induction bs rule: mac_text.induct) auto

lemma probe_loop_ok:
  assumes "ifaces_ok rs" and "list_all (\<lambda>e. length (eth_ip e) < 100 \<and> length (eth_mac e) < 100 \<and> length (eth_netmask e) < 100) es"
    and "length es + length (filter if_inet rs) \<le> 8"
  shows "returns (probe_loop rs es) (\<lambda>q. pred_option (list_all (\<lambda>e. length (eth_ip e) < 100 \<and> length (eth_mac e) < 100 \<and> length (eth_netmask e) < 100)) q)"
  using assms
proof (induction rs arbitrary: es)
  case (Cons r rs)
  have rs: "ifaces_ok rs" using Cons.prems(1) by (auto simp: ifaces_ok_def split: if_splits)
  show ?case
  proof (cases "if_inet r \<and> if_hwaddr r \<noteq> None")
    case True
    then obtain hw where hw: "if_inet r" "if_hwaddr r = Some hw" by auto
    have "length hw \<le> 20" "length (if_addr r) < 100" "pred_option (\<lambda>s. length s < 100) (if_netmask r)" using Cons.prems(1) hw by (auto simp: ifaces_ok_def)
    then show ?thesis using Cons.prems rs hw mac_text_length [of hw]
      by (auto simp: MAX_ALLOWED_INTERFACES_def intro!: Cons.IH split: option.split)
  qed (use Cons rs in auto)
qed simp

lemma find_iface_set: "find_iface eth es = Some e \<Longrightarrow> e \<in> set es"
  by (induction es) (auto split: if_splits)

lemma read_network_info_ok:
  assumes "shell_ok sh"
  shows "returns (read_network_info sh eth w) (\<lambda>(r, a, b, c). length a < 100 \<and> length b < 100 \<and> length c < 100)"
proof -
  have "pred_option ifaces_ok (sh_ifconf sh w)" using assms by (simp add: shell_ok_def)
  then have "returns (probe_eth_interface_details sh w)
      (\<lambda>q. pred_option (list_all (\<lambda>e. length (eth_ip e) < 100 \<and> length (eth_mac e) < 100 \<and> length (eth_netmask e) < 100)) q)"
    using probe_loop_ok [of _ "[]"] by (auto simp: probe_eth_interface_details_def ifaces_ok_def split: option.split)
  then show ?thesis unfolding read_network_info_def
    by (auto simp: list_all_iff dest!: find_iface_set elim!: returns_mono split: option.split)
qed

lemma read_ifconfig_ok:
  assumes "shell_ok sh" and "length eth < 400"
  shows "returns (read_network_info_ifconfig sh eth w) (\<lambda>(q, w). pred_option (\<lambda>(a, b, c). length a < 300 \<and> length b < 100 \<and> length c < 100) q)"
proof -
  have "first_line sh 249 cmdl w = (Some l, w') \<Longrightarrow> l \<noteq> [] \<Longrightarrow> chop l = kret (butlast l) \<and> length l - Suc 0 < 300" for cmdl l w w'
    using first_line_ok [OF assms(1), of 249 cmdl w l w'] chop_ok [of l] by auto
  then show ?thesis using assms(2) by (auto simp: read_network_info_ifconfig_def sprintf_s_def split: prod.split option.split)
qed

lemma net_info_ok:
  assumes "shell_ok sh" and "length eth < 400" and "\<And>a b c. sel (a, b, c) \<in> {a, b, c}"
  shows "returns (net_info sh sel eth w) (\<lambda>(res, a, w). length a < 300)"
proof -
  have sel: "length (sel (a, b, c)) < 300" if "length a < 300 \<and> length b < 100 \<and> length c < 100" for a b c
    using that assms(3) [of a b c] by auto
  obtain r a b c where 1: "read_network_info sh eth w = kret (r, a, b, c)" "length a < 100" "length b < 100" "length c < 100"
    using read_network_info_ok [OF assms(1), of eth w] by (auto simp: returns_def)
  obtain q w' where 2: "read_network_info_ifconfig sh eth w = kret (q, w')" "pred_option (\<lambda>(a, b, c). length a < 300 \<and> length b < 100 \<and> length c < 100) q"
    using read_ifconfig_ok [OF assms(1,2), of w] by (auto simp: returns_def)
  show ?thesis using 1 2 sel by (auto simp: net_info_def split: option.split)
qed

lemma info_ok:
  assumes "shell_ok sh"
  shows "returns (read_load_info sh w) (\<lambda>_. True)" "returns (read_mem_info sh w) (\<lambda>_. True)" "returns (read_cpu_info sh w) (\<lambda>_. True)"
proof -
  have p: "returns (proc_text sh ''/proc/cpuinfo'' w) (\<lambda>_. True)" "returns (proc_text sh ''/proc/loadavg'' w) (\<lambda>_. True)"
    "returns (proc_text sh ''/proc/meminfo'' w) (\<lambda>_. True)" "returns (proc_text sh ''/proc/uptime'' w) (\<lambda>_. True)" "returns (get_cpu_model_name sh w) (\<lambda>_. True)"
    using assms by (simp_all add: shell_ok_def proc_ok_def)
  then have "returns (read_system_status sh w) (\<lambda>_. True)"
    by (auto simp: read_system_status_def get_cpu_cores_def get_current_and_average_load_def get_mem_and_free_mem_def get_uptime_def returns_def Let_def
        split: option.split prod.split)
  then show "returns (read_load_info sh w) (\<lambda>_. True)" "returns (read_mem_info sh w) (\<lambda>_. True)" "returns (read_cpu_info sh w) (\<lambda>_. True)"
    by (auto simp: read_load_info_def read_mem_info_def read_cpu_info_def returns_def)
qed

lemma c_str_take: "c_str (take n t) = take n (c_str t)"
  by (induction t arbitrary: n) (auto simp: c_str_def take_Cons split: nat.split)

lemma read_temp_ok:
  assumes "shell_ok sh"
  shows "returns (read_temp_file sh cmdline w) (\<lambda>(res, q, w). pred_option (\<lambda>s. length s < 100) q)"
proof -
  obtain r w1 where w: "sh_system sh cmdline w = (r, w1)" by (cases "sh_system sh cmdline w")
  have p: "pred_option (\<lambda>t. t \<noteq> [] \<longrightarrow> c_str t \<noteq> [] \<and> length (c_str t) < 100) (sh_read sh SYSMGR_TEMP_FMW_READ_FILE w1)"
    using assms by (simp add: shell_ok_def files_ok_def)
  show ?thesis using p by (cases "sh_read sh SYSMGR_TEMP_FMW_READ_FILE w1") (auto simp: read_temp_file_def w c_str_take Let_def)
qed

section \<open>The contract\<close>

definition sys_objs :: "(s32 \<times> nat \<times> bool) list" where
  "sys_objs = map (\<lambda>n. (snd (sys_rpcs ! n), n, n = 35)) [0..<36]"

text \<open>The tasks: their numbers, behind those of the manager, and the packets they cast to.\<close>

definition sys_tk :: "int \<Rightarrow> sys_packet packet \<Rightarrow> bool" where
  "sys_tk c pk \<longleftrightarrow> (case pk of P_USER p \<Rightarrow> (case p of
     SYSMGR_DEV_OP_PACKET _ _ \<Rightarrow> c = 32 | SYSMGR_FMW_MODULE_PACKET _ _ _ \<Rightarrow> c = 35 | SYSMGR_DOWNLOAD_FILE_PACKET _ _ _ _ \<Rightarrow> c = 36 \<or> c = 37
   | SYSMGR_LOG_PACKET _ _ _ _ \<Rightarrow> c = 44 | SYSMGR_SHELLCMD_PACKET _ _ \<Rightarrow> c = 51 | SYSMGR_DEVIDENT_PACKET _ \<Rightarrow> c = 52 | _ \<Rightarrow> False) | _ \<Rightarrow> False)"

definition sys_ok :: "'w SYSMGR_CMN_DATA_CACHE \<Rightarrow> bool" where
  "sys_ok c \<longleftrightarrow> length (crnt_fmwver c) < 1024 \<and> length (bkup_fmwver c) < 1024 \<and> list_all (\<lambda>p. length (Msg p) < 1024) (logmsg_chain c)"

abbreviation sys_inv :: "'w sys_mgr \<Rightarrow> bool" where
  "sys_inv \<equiv> mgr_inv sys_objs sys_tk sys_ok"

text \<open>The packets of the calls; the texts fit into the arrays that they are copied to.\<close>

definition sys_pk :: "s32 \<Rightarrow> sys_packet packet \<Rightarrow> bool" where
  "sys_pk i pk \<longleftrightarrow> (case pk of P_USER p \<Rightarrow> (case p of
     SYSMGR_MAC_ADDR_PACKET _ a _ e \<Rightarrow> i \<in> {0, 1, 2, 3} \<and> length a < 1024 \<and> length e < 1024 \<and> (i = 0 \<longrightarrow> length e < 255)
   | SYSMGR_INFO_PACKET _ _ _ \<Rightarrow> i \<in> {4, 5, 6}
   | SYSMGR_DEV_OP_PACKET _ _ \<Rightarrow> i \<in> {7, 8}
   | SYSMGR_FMW_MODULE_PACKET _ s _ \<Rightarrow> i \<in> {9, 11} \<and> length s < 1024
   | SYSMGR_BOOT_SYSTEM_PACKET _ \<Rightarrow> i = 10
   | SYSMGR_DOWNLOAD_FILE_PACKET _ _ _ _ \<Rightarrow> i \<in> {12, 13}
   | SYSMGR_ASYNCTASK_PACKET _ \<Rightarrow> i = 14
   | SYSMGR_DEVTYPE_PACKET _ \<Rightarrow> i = 15
   | SYSMGR_HOSTNAME_PACKET s \<Rightarrow> i \<in> {16, 17, 19} \<and> length s < 1024
   | SYSMGR_MY_PUBLIC_IP_PACKET s \<Rightarrow> i = 18 \<and> length s < 1024
   | SYSMGR_LOG_PACKET _ _ s _ \<Rightarrow> i \<in> {20, 21, 22} \<and> length s < 1024
   | SYSMGR_NET_INFO_PACKET _ a e \<Rightarrow> i \<in> {23, 24, 25, 26} \<and> length a < 1024 \<and> (i \<in> {23, 25} \<longrightarrow> length e < 255)
   | SYSMGR_SHELLCMD_PACKET a _ \<Rightarrow> i \<in> {27, 34} \<and> length a < 512
   | SYSMGR_DEVIDENT_PACKET _ \<Rightarrow> i = 28
   | SYSMGR_EVNT_SUBSCR_PACKET _ \<Rightarrow> i = 29
   | SYSMGR_PRINT_PACKET _ _ _ \<Rightarrow> i \<in> {30, 31, 32, 33}) | _ \<Rightarrow> False)"

text \<open>The object and the index of each call.\<close>

inductive sys_obj :: "'w sys_parts \<Rightarrow> 'w sys_env \<Rightarrow> (sys_packet, 'w SYSMGR_CMN_DATA_CACHE) handler \<Rightarrow> s32 \<Rightarrow> bool" for sp env where
  net: "i \<in> {0, 1, 2, 3, 23, 24, 25, 26} \<Longrightarrow> sys_obj sp env (NetRpc sp env) i"
| sys: "i \<in> {4, 5, 6, 7, 8, 9, 10, 11, 12, 13, 14, 15, 16, 17, 18, 19, 20, 21, 22, 27, 28, 29, 34} \<Longrightarrow> sys_obj sp env (SysRpc sp env ob) i"
| disp: "i \<in> {30, 31, 32, 33} \<Longrightarrow> sys_obj sp env (DispCtrlRpc sp env) i"

lemmas sys_in_defs = json_to_bin_get_mac_addr_def json_to_bin_set_mac_addr_def json_to_bin_get_eth_count_def json_to_bin_get_eth_name_def
  json_to_bin_get_ip_addr_def json_to_bin_set_ip_addr_def json_to_bin_get_netmask_def json_to_bin_set_netmask_def net_get_request_def net_set_request_def
  json_to_bin_disp_clear_def json_to_bin_disp_print_def json_to_bin_backlight_get_def json_to_bin_backlight_set_def json_to_bin_get_loadinfo_def
  json_to_bin_get_meminfo_def json_to_bin_get_cpuinfo_def json_to_bin_get_devop_def json_to_bin_set_devop_def json_to_bin_get_fmwver_def
  json_to_bin_get_bootsys_def json_to_bin_set_fmwupdate_def json_to_bin_download_file_def json_to_bin_get_async_task_sys_def json_to_bin_get_devtype_def
  json_to_bin_get_hostname_def json_to_bin_set_hostname_def json_to_bin_get_myip_def json_to_bin_set_def_hostname_def json_to_bin_loglist_update_def
  json_to_bin_get_logcount_def json_to_bin_get_logline_def json_to_bin_run_shellcmd_def json_to_bin_devident_def json_to_bin_subscribe_events_def
  fresh_mac_def fresh_net_def fresh_print_def fresh_info_def fresh_devop_def fresh_fmw_def fresh_log_def
  sys_request_def put_sys_def JSON_STRING_TO_STRING_def

lemma fits_255: "params_fit lib t \<Longrightarrow> param_text lib t name = Some s \<Longrightarrow> length s < 255"
  by (fastforce simp: params_fit_def)

lemma fits_1024: "params_fit lib t \<Longrightarrow> param_text lib t name = Some s \<Longrightarrow> length s < 1024"
  by (fastforce simp: params_fit_def)

lemma fits_512: "params_fit lib t \<Longrightarrow> param_text lib t name = Some s \<Longrightarrow> length s < 512"
  by (fastforce simp: params_fit_def)

lemma sys_map_in:
  assumes fits: "params_fit (jlib (plat env)) (d_socket_data d)" and inv: "sys_inv m" and req: "empty_req d" and own: "0 < owned m"
    and junk: "length (junk_str env) < 512" and ob: "sys_obj sp env H i"
  shows "returns (h_MapJsonToBinary H i d m) (\<lambda>(res, d', m'). sys_inv m' \<and> same_call d d' \<and> d_json d' = d_json d \<and>
     (if res = 0 then holds (sys_pk i) d' \<and> owned m' = owned m + 1 else empty_req d' \<and> owned m' = owned m))"
proof -
  obtain r where r: "d_obj d = Some r" "rq_dataRef r = None" using req by (auto simp: empty_req_def)
  note rules = macro_defs find_single_param_fits [OF fits] r holds_def empty_req_def same_call_def mgr_inv_blocks owned_def sys_pk_def Let_def
  note short = fits_255 [OF fits] fits_1024 [OF fits] fits_512 [OF fits]
  from ob show ?thesis
  proof cases
    case net
    from net(2) show ?thesis using inv own junk unfolding net(1)
      by (elim insertE emptyE; simp add: NetRpc_def) (auto simp: sys_in_defs rules short split: option.splits)
  next
    case (sys ob)
    from sys(2) show ?thesis using inv own junk unfolding sys(1)
      by (elim insertE emptyE; simp add: SysRpc_def) (auto simp: sys_in_defs rules short split: option.splits)
  next
    case disp
    from disp(2) show ?thesis using inv own junk unfolding disp(1)
      by (elim insertE emptyE; simp add: DispCtrlRpc_def) (auto simp: sys_in_defs rules short split: option.splits)
  qed
qed

lemmas sys_out_defs = bin_to_json_get_mac_addr_def bin_to_json_set_mac_addr_def bin_to_json_get_eth_count_def bin_to_json_get_eth_name_def
  bin_to_json_get_ip_addr_def bin_to_json_get_netmask_def bin_to_json_set_ip_addr_def bin_to_json_set_netmask_def bin_to_json_disp_clear_def
  bin_to_json_disp_print_def bin_to_json_backlight_get_def bin_to_json_backlight_set_def bin_to_json_get_loadinfo_def bin_to_json_get_meminfo_def
  bin_to_json_get_cpuinfo_def bin_to_json_info_def bin_to_json_get_devop_def bin_to_json_set_devop_def bin_to_json_in_prog_def bin_to_json_get_fmwver_def
  bin_to_json_get_bootsys_def bin_to_json_set_fmwupdate_def bin_to_json_download_file_def bin_to_json_get_async_task_sys_def bin_to_json_get_devtype_def
  bin_to_json_get_hostname_def bin_to_json_set_hostname_def bin_to_json_get_myip_def bin_to_json_set_def_hostname_def bin_to_json_loglist_update_def
  bin_to_json_get_logcount_def bin_to_json_get_logline_def bin_to_json_run_shellcmd_def bin_to_json_devident_def bin_to_json_subscribe_events_def
  mac_of_def eth_count_of_def eth_name_of_def addr_of_def backlight_of_def devop_of_def fmw_text_of_def bootsys_of_def async_of_sys_def devtype_of_def
  hostname_of_def myip_of_def logcount_of_def logline_of_def task_of_sys_def

lemma table_short:
  "k \<le> 2 \<Longrightarrow> length (SYSMGR_RPC_DISP_BKLT_ARG_TABL ! k) < 1100" "k \<le> 9 \<Longrightarrow> length (SYSMGR_RPC_DEV_OP_ARG_TABL ! k) < 1100"
  "k \<le> 2 \<Longrightarrow> length (SYSMGR_RPC_BOOT_SYSTEM_ARG_TABL ! k) < 1100" "k \<le> 8 \<Longrightarrow> length (SYSMGR_RPC_ASYNCTASK_ARG_TABL ! k) < 1100"
  "k \<le> 18 \<Longrightarrow> length (ADCMN_BOARD_TYPE_TABLE ! k) < 1100"
  by (auto intro!: nth_short simp: SYSMGR_RPC_DISP_BKLT_ARG_TABL_def SYSMGR_RPC_DEV_OP_ARG_TABL_def SYSMGR_RPC_BOOT_SYSTEM_ARG_TABL_def
      SYSMGR_RPC_ASYNCTASK_ARG_TABL_def ADCMN_BOARD_TYPE_TABLE_def)

lemma sys_packet_held:
  assumes "holds (sys_pk i) d"
  obtains r p where "d_obj d = Some r" "rq_dataRef r = Some (P_USER p)" "sys_pk i (P_USER p)"
proof -
  obtain r pk where r: "d_obj d = Some r" "rq_dataRef r = Some pk" "sys_pk i pk" using assms by (auto simp: holds_def)
  then obtain p where "pk = P_USER p" by (cases pk) (simp_all add: sys_pk_def)
  then show thesis using r that by blast
qed

lemma sys_map_out:
  assumes inv: "sys_inv m" and pk: "holds (sys_pk i) d" and own: "1 < owned m" and ob: "sys_obj sp env H i"
  shows "returns (h_MapBinaryToJson H i d m)
    (\<lambda>(res, d', m'). sys_inv m' \<and> same_call d d' \<and> empty_req d' \<and> owned m' + 1 = owned m \<and> d_json d' \<noteq> None)"
proof -
  obtain r p where r: "d_obj d = Some r" "rq_dataRef r = Some (P_USER p)" "sys_pk i (P_USER p)"
    using pk by (rule sys_packet_held)
  note rules = sys_out_defs resp_defs r(1,2) empty_req_def same_call_def mgr_inv_blocks owned_def sys_pk_def sprintf_s_def JSON_RPC_METHOD_RESP_MAX_LENGTH_def Let_def
    table_short
  from ob show ?thesis
  proof cases
    case net
    from net(2) show ?thesis using inv own r(3) unfolding net(1)
      by (elim insertE emptyE; simp add: NetRpc_def) (auto simp: rules split: sys_packet.splits)
  next
    case (sys ob)
    from sys(2) show ?thesis using inv own r(3) unfolding sys(1)
      by (elim insertE emptyE; simp add: SysRpc_def) (auto simp: rules split: sys_packet.splits)
  next
    case disp
    from disp(2) show ?thesis using inv own r(3) unfolding disp(1)
      by (elim insertE emptyE; simp add: DispCtrlRpc_def) (auto simp: rules split: sys_packet.splits)
  qed
qed

text \<open>What the work of a call owes.\<close>

definition sys_works :: "s32 \<Rightarrow> sys_rpc \<Rightarrow> 'w sys_mgr \<Rightarrow> 'w sys_res \<Rightarrow> bool" where
  "sys_works i d m q \<longleftrightarrow> returns q (\<lambda>(res, d', m'). sys_inv m' \<and> same_call d d' \<and> holds (sys_pk i) d' \<and> owned m' = owned m)"

lemma sys_inv_world [simp]: "sys_inv (put_w w m) = sys_inv m" "owned (put_w w m) = owned m" "service (put_w w m) = (service m)\<lparr>sys_world := w\<rparr>"
  "owned (m\<lparr>service := c\<rparr>) = owned m"
  by (simp_all add: put_w_def mgr_inv_def owned_def sys_ok_def)

lemma sys_works_answer: "\<lbrakk>sys_inv m'; owned m' = owned m; holds (sys_pk i) d; sys_pk i (P_USER p)\<rbrakk> \<Longrightarrow> sys_works i d m (answer res p d m')"
  by (auto simp: sys_works_def answer_def holds_def set_packet_def set_result_def same_call_def)

lemma sys_works_result: "\<lbrakk>sys_inv m'; owned m' = owned m; holds (sys_pk i) d\<rbrakk> \<Longrightarrow> sys_works i d m (just_result res d m')"
  by (auto simp: sys_works_def just_result_def holds_def set_result_def same_call_def)

lemma sys_works_same: "\<lbrakk>sys_inv m'; owned m' = owned m; holds (sys_pk i) d\<rbrakk> \<Longrightarrow> sys_works i d m (kret (0, d, m'))"
  by (simp add: sys_works_def same_call_def)

lemma sys_works_guarded: "\<lbrakk>sys_inv m; holds (sys_pk i) d; sys_works i d m q\<rbrakk> \<Longrightarrow> sys_works i d m (guarded act d m q)"
  using sys_works_result [of m m i d RPC_SRV_RESULT_ACTION_NOT_ALLOWED] by (auto simp: guarded_def on_req_def just_result_def elim!: sys_packet_held)

lemma sys_works_pk: "\<lbrakk>holds (sys_pk i) d; \<And>p. sys_pk i (P_USER p) \<Longrightarrow> sys_works i d m (k p)\<rbrakk> \<Longrightarrow> sys_works i d m (on_pk d k)"
  by (auto simp: on_pk_def on_req_def elim!: sys_packet_held)

lemma sys_works_req: "\<lbrakk>holds (sys_pk i) d; \<And>r. sys_works i d m (k r)\<rbrakk> \<Longrightarrow> sys_works i d m (on_req d k)"
  by (auto simp: on_req_def elim!: sys_packet_held)

lemma sys_works_bind: "\<lbrakk>returns q P; \<And>x. P x \<Longrightarrow> sys_works i d m (k x)\<rbrakk> \<Longrightarrow> sys_works i d m (kbind q k)"
  by (auto simp: sys_works_def returns_def)

lemma sys_works_push:
  assumes inv: "sys_inv m" and h: "holds (sys_pk i) d" and c: "c \<in> {8, 11, 12, 13, 20, 27, 28}" and tk: "sys_tk (c + 24) (P_USER p)"
    and f: "\<And>t. sys_pk i (P_USER (f t))"
  shows "sys_works i d m (push_sys env c p f d m)"
proof -
  let ?m = "m\<lparr>blocks := blocks m + 1\<rparr>"
  obtain res ident m1 where push: "mgr_push env (c + 24) (P_USER p) WORK_CMD_AFTER_DONE_PRESERVE ?m = (res, ident, m1)"
    by (cases "mgr_push env (c + 24) (P_USER p) WORK_CMD_AFTER_DONE_PRESERVE ?m")
  have inv': "sys_inv ?m" using inv by (simp add: mgr_inv_blocks)
  have "sint (of_int (c + 24) :: s32) = c + 24" using c by auto
  then have tk': "sys_tk (sint (of_int (c + 24) :: s32)) (P_USER p)" using tk by simp
  note k = mgr_push_keeps [OF inv' disjI2 [OF tk'] push]
  have "res = 0 \<Longrightarrow> sys_works i d m (answer r (f ident) d m1)" for r
    using k by (intro sys_works_answer h f) (auto simp: owned_def)
  moreover have "res \<noteq> 0 \<Longrightarrow> sys_works i d m (answer r (f ident) d (m1\<lparr>blocks := blocks m1 - 1\<rparr>))" for r
    using k by (intro sys_works_answer h f) (auto simp: mgr_inv_blocks owned_def)
  ultimately show ?thesis using push by (simp add: push_sys_def PushAsyncTask_def EJSON_RPCGMGR_CMD_END_def)
qed

lemmas sys_works_rules = sys_works_guarded sys_works_pk sys_works_req sys_works_result sys_works_answer sys_works_same sys_works_push

lemma sys_works_net_info:
  assumes "shell_ok sh" and "sys_inv m" and "holds (sys_pk i) d" and "length eth < 255" and "\<And>a b c. sel (a, b, c) \<in> {a, b, c}"
    and "\<And>a. length a < 1024 \<Longrightarrow> sys_pk i (P_USER (f a))"
  shows "sys_works i d m (kbind (net_info sh sel eth w) (\<lambda>(res, a, w). answer res (f a) d (put_w w m)))"
  by (rule sys_works_bind [OF net_info_ok [OF assms(1)]]) (use assms in \<open>auto intro!: sys_works_answer\<close>)

lemma sys_works_eth_name:
  assumes sh: "shell_ok sh" and "sys_inv m" and "holds (sys_pk i) d" and "length eth < 1024" and "\<And>a. length a < 1024 \<Longrightarrow> sys_pk i (P_USER (f a))"
  shows "sys_works i d m (kbind (get_nth_eth_name sh k eth w) (\<lambda>(res, eth, w). answer res (f eth) d (put_w w m)))"
proof (rule sys_works_bind)
  have "first_line sh 249 cmdl w = (Some l, w') \<Longrightarrow> l \<noteq> [] \<Longrightarrow> chop l = kret (butlast l) \<and> length l - Suc 0 < 1024" for cmdl l w w'
    using first_line_ok [OF sh, of 249 cmdl w l w'] chop_ok [of l] by auto
  then show "returns (get_nth_eth_name sh k eth w) (\<lambda>(res, eth, w). length eth < 1024)"
    using assms(4) by (auto simp: get_nth_eth_name_def split: prod.split option.split)
qed (use assms in \<open>auto intro!: sys_works_answer\<close>)

lemma net_works:
  assumes sh: "shell_ok (sp_shell sp)" and inv: "sys_inv m" and h: "holds (sys_pk i) d" and i: "i \<in> {0, 1, 2, 3, 23, 24, 25, 26}"
  shows "sys_works i d m (h_ProcessWork (NetRpc sp env) i d m)"
  using i inv h
  by (elim insertE emptyE; simp add: NetRpc_def process_get_mac_addr_def process_set_mac_addr_def process_get_eth_count_def process_get_eth_name_def
      process_get_ip_addr_def process_get_netmask_def process_set_ip_addr_def process_set_netmask_def net_get_work_def)
    (auto intro!: sys_works_rules sys_works_net_info [OF sh] sys_works_eth_name [OF sh] simp: sys_pk_def split: sys_packet.splits prod.split)

lemma disp_works:
  assumes inv: "sys_inv m" and h: "holds (sys_pk i) d" and i: "i \<in> {30, 31, 32, 33}"
  shows "sys_works i d m (h_ProcessWork (DispCtrlRpc sp env) i d m)"
  using i inv h
  by (elim insertE emptyE; simp add: DispCtrlRpc_def process_disp_clear_def process_disp_print_def process_backlight_get_def process_backlight_set_def
      on_display_def)
    (auto intro!: sys_works_rules simp: sys_pk_def split: sys_packet.splits prod.split option.split)

lemma sys_works_info:
  assumes "\<And>w. returns (f (sp_shell sp) w) (\<lambda>_. True)" and inv: "sys_inv m" and h: "holds (sys_pk i) d" and "i \<in> {4, 5, 6}"
  shows "sys_works i d m (info_work f sp d m)"
proof -
  have "sys_works i d m (kbind (f (sp_shell sp) w) (\<lambda>(a, b, c). answer RPC_SRV_RESULT_SUCCESS (SYSMGR_INFO_PACKET a b c) d m))" for w
    by (rule sys_works_bind [OF assms(1)]) (use assms(4) inv h in \<open>auto intro!: sys_works_answer simp: sys_pk_def\<close>)
  then show ?thesis unfolding info_work_def using assms(4) inv h by (auto intro!: sys_works_guarded sys_works_pk simp: sys_pk_def split: sys_packet.splits)
qed

lemma fmwver_works:
  assumes sh: "shell_ok (sp_shell sp)" and inv: "sys_inv m" and h: "holds (sys_pk 9) d"
  shows "sys_works 9 d m (process_get_fmwver ob sp d m)"
proof -
  have ok: "length (crnt_fmwver (service m)) < 1024" "length (bkup_fmwver (service m)) < 1024" using inv by (simp_all add: mgr_inv_def sys_ok_def)
  have keep: "sys_inv (m\<lparr>service := (service m)\<lparr>sys_world := w, crnt_fmwver := s, obj_flags := fl\<rparr>\<rparr>)"
    "sys_inv (m\<lparr>service := (service m)\<lparr>sys_world := w, bkup_fmwver := s, obj_flags := fl\<rparr>\<rparr>)" if "length s < 100" for w s fl
    using inv that by (simp_all add: mgr_inv_def sys_ok_def)
  show ?thesis unfolding process_get_fmwver_def Let_def
    by (rule sys_works_guarded [OF inv h], rule sys_works_pk [OF h])
      (use inv h ok keep in \<open>auto intro!: sys_works_answer sys_works_bind [OF read_temp_ok [OF sh]] simp: sys_pk_def sprintf_s_def
        split: sys_packet.splits option.split\<close>)
qed

lemma bootsys_works:
  assumes sh: "shell_ok (sp_shell sp)" and inv: "sys_inv m" and h: "holds (sys_pk 10) d"
  shows "sys_works 10 d m (process_get_bootsys ob sp d m)"
proof -
  have keep: "sys_inv (m\<lparr>service := (service m)\<lparr>sys_world := w, bootsys := v, obj_flags := fl\<rparr>\<rparr>)" for w v fl
    using inv by (simp add: mgr_inv_def sys_ok_def)
  show ?thesis unfolding process_get_bootsys_def Let_def
    by (rule sys_works_guarded [OF inv h], rule sys_works_pk [OF h])
      (use inv h keep in \<open>auto intro!: sys_works_rules sys_works_bind [OF read_temp_ok [OF sh]] simp: sys_pk_def
        split: sys_packet.splits option.split\<close>)
qed

lemma hostname_works:
  assumes sh: "shell_ok (sp_shell sp)" and inv: "sys_inv m" and h: "holds (sys_pk 16) d"
  shows "sys_works 16 d m (process_get_hostname sp d m)"
proof -
  have word: "length (c_str (first_word t)) \<le> length t" for t
    using length_takeWhile_le [of "\<lambda>c. c \<noteq> CHR 0x00" "first_word t"] length_takeWhile_le [of "\<lambda>c. \<not> is_space c" "dropWhile is_space t"]
      length_dropWhile_le [of is_space t] by (simp add: c_str_def first_word_def read_word_def Let_def)
  have "pred_option (\<lambda>t. length t < 1024) (sh_read (sp_shell sp) p w)" if "p \<in> {HOST_NAME_FILE_PATH, DEF_HOST_NAME_FILE_PATH}" for p w
    using sh that unfolding shell_ok_def files_ok_def by blast
  then have "length (c_str (first_word t)) < 1024"
    if "sh_read (sp_shell sp) p w = Some t" "p \<in> {HOST_NAME_FILE_PATH, DEF_HOST_NAME_FILE_PATH}" for p w t
    using that word [of t] by (metis le_less_trans option.pred_inject(2))
  then show ?thesis unfolding process_get_hostname_def Let_def
    by (intro sys_works_guarded [OF inv h] sys_works_pk [OF h])
      (use inv h in \<open>auto intro!: sys_works_answer sys_works_result simp: sys_pk_def sprintf_s_def split: sys_packet.splits option.splits\<close>)
qed

lemma logline_works:
  assumes inv: "sys_inv m" and h: "holds (sys_pk 22) d"
  shows "sys_works 22 d m (process_get_logline d m)"
proof -
  have "list_all (\<lambda>p. length (Msg p) < 1024) (logmsg_chain (service m))" using inv by (simp add: mgr_inv_def sys_ok_def)
  then have "length (snd (read_log_message_line (logmsg_chain (service m)) i s)) < 1024" if "length s < 1024" for i s
    using that by (auto simp: read_log_message_line_def find_Some_iff list_all_length split: option.split)
  then show ?thesis unfolding process_get_logline_def
    by (intro sys_works_pk [OF h])
      (use inv h in \<open>auto intro!: sys_works_answer simp: sys_pk_def split: sys_packet.splits prod.split\<close>, metis snd_conv)
qed

lemma myip_works:
  assumes sh: "shell_ok (sp_shell sp)" and inv: "sys_inv m" and h: "holds (sys_pk 18) d"
  shows "sys_works 18 d m (process_get_myip sp d m)"
proof -
  have "length (c_str l) < 1024" if "first_line (sp_shell sp) 249 cmdl w = (Some l, w')" for cmdl l w w'
    using first_line_ok(2) [OF sh that] length_takeWhile_le [of "\<lambda>c. c \<noteq> CHR 0x00" l] by (simp add: c_str_def)
  then show ?thesis unfolding process_get_myip_def run_shell_output_def
    by (intro sys_works_pk [OF h])
      (use inv h in \<open>auto intro!: sys_works_answer simp: sys_pk_def split: sys_packet.splits prod.split option.split\<close>)
qed

lemma def_hostname_works:
  assumes inv: "sys_inv m" and h: "holds (sys_pk 19) d"
  shows "sys_works 19 d m (process_set_def_hostname sp d m)"
proof -
  have "sys_inv (m\<lparr>service := (service m)\<lparr>sys_world := w\<rparr>\<rparr>)" for w using sys_inv_world(1) [of w m] inv by (simp add: put_w_def)
  then show ?thesis unfolding process_set_def_hostname_def run_script_def run_shell_script_def sprintf_s_def
    using inv h by (auto intro!: sys_works_req sys_works_result split: prod.split)
qed

lemma sys_rpc_works:
  assumes sh: "shell_ok (sp_shell sp)" and inv: "sys_inv m" and h: "holds (sys_pk i) d"
    and i: "i \<in> {4, 5, 6, 7, 8, 9, 10, 11, 12, 13, 14, 15, 16, 17, 18, 19, 20, 21, 22, 27, 28, 29, 34}"
  shows "sys_works i d m (h_ProcessWork (SysRpc sp env ob) i d m)"
proof -
  note special = fmwver_works [OF sh inv] bootsys_works [OF sh inv] hostname_works [OF sh inv] logline_works [OF inv] myip_works [OF sh inv] def_hostname_works [OF inv]
    sys_works_info [of read_load_info sp, OF info_ok(1) [OF sh] inv] sys_works_info [of read_mem_info sp, OF info_ok(2) [OF sh] inv]
    sys_works_info [of read_cpu_info sp, OF info_ok(3) [OF sh] inv]
  show ?thesis using i inv h
    by (elim insertE emptyE; simp add: SysRpc_def special process_get_loadinfo_def process_get_meminfo_def process_get_cpuinfo_def process_get_devop_def process_set_devop_def
        process_set_fmwupdate_def process_download_file_def process_get_async_task_sys_def process_get_devtype_def process_set_hostname_def
        process_loglist_update_def process_get_logcount_def process_run_shellcmd_def process_devident_def process_subscribe_events_def)
      (auto intro!: sys_works_rules simp: sys_pk_def sys_tk_def sprintf_s_def fresh_log_def split: sys_packet.splits prod.split option.split)
qed

lemma sys_call:
  assumes ob: "sys_obj sp env H i" and sh: "shell_ok (sp_shell sp)" and junk: "length (junk_str env) < 512"
  shows "rpc_call (h_MapJsonToBinary H i) (h_ProcessWork H i) (h_MapBinaryToJson H i) (sys_pk i) sys_inv (params_fit (jlib (plat env)))"
proof (unfold_locales, goal_cases)
  case 1
  show ?case by (rule mgr_inv_blocks)
next
  case (2 d m)
  show ?case by (rule sys_map_in [OF 2 junk ob])
next
  case (3 m d)
  then show ?case using ob net_works [OF sh 3(1,2)] sys_rpc_works [OF sh 3(1,2)] disp_works [OF 3(1,2)]
    by (auto simp: sys_works_def elim!: sys_obj.cases)
next
  case (4 m d)
  show ?case by (rule sys_map_out [OF 4 ob])
qed

end
