(* ===== verification/Sys_Proofs.thy ===== *)
theory Sys_Proofs
  imports Sys_Contract
begin

text \<open>
  Properties of the system manager: its calls, the list of log messages, the name of the host, the versions of the firmware, the downloads and
  the network interfaces.
\<close>

section \<open>The list of log messages\<close>

definition log_line :: "string \<Rightarrow> bool" where
  "log_line l \<longleftrightarrow> length l < 509 \<and> list_all (\<lambda>c. c \<noteq> CHR 0x0A \<and> c \<noteq> CHR 0x00) l"

definition count_command :: string where
  "count_command = ''grep BRBOX /tmp/messages | sed -n '' @ [CHR 0x27] @ ''$='' @ [CHR 0x27]"

definition line_command :: "nat \<Rightarrow> string" where
  "line_command i = ''grep BRBOX /tmp/messages | sed '' @ [CHR 0x27] @ show_int (int i) @ '','' @ show_int (int i) @ ''!d'' @ [CHR 0x27] @ '' ''"

text \<open>What \<open>grep\<close> and \<open>sed\<close> print for a file of messages, of which \<open>ls\<close> are the lines that match.\<close>

definition greps :: "'w shell \<Rightarrow> string list \<Rightarrow> 'w \<Rightarrow> bool" where
  "greps sh ls w \<longleftrightarrow> sh_regular sh LOG_FILE_PATH w \<and>
     sh_popen sh count_command w = (Some (if ls = [] then [] else show_int (int (length ls)) @ [CHR 0x0A]), w) \<and>
     (\<forall>k < length ls. sh_popen sh (line_command (k + 1)) w = (Some (ls ! k @ [CHR 0x0A]), w))"

lemma fgets_log: "list_all (\<lambda>c. c \<noteq> CHR 0x0A \<and> c \<noteq> CHR 0x00) l \<Longrightarrow> length l < n \<Longrightarrow> fgets n (l @ [CHR 0x0A]) = (l @ [CHR 0x0A], [])"
proof (induction l arbitrary: n)
  case Nil
  then show ?case by (cases n) auto
next
  case (Cons c l)
  then show ?case by (cases n) auto
qed

lemma c_str_log: "list_all (\<lambda>c. c \<noteq> CHR 0x0A \<and> c \<noteq> CHR 0x00) l \<Longrightarrow> c_str (l @ [CHR 0x0A]) = l @ [CHR 0x0A]"
  by (auto simp: c_str_def list_all_iff takeWhile_append)

lemma digits_plain: "list_all is_digit l \<Longrightarrow> list_all (\<lambda>c. c \<noteq> CHR 0x0A \<and> c \<noteq> CHR 0x00) l"
  by (auto simp: list_all_iff is_digit_def)

lemma atoi_count: "atoi (show_int (int n) @ [CHR 0x0A]) = of_nat n"
proof -
  have "digits_val 0 (dec_nat n @ [CHR 0x0A]) = (n, [CHR 0x0A])" by (rule digits_val_dec_nat) (simp add: is_digit_def)
  moreover have "dec_nat n \<noteq> []" "is_digit (hd (dec_nat n))" using dec_nat_digits [of n] by (simp_all add: list_all_iff)
  moreover have "\<not> is_space c \<and> c \<noteq> CHR ''-'' \<and> c \<noteq> CHR ''+''" if "is_digit c" for c using that by (auto simp: is_digit_def is_space_def)
  ultimately show ?thesis by (cases "dec_nat n") (auto simp: atoi_def show_int_def)
qed

lemma show_int_short: "n < 2 ^ 31 \<Longrightarrow> length (show_int (int n)) \<le> 11"
  by (rule length_show_int) simp_all

text \<open>The entries for the lines from \<open>i\<close> on.\<close>

definition log_entries :: "nat \<Rightarrow> string list \<Rightarrow> LOG_MSG_PACKET list" where
  "log_entries i ls = map (\<lambda>k. \<lparr>LineNum = of_nat (k + 1), Msg = ls ! k @ [CHR 0x0A]\<rparr>) [i..<length ls]"

lemma grep_line:
  assumes g: "greps sh ls w" and k: "k < length ls" and l: "list_all log_line ls" and n: "length ls < 2 ^ 31"
  shows "grep_log_message_line sh LOG_FILE_PATH ''BRBOX'' (k + 1) w = kret (Some (ls ! k @ [CHR 0x0A]), w)"
proof -
  have "log_line (ls ! k)" using l k by (simp add: list_all_length)
  then have "first_line sh 509 (line_command (k + 1)) w = (Some (ls ! k @ [CHR 0x0A]), w)" "c_str (ls ! k @ [CHR 0x0A]) = ls ! k @ [CHR 0x0A]"
    using g k fgets_log [of "ls ! k" 509] c_str_log by (simp_all add: log_line_def first_line_def greps_def)
  moreover have "length (show_int (int (k + 1))) \<le> 11" using k n by (intro show_int_short) simp
  then have "length (line_command (k + 1)) < 1024" by (simp add: line_command_def)
  moreover have "''grep '' @ ''BRBOX'' @ '' '' @ LOG_FILE_PATH @ '' | sed '' @ [CHR 0x27] @ show_int (int (k + 1)) @ '','' @ show_int (int (k + 1)) @
       ''!d'' @ [CHR 0x27] @ '' '' = line_command (k + 1)" by (simp add: line_command_def LOG_FILE_PATH_def)
  ultimately show ?thesis unfolding grep_log_message_line_def by (simp only: sprintf_s_def) simp
qed

lemma update_chain_lines:
  assumes g: "greps sh ls w" and l: "list_all log_line ls" and n: "length ls < 2 ^ 31"
  shows "i + j = length ls \<Longrightarrow> update_logmsg_chain sh LOG_FILE_PATH ''BRBOX'' i j ch w = kret (ch @ log_entries i ls, w)"
proof (induction j arbitrary: i ch)
  case (Suc j)
  then have "log_entries i ls = \<lparr>LineNum = of_nat (i + 1), Msg = ls ! i @ [CHR 0x0A]\<rparr> # log_entries (i + 1) ls"
    by (simp add: log_entries_def upt_conv_Cons)
  then show ?case using Suc grep_line [OF g _ l n, of i] by simp
qed (simp add: log_entries_def)

lemma log_list_updated:
  assumes g: "greps sh ls w" and l: "list_all log_line ls" and n: "length ls < 2 ^ 31"
  shows "UpdateLogList sh ch w = kret (RPC_SRV_RESULT_SUCCESS, log_entries 0 ls, w)"
proof -
  let ?t = "show_int (int (length ls))"
  have cmd: "''grep '' @ ''BRBOX'' @ '' '' @ LOG_FILE_PATH @ '' | sed -n '' @ [CHR 0x27] @ ''$='' @ [CHR 0x27] = count_command"
    by (simp add: count_command_def LOG_FILE_PATH_def)
  have len: "length count_command < 1024" by (simp add: count_command_def)
  have plain: "list_all (\<lambda>c. c \<noteq> CHR 0x0A \<and> c \<noteq> CHR 0x00) ?t" by (intro digits_plain) (simp add: show_int_def dec_nat_digits)
  have "first_line sh 249 count_command w = (Some (if ls = [] then [] else ?t @ [CHR 0x0A]), w)" "c_str (?t @ [CHR 0x0A]) = ?t @ [CHR 0x0A]"
    using g fgets_log [OF plain, of 249] c_str_log [OF plain] show_int_short [OF n] by (auto simp: first_line_def greps_def numeral_eq_Suc)
  moreover have "nat (sint (atoi (?t @ [CHR 0x0A]))) = length ls" using n by (simp add: atoi_count sint_of_nat_small)
  ultimately have "read_log_message_count sh LOG_FILE_PATH ''BRBOX'' [] w =
      kret (if ls = [] then RPC_SRV_RESULT_ITEM_NOT_FOUND else RPC_SRV_RESULT_SUCCESS, log_entries 0 ls, w)"
    unfolding read_log_message_count_def cmd sprintf_s_def using len update_chain_lines [OF g l n, of 0 "length ls" "[]"]
    by (simp add: log_entries_def)
  then show ?thesis using g by (simp add: UpdateLogList_def greps_def)
qed

lemma find_line:
  assumes n: "length ls < 2 ^ 31"
  shows "read_log_message_line (log_entries 0 ls) i s =
    (if 0 \<le> sint i \<and> sint i < int (length ls) then (RPC_SRV_RESULT_SUCCESS, ls ! nat (sint i) @ [CHR 0x0A]) else (RPC_SRV_RESULT_ITEM_NOT_FOUND, s))"
proof -
  have eq: "(of_nat (k + 1) = i + 1) = (sint i = int k)" if "k < length ls" for k
  proof -
    have k: "sint (of_nat k :: s32) = int k" using that n by (simp add: sint_of_nat_small)
    have "(of_nat (k + 1) = i + 1) = (of_nat k = i)" by simp
    also have "\<dots> = (sint (of_nat k :: s32) = sint i)" by (auto intro: signed_word_eqI)
    also have "\<dots> = (sint i = int k)" unfolding k by auto
    finally show ?thesis .
  qed
  show ?thesis
  proof (cases "0 \<le> sint i \<and> sint i < int (length ls)")
    case True
    let ?k = "nat (sint i)"
    have k: "?k < length ls" "sint i = int ?k" using True by (simp_all add: nat_less_iff)
    have "find (\<lambda>p. LineNum p = i + 1) (log_entries 0 ls) = Some \<lparr>LineNum = of_nat (?k + 1), Msg = ls ! ?k @ [CHR 0x0A]\<rparr>"
      using k eq unfolding find_Some_iff by (intro exI [of _ ?k]) (auto simp: log_entries_def simp del: of_nat_add of_nat_Suc)
    then show ?thesis using True by (simp add: read_log_message_line_def)
  next
    case False
    then have "find (\<lambda>p. LineNum p = i + 1) (log_entries 0 ls) = None" using eq unfolding find_None_iff
      by (auto simp: log_entries_def simp del: of_nat_add of_nat_Suc)
    then show ?thesis using False by (auto simp: read_log_message_line_def)
  qed
qed

section \<open>Requests\<close>

text \<open>The request of a call carries the packet \<open>p\<close>; \<open>answered\<close> is the same request with a result and a new packet.\<close>

definition carries :: "sys_rpc \<Rightarrow> RPC_SRV_ACT \<Rightarrow> sys_packet \<Rightarrow> bool" where
  "carries d act p \<longleftrightarrow> (\<exists>r. d_obj d = Some r \<and> rq_action r = act \<and> rq_dataRef r = Some (P_USER p))"

definition answered :: "RPC_SRV_RESULT \<Rightarrow> sys_packet \<Rightarrow> sys_rpc \<Rightarrow> sys_rpc" where
  "answered res p d = set_packet (Some (P_USER p)) (set_result res d)"

lemma carried [simp]:
  assumes "carries d act p"
  shows "on_pk d k = k p" "guarded act d m q = q"
  using assms by (auto simp: carries_def on_pk_def guarded_def on_req_def)

lemma answer_answered [simp]: "answer res p d m = kret (0, answered res p d, m)"
  by (simp add: answer_def answered_def)

lemma just_result_ret [simp]: "just_result res d m = kret (0, set_result res d, m)"
  by (simp add: just_result_def)

section \<open>A small system\<close>

text \<open>A shell for the examples: the world is the file with the name of the host, and the log file has the lines \<open>ls\<close>.\<close>

definition ex_shell :: "string list \<Rightarrow> if_req list \<Rightarrow> string shell" where
  "ex_shell ls rs = \<lparr>sh_system = (\<lambda>_ w. (0, w)),
     sh_popen = (\<lambda>command w. (Some (if command = count_command then (if ls = [] then [] else show_int (int (length ls)) @ [CHR 0x0A])
       else concat (map (\<lambda>k. if command = line_command (k + 1) then ls ! k @ [CHR 0x0A] else []) [0..<length ls])), w)),
     sh_read = (\<lambda>p w. if p = HOST_NAME_FILE_PATH then Some (take 1000 w) else if p = SYSMGR_TEMP_FMW_READ_FILE then None else Some ''x''), sh_write = (\<lambda>p t w. (True, t)), sh_regular = (\<lambda>_ _. True),
     sh_ifconf = (\<lambda>_. Some rs), sh_load = (\<lambda>_ _. (0, 0)), sh_uptime = (\<lambda>_. 0), sh_junk = 0, sh_junk_str = []\<rparr>"

definition ex_sys :: "string list \<Rightarrow> if_req list \<Rightarrow> string sys_parts" where
  "ex_sys ls rs = \<lparr>sp_shell = ex_shell ls rs, device_identify = None, ReSubscribeEvents = None, pDisplay = None, sp_emulation = False\<rparr>"

definition ex_iface :: "nat \<Rightarrow> if_req" where
  "ex_iface n = \<lparr>if_name = ''eth'' @ show_int (int n), if_inet = True, if_addr = ''10.0.0.'' @ show_int (int n), if_hwaddr = Some [0x02, 0, 0, 0, 0, of_nat n],
     if_netmask = None\<rparr>"

definition ex_sys_req :: "RPC_SRV_ACT \<Rightarrow> sys_packet \<Rightarrow> sys_rpc" where
  "ex_sys_req act p = \<lparr>d_req_id = 1, d_cmd_index = 24, d_mapper_result = CMD_TASK_RESULT_UNKNOWN, d_rpc_code = 4, d_worker_result = -1,
     d_socket_data = [], d_json = None, d_custom = [], d_cltport = 0, d_ip = [], d_sock_id = 1, d_sock_descr = 5,
     d_obj = Some \<lparr>rq_action = act, rq_cmd = 0, rq_clientId = 0, rq_reqIdent = 0, rq_result = RPC_SRV_RESULT_SUCCESS, rq_dataRef = Some (P_USER p)\<rparr>\<rparr>"

definition ex_sys_mgr :: "string \<Rightarrow> string sys_mgr" where
  "ex_sys_mgr w = mgr_new 1 False (sys_cache 4 0 0 [] w)"

lemma ex_carries: "carries (ex_sys_req act p) act p"
  by (simp add: carries_def ex_sys_req_def)

lemma line_commands: "line_command 1 \<noteq> line_command 2" "line_command 1 \<noteq> count_command" "line_command 2 \<noteq> count_command"
  by (simp_all add: line_command_def count_command_def show_int_def dec_nat.simps digit_char_def)

lemma ex_greps: "greps (sp_shell (ex_sys [''one'', ''two''] rs)) [''one'', ''two''] w"
  using line_commands by (auto simp: greps_def ex_sys_def ex_shell_def less_Suc_eq numeral_2_eq_2)



section \<open>Properties\<close>



lemmas sys_start_defs = sys_main_def mgr_Start_def sys_objects_def sys_rpcs_def AttachRpc_def mgr_new_def sprintf_s_def SetServiceReadyFlag_def SupportShutdownRpc_def
  Let_def upt_rec

lemma ex_sys_starts: "\<exists>m0 st'. sys_main 1 False c ex_rpc = kret (m0, st')"
  by (simp add: sys_start_defs)




text \<open>
  Property C21: the log messages that the calls hand out are the lines of the file. When \<open>grep\<close> and \<open>sed\<close> print the lines \<open>ls\<close> of the file, each
  shorter than the array, the task \<open>update_loglist\<close> is successful, and then \<open>get_log_count\<close> answers with their number and \<open>get_log_line\<close> with
  the line of the index, complete and with its line feed; any other index, negative ones too, is answered with \<open>ITEM_NOT_FOUND\<close>.
\<close>

theorem log_list_read:
  assumes g: "greps (sp_shell sp) ls (sys_world c)" and l: "list_all log_line ls" and n: "length ls < 2 ^ 31"
  shows "\<exists>c'. process_async_loglist_update sp c = kret (RPC_SRV_RESULT_SUCCESS, c') \<and> sys_world c' = sys_world c \<and>
    (\<forall>m d i k s t. service m = c' \<and> carries d RPC_SRV_ACT_READ (SYSMGR_LOG_PACKET i k s t) \<longrightarrow>
      process_get_logcount d m = kret (0, answered RPC_SRV_RESULT_SUCCESS (SYSMGR_LOG_PACKET i (of_nat (length ls)) s t) d, m) \<and>
      process_get_logline d m = kret (0, if 0 \<le> sint i \<and> sint i < int (length ls)
        then answered RPC_SRV_RESULT_SUCCESS (SYSMGR_LOG_PACKET i k (ls ! nat (sint i) @ [CHR 0x0A]) t) d
        else answered RPC_SRV_RESULT_ITEM_NOT_FOUND (SYSMGR_LOG_PACKET i k s t) d, m))"
proof -
  let ?c = "c\<lparr>logmsg_chain := log_entries 0 ls, sys_world := sys_world c\<rparr>"
  have "process_async_loglist_update sp c = kret (RPC_SRV_RESULT_SUCCESS, ?c)"
    using log_list_updated [OF g l n, of "logmsg_chain c"] by (simp add: process_async_loglist_update_def)
  moreover have "length (log_entries 0 ls) = length ls" by (simp add: log_entries_def)
  ultimately show ?thesis
    by (intro exI [of _ ?c]) (auto simp: find_line [OF n] process_get_logcount_def process_get_logline_def GetLogLines_def)
qed

theorem log_list_read_witness:
  "\<exists>c'. process_async_loglist_update (ex_sys [''one'', ''two''] []) (sys_cache 4 0 0 [] []) = kret (RPC_SRV_RESULT_SUCCESS, c') \<and>
    process_get_logline (ex_sys_req RPC_SRV_ACT_READ (SYSMGR_LOG_PACKET 1 0 [] 0)) (mgr_new 1 False c') =
      kret (0, answered RPC_SRV_RESULT_SUCCESS (SYSMGR_LOG_PACKET 1 0 (''two'' @ [CHR 0x0A]) 0) (ex_sys_req RPC_SRV_ACT_READ (SYSMGR_LOG_PACKET 1 0 [] 0)),
        mgr_new 1 False c')"
proof -
  let ?d = "ex_sys_req RPC_SRV_ACT_READ (SYSMGR_LOG_PACKET 1 0 [] 0)"
  obtain c' where c: "process_async_loglist_update (ex_sys [''one'', ''two''] []) (sys_cache 4 0 0 [] []) = kret (RPC_SRV_RESULT_SUCCESS, c')"
    and all: "\<forall>m d i k s t. service m = c' \<and> carries d RPC_SRV_ACT_READ (SYSMGR_LOG_PACKET i k s t) \<longrightarrow>
      process_get_logcount d m = kret (0, answered RPC_SRV_RESULT_SUCCESS (SYSMGR_LOG_PACKET i (of_nat (length [''one'', ''two''])) s t) d, m) \<and>
      process_get_logline d m = kret (0, if 0 \<le> sint i \<and> sint i < int (length [''one'', ''two''])
        then answered RPC_SRV_RESULT_SUCCESS (SYSMGR_LOG_PACKET i k ([''one'', ''two''] ! nat (sint i) @ [CHR 0x0A]) t) d
        else answered RPC_SRV_RESULT_ITEM_NOT_FOUND (SYSMGR_LOG_PACKET i k s t) d, m)"
    using log_list_read [OF ex_greps, of "[]" "sys_cache 4 0 0 [] []"] by (auto simp: log_line_def)
  have "service (mgr_new 1 False c') = c' \<and> carries ?d RPC_SRV_ACT_READ (SYSMGR_LOG_PACKET 1 0 [] 0)" by (simp add: ex_carries mgr_new_def)
  from all [rule_format, OF this] show ?thesis using c by simp
qed

text \<open>
  Property C27: the name of the host is kept. When the file can be written and then gives back what was written, \<open>set_hostname\<close> is successful, and
  \<open>get_hostname\<close> then answers with the same name, if it is a word that fits into the array; of a name with spaces it gives the first word.
\<close>

theorem hostname_roundtrip:
  assumes w: "sh_write (sp_shell sp) HOST_NAME_FILE_PATH s (sys_world (service m)) = (True, w)" and r: "sh_read (sp_shell sp) HOST_NAME_FILE_PATH w = Some s"
    and d: "carries d RPC_SRV_ACT_WRITE (SYSMGR_HOSTNAME_PACKET s)" "carries d' RPC_SRV_ACT_READ (SYSMGR_HOSTNAME_PACKET s0)"
    and s: "list_all (\<lambda>c. c \<noteq> CHR 0x00) s" "length s < 1024"
  shows "\<exists>m'. process_set_hostname sp d m = kret (0, set_result RPC_SRV_RESULT_SUCCESS d, m') \<and>
    process_get_hostname sp d' m' = kret (0, answered RPC_SRV_RESULT_SUCCESS (SYSMGR_HOSTNAME_PACKET (first_word s)) d', m') \<and>
    (list_all (\<lambda>c. \<not> is_space c) s \<longrightarrow> first_word s = s)"
proof -
  have word: "list_all (\<lambda>c. \<not> is_space c) s \<Longrightarrow> first_word s = s"
    by (cases s) (simp_all add: first_word_def read_word_def takeWhile_eq_all_conv list_all_iff)
  have "set (first_word s) \<subseteq> set s" by (auto simp: first_word_def read_word_def Let_def dest!: set_takeWhileD set_dropWhileD)
  moreover have "length (first_word s) \<le> length s"
    using length_takeWhile_le [of "\<lambda>c. \<not> is_space c" "dropWhile is_space s"] length_dropWhile_le [of is_space s] by (simp add: first_word_def read_word_def Let_def)
  ultimately have "c_str (first_word s) = first_word s" "length (first_word s) < 1024" using s by (auto simp: c_str_def takeWhile_eq_all_conv list_all_iff)
  then show ?thesis using w r d word by (simp add: process_set_hostname_def process_get_hostname_def put_w_def sprintf_s_def)
qed

theorem hostname_roundtrip_witness:
  "\<exists>m'. process_set_hostname (ex_sys [] []) (ex_sys_req RPC_SRV_ACT_WRITE (SYSMGR_HOSTNAME_PACKET ''box'')) (ex_sys_mgr []) =
      kret (0, set_result RPC_SRV_RESULT_SUCCESS (ex_sys_req RPC_SRV_ACT_WRITE (SYSMGR_HOSTNAME_PACKET ''box'')), m') \<and>
    process_get_hostname (ex_sys [] []) (ex_sys_req RPC_SRV_ACT_READ (SYSMGR_HOSTNAME_PACKET [])) m' =
      kret (0, answered RPC_SRV_RESULT_SUCCESS (SYSMGR_HOSTNAME_PACKET (first_word ''box'')) (ex_sys_req RPC_SRV_ACT_READ (SYSMGR_HOSTNAME_PACKET [])), m') \<and>
    first_word ''box'' = ''box''"
  using hostname_roundtrip [of "ex_sys [] []" "''box''" "ex_sys_mgr []" "''box''", OF _ _ ex_carries ex_carries [of _ "SYSMGR_HOSTNAME_PACKET []"]]
  by (auto simp: ex_sys_def ex_shell_def is_space_def)

lemma sys_start_objects: "sys_main ver dbglog c st = kret (m, st') \<Longrightarrow> length (rpclist m) = 36 \<and> (\<forall>n \<in> {11, 12, 13}. c_object (rpclist m ! n) = n)"
  by (auto simp: sys_start_defs)



lemma cached_version:
  assumes "carries d RPC_SRV_ACT_READ (SYSMGR_FMW_MODULE_PACKET 1 s0 t)" and "\<not> sp_emulation sp" and "bkup_fmwver_updated (obj_flags (service m) ob)"
  shows "process_get_fmwver ob sp d m = kret (0, answered RPC_SRV_RESULT_SUCCESS (SYSMGR_FMW_MODULE_PACKET 1 (bkup_fmwver (service m)) t) d, m)"
  using assms by (simp add: process_get_fmwver_def Let_def)

text \<open>
  Property C28: a firmware update leaves the old version of the backup in the answers. The task of the update is done by the twelfth object, that of the
  call \<open>get_device_operation\<close>, which forgets its own flag; once \<open>get_fmw_version\<close> has read the version of the backup, its object keeps answering
  with it after the update, whatever the update wrote.
\<close>

theorem stale_backup_version:
  assumes start: "sys_main ver dbglog c0 st = kret (m0, st')" and objs: "rpclist m = rpclist m0" and env: "env = sys_world_env pl mx i x sp"
    and known: "bkup_fmwver_updated (obj_flags (service m) 13)" and real: "\<not> sp_emulation sp" and s: "length s < 465"
    and d: "carries d RPC_SRV_ACT_READ (SYSMGR_FMW_MODULE_PACKET 1 s0 t)"
  shows "\<exists>res m'. AsyncTaskWork env 35 (P_USER (SYSMGR_FMW_MODULE_PACKET 3 s t')) m = kret (res, m') \<and>
    h_ProcessWork (handlers env 13) 9 d m' = kret (0, answered RPC_SRV_RESULT_SUCCESS (SYSMGR_FMW_MODULE_PACKET 1 (bkup_fmwver (service m)) t) d, m')"
proof -
  have h: "handlers env ob = SysRpc sp (service_env pl mx i x) ob" if "ob \<in> {11, 13}" for ob using that by (auto simp: env sys_world_env_def sys_handlers_def Let_def)
  have 1: "AsyncTaskWork env 35 dat m = SysRpc_ProcessWorkAsync 11 sp 11 dat m" for dat
    using sys_start_objects [OF start] objs by (simp add: AsyncTaskWork_def EJSON_RPCGMGR_CMD_END_def getRpcHandler_def h SysRpc_def)
  have 2: "h_ProcessWork (handlers env 13) 9 = process_get_fmwver 13 sp" by (simp add: h SysRpc_def)
  have "returns (SysRpc_ProcessWorkAsync 11 sp 11 (P_USER (SYSMGR_FMW_MODULE_PACKET 3 s t')) m)
      (\<lambda>(_, m'). obj_flags (service m') 13 = obj_flags (service m) 13 \<and> bkup_fmwver (service m') = bkup_fmwver (service m))"
    using s by (auto simp: SysRpc_ProcessWorkAsync_def sys_task_def process_async_set_fmwupdate_def run_script_def run_shell_script_def sprintf_s_def
        Let_def split: prod.split)
  then show ?thesis unfolding 1 2 using cached_version [OF d real] known by (force simp: returns_def)
qed

theorem stale_backup_version_witness:
  "\<exists>m0 st' res m'. sys_main 1 False (sys_cache 4 0 0 [] []) ex_rpc = kret (m0, st') \<and>
    AsyncTaskWork (sys_world_env io_platform 0 0 [] (ex_sys [] [])) 35 (P_USER (SYSMGR_FMW_MODULE_PACKET 3 ''/tmp/new.tar'' 0))
      (m0\<lparr>service := (service m0)\<lparr>bkup_fmwver := ''01.02'', obj_flags := (\<lambda>_. \<lparr>crnt_fmwver_updated = False, bkup_fmwver_updated = True, boot_system_updated = False\<rparr>)\<rparr>\<rparr>) =
      kret (res, m') \<and>
    h_ProcessWork (handlers (sys_world_env io_platform 0 0 [] (ex_sys [] [])) 13) 9 (ex_sys_req RPC_SRV_ACT_READ (SYSMGR_FMW_MODULE_PACKET 1 [] 0)) m' =
      kret (0, answered RPC_SRV_RESULT_SUCCESS (SYSMGR_FMW_MODULE_PACKET 1 ''01.02'' 0) (ex_sys_req RPC_SRV_ACT_READ (SYSMGR_FMW_MODULE_PACKET 1 [] 0)), m')"
proof -
  obtain m0 :: "string sys_mgr" and st' where start: "sys_main 1 False (sys_cache 4 0 0 [] []) ex_rpc = kret (m0, st')"
    using ex_sys_starts [of "sys_cache 4 0 0 [] [] :: string SYSMGR_CMN_DATA_CACHE"] by blast
  let ?m = "m0\<lparr>service := (service m0)\<lparr>bkup_fmwver := ''01.02'', obj_flags := (\<lambda>_. \<lparr>crnt_fmwver_updated = False, bkup_fmwver_updated = True, boot_system_updated = False\<rparr>)\<rparr>\<rparr>"
  show ?thesis using start stale_backup_version [OF start, of ?m _ io_platform 0 0 "[]" "ex_sys [] []" "''/tmp/new.tar''", OF _ refl _ _ _ ex_carries]
    by (auto simp: ex_sys_def)
qed







definition iface_entry :: "if_req \<Rightarrow> eth_name_ip_str" where
  "iface_entry r = \<lparr>eth_dev = if_name r, eth_ip = if_addr r, eth_mac = (case if_hwaddr r of None \<Rightarrow> [] | Some hw \<Rightarrow> mac_text hw),
     eth_netmask = (case if_netmask r of None \<Rightarrow> ''not_available'' | Some s \<Rightarrow> s)\<rparr>"

lemma probe_loop_table:
  "\<lbrakk>list_all (\<lambda>r. if_inet r \<longrightarrow> if_hwaddr r \<noteq> None) rs; length es \<le> 8\<rbrakk> \<Longrightarrow>
    probe_loop rs es = (if length es + length (filter if_inet rs) \<le> 8 then kret (Some (es @ map iface_entry (filter if_inet rs))) else kfail BufferOverrun)"
  by (induction rs arbitrary: es) (auto simp: MAX_ALLOWED_INTERFACES_def iface_entry_def)

text \<open>
  Fact: the interfaces that are reported. When every interface of the kernel's list with an internet address tells its hardware address, the
  table has these interfaces in their order, as long as they are no more than eight; the ninth is written behind the table.
\<close>

theorem interfaces_reported:
  assumes "sh_ifconf sh w = Some rs" and "list_all (\<lambda>r. if_inet r \<longrightarrow> if_hwaddr r \<noteq> None) rs"
  shows "probe_eth_interface_details sh w =
    (if length (filter if_inet rs) \<le> 8 then kret (Some (map iface_entry (filter if_inet rs))) else kfail BufferOverrun)"
  using assms probe_loop_table [of rs "[]"] by (simp add: probe_eth_interface_details_def)

theorem interfaces_reported_witness:
  "probe_eth_interface_details (ex_shell [] (map ex_iface [0..<9])) [] = kfail BufferOverrun"
  using interfaces_reported [of "ex_shell [] (map ex_iface [0..<9])" "[]" "map ex_iface [0..<9]"] by (simp add: ex_shell_def ex_iface_def list_all_iff upt_rec)

end
