(* ===== verification/Sys_Events.thy ===== *)
theory Sys_Events
  imports Sys_Calls Xmpp_Mgr
begin

text \<open>
  The rest of the system manager of \<open>src/sources/services/sysmgr/srv/src/\<close>: the classes that let a board blink, what \<open>main.cpp\<close> shows on the display of a small
  device, the event handler \<open>EventHandler.cpp\<close> and the event monitor \<open>EventMonitor.cpp\<close>, which subscribe to events of other services with the client of the
  library.
\<close>

section \<open>Identifying the device\<close>

datatype DevIdent = DevIdentRaspiAZero | DevIdentA5V11 | DevIdentNexx3020 | DevIdentGlMt300nv2

definition create_dev_ident_object :: "u32 \<Rightarrow> DevIdent option" where
  "create_dev_ident_object b = (if b \<in> {0, 1, 2, 3, 8, 10} then Some DevIdentRaspiAZero else if b = 13 then Some DevIdentA5V11
     else if b = 14 then Some DevIdentNexx3020 else if b = 15 then Some DevIdentGlMt300nv2 else None)"

text \<open>The commands one after the other; their results are ignored.\<close>

definition run_commands :: "'w shell \<Rightarrow> string list \<Rightarrow> 'w \<Rightarrow> 'w" where
  "run_commands sh cs w = fold (\<lambda>c w. snd (sh_system sh c w)) cs w"

definition red_led :: string where
  "red_led = ''/sys/class/leds/a5-v11'' @ [CHR 0x5C] @ '':red'' @ [CHR 0x5C] @ '':power/brightness''"

definition blue_led :: string where
  "blue_led = ''/sys/class/leds/wt3020'' @ [CHR 0x5C] @ '':blue'' @ [CHR 0x5C] @ '':power/brightness''"

definition green_led :: string where
  "green_led = ''/sys/class/leds/green:power/brightness''"

definition blinks :: "string \<Rightarrow> string list" where
  "blinks led = concat (replicate 10 [''echo 1 '' @ led, ''echo 0 '' @ led])"

definition DevIdent_new :: "'w shell \<Rightarrow> DevIdent \<Rightarrow> 'w \<Rightarrow> 'w" where
  "DevIdent_new sh x w = (case x of DevIdentA5V11 \<Rightarrow> run_commands sh [''echo 0 > '' @ red_led] w | _ \<Rightarrow> w)"

definition identify_RaspiAZero :: "string list" where
  "identify_RaspiAZero = [''echo none | tee /sys/class/leds/led0/trigger''] @ blinks ''| tee /sys/class/leds/led0/brightness'' @
     [''echo mmc0 | tee /sys/class/leds/led0/trigger'']"

definition identify_A5V11 :: "string list" where
  "identify_A5V11 = blinks (''> '' @ red_led) @ [''echo 0 > '' @ red_led]"

definition identify_Nexx3020 :: "string list" where
  "identify_Nexx3020 = blinks (''> '' @ blue_led) @ [''echo 0 > '' @ blue_led]"

text \<open>The last command is run twice.\<close>

definition identify_GlMt300nv2 :: "string list" where
  "identify_GlMt300nv2 = [''cat '' @ green_led @ '' > /tmp/last-power-led-state.txt''] @ blinks (''> '' @ green_led) @
     replicate 2 (''echo $(cat /tmp/last-power-led-state.txt) > '' @ green_led)"

definition DevIdent_device_identify :: "'w shell \<Rightarrow> DevIdent \<Rightarrow> 'w \<Rightarrow> RPC_SRV_RESULT \<times> 'w" where
  "DevIdent_device_identify sh x w = (RPC_SRV_RESULT_SUCCESS, run_commands sh (case x of DevIdentRaspiAZero \<Rightarrow> identify_RaspiAZero | DevIdentA5V11 \<Rightarrow> identify_A5V11
     | DevIdentNexx3020 \<Rightarrow> identify_Nexx3020 | DevIdentGlMt300nv2 \<Rightarrow> identify_GlMt300nv2) w)"

section \<open>The display of a small device\<close>

definition ADLIB_DISPLAY_TYPE_TABL :: "string list" where
  "ADLIB_DISPLAY_TYPE_TABL = [''ssd1306_128x32'', ''ssd1306_128x64'', ''ssd1306_128x32_pi'', ''ssd1306_128x64_pi'', ''1602_dual_pcf'', ''1602_pcf'', ''2002_pcf'',
     ''2004_pcf'', ''1604_pcf'', ''unknown'', ''none'', '''']"

text \<open>The classes of the displays, which make an object for a device and a type, with its initialisation.\<close>

type_synonym 'w display_class = "string \<Rightarrow> string \<Rightarrow> 'w DisplayDevice \<times> ('w \<Rightarrow> RPC_SRV_RESULT \<times> 'w)"

definition ip_message :: "'w shell \<Rightarrow> 'w \<Rightarrow> (string \<times> 'w) kres" where
  "ip_message sh w = kbind (read_network_info sh ''eth0'' w) (\<lambda>(r, _, ip, _).
     kbind (if r = 0 then kret (ip, w)
       else kbind (read_network_info_ifconfig sh ''eth0'' w) (\<lambda>(q, w). kret (case q of None \<Rightarrow> ''ip-not-available'' | Some (_, ip, _) \<Rightarrow> ''ip-'' @ ip, w)))
     (\<lambda>(t, w). kbind (sprintf_s 255 t) (\<lambda>t. kret (t, w))))"

definition version_message :: "'w shell \<Rightarrow> 'w \<Rightarrow> string kres" where
  "version_message sh w = (let v = (case sh_read sh ''/etc/version.txt'' w of None \<Rightarrow> [] | Some t \<Rightarrow> (case file_lines t of [] \<Rightarrow> [] | l # _ \<Rightarrow> l));
     v = (if v = [] then ''unknown'' else v); v = (if 250 \<le> length v then ''ver-error'' else v) in sprintf_s 255 (''Ver-'' @ c_str v))"

definition low_memory_device_special_action ::
  "'w display_class \<Rightarrow> 'w display_class \<Rightarrow> 'w shell \<Rightarrow> string \<Rightarrow> string \<Rightarrow> string \<Rightarrow> 'w \<Rightarrow> ('w DisplayDevice option \<times> 'w) kres" where
  "low_memory_device_special_action I2CSsd1306 I2CPcfLcd sh sysconf ty devnode w =
     (if sysconf \<noteq> ''a5v11-xmpp'' then kret (None, w)
      else let e = string_to_enum ADLIB_DISPLAY_TYPE_TABL ty 9 in
        if 9 \<le> e then kret (None, w)
        else case (if e \<in> {4, 5, 6, 7, 8} then I2CPcfLcd devnode ty else I2CSsd1306 devnode ty) of (disp, init_display) \<Rightarrow>
          kbind (ip_message sh (snd (clear_display disp (snd (init_display w))))) (\<lambda>(t, w).
          let w = snd (print_line disp t 0 w) in
          kbind (version_message sh w) (\<lambda>t.
          let w = snd (print_line disp t 1 w) in
          kret (Some disp, if e \<noteq> 5 then snd (print_line disp ''a5v11-xmpp'' 2 w) else w))))"

section \<open>The event handler\<close>

record EventHandler =
  eh_srvToken :: s32
  eh_gpioEventActive :: bool

definition EventHandler_new :: "'w xmpp_env \<Rightarrow> 'w \<Rightarrow> (EventHandler \<times> 'w) kres" where
  "EventHandler_new env w = kbind (SUBSCRIBE_EVENT env ''127.0.0.1'' ADCMN_PORT_GPIOCTL (-1) ADCMN_PORT_GPIOCTL (-1) 40001 w) (\<lambda>(t, w).
     kret (\<lparr>eh_srvToken = t, eh_gpioEventActive = (t \<noteq> -1)\<rparr>, w))"

definition EventHandler_delete :: "'w xmpp_env \<Rightarrow> EventHandler \<Rightarrow> 'w \<Rightarrow> 'w kres" where
  "EventHandler_delete env h w = (if eh_gpioEventActive h then UNSUBSCRIBE_EVENT env ''127.0.0.1'' ADCMN_PORT_GPIOCTL (eh_srvToken h) w else kret w)"

definition EventHandler_ReceiveEvent :: "s32 \<Rightarrow> s32 \<Rightarrow> EventHandler \<Rightarrow> EventHandler" where
  "EventHandler_ReceiveEvent cltToken evntNum h = (if cltToken = ADCMN_PORT_GPIOCTL \<and> evntNum = 1 then h\<lparr>eh_gpioEventActive := False\<rparr> else h)"

section \<open>The event monitor\<close>

record EvntMonitEntry =
  mo_ip :: string
  mo_port :: s32
  mo_srvToken :: s32
  mo_evntType :: s32
  EvntName :: "string list"
  mo_subscription :: s32
  subscription_sts :: bool

definition EvntMonitEntry_new :: "string \<Rightarrow> s32 \<Rightarrow> s32 \<Rightarrow> s32 \<Rightarrow> string list \<Rightarrow> EvntMonitEntry" where
  "EvntMonitEntry_new ip port tok ty ns = \<lparr>mo_ip = ip, mo_port = port, mo_srvToken = tok, mo_evntType = ty,
     EvntName = [''InProgDone'', ''SrvShutdown'', ''Reserved1'', ''Reserved2'', ''Reserved3''] @ ns, mo_subscription = -1, subscription_sts = False\<rparr>"

definition FindMonitEntry :: "s32 \<Rightarrow> EvntMonitEntry \<Rightarrow> bool" where
  "FindMonitEntry myToken e \<longleftrightarrow> mo_srvToken e = myToken"

text \<open>A line of the configuration; a word that is not there leaves its string empty.\<close>

definition monit_line :: "string \<Rightarrow> EvntMonitEntry" where
  "monit_line l = (let g = (\<lambda>i. if i < length (words l) then words l ! i else []) in
     EvntMonitEntry_new (g 0) (atoi (c_str (g 1))) (atoi (c_str (g 2))) (atoi (c_str (g 3))) (map g [4..<11]))"

definition LoadEventMonitList :: "'w shell \<Rightarrow> string \<Rightarrow> 'w \<Rightarrow> EvntMonitEntry list \<Rightarrow> RPC_SRV_RESULT \<times> EvntMonitEntry list" where
  "LoadEventMonitList sh listFile w es = (if listFile = [] then (RPC_SRV_RESULT_FAIL, es)
     else (RPC_SRV_RESULT_SUCCESS, es @ (case sh_read sh listFile w of None \<Rightarrow> [] | Some t \<Rightarrow> map monit_line (file_lines t))))"

text \<open>Each entry is copied, and the copy gets the token and the state: the list stays as it is.\<close>

fun subscribe_entries :: "'w xmpp_env \<Rightarrow> EvntMonitEntry list \<Rightarrow> 'w \<Rightarrow> 'w kres" where
  "subscribe_entries env [] w = kret w"
| "subscribe_entries env (e # es) w =
     kbind (if \<not> subscription_sts e then SUBSCRIBE_EVENT env (mo_ip e) (mo_port e) (-1) (mo_srvToken e) (mo_evntType e) 40001 w
       else kret (mo_subscription e, w)) (\<lambda>(_, w). subscribe_entries env es w)"

definition SubscribeEvents :: "'w xmpp_env \<Rightarrow> EvntMonitEntry list \<Rightarrow> 'w \<Rightarrow> (RPC_SRV_RESULT \<times> EvntMonitEntry list \<times> 'w) kres" where
  "SubscribeEvents env es w = kbind (subscribe_entries env es w) (\<lambda>w. kret (RPC_SRV_RESULT_SUCCESS, es, w))"

fun unsubscribe_entries :: "'w xmpp_env \<Rightarrow> EvntMonitEntry list \<Rightarrow> 'w \<Rightarrow> 'w kres" where
  "unsubscribe_entries env [] w = kret w"
| "unsubscribe_entries env (e # es) w =
     kbind (if subscription_sts e then UNSUBSCRIBE_EVENT env (mo_ip e) (mo_port e) (mo_subscription e) w else kret w) (unsubscribe_entries env es)"

definition UnSubscribeEvents :: "'w xmpp_env \<Rightarrow> EvntMonitEntry list \<Rightarrow> 'w \<Rightarrow> (RPC_SRV_RESULT \<times> EvntMonitEntry list \<times> 'w) kres" where
  "UnSubscribeEvents env es w = kbind (unsubscribe_entries env es w) (\<lambda>w. kret (RPC_SRV_RESULT_SUCCESS, es, w))"

definition monitor_ReSubscribeEvents :: "'w xmpp_env \<Rightarrow> EvntMonitEntry list \<Rightarrow> 'w \<Rightarrow> (RPC_SRV_RESULT \<times> EvntMonitEntry list \<times> 'w) kres" where
  "monitor_ReSubscribeEvents = SubscribeEvents"

definition EventMonitor_new :: "'w xmpp_env \<Rightarrow> 'w shell \<Rightarrow> string \<Rightarrow> 'w \<Rightarrow> (EvntMonitEntry list \<times> 'w) kres" where
  "EventMonitor_new env sh cfg w = (if cfg = [] then kret ([], w)
     else kbind (SubscribeEvents env (snd (LoadEventMonitList sh cfg w [])) w) (\<lambda>(_, es, w). kret (es, w)))"

definition EventMonitor_delete :: "'w xmpp_env \<Rightarrow> string \<Rightarrow> EvntMonitEntry list \<Rightarrow> 'w \<Rightarrow> 'w kres" where
  "EventMonitor_delete env cfg es w = (if cfg = [] then kret w else kbind (UnSubscribeEvents env es w) (\<lambda>(_, _, w). kret w))"

fun mark_shut_down :: "s32 \<Rightarrow> EvntMonitEntry list \<Rightarrow> EvntMonitEntry list" where
  "mark_shut_down tok [] = []"
| "mark_shut_down tok (e # es) = (if FindMonitEntry tok e then e\<lparr>subscription_sts := False\<rparr> # es else e # mark_shut_down tok es)"

text \<open>Only the upper end of the number of the event is checked before the name is read.\<close>

definition EventMonitor_ReceiveEvent :: "string \<Rightarrow> s32 \<Rightarrow> s32 \<Rightarrow> EvntMonitEntry list \<Rightarrow> EvntMonitEntry list kres" where
  "EventMonitor_ReceiveEvent cfg myToken evntNum es =
     (if cfg = [] then kret es
      else case find (FindMonitEntry myToken) es of None \<Rightarrow> kret es
      | Some e \<Rightarrow>
          if sint evntNum < 0 then kfail BadDeref
          else kret (if evntNum = 1 then mark_shut_down myToken es else es))"

section \<open>The receivers of the service\<close>

text \<open>The receiver that \<open>main\<close> creates: the monitor when there is a configuration, and the handler otherwise.\<close>

datatype sys_receiver = Default EventHandler | Custom "EvntMonitEntry list"

definition create_receiver :: "'w xmpp_env \<Rightarrow> 'w shell \<Rightarrow> string \<Rightarrow> 'w \<Rightarrow> (sys_receiver \<times> 'w) kres" where
  "create_receiver env sh cfg w =
     (if cfg = [] then kbind (EventHandler_new env w) (\<lambda>(h, w). kret (Default h, w)) else kbind (EventMonitor_new env sh cfg w) (\<lambda>(es, w). kret (Custom es, w)))"

definition receive_sys :: "string \<Rightarrow> s32 \<Rightarrow> s32 \<Rightarrow> sys_receiver \<Rightarrow> sys_receiver kres" where
  "receive_sys cfg tok n r = (case r of Default h \<Rightarrow> kret (Default (EventHandler_ReceiveEvent tok n h))
     | Custom es \<Rightarrow> kbind (EventMonitor_ReceiveEvent cfg tok n es) (\<lambda>es. kret (Custom es)))"

definition delete_receiver :: "'w xmpp_env \<Rightarrow> string \<Rightarrow> sys_receiver \<Rightarrow> 'w \<Rightarrow> 'w kres" where
  "delete_receiver env cfg r w = (case r of Default h \<Rightarrow> EventHandler_delete env h w | Custom es \<Rightarrow> EventMonitor_delete env cfg es w)"

section \<open>Properties\<close>

text \<open>What happens to the monitor: events arrive, and the call \<open>re_subscribe_events\<close> is served; the world may change in between.\<close>

inductive monitor_run :: "'w xmpp_env \<Rightarrow> string \<Rightarrow> EvntMonitEntry list \<Rightarrow> EvntMonitEntry list \<Rightarrow> bool" for env cfg es0 where
  start: "monitor_run env cfg es0 es0"
| event: "\<lbrakk>monitor_run env cfg es0 es; EventMonitor_ReceiveEvent cfg tok n es = kret es'\<rbrakk> \<Longrightarrow> monitor_run env cfg es0 es'"
| again: "\<lbrakk>monitor_run env cfg es0 es; monitor_ReSubscribeEvents env es w = kret (res, es', w')\<rbrakk> \<Longrightarrow> monitor_run env cfg es0 es'"

abbreviation none_active :: "EvntMonitEntry list \<Rightarrow> bool" where
  "none_active \<equiv> list_all (\<lambda>e. \<not> subscription_sts e)"

lemma monit_line_inactive [simp]: "\<not> subscription_sts (monit_line l)"
  by (simp add: monit_line_def EvntMonitEntry_new_def)

lemma none_active_loaded: "none_active (snd (LoadEventMonitList sh cfg w []))"
  by (auto simp: LoadEventMonitList_def list_all_iff split: option.split)

lemma none_active_marked: "none_active es \<Longrightarrow> none_active (mark_shut_down tok es)"
  by (induction es) auto

lemma SubscribeEvents_same: "SubscribeEvents env es w = kret (res, es', w') \<Longrightarrow> es' = es"
  by (auto simp: SubscribeEvents_def kbind_eq_kret)

lemma none_active_start: "EventMonitor_new env sh cfg w = kret (es, w') \<Longrightarrow> none_active es"
  using none_active_loaded [of sh cfg w]
  by (auto simp: EventMonitor_new_def kbind_eq_kret split: if_splits dest!: SubscribeEvents_same)

lemma none_active_run: "monitor_run env cfg es0 es \<Longrightarrow> none_active es0 \<Longrightarrow> none_active es"
proof (induction rule: monitor_run.induct)
  case (event es tok n es')
  then show ?case using none_active_marked [of es tok] by (auto simp: EventMonitor_ReceiveEvent_def split: if_splits option.splits)
next
  case (again es w res es' w')
  then show ?case using SubscribeEvents_same [of env es w res es' w'] by (simp add: monitor_ReSubscribeEvents_def)
qed simp

text \<open>
  Fact: the event monitor forgets its subscriptions. Whatever events have arrived and however often \<open>re_subscribe_events\<close> was called, no
  entry counts as subscribed: the next call subscribes them all once more, and deleting the monitor unsubscribes none.
\<close>

theorem monitor_forgets:
  assumes "EventMonitor_new env sh cfg w = kret (es0, w0)" and "monitor_run env cfg es0 es"
  shows "(\<forall>e \<in> set es. \<not> subscription_sts e) \<and> EventMonitor_delete env cfg es w' = kret w'"
proof -
  have n: "none_active es" using none_active_run [OF assms(2) none_active_start [OF assms(1)]] .
  then have "unsubscribe_entries env es w' = kret w'" by (induction es) auto
  then show ?thesis using n by (simp add: EventMonitor_delete_def UnSubscribeEvents_def list_all_iff)
qed

end
