(* ===== verification/Spec2Isabelle.thy ===== *)
theory Spec2Isabelle
  imports Sl_Chain Chain_Threads Genintrdrv Mkimage_Proofs Mkimage_Multi Eeprog Devantech_Iss I2c_Tiny_Usb
    Attiny_Hid Attiny_Rotary Settings_Proofs Ad_Chain Task_Worker Llctl Usb_Relay
    Json_Rpc_Proofs Runtime_Counter Event_Proofs Result_Strings Xmpp_Proxy_Proofs Xmpp_Files Xmpp_Rpc Sms_Proofs Sys_Proofs Sys_Events
begin

text \<open>
  \<^bold>\<open>Verification of brbox.\<close>

  brbox is a Linux image for small boards with its own kernel modules, firmware, tools and services.
  This development models the C and C++ code that carries logic of its own:

  \<^item> the kernel modules under \<open>src/sources/kmods\<close>: the generic interrupt driver \<open>genintrdrv\<close> with its
    linked lists \<open>chain.c\<close> and \<open>sl_chain.c\<close>, the SMBus chip emulator \<open>i2c-stub\<close>, and the two USB to
    I2C adapters \<open>usb-iss\<close> and \<open>i2c-tiny-usb\<close>;
  \<^item> the tools under \<open>src/sources/utils\<close>: the update image tool \<open>brbox-mkimage\<close>, the EEPROM
    programmer \<open>eeprog-0.7.6\<close>, the LED tool \<open>lan9512-blink\<close> and the relay tool \<open>usb-relay-ctl\<close>;
  \<^item> the firmware under \<open>src/sources/firmware\<close>: the keyboard \<open>attiny85-hid\<close> and the volume knob
    \<open>attiny85-hid-rotary\<close>;
  \<^item> the libraries under \<open>src/sources/lib\<close> that the services are built on: the settings files of
    \<open>lib-settings\<close>; of \<open>lib-adav\<close> the chain class; and of \<open>lib-adav-old\<close>, the later form of that library
    which the services are linked with, the result codes, the task worker with its thread, the event
    manager and notifier, the JSON checker, the TCP server, the JSON-RPC server with its mapper, the RPC
    manager, the JSON-RPC client, and the counter of running minutes;
  \<^item> of the services under \<open>src/sources/services\<close> the GPIO service \<open>gpioctl\<close>, the XMPP service \<open>xmproxy\<close>, the
    short message service \<open>bboxsms\<close> and the system manager \<open>sysmgr\<close> with the class \<open>ADSysInfo\<close> of \<open>lib-adav-old\<close>.

  The interrupt driver keeps its subscribers and interrupt numbers in chains and sends signals to the
  subscribers of an interrupt. The image tool puts files with checksummed headers into one update
  image and takes them out again. The EEPROM programmer talks to a chip over SMBus transfers, which an
  adapter driver carries out; the chip emulator is such an adapter. A service takes requests from TCP connections, checks
  and parses them, keeps them in chains, runs their methods in a thread of its own, and sends the answers. The
  RPC manager answers the calls that all services share and hands the others to the objects of the service; it
  hands long tasks to a task worker and reports result codes by name. A service reports changes to the event
  notifier, which calls the service itself as a client; the event manager then tells the subscribers. The XMPP service
  is the chat client of the box: messages of its buddies are commands, which it carries out as a client of the other services, and it
  tells the sender when a task that a command started has ended. The short message service talks to a modem in tasks and keeps the list of its messages. The settings of a service live in a hash table per section and are saved as text.

  \<^bold>\<open>Conventions.\<close> Machine integers are words of their width (\<open>u8\<close>, \<open>u16\<close>, \<open>u32\<close>, and \<open>s32\<close> read
  with \<open>sint\<close>). A call returns a \<open>kres\<close>: it may hang (\<open>khang\<close>), fault (\<open>kfail\<close> with a bad
  dereference, a bad free, a buffer overrun or a division by zero) or return (\<open>kret\<close>). Return codes are the integers of
  the source, errors of the kernel being negative. Loops over linked structures that need not end are
  \<open>partial_function\<close>s, and the theorems show that they return; all other loops are recursive
  functions with a termination proof, so no fuel is used. Functions of the kernel, of the C library
  on devices, and of the V-USB library are arguments: the answers of \<open>kmalloc\<close> and \<open>malloc\<close>, the results of
  \<open>i2c_add_adapter\<close>, a USB exchange, the measurement of a frame length.

  \<^bold>\<open>Theories.\<close>

  \<^item> \<open>Prelude\<close>: word types, the result type \<open>kres\<close> with its rules, big-endian words, slices of byte
    lists. \<open>C_Strings\<close>: the number formats and scanners of the C library that the sources call.
  \<^item> \<open>Holder_Heap\<close>, \<open>Queue_Interface\<close>, \<open>Chain\<close>, \<open>Sl_Chain\<close>, \<open>Chain_Threads\<close>: the doubly linked chains
    over an explicit heap of \<open>struct chain_holder\<close> with allocation and freeing. \<open>chain_rep\<close> relates a
    chain in the heap to a list of payloads, and every operation of \<open>chain.c\<close> is shown to act on that
    list and to leave the rest of the heap alone. The locale \<open>kernel_queue\<close> states what a client needs
    of a queue; both kinds of chain are interpretations of it. The spinlock chain is shown to be the
    semaphore chain under the lock abstraction \<open>sem_of\<close>. \<open>Chain_Threads\<close> interleaves the calls of
    several threads at the semaphore and proves by rule induction that they exclude each other and have the effect of the whole calls
    one after the other; the reads without the semaphore and \<open>chain_release\<close> are not interleaved.
  \<^item> \<open>Genintrdrv\<close>: the driver \<open>genintrdrv.c\<close> with its sysfs attributes, the interrupt handler, the
    tasklet and the module entry points. Delivery is exact, subscriptions are unique, what is
    subscribed is listed, and the interrupt list of the module parameter is parsed without duplicates.
  \<^item> \<open>Crc32\<close>: \<open>crc32.c\<close>; the table is the generated one, the unrolled loop is the bitwise shift
    register, and every change within four consecutive bytes is detected.
  \<^item> \<open>Image_Header\<close>, \<open>Mkimage_Files\<close>, \<open>Mkimage\<close>, \<open>Mkimage_Proofs\<close>, \<open>Mkimage_Multi\<close>: \<open>mkimage.c\<close> over a
    file system of byte lists: tables and header, copying and comparing files, option parsing,
    creating and listing images, and the parts of multi-file images. The size \<open>lw\<close> of the host's
    \<open>long\<close> is an argument because the length table depends on it. Created images pass the checks,
    changed ones do not, and extraction returns the parts where \<open>long\<close> has four bytes.
  \<^item> \<open>Smbus_Interface\<close>, \<open>I2c_Stub\<close>, \<open>Eeprog\<close>: the locale \<open>smbus_memory\<close> is the contract of a memory
    chip behind SMBus transfers; \<open>i2c-stub.c\<close> is an interpretation of it, and the client lemmas of the
    EEPROM programmer (\<open>24cXX.c\<close>, \<open>eeprog.c\<close>) are proved in the locale.
  \<^item> \<open>I2c_Msg\<close>, \<open>Devantech_Iss\<close>, \<open>I2c_Tiny_Usb\<close>: the I2C messages and the two adapter drivers. The
    command sequence of the first is related to the events it causes on the bus, the requests of the
    second to the sequence the messages prescribe; probe and disconnect are balanced.
  \<^item> \<open>Oscillator\<close>, \<open>Attiny_Hid\<close>, \<open>Attiny_Rotary\<close>: the firmware. The calibration finds the best register
    value, every report of the keyboard shows the debounced buttons (an invariant over the states its
    main loop reaches), and the knob sends one key for each detent and each press.
  \<^item> \<open>C_Alloc\<close>, \<open>Strmap\<close>, \<open>Settings\<close>, \<open>Settings_Proofs\<close>: the allocator as a sequence of answers with
    a count of live blocks, the hash table \<open>strmap.cpp\<close> and the settings \<open>settings.cpp\<close> on top of it.
    The locale \<open>string_map\<close> is the contract of a map from strings to strings, and the hash table an
    interpretation of it. Settings that are saved and opened again are the same, opening any text is
    safe, and the blocks are accounted for.
  \<^item> \<open>Ad_Chain\<close>: the chain class \<open>ADGenericChain.cpp\<close> on the heap of the kernel chains, another
    interpretation of \<open>kernel_queue\<close>, with its callbacks and the removal that reads before it locks.
  \<^item> \<open>Rpc_Result\<close>, \<open>Task_Worker\<close>: the result codes, and \<open>ADTaskWorker.cpp\<close> as functions and as a step
    relation of callers, the worker thread and pollers. For one caller an invariant over all reachable
    states gives the answer to every poll; for two callers an execution loses a result.
  \<^item> \<open>Json_Checker\<close>, \<open>Json_Grammar\<close>, \<open>Json_Accepts\<close>: the pushdown automaton \<open>ADJsonChecker.cpp\<close> with its
    tables, a grammar of JSON texts of bounded depth as the reference, and the proof that the automaton
    accepts the texts of the grammar and no others. The automaton is related to a machine on a list of modes,
    which is related to the grammar in both directions.
  \<^item> \<open>Net_Server\<close>, \<open>Net_Proofs\<close>: \<open>ADNetServer.cpp\<close>, its listening thread over any sequence of returns of
    \<open>select\<close>, \<open>accept\<close> and \<open>recv\<close>, the framing of requests, the list of clients and the response thread. The
    descriptor set is exact at every return of \<open>select\<close> for reports that the sets and buffers have room for, and requests that arrive together are
    separated, unless one has a closing brace right before an opening one.
  \<^item> \<open>Json_Rpc\<close>, \<open>Json_Rpc_Proofs\<close>: \<open>ADJsonRpcProxy.cpp\<close> and \<open>ADJsonRpcMapper.cpp\<close> on top of the checker and
    the TCP server, as functions and as a step relation of the three threads. The JSON library is a parameter;
    its reference counts are not modelled. Every request that is taken is answered once, with its identifier
    and on its socket, and pipelined requests reach the mapper in order.
  \<^item> \<open>Runtime_Counter\<close>: \<open>ADRuntimeMinCounter.cpp\<close>; the minutes counted are bounded on both sides by the time
    that passed.
  \<^item> \<open>Event_Mgr\<close>, \<open>Event_Proofs\<close>: \<open>ADEvntMgr.cpp\<close>, with the subscriptions as entries of a heap so that the
    use of a deleted one is a fault. A run of the notify thread is shown to refine \<open>deliver_all\<close>, a function on
    the list of subscriptions, over all sequences of operations (\<open>ev_reach\<close>); two threads that interleave
    can mark a subscription that is not meant.
  \<^item> \<open>Rpc_Mgr\<close>, \<open>Rpc_Mgr_Proofs\<close>: \<open>ADJsonRpcMgr.cpp\<close> with the macros of \<open>ADCommon.hpp\<close>: the 24 common calls,
    from JSON to packets and back, their work, attached objects, tasks. The locale \<open>rpc_call\<close> states what the three
    functions of one call owe the manager (the packet is made, used and deleted), \<open>rpc_service\<close> what the attached
    objects of a service owe it; the common calls are a \<open>sublocale\<close> of the first, and for every service
    that meets the contract the objects are accounted for in all sequences of calls and rounds (\<open>srv_reach\<close>). These results are about calls whose
    parameters are all shorter than 255 characters (\<open>params_fit\<close>); longer ones overrun the array they are copied to.
  \<^item> \<open>Event_Notifier\<close>, \<open>Gpioctl\<close>: \<open>ADEvntNotifier.cpp\<close> and the GPIO service with its registers, an
    interpretation of \<open>rpc_service\<close>. Pins hold the last value written and events follow the changes.
  \<^item> \<open>Json_Client\<close>, \<open>Client_Server\<close>, \<open>Result_Strings\<close>: \<open>ADJsonRpcClient.cpp\<close> with \<open>ADNetClient.cpp\<close>, and the client and
    a service together. The functions of the client differ in number and types of their values; each has its definition
    over shared ones. \<open>service_turn\<close> composes the threads of a service in the order in which one request passes
    them. A client reads back what it has set, the notifier reaches the event manager, and answers with
    several values are taken apart as they were put together. What is assumed of the JSON library is \<open>reads\<close> and
    \<open>prints\<close>: members of objects are found by name, and a value that is printed parses to itself.
  \<^item> \<open>Cpp_Strings\<close>: words and lines of string streams, and \<open>std::map\<close> as a sorted list. \<open>Sonoff_Client\<close>: the client
    \<open>ADSonOffHttpClient.cpp\<close> of a network relay.
  \<^item> \<open>Xmpp_Proxy\<close>, \<open>Xmpp_Proxy_Proofs\<close>: \<open>ADXmppProxy.cpp\<close>, the connection to the chat server. The chat library is not under
    \<open>src/\<close>: its roster is an argument and what it is asked to send a list of stanzas. \<open>xmpp_step\<close> has a step for every call of the
    library and of the service; in all states it reaches the client object and the pings are consistent. Sessions outlive their client
    object: to send through one whose client was deleted (\<open>stale_session\<close>) is a fault of the model, and it is the only one of sending.
  \<^item> \<open>Xmpp_State\<close>, \<open>Xmpp_Commands\<close>, \<open>Xmpp_Mgr\<close>: \<open>XmppMgr.cpp\<close> and \<open>EvntHandler.cpp\<close>, with the table of the commands, the aliases,
    event subscriptions and account in their files, every command, the thread that runs them and the end of tasks. The commands use the modelled
    JSON-RPC client; sockets, the lookup of host names and which files can be written are the record \<open>xmpp_env\<close>.
  \<^item> \<open>Xmpp_Files\<close>, \<open>Xmpp_Proofs\<close>: aliases and subscriptions are the same after a restart; every command is answered once and to its sender,
    strangers only get a session and admin commands are refused, the queue of the commands is never left without a wakeup and
    is emptied when no other service can be reached; the end of a task is reported under its number, whatever tasks and events come before it. Where
    something is sent, the session with the addressee must be one of the client that is there.
  \<^item> \<open>Xmpp_Rpc\<close>: \<open>XmppRpc.cpp\<close>, the calls of the XMPP service, as interpretations of \<open>rpc_call\<close>: all but one return and free
    what they allocate.
  \<^item> \<open>Sms_Mgr\<close>, \<open>Sms_Rpc\<close>, \<open>Sms_Proofs\<close>: \<open>SmsMgr.cpp\<close> and \<open>SmsRpc.cpp\<close>, the short message service with its eleven calls and six tasks. The
    modem library is not under \<open>src/\<close>: it is the record \<open>gsm_lib\<close> of functions on a phone of any type. Under \<open>gsm_ok\<close> (decoded texts fit their arrays,
    and the listing of messages ends) the service meets the contract \<open>rpc_service\<close>, so that its calls and tasks return and its objects
    are accounted for; a list that was read gives the messages as delivered; a corrupted first message makes the deletion endless, and
    failed exchanges leak.
  \<^item> \<open>Sys_Info\<close>, \<open>Sysmgr\<close>, \<open>Sys_Rpc\<close>, \<open>Sys_Calls\<close>, \<open>Sys_Contract\<close>, \<open>Sys_Proofs\<close>: \<open>ADSysInfo.cpp\<close> and the system manager, with \<open>LogHandler.cpp\<close>, the classes
    \<open>NetRpc\<close>, \<open>DispCtrlRpc\<close>, \<open>CmnRpc\<close> and \<open>SysRpc\<close>, and the objects that \<open>main\<close> attaches. The shell, the files and the kernel's answers on the interfaces are the
    record \<open>shell\<close>; the display, the identification of the device and the event monitor are functions on the same world. Under \<open>shell_ok\<close> each of the 35
    calls meets the contract \<open>rpc_call\<close>; the contract \<open>rpc_service\<close> does not hold, because a download may overrun the array of its command. The log lines
    and the name of the host are handed out as they were stored; a download is followed from its call to the command line of its task or its overrun; the version of the backup stays the old one after an update.
  \<^item> \<open>Sys_Events\<close>: the event handler and the event monitor of the system manager, the blinking of the boards and the display of a small device; the
    monitor forgets its subscriptions.
  \<^item> \<open>Llctl\<close>, \<open>Usb_Relay\<close>: the LED tool, whose register arithmetic is related to the state of each LED,
    and the relay tool.

  \<^bold>\<open>Not modelled.\<close> Messages on the console and in the kernel log; delays; start-up of the hardware;
  reference counts of JSON objects; the reassembly of segmented requests, whose only call is commented out;
  the other services (\<open>dispsrv\<close>, \<open>i2csrv\<close> and smaller ones), and the timer, thread and serial classes of \<open>lib-adav-old\<close>; the chat client of the other build option
  (\<open>CXmppProxy.cpp\<close>), the language model of the option \<open>USE_AI_BOT\<close>, and the command line of the services; vendored libraries, the vendored Ethernet driver, display and playback programs, scripts and data.
\<close>

end
